(* ===== verification/Prelude.thy ===== *)
theory Prelude
  imports Main "HOL-Library.Char_ord" "HOL-Library.List_Lexorder"
begin

text \<open>
  What every theory of the development shares: the result monad in which a Python
  exception is an \<^theory_text>\<open>Inl\<close> value, its rewrite rules, loops that stop at the first
  exception, and the string operations of Python that the sources use.

  A Python \<open>str\<close> is a HOL \<^typ>\<open>string\<close>: a list of characters, one per code point,
  restricted to the code points below 256 (Latin-1). \<open>len\<close>, slicing, \<open>strip\<close>, \<open>lower\<close>
  and comparison are per code point, as in Python; bytes appear only where the code
  encodes (see \<open>Sha256\<close>). The lexicographic order on strings that \<open>sorted\<close> uses is the
  library's order on lists of characters.
\<close>

named_theorems res_simps \<open>rewrite rules of the result monad\<close>
named_theorems py_simps \<open>definitions that unfold when a Python primitive is evaluated\<close>

section \<open>The result monad\<close>

definition bind_r :: "'e + 'a \<Rightarrow> ('a \<Rightarrow> 'e + 'b) \<Rightarrow> 'e + 'b" where
  "bind_r m f = (case m of Inl e \<Rightarrow> Inl e | Inr x \<Rightarrow> f x)"

text \<open>\<open>check_r c e\<close> is \<open>if not c: raise e\<close>.\<close>

definition check_r :: "bool \<Rightarrow> 'e \<Rightarrow> 'e + unit" where
  "check_r c e = (if c then Inr () else Inl e)"

text \<open>\<open>catch_r m h\<close> is \<open>try: m except e: h(e)\<close>; a handler re-raises with \<^term>\<open>Inl\<close>.\<close>

definition catch_r :: "'e + 'a \<Rightarrow> ('e \<Rightarrow> 'f + 'a) \<Rightarrow> 'f + 'a" where
  "catch_r m h = (case m of Inl e \<Rightarrow> h e | Inr x \<Rightarrow> Inr x)"

text \<open>\<open>each_r f xs\<close> is \<open>for x in xs: f(x)\<close>, \<open>map_r f xs\<close> collects the results.\<close>

fun each_r :: "('a \<Rightarrow> 'e + unit) \<Rightarrow> 'a list \<Rightarrow> 'e + unit" where
  "each_r f [] = Inr ()"
| "each_r f (x # xs) = bind_r (f x) (\<lambda>_. each_r f xs)"

fun map_r :: "('a \<Rightarrow> 'e + 'b) \<Rightarrow> 'a list \<Rightarrow> 'e + 'b list" where
  "map_r f [] = Inr []"
| "map_r f (x # xs) = bind_r (f x) (\<lambda>y. bind_r (map_r f xs) (\<lambda>ys. Inr (y # ys)))"

lemma bind_r_simps [simp]:
  "bind_r (Inl e) f = Inl e"
  "bind_r (Inr x) f = f x"
  by (simp_all add: bind_r_def)

lemma bind_r_eq_Inr [res_simps]: "bind_r m f = Inr y \<longleftrightarrow> (\<exists>x. m = Inr x \<and> f x = Inr y)"
  by (cases m) simp_all

lemma bind_r_eq_Inl: "bind_r m f = Inl e \<longleftrightarrow> m = Inl e \<or> (\<exists>x. m = Inr x \<and> f x = Inl e)"
  by (cases m) simp_all

lemma bind_r_assoc: "bind_r (bind_r m f) g = bind_r m (\<lambda>x. bind_r (f x) g)"
  by (cases m) simp_all

lemma bind_r_cong [fundef_cong]:
  "m = m' \<Longrightarrow> (\<And>x. m' = Inr x \<Longrightarrow> f x = f' x) \<Longrightarrow> bind_r m f = bind_r m' f'"
  by (cases m') simp_all

lemma check_r_simps [simp]:
  "check_r True e = Inr ()"
  "check_r False e = Inl e"
  by (simp_all add: check_r_def)

lemma check_r_eq [res_simps]:
  "check_r c e = Inr u \<longleftrightarrow> c"
  "check_r c e = Inl e' \<longleftrightarrow> \<not> c \<and> e' = e"
  by (auto simp: check_r_def)

lemma catch_r_simps [simp]:
  "catch_r (Inl e) h = h e"
  "catch_r (Inr x) h = Inr x"
  by (simp_all add: catch_r_def)

lemma catch_r_eq_Inr [res_simps]:
  "catch_r m h = Inr x \<longleftrightarrow> m = Inr x \<or> (\<exists>e. m = Inl e \<and> h e = Inr x)"
  by (cases m) auto

lemma catch_r_Inl_eq_Inr [res_simps]:
  "catch_r m (\<lambda>e. Inl (h e)) = Inr x \<longleftrightarrow> m = Inr x"
  by (cases m) simp_all

lemma if_Inl_eq_Inr [res_simps]:
  "(if c then Inl e else m) = Inr y \<longleftrightarrow> \<not> c \<and> m = Inr y"
  "(if c then m else Inl e) = Inr y \<longleftrightarrow> c \<and> m = Inr y"
  by simp_all

lemma each_r_eq_Inr [res_simps]: "each_r f xs = Inr u \<longleftrightarrow> (\<forall>x \<in> set xs. f x = Inr ())"
  by (induction xs) (auto simp: bind_r_eq_Inr)

lemma map_r_eq_Inr: "map_r f xs = Inr ys \<longleftrightarrow> list_all2 (\<lambda>x y. f x = Inr y) xs ys"
  by (induction xs arbitrary: ys) (auto simp: bind_r_eq_Inr list_all2_Cons1)

lemma map_r_length: "map_r f xs = Inr ys \<Longrightarrow> length ys = length xs"
  by (auto simp: map_r_eq_Inr dest: list_all2_lengthD)

lemma map_r_set: "map_r f xs = Inr ys \<Longrightarrow> y \<in> set ys \<Longrightarrow> \<exists>x \<in> set xs. f x = Inr y"
  by (fastforce simp: map_r_eq_Inr in_set_conv_nth list_all2_conv_all_nth)

text \<open>\<open>raises_only P m\<close>: when \<open>m\<close> raises, the exception satisfies \<open>P\<close>.\<close>

definition raises_only :: "('e \<Rightarrow> bool) \<Rightarrow> 'e + 'a \<Rightarrow> bool" where
  "raises_only P m \<longleftrightarrow> (\<forall>e. m = Inl e \<longrightarrow> P e)"

named_theorems raises_intros \<open>introduction rules for the exceptions a computation may raise\<close>

lemma raises_only_Inr [raises_intros]: "raises_only P (Inr x)"
  by (simp add: raises_only_def)

lemma raises_only_Inl: "P e \<Longrightarrow> raises_only P (Inl e)"
  by (simp add: raises_only_def)

lemma raises_only_bind [raises_intros]:
  "raises_only P m \<Longrightarrow> (\<And>x. m = Inr x \<Longrightarrow> raises_only P (f x)) \<Longrightarrow> raises_only P (bind_r m f)"
  by (auto simp: raises_only_def bind_r_eq_Inl)

lemma raises_only_if [raises_intros]:
  "(c \<Longrightarrow> raises_only P m) \<Longrightarrow> (\<not> c \<Longrightarrow> raises_only P n) \<Longrightarrow> raises_only P (if c then m else n)"
  by simp

lemma raises_only_prod [raises_intros]:
  "(\<And>a b. p = (a, b) \<Longrightarrow> raises_only P (f a b)) \<Longrightarrow> raises_only P (case p of (a, b) \<Rightarrow> f a b)"
  by (cases p) simp

lemma raises_only_check [raises_intros]: "P e \<Longrightarrow> raises_only P (check_r c e)"
  by (simp add: raises_only_def check_r_def)

lemma raises_only_each [raises_intros]:
  "(\<And>x. x \<in> set xs \<Longrightarrow> raises_only P (f x)) \<Longrightarrow> raises_only P (each_r f xs)"
  by (induction xs) (auto intro!: raises_intros)

section \<open>Lists\<close>

lemma find_SomeD: "List.find P xs = Some x \<Longrightarrow> x \<in> set xs \<and> P x"
  by (induction xs) (auto split: if_splits)

text \<open>Python's \<open>sep.join(parts)\<close>.\<close>

fun join_str :: "string \<Rightarrow> string list \<Rightarrow> string" where
  "join_str sep [] = []"
| "join_str sep [x] = x"
| "join_str sep (x # y # zs) = x @ sep @ join_str sep (y # zs)"

lemma join_str_Cons: "zs \<noteq> [] \<Longrightarrow> join_str sep (x # zs) = x @ sep @ join_str sep zs"
  by (cases zs) simp_all

text \<open>Splitting a joined string at a separator character that occurs in no part.\<close>

lemma join_str_sep_inj:
  assumes "join_str [c] xs = join_str [c] ys" "xs \<noteq> []" "ys \<noteq> []"
    and "\<And>x. x \<in> set xs \<Longrightarrow> c \<notin> set x" "\<And>y. y \<in> set ys \<Longrightarrow> c \<notin> set y"
  shows "xs = ys"
  using assms
proof (induction xs arbitrary: ys)
  case Nil
  then show ?case by simp
next
  case (Cons x xs)
  obtain y ys' where ys: "ys = y # ys'" using Cons.prems(3) by (cases ys) auto
  have cx: "c \<notin> set x" and cy: "c \<notin> set y" using Cons.prems(4,5) ys by auto
  have aux: "a = b \<and> p = q" if "a @ c # p = b @ c # q" "c \<notin> set a" "c \<notin> set b" for a b p q
  proof -
    have tw: "takeWhile (\<lambda>z. z \<noteq> c) (u @ c # v) = u" if "c \<notin> set u" for u v
      using that by (induction u) auto
    have "a = b" using tw[OF that(2), of p] tw[OF that(3), of q] that(1) by simp
    then show ?thesis using that(1) by simp
  qed
  have no: "a @ c # p \<noteq> b" if "c \<notin> set b" for a b p using that by auto
  show ?case
  proof (cases "xs = []"; cases "ys' = []")
    assume "xs = []" "ys' = []"
    then show ?thesis using Cons.prems(1) ys by simp
  next
    assume "xs = []" "ys' \<noteq> []"
    then show ?thesis using Cons.prems(1) ys no[OF cx] by (simp add: join_str_Cons) metis
  next
    assume "xs \<noteq> []" "ys' = []"
    then show ?thesis using Cons.prems(1) ys no[OF cy] by (simp add: join_str_Cons) 
  next
    assume ne: "xs \<noteq> []" "ys' \<noteq> []"
    then have "x @ c # join_str [c] xs = y @ c # join_str [c] ys'"
      using Cons.prems(1) ys by (simp add: join_str_Cons)
    then have "x = y" "join_str [c] xs = join_str [c] ys'" using aux cx cy by blast+
    then show ?thesis using Cons.IH[of ys'] ne Cons.prems(4,5) ys by simp
  qed
qed

section \<open>Python strings\<close>

text \<open>\<open>str.isspace\<close> on Latin-1 code points, and \<open>str.strip()\<close>.\<close>

definition py_isspace :: "char \<Rightarrow> bool" where
  "py_isspace c \<longleftrightarrow> (let n = (of_char c :: nat)
     in 9 \<le> n \<and> n \<le> 13 \<or> 28 \<le> n \<and> n \<le> 32 \<or> n = 133 \<or> n = 160)"

definition py_strip :: "string \<Rightarrow> string" where
  "py_strip s = rev (dropWhile py_isspace (rev (dropWhile py_isspace s)))"

text \<open>\<open>not s.strip()\<close>: the string is empty or only white space.\<close>

definition py_blank :: "string \<Rightarrow> bool" where
  "py_blank s \<longleftrightarrow> list_all py_isspace s"

lemma py_strip_eq_Nil [simp]: "py_strip s = [] \<longleftrightarrow> py_blank s"
proof -
  have nh: "\<not> py_isspace (hd (dropWhile py_isspace s))" if "dropWhile py_isspace s \<noteq> []"
    using that by (rule hd_dropWhile)
  have "(\<forall>x \<in> set (dropWhile py_isspace s). py_isspace x) \<longleftrightarrow> dropWhile py_isspace s = []"
    using nh by (metis empty_iff empty_set hd_in_set)
  then show ?thesis by (simp add: py_strip_def py_blank_def list_all_iff)
qed

lemma py_blank_Nil [simp]: "py_blank []"
  by (simp add: py_blank_def)

lemma py_strip_Nil [simp]: "py_strip [] = []"
  by simp

lemma dropWhile_head_ok: "t = [] \<or> \<not> P (hd t) \<Longrightarrow> dropWhile P t = t"
  by (cases t) auto

lemma dropWhile_last: "dropWhile P t \<noteq> [] \<Longrightarrow> last (dropWhile P t) = last t"
  by (induction t) auto

lemma py_strip_idem [simp]: "py_strip (py_strip s) = py_strip s"
proof -
  let ?a = "dropWhile py_isspace s"
  let ?b = "dropWhile py_isspace (rev ?a)"
  have b: "?b = [] \<or> \<not> py_isspace (hd ?b)" using hd_dropWhile by blast
  have "rev ?b = [] \<or> \<not> py_isspace (hd (rev ?b))"
  proof (cases "?b = []")
    case False
    then have "hd (rev ?b) = hd ?a" using dropWhile_last[OF False] by (simp add: hd_rev last_rev)
    moreover have "?a \<noteq> []" using False by (metis dropWhile.simps(1) rev.simps(1))
    ultimately show ?thesis using hd_dropWhile[of py_isspace s] by simp
  qed simp
  then have "dropWhile py_isspace (rev ?b) = rev ?b" by (rule dropWhile_head_ok)
  then show ?thesis using dropWhile_head_ok[where P = py_isspace, OF b] by (simp add: py_strip_def)
qed

lemma py_blank_strip [simp]: "py_blank (py_strip s) \<longleftrightarrow> py_blank s"
  using py_strip_idem[of s] py_strip_eq_Nil by metis

text \<open>A name without white space at its ends, as every \<open>ReasonId\<close> value is.\<close>

lemma py_strip_id:
  assumes "list_all (\<lambda>c. \<not> py_isspace c) s"
  shows "py_strip s = s"
proof -
  have d: "dropWhile py_isspace t = t" if "list_all (\<lambda>c. \<not> py_isspace c) t" for t
    using that by (cases t) auto
  show ?thesis using assms d[of s] d[of "rev s"] by (simp add: py_strip_def list_all_iff)
qed

definition py_lower_char :: "char \<Rightarrow> char" where
  "py_lower_char c = (let n = (of_char c :: nat)
     in if 65 \<le> n \<and> n \<le> 90 \<or> 192 \<le> n \<and> n \<le> 222 \<and> n \<noteq> 215 then char_of (n + 32) else c)"

definition py_lower :: "string \<Rightarrow> string" where
  "py_lower s = map py_lower_char s"

definition is_hex_lower :: "char \<Rightarrow> bool" where
  "is_hex_lower c \<longleftrightarrow> c \<in> set ''0123456789abcdef''"

text \<open>The regular expression \<open>[0-9a-f]{64}\<close>, and the equivalent loops of the sources.\<close>

definition is_sha256_hex :: "string \<Rightarrow> bool" where
  "is_sha256_hex s \<longleftrightarrow> length s = 64 \<and> list_all is_hex_lower s"

text \<open>A control character: \<open>ord(ch) < 0x20 or ord(ch) == 0x7F\<close>.\<close>

definition is_control_char :: "char \<Rightarrow> bool" where
  "is_control_char c \<longleftrightarrow> (of_char c :: nat) < 32 \<or> (of_char c :: nat) = 127"

definition has_control_char :: "string \<Rightarrow> bool" where
  "has_control_char s \<longleftrightarrow> list_ex is_control_char s"

lemma has_control_char_newline: "\<not> has_control_char s \<Longrightarrow> CHR 0x0A \<notin> set s"
  by (auto simp: has_control_char_def is_control_char_def list_ex_iff)

text \<open>Decimal digits of an integer, as \<open>str(n)\<close>.\<close>

definition digit_char :: "nat \<Rightarrow> char" where
  "digit_char d = char_of (48 + d)"

fun show_nat :: "nat \<Rightarrow> string" where
  "show_nat n = (if n < 10 then [digit_char n] else show_nat (n div 10) @ [digit_char (n mod 10)])"

declare show_nat.simps [simp del]

definition show_int :: "int \<Rightarrow> string" where
  "show_int i = (if i < 0 then CHR ''-'' # show_nat (nat (- i)) else show_nat (nat i))"

text \<open>
  \<open>repr\<close> of a \<open>str\<close> and of a list of them, as they appear in error messages. Latin-1
  code points that are not printable are escaped as \<open>\xNN\<close>.
\<close>

definition hex_digit :: "nat \<Rightarrow> char" where
  "hex_digit d = (if d < 10 then char_of (48 + d) else char_of (87 + d))"

definition repr_char :: "char \<Rightarrow> char \<Rightarrow> string" where
  "repr_char q c = (let n = (of_char c :: nat) in
     if c = q \<or> n = 92 then [CHR 0x5C, c]
     else if n = 9 then [CHR 0x5C, CHR ''t'']
     else if n = 10 then [CHR 0x5C, CHR ''n'']
     else if n = 13 then [CHR 0x5C, CHR ''r'']
     else if n < 32 \<or> 127 \<le> n \<and> n \<le> 160 \<or> n = 173
       then [CHR 0x5C, CHR ''x'', hex_digit (n div 16), hex_digit (n mod 16)]
     else [c])"

definition repr_str :: "string \<Rightarrow> string" where
  "repr_str s = (let q = (if CHR 0x27 \<in> set s \<and> CHR 0x22 \<notin> set s then CHR 0x22 else CHR 0x27)
     in [q] @ concat (map (repr_char q) s) @ [q])"

definition repr_str_list :: "string list \<Rightarrow> string" where
  "repr_str_list xs = ''['' @ join_str '', '' (map repr_str xs) @ '']''"

text \<open>\<open>sorted(set(...))\<close> of strings.\<close>

definition sorted_strs :: "string list \<Rightarrow> string list" where
  "sorted_strs xs = sort (remdups xs)"

lemma set_sorted_strs [simp]: "set (sorted_strs xs) = set xs"
  by (simp add: sorted_strs_def)

lemma sorted_strs_sorted [simp]: "sorted (sorted_strs xs)" "distinct (sorted_strs xs)"
  by (simp_all add: sorted_strs_def)

end
