(* ===== verification/Py_Value.thy ===== *)
theory Py_Value
  imports Prelude
begin

text \<open>
  The values a payload is made of, as the sources see them after JSON decoding: \<open>None\<close>,
  booleans, unbounded integers, floats, strings, lists, tuples, sets and dictionaries.
  A dictionary is an association list in insertion order with string keys (every payload
  is annotated \<open>Mapping[str, Any]\<close>); \<open>dict_ok\<close> says that no key occurs twice, at any
  depth. A finite float is carried as its exact ratio and its \<open>repr\<close>. An instance of a
  \<open>(str, Enum)\<close> class is the string of its value, which it equals in Python.
  \<open>json.dumps\<close> raises \<open>ValueError\<close> for an integer of more than 4300 digits, as the interpreter does.
  Also here: \<open>==\<close> between values, \<open>dict.get\<close>, \<open>json.dumps\<close> and the exceptions.
\<close>

section \<open>Values\<close>

datatype pyfloat = FRat int int string | FInf bool | FNan

datatype pyval =
    PNone
  | PBool bool
  | PInt int
  | PFloat pyfloat
  | PStr string
  | PList "pyval list"
  | PTuple "pyval list"
  | PSet "pyval list"
  | PDict "(string \<times> pyval) list"

type_synonym pydict = "(string \<times> pyval) list"

text \<open>\<open>m.get(k)\<close> returns \<open>None\<close> for a missing key; \<open>m.get(k, d)\<close> returns \<open>d\<close>.\<close>

definition dget :: "pydict \<Rightarrow> string \<Rightarrow> pyval" where
  "dget m k = (case map_of m k of None \<Rightarrow> PNone | Some v \<Rightarrow> v)"

definition dget_default :: "pydict \<Rightarrow> string \<Rightarrow> pyval \<Rightarrow> pyval" where
  "dget_default m k d = (case map_of m k of None \<Rightarrow> d | Some v \<Rightarrow> v)"

definition dkeys :: "pydict \<Rightarrow> string list" where
  "dkeys m = map fst m"

definition has_key :: "pydict \<Rightarrow> string \<Rightarrow> bool" where
  "has_key m k \<longleftrightarrow> k \<in> set (dkeys m)"

text \<open>\<open>d[k] = v\<close>: the position of an existing key is kept.\<close>

fun dset :: "pydict \<Rightarrow> string \<Rightarrow> pyval \<Rightarrow> pydict" where
  "dset [] k v = [(k, v)]"
| "dset ((k', v') # m) k v = (if k' = k then (k, v) # m else (k', v') # dset m k v)"

lemma dget_Nil [simp]: "dget [] k = PNone"
  by (simp add: dget_def)

lemma dget_Cons [simp]: "dget ((k', v) # m) k = (if k = k' then v else dget m k)"
  by (simp add: dget_def)

lemma map_of_dset [simp]: "map_of (dset m k v) = (map_of m)(k \<mapsto> v)"
  by (induction m k v rule: dset.induct) auto

lemma dget_dset [simp]: "dget (dset m k v) k' = (if k' = k then v else dget m k')"
  by (simp add: dget_def)

lemma has_key_map_of: "has_key m k \<longleftrightarrow> map_of m k \<noteq> None"
  by (simp add: has_key_def dkeys_def map_of_eq_None_iff)

lemma map_of_in_dkeys: "k \<in> set (dkeys m) \<Longrightarrow> \<exists>v. map_of m k = Some v"
  using has_key_map_of[of m k] by (auto simp: has_key_def)

lemma dkeys_dset_same: "k \<in> set (dkeys m) \<Longrightarrow> dkeys (dset m k v) = dkeys m"
  by (induction m k v rule: dset.induct) (auto simp: dkeys_def)

lemma set_dkeys_dset: "set (dkeys (dset m k v)) = insert k (set (dkeys m))"
  by (induction m k v rule: dset.induct) (auto simp: dkeys_def)

fun dict_ok :: "pyval \<Rightarrow> bool" and dict_ok_list :: "pyval list \<Rightarrow> bool"
  and dict_ok_items :: "pydict \<Rightarrow> bool" where
  "dict_ok (PList xs) = dict_ok_list xs"
| "dict_ok (PTuple xs) = dict_ok_list xs"
| "dict_ok (PSet xs) = dict_ok_list xs"
| "dict_ok (PDict m) = (distinct (map fst m) \<and> dict_ok_items m)"
| "dict_ok _ = True"
| "dict_ok_list [] = True"
| "dict_ok_list (x # xs) = (dict_ok x \<and> dict_ok_list xs)"
| "dict_ok_items [] = True"
| "dict_ok_items ((k, v) # m) = (dict_ok v \<and> dict_ok_items m)"

section \<open>Type tests\<close>

definition is_str :: "pyval \<Rightarrow> bool" where
  "is_str v \<longleftrightarrow> (case v of PStr _ \<Rightarrow> True | _ \<Rightarrow> False)"

text \<open>\<open>type(v) is int\<close>: a \<open>bool\<close> is not accepted.\<close>

definition is_int :: "pyval \<Rightarrow> bool" where
  "is_int v \<longleftrightarrow> (case v of PInt _ \<Rightarrow> True | _ \<Rightarrow> False)"

definition is_bool :: "pyval \<Rightarrow> bool" where
  "is_bool v \<longleftrightarrow> (case v of PBool _ \<Rightarrow> True | _ \<Rightarrow> False)"

definition is_map :: "pyval \<Rightarrow> bool" where
  "is_map v \<longleftrightarrow> (case v of PDict _ \<Rightarrow> True | _ \<Rightarrow> False)"

text \<open>\<open>isinstance(v, Sequence) and not isinstance(v, (str, bytes))\<close>.\<close>

definition is_seq :: "pyval \<Rightarrow> bool" where
  "is_seq v \<longleftrightarrow> (case v of PList _ \<Rightarrow> True | PTuple _ \<Rightarrow> True | _ \<Rightarrow> False)"

text \<open>
  The tests in the form \<open>if not isinstance(v, T): raise e\<close>, which give the value's
  content to what follows.
\<close>

definition need_str :: "pyval \<Rightarrow> 'e \<Rightarrow> 'e + string" where
  "need_str v e = (case v of PStr s \<Rightarrow> Inr s | _ \<Rightarrow> Inl e)"

definition need_int :: "pyval \<Rightarrow> 'e \<Rightarrow> 'e + int" where
  "need_int v e = (case v of PInt i \<Rightarrow> Inr i | _ \<Rightarrow> Inl e)"

definition need_bool :: "pyval \<Rightarrow> 'e \<Rightarrow> 'e + bool" where
  "need_bool v e = (case v of PBool b \<Rightarrow> Inr b | _ \<Rightarrow> Inl e)"

definition need_map :: "pyval \<Rightarrow> 'e \<Rightarrow> 'e + pydict" where
  "need_map v e = (case v of PDict m \<Rightarrow> Inr m | _ \<Rightarrow> Inl e)"

definition need_list :: "pyval \<Rightarrow> 'e \<Rightarrow> 'e + pyval list" where
  "need_list v e = (case v of PList xs \<Rightarrow> Inr xs | _ \<Rightarrow> Inl e)"

definition need_seq :: "pyval \<Rightarrow> 'e \<Rightarrow> 'e + pyval list" where
  "need_seq v e = (case v of PList xs \<Rightarrow> Inr xs | PTuple xs \<Rightarrow> Inr xs | _ \<Rightarrow> Inl e)"

lemma need_simps [simp]:
  "need_str (PStr s) e = Inr s"
  "need_int (PInt i) e = Inr i"
  "need_bool (PBool b) e = Inr b"
  "need_map (PDict m) e = Inr m"
  "need_list (PList xs) e = Inr xs"
  "need_seq (PList xs) e = Inr xs"
  "need_seq (PTuple xs) e = Inr xs"
  by (simp_all add: need_str_def need_int_def need_bool_def need_map_def need_list_def need_seq_def)

lemma need_PNone [simp]:
  "need_str PNone e = Inl e"
  "need_int PNone e = Inl e"
  "need_bool PNone e = Inl e"
  "need_map PNone e = Inl e"
  "need_list PNone e = Inl e"
  "need_seq PNone e = Inl e"
  by (simp_all add: need_str_def need_int_def need_bool_def need_map_def need_list_def need_seq_def)

lemma need_eq_Inr [res_simps]:
  "need_str v e = Inr s \<longleftrightarrow> v = PStr s"
  "need_int v e = Inr i \<longleftrightarrow> v = PInt i"
  "need_bool v e = Inr b \<longleftrightarrow> v = PBool b"
  "need_map v e = Inr m \<longleftrightarrow> v = PDict m"
  "need_list v e = Inr xs \<longleftrightarrow> v = PList xs"
  "need_seq v e = Inr xs \<longleftrightarrow> v = PList xs \<or> v = PTuple xs"
  by (cases v; simp add: need_str_def need_int_def need_bool_def need_map_def need_list_def
        need_seq_def)+

lemma raises_only_need [raises_intros]:
  "P e \<Longrightarrow> raises_only P (need_str v e)"
  "P e \<Longrightarrow> raises_only P (need_int v e)"
  "P e \<Longrightarrow> raises_only P (need_bool v e)"
  "P e \<Longrightarrow> raises_only P (need_map v e)"
  "P e \<Longrightarrow> raises_only P (need_list v e)"
  "P e \<Longrightarrow> raises_only P (need_seq v e)"
  by (cases v; simp add: raises_only_def need_str_def need_int_def need_bool_def need_map_def
        need_list_def need_seq_def)+

lemma is_simps [simp]:
  "is_str (PStr s)" "is_int (PInt i)" "is_bool (PBool b)" "is_map (PDict m)"
  "is_seq (PList xs)" "is_seq (PTuple xs)"
  "\<not> is_str PNone" "\<not> is_int PNone" "\<not> is_bool PNone" "\<not> is_map PNone" "\<not> is_seq PNone"
  by (simp_all add: is_str_def is_int_def is_bool_def is_map_def is_seq_def)

lemma is_iffs:
  "is_str v \<longleftrightarrow> (\<exists>s. v = PStr s)"
  "is_int v \<longleftrightarrow> (\<exists>i. v = PInt i)"
  "is_bool v \<longleftrightarrow> (\<exists>b. v = PBool b)"
  "is_map v \<longleftrightarrow> (\<exists>m. v = PDict m)"
  "is_seq v \<longleftrightarrow> (\<exists>xs. v = PList xs \<or> v = PTuple xs)"
  by (cases v; simp add: is_str_def is_int_def is_bool_def is_map_def is_seq_def)+

section \<open>Equality\<close>

text \<open>
  \<open>a == b\<close>. Numbers compare by value across \<open>bool\<close>, \<open>int\<close> and \<open>float\<close>
  (\<open>True == 1 == 1.0\<close>); a list is never equal to a tuple; dictionaries and sets compare
  without regard to order.
\<close>

definition num_ratio :: "pyval \<Rightarrow> (int \<times> int) option" where
  "num_ratio v = (case v of PBool b \<Rightarrow> Some (of_bool b, 1) | PInt i \<Rightarrow> Some (i, 1)
     | PFloat (FRat n d _) \<Rightarrow> Some (n, d) | _ \<Rightarrow> None)"

definition num_eq :: "pyval \<Rightarrow> pyval \<Rightarrow> bool" where
  "num_eq v w = (case (num_ratio v, num_ratio w) of
     (Some (a, b), Some (c, d)) \<Rightarrow> a * d = c * b
   | _ \<Rightarrow> (case (v, w) of (PFloat (FInf p), PFloat (FInf q)) \<Rightarrow> p = q | _ \<Rightarrow> False))"

fun py_eq :: "pyval \<Rightarrow> pyval \<Rightarrow> bool"
  and py_eq_list :: "pyval list \<Rightarrow> pyval list \<Rightarrow> bool"
  and py_eq_items :: "pydict \<Rightarrow> pydict \<Rightarrow> bool"
  and py_sub_set :: "pyval list \<Rightarrow> pyval list \<Rightarrow> bool"
  and py_mem_of :: "pyval \<Rightarrow> pyval list \<Rightarrow> bool" where
  "py_eq PNone w = (w = PNone)"
| "py_eq (PStr s) w = (w = PStr s)"
| "py_eq (PList xs) w = (case w of PList ys \<Rightarrow> py_eq_list xs ys | _ \<Rightarrow> False)"
| "py_eq (PTuple xs) w = (case w of PTuple ys \<Rightarrow> py_eq_list xs ys | _ \<Rightarrow> False)"
| "py_eq (PSet xs) w = (case w of PSet ys \<Rightarrow> length xs = length ys \<and> py_sub_set xs ys | _ \<Rightarrow> False)"
| "py_eq (PDict m) w = (case w of PDict n \<Rightarrow> length m = length n \<and> py_eq_items m n | _ \<Rightarrow> False)"
| "py_eq v w = num_eq v w"
| "py_eq_list [] ys = (ys = [])"
| "py_eq_list (x # xs) ys = (case ys of [] \<Rightarrow> False | y # ys' \<Rightarrow> py_eq x y \<and> py_eq_list xs ys')"
| "py_eq_items [] n = True"
| "py_eq_items ((k, v) # m) n =
     (case map_of n k of None \<Rightarrow> False | Some w \<Rightarrow> py_eq v w \<and> py_eq_items m n)"
| "py_sub_set [] ys = True"
| "py_sub_set (x # xs) ys = (py_mem_of x ys \<and> py_sub_set xs ys)"
| "py_mem_of x [] = False"
| "py_mem_of x (y # ys) = (py_eq x y \<or> py_mem_of x ys)"

lemma py_eq_PStr_right [simp]: "py_eq v (PStr s) \<longleftrightarrow> v = PStr s"
  by (cases v) (auto simp: num_eq_def num_ratio_def split: pyfloat.splits)

lemma py_eq_PNone_right [simp]: "py_eq v PNone \<longleftrightarrow> v = PNone"
  by (cases v) (auto simp: num_eq_def num_ratio_def split: pyfloat.splits)

lemma py_eq_PInt [simp]: "py_eq (PInt i) (PInt j) \<longleftrightarrow> i = j"
  by (auto simp: num_eq_def num_ratio_def)

text \<open>\<open>v in (a, b, ...)\<close> and \<open>k in (frozenset of strings)\<close>.\<close>

definition py_in :: "pyval \<Rightarrow> pyval list \<Rightarrow> bool" where
  "py_in v vs \<longleftrightarrow> list_ex (py_eq v) vs"

definition str_in :: "pyval \<Rightarrow> string list \<Rightarrow> bool" where
  "str_in v ss \<longleftrightarrow> (case v of PStr s \<Rightarrow> s \<in> set ss | _ \<Rightarrow> False)"

lemma str_in_PStr [simp]: "str_in (PStr s) ss \<longleftrightarrow> s \<in> set ss"
  by (simp add: str_in_def)

text \<open>\<open>bool(v)\<close>, as \<open>x or y\<close> and \<open>not x\<close> test it.\<close>

definition py_truthy :: "pyval \<Rightarrow> bool" where
  "py_truthy v = (case v of PNone \<Rightarrow> False | PBool b \<Rightarrow> b | PInt i \<Rightarrow> i \<noteq> 0
     | PFloat f \<Rightarrow> (case f of FRat n _ _ \<Rightarrow> n \<noteq> 0 | _ \<Rightarrow> True)
     | PStr s \<Rightarrow> s \<noteq> [] | PList xs \<Rightarrow> xs \<noteq> [] | PTuple xs \<Rightarrow> xs \<noteq> [] | PSet xs \<Rightarrow> xs \<noteq> []
     | PDict m \<Rightarrow> m \<noteq> [])"

section \<open>json.dumps\<close>

text \<open>
  \<open>json.dumps(v, sort_keys=True, separators=(",", ":"), ensure_ascii=a, allow_nan=n)\<close>.
  The error is the message of the \<open>ValueError\<close> (\<open>Inl (Inl _)\<close>: a float that is not
  finite, or an integer of more digits than the interpreter converts to text) or the
  \<open>TypeError\<close> (\<open>Inl (Inr _)\<close>, a set).
\<close>

definition MAX_STR_DIGITS :: nat where "MAX_STR_DIGITS = 4300"

definition printable_int :: "int \<Rightarrow> bool" where
  "printable_int i \<longleftrightarrow> length (show_nat (nat \<bar>i\<bar>)) \<le> MAX_STR_DIGITS"

definition int_too_long :: string where
  "int_too_long = ''Exceeds the limit (4300 digits) for integer string conversion; '' @
     ''use sys.set_int_max_str_digits() to increase the limit''"

definition json_int :: "int \<Rightarrow> (string + string) + string" where
  "json_int i = (if printable_int i then Inr (show_int i) else Inl (Inl int_too_long))"

lemma show_nat_length: "n < 10 ^ k \<Longrightarrow> 0 < k \<Longrightarrow> length (show_nat n) \<le> k"
proof (induction n arbitrary: k rule: show_nat.induct)
  case (1 n)
  show ?case
  proof (cases "n < 10")
    case False
    then obtain j where j: "k = Suc j" "0 < j" using 1(2,3) by (cases k; cases "k - 1") auto
    have "length (show_nat (n div 10)) \<le> j" using 1(1)[OF False, of j] 1(2) j by (simp add: div_less_iff_less_mult mult.commute)
    then show ?thesis using False j by (simp add: show_nat.simps[of n])
  qed (use 1(3) in \<open>simp add: show_nat.simps[of n]\<close>)
qed

lemma printable_intI: "nat \<bar>i\<bar> < 10 ^ k \<Longrightarrow> 0 < k \<Longrightarrow> k \<le> 4300 \<Longrightarrow> printable_int i"
  using show_nat_length[of "nat \<bar>i\<bar>" k] by (simp add: printable_int_def MAX_STR_DIGITS_def)

lemma printable_small [simp]: "nat \<bar>i\<bar> < 1000000000000000000 \<Longrightarrow> printable_int i"
  using printable_intI[of i 18] by simp

lemma json_int_printable [simp]: "printable_int i \<Longrightarrow> json_int i = Inr (show_int i)"
  by (simp add: json_int_def)

lemma json_int_ok [res_simps]: "json_int i = Inr s \<longleftrightarrow> printable_int i \<and> s = show_int i"
  by (auto simp: json_int_def)

definition json_char :: "bool \<Rightarrow> char \<Rightarrow> string" where
  "json_char a c = (let n = (of_char c :: nat) in
     if c = CHR 0x22 \<or> c = CHR 0x5C then [CHR 0x5C, c]
     else if n = 8 then [CHR 0x5C, CHR ''b'']
     else if n = 9 then [CHR 0x5C, CHR ''t'']
     else if n = 10 then [CHR 0x5C, CHR ''n'']
     else if n = 12 then [CHR 0x5C, CHR ''f'']
     else if n = 13 then [CHR 0x5C, CHR ''r'']
     else if n < 32 \<or> a \<and> 126 < n
       then [CHR 0x5C, CHR ''u'', CHR ''0'', CHR ''0'', hex_digit (n div 16), hex_digit (n mod 16)]
     else [c])"

definition json_str :: "bool \<Rightarrow> string \<Rightarrow> string" where
  "json_str a s = [CHR 0x22] @ concat (map (json_char a) s) @ [CHR 0x22]"

definition json_float :: "bool \<Rightarrow> pyfloat \<Rightarrow> (string + string) + string" where
  "json_float n f = (case f of
     FRat _ _ r \<Rightarrow> Inr r
   | FInf p \<Rightarrow> if n then Inr (if p then ''Infinity'' else ''-Infinity'')
       else Inl (Inl ''Out of range float values are not JSON compliant'')
   | FNan \<Rightarrow> if n then Inr ''NaN'' else Inl (Inl ''Out of range float values are not JSON compliant''))"

definition json_object :: "bool \<Rightarrow> (string \<times> string) list \<Rightarrow> string" where
  "json_object a kvs = ''{'' @ join_str '','' (map (\<lambda>(k, v). json_str a k @ '':'' @ v)
     (sort_key fst kvs)) @ ''}''"

fun json_val :: "bool \<Rightarrow> bool \<Rightarrow> pyval \<Rightarrow> (string + string) + string"
  and json_list :: "bool \<Rightarrow> bool \<Rightarrow> pyval list \<Rightarrow> (string + string) + string list"
  and json_items :: "bool \<Rightarrow> bool \<Rightarrow> pydict \<Rightarrow> (string + string) + (string \<times> string) list" where
  "json_val a n PNone = Inr ''null''"
| "json_val a n (PBool b) = Inr (if b then ''true'' else ''false'')"
| "json_val a n (PInt i) = json_int i"
| "json_val a n (PFloat f) = json_float n f"
| "json_val a n (PStr s) = Inr (json_str a s)"
| "json_val a n (PList xs) =
     bind_r (json_list a n xs) (\<lambda>ss. Inr (''['' @ join_str '','' ss @ '']''))"
| "json_val a n (PTuple xs) =
     bind_r (json_list a n xs) (\<lambda>ss. Inr (''['' @ join_str '','' ss @ '']''))"
| "json_val a n (PSet xs) = Inl (Inr ''Object of type set is not JSON serializable'')"
| "json_val a n (PDict m) = bind_r (json_items a n m) (\<lambda>kvs. Inr (json_object a kvs))"
| "json_list a n [] = Inr []"
| "json_list a n (x # xs) =
     bind_r (json_val a n x) (\<lambda>s. bind_r (json_list a n xs) (\<lambda>ss. Inr (s # ss)))"
| "json_items a n [] = Inr []"
| "json_items a n ((k, v) # m) =
     bind_r (json_val a n v) (\<lambda>s. bind_r (json_items a n m) (\<lambda>kvs. Inr ((k, s) # kvs)))"

section \<open>Validation helpers that the parsers share\<close>

text \<open>\<open>required - keys\<close> and \<open>keys - allowed\<close>, sorted, as the error messages print them.\<close>

definition missing_keys :: "string list \<Rightarrow> pydict \<Rightarrow> string list" where
  "missing_keys required m = sorted_strs (filter (\<lambda>k. k \<notin> set (dkeys m)) required)"

definition unknown_keys :: "pydict \<Rightarrow> string list \<Rightarrow> string list" where
  "unknown_keys m allowed = sorted_strs (filter (\<lambda>k. k \<notin> set allowed) (dkeys m))"

lemma missing_keys_Nil: "missing_keys req m = [] \<longleftrightarrow> set req \<subseteq> set (dkeys m)"
proof -
  have "missing_keys req m = [] \<longleftrightarrow> set (missing_keys req m) = {}" by simp
  then show ?thesis unfolding missing_keys_def by auto
qed

lemma unknown_keys_Nil: "unknown_keys m allowed = [] \<longleftrightarrow> set (dkeys m) \<subseteq> set allowed"
proof -
  have "unknown_keys m allowed = [] \<longleftrightarrow> set (unknown_keys m allowed) = {}" by simp
  then show ?thesis unfolding unknown_keys_def by auto
qed

end
