(* ===== verification/Reason_Ids.thy ===== *)
theory Reason_Ids
  imports Prelude
begin

text \<open>
  \<open>src/adamantine/v1/contracts/reason_ids.py\<close>: the closed vocabulary of reasons
  (\<open>ReasonId\<close>, a \<open>(str, Enum)\<close>) and \<open>contracts/verdict.py\<close>. A member is a constructor,
  \<open>reason_value\<close> is its \<open>.value\<close>, and \<open>reason_of_string\<close> is the constructor call
  \<open>ReasonId(s)\<close>, which fails on a string outside the vocabulary.
\<close>

datatype (plugins only: code size) reason_id =
    TVA_MISSING_CONTEXT
  | TVA_MISSING_VERDICT
  | TVA_MISSING_AUTHORITY
  | TVA_VERDICT_NOT_ALLOW
  | TVA_AUTHORITY_WALLET_MISMATCH
  | TVA_AUTHORITY_ACTION_MISMATCH
  | TVA_AUTHORITY_CONTEXT_HASH_MISMATCH
  | TVA_MISSING_NOW
  | TVA_INVALID_TIME_WINDOW
  | TVA_AUTHORITY_NOT_YET_VALID
  | TVA_AUTHORITY_EXPIRED
  | TVA_MISSING_NONCE_STORE
  | TVA_NONCE_REPLAY
  | TVA_INVALID_NONCE
  | TVA_WSQK_V2_REQUIRED
  | TVA_WSQK_V2_EVIDENCE_FAMILY_MISMATCH
  | TVA_WSQK_V2_QUANTUM_POSTURE_MISMATCH
  | TVA_WSQK_V2_PROOF_BINDINGS_HASH_MISMATCH
  | EQC_MISSING_WALLET_ID
  | EQC_MISSING_ACTION
  | EQC_MISSING_NOW
  | EQC_MISSING_QID_SESSION
  | EQC_QID_SESSION_EXPIRED
  | EQC_QID_SESSION_NOT_YET_VALID
  | EQC_INVALID_QID_PROOF
  | QID_AUTHENTICITY_VERIFIER_MISSING
  | SHIELD_AUTHENTICITY_VERIFIER_MISSING
  | ORACLE_AUTHENTICITY_VERIFIER_MISSING
  | EQC_QID_CONTEXT_HASH_MISMATCH
  | QID_REPLAY_PROOF_MISSING
  | QID_REPLAY_PROOF_INVALID
  | QID_REPLAY_WALLET_MISMATCH
  | QID_REPLAY_SUBJECT_MISMATCH
  | QID_REPLAY_DEVICE_MISMATCH
  | QID_REPLAY_PROOF_HASH_MISMATCH
  | QID_REPLAY_NONCE_MISMATCH
  | QID_NONCE_REPLAY
  | EQC_MISSING_RISK_REPORT
  | EQC_RISK_CONTEXT_HASH_MISMATCH
  | EQC_RISK_SCORE_BELOW_THRESHOLD
  | EQC_INVALID_RISK_REPORT
  | EQC_MISSING_ORACLE
  | EQC_MISSING_SHIELD_BUNDLE
  | EQC_INVALID_SHIELD_BUNDLE
  | EQC_SHIELD_CONTEXT_HASH_MISMATCH
  | EQC_SHIELD_STALE
  | EQC_CONFLICTING_EVIDENCE
  | UNKNOWN_EXTERNAL_REASON
  | EVIDENCE_OK
  | WSQK_MISSING_WALLET_ID
  | WSQK_MISSING_ACTION
  | WSQK_MISSING_CONTEXT_HASH
  | WSQK_MISSING_NOW
  | WSQK_INVALID_TTL
  | WSQK_INVALID_NONCE
  | WSQK_V2_INVALID_EVIDENCE_FAMILIES
  | WSQK_V2_UNKNOWN_EVIDENCE_FAMILY
  | WSQK_V2_INVALID_QUANTUM_POSTURE
  | WSQK_V2_AUTHORITY_MAPPING_MISSING_FIELD
  | WSQK_V2_AUTHORITY_MAPPING_INVALID_FIELD
  | WSQK_QID_POSTURE_MISMATCH
  | WSQK_QID_HYBRID_REQUIRED
  | WSQK_QID_BINDING_INVALID
  | OK_ALLOW
  | DENY_SCHEMA_INVALID
  | DENY_UNKNOWN_FIELD
  | DENY_VERSION_MISMATCH
  | DENY_INTENT_UNSUPPORTED
  | DENY_PAYLOAD_INVALID
  | DENY_TIMEBOX_INVALID
  | DENY_TIMEBOX_EXPIRED
  | DENY_TIMEBOX_NOT_YET_VALID
  | DENY_TIMEBOX_SKEW_EXCEEDED
  | DENY_NONCE_INVALID
  | DENY_NONCE_REPLAY
  | DENY_NONCE_STORE_ERROR
  | DENY_AUTHORITY_INVALID
  | DENY_AUTHORITY_INSUFFICIENT
  | DENY_POLICY
  | DENY_EQC
  | DENY_WSQK
  | DENY_TVA
  | DENY_ADAPTER_INVALID
  | DENY_ADAPTER_UNAVAILABLE
  | ERR_INTERNAL
  | ERR_UNHANDLED
  | DENY_NOT_WIRED

definition reason_members :: "(reason_id \<times> string) list" where
  "reason_members = [
     (TVA_MISSING_CONTEXT, ''TVA_MISSING_CONTEXT''),
     (TVA_MISSING_VERDICT, ''TVA_MISSING_VERDICT''),
     (TVA_MISSING_AUTHORITY, ''TVA_MISSING_AUTHORITY''),
     (TVA_VERDICT_NOT_ALLOW, ''TVA_VERDICT_NOT_ALLOW''),
     (TVA_AUTHORITY_WALLET_MISMATCH, ''TVA_AUTHORITY_WALLET_MISMATCH''),
     (TVA_AUTHORITY_ACTION_MISMATCH, ''TVA_AUTHORITY_ACTION_MISMATCH''),
     (TVA_AUTHORITY_CONTEXT_HASH_MISMATCH, ''TVA_AUTHORITY_CONTEXT_HASH_MISMATCH''),
     (TVA_MISSING_NOW, ''TVA_MISSING_NOW''),
     (TVA_INVALID_TIME_WINDOW, ''TVA_INVALID_TIME_WINDOW''),
     (TVA_AUTHORITY_NOT_YET_VALID, ''TVA_AUTHORITY_NOT_YET_VALID''),
     (TVA_AUTHORITY_EXPIRED, ''TVA_AUTHORITY_EXPIRED''),
     (TVA_MISSING_NONCE_STORE, ''TVA_MISSING_NONCE_STORE''),
     (TVA_NONCE_REPLAY, ''TVA_NONCE_REPLAY''),
     (TVA_INVALID_NONCE, ''TVA_INVALID_NONCE''),
     (TVA_WSQK_V2_REQUIRED, ''TVA_WSQK_V2_REQUIRED''),
     (TVA_WSQK_V2_EVIDENCE_FAMILY_MISMATCH, ''TVA_WSQK_V2_EVIDENCE_FAMILY_MISMATCH''),
     (TVA_WSQK_V2_QUANTUM_POSTURE_MISMATCH, ''TVA_WSQK_V2_QUANTUM_POSTURE_MISMATCH''),
     (TVA_WSQK_V2_PROOF_BINDINGS_HASH_MISMATCH, ''TVA_WSQK_V2_PROOF_BINDINGS_HASH_MISMATCH''),
     (EQC_MISSING_WALLET_ID, ''EQC_MISSING_WALLET_ID''),
     (EQC_MISSING_ACTION, ''EQC_MISSING_ACTION''),
     (EQC_MISSING_NOW, ''EQC_MISSING_NOW''),
     (EQC_MISSING_QID_SESSION, ''EQC_MISSING_QID_SESSION''),
     (EQC_QID_SESSION_EXPIRED, ''EQC_QID_SESSION_EXPIRED''),
     (EQC_QID_SESSION_NOT_YET_VALID, ''EQC_QID_SESSION_NOT_YET_VALID''),
     (EQC_INVALID_QID_PROOF, ''EQC_INVALID_QID_PROOF''),
     (QID_AUTHENTICITY_VERIFIER_MISSING, ''QID_AUTHENTICITY_VERIFIER_MISSING''),
     (SHIELD_AUTHENTICITY_VERIFIER_MISSING, ''SHIELD_AUTHENTICITY_VERIFIER_MISSING''),
     (ORACLE_AUTHENTICITY_VERIFIER_MISSING, ''ORACLE_AUTHENTICITY_VERIFIER_MISSING''),
     (EQC_QID_CONTEXT_HASH_MISMATCH, ''EQC_QID_CONTEXT_HASH_MISMATCH''),
     (QID_REPLAY_PROOF_MISSING, ''QID_REPLAY_PROOF_MISSING''),
     (QID_REPLAY_PROOF_INVALID, ''QID_REPLAY_PROOF_INVALID''),
     (QID_REPLAY_WALLET_MISMATCH, ''QID_REPLAY_WALLET_MISMATCH''),
     (QID_REPLAY_SUBJECT_MISMATCH, ''QID_REPLAY_SUBJECT_MISMATCH''),
     (QID_REPLAY_DEVICE_MISMATCH, ''QID_REPLAY_DEVICE_MISMATCH''),
     (QID_REPLAY_PROOF_HASH_MISMATCH, ''QID_REPLAY_PROOF_HASH_MISMATCH''),
     (QID_REPLAY_NONCE_MISMATCH, ''QID_REPLAY_NONCE_MISMATCH''),
     (QID_NONCE_REPLAY, ''QID_NONCE_REPLAY''),
     (EQC_MISSING_RISK_REPORT, ''EQC_MISSING_RISK_REPORT''),
     (EQC_RISK_CONTEXT_HASH_MISMATCH, ''EQC_RISK_CONTEXT_HASH_MISMATCH''),
     (EQC_RISK_SCORE_BELOW_THRESHOLD, ''EQC_RISK_SCORE_BELOW_THRESHOLD''),
     (EQC_INVALID_RISK_REPORT, ''EQC_INVALID_RISK_REPORT''),
     (EQC_MISSING_ORACLE, ''EQC_MISSING_ORACLE''),
     (EQC_MISSING_SHIELD_BUNDLE, ''EQC_MISSING_SHIELD_BUNDLE''),
     (EQC_INVALID_SHIELD_BUNDLE, ''EQC_INVALID_SHIELD_BUNDLE''),
     (EQC_SHIELD_CONTEXT_HASH_MISMATCH, ''EQC_SHIELD_CONTEXT_HASH_MISMATCH''),
     (EQC_SHIELD_STALE, ''EQC_SHIELD_STALE''),
     (EQC_CONFLICTING_EVIDENCE, ''EQC_CONFLICTING_EVIDENCE''),
     (UNKNOWN_EXTERNAL_REASON, ''UNKNOWN_EXTERNAL_REASON''),
     (EVIDENCE_OK, ''EVIDENCE_OK''),
     (WSQK_MISSING_WALLET_ID, ''WSQK_MISSING_WALLET_ID''),
     (WSQK_MISSING_ACTION, ''WSQK_MISSING_ACTION''),
     (WSQK_MISSING_CONTEXT_HASH, ''WSQK_MISSING_CONTEXT_HASH''),
     (WSQK_MISSING_NOW, ''WSQK_MISSING_NOW''),
     (WSQK_INVALID_TTL, ''WSQK_INVALID_TTL''),
     (WSQK_INVALID_NONCE, ''WSQK_INVALID_NONCE''),
     (WSQK_V2_INVALID_EVIDENCE_FAMILIES, ''WSQK_V2_INVALID_EVIDENCE_FAMILIES''),
     (WSQK_V2_UNKNOWN_EVIDENCE_FAMILY, ''WSQK_V2_UNKNOWN_EVIDENCE_FAMILY''),
     (WSQK_V2_INVALID_QUANTUM_POSTURE, ''WSQK_V2_INVALID_QUANTUM_POSTURE''),
     (WSQK_V2_AUTHORITY_MAPPING_MISSING_FIELD, ''WSQK_V2_AUTHORITY_MAPPING_MISSING_FIELD''),
     (WSQK_V2_AUTHORITY_MAPPING_INVALID_FIELD, ''WSQK_V2_AUTHORITY_MAPPING_INVALID_FIELD''),
     (WSQK_QID_POSTURE_MISMATCH, ''WSQK_QID_POSTURE_MISMATCH''),
     (WSQK_QID_HYBRID_REQUIRED, ''WSQK_QID_HYBRID_REQUIRED''),
     (WSQK_QID_BINDING_INVALID, ''WSQK_QID_BINDING_INVALID''),
     (OK_ALLOW, ''OK_ALLOW''),
     (DENY_SCHEMA_INVALID, ''DENY_SCHEMA_INVALID''),
     (DENY_UNKNOWN_FIELD, ''DENY_UNKNOWN_FIELD''),
     (DENY_VERSION_MISMATCH, ''DENY_VERSION_MISMATCH''),
     (DENY_INTENT_UNSUPPORTED, ''DENY_INTENT_UNSUPPORTED''),
     (DENY_PAYLOAD_INVALID, ''DENY_PAYLOAD_INVALID''),
     (DENY_TIMEBOX_INVALID, ''DENY_TIMEBOX_INVALID''),
     (DENY_TIMEBOX_EXPIRED, ''DENY_TIMEBOX_EXPIRED''),
     (DENY_TIMEBOX_NOT_YET_VALID, ''DENY_TIMEBOX_NOT_YET_VALID''),
     (DENY_TIMEBOX_SKEW_EXCEEDED, ''DENY_TIMEBOX_SKEW_EXCEEDED''),
     (DENY_NONCE_INVALID, ''DENY_NONCE_INVALID''),
     (DENY_NONCE_REPLAY, ''DENY_NONCE_REPLAY''),
     (DENY_NONCE_STORE_ERROR, ''DENY_NONCE_STORE_ERROR''),
     (DENY_AUTHORITY_INVALID, ''DENY_AUTHORITY_INVALID''),
     (DENY_AUTHORITY_INSUFFICIENT, ''DENY_AUTHORITY_INSUFFICIENT''),
     (DENY_POLICY, ''DENY_POLICY''),
     (DENY_EQC, ''DENY_EQC''),
     (DENY_WSQK, ''DENY_WSQK''),
     (DENY_TVA, ''DENY_TVA''),
     (DENY_ADAPTER_INVALID, ''DENY_ADAPTER_INVALID''),
     (DENY_ADAPTER_UNAVAILABLE, ''DENY_ADAPTER_UNAVAILABLE''),
     (ERR_INTERNAL, ''ERR_INTERNAL''),
     (ERR_UNHANDLED, ''ERR_UNHANDLED''),
     (DENY_NOT_WIRED, ''DENY_NOT_WIRED'')]"

primrec reason_value :: "reason_id \<Rightarrow> string" where
  "reason_value TVA_MISSING_CONTEXT = ''TVA_MISSING_CONTEXT''"
| "reason_value TVA_MISSING_VERDICT = ''TVA_MISSING_VERDICT''"
| "reason_value TVA_MISSING_AUTHORITY = ''TVA_MISSING_AUTHORITY''"
| "reason_value TVA_VERDICT_NOT_ALLOW = ''TVA_VERDICT_NOT_ALLOW''"
| "reason_value TVA_AUTHORITY_WALLET_MISMATCH = ''TVA_AUTHORITY_WALLET_MISMATCH''"
| "reason_value TVA_AUTHORITY_ACTION_MISMATCH = ''TVA_AUTHORITY_ACTION_MISMATCH''"
| "reason_value TVA_AUTHORITY_CONTEXT_HASH_MISMATCH = ''TVA_AUTHORITY_CONTEXT_HASH_MISMATCH''"
| "reason_value TVA_MISSING_NOW = ''TVA_MISSING_NOW''"
| "reason_value TVA_INVALID_TIME_WINDOW = ''TVA_INVALID_TIME_WINDOW''"
| "reason_value TVA_AUTHORITY_NOT_YET_VALID = ''TVA_AUTHORITY_NOT_YET_VALID''"
| "reason_value TVA_AUTHORITY_EXPIRED = ''TVA_AUTHORITY_EXPIRED''"
| "reason_value TVA_MISSING_NONCE_STORE = ''TVA_MISSING_NONCE_STORE''"
| "reason_value TVA_NONCE_REPLAY = ''TVA_NONCE_REPLAY''"
| "reason_value TVA_INVALID_NONCE = ''TVA_INVALID_NONCE''"
| "reason_value TVA_WSQK_V2_REQUIRED = ''TVA_WSQK_V2_REQUIRED''"
| "reason_value TVA_WSQK_V2_EVIDENCE_FAMILY_MISMATCH = ''TVA_WSQK_V2_EVIDENCE_FAMILY_MISMATCH''"
| "reason_value TVA_WSQK_V2_QUANTUM_POSTURE_MISMATCH = ''TVA_WSQK_V2_QUANTUM_POSTURE_MISMATCH''"
| "reason_value TVA_WSQK_V2_PROOF_BINDINGS_HASH_MISMATCH = ''TVA_WSQK_V2_PROOF_BINDINGS_HASH_MISMATCH''"
| "reason_value EQC_MISSING_WALLET_ID = ''EQC_MISSING_WALLET_ID''"
| "reason_value EQC_MISSING_ACTION = ''EQC_MISSING_ACTION''"
| "reason_value EQC_MISSING_NOW = ''EQC_MISSING_NOW''"
| "reason_value EQC_MISSING_QID_SESSION = ''EQC_MISSING_QID_SESSION''"
| "reason_value EQC_QID_SESSION_EXPIRED = ''EQC_QID_SESSION_EXPIRED''"
| "reason_value EQC_QID_SESSION_NOT_YET_VALID = ''EQC_QID_SESSION_NOT_YET_VALID''"
| "reason_value EQC_INVALID_QID_PROOF = ''EQC_INVALID_QID_PROOF''"
| "reason_value QID_AUTHENTICITY_VERIFIER_MISSING = ''QID_AUTHENTICITY_VERIFIER_MISSING''"
| "reason_value SHIELD_AUTHENTICITY_VERIFIER_MISSING = ''SHIELD_AUTHENTICITY_VERIFIER_MISSING''"
| "reason_value ORACLE_AUTHENTICITY_VERIFIER_MISSING = ''ORACLE_AUTHENTICITY_VERIFIER_MISSING''"
| "reason_value EQC_QID_CONTEXT_HASH_MISMATCH = ''EQC_QID_CONTEXT_HASH_MISMATCH''"
| "reason_value QID_REPLAY_PROOF_MISSING = ''QID_REPLAY_PROOF_MISSING''"
| "reason_value QID_REPLAY_PROOF_INVALID = ''QID_REPLAY_PROOF_INVALID''"
| "reason_value QID_REPLAY_WALLET_MISMATCH = ''QID_REPLAY_WALLET_MISMATCH''"
| "reason_value QID_REPLAY_SUBJECT_MISMATCH = ''QID_REPLAY_SUBJECT_MISMATCH''"
| "reason_value QID_REPLAY_DEVICE_MISMATCH = ''QID_REPLAY_DEVICE_MISMATCH''"
| "reason_value QID_REPLAY_PROOF_HASH_MISMATCH = ''QID_REPLAY_PROOF_HASH_MISMATCH''"
| "reason_value QID_REPLAY_NONCE_MISMATCH = ''QID_REPLAY_NONCE_MISMATCH''"
| "reason_value QID_NONCE_REPLAY = ''QID_NONCE_REPLAY''"
| "reason_value EQC_MISSING_RISK_REPORT = ''EQC_MISSING_RISK_REPORT''"
| "reason_value EQC_RISK_CONTEXT_HASH_MISMATCH = ''EQC_RISK_CONTEXT_HASH_MISMATCH''"
| "reason_value EQC_RISK_SCORE_BELOW_THRESHOLD = ''EQC_RISK_SCORE_BELOW_THRESHOLD''"
| "reason_value EQC_INVALID_RISK_REPORT = ''EQC_INVALID_RISK_REPORT''"
| "reason_value EQC_MISSING_ORACLE = ''EQC_MISSING_ORACLE''"
| "reason_value EQC_MISSING_SHIELD_BUNDLE = ''EQC_MISSING_SHIELD_BUNDLE''"
| "reason_value EQC_INVALID_SHIELD_BUNDLE = ''EQC_INVALID_SHIELD_BUNDLE''"
| "reason_value EQC_SHIELD_CONTEXT_HASH_MISMATCH = ''EQC_SHIELD_CONTEXT_HASH_MISMATCH''"
| "reason_value EQC_SHIELD_STALE = ''EQC_SHIELD_STALE''"
| "reason_value EQC_CONFLICTING_EVIDENCE = ''EQC_CONFLICTING_EVIDENCE''"
| "reason_value UNKNOWN_EXTERNAL_REASON = ''UNKNOWN_EXTERNAL_REASON''"
| "reason_value EVIDENCE_OK = ''EVIDENCE_OK''"
| "reason_value WSQK_MISSING_WALLET_ID = ''WSQK_MISSING_WALLET_ID''"
| "reason_value WSQK_MISSING_ACTION = ''WSQK_MISSING_ACTION''"
| "reason_value WSQK_MISSING_CONTEXT_HASH = ''WSQK_MISSING_CONTEXT_HASH''"
| "reason_value WSQK_MISSING_NOW = ''WSQK_MISSING_NOW''"
| "reason_value WSQK_INVALID_TTL = ''WSQK_INVALID_TTL''"
| "reason_value WSQK_INVALID_NONCE = ''WSQK_INVALID_NONCE''"
| "reason_value WSQK_V2_INVALID_EVIDENCE_FAMILIES = ''WSQK_V2_INVALID_EVIDENCE_FAMILIES''"
| "reason_value WSQK_V2_UNKNOWN_EVIDENCE_FAMILY = ''WSQK_V2_UNKNOWN_EVIDENCE_FAMILY''"
| "reason_value WSQK_V2_INVALID_QUANTUM_POSTURE = ''WSQK_V2_INVALID_QUANTUM_POSTURE''"
| "reason_value WSQK_V2_AUTHORITY_MAPPING_MISSING_FIELD = ''WSQK_V2_AUTHORITY_MAPPING_MISSING_FIELD''"
| "reason_value WSQK_V2_AUTHORITY_MAPPING_INVALID_FIELD = ''WSQK_V2_AUTHORITY_MAPPING_INVALID_FIELD''"
| "reason_value WSQK_QID_POSTURE_MISMATCH = ''WSQK_QID_POSTURE_MISMATCH''"
| "reason_value WSQK_QID_HYBRID_REQUIRED = ''WSQK_QID_HYBRID_REQUIRED''"
| "reason_value WSQK_QID_BINDING_INVALID = ''WSQK_QID_BINDING_INVALID''"
| "reason_value OK_ALLOW = ''OK_ALLOW''"
| "reason_value DENY_SCHEMA_INVALID = ''DENY_SCHEMA_INVALID''"
| "reason_value DENY_UNKNOWN_FIELD = ''DENY_UNKNOWN_FIELD''"
| "reason_value DENY_VERSION_MISMATCH = ''DENY_VERSION_MISMATCH''"
| "reason_value DENY_INTENT_UNSUPPORTED = ''DENY_INTENT_UNSUPPORTED''"
| "reason_value DENY_PAYLOAD_INVALID = ''DENY_PAYLOAD_INVALID''"
| "reason_value DENY_TIMEBOX_INVALID = ''DENY_TIMEBOX_INVALID''"
| "reason_value DENY_TIMEBOX_EXPIRED = ''DENY_TIMEBOX_EXPIRED''"
| "reason_value DENY_TIMEBOX_NOT_YET_VALID = ''DENY_TIMEBOX_NOT_YET_VALID''"
| "reason_value DENY_TIMEBOX_SKEW_EXCEEDED = ''DENY_TIMEBOX_SKEW_EXCEEDED''"
| "reason_value DENY_NONCE_INVALID = ''DENY_NONCE_INVALID''"
| "reason_value DENY_NONCE_REPLAY = ''DENY_NONCE_REPLAY''"
| "reason_value DENY_NONCE_STORE_ERROR = ''DENY_NONCE_STORE_ERROR''"
| "reason_value DENY_AUTHORITY_INVALID = ''DENY_AUTHORITY_INVALID''"
| "reason_value DENY_AUTHORITY_INSUFFICIENT = ''DENY_AUTHORITY_INSUFFICIENT''"
| "reason_value DENY_POLICY = ''DENY_POLICY''"
| "reason_value DENY_EQC = ''DENY_EQC''"
| "reason_value DENY_WSQK = ''DENY_WSQK''"
| "reason_value DENY_TVA = ''DENY_TVA''"
| "reason_value DENY_ADAPTER_INVALID = ''DENY_ADAPTER_INVALID''"
| "reason_value DENY_ADAPTER_UNAVAILABLE = ''DENY_ADAPTER_UNAVAILABLE''"
| "reason_value ERR_INTERNAL = ''ERR_INTERNAL''"
| "reason_value ERR_UNHANDLED = ''ERR_UNHANDLED''"
| "reason_value DENY_NOT_WIRED = ''DENY_NOT_WIRED''"

definition reason_of_string :: "string \<Rightarrow> reason_id option" where
  "reason_of_string s = map_option fst (List.find (\<lambda>p. snd p = s) reason_members)"

lemma reason_members_distinct: "distinct (map snd reason_members)"
  by (simp add: reason_members_def)

lemma reason_members_value: "(r, reason_value r) \<in> set reason_members"
  by (cases r) (simp_all add: reason_members_def)

lemma reason_members_sound: "(r, s) \<in> set reason_members \<Longrightarrow> s = reason_value r"
proof -
  have "list_all (\<lambda>p. snd p = reason_value (fst p)) reason_members"
    by (simp add: reason_members_def)
  then show "(r, s) \<in> set reason_members \<Longrightarrow> s = reason_value r"
    unfolding list_all_iff by (metis fst_conv snd_conv)
qed

lemma reason_value_inj [simp]: "reason_value r = reason_value q \<longleftrightarrow> r = q"
proof
  assume eq: "reason_value r = reason_value q"
  have inv: "map_of (map (\<lambda>p. (snd p, fst p)) reason_members) (reason_value x) = Some x" for x
  proof (rule map_of_is_SomeI)
    show "distinct (map fst (map (\<lambda>p. (snd p, fst p)) reason_members))"
      using reason_members_distinct by (simp add: comp_def)
    show "(reason_value x, x) \<in> set (map (\<lambda>p. (snd p, fst p)) reason_members)"
      using imageI[OF reason_members_value[of x], of "\<lambda>p. (snd p, fst p)"] by simp
  qed
  have "Some r = Some q" by (rule trans[OF sym[OF inv[of r]] inv[of q, folded eq]])
  then show "r = q" by (rule option.inject[THEN iffD1])
qed simp

lemma reason_of_string_value [simp]: "reason_of_string (reason_value r) = Some r"
proof -
  have "List.find (\<lambda>p. snd p = reason_value r) reason_members \<noteq> None"
    unfolding find_None_iff using reason_members_value[of r] by (metis snd_conv)
  then obtain p where p: "List.find (\<lambda>p. snd p = reason_value r) reason_members = Some p" by blast
  then have "p \<in> set reason_members" "snd p = reason_value r"
    unfolding find_Some_iff by (metis nth_mem)+
  then have "fst p = r" using reason_members_sound[of "fst p" "snd p"] by (metis prod.collapse reason_value_inj)
  then show ?thesis using p by (simp add: reason_of_string_def)
qed

lemma reason_of_string_Some: "reason_of_string s = Some r \<longleftrightarrow> s = reason_value r"
proof
  assume "reason_of_string s = Some r"
  then obtain p where p: "List.find (\<lambda>p. snd p = s) reason_members = Some p" "fst p = r"
    by (auto simp: reason_of_string_def)
  then have "p \<in> set reason_members" "snd p = s"
    unfolding find_Some_iff by (metis nth_mem)+
  then show "s = reason_value r" using p(2) reason_members_sound by (metis prod.collapse)
qed simp

section \<open>Verdict\<close>

datatype verdict = ALLOW | DENY | STEP_UP

primrec verdict_value :: "verdict \<Rightarrow> string" where
  "verdict_value ALLOW = ''ALLOW''"
| "verdict_value DENY = ''DENY''"
| "verdict_value STEP_UP = ''STEP_UP''"

lemma verdict_value_inj [simp]: "verdict_value v = verdict_value w \<longleftrightarrow> v = w"
  by (cases v; cases w) simp_all

end
