(* ===== verification/Errors.thy ===== *)
theory Errors
  imports Py_Value Reason_Ids
begin

text \<open>
  The exceptions of the sources: \<open>AdapterError\<close> (\<open>integrations/errors.py\<close>) and
  \<open>EnvelopeError\<close> (\<open>execution/errors.py\<close>) carry a \<open>ReasonId\<close>; \<open>TVAError\<close>
  (\<open>adamantine/errors.py\<close>) carries the value of one; the rest are Python's own. Class
  inheritance matters where the sources write \<open>except ValueError\<close>.
\<close>

datatype pyexc =
    AdapterError reason_id string
  | EnvelopeError reason_id string
  | TVAError string
  | ContextHashError string
  | ValueError string
  | TypeError string
  | AttributeError string
  | OtherError string

text \<open>\<open>isinstance(e, ValueError)\<close>: \<open>TVAError\<close> derives from \<open>Exception\<close> directly.\<close>

fun is_value_error :: "pyexc \<Rightarrow> bool" where
  "is_value_error (AdapterError _ _) = True"
| "is_value_error (EnvelopeError _ _) = True"
| "is_value_error (ContextHashError _) = True"
| "is_value_error (ValueError _) = True"
| "is_value_error _ = False"

text \<open>\<open>str(e)\<close>.\<close>

fun exc_str :: "pyexc \<Rightarrow> string" where
  "exc_str (AdapterError r m) = reason_value r @ '': '' @ m"
| "exc_str (EnvelopeError r m) = reason_value r @ '': '' @ m"
| "exc_str (TVAError m) = m"
| "exc_str (ContextHashError m) = m"
| "exc_str (ValueError m) = m"
| "exc_str (TypeError m) = m"
| "exc_str (AttributeError m) = m"
| "exc_str (OtherError m) = m"

text \<open>\<open>try: m except ValueError: raise e\<close>.\<close>

definition reraise_value_error :: "pyexc + 'a \<Rightarrow> (pyexc \<Rightarrow> pyexc) \<Rightarrow> pyexc + 'a" where
  "reraise_value_error m f = catch_r m (\<lambda>e. Inl (if is_value_error e then f e else e))"

lemma reraise_value_error_eq_Inr [res_simps]:
  "reraise_value_error m f = Inr x \<longleftrightarrow> m = Inr x"
  by (simp add: reraise_value_error_def res_simps)

lemma reraise_value_error_Inr [simp]: "reraise_value_error (Inr x) f = Inr x"
  by (simp add: reraise_value_error_def)

text \<open>\<open>json.dumps\<close> as the sources meet it: its failures are \<open>ValueError\<close> and \<open>TypeError\<close>.\<close>

definition json_dumps :: "bool \<Rightarrow> bool \<Rightarrow> pyval \<Rightarrow> pyexc + string" where
  "json_dumps a n v = (case json_val a n v of
     Inl (Inl m) \<Rightarrow> Inl (ValueError m) | Inl (Inr m) \<Rightarrow> Inl (TypeError m) | Inr s \<Rightarrow> Inr s)"

lemma json_dumps_ok [res_simps]: "json_dumps a n v = Inr s \<longleftrightarrow> json_val a n v = Inr s"
  by (auto simp: json_dumps_def split: sum.splits)

end
