(* ===== verification/Sha256.thy ===== *)
theory Sha256
  imports Prelude "HOL-Library.Word"
begin

unbundle bit_operations_syntax

text \<open>
  The two library calls behind every hash of the sources: \<open>s.encode("utf-8")\<close> and
  \<open>hashlib.sha256(b).hexdigest()\<close>, computed on 32-bit words as FIPS 180-4 states it. The
  length block is the 64-bit big-endian bit count, so the definition is SHA-256 for
  messages below $2^{61}$ bytes.
\<close>

section \<open>UTF-8 of Latin-1 code points\<close>

definition utf8_char :: "char \<Rightarrow> nat list" where
  "utf8_char c = (let n = (of_char c :: nat) in
     if n < 128 then [n] else [192 + n div 64, 128 + n mod 64])"

definition utf8 :: "string \<Rightarrow> nat list" where
  "utf8 s = concat (map utf8_char s)"

lemma utf8_simps [simp]:
  "utf8 [] = []"
  "utf8 (c # s) = utf8_char c @ utf8 s"
  by (simp_all add: utf8_def)

lemma utf8_append: "utf8 (s @ t) = utf8 s @ utf8 t"
  by (simp add: utf8_def)

lemma of_char_lt: "(of_char c :: nat) < 256"
  by (rule nat_of_char_less_256)

lemma of_char_eq: "(of_char c :: nat) = of_char d \<longleftrightarrow> c = d"
  by (rule of_char_eq_iff)

lemma utf8_char_cancel:
  assumes "utf8_char c @ r = utf8_char d @ t"
  shows "c = d \<and> r = t"
proof -
  obtain m n where m: "m = (of_char c :: nat)" and n: "n = (of_char d :: nat)" by blast
  have lt: "m < 256" "n < 256" using m n of_char_lt by auto
  have *: "x mod 64 = y mod 64 \<Longrightarrow> x div 64 = y div 64 \<Longrightarrow> x = y" for x y :: nat
    by (metis div_mult_mod_eq)
  have "m = n \<and> r = t"
    using assms lt * by (auto simp: utf8_char_def Let_def m[symmetric] n[symmetric] split: if_splits)
  then show ?thesis using m n of_char_eq by auto
qed

lemma utf8_char_ne [simp]: "utf8_char c \<noteq> []"
  by (simp add: utf8_char_def Let_def)

lemma utf8_inj [simp]: "utf8 s = utf8 t \<longleftrightarrow> s = t"
proof
  show "utf8 s = utf8 t \<Longrightarrow> s = t"
  proof (induction s arbitrary: t)
    case Nil
    then show ?case by (cases t) auto
  next
    case (Cons c s)
    then obtain d t' where t: "t = d # t'" by (cases t) auto
    then show ?case using Cons utf8_char_cancel[of c "utf8 s" d "utf8 t'"] by auto
  qed
qed simp

section \<open>SHA-256\<close>

type_synonym word32 = "32 word"

text \<open>
  The round constants and the initial state: the first 32 bits of the fractional parts of the
  cube and square roots of the first primes, in decimal.
\<close>

definition sha_k :: "word32 list" where
  "sha_k =
    [1116352408, 1899447441, 3049323471, 3921009573, 961987163, 1508970993,
     2453635748, 2870763221, 3624381080, 310598401, 607225278, 1426881987,
     1925078388, 2162078206, 2614888103, 3248222580, 3835390401, 4022224774,
     264347078, 604807628, 770255983, 1249150122, 1555081692, 1996064986,
     2554220882, 2821834349, 2952996808, 3210313671, 3336571891, 3584528711,
     113926993, 338241895, 666307205, 773529912, 1294757372, 1396182291,
     1695183700, 1986661051, 2177026350, 2456956037, 2730485921, 2820302411,
     3259730800, 3345764771, 3516065817, 3600352804, 4094571909, 275423344,
     430227734, 506948616, 659060556, 883997877, 958139571, 1322822218,
     1537002063, 1747873779, 1955562222, 2024104815, 2227730452, 2361852424,
     2428436474, 2756734187, 3204031479, 3329325298]"

definition sha_h0 :: "word32 list" where
  "sha_h0 =
    [1779033703, 3144134277, 1013904242, 2773480762, 1359893119, 2600822924,
     528734635, 1541459225]"

definition rotr :: "nat \<Rightarrow> word32 \<Rightarrow> word32" where
  "rotr n x = (drop_bit n x) OR (push_bit (32 - n) x)"

definition bytes_be :: "nat \<Rightarrow> nat \<Rightarrow> nat list" where
  "bytes_be k n = map (\<lambda>i. n div 256 ^ (k - 1 - i) mod 256) [0..<k]"

definition sha_pad :: "nat list \<Rightarrow> nat list" where
  "sha_pad b = b @ [128] @ replicate ((119 - length b mod 64) mod 64) 0 @ bytes_be 8 (8 * length b)"

definition be32 :: "nat list \<Rightarrow> word32" where
  "be32 b = foldl (\<lambda>a x. a * 256 + of_nat x) 0 b"

fun chunks :: "nat \<Rightarrow> 'a list \<Rightarrow> 'a list list" where
  "chunks n xs = (if n = 0 \<or> xs = [] then [] else take n xs # chunks n (drop n xs))"

declare chunks.simps [simp del]

definition sha_next_w :: "word32 list \<Rightarrow> word32" where
  "sha_next_w ws = (let t = length ws; a = ws ! (t - 15); b = ws ! (t - 2) in
     ws ! (t - 16) + (rotr 7 a XOR rotr 18 a XOR drop_bit 3 a)
       + ws ! (t - 7) + (rotr 17 b XOR rotr 19 b XOR drop_bit 10 b))"

definition sha_schedule :: "word32 list \<Rightarrow> word32 list" where
  "sha_schedule block = ((\<lambda>ws. ws @ [sha_next_w ws]) ^^ 48) block"

fun sha_round :: "word32 list \<Rightarrow> word32 \<times> word32 \<Rightarrow> word32 list" where
  "sha_round [a, b, c, d, e, f, g, h] (k, w) = (let
     t1 = h + (rotr 6 e XOR rotr 11 e XOR rotr 25 e) + ((e AND f) XOR (NOT e AND g)) + k + w;
     t2 = (rotr 2 a XOR rotr 13 a XOR rotr 22 a) + ((a AND b) XOR (a AND c) XOR (b AND c))
   in [t1 + t2, a, b, c, d + t1, e, f, g])"
| "sha_round s _ = s"

definition sha_block :: "word32 list \<Rightarrow> word32 list \<Rightarrow> word32 list" where
  "sha_block hs block = map2 (+) hs (foldl sha_round hs (zip sha_k (sha_schedule block)))"

definition sha_digest :: "nat list \<Rightarrow> word32 list" where
  "sha_digest b = foldl sha_block sha_h0 (map (\<lambda>c. map be32 (chunks 4 c)) (chunks 64 (sha_pad b)))"

definition hex_word :: "word32 \<Rightarrow> string" where
  "hex_word w = map (\<lambda>i. hex_digit (unat w div 16 ^ (7 - i) mod 16)) [0..<8]"

definition sha256_hex :: "nat list \<Rightarrow> string" where
  "sha256_hex b = concat (map hex_word (sha_digest b))"

lemma sha_round_length: "length hs = 8 \<Longrightarrow> length (sha_round hs kw) = 8"
  by (cases "(hs, kw)" rule: sha_round.cases) (auto simp: Let_def)

lemma foldl_sha_round_length: "length hs = 8 \<Longrightarrow> length (foldl sha_round hs kws) = 8"
  by (induction kws arbitrary: hs) (auto simp: sha_round_length)

lemma sha_block_length: "length hs = 8 \<Longrightarrow> length (sha_block hs b) = 8"
  by (simp add: sha_block_def foldl_sha_round_length)

lemma foldl_sha_block_length: "length hs = 8 \<Longrightarrow> length (foldl sha_block hs bs) = 8"
  by (induction bs arbitrary: hs) (auto simp: sha_block_length)

lemma is_hex_lower_hex_digit [simp]:
  assumes "d < 16"
  shows "is_hex_lower (hex_digit d)"
proof -
  have "list_all (\<lambda>d. is_hex_lower (hex_digit d)) [0..<16]" by code_simp
  then show ?thesis using assms by (simp add: list_all_iff)
qed

lemma length_concat_const: "(\<And>x. x \<in> set xs \<Longrightarrow> length x = n) \<Longrightarrow> length (concat xs) = n * length xs"
  by (induction xs) auto

text \<open>A digest always passes the check that the sources make of a hash field.\<close>

lemma sha256_hex_is_hex [simp]: "is_sha256_hex (sha256_hex b)"
proof -
  have "length (sha_digest b) = 8" by (simp add: sha_digest_def foldl_sha_block_length sha_h0_def)
  then have "length (sha256_hex b) = 64"
    unfolding sha256_hex_def by (subst length_concat_const[where n = 8]) (auto simp: hex_word_def)
  moreover have "list_all is_hex_lower (sha256_hex b)"
    by (auto simp: sha256_hex_def hex_word_def list_all_iff)
  ultimately show ?thesis by (simp add: is_sha256_hex_def)
qed

lemma length_sha256_hex [simp]: "length (sha256_hex b) = 64"
  using sha256_hex_is_hex[of b] by (simp add: is_sha256_hex_def)

lemma sha256_hex_ne [simp]: "sha256_hex b \<noteq> []"
  using length_sha256_hex[of b] by (metis list.size(3) zero_neq_numeral)

end
