(* ===== verification/Iso_Time.thy ===== *)
theory Iso_Time
  imports Sha256
begin

text \<open>
  The part of Python's \<open>datetime\<close> the sources use: \<open>datetime.fromisoformat(s)\<close>, moving an
  aware or a local time to UTC, \<open>int(dt.timestamp())\<close>, and \<open>datetime.fromtimestamp(n, tz=utc)\<close> with
  its \<open>isoformat()\<close>. The parser follows CPython's C implementation (3.11) on the UTF-8
  bytes of the string, its treatment of a stray character before the zone included; a
  calendar or ISO-week date, extended or basic, and a time to any precision are accepted.
\<close>

section \<open>The calendar\<close>

definition is_leap :: "int \<Rightarrow> bool" where
  "is_leap y \<longleftrightarrow> y mod 4 = 0 \<and> (y mod 100 \<noteq> 0 \<or> y mod 400 = 0)"

definition days_before_year :: "int \<Rightarrow> int" where
  "days_before_year y = (y - 1) * 365 + (y - 1) div 4 - (y - 1) div 100 + (y - 1) div 400"

definition month_lengths :: "int \<Rightarrow> int list" where
  "month_lengths y = [31, if is_leap y then 29 else 28, 31, 30, 31, 30, 31, 31, 30, 31, 30, 31]"

definition days_in_month :: "int \<Rightarrow> int \<Rightarrow> int" where
  "days_in_month y m = month_lengths y ! nat (m - 1)"

definition days_before_month :: "int \<Rightarrow> int \<Rightarrow> int" where
  "days_before_month y m = sum_list (take (nat (m - 1)) (month_lengths y))"

text \<open>The proleptic Gregorian ordinal, 1 for 0001-01-01.\<close>

definition ymd2ord :: "int \<Rightarrow> int \<Rightarrow> int \<Rightarrow> int" where
  "ymd2ord y m d = days_before_year y + days_before_month y m + d"

definition valid_date :: "int \<Rightarrow> int \<Rightarrow> int \<Rightarrow> bool" where
  "valid_date y m d \<longleftrightarrow> 1 \<le> y \<and> y \<le> 9999 \<and> 1 \<le> m \<and> m \<le> 12 \<and> 1 \<le> d \<and> d \<le> days_in_month y m"

definition max_ordinal :: int where
  "max_ordinal = 3652059"

text \<open>The inverse: the year by cycles of 400, 100, 4 and 1 years, then the month.\<close>

fun find_month :: "int \<Rightarrow> int list \<Rightarrow> int \<Rightarrow> int \<times> int" where
  "find_month m [] r = (m, r + 1)"
| "find_month m (l # ls) r = (if r < l \<or> ls = [] then (m, r + 1) else find_month (m + 1) ls (r - l))"

definition ord_year :: "int \<Rightarrow> int \<times> int" where
  "ord_year n0 = (let n = n0 - 1;
     n400 = n div 146097; n' = n mod 146097;
     n100 = n' div 36524; n'' = n' mod 36524;
     n4 = n'' div 1461; n''' = n'' mod 1461;
     n1 = n''' div 365; r = n''' mod 365;
     y = n400 * 400 + n100 * 100 + n4 * 4 + n1 + 1
   in if n1 = 4 \<or> n100 = 4 then (y - 1, 365) else (y, r))"

definition ord2ymd :: "int \<Rightarrow> int \<times> int \<times> int" where
  "ord2ymd n = (let (y, r) = ord_year n; (m, d) = find_month 1 (month_lengths y) r in (y, m, d))"

text \<open>Monday of ISO week 1, and \<open>date.fromisocalendar\<close>.\<close>

definition isoweek1monday :: "int \<Rightarrow> int" where
  "isoweek1monday y = (let first = ymd2ord y 1 1; wd = (first + 6) mod 7; mon = first - wd
     in if 3 < wd then mon + 7 else mon)"

definition isoweek_to_ordinal :: "int \<Rightarrow> int \<Rightarrow> int \<Rightarrow> int option" where
  "isoweek_to_ordinal y w d =
    (let fw = ymd2ord y 1 1 mod 7 in
     if y < 1 \<or> 9999 < y then None
     else if w < 1 \<or> 53 < w \<or> w = 53 \<and> \<not> (fw = 4 \<or> fw = 3 \<and> is_leap y) then None
     else if d < 1 \<or> 7 < d then None
     else Some (isoweek1monday y + (w - 1) * 7 + (d - 1)))"

section \<open>The parser\<close>

definition bdigit :: "nat \<Rightarrow> bool" where
  "bdigit b \<longleftrightarrow> 48 \<le> b \<and> b \<le> 57"

text \<open>\<open>parse_digits(p, n)\<close>: exactly \<open>n\<close> ASCII digits, and what follows them.\<close>

definition parse_digits :: "nat \<Rightarrow> nat list \<Rightarrow> (int \<times> nat list) option" where
  "parse_digits n p = (if n \<le> length p \<and> list_all bdigit (take n p)
     then Some (foldl (\<lambda>a b. a * 10 + (int b - 48)) 0 (take n p), drop n p) else None)"

definition date_separator :: "nat list \<Rightarrow> nat option" where
  "date_separator s = (let len = length s; at = (\<lambda>i. if i < len then s ! i else 0) in
     if len = 7 then Some 7
     else if at 4 = 45 then
       (if at 5 = 87 then
          (if 8 < len \<and> at 8 = 45 then
             (if len = 9 then None else if 10 < len \<and> bdigit (at 10) then Some 8 else Some 10)
           else Some 8)
        else Some 10)
     else if at 4 = 87 then
       (let idx = 7 + length (takeWhile bdigit (drop 7 s)) in
        if idx < 9 then Some idx else if even idx then Some 7 else Some 8)
     else Some 8)"

text \<open>The ordinal of the date in the first \<open>len\<close> bytes.\<close>

definition parse_date :: "nat list \<Rightarrow> nat \<Rightarrow> int option" where
  "parse_date s len = (case parse_digits 4 s of None \<Rightarrow> None | Some (y, p) \<Rightarrow>
     let sep = (p \<noteq> [] \<and> hd p = 45); p1 = (if sep then tl p else p) in
     if p1 \<noteq> [] \<and> hd p1 = 87 then
       (case parse_digits 2 (tl p1) of None \<Rightarrow> None | Some (w, p2) \<Rightarrow>
        if length s - length p2 < len then
          (if sep \<and> (p2 = [] \<or> hd p2 \<noteq> 45) then None
           else case parse_digits 1 (if sep then tl p2 else p2) of None \<Rightarrow> None
             | Some (d, _) \<Rightarrow> isoweek_to_ordinal y w d)
        else isoweek_to_ordinal y w 1)
     else
       (case parse_digits 2 p1 of None \<Rightarrow> None | Some (m, p2) \<Rightarrow>
        if sep \<and> (p2 = [] \<or> hd p2 \<noteq> 45) then None
        else case parse_digits 2 (if sep then tl p2 else p2) of None \<Rightarrow> None
          | Some (d, _) \<Rightarrow> if valid_date y m d then Some (ymd2ord y m d) else None))"

text \<open>
  \<open>HH[:?MM[:?SS[.fff]]]\<close> on one segment: hours, minutes, seconds, microseconds, and
  whether the segment was read to its end.
\<close>

definition parse_fraction :: "nat list \<Rightarrow> (int \<times> bool) option" where
  "parse_fraction p = (let n = min 6 (length p) in
     case parse_digits n p of None \<Rightarrow> None
     | Some (v, q) \<Rightarrow> (let rest = dropWhile bdigit q in
         Some (v * 10 ^ (6 - n), rest = [] \<or> hd rest = 0)))"

function parse_hms :: "nat \<Rightarrow> bool \<Rightarrow> int list \<Rightarrow> nat list \<Rightarrow> (int list \<times> int \<times> bool) option" where
  "parse_hms i sep vals p = (case parse_digits 2 p of None \<Rightarrow> None | Some (v, q) \<Rightarrow>
     (case q of [] \<Rightarrow> Some (vals @ [v], 0, True)
      | c # r \<Rightarrow>
        let sep' = (if i = 0 then c = 58 else sep) in
        if r = [] then Some (vals @ [v], 0, c = 0)
        else if sep' \<and> c = 58 then
          (if i < 2 then parse_hms (i + 1) sep' (vals @ [v]) r
           else map_option (\<lambda>(us, clean). (vals @ [v], us, clean)) (parse_fraction r))
        else if c = 46 \<or> c = 44 then
          map_option (\<lambda>(us, clean). (vals @ [v], us, clean)) (parse_fraction r)
        else if \<not> sep' then
          (if i < 2 then parse_hms (i + 1) sep' (vals @ [v]) (c # r)
           else map_option (\<lambda>(us, clean). (vals @ [v], us, clean)) (parse_fraction (c # r)))
        else None))"
  by pat_completeness auto
termination by (relation "measure (\<lambda>(i, _). 3 - i)") auto

declare parse_hms.simps [simp del]

definition micros_of :: "int list \<Rightarrow> int \<Rightarrow> int" where
  "micros_of vals us = (let at = (\<lambda>i. if i < length vals then vals ! i else 0) in
     ((at 0 * 60 + at 1) * 60 + at 2) * 1000000 + us)"

text \<open>
  The time of day in microseconds, and the offset from UTC in microseconds when there is a
  zone.
\<close>

definition parse_time :: "nat list \<Rightarrow> (int \<times> int option) option" where
  "parse_time s =
    (let tz = (\<lambda>b. b = 43 \<or> b = 45 \<or> b = 90);
         seg = takeWhile (\<lambda>b. \<not> tz b) s; rest = dropWhile (\<lambda>b. \<not> tz b) s in
     case parse_hms 0 True [] seg of None \<Rightarrow> None | Some (vals, us, clean) \<Rightarrow>
     let at = (\<lambda>i. if i < length vals then vals ! i else 0);
         in_range = (at 0 \<le> 23 \<and> at 1 \<le> 59 \<and> at 2 \<le> 59) in
     (case rest of
        [] \<Rightarrow> if clean \<and> in_range then Some (micros_of vals us, None) else None
      | c # z \<Rightarrow>
        if c = 90 then (if (z = [] \<or> hd z = 0) \<and> in_range then Some (micros_of vals us, Some 0) else None)
        else (case parse_hms 0 True [] z of None \<Rightarrow> None | Some (zv, zus, zclean) \<Rightarrow>
          let off = (if c = 45 then -1 else 1) * micros_of zv zus in
          if zclean \<and> in_range \<and> abs off < 86400000000 then Some (micros_of vals us, Some off) else None)))"

text \<open>\<open>datetime.fromisoformat\<close>: microseconds since 0001-01-01 minus a day, and the offset.\<close>

definition fromisoformat :: "string \<Rightarrow> (int \<times> int option) option" where
  "fromisoformat str = (let s = utf8 str in
     if length s < 7 then None else
     case date_separator s of None \<Rightarrow> None | Some loc \<Rightarrow>
     case parse_date s loc of None \<Rightarrow> None | Some ord \<Rightarrow>
     if length s \<le> loc + 1 then Some (ord * 86400000000, None)
     else let t = (if s ! loc < 128 then drop (loc + 1) s else drop (loc + 2) s) in
       case parse_time t of None \<Rightarrow> None
       | Some (us, off) \<Rightarrow> Some (ord * 86400000000 + us, off))"

section \<open>Moving a time to UTC\<close>

text \<open>
  \<open>dt.astimezone(timezone.utc)\<close>, in microseconds, with the exceptions as values. An aware time
  only leaves the calendar (\<open>OverflowError\<close>). A time without zone is local time: CPython looks for
  the UTC second that the host's \<open>localtime\<close> maps to it (\<open>local_to_seconds\<close> in
  \<open>_datetimemodule.c\<close>, 3.11, for \<open>fold = 0\<close>: the candidate one offset away, then, to prefer the
  earlier of two solutions, a day before it, then the candidate of the second offset) and raises
  \<open>ValueError\<close> when one of the local times it asks for lies outside the years 1 to 9999, so for
  every time on 0001-01-01 whatever the offset (\<open>first_day_out_of_range\<close>). The host enters as one parameter, the offset
  \<open>tm_gmtoff\<close> of its zone at a Unix second; an offset of a day or more is refused by the
  constructor of \<open>timezone\<close>.
\<close>

type_synonym host_zone = "int \<Rightarrow> int"

definition in_calendar :: "int \<Rightarrow> bool" where
  "in_calendar us \<longleftrightarrow> 86400000000 \<le> us \<and> us < (max_ordinal + 1) * 86400000000"

definition date_range_error :: string where
  "date_range_error = ''OverflowError: date value out of range''"

definition year_range_error :: "int \<Rightarrow> string" where
  "year_range_error y = ''ValueError: year '' @ show_int y @ '' is out of range''"

definition repr_timedelta :: "int \<Rightarrow> string" where
  "repr_timedelta s = (let part = (\<lambda>n v. if v = 0 then [] else [n @ show_int v]) in
     ''datetime.timedelta('' @ join_str '', '' (part ''days='' (s div 86400) @ part ''seconds='' (s mod 86400)) @ '')'')"

definition offset_range_error :: "int \<Rightarrow> string" where
  "offset_range_error s = ''ValueError: offset must be a timedelta strictly between '' @
     ''-timedelta(hours=24) and timedelta(hours=24), not '' @ repr_timedelta s @ ''.''"

definition aware_to_utc :: "int \<Rightarrow> int \<Rightarrow> string + int" where
  "aware_to_utc us off = (if in_calendar (us - off) then Inr (us - off) else Inl date_range_error)"

text \<open>The local second of a UTC second, both counted like the microseconds above.\<close>

definition local_seconds :: "host_zone \<Rightarrow> int \<Rightarrow> string + int" where
  "local_seconds gmtoff u = (let l = u + gmtoff (u - 719163 * 86400); y = fst (ord_year (l div 86400))
     in if y < 1 \<or> 9999 < y then Inl (year_range_error y) else Inr l)"

definition local_to_seconds :: "host_zone \<Rightarrow> int \<Rightarrow> string + int" where
  "local_to_seconds gmtoff t =
     bind_r (local_seconds gmtoff t) (\<lambda>lt. let a = lt - t; u1 = t - a in
     bind_r (local_seconds gmtoff u1) (\<lambda>t1.
     bind_r (if t1 = t then bind_r (local_seconds gmtoff (u1 - 86400)) (\<lambda>l. Inr (l - (u1 - 86400)))
       else Inr (t1 - u1)) (\<lambda>b.
     if t1 = t \<and> a = b then Inr u1
     else let u2 = t - b in
       bind_r (local_seconds gmtoff u2) (\<lambda>t2.
       Inr (if t2 = t then u2 else if t1 = t then u1 else max u1 u2)))))"

definition local_to_utc :: "host_zone \<Rightarrow> int \<Rightarrow> string + int" where
  "local_to_utc gmtoff us =
     bind_r (local_to_seconds gmtoff (us div 1000000)) (\<lambda>u. let off = gmtoff (u - 719163 * 86400) in
     if 86400 \<le> \<bar>off\<bar> then Inl (offset_range_error off) else aware_to_utc us (off * 1000000))"

text \<open>A host on UTC moves nothing, but for the first day of the calendar.\<close>

definition utc_host :: host_zone where
  "utc_host u = 0"

section \<open>Unix seconds\<close>

definition unix_epoch_us :: int where
  "unix_epoch_us = 719163 * 86400000000"

text \<open>
  \<open>int(us / 10**6)\<close>: the quotient rounded to a double, ties to even, then truncated. Only
  fractions of a microsecond near a whole second beyond the year 2500 feel the rounding.
\<close>

fun log2_nat :: "nat \<Rightarrow> nat" where
  "log2_nat n = (if n < 2 then 0 else log2_nat (n div 2) + 1)"

declare log2_nat.simps [simp del]

definition round_half_even :: "int \<Rightarrow> int \<Rightarrow> int" where
  "round_half_even n d = (let q = n div d; r = n mod d in
     if 2 * r < d \<or> 2 * r = d \<and> even q then q else q + 1)"

definition float_trunc_div :: "int \<Rightarrow> int" where
  "float_trunc_div us = (let a = \<bar>us\<bar>; k = log2_nat (nat (a div 1000000)); s = 2 ^ (52 - k) in
     sgn us * (round_half_even (a * s) 1000000 div s))"

text \<open>
  \<open>int(dt.astimezone(utc).timestamp())\<close>; \<^const>\<open>None\<close> is the \<open>OverflowError\<close> of a UTC time
  outside the years 1 to 9999.
\<close>

definition utc_timestamp :: "int \<Rightarrow> int \<Rightarrow> int option" where
  "utc_timestamp us off = (case aware_to_utc us off of Inl _ \<Rightarrow> None
     | Inr u \<Rightarrow> Some (float_trunc_div (u - unix_epoch_us)))"

definition two_digits :: "int \<Rightarrow> string" where
  "two_digits n = [digit_char (nat (n div 10) mod 10), digit_char (nat n mod 10)]"

definition four_digits :: "int \<Rightarrow> string" where
  "four_digits n = two_digits (n div 100) @ two_digits (n mod 100)"

text \<open>\<open>datetime.fromtimestamp(n, tz=utc).isoformat()\<close>; \<^const>\<open>None\<close> is the range error.\<close>

definition utc_isoformat :: "int \<Rightarrow> string option" where
  "utc_isoformat n = (let ord = n div 86400 + 719163; sec = n mod 86400 in
     if ord < 1 \<or> max_ordinal < ord then None
     else let (y, m, d) = ord2ymd ord in
       Some (four_digits y @ ''-'' @ two_digits m @ ''-'' @ two_digits d @ ''T'' @
         two_digits (sec div 3600) @ '':'' @ two_digits (sec mod 3600 div 60) @ '':'' @
         two_digits (sec mod 60) @ ''+00:00''))"

lemma float_trunc_div_exact: "float_trunc_div (n * 1000000) = n"
proof -
  let ?k = "log2_nat (nat \<bar>n\<bar>)"
  have a: "\<bar>n * 1000000\<bar> = \<bar>n\<bar> * (1000000 :: int)" by (simp add: abs_mult)
  have r: "round_half_even (\<bar>n\<bar> * 1000000 * s) 1000000 = \<bar>n\<bar> * s" for s :: int
    by (simp add: round_half_even_def Let_def mult.assoc mult.left_commute[of _ 1000000])
  have "sgn (n * 1000000) = sgn n" by (simp add: sgn_mult)
  then show ?thesis unfolding float_trunc_div_def Let_def a by (simp add: r sgn_mult_abs)
qed

text \<open>What \<open>astimezone\<close> raises, and that every local time on the first day of the calendar raises.\<close>

lemma local_to_utc_errors:
  assumes "local_to_utc gmtoff us = Inl m"
  shows "m = date_range_error \<or> (\<exists>y. (y < 1 \<or> 9999 < y) \<and> m = year_range_error y) \<or>
    (\<exists>off. 86400 \<le> \<bar>off\<bar> \<and> m = offset_range_error off)"
proof -
  have year: "\<exists>y. (y < 1 \<or> 9999 < y) \<and> e = year_range_error y" if "local_seconds gmtoff u = Inl e" for u e
    using that by (auto simp: local_seconds_def Let_def split: if_splits)
  have "\<exists>y. (y < 1 \<or> 9999 < y) \<and> e = year_range_error y" if "local_to_seconds gmtoff t = Inl e" for t e
    using that by (auto simp: local_to_seconds_def bind_r_eq_Inl Let_def split: if_splits dest: year)
  then show ?thesis
    using assms by (auto simp: local_to_utc_def aware_to_utc_def bind_r_eq_Inl Let_def split: if_splits)
qed

lemma first_day_out_of_range:
  assumes "86400000000 \<le> us" "us < 2 * 86400000000" "\<bar>c\<bar> \<le> 86400"
  shows "local_to_utc (\<lambda>_. c) us = Inl (year_range_error 0)"
proof -
  define t where "t = us div 1000000"
  have t: "86400 \<le> t" "t < 172800" using assms(1,2) unfolding t_def by linarith+
  have year: "fst (ord_year 0) = 0" "fst (ord_year 1) = 1" "fst (ord_year 2) = 1" by code_simp+
  have before: "local_seconds (\<lambda>_. c) u = Inl (year_range_error 0)" if "0 \<le> u + c" "u + c < 86400" for u
    using that by (simp add: local_seconds_def Let_def year)
  have within: "local_seconds (\<lambda>_. c) u = Inr (u + c)" if "86400 \<le> u + c" "u + c < 259200" for u
  proof -
    have "(u + c) div 86400 = 1 \<or> (u + c) div 86400 = 2" using that by linarith
    then show ?thesis by (elim disjE) (simp_all add: local_seconds_def Let_def year)
  qed
  have c: "- 86400 \<le> c" "c \<le> 86400" using assms(3) by linarith+
  have "local_to_seconds (\<lambda>_. c) t = Inl (year_range_error 0)"
  proof (cases "t + c < 86400")
    case True
    then have "local_seconds (\<lambda>_. c) t = Inl (year_range_error 0)" using t c before[of t] by simp
    then show ?thesis by (simp add: local_to_seconds_def)
  next
    case False
    have "local_seconds (\<lambda>_. c) t = Inr (t + c)" "local_seconds (\<lambda>_. c) (t - c) = Inr t"
      "local_seconds (\<lambda>_. c) (t - c - 86400) = Inl (year_range_error 0)"
      using False t c within[of t] within[of "t - c"] before[of "t - c - 86400"] by simp_all
    then show ?thesis by (simp add: local_to_seconds_def Let_def)
  qed
  then show ?thesis by (simp add: local_to_utc_def t_def)
qed

end
