(* ===== verification/Responses.thy ===== *)
theory Responses
  imports Errors Iso_Time
begin

text \<open>
  \<open>src/adamantine/v1/execution/response_v1.py\<close> and \<open>response_v2.py\<close>: the deterministic
  builders of the two execution responses. A response is the Python dictionary that the
  builder returns. In v1 the reason is whatever the caller passes: a \<open>ReasonId\<close>, or a
  plain string, which has no \<open>.value\<close>.
\<close>

definition response_statuses :: "string list" where
  "response_statuses = [''allow'', ''deny'', ''error'']"

definition protection_modes :: "string list" where
  "protection_modes = [''legacy'', ''minimal'', ''full'']"

section \<open>Response v1\<close>

datatype reason_arg = RId reason_id | RStr string

fun reason_arg_value :: "reason_arg \<Rightarrow> pyexc + string" where
  "reason_arg_value (RId r) = Inr (reason_value r)"
| "reason_arg_value (RStr s) = Inl (AttributeError
    (repr_str ''str'' @ '' object has no attribute '' @ repr_str ''value''))"

record response_v1_args =
  r1_request_id :: string
  r1_intent :: string
  r1_action :: string
  r1_context_hash :: string
  r1_status :: string
  r1_reason_id :: reason_arg
  r1_protection_mode :: string
  r1_tva_allowed :: bool
  r1_eqc_allowed :: bool
  r1_wsqk_allowed :: bool
  r1_nonce_consumed :: bool
  r1_timebox_valid :: bool
  r1_artifacts :: "pydict option"
  r1_metrics :: "pydict option"

definition decision_v1 :: "response_v1_args \<Rightarrow> pydict" where
  "decision_v1 a =
    [(''intent'', PStr (r1_intent a)), (''action'', PStr (r1_action a)),
     (''allowed'', PBool (r1_status a = ''allow'')), (''protection_mode'', PStr (r1_protection_mode a)),
     (''tva'', PDict [(''allowed'', PBool (r1_tva_allowed a))]),
     (''eqc'', PDict [(''allowed'', PBool (r1_eqc_allowed a))]),
     (''wsqk'', PDict [(''allowed'', PBool (r1_wsqk_allowed a))]),
     (''nonce'', PDict [(''consumed'', PBool (r1_nonce_consumed a))]),
     (''timebox'', PDict [(''valid'', PBool (r1_timebox_valid a))]),
     (''context_hash'', PStr (r1_context_hash a))]"

definition opt_entry :: "string \<Rightarrow> pydict option \<Rightarrow> pydict" where
  "opt_entry k v = (case v of None \<Rightarrow> [] | Some m \<Rightarrow> [(k, PDict m)])"

definition build_execution_response_v1 :: "response_v1_args \<Rightarrow> pyexc + pydict" where
  "build_execution_response_v1 a =
    (if r1_request_id a = [] then Inl (ValueError ''request_id must be non-empty str'')
     else if r1_intent a = [] then Inl (ValueError ''intent must be non-empty str'')
     else if r1_action a = [] then Inl (ValueError ''action must be non-empty str'')
     else if r1_context_hash a = [] then Inl (ValueError ''context_hash must be non-empty str'')
     else if r1_status a \<notin> set response_statuses
       then Inl (ValueError ''status must be one of: allow, deny, error'')
     else if r1_protection_mode a \<notin> set protection_modes
       then Inl (ValueError ''protection_mode must be one of: legacy, minimal, full'')
     else if r1_status a = ''allow'' \<and> r1_reason_id a \<noteq> RId OK_ALLOW
       then Inl (ValueError ''allow status requires ReasonId.OK_ALLOW'')
     else bind_r (reason_arg_value (r1_reason_id a)) (\<lambda>reason.
       Inr ([(''v'', PStr ''execution_response_v1''), (''request_id'', PStr (r1_request_id a)),
         (''status'', PStr (r1_status a)), (''reason_id'', PStr reason),
         (''decision'', PDict (decision_v1 a))] @
         opt_entry ''artifacts'' (r1_artifacts a) @ opt_entry ''metrics'' (r1_metrics a))))"

section \<open>Response v2\<close>

definition EPOCH_ISO_Z :: string where
  "EPOCH_ISO_Z = ''1970-01-01T00:00:00Z''"

text \<open>\<open>.isoformat().replace("+00:00", "Z")\<close>: the zone is the only occurrence.\<close>

definition iso_z_from_unix_seconds :: "int \<Rightarrow> string" where
  "iso_z_from_unix_seconds sec = (case utc_isoformat sec of
     None \<Rightarrow> EPOCH_ISO_Z
   | Some s \<Rightarrow> take (length s - 6) s @ ''Z'')"

record response_v2_args =
  r2_request_id :: string
  r2_intent :: string
  r2_action :: string
  r2_context_hash :: string
  r2_status :: string
  r2_reason_id :: reason_id
  r2_protection_mode :: string
  r2_tva_allowed :: bool
  r2_eqc_allowed :: bool
  r2_wsqk_allowed :: bool
  r2_issued_at :: int
  r2_expires_at :: int
  r2_max_skew_seconds :: int
  r2_timebox_valid :: bool
  r2_nonce_store :: string
  r2_nonce_value :: string
  r2_nonce_consumed :: bool
  r2_qid_present :: bool
  r2_qid_valid :: bool
  r2_shield_present :: bool
  r2_shield_valid :: bool
  r2_oracle_present :: bool
  r2_oracle_valid :: bool
  r2_policy_mode :: string
  r2_override_allowed :: bool
  r2_policy_reason_id :: reason_id
  r2_artifacts :: "pydict option"

definition gate_reason_v2 :: "response_v2_args \<Rightarrow> bool \<Rightarrow> string" where
  "gate_reason_v2 a ok = reason_value (if ok then OK_ALLOW
     else if r2_status a = ''allow'' then OK_ALLOW else r2_reason_id a)"

definition str_or_unknown :: "string \<Rightarrow> string" where
  "str_or_unknown s = (if s = [] then ''unknown'' else s)"

definition decision_v2 :: "response_v2_args \<Rightarrow> pydict" where
  "decision_v2 a =
    (let gate = (\<lambda>ok. PDict [(''allowed'', PBool ok), (''reason_id'', PStr (gate_reason_v2 a ok))]);
         evd = (\<lambda>present ok. PDict [(''present'', PBool present), (''valid'', PBool ok),
                 (''reason_id'', PStr (gate_reason_v2 a ok))])
     in [(''intent'', PStr (r2_intent a)), (''action'', PStr (r2_action a)),
      (''allowed'', PBool (r2_status a = ''allow'')), (''protection_mode'', PStr (r2_protection_mode a)),
      (''gates'', PDict [(''tva'', gate (r2_tva_allowed a)), (''eqc'', gate (r2_eqc_allowed a)),
         (''wsqk'', gate (r2_wsqk_allowed a))]),
      (''timebox'', PDict [(''valid'', PBool (r2_timebox_valid a)),
         (''issued_at'', PStr (iso_z_from_unix_seconds (r2_issued_at a))),
         (''expires_at'', PStr (iso_z_from_unix_seconds (r2_expires_at a))),
         (''max_skew_seconds'', PInt (r2_max_skew_seconds a)),
         (''reason_id'', PStr (gate_reason_v2 a (r2_timebox_valid a)))]),
      (''nonce'', PDict [(''consumed'', PBool (r2_nonce_consumed a)),
         (''store'', PStr (str_or_unknown (r2_nonce_store a))),
         (''value'', PStr (str_or_unknown (r2_nonce_value a))),
         (''reason_id'', PStr (gate_reason_v2 a (r2_nonce_consumed a)))]),
      (''evidence'', PDict [(''qid'', evd (r2_qid_present a) (r2_qid_valid a)),
         (''shield'', evd (r2_shield_present a) (r2_shield_valid a)),
         (''oracle'', evd (r2_oracle_present a) (r2_oracle_valid a))]),
      (''policy'', PDict [(''mode'', PStr (r2_policy_mode a)),
         (''override_allowed'', PBool (r2_override_allowed a)),
         (''reason_id'', PStr (reason_value (r2_policy_reason_id a)))])])"

definition build_execution_response_v2 :: "response_v2_args \<Rightarrow> pyexc + pydict" where
  "build_execution_response_v2 a =
    (if r2_request_id a = [] then Inl (ValueError ''request_id must be non-empty str'')
     else if r2_intent a = [] then Inl (ValueError ''intent must be non-empty str'')
     else if r2_action a = [] then Inl (ValueError ''action must be non-empty str'')
     else if length (r2_context_hash a) \<noteq> 64 then Inl (ValueError ''context_hash must be 64-hex str'')
     else if r2_status a \<notin> set response_statuses
       then Inl (ValueError ''status must be one of: allow, deny, error'')
     else if r2_protection_mode a \<notin> set protection_modes
       then Inl (ValueError ''protection_mode must be one of: legacy, minimal, full'')
     else if r2_status a = ''allow'' \<and> r2_reason_id a \<noteq> OK_ALLOW
       then Inl (ValueError ''allow status requires ReasonId.OK_ALLOW'')
     else Inr ([(''v'', PStr ''execution_response_v2''), (''request_id'', PStr (r2_request_id a)),
       (''status'', PStr (r2_status a)), (''reason_id'', PStr (reason_value (r2_reason_id a))),
       (''context_hash'', PStr (r2_context_hash a)), (''decision'', PDict (decision_v2 a))] @
       opt_entry ''artifacts'' (r2_artifacts a)))"

section \<open>When the builders succeed\<close>

definition response_args_ok :: "string \<Rightarrow> string \<Rightarrow> string \<Rightarrow> string \<Rightarrow> string \<Rightarrow> bool" where
  "response_args_ok rid intent action status pmode \<longleftrightarrow> rid \<noteq> [] \<and> intent \<noteq> [] \<and> action \<noteq> [] \<and>
     status \<in> set response_statuses \<and> pmode \<in> set protection_modes"

lemma build_v2_total:
  "(\<exists>resp. build_execution_response_v2 a = Inr resp) \<longleftrightarrow>
     response_args_ok (r2_request_id a) (r2_intent a) (r2_action a) (r2_status a) (r2_protection_mode a) \<and>
     length (r2_context_hash a) = 64 \<and> (r2_status a = ''allow'' \<longrightarrow> r2_reason_id a = OK_ALLOW)"
  by (auto simp: build_execution_response_v2_def response_args_ok_def)

lemma build_v1_total:
  "(\<exists>resp. build_execution_response_v1 a = Inr resp) \<longleftrightarrow>
     response_args_ok (r1_request_id a) (r1_intent a) (r1_action a) (r1_status a) (r1_protection_mode a) \<and>
     r1_context_hash a \<noteq> [] \<and> (\<exists>r. r1_reason_id a = RId r) \<and>
     (r1_status a = ''allow'' \<longrightarrow> r1_reason_id a = RId OK_ALLOW)"
  by (cases "r1_reason_id a") (auto simp: build_execution_response_v1_def response_args_ok_def)

text \<open>The fields a consumer reads from a v2 response.\<close>

lemma build_v2_fields:
  assumes "build_execution_response_v2 a = Inr resp"
  shows "dget resp ''status'' = PStr (r2_status a)"
    "dget resp ''reason_id'' = PStr (reason_value (r2_reason_id a))"
    "dget resp ''context_hash'' = PStr (r2_context_hash a)"
    "dget resp ''decision'' = PDict (decision_v2 a)"
    "dget resp ''request_id'' = PStr (r2_request_id a)"
  using assms by (auto simp: build_execution_response_v2_def split: if_splits)

definition response_allowed :: "pydict \<Rightarrow> bool" where
  "response_allowed resp \<longleftrightarrow> (case dget resp ''decision'' of
     PDict d \<Rightarrow> dget d ''allowed'' = PBool True | _ \<Rightarrow> False)"

definition response_nonce_consumed :: "pydict \<Rightarrow> bool" where
  "response_nonce_consumed resp \<longleftrightarrow> (case dget resp ''decision'' of
     PDict d \<Rightarrow> (case dget d ''nonce'' of PDict n \<Rightarrow> dget n ''consumed'' = PBool True | _ \<Rightarrow> False)
   | _ \<Rightarrow> False)"

lemma build_v2_allowed:
  assumes "build_execution_response_v2 a = Inr resp"
  shows "response_allowed resp \<longleftrightarrow> r2_status a = ''allow''"
    "response_nonce_consumed resp \<longleftrightarrow> r2_nonce_consumed a"
    "r2_status a = ''allow'' \<Longrightarrow> r2_reason_id a = OK_ALLOW"
  using assms build_v2_fields[OF assms]
  by (auto simp: response_allowed_def response_nonce_consumed_def decision_v2_def Let_def
      build_execution_response_v2_def split: if_splits)

lemma build_v1_fields:
  assumes "build_execution_response_v1 a = Inr resp"
  shows "dget resp ''status'' = PStr (r1_status a)" "dget resp ''v'' = PStr ''execution_response_v1''"
    "dget resp ''decision'' = PDict (decision_v1 a)"
    "dget resp ''request_id'' = PStr (r1_request_id a)"
  using assms by (auto simp: build_execution_response_v1_def res_simps split: if_splits)

section \<open>Properties\<close>

text \<open>What a v2 response needs in order to be built.\<close>

definition response_v2_buildable :: "response_v2_args \<Rightarrow> bool" where
  "response_v2_buildable a \<longleftrightarrow> r2_request_id a \<noteq> [] \<and> r2_intent a \<noteq> [] \<and> r2_action a \<noteq> [] \<and>
     length (r2_context_hash a) = 64 \<and> r2_status a \<in> set response_statuses \<and>
     r2_protection_mode a \<in> set protection_modes \<and> (r2_status a \<noteq> ''allow'' \<or> r2_reason_id a = OK_ALLOW)"

text \<open>
  The v2 response builder keeps its contract: it builds exactly for non-empty identifiers,
  a 64-character context hash, a known status and protection mode and, for allow, the reason
  OK_ALLOW, and raises a \<open>ValueError\<close> otherwise; in what it builds the decision says allowed
  exactly when the status is allow, and the nonce flag, the reason and the context hash are
  the caller's.
\<close>

theorem response_v2_contract:
  "case build_execution_response_v2 a of
     Inl e \<Rightarrow> \<not> response_v2_buildable a \<and> (\<exists>m. e = ValueError m)
   | Inr resp \<Rightarrow> response_v2_buildable a \<and> (response_allowed resp \<longleftrightarrow> r2_status a = ''allow'') \<and>
       (response_nonce_consumed resp \<longleftrightarrow> r2_nonce_consumed a) \<and>
       dget resp ''status'' = PStr (r2_status a) \<and>
       dget resp ''reason_id'' = PStr (reason_value (r2_reason_id a)) \<and>
       dget resp ''context_hash'' = PStr (r2_context_hash a)"
proof (cases "build_execution_response_v2 a")
  case (Inl e)
  then show ?thesis
    by (auto simp: build_execution_response_v2_def response_v2_buildable_def split: if_splits)
next
  case (Inr resp)
  then show ?thesis using build_v2_total[of a] build_v2_allowed[OF Inr] build_v2_fields[OF Inr]
    by (auto simp: response_args_ok_def response_v2_buildable_def)
qed

end
