(* ===== verification/Context_Hash.thy ===== *)
theory Context_Hash
  imports Errors Sha256
begin

text \<open>
  \<open>src/adamantine/v1/eqc/context_hash.py\<close>: the context hash that every piece of evidence
  is bound to. The canonical encoding is a definition of its own, so that its
  unambiguity can be stated without SHA-256.
\<close>

definition reject_control_chars :: "string \<Rightarrow> string \<Rightarrow> pyexc + unit" where
  "reject_control_chars value field =
    (if has_control_char value
       then Inl (ContextHashError (field @ '' contains a forbidden control character''))
     else Inr ())"

text \<open>One iteration of the loop over the sorted keys.\<close>

definition context_field_part :: "pydict \<Rightarrow> string \<Rightarrow> pyexc + string" where
  "context_field_part f k =
     bind_r (reject_control_chars k ''field key'') (\<lambda>_.
     bind_r (check_r (CHR ''='' \<notin> set k) (ContextHashError (''field key must not contain '' @ [CHR 0x27, CHR 0x3D, CHR 0x27]))) (\<lambda>_.
     bind_r (need_str (dget f k) (ContextHashError ''field value must be str'')) (\<lambda>v.
     bind_r (reject_control_chars v ''field value'') (\<lambda>_.
     Inr (k @ ''='' @ v)))))"

definition context_canonical :: "string \<Rightarrow> string \<Rightarrow> pydict option \<Rightarrow> pyexc + string" where
  "context_canonical wallet_id action fields =
     bind_r (reject_control_chars wallet_id ''wallet_id'') (\<lambda>_.
     bind_r (reject_control_chars action ''action'') (\<lambda>_.
     let f = (case fields of None \<Rightarrow> [] | Some m \<Rightarrow> m) in
     bind_r (map_r (context_field_part f) (sort (dkeys f))) (\<lambda>parts.
     Inr (join_str [CHR 0x0A] ([''wallet_id='' @ wallet_id, ''action='' @ action] @ parts)))))"

definition compute_context_hash :: "string \<Rightarrow> string \<Rightarrow> pydict option \<Rightarrow> pyexc + string" where
  "compute_context_hash wallet_id action fields =
     bind_r (context_canonical wallet_id action fields) (\<lambda>canonical.
     Inr (sha256_hex (utf8 canonical)))"

lemma reject_control_chars_ok [res_simps]:
  "reject_control_chars v fld = Inr u \<longleftrightarrow> \<not> has_control_char v"
  by (simp add: reject_control_chars_def)

lemma context_field_part_ok:
  "context_field_part f k = Inr p \<longleftrightarrow>
     \<not> has_control_char k \<and> CHR ''='' \<notin> set k \<and>
     (\<exists>v. dget f k = PStr v \<and> \<not> has_control_char v \<and> p = k @ ''='' @ v)"
  by (auto simp: context_field_part_def res_simps)

lemma has_control_char_append [simp]:
  "has_control_char (s @ t) \<longleftrightarrow> has_control_char s \<or> has_control_char t"
  by (simp add: has_control_char_def)

lemma compute_context_hash_hex:
  "compute_context_hash w a f = Inr h \<Longrightarrow> is_sha256_hex h"
  by (auto simp: compute_context_hash_def res_simps)

text \<open>\<open>k=v\<close> splits at its first \<open>=\<close>.\<close>

lemma split_at_eq:
  assumes "k @ ''='' @ v = k' @ ''='' @ v'" "CHR ''='' \<notin> set k" "CHR ''='' \<notin> set k'"
  shows "k = k' \<and> v = v'"
proof -
  have tw: "takeWhile (\<lambda>c. c \<noteq> CHR ''='') (u @ ''='' @ w) = u" if "CHR ''='' \<notin> set u" for u w
    using that by (induction u) auto
  have "k = k'" using tw[OF assms(2), of v] tw[OF assms(3), of v'] assms(1) by simp
  then show ?thesis using assms(1) by simp
qed

text \<open>The parts determine the sorted keys and their values.\<close>

lemma field_parts_inj:
  assumes "map_r (context_field_part f) ks = Inr ps" "map_r (context_field_part g) ls = Inr ps"
  shows "ks = ls \<and> (\<forall>k \<in> set ks. dget f k = dget g k)"
  using assms
proof (induction ks arbitrary: ps ls)
  case Nil
  then show ?case by (cases ls) (auto simp: res_simps)
next
  case (Cons k ks)
  then obtain p qs where p: "context_field_part f k = Inr p" "ps = p # qs"
      "map_r (context_field_part f) ks = Inr qs" by (auto simp: res_simps)
  then obtain l ls' where l: "ls = l # ls'" "context_field_part g l = Inr p"
      "map_r (context_field_part g) ls' = Inr qs"
    using Cons.prems(2) by (cases ls) (auto simp: res_simps)
  have kl: "k = l" "dget f k = dget g k"
    using p(1) l(2) split_at_eq unfolding context_field_part_ok by metis+
  then show ?case using Cons.IH[OF p(3) l(3)] l(1) by auto
qed

lemma field_parts_clean:
  "map_r (context_field_part f) ks = Inr ps \<Longrightarrow> p \<in> set ps \<Longrightarrow> CHR 0x0A \<notin> set p"
  by (drule map_r_set, assumption)
    (auto simp: context_field_part_ok dest!: has_control_char_newline)

lemma dget_map_of:
  "\<forall>k. dget f k = dget g k \<Longrightarrow> set (dkeys f) = set (dkeys g) \<Longrightarrow> map_of f = map_of g"
proof (rule ext)
  fix k
  assume a: "\<forall>k. dget f k = dget g k" "set (dkeys f) = set (dkeys g)"
  show "map_of f k = map_of g k"
  proof (cases "k \<in> set (dkeys f)")
    case True
    then obtain v w where "map_of f k = Some v" "map_of g k = Some w"
      using a(2) has_key_map_of[of f k] has_key_map_of[of g k] by (auto simp: has_key_def)
    then show ?thesis using a(1)[rule_format, of k] by (simp add: dget_def)
  next
    case False
    then show ?thesis
      using a(2) has_key_map_of[of f k] has_key_map_of[of g k] by (auto simp: has_key_def)
  qed
qed

definition opt_dict :: "pydict option \<Rightarrow> pydict" where
  "opt_dict f = (case f of None \<Rightarrow> [] | Some m \<Rightarrow> m)"

lemma context_canonical_ok:
  "context_canonical w a f = Inr s \<longleftrightarrow> \<not> has_control_char w \<and> \<not> has_control_char a \<and>
     (\<exists>parts. map_r (context_field_part (opt_dict f)) (sort (dkeys (opt_dict f))) = Inr parts \<and>
       s = join_str [CHR 0x0A] ([''wallet_id='' @ w, ''action='' @ a] @ parts))"
  by (auto simp: context_canonical_def opt_dict_def[symmetric] Let_def res_simps)

text \<open>
  The encoding is unambiguous: if two contexts are accepted with the same canonical
  string, they are the same wallet, action and field dictionary.
\<close>

lemma canonical_inj:
  assumes "context_canonical w a f = Inr s" "context_canonical w' a' f' = Inr s"
  shows "w = w' \<and> a = a' \<and> map_of (opt_dict f) = map_of (opt_dict f')"
proof -
  let ?F = "opt_dict f" and ?G = "opt_dict f'" and ?nl = "CHR 0x0A"
  obtain ps qs where
    ps: "map_r (context_field_part ?F) (sort (dkeys ?F)) = Inr ps"
        "s = join_str [?nl] ([''wallet_id='' @ w, ''action='' @ a] @ ps)" and
    qs: "map_r (context_field_part ?G) (sort (dkeys ?G)) = Inr qs"
        "s = join_str [?nl] ([''wallet_id='' @ w', ''action='' @ a'] @ qs)" and
    clean: "?nl \<notin> set w" "?nl \<notin> set a" "?nl \<notin> set w'" "?nl \<notin> set a'"
    using assms has_control_char_newline unfolding context_canonical_ok by metis
  have "[''wallet_id='' @ w, ''action='' @ a] @ ps = [''wallet_id='' @ w', ''action='' @ a'] @ qs"
  proof (rule join_str_sep_inj)
    show "join_str [?nl] ([''wallet_id='' @ w, ''action='' @ a] @ ps) =
        join_str [?nl] ([''wallet_id='' @ w', ''action='' @ a'] @ qs)"
      using ps(2) qs(2) by simp
  qed (use clean field_parts_clean[OF ps(1)] field_parts_clean[OF qs(1)] in auto)
  then have eq: "w = w'" "a = a'" "ps = qs" by simp_all
  have k: "sort (dkeys ?F) = sort (dkeys ?G)" "\<forall>k \<in> set (sort (dkeys ?F)). dget ?F k = dget ?G k"
    using field_parts_inj[OF ps(1) qs(1)[folded eq(3)]] by blast+
  then have sets: "set (dkeys ?F) = set (dkeys ?G)" by (metis set_sort)
  have "dget ?F k = dget ?G k" for k
  proof (cases "k \<in> set (dkeys ?F)")
    case True
    then show ?thesis using k(2) by simp
  next
    case False
    then have "map_of ?F k = None" "map_of ?G k = None"
      using sets has_key_map_of[of ?F k] has_key_map_of[of ?G k] by (auto simp: has_key_def)
    then show ?thesis by (simp add: dget_def)
  qed
  then show ?thesis using eq dget_map_of sets by blast
qed

text \<open>Dictionaries with the same entries have the same canonical string.\<close>

lemma map_of_dkeys: "map_of f = map_of g \<Longrightarrow> set (dkeys f) = set (dkeys g)"
  unfolding dkeys_def by (metis dom_map_of_conv_image_fst set_map)

lemma context_field_part_cong: "map_of f = map_of g \<Longrightarrow> context_field_part f = context_field_part g"
  by (rule ext) (simp add: context_field_part_def dget_def)

lemma context_canonical_cong:
  assumes "map_of (opt_dict f) = map_of (opt_dict g)"
    and "distinct (dkeys (opt_dict f))" "distinct (dkeys (opt_dict g))"
  shows "context_canonical w a f = context_canonical w a g"
proof -
  have "sort (dkeys (opt_dict f)) = sort (dkeys (opt_dict g))"
    using map_of_dkeys[OF assms(1)] assms(2,3) by (intro sorted_distinct_set_unique) auto
  then show ?thesis using context_field_part_cong[OF assms(1)]
    by (simp add: context_canonical_def opt_dict_def[symmetric] Let_def)
qed

section \<open>Properties\<close>

text \<open>
  C11: The canonical encoding behind the context hash is unambiguous and canonical: an
  accepted context and any other context (with dictionaries, so no key twice) have the
  same encoding exactly when they agree on the wallet, the action and every field,
  whatever the order in which the fields were inserted.
\<close>

theorem context_canonical_unambiguous:
  assumes "context_canonical w a f = Inr s"
    and "distinct (dkeys (opt_dict f))" "distinct (dkeys (opt_dict f'))"
  shows "context_canonical w' a' f' = Inr s \<longleftrightarrow>
    w' = w \<and> a' = a \<and> map_of (opt_dict f') = map_of (opt_dict f)"
  using assms canonical_inj[of w' a' f' s w a f] context_canonical_cong[of f' f w a] by metis

theorem context_canonical_unambiguous_witness:
  "context_canonical ''w'' ''send'' (Some [(''b'', PStr ''2''), (''a'', PStr ''1'')])
     = context_canonical ''w'' ''send'' (Some [(''a'', PStr ''1''), (''b'', PStr ''2'')]) \<and>
   context_canonical ''w'' ''send'' None \<noteq>
     context_canonical ''w'' ''send'' (Some [(''a'', PStr ''1'')])"
proof -
  define s where "s = ''wallet_id=w'' @ [CHR 0x0A] @ ''action=send'' @ [CHR 0x0A] @ ''a=1''
    @ [CHR 0x0A] @ ''b=2''"
  define t where "t = ''wallet_id=w'' @ [CHR 0x0A] @ ''action=send''"
  have s: "context_canonical ''w'' ''send'' (Some [(''a'', PStr ''1''), (''b'', PStr ''2'')]) = Inr s"
    unfolding s_def by code_simp
  have t: "context_canonical ''w'' ''send'' None = Inr t" unfolding t_def by code_simp
  have "context_canonical ''w'' ''send'' (Some [(''b'', PStr ''2''), (''a'', PStr ''1'')]) = Inr s"
    using context_canonical_unambiguous[OF s,
        of "Some [(''b'', PStr ''2''), (''a'', PStr ''1'')]" "''w''" "''send''"]
    by (simp add: opt_dict_def dkeys_def fun_upd_twist)
  moreover have "context_canonical ''w'' ''send'' (Some [(''a'', PStr ''1'')]) \<noteq> Inr t"
    using context_canonical_unambiguous[OF t, of "Some [(''a'', PStr ''1'')]" "''w''" "''send''"]
    by (simp add: opt_dict_def dkeys_def fun_eq_iff)
  ultimately show ?thesis using s t by simp
qed

end
