(* ===== verification/Contracts.thy ===== *)
theory Contracts
  imports Errors
begin

text \<open>
  The data contracts of \<open>src/adamantine/v1/contracts/\<close>: context, authority, Shield
  signals and bundles, risk reports, the Adaptive Core oracle, Q-ID session and replay
  proofs, the policy pack and the external reason registry, each with its \<open>validate\<close>.
  A dataclass is a record whose fields have their annotated types, so an
  \<open>isinstance\<close> test of a field against its own annotation is its typing and does not
  appear; every test of a value does. A \<open>validate\<close> that returns is \<^term>\<open>Inr ()\<close>, its
  \<open>ValueError\<close> carries the message.
\<close>

section \<open>Context, authority, request\<close>

record execution_context =
  cx_wallet_id :: string
  cx_action :: string
  cx_context_hash :: string

record wsqk_authority =
  au_wallet_id :: string
  au_action :: string
  au_context_hash :: string
  au_issued_at :: int
  au_expires_at :: int
  au_nonce :: string

text \<open>\<open>WSQKAuthorityV2\<close> has the fields of v1 and four more.\<close>

record wsqk_authority_v2 = wsqk_authority +
  au_contract_version :: string
  au_required_evidence_families :: "string list"
  au_quantum_posture :: string
  au_proof_bindings_hash :: string

record execution_request =
  xr_wallet_id :: string
  xr_action :: string
  xr_payload :: string

section \<open>Shield signals and the external reason map\<close>

datatype shield_source = SENTINEL | DQSN | ADN | QWG | GUARDIAN | ADAPTIVE_CORE

primrec shield_source_value :: "shield_source \<Rightarrow> string" where
  "shield_source_value SENTINEL = ''sentinel''"
| "shield_source_value DQSN = ''dqsn''"
| "shield_source_value ADN = ''adn''"
| "shield_source_value QWG = ''qwg''"
| "shield_source_value GUARDIAN = ''guardian''"
| "shield_source_value ADAPTIVE_CORE = ''adaptive-core''"

record shield_signal =
  ss_source :: shield_source
  ss_severity :: int
  ss_reason_ids :: "string list"

text \<open>The loop over \<open>reason_ids\<close>, with its set \<open>seen\<close>.\<close>

fun check_reason_ids :: "string set \<Rightarrow> string list \<Rightarrow> pyexc + unit" where
  "check_reason_ids seen [] = Inr ()"
| "check_reason_ids seen (rid # rids) =
    (if py_blank rid then Inl (ValueError ''reason_ids entries must be non-empty str'')
     else if reason_of_string rid = None
       then Inl (ValueError (''reason_ids entry is not a valid internal ReasonId: '' @ rid))
     else if rid \<in> seen then Inl (ValueError ''reason_ids must be unique'')
     else check_reason_ids (insert rid seen) rids)"

definition validate_shield_signal :: "shield_signal \<Rightarrow> pyexc + unit" where
  "validate_shield_signal s =
    (if \<not> (0 \<le> ss_severity s \<and> ss_severity s \<le> 100)
       then Inl (ValueError ''severity must be int in range 0..100'')
     else if ss_reason_ids s = [] then Inl (ValueError ''reason_ids must be a non-empty tuple'')
     else check_reason_ids {} (ss_reason_ids s))"

lemma check_reason_ids_ok:
  "check_reason_ids seen rids = Inr () \<longleftrightarrow>
     distinct rids \<and> set rids \<inter> seen = {} \<and>
     (\<forall>r \<in> set rids. \<not> py_blank r \<and> reason_of_string r \<noteq> None)"
  by (induction seen rids rule: check_reason_ids.induct) auto

lemma validate_shield_signal_ok:
  "validate_shield_signal s = Inr () \<longleftrightarrow>
     0 \<le> ss_severity s \<and> ss_severity s \<le> 100 \<and> ss_reason_ids s \<noteq> [] \<and> distinct (ss_reason_ids s) \<and>
     (\<forall>r \<in> set (ss_reason_ids s). \<not> py_blank r \<and> reason_of_string r \<noteq> None)"
  by (auto simp: validate_shield_signal_def check_reason_ids_ok)

record external_reason_map_entry =
  rm_external_id :: string
  rm_internal_reason_id :: string

definition validate_map_entry :: "external_reason_map_entry \<Rightarrow> pyexc + unit" where
  "validate_map_entry e =
    (if py_blank (rm_external_id e) then Inl (ValueError ''external_id must be non-empty str'')
     else if py_blank (rm_internal_reason_id e)
       then Inl (ValueError ''internal_reason_id must be non-empty str'')
     else if reason_of_string (rm_internal_reason_id e) = None
       then Inl (ValueError (''internal_reason_id is not a valid ReasonId: '' @ rm_internal_reason_id e))
     else Inr ())"

record external_reason_map =
  rm_entries :: "external_reason_map_entry list"

fun check_map_entries :: "string set \<Rightarrow> external_reason_map_entry list \<Rightarrow> pyexc + unit" where
  "check_map_entries seen [] = Inr ()"
| "check_map_entries seen (e # es) =
     bind_r (validate_map_entry e) (\<lambda>_.
     bind_r (check_r (rm_external_id e \<notin> seen)
       (ValueError ''external_id must be unique in mapping table'')) (\<lambda>_.
     check_map_entries (insert (rm_external_id e) seen) es))"

definition validate_reason_map :: "external_reason_map \<Rightarrow> pyexc + unit" where
  "validate_reason_map m =
    (if rm_entries m = [] then Inl (ValueError ''entries must be a non-empty tuple'')
     else check_map_entries {} (rm_entries m))"

definition lookup_reason :: "external_reason_map \<Rightarrow> string \<Rightarrow> string option" where
  "lookup_reason m external_id = (let ext = py_strip external_id in
     if ext = [] then None
     else map_option rm_internal_reason_id (List.find (\<lambda>e. rm_external_id e = ext) (rm_entries m)))"

lemma check_map_entries_ok:
  "check_map_entries seen es = Inr u \<longleftrightarrow>
     (\<forall>e \<in> set es. validate_map_entry e = Inr ()) \<and>
     distinct (map rm_external_id es) \<and> rm_external_id ` set es \<inter> seen = {}"
  by (induction seen es rule: check_map_entries.induct) (auto simp: res_simps)

text \<open>In a validated table, a lookup that succeeds returns a member of the vocabulary.\<close>

lemma lookup_reason_valid:
  assumes "validate_reason_map m = Inr ()" "lookup_reason m ext = Some rid"
  shows "\<exists>r. rid = reason_value r"
proof -
  obtain e where e: "e \<in> set (rm_entries m)" "rid = rm_internal_reason_id e"
    using assms(2) by (auto simp: lookup_reason_def Let_def dest: find_SomeD split: if_splits)
  then have "validate_map_entry e = Inr ()"
    using assms(1) by (simp add: validate_reason_map_def check_map_entries_ok split: if_splits)
  then show ?thesis using e(2)
    by (auto simp: validate_map_entry_def reason_of_string_Some split: if_splits)
qed

section \<open>Shield bundle v3\<close>

record shield_bundle_v3 =
  sb_bundle_id :: string
  sb_context_hash :: string
  sb_issued_at :: int
  sb_expires_at :: int
  sb_required_layers :: "string list"
  sb_signals :: "shield_signal list"

definition validate_shield_bundle :: "shield_bundle_v3 \<Rightarrow> pyexc + unit" where
  "validate_shield_bundle b =
    (if py_blank (sb_bundle_id b) then Inl (ValueError ''bundle_id must be non-empty str'')
     else if length (sb_context_hash b) \<noteq> 64
       then Inl (ValueError ''context_hash must be 64-char hex str'')
     else if sb_expires_at b < sb_issued_at b
       then Inl (ValueError ''expires_at must be >= issued_at'')
     else if sb_required_layers b = []
       then Inl (ValueError ''required_layers must be a non-empty tuple'')
     else if list_ex py_blank (sb_required_layers b)
       then Inl (ValueError ''required_layers entries must be non-empty str'')
     else if sb_signals b = [] then Inl (ValueError ''signals must be a non-empty tuple'')
     else each_r validate_shield_signal (sb_signals b))"

section \<open>Risk report and oracle\<close>

record risk_signal =
  rs_source :: string
  rs_severity :: int
  rs_reason_ids :: "string list"

definition validate_risk_signal :: "risk_signal \<Rightarrow> pyexc + unit" where
  "validate_risk_signal s =
    (if rs_source s = [] then Inl (ValueError ''source must be non-empty'')
     else if \<not> (0 \<le> rs_severity s \<and> rs_severity s \<le> 100)
       then Inl (ValueError ''severity must be int in range 0..100'')
     else if rs_reason_ids s = [] then Inl (ValueError ''reason_ids must not be empty'')
     else if [] \<in> set (rs_reason_ids s)
       then Inl (ValueError ''each reason_id must be non-empty str'')
     else Inr ())"

record risk_report =
  rr_context_hash :: string
  rr_signals :: "risk_signal list"
  rr_overall_score :: int
  rr_generated_at :: int
  rr_oracle_version :: "string option"
  rr_external_source_id :: "string option"

definition validate_risk_report :: "int \<Rightarrow> risk_report \<Rightarrow> pyexc + unit" where
  "validate_risk_report now r =
    (if rr_context_hash r = [] then Inl (ValueError ''context_hash must be non-empty'')
     else if \<not> (0 \<le> rr_overall_score r \<and> rr_overall_score r \<le> 100)
       then Inl (ValueError ''overall_score must be int in range 0..100'')
     else if rr_generated_at r \<le> 0
       then Inl (ValueError ''generated_at must be positive int'')
     else if now < rr_generated_at r
       then Inl (ValueError ''generated_at cannot be in the future'')
     else each_r validate_risk_signal (rr_signals r))"

record adaptive_core_oracle_v3 =
  ao_context_hash :: string
  ao_issued_at :: int
  ao_expires_at :: int
  ao_report :: risk_report

definition validate_oracle :: "int \<Rightarrow> adaptive_core_oracle_v3 \<Rightarrow> pyexc + unit" where
  "validate_oracle now ac =
    (if py_blank (ao_context_hash ac) then Inl (ValueError ''context_hash must be non-empty str'')
     else if ao_expires_at ac < ao_issued_at ac
       then Inl (ValueError ''expires_at must be >= issued_at'')
     else validate_risk_report now (ao_report ac))"

section \<open>Q-ID proofs\<close>

record qid_session_proof =
  qs_subject :: string
  qs_issued_at :: int
  qs_expires_at :: int
  qs_proof_hash :: string
  qs_context_hash :: "string option"
  qs_device_binding :: "string option"
  qs_issuer_version :: "string option"

definition validate_qid_session :: "int \<Rightarrow> qid_session_proof \<Rightarrow> pyexc + unit" where
  "validate_qid_session now q =
    (if qs_subject q = [] then Inl (ValueError ''subject must be non-empty'')
     else if qs_proof_hash q = [] then Inl (ValueError ''proof_hash must be non-empty'')
     else if (case qs_context_hash q of None \<Rightarrow> False | Some h \<Rightarrow> \<not> is_sha256_hex h)
       then Inl (ValueError ''context_hash must be a 64-character lowercase sha256 hex string'')
     else if qs_issued_at q \<le> 0 \<or> qs_expires_at q \<le> 0
       then Inl (ValueError ''timestamps must be positive'')
     else if qs_expires_at q \<le> qs_issued_at q
       then Inl (ValueError ''expires_at must be greater than issued_at'')
     else if \<not> (qs_issued_at q \<le> now \<and> now < qs_expires_at q)
       then Inl (ValueError ''session is not valid at current time'')
     else Inr ())"

record qid_replay_proof =
  qr_proof_version :: string
  qr_wallet_id :: string
  qr_subject :: string
  qr_proof_hash :: string
  qr_session_nonce :: string
  qr_registry_commitment :: string
  qr_fresh :: bool
  qr_device_binding :: "string option"

definition validate_qid_replay :: "qid_replay_proof \<Rightarrow> pyexc + unit" where
  "validate_qid_replay q =
    (if qr_proof_version q = [] then Inl (ValueError ''proof_version must be non-empty str'')
     else if qr_wallet_id q = [] then Inl (ValueError ''wallet_id must be non-empty str'')
     else if qr_subject q = [] then Inl (ValueError ''subject must be non-empty str'')
     else if qr_proof_hash q = [] then Inl (ValueError ''proof_hash must be non-empty str'')
     else if qr_session_nonce q = [] then Inl (ValueError ''session_nonce must be non-empty str'')
     else if qr_registry_commitment q = []
       then Inl (ValueError ''registry_commitment must be non-empty str'')
     else if qr_device_binding q = Some []
       then Inl (ValueError ''device_binding must be non-empty str or None'')
     else Inr ())"

section \<open>Policy pack\<close>

record policy_pack =
  pp_min_overall_score :: int
  pp_allowed_external_reason_ids :: "string list"
  pp_external_reason_map :: external_reason_map

definition default_reason_map :: external_reason_map where
  "default_reason_map = \<lparr>rm_entries =
     [\<lparr>rm_external_id = ''ok'', rm_internal_reason_id = reason_value EVIDENCE_OK\<rparr>]\<rparr>"

definition default_policy_pack :: policy_pack where
  "default_policy_pack = \<lparr>pp_min_overall_score = 85, pp_allowed_external_reason_ids = [''ok''],
     pp_external_reason_map = default_reason_map\<rparr>"

text \<open>A loop over names: each must be non-blank and unseen.\<close>

fun check_unique_names :: "pyexc \<Rightarrow> pyexc \<Rightarrow> string set \<Rightarrow> string list \<Rightarrow> pyexc + unit" where
  "check_unique_names blank dup seen [] = Inr ()"
| "check_unique_names blank dup seen (x # xs) =
    (if py_blank x then Inl blank else if x \<in> seen then Inl dup
     else check_unique_names blank dup (insert x seen) xs)"

lemma check_unique_names_ok:
  "check_unique_names b d seen xs = Inr u \<longleftrightarrow>
     distinct xs \<and> set xs \<inter> seen = {} \<and> (\<forall>x \<in> set xs. \<not> py_blank x)"
  by (induction b d seen xs rule: check_unique_names.induct) auto

definition validate_policy_pack :: "policy_pack \<Rightarrow> pyexc + unit" where
  "validate_policy_pack p =
    (if \<not> (0 \<le> pp_min_overall_score p \<and> pp_min_overall_score p \<le> 100)
       then Inl (ValueError ''min_overall_score must be in range 0..100'')
     else if pp_allowed_external_reason_ids p = []
       then Inl (ValueError ''allowed_external_reason_ids must not be empty'')
     else bind_r (check_unique_names
        (ValueError ''allowed_external_reason_ids entries must be non-empty str'')
        (ValueError ''allowed_external_reason_ids must be unique'') {}
        (pp_allowed_external_reason_ids p)) (\<lambda>_.
     if rm_entries (pp_external_reason_map p) = []
       then Inl (ValueError ''external_reason_map must be non-empty'')
     else bind_r (validate_reason_map (pp_external_reason_map p)) (\<lambda>_.
     each_r (\<lambda>rid. check_r (lookup_reason (pp_external_reason_map p) rid \<noteq> None)
        (ValueError ''allowed_external_reason_ids must be subset of external_reason_map''))
       (pp_allowed_external_reason_ids p))))"

section \<open>External reason registry\<close>

record layer_allowlist =
  la_layer :: string
  la_allowed_external_reason_ids :: "string list"

definition validate_layer_allowlist :: "layer_allowlist \<Rightarrow> pyexc + unit" where
  "validate_layer_allowlist l =
    (if py_blank (la_layer l) then Inl (ValueError ''layer must be non-empty str'')
     else if la_allowed_external_reason_ids l = []
       then Inl (ValueError ''allowed_external_reason_ids must be a non-empty tuple'')
     else check_unique_names
        (ValueError ''allowed_external_reason_ids entries must be non-empty str'')
        (ValueError ''allowed_external_reason_ids entries must be unique'') {}
        (la_allowed_external_reason_ids l))"

record external_reason_registry =
  er_oracle_allowed :: "string list"
  er_shield_layer_allowlists :: "layer_allowlist list"

definition ALLOWED_SHIELD_LAYERS :: "string list" where
  "ALLOWED_SHIELD_LAYERS = [''sentinel_ai'', ''adn'', ''dqsn'', ''qwg'', ''guardian_wallet'']"

fun check_layers :: "string set \<Rightarrow> layer_allowlist list \<Rightarrow> pyexc + unit" where
  "check_layers seen [] = Inr ()"
| "check_layers seen (e # es) =
     bind_r (validate_layer_allowlist e) (\<lambda>_.
     if la_layer e \<notin> set ALLOWED_SHIELD_LAYERS
       then Inl (ValueError (''unknown shield layer in registry: '' @ la_layer e))
     else if la_layer e \<in> seen
       then Inl (ValueError ''shield_layer_allowlists must not contain duplicate layers'')
     else check_layers (insert (la_layer e) seen) es)"

definition validate_registry :: "external_reason_registry \<Rightarrow> pyexc + unit" where
  "validate_registry r =
    (if er_oracle_allowed r = []
       then Inl (ValueError ''oracle_allowed_external_reason_ids must be non-empty (deny-by-default)'')
     else bind_r (check_unique_names
        (ValueError ''oracle_allowed_external_reason_ids entries must be non-empty str'')
        (ValueError ''oracle_allowed_external_reason_ids must be unique'') {} (er_oracle_allowed r)) (\<lambda>_.
     if er_shield_layer_allowlists r = []
       then Inl (ValueError ''shield_layer_allowlists must be non-empty (deny-by-default)'')
     else check_layers {} (er_shield_layer_allowlists r)))"

definition is_oracle_reason_allowed :: "external_reason_registry \<Rightarrow> string \<Rightarrow> bool" where
  "is_oracle_reason_allowed r external_reason_id \<longleftrightarrow> (let rid = py_strip external_reason_id in
     rid \<noteq> [] \<and> rid \<in> set (er_oracle_allowed r))"

definition is_shield_reason_allowed :: "external_reason_registry \<Rightarrow> string \<Rightarrow> string \<Rightarrow> bool" where
  "is_shield_reason_allowed r layer external_reason_id \<longleftrightarrow>
    (let lyr = py_strip layer; rid = py_strip external_reason_id in
     if lyr = [] \<or> rid = [] then False
     else case List.find (\<lambda>e. la_layer e = lyr) (er_shield_layer_allowlists r) of
       Some e \<Rightarrow> rid \<in> set (la_allowed_external_reason_ids e)
     | None \<Rightarrow> False)"

lemma check_layers_ok:
  "check_layers seen es = Inr u \<Longrightarrow>
     distinct (map la_layer es) \<and> la_layer ` set es \<inter> seen = {} \<and>
     la_layer ` set es \<subseteq> set ALLOWED_SHIELD_LAYERS"
  by (induction seen es rule: check_layers.induct) (auto simp: res_simps)

end
