(* ===== verification/Risk_Policy.thy ===== *)
theory Risk_Policy
  imports Contracts
begin

text \<open>
  \<open>src/adamantine/v1/policy/risk_policy.py\<close>: the risk policy an integrator injects, its
  validation and the effective allow-list and reason map. \<open>UnknownReasonMode\<close> and
  \<open>ResilienceMode\<close> have one member each.
\<close>

datatype unknown_reason_mode = DENY_EXPLICIT
datatype resilience_mode = STRICT_FAIL_CLOSED
datatype shield_runtime_boundary = LEGACY_BUNDLE_V3_TEST_ONLY | ORCHESTRATOR_RECEIPT_V3_2

primrec resilience_mode_value :: "resilience_mode \<Rightarrow> string" where
  "resilience_mode_value STRICT_FAIL_CLOSED = ''STRICT_FAIL_CLOSED''"

primrec boundary_value :: "shield_runtime_boundary \<Rightarrow> string" where
  "boundary_value LEGACY_BUNDLE_V3_TEST_ONLY = ''LEGACY_BUNDLE_V3_TEST_ONLY''"
| "boundary_value ORCHESTRATOR_RECEIPT_V3_2 = ''ORCHESTRATOR_RECEIPT_V3_2''"

record risk_policy =
  rp_min_overall_score :: int
  rp_unknown_reason_mode :: unknown_reason_mode
  rp_resilience_mode :: resilience_mode
  rp_policy_pack :: "policy_pack option"
  rp_require_protected_call :: bool
  rp_require_full_mode :: bool
  rp_require_qid_replay_proof :: bool
  rp_shield_runtime_boundary :: shield_runtime_boundary
  rp_rejected_shield_receipt_hashes :: "string list"
  rp_require_authenticated_external_evidence :: bool

text \<open>\<open>RiskPolicy()\<close>.\<close>

definition default_risk_policy :: risk_policy where
  "default_risk_policy = \<lparr>rp_min_overall_score = 85, rp_unknown_reason_mode = DENY_EXPLICIT,
     rp_resilience_mode = STRICT_FAIL_CLOSED, rp_policy_pack = None,
     rp_require_protected_call = False, rp_require_full_mode = False,
     rp_require_qid_replay_proof = False, rp_shield_runtime_boundary = ORCHESTRATOR_RECEIPT_V3_2,
     rp_rejected_shield_receipt_hashes = [], rp_require_authenticated_external_evidence = False\<rparr>"

fun check_receipt_hashes :: "string set \<Rightarrow> string list \<Rightarrow> pyexc + unit" where
  "check_receipt_hashes seen [] = Inr ()"
| "check_receipt_hashes seen (h # hs) =
    (if \<not> is_sha256_hex h
       then Inl (ValueError ''rejected_shield_receipt_hashes entries must be lowercase sha256 hex'')
     else if h \<in> seen
       then Inl (ValueError ''rejected_shield_receipt_hashes must not contain duplicates'')
     else check_receipt_hashes (insert h seen) hs)"

definition validate_risk_policy :: "risk_policy \<Rightarrow> pyexc + unit" where
  "validate_risk_policy p =
     bind_r (case rp_policy_pack p of None \<Rightarrow> Inr () | Some pack \<Rightarrow>
       bind_r (validate_policy_pack pack) (\<lambda>_.
       check_r (rp_min_overall_score p = pp_min_overall_score pack)
         (ValueError ''min_overall_score must match policy_pack.min_overall_score''))) (\<lambda>_.
     if \<not> (0 \<le> rp_min_overall_score p \<and> rp_min_overall_score p \<le> 100)
       then Inl (ValueError ''min_overall_score must be in range 0..100'')
     else check_receipt_hashes {} (rp_rejected_shield_receipt_hashes p))"

definition effective_allowed_external_reason_ids :: "risk_policy \<Rightarrow> string list" where
  "effective_allowed_external_reason_ids p = (case rp_policy_pack p of
     Some pack \<Rightarrow> pp_allowed_external_reason_ids pack | None \<Rightarrow> [''ok''])"

definition effective_external_reason_map :: "risk_policy \<Rightarrow> external_reason_map option" where
  "effective_external_reason_map p = map_option pp_external_reason_map (rp_policy_pack p)"

text \<open>\<open>p.policy_pack.min_overall_score if p.policy_pack is not None else p.min_overall_score\<close>.\<close>

definition policy_threshold :: "risk_policy \<Rightarrow> int" where
  "policy_threshold p = (case rp_policy_pack p of
     Some pack \<Rightarrow> pp_min_overall_score pack | None \<Rightarrow> rp_min_overall_score p)"

lemma default_policy_valid [simp]: "validate_risk_policy default_risk_policy = Inr ()"
  by (simp add: validate_risk_policy_def default_risk_policy_def)

lemma validate_risk_policy_threshold:
  "validate_risk_policy p = Inr () \<Longrightarrow>
     policy_threshold p = rp_min_overall_score p \<and> 0 \<le> policy_threshold p \<and> policy_threshold p \<le> 100"
  by (auto simp: validate_risk_policy_def policy_threshold_def res_simps split: option.splits)

text \<open>A validated pack maps every allowed external reason into the vocabulary.\<close>

lemma validate_policy_pack_mapped:
  assumes "validate_policy_pack pack = Inr ()" "rid \<in> set (pp_allowed_external_reason_ids pack)"
  shows "\<exists>r. lookup_reason (pp_external_reason_map pack) rid = Some (reason_value r)"
proof -
  have v: "validate_reason_map (pp_external_reason_map pack) = Inr ()"
    and l: "lookup_reason (pp_external_reason_map pack) rid \<noteq> None"
    using assms by (auto simp: validate_policy_pack_def res_simps)
  then obtain x where "lookup_reason (pp_external_reason_map pack) rid = Some x" by blast
  then show ?thesis using lookup_reason_valid[OF v] by metis
qed

end
