(* ===== verification/Obs_Metrics.thy ===== *)
theory Obs_Metrics
  imports Errors "HOL-Library.AList"
begin

text \<open>
  \<open>src/adamantine/v1/obs/metrics.py\<close>: the sinks \<open>NullMetrics\<close> and \<open>InMemoryMetrics\<close>.
  The counters are the dictionary \<open>_counters\<close> as an association list in insertion
  order. A function of the sources that receives \<open>metrics\<close> receives the sink here and
  returns it updated.
\<close>

datatype metrics = NullMetrics | InMemoryMetrics "(string \<times> nat) list"

definition count_of :: "(string \<times> nat) list \<Rightarrow> string \<Rightarrow> nat" where
  "count_of cs k = (case map_of cs k of None \<Rightarrow> 0 | Some n \<Rightarrow> n)"

fun metrics_inc :: "metrics \<Rightarrow> string \<Rightarrow> metrics" where
  "metrics_inc NullMetrics reason = NullMetrics"
| "metrics_inc (InMemoryMetrics cs) reason = (let rid = py_strip reason in
     if rid = [] then InMemoryMetrics cs
     else InMemoryMetrics (AList.update rid (count_of cs rid + 1) cs))"

fun metrics_snapshot :: "metrics \<Rightarrow> (string \<times> nat) list" where
  "metrics_snapshot NullMetrics = []"
| "metrics_snapshot (InMemoryMetrics cs) = cs"

definition metrics_count :: "metrics \<Rightarrow> string \<Rightarrow> nat" where
  "metrics_count m k = count_of (metrics_snapshot m) k"

text \<open>\<open>if metrics is not None: metrics.inc(reason_id.value)\<close>.\<close>

definition inc_reason :: "metrics option \<Rightarrow> reason_id \<Rightarrow> metrics option" where
  "inc_reason m r = map_option (\<lambda>x. metrics_inc x (reason_value r)) m"

lemma reason_members_no_space:
  "list_all (\<lambda>p. list_all (\<lambda>c. \<not> py_isspace c) (snd p)) reason_members"
  by (simp add: reason_members_def py_isspace_def)

lemma py_strip_reason_value [simp]: "py_strip (reason_value r) = reason_value r"
  using reason_members_no_space reason_members_value[of r] py_strip_id
  by (fastforce simp: list_all_iff)

lemma reason_members_nonempty: "list_all (\<lambda>p. snd p \<noteq> []) reason_members"
  by (simp add: reason_members_def)

lemma reason_value_ne [simp]: "reason_value r \<noteq> []"
  using reason_members_nonempty reason_members_value[of r] by (fastforce simp: list_all_iff)

lemma py_blank_reason_value [simp]: "\<not> py_blank (reason_value r)"
  using reason_value_ne[of r] py_strip_reason_value[of r] py_strip_eq_Nil by metis

lemma metrics_count_inc:
  "metrics_count (metrics_inc (InMemoryMetrics cs) (reason_value r)) k =
     metrics_count (InMemoryMetrics cs) k + (if k = reason_value r then 1 else 0)"
  by (simp add: metrics_count_def count_of_def Let_def update_conv')

lemma metrics_snapshot_distinct:
  "distinct (map fst (metrics_snapshot m)) \<Longrightarrow> distinct (map fst (metrics_snapshot (metrics_inc m s)))"
  by (cases m) (auto simp: Let_def distinct_update)

end
