(* ===== verification/Eqc.thy ===== *)
theory Eqc
  imports Context_Hash Risk_Policy Obs_Metrics
begin

text \<open>
  \<open>src/adamantine/v1/eqc/\<close>: the EQC decision gates \<open>evaluate_eqc\<close> (v1: session and risk
  report) and \<open>evaluate_eqc_v2\<close> (session, oracle and Shield bundle), with \<open>EQCResult\<close>.
  Both take the metrics sink and return it with one count per deny reason; the first
  component is the exception a malformed context or policy raises, or the result.
\<close>

record eqc_result =
  eq_verdict :: verdict
  eq_reason_ids :: "string list"
  eq_context_hash :: string

definition eqc_allow :: "string \<Rightarrow> eqc_result" where
  "eqc_allow h = \<lparr>eq_verdict = ALLOW, eq_reason_ids = [], eq_context_hash = h\<rparr>"

definition eqc_deny :: "string \<Rightarrow> reason_id list \<Rightarrow> eqc_result" where
  "eqc_deny h reasons =
     \<lparr>eq_verdict = DENY, eq_reason_ids = map reason_value reasons, eq_context_hash = h\<rparr>"

definition inc_all :: "metrics option \<Rightarrow> reason_id list \<Rightarrow> metrics option" where
  "inc_all m reasons = foldl inc_reason m reasons"

text \<open>\<open>_inc_all(metrics, reasons)\<close> followed by \<open>return EQCResult.deny(...)\<close>.\<close>

definition deny_with :: "metrics option \<Rightarrow> string \<Rightarrow> reason_id list
    \<Rightarrow> (pyexc + eqc_result) \<times> metrics option" where
  "deny_with m h reasons = (Inr (eqc_deny h reasons), inc_all m reasons)"

definition presence_reasons :: "string \<Rightarrow> string \<Rightarrow> reason_id list" where
  "presence_reasons wallet_id_s action_s =
     (if wallet_id_s = [] then [EQC_MISSING_WALLET_ID] else []) @
     (if action_s = [] then [EQC_MISSING_ACTION] else [])"

definition evaluate_eqc :: "string \<Rightarrow> string \<Rightarrow> pydict option \<Rightarrow> qid_session_proof option
    \<Rightarrow> risk_report option \<Rightarrow> int option \<Rightarrow> risk_policy option \<Rightarrow> metrics option
    \<Rightarrow> (pyexc + eqc_result) \<times> metrics option" where
  "evaluate_eqc wallet_id action fs session risk now policy m =
    (let wallet_id_s = py_strip wallet_id; action_s = py_strip action in
     case compute_context_hash wallet_id_s action_s fs of Inl e \<Rightarrow> (Inl e, m) | Inr h \<Rightarrow>
     let reasons = presence_reasons wallet_id_s action_s in
     case now of None \<Rightarrow> deny_with m h (reasons @ [EQC_MISSING_NOW]) | Some t \<Rightarrow>
     let p = (case policy of None \<Rightarrow> default_risk_policy | Some p \<Rightarrow> p) in
     case validate_risk_policy p of Inl e \<Rightarrow> (Inl e, m) | Inr _ \<Rightarrow>
     case session of None \<Rightarrow> deny_with m h (reasons @ [EQC_MISSING_QID_SESSION]) | Some q \<Rightarrow>
     if t < qs_issued_at q then deny_with m h (reasons @ [EQC_QID_SESSION_NOT_YET_VALID])
     else if qs_expires_at q \<le> t then deny_with m h (reasons @ [EQC_QID_SESSION_EXPIRED])
     else if validate_qid_session t q \<noteq> Inr () then deny_with m h (reasons @ [EQC_INVALID_QID_PROOF])
     else if qs_context_hash q \<noteq> Some h
       then deny_with m h (reasons @ [EQC_QID_CONTEXT_HASH_MISMATCH])
     else case risk of None \<Rightarrow> deny_with m h (reasons @ [EQC_MISSING_RISK_REPORT]) | Some r \<Rightarrow>
     if rr_context_hash r \<noteq> h then deny_with m h (reasons @ [EQC_RISK_CONTEXT_HASH_MISMATCH])
     else if validate_risk_report t r \<noteq> Inr ()
       then deny_with m h (reasons @ [EQC_INVALID_RISK_REPORT])
     else if rr_overall_score r < policy_threshold p
       then deny_with m h (reasons @ [EQC_RISK_SCORE_BELOW_THRESHOLD])
     else if reasons \<noteq> [] then deny_with m h reasons
     else (Inr (eqc_allow h), m))"

text \<open>A Shield signal that carries any reason other than \<open>EVIDENCE_OK\<close>.\<close>

definition shield_conflict :: "shield_bundle_v3 \<Rightarrow> bool" where
  "shield_conflict b \<longleftrightarrow>
     list_ex (\<lambda>sig. list_ex (\<lambda>rid. rid \<noteq> reason_value EVIDENCE_OK) (ss_reason_ids sig)) (sb_signals b)"

definition evaluate_eqc_v2 :: "string \<Rightarrow> string \<Rightarrow> pydict option \<Rightarrow> qid_session_proof option
    \<Rightarrow> adaptive_core_oracle_v3 option \<Rightarrow> shield_bundle_v3 option \<Rightarrow> int option
    \<Rightarrow> risk_policy option \<Rightarrow> metrics option \<Rightarrow> (pyexc + eqc_result) \<times> metrics option" where
  "evaluate_eqc_v2 wallet_id action fs session oracle shield now policy m =
    (let wallet_id_s = py_strip wallet_id; action_s = py_strip action in
     case compute_context_hash wallet_id_s action_s fs of Inl e \<Rightarrow> (Inl e, m) | Inr h \<Rightarrow>
     let reasons = presence_reasons wallet_id_s action_s in
     case now of None \<Rightarrow> deny_with m h (reasons @ [EQC_MISSING_NOW]) | Some t \<Rightarrow>
     let p = (case policy of None \<Rightarrow> default_risk_policy | Some p \<Rightarrow> p) in
     case validate_risk_policy p of Inl e \<Rightarrow> (Inl e, m) | Inr _ \<Rightarrow>
     case session of None \<Rightarrow> deny_with m h (reasons @ [EQC_MISSING_QID_SESSION]) | Some q \<Rightarrow>
     if t < qs_issued_at q then deny_with m h (reasons @ [EQC_QID_SESSION_NOT_YET_VALID])
     else if qs_expires_at q \<le> t then deny_with m h (reasons @ [EQC_QID_SESSION_EXPIRED])
     else if validate_qid_session t q \<noteq> Inr () then deny_with m h (reasons @ [EQC_INVALID_QID_PROOF])
     else if qs_context_hash q \<noteq> Some h
       then deny_with m h (reasons @ [EQC_QID_CONTEXT_HASH_MISMATCH])
     else case oracle of None \<Rightarrow> deny_with m h (reasons @ [EQC_MISSING_ORACLE]) | Some ac \<Rightarrow>
     let r = ao_report ac in
     if rr_context_hash r \<noteq> h then deny_with m h (reasons @ [EQC_RISK_CONTEXT_HASH_MISMATCH])
     else if validate_oracle t ac \<noteq> Inr () then deny_with m h (reasons @ [EQC_INVALID_RISK_REPORT])
     else if rr_overall_score r < policy_threshold p
       then deny_with m h (reasons @ [EQC_RISK_SCORE_BELOW_THRESHOLD])
     else case shield of None \<Rightarrow> deny_with m h (reasons @ [EQC_MISSING_SHIELD_BUNDLE]) | Some b \<Rightarrow>
     if validate_shield_bundle b \<noteq> Inr () then deny_with m h (reasons @ [EQC_INVALID_SHIELD_BUNDLE])
     else if sb_context_hash b \<noteq> h
       then deny_with m h (reasons @ [EQC_SHIELD_CONTEXT_HASH_MISMATCH])
     else if \<not> (sb_issued_at b \<le> t \<and> t < sb_expires_at b)
       then deny_with m h (reasons @ [EQC_SHIELD_STALE])
     else if shield_conflict b then deny_with m h (reasons @ [EQC_CONFLICTING_EVIDENCE])
     else if reasons \<noteq> [] then deny_with m h reasons
     else (Inr (eqc_allow h), m))"

section \<open>When the gates allow\<close>

lemma eqc_verdicts [simp]:
  "eq_verdict (eqc_allow h) = ALLOW" "eq_verdict (eqc_deny h rs) = DENY"
  "eq_context_hash (eqc_allow h) = h" "eq_context_hash (eqc_deny h rs) = h"
  "eq_reason_ids (eqc_allow h) = []" "eq_reason_ids (eqc_deny h rs) = map reason_value rs"
  by (simp_all add: eqc_allow_def eqc_deny_def)

lemma presence_reasons_Nil [simp]:
  "presence_reasons w a = [] \<longleftrightarrow> w \<noteq> [] \<and> a \<noteq> []"
  by (simp add: presence_reasons_def)

lemma deny_with_not_allow: "deny_with m h rs = (Inr r, m') \<Longrightarrow> eq_verdict r = DENY"
  by (auto simp: deny_with_def)

text \<open>The evidence a session proof and the policy give, shared by both gates.\<close>

definition session_bound :: "int \<Rightarrow> string \<Rightarrow> qid_session_proof \<Rightarrow> bool" where
  "session_bound t h q \<longleftrightarrow> validate_qid_session t q = Inr () \<and> qs_context_hash q = Some h"

definition effective_policy :: "risk_policy option \<Rightarrow> risk_policy" where
  "effective_policy policy = (case policy of None \<Rightarrow> default_risk_policy | Some p \<Rightarrow> p)"

lemma validate_qid_session_window:
  "validate_qid_session t q = Inr () \<Longrightarrow> qs_issued_at q \<le> t \<and> t < qs_expires_at q"
  by (auto simp: validate_qid_session_def split: if_splits option.splits)

lemmas eqc_splits = sum.splits option.splits if_splits

lemma evaluate_eqc_v2_allow_conv:
  "(\<exists>r m'. evaluate_eqc_v2 w a f (Some q) (Some ac) (Some b) (Some t) pol m = (Inr r, m') \<and>
      eq_verdict r = ALLOW) \<longleftrightarrow>
   (\<exists>h. compute_context_hash (py_strip w) (py_strip a) f = Inr h \<and>
      validate_risk_policy (effective_policy pol) = Inr () \<and> session_bound t h q \<and>
      rr_context_hash (ao_report ac) = h \<and> validate_oracle t ac = Inr () \<and>
      policy_threshold (effective_policy pol) \<le> rr_overall_score (ao_report ac) \<and>
      validate_shield_bundle b = Inr () \<and> sb_context_hash b = h \<and>
      sb_issued_at b \<le> t \<and> t < sb_expires_at b \<and> \<not> shield_conflict b \<and>
      \<not> py_blank w \<and> \<not> py_blank a)"
proof (cases "compute_context_hash (py_strip w) (py_strip a) f")
  case (Inl e)
  then show ?thesis by (simp add: evaluate_eqc_v2_def)
next
  case (Inr h)
  show ?thesis
    using validate_qid_session_window[of t q]
    by (cases "validate_risk_policy (effective_policy pol)")
      (auto simp: evaluate_eqc_v2_def Inr effective_policy_def[symmetric] session_bound_def
        deny_with_def Let_def)
qed

text \<open>The gate needs all three pieces of evidence and the injected time.\<close>

lemma evaluate_eqc_v2_needs:
  assumes "evaluate_eqc_v2 w a f qo aco bo to pol m = (Inr r, m')" "eq_verdict r = ALLOW"
  shows "\<exists>q ac b t. qo = Some q \<and> aco = Some ac \<and> bo = Some b \<and> to = Some t"
  using assms by (auto simp: evaluate_eqc_v2_def deny_with_def Let_def split: eqc_splits)

text \<open>
  Every evaluation of a well-formed context under a valid policy ends in one of two ways:
  allow, without touching the metrics, or deny with at least one reason, each counted.
\<close>

definition eqc_outcome :: "metrics option \<Rightarrow> string \<Rightarrow> (pyexc + eqc_result) \<times> metrics option \<Rightarrow> bool"
  where "eqc_outcome m h x \<longleftrightarrow>
    x = (Inr (eqc_allow h), m) \<or> (\<exists>rs. rs \<noteq> [] \<and> x = deny_with m h rs)"

lemma eqc_outcome_intros [simp]:
  "eqc_outcome m h (Inr (eqc_allow h), m)"
  "eqc_outcome m h (deny_with m h (rs @ [r]))"
  "rs \<noteq> [] \<Longrightarrow> eqc_outcome m h (deny_with m h rs)"
  by (auto simp: eqc_outcome_def)

lemma effective_policy_simps:
  "effective_policy None = default_risk_policy" "effective_policy (Some p) = p"
  by (simp_all add: effective_policy_def)

lemma evaluate_eqc_outcome:
  assumes "compute_context_hash (py_strip w) (py_strip a) f = Inr h"
    and "validate_risk_policy (effective_policy pol) = Inr ()"
  shows "eqc_outcome m h (evaluate_eqc w a f qo ro to pol m)"
  using assms(2)
  by (simp add: evaluate_eqc_def Let_def assms(1) effective_policy_def[symmetric] split: option.split)

lemma evaluate_eqc_v2_outcome:
  assumes "compute_context_hash (py_strip w) (py_strip a) f = Inr h"
    and "validate_risk_policy (effective_policy pol) = Inr ()"
  shows "eqc_outcome m h (evaluate_eqc_v2 w a f qo aco bo to pol m)"
  using assms(2)
  by (simp add: evaluate_eqc_v2_def Let_def assms(1) effective_policy_def[symmetric]
        split: option.split)

lemma evaluate_eqc_allow_conv:
  "(\<exists>r m'. evaluate_eqc w a f (Some q) (Some rk) (Some t) pol m = (Inr r, m') \<and>
      eq_verdict r = ALLOW) \<longleftrightarrow>
   (\<exists>h. compute_context_hash (py_strip w) (py_strip a) f = Inr h \<and>
      validate_risk_policy (effective_policy pol) = Inr () \<and> session_bound t h q \<and>
      rr_context_hash rk = h \<and> validate_risk_report t rk = Inr () \<and>
      policy_threshold (effective_policy pol) \<le> rr_overall_score rk \<and> \<not> py_blank w \<and> \<not> py_blank a)"
proof (cases "compute_context_hash (py_strip w) (py_strip a) f")
  case (Inl e)
  then show ?thesis by (simp add: evaluate_eqc_def)
next
  case (Inr h)
  show ?thesis
    using validate_qid_session_window[of t q]
    by (cases "validate_risk_policy (effective_policy pol)")
      (auto simp: evaluate_eqc_def Inr effective_policy_def[symmetric] session_bound_def
        deny_with_def Let_def)
qed

text \<open>Deny reasons are counted once each.\<close>

lemma inc_all_None [simp]: "inc_all None rs = None"
  by (induction rs) (simp_all add: inc_all_def inc_reason_def)

lemma inc_all_count:
  "\<exists>cs'. inc_all (Some (InMemoryMetrics cs)) rs = Some (InMemoryMetrics cs') \<and>
     (\<forall>r. count_of cs' (reason_value r) = count_of cs (reason_value r) + count_list rs r)"
proof (induction rs arbitrary: cs)
  case (Cons x rs)
  obtain cs1 where cs1: "metrics_inc (InMemoryMetrics cs) (reason_value x) = InMemoryMetrics cs1"
    by (auto simp: Let_def)
  have c1: "count_of cs1 k = count_of cs k + (if k = reason_value x then 1 else 0)" for k
    using metrics_count_inc[of cs x k] cs1 by (simp add: metrics_count_def del: metrics_inc.simps)
  obtain cs' where "inc_all (Some (InMemoryMetrics cs1)) rs = Some (InMemoryMetrics cs')"
      "\<forall>r. count_of cs' (reason_value r) = count_of cs1 (reason_value r) + count_list rs r"
    using Cons.IH by blast
  then show ?case using c1 cs1 by (auto simp: inc_all_def inc_reason_def simp del: metrics_inc.simps)
qed (simp add: inc_all_def)

section \<open>Properties\<close>

text \<open>
  C5: The multi-evidence gate allows exactly when the time is injected, the policy is valid,
  wallet and action are not blank and all three pieces of evidence are there and agree with
  the computed context hash: a valid Q-ID session in its window, a valid oracle whose score
  reaches the threshold, a valid Shield bundle in its window in which every reason of every
  signal is EVIDENCE_OK. No piece of evidence can force an allow.
\<close>

theorem eqc_v2_allows_iff:
  "(\<exists>r m'. evaluate_eqc_v2 w a f qo aco bo to pol m = (Inr r, m') \<and> eq_verdict r = ALLOW) \<longleftrightarrow>
   (\<exists>q ac b t h. qo = Some q \<and> aco = Some ac \<and> bo = Some b \<and> to = Some t \<and>
      compute_context_hash (py_strip w) (py_strip a) f = Inr h \<and>
      validate_risk_policy (effective_policy pol) = Inr () \<and> \<not> py_blank w \<and> \<not> py_blank a \<and>
      session_bound t h q \<and> rr_context_hash (ao_report ac) = h \<and> validate_oracle t ac = Inr () \<and>
      policy_threshold (effective_policy pol) \<le> rr_overall_score (ao_report ac) \<and>
      validate_shield_bundle b = Inr () \<and> sb_context_hash b = h \<and>
      sb_issued_at b \<le> t \<and> t < sb_expires_at b \<and> \<not> shield_conflict b)" (is "?L \<longleftrightarrow> ?R")
proof
  assume ?L
  then obtain q ac b t where e: "qo = Some q" "aco = Some ac" "bo = Some b" "to = Some t"
    using evaluate_eqc_v2_needs by blast
  then show ?R using \<open>?L\<close> unfolding e evaluate_eqc_v2_allow_conv by blast
next
  assume ?R
  then obtain q ac b t where e: "qo = Some q" "aco = Some ac" "bo = Some b" "to = Some t" by blast
  then show ?L using \<open>?R\<close> unfolding e evaluate_eqc_v2_allow_conv by blast
qed

text \<open>
  Every evaluation of the multi-evidence gate on a hashable context under a valid policy
  ends in a result for that context: either ALLOW with no reason and the metrics untouched, or
  DENY with at least one reason, all from the vocabulary, each counted exactly as often as it
  is reported and no other counter touched.
\<close>

theorem eqc_v2_result_and_metrics:
  assumes "compute_context_hash (py_strip w) (py_strip a) f = Inr h"
    and "validate_risk_policy (effective_policy pol) = Inr ()"
  shows "\<exists>r cs'. evaluate_eqc_v2 w a f qo aco bo to pol (Some (InMemoryMetrics cs)) =
      (Inr r, Some (InMemoryMetrics cs')) \<and> eq_context_hash r = h \<and>
    (eq_verdict r = ALLOW \<and> eq_reason_ids r = [] \<and> cs' = cs \<or>
     eq_verdict r = DENY \<and> (\<exists>rs. rs \<noteq> [] \<and> eq_reason_ids r = map reason_value rs \<and>
       (\<forall>x. count_of cs' (reason_value x) = count_of cs (reason_value x) + count_list rs x)))"
proof -
  have "eqc_outcome (Some (InMemoryMetrics cs)) h
      (evaluate_eqc_v2 w a f qo aco bo to pol (Some (InMemoryMetrics cs)))"
    using assms by (rule evaluate_eqc_v2_outcome)
  then consider
      (allow) "evaluate_eqc_v2 w a f qo aco bo to pol (Some (InMemoryMetrics cs))
        = (Inr (eqc_allow h), Some (InMemoryMetrics cs))"
    | (deny) rs where "rs \<noteq> []" "evaluate_eqc_v2 w a f qo aco bo to pol (Some (InMemoryMetrics cs))
        = deny_with (Some (InMemoryMetrics cs)) h rs"
    unfolding eqc_outcome_def by blast
  then show ?thesis
  proof cases
    case allow
    then show ?thesis by (simp add: eqc_allow_def)
  next
    case deny
    then show ?thesis using inc_all_count[of cs rs] by (auto simp: deny_with_def eqc_deny_def)
  qed
qed

lemma demo_context_hashable: "\<exists>h. compute_context_hash (py_strip ''w'') (py_strip ''send'') None = Inr h"
  by (simp add: compute_context_hash_def context_canonical_def reject_control_chars_def py_strip_def
      py_isspace_def has_control_char_def is_control_char_def opt_dict_def dkeys_def)

theorem eqc_v2_result_and_metrics_witness:
  "\<exists>r cs'. evaluate_eqc_v2 ''w'' ''send'' None None None None (Some 5) None (Some (InMemoryMetrics [])) =
      (Inr r, Some (InMemoryMetrics cs')) \<and> eq_verdict r = DENY"
proof -
  obtain h where h: "compute_context_hash (py_strip ''w'') (py_strip ''send'') None = Inr h"
    using demo_context_hashable by blast
  have p: "validate_risk_policy (effective_policy None) = Inr ()" by (simp add: effective_policy_simps)
  obtain r cs' where r: "evaluate_eqc_v2 ''w'' ''send'' None None None None (Some 5) None (Some (InMemoryMetrics [])) =
      (Inr r, Some (InMemoryMetrics cs'))" "eq_verdict r = ALLOW \<or> eq_verdict r = DENY"
    using eqc_v2_result_and_metrics[OF h p, of None None None "Some 5" "[]"] by blast
  then have "eq_verdict r \<noteq> ALLOW" using evaluate_eqc_v2_needs by fastforce
  then show ?thesis using r by blast
qed

end
