(* ===== verification/Mobile.thy ===== *)
theory Mobile
  imports Responses Eqc
begin

text \<open>
  The mobile side: \<open>src/adamantine/v1/execution/mobile_call_v1.py\<close> (the consumer's
  validator of v1 responses), \<open>mobile/reason_mapping_v1.py\<close> and
  \<open>mobile/result_builder_v1.py\<close>.
\<close>

section \<open>The response validator\<close>

definition DENY_REASON_PREFIXES :: "string list" where
  "DENY_REASON_PREFIXES = [''DENY_'', ''TVA_'', ''EQC_'']"

definition starts_with :: "string \<Rightarrow> string \<Rightarrow> bool" where
  "starts_with s p \<longleftrightarrow> take (length p) s = p"

definition mob_require_mapping :: "pyval \<Rightarrow> pyexc + pydict" where
  "mob_require_mapping v = need_map v (ValueError ''payload must be object'')"

definition mob_require_str :: "pydict \<Rightarrow> string \<Rightarrow> pyexc + string" where
  "mob_require_str m key =
     bind_r (need_str (dget m key) (ValueError (key @ '' must be non-empty str''))) (\<lambda>s.
     if py_blank s then Inl (ValueError (key @ '' must be non-empty str'')) else Inr s)"

definition mob_require_bool :: "pydict \<Rightarrow> string \<Rightarrow> pyexc + bool" where
  "mob_require_bool m key = need_bool (dget m key) (ValueError (key @ '' must be bool''))"

definition mob_deny_unknown_keys :: "pydict \<Rightarrow> string list \<Rightarrow> string \<Rightarrow> pyexc + unit" where
  "mob_deny_unknown_keys m allowed name =
     check_r (unknown_keys m allowed = []) (ValueError
       (name @ '' contains unknown fields: '' @ repr_str_list (unknown_keys m allowed)))"

text \<open>The locks between status, reason, nonce and timebox, in the order of the source.\<close>

definition mob_status_locks :: "string \<Rightarrow> string \<Rightarrow> bool \<Rightarrow> bool \<Rightarrow> bool \<Rightarrow> pyexc + unit" where
  "mob_status_locks status reason allowed consumed valid =
    (if status = ''allow'' \<and> reason \<noteq> reason_value OK_ALLOW
       then Inl (ValueError ''allow status requires reason_id == OK_ALLOW'')
     else if status = ''allow'' \<and> \<not> allowed
       then Inl (ValueError ''allow status requires decision.allowed == True'')
     else if status = ''deny'' \<and> \<not> list_ex (starts_with reason) DENY_REASON_PREFIXES
       then Inl (ValueError ''deny status requires DENY_, TVA_, or EQC_ reason_id prefix'')
     else if status = ''deny'' \<and> allowed
       then Inl (ValueError ''deny status requires decision.allowed == False'')
     else if status = ''deny'' \<and> consumed then Inl (ValueError ''deny must not consume nonce'')
     else if status = ''error'' \<and> \<not> starts_with reason ''ERR_''
       then Inl (ValueError ''error status requires reason_id starting with ERR_'')
     else if status = ''error'' \<and> allowed
       then Inl (ValueError ''error status requires decision.allowed == False'')
     else if status = ''error'' \<and> consumed then Inl (ValueError ''error must not consume nonce'')
     else if status = ''allow'' \<and> \<not> consumed then Inl (ValueError ''allow must consume nonce'')
     else if status = ''allow'' \<and> \<not> valid
       then Inl (ValueError ''allow requires timebox.valid == True'')
     else Inr ())"

definition mob_top_keys :: "string list" where
  "mob_top_keys = [''v'', ''request_id'', ''status'', ''reason_id'', ''decision'', ''artifacts'', ''metrics'']"

definition mob_decision_keys :: "string list" where
  "mob_decision_keys = [''intent'', ''action'', ''allowed'', ''context_hash'', ''tva'', ''eqc'', ''wsqk'',
     ''nonce'', ''timebox'']"

definition validate_execution_response_v1 :: "pyval \<Rightarrow> pyexc + pydict" where
  "validate_execution_response_v1 payload =
     bind_r (mob_require_mapping payload) (\<lambda>top.
     bind_r (mob_deny_unknown_keys top mob_top_keys ''execution_response_v1'') (\<lambda>_.
     bind_r (mob_require_str top ''v'') (\<lambda>v.
     if v \<noteq> ''execution_response_v1'' then Inl (ValueError ''v must be execution_response_v1'') else
     bind_r (mob_require_str top ''status'') (\<lambda>status.
     if status \<notin> set response_statuses
       then Inl (ValueError ''status must be one of allow/deny/error'') else
     bind_r (mob_require_str top ''reason_id'') (\<lambda>reason.
     if reason_of_string reason = None then Inl (ValueError ''reason_id must be a known ReasonId'') else
     bind_r (mob_require_mapping (dget top ''decision'')) (\<lambda>decision.
     bind_r (mob_deny_unknown_keys decision mob_decision_keys ''decision'') (\<lambda>_.
     bind_r (mob_require_str decision ''intent'') (\<lambda>_.
     bind_r (mob_require_str decision ''action'') (\<lambda>_.
     bind_r (mob_require_bool decision ''allowed'') (\<lambda>allowed.
     bind_r (mob_require_str decision ''context_hash'') (\<lambda>ctx_hash.
     if length ctx_hash \<noteq> 64 then Inl (ValueError ''context_hash must be 64-char hex string'') else
     bind_r (mob_require_mapping (dget decision ''tva'')) (\<lambda>tva.
     bind_r (mob_require_mapping (dget decision ''eqc'')) (\<lambda>eqc.
     bind_r (mob_require_mapping (dget decision ''wsqk'')) (\<lambda>wsqk.
     bind_r (mob_require_mapping (dget decision ''nonce'')) (\<lambda>nonce.
     bind_r (mob_require_mapping (dget decision ''timebox'')) (\<lambda>timebox.
     bind_r (mob_deny_unknown_keys tva [''allowed''] ''decision.tva'') (\<lambda>_.
     bind_r (mob_deny_unknown_keys eqc [''allowed''] ''decision.eqc'') (\<lambda>_.
     bind_r (mob_deny_unknown_keys wsqk [''allowed''] ''decision.wsqk'') (\<lambda>_.
     bind_r (mob_deny_unknown_keys nonce [''consumed''] ''decision.nonce'') (\<lambda>_.
     bind_r (mob_deny_unknown_keys timebox [''valid''] ''decision.timebox'') (\<lambda>_.
     bind_r (mob_require_bool tva ''allowed'') (\<lambda>_.
     bind_r (mob_require_bool eqc ''allowed'') (\<lambda>_.
     bind_r (mob_require_bool wsqk ''allowed'') (\<lambda>_.
     bind_r (mob_require_bool nonce ''consumed'') (\<lambda>consumed.
     bind_r (mob_require_bool timebox ''valid'') (\<lambda>valid.
     bind_r (mob_status_locks status reason allowed consumed valid) (\<lambda>_.
     Inr top)))))))))))))))))))))))))))"

section \<open>The mobile decision\<close>

definition reason_map_entries :: "(reason_id \<times> string) list" where
  "reason_map_entries =
    [(OK_ALLOW, ''APPROVED''),
     (EQC_MISSING_QID_SESSION, ''IDENTITY_REQUIRED''),
     (EQC_QID_SESSION_EXPIRED, ''SESSION_EXPIRED''),
     (EQC_QID_SESSION_NOT_YET_VALID, ''SESSION_NOT_YET_VALID''),
     (EQC_INVALID_QID_PROOF, ''IDENTITY_VERIFICATION_FAILED''),
     (EQC_MISSING_ORACLE, ''SECURITY_CHECK_INCOMPLETE''),
     (EQC_MISSING_SHIELD_BUNDLE, ''SECURITY_CHECK_INCOMPLETE''),
     (EQC_RISK_SCORE_BELOW_THRESHOLD, ''SECURITY_RISK_TOO_HIGH''),
     (EQC_CONFLICTING_EVIDENCE, ''SECURITY_POLICY_BLOCK''),
     (DENY_POLICY, ''SECURITY_POLICY_BLOCK''),
     (DENY_ADAPTER_INVALID, ''SECURITY_INPUT_INVALID''),
     (DENY_VERSION_MISMATCH, ''SECURITY_VERSION_MISMATCH''),
     (ERR_INTERNAL, ''SYSTEM_ERROR''),
     (ERR_UNHANDLED, ''SYSTEM_ERROR'')]"

text \<open>
  \<open>_REASON_MAP.get(reason_id, default)\<close>. The caller passes the string of a reason, which
  equals and hashes like the member whose name it is.
\<close>

definition map_reason_id_to_mobile_code :: "string \<Rightarrow> string" where
  "map_reason_id_to_mobile_code reason =
    (case List.find (\<lambda>p. reason_value (fst p) = reason) reason_map_entries of
       Some p \<Rightarrow> snd p | None \<Rightarrow> ''ACTION_NOT_ALLOWED'')"

definition build_mobile_decision_result_v1 :: "eqc_result \<Rightarrow> string \<Rightarrow> pyexc + pydict" where
  "build_mobile_decision_result_v1 eqc request_id =
    (let rid = py_strip request_id in
     if rid = [] then Inl (ValueError ''request_id must be non-empty'') else
     let out = [(''v'', PStr ''mobile_decision_result_v1''), (''request_id'', PStr rid),
       (''verdict'', PStr (if eq_verdict eqc = ALLOW then ''allow'' else ''deny'')),
       (''reason_code'', PStr (case eq_reason_ids eqc of
          r # _ \<Rightarrow> map_reason_id_to_mobile_code r | [] \<Rightarrow> ''APPROVED'')),
       (''context_hash'', PStr (eq_context_hash eqc)), (''explainable'', PBool True),
       (''confidence'', PStr (if eq_reason_ids eqc = [] then ''medium'' else ''high''))] in
     bind_r (json_dumps True True (PDict out)) (\<lambda>s.
     Inr (out @ [(''_snapshot_sha256'', PStr (sha256_hex (utf8 s)))])))"

section \<open>Facts\<close>

lemma mob_ok [res_simps]:
  "mob_require_mapping v = Inr m \<longleftrightarrow> v = PDict m"
  "mob_require_str m k = Inr s \<longleftrightarrow> dget m k = PStr s \<and> \<not> py_blank s"
  "mob_require_bool m k = Inr b \<longleftrightarrow> dget m k = PBool b"
  "mob_deny_unknown_keys m allowed n = Inr u \<longleftrightarrow> set (dkeys m) \<subseteq> set allowed"
  by (auto simp: mob_require_mapping_def mob_require_str_def mob_require_bool_def
      mob_deny_unknown_keys_def unknown_keys_Nil res_simps)

lemma mob_status_locks_ok:
  assumes "status \<in> set response_statuses"
  shows "mob_status_locks status reason allowed consumed valid = Inr () \<longleftrightarrow>
    (if status = ''allow'' then reason = reason_value OK_ALLOW \<and> allowed \<and> consumed \<and> valid
     else \<not> allowed \<and> \<not> consumed \<and>
       (if status = ''deny'' then list_ex (starts_with reason) DENY_REASON_PREFIXES
        else starts_with reason ''ERR_''))"
  using assms by (auto simp: mob_status_locks_def response_statuses_def)

lemma build_mobile_total:
  assumes "\<not> py_blank request_id"
  shows "\<exists>out. build_mobile_decision_result_v1 eqc request_id = Inr out"
  using assms by (simp add: build_mobile_decision_result_v1_def Let_def json_dumps_def)

section \<open>Properties\<close>

text \<open>
  C12: The consumer's validator of v1 responses accepts no response that the v1 builder
  produces: the builder always writes the key \<open>protection_mode\<close> into the decision, and
  the validator treats it as unknown.
\<close>

theorem validator_rejects_every_built_response:
  assumes "build_execution_response_v1 a = Inr resp"
  shows "validate_execution_response_v1 (PDict resp) \<noteq> Inr out"
proof
  assume "validate_execution_response_v1 (PDict resp) = Inr out"
  then have "set (dkeys (decision_v1 a)) \<subseteq> set mob_decision_keys"
    using build_v1_fields(3)[OF assms]
    by (auto simp: validate_execution_response_v1_def res_simps)
  then show False by (simp add: decision_v1_def dkeys_def mob_decision_keys_def)
qed

definition demo_response_args :: response_v1_args where
  "demo_response_args = \<lparr>r1_request_id = ''r1'', r1_intent = ''tx'', r1_action = ''send'',
     r1_context_hash = replicate 64 CHR ''0'', r1_status = ''allow'', r1_reason_id = RId OK_ALLOW,
     r1_protection_mode = ''full'', r1_tva_allowed = True, r1_eqc_allowed = True,
     r1_wsqk_allowed = True, r1_nonce_consumed = True, r1_timebox_valid = True,
     r1_artifacts = None, r1_metrics = None\<rparr>"

theorem validator_rejects_every_built_response_witness:
  "\<exists>resp. build_execution_response_v1 demo_response_args = Inr resp \<and>
     dget resp ''status'' = PStr ''allow'' \<and>
     (\<forall>out. validate_execution_response_v1 (PDict resp) \<noteq> Inr out)"
proof -
  obtain resp where r: "build_execution_response_v1 demo_response_args = Inr resp"
    using build_v1_total[of demo_response_args]
    by (auto simp: demo_response_args_def response_args_ok_def response_statuses_def protection_modes_def)
  then show ?thesis
    using validator_rejects_every_built_response[OF r] build_v1_fields(1)[OF r]
    by (auto simp: demo_response_args_def)
qed

end
