(* ===== verification/Envelope.thy ===== *)
theory Envelope
  imports Context_Hash Contracts Obs_Metrics Iso_Time
begin

text \<open>
  \<open>src/adamantine/v1/execution/envelope_v1.py\<close> and \<open>envelope_v2.py\<close>: the strict parsers of
  the two execution request envelopes. Their helpers agree except for
  \<open>_require_nonempty_str\<close>, which rejects control characters in v2. The parsers are pure
  functions to a result; \<open>_fail\<close> counts the reason before it raises, so the entry points
  with a metrics sink count exactly the \<open>EnvelopeError\<close> that comes out.
\<close>

section \<open>Helpers\<close>

definition MAX_TIMEBOX_SKEW_SECONDS :: int where
  "MAX_TIMEBOX_SKEW_SECONDS = 300"

definition env_fail :: "reason_id \<Rightarrow> string \<Rightarrow> pyexc + 'a" where
  "env_fail rid msg = Inl (EnvelopeError rid msg)"

definition env_require_mapping :: "pyval \<Rightarrow> reason_id \<Rightarrow> string \<Rightarrow> pyexc + pydict" where
  "env_require_mapping obj rid name = need_map obj (EnvelopeError rid (name @ '' must be object''))"

definition env_require_mapping_nonempty :: "pyval \<Rightarrow> reason_id \<Rightarrow> string \<Rightarrow> pyexc + pydict" where
  "env_require_mapping_nonempty obj rid name =
     bind_r (env_require_mapping obj rid name) (\<lambda>m.
     if m = [] then env_fail rid (name @ '' must be non-empty object'') else Inr m)"

definition env_expect_keys :: "pydict \<Rightarrow> string \<Rightarrow> string list \<Rightarrow> string list \<Rightarrow> pyexc + unit" where
  "env_expect_keys m name required allowed =
    (if missing_keys required m \<noteq> [] then env_fail DENY_SCHEMA_INVALID
       (name @ '' missing required keys: '' @ repr_str_list (missing_keys required m))
     else if unknown_keys m allowed \<noteq> [] then env_fail DENY_UNKNOWN_FIELD
       (name @ '' has unknown keys: '' @ repr_str_list (unknown_keys m allowed))
     else Inr ())"

definition require_nonempty_str_v1 :: "pyval \<Rightarrow> reason_id \<Rightarrow> string \<Rightarrow> pyexc + string" where
  "require_nonempty_str_v1 v rid name =
     bind_r (need_str v (EnvelopeError rid (name @ '' must be non-empty str''))) (\<lambda>s.
     if s = [] then env_fail rid (name @ '' must be non-empty str'') else Inr s)"

definition require_nonempty_str_v2 :: "pyval \<Rightarrow> reason_id \<Rightarrow> string \<Rightarrow> pyexc + string" where
  "require_nonempty_str_v2 v rid name =
     bind_r (need_str v (EnvelopeError rid (name @ '' must be non-empty str''))) (\<lambda>s.
     if s = [] then env_fail rid (name @ '' must be non-empty str'')
     else if has_control_char s then env_fail rid (name @ '' contains a forbidden control character'')
     else Inr s)"

text \<open>
  \<open>_parse_iso8601_to_unix_seconds\<close>. The conversion to UTC stands outside the \<open>try\<close>, so its
  \<open>OverflowError\<close> leaves the parser as it is.
\<close>

definition parse_iso8601_to_unix_seconds :: "pyval \<Rightarrow> string \<Rightarrow> pyexc + int" where
  "parse_iso8601_to_unix_seconds v name =
     bind_r (need_str v (EnvelopeError DENY_TIMEBOX_INVALID (name @ '' must be non-empty ISO-8601 str''))) (\<lambda>s.
     if s = [] then env_fail DENY_TIMEBOX_INVALID (name @ '' must be non-empty ISO-8601 str'') else
     let iso = (if last s = CHR ''Z'' then butlast s @ ''+00:00'' else s) in
     case fromisoformat iso of
       None \<Rightarrow> env_fail DENY_TIMEBOX_INVALID (name @ '' must be ISO-8601 with timezone'')
     | Some (us, None) \<Rightarrow> env_fail DENY_TIMEBOX_INVALID (name @ '' must include timezone'')
     | Some (us, Some off) \<Rightarrow> (case utc_timestamp us off of
         None \<Rightarrow> Inl (OtherError ''date value out of range'')
       | Some n \<Rightarrow> Inr n))"

text \<open>The timebox section, the same text in both parsers.\<close>

definition parse_timebox :: "pyval \<Rightarrow> int \<Rightarrow> pyexc + (int \<times> int \<times> int)" where
  "parse_timebox v now =
     bind_r (env_require_mapping v DENY_TIMEBOX_INVALID ''timebox'') (\<lambda>tb_m.
     bind_r (env_expect_keys tb_m ''timebox'' [''issued_at'', ''expires_at'']
       [''issued_at'', ''expires_at'', ''max_skew_seconds'']) (\<lambda>_.
     bind_r (parse_iso8601_to_unix_seconds (dget tb_m ''issued_at'') ''timebox.issued_at'') (\<lambda>issued_at.
     bind_r (parse_iso8601_to_unix_seconds (dget tb_m ''expires_at'') ''timebox.expires_at'') (\<lambda>expires_at.
     if expires_at \<le> issued_at
       then env_fail DENY_TIMEBOX_INVALID ''timebox.expires_at must be > issued_at'' else
     bind_r (need_int (dget_default tb_m ''max_skew_seconds'' (PInt 0)) (EnvelopeError DENY_TIMEBOX_INVALID
       ''timebox.max_skew_seconds must be non-negative int'')) (\<lambda>skew.
     if skew < 0 then env_fail DENY_TIMEBOX_INVALID ''timebox.max_skew_seconds must be non-negative int''
     else if MAX_TIMEBOX_SKEW_SECONDS < skew
       then env_fail DENY_TIMEBOX_INVALID ''timebox.max_skew_seconds exceeds maximum allowed skew''
     else if now < issued_at - skew then env_fail DENY_TIMEBOX_NOT_YET_VALID ''request not yet valid''
     else if expires_at + skew < now then env_fail DENY_TIMEBOX_EXPIRED ''request expired''
     else Inr (issued_at, expires_at, skew))))))"

text \<open>The nonce section, given the version's string check.\<close>

definition parse_nonce :: "(pyval \<Rightarrow> reason_id \<Rightarrow> string \<Rightarrow> pyexc + string) \<Rightarrow> pyval
    \<Rightarrow> pyexc + (string \<times> string)" where
  "parse_nonce req_str v =
     bind_r (env_require_mapping v DENY_NONCE_INVALID ''nonce'') (\<lambda>n_m.
     bind_r (env_expect_keys n_m ''nonce'' [''value'', ''store'', ''mode''] [''value'', ''store'', ''mode'']) (\<lambda>_.
     bind_r (req_str (dget n_m ''value'') DENY_NONCE_INVALID ''nonce.value'') (\<lambda>nonce_value.
     bind_r (req_str (dget n_m ''store'') DENY_NONCE_INVALID ''nonce.store'') (\<lambda>nonce_store.
     bind_r (req_str (dget n_m ''mode'') DENY_NONCE_INVALID ''nonce.mode'') (\<lambda>mode.
     if mode \<noteq> ''single_use'' then env_fail DENY_NONCE_INVALID ''nonce.mode must be single_use''
     else Inr (nonce_value, nonce_store))))))"

text \<open>The authority section: class, scope and the optional proofs.\<close>

definition parse_authority :: "(pyval \<Rightarrow> reason_id \<Rightarrow> string \<Rightarrow> pyexc + string) \<Rightarrow> pyval
    \<Rightarrow> pyexc + (string \<times> pydict \<times> pydict option)" where
  "parse_authority req_str v =
     bind_r (env_require_mapping v DENY_AUTHORITY_INVALID ''authority'') (\<lambda>auth_m.
     bind_r (env_expect_keys auth_m ''authority'' [''class'', ''scope''] [''class'', ''scope'', ''proofs'']) (\<lambda>_.
     bind_r (req_str (dget auth_m ''class'') DENY_AUTHORITY_INVALID ''authority.class'') (\<lambda>authority_class.
     bind_r (env_require_mapping (dget auth_m ''scope'') DENY_AUTHORITY_INVALID ''authority.scope'') (\<lambda>scope.
     bind_r (if dget auth_m ''proofs'' = PNone then Inr None
       else bind_r (env_require_mapping (dget auth_m ''proofs'') DENY_AUTHORITY_INVALID ''authority.proofs'')
         (\<lambda>m. Inr (Some m))) (\<lambda>proofs.
     Inr (authority_class, scope, proofs))))))"

definition parse_audit :: "pyval \<Rightarrow> pyexc + pydict option" where
  "parse_audit v = (if v = PNone then Inr None else
     bind_r (env_require_mapping v DENY_SCHEMA_INVALID ''audit'') (\<lambda>m.
     bind_r (env_expect_keys m ''audit'' [] [''client_version'', ''platform'', ''locale'', ''notes'']) (\<lambda>_.
     Inr (Some m))))"

definition envelope_keys :: "string list" where
  "envelope_keys =
     [''v'', ''request_id'', ''intent'', ''context'', ''authority'', ''timebox'', ''nonce'', ''payload'']"

definition context_keys :: "string list" where
  "context_keys = [''wallet_id'', ''device_id'', ''app_id'', ''session_id'', ''action'', ''fields'']"

section \<open>Envelope v1\<close>

record envelope =
  ev_request_id :: string
  ev_intent :: string
  ev_context :: execution_context
  ev_authority_class :: string
  ev_authority_scope :: pydict
  ev_authority_proofs :: "pydict option"
  ev_issued_at :: int
  ev_expires_at :: int
  ev_max_skew_seconds :: int
  ev_nonce_value :: string
  ev_nonce_store :: string
  ev_audit :: "pydict option"

record envelope_v1 = envelope +
  ev_payload :: pydict

text \<open>The loop over \<open>context.fields\<close> of v1.\<close>

definition check_field_v1 :: "string \<times> pyval \<Rightarrow> pyexc + unit" where
  "check_field_v1 kv =
    (if fst kv = [] then env_fail DENY_SCHEMA_INVALID ''context.fields keys must be non-empty str''
     else if \<not> is_str (snd kv)
       then env_fail DENY_SCHEMA_INVALID ''context.fields values must be str (v1)''
     else Inr ())"

text \<open>The context section of both parsers: the identifiers, the fields and the context hash.\<close>

definition parse_context :: "(pyval \<Rightarrow> reason_id \<Rightarrow> string \<Rightarrow> pyexc + string)
    \<Rightarrow> (string \<times> pyval \<Rightarrow> pyexc + unit) \<Rightarrow> pyval \<Rightarrow> pyexc + execution_context" where
  "parse_context req_str check_field v =
     bind_r (env_require_mapping v DENY_SCHEMA_INVALID ''context'') (\<lambda>ctx_m.
     bind_r (env_expect_keys ctx_m ''context'' context_keys context_keys) (\<lambda>_.
     bind_r (req_str (dget ctx_m ''wallet_id'') DENY_SCHEMA_INVALID ''context.wallet_id'') (\<lambda>wallet_id.
     bind_r (req_str (dget ctx_m ''action'') DENY_SCHEMA_INVALID ''context.action'') (\<lambda>action.
     bind_r (req_str (dget ctx_m ''device_id'') DENY_SCHEMA_INVALID ''context.device_id'') (\<lambda>_.
     bind_r (req_str (dget ctx_m ''app_id'') DENY_SCHEMA_INVALID ''context.app_id'') (\<lambda>_.
     bind_r (req_str (dget ctx_m ''session_id'') DENY_SCHEMA_INVALID ''context.session_id'') (\<lambda>_.
     bind_r (env_require_mapping (dget ctx_m ''fields'') DENY_SCHEMA_INVALID ''context.fields'') (\<lambda>fields_m.
     bind_r (each_r check_field fields_m) (\<lambda>_.
     bind_r (compute_context_hash wallet_id action (Some fields_m)) (\<lambda>context_hash.
     Inr \<lparr>cx_wallet_id = wallet_id, cx_action = action, cx_context_hash = context_hash\<rparr>))))))))))"

definition parse_envelope_v1 :: "pyval \<Rightarrow> int \<Rightarrow> pyexc + envelope_v1" where
  "parse_envelope_v1 payload now =
     bind_r (env_require_mapping payload DENY_SCHEMA_INVALID ''envelope'') (\<lambda>env.
     bind_r (env_expect_keys env ''envelope'' envelope_keys (envelope_keys @ [''audit''])) (\<lambda>_.
     bind_r (require_nonempty_str_v1 (dget env ''v'') DENY_VERSION_MISMATCH ''v'') (\<lambda>v.
     if v \<noteq> ''execution_request_v1''
       then env_fail DENY_VERSION_MISMATCH ''unsupported envelope version'' else
     bind_r (require_nonempty_str_v1 (dget env ''request_id'') DENY_SCHEMA_INVALID ''request_id'') (\<lambda>request_id.
     bind_r (require_nonempty_str_v1 (dget env ''intent'') DENY_SCHEMA_INVALID ''intent'') (\<lambda>intent.
     bind_r (parse_context require_nonempty_str_v1 check_field_v1 (dget env ''context'')) (\<lambda>context.
     bind_r (parse_authority require_nonempty_str_v1 (dget env ''authority'')) (\<lambda>(aclass, scope, proofs).
     bind_r (parse_timebox (dget env ''timebox'') now) (\<lambda>(issued_at, expires_at, skew).
     bind_r (parse_nonce require_nonempty_str_v1 (dget env ''nonce'')) (\<lambda>(nonce_value, nonce_store).
     bind_r (env_require_mapping (dget env ''payload'') DENY_PAYLOAD_INVALID ''payload'') (\<lambda>body.
     bind_r (parse_audit (dget env ''audit'')) (\<lambda>audit.
     Inr \<lparr>ev_request_id = request_id, ev_intent = intent, ev_context = context,
       ev_authority_class = aclass, ev_authority_scope = scope, ev_authority_proofs = proofs,
       ev_issued_at = issued_at, ev_expires_at = expires_at, ev_max_skew_seconds = skew,
       ev_nonce_value = nonce_value, ev_nonce_store = nonce_store, ev_audit = audit,
       ev_payload = body\<rparr>)))))))))))"

section \<open>Envelope v2\<close>

record envelope_v2 = envelope +
  ev_evidence_qid :: pydict
  ev_evidence_oracle :: pydict
  ev_evidence_shield :: pydict
  ev_body :: pydict

definition check_field_v2 :: "string \<times> pyval \<Rightarrow> pyexc + unit" where
  "check_field_v2 kv =
    (if fst kv = [] then env_fail DENY_SCHEMA_INVALID ''context.fields keys must be non-empty str''
     else if has_control_char (fst kv)
       then env_fail DENY_SCHEMA_INVALID ''context.fields keys contain a forbidden control character''
     else if CHR ''='' \<in> set (fst kv) then env_fail DENY_SCHEMA_INVALID
       (''context.fields keys must not contain '' @ repr_str [CHR ''=''])
     else case snd kv of
       PStr s \<Rightarrow> if has_control_char s
         then env_fail DENY_SCHEMA_INVALID ''context.fields values contain a forbidden control character''
         else Inr ()
     | _ \<Rightarrow> env_fail DENY_SCHEMA_INVALID ''context.fields values must be str'')"

text \<open>The payload section of v2: the three evidence objects and the body.\<close>

definition parse_payload_v2 :: "pyval \<Rightarrow> pyexc + (pydict \<times> pydict \<times> pydict \<times> pydict)" where
  "parse_payload_v2 v =
     bind_r (env_require_mapping v DENY_PAYLOAD_INVALID ''payload'') (\<lambda>payload_m.
     bind_r (env_expect_keys payload_m ''payload'' [''evidence'', ''body''] [''evidence'', ''body'']) (\<lambda>_.
     bind_r (env_require_mapping (dget payload_m ''evidence'') DENY_PAYLOAD_INVALID ''payload.evidence'') (\<lambda>evidence_m.
     bind_r (env_expect_keys evidence_m ''payload.evidence'' [''qid'', ''oracle'', ''shield'']
       [''qid'', ''oracle'', ''shield'']) (\<lambda>_.
     bind_r (env_require_mapping_nonempty (dget evidence_m ''qid'') DENY_PAYLOAD_INVALID ''payload.evidence.qid'') (\<lambda>q.
     bind_r (env_require_mapping_nonempty (dget evidence_m ''oracle'') DENY_PAYLOAD_INVALID ''payload.evidence.oracle'') (\<lambda>ac.
     bind_r (env_require_mapping_nonempty (dget evidence_m ''shield'') DENY_PAYLOAD_INVALID ''payload.evidence.shield'') (\<lambda>sh.
     bind_r (env_require_mapping (dget payload_m ''body'') DENY_PAYLOAD_INVALID ''payload.body'') (\<lambda>body.
     Inr (q, ac, sh, body)))))))))"

definition parse_envelope_v2 :: "pyval \<Rightarrow> int \<Rightarrow> pyexc + envelope_v2" where
  "parse_envelope_v2 payload now =
     bind_r (env_require_mapping payload DENY_SCHEMA_INVALID ''envelope'') (\<lambda>env.
     bind_r (env_expect_keys env ''envelope'' envelope_keys (envelope_keys @ [''audit''])) (\<lambda>_.
     bind_r (require_nonempty_str_v2 (dget env ''v'') DENY_VERSION_MISMATCH ''v'') (\<lambda>v.
     if v \<noteq> ''execution_request_v2''
       then env_fail DENY_VERSION_MISMATCH ''unsupported envelope version'' else
     bind_r (require_nonempty_str_v2 (dget env ''request_id'') DENY_SCHEMA_INVALID ''request_id'') (\<lambda>request_id.
     bind_r (require_nonempty_str_v2 (dget env ''intent'') DENY_SCHEMA_INVALID ''intent'') (\<lambda>intent.
     bind_r (parse_context require_nonempty_str_v2 check_field_v2 (dget env ''context'')) (\<lambda>context.
     bind_r (parse_authority require_nonempty_str_v2 (dget env ''authority'')) (\<lambda>(aclass, scope, proofs).
     bind_r (parse_timebox (dget env ''timebox'') now) (\<lambda>(issued_at, expires_at, skew).
     bind_r (parse_nonce require_nonempty_str_v2 (dget env ''nonce'')) (\<lambda>(nonce_value, nonce_store).
     bind_r (parse_payload_v2 (dget env ''payload'')) (\<lambda>(q, ac, sh, body).
     bind_r (parse_audit (dget env ''audit'')) (\<lambda>audit.
     Inr \<lparr>ev_request_id = request_id, ev_intent = intent, ev_context = context,
       ev_authority_class = aclass, ev_authority_scope = scope, ev_authority_proofs = proofs,
       ev_issued_at = issued_at, ev_expires_at = expires_at, ev_max_skew_seconds = skew,
       ev_nonce_value = nonce_value, ev_nonce_store = nonce_store, ev_audit = audit,
       ev_evidence_qid = q, ev_evidence_oracle = ac, ev_evidence_shield = sh,
       ev_body = body\<rparr>)))))))))))"

section \<open>The entry points with a metrics sink\<close>

definition count_env_failure :: "metrics option \<Rightarrow> pyexc + 'a \<Rightarrow> (pyexc + 'a) \<times> metrics option" where
  "count_env_failure m res = (res, case res of Inl (EnvelopeError rid _) \<Rightarrow> inc_reason m rid | _ \<Rightarrow> m)"

definition parse_execution_request_envelope_v1 :: "pyval \<Rightarrow> int \<Rightarrow> metrics option
    \<Rightarrow> (pyexc + envelope_v1) \<times> metrics option" where
  "parse_execution_request_envelope_v1 payload now m = count_env_failure m (parse_envelope_v1 payload now)"

definition parse_execution_request_envelope_v2 :: "pyval \<Rightarrow> int \<Rightarrow> metrics option
    \<Rightarrow> (pyexc + envelope_v2) \<times> metrics option" where
  "parse_execution_request_envelope_v2 payload now m = count_env_failure m (parse_envelope_v2 payload now)"

section \<open>What the helpers accept\<close>

lemma env_fail_ne [simp]: "env_fail rid msg \<noteq> Inr x"
  by (simp add: env_fail_def)

lemma if_env_fail_eq_Inr [res_simps]:
  "(if c then env_fail rid msg else m) = Inr x \<longleftrightarrow> \<not> c \<and> m = Inr x"
  by simp

lemma env_require_mapping_ok [res_simps]: "env_require_mapping v rid n = Inr m \<longleftrightarrow> v = PDict m"
  by (simp add: env_require_mapping_def res_simps)

lemma env_require_mapping_nonempty_ok [res_simps]:
  "env_require_mapping_nonempty v rid n = Inr m \<longleftrightarrow> v = PDict m \<and> m \<noteq> []"
  by (auto simp: env_require_mapping_nonempty_def res_simps)

lemma env_expect_keys_ok [res_simps]:
  "env_expect_keys m n required allowed = Inr u \<longleftrightarrow>
     set required \<subseteq> set (dkeys m) \<and> set (dkeys m) \<subseteq> set allowed"
  by (auto simp: env_expect_keys_def missing_keys_Nil unknown_keys_Nil)

lemma require_nonempty_str_v1_ok [res_simps]:
  "require_nonempty_str_v1 v rid n = Inr s \<longleftrightarrow> v = PStr s \<and> s \<noteq> []"
  by (auto simp: require_nonempty_str_v1_def res_simps)

lemma require_nonempty_str_v2_ok [res_simps]:
  "require_nonempty_str_v2 v rid n = Inr s \<longleftrightarrow> v = PStr s \<and> s \<noteq> [] \<and> \<not> has_control_char s"
  by (auto simp: require_nonempty_str_v2_def res_simps)

lemma check_field_v1_ok [res_simps]:
  "check_field_v1 kv = Inr u \<longleftrightarrow> fst kv \<noteq> [] \<and> is_str (snd kv)"
  by (simp add: check_field_v1_def)

lemma check_field_v2_ok [res_simps]:
  "check_field_v2 kv = Inr u \<longleftrightarrow> fst kv \<noteq> [] \<and> \<not> has_control_char (fst kv) \<and> CHR ''='' \<notin> set (fst kv) \<and>
     (\<exists>s. snd kv = PStr s \<and> \<not> has_control_char s)"
  by (cases "snd kv") (auto simp: check_field_v2_def)

definition timebox_ok :: "int \<Rightarrow> int \<Rightarrow> int \<Rightarrow> int \<Rightarrow> bool" where
  "timebox_ok now issued_at expires_at skew \<longleftrightarrow> issued_at < expires_at \<and>
     0 \<le> skew \<and> skew \<le> MAX_TIMEBOX_SKEW_SECONDS \<and> issued_at - skew \<le> now \<and> now \<le> expires_at + skew"

text \<open>The sections of an accepted request as the values read from its payload.\<close>

definition timebox_read :: "pydict \<Rightarrow> int \<Rightarrow> int \<Rightarrow> int \<Rightarrow> bool" where
  "timebox_read tb issued_at expires_at skew \<longleftrightarrow>
     parse_iso8601_to_unix_seconds (dget tb ''issued_at'') ''timebox.issued_at'' = Inr issued_at \<and>
     parse_iso8601_to_unix_seconds (dget tb ''expires_at'') ''timebox.expires_at'' = Inr expires_at \<and>
     dget_default tb ''max_skew_seconds'' (PInt 0) = PInt skew"

definition nonce_read :: "pydict \<Rightarrow> string \<Rightarrow> string \<Rightarrow> bool" where
  "nonce_read n nonce_value nonce_store \<longleftrightarrow> dget n ''mode'' = PStr ''single_use'' \<and>
     dget n ''value'' = PStr nonce_value \<and> nonce_value \<noteq> [] \<and> \<not> has_control_char nonce_value \<and>
     dget n ''store'' = PStr nonce_store \<and> nonce_store \<noteq> []"

definition evidence_read :: "pydict \<Rightarrow> pydict \<Rightarrow> pydict \<Rightarrow> pydict \<Rightarrow> bool" where
  "evidence_read e q ac sh \<longleftrightarrow> dget e ''qid'' = PDict q \<and> q \<noteq> [] \<and> dget e ''oracle'' = PDict ac \<and> ac \<noteq> [] \<and>
     dget e ''shield'' = PDict sh \<and> sh \<noteq> []"

lemma parse_timebox_ok:
  "parse_timebox v now = Inr (i, e, s) \<Longrightarrow> timebox_ok now i e s \<and> (\<exists>tb. v = PDict tb \<and> timebox_read tb i e s)"
  by (auto simp: parse_timebox_def timebox_ok_def timebox_read_def res_simps)

lemma parse_nonce_v2_ok:
  "parse_nonce require_nonempty_str_v2 v = Inr (a, b) \<Longrightarrow> \<exists>n. v = PDict n \<and> nonce_read n a b"
  by (auto simp: parse_nonce_def nonce_read_def res_simps)

lemma parse_payload_v2_ok:
  "parse_payload_v2 v = Inr (q, ac, sh, body) \<Longrightarrow>
     \<exists>m e. v = PDict m \<and> dget m ''evidence'' = PDict e \<and> evidence_read e q ac sh"
  by (auto simp: parse_payload_v2_def evidence_read_def res_simps)

text \<open>The context of an accepted v2 request: clean strings, and the hash of its own fields.\<close>

definition context_of_fields :: "execution_context \<Rightarrow> pydict \<Rightarrow> bool" where
  "context_of_fields cx fs \<longleftrightarrow>
     compute_context_hash (cx_wallet_id cx) (cx_action cx) (Some fs) = Inr (cx_context_hash cx)"

lemma parse_context_v2_ok:
  "parse_context require_nonempty_str_v2 check_field_v2 v = Inr cx \<Longrightarrow>
     \<exists>m fs. v = PDict m \<and> dget m ''fields'' = PDict fs \<and> context_of_fields cx fs \<and>
       dget m ''wallet_id'' = PStr (cx_wallet_id cx) \<and> dget m ''action'' = PStr (cx_action cx) \<and>
       cx_wallet_id cx \<noteq> [] \<and> cx_action cx \<noteq> []"
  by (auto simp: parse_context_def context_of_fields_def res_simps)

lemma compute_context_hash_clean:
  assumes "\<not> has_control_char w" "\<not> has_control_char a" "each_r check_field_v2 fs = Inr u"
  shows "\<exists>h. compute_context_hash w a (Some fs) = Inr h"
proof -
  have field: "\<exists>p. context_field_part fs k = Inr p" if "k \<in> set (dkeys fs)" for k
  proof -
    from map_of_in_dkeys[OF that] obtain v where v: "map_of fs k = Some v" by blast
    then have "check_field_v2 (k, v) = Inr ()"
      using assms(3) map_of_SomeD by (fastforce simp: each_r_eq_Inr)
    then show ?thesis using v by (auto simp: context_field_part_ok check_field_v2_ok dget_def)
  qed
  have "\<exists>ps. map_r (context_field_part fs) ks = Inr ps" if "set ks \<subseteq> set (dkeys fs)" for ks
    using that field by (induction ks) (auto, fastforce)
  then obtain ps where "map_r (context_field_part fs) (sort (dkeys fs)) = Inr ps"
    by (metis set_sort subset_refl)
  then show ?thesis using assms(1,2)
    by (simp add: compute_context_hash_def context_canonical_def reject_control_chars_def)
qed

section \<open>Which exceptions the parsers raise\<close>

definition is_envelope_error :: "pyexc \<Rightarrow> bool" where
  "is_envelope_error e \<longleftrightarrow> (\<exists>r m. e = EnvelopeError r m)"

text \<open>The v2 parser: an \<open>EnvelopeError\<close>, or the \<open>OverflowError\<close> of a time out of range.\<close>

definition v2_parse_error :: "pyexc \<Rightarrow> bool" where
  "v2_parse_error e \<longleftrightarrow> is_envelope_error e \<or> e = OtherError ''date value out of range''"

lemma v2_parse_error_env [simp]: "v2_parse_error (EnvelopeError r m)"
  by (simp add: v2_parse_error_def is_envelope_error_def)

lemma v2_parse_error_overflow [simp]: "v2_parse_error (OtherError ''date value out of range'')"
  by (simp add: v2_parse_error_def)

lemma env_raises [raises_intros]:
  "raises_only v2_parse_error (env_fail rid msg)"
  "raises_only v2_parse_error (env_require_mapping v rid n)"
  "raises_only v2_parse_error (env_require_mapping_nonempty v rid n)"
  "raises_only v2_parse_error (env_expect_keys m n required allowed)"
  "raises_only v2_parse_error (require_nonempty_str_v1 v rid n)"
  "raises_only v2_parse_error (require_nonempty_str_v2 v rid n)"
  "raises_only v2_parse_error (check_field_v2 kv)"
  by (auto simp: env_fail_def env_require_mapping_def env_require_mapping_nonempty_def
      env_expect_keys_def require_nonempty_str_v1_def require_nonempty_str_v2_def check_field_v2_def
      intro!: raises_intros raises_only_Inl split: pyval.split)

lemma parse_iso_raises [raises_intros]:
  "raises_only v2_parse_error (parse_iso8601_to_unix_seconds v n)"
  by (auto simp: parse_iso8601_to_unix_seconds_def env_fail_def Let_def
      intro!: raises_intros raises_only_Inl split: option.split)

lemma sections_raise [raises_intros]:
  "raises_only v2_parse_error (parse_timebox v now)"
  "raises_only v2_parse_error (parse_nonce require_nonempty_str_v2 v)"
  "raises_only v2_parse_error (parse_authority require_nonempty_str_v2 v)"
  "raises_only v2_parse_error (parse_audit v)"
  "raises_only v2_parse_error (parse_payload_v2 v)"
  unfolding parse_timebox_def parse_nonce_def parse_authority_def parse_audit_def parse_payload_v2_def
  by (intro raises_intros v2_parse_error_env)+

lemma parse_context_v2_raises [raises_intros]:
  "raises_only v2_parse_error (parse_context require_nonempty_str_v2 check_field_v2 v)"
  unfolding parse_context_def
proof (intro raises_intros)
  fix m w a d p s fs u
  assume "require_nonempty_str_v2 (dget m ''wallet_id'') DENY_SCHEMA_INVALID ''context.wallet_id'' = Inr w"
    "require_nonempty_str_v2 (dget m ''action'') DENY_SCHEMA_INVALID ''context.action'' = Inr a"
    "each_r check_field_v2 fs = Inr u"
  then obtain h where "compute_context_hash w a (Some fs) = Inr h"
    unfolding require_nonempty_str_v2_ok using compute_context_hash_clean[of w a fs u] by blast
  then show "raises_only v2_parse_error (compute_context_hash w a (Some fs))"
    by (simp add: raises_only_Inr)
qed

lemma parse_envelope_v2_raises: "raises_only v2_parse_error (parse_envelope_v2 payload now)"
  unfolding parse_envelope_v2_def
  by (intro raises_intros)

section \<open>Properties\<close>

text \<open>
  C10: A request the v2 parser accepts is well-formed, fresh and bound: the version is
  execution_request_v2; the injected time lies in the time box its \<open>timebox\<close> object spells, widened
  by that object's skew of at most 300 seconds; the \<open>nonce\<close> object has the mode single_use and the
  request carries its non-empty value; all three pieces of evidence are the non-empty objects of the
  payload; and the context hash is the hash of the request's own wallet, action and fields.
\<close>

theorem accepted_envelope_v2:
  assumes "parse_envelope_v2 payload now = Inr p"
  shows "\<exists>env ctx fs tb n pl ev. payload = PDict env \<and> dget env ''v'' = PStr ''execution_request_v2'' \<and>
    set (dkeys env) \<subseteq> set (envelope_keys @ [''audit'']) \<and>
    dget env ''request_id'' = PStr (ev_request_id p) \<and> ev_request_id p \<noteq> [] \<and>
    dget env ''timebox'' = PDict tb \<and> timebox_read tb (ev_issued_at p) (ev_expires_at p) (ev_max_skew_seconds p) \<and>
    timebox_ok now (ev_issued_at p) (ev_expires_at p) (ev_max_skew_seconds p) \<and>
    dget env ''nonce'' = PDict n \<and> nonce_read n (ev_nonce_value p) (ev_nonce_store p) \<and>
    dget env ''payload'' = PDict pl \<and> dget pl ''evidence'' = PDict ev \<and>
    evidence_read ev (ev_evidence_qid p) (ev_evidence_oracle p) (ev_evidence_shield p) \<and>
    dget env ''context'' = PDict ctx \<and> dget ctx ''fields'' = PDict fs \<and>
    dget ctx ''wallet_id'' = PStr (cx_wallet_id (ev_context p)) \<and>
    dget ctx ''action'' = PStr (cx_action (ev_context p)) \<and> context_of_fields (ev_context p) fs"
proof -
  obtain env where f: "payload = PDict env"
    "dget env ''v'' = PStr ''execution_request_v2''" "set (dkeys env) \<subseteq> set (envelope_keys @ [''audit''])"
    "dget env ''request_id'' = PStr (ev_request_id p)" "ev_request_id p \<noteq> []"
    "parse_context require_nonempty_str_v2 check_field_v2 (dget env ''context'') = Inr (ev_context p)"
    "parse_timebox (dget env ''timebox'') now = Inr (ev_issued_at p, ev_expires_at p, ev_max_skew_seconds p)"
    "parse_nonce require_nonempty_str_v2 (dget env ''nonce'') = Inr (ev_nonce_value p, ev_nonce_store p)"
    "parse_payload_v2 (dget env ''payload'') = Inr (ev_evidence_qid p, ev_evidence_oracle p, ev_evidence_shield p, ev_body p)"
    using assms unfolding parse_envelope_v2_def by (auto simp: res_simps split: prod.splits)
  then show ?thesis
    using parse_context_v2_ok[OF f(6)] parse_timebox_ok[OF f(7)] parse_nonce_v2_ok[OF f(8)] parse_payload_v2_ok[OF f(9)]
    by blast
qed

definition demo_envelope_v2 :: pydict where
  "demo_envelope_v2 = [(''v'', PStr ''execution_request_v2''), (''request_id'', PStr ''r1''),
     (''intent'', PStr ''send''),
     (''context'', PDict [(''wallet_id'', PStr ''w''), (''device_id'', PStr ''d''), (''app_id'', PStr ''a''),
       (''session_id'', PStr ''s''), (''action'', PStr ''send''), (''fields'', PDict [(''to'', PStr ''x'')])]),
     (''authority'', PDict [(''class'', PStr ''wsqk''), (''scope'', PDict [])]),
     (''timebox'', PDict [(''issued_at'', PStr ''1970-01-01T00:00:10Z''),
       (''expires_at'', PStr ''1970-01-01T00:01:00Z'')]),
     (''nonce'', PDict [(''value'', PStr ''n''), (''store'', PStr ''local''), (''mode'', PStr ''single_use'')]),
     (''payload'', PDict [(''evidence'', PDict [(''qid'', PDict [(''k'', PInt 1)]),
       (''oracle'', PDict [(''k'', PInt 1)]), (''shield'', PDict [(''k'', PInt 1)])]), (''body'', PDict [])])]"

lemma demo_envelope_parts:
  "parse_timebox (dget demo_envelope_v2 ''timebox'') 20 = Inr (10, 60, 0)"
  "parse_nonce require_nonempty_str_v2 (dget demo_envelope_v2 ''nonce'') = Inr (''n'', ''local'')"
  "parse_authority require_nonempty_str_v2 (dget demo_envelope_v2 ''authority'') = Inr (''wsqk'', [], None)"
  "parse_audit (dget demo_envelope_v2 ''audit'') = Inr None"
  by code_simp+

lemma demo_envelope_payload:
  "parse_payload_v2 (dget demo_envelope_v2 ''payload'') = Inr ([(''k'', PInt 1)], [(''k'', PInt 1)], [(''k'', PInt 1)], [])"
  by code_simp

lemma demo_envelope_context:
  "\<exists>cx. parse_context require_nonempty_str_v2 check_field_v2 (dget demo_envelope_v2 ''context'') = Inr cx"
proof -
  have str: "require_nonempty_str_v2 (PStr s) rid n = Inr s" if "s \<in> {''w'', ''d'', ''a'', ''s'', ''send''}" for s rid n
    using that by (auto simp: require_nonempty_str_v2_ok has_control_char_def is_control_char_def)
  have fs: "each_r check_field_v2 [(''to'', PStr ''x'')] = Inr ()" by code_simp
  moreover have "\<not> has_control_char ''w''" "\<not> has_control_char ''send''"
    by (simp_all add: has_control_char_def is_control_char_def)
  ultimately obtain h where "compute_context_hash ''w'' ''send'' (Some [(''to'', PStr ''x'')]) = Inr h"
    using compute_context_hash_clean by blast
  moreover have "env_expect_keys m ''context'' context_keys context_keys = Inr ()"
    if "dkeys m = [''wallet_id'', ''device_id'', ''app_id'', ''session_id'', ''action'', ''fields'']" for m
    using that by (simp add: env_expect_keys_ok context_keys_def)
  ultimately show ?thesis
    using fs by (simp add: demo_envelope_v2_def parse_context_def env_require_mapping_def str dkeys_def)
qed

lemma demo_envelope_parses: "\<exists>p. parse_envelope_v2 (PDict demo_envelope_v2) 20 = Inr p"
proof -
  obtain cx where cx: "parse_context require_nonempty_str_v2 check_field_v2 (dget demo_envelope_v2 ''context'') = Inr cx"
    using demo_envelope_context by blast
  have keys: "env_expect_keys demo_envelope_v2 ''envelope'' envelope_keys (envelope_keys @ [''audit'']) = Inr ()"
    by code_simp
  have strs: "require_nonempty_str_v2 (dget demo_envelope_v2 ''v'') DENY_VERSION_MISMATCH ''v'' = Inr ''execution_request_v2''"
    "require_nonempty_str_v2 (dget demo_envelope_v2 ''request_id'') DENY_SCHEMA_INVALID ''request_id'' = Inr ''r1''"
    "require_nonempty_str_v2 (dget demo_envelope_v2 ''intent'') DENY_SCHEMA_INVALID ''intent'' = Inr ''send''"
    by code_simp+
  show ?thesis
    unfolding parse_envelope_v2_def
    by (simp add: env_require_mapping_def keys strs cx demo_envelope_parts demo_envelope_payload)
qed

theorem accepted_envelope_v2_witness:
  "\<exists>p fs tb n. parse_envelope_v2 (PDict demo_envelope_v2) 20 = Inr p \<and> context_of_fields (ev_context p) fs \<and>
     timebox_ok 20 (ev_issued_at p) (ev_expires_at p) (ev_max_skew_seconds p) \<and>
     timebox_read tb (ev_issued_at p) (ev_expires_at p) (ev_max_skew_seconds p) \<and>
     nonce_read n (ev_nonce_value p) (ev_nonce_store p)"
proof -
  obtain p where p: "parse_envelope_v2 (PDict demo_envelope_v2) 20 = Inr p" using demo_envelope_parses by blast
  show ?thesis using accepted_envelope_v2[OF p] p by blast
qed

text \<open>
  The v2 parser is total on untrusted values and fails closed: it returns a request, or
  raises an \<open>EnvelopeError\<close> with a reason of the vocabulary, except for one leak, the
  \<open>OverflowError\<close> of a timestamp whose conversion to UTC leaves the calendar, which the
  timestamp 0001-01-01T00:00:00+05:00 reaches.
\<close>

theorem envelope_v2_errors:
  "(case parse_envelope_v2 payload now of Inr p \<Rightarrow> True
    | Inl e \<Rightarrow> (\<exists>rid msg. e = EnvelopeError rid msg) \<or> e = OtherError ''date value out of range'') \<and>
   parse_timebox (PDict [(''issued_at'', PStr ''0001-01-01T00:00:00+05:00''), (''expires_at'', PStr ''x'')]) 0
     = Inl (OtherError ''date value out of range'')"
proof
  show "case parse_envelope_v2 payload now of Inr p \<Rightarrow> True
    | Inl e \<Rightarrow> (\<exists>rid msg. e = EnvelopeError rid msg) \<or> e = OtherError ''date value out of range''"
    using parse_envelope_v2_raises[of payload now]
    by (auto simp: raises_only_def v2_parse_error_def is_envelope_error_def split: sum.split)
  show "parse_timebox (PDict [(''issued_at'', PStr ''0001-01-01T00:00:00+05:00''), (''expires_at'', PStr ''x'')]) 0
     = Inl (OtherError ''date value out of range'')"
    by code_simp
qed

end
