(* ===== verification/Nonce_Store.thy ===== *)
theory Nonce_Store
  imports Errors
begin

text \<open>
  \<open>src/adamantine/v1/enforcement/nonce_store.py\<close> and \<open>nonce_store_selector.py\<close>. A store is
  used through one operation, \<open>check_and_mark(wallet_id, nonce, expires_at)\<close>, which every
  caller receives injected: here a function on the store's state that may raise. The
  in-memory store is modelled; a \<open>DurableNonceStore\<close> lives in the platform layers, so its
  operation is a parameter. The locale states the contract of the interface, its
  interpretation discharges it for the in-memory store.
\<close>

type_synonym 's check_and_mark = "string \<Rightarrow> string \<Rightarrow> int \<Rightarrow> 's \<Rightarrow> (pyexc + bool) \<times> 's"

section \<open>The in-memory store\<close>

text \<open>The dictionary \<open>_used\<close> maps \<open>(wallet_id, nonce)\<close> to \<open>expires_at\<close>.\<close>

record in_memory_store =
  im_used :: "((string \<times> string) \<times> int) list"

definition empty_store :: in_memory_store where
  "empty_store = \<lparr>im_used = []\<rparr>"

definition im_check_and_mark :: "in_memory_store check_and_mark" where
  "im_check_and_mark wallet_id nonce expires_at st = (let key = (wallet_id, nonce) in
     if key \<in> set (map fst (im_used st)) then (Inr False, st)
     else (Inr True, st\<lparr>im_used := im_used st @ [(key, expires_at)]\<rparr>))"

section \<open>Selection\<close>

datatype 'd nonce_store =
    InMemoryStore in_memory_store
  | DurableStore 'd
  | OtherStore 'd

definition select_nonce_store :: "bool \<Rightarrow> 'd nonce_store option \<Rightarrow> pyexc + 'd nonce_store" where
  "select_nonce_store production store =
    (if production then
       (case store of
          None \<Rightarrow> Inl (TVAError (reason_value TVA_MISSING_NONCE_STORE))
        | Some (DurableStore d) \<Rightarrow> Inr (DurableStore d)
        | Some _ \<Rightarrow> Inl (TVAError (reason_value TVA_MISSING_NONCE_STORE)))
     else (case store of Some s \<Rightarrow> Inr s | None \<Rightarrow> Inr (InMemoryStore empty_store)))"

text \<open>The method call on the selected object; \<open>dcam\<close> is the platform's implementation.\<close>

fun store_check_and_mark :: "'d check_and_mark \<Rightarrow> 'd nonce_store check_and_mark" where
  "store_check_and_mark dcam w n e (InMemoryStore m) =
     (let (r, m') = im_check_and_mark w n e m in (r, InMemoryStore m'))"
| "store_check_and_mark dcam w n e (DurableStore d) =
     (let (r, d') = dcam w n e d in (r, DurableStore d'))"
| "store_check_and_mark dcam w n e (OtherStore d) =
     (let (r, d') = dcam w n e d in (r, OtherStore d'))"

text \<open>A sequence of calls, in any order in which they reach an atomic store.\<close>

fun run_calls :: "'s check_and_mark \<Rightarrow> (string \<times> string \<times> int) list \<Rightarrow> 's
    \<Rightarrow> (pyexc + bool) list \<times> 's" where
  "run_calls cam [] s = ([], s)"
| "run_calls cam ((w, n, e) # cs) s =
     (let (r, s1) = cam w n e s; (rs, s2) = run_calls cam cs s1 in (r # rs, s2))"

lemma run_calls_Cons:
  assumes "run_calls cam (c # cs) s = (rs, s')"
  obtains w n e r s1 rs' where "c = (w, n, e)" "cam w n e s = (r, s1)"
    "run_calls cam cs s1 = (rs', s')" "rs = r # rs'"
  using assms by (cases c) (auto split: prod.splits)

text \<open>How often the key \<open>(w, n)\<close> was accepted in a run.\<close>

fun count_accepted :: "string \<times> string \<Rightarrow> (string \<times> string \<times> int) list \<Rightarrow> (pyexc + bool) list \<Rightarrow> nat" where
  "count_accepted k ((w, n, e) # cs) (r # rs) =
     (if (w, n) = k \<and> r = Inr True then 1 else 0) + count_accepted k cs rs"
| "count_accepted k _ _ = 0"

section \<open>The contract\<close>

text \<open>
  What a client may rely on: a call that returns accepts exactly the unused keys and
  leaves the key used; no call frees a key, whether it returns or raises.
\<close>

locale nonce_contract =
  fixes cam :: "'s check_and_mark" and used :: "'s \<Rightarrow> (string \<times> string) set"
  assumes accept_iff_unused: "cam w n e s = (Inr b, s') \<Longrightarrow> b \<longleftrightarrow> (w, n) \<notin> used s"
    and marks: "cam w n e s = (Inr b, s') \<Longrightarrow> used s' = insert (w, n) (used s)"
    and error_keeps: "cam w n e s = (Inl x, s') \<Longrightarrow> used s \<subseteq> used s'"
begin

lemma used_mono: "cam w n e s = (r, s') \<Longrightarrow> used s \<subseteq> used s'"
  using marks error_keeps by (cases r) blast+

lemma replay_rejected: "cam w n e s = (Inr b, s') \<Longrightarrow> cam w n e' s' = (Inr c, s'') \<Longrightarrow> \<not> c"
  using accept_iff_unused marks by blast

lemma run_used_mono: "run_calls cam cs s = (rs, s') \<Longrightarrow> used s \<subseteq> used s'"
proof (induction cs arbitrary: s rs)
  case (Cons c cs)
  obtain w n e r s1 rs' where c: "c = (w, n, e)" and r: "cam w n e s = (r, s1)"
    and rs': "run_calls cam cs s1 = (rs', s')" and eq: "rs = r # rs'"
    using Cons.prems(1) by (rule run_calls_Cons)
  show ?case using used_mono[OF r] Cons.IH[OF rs'] by blast
qed simp

lemma used_never_accepted:
  "run_calls cam cs s = (rs, s') \<Longrightarrow> k \<in> used s \<Longrightarrow> count_accepted k cs rs = 0"
proof (induction cs arbitrary: s rs)
  case (Cons c cs)
  obtain w n e r s1 rs' where c: "c = (w, n, e)" and r: "cam w n e s = (r, s1)"
    and rs': "run_calls cam cs s1 = (rs', s')" and eq: "rs = r # rs'"
    using Cons.prems(1) by (rule run_calls_Cons)
  have "\<not> ((w, n) = k \<and> r = Inr True)" using accept_iff_unused r Cons.prems(2) by blast
  moreover have "k \<in> used s1" using used_mono[OF r] Cons.prems(2) by blast
  ultimately show ?case using Cons.IH[OF rs'] c eq by simp
qed simp

lemma accepted_at_most_once: "run_calls cam cs s = (rs, s') \<Longrightarrow> count_accepted k cs rs \<le> 1"
proof (induction cs arbitrary: s rs)
  case (Cons c cs)
  obtain w n e r s1 rs' where c: "c = (w, n, e)" and r: "cam w n e s = (r, s1)"
    and rs': "run_calls cam cs s1 = (rs', s')" and eq: "rs = r # rs'"
    using Cons.prems(1) by (rule run_calls_Cons)
  show ?case
  proof (cases "(w, n) = k \<and> r = Inr True")
    case True
    then have "k \<in> used s1" using marks r by blast
    then show ?thesis using used_never_accepted[OF rs'] c eq by simp
  next
    case False
    then show ?thesis using Cons.IH[OF rs'] c eq by auto
  qed
qed simp

end

definition im_used_keys :: "in_memory_store \<Rightarrow> (string \<times> string) set" where
  "im_used_keys st = set (map fst (im_used st))"

interpretation im: nonce_contract im_check_and_mark im_used_keys
  by unfold_locales (auto simp: im_check_and_mark_def im_used_keys_def Let_def split: if_splits)

text \<open>The in-memory store never raises, and its dictionary keeps distinct keys.\<close>

lemma im_check_and_mark_total: "\<exists>b st'. im_check_and_mark w n e st = (Inr b, st')"
  by (cases "(w, n) \<in> set (map fst (im_used st))") (auto simp: im_check_and_mark_def Let_def)

lemma im_used_distinct:
  "distinct (map fst (im_used st)) \<Longrightarrow> im_check_and_mark w n e st = (r, st') \<Longrightarrow>
     distinct (map fst (im_used st'))"
  by (auto simp: im_check_and_mark_def Let_def split: if_splits)

lemma select_nonce_store_production:
  "select_nonce_store True store = Inr s \<longleftrightarrow> (\<exists>d. store = Some (DurableStore d) \<and> s = DurableStore d)"
  by (auto simp: select_nonce_store_def split: option.splits nonce_store.splits)

section \<open>Properties\<close>

text \<open>
  C2: Replay protection of the in-memory store: in any sequence of check-and-mark calls,
  in whatever order the callers reach the store, each pair of wallet and nonce is
  accepted at most once, and not at all when it was already used.
\<close>

theorem in_memory_store_single_use:
  assumes "run_calls im_check_and_mark cs st = (rs, st')"
  shows "count_accepted k cs rs \<le> (if k \<in> im_used_keys st then 0 else 1)"
  using im.accepted_at_most_once[OF assms] im.used_never_accepted[OF assms] by simp

theorem in_memory_store_single_use_witness:
  "\<exists>rs st'. run_calls im_check_and_mark
      [(''w'', ''n'', 9), (''v'', ''n'', 9), (''w'', ''n'', 12)] empty_store = (rs, st') \<and>
    rs = [Inr True, Inr True, Inr False] \<and>
    count_accepted (''w'', ''n'') [(''w'', ''n'', 9), (''v'', ''n'', 9), (''w'', ''n'', 12)] rs \<le> 1"
proof -
  let ?cs = "[(''w'', ''n'', 9), (''v'', ''n'', 9), (''w'', ''n'', 12)]"
  have r: "run_calls im_check_and_mark ?cs empty_store =
      ([Inr True, Inr True, Inr False], \<lparr>im_used = [((''w'', ''n''), 9), ((''v'', ''n''), 9)]\<rparr>)"
    by (simp add: im_check_and_mark_def empty_store_def)
  show ?thesis
    using in_memory_store_single_use[OF r, of "(''w'', ''n'')"] r
    by (simp add: im_used_keys_def empty_store_def)
qed

end
