(* ===== verification/Wsqk.thy ===== *)
theory Wsqk
  imports Contracts Sha256
begin

text \<open>
  \<open>src/adamantine/v1/wsqk/\<close>: the issuers of WSQK v1 and v2 authorities, the canonical
  evidence families and the proof-bindings hash of v2, and the binding of a Q-ID posture.
  An \<open>Iterable[str]\<close> argument is a Python value: the code rejects a \<open>str\<close>, iterates
  over lists, tuples, sets and the keys of a mapping, and rejects what is not iterable.
\<close>

section \<open>The v1 issuer\<close>

record wsqk_issue_request =
  iq_wallet_id :: string
  iq_action :: string
  iq_context_hash :: string
  iq_now :: int
  iq_ttl_seconds :: int
  iq_nonce :: string

definition need_nonblank :: "string \<Rightarrow> reason_id \<Rightarrow> pyexc + string" where
  "need_nonblank s r = (let t = py_strip s in if t = [] then Inl (TVAError (reason_value r)) else Inr t)"

lemma need_nonblank_ok [res_simps]: "need_nonblank s r = Inr t \<longleftrightarrow> \<not> py_blank s \<and> t = py_strip s"
  by (auto simp: need_nonblank_def Let_def)

definition issue_wsqk_authority :: "wsqk_issue_request \<Rightarrow> pyexc + wsqk_authority" where
  "issue_wsqk_authority req =
     bind_r (need_nonblank (iq_wallet_id req) WSQK_MISSING_WALLET_ID) (\<lambda>wallet_id.
     bind_r (need_nonblank (iq_action req) WSQK_MISSING_ACTION) (\<lambda>action.
     bind_r (need_nonblank (iq_context_hash req) WSQK_MISSING_CONTEXT_HASH) (\<lambda>context_hash.
     let now = iq_now req; ttl = iq_ttl_seconds req in
     if ttl \<le> 0 then Inl (TVAError (reason_value WSQK_INVALID_TTL)) else
     bind_r (need_nonblank (iq_nonce req) WSQK_INVALID_NONCE) (\<lambda>nonce.
     Inr \<lparr>au_wallet_id = wallet_id, au_action = action, au_context_hash = context_hash,
          au_issued_at = now, au_expires_at = now + ttl, au_nonce = nonce\<rparr>))))"

section \<open>Evidence families\<close>

definition ALLOWED_EVIDENCE_FAMILIES :: "string list" where
  "ALLOWED_EVIDENCE_FAMILIES = [''classical_signature'', ''pqc_signature'', ''qid_hybrid'']"

definition ALLOWED_QUANTUM_POSTURES :: "string list" where
  "ALLOWED_QUANTUM_POSTURES = [''classical_only'', ''hybrid_required'', ''pqc_required'']"

text \<open>\<open>tuple(families)\<close>, after the test that rejects a \<open>str\<close>.\<close>

definition iter_families :: "pyval \<Rightarrow> pyexc + pyval list" where
  "iter_families v = (case v of
     PList xs \<Rightarrow> Inr xs | PTuple xs \<Rightarrow> Inr xs | PSet xs \<Rightarrow> Inr xs | PDict m \<Rightarrow> Inr (map PStr (dkeys m))
   | _ \<Rightarrow> Inl (TVAError (reason_value WSQK_V2_INVALID_EVIDENCE_FAMILIES)))"

definition family_item :: "pyval \<Rightarrow> pyexc + string" where
  "family_item family =
     bind_r (need_str family (TVAError (reason_value WSQK_V2_INVALID_EVIDENCE_FAMILIES))) (\<lambda>s.
     let item = py_strip s in
     if item = [] then Inl (TVAError (reason_value WSQK_V2_INVALID_EVIDENCE_FAMILIES))
     else if item \<notin> set ALLOWED_EVIDENCE_FAMILIES
       then Inl (TVAError (reason_value WSQK_V2_UNKNOWN_EVIDENCE_FAMILY))
     else Inr item)"

definition canonical_required_evidence_families :: "pyval \<Rightarrow> pyexc + string list" where
  "canonical_required_evidence_families families =
     bind_r (iter_families families) (\<lambda>raw.
     if raw = [] then Inl (TVAError (reason_value WSQK_V2_INVALID_EVIDENCE_FAMILIES)) else
     bind_r (map_r family_item raw) (\<lambda>items. Inr (sorted_strs items)))"

definition families_val :: "string list \<Rightarrow> pyval" where
  "families_val fs = PTuple (map PStr fs)"

lemma allowed_family_strip:
  "f \<in> set ALLOWED_EVIDENCE_FAMILIES \<Longrightarrow> py_strip f = f \<and> \<not> py_blank f"
  by (auto simp: ALLOWED_EVIDENCE_FAMILIES_def py_strip_def py_isspace_def py_blank_def)

lemma family_item_ok: "family_item v = Inr f \<longleftrightarrow>
    (\<exists>s. v = PStr s \<and> f = py_strip s \<and> f \<in> set ALLOWED_EVIDENCE_FAMILIES)"
  using allowed_family_strip[of f] by (auto simp: family_item_def Let_def res_simps)

text \<open>The result is canonical: sorted, without duplicates, non-empty, from the allowed set.\<close>

definition families_canonical :: "string list \<Rightarrow> bool" where
  "families_canonical fs \<longleftrightarrow>
     sorted fs \<and> distinct fs \<and> fs \<noteq> [] \<and> set fs \<subseteq> set ALLOWED_EVIDENCE_FAMILIES"

lemma canonical_families_canonical:
  assumes "canonical_required_evidence_families v = Inr fs"
  shows "families_canonical fs"
proof -
  obtain raw items where r: "iter_families v = Inr raw" "raw \<noteq> []"
      "map_r family_item raw = Inr items" "fs = sorted_strs items"
    using assms by (auto simp: canonical_required_evidence_families_def res_simps)
  have "items \<noteq> []" using r(2,3) map_r_length by fastforce
  then have "fs \<noteq> []" using r(4) set_sorted_strs[of items] by (metis set_empty)
  moreover have "set fs \<subseteq> set ALLOWED_EVIDENCE_FAMILIES"
    using map_r_set[OF r(3)] r(4) by (auto simp: family_item_ok)
  ultimately show ?thesis using r(4) by (simp add: families_canonical_def)
qed

lemma map_r_family_item:
  "set fs \<subseteq> set ALLOWED_EVIDENCE_FAMILIES \<Longrightarrow> map_r family_item (map PStr fs) = Inr fs"
  by (induction fs) (auto simp: family_item_def allowed_family_strip)

text \<open>Canonicalisation is idempotent.\<close>

lemma canonical_families_id:
  "families_canonical fs \<Longrightarrow> canonical_required_evidence_families (families_val fs) = Inr fs"
  by (simp add: canonical_required_evidence_families_def families_val_def iter_families_def
        map_r_family_item families_canonical_def sorted_strs_def distinct_remdups_id sorted_sort_id)

section \<open>The proof-bindings hash\<close>

definition WSQK_AUTHORITY_V2 :: string where
  "WSQK_AUTHORITY_V2 = ''WSQK_AUTHORITY_V2''"

definition wsqk_v2_binding ::
  "string \<Rightarrow> string \<Rightarrow> string \<Rightarrow> string \<Rightarrow> int \<Rightarrow> int \<Rightarrow> string \<Rightarrow> string list \<Rightarrow> string \<Rightarrow> pydict" where
  "wsqk_v2_binding contract_version wallet_id action context_hash issued_at expires_at nonce
     canonical_families quantum_posture =
     [(''action'', PStr action), (''context_hash'', PStr context_hash),
      (''contract_version'', PStr contract_version), (''expires_at'', PInt expires_at),
      (''issued_at'', PInt issued_at), (''nonce'', PStr nonce),
      (''quantum_posture'', PStr quantum_posture),
      (''required_evidence_families'', PList (map PStr canonical_families)),
      (''wallet_id'', PStr wallet_id)]"

definition wsqk_canonical_json_bytes :: "pyval \<Rightarrow> pyexc + nat list" where
  "wsqk_canonical_json_bytes v = bind_r (json_dumps False True v) (\<lambda>s. Inr (utf8 s))"

definition compute_wsqk_v2_proof_bindings_hash ::
  "string \<Rightarrow> string \<Rightarrow> string \<Rightarrow> string \<Rightarrow> int \<Rightarrow> int \<Rightarrow> string \<Rightarrow> pyval \<Rightarrow> string \<Rightarrow> pyexc + string" where
  "compute_wsqk_v2_proof_bindings_hash contract_version wallet_id action context_hash issued_at
     expires_at nonce required_evidence_families quantum_posture =
     bind_r (canonical_required_evidence_families required_evidence_families) (\<lambda>canonical_families.
     bind_r (wsqk_canonical_json_bytes (PDict (wsqk_v2_binding contract_version wallet_id action
       context_hash issued_at expires_at nonce canonical_families quantum_posture))) (\<lambda>b.
     Inr (sha256_hex b)))"

section \<open>The v2 issuer\<close>

record wsqk_issue_request_v2 = wsqk_issue_request +
  iq_required_evidence_families :: pyval
  iq_quantum_posture :: string

definition issue_wsqk_authority_v2 :: "wsqk_issue_request_v2 \<Rightarrow> pyexc + wsqk_authority_v2" where
  "issue_wsqk_authority_v2 req =
     bind_r (need_nonblank (iq_wallet_id req) WSQK_MISSING_WALLET_ID) (\<lambda>wallet_id.
     bind_r (need_nonblank (iq_action req) WSQK_MISSING_ACTION) (\<lambda>action.
     bind_r (need_nonblank (iq_context_hash req) WSQK_MISSING_CONTEXT_HASH) (\<lambda>context_hash.
     let issued_at = iq_now req; ttl = iq_ttl_seconds req in
     if ttl \<le> 0 then Inl (TVAError (reason_value WSQK_INVALID_TTL)) else
     bind_r (need_nonblank (iq_nonce req) WSQK_INVALID_NONCE) (\<lambda>nonce.
     let quantum_posture = py_strip (iq_quantum_posture req) in
     if quantum_posture \<notin> set ALLOWED_QUANTUM_POSTURES
       then Inl (TVAError (reason_value WSQK_V2_INVALID_QUANTUM_POSTURE)) else
     bind_r (canonical_required_evidence_families (iq_required_evidence_families req)) (\<lambda>families.
     let expires_at = issued_at + ttl in
     bind_r (compute_wsqk_v2_proof_bindings_hash WSQK_AUTHORITY_V2 wallet_id action context_hash
       issued_at expires_at nonce (families_val families) quantum_posture) (\<lambda>proof_hash.
     Inr \<lparr>au_wallet_id = wallet_id, au_action = action, au_context_hash = context_hash,
          au_issued_at = issued_at, au_expires_at = expires_at, au_nonce = nonce,
          au_contract_version = WSQK_AUTHORITY_V2, au_required_evidence_families = families,
          au_quantum_posture = quantum_posture, au_proof_bindings_hash = proof_hash\<rparr>))))))"

section \<open>Q-ID posture\<close>

record qid_posture =
  qp_classical :: bool
  qp_pqc :: bool

definition validate_qid_binding :: "string \<Rightarrow> qid_posture \<Rightarrow> pyexc + unit" where
  "validate_qid_binding quantum_posture qp =
    (if quantum_posture = ''hybrid_required'' \<and> \<not> (qp_classical qp \<and> qp_pqc qp)
       then Inl (TVAError (reason_value WSQK_QID_HYBRID_REQUIRED))
     else if quantum_posture = ''pqc_required'' \<and> \<not> qp_pqc qp
       then Inl (TVAError (reason_value WSQK_QID_POSTURE_MISMATCH))
     else Inr ())"

section \<open>What an issued authority satisfies\<close>

lemma json_dumps_binding:
  assumes "printable_int i" "printable_int e"
  shows "\<exists>s. json_dumps False True (PDict (wsqk_v2_binding cv w a ch i e n fs q)) = Inr s"
proof -
  have "\<exists>ss. json_list False True (map PStr fs) = Inr ss" by (induction fs) auto
  then obtain ss where "json_list False True (map PStr fs) = Inr ss" by blast
  then show ?thesis using assms by (simp add: json_dumps_def wsqk_v2_binding_def)
qed

lemma binding_hash_total:
  assumes "canonical_required_evidence_families fv = Inr fs" "printable_int i" "printable_int e"
  shows "\<exists>h. compute_wsqk_v2_proof_bindings_hash cv w a ch i e n fv q = Inr h"
  using assms(1) json_dumps_binding[OF assms(2,3), of cv w a ch n fs q]
  by (auto simp: compute_wsqk_v2_proof_bindings_hash_def wsqk_canonical_json_bytes_def)

lemma issue_wsqk_ok:
  "issue_wsqk_authority req = Inr au \<longleftrightarrow>
     \<not> py_blank (iq_wallet_id req) \<and> \<not> py_blank (iq_action req) \<and>
     \<not> py_blank (iq_context_hash req) \<and> \<not> py_blank (iq_nonce req) \<and> 0 < iq_ttl_seconds req \<and>
     au = \<lparr>au_wallet_id = py_strip (iq_wallet_id req), au_action = py_strip (iq_action req),
       au_context_hash = py_strip (iq_context_hash req), au_issued_at = iq_now req,
       au_expires_at = iq_now req + iq_ttl_seconds req, au_nonce = py_strip (iq_nonce req)\<rparr>"
  by (auto simp: issue_wsqk_authority_def Let_def res_simps)

text \<open>The authority is self-consistent: its own hash is the one computed from its fields.\<close>

definition authority_v2_ok :: "wsqk_authority_v2 \<Rightarrow> bool" where
  "authority_v2_ok au \<longleftrightarrow>
     au_issued_at au < au_expires_at au \<and> families_canonical (au_required_evidence_families au) \<and>
     au_quantum_posture au \<in> set ALLOWED_QUANTUM_POSTURES \<and>
     compute_wsqk_v2_proof_bindings_hash (au_contract_version au) (au_wallet_id au) (au_action au)
       (au_context_hash au) (au_issued_at au) (au_expires_at au) (au_nonce au)
       (families_val (au_required_evidence_families au)) (au_quantum_posture au)
       = Inr (au_proof_bindings_hash au)"

lemma issue_wsqk_v2_ok:
  assumes "issue_wsqk_authority_v2 req = Inr au"
  shows "authority_v2_ok au"
    "au_contract_version au = WSQK_AUTHORITY_V2"
    "au_wallet_id au = py_strip (iq_wallet_id req)" "au_action au = py_strip (iq_action req)"
    "au_context_hash au = py_strip (iq_context_hash req)" "au_nonce au = py_strip (iq_nonce req)"
    "au_issued_at au = iq_now req" "au_expires_at au = iq_now req + iq_ttl_seconds req"
    "0 < iq_ttl_seconds req" "\<not> py_blank (iq_nonce req)"
    "au_quantum_posture au = py_strip (iq_quantum_posture req)"
    "canonical_required_evidence_families (iq_required_evidence_families req)
       = Inr (au_required_evidence_families au)"
  using assms canonical_families_canonical
  by (auto simp: issue_wsqk_authority_v2_def authority_v2_ok_def Let_def res_simps)

lemma issue_wsqk_v2_total:
  assumes "printable_int (iq_now req)" "printable_int (iq_now req + iq_ttl_seconds req)"
  shows "(\<exists>au. issue_wsqk_authority_v2 req = Inr au) \<longleftrightarrow>
     \<not> py_blank (iq_wallet_id req) \<and> \<not> py_blank (iq_action req) \<and>
     \<not> py_blank (iq_context_hash req) \<and> 0 < iq_ttl_seconds req \<and> \<not> py_blank (iq_nonce req) \<and>
     py_strip (iq_quantum_posture req) \<in> set ALLOWED_QUANTUM_POSTURES \<and>
     (\<exists>fs. canonical_required_evidence_families (iq_required_evidence_families req) = Inr fs)"
proof -
  have "\<exists>h. compute_wsqk_v2_proof_bindings_hash cv w a ch i e n (families_val fs) q = Inr h"
    if "canonical_required_evidence_families v = Inr fs" "printable_int i" "printable_int e" for cv w a ch i e n v fs q
    using binding_hash_total canonical_families_id canonical_families_canonical that by blast
  then show ?thesis
    using assms by (auto simp: issue_wsqk_authority_v2_def Let_def res_simps)
qed

section \<open>Properties\<close>

lemma binding_hash_printable:
  "compute_wsqk_v2_proof_bindings_hash cv w a ch i e n fv q = Inr h \<Longrightarrow> printable_int i \<and> printable_int e"
  by (auto simp: compute_wsqk_v2_proof_bindings_hash_def wsqk_canonical_json_bytes_def wsqk_v2_binding_def res_simps)

text \<open>
  The WSQK v2 issuer issues exactly for a request with non-blank wallet, action, context
  hash and nonce, a positive lifetime, a known posture, a canonicalisable family set and times that
  \<open>json.dumps\<close> prints; the
  authority then carries the stripped inputs, the window [now, now + ttl], the canonical
  families, and a proof-bindings hash that recomputes from its own fields.
\<close>

theorem wsqk_v2_issuer_contract:
  "issue_wsqk_authority_v2 req = Inr au \<longleftrightarrow>
     \<not> py_blank (iq_wallet_id req) \<and> \<not> py_blank (iq_action req) \<and> \<not> py_blank (iq_context_hash req) \<and>
     \<not> py_blank (iq_nonce req) \<and> 0 < iq_ttl_seconds req \<and> authority_v2_ok au \<and>
     au_contract_version au = WSQK_AUTHORITY_V2 \<and>
     au_wallet_id au = py_strip (iq_wallet_id req) \<and> au_action au = py_strip (iq_action req) \<and>
     au_context_hash au = py_strip (iq_context_hash req) \<and> au_nonce au = py_strip (iq_nonce req) \<and>
     au_issued_at au = iq_now req \<and> au_expires_at au = iq_now req + iq_ttl_seconds req \<and>
     au_quantum_posture au = py_strip (iq_quantum_posture req) \<and>
     canonical_required_evidence_families (iq_required_evidence_families req)
       = Inr (au_required_evidence_families au)" (is "?L \<longleftrightarrow> ?R")
proof
  assume ?L
  then show ?R using issue_wsqk_v2_ok[OF \<open>?L\<close>] by (auto simp: issue_wsqk_authority_v2_def Let_def res_simps)
next
  assume R: ?R
  then obtain au' where au': "issue_wsqk_authority_v2 req = Inr au'"
    using issue_wsqk_v2_total[of req] binding_hash_printable by (auto simp: authority_v2_ok_def)
  have eqs: "au_contract_version au' = au_contract_version au" "au_wallet_id au' = au_wallet_id au"
    "au_action au' = au_action au" "au_context_hash au' = au_context_hash au"
    "au_issued_at au' = au_issued_at au" "au_expires_at au' = au_expires_at au" "au_nonce au' = au_nonce au"
    "au_required_evidence_families au' = au_required_evidence_families au"
    "au_quantum_posture au' = au_quantum_posture au"
    using R issue_wsqk_v2_ok(2-8,11,12)[OF au'] by simp_all
  have "authority_v2_ok au" "authority_v2_ok au'" using R issue_wsqk_v2_ok(1)[OF au'] by simp_all
  then have "au_proof_bindings_hash au' = au_proof_bindings_hash au"
    unfolding authority_v2_ok_def eqs by simp
  then have "au' = au" using eqs by (cases au; cases au') simp
  then show ?L using au' by simp
qed

end
