(* ===== verification/Tva_Gate.thy ===== *)
theory Tva_Gate
  imports Nonce_Store Wsqk
begin

text \<open>
  \<open>src/adamantine/v1/enforcement/tva_gate.py\<close>: the last gate before execution. The store
  and its operation are injected; the state that is returned is the store after the call.
  A required evidence family set is a Python value, \<open>None\<close> when the caller does not ask
  for WSQK v2.
\<close>

datatype authority = AuthV1 wsqk_authority | AuthV2 wsqk_authority_v2

text \<open>The fields both contracts have.\<close>

fun auth_base :: "authority \<Rightarrow> wsqk_authority" where
  "auth_base (AuthV1 au) = au"
| "auth_base (AuthV2 au) = wsqk_authority.truncate au"

lemma auth_base_V2 [simp]:
  "au_wallet_id (auth_base (AuthV2 au)) = au_wallet_id au"
  "au_action (auth_base (AuthV2 au)) = au_action au"
  "au_context_hash (auth_base (AuthV2 au)) = au_context_hash au"
  "au_issued_at (auth_base (AuthV2 au)) = au_issued_at au"
  "au_expires_at (auth_base (AuthV2 au)) = au_expires_at au"
  "au_nonce (auth_base (AuthV2 au)) = au_nonce au"
  by (simp_all add: wsqk_authority.truncate_def)

declare auth_base.simps(2) [simp del]

definition tva_deny :: "reason_id \<Rightarrow> pyexc" where
  "tva_deny r = TVAError (reason_value r)"

definition enforce_wsqk_v2_quantum_posture ::
  "authority \<Rightarrow> pyval \<Rightarrow> string option \<Rightarrow> pyexc + unit" where
  "enforce_wsqk_v2_quantum_posture au required_evidence_families required_quantum_posture =
    (if required_evidence_families = PNone \<and> required_quantum_posture = None then Inr ()
     else case au of AuthV1 _ \<Rightarrow> Inl (tva_deny TVA_WSQK_V2_REQUIRED)
     | AuthV2 a2 \<Rightarrow>
       bind_r (canonical_required_evidence_families (families_val (au_required_evidence_families a2)))
         (\<lambda>authority_families.
       bind_r (if required_evidence_families = PNone then Inr () else
         bind_r (canonical_required_evidence_families required_evidence_families) (\<lambda>expected.
         check_r (authority_families = expected) (tva_deny TVA_WSQK_V2_EVIDENCE_FAMILY_MISMATCH)))
         (\<lambda>_.
       bind_r (case required_quantum_posture of None \<Rightarrow> Inr ()
         | Some q \<Rightarrow> check_r (au_quantum_posture a2 = py_strip q)
             (tva_deny TVA_WSQK_V2_QUANTUM_POSTURE_MISMATCH)) (\<lambda>_.
       bind_r (compute_wsqk_v2_proof_bindings_hash (au_contract_version a2) (au_wallet_id a2)
         (au_action a2) (au_context_hash a2) (au_issued_at a2) (au_expires_at a2) (au_nonce a2)
         (families_val authority_families) (au_quantum_posture a2)) (\<lambda>expected_hash.
       check_r (au_proof_bindings_hash a2 = expected_hash)
         (tva_deny TVA_WSQK_V2_PROOF_BINDINGS_HASH_MISMATCH))))))"

text \<open>
  \<open>enforce_tva\<close> up to the test of the nonce store: the presence, binding, time and posture
  checks, in the order of the source.
\<close>

definition tva_checks :: "execution_context option \<Rightarrow> verdict option \<Rightarrow> authority option
    \<Rightarrow> int option \<Rightarrow> pyval \<Rightarrow> string option \<Rightarrow> pyexc + wsqk_authority" where
  "tva_checks context verdict authority now families posture =
    (case context of None \<Rightarrow> Inl (tva_deny TVA_MISSING_CONTEXT) | Some cx \<Rightarrow>
     case verdict of None \<Rightarrow> Inl (tva_deny TVA_MISSING_VERDICT) | Some v \<Rightarrow>
     case authority of None \<Rightarrow> Inl (tva_deny TVA_MISSING_AUTHORITY) | Some a \<Rightarrow>
     let au = auth_base a in
     if v \<noteq> ALLOW then Inl (tva_deny TVA_VERDICT_NOT_ALLOW)
     else if au_wallet_id au \<noteq> cx_wallet_id cx then Inl (tva_deny TVA_AUTHORITY_WALLET_MISMATCH)
     else if au_action au \<noteq> cx_action cx then Inl (tva_deny TVA_AUTHORITY_ACTION_MISMATCH)
     else if au_context_hash au \<noteq> cx_context_hash cx
       then Inl (tva_deny TVA_AUTHORITY_CONTEXT_HASH_MISMATCH)
     else case now of None \<Rightarrow> Inl (tva_deny TVA_MISSING_NOW) | Some t \<Rightarrow>
       if au_expires_at au < au_issued_at au then Inl (tva_deny TVA_INVALID_TIME_WINDOW)
       else if t < au_issued_at au then Inl (tva_deny TVA_AUTHORITY_NOT_YET_VALID)
       else if au_expires_at au < t then Inl (tva_deny TVA_AUTHORITY_EXPIRED)
       else bind_r (enforce_wsqk_v2_quantum_posture a families posture) (\<lambda>_. Inr au))"

definition enforce_tva :: "'s check_and_mark \<Rightarrow> execution_context option \<Rightarrow> verdict option
    \<Rightarrow> authority option \<Rightarrow> int option \<Rightarrow> pyval \<Rightarrow> string option \<Rightarrow> 's option
    \<Rightarrow> (pyexc + unit) \<times> 's option" where
  "enforce_tva cam context verdict authority now families posture store =
    (case tva_checks context verdict authority now families posture of
       Inl e \<Rightarrow> (Inl e, store)
     | Inr au \<Rightarrow> (case store of
         None \<Rightarrow> (Inl (tva_deny TVA_MISSING_NONCE_STORE), store)
       | Some s \<Rightarrow> (let nonce = py_strip (au_nonce au) in
           if nonce = [] then (Inl (tva_deny TVA_INVALID_NONCE), store)
           else case cam (au_wallet_id au) nonce (au_expires_at au) s of
             (Inl e, s') \<Rightarrow> (Inl e, Some s')
           | (Inr accepted, s') \<Rightarrow>
               if accepted then (Inr (), Some s')
               else (Inl (tva_deny TVA_NONCE_REPLAY), Some s'))))"

section \<open>What the gate lets through\<close>

lemma tva_checks_ok:
  "tva_checks (Some cx) (Some v) (Some a) (Some t) fam q = Inr au \<longleftrightarrow>
     au = auth_base a \<and> v = ALLOW \<and> au_wallet_id au = cx_wallet_id cx \<and> au_action au = cx_action cx \<and>
     au_context_hash au = cx_context_hash cx \<and>
     au_issued_at au \<le> t \<and> t \<le> au_expires_at au \<and> enforce_wsqk_v2_quantum_posture a fam q = Inr ()"
  by (auto simp: tva_checks_def Let_def res_simps)

lemma tva_checks_inputs:
  assumes "tva_checks context verdict authority now fam q = Inr au"
  obtains cx v a t where "context = Some cx" "verdict = Some v" "authority = Some a" "now = Some t"
    "tva_checks (Some cx) (Some v) (Some a) (Some t) fam q = Inr au"
  using assms by (cases "context"; cases verdict; cases authority; cases now)
    (auto simp: tva_checks_def Let_def split: if_splits)

lemma enforce_tva_ok:
  "enforce_tva cam context verdict authority now fam q store = (Inr (), store') \<longleftrightarrow>
     (\<exists>au s s'. tva_checks context verdict authority now fam q = Inr au \<and> store = Some s \<and>
        \<not> py_blank (au_nonce au) \<and> store' = Some s' \<and>
        cam (au_wallet_id au) (py_strip (au_nonce au)) (au_expires_at au) s = (Inr True, s'))"
  by (auto simp: enforce_tva_def Let_def split: sum.splits option.splits prod.splits if_splits)

lemma posture_v1_required:
  "fam \<noteq> PNone \<or> q \<noteq> None \<Longrightarrow>
     enforce_wsqk_v2_quantum_posture (AuthV1 a) fam q = Inl (tva_deny TVA_WSQK_V2_REQUIRED)"
  by (auto simp: enforce_wsqk_v2_quantum_posture_def)

lemma posture_issued_ok:
  assumes "authority_v2_ok au"
    "canonical_required_evidence_families fam = Inr (au_required_evidence_families au)"
    "py_strip q = au_quantum_posture au"
  shows "enforce_wsqk_v2_quantum_posture (AuthV2 au) fam (Some q) = Inr ()"
proof -
  have "canonical_required_evidence_families (families_val (au_required_evidence_families au))
      = Inr (au_required_evidence_families au)"
    using assms(1) canonical_families_id by (simp add: authority_v2_ok_def)
  then show ?thesis using assms
    by (simp add: enforce_wsqk_v2_quantum_posture_def authority_v2_ok_def)
qed

text \<open>Acceptance marks the authority's key, and a marked key is never accepted.\<close>

lemma enforce_tva_marks:
  assumes "enforce_tva im_check_and_mark context verdict (Some a) now fam q (Some st) = (Inr (), Some st1)"
  shows "(au_wallet_id (auth_base a), py_strip (au_nonce (auth_base a))) \<in> im_used_keys st1"
proof -
  obtain au where au: "tva_checks context verdict (Some a) now fam q = Inr au"
      "im_check_and_mark (au_wallet_id au) (py_strip (au_nonce au)) (au_expires_at au) st = (Inr True, st1)"
    using assms(1) unfolding enforce_tva_ok by auto
  moreover have "au = auth_base a" using tva_checks_inputs[OF au(1)] tva_checks_ok by (metis option.inject)
  ultimately show ?thesis using im.marks by blast
qed

lemma enforce_tva_used_denied:
  assumes "(au_wallet_id (auth_base b), py_strip (au_nonce (auth_base b))) \<in> im_used_keys st"
  shows "\<exists>e. enforce_tva im_check_and_mark context verdict (Some b) now fam q (Some st) = (Inl e, Some st)"
proof (cases "tva_checks context verdict (Some b) now fam q")
  case (Inl e)
  then show ?thesis by (simp add: enforce_tva_def)
next
  case (Inr bu)
  then have "bu = auth_base b" using tva_checks_inputs tva_checks_ok by (metis option.inject)
  then show ?thesis using Inr assms
    by (auto simp: enforce_tva_def Let_def im_check_and_mark_def im_used_keys_def)
qed

section \<open>Properties\<close>

text \<open>
  C3: The TVA gate lets an execution continue exactly when there is a context, an ALLOW
  verdict and an authority bound to that context in wallet, action and context hash, the
  injected time lies in the authority's window, the required WSQK v2 posture is met, and
  the injected store accepts the authority's non-blank nonce; it then returns the store as
  that call left it.
\<close>

theorem enforce_tva_accepts_iff:
  "enforce_tva cam (Some cx) (Some v) (Some a) (Some t) families posture (Some s) = (Inr (), store') \<longleftrightarrow>
     v = ALLOW \<and> au_wallet_id (auth_base a) = cx_wallet_id cx \<and>
     au_action (auth_base a) = cx_action cx \<and> au_context_hash (auth_base a) = cx_context_hash cx \<and>
     au_issued_at (auth_base a) \<le> t \<and> t \<le> au_expires_at (auth_base a) \<and>
     enforce_wsqk_v2_quantum_posture a families posture = Inr () \<and>
     \<not> py_blank (au_nonce (auth_base a)) \<and>
     (\<exists>s'. store' = Some s' \<and> cam (cx_wallet_id cx) (py_strip (au_nonce (auth_base a)))
        (au_expires_at (auth_base a)) s = (Inr True, s'))"
  unfolding enforce_tva_ok tva_checks_ok by auto

text \<open>
  C8: An authority is single-use through the gate: once the gate has accepted an authority
  on the in-memory store, every later attempt with an authority of the same wallet and
  nonce is denied, whatever other calls reach the store in between, and a denied attempt
  leaves the store unchanged.
\<close>

theorem enforce_tva_single_use:
  assumes "enforce_tva im_check_and_mark context verdict (Some a) now fam q (Some st) = (Inr (), Some st1)"
    and "run_calls im_check_and_mark cs st1 = (rs, st2)"
    and "au_wallet_id (auth_base b) = au_wallet_id (auth_base a)"
      "py_strip (au_nonce (auth_base b)) = py_strip (au_nonce (auth_base a))"
  shows "\<exists>e. enforce_tva im_check_and_mark context' verdict' (Some b) now' fam' q' (Some st2) = (Inl e, Some st2)"
proof -
  have "(au_wallet_id (auth_base a), py_strip (au_nonce (auth_base a))) \<in> im_used_keys st2"
    using enforce_tva_marks[OF assms(1)] im.run_used_mono[OF assms(2)] by blast
  then show ?thesis using assms(3,4) by (intro enforce_tva_used_denied) simp
qed

definition demo_authority :: wsqk_authority where
  "demo_authority = \<lparr>au_wallet_id = ''w'', au_action = ''send'', au_context_hash = ''h'',
     au_issued_at = 10, au_expires_at = 20, au_nonce = ''n''\<rparr>"

definition demo_context :: execution_context where
  "demo_context = \<lparr>cx_wallet_id = ''w'', cx_action = ''send'', cx_context_hash = ''h''\<rparr>"

lemma demo_tva_accepts:
  "enforce_tva im_check_and_mark (Some demo_context) (Some ALLOW) (Some (AuthV1 demo_authority))
     (Some 15) PNone None (Some empty_store) = (Inr (), Some \<lparr>im_used = [((''w'', ''n''), 20)]\<rparr>)"
  by (simp add: enforce_tva_def tva_checks_def demo_context_def demo_authority_def
      enforce_wsqk_v2_quantum_posture_def im_check_and_mark_def empty_store_def py_strip_def
      py_isspace_def)

theorem enforce_tva_single_use_witness:
  "\<exists>e. enforce_tva im_check_and_mark (Some demo_context) (Some ALLOW) (Some (AuthV1 demo_authority))
     (Some 16) PNone None (Some \<lparr>im_used = [((''w'', ''n''), 20)]\<rparr>)
     = (Inl e, Some \<lparr>im_used = [((''w'', ''n''), 20)]\<rparr>)"
  by (rule enforce_tva_single_use[OF demo_tva_accepts, of "[]" "[]"]) simp_all

text \<open>
  What the WSQK v2 issuer issues, the gate accepts: an issued authority, presented for
  the context it was issued for within its lifetime with a nonce the store has not seen,
  passes the gate under exactly the evidence families and posture that were requested.
\<close>

theorem issued_v2_authority_accepted:
  assumes "issue_wsqk_authority_v2 req = Inr au"
    and "au_issued_at au \<le> t" "t \<le> au_expires_at au"
    and "(au_wallet_id au, au_nonce au) \<notin> im_used_keys st"
  shows "\<exists>st'. enforce_tva im_check_and_mark
    (Some \<lparr>cx_wallet_id = au_wallet_id au, cx_action = au_action au, cx_context_hash = au_context_hash au\<rparr>)
    (Some ALLOW) (Some (AuthV2 au)) (Some t) (iq_required_evidence_families req)
    (Some (iq_quantum_posture req)) (Some st) = (Inr (), Some st')"
proof -
  note ok = issue_wsqk_v2_ok[OF assms(1)]
  have "enforce_wsqk_v2_quantum_posture (AuthV2 au) (iq_required_evidence_families req)
      (Some (iq_quantum_posture req)) = Inr ()"
    using posture_issued_ok ok by simp
  moreover have "\<not> py_blank (au_nonce au)" "py_strip (au_nonce au) = au_nonce au" using ok by simp_all
  moreover have "\<exists>st'. im_check_and_mark (au_wallet_id au) (au_nonce au) (au_expires_at au) st = (Inr True, st')"
    using assms(4) by (simp add: im_check_and_mark_def im_used_keys_def)
  ultimately show ?thesis using assms(2,3) unfolding enforce_tva_ok tva_checks_ok by auto
qed

definition demo_issue_request :: wsqk_issue_request_v2 where
  "demo_issue_request = \<lparr>iq_wallet_id = ''w'', iq_action = ''send'', iq_context_hash = ''h'',
     iq_now = 10, iq_ttl_seconds = 60, iq_nonce = '' n '',
     iq_required_evidence_families = PList [PStr ''qid_hybrid'', PStr ''pqc_signature''],
     iq_quantum_posture = ''hybrid_required''\<rparr>"

lemma demo_issue_ok: "\<exists>au. issue_wsqk_authority_v2 demo_issue_request = Inr au"
  by (subst issue_wsqk_v2_total) (auto simp: demo_issue_request_def py_blank_def py_isspace_def py_strip_def
      ALLOWED_QUANTUM_POSTURES_def canonical_required_evidence_families_def iter_families_def
      family_item_def ALLOWED_EVIDENCE_FAMILIES_def Let_def)

theorem issued_v2_authority_accepted_witness:
  "\<exists>au st'. issue_wsqk_authority_v2 demo_issue_request = Inr au \<and> enforce_tva im_check_and_mark
    (Some \<lparr>cx_wallet_id = au_wallet_id au, cx_action = au_action au, cx_context_hash = au_context_hash au\<rparr>)
    (Some ALLOW) (Some (AuthV2 au)) (Some 30) (iq_required_evidence_families demo_issue_request)
    (Some (iq_quantum_posture demo_issue_request)) (Some empty_store) = (Inr (), Some st')"
proof -
  obtain au where au: "issue_wsqk_authority_v2 demo_issue_request = Inr au" using demo_issue_ok by blast
  have "au_issued_at au \<le> 30" "30 \<le> au_expires_at au"
    using issue_wsqk_v2_ok(7,8)[OF au] by (simp_all add: demo_issue_request_def)
  then show ?thesis
    using issued_v2_authority_accepted[OF au, of 30 empty_store] au
    by (simp add: im_used_keys_def empty_store_def)
qed

text \<open>
  A denial at the gate consumes nothing: whatever the reason, the in-memory store is the
  one from before the call.
\<close>

theorem tva_denial_keeps_store:
  assumes "enforce_tva im_check_and_mark context verdict authority now fam q store = (Inl e, store')"
  shows "store' = store"
  using assms
  by (auto simp: enforce_tva_def Let_def im_check_and_mark_def split: sum.splits option.splits prod.splits if_splits)

theorem tva_denial_keeps_store_witness:
  "snd (enforce_tva im_check_and_mark None (Some ALLOW) (Some (AuthV1 demo_authority)) (Some 5) PNone None
    (Some empty_store)) = Some empty_store"
proof -
  obtain e st where "enforce_tva im_check_and_mark None (Some ALLOW) (Some (AuthV1 demo_authority)) (Some 5)
      PNone None (Some empty_store) = (Inl e, st)"
    by (simp add: enforce_tva_def tva_checks_def)
  from tva_denial_keeps_store[OF this] this show ?thesis by simp
qed

end
