(* ===== verification/Boundary.thy ===== *)
theory Boundary
  imports Envelope Responses Tva_Gate
begin

text \<open>
  \<open>src/adamantine/v1/execution/boundary.py\<close> and \<open>executor.py\<close>: the TVA-only harness
  \<open>run_with_tva\<close> and the parse-only handler of v1 requests. An executor is a function on
  its own state that may raise; \<open>RecordingExecutor\<close> is the one in the sources.
\<close>

type_synonym 'x executor = "execution_request \<Rightarrow> 'x \<Rightarrow> (pyexc + string) \<times> 'x"

record recording_executor =
  re_called :: bool
  re_last_request :: "execution_request option"

definition recording_execute :: "recording_executor executor" where
  "recording_execute req x =
     (Inr ''EXECUTED'', x\<lparr>re_called := True, re_last_request := Some req\<rparr>)"

text \<open>The states of the nonce store and of the executor, threaded in this order.\<close>

definition boundary_run_with_tva :: "'s check_and_mark \<Rightarrow> 'x executor \<Rightarrow> execution_request
    \<Rightarrow> execution_context option \<Rightarrow> verdict option \<Rightarrow> authority option \<Rightarrow> int option \<Rightarrow> pyval
    \<Rightarrow> string option \<Rightarrow> 's option \<Rightarrow> 'x \<Rightarrow> (pyexc + string) \<times> 's option \<times> 'x" where
  "boundary_run_with_tva cam execute req context verdict authority now families posture store x =
    (case enforce_tva cam context verdict authority now families posture store of
       (Inl e, store') \<Rightarrow> (Inl e, store', x)
     | (Inr _, store') \<Rightarrow> (let (r, x') = execute req x in (r, store', x')))"

lemma run_with_tva_gate:
  "boundary_run_with_tva cam execute req context verdict authority now families posture store x
     = (Inl e, store', x') \<Longrightarrow>
   x' = x \<or> enforce_tva cam context verdict authority now families posture store = (Inr (), store')"
  by (auto simp: boundary_run_with_tva_def split: sum.splits prod.splits)

section \<open>The v1 request handler\<close>

definition zero_hash :: string where
  "zero_hash = replicate 64 CHR ''0''"

definition unknown_str :: string where
  "unknown_str = ''<unknown>''"

definition boundary_response :: "string \<Rightarrow> string \<Rightarrow> string \<Rightarrow> string \<Rightarrow> reason_id \<Rightarrow> bool
    \<Rightarrow> response_v1_args" where
  "boundary_response request_id intent action context_hash reason timebox_valid =
    \<lparr>r1_request_id = request_id, r1_intent = intent, r1_action = action,
     r1_context_hash = context_hash, r1_status = ''deny'', r1_reason_id = RId reason,
     r1_protection_mode = ''legacy'', r1_tva_allowed = False, r1_eqc_allowed = False,
     r1_wsqk_allowed = False, r1_nonce_consumed = False, r1_timebox_valid = timebox_valid,
     r1_artifacts = None, r1_metrics = None\<rparr>"

text \<open>\<open>raw.get("request_id")\<close> when \<open>raw\<close> is a mapping and the value a non-empty string.\<close>

definition raw_request_id :: "pyval \<Rightarrow> string" where
  "raw_request_id raw = (case raw of
     PDict m \<Rightarrow> (case dget m ''request_id'' of PStr s \<Rightarrow> if s = [] then unknown_str else s
       | _ \<Rightarrow> unknown_str)
   | _ \<Rightarrow> unknown_str)"

definition handle_execution_request_v1 :: "pyval \<Rightarrow> int \<Rightarrow> pyexc + pydict" where
  "handle_execution_request_v1 raw now =
    (case parse_envelope_v1 raw now of
       Inr p \<Rightarrow> build_execution_response_v1 (boundary_response (ev_request_id p) (ev_intent p)
         (cx_action (ev_context p)) (cx_context_hash (ev_context p)) DENY_NOT_WIRED True)
     | Inl (EnvelopeError rid _) \<Rightarrow> build_execution_response_v1 (boundary_response
         (raw_request_id raw) unknown_str unknown_str zero_hash rid False)
     | Inl e \<Rightarrow> Inl e)"

section \<open>Properties\<close>

text \<open>
  C9: The TVA harness reaches the executor only through the gate, and at most once per
  authority: when a run changes the executor or returns its result, the gate accepted; and a
  second run with the same authority, at any time and in any context, leaves the executor as
  it is.
\<close>

theorem run_with_tva_executes_once:
  assumes "boundary_run_with_tva im_check_and_mark execute req context verdict (Some a) now fam q store x
      = (res, store1, x1)"
    and "res = Inr s \<or> x1 \<noteq> x"
  shows "enforce_tva im_check_and_mark context verdict (Some a) now fam q store = (Inr (), store1) \<and>
    (\<exists>e. boundary_run_with_tva im_check_and_mark execute req' context' verdict' (Some a) now' fam' q' store1 x'
      = (Inl e, store1, x'))"
proof -
  have g: "enforce_tva im_check_and_mark context verdict (Some a) now fam q store = (Inr (), store1)"
    using assms by (auto simp: boundary_run_with_tva_def split: sum.splits prod.splits)
  then obtain st st1 where st: "store = Some st" "store1 = Some st1" by (auto simp: enforce_tva_ok)
  obtain e where "enforce_tva im_check_and_mark context' verdict' (Some a) now' fam' q' store1 = (Inl e, store1)"
    using enforce_tva_used_denied[OF enforce_tva_marks[OF g[unfolded st]]] st(2) by blast
  then show ?thesis using g by (simp add: boundary_run_with_tva_def)
qed

definition demo_request :: execution_request where
  "demo_request = \<lparr>xr_wallet_id = ''w'', xr_action = ''send'', xr_payload = []\<rparr>"

theorem run_with_tva_executes_once_witness:
  "\<exists>store x1. boundary_run_with_tva im_check_and_mark recording_execute demo_request (Some demo_context)
      (Some ALLOW) (Some (AuthV1 demo_authority)) (Some 15) PNone None (Some empty_store)
      \<lparr>re_called = False, re_last_request = None\<rparr> = (Inr ''EXECUTED'', store, x1) \<and> re_called x1 \<and>
    (\<exists>e. boundary_run_with_tva im_check_and_mark recording_execute demo_request (Some demo_context)
      (Some ALLOW) (Some (AuthV1 demo_authority)) (Some 15) PNone None store x1 = (Inl e, store, x1))"
proof -
  obtain store x1 where r: "boundary_run_with_tva im_check_and_mark recording_execute demo_request (Some demo_context)
      (Some ALLOW) (Some (AuthV1 demo_authority)) (Some 15) PNone None (Some empty_store)
      \<lparr>re_called = False, re_last_request = None\<rparr> = (Inr ''EXECUTED'', store, x1)" "re_called x1"
    using demo_tva_accepts by (auto simp: boundary_run_with_tva_def recording_execute_def)
  show ?thesis using run_with_tva_executes_once[OF r(1), of "''EXECUTED''"] r by blast
qed

definition demo_control_char_request :: "string \<Rightarrow> pydict" where
  "demo_control_char_request v = dset (dset demo_envelope_v2 ''v'' (PStr v)) ''context''
     (PDict [(''wallet_id'', PStr [CHR 0x0A]), (''device_id'', PStr ''d''), (''app_id'', PStr ''a''),
       (''session_id'', PStr ''s''), (''action'', PStr ''send''), (''fields'', PDict [])])"

lemma demo_control_char_context:
  "parse_context require_nonempty_str_v1 check_field_v1 (dget (demo_control_char_request v) ''context'')
     = Inl (ContextHashError ''wallet_id contains a forbidden control character'')"
  "parse_context require_nonempty_str_v2 check_field_v2 (dget (demo_control_char_request v) ''context'')
     = Inl (EnvelopeError DENY_SCHEMA_INVALID ''context.wallet_id contains a forbidden control character'')"
proof -
  have keys: "env_expect_keys m ''context'' context_keys context_keys = Inr ()"
    if "dkeys m = [''wallet_id'', ''device_id'', ''app_id'', ''session_id'', ''action'', ''fields'']" for m
    using that by (simp add: env_expect_keys_ok context_keys_def)
  have get: "dget (demo_control_char_request v) ''context'' =
      PDict [(''wallet_id'', PStr [CHR 0x0A]), (''device_id'', PStr ''d''), (''app_id'', PStr ''a''),
       (''session_id'', PStr ''s''), (''action'', PStr ''send''), (''fields'', PDict [])]"
    by (simp add: demo_control_char_request_def demo_envelope_v2_def)
  have bad: "has_control_char [CHR 0x0A]" by (simp add: has_control_char_def is_control_char_def)
  show "parse_context require_nonempty_str_v1 check_field_v1 (dget (demo_control_char_request v) ''context'')
      = Inl (ContextHashError ''wallet_id contains a forbidden control character'')"
    by (simp add: get parse_context_def env_require_mapping_def keys dkeys_def require_nonempty_str_v1_def
        compute_context_hash_def context_canonical_def reject_control_chars_def bad)
  show "parse_context require_nonempty_str_v2 check_field_v2 (dget (demo_control_char_request v) ''context'')
      = Inl (EnvelopeError DENY_SCHEMA_INVALID ''context.wallet_id contains a forbidden control character'')"
    by (simp add: get parse_context_def env_require_mapping_def keys dkeys_def require_nonempty_str_v2_def
        env_fail_def bad)
qed

lemma demo_control_char_head:
  "env_expect_keys (demo_control_char_request v) ''envelope'' envelope_keys (envelope_keys @ [''audit'']) = Inr ()"
  "dget (demo_control_char_request v) ''v'' = PStr v" "dget (demo_control_char_request v) ''request_id'' = PStr ''r1''"
  "dget (demo_control_char_request v) ''intent'' = PStr ''send''"
  by (simp_all add: env_expect_keys_ok demo_control_char_request_def demo_envelope_v2_def dkeys_def envelope_keys_def)

text \<open>
  The v1 request handler is documented to deny whatever does not validate, but a control
  character in the wallet id passes the v1 string check and reaches the context hash, whose
  \<open>ContextHashError\<close> is not an \<open>EnvelopeError\<close>: the exception leaves the handler. The same
  request is denied by the v2 parser with an \<open>EnvelopeError\<close>.
\<close>

theorem v1_handler_lets_control_characters_escape:
  "(\<exists>m. handle_execution_request_v1 (PDict (demo_control_char_request ''execution_request_v1'')) 20
      = Inl (ContextHashError m)) \<and>
   (\<exists>m. parse_envelope_v2 (PDict (demo_control_char_request ''execution_request_v2'')) 20
      = Inl (EnvelopeError DENY_SCHEMA_INVALID m))"
proof
  have "parse_envelope_v1 (PDict (demo_control_char_request ''execution_request_v1'')) 20
      = Inl (ContextHashError ''wallet_id contains a forbidden control character'')"
    unfolding parse_envelope_v1_def
    by (simp add: env_require_mapping_def demo_control_char_head demo_control_char_context require_nonempty_str_v1_def)
  then show "\<exists>m. handle_execution_request_v1 (PDict (demo_control_char_request ''execution_request_v1'')) 20
      = Inl (ContextHashError m)" by (simp add: handle_execution_request_v1_def)
  show "\<exists>m. parse_envelope_v2 (PDict (demo_control_char_request ''execution_request_v2'')) 20
      = Inl (EnvelopeError DENY_SCHEMA_INVALID m)"
    unfolding parse_envelope_v2_def
    by (simp add: env_require_mapping_def demo_control_char_head demo_control_char_context
        require_nonempty_str_v2_def has_control_char_def is_control_char_def)
qed

end
