(* ===== verification/Final_Policy.thy ===== *)
theory Final_Policy
  imports Errors
begin

text \<open>
  \<open>src/adamantine/v1/policy/final_policy_engine.py\<close>: the final local decision, which
  visits five evidence gates and three local gates in a locked order and stops at the
  first that fails. Evidence is whatever the boundary hands over: nothing, a mapping, or
  an object, which is the dictionary of its instance attributes (\<open>__dict__\<close> and slots);
  \<open>getattr(e, name, default)\<close> on a mapping gives the default. The one exception the engine
  can raise is the \<open>TypeError\<close> of iterating over a \<open>verified_algorithms\<close> that is not
  iterable.
\<close>

section \<open>States and results\<close>

datatype fp_state =
    ALLOW_FINAL_ADAMANTINEOS_DECISION
  | HUMAN_REVIEW_REQUIRED
  | DENY_MISSING_EVIDENCE
  | DENY_EVIDENCE_REJECTED
  | DENY_AUTHORITY_BYPASS
  | DENY_HANDOFF_BLOCKED
  | DENY_REPLAY_GATE
  | DENY_WALLET_POLICY_GATE
  | DENY_HUMAN_GATE
  | DENY_GATE_SHAPE_INVALID
  | DENY_CONTEXT_MISMATCH
  | DENY_REASON_ID_INVALID
  | DENY_SHIELD_V4_REQUIRED

primrec fp_state_value :: "fp_state \<Rightarrow> string" where
  "fp_state_value ALLOW_FINAL_ADAMANTINEOS_DECISION = ''ALLOW_FINAL_ADAMANTINEOS_DECISION''"
| "fp_state_value HUMAN_REVIEW_REQUIRED = ''HUMAN_REVIEW_REQUIRED''"
| "fp_state_value DENY_MISSING_EVIDENCE = ''DENY_MISSING_EVIDENCE''"
| "fp_state_value DENY_EVIDENCE_REJECTED = ''DENY_EVIDENCE_REJECTED''"
| "fp_state_value DENY_AUTHORITY_BYPASS = ''DENY_AUTHORITY_BYPASS''"
| "fp_state_value DENY_HANDOFF_BLOCKED = ''DENY_HANDOFF_BLOCKED''"
| "fp_state_value DENY_REPLAY_GATE = ''DENY_REPLAY_GATE''"
| "fp_state_value DENY_WALLET_POLICY_GATE = ''DENY_WALLET_POLICY_GATE''"
| "fp_state_value DENY_HUMAN_GATE = ''DENY_HUMAN_GATE''"
| "fp_state_value DENY_GATE_SHAPE_INVALID = ''DENY_GATE_SHAPE_INVALID''"
| "fp_state_value DENY_CONTEXT_MISMATCH = ''DENY_CONTEXT_MISMATCH''"
| "fp_state_value DENY_REASON_ID_INVALID = ''DENY_REASON_ID_INVALID''"
| "fp_state_value DENY_SHIELD_V4_REQUIRED = ''DENY_SHIELD_V4_REQUIRED''"

text \<open>A \<open>ReasonId | str\<close> is the string, the value of the member.\<close>

record local_gate_result =
  lg_gate :: string
  lg_passed :: bool
  lg_reason_id :: string
  lg_requires_human_review :: bool

record fp_result =
  fp_state :: fp_state
  fp_outcome :: string
  fp_reason_id :: string
  fp_final_approval :: bool
  fp_handoff_allowed :: bool
  fp_stopped_at :: string
  fp_evaluation_order :: "string list"
  fp_dominant_reason_ids :: "string list"

definition EVIDENCE_GATE_ORDER :: "string list" where
  "EVIDENCE_GATE_ORDER = [''shield'', ''wsqk_v2'', ''qid'', ''adaptive_core'', ''ai_gateway'']"

definition LOCAL_GATE_ORDER :: "string list" where
  "LOCAL_GATE_ORDER = [''replay'', ''wallet_policy'', ''human'']"

definition gate_deny_state :: "string \<Rightarrow> fp_state" where
  "gate_deny_state gate = (if gate = ''replay'' then DENY_REPLAY_GATE
     else if gate = ''wallet_policy'' then DENY_WALLET_POLICY_GATE else DENY_HUMAN_GATE)"

definition FORBIDDEN_AUTHORITY_KEYS :: "string list" where
  "FORBIDDEN_AUTHORITY_KEYS = [''approved'', ''authority'', ''auto_approve'', ''broadcast'', ''bypass'',
     ''can_sign'', ''execute'', ''force_allow'', ''grant_execution'', ''human_approved'', ''override'',
     ''sign'', ''trusted'', ''wallet_signing_approval'']"

definition ALLOWED_NORMALIZED_AUTHORITY_FIELDS :: "string list" where
  "ALLOWED_NORMALIZED_AUTHORITY_FIELDS = [''final_approval'', ''handoff_allowed'']"

section \<open>Hidden authority\<close>

definition truthy_authority_value :: "pyval \<Rightarrow> bool" where
  "truthy_authority_value v \<longleftrightarrow>
     \<not> py_in v [PBool False, PNone, PStr [], PTuple [], PList [], PDict []]"

fun contains_forbidden :: "pyval \<Rightarrow> bool"
  and contains_forbidden_list :: "pyval list \<Rightarrow> bool"
  and contains_forbidden_items :: "pydict \<Rightarrow> bool" where
  "contains_forbidden (PDict m) = contains_forbidden_items m"
| "contains_forbidden (PList xs) = contains_forbidden_list xs"
| "contains_forbidden (PTuple xs) = contains_forbidden_list xs"
| "contains_forbidden (PSet xs) = contains_forbidden_list xs"
| "contains_forbidden _ = False"
| "contains_forbidden_list [] = False"
| "contains_forbidden_list (x # xs) = (contains_forbidden x \<or> contains_forbidden_list xs)"
| "contains_forbidden_items [] = False"
| "contains_forbidden_items ((k, v) # m) =
    (if k \<in> set FORBIDDEN_AUTHORITY_KEYS \<and> truthy_authority_value v then True
     else if contains_forbidden v then True else contains_forbidden_items m)"

datatype evidence = NoEvidence | MappingEvidence pydict | ObjectEvidence pydict

text \<open>\<open>getattr(evidence, name, default)\<close>.\<close>

fun ev_attr :: "evidence \<Rightarrow> string \<Rightarrow> pyval \<Rightarrow> pyval" where
  "ev_attr (ObjectEvidence attrs) name d = dget_default attrs name d"
| "ev_attr _ name d = d"

fun forbidden_attrs :: "pydict \<Rightarrow> bool" where
  "forbidden_attrs [] = False"
| "forbidden_attrs ((k, v) # m) =
    (if k \<in> set ALLOWED_NORMALIZED_AUTHORITY_FIELDS then forbidden_attrs m
     else if k \<in> set FORBIDDEN_AUTHORITY_KEYS \<and> truthy_authority_value v then True
     else if contains_forbidden v then True
     else forbidden_attrs m)"

fun contains_forbidden_authority_signal :: "evidence \<Rightarrow> bool" where
  "contains_forbidden_authority_signal (MappingEvidence m) = contains_forbidden (PDict m)"
| "contains_forbidden_authority_signal (ObjectEvidence attrs) = forbidden_attrs attrs"
| "contains_forbidden_authority_signal NoEvidence = False"

section \<open>Reasons\<close>

definition valid_reason :: "string \<Rightarrow> reason_id option" where
  "valid_reason s = (if py_blank s then None else reason_of_string s)"

definition safe_reason :: "string \<Rightarrow> reason_id" where
  "safe_reason s = (case valid_reason s of Some r \<Rightarrow> r | None \<Rightarrow> UNKNOWN_EXTERNAL_REASON)"

text \<open>The strings a \<open>dominant_reason_ids\<close> attribute yields, blank ones skipped.\<close>

definition reason_strings :: "pyval \<Rightarrow> string list" where
  "reason_strings v = (let xs = (case v of PList xs \<Rightarrow> xs | PTuple xs \<Rightarrow> xs | PSet xs \<Rightarrow> xs
       | PDict m \<Rightarrow> map PStr (dkeys m) | _ \<Rightarrow> [])
     in concat (map (\<lambda>x. case x of PStr s \<Rightarrow> if py_blank s then [] else [s] | _ \<Rightarrow> []) xs))"

definition first_reason :: "evidence \<Rightarrow> reason_id \<Rightarrow> reason_id" where
  "first_reason ev fallback =
    (case reason_strings (ev_attr ev ''dominant_reason_ids'' PNone) of
       s # _ \<Rightarrow> safe_reason s
     | [] \<Rightarrow> (case ev_attr ev ''reason_id'' PNone of PStr s \<Rightarrow> safe_reason s | _ \<Rightarrow> fallback))"

definition dominant_reasons :: "evidence \<Rightarrow> reason_id \<Rightarrow> string list" where
  "dominant_reasons ev fallback =
    (case reason_strings (ev_attr ev ''dominant_reason_ids'' PNone) of
       [] \<Rightarrow> [reason_value (first_reason ev fallback)]
     | ss \<Rightarrow> map (\<lambda>s. reason_value (safe_reason s)) ss)"

definition fp_deny :: "fp_state \<Rightarrow> string \<Rightarrow> string \<Rightarrow> string list \<Rightarrow> string list \<Rightarrow> fp_result" where
  "fp_deny st reason stopped order dominant = \<lparr>fp_state = st, fp_outcome = ''DENY'',
     fp_reason_id = reason, fp_final_approval = False, fp_handoff_allowed = False,
     fp_stopped_at = stopped, fp_evaluation_order = order,
     fp_dominant_reason_ids = (if dominant = [] then [reason] else dominant)\<rparr>"

definition fp_human_review :: "string \<Rightarrow> string \<Rightarrow> string list \<Rightarrow> string list \<Rightarrow> fp_result" where
  "fp_human_review reason stopped order dominant =
     (fp_deny HUMAN_REVIEW_REQUIRED reason stopped order dominant)
       \<lparr>fp_outcome := ''HUMAN_REVIEW_REQUIRED''\<rparr>"

section \<open>The Shield v4 requirement\<close>

definition REQUIRED_ALGORITHMS_V4 :: "string list" where
  "REQUIRED_ALGORITHMS_V4 = [''classical-ed25519'', ''ml-dsa'']"

definition REQUIRED_COMPONENTS_V4 :: "string list" where
  "REQUIRED_COMPONENTS_V4 = [''adn'', ''dqsn'', ''guardian_wallet'', ''qwg'', ''sentinel_ai'']"

text \<open>\<open>for x in v\<close>, with the \<open>TypeError\<close> of a value that is not iterable.\<close>

definition py_iter :: "pyval \<Rightarrow> pyexc + pyval list" where
  "py_iter v = (case v of PList xs \<Rightarrow> Inr xs | PTuple xs \<Rightarrow> Inr xs | PSet xs \<Rightarrow> Inr xs
     | PDict m \<Rightarrow> Inr (map PStr (dkeys m)) | PStr s \<Rightarrow> Inr (map (\<lambda>c. PStr [c]) s)
     | PNone \<Rightarrow> Inl (TypeError ''NoneType object is not iterable'')
     | PBool _ \<Rightarrow> Inl (TypeError ''bool object is not iterable'')
     | PInt _ \<Rightarrow> Inl (TypeError ''int object is not iterable'')
     | PFloat _ \<Rightarrow> Inl (TypeError ''float object is not iterable''))"

definition verified_algorithms :: "pydict \<Rightarrow> pyexc + string list" where
  "verified_algorithms summary =
     bind_r (py_iter (dget_default summary ''verified_algorithms'' (PTuple []))) (\<lambda>xs.
     Inr (concat (map (\<lambda>x. case x of PStr s \<Rightarrow> if py_blank s then [] else [s] | _ \<Rightarrow> []) xs)))"

definition summary_satisfies :: "pyval \<Rightarrow> pyexc + bool" where
  "summary_satisfies summary = (case summary of
     PDict m \<Rightarrow> bind_r (verified_algorithms m) (\<lambda>algs. Inr (set REQUIRED_ALGORITHMS_V4 \<subseteq> set algs))
   | _ \<Rightarrow> Inr False)"

text \<open>The loop over the components: \<^const>\<open>None\<close> once one of them fails.\<close>

fun component_ids :: "pyval list \<Rightarrow> pyexc + string list option" where
  "component_ids [] = Inr (Some [])"
| "component_ids (c # cs) = (case c of
     PDict m \<Rightarrow> bind_r (summary_satisfies c) (\<lambda>ok.
       if \<not> ok then Inr None
       else case dget m ''component_id'' of
         PStr i \<Rightarrow> bind_r (component_ids cs) (\<lambda>r. Inr (map_option (\<lambda>is. i # is) r))
       | _ \<Rightarrow> Inr None)
   | _ \<Rightarrow> Inr None)"

definition component_summaries_satisfy :: "pyval \<Rightarrow> pyexc + bool" where
  "component_summaries_satisfy components = (case components of
     PList xs \<Rightarrow> bind_r (component_ids xs) (\<lambda>r.
       Inr (case r of None \<Rightarrow> False | Some is \<Rightarrow> set is = set REQUIRED_COMPONENTS_V4))
   | PTuple xs \<Rightarrow> bind_r (component_ids xs) (\<lambda>r.
       Inr (case r of None \<Rightarrow> False | Some is \<Rightarrow> set is = set REQUIRED_COMPONENTS_V4))
   | PSet xs \<Rightarrow> bind_r (component_ids xs) (\<lambda>r.
       Inr (case r of None \<Rightarrow> False | Some is \<Rightarrow> set is = set REQUIRED_COMPONENTS_V4))
   | _ \<Rightarrow> Inr False)"

definition shield_v4_requirement_failure :: "evidence \<Rightarrow> pyexc + string option" where
  "shield_v4_requirement_failure ev =
    (if ev_attr ev ''verified'' (PBool False) \<noteq> PBool True
       then Inr (Some ''SHIELD_V4_VERIFIED_RESULT_REQUIRED'')
     else case ev_attr ev ''receipt'' PNone of
       PDict receipt \<Rightarrow>
         if \<not> py_eq (dget receipt ''schema_version'') (PStr ''shield.receipt.v2'') \<or>
            \<not> py_eq (dget receipt ''contract_version'') (PInt 4)
         then Inr (Some ''SHIELD_V4_DOWNGRADE_REJECTED'')
         else (case ev_attr ev ''verification_summary'' PNone of
           PDict summary \<Rightarrow>
             if \<not> py_eq (dget summary ''policy_version'') (PStr ''policy.v1'')
             then Inr (Some ''SHIELD_V4_POLICY_REQUIRED'')
             else bind_r (summary_satisfies (dget summary ''orchestrator'')) (\<lambda>ok.
               if \<not> ok then Inr (Some ''SHIELD_V4_ORCHESTRATOR_SIGNATURE_SUMMARY_REQUIRED'')
               else bind_r (component_summaries_satisfy (dget summary ''components'')) (\<lambda>ok2.
                 if \<not> ok2 then Inr (Some ''SHIELD_V4_COMPONENT_SIGNATURE_SUMMARY_REQUIRED'')
                 else Inr None))
         | _ \<Rightarrow> Inr (Some ''SHIELD_V4_VERIFICATION_SUMMARY_REQUIRED''))
     | _ \<Rightarrow> Inr (Some ''SHIELD_V4_RECEIPT_REQUIRED''))"

section \<open>The gates\<close>

definition indicates_human_review :: "evidence \<Rightarrow> bool" where
  "indicates_human_review ev \<longleftrightarrow>
     list_ex (\<lambda>f. ev_attr ev f PNone = PStr (fp_state_value HUMAN_REVIEW_REQUIRED))
       [''state'', ''outcome'', ''final_outcome'']"

text \<open>A gate returns the failure it stops at, or nothing.\<close>

definition evaluate_evidence_gate :: "string \<Rightarrow> evidence \<Rightarrow> string list \<Rightarrow> string \<Rightarrow> bool
    \<Rightarrow> pyexc + fp_result option" where
  "evaluate_evidence_gate gate ev order expected v4 =
    (if ev = NoEvidence then Inr (Some (fp_deny DENY_MISSING_EVIDENCE (reason_value DENY_POLICY) gate
         order [''MISSING_EVIDENCE:'' @ gate]))
     else if truthy_authority_value (ev_attr ev ''final_approval'' (PBool False))
       then Inr (Some (fp_deny DENY_AUTHORITY_BYPASS (reason_value DENY_AUTHORITY_INVALID) gate order
         [''UPSTREAM_FINAL_APPROVAL_BYPASS:'' @ gate]))
     else if contains_forbidden_authority_signal ev
       then Inr (Some (fp_deny DENY_AUTHORITY_BYPASS (reason_value DENY_AUTHORITY_INVALID) gate order
         [''HIDDEN_AUTHORITY_BYPASS:'' @ gate]))
     else if ev_attr ev ''accepted_as_evidence'' (PBool False) \<noteq> PBool True
       then Inr (Some (fp_deny DENY_EVIDENCE_REJECTED (reason_value (first_reason ev DENY_POLICY)) gate
         order (dominant_reasons ev DENY_POLICY)))
     else bind_r (if gate = ''shield'' \<and> v4 then shield_v4_requirement_failure ev else Inr None)
       (\<lambda>failure. case failure of
         Some f \<Rightarrow> Inr (Some (fp_deny DENY_SHIELD_V4_REQUIRED (reason_value EQC_INVALID_SHIELD_BUNDLE)
           ''shield'' order [f]))
       | None \<Rightarrow>
         if ev_attr ev ''handoff_allowed'' (PBool False) \<noteq> PBool True
           then Inr (Some (fp_deny DENY_HANDOFF_BLOCKED (reason_value (first_reason ev DENY_POLICY)) gate
             order (dominant_reasons ev DENY_POLICY)))
         else if ev_attr ev ''context_hash'' PNone \<noteq> PStr expected
           then Inr (Some (fp_deny DENY_CONTEXT_MISMATCH (reason_value EQC_CONFLICTING_EVIDENCE) gate
             order [''CONTEXT_MISMATCH:'' @ gate]))
         else if indicates_human_review ev
           then Inr (Some (fp_human_review (reason_value (first_reason ev DENY_AUTHORITY_INSUFFICIENT))
             gate order (dominant_reasons ev DENY_AUTHORITY_INSUFFICIENT)))
         else Inr None))"

text \<open>The gate's argument is \<^const>\<open>None\<close> when it is not a \<open>LocalPolicyGateResult\<close>.\<close>

definition evaluate_local_gate :: "string \<Rightarrow> local_gate_result option \<Rightarrow> string list
    \<Rightarrow> fp_result option" where
  "evaluate_local_gate gate res order =
    (case res of
       None \<Rightarrow> Some (fp_deny DENY_GATE_SHAPE_INVALID (reason_value DENY_POLICY) gate order
         [''INVALID_LOCAL_GATE:'' @ gate])
     | Some g \<Rightarrow>
       if lg_gate g \<noteq> gate then Some (fp_deny DENY_GATE_SHAPE_INVALID (reason_value DENY_POLICY) gate
         order [''INVALID_LOCAL_GATE:'' @ gate])
       else if \<not> lg_passed g then Some (fp_deny (gate_deny_state gate) (lg_reason_id g) gate order
         [reason_value (safe_reason (lg_reason_id g))])
       else if lg_requires_human_review g
         then Some (fp_human_review (reason_value (safe_reason (lg_reason_id g))) gate order
           [reason_value (safe_reason (lg_reason_id g))])
       else None)"

fun run_evidence_gates :: "(string \<times> evidence) list \<Rightarrow> string list \<Rightarrow> string \<Rightarrow> bool
    \<Rightarrow> pyexc + fp_result option" where
  "run_evidence_gates [] visited expected v4 = Inr None"
| "run_evidence_gates ((gate, ev) # gates) visited expected v4 =
     bind_r (evaluate_evidence_gate gate ev (visited @ [gate]) expected v4) (\<lambda>failure.
     case failure of Some r \<Rightarrow> Inr (Some r)
     | None \<Rightarrow> run_evidence_gates gates (visited @ [gate]) expected v4)"

fun run_local_gates :: "(string \<times> local_gate_result option) list \<Rightarrow> string list
    \<Rightarrow> fp_result option" where
  "run_local_gates [] visited = None"
| "run_local_gates ((gate, res) # gates) visited =
    (case evaluate_local_gate gate res (visited @ [gate]) of
       Some r \<Rightarrow> Some r | None \<Rightarrow> run_local_gates gates (visited @ [gate]))"

record fp_input =
  in_shield :: evidence
  in_wsqk_v2 :: evidence
  in_qid :: evidence
  in_adaptive_core :: evidence
  in_ai_gateway :: evidence
  in_replay :: "local_gate_result option"
  in_wallet_policy :: "local_gate_result option"
  in_human :: "local_gate_result option"

definition evidence_gates :: "fp_input \<Rightarrow> (string \<times> evidence) list" where
  "evidence_gates i = zip EVIDENCE_GATE_ORDER
     [in_shield i, in_wsqk_v2 i, in_qid i, in_adaptive_core i, in_ai_gateway i]"

definition local_gates :: "fp_input \<Rightarrow> (string \<times> local_gate_result option) list" where
  "local_gates i = zip LOCAL_GATE_ORDER [in_replay i, in_wallet_policy i, in_human i]"

definition fp_final_allow :: fp_result where
  "fp_final_allow = \<lparr>fp_state = ALLOW_FINAL_ADAMANTINEOS_DECISION, fp_outcome = ''ALLOW'',
     fp_reason_id = reason_value OK_ALLOW, fp_final_approval = True, fp_handoff_allowed = True,
     fp_stopped_at = ''final_adamantineos_decision'',
     fp_evaluation_order = EVIDENCE_GATE_ORDER @ LOCAL_GATE_ORDER @ [''final_adamantineos_decision''],
     fp_dominant_reason_ids = [reason_value OK_ALLOW]\<rparr>"

definition evaluate_final_policy_engine :: "fp_input \<Rightarrow> string \<Rightarrow> bool \<Rightarrow> pyexc + fp_result" where
  "evaluate_final_policy_engine i expected v4 =
    (if \<not> is_sha256_hex expected
       then Inr (fp_deny DENY_CONTEXT_MISMATCH (reason_value EQC_CONFLICTING_EVIDENCE)
         ''expected_context_hash'' [''expected_context_hash''] [''EXPECTED_CONTEXT_HASH_REQUIRED''])
     else bind_r (run_evidence_gates (evidence_gates i) [] expected v4) (\<lambda>failure. case failure of
       Some r \<Rightarrow> Inr r
     | None \<Rightarrow> (case run_local_gates (local_gates i) EVIDENCE_GATE_ORDER of
         Some r \<Rightarrow> Inr r
       | None \<Rightarrow> Inr fp_final_allow)))"

section \<open>When the engine allows\<close>

text \<open>The conditions of an evidence gate, as one predicate.\<close>

definition evidence_gate_ok :: "string \<Rightarrow> evidence \<Rightarrow> string \<Rightarrow> bool \<Rightarrow> bool" where
  "evidence_gate_ok gate ev expected v4 \<longleftrightarrow> ev \<noteq> NoEvidence \<and>
     \<not> truthy_authority_value (ev_attr ev ''final_approval'' (PBool False)) \<and>
     \<not> contains_forbidden_authority_signal ev \<and>
     ev_attr ev ''accepted_as_evidence'' (PBool False) = PBool True \<and>
     (gate = ''shield'' \<and> v4 \<longrightarrow> shield_v4_requirement_failure ev = Inr None) \<and>
     ev_attr ev ''handoff_allowed'' (PBool False) = PBool True \<and>
     ev_attr ev ''context_hash'' PNone = PStr expected \<and> \<not> indicates_human_review ev"

definition local_gate_ok :: "string \<Rightarrow> local_gate_result option \<Rightarrow> bool" where
  "local_gate_ok gate res \<longleftrightarrow> (case res of None \<Rightarrow> False
     | Some g \<Rightarrow> lg_gate g = gate \<and> lg_passed g \<and> \<not> lg_requires_human_review g)"

lemma evidence_gate_pass [simp]:
  "evaluate_evidence_gate gate ev order expected v4 = Inr None \<longleftrightarrow>
     evidence_gate_ok gate ev expected v4"
  by (auto simp: evaluate_evidence_gate_def evidence_gate_ok_def bind_r_eq_Inr split: option.splits)

lemma local_gate_pass [simp]:
  "evaluate_local_gate gate res order = None \<longleftrightarrow> local_gate_ok gate res"
  by (auto simp: evaluate_local_gate_def local_gate_ok_def split: option.splits)

lemma local_gate_fail: "evaluate_local_gate gate res order = Some r \<Longrightarrow> \<not> local_gate_ok gate res"
  using local_gate_pass[of gate res order] by simp

lemma evidence_gate_fail:
  "evaluate_evidence_gate gate ev order h v4 = Inr (Some r) \<Longrightarrow> \<not> evidence_gate_ok gate ev h v4"
  using evidence_gate_pass[of gate ev order h v4] by simp

lemma run_evidence_gates_pass:
  "run_evidence_gates gates visited expected v4 = Inr None \<longleftrightarrow>
     (\<forall>(g, ev) \<in> set gates. evidence_gate_ok g ev expected v4)"
  by (induction gates visited expected v4 rule: run_evidence_gates.induct)
    (auto simp: bind_r_eq_Inr split: option.splits)

lemma run_local_gates_pass:
  "run_local_gates gates visited = None \<longleftrightarrow> (\<forall>(g, res) \<in> set gates. local_gate_ok g res)"
  by (induction gates visited rule: run_local_gates.induct) (auto split: option.splits dest: local_gate_fail)

lemma fp_deny_simps [simp]:
  "fp_state (fp_deny st r g ord dm) = st" "fp_outcome (fp_deny st r g ord dm) = ''DENY''"
  "fp_stopped_at (fp_deny st r g ord dm) = g" "fp_evaluation_order (fp_deny st r g ord dm) = ord"
  "fp_final_approval (fp_deny st r g ord dm) = False"
  "fp_handoff_allowed (fp_deny st r g ord dm) = False"
  "fp_reason_id (fp_deny st r g ord dm) = r"
  "fp_state (fp_human_review r g ord dm) = HUMAN_REVIEW_REQUIRED"
  "fp_stopped_at (fp_human_review r g ord dm) = g"
  "fp_evaluation_order (fp_human_review r g ord dm) = ord"
  "fp_final_approval (fp_human_review r g ord dm) = False"
  "fp_handoff_allowed (fp_human_review r g ord dm) = False"
  by (simp_all add: fp_deny_def fp_human_review_def)

text \<open>A result that is not the final allow: never approving, stopped at the last gate visited.\<close>

definition fp_stop :: "string list \<Rightarrow> fp_result \<Rightarrow> bool" where
  "fp_stop order r \<longleftrightarrow> fp_state r \<noteq> ALLOW_FINAL_ADAMANTINEOS_DECISION \<and> \<not> fp_final_approval r \<and>
     \<not> fp_handoff_allowed r \<and> fp_evaluation_order r = order \<and> fp_stopped_at r = last order"

lemma fp_stop_simps [simp]:
  "st \<noteq> ALLOW_FINAL_ADAMANTINEOS_DECISION \<Longrightarrow> fp_stop (ord @ [g]) (fp_deny st r g (ord @ [g]) dm)"
  "fp_stop (ord @ [g]) (fp_human_review r g (ord @ [g]) dm)"
  by (simp_all add: fp_stop_def)

lemma fp_stop_self: "fp_stop ord r \<Longrightarrow> fp_stop (fp_evaluation_order r) r"
  by (simp add: fp_stop_def)

lemma evidence_gate_stop:
  "evaluate_evidence_gate g ev (ord @ [g]) h v4 = Inr (Some r) \<Longrightarrow> fp_stop (ord @ [g]) r"
  by (auto simp: evaluate_evidence_gate_def bind_r_eq_Inr split: option.splits if_splits)

lemma local_gate_stop:
  "evaluate_local_gate g res (ord @ [g]) = Some r \<Longrightarrow> fp_stop (ord @ [g]) r"
  by (auto simp: evaluate_local_gate_def gate_deny_state_def split: option.splits if_splits)

text \<open>A failing run stops at the first gate that fails.\<close>

lemma run_evidence_gates_stop:
  assumes "run_evidence_gates gates visited h v4 = Inr (Some r)"
  shows "\<exists>pre g ev post. gates = pre @ (g, ev) # post \<and>
    (\<forall>(g', ev') \<in> set pre. evidence_gate_ok g' ev' h v4) \<and> \<not> evidence_gate_ok g ev h v4 \<and>
    fp_stop (visited @ map fst pre @ [g]) r"
  using assms
proof (induction gates visited h v4 rule: run_evidence_gates.induct)
  case (2 gate ev gates visited h v4)
  obtain f where f: "evaluate_evidence_gate gate ev (visited @ [gate]) h v4 = Inr f"
    using 2(2) by (auto simp: bind_r_eq_Inr)
  show ?case
  proof (cases f)
    case None
    then have ok: "evidence_gate_ok gate ev h v4" using f by simp
    have "run_evidence_gates gates (visited @ [gate]) h v4 = Inr (Some r)"
      using 2(2) f None by simp
    from 2(1)[OF f None this] obtain pre g e post where
      "gates = pre @ (g, e) # post" "\<forall>(g', ev') \<in> set pre. evidence_gate_ok g' ev' h v4"
      "\<not> evidence_gate_ok g e h v4" "fp_stop (visited @ [gate] @ map fst pre @ [g]) r" by auto
    then show ?thesis using ok by (intro exI[of _ "(gate, ev) # pre"]) auto
  next
    case (Some r')
    then have "fp_stop (visited @ [gate]) r" "\<not> evidence_gate_ok gate ev h v4"
      using f 2(2) evidence_gate_stop[of gate ev visited h v4 r] evidence_gate_fail by auto
    then show ?thesis
      by (intro exI[of _ "[] :: (string \<times> evidence) list"] exI[of _ gate] exI[of _ ev] exI[of _ gates]) simp
  qed
qed simp

lemma run_local_gates_stop:
  assumes "run_local_gates gates visited = Some r"
  shows "\<exists>pre g res post. gates = pre @ (g, res) # post \<and>
    (\<forall>(g', res') \<in> set pre. local_gate_ok g' res') \<and> \<not> local_gate_ok g res \<and>
    fp_stop (visited @ map fst pre @ [g]) r"
  using assms
proof (induction gates visited rule: run_local_gates.induct)
  case (2 gate res gates visited)
  show ?case
  proof (cases "evaluate_local_gate gate res (visited @ [gate])")
    case None
    then have ok: "local_gate_ok gate res" by simp
    have "run_local_gates gates (visited @ [gate]) = Some r" using 2(2) None by simp
    from 2(1)[OF None this] obtain pre g e post where
      "gates = pre @ (g, e) # post" "\<forall>(g', res') \<in> set pre. local_gate_ok g' res'"
      "\<not> local_gate_ok g e" "fp_stop (visited @ [gate] @ map fst pre @ [g]) r" by auto
    then show ?thesis using ok by (intro exI[of _ "(gate, res) # pre"]) auto
  next
    case (Some r')
    then have "fp_stop (visited @ [gate]) r" "\<not> local_gate_ok gate res"
      using 2(2) local_gate_stop[of gate res visited r] local_gate_fail by auto
    then show ?thesis
      by (intro exI[of _ "[] :: (string \<times> local_gate_result option) list"] exI[of _ gate]
          exI[of _ res] exI[of _ gates]) simp
  qed
qed simp

lemma evidence_gates_names [simp]: "map fst (evidence_gates i) = EVIDENCE_GATE_ORDER"
  by (simp add: evidence_gates_def EVIDENCE_GATE_ORDER_def)

lemma local_gates_names [simp]: "map fst (local_gates i) = LOCAL_GATE_ORDER"
  by (simp add: local_gates_def LOCAL_GATE_ORDER_def)

text \<open>The whole input passes.\<close>

definition fp_all_ok :: "fp_input \<Rightarrow> string \<Rightarrow> bool \<Rightarrow> bool" where
  "fp_all_ok i h v4 \<longleftrightarrow> is_sha256_hex h \<and>
     (\<forall>(g, ev) \<in> set (evidence_gates i). evidence_gate_ok g ev h v4) \<and>
     (\<forall>(g, res) \<in> set (local_gates i). local_gate_ok g res)"

lemma final_policy_allow: "fp_all_ok i h v4 \<Longrightarrow> evaluate_final_policy_engine i h v4 = Inr fp_final_allow"
proof -
  assume ok: "fp_all_ok i h v4"
  then have "run_evidence_gates (evidence_gates i) [] h v4 = Inr None"
    "run_local_gates (local_gates i) EVIDENCE_GATE_ORDER = None"
    by (simp_all add: fp_all_ok_def run_evidence_gates_pass run_local_gates_pass)
  then show ?thesis using ok by (simp add: evaluate_final_policy_engine_def fp_all_ok_def)
qed

lemma final_policy_stop:
  assumes "evaluate_final_policy_engine i h v4 = Inr r" "\<not> fp_all_ok i h v4"
  shows "fp_stop (fp_evaluation_order r) r"
proof (cases "is_sha256_hex h")
  case False
  then show ?thesis
    using assms(1) by (auto simp: evaluate_final_policy_engine_def fp_stop_def)
next
  case hex: True
  from assms(1) hex obtain f where f: "run_evidence_gates (evidence_gates i) [] h v4 = Inr f"
    by (auto simp: evaluate_final_policy_engine_def bind_r_eq_Inr)
  show ?thesis
  proof (cases f)
    case (Some r')
    then have "r' = r" using assms(1) hex f by (simp add: evaluate_final_policy_engine_def)
    then have "run_evidence_gates (evidence_gates i) [] h v4 = Inr (Some r)" using f Some by simp
    from run_evidence_gates_stop[OF this] show ?thesis using fp_stop_self by blast
  next
    case None
    then have ev: "\<forall>(g, ev) \<in> set (evidence_gates i). evidence_gate_ok g ev h v4" using f run_evidence_gates_pass by auto
    then have "\<not> (\<forall>(g, res) \<in> set (local_gates i). local_gate_ok g res)"
      using assms(2) hex by (simp add: fp_all_ok_def)
    then obtain r' where r': "run_local_gates (local_gates i) EVIDENCE_GATE_ORDER = Some r'"
      using run_local_gates_pass by fastforce
    then have "r' = r" using assms(1) hex f None by (simp add: evaluate_final_policy_engine_def)
    then show ?thesis using run_local_gates_stop[OF r'] fp_stop_self by blast
  qed
qed

section \<open>Hidden authority at any depth\<close>

text \<open>\<open>k\<close> occurs in \<open>v\<close> as a key with value \<open>x\<close>, through dictionaries, lists, tuples and sets.\<close>

inductive key_occurs :: "string \<Rightarrow> pyval \<Rightarrow> pyval \<Rightarrow> bool" for k x where
  here: "(k, x) \<in> set m \<Longrightarrow> key_occurs k x (PDict m)"
| in_dict: "(k', v) \<in> set m \<Longrightarrow> key_occurs k x v \<Longrightarrow> key_occurs k x (PDict m)"
| in_list: "v \<in> set xs \<Longrightarrow> key_occurs k x v \<Longrightarrow> key_occurs k x (PList xs)"
| in_tuple: "v \<in> set xs \<Longrightarrow> key_occurs k x v \<Longrightarrow> key_occurs k x (PTuple xs)"
| in_set: "v \<in> set xs \<Longrightarrow> key_occurs k x v \<Longrightarrow> key_occurs k x (PSet xs)"

inductive_simps key_occurs_simps [simp]:
  "key_occurs k x (PDict m)" "key_occurs k x (PList xs)" "key_occurs k x (PTuple xs)"
  "key_occurs k x (PSet xs)" "key_occurs k x PNone" "key_occurs k x (PBool b)"
  "key_occurs k x (PInt i)" "key_occurs k x (PFloat f)" "key_occurs k x (PStr s)"

definition forbidden_entry :: "string \<Rightarrow> pyval \<Rightarrow> bool" where
  "forbidden_entry k x \<longleftrightarrow> k \<in> set FORBIDDEN_AUTHORITY_KEYS \<and> truthy_authority_value x"

lemma contains_forbidden_conv:
  "contains_forbidden v \<longleftrightarrow> (\<exists>k x. key_occurs k x v \<and> forbidden_entry k x)"
  "contains_forbidden_list xs \<longleftrightarrow> (\<exists>v \<in> set xs. \<exists>k x. key_occurs k x v \<and> forbidden_entry k x)"
  "contains_forbidden_items m \<longleftrightarrow>
     (\<exists>(k, v) \<in> set m. forbidden_entry k v \<or> (\<exists>k' x. key_occurs k' x v \<and> forbidden_entry k' x))"
  by (induction v and xs and m
      rule: contains_forbidden_contains_forbidden_list_contains_forbidden_items.induct)
    (auto 0 4 simp: forbidden_entry_def)

section \<open>Properties\<close>

text \<open>An input that passes every gate.\<close>

definition demo_evidence :: "string \<Rightarrow> evidence" where
  "demo_evidence h = ObjectEvidence [(''accepted_as_evidence'', PBool True),
     (''handoff_allowed'', PBool True), (''final_approval'', PBool False), (''context_hash'', PStr h)]"

definition demo_local :: "string \<Rightarrow> local_gate_result option" where
  "demo_local g = Some \<lparr>lg_gate = g, lg_passed = True, lg_reason_id = reason_value OK_ALLOW,
     lg_requires_human_review = False\<rparr>"

definition demo_fp_input :: "string \<Rightarrow> fp_input" where
  "demo_fp_input h = \<lparr>in_shield = demo_evidence h, in_wsqk_v2 = demo_evidence h, in_qid = demo_evidence h,
     in_adaptive_core = demo_evidence h, in_ai_gateway = demo_evidence h, in_replay = demo_local ''replay'',
     in_wallet_policy = demo_local ''wallet_policy'', in_human = demo_local ''human''\<rparr>"

lemma demo_evidence_ok [simp]: "evidence_gate_ok g (demo_evidence h) h False"
  by (simp add: evidence_gate_ok_def demo_evidence_def dget_default_def truthy_authority_value_def py_in_def num_eq_def
      num_ratio_def ALLOWED_NORMALIZED_AUTHORITY_FIELDS_def FORBIDDEN_AUTHORITY_KEYS_def
      indicates_human_review_def)

lemma demo_fp_ok: "is_sha256_hex h \<Longrightarrow> fp_all_ok (demo_fp_input h) h False"
  by (simp add: fp_all_ok_def demo_fp_input_def evidence_gates_def local_gates_def EVIDENCE_GATE_ORDER_def
      LOCAL_GATE_ORDER_def demo_local_def local_gate_ok_def)

lemma sha256_hex_example: "is_sha256_hex (replicate 64 CHR ''0'')"
  by (simp add: is_sha256_hex_def is_hex_lower_def list_all_length)

text \<open>
  C1: A result of the final policy engine approves, and allows the hand-off, exactly when the
  expected context hash is a SHA-256 digest, each of the five pieces of evidence is accepted,
  bound to that context, free of authority of its own and of human-review marks (Shield also
  meets the v4 requirement when it is on), and the three local gates passed; the approving
  result is then the fixed ALLOW, and every other result is a stop with a non-allow state.
\<close>

theorem final_policy_decides:
  assumes "evaluate_final_policy_engine i h v4 = Inr r"
  shows "(fp_final_approval r \<longleftrightarrow> fp_all_ok i h v4) \<and> (fp_handoff_allowed r \<longleftrightarrow> fp_all_ok i h v4) \<and>
    (fp_all_ok i h v4 \<longleftrightarrow> r = fp_final_allow) \<and>
    (fp_state r = ALLOW_FINAL_ADAMANTINEOS_DECISION \<longleftrightarrow> fp_all_ok i h v4)"
proof (cases "fp_all_ok i h v4")
  case True
  then have "r = fp_final_allow" using assms final_policy_allow[OF True] by simp
  then show ?thesis using True by (simp add: fp_final_allow_def)
next
  case False
  have "fp_stop (fp_evaluation_order r) r" using assms False by (rule final_policy_stop)
  then show ?thesis using False by (auto simp: fp_stop_def fp_final_allow_def)
qed

theorem final_policy_decides_witness:
  "fp_final_approval fp_final_allow \<and> fp_all_ok (demo_fp_input (replicate 64 CHR ''0'')) (replicate 64 CHR ''0'') False"
  using final_policy_decides[OF final_policy_allow[OF demo_fp_ok[OF sha256_hex_example]]] by blast

text \<open>The gate at each position of the fixed order.\<close>

definition gate_passes :: "fp_input \<Rightarrow> string \<Rightarrow> bool \<Rightarrow> nat \<Rightarrow> bool" where
  "gate_passes i h v4 k = (if k < 5 then (case evidence_gates i ! k of (g, ev) \<Rightarrow> evidence_gate_ok g ev h v4)
     else (case local_gates i ! (k - 5) of (g, res) \<Rightarrow> local_gate_ok g res))"

definition GATE_ORDER :: "string list" where
  "GATE_ORDER = EVIDENCE_GATE_ORDER @ LOCAL_GATE_ORDER"

lemma gates_length [simp]: "length (evidence_gates i) = 5" "length (local_gates i) = 3"
  by (simp_all add: evidence_gates_def local_gates_def EVIDENCE_GATE_ORDER_def LOCAL_GATE_ORDER_def)

lemma take_prefix: "xs = ys @ zs \<Longrightarrow> length ys = n \<Longrightarrow> take n xs = ys"
  by simp

lemma take_gate_order:
  assumes "evidence_gates i = pre @ (g, ev) # post"
  shows "take (Suc (length pre)) GATE_ORDER = map fst pre @ [g]" "length pre < 5"
    "evidence_gates i ! length pre = (g, ev)" "\<And>k. k < length pre \<Longrightarrow> evidence_gates i ! k = pre ! k"
proof -
  have "EVIDENCE_GATE_ORDER = map fst pre @ g # map fst post"
    using arg_cong[OF assms, of "map fst"] by simp
  then have "GATE_ORDER = map fst pre @ g # map fst post @ LOCAL_GATE_ORDER" by (simp add: GATE_ORDER_def)
  then show "take (Suc (length pre)) GATE_ORDER = map fst pre @ [g]"
    by (intro take_prefix[of _ _ "map fst post @ LOCAL_GATE_ORDER"]) simp_all
  show "length pre < 5" using arg_cong[OF assms, of length] by simp
  show "evidence_gates i ! length pre = (g, ev)" by (simp add: assms)
  show "\<And>k. k < length pre \<Longrightarrow> evidence_gates i ! k = pre ! k" by (simp add: assms nth_append)
qed

lemma take_local_order:
  assumes "local_gates i = pre @ (g, res) # post"
  shows "take (Suc (5 + length pre)) GATE_ORDER = EVIDENCE_GATE_ORDER @ map fst pre @ [g]" "length pre < 3"
    "local_gates i ! length pre = (g, res)" "\<And>k. k < length pre \<Longrightarrow> local_gates i ! k = pre ! k"
proof -
  have "LOCAL_GATE_ORDER = map fst pre @ g # map fst post"
    using arg_cong[OF assms, of "map fst"] by simp
  then have "GATE_ORDER = (EVIDENCE_GATE_ORDER @ map fst pre) @ g # map fst post" by (simp add: GATE_ORDER_def)
  moreover have "length EVIDENCE_GATE_ORDER = 5" by (simp add: EVIDENCE_GATE_ORDER_def)
  ultimately show "take (Suc (5 + length pre)) GATE_ORDER = EVIDENCE_GATE_ORDER @ map fst pre @ [g]"
    by (intro take_prefix[of _ _ "map fst post"]) simp_all
  show "length pre < 3" using arg_cong[OF assms, of length] by simp
  show "local_gates i ! length pre = (g, res)" by (simp add: assms)
  show "\<And>k. k < length pre \<Longrightarrow> local_gates i ! k = pre ! k" by (simp add: assms nth_append)
qed

text \<open>
  C6: The order is fixed and the engine stops at the first gate that fails: a result without
  approval, for a well-formed context hash, lists exactly the gates up to one that fails, all
  the earlier ones passing, and names it as the place where it stopped.
\<close>

theorem final_policy_stops_at_first_failure:
  assumes "evaluate_final_policy_engine i h v4 = Inr r" "\<not> fp_final_approval r" "is_sha256_hex h"
  shows "\<exists>n < 8. fp_evaluation_order r = take (Suc n) GATE_ORDER \<and> fp_stopped_at r = GATE_ORDER ! n \<and>
    (\<forall>k < n. gate_passes i h v4 k) \<and> \<not> gate_passes i h v4 n"
proof -
  have last: "last (take (Suc n) GATE_ORDER) = GATE_ORDER ! n" if "n < 8" for n
  proof -
    have "length GATE_ORDER = 8" by (simp add: GATE_ORDER_def EVIDENCE_GATE_ORDER_def LOCAL_GATE_ORDER_def)
    then show ?thesis using that by (simp add: take_Suc_conv_app_nth)
  qed
  obtain f where f: "run_evidence_gates (evidence_gates i) [] h v4 = Inr f"
    using assms(1,3) by (auto simp: evaluate_final_policy_engine_def bind_r_eq_Inr)
  show ?thesis
  proof (cases f)
    case (Some r')
    then have "run_evidence_gates (evidence_gates i) [] h v4 = Inr (Some r)"
      using assms(1,3) f by (simp add: evaluate_final_policy_engine_def)
    from run_evidence_gates_stop[OF this] obtain pre g ev post where
      p: "evidence_gates i = pre @ (g, ev) # post" "\<forall>(g', ev') \<in> set pre. evidence_gate_ok g' ev' h v4"
        "\<not> evidence_gate_ok g ev h v4" "fp_stop (map fst pre @ [g]) r" by auto
    have "gate_passes i h v4 k" if "k < length pre" for k
      using that p(2) take_gate_order(2,4)[OF p(1)] nth_mem[OF that] by (force simp: gate_passes_def)
    then show ?thesis
      using p(3,4) take_gate_order(1-3)[OF p(1)] last[of "length pre"]
      by (intro exI[of _ "length pre"]) (auto simp: fp_stop_def gate_passes_def)
  next
    case None
    then have ok: "\<forall>(g, ev) \<in> set (evidence_gates i). evidence_gate_ok g ev h v4"
      using f run_evidence_gates_pass by auto
    then have "run_local_gates (local_gates i) EVIDENCE_GATE_ORDER = Some r"
      using assms f None
      by (auto simp: evaluate_final_policy_engine_def fp_final_allow_def split: option.splits)
    from run_local_gates_stop[OF this] obtain pre g res post where
      p: "local_gates i = pre @ (g, res) # post" "\<forall>(g', res') \<in> set pre. local_gate_ok g' res'"
        "\<not> local_gate_ok g res" "fp_stop (EVIDENCE_GATE_ORDER @ map fst pre @ [g]) r" by auto
    have "gate_passes i h v4 k" if "k < 5 + length pre" for k
    proof (cases "k < 5")
      case True
      then show ?thesis using ok nth_mem[of k "evidence_gates i"] by (auto simp: gate_passes_def)
    next
      case False
      then have "k - 5 < length pre" using that by simp
      then show ?thesis using p(2) take_local_order(4)[OF p(1)] nth_mem[of "k - 5" pre] False
        by (force simp: gate_passes_def)
    qed
    then show ?thesis
      using p(3,4) take_local_order(1-3)[OF p(1)] last[of "5 + length pre"]
      by (intro exI[of _ "5 + length pre"]) (auto simp: fp_stop_def gate_passes_def)
  qed
qed

theorem final_policy_stops_at_first_failure_witness:
  "\<exists>n < 8. \<not> gate_passes ((demo_fp_input (replicate 64 CHR ''0''))\<lparr>in_qid := NoEvidence\<rparr>) (replicate 64 CHR ''0'') False n"
proof -
  let ?h = "replicate 64 CHR ''0''" and ?i = "(demo_fp_input (replicate 64 CHR ''0''))\<lparr>in_qid := NoEvidence\<rparr>"
  have "\<not> fp_all_ok ?i ?h False"
    by (simp add: fp_all_ok_def evidence_gates_def EVIDENCE_GATE_ORDER_def evidence_gate_ok_def)
  moreover have "\<exists>r. evaluate_final_policy_engine ?i ?h False = Inr r"
  proof -
    have pass: "evaluate_evidence_gate g (demo_evidence ?h) ord ?h False = Inr None" for g ord by simp
    have "run_evidence_gates (evidence_gates ?i) [] ?h False =
        Inr (Some (fp_deny DENY_MISSING_EVIDENCE (reason_value DENY_POLICY) ''qid''
          [''shield'', ''wsqk_v2'', ''qid''] [''MISSING_EVIDENCE:qid'']))"
      using pass by (simp add: evidence_gates_def EVIDENCE_GATE_ORDER_def demo_fp_input_def
          del: evidence_gate_pass) (simp add: evaluate_evidence_gate_def)
    then show ?thesis using sha256_hex_example by (simp add: evaluate_final_policy_engine_def)
  qed
  ultimately obtain r where r: "evaluate_final_policy_engine ?i ?h False = Inr r" "\<not> fp_final_approval r"
    using final_policy_stop[of ?i ?h False] by (auto simp: fp_stop_def)
  show ?thesis using final_policy_stops_at_first_failure[OF r sha256_hex_example] by blast
qed

lemma forbidden_attrs_conv:
  "forbidden_attrs m \<longleftrightarrow> (\<exists>(n, v) \<in> set m. n \<notin> set ALLOWED_NORMALIZED_AUTHORITY_FIELDS \<and>
     (\<exists>k x. key_occurs k x (PDict [(n, v)]) \<and> forbidden_entry k x))"
  by (induction m rule: forbidden_attrs.induct)
    (auto simp: contains_forbidden_conv forbidden_entry_def)

text \<open>
  C7: No evidence smuggles authority past the engine: when it approves, no evidence is a plain
  mapping, and in no evidence object does a forbidden key (sign, broadcast, execute, override,
  trusted, ...) occur with a truthy value, as an attribute or at any depth below one, through
  dictionaries, lists, tuples and sets.
\<close>

theorem approved_evidence_has_no_hidden_authority:
  assumes "evaluate_final_policy_engine i h v4 = Inr r" "fp_final_approval r"
    and "ev \<in> {in_shield i, in_wsqk_v2 i, in_qid i, in_adaptive_core i, in_ai_gateway i}"
  shows "\<exists>attrs. ev = ObjectEvidence attrs \<and>
    (\<forall>n v k x. (n, v) \<in> set attrs \<and> n \<notin> set ALLOWED_NORMALIZED_AUTHORITY_FIELDS \<and>
       key_occurs k x (PDict [(n, v)]) \<and> k \<in> set FORBIDDEN_AUTHORITY_KEYS \<longrightarrow> \<not> truthy_authority_value x)"
proof -
  have "fp_all_ok i h v4"
    using final_policy_stop[OF assms(1)] assms(2) by (auto simp: fp_stop_def)
  then obtain g where g: "evidence_gate_ok g ev h v4"
    using assms(3) by (auto simp: fp_all_ok_def evidence_gates_def EVIDENCE_GATE_ORDER_def)
  then obtain attrs where a: "ev = ObjectEvidence attrs" by (cases ev) (auto simp: evidence_gate_ok_def)
  then have "\<not> forbidden_attrs attrs" using g by (simp add: evidence_gate_ok_def)
  then show ?thesis using a unfolding forbidden_attrs_conv forbidden_entry_def by blast
qed

theorem approved_evidence_has_no_hidden_authority_witness:
  "\<exists>attrs. demo_evidence (replicate 64 CHR ''0'') = ObjectEvidence attrs"
  using approved_evidence_has_no_hidden_authority[OF final_policy_allow[OF demo_fp_ok[OF sha256_hex_example]],
      of "demo_evidence (replicate 64 CHR ''0'')"]
  by (auto simp: fp_final_allow_def demo_fp_input_def)

end
