(* ===== verification/Qid_Adapter.thy ===== *)
theory Qid_Adapter
  imports Contracts Sha256 Obs_Metrics
begin

text \<open>
  \<open>src/adamantine/v1/integrations/qid_adapter.py\<close>: the canonical JSON profile of Q-ID, the
  two accepted shapes of a session proof (a v2 login evidence and the Shape-A interface),
  and the replay proof. As in the other adapters, \<open>_fail\<close> counts the reason and raises an
  \<open>AdapterError\<close>; the parsers here are the pure part, \<open>count_adapter_failure\<close> adds the
  counting.
\<close>

section \<open>Failures and optional strings\<close>

definition ad_fail :: "reason_id \<Rightarrow> string \<Rightarrow> pyexc + 'a" where
  "ad_fail rid msg = Inl (AdapterError rid msg)"

definition count_adapter_failure :: "metrics option \<Rightarrow> pyexc + 'a \<Rightarrow> (pyexc + 'a) \<times> metrics option" where
  "count_adapter_failure m res = (res, case res of Inl (AdapterError rid _) \<Rightarrow> inc_reason m rid | _ \<Rightarrow> m)"

lemma ad_fail_ne [simp]: "ad_fail rid msg \<noteq> Inr x"
  by (simp add: ad_fail_def)

lemma if_ad_fail_eq_Inr [res_simps]:
  "(if c then ad_fail rid msg else m) = Inr x \<longleftrightarrow> \<not> c \<and> m = Inr x"
  by simp

definition is_adapter_error :: "pyexc \<Rightarrow> bool" where
  "is_adapter_error e \<longleftrightarrow> (\<exists>r m. e = AdapterError r m)"

lemma is_adapter_error_simps [simp]:
  "is_adapter_error (AdapterError r m)"
  by (simp add: is_adapter_error_def)

lemma ad_fail_raises [raises_intros]: "raises_only is_adapter_error (ad_fail rid msg)"
  by (simp add: ad_fail_def raises_only_Inl)

text \<open>A string that must not be empty.\<close>

definition need_nonempty_str :: "pyval \<Rightarrow> 'e \<Rightarrow> 'e + string" where
  "need_nonempty_str v e = bind_r (need_str v e) (\<lambda>s. if s = [] then Inl e else Inr s)"

lemma need_nonempty_str_ok [res_simps]: "need_nonempty_str v e = Inr s \<longleftrightarrow> v = PStr s \<and> s \<noteq> []"
  by (auto simp: need_nonempty_str_def res_simps)

lemma need_nonempty_str_raises [raises_intros]:
  "P e \<Longrightarrow> raises_only P (need_nonempty_str v e)"
  unfolding need_nonempty_str_def by (intro raises_intros raises_only_Inl)

text \<open>A string or \<open>None\<close>.\<close>

definition need_opt_str :: "pyval \<Rightarrow> 'e \<Rightarrow> 'e + string option" where
  "need_opt_str v e = (case v of PNone \<Rightarrow> Inr None | PStr s \<Rightarrow> Inr (Some s) | _ \<Rightarrow> Inl e)"

lemma need_opt_str_ok [res_simps]:
  "need_opt_str v e = Inr s \<longleftrightarrow> (v = PNone \<and> s = None \<or> (\<exists>t. v = PStr t \<and> s = Some t))"
  by (cases v) (auto simp: need_opt_str_def)

lemma need_opt_str_raises [raises_intros]: "P e \<Longrightarrow> raises_only P (need_opt_str v e)"
  by (cases v) (auto simp: need_opt_str_def raises_only_def)

definition opt_val :: "string option \<Rightarrow> pyval" where
  "opt_val s = (case s of None \<Rightarrow> PNone | Some t \<Rightarrow> PStr t)"

definition is_sha256_hex_val :: "pyval \<Rightarrow> bool" where
  "is_sha256_hex_val v \<longleftrightarrow> (case v of PStr s \<Rightarrow> is_sha256_hex s | _ \<Rightarrow> False)"

lemma is_sha256_hex_val_simps [simp]: "is_sha256_hex_val (PStr s) \<longleftrightarrow> is_sha256_hex s"
  by (simp add: is_sha256_hex_val_def)

section \<open>Hashes\<close>

definition canonical_qid_json_bytes :: "pyval \<Rightarrow> pyexc + nat list" where
  "canonical_qid_json_bytes v = bind_r (json_dumps True False v) (\<lambda>s. Inr (utf8 s))"

definition compute_qid_v2_response_payload_proof_hash :: "pydict \<Rightarrow> pyexc + string" where
  "compute_qid_v2_response_payload_proof_hash response_payload =
     bind_r (canonical_qid_json_bytes (PDict response_payload)) (\<lambda>b. Inr (sha256_hex b))"

definition compute_qid_shape_a_proof_hash :: "string \<Rightarrow> string \<Rightarrow> int \<Rightarrow> int \<Rightarrow> string option
    \<Rightarrow> string option \<Rightarrow> string option \<Rightarrow> pyexc + string" where
  "compute_qid_shape_a_proof_hash iface subject issued_at expires_at context_hash device issuer =
     bind_r (canonical_qid_json_bytes (PDict
       [(''qid_iface_version'', PStr iface), (''subject'', PStr subject),
        (''issued_at'', PInt issued_at), (''expires_at'', PInt expires_at),
        (''context_hash'', opt_val context_hash), (''device_binding'', opt_val device),
        (''issuer_version'', opt_val issuer)])) (\<lambda>b. Inr (sha256_hex b))"

section \<open>Session proofs\<close>

definition validate_session_or_fail :: "int \<Rightarrow> qid_session_proof \<Rightarrow> pyexc + qid_session_proof" where
  "validate_session_or_fail now q = (case validate_qid_session now q of
     Inl e \<Rightarrow> ad_fail EQC_INVALID_QID_PROOF (''contract validation failed: '' @ exc_str e)
   | Inr _ \<Rightarrow> Inr q)"

definition qid_err :: "string \<Rightarrow> pyexc" where
  "qid_err msg = AdapterError EQC_INVALID_QID_PROOF msg"

definition hash_msg :: "string \<Rightarrow> string" where
  "hash_msg name = name @ '' must be a 64-character lowercase sha256 hex string''"

text \<open>Shape B.\<close>

definition parse_qid_shape_b :: "pydict \<Rightarrow> int \<Rightarrow> pyexc + qid_session_proof" where
  "parse_qid_shape_b m now =
     bind_r (need_map (dget m ''response_payload'') (qid_err ''response_payload must be object'')) (\<lambda>rp.
     bind_r (need_nonempty_str (dget rp ''address'')
       (qid_err ''response_payload.address must be non-empty str'')) (\<lambda>subject.
     bind_r (need_int (dget rp ''issued_at'')
       (qid_err ''response_payload.issued_at/expires_at must be int'')) (\<lambda>issued_at.
     bind_r (need_int (dget rp ''expires_at'')
       (qid_err ''response_payload.issued_at/expires_at must be int'')) (\<lambda>expires_at.
     bind_r (need_str (dget rp ''context_hash'') (qid_err (hash_msg ''response_payload.context_hash''))) (\<lambda>context_hash.
     if \<not> is_sha256_hex context_hash
       then ad_fail EQC_INVALID_QID_PROOF (hash_msg ''response_payload.context_hash'') else
     if now < issued_at then ad_fail EQC_QID_SESSION_NOT_YET_VALID ''session not yet valid'' else
     if expires_at \<le> now then ad_fail EQC_QID_SESSION_EXPIRED ''session expired'' else
     bind_r (need_nonempty_str (dget m ''proof_hash'') (qid_err ''proof_hash must be non-empty str'')) (\<lambda>proof_hash.
     bind_r (catch_r (compute_qid_v2_response_payload_proof_hash rp) (\<lambda>e.
       ad_fail EQC_INVALID_QID_PROOF (''response_payload canonicalization failed: '' @ exc_str e))) (\<lambda>expected.
     if proof_hash \<noteq> expected then ad_fail EQC_INVALID_QID_PROOF ''proof_hash mismatch'' else
     validate_session_or_fail now \<lparr>qs_subject = subject, qs_issued_at = issued_at,
       qs_expires_at = expires_at, qs_proof_hash = proof_hash, qs_context_hash = Some context_hash,
       qs_device_binding = None, qs_issuer_version = None\<rparr>)))))))"

text \<open>Shape A.\<close>

definition parse_qid_shape_a :: "pydict \<Rightarrow> int \<Rightarrow> pyexc + qid_session_proof" where
  "parse_qid_shape_a m now =
     bind_r (need_nonempty_str (dget m ''qid_iface_version'')
       (qid_err ''qid_iface_version must be non-empty str'')) (\<lambda>iface.
     bind_r (need_nonempty_str (dget m ''subject'') (qid_err ''subject must be non-empty str'')) (\<lambda>subject.
     bind_r (need_nonempty_str (dget m ''proof_hash'') (qid_err ''proof_hash must be non-empty str'')) (\<lambda>proof_hash.
     bind_r (need_opt_str (dget m ''context_hash'') (qid_err (hash_msg ''context_hash''))) (\<lambda>context_hash.
     if (case context_hash of None \<Rightarrow> False | Some h \<Rightarrow> \<not> is_sha256_hex h)
       then ad_fail EQC_INVALID_QID_PROOF (hash_msg ''context_hash'') else
     bind_r (need_int (dget m ''issued_at'') (qid_err ''issued_at/expires_at must be int'')) (\<lambda>issued_at.
     bind_r (need_int (dget m ''expires_at'') (qid_err ''issued_at/expires_at must be int'')) (\<lambda>expires_at.
     if now < issued_at then ad_fail EQC_QID_SESSION_NOT_YET_VALID ''session not yet valid'' else
     if expires_at \<le> now then ad_fail EQC_QID_SESSION_EXPIRED ''session expired'' else
     bind_r (need_opt_str (dget m ''device_binding'')
       (qid_err ''device_binding must be non-empty str or None'')) (\<lambda>device.
     if device = Some [] then ad_fail EQC_INVALID_QID_PROOF ''device_binding must be non-empty str or None'' else
     bind_r (need_opt_str (dget m ''issuer_version'') (qid_err ''issuer_version must be str or None'')) (\<lambda>issuer.
     bind_r (compute_qid_shape_a_proof_hash iface subject issued_at expires_at context_hash device issuer) (\<lambda>expected.
     if proof_hash \<noteq> expected then ad_fail EQC_INVALID_QID_PROOF ''shape-A proof_hash mismatch'' else
     validate_session_or_fail now \<lparr>qs_subject = subject, qs_issued_at = issued_at,
       qs_expires_at = expires_at, qs_proof_hash = proof_hash, qs_context_hash = context_hash,
       qs_device_binding = device, qs_issuer_version = issuer\<rparr>)))))))))"

definition parse_qid_session :: "pyval \<Rightarrow> int \<Rightarrow> pyexc + qid_session_proof" where
  "parse_qid_session payload now =
     bind_r (need_map payload (qid_err ''payload must be mapping'')) (\<lambda>m.
     if dget m ''v'' = PStr ''2'' \<and> dget m ''kind'' = PStr ''qid_login_v2''
     then parse_qid_shape_b m now else parse_qid_shape_a m now)"

definition parse_qid_session_m :: "pyval \<Rightarrow> int \<Rightarrow> metrics option
    \<Rightarrow> (pyexc + qid_session_proof) \<times> metrics option" where
  "parse_qid_session_m payload now mt = count_adapter_failure mt (parse_qid_session payload now)"

section \<open>Replay proofs\<close>

definition replay_err :: "string \<Rightarrow> pyexc" where
  "replay_err msg = AdapterError QID_REPLAY_PROOF_INVALID msg"

definition parse_qid_replay_proof :: "pyval \<Rightarrow> string \<Rightarrow> string \<Rightarrow> string \<Rightarrow> string option
    \<Rightarrow> string \<Rightarrow> bool \<Rightarrow> pyexc + qid_replay_proof" where
  "parse_qid_replay_proof evidence_qid expected_wallet_id expected_subject expected_proof_hash
     expected_device_binding expected_session_nonce require_fresh =
     bind_r (need_map evidence_qid (replay_err ''evidence_qid must be mapping'')) (\<lambda>e.
     if dget e ''replay_proof'' = PNone
       then ad_fail QID_REPLAY_PROOF_MISSING ''qid.replay_proof is required'' else
     bind_r (need_map (dget e ''replay_proof'') (replay_err ''qid.replay_proof must be object'')) (\<lambda>rp.
     bind_r (need_nonempty_str (dget rp ''proof_version'')
       (replay_err ''replay_proof.proof_version must be non-empty str'')) (\<lambda>proof_version.
     bind_r (need_nonempty_str (dget rp ''wallet_id'')
       (replay_err ''replay_proof.wallet_id must be non-empty str'')) (\<lambda>wallet_id.
     bind_r (need_nonempty_str (dget rp ''subject'')
       (replay_err ''replay_proof.subject must be non-empty str'')) (\<lambda>subject.
     bind_r (need_nonempty_str (dget rp ''proof_hash'')
       (replay_err ''replay_proof.proof_hash must be non-empty str'')) (\<lambda>proof_hash.
     bind_r (need_nonempty_str (dget rp ''session_nonce'')
       (replay_err ''replay_proof.session_nonce must be non-empty str'')) (\<lambda>session_nonce.
     bind_r (need_nonempty_str (dget rp ''registry_commitment'')
       (replay_err ''replay_proof.registry_commitment must be non-empty str'')) (\<lambda>commitment.
     bind_r (need_bool (dget rp ''fresh'') (replay_err ''replay_proof.fresh must be bool'')) (\<lambda>fresh.
     bind_r (need_opt_str (dget rp ''device_binding'')
       (replay_err ''replay_proof.device_binding must be non-empty str or None'')) (\<lambda>device.
     if device = Some []
       then Inl (replay_err ''replay_proof.device_binding must be non-empty str or None'') else
     let proof = \<lparr>qr_proof_version = proof_version, qr_wallet_id = wallet_id, qr_subject = subject,
       qr_proof_hash = proof_hash, qr_session_nonce = session_nonce,
       qr_registry_commitment = commitment, qr_fresh = fresh, qr_device_binding = device\<rparr> in
     bind_r (catch_r (validate_qid_replay proof) (\<lambda>x.
       Inl (replay_err (''contract validation failed: '' @ exc_str x)))) (\<lambda>_.
     if wallet_id \<noteq> expected_wallet_id
       then ad_fail QID_REPLAY_WALLET_MISMATCH ''replay_proof.wallet_id mismatch''
     else if subject \<noteq> expected_subject
       then ad_fail QID_REPLAY_SUBJECT_MISMATCH ''replay_proof.subject mismatch''
     else if proof_hash \<noteq> expected_proof_hash
       then ad_fail QID_REPLAY_PROOF_HASH_MISMATCH ''replay_proof.proof_hash mismatch''
     else if device \<noteq> expected_device_binding
       then ad_fail QID_REPLAY_DEVICE_MISMATCH ''replay_proof.device_binding mismatch''
     else if session_nonce \<noteq> expected_session_nonce
       then ad_fail QID_REPLAY_NONCE_MISMATCH ''replay_proof.session_nonce mismatch''
     else if require_fresh \<and> \<not> fresh
       then ad_fail QID_NONCE_REPLAY ''replay_proof indicates nonce replay''
     else Inr proof)))))))))))"

section \<open>What an accepted proof satisfies\<close>

lemma validate_session_or_fail_ok [res_simps]:
  "validate_session_or_fail now q = Inr p \<longleftrightarrow> p = q \<and> validate_qid_session now q = Inr ()"
  by (auto simp: validate_session_or_fail_def split: sum.splits)

lemma catch_ad_fail_ok [res_simps]:
  "catch_r m (\<lambda>e. ad_fail r (g e)) = Inr x \<longleftrightarrow> m = Inr x"
  by (cases m) simp_all

text \<open>
  The proof hash of an accepted session binds its fields: for Shape B it is the hash of the
  response payload that carries them, for Shape A the hash of exactly the contract fields.
\<close>

definition shape_b_bound :: "pydict \<Rightarrow> qid_session_proof \<Rightarrow> bool" where
  "shape_b_bound m q \<longleftrightarrow> (\<exists>rp. dget m ''response_payload'' = PDict rp \<and>
     dget rp ''address'' = PStr (qs_subject q) \<and> dget rp ''issued_at'' = PInt (qs_issued_at q) \<and>
     dget rp ''expires_at'' = PInt (qs_expires_at q) \<and>
     dget rp ''context_hash'' = opt_val (qs_context_hash q) \<and> qs_context_hash q \<noteq> None \<and>
     compute_qid_v2_response_payload_proof_hash rp = Inr (qs_proof_hash q))"

definition shape_a_bound :: "pydict \<Rightarrow> qid_session_proof \<Rightarrow> bool" where
  "shape_a_bound m q \<longleftrightarrow> (\<exists>iface. dget m ''qid_iface_version'' = PStr iface \<and>
     compute_qid_shape_a_proof_hash iface (qs_subject q) (qs_issued_at q) (qs_expires_at q)
       (qs_context_hash q) (qs_device_binding q) (qs_issuer_version q) = Inr (qs_proof_hash q))"

lemma parse_qid_shape_b_ok:
  "parse_qid_shape_b m now = Inr q \<Longrightarrow> validate_qid_session now q = Inr () \<and> shape_b_bound m q"
  by (auto simp: parse_qid_shape_b_def shape_b_bound_def opt_val_def res_simps)

lemma parse_qid_shape_a_ok:
  "parse_qid_shape_a m now = Inr q \<Longrightarrow> validate_qid_session now q = Inr () \<and> shape_a_bound m q"
  by (auto simp: parse_qid_shape_a_def shape_a_bound_def res_simps)

lemma shape_b_raises [raises_intros]: "raises_only is_adapter_error (parse_qid_shape_b m now)"
proof -
  have v: "raises_only is_adapter_error (validate_session_or_fail now q)" for q
    by (auto simp: validate_session_or_fail_def ad_fail_def raises_only_def split: sum.splits)
  have c: "raises_only is_adapter_error (catch_r n (\<lambda>e. ad_fail r (g e)))" for n r g
    by (cases n) (auto simp: ad_fail_def raises_only_def)
  show ?thesis unfolding parse_qid_shape_b_def
    by (intro raises_intros v c) (simp_all add: qid_err_def)
qed

lemma json_shape_a_total:
  "printable_int i \<Longrightarrow> printable_int e \<Longrightarrow> \<exists>h. compute_qid_shape_a_proof_hash iface subject i e c d v = Inr h"
  by (cases c; cases d; cases v)
    (simp_all add: compute_qid_shape_a_proof_hash_def canonical_qid_json_bytes_def json_dumps_def opt_val_def)

text \<open>
  Shape A hashes outside any \<open>try\<close>: a time of more digits than the interpreter converts to text
  (no JSON text yields one) leaves the adapter as the \<open>ValueError\<close> of \<open>json.dumps\<close>.
\<close>

definition qid_escape :: "pyexc \<Rightarrow> bool" where
  "qid_escape e \<longleftrightarrow> is_adapter_error e \<or> e = ValueError int_too_long"

lemma shape_a_raises [raises_intros]: "raises_only qid_escape (parse_qid_shape_a m now)"
proof -
  have f: "raises_only qid_escape (ad_fail rid msg)" for rid msg
    by (simp add: ad_fail_def qid_escape_def raises_only_Inl)
  have v: "raises_only qid_escape (validate_session_or_fail now q)" for q
    by (auto simp: validate_session_or_fail_def ad_fail_def raises_only_def qid_escape_def split: sum.splits)
  have h: "raises_only qid_escape (compute_qid_shape_a_proof_hash iface s i e c d u)"
    for iface s i e c d u
    by (cases c; cases d; cases u) (auto simp: raises_only_def qid_escape_def compute_qid_shape_a_proof_hash_def
        canonical_qid_json_bytes_def json_dumps_def opt_val_def json_int_def bind_r_eq_Inl split: if_splits)
  show ?thesis unfolding parse_qid_shape_a_def
    by (intro raises_intros v h f) (simp_all add: qid_err_def qid_escape_def)
qed

lemma parse_qid_session_raises: "raises_only qid_escape (parse_qid_session payload now)"
proof -
  have "raises_only qid_escape (parse_qid_shape_b m now)" for m
    using shape_b_raises[of m now] by (simp add: raises_only_def qid_escape_def)
  then show ?thesis
    unfolding parse_qid_session_def by (intro raises_intros) (simp_all add: qid_err_def qid_escape_def)
qed

lemma parse_qid_replay_ok:
  assumes "parse_qid_replay_proof e w s h d n rf = Inr q"
  shows "qr_wallet_id q = w \<and> qr_subject q = s \<and> qr_proof_hash q = h \<and> qr_device_binding q = d \<and>
    qr_session_nonce q = n \<and> (rf \<longrightarrow> qr_fresh q) \<and> validate_qid_replay q = Inr ()"
  using assms unfolding parse_qid_replay_proof_def
  by (auto simp: res_simps Let_def)

section \<open>Properties\<close>

text \<open>
  A Q-ID session the adapter accepts is valid at the injected time (positive times,
  issued_at <= now < expires_at) and bound by its proof hash to its own fields: for a Shape B
  payload the hash of the response payload, which must carry the context hash, for Shape A the
  hash of exactly the contract fields. Whatever else the payload is, the adapter raises an
  \<open>AdapterError\<close>, or the \<open>ValueError\<close> of a time too long to print.
\<close>

theorem qid_session_bound:
  "case parse_qid_session payload now of
     Inl e \<Rightarrow> (\<exists>rid msg. e = AdapterError rid msg) \<or> e = ValueError int_too_long
   | Inr q \<Rightarrow> \<exists>m. payload = PDict m \<and> validate_qid_session now q = Inr () \<and>
       qs_issued_at q \<le> now \<and> now < qs_expires_at q \<and>
       (if dget m ''v'' = PStr ''2'' \<and> dget m ''kind'' = PStr ''qid_login_v2'' then shape_b_bound m q
        else shape_a_bound m q)"
proof (cases "parse_qid_session payload now")
  case (Inl e)
  then show ?thesis using parse_qid_session_raises[of payload now]
    by (auto simp: raises_only_def qid_escape_def is_adapter_error_def)
next
  case (Inr q)
  have w: "validate_qid_session now q = Inr () \<Longrightarrow> qs_issued_at q \<le> now \<and> now < qs_expires_at q"
    by (auto simp: validate_qid_session_def split: if_splits option.splits)
  show ?thesis
  proof -
    obtain m where m: "payload = PDict m" using Inr by (auto simp: parse_qid_session_def res_simps)
    show ?thesis
    proof (cases "dget m ''v'' = PStr ''2'' \<and> dget m ''kind'' = PStr ''qid_login_v2''")
      case True
      then have "parse_qid_shape_b m now = Inr q" using Inr m by (simp add: parse_qid_session_def)
      then show ?thesis using Inr m True w parse_qid_shape_b_ok by simp
    next
      case False
      then have "parse_qid_shape_a m now = Inr q" using Inr m by (auto simp: parse_qid_session_def)
      then show ?thesis using Inr m False w parse_qid_shape_a_ok by auto
    qed
  qed
qed

text \<open>
  An accepted replay proof matches everything the caller expects: wallet, subject, proof
  hash, device binding (exactly, absent for absent) and session nonce, and it claims freshness
  when freshness is required.
\<close>

theorem qid_replay_proof_matches:
  assumes "parse_qid_replay_proof evidence w s h d n require_fresh = Inr q"
  shows "qr_wallet_id q = w \<and> qr_subject q = s \<and> qr_proof_hash q = h \<and> qr_device_binding q = d \<and>
    qr_session_nonce q = n \<and> (qr_fresh q \<or> \<not> require_fresh) \<and> validate_qid_replay q = Inr ()"
  using parse_qid_replay_ok[OF assms] by blast

definition demo_replay_evidence :: pyval where
  "demo_replay_evidence = PDict [(''replay_proof'', PDict [(''proof_version'', PStr ''1''),
     (''wallet_id'', PStr ''w''), (''subject'', PStr ''s''), (''proof_hash'', PStr ''h''),
     (''session_nonce'', PStr ''n''), (''registry_commitment'', PStr ''c''), (''fresh'', PBool True)])]"

lemma demo_replay_ok: "\<exists>q. parse_qid_replay_proof demo_replay_evidence ''w'' ''s'' ''h'' None ''n'' True = Inr q"
proof -
  have "\<not> isl (parse_qid_replay_proof demo_replay_evidence ''w'' ''s'' ''h'' None ''n'' True)" by code_simp
  then show ?thesis by (cases "parse_qid_replay_proof demo_replay_evidence ''w'' ''s'' ''h'' None ''n'' True") simp_all
qed

theorem qid_replay_proof_matches_witness:
  "\<exists>q. parse_qid_replay_proof demo_replay_evidence ''w'' ''s'' ''h'' None ''n'' True = Inr q \<and>
     qr_wallet_id q = ''w'' \<and> qr_session_nonce q = ''n'' \<and> qr_fresh q"
proof -
  obtain q where q: "parse_qid_replay_proof demo_replay_evidence ''w'' ''s'' ''h'' None ''n'' True = Inr q"
    using demo_replay_ok by blast
  show ?thesis using qid_replay_proof_matches[OF q] q by blast
qed

end
