(* ===== verification/Adaptive_Core_Adapter.thy ===== *)
theory Adaptive_Core_Adapter
  imports Qid_Adapter Risk_Policy
begin

text \<open>
  \<open>src/adamantine/v1/integrations/adaptive_core_adapter.py\<close> (the risk report) and
  \<open>adaptive_core_oracle_v3_adapter.py\<close> (the oracle around it). External reason ids are
  let in only if the policy's allow-list, the registry when there is one, and the reason
  map all know them, and only their internal image goes on.
\<close>

definition risk_err :: "string \<Rightarrow> pyexc" where
  "risk_err msg = AdapterError EQC_INVALID_RISK_REPORT msg"

text \<open>\<open>f"signal[{idx}]..."\<close>.\<close>

definition sig_msg :: "nat \<Rightarrow> string \<Rightarrow> string" where
  "sig_msg idx rest = ''signal['' @ show_nat idx @ '']'' @ rest"

section \<open>The risk report\<close>

text \<open>One external reason id of a signal: its internal image.\<close>

definition internal_risk_reason :: "string list \<Rightarrow> unknown_reason_mode \<Rightarrow> external_reason_registry option
    \<Rightarrow> external_reason_map \<Rightarrow> nat \<Rightarrow> pyval \<Rightarrow> pyexc + string" where
  "internal_risk_reason allowed mode registry rmap idx v =
     bind_r (need_nonempty_str v (risk_err (sig_msg idx ''.reason_ids must be non-empty str''))) (\<lambda>rid.
     if rid \<notin> set allowed \<and> mode = DENY_EXPLICIT
       then ad_fail UNKNOWN_EXTERNAL_REASON (''unknown external reason_id: '' @ rid)
     else if (case registry of None \<Rightarrow> False | Some r \<Rightarrow> \<not> is_oracle_reason_allowed r rid)
       then ad_fail UNKNOWN_EXTERNAL_REASON (''external reason_id not allowed for oracle: '' @ rid)
     else (case lookup_reason rmap rid of
         None \<Rightarrow> ad_fail UNKNOWN_EXTERNAL_REASON (''unmapped external reason_id: '' @ rid)
       | Some internal \<Rightarrow> Inr internal))"

definition parse_risk_signal :: "string list \<Rightarrow> unknown_reason_mode \<Rightarrow> external_reason_registry option
    \<Rightarrow> external_reason_map \<Rightarrow> nat \<Rightarrow> pyval \<Rightarrow> pyexc + risk_signal" where
  "parse_risk_signal allowed mode registry rmap idx v =
     bind_r (need_map v (risk_err (sig_msg idx '' must be mapping''))) (\<lambda>s.
     bind_r (need_nonempty_str (dget s ''source'')
       (risk_err (sig_msg idx ''.source must be non-empty str''))) (\<lambda>source.
     bind_r (need_int (dget s ''severity'') (risk_err (sig_msg idx ''.severity must be 0..100 int''))) (\<lambda>severity.
     if \<not> (0 \<le> severity \<and> severity \<le> 100)
       then Inl (risk_err (sig_msg idx ''.severity must be 0..100 int'')) else
     bind_r (need_seq (dget s ''reason_ids'')
       (risk_err (sig_msg idx ''.reason_ids must be a list of str''))) (\<lambda>raw.
     bind_r (map_r (internal_risk_reason allowed mode registry rmap idx) raw) (\<lambda>internal.
     let sig = \<lparr>rs_source = source, rs_severity = severity, rs_reason_ids = internal\<rparr> in
     bind_r (catch_r (validate_risk_signal sig) (\<lambda>e.
       Inl (risk_err (''signal contract validation failed: '' @ exc_str e)))) (\<lambda>_.
     Inr sig))))))"

text \<open>\<open>for idx, s in enumerate(signals_raw)\<close>.\<close>

fun parse_risk_signals :: "string list \<Rightarrow> unknown_reason_mode \<Rightarrow> external_reason_registry option
    \<Rightarrow> external_reason_map \<Rightarrow> nat \<Rightarrow> pyval list \<Rightarrow> pyexc + risk_signal list" where
  "parse_risk_signals allowed mode registry rmap idx [] = Inr []"
| "parse_risk_signals allowed mode registry rmap idx (v # vs) =
     bind_r (parse_risk_signal allowed mode registry rmap idx v) (\<lambda>s.
     bind_r (parse_risk_signals allowed mode registry rmap (idx + 1) vs) (\<lambda>ss. Inr (s # ss)))"

definition parse_risk_report :: "pyval \<Rightarrow> int \<Rightarrow> string \<Rightarrow> external_reason_map option
    \<Rightarrow> external_reason_registry option \<Rightarrow> risk_policy option \<Rightarrow> pyexc + risk_report" where
  "parse_risk_report payload now expected reason_map registry policy =
    (if expected = [] then Inl (risk_err ''expected_context_hash must be non-empty str'') else
     bind_r (need_map payload (risk_err ''payload must be mapping'')) (\<lambda>m.
     let p = (case policy of None \<Rightarrow> default_risk_policy | Some p \<Rightarrow> p) in
     bind_r (validate_risk_policy p) (\<lambda>_.
     let resolved = (case reason_map of Some r \<Rightarrow> Some r
       | None \<Rightarrow> (case policy of None \<Rightarrow> None | Some q \<Rightarrow> effective_external_reason_map q)) in
     case resolved of
       None \<Rightarrow> Inl (risk_err ''reason_map is required (explicit or via policy_pack)'')
     | Some rmap \<Rightarrow>
     bind_r (validate_reason_map rmap) (\<lambda>_.
     let allowed = effective_allowed_external_reason_ids p in
     if (case registry of None \<Rightarrow> False | Some r \<Rightarrow> validate_registry r \<noteq> Inr ())
       then Inl (risk_err ''reason_registry invalid'') else
     bind_r (need_nonempty_str (dget m ''ac_iface_version'')
       (risk_err ''ac_iface_version must be non-empty str'')) (\<lambda>_.
     bind_r (need_nonempty_str (dget m ''context_hash'')
       (risk_err ''context_hash must be non-empty str'')) (\<lambda>context_hash.
     if context_hash \<noteq> expected
       then ad_fail EQC_RISK_CONTEXT_HASH_MISMATCH ''risk context_hash mismatch'' else
     bind_r (need_int (dget m ''generated_at'') (risk_err ''generated_at must be positive int'')) (\<lambda>generated_at.
     if generated_at \<le> 0 then Inl (risk_err ''generated_at must be positive int'')
     else if now < generated_at then Inl (risk_err ''generated_at cannot be in the future'') else
     bind_r (need_int (dget m ''overall_score'')
       (risk_err ''overall_score must be int in range 0..100'')) (\<lambda>score.
     if \<not> (0 \<le> score \<and> score \<le> 100) then Inl (risk_err ''overall_score must be int in range 0..100'') else
     bind_r (need_seq (dget m ''signals'') (risk_err ''signals must be a sequence'')) (\<lambda>raw.
     if raw = [] then Inl (risk_err ''signals must not be empty'') else
     bind_r (parse_risk_signals allowed (rp_unknown_reason_mode p) registry rmap 0 raw) (\<lambda>signals.
     bind_r (need_opt_str (dget m ''oracle_version'') (risk_err ''oracle_version must be str or None'')) (\<lambda>version.
     bind_r (need_opt_str (dget m ''external_source_id'')
       (risk_err ''external_source_id must be str or None'')) (\<lambda>source_id.
     let report = \<lparr>rr_context_hash = context_hash, rr_signals = signals, rr_overall_score = score,
       rr_generated_at = generated_at, rr_oracle_version = version, rr_external_source_id = source_id\<rparr> in
     bind_r (catch_r (validate_risk_report now report) (\<lambda>e.
       Inl (risk_err (''contract validation failed: '' @ exc_str e)))) (\<lambda>_.
     Inr report)))))))))))))"

section \<open>The oracle\<close>

definition ORACLE_ALLOWED_KEYS :: "string list" where
  "ORACLE_ALLOWED_KEYS = [''ac_iface_version'', ''context_hash'', ''issued_at'', ''expires_at'',
     ''generated_at'', ''overall_score'', ''signals'', ''oracle_version'', ''external_source_id'']"

definition parse_adaptive_core_oracle_v3 :: "pyval \<Rightarrow> int \<Rightarrow> string \<Rightarrow> external_reason_map option
    \<Rightarrow> external_reason_registry option \<Rightarrow> risk_policy option \<Rightarrow> pyexc + adaptive_core_oracle_v3" where
  "parse_adaptive_core_oracle_v3 payload now expected reason_map registry policy =
    (if \<not> is_sha256_hex expected
       then Inl (risk_err ''expected_context_hash must be lowercase 64-character hex'') else
     bind_r (need_map payload (risk_err ''payload must be mapping'')) (\<lambda>m.
     if unknown_keys m ORACLE_ALLOWED_KEYS \<noteq> [] then Inl (risk_err
       (''oracle payload contains unknown fields: '' @ repr_str_list (unknown_keys m ORACLE_ALLOWED_KEYS)))
     else if dget m ''ac_iface_version'' \<noteq> PStr ''adaptive_core_oracle_v3''
       then ad_fail DENY_VERSION_MISMATCH ''ac_iface_version must be adaptive_core_oracle_v3''
     else if \<not> is_sha256_hex_val (dget m ''context_hash'')
       then Inl (risk_err ''context_hash must be lowercase 64-character hex'')
     else if dget m ''context_hash'' \<noteq> PStr expected
       then ad_fail EQC_RISK_CONTEXT_HASH_MISMATCH ''oracle context_hash mismatch'' else
     bind_r (need_int (dget m ''issued_at'') (risk_err ''issued_at/expires_at must be int'')) (\<lambda>issued_at.
     bind_r (need_int (dget m ''expires_at'') (risk_err ''issued_at/expires_at must be int'')) (\<lambda>expires_at.
     if expires_at < issued_at then Inl (risk_err ''expires_at must be >= issued_at'')
     else if now < issued_at then Inl (risk_err ''issued_at cannot be in the future'')
     else if expires_at < now then Inl (risk_err ''expires_at cannot be in the past'') else
     bind_r (parse_risk_report payload now expected reason_map registry policy) (\<lambda>report.
     let ac = \<lparr>ao_context_hash = expected, ao_issued_at = issued_at, ao_expires_at = expires_at,
       ao_report = report\<rparr> in
     bind_r (catch_r (validate_oracle now ac) (\<lambda>e.
       Inl (risk_err (''oracle contract validation failed: '' @ exc_str e)))) (\<lambda>_.
     Inr ac))))))"

section \<open>What an accepted oracle satisfies\<close>

lemma if_risk_err_eq_Inr [res_simps]:
  "(if c then Inl (risk_err m) else x) = Inr y \<longleftrightarrow> \<not> c \<and> x = Inr y"
  by simp

lemma internal_risk_reason_ok:
  assumes "internal_risk_reason allowed mode registry rmap idx v = Inr r" "validate_reason_map rmap = Inr ()"
  shows "\<exists>q. r = reason_value q" "\<exists>ext. v = PStr ext \<and> ext \<in> set allowed \<and> lookup_reason rmap ext = Some r"
  using assms lookup_reason_valid[OF assms(2)]
  by (cases mode; auto simp: internal_risk_reason_def res_simps split: option.splits)+

definition internal_reasons_only :: "risk_signal list \<Rightarrow> bool" where
  "internal_reasons_only ss \<longleftrightarrow> (\<forall>s \<in> set ss. \<forall>r \<in> set (rs_reason_ids s). \<exists>q. r = reason_value q)"

lemma parse_risk_signal_ok:
  assumes "parse_risk_signal allowed mode registry rmap idx v = Inr s" "validate_reason_map rmap = Inr ()"
  shows "validate_risk_signal s = Inr ()" "\<forall>r \<in> set (rs_reason_ids s). \<exists>q. r = reason_value q"
proof -
  obtain raw internal where
    m: "map_r (internal_risk_reason allowed mode registry rmap idx) raw = Inr internal" and
    s: "rs_reason_ids s = internal" "validate_risk_signal s = Inr ()"
    using assms(1) by (auto simp: parse_risk_signal_def res_simps Let_def)
  show "validate_risk_signal s = Inr ()" by (rule s(2))
  show "\<forall>r \<in> set (rs_reason_ids s). \<exists>q. r = reason_value q"
    using map_r_set[OF m] internal_risk_reason_ok(1)[OF _ assms(2)] s(1) by blast
qed

lemma parse_risk_signals_ok:
  "parse_risk_signals allowed mode registry rmap idx vs = Inr ss \<Longrightarrow> validate_reason_map rmap = Inr () \<Longrightarrow>
     internal_reasons_only ss"
  by (induction vs arbitrary: idx ss)
    (auto simp: internal_reasons_only_def res_simps, metis parse_risk_signal_ok(2))

lemma parse_risk_report_ok:
  assumes "parse_risk_report payload now expected reason_map registry policy = Inr r"
  shows "rr_context_hash r = expected \<and> validate_risk_report now r = Inr () \<and> rr_signals r \<noteq> [] \<and>
    internal_reasons_only (rr_signals r)"
proof -
  obtain rmap allowed mode raw where
    v: "validate_reason_map rmap = Inr ()" and raw: "raw \<noteq> []" and
    s: "parse_risk_signals allowed mode registry rmap 0 raw = Inr (rr_signals r)" and
    f: "rr_context_hash r = expected" "validate_risk_report now r = Inr ()"
    using assms by (auto simp: parse_risk_report_def res_simps Let_def split: option.splits if_splits)
  have "rr_signals r \<noteq> []" using s raw by (cases raw) (auto simp: res_simps)
  then show ?thesis using f parse_risk_signals_ok[OF s v] by simp
qed

lemma parse_oracle_ok:
  assumes "parse_adaptive_core_oracle_v3 payload now expected reason_map registry policy = Inr ac"
  shows "ao_context_hash ac = expected \<and> rr_context_hash (ao_report ac) = expected \<and>
    ao_issued_at ac \<le> now \<and> now \<le> ao_expires_at ac \<and> validate_oracle now ac = Inr () \<and>
    internal_reasons_only (rr_signals (ao_report ac))"
  using assms parse_risk_report_ok[of payload now expected reason_map registry policy "ao_report ac"]
  by (auto simp: parse_adaptive_core_oracle_v3_def res_simps Let_def)

section \<open>Properties\<close>

text \<open>
  An oracle the adapter accepts is evidence for the expected context only: its own and its
  report's context hash are the expected ones, the injected time lies in its window, report and
  signals satisfy their contracts, and every reason of every signal is an internal one: no
  external string crosses the boundary.
\<close>

theorem oracle_evidence_is_bound_and_internal:
  assumes "parse_adaptive_core_oracle_v3 payload now expected reason_map registry policy = Inr ac"
  shows "ao_context_hash ac = expected \<and> rr_context_hash (ao_report ac) = expected \<and>
    ao_issued_at ac \<le> now \<and> now \<le> ao_expires_at ac \<and> validate_oracle now ac = Inr () \<and>
    internal_reasons_only (rr_signals (ao_report ac))"
  using assms by (rule parse_oracle_ok)

definition demo_oracle_payload :: "string \<Rightarrow> pyval" where
  "demo_oracle_payload h = PDict [(''ac_iface_version'', PStr ''adaptive_core_oracle_v3''),
     (''context_hash'', PStr h), (''issued_at'', PInt 10), (''expires_at'', PInt 30),
     (''generated_at'', PInt 10), (''overall_score'', PInt 90),
     (''signals'', PList [PDict [(''source'', PStr ''ac''), (''severity'', PInt 1), (''reason_ids'', PList [PStr ''ok''])]])]"

definition demo_policy :: risk_policy where
  "demo_policy = default_risk_policy\<lparr>rp_policy_pack := Some default_policy_pack\<rparr>"

lemma demo_oracle_ok:
  "\<exists>ac. parse_adaptive_core_oracle_v3 (demo_oracle_payload (replicate 64 CHR ''0'')) 20 (replicate 64 CHR ''0'')
     None None (Some demo_policy) = Inr ac"
proof -
  let ?p = "parse_adaptive_core_oracle_v3 (demo_oracle_payload (replicate 64 CHR ''0'')) 20 (replicate 64 CHR ''0'')
     None None (Some demo_policy)"
  have "\<not> isl ?p" by code_simp
  then show ?thesis by (cases ?p) simp_all
qed

theorem oracle_evidence_is_bound_and_internal_witness:
  "\<exists>ac. parse_adaptive_core_oracle_v3 (demo_oracle_payload (replicate 64 CHR ''0'')) 20 (replicate 64 CHR ''0'')
     None None (Some demo_policy) = Inr ac \<and> internal_reasons_only (rr_signals (ao_report ac))"
proof -
  obtain ac where ac: "parse_adaptive_core_oracle_v3 (demo_oracle_payload (replicate 64 CHR ''0'')) 20
      (replicate 64 CHR ''0'') None None (Some demo_policy) = Inr ac"
    using demo_oracle_ok by blast
  show ?thesis using oracle_evidence_is_bound_and_internal[OF ac] ac by blast
qed

end
