(* ===== verification/Shield_Receipt.thy ===== *)
theory Shield_Receipt
  imports Qid_Adapter
begin

text \<open>
  The Shield Orchestrator receipt: \<open>contracts/shield_orchestrator_receipt.py\<close> (the v3.2
  contract), \<open>integrations/shield_orchestrator_receipt_verifier.py\<close> and
  \<open>shield_orchestrator_receipt_adapter.py\<close>. The contract raises typed errors, all of them
  \<open>ValueError\<close>s, which the two boundaries classify; a \<open>TypeError\<close> (an unhashable evidence
  family, a value that JSON has no form for) is not caught by either.
\<close>

section \<open>The contract's errors and constants\<close>

datatype receipt_error =
    RcValueError string
  | RcDirectVerdict string
  | RcContextMismatch string
  | RcHashMismatch string
  | RcAuthorityBypass string
  | RcOutcomeMismatch string
  | RcComponentVerdict string
  | RcTypeError string

fun rc_message :: "receipt_error \<Rightarrow> string" where
  "rc_message (RcValueError m) = m"
| "rc_message (RcDirectVerdict m) = m"
| "rc_message (RcContextMismatch m) = m"
| "rc_message (RcHashMismatch m) = m"
| "rc_message (RcAuthorityBypass m) = m"
| "rc_message (RcOutcomeMismatch m) = m"
| "rc_message (RcComponentVerdict m) = m"
| "rc_message (RcTypeError m) = m"

text \<open>\<open>if not c: raise ValueError(msg)\<close>.\<close>

definition rc_check :: "bool \<Rightarrow> string \<Rightarrow> receipt_error + unit" where
  "rc_check c msg = check_r c (RcValueError msg)"

lemma rc_check_ok [res_simps]: "rc_check c msg = Inr u \<longleftrightarrow> c"
  by (simp add: rc_check_def res_simps)

definition ALLOWED_FINAL_OUTCOMES :: "string list" where
  "ALLOWED_FINAL_OUTCOMES = [''ALLOW'', ''DENY'', ''HUMAN_REVIEW_REQUIRED'']"

definition SUPPORTED_COMPONENT_IDS :: "string list" where
  "SUPPORTED_COMPONENT_IDS = [''adn'', ''dqsn'', ''guardian_wallet'', ''qwg'', ''sentinel_ai'']"

definition SUPPORTED_COMPONENT_DECISIONS :: "string list" where
  "SUPPORTED_COMPONENT_DECISIONS = [''ALLOW'', ''ESCALATE'', ''DENY'', ''ERROR'', ''SKIPPED'']"

definition REQUIRED_RECEIPT_FIELDS :: "string list" where
  "REQUIRED_RECEIPT_FIELDS = [''schema_version'', ''contract_version'', ''request_id'', ''context_hash'',
     ''component_verdicts'', ''final_outcome'', ''dominant_reason_ids'', ''receipt_hash'',
     ''adamantineos_handoff'', ''fail_closed'']"

definition REQUIRED_VERDICT_FIELDS :: "string list" where
  "REQUIRED_VERDICT_FIELDS = [''component_id'', ''contract_version'', ''schema_version'', ''request_id'', ''context_hash'',
     ''decision'', ''reason_ids'', ''evidence_hash'', ''evidence_families'', ''metadata'',
     ''fail_closed'']"

definition component_reason_ids :: "string \<Rightarrow> string list" where
  "component_reason_ids c = (if c = ''guardian_wallet'' then [''GW_DENY_POLICY_BLOCKED'', ''GW_ERROR_CONTEXT_HASH_MISMATCH'',
       ''GW_ERROR_INVALID_VERDICT'', ''GW_ESCALATE_QID_REQUIRED'',
       ''GW_OK_HEALTHY_ALLOW'']
     else if c = ''adn'' then [''ADN_DENY_DEFENSE_TRIGGERED'', ''ADN_ERROR_CONTEXT_HASH_MISMATCH'',
       ''ADN_ERROR_INVALID_VERDICT'', ''ADN_ESCALATE_POLICY_REVIEW'',
       ''ADN_OK_COORDINATION_ALLOW'']
     else if c = ''sentinel_ai'' then [''SNTL_DENY_THREAT_DETECTED'', ''SNTL_ERROR_AI_OUTPUT_UNTRUSTED'',
       ''SNTL_ERROR_CONTEXT_HASH_MISMATCH'', ''SNTL_ESCALATE_THREAT_REVIEW'',
       ''SNTL_OK_TELEMETRY_ALLOW'']
     else if c = ''dqsn'' then [''DQSN_DENY_NETWORK_RISK'', ''DQSN_ERROR_CONTEXT_HASH_MISMATCH'',
       ''DQSN_ERROR_INVALID_VERDICT'', ''DQSN_ESCALATE_QUANTUM_SIGNAL'',
       ''DQSN_OK_NETWORK_ALLOW'']
     else if c = ''qwg'' then [''QWG_DENY_KEY_RISK'', ''QWG_ERROR_CONTEXT_HASH_MISMATCH'',
       ''QWG_ERROR_INVALID_VERDICT'', ''QWG_ESCALATE_QUANTUM_POSTURE'',
       ''QWG_OK_POSTURE_ALLOW'']
     else [])"

definition component_evidence_families :: "string \<Rightarrow> string list" where
  "component_evidence_families c = (if c = ''guardian_wallet'' then [''device_signal'', ''qid_auth_context'', ''sentinel_signal'', ''transaction_context'',
       ''wallet_context'']
     else if c = ''adn'' then [''coordination_state'', ''defense_signal'', ''policy_context'']
     else if c = ''sentinel_ai'' then [''adaptive_core_bridge_event'', ''monitor_signal'', ''telemetry'',
       ''threat_observation'']
     else if c = ''dqsn'' then [''aggregate_signal'', ''network_observation'', ''node_state'', ''quantum_signal'']
     else if c = ''qwg'' then [''dormancy_context'', ''key_age_context'', ''quantum_risk_context'',
       ''wallet_posture'']
     else [])"

definition FORBIDDEN_METADATA_AUTHORITY_KEYS :: "string list" where
  "FORBIDDEN_METADATA_AUTHORITY_KEYS = [''allow'', ''approved'', ''authority'', ''auto_approve'', ''broadcast'', ''bypass'',
     ''can_sign'', ''decision'', ''execute'', ''final_approval'', ''force_allow'',
     ''human_approved'', ''override'', ''sign'', ''trusted'']"

section \<open>Fields\<close>

text \<open>\<open>int(value, 16)\<close> succeeds: white space around, a sign, a prefix, single underscores.\<close>

definition is_hex_digit :: "char \<Rightarrow> bool" where
  "is_hex_digit c \<longleftrightarrow> c \<in> set ''0123456789abcdefABCDEF''"

definition int_space :: "string \<Rightarrow> char \<Rightarrow> bool" where
  "int_space s c = (if list_all (\<lambda>x. (of_char x :: nat) < 128) s
     then (let n = (of_char c :: nat) in 9 \<le> n \<and> n \<le> 13 \<or> n = 32) else py_isspace c)"

fun hex_digits_ok :: "string \<Rightarrow> bool" where
  "hex_digits_ok [] = False"
| "hex_digits_ok [c] = is_hex_digit c"
| "hex_digits_ok (c # d # s) = (is_hex_digit c \<and>
     (if d = CHR ''_'' then hex_digits_ok s else hex_digits_ok (d # s)))"

definition int16_ok :: "string \<Rightarrow> bool" where
  "int16_ok s = (let
     t = rev (dropWhile (int_space s) (rev (dropWhile (int_space s) s)));
     u = (if t \<noteq> [] \<and> (hd t = CHR ''+'' \<or> hd t = CHR ''-'') then tl t else t);
     prefixed = (take 2 u = ''0x'' \<or> take 2 u = ''0X'');
     v = (if prefixed then drop 2 u else u);
     w = (if prefixed \<and> v \<noteq> [] \<and> hd v = CHR ''_'' then tl v else v)
   in hex_digits_ok w)"

definition rc_require_hash :: "pyval \<Rightarrow> string \<Rightarrow> receipt_error + string" where
  "rc_require_hash v field =
     bind_r (need_str v (RcValueError (field @ '' must be 64-character sha256 hex''))) (\<lambda>s.
     bind_r (rc_check (length s = 64) (field @ '' must be 64-character sha256 hex'')) (\<lambda>_.
     bind_r (rc_check (s = py_lower s) (field @ '' must be lowercase sha256 hex'')) (\<lambda>_.
     bind_r (rc_check (int16_ok s) (field @ '' must be sha256 hex'')) (\<lambda>_. Inr s))))"

definition rc_require_str :: "pyval \<Rightarrow> string \<Rightarrow> receipt_error + string" where
  "rc_require_str v field =
     bind_r (need_str v (RcValueError (field @ '' must be non-empty str''))) (\<lambda>s.
     bind_r (rc_check (\<not> py_blank s) (field @ '' must be non-empty str'')) (\<lambda>_. Inr (py_strip s)))"

fun forbidden_metadata :: "pyval \<Rightarrow> bool" and forbidden_metadata_list :: "pyval list \<Rightarrow> bool"
  and forbidden_metadata_items :: "pydict \<Rightarrow> bool" where
  "forbidden_metadata (PDict m) = (list_ex (\<lambda>k. k \<in> set FORBIDDEN_METADATA_AUTHORITY_KEYS) (map fst m) \<or>
     forbidden_metadata_items m)"
| "forbidden_metadata (PList xs) = forbidden_metadata_list xs"
| "forbidden_metadata _ = False"
| "forbidden_metadata_list [] = False"
| "forbidden_metadata_list (x # xs) = (forbidden_metadata x \<or> forbidden_metadata_list xs)"
| "forbidden_metadata_items [] = False"
| "forbidden_metadata_items ((k, v) # m) = (forbidden_metadata v \<or> forbidden_metadata_items m)"

text \<open>\<open>hash(v)\<close> exists.\<close>

fun hashable :: "pyval \<Rightarrow> bool" and hashable_list :: "pyval list \<Rightarrow> bool" where
  "hashable (PList _) = False"
| "hashable (PSet _) = False"
| "hashable (PDict _) = False"
| "hashable (PTuple xs) = hashable_list xs"
| "hashable _ = True"
| "hashable_list [] = True"
| "hashable_list (x # xs) = (hashable x \<and> hashable_list xs)"

text \<open>\<open>len(set(xs)) == len(xs)\<close>.\<close>

fun py_distinct :: "pyval list \<Rightarrow> bool" where
  "py_distinct [] = True"
| "py_distinct (x # xs) = (\<not> py_in x xs \<and> py_distinct xs)"

section \<open>Component verdicts\<close>

text \<open>\<open>validate_component_verdict\<close>; the verdict is returned as it was received.\<close>

definition validate_component_verdict :: "pyval \<Rightarrow> pyval \<Rightarrow> pyval \<Rightarrow> receipt_error + pydict" where
  "validate_component_verdict verdict expected_context_hash expected_request_id =
     bind_r (need_map verdict (RcValueError ''Shield component verdict must be dict'')) (\<lambda>v.
     bind_r (rc_check (set (dkeys v) = set REQUIRED_VERDICT_FIELDS)
       ''Shield component verdict fields must match v3.2 schema'') (\<lambda>_.
     bind_r (rc_require_str (dget v ''component_id'') ''component_id'') (\<lambda>component_id.
     bind_r (rc_check (component_id \<in> set SUPPORTED_COMPONENT_IDS) ''unknown Shield component_id'') (\<lambda>_.
     bind_r (rc_check (py_eq (dget v ''contract_version'') (PInt 3))
       ''Shield component contract_version mismatch'') (\<lambda>_.
     bind_r (rc_check (py_eq (dget v ''schema_version'') (PStr ''shield.verdict.v1''))
       ''Shield component schema_version mismatch'') (\<lambda>_.
     bind_r (rc_check (dget v ''fail_closed'' = PBool True)
       ''Shield component verdict must be fail_closed'') (\<lambda>_.
     bind_r (rc_require_str (dget v ''request_id'') ''request_id'') (\<lambda>rid.
     bind_r (rc_require_str expected_request_id ''expected_request_id'') (\<lambda>erid.
     bind_r (rc_check (rid = erid) ''Shield component request_id mismatch'') (\<lambda>_.
     bind_r (rc_require_hash (dget v ''context_hash'') ''context_hash'') (\<lambda>ch.
     bind_r (rc_require_hash expected_context_hash ''expected_context_hash'') (\<lambda>ech.
     bind_r (rc_check (ch = ech) ''Shield component context_hash mismatch'') (\<lambda>_.
     bind_r (rc_require_str (dget v ''decision'') ''decision'') (\<lambda>decision.
     bind_r (rc_check (decision \<in> set SUPPORTED_COMPONENT_DECISIONS)
       ''unsupported Shield component decision'') (\<lambda>_.
     bind_r (rc_check (decision \<noteq> ''SKIPPED'')
       ''SKIPPED Shield component verdict cannot be accepted as evidence'') (\<lambda>_.
     bind_r (need_list (dget v ''reason_ids'')
       (RcValueError ''Shield component reason_ids must be non-empty list'')) (\<lambda>reasons.
     bind_r (rc_check (reasons \<noteq> []) ''Shield component reason_ids must be non-empty list'') (\<lambda>_.
     bind_r (each_r (\<lambda>r. bind_r (rc_require_str r ''reason_id'') (\<lambda>clean.
       rc_check (clean \<in> set (component_reason_ids component_id))
         ''unknown Shield component reason_id'')) reasons) (\<lambda>_.
     bind_r (rc_require_hash (dget v ''evidence_hash'') ''evidence_hash'') (\<lambda>_.
     bind_r (need_list (dget v ''evidence_families'')
       (RcValueError ''Shield component evidence_families must be non-empty list'')) (\<lambda>families.
     bind_r (rc_check (families \<noteq> []) ''Shield component evidence_families must be non-empty list'') (\<lambda>_.
     bind_r (check_r (hashable_list families) (RcTypeError ''unhashable type'')) (\<lambda>_.
     bind_r (rc_check (py_distinct families) ''duplicated Shield component evidence family'') (\<lambda>_.
     bind_r (each_r (\<lambda>f. bind_r (rc_require_str f ''evidence_family'') (\<lambda>clean.
       rc_check (clean \<in> set (component_evidence_families component_id))
         ''unknown Shield component evidence family'')) families) (\<lambda>_.
     bind_r (need_map (dget v ''metadata'') (RcValueError ''Shield component metadata must be dict'')) (\<lambda>md.
     if forbidden_metadata (PDict md)
       then Inl (RcAuthorityBypass ''Shield component metadata contains forbidden authority field'')
     else Inr v))))))))))))))))))))))))))"

text \<open>\<open>except ShieldReceiptAuthorityBypassError: raise; except ValueError: raise ... from exc\<close>.\<close>

definition rc_component_error :: "receipt_error \<Rightarrow> receipt_error" where
  "rc_component_error e = (case e of RcAuthorityBypass m \<Rightarrow> e | RcTypeError m \<Rightarrow> e
     | _ \<Rightarrow> RcComponentVerdict ''Shield component verdict invalid'')"

fun check_components :: "pyval \<Rightarrow> pyval \<Rightarrow> string set \<Rightarrow> pyval list \<Rightarrow> receipt_error + pydict list" where
  "check_components ch rid seen [] =
    (if seen = set SUPPORTED_COMPONENT_IDS then Inr []
     else Inl (RcComponentVerdict ''Shield receipt missing required v3.2 component verdict''))"
| "check_components ch rid seen (v # vs) =
     bind_r (catch_r (validate_component_verdict v ch rid) (\<lambda>e. Inl (rc_component_error e))) (\<lambda>valid.
     case dget valid ''component_id'' of
       PStr cid \<Rightarrow>
         if cid \<in> seen then Inl (RcComponentVerdict ''duplicated Shield component verdict'')
         else bind_r (check_components ch rid (insert cid seen) vs) (\<lambda>rest. Inr (valid # rest))
     | _ \<Rightarrow> Inl (RcComponentVerdict ''Shield component verdict invalid''))"

definition validate_component_verdicts :: "pydict \<Rightarrow> pyval list \<Rightarrow> receipt_error + pydict list" where
  "validate_component_verdicts receipt verdicts =
     bind_r (check_components (dget receipt ''context_hash'') (dget receipt ''request_id'') {} verdicts) (\<lambda>checked.
     bind_r (check_r (map (\<lambda>v. dget v ''component_id'') checked = map PStr SUPPORTED_COMPONENT_IDS)
       (RcComponentVerdict ''Shield receipt component verdicts must be canonical v3.2 order'')) (\<lambda>_.
     Inr checked))"

text \<open>\<open>_classify_component_verdicts\<close>: outcome, dominant reason, hand-off; decisions unstripped.\<close>

definition classify_component_verdicts :: "pydict list \<Rightarrow> string \<times> string \<times> bool" where
  "classify_component_verdicts verdicts =
    (let decisions = map (\<lambda>v. dget v ''decision'') verdicts in
     if PStr ''DENY'' \<in> set decisions then (''DENY'', ''ORCH_DENY_DOMINATES'', False)
     else if PStr ''ERROR'' \<in> set decisions
       then (''DENY'', ''ORCH_ERROR_INVALID_COMPONENT_VERDICT'', False)
     else if PStr ''ESCALATE'' \<in> set decisions
       then (''HUMAN_REVIEW_REQUIRED'', ''ORCH_HUMAN_REVIEW_ESCALATE_PRESENT'', False)
     else if PStr ''SKIPPED'' \<in> set decisions
       then (''DENY'', ''ORCH_ERROR_MISSING_REQUIRED_VERDICT'', False)
     else (''ALLOW'', ''ORCH_OK_ALL_COMPONENTS_ALLOW'', True))"

section \<open>The receipt\<close>

definition reject_direct_component_verdict :: "pyval \<Rightarrow> receipt_error + pydict" where
  "reject_direct_component_verdict payload =
     bind_r (need_map payload (RcValueError ''Shield payload must be dict'')) (\<lambda>m.
     if dget m ''schema_version'' = PStr ''shield.verdict.v1'' \<or> has_key m ''decision''
       then Inl (RcDirectVerdict (''AdamantineOS rejects direct Shield component verdicts; '' @
         ''Orchestrator receipt required''))
     else Inr m)"

definition canonical_sha256 :: "pydict \<Rightarrow> receipt_error + string" where
  "canonical_sha256 payload = (case json_val False False (PDict payload) of
     Inl (Inl m) \<Rightarrow> Inl (RcValueError m)
   | Inl (Inr m) \<Rightarrow> Inl (RcTypeError m)
   | Inr s \<Rightarrow> Inr (sha256_hex (utf8 s)))"

definition handoff_val :: "bool \<Rightarrow> string \<Rightarrow> pyval" where
  "handoff_val allowed reason =
     PDict [(''handoff_allowed'', PBool allowed), (''handoff_reason'', PStr reason)]"

definition validate_shield_orchestrator_receipt :: "pyval \<Rightarrow> string \<Rightarrow> receipt_error + pydict" where
  "validate_shield_orchestrator_receipt receipt expected_context_hash =
     bind_r (reject_direct_component_verdict receipt) (\<lambda>r.
     bind_r (rc_check (set (dkeys r) = set REQUIRED_RECEIPT_FIELDS)
       ''Shield receipt fields must match required schema'') (\<lambda>_.
     bind_r (rc_check (py_eq (dget r ''schema_version'') (PStr ''shield.receipt.v1''))
       ''unknown Shield receipt schema'') (\<lambda>_.
     bind_r (rc_check (py_eq (dget r ''contract_version'') (PInt 3))
       ''unsupported Shield contract version'') (\<lambda>_.
     bind_r (rc_check (dget r ''fail_closed'' = PBool True) ''Shield receipt must be fail_closed'') (\<lambda>_.
     bind_r (rc_require_hash (dget r ''context_hash'') ''context_hash'') (\<lambda>ch.
     bind_r (rc_require_hash (PStr expected_context_hash) ''expected_context_hash'') (\<lambda>ech.
     if ch \<noteq> ech then Inl (RcContextMismatch ''Shield receipt context mismatch'') else
     bind_r (rc_check (str_in (dget r ''final_outcome'') ALLOWED_FINAL_OUTCOMES)
       ''unsupported Shield final outcome'') (\<lambda>_.
     bind_r (need_list (dget r ''component_verdicts'')
       (RcValueError ''Shield receipt must contain component verdicts'')) (\<lambda>verdicts.
     bind_r (rc_check (verdicts \<noteq> []) ''Shield receipt must contain component verdicts'') (\<lambda>_.
     bind_r (validate_component_verdicts r verdicts) (\<lambda>checked.
     bind_r (need_list (dget r ''dominant_reason_ids'')
       (RcValueError ''Shield receipt must contain dominant reason IDs'')) (\<lambda>dominant.
     bind_r (rc_check (dominant \<noteq> []) ''Shield receipt must contain dominant reason IDs'') (\<lambda>_.
     bind_r (need_map (dget r ''adamantineos_handoff'')
       (RcValueError ''Shield receipt handoff must be canonical'')) (\<lambda>handoff.
     bind_r (rc_check (set (dkeys handoff) = {''handoff_allowed'', ''handoff_reason''})
       ''Shield receipt handoff must be canonical'') (\<lambda>_.
     bind_r (rc_check (is_bool (dget handoff ''handoff_allowed'') \<and>
         (case dget handoff ''handoff_reason'' of PStr s \<Rightarrow> \<not> py_blank s | _ \<Rightarrow> False))
       ''Shield receipt handoff values are invalid'') (\<lambda>_.
     let (outcome, reason, allowed) = classify_component_verdicts checked in
     if dget r ''final_outcome'' \<noteq> PStr outcome then Inl (RcOutcomeMismatch
       ''Shield receipt final_outcome does not match v3.2 component decisions'')
     else if \<not> py_eq (PList dominant) (PList [PStr reason]) then Inl (RcOutcomeMismatch
       ''Shield receipt dominant_reason_ids do not match v3.2 component decisions'')
     else if \<not> py_eq (PDict handoff) (handoff_val allowed reason) then Inl (RcOutcomeMismatch
       ''Shield receipt handoff does not match v3.2 component decisions'') else
     bind_r (rc_require_hash (dget r ''receipt_hash'') ''receipt_hash'') (\<lambda>received.
     bind_r (canonical_sha256 (dset r ''receipt_hash'' (PStr []))) (\<lambda>computed.
     if computed \<noteq> received then Inl (RcHashMismatch ''Shield receipt hash mismatch'')
     else Inr r))))))))))))))))))"

end
