(* ===== verification/Shield_Receipt_Verifier.thy ===== *)
theory Shield_Receipt_Verifier
  imports Shield_Receipt
begin

text \<open>
  The two boundaries in front of the Shield receipt contract:
  \<open>integrations/shield_orchestrator_receipt_verifier.py\<close>, which the runtime uses, and
  \<open>shield_orchestrator_receipt_adapter.py\<close>. Both turn every \<open>ValueError\<close> of the contract
  into a rejected result; a \<open>TypeError\<close> passes through.
\<close>

section \<open>The verifier\<close>

datatype receipt_state =
    VERIFIED_ALLOW_EVIDENCE_CONTINUE_CHECKS
  | VERIFIED_DENY_DOMINATES
  | VERIFIED_HUMAN_REVIEW_REQUIRED
  | REJECTED_INVALID_RECEIPT
  | REJECTED_CONTEXT_MISMATCH
  | REJECTED_REQUEST_MISMATCH
  | REJECTED_TAMPERED_RECEIPT
  | REJECTED_RAW_COMPONENT_BYPASS
  | REJECTED_AUTHORITY_BYPASS
  | REJECTED_REPLAY_RISK

primrec receipt_state_value :: "receipt_state \<Rightarrow> string" where
  "receipt_state_value VERIFIED_ALLOW_EVIDENCE_CONTINUE_CHECKS = ''VERIFIED_ALLOW_EVIDENCE_CONTINUE_CHECKS''"
| "receipt_state_value VERIFIED_DENY_DOMINATES = ''VERIFIED_DENY_DOMINATES''"
| "receipt_state_value VERIFIED_HUMAN_REVIEW_REQUIRED = ''VERIFIED_HUMAN_REVIEW_REQUIRED''"
| "receipt_state_value REJECTED_INVALID_RECEIPT = ''REJECTED_INVALID_RECEIPT''"
| "receipt_state_value REJECTED_CONTEXT_MISMATCH = ''REJECTED_CONTEXT_MISMATCH''"
| "receipt_state_value REJECTED_REQUEST_MISMATCH = ''REJECTED_REQUEST_MISMATCH''"
| "receipt_state_value REJECTED_TAMPERED_RECEIPT = ''REJECTED_TAMPERED_RECEIPT''"
| "receipt_state_value REJECTED_RAW_COMPONENT_BYPASS = ''REJECTED_RAW_COMPONENT_BYPASS''"
| "receipt_state_value REJECTED_AUTHORITY_BYPASS = ''REJECTED_AUTHORITY_BYPASS''"
| "receipt_state_value REJECTED_REPLAY_RISK = ''REJECTED_REPLAY_RISK''"

record receipt_result =
  rv_state :: receipt_state
  rv_reason_id :: reason_id
  rv_verified :: bool
  rv_accepted_as_evidence :: bool
  rv_final_approval :: bool
  rv_final_outcome :: "string option"
  rv_context_hash :: "string option"
  rv_request_id :: "string option"
  rv_receipt_hash :: "string option"
  rv_handoff_allowed :: bool
  rv_dominant_reason_ids :: "string list"
  rv_receipt :: "pydict option"

definition string_or_none :: "pyval \<Rightarrow> string \<Rightarrow> string option" where
  "string_or_none payload key = (case payload of
     PDict m \<Rightarrow> (case dget m key of PStr s \<Rightarrow> Some s | _ \<Rightarrow> None) | _ \<Rightarrow> None)"

definition rv_rejected :: "receipt_state \<Rightarrow> reason_id \<Rightarrow> pyval \<Rightarrow> string option \<Rightarrow> receipt_result" where
  "rv_rejected st reason payload dominant = \<lparr>rv_state = st, rv_reason_id = reason, rv_verified = False,
     rv_accepted_as_evidence = False, rv_final_approval = False, rv_final_outcome = None,
     rv_context_hash = string_or_none payload ''context_hash'',
     rv_request_id = string_or_none payload ''request_id'',
     rv_receipt_hash = string_or_none payload ''receipt_hash'', rv_handoff_allowed = False,
     rv_dominant_reason_ids = [case dominant of Some d \<Rightarrow> d | None \<Rightarrow> receipt_state_value st],
     rv_receipt = None\<rparr>"

text \<open>\<open>p in s\<close>.\<close>

fun contains_sub :: "string \<Rightarrow> string \<Rightarrow> bool" where
  "contains_sub p [] = (p = [])"
| "contains_sub p (c # s) = (take (length p) (c # s) = p \<or> contains_sub p s)"

definition classify_base_error :: "receipt_error \<Rightarrow> receipt_state \<times> reason_id" where
  "classify_base_error e = (case e of
     RcDirectVerdict _ \<Rightarrow> (REJECTED_RAW_COMPONENT_BYPASS, EQC_INVALID_SHIELD_BUNDLE)
   | RcContextMismatch _ \<Rightarrow> (REJECTED_CONTEXT_MISMATCH, EQC_SHIELD_CONTEXT_HASH_MISMATCH)
   | RcHashMismatch _ \<Rightarrow> (REJECTED_TAMPERED_RECEIPT, EQC_INVALID_SHIELD_BUNDLE)
   | RcAuthorityBypass _ \<Rightarrow> (REJECTED_AUTHORITY_BYPASS, EQC_INVALID_SHIELD_BUNDLE)
   | RcOutcomeMismatch _ \<Rightarrow> (REJECTED_AUTHORITY_BYPASS, EQC_CONFLICTING_EVIDENCE)
   | RcComponentVerdict _ \<Rightarrow> (REJECTED_INVALID_RECEIPT, EQC_INVALID_SHIELD_BUNDLE)
   | _ \<Rightarrow> (let message = py_lower (rc_message e) in
       if contains_sub ''direct shield component'' message
         then (REJECTED_RAW_COMPONENT_BYPASS, EQC_INVALID_SHIELD_BUNDLE)
       else if contains_sub ''context mismatch'' message
         then (REJECTED_CONTEXT_MISMATCH, EQC_SHIELD_CONTEXT_HASH_MISMATCH)
       else if contains_sub ''hash mismatch'' message
         then (REJECTED_TAMPERED_RECEIPT, EQC_INVALID_SHIELD_BUNDLE)
       else (REJECTED_INVALID_RECEIPT, EQC_INVALID_SHIELD_BUNDLE)))"

definition rv_dominant_of_error :: "receipt_error \<Rightarrow> string option" where
  "rv_dominant_of_error e = (case e of RcOutcomeMismatch _ \<Rightarrow> Some ''DENY_MUST_DOMINATE''
     | RcComponentVerdict _ \<Rightarrow> Some ''COMPONENT_VERDICTS_INVALID'' | _ \<Rightarrow> None)"

text \<open>\<open>str(v)\<close> of the fields that validation has shown to be strings.\<close>

definition str_of :: "pyval \<Rightarrow> string" where
  "str_of v = (case v of PStr s \<Rightarrow> s | _ \<Rightarrow> [])"

definition strs_of :: "pyval \<Rightarrow> string list" where
  "strs_of v = (case v of PList xs \<Rightarrow> map str_of xs | _ \<Rightarrow> [])"

definition handoff_allowed_of :: "pydict \<Rightarrow> bool" where
  "handoff_allowed_of r = (case dget r ''adamantineos_handoff'' of
     PDict h \<Rightarrow> dget h ''handoff_allowed'' = PBool True | _ \<Rightarrow> False)"

definition verify_shield_orchestrator_receipt :: "pyval \<Rightarrow> string \<Rightarrow> string \<Rightarrow> string list
    \<Rightarrow> pyexc + receipt_result" where
  "verify_shield_orchestrator_receipt receipt expected_context_hash expected_request_id rejected =
    (case validate_shield_orchestrator_receipt receipt expected_context_hash of
       Inl (RcTypeError m) \<Rightarrow> Inl (TypeError m)
     | Inl e \<Rightarrow> (let (st, reason) = classify_base_error e in
         Inr (rv_rejected st reason receipt (rv_dominant_of_error e)))
     | Inr valid \<Rightarrow>
       if py_blank expected_request_id then Inr (rv_rejected REJECTED_INVALID_RECEIPT
         EQC_INVALID_SHIELD_BUNDLE (PDict valid) (Some ''EXPECTED_REQUEST_ID_INVALID''))
       else if dget valid ''request_id'' \<noteq> PStr expected_request_id
         then Inr (rv_rejected REJECTED_REQUEST_MISMATCH EQC_INVALID_SHIELD_BUNDLE (PDict valid) None)
       else if str_of (dget valid ''receipt_hash'') \<in> set rejected
         then Inr (rv_rejected REJECTED_REPLAY_RISK EQC_SHIELD_STALE (PDict valid) None)
       else (let outcome = str_of (dget valid ''final_outcome'');
           (st, reason) = (if outcome = ''DENY'' then (VERIFIED_DENY_DOMINATES, DENY_POLICY)
             else if outcome = ''HUMAN_REVIEW_REQUIRED''
               then (VERIFIED_HUMAN_REVIEW_REQUIRED, DENY_AUTHORITY_INSUFFICIENT)
             else (VERIFIED_ALLOW_EVIDENCE_CONTINUE_CHECKS, EVIDENCE_OK))
         in Inr \<lparr>rv_state = st, rv_reason_id = reason, rv_verified = True,
           rv_accepted_as_evidence = True, rv_final_approval = False, rv_final_outcome = Some outcome,
           rv_context_hash = Some (str_of (dget valid ''context_hash'')),
           rv_request_id = Some (str_of (dget valid ''request_id'')),
           rv_receipt_hash = Some (str_of (dget valid ''receipt_hash'')),
           rv_handoff_allowed = handoff_allowed_of valid,
           rv_dominant_reason_ids = strs_of (dget valid ''dominant_reason_ids''),
           rv_receipt = Some valid\<rparr>))"

section \<open>The adapter\<close>

datatype adapter_state =
    SHIELD_EVIDENCE_ACCEPTED_CONTINUE_CHECKS
  | SHIELD_BLOCK_DENY_DOMINATES
  | SHIELD_REVIEW_REQUIRED
  | SHIELD_REJECTED_INVALID_RECEIPT
  | SHIELD_REJECTED_CONTEXT_MISMATCH
  | SHIELD_REJECTED_RAW_COMPONENT_BYPASS
  | SHIELD_REJECTED_TAMPERED_RECEIPT

primrec adapter_state_value :: "adapter_state \<Rightarrow> string" where
  "adapter_state_value SHIELD_EVIDENCE_ACCEPTED_CONTINUE_CHECKS = ''SHIELD_EVIDENCE_ACCEPTED_CONTINUE_CHECKS''"
| "adapter_state_value SHIELD_BLOCK_DENY_DOMINATES = ''SHIELD_BLOCK_DENY_DOMINATES''"
| "adapter_state_value SHIELD_REVIEW_REQUIRED = ''SHIELD_REVIEW_REQUIRED''"
| "adapter_state_value SHIELD_REJECTED_INVALID_RECEIPT = ''SHIELD_REJECTED_INVALID_RECEIPT''"
| "adapter_state_value SHIELD_REJECTED_CONTEXT_MISMATCH = ''SHIELD_REJECTED_CONTEXT_MISMATCH''"
| "adapter_state_value SHIELD_REJECTED_RAW_COMPONENT_BYPASS = ''SHIELD_REJECTED_RAW_COMPONENT_BYPASS''"
| "adapter_state_value SHIELD_REJECTED_TAMPERED_RECEIPT = ''SHIELD_REJECTED_TAMPERED_RECEIPT''"

record adapter_result =
  ar_state :: adapter_state
  ar_reason_id :: reason_id
  ar_accepted_as_evidence :: bool
  ar_final_approval :: bool
  ar_final_outcome :: "string option"
  ar_dominant_reason_ids :: "string list"
  ar_context_hash :: "string option"
  ar_handoff_allowed :: bool
  ar_receipt :: "pydict option"

definition ar_rejected :: "adapter_state \<Rightarrow> reason_id \<Rightarrow> string \<Rightarrow> string option \<Rightarrow> adapter_result" where
  "ar_rejected st reason message ch = \<lparr>ar_state = st, ar_reason_id = reason,
     ar_accepted_as_evidence = False, ar_final_approval = False, ar_final_outcome = None,
     ar_dominant_reason_ids = [message], ar_context_hash = ch, ar_handoff_allowed = False,
     ar_receipt = None\<rparr>"

definition classify_validation_error :: "receipt_error \<Rightarrow> adapter_state" where
  "classify_validation_error e = (case e of
     RcDirectVerdict _ \<Rightarrow> SHIELD_REJECTED_RAW_COMPONENT_BYPASS
   | RcContextMismatch _ \<Rightarrow> SHIELD_REJECTED_CONTEXT_MISMATCH
   | RcHashMismatch _ \<Rightarrow> SHIELD_REJECTED_TAMPERED_RECEIPT
   | _ \<Rightarrow> (let message = py_lower (rc_message e) in
       if contains_sub ''direct shield component'' message \<or> contains_sub ''component verdict'' message
         then SHIELD_REJECTED_RAW_COMPONENT_BYPASS
       else if contains_sub ''context mismatch'' message then SHIELD_REJECTED_CONTEXT_MISMATCH
       else if contains_sub ''hash mismatch'' message then SHIELD_REJECTED_TAMPERED_RECEIPT
       else SHIELD_REJECTED_INVALID_RECEIPT))"

definition reason_for_rejected_state :: "adapter_state \<Rightarrow> reason_id" where
  "reason_for_rejected_state st = (if st = SHIELD_REJECTED_CONTEXT_MISMATCH
     then EQC_SHIELD_CONTEXT_HASH_MISMATCH else EQC_INVALID_SHIELD_BUNDLE)"

definition adapt_shield_orchestrator_receipt :: "pyval \<Rightarrow> string \<Rightarrow> pyexc + adapter_result" where
  "adapt_shield_orchestrator_receipt receipt expected_context_hash =
    (case reject_direct_component_verdict receipt of
       Inl e \<Rightarrow> (let st = classify_validation_error e in
         Inr (ar_rejected st (reason_for_rejected_state st) (adapter_state_value st) None))
     | Inr _ \<Rightarrow> (case validate_shield_orchestrator_receipt receipt expected_context_hash of
         Inl (RcTypeError m) \<Rightarrow> Inl (TypeError m)
       | Inl e \<Rightarrow> (let st = classify_validation_error e in
           Inr (ar_rejected st (reason_for_rejected_state st) (adapter_state_value st)
             (string_or_none receipt ''context_hash'')))
       | Inr valid \<Rightarrow> (let outcome = str_of (dget valid ''final_outcome'');
           (st, reason) = (if outcome = ''DENY'' then (SHIELD_BLOCK_DENY_DOMINATES, DENY_POLICY)
             else if outcome = ''HUMAN_REVIEW_REQUIRED''
               then (SHIELD_REVIEW_REQUIRED, DENY_AUTHORITY_INSUFFICIENT)
             else (SHIELD_EVIDENCE_ACCEPTED_CONTINUE_CHECKS, EVIDENCE_OK))
           in Inr \<lparr>ar_state = st, ar_reason_id = reason, ar_accepted_as_evidence = True,
             ar_final_approval = False, ar_final_outcome = Some outcome,
             ar_dominant_reason_ids = strs_of (dget valid ''dominant_reason_ids''),
             ar_context_hash = Some (str_of (dget valid ''context_hash'')),
             ar_handoff_allowed = handoff_allowed_of valid, ar_receipt = Some valid\<rparr>)))"

section \<open>What a valid receipt satisfies\<close>

text \<open>
  The outcome is the one its component verdicts give, the hand-off flag agrees, the hash is
  the hash of the rest, and the context is the expected one.
\<close>

definition receipt_valid :: "pydict \<Rightarrow> string \<Rightarrow> bool" where
  "receipt_valid r h \<longleftrightarrow> (\<exists>verdicts checked outcome reason allowed rh.
     dget r ''component_verdicts'' = PList verdicts \<and> validate_component_verdicts r verdicts = Inr checked \<and>
     classify_component_verdicts checked = (outcome, reason, allowed) \<and>
     dget r ''final_outcome'' = PStr outcome \<and> handoff_allowed_of r = allowed \<and>
     dget r ''context_hash'' = PStr h \<and> dget r ''receipt_hash'' = PStr rh \<and>
     canonical_sha256 (dset r ''receipt_hash'' (PStr [])) = Inr rh)"

lemma rc_require_hash_ok [res_simps]:
  "rc_require_hash v f = Inr s \<longleftrightarrow> v = PStr s \<and> length s = 64 \<and> s = py_lower s \<and> int16_ok s"
  by (auto simp: rc_require_hash_def res_simps)

lemma reject_direct_ok [res_simps]:
  "reject_direct_component_verdict v = Inr m \<longleftrightarrow>
     v = PDict m \<and> dget m ''schema_version'' \<noteq> PStr ''shield.verdict.v1'' \<and> \<not> has_key m ''decision''"
  by (auto simp: reject_direct_component_verdict_def res_simps)

lemma case_prod_eq_Inr [res_simps]:
  "(case p of (a, b) \<Rightarrow> f a b) = Inr y \<longleftrightarrow> (\<exists>a b. p = (a, b) \<and> f a b = Inr y)"
  by (cases p) simp

lemma handoff_eq:
  assumes "py_eq (PDict handoff) (handoff_val allowed reason)"
    "is_bool (dget handoff ''handoff_allowed'')"
  shows "dget handoff ''handoff_allowed'' = PBool True \<longleftrightarrow> allowed"
proof -
  obtain b where b: "dget handoff ''handoff_allowed'' = PBool b" using assms(2) by (auto simp: is_iffs)
  then have "(''handoff_allowed'', PBool b) \<in> set handoff"
    by (auto simp: dget_def split: option.splits dest: map_of_SomeD)
  moreover have "py_eq_items m n \<Longrightarrow> (k, v) \<in> set m \<Longrightarrow> \<exists>w. map_of n k = Some w \<and> py_eq v w" for m n k v
    by (induction m) (auto split: option.splits)
  ultimately have "py_eq (PBool b) (PBool allowed)"
    using assms(1) by (fastforce simp: handoff_val_def)
  then show ?thesis using b by (auto simp: num_eq_def num_ratio_def)
qed

lemma validate_receipt_ok:
  assumes "validate_shield_orchestrator_receipt v h = Inr r"
  shows "v = PDict r \<and> receipt_valid r h"
proof -
  obtain verdicts checked outcome reason allowed handoff dominant rh where f:
    "v = PDict r" "dget r ''component_verdicts'' = PList verdicts"
    "validate_component_verdicts r verdicts = Inr checked"
    "classify_component_verdicts checked = (outcome, reason, allowed)"
    "dget r ''final_outcome'' = PStr outcome" "dget r ''adamantineos_handoff'' = PDict handoff"
    "is_bool (dget handoff ''handoff_allowed'')" "py_eq (PDict handoff) (handoff_val allowed reason)"
    "dget r ''context_hash'' = PStr h" "dget r ''receipt_hash'' = PStr rh"
    "canonical_sha256 (dset r ''receipt_hash'' (PStr [])) = Inr rh"
    using assms unfolding validate_shield_orchestrator_receipt_def
    by (auto simp: res_simps Let_def simp del: py_eq.simps)
  have "handoff_allowed_of r = allowed" using handoff_eq[OF f(8,7)] f(6) by (simp add: handoff_allowed_of_def)
  then show ?thesis using f unfolding receipt_valid_def by metis
qed

section \<open>What the verifier accepts\<close>

text \<open>A verified ALLOW: the whole of what the runtime may conclude from it.\<close>

definition allow_evidence :: "pydict \<Rightarrow> string \<Rightarrow> string \<Rightarrow> string list \<Rightarrow> bool" where
  "allow_evidence r h rid rejected \<longleftrightarrow> receipt_valid r h \<and> dget r ''request_id'' = PStr rid \<and>
     \<not> py_blank rid \<and> str_of (dget r ''receipt_hash'') \<notin> set rejected \<and>
     dget r ''final_outcome'' = PStr ''ALLOW'' \<and> handoff_allowed_of r"

lemma classify_outcomes:
  assumes "classify_component_verdicts vs = (outcome, reason, allowed)"
  shows "outcome \<in> set ALLOWED_FINAL_OUTCOMES" "allowed \<longleftrightarrow> outcome = ''ALLOW''"
    "outcome = ''ALLOW'' \<Longrightarrow> v \<in> set vs \<Longrightarrow>
       dget v ''decision'' \<notin> {PStr ''DENY'', PStr ''ERROR'', PStr ''ESCALATE'', PStr ''SKIPPED''}"
  using assms
  by (auto simp: classify_component_verdicts_def Let_def ALLOWED_FINAL_OUTCOMES_def
      split: if_splits dest!: imageI[of v _ "\<lambda>v. dget v ''decision''"])

lemma verify_never_final:
  "verify_shield_orchestrator_receipt v h rid rejected = Inr res \<Longrightarrow> \<not> rv_final_approval res"
  by (auto simp: verify_shield_orchestrator_receipt_def rv_rejected_def Let_def
      split: sum.splits receipt_error.splits prod.splits if_splits)

lemma classify_base_error_not_allow:
  "fst (classify_base_error e) \<noteq> VERIFIED_ALLOW_EVIDENCE_CONTINUE_CHECKS"
  by (auto simp: classify_base_error_def Let_def split: receipt_error.splits)

lemma rv_rejected_simps [simp]:
  "rv_state (rv_rejected st r p d) = st" "rv_reason_id (rv_rejected st r p d) = r"
  "rv_verified (rv_rejected st r p d) = False" "rv_handoff_allowed (rv_rejected st r p d) = False"
  "rv_final_approval (rv_rejected st r p d) = False"
  by (simp_all add: rv_rejected_def)

lemma verify_allow:
  assumes "verify_shield_orchestrator_receipt v h rid rejected = Inr res"
    and "rv_state res = VERIFIED_ALLOW_EVIDENCE_CONTINUE_CHECKS"
  shows "\<exists>r. v = PDict r \<and> allow_evidence r h rid rejected \<and> rv_receipt res = Some r \<and>
    rv_verified res \<and> rv_handoff_allowed res \<and> rv_context_hash res = Some h \<and>
    rv_reason_id res = EVIDENCE_OK \<and> \<not> rv_final_approval res"
proof (cases "validate_shield_orchestrator_receipt v h")
  case (Inl e)
  then show ?thesis
    using assms classify_base_error_not_allow[of e]
    by (cases e) (auto simp: verify_shield_orchestrator_receipt_def split: prod.splits)
next
  case (Inr r)
  note valid = validate_receipt_ok[OF Inr]
  then obtain vs outcome reason allowed where c:
    "classify_component_verdicts vs = (outcome, reason, allowed)" "dget r ''final_outcome'' = PStr outcome"
    "handoff_allowed_of r = allowed" "dget r ''context_hash'' = PStr h"
    by (auto simp: receipt_valid_def)
  have "outcome = ''ALLOW''"
    using assms Inr c(2) classify_outcomes(1)[OF c(1)]
    by (auto simp: verify_shield_orchestrator_receipt_def str_of_def ALLOWED_FINAL_OUTCOMES_def
        split: if_splits)
  then show ?thesis
    using assms Inr valid c classify_outcomes(2)[OF c(1)]
    by (auto simp: verify_shield_orchestrator_receipt_def allow_evidence_def str_of_def split: if_splits)
qed

lemma hex_chars:
  assumes "is_hex_lower c"
  shows "py_lower_char c = c" "is_hex_digit c" "(of_char c :: nat) < 128" "\<not> int_space s c"
    "c \<noteq> CHR ''+''" "c \<noteq> CHR ''-''" "c \<noteq> CHR ''x''" "c \<noteq> CHR ''X''" "c \<noteq> CHR ''_''"
  using assms by (auto simp: is_hex_lower_def py_lower_char_def is_hex_digit_def int_space_def py_isspace_def)

lemma hex_digits_ok_hex:
  "list_all is_hex_lower s \<Longrightarrow> s \<noteq> [] \<Longrightarrow> hex_digits_ok s"
  by (induction s rule: hex_digits_ok.induct) (auto simp: hex_chars)

text \<open>Every SHA-256 digest passes \<open>_require_hash\<close>.\<close>

lemma sha256_hex_required:
  assumes "is_sha256_hex s"
  shows "rc_require_hash (PStr s) f = Inr s"
proof -
  have h: "\<And>c. c \<in> set s \<Longrightarrow> is_hex_lower c" "length s = 64"
    using assms by (auto simp: is_sha256_hex_def list_all_iff)
  have l: "py_lower s = s" using h(1) hex_chars(1) by (simp add: py_lower_def map_idI)
  have d: "dropWhile (int_space s) t = t" if "set t \<subseteq> set s" for t
    using that h(1) hex_chars(4) by (cases t) auto
  have ne: "s \<noteq> []" using h(2) by auto
  then obtain a t where s: "s = a # t" by (cases s) auto
  have "take 2 s \<noteq> ''0x''" "take 2 s \<noteq> ''0X''"
    using h(1) hex_chars(7,8) s by (cases t; fastforce)+
  moreover have "hd s \<noteq> CHR ''+''" "hd s \<noteq> CHR ''-''" using h(1) hex_chars(5,6) ne by auto
  moreover have "rev (dropWhile (int_space s) (rev (dropWhile (int_space s) s))) = s"
    using d[of s] d[of "rev s"] by simp
  moreover have "hex_digits_ok s" using h(1) ne hex_digits_ok_hex by (simp add: list_all_iff)
  ultimately have "int16_ok s" unfolding int16_ok_def Let_def by simp
  then show ?thesis using h(2) l by (simp add: rc_require_hash_ok)
qed

section \<open>A concrete receipt\<close>

definition demo_component :: "string \<Rightarrow> string \<Rightarrow> string \<Rightarrow> string \<Rightarrow> string \<Rightarrow> string \<Rightarrow> pyval" where
  "demo_component h rid cid reason family decision = PDict
    [(''component_id'', PStr cid), (''contract_version'', PInt 3),
     (''schema_version'', PStr ''shield.verdict.v1''), (''request_id'', PStr rid),
     (''context_hash'', PStr h), (''decision'', PStr decision),
     (''reason_ids'', PList [PStr reason]), (''evidence_hash'', PStr (replicate 64 CHR ''1'')),
     (''evidence_families'', PList [PStr family]), (''metadata'', PDict []), (''fail_closed'', PBool True)]"

definition demo_verdicts :: "string \<Rightarrow> string \<Rightarrow> string \<Rightarrow> pyval list" where
  "demo_verdicts h rid d = [demo_component h rid ''adn'' ''ADN_DENY_DEFENSE_TRIGGERED'' ''defense_signal'' d,
     demo_component h rid ''dqsn'' ''DQSN_OK_NETWORK_ALLOW'' ''node_state'' ''ALLOW'',
     demo_component h rid ''guardian_wallet'' ''GW_OK_HEALTHY_ALLOW'' ''device_signal'' ''ALLOW'',
     demo_component h rid ''qwg'' ''QWG_OK_POSTURE_ALLOW'' ''wallet_posture'' ''ALLOW'',
     demo_component h rid ''sentinel_ai'' ''SNTL_OK_TELEMETRY_ALLOW'' ''telemetry'' ''ALLOW'']"

definition demo_receipt :: "string \<Rightarrow> string \<Rightarrow> string \<Rightarrow> string \<Rightarrow> pydict" where
  "demo_receipt h rid d rh =
    [(''schema_version'', PStr ''shield.receipt.v1''), (''contract_version'', PInt 3),
     (''request_id'', PStr rid), (''context_hash'', PStr h),
     (''component_verdicts'', PList (demo_verdicts h rid d)), (''final_outcome'', PStr ''ALLOW''),
     (''dominant_reason_ids'', PList [PStr ''ORCH_OK_ALL_COMPONENTS_ALLOW'']),
     (''receipt_hash'', PStr rh),
     (''adamantineos_handoff'', handoff_val True ''ORCH_OK_ALL_COMPONENTS_ALLOW''),
     (''fail_closed'', PBool True)]"


lemma rc_require_str_ok [res_simps]:
  "rc_require_str v f = Inr s \<longleftrightarrow> (\<exists>t. v = PStr t \<and> \<not> py_blank t \<and> s = py_strip t)"
  by (auto simp: rc_require_str_def res_simps)

lemma zeros_hex: "is_sha256_hex (replicate 64 CHR ''0'')" "is_sha256_hex (replicate 64 CHR ''1'')"
  by (simp_all add: is_sha256_hex_def is_hex_lower_def list_all_length)

definition plain_str :: "string \<Rightarrow> bool" where
  "plain_str s \<longleftrightarrow> s \<noteq> [] \<and> list_all (\<lambda>c. \<not> py_isspace c) s"

lemma plain_str_strip: "plain_str s \<Longrightarrow> py_strip s = s \<and> \<not> py_blank s"
  using py_strip_id[of s] py_strip_eq_Nil[of s] by (auto simp: plain_str_def)

text \<open>What a demonstration receipt is bound to.\<close>

definition demo_bound :: "string \<Rightarrow> string \<Rightarrow> bool" where
  "demo_bound h rid \<longleftrightarrow> is_sha256_hex h \<and> plain_str rid"

lemma demo_bound_zeros: "demo_bound (replicate 64 CHR ''0'') ''req''"
  by (simp add: demo_bound_def zeros_hex plain_str_def py_isspace_def)

lemma demo_component_ok:
  assumes "demo_bound h rid" "cid \<in> set SUPPORTED_COMPONENT_IDS" "reason \<in> set (component_reason_ids cid)"
    "family \<in> set (component_evidence_families cid)" "plain_str cid" "plain_str reason" "plain_str family"
    "py_strip d \<in> {''ALLOW'', ''DENY''}"
  shows "\<exists>m. demo_component h rid cid reason family d = PDict m \<and> dget m ''component_id'' = PStr cid \<and>
    dget m ''decision'' = PStr d \<and>
    validate_component_verdict (demo_component h rid cid reason family d) (PStr h)
      (PStr rid) = Inr m"
proof -
  obtain m where m: "demo_component h rid cid reason family d = PDict m" by (simp add: demo_component_def)
  then have meq: "m = (case demo_component h rid cid reason family d of PDict m \<Rightarrow> m | _ \<Rightarrow> [])" by simp
  have h: "rc_require_hash (PStr h) f = Inr h"
    "rc_require_hash (PStr (replicate 64 CHR ''1'')) f = Inr (replicate 64 CHR ''1'')" for f
    using sha256_hex_required zeros_hex assms(1) by (auto simp: demo_bound_def)
  have keys: "set (dkeys m) = set REQUIRED_VERDICT_FIELDS"
    by (auto simp: meq demo_component_def dkeys_def REQUIRED_VERDICT_FIELDS_def)
  have get: "dget m ''component_id'' = PStr cid" "dget m ''contract_version'' = PInt 3"
    "dget m ''schema_version'' = PStr ''shield.verdict.v1''" "dget m ''request_id'' = PStr rid"
    "dget m ''context_hash'' = PStr h" "dget m ''decision'' = PStr d"
    "dget m ''reason_ids'' = PList [PStr reason]" "dget m ''evidence_hash'' = PStr (replicate 64 CHR ''1'')"
    "dget m ''evidence_families'' = PList [PStr family]" "dget m ''metadata'' = PDict []"
    "dget m ''fail_closed'' = PBool True"
    by (simp_all add: meq demo_component_def)
  have req: "plain_str rid" using assms(1) by (simp add: demo_bound_def)
  have d: "\<not> py_blank d"
  proof
    assume "py_blank d"
    then have e: "py_strip d = []" by simp
    show False using assms(8) unfolding e by simp
  qed
  have str: "rc_require_str (PStr cid) f = Inr cid" "rc_require_str (PStr reason) f = Inr reason"
    "rc_require_str (PStr family) f = Inr family" "rc_require_str (PStr rid) f = Inr rid"
    "rc_require_str (PStr d) f = Inr (py_strip d)" for f
    using plain_str_strip[OF assms(5)] plain_str_strip[OF assms(6)] plain_str_strip[OF assms(7)]
      plain_str_strip[OF req] d by (simp_all add: rc_require_str_ok)
  have "py_strip d \<in> set SUPPORTED_COMPONENT_DECISIONS" "py_strip d \<noteq> ''SKIPPED''"
    using assms(8) by (auto simp: SUPPORTED_COMPONENT_DECISIONS_def)
  then have "validate_component_verdict (PDict m) (PStr h) (PStr rid) = Inr m"
    using assms(2-4) by (simp add: validate_component_verdict_def keys get str h rc_check_def py_in_def
        num_eq_def num_ratio_def)
  then show ?thesis using m get by auto
qed

lemma demo_checked:
  assumes "demo_bound h rid" "py_strip d \<in> {''ALLOW'', ''DENY''}" "dget r ''context_hash'' = PStr h"
    "dget r ''request_id'' = PStr rid"
  shows "\<exists>vs. validate_component_verdicts r (demo_verdicts h rid d) = Inr vs \<and>
    map (\<lambda>v. dget v ''decision'') vs = map PStr [d, ''ALLOW'', ''ALLOW'', ''ALLOW'', ''ALLOW'']"
proof -
  have allow: "py_strip ''ALLOW'' \<in> {''ALLOW'', ''DENY''}"
    using plain_str_strip[of "''ALLOW''"] by (simp add: plain_str_def py_isspace_def)
  have ex: "\<exists>m. demo_component h rid cid reason family x = PDict m \<and> dget m ''component_id'' = PStr cid \<and>
      dget m ''decision'' = PStr x \<and>
      validate_component_verdict (demo_component h rid cid reason family x) (PStr h)
        (PStr rid) = Inr m"
    if "(cid, reason, family) \<in> {(''adn'', ''ADN_DENY_DEFENSE_TRIGGERED'', ''defense_signal''),
       (''dqsn'', ''DQSN_OK_NETWORK_ALLOW'', ''node_state''),
       (''guardian_wallet'', ''GW_OK_HEALTHY_ALLOW'', ''device_signal''),
       (''qwg'', ''QWG_OK_POSTURE_ALLOW'', ''wallet_posture''),
       (''sentinel_ai'', ''SNTL_OK_TELEMETRY_ALLOW'', ''telemetry'')}" "py_strip x \<in> {''ALLOW'', ''DENY''}"
    for cid reason family x
    using that by (intro demo_component_ok[OF assms(1)])
      (auto simp: SUPPORTED_COMPONENT_IDS_def component_reason_ids_def component_evidence_families_def
        plain_str_def py_isspace_def)
  obtain m1 m2 m3 m4 m5 where m:
    "demo_component h rid ''adn'' ''ADN_DENY_DEFENSE_TRIGGERED'' ''defense_signal'' d = PDict m1"
    "validate_component_verdict (PDict m1) (PStr h) (PStr rid) = Inr m1"
    "dget m1 ''component_id'' = PStr ''adn''" "dget m1 ''decision'' = PStr d"
    "demo_component h rid ''dqsn'' ''DQSN_OK_NETWORK_ALLOW'' ''node_state'' ''ALLOW'' = PDict m2"
    "validate_component_verdict (PDict m2) (PStr h) (PStr rid) = Inr m2"
    "dget m2 ''component_id'' = PStr ''dqsn''" "dget m2 ''decision'' = PStr ''ALLOW''"
    "demo_component h rid ''guardian_wallet'' ''GW_OK_HEALTHY_ALLOW'' ''device_signal'' ''ALLOW'' = PDict m3"
    "validate_component_verdict (PDict m3) (PStr h) (PStr rid) = Inr m3"
    "dget m3 ''component_id'' = PStr ''guardian_wallet''" "dget m3 ''decision'' = PStr ''ALLOW''"
    "demo_component h rid ''qwg'' ''QWG_OK_POSTURE_ALLOW'' ''wallet_posture'' ''ALLOW'' = PDict m4"
    "validate_component_verdict (PDict m4) (PStr h) (PStr rid) = Inr m4"
    "dget m4 ''component_id'' = PStr ''qwg''" "dget m4 ''decision'' = PStr ''ALLOW''"
    "demo_component h rid ''sentinel_ai'' ''SNTL_OK_TELEMETRY_ALLOW'' ''telemetry'' ''ALLOW'' = PDict m5"
    "validate_component_verdict (PDict m5) (PStr h) (PStr rid) = Inr m5"
    "dget m5 ''component_id'' = PStr ''sentinel_ai''" "dget m5 ''decision'' = PStr ''ALLOW''"
    using ex[of "''adn''" _ _ d] ex[of "''dqsn''" _ _ "''ALLOW''"] ex[of "''guardian_wallet''" _ _ "''ALLOW''"]
      ex[of "''qwg''" _ _ "''ALLOW''"] ex[of "''sentinel_ai''" _ _ "''ALLOW''"] assms(2) allow by fastforce
  have "validate_component_verdicts r (demo_verdicts h rid d) = Inr [m1, m2, m3, m4, m5]"
    using assms(3,4) m
    by (simp add: validate_component_verdicts_def demo_verdicts_def SUPPORTED_COMPONENT_IDS_def insert_commute)
  then show ?thesis using m by simp
qed

definition demo_hash :: "string \<Rightarrow> string \<Rightarrow> string \<Rightarrow> string" where
  "demo_hash h rid d = (case canonical_sha256 (demo_receipt h rid d []) of Inr h \<Rightarrow> h | Inl e \<Rightarrow> [])"

lemma demo_hash_ok:
  "canonical_sha256 (dset (demo_receipt h rid d rh) ''receipt_hash'' (PStr [])) = Inr (demo_hash h rid d)"
  "is_sha256_hex (demo_hash h rid d)"
proof -
  have eq: "dset (demo_receipt h rid d rh) ''receipt_hash'' (PStr []) = demo_receipt h rid d []"
    by (simp add: demo_receipt_def)
  have "\<exists>s. json_val False False (PDict (demo_receipt h rid d [])) = Inr s"
    by (simp add: demo_receipt_def demo_verdicts_def demo_component_def handoff_val_def)
  then obtain s where "json_val False False (PDict (demo_receipt h rid d [])) = Inr s" by blast
  then have "canonical_sha256 (demo_receipt h rid d []) = Inr (sha256_hex (utf8 s))"
    by (simp add: canonical_sha256_def)
  then show "canonical_sha256 (dset (demo_receipt h rid d rh) ''receipt_hash'' (PStr [])) = Inr (demo_hash h rid d)"
    "is_sha256_hex (demo_hash h rid d)" using eq by (simp_all add: demo_hash_def)
qed

lemma demo_receipt_valid:
  assumes "demo_bound h rid" "py_strip d \<in> {''ALLOW'', ''DENY''}" "d \<noteq> ''DENY''"
  shows "validate_shield_orchestrator_receipt (PDict (demo_receipt h rid d (demo_hash h rid d))) h
    = Inr (demo_receipt h rid d (demo_hash h rid d))"
proof -
  define r where "r = demo_receipt h rid d (demo_hash h rid d)"
  have get: "dget r ''schema_version'' = PStr ''shield.receipt.v1''" "dget r ''contract_version'' = PInt 3"
    "dget r ''request_id'' = PStr rid" "dget r ''context_hash'' = PStr h"
    "dget r ''component_verdicts'' = PList (demo_verdicts h rid d)" "dget r ''final_outcome'' = PStr ''ALLOW''"
    "dget r ''dominant_reason_ids'' = PList [PStr ''ORCH_OK_ALL_COMPONENTS_ALLOW'']"
    "dget r ''receipt_hash'' = PStr (demo_hash h rid d)"
    "dget r ''adamantineos_handoff'' = handoff_val True ''ORCH_OK_ALL_COMPONENTS_ALLOW''"
    "dget r ''fail_closed'' = PBool True" "\<not> has_key r ''decision''"
    by (simp_all add: r_def demo_receipt_def has_key_def dkeys_def)
  have keys: "set (dkeys r) = set REQUIRED_RECEIPT_FIELDS"
    by (auto simp: r_def demo_receipt_def dkeys_def REQUIRED_RECEIPT_FIELDS_def)
  obtain vs where vs: "validate_component_verdicts r (demo_verdicts h rid d) = Inr vs"
    "map (\<lambda>v. dget v ''decision'') vs = map PStr [d, ''ALLOW'', ''ALLOW'', ''ALLOW'', ''ALLOW'']"
    using demo_checked[OF assms(1,2) get(4,3)] by blast
  have "d \<notin> {''ERROR'', ''ESCALATE'', ''SKIPPED''}"
    using assms(2) plain_str_strip[of d] by (auto simp: plain_str_def py_isspace_def)
  then have cls: "classify_component_verdicts vs = (''ALLOW'', ''ORCH_OK_ALL_COMPONENTS_ALLOW'', True)"
    using assms(3) by (auto simp: classify_component_verdicts_def Let_def vs(2))
  have h: "rc_require_hash (PStr h) f = Inr h"
    "rc_require_hash (PStr (demo_hash h rid d)) f = Inr (demo_hash h rid d)" for f
    using sha256_hex_required assms(1) demo_hash_ok(2) by (auto simp: demo_bound_def)
  have keys': "fst ` set r = set REQUIRED_RECEIPT_FIELDS" using keys by (simp add: dkeys_def)
  have "demo_verdicts h rid d \<noteq> []" "plain_str ''ORCH_OK_ALL_COMPONENTS_ALLOW''"
    by (simp_all add: demo_verdicts_def plain_str_def py_isspace_def)
  then have "validate_shield_orchestrator_receipt (PDict r) h = Inr r"
    using plain_str_strip[of "''ORCH_OK_ALL_COMPONENTS_ALLOW''"] demo_hash_ok(1)[of h rid d "demo_hash h rid d"]
    by (simp add: validate_shield_orchestrator_receipt_def reject_direct_component_verdict_def get keys vs(1)
        cls h keys' num_eq_def num_ratio_def rc_check_def handoff_val_def dkeys_def str_in_def ALLOWED_FINAL_OUTCOMES_def insert_commute
        flip: r_def)
  then show ?thesis by (simp add: r_def)
qed

lemma demo_verified:
  assumes "demo_bound h rid" "py_strip d \<in> {''ALLOW'', ''DENY''}" "d \<noteq> ''DENY''"
  shows "\<exists>res. verify_shield_orchestrator_receipt (PDict (demo_receipt h rid d (demo_hash h rid d)))
    h rid [] = Inr res \<and> rv_state res = VERIFIED_ALLOW_EVIDENCE_CONTINUE_CHECKS \<and>
    rv_verified res \<and> rv_accepted_as_evidence res \<and> \<not> rv_final_approval res \<and> rv_handoff_allowed res \<and>
    rv_receipt res = Some (demo_receipt h rid d (demo_hash h rid d)) \<and> rv_context_hash res = Some h \<and>
    rv_receipt_hash res = Some (demo_hash h rid d)"
proof -
  have req: "\<not> py_blank rid" using assms(1) plain_str_strip[of rid] by (simp add: demo_bound_def)
  have get: "dget (demo_receipt h rid d rh) ''request_id'' = PStr rid"
    "dget (demo_receipt h rid d rh) ''final_outcome'' = PStr ''ALLOW''"
    "dget (demo_receipt h rid d rh) ''context_hash'' = PStr h"
    "dget (demo_receipt h rid d rh) ''receipt_hash'' = PStr rh"
    "handoff_allowed_of (demo_receipt h rid d rh)" for rh
    by (simp_all add: demo_receipt_def handoff_allowed_of_def handoff_val_def)
  show ?thesis
    using demo_receipt_valid[OF assms] req get
    by (simp add: verify_shield_orchestrator_receipt_def str_of_def)
qed

text \<open>
  C4: A receipt the verifier reports as VERIFIED_ALLOW_EVIDENCE is evidence in full: it is a
  mapping bound to the expected context and request, its hash is the SHA-256 of the canonical
  JSON of the rest and is not among the consumed ones, its outcome and hand-off are ALLOW, it
  carries one verdict of each of the five Shield components in their canonical order, none of
  which, as received, is exactly the text DENY, ERROR, ESCALATE or SKIPPED, and even then it is
  never a final approval. Only the exact texts are excluded: a decision padded with white space
  is validated and yet classified as harmless, which is C13.
\<close>

theorem verified_allow_is_full_evidence:
  assumes "verify_shield_orchestrator_receipt v h rid rejected = Inr res"
    and "rv_state res = VERIFIED_ALLOW_EVIDENCE_CONTINUE_CHECKS"
  shows "\<exists>r vs checked. v = PDict r \<and> rv_receipt res = Some r \<and> \<not> rv_final_approval res \<and>
    rv_reason_id res = EVIDENCE_OK \<and> allow_evidence r h rid rejected \<and>
    map (\<lambda>c. dget c ''component_id'') checked = map PStr SUPPORTED_COMPONENT_IDS \<and>
    (\<forall>c\<in>set checked. dget c ''decision'' \<notin> {PStr ''DENY'', PStr ''ERROR'', PStr ''ESCALATE'', PStr ''SKIPPED''}) \<and>
    dget r ''component_verdicts'' = PList vs \<and> validate_component_verdicts r vs = Inr checked"
proof -
  obtain r where r: "v = PDict r" "allow_evidence r h rid rejected" "rv_receipt res = Some r"
    "rv_reason_id res = EVIDENCE_OK" "\<not> rv_final_approval res"
    using verify_allow[OF assms] by blast
  then obtain vs checked outcome reason allowed where c: "dget r ''component_verdicts'' = PList vs"
    "validate_component_verdicts r vs = Inr checked"
    "classify_component_verdicts checked = (outcome, reason, allowed)" "outcome = ''ALLOW''"
    by (auto simp: allow_evidence_def receipt_valid_def)
  have "map (\<lambda>c. dget c ''component_id'') checked = map PStr SUPPORTED_COMPONENT_IDS"
    using c(2) by (auto simp: validate_component_verdicts_def res_simps)
  then show ?thesis using r c(1,2) classify_outcomes(3)[OF c(3,4)] by blast
qed

theorem verified_allow_is_full_evidence_witness:
  "\<exists>r. allow_evidence r (replicate 64 CHR ''0'') ''req'' []"
proof -
  have d: "py_strip ''ALLOW'' \<in> {''ALLOW'', ''DENY''}"
    using plain_str_strip[of "''ALLOW''"] by (simp add: plain_str_def py_isspace_def)
  show ?thesis
    using demo_verified[OF demo_bound_zeros d] verified_allow_is_full_evidence by fastforce
qed

text \<open>
  C13: A component decision is checked after \<open>strip\<close> but compared as received, so a receipt whose
  ADN verdict is "DENY " with one trailing space is verified as ALLOW evidence with the hand-off
  allowed: DENY does not dominate.
\<close>

theorem padded_deny_is_verified_as_allow:
  "\<exists>r res vs v. verify_shield_orchestrator_receipt (PDict r) (replicate 64 CHR ''0'') ''req'' [] = Inr res \<and>
    rv_state res = VERIFIED_ALLOW_EVIDENCE_CONTINUE_CHECKS \<and> rv_handoff_allowed res \<and>
    dget r ''component_verdicts'' = PList vs \<and> PDict v \<in> set vs \<and>
    rc_require_str (dget v ''decision'') ''decision'' = Inr ''DENY''"
proof -
  have strip: "py_strip ''DENY '' = ''DENY''" "\<not> py_blank ''DENY ''"
    by (simp_all add: py_strip_def py_blank_def py_isspace_def)
  have "dget (demo_receipt (replicate 64 CHR ''0'') ''req'' ''DENY '' rh) ''component_verdicts'' = PList (demo_verdicts (replicate 64 CHR ''0'') ''req'' ''DENY '')" for rh
    by (simp add: demo_receipt_def)
  moreover obtain v where "PDict v \<in> set (demo_verdicts (replicate 64 CHR ''0'') ''req'' ''DENY '')" "dget v ''decision'' = PStr ''DENY ''"
    by (force simp: demo_verdicts_def demo_component_def)
  ultimately show ?thesis
    using demo_verified[OF demo_bound_zeros, of "''DENY ''"] strip by (fastforce simp: rc_require_str_ok)
qed

end
