(* ===== verification/Shield_V3_Adapter.thy ===== *)
theory Shield_V3_Adapter
  imports Qid_Adapter "HOL-Library.Product_Lexorder"
begin

text \<open>
  \<open>src/adamantine/v1/integrations/shield_v3_adapter.py\<close>: the boundary that turns an
  untrusted Shield v3 bundle into internal signals. Every size is capped, the signals must be
  sorted and carry one signal per layer, every external reason must be allowed for its layer
  and mapped to an internal one. The strict mode (\<open>require_versions\<close>) adds version fields and
  the canonical layer order.
\<close>

section \<open>Constants\<close>

fun layer_source :: "string \<Rightarrow> shield_source option" where
  "layer_source l =
    (if l = ''sentinel_ai'' then Some SENTINEL else if l = ''adn'' then Some ADN
     else if l = ''dqsn'' then Some DQSN else if l = ''qwg'' then Some QWG
     else if l = ''guardian_wallet'' then Some GUARDIAN else None)"

declare layer_source.simps [simp del]

definition CANONICAL_LAYER_ORDER :: "string list" where
  "CANONICAL_LAYER_ORDER = [''sentinel_ai'', ''adn'', ''dqsn'', ''qwg'', ''guardian_wallet'']"

definition SIGNAL_ALLOWED_KEYS :: "string list" where
  "SIGNAL_ALLOWED_KEYS = [''v'', ''layer'', ''signal_id'', ''context_hash'', ''issued_at'',
     ''expires_at'', ''verdict'', ''reason_id'', ''confidence'', ''facts'', ''meta'', ''layer_version'']"

definition BUNDLE_ALLOWED_KEYS :: "string list" where
  "BUNDLE_ALLOWED_KEYS = [''v'', ''bundle_id'', ''context_hash'', ''issued_at'', ''expires_at'',
     ''signals'', ''required_layers'', ''meta'', ''shield_bundle_version'']"

definition MAX_REQUIRED_LAYERS :: nat where "MAX_REQUIRED_LAYERS = 8"
definition MAX_SIGNALS :: nat where "MAX_SIGNALS = 32"
definition MAX_FACTS_ENTRIES :: nat where "MAX_FACTS_ENTRIES = 32"
definition MAX_META_ENTRIES :: nat where "MAX_META_ENTRIES = 32"
definition MAX_LIST_LEN :: nat where "MAX_LIST_LEN = 32"
definition MAX_STR :: nat where "MAX_STR = 256"
definition MAX_LAYER_STR :: nat where "MAX_LAYER_STR = 64"
definition MAX_ID_STR :: nat where "MAX_ID_STR = 128"
definition MAX_VERSION_STR :: nat where "MAX_VERSION_STR = 64"

section \<open>Semantic versions\<close>

text \<open>\<open>s.split(c)\<close> at a single character: the text between the separators.\<close>

fun split_char :: "char \<Rightarrow> string \<Rightarrow> string list" where
  "split_char c [] = [[]]"
| "split_char c (x # xs) =
    (if x = c then [] # split_char c xs
     else case split_char c xs of p # ps \<Rightarrow> (x # p) # ps | [] \<Rightarrow> [[x]])"

text \<open>\<open>\d\<close> on Latin-1, and the group \<open>(0|[1-9]\d*)\<close>.\<close>

definition is_digit :: "char \<Rightarrow> bool" where
  "is_digit c \<longleftrightarrow> c \<in> set ''0123456789''"

definition semver_part :: "string \<Rightarrow> bool" where
  "semver_part p \<longleftrightarrow> p = ''0'' \<or> p \<noteq> [] \<and> hd p \<noteq> CHR ''0'' \<and> list_all is_digit p"

text \<open>
  The match of the anchored expression \<open>(0|[1-9]\d*)[.](0|[1-9]\d*)[.](0|[1-9]\d*)\<close> on the
  stripped string: no group contains a dot, so the match is the split at the dots.
\<close>

definition is_semver :: "string \<Rightarrow> bool" where
  "is_semver s \<longleftrightarrow> (let ps = split_char CHR ''.'' (py_strip s) in
     length ps = 3 \<and> list_all semver_part ps)"

section \<open>Field helpers\<close>

definition v3_err :: "string \<Rightarrow> pyexc" where
  "v3_err msg = AdapterError DENY_ADAPTER_INVALID msg"

definition deny_unknown_keys :: "pydict \<Rightarrow> string list \<Rightarrow> string \<Rightarrow> pyexc + unit" where
  "deny_unknown_keys m allowed name = check_r (unknown_keys m allowed = [])
     (v3_err (name @ '' contains unknown fields: '' @ repr_str_list (unknown_keys m allowed)))"

definition v3_require_str :: "pydict \<Rightarrow> string \<Rightarrow> string \<Rightarrow> pyexc + string" where
  "v3_require_str m key name =
     bind_r (need_str (dget m key) (v3_err (name @ ''.'' @ key @ '' must be non-empty str''))) (\<lambda>v.
     if py_blank v then Inl (v3_err (name @ ''.'' @ key @ '' must be non-empty str'')) else Inr v)"

definition v3_require_str_max :: "pydict \<Rightarrow> string \<Rightarrow> string \<Rightarrow> nat \<Rightarrow> pyexc + string" where
  "v3_require_str_max m key name max_len =
     bind_r (v3_require_str m key name) (\<lambda>v.
     if max_len < length v then Inl (v3_err (name @ ''.'' @ key @ '' too long'')) else Inr v)"

definition v3_require_int :: "pydict \<Rightarrow> string \<Rightarrow> string \<Rightarrow> pyexc + int" where
  "v3_require_int m key name = need_int (dget m key) (v3_err (name @ ''.'' @ key @ '' must be int''))"

definition check_fact_item :: "pyval \<Rightarrow> pyexc + unit" where
  "check_fact_item v = (case v of
     PStr s \<Rightarrow> check_r (length s \<le> MAX_STR) (v3_err ''signal.facts list string value too long'')
   | PInt _ \<Rightarrow> Inr ()
   | PBool _ \<Rightarrow> Inr ()
   | _ \<Rightarrow> Inl (v3_err ''signal.facts list values must be str/int/bool''))"

definition check_fact_list :: "pyval list \<Rightarrow> pyexc + unit" where
  "check_fact_list xs =
     bind_r (check_r (length xs \<le> MAX_LIST_LEN) (v3_err ''signal.facts list too long'')) (\<lambda>_.
     each_r check_fact_item xs)"

definition check_fact :: "string \<times> pyval \<Rightarrow> pyexc + unit" where
  "check_fact e = (case e of (k, v) \<Rightarrow>
     if py_blank k then Inl (v3_err ''signal.facts keys must be non-empty str'')
     else if MAX_STR < length k then Inl (v3_err ''signal.facts key too long'')
     else (case v of
       PStr s \<Rightarrow> check_r (length s \<le> MAX_STR) (v3_err ''signal.facts string value too long'')
     | PInt _ \<Rightarrow> Inr ()
     | PBool _ \<Rightarrow> Inr ()
     | PList xs \<Rightarrow> check_fact_list xs
     | PTuple xs \<Rightarrow> check_fact_list xs
     | _ \<Rightarrow> Inl (v3_err ''signal.facts values must be str/int/bool or list[str|int|bool]'')))"

definition validate_facts :: "pyval \<Rightarrow> pyexc + unit" where
  "validate_facts facts =
     bind_r (need_map facts (v3_err ''signal.facts must be object'')) (\<lambda>m.
     if MAX_FACTS_ENTRIES < length m then Inl (v3_err ''signal.facts too many entries'')
     else each_r check_fact m)"

definition check_meta_entry :: "string \<Rightarrow> string \<times> pyval \<Rightarrow> pyexc + unit" where
  "check_meta_entry name e = (case e of (k, v) \<Rightarrow>
     if py_blank k then Inl (v3_err (name @ ''.meta keys must be non-empty str''))
     else if MAX_STR < length k then Inl (v3_err (name @ ''.meta key too long'')) else
     bind_r (need_str v (v3_err (name @ ''.meta values must be non-empty str''))) (\<lambda>s.
     if py_blank s then Inl (v3_err (name @ ''.meta values must be non-empty str''))
     else if MAX_STR < length s then Inl (v3_err (name @ ''.meta value too long''))
     else Inr ()))"

definition validate_meta :: "pyval \<Rightarrow> string \<Rightarrow> pyexc + unit" where
  "validate_meta meta name = (if meta = PNone then Inr () else
     bind_r (need_map meta (v3_err (name @ ''.meta must be object when present''))) (\<lambda>m.
     if MAX_META_ENTRIES < length m then Inl (v3_err (name @ ''.meta too many entries''))
     else each_r (check_meta_entry name) m))"

text \<open>\<open>if require_versions:\<close> a version field, capped and semantic.\<close>

definition check_version_field :: "bool \<Rightarrow> pydict \<Rightarrow> string \<Rightarrow> string \<Rightarrow> pyexc + unit" where
  "check_version_field require_versions m key name = (if \<not> require_versions then Inr () else
     bind_r (v3_require_str_max m key name MAX_VERSION_STR) (\<lambda>v.
     check_r (is_semver v) (v3_err (name @ ''.'' @ key @ '' must be semver (X.Y.Z)''))))"

section \<open>One signal\<close>

text \<open>The window of a signal lies inside the bundle's.\<close>

definition parse_signal_window :: "pydict \<Rightarrow> int \<Rightarrow> int \<Rightarrow> pyexc + unit" where
  "parse_signal_window signal bundle_issued_at bundle_expires_at =
     bind_r (v3_require_int signal ''issued_at'' ''signal'') (\<lambda>issued_at.
     bind_r (v3_require_int signal ''expires_at'' ''signal'') (\<lambda>expires_at.
     if expires_at < issued_at then Inl (v3_err ''signal.expires_at must be >= issued_at'')
     else if issued_at < bundle_issued_at
       then Inl (v3_err ''signal.issued_at must be >= bundle.issued_at'')
     else if bundle_expires_at < expires_at
       then Inl (v3_err ''signal.expires_at must be <= bundle.expires_at'')
     else Inr ()))"

definition parse_signal_v3 :: "pydict \<Rightarrow> string \<Rightarrow> int \<Rightarrow> int \<Rightarrow> external_reason_map
    \<Rightarrow> external_reason_registry \<Rightarrow> bool \<Rightarrow> pyexc + (string \<times> shield_signal)" where
  "parse_signal_v3 signal expected bundle_issued_at bundle_expires_at reason_map reason_registry strict =
     bind_r (deny_unknown_keys signal SIGNAL_ALLOWED_KEYS ''signal'') (\<lambda>_.
     bind_r (v3_require_str signal ''v'' ''signal'') (\<lambda>v.
     if v \<noteq> ''shield_signal_v3''
       then ad_fail DENY_VERSION_MISMATCH ''signal.v must be shield_signal_v3'' else
     bind_r (v3_require_str_max signal ''layer'' ''signal'' MAX_LAYER_STR) (\<lambda>layer.
     case layer_source layer of None \<Rightarrow> Inl (v3_err (''unknown shield layer: '' @ layer)) | Some src \<Rightarrow>
     bind_r (check_version_field strict signal ''layer_version'' ''signal'') (\<lambda>_.
     bind_r (v3_require_str_max signal ''signal_id'' ''signal'' MAX_ID_STR) (\<lambda>_.
     bind_r (v3_require_str signal ''context_hash'' ''signal'') (\<lambda>ctx_hash.
     if \<not> is_sha256_hex ctx_hash then Inl (v3_err ''signal.context_hash must be 64-char hex'')
     else if ctx_hash \<noteq> expected then Inl (v3_err ''signal.context_hash mismatch'') else
     bind_r (parse_signal_window signal bundle_issued_at bundle_expires_at) (\<lambda>_.
     bind_r (v3_require_str signal ''verdict'' ''signal'') (\<lambda>verdict.
     if verdict \<notin> {''allow'', ''deny''} then Inl (v3_err ''signal.verdict must be allow|deny'') else
     bind_r (v3_require_int signal ''confidence'' ''signal'') (\<lambda>confidence.
     if \<not> (0 \<le> confidence \<and> confidence \<le> 100)
       then Inl (v3_err ''signal.confidence must be 0..100'') else
     bind_r (validate_facts (dget signal ''facts'')) (\<lambda>_.
     bind_r (validate_meta (dget signal ''meta'') ''signal'') (\<lambda>_.
     bind_r (v3_require_str_max signal ''reason_id'' ''signal'' MAX_STR) (\<lambda>ext_reason.
     if \<not> is_shield_reason_allowed reason_registry layer ext_reason
       then ad_fail UNKNOWN_EXTERNAL_REASON
         (''external reason_id not allowed for layer '' @ layer @ '': '' @ ext_reason) else
     case lookup_reason reason_map ext_reason of
       None \<Rightarrow> ad_fail UNKNOWN_EXTERNAL_REASON (''unmapped external reason_id: '' @ ext_reason)
     | Some mapped \<Rightarrow>
     let out = \<lparr>ss_source = src, ss_severity = (if verdict = ''deny'' then 100 else 0),
       ss_reason_ids = [mapped]\<rparr> in
     bind_r (validate_shield_signal out) (\<lambda>_. Inr (layer, out))))))))))))))"

section \<open>The bundle\<close>

text \<open>\<open>repr(v)\<close> and \<open>str(v)\<close> of a value, which the sort key of a malformed signal may show.\<close>

definition repr_float :: "pyfloat \<Rightarrow> string" where
  "repr_float f = (case f of FRat _ _ r \<Rightarrow> r | FInf p \<Rightarrow> if p then ''inf'' else ''-inf'' | FNan \<Rightarrow> ''nan'')"

fun py_repr :: "pyval \<Rightarrow> string" and py_reprs :: "pyval list \<Rightarrow> string list"
  and py_repr_items :: "pydict \<Rightarrow> string list" where
  "py_repr PNone = ''None''"
| "py_repr (PBool b) = (if b then ''True'' else ''False'')"
| "py_repr (PInt i) = show_int i"
| "py_repr (PFloat f) = repr_float f"
| "py_repr (PStr s) = repr_str s"
| "py_repr (PList xs) = ''['' @ join_str '', '' (py_reprs xs) @ '']''"
| "py_repr (PTuple xs) = ''('' @ join_str '', '' (py_reprs xs) @ (if length xs = 1 then '',)'' else '')'')"
| "py_repr (PSet xs) = (if xs = [] then ''set()'' else ''{'' @ join_str '', '' (py_reprs xs) @ ''}'')"
| "py_repr (PDict m) = ''{'' @ join_str '', '' (py_repr_items m) @ ''}''"
| "py_reprs [] = []"
| "py_reprs (x # xs) = py_repr x # py_reprs xs"
| "py_repr_items [] = []"
| "py_repr_items ((k, v) # m) = (repr_str k @ '': '' @ py_repr v) # py_repr_items m"

definition py_str :: "pyval \<Rightarrow> string" where
  "py_str v = (case v of PStr s \<Rightarrow> s | _ \<Rightarrow> py_repr v)"

definition signal_sort_key :: "pyval \<Rightarrow> string \<times> string" where
  "signal_sort_key raw = (case raw of
     PDict m \<Rightarrow> (let f = (\<lambda>v. if py_truthy v then py_str v else []) in
       (f (dget m ''layer''), f (dget m ''signal_id'')))
   | _ \<Rightarrow> ([], []))"

text \<open>\<open>list(sigs) == sorted(sigs, key=_key)\<close>: elements compare by identity, then by \<open>==\<close>.\<close>

definition signals_sorted :: "pyval list \<Rightarrow> bool" where
  "signals_sorted sigs \<longleftrightarrow>
     list_all2 (\<lambda>a b. a = b \<or> py_eq a b) sigs (sort_key signal_sort_key sigs)"

definition parse_required_layer :: "pyval \<Rightarrow> pyexc + string" where
  "parse_required_layer x =
     bind_r (need_str x (v3_err ''bundle.required_layers entries must be non-empty str'')) (\<lambda>l.
     if py_blank l then Inl (v3_err ''bundle.required_layers entries must be non-empty str'')
     else if MAX_LAYER_STR < length l then Inl (v3_err ''bundle.required_layers entry too long'')
     else if layer_source l = None then Inl (v3_err (''unknown required layer: '' @ l))
     else Inr l)"

text \<open>\<open>order_index.get(name, 10_000)\<close>.\<close>

fun index_of :: "string list \<Rightarrow> string \<Rightarrow> nat option" where
  "index_of [] x = None"
| "index_of (y # ys) x = (if y = x then Some 0 else map_option Suc (index_of ys x))"

definition order_index :: "string \<Rightarrow> nat" where
  "order_index l = (case index_of CANONICAL_LAYER_ORDER l of Some i \<Rightarrow> i | None \<Rightarrow> 10000)"

definition parse_required_layers :: "pydict \<Rightarrow> bool \<Rightarrow> pyexc + string list" where
  "parse_required_layers m strict =
     bind_r (need_seq (dget m ''required_layers'') (v3_err ''bundle.required_layers must be non-empty array'')) (\<lambda>req.
     if req = [] then Inl (v3_err ''bundle.required_layers must be non-empty array'')
     else if MAX_REQUIRED_LAYERS < length req
       then Inl (v3_err ''bundle.required_layers too many entries'') else
     bind_r (map_r parse_required_layer req) (\<lambda>required_layers.
     if strict \<and> length (remdups required_layers) \<noteq> length required_layers
       then Inl (v3_err ''bundle.required_layers must not contain duplicates'')
     else if strict \<and> required_layers \<noteq> sort_key order_index required_layers
       then Inl (v3_err ''bundle.required_layers must follow canonical layer order'')
     else Inr required_layers))"

text \<open>The loop over the signals, with its set \<open>seen_layers\<close>.\<close>

fun parse_signals_v3 :: "(pydict \<Rightarrow> pyexc + (string \<times> shield_signal)) \<Rightarrow> string list \<Rightarrow> pyval list
    \<Rightarrow> pyexc + (string list \<times> shield_signal list)" where
  "parse_signals_v3 parse seen [] = Inr (seen, [])"
| "parse_signals_v3 parse seen (raw # sigs) =
     bind_r (need_map raw (v3_err ''signal must be object'')) (\<lambda>sig_map.
     bind_r (parse sig_map) (\<lambda>(layer, internal).
     if layer \<in> set seen then Inl (v3_err (''duplicate layer signal in bundle: '' @ layer)) else
     bind_r (parse_signals_v3 parse (layer # seen) sigs) (\<lambda>(seen', parsed).
     Inr (seen', internal # parsed))))"

definition need_signals :: "pydict \<Rightarrow> pyexc + pyval list" where
  "need_signals m =
     bind_r (need_seq (dget m ''signals'') (v3_err ''bundle.signals must be non-empty array'')) (\<lambda>sigs.
     if sigs = [] then Inl (v3_err ''bundle.signals must be non-empty array'')
     else if MAX_SIGNALS < length sigs then Inl (v3_err ''bundle.signals too many entries'')
     else if \<not> signals_sorted sigs
       then Inl (v3_err ''bundle.signals must be sorted by (layer, signal_id)'')
     else Inr sigs)"

text \<open>Version, identifier, context binding and window of the bundle.\<close>

definition parse_bundle_head :: "pydict \<Rightarrow> string \<Rightarrow> bool \<Rightarrow> pyexc + (string \<times> int \<times> int)" where
  "parse_bundle_head m expected strict =
     bind_r (deny_unknown_keys m BUNDLE_ALLOWED_KEYS ''bundle'') (\<lambda>_.
     bind_r (v3_require_str m ''v'' ''bundle'') (\<lambda>v.
     if v \<noteq> ''shield_bundle_v3''
       then ad_fail DENY_VERSION_MISMATCH ''bundle.v must be shield_bundle_v3'' else
     bind_r (check_version_field strict m ''shield_bundle_version'' ''bundle'') (\<lambda>_.
     bind_r (v3_require_str_max m ''bundle_id'' ''bundle'' MAX_ID_STR) (\<lambda>bundle_id.
     bind_r (v3_require_str m ''context_hash'' ''bundle'') (\<lambda>ctx_hash.
     if \<not> is_sha256_hex ctx_hash then Inl (v3_err ''bundle.context_hash must be 64-char hex'')
     else if ctx_hash \<noteq> expected then Inl (v3_err ''bundle.context_hash mismatch'') else
     bind_r (v3_require_int m ''issued_at'' ''bundle'') (\<lambda>issued_at.
     bind_r (v3_require_int m ''expires_at'' ''bundle'') (\<lambda>expires_at.
     if expires_at < issued_at then Inl (v3_err ''bundle.expires_at must be >= issued_at'')
     else Inr (bundle_id, issued_at, expires_at))))))))"

definition parse_shield_bundle_v3 :: "pyval \<Rightarrow> string \<Rightarrow> external_reason_map
    \<Rightarrow> external_reason_registry \<Rightarrow> bool \<Rightarrow> pyexc + shield_bundle_v3" where
  "parse_shield_bundle_v3 payload expected reason_map reason_registry strict =
    (if py_blank expected then Inl (v3_err ''expected_context_hash must be non-empty str'') else
     bind_r (validate_reason_map reason_map) (\<lambda>_.
     bind_r (catch_r (validate_registry reason_registry) (\<lambda>_. Inl (v3_err ''reason_registry invalid''))) (\<lambda>_.
     bind_r (need_map payload (v3_err ''bundle must be object'')) (\<lambda>m.
     bind_r (parse_bundle_head m expected strict) (\<lambda>(bundle_id, issued_at, expires_at).
     bind_r (parse_required_layers m strict) (\<lambda>required_layers.
     bind_r (need_signals m) (\<lambda>sigs.
     bind_r (parse_signals_v3 (\<lambda>sig. parse_signal_v3 sig expected issued_at expires_at
        reason_map reason_registry strict) [] sigs) (\<lambda>(seen_layers, parsed).
     bind_r (each_r (\<lambda>rl. check_r (rl \<in> set seen_layers)
        (v3_err (''missing required layer signal: '' @ rl))) required_layers) (\<lambda>_.
     bind_r (validate_meta (dget m ''meta'') ''bundle'') (\<lambda>_.
     let out = \<lparr>sb_bundle_id = bundle_id, sb_context_hash = expected, sb_issued_at = issued_at,
       sb_expires_at = expires_at, sb_required_layers = required_layers, sb_signals = parsed\<rparr> in
     bind_r (validate_shield_bundle out) (\<lambda>_. Inr out)))))))))))"

definition parse_shield_bundle_v3_m :: "pyval \<Rightarrow> string \<Rightarrow> external_reason_map
    \<Rightarrow> external_reason_registry \<Rightarrow> bool \<Rightarrow> metrics option \<Rightarrow> (pyexc + shield_bundle_v3) \<times> metrics option" where
  "parse_shield_bundle_v3_m payload expected reason_map reason_registry strict mt =
     count_adapter_failure mt (parse_shield_bundle_v3 payload expected reason_map reason_registry strict)"

section \<open>What an accepted bundle satisfies\<close>

lemma if_v3_err_eq_Inr [res_simps]:
  "(if c then Inl (v3_err m) else x) = Inr y \<longleftrightarrow> \<not> c \<and> x = Inr y"
  by simp

lemma v3_require_ok [res_simps]:
  "v3_require_str m k n = Inr s \<longleftrightarrow> dget m k = PStr s \<and> \<not> py_blank s"
  "v3_require_str_max m k n l = Inr s \<longleftrightarrow> dget m k = PStr s \<and> \<not> py_blank s \<and> length s \<le> l"
  "v3_require_int m k n = Inr i \<longleftrightarrow> dget m k = PInt i"
  by (auto simp: v3_require_str_def v3_require_str_max_def v3_require_int_def res_simps)

lemma deny_unknown_keys_ok [res_simps]:
  "deny_unknown_keys m allowed n = Inr u \<longleftrightarrow> set (dkeys m) \<subseteq> set allowed"
  by (simp add: deny_unknown_keys_def res_simps unknown_keys_Nil)

lemma check_version_field_ok [res_simps]:
  "check_version_field strict m k n = Inr u \<longleftrightarrow>
     (strict \<longrightarrow> (\<exists>v. dget m k = PStr v \<and> \<not> py_blank v \<and> length v \<le> MAX_VERSION_STR \<and> is_semver v))"
  by (auto simp: check_version_field_def res_simps)

text \<open>What an accepted raw signal says, and the internal signal it becomes.\<close>

definition signal_evidence :: "string \<Rightarrow> int \<Rightarrow> int \<Rightarrow> external_reason_map \<Rightarrow> external_reason_registry
    \<Rightarrow> pyval \<Rightarrow> shield_signal \<Rightarrow> bool" where
  "signal_evidence expected bi be rmap registry raw s \<longleftrightarrow> (\<exists>m layer ext i e verdict.
     raw = PDict m \<and> dget m ''context_hash'' = PStr expected \<and>
     dget m ''layer'' = PStr layer \<and> layer_source layer = Some (ss_source s) \<and>
     dget m ''issued_at'' = PInt i \<and> dget m ''expires_at'' = PInt e \<and> bi \<le> i \<and> i \<le> e \<and> e \<le> be \<and>
     dget m ''verdict'' = PStr verdict \<and>
     (verdict = ''deny'' \<and> ss_severity s = 100 \<or> verdict = ''allow'' \<and> ss_severity s = 0) \<and>
     dget m ''reason_id'' = PStr ext \<and> is_shield_reason_allowed registry layer ext \<and>
     (\<exists>r. lookup_reason rmap ext = Some (reason_value r) \<and> ss_reason_ids s = [reason_value r]))"

lemma parse_signal_v3_ok:
  assumes "parse_signal_v3 m expected bi be rmap registry strict = Inr (l, s)"
    and v: "validate_reason_map rmap = Inr ()"
  shows "signal_evidence expected bi be rmap registry (PDict m) s \<and> layer_source l = Some (ss_source s) \<and>
    validate_shield_signal s = Inr ()"
  using assms(1) lookup_reason_valid[OF v]
  unfolding parse_signal_v3_def parse_signal_window_def signal_evidence_def
  by (auto simp: res_simps Let_def split: option.splits)

lemma layer_source_inj: "layer_source a = Some x \<Longrightarrow> layer_source b = Some x \<Longrightarrow> a = b"
  by (auto simp: layer_source.simps split: if_splits)

lemma layer_source_canonical: "layer_source a = Some x \<Longrightarrow> a \<in> set CANONICAL_LAYER_ORDER"
  by (auto simp: layer_source.simps CANONICAL_LAYER_ORDER_def split: if_splits)

text \<open>The sources of the parsed signals are those of the layers seen, each once.\<close>

lemma parse_signals_v3_ok:
  assumes "\<And>m l s. parse m = Inr (l, s) \<Longrightarrow> P (PDict m) s \<and> layer_source l = Some (ss_source s)"
  shows "parse_signals_v3 parse seen sigs = Inr (seen', parsed) \<Longrightarrow>
    list_all2 P sigs parsed \<and> distinct (map ss_source parsed) \<and>
    set seen' = set seen \<union> {l. \<exists>s \<in> set parsed. layer_source l = Some (ss_source s)} \<and>
    (\<forall>l \<in> set seen. \<forall>s \<in> set parsed. layer_source l \<noteq> Some (ss_source s))"
proof (induction sigs arbitrary: seen seen' parsed)
  case Nil
  then show ?case by auto
next
  case (Cons raw sigs)
  obtain m l s ps where p: "raw = PDict m" "parse m = Inr (l, s)" "l \<notin> set seen" "parsed = s # ps"
    "parse_signals_v3 parse (l # seen) sigs = Inr (seen', ps)"
    using Cons.prems by (auto simp: res_simps)
  have s: "P (PDict m) s" "layer_source l = Some (ss_source s)" using assms[OF p(2)] by auto
  have u: "layer_source l' = Some (ss_source s) \<longleftrightarrow> l' = l" for l' using s(2) layer_source_inj by auto
  show ?case using Cons.IH[OF p(5)] p s u by auto
qed

definition bundle_evidence :: "pyval \<Rightarrow> string \<Rightarrow> external_reason_map \<Rightarrow> external_reason_registry
    \<Rightarrow> shield_bundle_v3 \<Rightarrow> bool" where
  "bundle_evidence payload expected rmap registry b \<longleftrightarrow>
     sb_context_hash b = expected \<and> is_sha256_hex expected \<and>
     distinct (map ss_source (sb_signals b)) \<and>
     (\<forall>l \<in> set (sb_required_layers b). \<exists>s \<in> set (sb_signals b). layer_source l = Some (ss_source s)) \<and>
     (\<exists>m raws. payload = PDict m \<and> (dget m ''signals'' = PList raws \<or> dget m ''signals'' = PTuple raws) \<and>
        list_all2 (signal_evidence expected (sb_issued_at b) (sb_expires_at b) rmap registry)
          raws (sb_signals b))"

lemma parse_required_layers_ok:
  assumes "parse_required_layers m strict = Inr ls"
  shows "ls \<noteq> [] \<and> length ls \<le> MAX_REQUIRED_LAYERS \<and>
    (\<forall>l \<in> set ls. \<not> py_blank l \<and> l \<in> set CANONICAL_LAYER_ORDER) \<and>
    (strict \<longrightarrow> distinct ls \<and> sorted (map order_index ls))"
proof -
  obtain req where r: "req \<noteq> []" "length req \<le> MAX_REQUIRED_LAYERS" "map_r parse_required_layer req = Inr ls"
    and s: "strict \<longrightarrow> length (remdups ls) = length ls \<and> ls = sort_key order_index ls"
    using assms by (auto simp: parse_required_layers_def res_simps)
  have "\<not> py_blank l \<and> l \<in> set CANONICAL_LAYER_ORDER" if "l \<in> set ls" for l
    using map_r_set[OF r(3) that] layer_source_canonical by (auto simp: parse_required_layer_def res_simps)
  moreover have "sorted (map order_index ls)" if strict
    using sorted_sort_key[of order_index ls] s that by metis
  ultimately show ?thesis using r map_r_length[OF r(3)] s
    by (auto simp: distinct_card card_distinct length_remdups_card_conv)
qed

lemma parse_shield_bundle_ok:
  assumes "parse_shield_bundle_v3 payload expected rmap registry strict = Inr b"
  shows "bundle_evidence payload expected rmap registry b \<and> validate_shield_bundle b = Inr () \<and>
    length (sb_bundle_id b) \<le> MAX_ID_STR \<and> length (sb_signals b) \<le> MAX_SIGNALS \<and>
    (\<exists>m. parse_required_layers m strict = Inr (sb_required_layers b))"
proof -
  obtain m raws seen where
    v: "validate_reason_map rmap = Inr ()" and m: "payload = PDict m" and
    h: "is_sha256_hex expected" "length (sb_bundle_id b) \<le> MAX_ID_STR" "sb_context_hash b = expected" and
    q: "parse_required_layers m strict = Inr (sb_required_layers b)" and
    r: "dget m ''signals'' = PList raws \<or> dget m ''signals'' = PTuple raws" "length raws \<le> MAX_SIGNALS" and
    s: "parse_signals_v3 (\<lambda>sig. parse_signal_v3 sig expected (sb_issued_at b) (sb_expires_at b)
        rmap registry strict) [] raws = Inr (seen, sb_signals b)" and
    l: "\<forall>l \<in> set (sb_required_layers b). l \<in> set seen" "validate_shield_bundle b = Inr ()"
    using assms
    by (auto simp: parse_shield_bundle_v3_def parse_bundle_head_def need_signals_def res_simps Let_def)
  have p: "signal_evidence expected (sb_issued_at b) (sb_expires_at b) rmap registry (PDict n) t \<and>
      layer_source l = Some (ss_source t)"
    if "parse_signal_v3 n expected (sb_issued_at b) (sb_expires_at b) rmap registry strict = Inr (l, t)"
    for n l t using parse_signal_v3_ok[OF that v] by blast
  note ok = parse_signals_v3_ok[where P = "signal_evidence expected (sb_issued_at b) (sb_expires_at b) rmap registry",
      OF p s]
  have n: "length (sb_signals b) \<le> MAX_SIGNALS" using ok r(2) list_all2_lengthD by fastforce
  have "bundle_evidence payload expected rmap registry b"
    unfolding bundle_evidence_def using ok l m h(1,3) r(1) by auto
  then show ?thesis using l(2) h(2) q n by blast
qed

text \<open>No contract of the internal bundle can fail once the sections are accepted.\<close>

lemma v3_raises [raises_intros]:
  "raises_only is_adapter_error (v3_require_str m k n)"
  "raises_only is_adapter_error (v3_require_str_max m k n l)"
  "raises_only is_adapter_error (v3_require_int m k n)"
  "raises_only is_adapter_error (deny_unknown_keys m ks n)"
  "raises_only is_adapter_error (check_version_field strict m k n)"
  "raises_only is_adapter_error (Inl (v3_err x))"
  unfolding v3_require_str_def v3_require_str_max_def v3_require_int_def deny_unknown_keys_def
    check_version_field_def v3_err_def
  by (intro raises_intros raises_only_Inl is_adapter_error_simps)+

lemma check_fact_raises [raises_intros]:
  "raises_only is_adapter_error (check_fact_item v)"
  "raises_only is_adapter_error (check_fact_list xs)"
  "raises_only is_adapter_error (check_fact e)"
  "raises_only is_adapter_error (check_meta_entry n e)"
proof -
  show i: "raises_only is_adapter_error (check_fact_item v)" for v
    by (cases v) (auto simp: check_fact_item_def v3_err_def intro!: raises_intros raises_only_Inl)
  show l: "raises_only is_adapter_error (check_fact_list xs)" for xs
    unfolding check_fact_list_def v3_err_def by (intro raises_intros i) simp
  show "raises_only is_adapter_error (check_fact e)"
    by (cases e; cases "snd e")
      (auto simp: check_fact_def v3_err_def intro!: raises_intros l raises_only_Inl)
  show "raises_only is_adapter_error (check_meta_entry n e)"
    unfolding check_meta_entry_def v3_err_def
    by (intro raises_intros raises_only_Inl is_adapter_error_simps)
qed

lemma validate_facts_raises [raises_intros]:
  "raises_only is_adapter_error (validate_facts v)"
  "raises_only is_adapter_error (validate_meta v n)"
  unfolding validate_facts_def validate_meta_def
  by (intro raises_intros raises_only_Inl; simp add: v3_err_def)+

lemma raises_only_option [raises_intros]:
  "(v = None \<Longrightarrow> raises_only P m) \<Longrightarrow> (\<And>x. v = Some x \<Longrightarrow> raises_only P (f x)) \<Longrightarrow>
     raises_only P (case v of None \<Rightarrow> m | Some x \<Rightarrow> f x)"
  by (cases v) simp_all

lemma raises_only_total: "m = Inr x \<Longrightarrow> raises_only P m"
  by (simp add: raises_intros)

lemma mapped_signal_valid:
  assumes "validate_reason_map rmap = Inr ()" "lookup_reason rmap ext = Some r"
  shows "validate_shield_signal \<lparr>ss_source = src, ss_severity = (if d then 100 else 0), ss_reason_ids = [r]\<rparr> = Inr ()"
  using lookup_reason_valid[OF assms] by (auto simp: validate_shield_signal_ok)

lemma parse_signal_v3_raises:
  assumes v: "validate_reason_map rmap = Inr ()"
  shows "raises_only is_adapter_error (parse_signal_v3 m expected bi be rmap registry strict)"
proof -
  note t = raises_only_total[OF mapped_signal_valid[OF v]]
  show ?thesis unfolding parse_signal_v3_def parse_signal_window_def Let_def
    by (intro raises_intros t)
qed

lemma parse_signals_v3_raises:
  assumes "\<And>m. raises_only is_adapter_error (parse m)"
  shows "raises_only is_adapter_error (parse_signals_v3 parse seen sigs)"
proof (induction sigs arbitrary: seen)
  case Nil
  then show ?case by (simp add: raises_intros)
next
  case (Cons raw sigs)
  then show ?case by (auto intro!: raises_intros assms simp: v3_err_def raises_only_Inl)
qed

lemma map_r_raises [raises_intros]:
  "(\<And>x. x \<in> set xs \<Longrightarrow> raises_only P (f x)) \<Longrightarrow> raises_only P (map_r f xs)"
  by (induction xs) (auto intro!: raises_intros)

lemma parse_required_layers_raises [raises_intros]:
  "raises_only is_adapter_error (parse_required_layers m strict)"
  unfolding parse_required_layers_def parse_required_layer_def
  by (intro raises_intros; simp add: v3_err_def)

lemma need_signals_raises [raises_intros]: "raises_only is_adapter_error (need_signals m)"
  unfolding need_signals_def by (intro raises_intros; simp add: v3_err_def)

lemma parse_bundle_head_raises [raises_intros]:
  "raises_only is_adapter_error (parse_bundle_head m expected strict)"
  unfolding parse_bundle_head_def by (intro raises_intros)

lemma parsed_bundle_valid:
  assumes v: "validate_reason_map rmap = Inr ()"
    and h: "parse_bundle_head m expected strict = Inr (bid, i, e)"
    and r: "parse_required_layers m strict = Inr ls" and n: "need_signals m = Inr raws"
    and s: "parse_signals_v3 (\<lambda>sig. parse_signal_v3 sig expected i e rmap registry strict) [] raws = Inr (seen, ps)"
  shows "validate_shield_bundle \<lparr>sb_bundle_id = bid, sb_context_hash = expected, sb_issued_at = i,
    sb_expires_at = e, sb_required_layers = ls, sb_signals = ps\<rparr> = Inr ()"
proof -
  have p: "validate_shield_signal t = Inr () \<and> layer_source l = Some (ss_source t)"
    if "parse_signal_v3 k expected i e rmap registry strict = Inr (l, t)" for k l t
    using parse_signal_v3_ok[OF that v] by blast
  have ps: "list_all2 (\<lambda>_ t. validate_shield_signal t = Inr ()) raws ps"
    using parse_signals_v3_ok[where P = "\<lambda>_ t. validate_shield_signal t = Inr ()", OF _ s] p by blast
  have raws: "raws \<noteq> []" using n by (auto simp: need_signals_def res_simps)
  have "\<forall>t \<in> set ps. validate_shield_signal t = Inr ()"
    using ps by (auto simp: list_all2_conv_all_nth in_set_conv_nth)
  moreover have "ps \<noteq> []" using ps raws by auto
  moreover have "\<not> py_blank bid \<and> length expected = 64 \<and> i \<le> e"
    using h by (auto simp: parse_bundle_head_def res_simps is_sha256_hex_def)
  ultimately show ?thesis using parse_required_layers_ok[OF r]
    by (auto simp: validate_shield_bundle_def res_simps list_ex_iff)
qed

lemma parse_shield_bundle_raises:
  assumes "parse_shield_bundle_v3 payload expected rmap registry strict = Inl e"
  shows "is_adapter_error e \<or> validate_reason_map rmap = Inl e"
proof (cases "validate_reason_map rmap")
  case (Inl x)
  then show ?thesis using assms by (auto simp: parse_shield_bundle_v3_def v3_err_def split: if_splits)
next
  case (Inr u)
  then have v: "validate_reason_map rmap = Inr ()" by simp
  have c: "raises_only is_adapter_error (catch_r n (\<lambda>_. Inl (v3_err g)))" for n :: "pyexc + unit" and g
    by (cases n) (auto simp: v3_err_def raises_only_def)
  have "raises_only is_adapter_error (parse_shield_bundle_v3 payload expected rmap registry strict)"
    unfolding parse_shield_bundle_v3_def v bind_r_simps Let_def
    by (intro raises_intros c parse_signals_v3_raises parse_signal_v3_raises v
        raises_only_total[OF parsed_bundle_valid[OF v]]) (auto simp: v3_err_def)
  then show ?thesis using assms by (simp add: raises_only_def)
qed

text \<open>
  \<open>ok_le m n\<close>: whenever \<open>m\<close> returns, \<open>n\<close> returns the same value. The strict mode only adds
  tests, so it is below the lenient one.
\<close>

definition ok_le :: "'e + 'a \<Rightarrow> 'e + 'a \<Rightarrow> bool" where
  "ok_le m n \<longleftrightarrow> (\<forall>x. m = Inr x \<longrightarrow> n = Inr x)"

lemma ok_le_refl: "ok_le m m"
  by (simp add: ok_le_def)

lemma ok_le_bind: "ok_le m n \<Longrightarrow> (\<And>x. ok_le (f x) (g x)) \<Longrightarrow> ok_le (bind_r m f) (bind_r n g)"
  by (auto simp: ok_le_def res_simps)

lemma ok_le_if: "(\<not> c \<Longrightarrow> ok_le m n) \<Longrightarrow> ok_le (if c then Inl e else m) (if c then Inl e' else n)"
  by (simp add: ok_le_def)

lemma ok_le_fail: "(\<not> c \<Longrightarrow> ok_le m n) \<Longrightarrow> ok_le (if c then ad_fail r e else m) (if c then ad_fail r e else n)"
  by (simp add: ok_le_def)

lemma ok_le_option: "(\<And>x. ok_le (f x) (g x)) \<Longrightarrow>
    ok_le (case v of None \<Rightarrow> m | Some x \<Rightarrow> f x) (case v of None \<Rightarrow> m | Some x \<Rightarrow> g x)"
  by (cases v) (simp_all add: ok_le_refl)

lemma ok_le_prod: "(\<And>a b. ok_le (f a b) (g a b)) \<Longrightarrow> ok_le (case p of (a, b) \<Rightarrow> f a b) (case p of (a, b) \<Rightarrow> g a b)"
  by (cases p) simp

lemma ok_le_version_field: "ok_le (check_version_field True m k n) (check_version_field False m k n)"
  by (simp add: ok_le_def check_version_field_def)

lemma parse_signal_v3_lenient:
  "ok_le (parse_signal_v3 m expected bi be rmap registry True)
     (parse_signal_v3 m expected bi be rmap registry False)"
  unfolding parse_signal_v3_def Let_def by (intro ok_le_version_field ok_le_if ok_le_fail ok_le_option ok_le_bind ok_le_refl)

lemma parse_signals_v3_mono:
  assumes "\<And>m. ok_le (p m) (q m)"
  shows "ok_le (parse_signals_v3 p seen sigs) (parse_signals_v3 q seen sigs)"
proof (induction sigs arbitrary: seen)
  case (Cons raw sigs)
  then show ?case using assms by (auto intro!: ok_le_if ok_le_prod ok_le_bind ok_le_refl)
qed (simp add: ok_le_refl)

lemma parse_required_layers_lenient:
  "ok_le (parse_required_layers m True) (parse_required_layers m False)"
  by (auto simp: ok_le_def parse_required_layers_def res_simps)

lemma parse_bundle_head_lenient:
  "ok_le (parse_bundle_head m expected True) (parse_bundle_head m expected False)"
  unfolding parse_bundle_head_def by (intro ok_le_version_field ok_le_if ok_le_fail ok_le_bind ok_le_refl)

lemma parse_shield_bundle_lenient:
  "ok_le (parse_shield_bundle_v3 payload expected rmap registry True)
     (parse_shield_bundle_v3 payload expected rmap registry False)"
  unfolding parse_shield_bundle_v3_def Let_def
  by (intro ok_le_if ok_le_bind ok_le_prod parse_signals_v3_mono parse_signal_v3_lenient
      parse_required_layers_lenient parse_bundle_head_lenient ok_le_refl)

section \<open>Semantic versions are triples of decimal numbers\<close>

lemma is_digit_conv: "is_digit c \<longleftrightarrow> (\<exists>d < 10. c = digit_char d)"
proof -
  have "set (map digit_char [0..<10]) = set ''0123456789''" by code_simp
  then have "c \<in> set ''0123456789'' \<longleftrightarrow> c \<in> digit_char ` set [0..<10]" by (metis set_map)
  then show ?thesis unfolding is_digit_def by auto
qed

lemma digit_char_zero: "d < 10 \<Longrightarrow> digit_char d = CHR ''0'' \<longleftrightarrow> d = 0"
proof -
  assume d: "d < 10"
  have "list_all (\<lambda>d. digit_char d = CHR ''0'' \<longleftrightarrow> d = 0) [0..<10]" by code_simp
  then show ?thesis using d by (simp add: list_all_iff)
qed

lemma semver_part_show: "semver_part (show_nat n) \<and> (0 < n \<longrightarrow> hd (show_nat n) \<noteq> CHR ''0'')"
proof (induction n rule: show_nat.induct)
  case (1 n)
  show ?case
  proof (cases "n < 10")
    case True
    have z: "n = 0 \<Longrightarrow> digit_char n = CHR ''0''" using digit_char_zero[of 0] by simp
    show ?thesis using True digit_char_zero[OF True] is_digit_conv z
      by (subst (1 2) show_nat.simps) (auto simp: semver_part_def)
  next
    case False
    let ?p = "show_nat (n div 10)"
    have h: "hd ?p \<noteq> CHR ''0''" "semver_part ?p" using 1 False by auto
    then have "?p \<noteq> [] \<and> list_all is_digit ?p" by (auto simp: semver_part_def)
    moreover have "is_digit (digit_char (n mod 10))"
      unfolding is_digit_conv by (rule exI[of _ "n mod 10"]) simp
    ultimately show ?thesis using h(1) False
      by (subst (1 2) show_nat.simps) (auto simp: semver_part_def)
  qed
qed

lemma semver_part_conv: "semver_part p \<longleftrightarrow> (\<exists>n. p = show_nat n)"
proof
  have digits: "\<exists>n > 0. p = show_nat n" if "p \<noteq> []" "hd p \<noteq> CHR ''0''" "list_all is_digit p" for p
    using that
  proof (induction p rule: rev_induct)
    case (snoc c q)
    obtain d where d: "d < 10" "c = digit_char d" using snoc.prems(3) is_digit_conv by auto
    show ?case
    proof (cases "q = []")
      case True
      then have "0 < d" using d digit_char_zero[OF d(1)] snoc.prems(2) by auto
      then show ?thesis using True d by (auto intro!: exI[of _ d] simp: show_nat.simps[of d])
    next
      case False
      then obtain n where n: "0 < n" "q = show_nat n" using snoc by auto
      then have "show_nat (10 * n + d) = q @ [c]" using d by (subst show_nat.simps) auto
      then show ?thesis using n by (metis add_gr_0 mult_pos_pos zero_less_numeral)
    qed
  qed simp
  have z: "show_nat 0 = ''0''" by code_simp
  assume "semver_part p"
  then consider "p = ''0''" | "p \<noteq> []" "hd p \<noteq> CHR ''0''" "list_all is_digit p"
    unfolding semver_part_def by blast
  then show "\<exists>n. p = show_nat n"
  proof cases
    case 1
    then show ?thesis using z by metis
  next
    case 2
    then show ?thesis using digits by blast
  qed
next
  assume "\<exists>n. p = show_nat n"
  then show "semver_part p" using semver_part_show by blast
qed

lemma split_char_ne [simp]: "split_char c s \<noteq> []"
  by (cases s) (auto split: list.splits)

lemma join_split_char: "join_str [c] (split_char c s) = s"
proof (induction s)
  case (Cons x s)
  obtain p ps where q: "split_char c s = p # ps" by (cases "split_char c s") auto
  then show ?case using Cons.IH by (cases ps) auto
qed simp

lemma split_char_no_sep: "p \<in> set (split_char c s) \<Longrightarrow> c \<notin> set p"
proof (induction s arbitrary: p)
  case (Cons x s)
  obtain q qs where q: "split_char c s = q # qs" by (cases "split_char c s") auto
  then show ?case using Cons by (auto split: if_splits)
qed simp

lemma split_join_char:
  assumes "ps \<noteq> []" "\<And>p. p \<in> set ps \<Longrightarrow> c \<notin> set p"
  shows "split_char c (join_str [c] ps) = ps"
  by (rule join_str_sep_inj[of c]) (simp_all add: join_split_char assms split_char_no_sep)

lemma show_nat_no_dot: "CHR ''.'' \<notin> set (show_nat n)"
proof -
  have "\<not> is_digit CHR ''.''" by code_simp
  moreover have "is_digit CHR ''0''" by code_simp
  ultimately show ?thesis using semver_part_show[of n] by (auto simp: semver_part_def list_all_iff)
qed

section \<open>Properties\<close>

text \<open>
  The version test of the strict mode is the reference: a string is a semantic version
  exactly when, stripped, it is the decimal form of three natural numbers joined by dots. No
  sign, leading zero, suffix or missing part is accepted.
\<close>

theorem is_semver_iff_decimal_triple:
  "is_semver s \<longleftrightarrow> (\<exists>a b c. py_strip s = show_nat a @ ''.'' @ show_nat b @ ''.'' @ show_nat c)"
proof
  assume "is_semver s"
  then obtain p q r where l: "split_char CHR ''.'' (py_strip s) = [p, q, r]"
    and v: "semver_part p" "semver_part q" "semver_part r"
    by (auto simp: is_semver_def Let_def length_Suc_conv numeral_3_eq_3)
  have "py_strip s = p @ ''.'' @ q @ ''.'' @ r"
    using join_split_char[of "CHR ''.''" "py_strip s"] by (simp add: l)
  then show "\<exists>a b c. py_strip s = show_nat a @ ''.'' @ show_nat b @ ''.'' @ show_nat c"
    using v unfolding semver_part_conv by blast
next
  assume "\<exists>a b c. py_strip s = show_nat a @ ''.'' @ show_nat b @ ''.'' @ show_nat c"
  then obtain a b c where e: "py_strip s = join_str ''.'' [show_nat a, show_nat b, show_nat c]" by auto
  have "split_char CHR ''.'' (py_strip s) = [show_nat a, show_nat b, show_nat c]"
    unfolding e by (rule split_join_char) (auto simp: show_nat_no_dot)
  then show "is_semver s" by (simp add: is_semver_def semver_part_show)
qed

definition demo_registry :: external_reason_registry where
  "demo_registry = \<lparr>er_oracle_allowed = [''ok''], er_shield_layer_allowlists =
     [\<lparr>la_layer = ''qwg'', la_allowed_external_reason_ids = [''ok'']\<rparr>]\<rparr>"

definition demo_bundle_payload :: "string \<Rightarrow> pyval" where
  "demo_bundle_payload h = PDict [(''v'', PStr ''shield_bundle_v3''), (''bundle_id'', PStr ''b''),
     (''context_hash'', PStr h), (''issued_at'', PInt 10), (''expires_at'', PInt 30),
     (''shield_bundle_version'', PStr ''1.0.0''), (''required_layers'', PList [PStr ''qwg'']),
     (''signals'', PList [PDict [(''v'', PStr ''shield_signal_v3''), (''layer'', PStr ''qwg''),
        (''layer_version'', PStr ''3.0.1''), (''signal_id'', PStr ''s''), (''context_hash'', PStr h),
        (''issued_at'', PInt 10), (''expires_at'', PInt 30), (''verdict'', PStr ''deny''),
        (''reason_id'', PStr ''ok''), (''confidence'', PInt 90), (''facts'', PDict [])]])]"

lemma demo_bundle_ok:
  "\<exists>b. parse_shield_bundle_v3 (demo_bundle_payload (replicate 64 CHR ''0'')) (replicate 64 CHR ''0'')
     default_reason_map demo_registry True = Inr b"
proof -
  let ?p = "parse_shield_bundle_v3 (demo_bundle_payload (replicate 64 CHR ''0'')) (replicate 64 CHR ''0'')
     default_reason_map demo_registry True"
  have "\<not> isl ?p" by code_simp
  then show ?thesis by (cases ?p) simp_all
qed

text \<open>
  A Shield v3 bundle the adapter accepts is evidence for the expected context only, with one
  internal signal per raw signal in their order: each signal carries the context hash, lies in
  the bundle's window, has severity 100 exactly for the verdict deny and 0 for allow, and its
  single reason is the internal image of an external one that the registry allows for the layer.
  No two signals are of the same layer and every required layer has one. The bundle satisfies
  its own contract.
\<close>

theorem shield_bundle_v3_evidence:
  assumes "parse_shield_bundle_v3 payload expected rmap registry strict = Inr b"
  shows "bundle_evidence payload expected rmap registry b \<and> validate_shield_bundle b = Inr ()"
  using parse_shield_bundle_ok[OF assms] by blast

theorem shield_bundle_v3_evidence_witness:
  "\<exists>b. parse_shield_bundle_v3 (demo_bundle_payload (replicate 64 CHR ''0'')) (replicate 64 CHR ''0'')
     default_reason_map demo_registry True = Inr b \<and> validate_shield_bundle b = Inr ()"
proof -
  obtain b where b: "parse_shield_bundle_v3 (demo_bundle_payload (replicate 64 CHR ''0''))
      (replicate 64 CHR ''0'') default_reason_map demo_registry True = Inr b"
    using demo_bundle_ok by blast
  show ?thesis using shield_bundle_v3_evidence[OF b] b by blast
qed

text \<open>
  The bundle parser raises an \<open>AdapterError\<close> and nothing else, with one exception: the
  \<open>ValueError\<close> of an invalid reason map, which it does not translate. In particular neither the
  contract of a signal nor that of the bundle can fail after the parser's own tests.
\<close>

theorem shield_bundle_v3_errors:
  "case parse_shield_bundle_v3 payload expected rmap registry strict of
     Inl e \<Rightarrow> (\<exists>rid msg. e = AdapterError rid msg) \<or> validate_reason_map rmap = Inl e
   | Inr b \<Rightarrow> validate_reason_map rmap = Inr () \<and> validate_shield_bundle b = Inr ()"
proof (cases "parse_shield_bundle_v3 payload expected rmap registry strict")
  case (Inl e)
  then show ?thesis using parse_shield_bundle_raises[OF Inl] by (auto simp: is_adapter_error_def)
next
  case (Inr b)
  then have "validate_reason_map rmap = Inr ()" by (auto simp: parse_shield_bundle_v3_def res_simps)
  then show ?thesis using parse_shield_bundle_ok[OF Inr] Inr by simp
qed

text \<open>
  The strict mode refines the lenient one: a bundle accepted with \<open>require_versions\<close> is
  accepted without it, with the same result.
\<close>

theorem shield_bundle_v3_strict_refines_lenient:
  assumes "parse_shield_bundle_v3 payload expected rmap registry True = Inr b"
  shows "parse_shield_bundle_v3 payload expected rmap registry False = Inr b"
  using parse_shield_bundle_lenient assms unfolding ok_le_def by blast

theorem shield_bundle_v3_strict_refines_lenient_witness:
  "\<exists>b. parse_shield_bundle_v3 (demo_bundle_payload (replicate 64 CHR ''0'')) (replicate 64 CHR ''0'')
     default_reason_map demo_registry False = Inr b"
proof -
  obtain b where b: "parse_shield_bundle_v3 (demo_bundle_payload (replicate 64 CHR ''0''))
      (replicate 64 CHR ''0'') default_reason_map demo_registry True = Inr b"
    using demo_bundle_ok by blast
  show ?thesis using shield_bundle_v3_strict_refines_lenient[OF b] by blast
qed

lemma sorted_index_canonical:
  assumes "distinct ls" "sorted (map order_index ls)" "set ls \<subseteq> set CANONICAL_LAYER_ORDER"
  shows "ls = filter (\<lambda>l. l \<in> set ls) CANONICAL_LAYER_ORDER"
proof -
  let ?f = "filter (\<lambda>l. l \<in> set ls) CANONICAL_LAYER_ORDER"
  have inj: "inj_on order_index (set CANONICAL_LAYER_ORDER)"
    unfolding inj_on_def by code_simp
  have s: "sorted (map order_index CANONICAL_LAYER_ORDER)" by code_simp
  have d: "distinct CANONICAL_LAYER_ORDER" by code_simp
  have "set ?f = set ls" using assms(3) by auto
  moreover have "sorted (map order_index ?f)" using s by (rule sorted_filter)
  moreover have "distinct (map order_index ?f)" "distinct (map order_index ls)"
    using d assms(1,3) inj by (auto simp: distinct_map intro: inj_on_subset)
  ultimately have "map order_index ls = map order_index ?f"
    by (intro sorted_distinct_set_unique assms(2)) (simp_all only: set_map)
  then show ?thesis using inj assms(3)
    by (metis (no_types, lifting) \<open>set ?f = set ls\<close> inj_on_map_eq_map inj_on_subset sup.idem)
qed

text \<open>
  An accepted bundle is small whatever the sender claims: between one and five signals, at
  most eight required layers, an identifier of at most 128 characters. In strict mode the
  required layers are a subsequence of the canonical order, so there are at most five of them.
\<close>

theorem shield_bundle_v3_bounds:
  assumes "parse_shield_bundle_v3 payload expected rmap registry strict = Inr b"
  shows "1 \<le> length (sb_signals b) \<and> length (sb_signals b) \<le> 5 \<and>
    1 \<le> length (sb_required_layers b) \<and> length (sb_required_layers b) \<le> 8 \<and>
    length (sb_bundle_id b) \<le> 128 \<and>
    (\<not> strict \<or> sb_required_layers b =
       filter (\<lambda>l. l \<in> set (sb_required_layers b)) CANONICAL_LAYER_ORDER)"
proof -
  obtain m where ok: "bundle_evidence payload expected rmap registry b" "validate_shield_bundle b = Inr ()"
      "length (sb_bundle_id b) \<le> 128" "parse_required_layers m strict = Inr (sb_required_layers b)"
    using parse_shield_bundle_ok[OF assms] by (auto simp: MAX_ID_STR_def)
  note rl = parse_required_layers_ok[OF ok(4)]
  have "set (map ss_source (sb_signals b)) \<subseteq> {SENTINEL, ADN, DQSN, QWG, GUARDIAN}"
  proof
    fix x assume "x \<in> set (map ss_source (sb_signals b))"
    then obtain s where s: "s \<in> set (sb_signals b)" "x = ss_source s" by auto
    then obtain l where "layer_source l = Some x"
      using ok(1) unfolding bundle_evidence_def signal_evidence_def
      by (auto simp: list_all2_conv_all_nth in_set_conv_nth)
    then show "x \<in> {SENTINEL, ADN, DQSN, QWG, GUARDIAN}"
      by (auto simp: layer_source.simps split: if_splits)
  qed
  then have "card (set (map ss_source (sb_signals b))) \<le> card {SENTINEL, ADN, DQSN, QWG, GUARDIAN}"
    by (rule card_mono[rotated]) simp
  moreover have "card (set (map ss_source (sb_signals b))) = length (sb_signals b)"
    using ok(1) distinct_card[of "map ss_source (sb_signals b)"] by (simp add: bundle_evidence_def)
  ultimately have "length (sb_signals b) \<le> 5" by simp
  moreover have "sb_signals b \<noteq> []" using ok(2) by (auto simp: validate_shield_bundle_def split: if_splits)
  moreover have "sb_required_layers b = filter (\<lambda>l. l \<in> set (sb_required_layers b)) CANONICAL_LAYER_ORDER"
    if strict using that rl by (intro sorted_index_canonical) auto
  ultimately show ?thesis using rl ok(3)
    by (auto simp: MAX_REQUIRED_LAYERS_def Suc_le_eq)
qed

theorem shield_bundle_v3_bounds_witness:
  "\<exists>b. parse_shield_bundle_v3 (demo_bundle_payload (replicate 64 CHR ''0'')) (replicate 64 CHR ''0'')
     default_reason_map demo_registry True = Inr b \<and> length (sb_signals b) \<le> 5"
proof -
  obtain b where b: "parse_shield_bundle_v3 (demo_bundle_payload (replicate 64 CHR ''0''))
      (replicate 64 CHR ''0'') default_reason_map demo_registry True = Inr b"
    using demo_bundle_ok by blast
  show ?thesis using shield_bundle_v3_bounds[OF b] b by blast
qed

end
