(* ===== verification/Orchestrator_V2.thy ===== *)
theory Orchestrator_V2
  imports Shield_V3_Adapter Shield_Receipt_Verifier Adaptive_Core_Adapter Final_Policy Eqc Boundary
begin

text \<open>
  \<open>src/adamantine/v1/execution/orchestrator_v2.py\<close>: the single decision authority of the v2
  runtime. One request passes, in order, the envelope parser, the policy latches, Q-ID, the
  oracle, the Shield, EQC, the WSQK proof, the TVA gate and the final policy engine; only then
  the executor runs. A stage either returns the response of an early return (\<open>Return\<close>), goes
  on with its result (\<open>Continue\<close>), or raises. Time, policy, nonce store, executor and the
  authenticity verifiers are injected; a verifier is a function that raises or returns.
\<close>

section \<open>Stages\<close>

datatype ('r, 'a) stage = Return 'r | Continue 'a

definition bind_stage :: "'e + ('r, 'a) stage \<Rightarrow> ('a \<Rightarrow> 'e + ('r, 'b) stage) \<Rightarrow> 'e + ('r, 'b) stage" where
  "bind_stage m f = (case m of Inl e \<Rightarrow> Inl e | Inr (Return r) \<Rightarrow> Inr (Return r) | Inr (Continue x) \<Rightarrow> f x)"

text \<open>\<open>return m\<close> from within a stage.\<close>

definition return_r :: "'e + 'r \<Rightarrow> 'e + ('r, 'a) stage" where
  "return_r m = bind_r m (\<lambda>r. Inr (Return r))"

text \<open>\<open>try: m except AdapterError as e: return h(e.reason_id, e.message)\<close>.\<close>

definition try_adapter :: "pyexc + 'a \<Rightarrow> (reason_id \<Rightarrow> string \<Rightarrow> pyexc + 'r) \<Rightarrow> pyexc + ('r, 'a) stage" where
  "try_adapter m h = (case m of
     Inl (AdapterError rid msg) \<Rightarrow> return_r (h rid msg) | Inl e \<Rightarrow> Inl e | Inr x \<Rightarrow> Inr (Continue x))"

section \<open>External verifiers\<close>

definition AI_GATEWAY_V2_RUNTIME_ADVISORY_SOURCE :: string where
  "AI_GATEWAY_V2_RUNTIME_ADVISORY_SOURCE = ''ai_gateway:not_required_for_runtime_path''"

type_synonym evidence_verifier = "pydict \<Rightarrow> string \<Rightarrow> pyexc + unit"

definition call_external_evidence_verifier :: "evidence_verifier option \<Rightarrow> pydict \<Rightarrow> string \<Rightarrow> string
    \<Rightarrow> reason_id \<Rightarrow> reason_id \<Rightarrow> pyexc + unit" where
  "call_external_evidence_verifier verifier payload expected boundary missing invalid =
    (case verifier of
       None \<Rightarrow> ad_fail missing
         (boundary @ ''_verifier is required when authenticated external evidence is required'')
     | Some f \<Rightarrow> (case f payload expected of
         Inl (AdapterError rid msg) \<Rightarrow> ad_fail rid msg
       | Inl ex \<Rightarrow> ad_fail invalid (boundary @ ''_verifier error: '' @ exc_str ex)
       | Inr _ \<Rightarrow> Inr ()))"

section \<open>Runtime evidence for the final policy engine\<close>

record runtime_evidence =
  re_source :: string
  re_state :: string
  re_outcome :: string
  re_reason_id :: reason_id
  re_accepted_as_evidence :: bool
  re_final_approval :: bool
  re_handoff_allowed :: bool
  re_context_hash :: string
  re_dominant_reason_ids :: "string list"
  re_final_outcome :: "string option"

text \<open>The object the engine inspects: the attributes of the slots, in their order.\<close>

definition evidence_of :: "runtime_evidence \<Rightarrow> evidence" where
  "evidence_of e = ObjectEvidence
    [(''source'', PStr (re_source e)), (''state'', PStr (re_state e)), (''outcome'', PStr (re_outcome e)),
     (''reason_id'', PStr (reason_value (re_reason_id e))),
     (''accepted_as_evidence'', PBool (re_accepted_as_evidence e)),
     (''final_approval'', PBool (re_final_approval e)), (''handoff_allowed'', PBool (re_handoff_allowed e)),
     (''context_hash'', PStr (re_context_hash e)),
     (''dominant_reason_ids'', PTuple (map PStr (re_dominant_reason_ids e))),
     (''final_outcome'', opt_val (re_final_outcome e))]"

definition runtime_evidence_from_boundary :: "string \<Rightarrow> string \<Rightarrow> reason_id \<Rightarrow> bool \<Rightarrow> runtime_evidence" where
  "runtime_evidence_from_boundary source context_hash rid accepted =
    \<lparr>re_source = source,
     re_state = (if accepted then ''ALLOW_EVIDENCE_CONTINUE_CHECKS'' else ''DENY_EVIDENCE_REJECTED''),
     re_outcome = (if accepted then ''ALLOW_EVIDENCE'' else ''DENY''), re_reason_id = rid,
     re_accepted_as_evidence = accepted, re_final_approval = False, re_handoff_allowed = accepted,
     re_context_hash = context_hash, re_dominant_reason_ids = [reason_value rid],
     re_final_outcome = None\<rparr>"

definition runtime_evidence_accepted :: "string \<Rightarrow> string \<Rightarrow> runtime_evidence" where
  "runtime_evidence_accepted source h = runtime_evidence_from_boundary source h EVIDENCE_OK True"

definition runtime_evidence_rejected :: "string \<Rightarrow> string \<Rightarrow> reason_id \<Rightarrow> runtime_evidence" where
  "runtime_evidence_rejected source h rid = runtime_evidence_from_boundary source h rid False"

definition receipt_accepted :: "receipt_result \<Rightarrow> bool" where
  "receipt_accepted r \<longleftrightarrow> rv_state r = VERIFIED_ALLOW_EVIDENCE_CONTINUE_CHECKS"

definition runtime_evidence_from_shield_receipt :: "receipt_result \<Rightarrow> string \<Rightarrow> runtime_evidence" where
  "runtime_evidence_from_shield_receipt r expected =
    (let accepted = receipt_accepted r in
     \<lparr>re_source = ''shield_orchestrator_receipt:'' @ (case rv_receipt_hash r of Some h \<Rightarrow> h | None \<Rightarrow> ''unverified''),
      re_state = (if accepted then receipt_state_value (rv_state r) else ''DENY_EVIDENCE_REJECTED''),
      re_outcome = (if accepted then ''ALLOW_EVIDENCE'' else ''DENY''), re_reason_id = rv_reason_id r,
      re_accepted_as_evidence = accepted, re_final_approval = False,
      re_handoff_allowed = (if accepted then rv_handoff_allowed r else False),
      re_context_hash = (case rv_context_hash r of Some h \<Rightarrow> h | None \<Rightarrow> expected),
      re_dominant_reason_ids = (if accepted then rv_dominant_reason_ids r else [reason_value (rv_reason_id r)]),
      re_final_outcome = rv_final_outcome r\<rparr>)"

definition shield_runtime_boundary_artifact :: "risk_policy \<Rightarrow> receipt_result \<Rightarrow> string \<Rightarrow> pydict" where
  "shield_runtime_boundary_artifact pol r route_status = [(''shield_runtime_boundary'', PDict
    [(''mode'', PStr (boundary_value (rp_shield_runtime_boundary pol))),
     (''receipt_state'', PStr (receipt_state_value (rv_state r))), (''verified'', PBool (rv_verified r)),
     (''accepted_as_evidence'', PBool (receipt_accepted r)), (''final_approval'', PBool False),
     (''handoff_allowed'', PBool (rv_handoff_allowed r)), (''receipt_hash'', opt_val (rv_receipt_hash r)),
     (''route_status'', PStr route_status)])]"

section \<open>Denied responses\<close>

definition compute_protection_mode :: "bool \<Rightarrow> bool \<Rightarrow> bool \<Rightarrow> bool \<Rightarrow> string" where
  "compute_protection_mode protected_requested qid_ok oracle_ok shield_ok =
    (if \<not> protected_requested then ''legacy'' else if \<not> qid_ok then ''legacy''
     else if qid_ok \<and> oracle_ok \<and> shield_ok then ''full'' else ''minimal'')"

definition runtime_final_policy_reason :: "fp_result \<Rightarrow> reason_id" where
  "runtime_final_policy_reason r = (case reason_of_string (fp_reason_id r) of
     Some rid \<Rightarrow> rid | None \<Rightarrow> UNKNOWN_EXTERNAL_REASON)"

definition final_policy_artifacts :: "fp_result \<Rightarrow> pydict" where
  "final_policy_artifacts r = [(''final_policy'', PDict
    [(''state'', PStr (fp_state_value (fp_state r))), (''outcome'', PStr (fp_outcome r)),
     (''final_approval'', PBool (fp_final_approval r)), (''handoff_allowed'', PBool (fp_handoff_allowed r)),
     (''stopped_at'', PStr (fp_stopped_at r)),
     (''evaluation_order'', PList (map PStr (fp_evaluation_order r))),
     (''dominant_reason_ids'', PList (map PStr (fp_dominant_reason_ids r)))])]"

definition reject_branch_invariant_result :: "fp_result \<Rightarrow> fp_result" where
  "reject_branch_invariant_result r =
    (if fp_state r \<noteq> ALLOW_FINAL_ADAMANTINEOS_DECISION then r
     else \<lparr>fp_state = DENY_GATE_SHAPE_INVALID, fp_outcome = ''DENY'', fp_reason_id = reason_value DENY_POLICY,
       fp_final_approval = False, fp_handoff_allowed = False,
       fp_stopped_at = ''reject_branch_final_policy_invariant'',
       fp_evaluation_order = fp_evaluation_order r,
       fp_dominant_reason_ids = [''FINAL_POLICY_UNEXPECTED_ALLOW_ON_REJECT_BRANCH'']\<rparr>)"

text \<open>What a response reports of the stages: the keyword flags of the denied response.\<close>

record stage_flags =
  fl_protected :: bool
  fl_qid_ok :: bool
  fl_oracle_ok :: bool
  fl_shield_ok :: bool
  fl_tva_allowed :: bool
  fl_eqc_allowed :: bool
  fl_wsqk_allowed :: bool
  fl_nonce_consumed :: bool

definition evidence_flags :: "bool \<Rightarrow> bool \<Rightarrow> bool \<Rightarrow> bool \<Rightarrow> stage_flags" where
  "evidence_flags prot q ac sh = \<lparr>fl_protected = prot, fl_qid_ok = q, fl_oracle_ok = ac,
     fl_shield_ok = sh, fl_tva_allowed = False, fl_eqc_allowed = False, fl_wsqk_allowed = False,
     fl_nonce_consumed = False\<rparr>"

text \<open>The arguments every response of a parsed request has in common.\<close>

definition request_args :: "envelope_v2 \<Rightarrow> risk_policy \<Rightarrow> stage_flags \<Rightarrow> string \<Rightarrow> reason_id
    \<Rightarrow> pydict option \<Rightarrow> response_v2_args" where
  "request_args req pol fl status rid artifacts =
    \<lparr>r2_request_id = ev_request_id req, r2_intent = ev_intent req, r2_action = cx_action (ev_context req),
     r2_context_hash = cx_context_hash (ev_context req), r2_status = status, r2_reason_id = rid,
     r2_protection_mode = compute_protection_mode (fl_protected fl) (fl_qid_ok fl) (fl_oracle_ok fl) (fl_shield_ok fl),
     r2_tva_allowed = fl_tva_allowed fl, r2_eqc_allowed = fl_eqc_allowed fl,
     r2_wsqk_allowed = fl_wsqk_allowed fl, r2_issued_at = ev_issued_at req,
     r2_expires_at = ev_expires_at req, r2_max_skew_seconds = ev_max_skew_seconds req,
     r2_timebox_valid = True, r2_nonce_store = ev_nonce_store req, r2_nonce_value = ev_nonce_value req,
     r2_nonce_consumed = fl_nonce_consumed fl, r2_qid_present = True, r2_qid_valid = fl_qid_ok fl,
     r2_shield_present = True, r2_shield_valid = fl_shield_ok fl, r2_oracle_present = True,
     r2_oracle_valid = fl_oracle_ok fl, r2_policy_mode = resilience_mode_value (rp_resilience_mode pol),
     r2_override_allowed = False, r2_policy_reason_id = rid, r2_artifacts = artifacts\<rparr>"

text \<open>\<open>d.update(other)\<close>.\<close>

definition dict_update :: "pydict \<Rightarrow> pydict \<Rightarrow> pydict" where
  "dict_update d other = foldl (\<lambda>m (k, v). dset m k v) d other"

definition final_policy_denied_response_v2 :: "envelope_v2 \<Rightarrow> risk_policy \<Rightarrow> fp_result \<Rightarrow> stage_flags
    \<Rightarrow> pydict option \<Rightarrow> bool \<Rightarrow> pyexc + pydict" where
  "final_policy_denied_response_v2 req pol final_policy fl artifacts include_artifact =
    (let original_state = fp_state final_policy;
         fp = reject_branch_invariant_result final_policy;
         final_reason = runtime_final_policy_reason fp;
         merged = (if include_artifact then final_policy_artifacts fp else []);
         merged2 = (if original_state = ALLOW_FINAL_ADAMANTINEOS_DECISION
           then dset merged ''final_policy_invariant'' (PDict [(''status'', PStr ''fail_closed''),
             (''reason'', PStr ''reject_branch_received_unexpected_allow''),
             (''original_state'', PStr (fp_state_value original_state))])
           else merged);
         merged3 = (case artifacts of Some a \<Rightarrow> dict_update merged2 a | None \<Rightarrow> merged2)
     in build_execution_response_v2 (request_args req pol fl ''deny'' final_reason (Some merged3)))"

section \<open>The verified receipt as a bundle\<close>

definition REQUIRED_SHIELD_LAYERS_V3 :: "string list" where
  "REQUIRED_SHIELD_LAYERS_V3 = [''sentinel_ai'', ''adn'', ''dqsn'', ''qwg'', ''guardian_wallet'']"

definition receipt_component_source :: "string \<Rightarrow> shield_source option" where
  "receipt_component_source = map_of [(''sentinel_ai'', SENTINEL), (''adn'', ADN), (''dqsn'', DQSN),
     (''qwg'', QWG), (''guardian_wallet'', GUARDIAN)]"

text \<open>The loop that fills \<open>source_by_layer\<close>.\<close>

fun receipt_signals :: "(string \<times> shield_signal) list \<Rightarrow> pyval list \<Rightarrow> pyexc + (string \<times> shield_signal) list" where
  "receipt_signals by_layer [] = Inr by_layer"
| "receipt_signals by_layer (c # cs) = (case c of
     PDict m \<Rightarrow> (case dget m ''component_id'' of
       PStr cid \<Rightarrow> (case receipt_component_source cid of
           None \<Rightarrow> ad_fail EQC_INVALID_SHIELD_BUNDLE ''Shield receipt component_id invalid''
         | Some src \<Rightarrow>
           if dget m ''decision'' \<noteq> PStr ''ALLOW''
             then ad_fail EQC_CONFLICTING_EVIDENCE ''Shield receipt component decision is not ALLOW''
           else receipt_signals (AList.update cid \<lparr>ss_source = src, ss_severity = 0,
             ss_reason_ids = [reason_value EVIDENCE_OK]\<rparr> by_layer) cs)
     | _ \<Rightarrow> ad_fail EQC_INVALID_SHIELD_BUNDLE ''Shield receipt component_id invalid'')
   | _ \<Rightarrow> ad_fail EQC_INVALID_SHIELD_BUNDLE ''Shield receipt component verdict invalid'')"

definition shield_bundle_from_verified_receipt :: "receipt_result \<Rightarrow> int \<Rightarrow> int \<Rightarrow> pyexc + shield_bundle_v3" where
  "shield_bundle_from_verified_receipt r issued_at expires_at =
    (if rv_state r \<noteq> VERIFIED_ALLOW_EVIDENCE_CONTINUE_CHECKS
       then ad_fail EQC_INVALID_SHIELD_BUNDLE ''Shield receipt must be verified ALLOW evidence''
     else if \<not> rv_verified r \<or> \<not> rv_accepted_as_evidence r \<or> rv_final_approval r
       then ad_fail EQC_INVALID_SHIELD_BUNDLE ''Shield receipt verification flags are not evidence-only''
     else if \<not> rv_handoff_allowed r
       then ad_fail EQC_INVALID_SHIELD_BUNDLE ''Shield receipt handoff is not allowed''
     else case rv_receipt r of None \<Rightarrow> ad_fail EQC_INVALID_SHIELD_BUNDLE ''Shield receipt body is missing''
     | Some receipt \<Rightarrow>
     if rv_context_hash r = None \<or> rv_context_hash r = Some []
       then ad_fail EQC_INVALID_SHIELD_BUNDLE ''Shield receipt context hash missing''
     else if rv_receipt_hash r = None \<or> rv_receipt_hash r = Some []
       then ad_fail EQC_INVALID_SHIELD_BUNDLE ''Shield receipt hash missing'' else
     bind_r (need_list (dget receipt ''component_verdicts'')
       (AdapterError EQC_INVALID_SHIELD_BUNDLE ''Shield receipt component verdicts missing'')) (\<lambda>raw_components.
     bind_r (receipt_signals [] raw_components) (\<lambda>by_layer.
     if set (map fst by_layer) \<noteq> set REQUIRED_SHIELD_LAYERS_V3
       then ad_fail EQC_INVALID_SHIELD_BUNDLE ''Shield receipt missing required component evidence'' else
     let bundle = \<lparr>sb_bundle_id = ''shield_orchestrator_receipt:'' @ the (rv_receipt_hash r),
       sb_context_hash = the (rv_context_hash r), sb_issued_at = issued_at, sb_expires_at = expires_at,
       sb_required_layers = REQUIRED_SHIELD_LAYERS_V3,
       sb_signals = map (\<lambda>l. the (map_of by_layer l)) REQUIRED_SHIELD_LAYERS_V3\<rparr> in
     bind_r (validate_shield_bundle bundle) (\<lambda>_. Inr bundle))))"

section \<open>Human confirmation, authority, registry\<close>

definition local_ok :: "string \<Rightarrow> local_gate_result option" where
  "local_ok gate = Some \<lparr>lg_gate = gate, lg_passed = True, lg_reason_id = reason_value EVIDENCE_OK,
     lg_requires_human_review = False\<rparr>"

definition local_reject :: "string \<Rightarrow> reason_id \<Rightarrow> local_gate_result option" where
  "local_reject gate rid = Some \<lparr>lg_gate = gate, lg_passed = False, lg_reason_id = reason_value rid,
     lg_requires_human_review = False\<rparr>"

definition bound_human_confirmation_gate :: "pydict \<Rightarrow> pydict option \<Rightarrow> local_gate_result option" where
  "bound_human_confirmation_gate payload_body context_fields =
    (let payload_confirmed = dget payload_body ''ui_confirmed'' = PBool True;
         bound_confirmed = dget (case context_fields of Some f \<Rightarrow> f | None \<Rightarrow> []) ''ui_confirmed'' = PStr ''true''
     in if payload_confirmed \<and> bound_confirmed then local_ok ''human''
        else local_reject ''human'' DENY_AUTHORITY_INSUFFICIENT)"

definition run_with_tva_v2 :: "'s check_and_mark \<Rightarrow> execution_context \<Rightarrow> verdict \<Rightarrow> authority \<Rightarrow> int
    \<Rightarrow> pyval \<Rightarrow> string option \<Rightarrow> 's option \<Rightarrow> (pyexc + string) \<times> 's option" where
  "run_with_tva_v2 cam cx v au now families posture store =
    (case enforce_tva cam (Some cx) (Some v) (Some au) (Some now) families posture store of
       (Inl e, store') \<Rightarrow> (Inl e, store')
     | (Inr _, store') \<Rightarrow> (Inr ''TVA_ACCEPTED'', store'))"

definition safe_str :: "pyval \<Rightarrow> string \<Rightarrow> string" where
  "safe_str v fallback = (case v of PStr s \<Rightarrow> if s = [] then fallback else s | _ \<Rightarrow> fallback)"

definition reason_from_message :: "string \<Rightarrow> reason_id" where
  "reason_from_message msg = (case reason_of_string msg of Some r \<Rightarrow> r | None \<Rightarrow> DENY_SCHEMA_INVALID)"

definition coerce_reason_id :: "string \<Rightarrow> reason_id" where
  "coerce_reason_id s = (if s = [] then DENY_SCHEMA_INVALID else
     case reason_of_string s of Some r \<Rightarrow> r | None \<Rightarrow> DENY_SCHEMA_INVALID)"

text \<open>\<open>_require_mapping(obj) or {}\<close>.\<close>

definition map_or_empty :: "pyval \<Rightarrow> pydict" where
  "map_or_empty v = (case v of PDict m \<Rightarrow> m | _ \<Rightarrow> [])"

definition extract_fields :: "pydict \<Rightarrow> pydict option" where
  "extract_fields p = (case dget p ''context'' of
     PDict ctx \<Rightarrow> (case dget ctx ''fields'' of
       PDict m \<Rightarrow> Some (filter (\<lambda>(k, v). is_str v) m)
     | _ \<Rightarrow> None)
   | _ \<Rightarrow> None)"

definition nonempty_str :: "pyval \<Rightarrow> string option" where
  "nonempty_str v = (case v of PStr s \<Rightarrow> if s = [] then None else Some s | _ \<Rightarrow> None)"

text \<open>\<open>isinstance(raw, list) and all(isinstance(x, str) for x in raw)\<close>.\<close>

definition str_list :: "pyval \<Rightarrow> string list option" where
  "str_list v = (case v of PList xs \<Rightarrow> if list_all is_str xs then Some (map str_of xs) else None | _ \<Rightarrow> None)"

definition extract_wsqk_authority :: "string \<Rightarrow> string \<Rightarrow> string \<Rightarrow> string \<Rightarrow> int \<Rightarrow> int \<Rightarrow> pydict option
    \<Rightarrow> authority option" where
  "extract_wsqk_authority wallet_id action context_hash nonce_value issued_at expires_at proofs =
    (case proofs of None \<Rightarrow> None | Some pr \<Rightarrow>
     case dget pr ''wsqk'' of PDict wsqk \<Rightarrow>
      (case (nonempty_str (dget wsqk ''wallet_id''), nonempty_str (dget wsqk ''action''),
             nonempty_str (dget wsqk ''context_hash''), dget wsqk ''issued_at'', dget wsqk ''expires_at'',
             nonempty_str (dget wsqk ''nonce'')) of
        (Some w, Some a, Some ch, PInt ia, PInt ea, Some n) \<Rightarrow>
          if w \<noteq> wallet_id \<or> a \<noteq> action \<or> ch \<noteq> context_hash then None
          else if n \<noteq> nonce_value then None
          else if ia \<noteq> issued_at \<or> ea \<noteq> expires_at then None
          else if dget wsqk ''contract_version'' = PStr WSQK_AUTHORITY_V2 then
            (case (str_list (dget wsqk ''required_evidence_families''), nonempty_str (dget wsqk ''quantum_posture''),
                   nonempty_str (dget wsqk ''proof_bindings_hash'')) of
               (Some families, Some posture, Some proof_hash) \<Rightarrow>
                 Some (AuthV2 \<lparr>au_wallet_id = w, au_action = a, au_context_hash = ch, au_issued_at = ia,
                   au_expires_at = ea, au_nonce = n, au_contract_version = WSQK_AUTHORITY_V2,
                   au_required_evidence_families = families, au_quantum_posture = posture,
                   au_proof_bindings_hash = proof_hash\<rparr>)
             | _ \<Rightarrow> None)
          else Some (AuthV1 \<lparr>au_wallet_id = w, au_action = a, au_context_hash = ch, au_issued_at = ia,
            au_expires_at = ea, au_nonce = n\<rparr>)
      | _ \<Rightarrow> None)
     | _ \<Rightarrow> None)"

definition extract_wsqk_v2_runtime_requirements :: "pydict \<Rightarrow> pyexc + (pyval \<times> string option)" where
  "extract_wsqk_v2_runtime_requirements scope = (case dget scope ''wsqk_v2'' of
     PNone \<Rightarrow> Inr (PNone, None)
   | PDict raw \<Rightarrow>
      (case str_list (dget raw ''required_evidence_families'') of
         None \<Rightarrow> Inl (tva_deny DENY_AUTHORITY_INVALID)
       | Some families \<Rightarrow> (case nonempty_str (dget raw ''required_quantum_posture'') of
           None \<Rightarrow> Inl (tva_deny DENY_AUTHORITY_INVALID)
         | Some posture \<Rightarrow> Inr (PTuple (map PStr families), Some posture)))
   | _ \<Rightarrow> Inl (tva_deny DENY_AUTHORITY_INVALID))"

definition default_reason_map_of :: "risk_policy \<Rightarrow> external_reason_map" where
  "default_reason_map_of pol = (case rp_policy_pack pol of
     Some pack \<Rightarrow> pp_external_reason_map pack | None \<Rightarrow> pp_external_reason_map default_policy_pack)"

definition build_mandatory_reason_registry :: "risk_policy \<Rightarrow> pyexc + external_reason_registry" where
  "build_mandatory_reason_registry pol =
    (let allowed = effective_allowed_external_reason_ids pol in
     if allowed = [] then Inl (ValueError ''policy must provide non-empty allowed external reason ids'')
     else let reg = \<lparr>er_oracle_allowed = allowed, er_shield_layer_allowlists =
         map (\<lambda>l. \<lparr>la_layer = l, la_allowed_external_reason_ids = allowed\<rparr>) REQUIRED_SHIELD_LAYERS_V3\<rparr>
       in bind_r (validate_registry reg) (\<lambda>_. Inr reg))"

definition map_shield_adapter_reason :: "reason_id \<Rightarrow> reason_id" where
  "map_shield_adapter_reason rid =
    (if rid \<in> {DENY_ADAPTER_INVALID, DENY_VERSION_MISMATCH} then EQC_INVALID_SHIELD_BUNDLE else rid)"

definition protected_call_requested :: "pydict option \<Rightarrow> bool" where
  "protected_call_requested proofs = (case proofs of None \<Rightarrow> False | Some pr \<Rightarrow> has_key pr ''wsqk'')"

definition is_qid_v2_login_evidence :: "pydict \<Rightarrow> bool" where
  "is_qid_v2_login_evidence e \<longleftrightarrow> dget e ''v'' = PStr ''2'' \<and> dget e ''kind'' = PStr ''qid_login_v2''"

section \<open>The stages of a request\<close>

text \<open>What the first stage settles for the rest.\<close>

record v2_run =
  vr_req :: envelope_v2
  vr_fields :: "pydict option"
  vr_protected :: bool
  vr_families :: pyval
  vr_posture :: "string option"
  vr_pol :: risk_policy
  vr_map :: external_reason_map
  vr_registry :: external_reason_registry

definition run_hash :: "v2_run \<Rightarrow> string" where
  "run_hash r = cx_context_hash (ev_context (vr_req r))"

definition policy_denied :: "envelope_v2 \<Rightarrow> risk_policy \<Rightarrow> bool \<Rightarrow> string \<Rightarrow> pyexc + pydict" where
  "policy_denied req pol protected_requested error = build_execution_response_v2
     (request_args req pol (evidence_flags protected_requested False False False) ''deny'' DENY_POLICY
       (Some [(''error'', PStr error)]))"

text \<open>Envelope, requirements, policy latches and reason registry.\<close>

definition stage_policy :: "pydict \<Rightarrow> int \<Rightarrow> risk_policy option \<Rightarrow> pyexc + (pydict, v2_run) stage" where
  "stage_policy p now policy =
     bind_r (parse_envelope_v2 (PDict p) now) (\<lambda>req.
     let fs = extract_fields p; protected_requested = protected_call_requested (ev_authority_proofs req) in
     bind_r (extract_wsqk_v2_runtime_requirements (ev_authority_scope req)) (\<lambda>(families, posture).
     let pol = effective_policy policy in
     bind_r (validate_risk_policy pol) (\<lambda>_.
     if rp_require_protected_call pol \<and> \<not> protected_requested
       then return_r (policy_denied req pol protected_requested ''policy requires protected execution'')
     else if rp_require_full_mode pol \<and> \<not> protected_requested
       then return_r (policy_denied req pol protected_requested ''policy requires full protection mode'')
     else case build_mandatory_reason_registry pol of
       Inl e \<Rightarrow> return_r (policy_denied req pol protected_requested (''reason registry build failed: '' @ exc_str e))
     | Inr registry \<Rightarrow> Inr (Continue \<lparr>vr_req = req, vr_fields = fs, vr_protected = protected_requested,
         vr_families = families, vr_posture = posture, vr_pol = pol, vr_map = default_reason_map_of pol,
         vr_registry = registry\<rparr>))))"

text \<open>The final policy engine on runtime evidence; the advisory gateway is always the marker.\<close>

definition final_policy_v2 :: "string \<Rightarrow> runtime_evidence \<Rightarrow> runtime_evidence \<Rightarrow> runtime_evidence
    \<Rightarrow> runtime_evidence \<Rightarrow> local_gate_result option \<Rightarrow> local_gate_result option
    \<Rightarrow> local_gate_result option \<Rightarrow> pyexc + fp_result" where
  "final_policy_v2 h shield wsqk qid ac replay wallet human = evaluate_final_policy_engine
    \<lparr>in_shield = evidence_of shield, in_wsqk_v2 = evidence_of wsqk, in_qid = evidence_of qid,
     in_adaptive_core = evidence_of ac,
     in_ai_gateway = evidence_of (runtime_evidence_accepted AI_GATEWAY_V2_RUNTIME_ADVISORY_SOURCE h),
     in_replay = replay, in_wallet_policy = wallet, in_human = human\<rparr> h False"

text \<open>\<open>return _final_policy_denied_response_v2(final_policy=evaluate_final_policy_engine(...), ...)\<close>.\<close>

definition deny_by_engine :: "v2_run \<Rightarrow> pyexc + fp_result \<Rightarrow> stage_flags \<Rightarrow> pydict option \<Rightarrow> bool \<Rightarrow> pyexc + pydict" where
  "deny_by_engine r engine fl artifacts include_artifact =
     bind_r engine (\<lambda>fp. final_policy_denied_response_v2 (vr_req r) (vr_pol r) fp fl artifacts include_artifact)"

text \<open>Q-ID: the verifier's \<open>AdapterError\<close> passes, its other exceptions are translated.\<close>

definition check_qid_evidence :: "(pydict \<Rightarrow> pyexc + unit) option \<Rightarrow> pydict \<Rightarrow> int \<Rightarrow> pyexc + qid_session_proof" where
  "check_qid_evidence qid_verifier evidence now =
    (if is_qid_v2_login_evidence evidence \<and> qid_verifier = None
       then ad_fail QID_AUTHENTICITY_VERIFIER_MISSING ''qid_verifier is required for Q-ID v2 evidence''
     else bind_r (case qid_verifier of None \<Rightarrow> Inr () | Some f \<Rightarrow> (case f evidence of
         Inl (AdapterError rid msg) \<Rightarrow> ad_fail rid msg
       | Inl ex \<Rightarrow> ad_fail EQC_INVALID_QID_PROOF (''qid_verifier error: '' @ exc_str ex)
       | Inr _ \<Rightarrow> Inr ())) (\<lambda>_.
     parse_qid_session (PDict evidence) now))"

definition stage_qid :: "v2_run \<Rightarrow> (pydict \<Rightarrow> pyexc + unit) option \<Rightarrow> int
    \<Rightarrow> pyexc + (pydict, qid_session_proof) stage" where
  "stage_qid r qid_verifier now = (let h = run_hash r in
     try_adapter (check_qid_evidence qid_verifier (ev_evidence_qid (vr_req r)) now) (\<lambda>rid msg.
     deny_by_engine r (final_policy_v2 h
         (runtime_evidence_accepted ''shield:not_reached_before_qid_reject'' h)
         (runtime_evidence_accepted ''wsqk_v2:not_reached_before_qid_reject'' h)
         (runtime_evidence_rejected ''qid:rejected'' h rid)
         (runtime_evidence_accepted ''adaptive_core:not_reached_before_qid_reject'' h)
         (local_ok ''replay'') (local_ok ''wallet_policy'') (local_ok ''human''))
       (evidence_flags (vr_protected r) False False False) (Some [(''error'', PStr msg)]) False))"

definition stage_qid_replay :: "v2_run \<Rightarrow> qid_session_proof \<Rightarrow> pyexc + (pydict, unit) stage" where
  "stage_qid_replay r session = (let h = run_hash r; req = vr_req r in
     if \<not> (vr_protected r \<and> rp_require_qid_replay_proof (vr_pol r)) then Inr (Continue ()) else
     try_adapter (bind_r (parse_qid_replay_proof (PDict (ev_evidence_qid req)) (cx_wallet_id (ev_context req))
         (qs_subject session) (qs_proof_hash session) (qs_device_binding session) (ev_nonce_value req) True)
         (\<lambda>_. Inr ())) (\<lambda>rid msg.
     deny_by_engine r (final_policy_v2 h
         (runtime_evidence_accepted ''shield:not_reached_before_qid_replay_reject'' h)
         (runtime_evidence_accepted ''wsqk_v2:not_reached_before_qid_replay_reject'' h)
         (runtime_evidence_rejected ''qid:replay_rejected'' h rid)
         (runtime_evidence_accepted ''adaptive_core:not_reached_before_qid_replay_reject'' h)
         (local_reject ''replay'' rid) (local_ok ''wallet_policy'') (local_ok ''human''))
       (evidence_flags (vr_protected r) False False False) (Some [(''error'', PStr msg)]) True))"

definition qid_evidence :: "v2_run \<Rightarrow> qid_session_proof \<Rightarrow> runtime_evidence" where
  "qid_evidence r session = runtime_evidence_accepted (''qid:'' @ qs_subject session) (run_hash r)"

definition oracle_evidence :: "adaptive_core_oracle_v3 \<Rightarrow> runtime_evidence" where
  "oracle_evidence ac = runtime_evidence_accepted ''adaptive_core:oracle_v3'' (ao_context_hash ac)"

definition stage_oracle :: "v2_run \<Rightarrow> evidence_verifier option \<Rightarrow> int \<Rightarrow> qid_session_proof
    \<Rightarrow> pyexc + (pydict, adaptive_core_oracle_v3) stage" where
  "stage_oracle r oracle_verifier now session = (let h = run_hash r; raw = ev_evidence_oracle (vr_req r) in
     try_adapter (bind_r (if rp_require_authenticated_external_evidence (vr_pol r)
         then call_external_evidence_verifier oracle_verifier raw h ''oracle''
           ORACLE_AUTHENTICITY_VERIFIER_MISSING EQC_INVALID_RISK_REPORT
         else Inr ()) (\<lambda>_.
       parse_adaptive_core_oracle_v3 (PDict raw) now h (Some (vr_map r)) (Some (vr_registry r))
         (Some (vr_pol r)))) (\<lambda>rid msg.
     deny_by_engine r (final_policy_v2 h
         (runtime_evidence_accepted ''shield:not_reached_before_oracle_reject'' h)
         (runtime_evidence_accepted ''wsqk_v2:not_reached_before_oracle_reject'' h)
         (qid_evidence r session)
         (runtime_evidence_rejected ''adaptive_core:oracle_v3_rejected'' h rid)
         (local_ok ''replay'') (local_ok ''wallet_policy'') (local_ok ''human''))
       (evidence_flags (vr_protected r) True False False) (Some [(''error'', PStr msg)]) False))"

text \<open>The Shield stage: bundle, evidence for the engine and artifact of the boundary.\<close>

type_synonym shield_outcome = "shield_bundle_v3 \<times> runtime_evidence \<times> pydict"

definition stage_shield_receipt :: "v2_run \<Rightarrow> evidence_verifier option \<Rightarrow> qid_session_proof
    \<Rightarrow> adaptive_core_oracle_v3 \<Rightarrow> pyexc + (pydict, shield_outcome) stage" where
  "stage_shield_receipt r shield_verifier session ac =
    (let h = run_hash r; req = vr_req r; pol = vr_pol r; raw = ev_evidence_shield req in
     bind_r (if rp_require_authenticated_external_evidence pol
       then call_external_evidence_verifier shield_verifier raw h ''shield_receipt''
         SHIELD_AUTHENTICITY_VERIFIER_MISSING EQC_INVALID_SHIELD_BUNDLE
       else Inr ()) (\<lambda>_.
     bind_r (verify_shield_orchestrator_receipt (PDict raw) h (ev_request_id req)
       (rp_rejected_shield_receipt_hashes pol)) (\<lambda>res.
     let shield_ev = runtime_evidence_from_shield_receipt res h in
     if \<not> re_accepted_as_evidence shield_ev then return_r (deny_by_engine r (final_policy_v2 h shield_ev
           (runtime_evidence_accepted ''wsqk_v2:not_reached_before_shield_receipt_reject'' h)
           (qid_evidence r session) (oracle_evidence ac)
           (local_ok ''replay'') (local_ok ''wallet_policy'') (local_ok ''human''))
         (evidence_flags (vr_protected r) True True False)
         (Some (shield_runtime_boundary_artifact pol res ''receipt_rejected_at_orchestrator_only_boundary'')) False)
     else bind_r (shield_bundle_from_verified_receipt res (ev_issued_at req) (ev_expires_at req)) (\<lambda>shield.
       Inr (Continue (shield, shield_ev,
         shield_runtime_boundary_artifact pol res ''receipt_verified_runtime_route_wired''))))))"

definition stage_shield_bundle :: "v2_run \<Rightarrow> qid_session_proof \<Rightarrow> adaptive_core_oracle_v3
    \<Rightarrow> pyexc + (pydict, shield_outcome) stage" where
  "stage_shield_bundle r session ac = (let h = run_hash r in
     bind_stage (try_adapter (parse_shield_bundle_v3 (PDict (ev_evidence_shield (vr_req r))) h (vr_map r)
       (vr_registry r) True) (\<lambda>rid msg.
     deny_by_engine r (final_policy_v2 h
         (runtime_evidence_rejected ''shield:bundle_rejected'' h (map_shield_adapter_reason rid))
         (runtime_evidence_accepted ''wsqk_v2:not_reached_before_shield_reject'' h)
         (qid_evidence r session) (oracle_evidence ac)
         (local_ok ''replay'') (local_ok ''wallet_policy'') (local_ok ''human''))
       (evidence_flags (vr_protected r) True True False)
       (Some [(''shield_adapter_reason'', PStr (reason_value rid)), (''shield_adapter_message'', PStr msg)])
       False)) (\<lambda>shield.
     Inr (Continue (shield, runtime_evidence_accepted (''shield:'' @ sb_bundle_id shield)
       (sb_context_hash shield), []))))"

definition stage_shield_layers :: "v2_run \<Rightarrow> qid_session_proof \<Rightarrow> adaptive_core_oracle_v3 \<Rightarrow> shield_outcome
    \<Rightarrow> pyexc + (pydict, shield_outcome) stage" where
  "stage_shield_layers r session ac out = (case out of (shield, _) \<Rightarrow>
    (let h = run_hash r; got = sb_required_layers shield in
     if got = REQUIRED_SHIELD_LAYERS_V3 then Inr (Continue out)
     else return_r (deny_by_engine r (final_policy_v2 h
           (runtime_evidence_rejected (''shield:'' @ sb_bundle_id shield @ '':required_layers'')
             (sb_context_hash shield) EQC_INVALID_SHIELD_BUNDLE)
           (runtime_evidence_accepted ''wsqk_v2:not_reached_before_shield_layer_reject'' h)
           (qid_evidence r session) (oracle_evidence ac)
           (local_ok ''replay'') (local_ok ''wallet_policy'') (local_ok ''human''))
         (evidence_flags (vr_protected r) True True False)
         (Some [(''shield_required_layers_expected'', PList (map PStr REQUIRED_SHIELD_LAYERS_V3)),
           (''shield_required_layers_got'', PList (map PStr got)),
           (''shield_required_layers_missing'',
              PList (map PStr (filter (\<lambda>x. x \<notin> set got) REQUIRED_SHIELD_LAYERS_V3))),
           (''shield_required_layers_extra'',
              PList (map PStr (filter (\<lambda>x. x \<notin> set REQUIRED_SHIELD_LAYERS_V3) got)))]) False)))"

definition stage_shield :: "v2_run \<Rightarrow> evidence_verifier option \<Rightarrow> qid_session_proof
    \<Rightarrow> adaptive_core_oracle_v3 \<Rightarrow> pyexc + (pydict, shield_outcome) stage" where
  "stage_shield r shield_verifier session ac =
     bind_stage (if rp_shield_runtime_boundary (vr_pol r) = ORCHESTRATOR_RECEIPT_V3_2
       then stage_shield_receipt r shield_verifier session ac
       else stage_shield_bundle r session ac)
     (stage_shield_layers r session ac)"

definition stage_eqc :: "v2_run \<Rightarrow> int \<Rightarrow> qid_session_proof \<Rightarrow> adaptive_core_oracle_v3 \<Rightarrow> shield_outcome
    \<Rightarrow> pyexc + (pydict, eqc_result) stage" where
  "stage_eqc r now session ac out = (case out of (shield, shield_ev, artifact) \<Rightarrow>
    (let h = run_hash r; cx = ev_context (vr_req r) in
     bind_r (fst (evaluate_eqc_v2 (cx_wallet_id cx) (cx_action cx) (vr_fields r) (Some session) (Some ac)
       (Some shield) (Some now) (Some (vr_pol r)) None)) (\<lambda>eqc.
     if eq_verdict eqc = ALLOW then Inr (Continue eqc)
     else let rid = coerce_reason_id (case eq_reason_ids eqc of s # _ \<Rightarrow> s | [] \<Rightarrow> reason_value DENY_SCHEMA_INVALID) in
       return_r (deny_by_engine r (final_policy_v2 h shield_ev
           (runtime_evidence_accepted ''wsqk_v2:not_reached_before_eqc_deny'' h)
           (qid_evidence r session) (oracle_evidence ac)
           (local_ok ''replay'') (local_reject ''wallet_policy'' rid) (local_ok ''human''))
         (evidence_flags (vr_protected r) True True True)
         (Some (dict_update [(''evidence'', PDict [(''qid'', PBool True), (''oracle'', PBool True),
           (''shield'', PBool True)])] artifact)) False))))"

definition stage_wsqk :: "v2_run \<Rightarrow> qid_session_proof \<Rightarrow> adaptive_core_oracle_v3 \<Rightarrow> shield_outcome
    \<Rightarrow> pyexc + (pydict, authority) stage" where
  "stage_wsqk r session ac out = (case out of (shield, shield_ev, artifact) \<Rightarrow>
    (let h = run_hash r; req = vr_req r; cx = ev_context req in
     case extract_wsqk_authority (cx_wallet_id cx) (cx_action cx) h (ev_nonce_value req)
       (ev_issued_at req) (ev_expires_at req) (ev_authority_proofs req) of
       Some au \<Rightarrow> Inr (Continue au)
     | None \<Rightarrow> return_r (deny_by_engine r (final_policy_v2 h shield_ev
           (runtime_evidence_rejected ''wsqk_v2:authority_proof_rejected'' h DENY_AUTHORITY_INVALID)
           (qid_evidence r session) (oracle_evidence ac)
           (local_ok ''replay'') (local_ok ''wallet_policy'') (local_ok ''human''))
         ((evidence_flags (vr_protected r) True True True)\<lparr>fl_eqc_allowed := True\<rparr>)
         (Some (dict_update [(''error'', PStr ''wsqk authority rejected'')] artifact)) True)))"

text \<open>The replay gate: a \<open>TVAError\<close> is its failure, any other exception passes.\<close>

definition replay_gate :: "pyexc + string \<Rightarrow> pyexc + (local_gate_result option \<times> bool)" where
  "replay_gate res = (case res of
     Inr _ \<Rightarrow> Inr (local_ok ''replay'', True)
   | Inl (TVAError msg) \<Rightarrow> Inr (local_reject ''replay'' (reason_from_message msg), False)
   | Inl e \<Rightarrow> Inl e)"

definition exec_request :: "v2_run \<Rightarrow> execution_request" where
  "exec_request r = \<lparr>xr_wallet_id = cx_wallet_id (ev_context (vr_req r)),
     xr_action = cx_action (ev_context (vr_req r)), xr_payload = ''opaque''\<rparr>"

definition allow_response :: "v2_run \<Rightarrow> string \<Rightarrow> pydict \<Rightarrow> pyexc + pydict" where
  "allow_response r executor_result artifact = build_execution_response_v2
     (request_args (vr_req r) (vr_pol r) \<lparr>fl_protected = vr_protected r, fl_qid_ok = True, fl_oracle_ok = True,
       fl_shield_ok = True, fl_tva_allowed = True, fl_eqc_allowed = True, fl_wsqk_allowed = True,
       fl_nonce_consumed = True\<rparr> ''allow'' OK_ALLOW
       (Some (dict_update [(''executor_result'', PStr executor_result)] artifact)))"

text \<open>The final decision on all evidence, with the replay gate just obtained.\<close>

definition final_decision :: "v2_run \<Rightarrow> pydict \<Rightarrow> qid_session_proof \<Rightarrow> adaptive_core_oracle_v3 \<Rightarrow> shield_outcome
    \<Rightarrow> authority \<Rightarrow> local_gate_result option \<Rightarrow> pyexc + fp_result" where
  "final_decision r p session ac out au replay = (case out of (shield, shield_ev, artifact) \<Rightarrow>
    (let h = run_hash r; payload_body = map_or_empty (dget (map_or_empty (dget p ''payload'')) ''body'') in
     final_policy_v2 h shield_ev
       (runtime_evidence_accepted ''wsqk_v2:authority_proof'' (au_context_hash (auth_base au)))
       (qid_evidence r session) (oracle_evidence ac)
       replay (local_ok ''wallet_policy'') (bound_human_confirmation_gate payload_body (vr_fields r))))"

definition stage_execute :: "'s check_and_mark \<Rightarrow> 'x executor \<Rightarrow> v2_run \<Rightarrow> pydict \<Rightarrow> int \<Rightarrow> qid_session_proof
    \<Rightarrow> adaptive_core_oracle_v3 \<Rightarrow> shield_outcome \<Rightarrow> eqc_result \<Rightarrow> authority \<Rightarrow> 's option \<Rightarrow> 'x
    \<Rightarrow> (pyexc + pydict) \<times> 's option \<times> 'x" where
  "stage_execute cam execute r p now session ac out eqc au store x =
    (let (tva, store') = run_with_tva_v2 cam (ev_context (vr_req r)) (eq_verdict eqc) au now
        (vr_families r) (vr_posture r) store in
     case replay_gate tva of Inl e \<Rightarrow> (Inl e, store', x) | Inr (replay, tva_ok) \<Rightarrow>
     case final_decision r p session ac out au replay of Inl e \<Rightarrow> (Inl e, store', x) | Inr fp \<Rightarrow>
     if fp_state fp \<noteq> ALLOW_FINAL_ADAMANTINEOS_DECISION
       then (final_policy_denied_response_v2 (vr_req r) (vr_pol r) fp
         \<lparr>fl_protected = vr_protected r, fl_qid_ok = tva_ok, fl_oracle_ok = tva_ok, fl_shield_ok = tva_ok,
          fl_tva_allowed = tva_ok, fl_eqc_allowed = True, fl_wsqk_allowed = True, fl_nonce_consumed = tva_ok\<rparr>
         (Some (snd (snd out))) True, store', x)
     else case execute (exec_request r) x of
       (Inl e, x') \<Rightarrow> (Inl e, store', x')
     | (Inr result, x') \<Rightarrow> (allow_response r result (snd (snd out)), store', x'))"

section \<open>The orchestrator\<close>

text \<open>The injected dependencies.\<close>

record verifiers =
  vf_qid :: "(pydict \<Rightarrow> pyexc + unit) option"
  vf_shield :: "evidence_verifier option"
  vf_oracle :: "evidence_verifier option"

text \<open>The stages before anything is changed: all the evidence the decision rests on.\<close>

type_synonym v2_evidence =
  "v2_run \<times> qid_session_proof \<times> adaptive_core_oracle_v3 \<times> shield_outcome \<times> eqc_result \<times> authority"

definition gather_evidence :: "verifiers \<Rightarrow> pydict \<Rightarrow> int \<Rightarrow> risk_policy option
    \<Rightarrow> pyexc + (pydict, v2_evidence) stage" where
  "gather_evidence vf p now policy =
     bind_stage (stage_policy p now policy) (\<lambda>r.
     bind_stage (stage_qid r (vf_qid vf) now) (\<lambda>session.
     bind_stage (stage_qid_replay r session) (\<lambda>_.
     bind_stage (stage_oracle r (vf_oracle vf) now session) (\<lambda>ac.
     bind_stage (stage_shield r (vf_shield vf) session ac) (\<lambda>out.
     bind_stage (stage_eqc r now session ac out) (\<lambda>eqc.
     bind_stage (stage_wsqk r session ac out) (\<lambda>au.
     Inr (Continue (r, session, ac, out, eqc, au)))))))))"

text \<open>The \<open>try\<close> body.\<close>

definition orchestrate_body :: "'s check_and_mark \<Rightarrow> 'x executor \<Rightarrow> verifiers \<Rightarrow> pydict \<Rightarrow> int
    \<Rightarrow> risk_policy option \<Rightarrow> 's option \<Rightarrow> 'x \<Rightarrow> (pyexc + pydict) \<times> 's option \<times> 'x" where
  "orchestrate_body cam execute vf p now policy store x =
    (case gather_evidence vf p now policy of
       Inl e \<Rightarrow> (Inl e, store, x)
     | Inr (Return resp) \<Rightarrow> (Inr resp, store, x)
     | Inr (Continue (r, session, ac, out, eqc, au)) \<Rightarrow>
         stage_execute cam execute r p now session ac out eqc au store x)"

text \<open>The handlers: the arguments read again from the raw payload.\<close>

definition handler_args :: "pydict \<Rightarrow> string \<Rightarrow> reason_id \<Rightarrow> bool \<Rightarrow> bool \<Rightarrow> string \<Rightarrow> response_v2_args" where
  "handler_args p status rid gates timebox error =
    \<lparr>r2_request_id = safe_str (dget p ''request_id'') ''invalid-request'',
     r2_intent = safe_str (dget p ''intent'') ''unknown'',
     r2_action = safe_str (dget (map_or_empty (dget p ''context'')) ''action'') ''invalid-action'',
     r2_context_hash = zero_hash, r2_status = status, r2_reason_id = rid,
     r2_protection_mode = compute_protection_mode False False False False,
     r2_tva_allowed = False, r2_eqc_allowed = gates, r2_wsqk_allowed = gates, r2_issued_at = 0,
     r2_expires_at = 0, r2_max_skew_seconds = 0, r2_timebox_valid = timebox,
     r2_nonce_store = ''unknown'', r2_nonce_value = ''unknown'', r2_nonce_consumed = False,
     r2_qid_present = False, r2_qid_valid = False, r2_shield_present = False, r2_shield_valid = False,
     r2_oracle_present = False, r2_oracle_valid = False,
     r2_policy_mode = resilience_mode_value (rp_resilience_mode default_risk_policy),
     r2_override_allowed = False, r2_policy_reason_id = rid,
     r2_artifacts = Some [(''error'', PStr error)]\<rparr>"

definition handle_adapter_error :: "pydict \<Rightarrow> reason_id \<Rightarrow> string \<Rightarrow> pyexc + pydict" where
  "handle_adapter_error p rid msg =
     build_execution_response_v2 (handler_args p ''deny'' rid False True msg)"

definition handle_tva_error :: "pydict \<Rightarrow> string \<Rightarrow> pyexc + pydict" where
  "handle_tva_error p msg =
     build_execution_response_v2 (handler_args p ''deny'' (reason_from_message msg) True True msg)"

definition handle_envelope_error :: "pydict \<Rightarrow> reason_id \<Rightarrow> string \<Rightarrow> pyexc + pydict" where
  "handle_envelope_error p rid msg =
     build_execution_response_v2 (handler_args p ''error'' rid False False msg)"

definition handle_other_error :: "pydict \<Rightarrow> pyexc \<Rightarrow> pyexc + pydict" where
  "handle_other_error p e =
     build_execution_response_v2 (handler_args p ''error'' DENY_SCHEMA_INVALID False False (exc_str e))"

definition handle_error_v2 :: "pydict \<Rightarrow> pyexc \<Rightarrow> pyexc + pydict" where
  "handle_error_v2 p e = (case e of
     AdapterError rid msg \<Rightarrow> handle_adapter_error p rid msg
   | TVAError msg \<Rightarrow> handle_tva_error p msg
   | EnvelopeError rid msg \<Rightarrow> handle_envelope_error p rid msg
   | _ \<Rightarrow> handle_other_error p e)"

definition orchestrate_execution_v2 :: "'s check_and_mark \<Rightarrow> 'x executor \<Rightarrow> verifiers \<Rightarrow> pyval \<Rightarrow> int
    \<Rightarrow> risk_policy option \<Rightarrow> 's option \<Rightarrow> 'x \<Rightarrow> (pyexc + pydict) \<times> 's option \<times> 'x" where
  "orchestrate_execution_v2 cam execute vf payload now policy store x =
    (let p = map_or_empty payload in
     case orchestrate_body cam execute vf p now policy store x of
       (Inr resp, store', x') \<Rightarrow> (Inr resp, store', x')
     | (Inl e, store', x') \<Rightarrow> (handle_error_v2 p e, store', x'))"

section \<open>The runtime host\<close>

text \<open>\<open>src/adamantine/v2/runtime_host/host.py\<close>: the thin wrapper and its object.\<close>

definition run_mobile_execution_call_v2 :: "'s check_and_mark \<Rightarrow> 'x executor \<Rightarrow> verifiers \<Rightarrow> pyval \<Rightarrow> pyval
    \<Rightarrow> risk_policy option \<Rightarrow> 's option \<Rightarrow> 'x \<Rightarrow> (pyexc + pydict) \<times> 's option \<times> 'x" where
  "run_mobile_execution_call_v2 cam execute vf payload now policy store x =
    (case now of
       PInt t \<Rightarrow> orchestrate_execution_v2 cam execute vf payload t policy store x
     | _ \<Rightarrow> (Inl (TypeError ''now must be int (unix seconds)''), store, x))"

record ('s, 'x) runtime_host_v2 =
  rh_executor :: 'x
  rh_nonce_store :: "'s option"
  rh_policy :: "risk_policy option"
  rh_verifiers :: verifiers

definition host_handle :: "'s check_and_mark \<Rightarrow> 'x executor \<Rightarrow> ('s, 'x) runtime_host_v2 \<Rightarrow> pyval \<Rightarrow> pyval
    \<Rightarrow> (pyexc + pydict) \<times> ('s, 'x) runtime_host_v2" where
  "host_handle cam execute host payload now =
    (let (resp, store', x') = run_mobile_execution_call_v2 cam execute (rh_verifiers host) payload now
        (rh_policy host) (rh_nonce_store host) (rh_executor host)
     in (resp, host\<lparr>rh_nonce_store := store', rh_executor := x'\<rparr>))"

section \<open>The evidence, declaratively\<close>

definition verifier_consents :: "evidence_verifier option \<Rightarrow> pydict \<Rightarrow> string \<Rightarrow> bool" where
  "verifier_consents v payload h \<longleftrightarrow> (\<exists>f. v = Some f \<and> f payload h = Inr ())"

definition qid_authentic :: "(pydict \<Rightarrow> pyexc + unit) option \<Rightarrow> pydict \<Rightarrow> bool" where
  "qid_authentic v evidence \<longleftrightarrow> (case v of None \<Rightarrow> \<not> is_qid_v2_login_evidence evidence | Some f \<Rightarrow> f evidence = Inr ())"

text \<open>What the first stage establishes about the request and the policy.\<close>

definition run_ok :: "pydict \<Rightarrow> int \<Rightarrow> risk_policy option \<Rightarrow> v2_run \<Rightarrow> bool" where
  "run_ok p now policy r \<longleftrightarrow> parse_envelope_v2 (PDict p) now = Inr (vr_req r) \<and>
     vr_fields r = extract_fields p \<and> vr_pol r = effective_policy policy \<and>
     vr_protected r = protected_call_requested (ev_authority_proofs (vr_req r)) \<and>
     extract_wsqk_v2_runtime_requirements (ev_authority_scope (vr_req r)) = Inr (vr_families r, vr_posture r) \<and>
     validate_risk_policy (vr_pol r) = Inr () \<and>
     (vr_protected r \<or> \<not> rp_require_protected_call (vr_pol r) \<and> \<not> rp_require_full_mode (vr_pol r)) \<and>
     build_mandatory_reason_registry (vr_pol r) = Inr (vr_registry r) \<and>
     vr_map r = default_reason_map_of (vr_pol r)"

definition qid_ok :: "(pydict \<Rightarrow> pyexc + unit) option \<Rightarrow> int \<Rightarrow> v2_run \<Rightarrow> qid_session_proof \<Rightarrow> bool" where
  "qid_ok v now r session \<longleftrightarrow> (let req = vr_req r; e = ev_evidence_qid req in
     qid_authentic v e \<and> parse_qid_session (PDict e) now = Inr session \<and>
     (vr_protected r \<and> rp_require_qid_replay_proof (vr_pol r) \<longrightarrow>
       (\<exists>q. parse_qid_replay_proof (PDict e) (cx_wallet_id (ev_context req)) (qs_subject session)
          (qs_proof_hash session) (qs_device_binding session) (ev_nonce_value req) True = Inr q)))"

definition oracle_ok :: "evidence_verifier option \<Rightarrow> int \<Rightarrow> v2_run \<Rightarrow> adaptive_core_oracle_v3 \<Rightarrow> bool" where
  "oracle_ok v now r ac \<longleftrightarrow> (let raw = ev_evidence_oracle (vr_req r) in
     (rp_require_authenticated_external_evidence (vr_pol r) \<longrightarrow> verifier_consents v raw (run_hash r)) \<and>
     parse_adaptive_core_oracle_v3 (PDict raw) now (run_hash r) (Some (vr_map r)) (Some (vr_registry r))
       (Some (vr_pol r)) = Inr ac)"

definition shield_ok :: "evidence_verifier option \<Rightarrow> v2_run \<Rightarrow> shield_outcome \<Rightarrow> bool" where
  "shield_ok v r out \<longleftrightarrow> (case out of (shield, shield_ev, artifact) \<Rightarrow>
    (let h = run_hash r; req = vr_req r; pol = vr_pol r; raw = ev_evidence_shield req in
     sb_required_layers shield = REQUIRED_SHIELD_LAYERS_V3 \<and>
     (if rp_shield_runtime_boundary pol = ORCHESTRATOR_RECEIPT_V3_2 then
        (rp_require_authenticated_external_evidence pol \<longrightarrow> verifier_consents v raw h) \<and>
        (\<exists>res. verify_shield_orchestrator_receipt (PDict raw) h (ev_request_id req)
             (rp_rejected_shield_receipt_hashes pol) = Inr res \<and> receipt_accepted res \<and>
           shield_bundle_from_verified_receipt res (ev_issued_at req) (ev_expires_at req) = Inr shield \<and>
           shield_ev = runtime_evidence_from_shield_receipt res h \<and>
           artifact = shield_runtime_boundary_artifact pol res ''receipt_verified_runtime_route_wired'')
      else parse_shield_bundle_v3 (PDict raw) h (vr_map r) (vr_registry r) True = Inr shield \<and>
        shield_ev = runtime_evidence_accepted (''shield:'' @ sb_bundle_id shield) (sb_context_hash shield) \<and>
        artifact = [])))"

definition eqc_ok :: "int \<Rightarrow> v2_run \<Rightarrow> qid_session_proof \<Rightarrow> adaptive_core_oracle_v3 \<Rightarrow> shield_bundle_v3
    \<Rightarrow> eqc_result \<Rightarrow> bool" where
  "eqc_ok now r session ac shield eqc \<longleftrightarrow> eq_verdict eqc = ALLOW \<and>
     fst (evaluate_eqc_v2 (cx_wallet_id (ev_context (vr_req r))) (cx_action (ev_context (vr_req r)))
       (vr_fields r) (Some session) (Some ac) (Some shield) (Some now) (Some (vr_pol r)) None) = Inr eqc"

definition wsqk_ok :: "v2_run \<Rightarrow> authority \<Rightarrow> bool" where
  "wsqk_ok r au \<longleftrightarrow> extract_wsqk_authority (cx_wallet_id (ev_context (vr_req r))) (cx_action (ev_context (vr_req r)))
     (run_hash r) (ev_nonce_value (vr_req r)) (ev_issued_at (vr_req r)) (ev_expires_at (vr_req r))
     (ev_authority_proofs (vr_req r)) = Some au"

definition evidence_ok :: "verifiers \<Rightarrow> pydict \<Rightarrow> int \<Rightarrow> risk_policy option \<Rightarrow> v2_evidence \<Rightarrow> bool" where
  "evidence_ok vf p now policy ev \<longleftrightarrow> (case ev of (r, session, ac, out, eqc, au) \<Rightarrow>
     run_ok p now policy r \<and> qid_ok (vf_qid vf) now r session \<and> oracle_ok (vf_oracle vf) now r ac \<and>
     shield_ok (vf_shield vf) r out \<and> eqc_ok now r session ac (fst out) eqc \<and> wsqk_ok r au)"

section \<open>The stages establish it\<close>

lemma bind_stage_Continue [res_simps]:
  "bind_stage m f = Inr (Continue y) \<longleftrightarrow> (\<exists>x. m = Inr (Continue x) \<and> f x = Inr (Continue y))"
  by (auto simp: bind_stage_def split: sum.splits stage.splits)

lemma return_r_Continue [simp]: "return_r m \<noteq> Inr (Continue x)"
  by (cases m) (simp_all add: return_r_def)

lemma if_return_r_Continue [res_simps]:
  "(if c then return_r m else n) = Inr (Continue x) \<longleftrightarrow> \<not> c \<and> n = Inr (Continue x)"
  "(if c then n else return_r m) = Inr (Continue x) \<longleftrightarrow> c \<and> n = Inr (Continue x)"
  by simp_all

lemma case_return_r_Continue [res_simps]:
  "(case m of Inl e \<Rightarrow> return_r (h e) | Inr y \<Rightarrow> g y) = Inr (Continue x) \<longleftrightarrow>
     (\<exists>y. m = Inr y \<and> g y = Inr (Continue x))"
  by (cases m) simp_all

lemma try_adapter_Continue [res_simps]: "try_adapter m h = Inr (Continue x) \<longleftrightarrow> m = Inr x"
  by (auto simp: try_adapter_def split: sum.splits pyexc.splits)

lemma call_verifier_ok [res_simps]:
  "call_external_evidence_verifier v payload h b m i = Inr u \<longleftrightarrow> verifier_consents v payload h"
  by (auto simp: call_external_evidence_verifier_def verifier_consents_def ad_fail_def
      split: option.splits sum.splits pyexc.splits)

lemma stage_policy_ok: "stage_policy p now policy = Inr (Continue r) \<longleftrightarrow> run_ok p now policy r"
  unfolding stage_policy_def run_ok_def Let_def
  by (cases r) (auto simp: res_simps)

lemma stage_qid_ok:
  "stage_qid r v now = Inr (Continue session) \<and> stage_qid_replay r session = Inr (Continue ()) \<longleftrightarrow>
     qid_ok v now r session"
  unfolding stage_qid_def stage_qid_replay_def qid_ok_def qid_authentic_def Let_def check_qid_evidence_def
  by (auto simp: res_simps ad_fail_def split: option.splits sum.splits pyexc.splits)

lemma stage_oracle_ok: "stage_oracle r v now session = Inr (Continue ac) \<longleftrightarrow> oracle_ok v now r ac"
  by (auto simp: stage_oracle_def oracle_ok_def Let_def res_simps)

lemma accepted_receipt [simp]:
  "re_accepted_as_evidence (runtime_evidence_from_shield_receipt res h) \<longleftrightarrow> receipt_accepted res"
  by (simp add: runtime_evidence_from_shield_receipt_def Let_def)

lemma stage_shield_ok: "stage_shield r v session ac = Inr (Continue out) \<longleftrightarrow> shield_ok v r out"
  by (cases out)
    (auto simp: stage_shield_def stage_shield_receipt_def stage_shield_bundle_def stage_shield_layers_def
      shield_ok_def Let_def res_simps)

lemma stage_eqc_ok: "stage_eqc r now session ac out = Inr (Continue eqc) \<longleftrightarrow> eqc_ok now r session ac (fst out) eqc"
  by (cases out) (auto simp: stage_eqc_def eqc_ok_def Let_def res_simps)

lemma stage_wsqk_ok: "stage_wsqk r session ac out = Inr (Continue au) \<longleftrightarrow> wsqk_ok r au"
  by (cases out) (auto simp: stage_wsqk_def wsqk_ok_def Let_def split: option.splits)

lemma gather_evidence_ok:
  "gather_evidence vf p now policy = Inr (Continue ev) \<longleftrightarrow> evidence_ok vf p now policy ev"
proof -
  obtain r session ac out eqc au where e: "ev = (r, session, ac, out, eqc, au)" by (cases ev)
  obtain sh sev art where o: "out = (sh, sev, art)" by (cases out)
  note ev = e[unfolded o]
  have "gather_evidence vf p now policy = Inr (Continue ev) \<longleftrightarrow> run_ok p now policy r \<and>
      (stage_qid r (vf_qid vf) now = Inr (Continue session) \<and>
        stage_qid_replay r session = Inr (Continue ())) \<and>
      oracle_ok (vf_oracle vf) now r ac \<and> shield_ok (vf_shield vf) r (sh, sev, art) \<and>
      eqc_ok now r session ac sh eqc \<and> wsqk_ok r au"
    by (auto simp: gather_evidence_def ev res_simps stage_policy_ok stage_oracle_ok stage_shield_ok
        stage_eqc_ok stage_wsqk_ok)
  then show ?thesis unfolding stage_qid_ok by (simp add: evidence_ok_def ev)
qed

section \<open>The final decision on that evidence\<close>

lemma safe_str_ne [simp]: "f \<noteq> [] \<Longrightarrow> safe_str v f \<noteq> []"
  by (auto simp: safe_str_def split: pyval.splits)

lemma length_zero_hash [simp]: "length zero_hash = 64"
  by (simp add: zero_hash_def)

lemma protection_mode_ok [simp]: "compute_protection_mode a b c d \<in> set protection_modes"
  by (simp add: compute_protection_mode_def protection_modes_def)

lemma handler_args_total:
  "status \<in> {''deny'', ''error''} \<Longrightarrow>
     \<exists>resp. build_execution_response_v2 (handler_args p status rid gates tb msg) = Inr resp"
  unfolding build_v2_total by (auto simp: handler_args_def response_args_ok_def response_statuses_def)

lemma handle_error_v2_args:
  "\<exists>status rid gates tb msg.
     handle_error_v2 p e = build_execution_response_v2 (handler_args p status rid gates tb msg) \<and>
     status \<in> {''deny'', ''error''}"
  by (cases e; simp only: handle_error_v2_def pyexc.case handle_adapter_error_def handle_tva_error_def
      handle_envelope_error_def handle_other_error_def; (intro exI conjI, rule refl, simp))

lemma handle_error_v2_total: "\<exists>resp. handle_error_v2 p e = Inr resp"
  using handle_error_v2_args[of p e] handler_args_total by metis

lemma handle_error_v2_response:
  assumes "handle_error_v2 p e = Inr resp"
  shows "\<not> response_allowed resp \<and> \<not> response_nonce_consumed resp"
proof -
  obtain status rid gates tb msg where b: "status \<in> {''deny'', ''error''}"
    "build_execution_response_v2 (handler_args p status rid gates tb msg) = Inr resp"
    using handle_error_v2_args[of p e] assms by metis
  show ?thesis using build_v2_allowed[OF b(2)] b(1) by (auto simp: handler_args_def)
qed

lemma evidence_gates_total: "\<exists>f. run_evidence_gates gs visited h False = Inr f"
proof (induction gs visited h False rule: run_evidence_gates.induct)
  case (2 gate ev gates visited expected)
  have "\<exists>f. evaluate_evidence_gate gate ev (visited @ [gate]) expected False = Inr f"
    by (simp add: evaluate_evidence_gate_def)
  then obtain f where "evaluate_evidence_gate gate ev (visited @ [gate]) expected False = Inr f" by blast
  then show ?case using 2 by (cases f) (simp_all del: evidence_gate_pass)
qed simp

lemma final_policy_v2_total: "\<exists>fp. final_policy_v2 h sh w q ac rep wal hum = Inr fp"
proof -
  obtain f where "run_evidence_gates (evidence_gates
     \<lparr>in_shield = evidence_of sh, in_wsqk_v2 = evidence_of w, in_qid = evidence_of q,
     in_adaptive_core = evidence_of ac,
     in_ai_gateway = evidence_of (runtime_evidence_accepted AI_GATEWAY_V2_RUNTIME_ADVISORY_SOURCE h),
     in_replay = rep, in_wallet_policy = wal, in_human = hum\<rparr>) [] h False = Inr f"
    using evidence_gates_total by blast
  then show ?thesis by (auto simp: final_policy_v2_def evaluate_final_policy_engine_def split: option.splits)
qed

lemma contains_forbidden_strs [simp]: "\<not> contains_forbidden_list (map PStr xs)"
  by (induction xs) simp_all

lemma opt_val_clean [simp]: "\<not> contains_forbidden (opt_val s)"
  by (cases s) (simp_all add: opt_val_def)

text \<open>Runtime evidence passes its gate exactly when it is accepted, bound and not up for review.\<close>

lemma evidence_of_gate:
  "evidence_gate_ok g (evidence_of e) h False \<longleftrightarrow> re_accepted_as_evidence e \<and> \<not> re_final_approval e \<and>
     re_handoff_allowed e \<and> re_context_hash e = h \<and>
     ''HUMAN_REVIEW_REQUIRED'' \<notin> {re_state e, re_outcome e} \<and> re_final_outcome e \<noteq> Some ''HUMAN_REVIEW_REQUIRED''"
  by (auto simp: evidence_gate_ok_def evidence_of_def dget_default_def truthy_authority_value_def py_in_def
      indicates_human_review_def FORBIDDEN_AUTHORITY_KEYS_def ALLOWED_NORMALIZED_AUTHORITY_FIELDS_def
      num_eq_def num_ratio_def opt_val_def split: option.splits)

lemma boundary_evidence_gate [simp]:
  "evidence_gate_ok g (evidence_of (runtime_evidence_accepted s h')) h False \<longleftrightarrow> h' = h"
  "\<not> evidence_gate_ok g (evidence_of (runtime_evidence_rejected s h' rid)) h False"
  by (simp_all add: evidence_of_gate runtime_evidence_accepted_def runtime_evidence_rejected_def
      runtime_evidence_from_boundary_def)

lemma local_gates_simps [simp]:
  "local_gate_ok g (local_ok g') \<longleftrightarrow> g' = g" "\<not> local_gate_ok g (local_reject g' rid)"
  by (auto simp: local_gate_ok_def local_ok_def local_reject_def)

lemma final_policy_v2_allow:
  assumes "final_policy_v2 h sh w q ac rep wal hum = Inr fp" "is_sha256_hex h"
  shows "fp_state fp = ALLOW_FINAL_ADAMANTINEOS_DECISION \<longleftrightarrow>
    evidence_gate_ok ''shield'' (evidence_of sh) h False \<and> evidence_gate_ok ''wsqk_v2'' (evidence_of w) h False \<and>
    evidence_gate_ok ''qid'' (evidence_of q) h False \<and> evidence_gate_ok ''adaptive_core'' (evidence_of ac) h False \<and>
    local_gate_ok ''replay'' rep \<and> local_gate_ok ''wallet_policy'' wal \<and> local_gate_ok ''human'' hum"
    (is "_ \<longleftrightarrow> ?R")
proof -
  let ?i = "\<lparr>in_shield = evidence_of sh, in_wsqk_v2 = evidence_of w, in_qid = evidence_of q,
     in_adaptive_core = evidence_of ac,
     in_ai_gateway = evidence_of (runtime_evidence_accepted AI_GATEWAY_V2_RUNTIME_ADVISORY_SOURCE h),
     in_replay = rep, in_wallet_policy = wal, in_human = hum\<rparr>"
  have e: "evaluate_final_policy_engine ?i h False = Inr fp" using assms(1) by (simp add: final_policy_v2_def)
  have "fp_state fp = ALLOW_FINAL_ADAMANTINEOS_DECISION \<longleftrightarrow> fp_all_ok ?i h False"
  proof (cases "fp_all_ok ?i h False")
    case True
    then show ?thesis using final_policy_allow[OF True] e by (simp add: fp_final_allow_def)
  next
    case False
    then show ?thesis using final_policy_stop[OF e False] by (simp add: fp_stop_def)
  qed
  also have "\<dots> \<longleftrightarrow> ?R"
    using assms(2) by (simp add: fp_all_ok_def evidence_gates_def local_gates_def EVIDENCE_GATE_ORDER_def LOCAL_GATE_ORDER_def)
  finally show ?thesis .
qed

lemma envelope_v2_hash_hex:
  assumes "parse_envelope_v2 payload now = Inr req"
  shows "is_sha256_hex (cx_context_hash (ev_context req))"
proof -
  obtain v where "parse_context require_nonempty_str_v2 check_field_v2 v = Inr (ev_context req)"
    using assms unfolding parse_envelope_v2_def by (auto simp: res_simps split: prod.splits)
  then show ?thesis
    using parse_context_v2_ok compute_context_hash_hex unfolding context_of_fields_def by blast
qed

lemma extract_wsqk_bound:
  assumes "extract_wsqk_authority w a h n i e proofs = Some au"
  shows "au_wallet_id (auth_base au) = w \<and> au_action (auth_base au) = a \<and> au_context_hash (auth_base au) = h \<and>
    au_nonce (auth_base au) = n \<and> au_issued_at (auth_base au) = i \<and> au_expires_at (auth_base au) = e"
  using assms unfolding extract_wsqk_authority_def
  by (auto split: option.splits pyval.splits if_splits)

lemma receipt_evidence_gate:
  assumes "verify_shield_orchestrator_receipt v h rid rej = Inr res" "receipt_accepted res"
  shows "evidence_gate_ok g (evidence_of (runtime_evidence_from_shield_receipt res h')) h False"
proof -
  have st: "rv_state res = VERIFIED_ALLOW_EVIDENCE_CONTINUE_CHECKS" using assms(2) by (simp add: receipt_accepted_def)
  obtain r where r: "rv_handoff_allowed res" "rv_context_hash res = Some h" "rv_receipt res = Some r"
    "dget r ''final_outcome'' = PStr ''ALLOW''"
    using verify_allow[OF assms(1) st] by (auto simp: allow_evidence_def)
  have "rv_final_outcome res = Some ''ALLOW''"
    using assms(1) st r(3,4) classify_base_error_not_allow
    by (auto simp: verify_shield_orchestrator_receipt_def rv_rejected_def Let_def str_of_def
        split: sum.splits receipt_error.splits prod.splits if_splits)
  then show ?thesis using assms(2) st r
    by (simp add: evidence_of_gate runtime_evidence_from_shield_receipt_def Let_def)
qed

lemma shield_ok_gate:
  assumes "shield_ok v r (shield, shield_ev, artifact)" "validate_reason_map (vr_map r) = Inr ()"
  shows "evidence_gate_ok g (evidence_of shield_ev) (run_hash r) False"
proof (cases "rp_shield_runtime_boundary (vr_pol r) = ORCHESTRATOR_RECEIPT_V3_2")
  case True
  then show ?thesis using assms(1) receipt_evidence_gate by (auto simp: shield_ok_def Let_def)
next
  case False
  then show ?thesis using assms(1)
    by (auto simp: shield_ok_def Let_def bundle_evidence_def dest!: parse_shield_bundle_ok)
qed

lemma parse_oracle_map:
  "parse_adaptive_core_oracle_v3 payload now h (Some rmap) reg pol = Inr ac \<Longrightarrow> validate_reason_map rmap = Inr ()"
  by (auto simp: parse_adaptive_core_oracle_v3_def parse_risk_report_def res_simps Let_def)

lemma final_decision_iff:
  assumes "evidence_ok vf p now policy (r, session, ac, out, eqc, au)"
    and "final_decision r p session ac out au rep = Inr fp"
  shows "fp_state fp = ALLOW_FINAL_ADAMANTINEOS_DECISION \<longleftrightarrow>
    local_gate_ok ''replay'' rep \<and>
    local_gate_ok ''human'' (bound_human_confirmation_gate
      (map_or_empty (dget (map_or_empty (dget p ''payload'')) ''body'')) (vr_fields r))"
proof -
  obtain shield sev art where out: "out = (shield, sev, art)" by (cases out)
  have hex: "is_sha256_hex (run_hash r)"
    using assms(1) envelope_v2_hash_hex by (auto simp: evidence_ok_def run_ok_def run_hash_def)
  have "oracle_ok (vf_oracle vf) now r ac" using assms(1) by (simp add: evidence_ok_def)
  then have ac: "ao_context_hash ac = run_hash r" and rmap: "validate_reason_map (vr_map r) = Inr ()"
    unfolding oracle_ok_def Let_def using parse_oracle_ok parse_oracle_map by blast+
  have au: "au_context_hash (auth_base au) = run_hash r"
    using assms(1) extract_wsqk_bound by (auto simp: evidence_ok_def wsqk_ok_def)
  have sh: "evidence_gate_ok ''shield'' (evidence_of sev) (run_hash r) False"
    using assms(1) shield_ok_gate rmap out by (auto simp: evidence_ok_def)
  show ?thesis
    using assms(2) final_policy_v2_allow[OF _ hex] sh au ac
    by (simp add: final_decision_def out Let_def qid_evidence_def oracle_evidence_def)
qed

section \<open>Responses of a parsed request\<close>

definition human_confirmed :: "pydict \<Rightarrow> v2_run \<Rightarrow> bool" where
  "human_confirmed p r \<longleftrightarrow>
     dget (map_or_empty (dget (map_or_empty (dget p ''payload'')) ''body'')) ''ui_confirmed'' = PBool True \<and>
     dget (case vr_fields r of Some f \<Rightarrow> f | None \<Rightarrow> []) ''ui_confirmed'' = PStr ''true''"

lemma human_gate [simp]:
  "local_gate_ok ''human'' (bound_human_confirmation_gate
     (map_or_empty (dget (map_or_empty (dget p ''payload'')) ''body'')) (vr_fields r)) \<longleftrightarrow> human_confirmed p r"
  by (simp add: bound_human_confirmation_gate_def human_confirmed_def Let_def)

lemma final_decision_total: "\<exists>fp. final_decision r p session ac out au rep = Inr fp"
  by (cases out) (simp add: final_decision_def Let_def final_policy_v2_total)

text \<open>A response that neither allows nor reports the nonce as consumed.\<close>

definition plain_denial :: "pydict \<Rightarrow> bool" where
  "plain_denial resp \<longleftrightarrow> \<not> response_allowed resp \<and> \<not> response_nonce_consumed resp"

lemma build_request_flags:
  assumes "build_execution_response_v2 (request_args req pol fl status rid art) = Inr resp"
  shows "response_allowed resp \<longleftrightarrow> status = ''allow''" "response_nonce_consumed resp \<longleftrightarrow> fl_nonce_consumed fl"
  using build_v2_allowed[OF assms] by (simp_all add: request_args_def)

lemma denied_response_flags:
  assumes "final_policy_denied_response_v2 req pol fp fl art inc = Inr resp"
  shows "\<not> response_allowed resp" "response_nonce_consumed resp \<longleftrightarrow> fl_nonce_consumed fl"
  using assms unfolding final_policy_denied_response_v2_def Let_def
  by (auto dest: build_request_flags)

lemma evidence_flags_nonce [simp]: "\<not> fl_nonce_consumed (evidence_flags a b c d)"
  by (simp add: evidence_flags_def)

definition denies :: "'e + (pydict, 'a) stage \<Rightarrow> bool" where
  "denies m \<longleftrightarrow> (\<forall>resp. m = Inr (Return resp) \<longrightarrow> plain_denial resp)"

named_theorems denies_intros \<open>stages whose early returns are plain denials\<close>

lemma denies_basic [denies_intros]:
  "denies (Inl e)" "denies (Inr (Continue x))"
  by (simp_all add: denies_def)

lemma denies_bind [denies_intros]: "denies m \<Longrightarrow> (\<And>x. denies (f x)) \<Longrightarrow> denies (bind_stage m f)"
  by (auto simp: denies_def bind_stage_def split: sum.splits stage.splits)

lemma denies_bind_r [denies_intros]: "(\<And>x. denies (f x)) \<Longrightarrow> denies (bind_r m f)"
  by (cases m) (simp_all add: denies_intros)

lemma denies_if [denies_intros]: "denies m \<Longrightarrow> denies n \<Longrightarrow> denies (if c then m else n)"
  by simp

lemma denies_prod [denies_intros]: "(\<And>a b. denies (f a b)) \<Longrightarrow> denies (case p of (a, b) \<Rightarrow> f a b)"
  by (cases p) simp

lemma denies_return [denies_intros]:
  "(\<And>resp. m = Inr resp \<Longrightarrow> plain_denial resp) \<Longrightarrow> denies (return_r m)"
  by (cases m) (auto simp: denies_def return_r_def)

lemma denies_try [denies_intros]:
  "(\<And>rid msg resp. h rid msg = Inr resp \<Longrightarrow> plain_denial resp) \<Longrightarrow> denies (try_adapter m h)"
  by (cases m) (auto simp: try_adapter_def denies_intros split: pyexc.splits)

lemma deny_by_engine_plain:
  "deny_by_engine r engine fl art inc = Inr resp \<Longrightarrow> \<not> fl_nonce_consumed fl \<Longrightarrow> plain_denial resp"
  by (auto simp: deny_by_engine_def res_simps plain_denial_def dest: denied_response_flags)

lemma policy_denied_plain: "policy_denied req pol prot msg = Inr resp \<Longrightarrow> plain_denial resp"
  unfolding policy_denied_def plain_denial_def using build_request_flags by fastforce

lemma denies_case_sum [denies_intros]:
  "(\<And>e. denies (f e)) \<Longrightarrow> (\<And>y. denies (g y)) \<Longrightarrow> denies (case m of Inl e \<Rightarrow> f e | Inr y \<Rightarrow> g y)"
  by (cases m) simp_all

lemma denies_case_option [denies_intros]:
  "denies n \<Longrightarrow> (\<And>y. denies (g y)) \<Longrightarrow> denies (case m of None \<Rightarrow> n | Some y \<Rightarrow> g y)"
  by (cases m) simp_all

lemma stages_deny [denies_intros]:
  "denies (stage_policy p now policy)"
  "denies (stage_qid r vq now)"
  "denies (stage_qid_replay r session)"
  "denies (stage_oracle r vo now session)"
  "denies (stage_shield_receipt r vs session ac)"
  "denies (stage_shield_bundle r session ac)"
  "denies (stage_shield_layers r session ac out)"
  "denies (stage_eqc r now session ac out)"
  "denies (stage_wsqk r session ac out)"
  unfolding stage_policy_def stage_qid_def stage_qid_replay_def stage_oracle_def stage_shield_receipt_def
    stage_shield_bundle_def stage_shield_layers_def stage_eqc_def stage_wsqk_def Let_def
  by (intro denies_intros; (erule policy_denied_plain | erule deny_by_engine_plain, simp))+

lemma gather_evidence_denies: "denies (gather_evidence vf p now policy)"
  unfolding gather_evidence_def stage_shield_def by (intro denies_intros)

lemma request_response_total:
  assumes "parse_envelope_v2 payload now = Inr req"
    and "status = ''deny'' \<or> status = ''allow'' \<and> rid = OK_ALLOW"
  shows "\<exists>resp. build_execution_response_v2 (request_args req pol fl status rid art) = Inr resp"
proof -
  have h: "length (cx_context_hash (ev_context req)) = 64"
    using envelope_v2_hash_hex[OF assms(1)] by (simp add: is_sha256_hex_def)
  obtain v where "parse_context require_nonempty_str_v2 check_field_v2 v = Inr (ev_context req)"
    "ev_request_id req \<noteq> []" "ev_intent req \<noteq> []"
    using assms(1) unfolding parse_envelope_v2_def by (auto simp: res_simps split: prod.splits)
  then have "cx_action (ev_context req) \<noteq> []" "ev_request_id req \<noteq> []" "ev_intent req \<noteq> []"
    using parse_context_v2_ok by blast+
  then show ?thesis using h assms(2) unfolding build_v2_total
    by (auto simp: request_args_def response_args_ok_def response_statuses_def)
qed

lemma denied_response_total:
  "parse_envelope_v2 payload now = Inr req \<Longrightarrow>
     \<exists>resp. final_policy_denied_response_v2 req pol fp fl art inc = Inr resp"
  unfolding final_policy_denied_response_v2_def Let_def using request_response_total by metis

section \<open>The abstract decision\<close>

text \<open>
  What one request may do to the nonce store and the executor, and what its response reports:
  the first flag is \<open>decision.allowed\<close>, the second \<open>decision.nonce.consumed\<close>. Only the rules
  with complete evidence and an accepting TVA gate touch anything, and only with a confirmed
  human gate does the executor run.
\<close>

definition tva_on :: "'s check_and_mark \<Rightarrow> int \<Rightarrow> v2_evidence \<Rightarrow> 's option \<Rightarrow> (pyexc + unit) \<times> 's option" where
  "tva_on cam now ev store = (case ev of (r, session, ac, out, eqc, au) \<Rightarrow>
     enforce_tva cam (Some (ev_context (vr_req r))) (Some ALLOW) (Some au) (Some now)
       (vr_families r) (vr_posture r) store)"

inductive v2_step :: "'s check_and_mark \<Rightarrow> 'x executor \<Rightarrow> verifiers \<Rightarrow> pydict \<Rightarrow> int \<Rightarrow> risk_policy option
    \<Rightarrow> 's option \<times> 'x \<Rightarrow> bool \<Rightarrow> bool \<Rightarrow> 's option \<times> 'x \<Rightarrow> bool"
  for cam execute vf p now policy where
  no_evidence: "(\<nexists>ev. evidence_ok vf p now policy ev) \<Longrightarrow>
    v2_step cam execute vf p now policy (s, x) False False (s, x)"
| gate_denies: "evidence_ok vf p now policy ev \<Longrightarrow> tva_on cam now ev s = (Inl e, s') \<Longrightarrow>
    v2_step cam execute vf p now policy (s, x) False False (s', x)"
| no_confirmation: "evidence_ok vf p now policy ev \<Longrightarrow> tva_on cam now ev s = (Inr (), s') \<Longrightarrow>
    \<not> human_confirmed p (fst ev) \<Longrightarrow>
    v2_step cam execute vf p now policy (s, x) False True (s', x)"
| executor_raises: "evidence_ok vf p now policy ev \<Longrightarrow> tva_on cam now ev s = (Inr (), s') \<Longrightarrow>
    human_confirmed p (fst ev) \<Longrightarrow> execute (exec_request (fst ev)) x = (Inl e, x') \<Longrightarrow>
    v2_step cam execute vf p now policy (s, x) False False (s', x')"
| executed: "evidence_ok vf p now policy ev \<Longrightarrow> tva_on cam now ev s = (Inr (), s') \<Longrightarrow>
    human_confirmed p (fst ev) \<Longrightarrow> execute (exec_request (fst ev)) x = (Inr result, x') \<Longrightarrow>
    v2_step cam execute vf p now policy (s, x) True True (s', x')"

inductive_cases v2_step_allowed: "v2_step cam execute vf p now policy (s, x) True c (s', x')"
inductive_cases v2_step_consumed: "v2_step cam execute vf p now policy (s, x) a True (s', x')"
inductive_cases v2_step_cases: "v2_step cam execute vf p now policy (s, x) a c (s', x')"

lemma orchestrate_no_evidence:
  assumes "\<nexists>ev. evidence_ok vf p now policy ev" and that: "p = map_or_empty payload"
  shows "\<exists>resp. orchestrate_execution_v2 cam execute vf payload now policy store x = (Inr resp, store, x) \<and>
    plain_denial resp"
proof -
  have nc: "gather_evidence vf p now policy \<noteq> Inr (Continue ev)" for ev
    using assms gather_evidence_ok by blast
  show ?thesis
  proof (cases "gather_evidence vf p now policy")
    case (Inl e)
    obtain resp where h: "handle_error_v2 p e = Inr resp" using handle_error_v2_total by blast
    then show ?thesis using Inl handle_error_v2_response[OF h] that
      by (simp add: orchestrate_execution_v2_def orchestrate_body_def plain_denial_def Let_def)
  next
    case (Inr st)
    then obtain resp where st: "st = Return resp" using nc by (cases st) auto
    then have "plain_denial resp" using gather_evidence_denies[of vf p now policy] Inr by (simp add: denies_def)
    then show ?thesis using Inr st that
      by (simp add: orchestrate_execution_v2_def orchestrate_body_def Let_def)
  qed
qed

lemma orchestrate_evidence:
  assumes "evidence_ok vf p now policy ev" "p = map_or_empty payload"
  shows "orchestrate_execution_v2 cam execute vf payload now policy store x =
    (case ev of (r, session, ac, out, eqc, au) \<Rightarrow>
      (case stage_execute cam execute r p now session ac out eqc au store x of
        (Inr resp, store', x') \<Rightarrow> (Inr resp, store', x')
      | (Inl e, store', x') \<Rightarrow> (handle_error_v2 p e, store', x')))"
  using assms(1) gather_evidence_ok[of vf p now policy ev] unfolding assms(2)
  by (cases ev) (simp add: orchestrate_execution_v2_def orchestrate_body_def Let_def)

text \<open>The last stage on complete evidence, by the outcome of the gate.\<close>

lemma stage_execute_ok:
  fixes r session ac out eqc au
  defines "ev \<equiv> (r, session, ac, out, eqc, au)"
  assumes ok: "evidence_ok vf p now policy ev" and t: "tva_on cam now ev store = (Inr (), store')"
  shows "\<exists>fp. stage_execute cam execute r p now session ac out eqc au store x =
    (if human_confirmed p r then (case execute (exec_request r) x of
       (Inl e, x') \<Rightarrow> (Inl e, store', x')
     | (Inr result, x') \<Rightarrow> (allow_response r result (snd (snd out)), store', x'))
     else (final_policy_denied_response_v2 (vr_req r) (vr_pol r) fp
        \<lparr>fl_protected = vr_protected r, fl_qid_ok = True, fl_oracle_ok = True, fl_shield_ok = True,
          fl_tva_allowed = True, fl_eqc_allowed = True, fl_wsqk_allowed = True, fl_nonce_consumed = True\<rparr>
        (Some (snd (snd out))) True, store', x))"
proof -
  obtain fp where fp: "final_decision r p session ac out au (local_ok ''replay'') = Inr fp"
    using final_decision_total by blast
  have v: "eq_verdict eqc = ALLOW" using ok by (simp add: ev_def evidence_ok_def eqc_ok_def)
  have "fp_state fp = ALLOW_FINAL_ADAMANTINEOS_DECISION \<longleftrightarrow> human_confirmed p r"
    using final_decision_iff[OF ok[unfolded ev_def] fp] by simp
  then show ?thesis using t fp v
    by (intro exI[of _ fp]) (simp add: stage_execute_def run_with_tva_v2_def tva_on_def ev_def replay_gate_def)
qed

lemma stage_execute_gate_denies:
  fixes r session ac out eqc au
  defines "ev \<equiv> (r, session, ac, out, eqc, au)"
  assumes ok: "evidence_ok vf p now policy ev" and t: "tva_on cam now ev store = (Inl e, store')"
  shows "\<exists>res. stage_execute cam execute r p now session ac out eqc au store x = (res, store', x) \<and>
    (\<forall>resp. res = Inr resp \<longrightarrow> plain_denial resp)"
proof -
  have v: "eq_verdict eqc = ALLOW" using ok by (simp add: ev_def evidence_ok_def eqc_ok_def)
  show ?thesis
  proof (cases "replay_gate (Inl e)")
    case (Inl f)
    then show ?thesis using t v
      by (simp add: stage_execute_def run_with_tva_v2_def tva_on_def ev_def)
  next
    case (Inr g)
    then obtain m where g: "g = (local_reject ''replay'' (reason_from_message m), False)"
      by (auto simp: replay_gate_def split: pyexc.splits)
    obtain fp where fp: "final_decision r p session ac out au (fst g) = Inr fp"
      using final_decision_total by blast
    have "fp_state fp \<noteq> ALLOW_FINAL_ADAMANTINEOS_DECISION"
      using final_decision_iff[OF ok[unfolded ev_def] fp] by (simp add: g)
    then show ?thesis using t v Inr fp g
      by (auto simp: stage_execute_def run_with_tva_v2_def tva_on_def ev_def plain_denial_def
          dest: denied_response_flags)
  qed
qed

lemma allow_response_ok:
  assumes "evidence_ok vf p now policy (r, rest)"
  shows "\<exists>resp. allow_response r result art = Inr resp \<and> response_allowed resp \<and> response_nonce_consumed resp"
proof -
  have e: "parse_envelope_v2 (PDict p) now = Inr (vr_req r)"
    using assms by (cases rest) (auto simp: evidence_ok_def run_ok_def)
  have "\<exists>resp. allow_response r result art = Inr resp"
    unfolding allow_response_def by (rule request_response_total[OF e]) simp
  then obtain resp where resp: "allow_response r result art = Inr resp" by blast
  then show ?thesis using build_request_flags[OF resp[unfolded allow_response_def]] by simp
qed

lemma orchestrate_refines:
  assumes p: "p = map_or_empty payload"
  shows "\<exists>resp store' x'. orchestrate_execution_v2 cam execute vf payload now policy store x = (Inr resp, store', x') \<and>
    v2_step cam execute vf p now policy (store, x) (response_allowed resp) (response_nonce_consumed resp) (store', x')"
proof (cases "\<exists>ev. evidence_ok vf p now policy ev")
  case False
  show ?thesis
    using orchestrate_no_evidence[OF False p] v2_step.no_evidence[OF False] by (fastforce simp: plain_denial_def)
next
  case True
  then obtain r session ac out eqc au where ok: "evidence_ok vf p now policy (r, session, ac, out, eqc, au)"
    by (metis prod_cases6)
  let ?ev = "(r, session, ac, out, eqc, au)"
  note o = orchestrate_evidence[OF ok p, of cam execute store x, unfolded prod.case]
  have env: "parse_envelope_v2 (PDict p) now = Inr (vr_req r)" using ok by (simp add: evidence_ok_def run_ok_def)
  have herr: "\<exists>resp. handle_error_v2 p e = Inr resp \<and> plain_denial resp" for e
    using handle_error_v2_total handle_error_v2_response unfolding plain_denial_def by blast
  obtain t store' where t: "tva_on cam now ?ev store = (t, store')" by (cases "tva_on cam now ?ev store")
  show ?thesis
  proof (cases t)
    case (Inl e)
    note t' = t[unfolded Inl]
    obtain res where res: "stage_execute cam execute r p now session ac out eqc au store x = (res, store', x)"
      "\<forall>resp. res = Inr resp \<longrightarrow> plain_denial resp"
      using stage_execute_gate_denies[OF ok t', where execute = execute and x = x] by (elim exE conjE)
    obtain resp where "orchestrate_execution_v2 cam execute vf payload now policy store x = (Inr resp, store', x)"
      "plain_denial resp"
    proof (cases res)
      case (Inl f)
      obtain resp where "handle_error_v2 p f = Inr resp" "plain_denial resp" using herr by blast
      then show ?thesis using o res(1) Inl that by simp
    next
      case (Inr resp)
      then show ?thesis using o res that by simp
    qed
    then show ?thesis using v2_step.gate_denies[OF ok t'] by (auto simp: plain_denial_def)
  next
    case (Inr u)
    have t': "tva_on cam now ?ev store = (Inr (), store')" using t Inr by simp
    obtain fp where se: "stage_execute cam execute r p now session ac out eqc au store x =
      (if human_confirmed p r then (case execute (exec_request r) x of
         (Inl e, x') \<Rightarrow> (Inl e, store', x')
       | (Inr result, x') \<Rightarrow> (allow_response r result (snd (snd out)), store', x'))
       else (final_policy_denied_response_v2 (vr_req r) (vr_pol r) fp
         \<lparr>fl_protected = vr_protected r, fl_qid_ok = True, fl_oracle_ok = True, fl_shield_ok = True,
          fl_tva_allowed = True, fl_eqc_allowed = True, fl_wsqk_allowed = True, fl_nonce_consumed = True\<rparr>
         (Some (snd (snd out))) True, store', x))"
      using stage_execute_ok[OF ok t', where execute = execute and x = x] by (elim exE)
    show ?thesis
    proof (cases "human_confirmed p r")
      case False
      obtain resp where d: "orchestrate_execution_v2 cam execute vf payload now policy store x = (Inr resp, store', x)"
        "\<not> response_allowed resp" "response_nonce_consumed resp"
      proof -
        obtain resp where resp: "final_policy_denied_response_v2 (vr_req r) (vr_pol r) fp
          \<lparr>fl_protected = vr_protected r, fl_qid_ok = True, fl_oracle_ok = True, fl_shield_ok = True,
          fl_tva_allowed = True, fl_eqc_allowed = True, fl_wsqk_allowed = True, fl_nonce_consumed = True\<rparr>
          (Some (snd (snd out))) True = Inr resp"
          using denied_response_total[OF env] by blast
        show thesis using o se False denied_response_flags[OF resp] resp that by simp
      qed
      show ?thesis using d v2_step.no_confirmation[OF ok t'] False by auto
    next
      case hc: True
      obtain res x' where ex: "execute (exec_request r) x = (res, x')" by (cases "execute (exec_request r) x")
      show ?thesis
      proof (cases res)
        case (Inl e)
        obtain resp where "handle_error_v2 p e = Inr resp" "plain_denial resp" using herr by blast
        then show ?thesis using Inl o se hc ex v2_step.executor_raises[OF ok t', of execute x e x']
          by (simp add: plain_denial_def)
      next
        case (Inr result)
        obtain resp where "allow_response r result (snd (snd out)) = Inr resp" "response_allowed resp"
          "response_nonce_consumed resp" using allow_response_ok[OF ok] by blast
        then show ?thesis using Inr o se hc ex v2_step.executed[OF ok t', of execute x result x']
          by simp
      qed
    qed
  qed
qed

end
