(* ===== verification/Demo_Request.thy ===== *)
theory Demo_Request
  imports Orchestrator_V2
begin

text \<open>
  A concrete request that the v2 orchestrator executes, for any wallet confirmation and
  authority scope: the evidence carries the request's own context hash, so the hashes are
  parameters, and what is shown holds for the values the hash functions give.
\<close>

definition demo_layers :: "string list" where
  "demo_layers = [''adn'', ''dqsn'', ''guardian_wallet'', ''qwg'', ''sentinel_ai'']"

definition demo_fields :: pydict where
  "demo_fields = [(''ui_confirmed'', PStr ''true'')]"

definition demo_v3_signal :: "string \<Rightarrow> string \<Rightarrow> pydict" where
  "demo_v3_signal h l = [(''v'', PStr ''shield_signal_v3''), (''layer'', PStr l),
     (''layer_version'', PStr ''3.0.1''), (''signal_id'', PStr ''s''), (''context_hash'', PStr h),
     (''issued_at'', PInt 10), (''expires_at'', PInt 30), (''verdict'', PStr ''allow''),
     (''reason_id'', PStr ''ok''), (''confidence'', PInt 90), (''facts'', PDict [])]"

definition demo_v3_bundle :: "string \<Rightarrow> pydict" where
  "demo_v3_bundle h = [(''v'', PStr ''shield_bundle_v3''), (''bundle_id'', PStr ''b''),
     (''context_hash'', PStr h), (''issued_at'', PInt 10), (''expires_at'', PInt 30),
     (''shield_bundle_version'', PStr ''1.0.0''),
     (''required_layers'', PList (map PStr REQUIRED_SHIELD_LAYERS_V3)),
     (''signals'', PList (map (\<lambda>l. PDict (demo_v3_signal h l)) demo_layers))]"

definition demo_qid :: "string \<Rightarrow> string \<Rightarrow> pydict" where
  "demo_qid h pf = [(''qid_iface_version'', PStr ''1''), (''subject'', PStr ''s''), (''issued_at'', PInt 10),
     (''expires_at'', PInt 30), (''context_hash'', PStr h), (''proof_hash'', PStr pf)]"

definition demo_oracle :: "string \<Rightarrow> pydict" where
  "demo_oracle h = [(''ac_iface_version'', PStr ''adaptive_core_oracle_v3''),
     (''context_hash'', PStr h), (''issued_at'', PInt 10), (''expires_at'', PInt 30),
     (''generated_at'', PInt 10), (''overall_score'', PInt 90),
     (''signals'', PList [PDict [(''source'', PStr ''ac''), (''severity'', PInt 1),
        (''reason_ids'', PList [PStr ''ok''])]])]"

definition demo_proofs :: "string \<Rightarrow> pydict" where
  "demo_proofs h = [(''wsqk'', PDict [(''wallet_id'', PStr ''w''), (''action'', PStr ''send''),
     (''context_hash'', PStr h), (''issued_at'', PInt 10), (''expires_at'', PInt 60), (''nonce'', PStr ''n'')])]"

definition demo_payload :: "pyval \<Rightarrow> string \<Rightarrow> string \<Rightarrow> pydict" where
  "demo_payload confirmed h pf = [(''evidence'', PDict [(''qid'', PDict (demo_qid h pf)),
      (''oracle'', PDict (demo_oracle h)), (''shield'', PDict (demo_v3_bundle h))]),
     (''body'', PDict [(''ui_confirmed'', confirmed)])]"

definition demo_v2 :: "pydict \<Rightarrow> pyval \<Rightarrow> string \<Rightarrow> string \<Rightarrow> pydict" where
  "demo_v2 scope confirmed h pf = [(''v'', PStr ''execution_request_v2''), (''request_id'', PStr ''r1''),
     (''intent'', PStr ''send''),
     (''context'', PDict [(''wallet_id'', PStr ''w''), (''device_id'', PStr ''d''), (''app_id'', PStr ''a''),
       (''session_id'', PStr ''s''), (''action'', PStr ''send''), (''fields'', PDict demo_fields)]),
     (''authority'', PDict [(''class'', PStr ''wsqk''), (''scope'', PDict scope), (''proofs'', PDict (demo_proofs h))]),
     (''timebox'', PDict [(''issued_at'', PStr ''1970-01-01T00:00:10Z''),
       (''expires_at'', PStr ''1970-01-01T00:01:00Z'')]),
     (''nonce'', PDict [(''value'', PStr ''n''), (''store'', PStr ''local''), (''mode'', PStr ''single_use'')]),
     (''payload'', PDict (demo_payload confirmed h pf))]"

definition demo_req :: "pydict \<Rightarrow> pyval \<Rightarrow> string \<Rightarrow> string \<Rightarrow> envelope_v2" where
  "demo_req scope confirmed h pf = \<lparr>ev_request_id = ''r1'', ev_intent = ''send'',
     ev_context = \<lparr>cx_wallet_id = ''w'', cx_action = ''send'', cx_context_hash = h\<rparr>,
     ev_authority_class = ''wsqk'', ev_authority_scope = scope, ev_authority_proofs = Some (demo_proofs h),
     ev_issued_at = 10, ev_expires_at = 60, ev_max_skew_seconds = 0, ev_nonce_value = ''n'',
     ev_nonce_store = ''local'', ev_audit = None, ev_evidence_qid = demo_qid h pf,
     ev_evidence_oracle = demo_oracle h, ev_evidence_shield = demo_v3_bundle h,
     ev_body = [(''ui_confirmed'', confirmed)]\<rparr>"

definition demo_hashes :: "string \<Rightarrow> string \<Rightarrow> bool" where
  "demo_hashes h pf \<longleftrightarrow> compute_context_hash ''w'' ''send'' (Some demo_fields) = Inr h \<and>
     compute_qid_shape_a_proof_hash ''1'' ''s'' 10 30 (Some h) None None = Inr pf"

lemma demo_clean: "\<not> has_control_char ''w''" "\<not> has_control_char ''send''" "each_r check_field_v2 demo_fields = Inr ()"
  by code_simp+

lemma demo_hashes_exist: "\<exists>h pf. demo_hashes h pf"
  unfolding demo_hashes_def
  using compute_context_hash_clean[OF demo_clean] json_shape_a_total[of 10 30] by auto

lemma demo_str: "s \<in> {''w'', ''d'', ''a'', ''s'', ''send'', ''n'', ''local'', ''single_use'', ''wsqk'', ''r1'', ''execution_request_v2''} \<Longrightarrow>
    require_nonempty_str_v2 (PStr s) rid n = Inr s"
  by (auto simp: require_nonempty_str_v2_ok has_control_char_def is_control_char_def)

lemma demo_timebox: "parse_timebox (PDict [(''issued_at'', PStr ''1970-01-01T00:00:10Z''),
       (''expires_at'', PStr ''1970-01-01T00:01:00Z'')]) 20 = Inr (10, 60, 0)"
  by code_simp

lemma expect_keys_ok: "set req \<subseteq> set (dkeys m) \<Longrightarrow> set (dkeys m) \<subseteq> set al \<Longrightarrow> env_expect_keys m n req al = Inr ()"
  by (simp add: env_expect_keys_ok)

lemma demo_payload_parses: "parse_payload_v2 (PDict (demo_payload confirmed h pf)) =
    Inr (demo_qid h pf, demo_oracle h, demo_v3_bundle h, [(''ui_confirmed'', confirmed)])"
  by (simp add: parse_payload_v2_def demo_payload_def env_require_mapping_def env_require_mapping_nonempty_def
      expect_keys_ok dkeys_def demo_qid_def demo_oracle_def demo_v3_bundle_def)

lemma demo_parses:
  assumes "demo_hashes h pf"
  shows "parse_envelope_v2 (PDict (demo_v2 scope confirmed h pf)) 20 = Inr (demo_req scope confirmed h pf)"
proof -
  have cx: "parse_context require_nonempty_str_v2 check_field_v2 (PDict [(''wallet_id'', PStr ''w''), (''device_id'', PStr ''d''),
       (''app_id'', PStr ''a''), (''session_id'', PStr ''s''), (''action'', PStr ''send''), (''fields'', PDict demo_fields)])
     = Inr \<lparr>cx_wallet_id = ''w'', cx_action = ''send'', cx_context_hash = h\<rparr>"
    using assms by (simp add: parse_context_def env_require_mapping_def expect_keys_ok context_keys_def dkeys_def
        demo_str demo_clean demo_hashes_def)
  have au: "parse_authority require_nonempty_str_v2 (PDict [(''class'', PStr ''wsqk''), (''scope'', PDict scope),
      (''proofs'', PDict (demo_proofs h))]) = Inr (''wsqk'', scope, Some (demo_proofs h))"
    by (simp add: parse_authority_def env_require_mapping_def expect_keys_ok dkeys_def demo_str)
  have no: "parse_nonce require_nonempty_str_v2 (PDict [(''value'', PStr ''n''), (''store'', PStr ''local''),
      (''mode'', PStr ''single_use'')]) = Inr (''n'', ''local'')"
    by (simp add: parse_nonce_def env_require_mapping_def expect_keys_ok dkeys_def demo_str)
  show ?thesis
    by (simp add: parse_envelope_v2_def demo_v2_def demo_req_def env_require_mapping_def expect_keys_ok
        envelope_keys_def dkeys_def demo_str cx au no demo_timebox demo_payload_parses parse_audit_def)
qed

text \<open>The policy, with or without the demand for authenticated external evidence.\<close>

definition demo_runtime_policy :: "bool \<Rightarrow> risk_policy" where
  "demo_runtime_policy auth = default_risk_policy\<lparr>rp_shield_runtime_boundary := LEGACY_BUNDLE_V3_TEST_ONLY,
     rp_require_authenticated_external_evidence := auth\<rparr>"

definition demo_runtime_registry :: external_reason_registry where
  "demo_runtime_registry = \<lparr>er_oracle_allowed = [''ok''], er_shield_layer_allowlists =
     map (\<lambda>l. \<lparr>la_layer = l, la_allowed_external_reason_ids = [''ok'']\<rparr>) REQUIRED_SHIELD_LAYERS_V3\<rparr>"

definition demo_run :: "bool \<Rightarrow> pyval \<Rightarrow> string \<Rightarrow> string \<Rightarrow> v2_run" where
  "demo_run auth confirmed h pf = \<lparr>vr_req = demo_req [] confirmed h pf, vr_fields = Some demo_fields, vr_protected = True,
     vr_families = PNone, vr_posture = None, vr_pol = demo_runtime_policy auth, vr_map = default_reason_map,
     vr_registry = demo_runtime_registry\<rparr>"

definition demo_session :: "string \<Rightarrow> string \<Rightarrow> qid_session_proof" where
  "demo_session h pf = \<lparr>qs_subject = ''s'', qs_issued_at = 10, qs_expires_at = 30, qs_proof_hash = pf,
     qs_context_hash = Some h, qs_device_binding = None, qs_issuer_version = None\<rparr>"

definition demo_ac :: "string \<Rightarrow> adaptive_core_oracle_v3" where
  "demo_ac h = \<lparr>ao_context_hash = h, ao_issued_at = 10, ao_expires_at = 30,
     ao_report = \<lparr>rr_context_hash = h, rr_signals = [\<lparr>rs_source = ''ac'', rs_severity = 1,
       rs_reason_ids = [reason_value EVIDENCE_OK]\<rparr>], rr_overall_score = 90, rr_generated_at = 10,
       rr_oracle_version = None, rr_external_source_id = None\<rparr>\<rparr>"

definition demo_internal_signal :: "string \<Rightarrow> shield_signal" where
  "demo_internal_signal l = \<lparr>ss_source = the (layer_source l), ss_severity = 0,
     ss_reason_ids = [reason_value EVIDENCE_OK]\<rparr>"

definition demo_bundle :: "string \<Rightarrow> shield_bundle_v3" where
  "demo_bundle h = \<lparr>sb_bundle_id = ''b'', sb_context_hash = h, sb_issued_at = 10, sb_expires_at = 30,
     sb_required_layers = REQUIRED_SHIELD_LAYERS_V3, sb_signals = map demo_internal_signal demo_layers\<rparr>"

definition demo_authority_v1 :: "string \<Rightarrow> wsqk_authority" where
  "demo_authority_v1 h = \<lparr>au_wallet_id = ''w'', au_action = ''send'', au_context_hash = h, au_issued_at = 10,
     au_expires_at = 60, au_nonce = ''n''\<rparr>"

lemma demo_policy_valid: "validate_risk_policy (demo_runtime_policy auth) = Inr ()"
  by (simp add: demo_runtime_policy_def validate_risk_policy_def default_risk_policy_def)

lemma demo_registry_built: "build_mandatory_reason_registry (demo_runtime_policy auth) = Inr demo_runtime_registry"
proof -
  have "build_mandatory_reason_registry (demo_runtime_policy False) = Inr demo_runtime_registry"
    "build_mandatory_reason_registry (demo_runtime_policy True) = Inr demo_runtime_registry" by code_simp+
  then show ?thesis by (cases auth) simp_all
qed

lemma demo_map_valid: "validate_reason_map default_reason_map = Inr ()"
  by code_simp

lemma demo_map_lookup: "lookup_reason default_reason_map ''ok'' = Some (reason_value EVIDENCE_OK)"
  by code_simp

lemma demo_registry_valid: "validate_registry demo_runtime_registry = Inr ()"
  by code_simp

lemma demo_registry_allows:
  "is_oracle_reason_allowed demo_runtime_registry ''ok''"
  "l \<in> set demo_layers \<Longrightarrow> is_shield_reason_allowed demo_runtime_registry l ''ok''"
proof -
  show "is_oracle_reason_allowed demo_runtime_registry ''ok''" by code_simp
  have "list_all (\<lambda>l. is_shield_reason_allowed demo_runtime_registry l ''ok'') demo_layers" by code_simp
  then show "l \<in> set demo_layers \<Longrightarrow> is_shield_reason_allowed demo_runtime_registry l ''ok''"
    by (simp add: list_all_iff)
qed

lemma demo_run_ok:
  assumes "demo_hashes h pf"
  shows "run_ok (demo_v2 [] confirmed h pf) 20 (Some (demo_runtime_policy auth)) (demo_run auth confirmed h pf)"
proof -
  have "default_reason_map_of (demo_runtime_policy auth) = default_reason_map"
    by (simp add: default_reason_map_of_def demo_runtime_policy_def default_risk_policy_def default_policy_pack_def)
  moreover have "extract_fields (demo_v2 [] confirmed h pf) = Some demo_fields"
    by (simp add: extract_fields_def demo_v2_def demo_fields_def)
  ultimately show ?thesis
    using demo_parses[OF assms, of "[]" confirmed] demo_policy_valid demo_registry_built
    by (simp add: run_ok_def demo_run_def effective_policy_def demo_req_def demo_proofs_def
        protected_call_requested_def has_key_def dkeys_def extract_wsqk_v2_runtime_requirements_def)
qed

lemma demo_hex: "demo_hashes h pf \<Longrightarrow> is_sha256_hex h"
  unfolding demo_hashes_def using compute_context_hash_hex by blast

lemma demo_pf: "demo_hashes h pf \<Longrightarrow> pf \<noteq> []"
  by (auto simp: demo_hashes_def compute_qid_shape_a_proof_hash_def res_simps)

lemma demo_session_valid: "is_sha256_hex h \<Longrightarrow> pf \<noteq> [] \<Longrightarrow> validate_qid_session 20 (demo_session h pf) = Inr ()"
  by (simp add: validate_qid_session_def demo_session_def)

lemma demo_qid_ok:
  assumes "demo_hashes h pf"
  shows "qid_ok None 20 (demo_run auth confirmed h pf) (demo_session h pf)"
proof -
  have "parse_qid_session (PDict (demo_qid h pf)) 20 = Inr (demo_session h pf)"
    using assms demo_hex[OF assms] demo_pf[OF assms] demo_session_valid[OF demo_hex[OF assms] demo_pf[OF assms]]
    by (simp add: parse_qid_session_def parse_qid_shape_a_def demo_qid_def need_nonempty_str_def need_opt_str_def
        demo_hashes_def validate_session_or_fail_def demo_session_def)
  then show ?thesis
    by (simp add: qid_ok_def demo_run_def demo_req_def demo_runtime_policy_def default_risk_policy_def
        qid_authentic_def is_qid_v2_login_evidence_def demo_qid_def)
qed

lemma hex_not_blank: "is_sha256_hex h \<Longrightarrow> h \<noteq> [] \<and> \<not> py_blank h"
proof -
  have "\<not> py_isspace c" if "is_hex_lower c" for c
    using that by (auto simp: is_hex_lower_def py_isspace_def)
  then show "is_sha256_hex h \<Longrightarrow> h \<noteq> [] \<and> \<not> py_blank h"
    by (cases h) (simp_all add: is_sha256_hex_def py_blank_def)
qed

lemma demo_report_ok:
  assumes "is_sha256_hex h"
  shows "parse_risk_report (PDict (demo_oracle h)) 20 h (Some default_reason_map) (Some demo_runtime_registry)
    (Some (demo_runtime_policy auth)) = Inr (ao_report (demo_ac h))"
proof -
  have p: "rp_unknown_reason_mode (demo_runtime_policy auth) = DENY_EXPLICIT"
    "effective_allowed_external_reason_ids (demo_runtime_policy auth) = [''ok'']"
    by (simp_all add: demo_runtime_policy_def default_risk_policy_def effective_allowed_external_reason_ids_def)
  have "parse_risk_signals [''ok''] DENY_EXPLICIT (Some demo_runtime_registry) default_reason_map 0
      [PDict [(''source'', PStr ''ac''), (''severity'', PInt 1), (''reason_ids'', PList [PStr ''ok''])]] =
      Inr (rr_signals (ao_report (demo_ac h)))"
    by (simp add: parse_risk_signal_def internal_risk_reason_def need_nonempty_str_def demo_registry_allows
        demo_map_lookup demo_ac_def validate_risk_signal_def Let_def)
  then show ?thesis using hex_not_blank[OF assms]
    by (simp add: parse_risk_report_def demo_oracle_def demo_policy_valid demo_map_valid demo_registry_valid p
        need_nonempty_str_def need_opt_str_def Let_def demo_ac_def validate_risk_report_def validate_risk_signal_def)
qed

text \<open>An oracle verifier that vouches for the hash the oracle carries.\<close>

definition demo_oracle_verifier :: evidence_verifier where
  "demo_oracle_verifier payload h = check_r (dget payload ''context_hash'' = PStr h)
     (OtherError ''oracle not vouched for'')"

lemma demo_run_oracle_ok:
  assumes "demo_hashes h pf"
  shows "oracle_ok (Some demo_oracle_verifier) 20 (demo_run auth confirmed h pf) (demo_ac h)"
proof -
  note hx = demo_hex[OF assms]
  have "unknown_keys (demo_oracle h) ORACLE_ALLOWED_KEYS = []"
    by (simp add: unknown_keys_Nil demo_oracle_def dkeys_def ORACLE_ALLOWED_KEYS_def)
  moreover have "validate_oracle 20 (demo_ac h) = Inr ()" using hex_not_blank[OF hx]
    by (simp add: validate_oracle_def demo_ac_def validate_risk_report_def validate_risk_signal_def)
  ultimately have "parse_adaptive_core_oracle_v3 (PDict (demo_oracle h)) 20 h (Some default_reason_map)
      (Some demo_runtime_registry) (Some (demo_runtime_policy auth)) = Inr (demo_ac h)"
    using hx demo_report_ok[OF hx]
    by (simp add: parse_adaptive_core_oracle_v3_def demo_oracle_def Let_def demo_ac_def)
  then show ?thesis
    by (simp add: oracle_ok_def verifier_consents_def demo_oracle_verifier_def demo_oracle_def check_r_def demo_run_def demo_req_def demo_runtime_policy_def default_risk_policy_def run_hash_def)
qed

lemma demo_strs: "s \<in> {''shield_signal_v3'', ''s'', ''allow'', ''ok'', ''shield_bundle_v3'', ''b'', ''3.0.1'', ''1.0.0''} \<Longrightarrow> \<not> py_blank s"
  by (auto simp: py_blank_def py_isspace_def)

lemma demo_layer_facts:
  "l \<in> set demo_layers \<Longrightarrow> \<not> py_blank l \<and> length l \<le> MAX_LAYER_STR \<and> layer_source l \<noteq> None"
proof -
  have "list_all (\<lambda>l. \<not> py_blank l \<and> length l \<le> MAX_LAYER_STR \<and> layer_source l \<noteq> None) demo_layers" by code_simp
  then show "l \<in> set demo_layers \<Longrightarrow> \<not> py_blank l \<and> length l \<le> MAX_LAYER_STR \<and> layer_source l \<noteq> None"
    by (simp add: list_all_iff)
qed

lemma demo_semver: "is_semver ''3.0.1''" "is_semver ''1.0.0''"
  by code_simp+

lemma demo_signal_parses:
  assumes l: "l \<in> set demo_layers" and h: "is_sha256_hex h"
  shows "parse_signal_v3 (demo_v3_signal h l) h 10 30 default_reason_map demo_runtime_registry True =
    Inr (l, demo_internal_signal l)"
proof -
  obtain src where src: "layer_source l = Some src" using demo_layer_facts[OF l] by auto
  have req: "v3_require_str (demo_v3_signal h l) ''v'' ''signal'' = Inr ''shield_signal_v3''"
    "v3_require_str_max (demo_v3_signal h l) ''layer'' ''signal'' MAX_LAYER_STR = Inr l"
    "v3_require_str_max (demo_v3_signal h l) ''signal_id'' ''signal'' MAX_ID_STR = Inr ''s''"
    "v3_require_str (demo_v3_signal h l) ''context_hash'' ''signal'' = Inr h"
    "v3_require_int (demo_v3_signal h l) ''issued_at'' ''signal'' = Inr 10"
    "v3_require_int (demo_v3_signal h l) ''expires_at'' ''signal'' = Inr 30"
    "v3_require_str (demo_v3_signal h l) ''verdict'' ''signal'' = Inr ''allow''"
    "v3_require_int (demo_v3_signal h l) ''confidence'' ''signal'' = Inr 90"
    "v3_require_str_max (demo_v3_signal h l) ''reason_id'' ''signal'' MAX_STR = Inr ''ok''"
    "check_version_field True (demo_v3_signal h l) ''layer_version'' ''signal'' = Inr ()"
    "deny_unknown_keys (demo_v3_signal h l) SIGNAL_ALLOWED_KEYS ''signal'' = Inr ()"
    "validate_facts (dget (demo_v3_signal h l) ''facts'') = Inr ()"
    "validate_meta (dget (demo_v3_signal h l) ''meta'') ''signal'' = Inr ()"
    using demo_layer_facts[OF l] hex_not_blank[OF h] demo_strs demo_semver
    by (simp_all add: res_simps demo_v3_signal_def dkeys_def SIGNAL_ALLOWED_KEYS_def validate_facts_def
        validate_meta_def MAX_ID_STR_def MAX_STR_def MAX_VERSION_STR_def MAX_FACTS_ENTRIES_def)
  have v: "validate_shield_signal \<lparr>ss_source = src, ss_severity = 0, ss_reason_ids = [reason_value EVIDENCE_OK]\<rparr> = Inr ()"
    by (simp add: validate_shield_signal_ok del: reason_value.simps)
  show ?thesis
    unfolding parse_signal_v3_def parse_signal_window_def
    by (simp add: req src h demo_registry_allows(2)[OF l] demo_map_lookup v
        demo_internal_signal_def Let_def del: reason_value.simps)
qed

lemma demo_signals_sorted: "signals_sorted (map (\<lambda>l. PDict (demo_v3_signal h l)) demo_layers)"
proof -
  let ?f = "\<lambda>l. PDict (demo_v3_signal h l)"
  have k: "signal_sort_key (?f l) = (l, ''s'')" if "l \<in> set demo_layers" for l
    using that by (auto simp: signal_sort_key_def demo_v3_signal_def py_truthy_def py_str_def demo_layers_def)
  have "sorted (map (\<lambda>l. (l, ''s'')) demo_layers)" by code_simp
  moreover have "map signal_sort_key (map ?f demo_layers) = map (\<lambda>l. (l, ''s'')) demo_layers"
    using k by simp
  ultimately have "sorted (map signal_sort_key (map ?f demo_layers))" by (simp only:)
  then have "sort_key signal_sort_key (map ?f demo_layers) = map ?f demo_layers" by (rule sort_key_id_if_sorted)
  then show ?thesis unfolding signals_sorted_def by (simp add: list.rel_refl)
qed

lemma demo_signals_parse:
  assumes h: "is_sha256_hex h"
  shows "set ls \<subseteq> set demo_layers \<Longrightarrow> distinct ls \<Longrightarrow> set ls \<inter> set seen = {} \<Longrightarrow>
    parse_signals_v3 (\<lambda>sig. parse_signal_v3 sig h 10 30 default_reason_map demo_runtime_registry True) seen
      (map (\<lambda>l. PDict (demo_v3_signal h l)) ls) = Inr (rev ls @ seen, map demo_internal_signal ls)"
proof (induction ls arbitrary: seen)
  case (Cons l ls)
  then show ?case using demo_signal_parses[OF _ h, of l] by auto
qed simp

lemma demo_bundle_valid: "is_sha256_hex h \<Longrightarrow> validate_shield_bundle (demo_bundle h) = Inr ()"
proof -
  assume h: "is_sha256_hex h"
  have "list_all (\<lambda>l. \<not> py_blank l) REQUIRED_SHIELD_LAYERS_V3" by code_simp
  moreover have "validate_shield_signal (demo_internal_signal l) = Inr ()" for l
    by (simp add: demo_internal_signal_def validate_shield_signal_ok del: reason_value.simps)
  ultimately show ?thesis using h
    by (simp add: validate_shield_bundle_def demo_bundle_def demo_strs is_sha256_hex_def each_r_eq_Inr
        list_all_iff list_ex_iff REQUIRED_SHIELD_LAYERS_V3_def demo_layers_def)
qed

lemma demo_layers_parse: "parse_required_layers (demo_v3_bundle h) True = Inr REQUIRED_SHIELD_LAYERS_V3"
proof -
  have "parse_required_layers [(''required_layers'', PList (map PStr REQUIRED_SHIELD_LAYERS_V3))] True
      = Inr REQUIRED_SHIELD_LAYERS_V3" by code_simp
  then show ?thesis by (simp add: parse_required_layers_def demo_v3_bundle_def)
qed

lemma demo_shield_ok:
  assumes "demo_hashes h pf"
  shows "shield_ok None (demo_run auth confirmed h pf) (demo_bundle h, runtime_evidence_accepted ''shield:b'' h, [])"
proof -
  note h = demo_hex[OF assms]
  have hd: "parse_bundle_head (demo_v3_bundle h) h True = Inr (''b'', 10, 30)"
  proof -
    have req: "v3_require_str (demo_v3_bundle h) ''v'' ''bundle'' = Inr ''shield_bundle_v3''"
      "v3_require_str_max (demo_v3_bundle h) ''bundle_id'' ''bundle'' MAX_ID_STR = Inr ''b''"
      "v3_require_str (demo_v3_bundle h) ''context_hash'' ''bundle'' = Inr h"
      "v3_require_int (demo_v3_bundle h) ''issued_at'' ''bundle'' = Inr 10"
      "v3_require_int (demo_v3_bundle h) ''expires_at'' ''bundle'' = Inr 30"
      "check_version_field True (demo_v3_bundle h) ''shield_bundle_version'' ''bundle'' = Inr ()"
      "deny_unknown_keys (demo_v3_bundle h) BUNDLE_ALLOWED_KEYS ''bundle'' = Inr ()"
      using hex_not_blank[OF h] demo_strs demo_semver
      by (simp_all add: res_simps demo_v3_bundle_def dkeys_def BUNDLE_ALLOWED_KEYS_def MAX_ID_STR_def MAX_VERSION_STR_def)
    show ?thesis unfolding parse_bundle_head_def by (simp add: req h)
  qed
  have sg: "need_signals (demo_v3_bundle h) = Inr (map (\<lambda>l. PDict (demo_v3_signal h l)) demo_layers)"
    using demo_signals_sorted[of h]
    by (simp add: need_signals_def demo_v3_bundle_def demo_layers_def MAX_SIGNALS_def)
  have ps: "parse_signals_v3 (\<lambda>sig. parse_signal_v3 sig h 10 30 default_reason_map demo_runtime_registry True) []
      (map (\<lambda>l. PDict (demo_v3_signal h l)) demo_layers) = Inr (rev demo_layers, map demo_internal_signal demo_layers)"
    using demo_signals_parse[OF h, of demo_layers "[]"] by (simp add: demo_layers_def)
  have mt: "validate_meta (dget (demo_v3_bundle h) ''meta'') n = Inr ()" for n
    by (simp add: demo_v3_bundle_def validate_meta_def)
  have rq: "each_r (\<lambda>rl. check_r (rl \<in> set (rev demo_layers)) (e rl)) REQUIRED_SHIELD_LAYERS_V3 = Inr ()"
    for e :: "string \<Rightarrow> pyexc"
    by (simp add: REQUIRED_SHIELD_LAYERS_V3_def demo_layers_def)
  have "parse_shield_bundle_v3 (PDict (demo_v3_bundle h)) h default_reason_map demo_runtime_registry True =
      Inr (demo_bundle h)"
    using hex_not_blank[OF h] demo_bundle_valid[OF h] rq
    by (simp add: parse_shield_bundle_v3_def demo_map_valid demo_registry_valid hd demo_layers_parse sg ps mt
        demo_bundle_def Let_def)
  then show ?thesis
    by (simp add: shield_ok_def demo_run_def demo_req_def demo_runtime_policy_def default_risk_policy_def
        run_hash_def demo_bundle_def)
qed

lemma demo_eqc_ok:
  assumes "demo_hashes h pf"
  shows "\<exists>eqc. eqc_ok 20 (demo_run auth confirmed h pf) (demo_session h pf) (demo_ac h) (demo_bundle h) eqc"
proof -
  note h = demo_hex[OF assms]
  have strip: "py_strip ''w'' = ''w''" "py_strip ''send'' = ''send''" "\<not> py_blank ''w''" "\<not> py_blank ''send''"
    by code_simp+
  have th: "policy_threshold (demo_runtime_policy auth) = 85"
    by (simp add: policy_threshold_def demo_runtime_policy_def default_risk_policy_def)
  have "\<not> shield_conflict (demo_bundle h)"
    by (simp add: shield_conflict_def demo_bundle_def list_ex_iff demo_internal_signal_def)
  then have "\<exists>r m'. evaluate_eqc_v2 ''w'' ''send'' (Some demo_fields) (Some (demo_session h pf)) (Some (demo_ac h))
      (Some (demo_bundle h)) (Some 20) (Some (demo_runtime_policy auth)) None = (Inr r, m') \<and> eq_verdict r = ALLOW"
    unfolding evaluate_eqc_v2_allow_conv
    using assms h demo_session_valid[OF h demo_pf[OF assms]] demo_bundle_valid[OF h] hex_not_blank[OF h]
    by (intro exI[of _ h])
      (simp add: strip demo_hashes_def demo_policy_valid effective_policy_def session_bound_def demo_session_def
        demo_ac_def validate_oracle_def validate_risk_report_def validate_risk_signal_def demo_bundle_def
        th)
  then show ?thesis by (auto simp: eqc_ok_def demo_run_def demo_req_def)
qed

lemma demo_wsqk_ok: "demo_hashes h pf \<Longrightarrow> wsqk_ok (demo_run auth confirmed h pf) (AuthV1 (demo_authority_v1 h))"
  using hex_not_blank[OF demo_hex]
  by (simp add: wsqk_ok_def extract_wsqk_authority_def demo_run_def demo_req_def demo_proofs_def nonempty_str_def
      run_hash_def demo_authority_v1_def)

definition demo_verifiers :: verifiers where
  "demo_verifiers = \<lparr>vf_qid = None, vf_shield = None, vf_oracle = Some demo_oracle_verifier\<rparr>"

lemma demo_run_evidence_ok:
  assumes "demo_hashes h pf"
  shows "\<exists>eqc. evidence_ok demo_verifiers (demo_v2 [] confirmed h pf) 20 (Some (demo_runtime_policy auth))
    (demo_run auth confirmed h pf, demo_session h pf, demo_ac h,
     (demo_bundle h, runtime_evidence_accepted ''shield:b'' h, []), eqc, AuthV1 (demo_authority_v1 h))"
  using demo_run_ok[OF assms] demo_qid_ok[OF assms] demo_run_oracle_ok[OF assms] demo_shield_ok[OF assms]
    demo_eqc_ok[OF assms] demo_wsqk_ok[OF assms]
  by (simp add: evidence_ok_def demo_verifiers_def)

lemma demo_tva:
  "tva_on im_check_and_mark 20 (demo_run auth confirmed h pf, session, ac, out, eqc, AuthV1 (demo_authority_v1 h))
     (Some empty_store) = (Inr (), Some \<lparr>im_used = [((''w'', ''n''), 60)]\<rparr>)"
proof -
  have "py_strip ''n'' = ''n''" "\<not> py_blank ''n''" by code_simp+
  then show ?thesis
    by (simp add: tva_on_def demo_run_def demo_req_def enforce_tva_ok tva_checks_ok demo_authority_v1_def
        enforce_wsqk_v2_quantum_posture_def im_check_and_mark_def empty_store_def)
qed

lemma demo_confirmed: "human_confirmed (demo_v2 [] confirmed h pf) (demo_run auth confirmed h pf) \<longleftrightarrow> confirmed = PBool True"
  by (simp add: human_confirmed_def demo_v2_def demo_payload_def map_or_empty_def demo_run_def demo_fields_def)

end
