(* ===== verification/Runtime_Host.thy ===== *)
theory Runtime_Host
  imports Demo_Request
begin

text \<open>
  What the runtime host guarantees over sequences of requests, for any nonce store that keeps
  the contract of the interface, and the properties of the v2 orchestrator.
\<close>

section \<open>Sequences of requests\<close>

fun host_run :: "'s check_and_mark \<Rightarrow> 'x executor \<Rightarrow> (pyval \<times> pyval) list \<Rightarrow> ('s, 'x) runtime_host_v2
    \<Rightarrow> (pyexc + pydict) list \<times> ('s, 'x) runtime_host_v2" where
  "host_run cam execute [] host = ([], host)"
| "host_run cam execute ((payload, now) # calls) host =
    (let (r, host1) = host_handle cam execute host payload now;
         (rs, host2) = host_run cam execute calls host1 in (r # rs, host2))"

text \<open>What the nonce of a request is stored under.\<close>

definition request_key :: "envelope_v2 \<Rightarrow> string \<times> string" where
  "request_key req = (cx_wallet_id (ev_context req), py_strip (ev_nonce_value req))"

lemma evidence_request:
  assumes "evidence_ok vf p now policy ev"
  shows "parse_envelope_v2 (PDict p) now = Inr (vr_req (fst ev))"
  using assms by (auto simp: evidence_ok_def run_ok_def)

lemma evidence_unique:
  "evidence_ok vf p now policy ev \<Longrightarrow> evidence_ok vf p now policy ev' \<Longrightarrow> ev' = ev"
  unfolding gather_evidence_ok[symmetric] by simp

text \<open>The gate on complete evidence, as a call of the store under the request's key.\<close>

lemma tva_on_accepts:
  assumes "evidence_ok vf p now policy ev" "tva_on cam now ev store = (Inr (), store')"
  shows "\<exists>s s'. store = Some s \<and> store' = Some s' \<and>
    cam (fst (request_key (vr_req (fst ev)))) (snd (request_key (vr_req (fst ev))))
      (ev_expires_at (vr_req (fst ev))) s = (Inr True, s')"
proof -
  obtain r session ac out eqc au where ev: "ev = (r, session, ac, out, eqc, au)" by (cases ev)
  have "wsqk_ok r au" using assms(1) by (simp add: ev evidence_ok_def)
  then have b: "au_wallet_id (auth_base au) = cx_wallet_id (ev_context (vr_req r))"
    "au_nonce (auth_base au) = ev_nonce_value (vr_req r)" "au_expires_at (auth_base au) = ev_expires_at (vr_req r)"
    unfolding wsqk_ok_def by (auto dest: extract_wsqk_bound)
  show ?thesis using assms(2) b
    by (auto simp: ev tva_on_def enforce_tva_ok tva_checks_ok request_key_def)
qed

context nonce_contract begin

definition used_of :: "'s option \<Rightarrow> (string \<times> string) set" where
  "used_of store = (case store of Some s \<Rightarrow> used s | None \<Rightarrow> {})"

lemma enforce_tva_used_mono:
  "enforce_tva cam cx v a t f q store = (r, store') \<Longrightarrow> used_of store \<subseteq> used_of store'"
  by (auto simp: enforce_tva_def used_of_def Let_def dest: used_mono
      split: sum.splits option.splits prod.splits if_splits)

lemma v2_step_used_mono:
  "v2_step cam execute vf p now policy (s, x) a c (s', x') \<Longrightarrow> used_of s \<subseteq> used_of s'"
  by (erule v2_step_cases) (auto simp: tva_on_def dest!: enforce_tva_used_mono split: prod.splits)

lemma v2_step_marks:
  assumes "v2_step cam execute vf p now policy (s, x) a c (s', x')" "a \<or> x' \<noteq> x"
  shows "\<exists>ev. evidence_ok vf p now policy ev \<and> request_key (vr_req (fst ev)) \<notin> used_of s \<and>
    request_key (vr_req (fst ev)) \<in> used_of s'"
proof -
  obtain ev where ev: "evidence_ok vf p now policy ev" "tva_on cam now ev s = (Inr (), s')"
    using assms by (auto elim!: v2_step_cases)
  let ?k = "request_key (vr_req (fst ev))"
  obtain t t' where t: "s = Some t" "s' = Some t'"
    "cam (fst ?k) (snd ?k) (ev_expires_at (vr_req (fst ev))) t = (Inr True, t')"
    using tva_on_accepts[OF ev] by auto
  have "?k \<notin> used t" "?k \<in> used t'"
    using accept_iff_unused[OF t(3)] marks[OF t(3)] by simp_all
  then show ?thesis using ev(1) t by (intro exI[of _ ev]) (simp add: used_of_def)
qed

lemma orchestrate_used_mono:
  "orchestrate_execution_v2 cam execute vf payload now policy s x = (r, s', x') \<Longrightarrow> used_of s \<subseteq> used_of s'"
  using orchestrate_refines[OF refl, of cam execute vf payload now policy s x] v2_step_used_mono by fastforce

lemma host_used_mono: "host_handle cam execute host payload now = (r, host') \<Longrightarrow>
    used_of (rh_nonce_store host) \<subseteq> used_of (rh_nonce_store host')"
  by (auto simp: host_handle_def run_mobile_execution_call_v2_def Let_def dest!: orchestrate_used_mono
      split: prod.splits pyval.splits)

lemma host_run_used_mono: "host_run cam execute calls host = (rs, host') \<Longrightarrow>
    used_of (rh_nonce_store host) \<subseteq> used_of (rh_nonce_store host')"
proof (induction calls arbitrary: host rs)
  case (Cons c calls)
  then show ?case by (cases c) (fastforce split: prod.splits dest: host_used_mono)
qed simp

text \<open>A request whose key is used is neither executed nor allowed.\<close>

lemma used_request_denied:
  assumes "parse_envelope_v2 payload now = Inr req" "request_key req \<in> used_of s"
    and o: "orchestrate_execution_v2 cam execute vf payload now policy s x = (Inr resp, s', x')"
  shows "x' = x \<and> \<not> response_allowed resp"
proof (rule ccontr)
  assume n: "\<not> ?thesis"
  obtain p where p: "payload = PDict p" using assms(1) by (auto simp: parse_envelope_v2_def res_simps)
  have "v2_step cam execute vf p now policy (s, x) (response_allowed resp) (response_nonce_consumed resp) (s', x')"
    using orchestrate_refines[of p payload cam execute vf now policy s x] o p by (simp add: map_or_empty_def)
  from v2_step_marks[OF this] n obtain ev where
    "evidence_ok vf p now policy ev" "request_key (vr_req (fst ev)) \<notin> used_of s" by blast
  then show False using evidence_request[of vf p now policy ev] assms(1,2) p by simp
qed

lemma executed_request_used:
  assumes "orchestrate_execution_v2 cam execute vf payload now policy s x = (Inr resp, s', x')"
    and "response_allowed resp \<or> x' \<noteq> x"
  shows "\<exists>req. parse_envelope_v2 payload now = Inr req \<and> request_key req \<in> used_of s'"
proof -
  let ?p = "map_or_empty payload"
  have "v2_step cam execute vf ?p now policy (s, x) (response_allowed resp) (response_nonce_consumed resp) (s', x')"
    using orchestrate_refines[of ?p payload cam execute vf now policy s x] assms(1) by simp
  from v2_step_marks[OF this assms(2)] obtain ev where
    ev: "evidence_ok vf ?p now policy ev" "request_key (vr_req (fst ev)) \<in> used_of s'" by blast
  have "?p \<noteq> []" using evidence_request[OF ev(1)] by (auto simp: parse_envelope_v2_def res_simps)
  then have "payload = PDict ?p" by (cases payload) (auto simp: map_or_empty_def)
  then show ?thesis using evidence_request[OF ev(1)] ev(2) by metis
qed

text \<open>A request whose key an earlier request of the host used is neither executed nor allowed.\<close>

lemma host_executes_once:
  assumes h1: "host_handle cam execute host payload1 (PInt t1) = (Inr resp1, host1)"
    and "response_allowed resp1 \<or> rh_executor host1 \<noteq> rh_executor host"
    and "host_run cam execute calls host1 = (rs, host2)"
    and h2: "host_handle cam execute host2 payload2 (PInt t2) = (Inr resp2, host3)"
    and e: "parse_envelope_v2 payload1 t1 = Inr req1" "parse_envelope_v2 payload2 t2 = Inr req2"
      "request_key req2 = request_key req1"
  shows "rh_executor host3 = rh_executor host2 \<and> \<not> response_allowed resp2"
proof -
  obtain s1 x1 where o1: "orchestrate_execution_v2 cam execute (rh_verifiers host) payload1 t1 (rh_policy host)
      (rh_nonce_store host) (rh_executor host) = (Inr resp1, s1, x1)"
    "rh_nonce_store host1 = s1" "rh_executor host1 = x1"
    using h1 by (auto simp: host_handle_def run_mobile_execution_call_v2_def split: prod.splits)
  have "request_key req1 \<in> used_of s1"
    using executed_request_used[OF o1(1)] assms(2) o1(3) e(1) by force
  then have "request_key req2 \<in> used_of (rh_nonce_store host2)"
    using host_run_used_mono[OF assms(3)] o1(2) e(3) by auto
  then have u: "request_key req2 \<in> used_of (rh_nonce_store host2)" .
  obtain s3 x3 where o2: "orchestrate_execution_v2 cam execute (rh_verifiers host2) payload2 t2 (rh_policy host2)
      (rh_nonce_store host2) (rh_executor host2) = (Inr resp2, s3, x3)" "rh_executor host3 = x3"
    using h2 by (auto simp: host_handle_def run_mobile_execution_call_v2_def split: prod.splits)
  show ?thesis using used_request_denied[OF e(2) u o2(1)] o2(2) by simp
qed

end

section \<open>When a request is executed\<close>

lemma orchestrate_step:
  assumes "orchestrate_execution_v2 cam execute vf payload now policy s x = (Inr resp, s', x')"
  shows "v2_step cam execute vf (map_or_empty payload) now policy (s, x) (response_allowed resp)
    (response_nonce_consumed resp) (s', x')"
  using orchestrate_refines[OF refl, of cam execute vf payload now policy s x] assms by simp

lemma orchestrate_executes:
  assumes ok: "evidence_ok vf (map_or_empty payload) now policy ev" "tva_on cam now ev s = (Inr (), s')"
    "human_confirmed (map_or_empty payload) (fst ev)" "execute (exec_request (fst ev)) x = (res, x')"
  shows "\<exists>resp. orchestrate_execution_v2 cam execute vf payload now policy s x = (Inr resp, s', x') \<and>
    (response_allowed resp \<longleftrightarrow> \<not> isl res) \<and> (response_nonce_consumed resp \<longleftrightarrow> \<not> isl res)"
proof -
  let ?p = "map_or_empty payload"
  obtain resp t y where o: "orchestrate_execution_v2 cam execute vf payload now policy s x = (Inr resp, t, y)"
    and st: "v2_step cam execute vf ?p now policy (s, x) (response_allowed resp) (response_nonce_consumed resp) (t, y)"
    using orchestrate_refines[OF refl, of cam execute vf payload now policy s x] by blast
  have u: "ev' = ev" if "evidence_ok vf ?p now policy ev'" for ev' using evidence_unique[OF ok(1) that] .
  from st show ?thesis
  proof (cases rule: v2_step.cases)
    case no_evidence
    then show ?thesis using ok(1) by blast
  next
    case (gate_denies ev')
    then show ?thesis using u[of ev'] ok(2) by simp
  next
    case (no_confirmation ev')
    then show ?thesis using u[of ev'] ok(3) by simp
  next
    case (executor_raises ev')
    then show ?thesis using u[of ev'] o ok by auto
  next
    case (executed ev')
    then show ?thesis using u[of ev'] o ok by auto
  qed
qed

lemma allowed_grounds:
  assumes "orchestrate_execution_v2 cam execute vf payload now policy s x = (Inr resp, s', x')"
    and "response_allowed resp"
  shows "\<exists>ev result. evidence_ok vf (map_or_empty payload) now policy ev \<and> tva_on cam now ev s = (Inr (), s') \<and>
    human_confirmed (map_or_empty payload) (fst ev) \<and> execute (exec_request (fst ev)) x = (Inr result, x')"
proof -
  have "v2_step cam execute vf (map_or_empty payload) now policy (s, x) True (response_nonce_consumed resp) (s', x')"
    using orchestrate_step[OF assms(1)] assms(2) by simp
  from this show ?thesis by (rule v2_step_allowed) (intro exI conjI; assumption)
qed

text \<open>The response of an executed request.\<close>

lemma orchestrate_response:
  assumes ok: "evidence_ok vf (map_or_empty payload) now policy ev" "tva_on cam now ev s = (Inr (), s')"
    "human_confirmed (map_or_empty payload) (fst ev)" "execute (exec_request (fst ev)) x = (Inr result, x')"
    and resp: "orchestrate_execution_v2 cam execute vf payload now policy s x = (Inr resp, t, y)"
  shows "dget resp ''status'' = PStr ''allow'' \<and> dget resp ''reason_id'' = PStr (reason_value OK_ALLOW) \<and>
    dget resp ''context_hash'' = PStr (run_hash (fst ev))"
proof -
  obtain r session ac out eqc au where ev: "ev = (r, session, ac, out, eqc, au)" by (cases ev)
  let ?p = "map_or_empty payload"
  obtain a where a: "allow_response r result (snd (snd out)) = Inr a"
    using allow_response_ok[OF ok(1)[unfolded ev]] by blast
  have se: "stage_execute cam execute r ?p now session ac out eqc au s x = (Inr a, s', x')"
    using stage_execute_ok[OF ok(1)[unfolded ev] ok(2)[unfolded ev], of execute x] ok(3,4) a by (auto simp: ev)
  have "allow_response r result (snd (snd out)) = Inr resp"
    using orchestrate_evidence[OF ok(1) refl, of cam execute s x] se resp a by (simp add: ev)
  then show ?thesis
    using build_v2_fields unfolding allow_response_def by (fastforce simp: request_args_def run_hash_def ev)
qed

lemma demo_executes:
  assumes "demo_hashes h pf"
  shows "\<exists>resp. orchestrate_execution_v2 im_check_and_mark recording_execute demo_verifiers
      (PDict (demo_v2 [] (PBool True) h pf)) 20 (Some (demo_runtime_policy auth)) (Some empty_store)
      \<lparr>re_called = False, re_last_request = None\<rparr> =
      (Inr resp, Some \<lparr>im_used = [((''w'', ''n''), 60)]\<rparr>,
       \<lparr>re_called = True, re_last_request = Some (exec_request (demo_run auth (PBool True) h pf))\<rparr>) \<and>
    response_allowed resp \<and> response_nonce_consumed resp"
proof -
  obtain eqc where ev: "evidence_ok demo_verifiers (demo_v2 [] (PBool True) h pf) 20 (Some (demo_runtime_policy auth))
    (demo_run auth (PBool True) h pf, demo_session h pf, demo_ac h,
     (demo_bundle h, runtime_evidence_accepted ''shield:b'' h, []), eqc, AuthV1 (demo_authority_v1 h))"
    using demo_run_evidence_ok[OF assms] by blast
  have p: "map_or_empty (PDict (demo_v2 [] (PBool True) h pf)) = demo_v2 [] (PBool True) h pf"
    by (simp add: map_or_empty_def)
  show ?thesis
    using orchestrate_executes[where payload = "PDict (demo_v2 [] (PBool True) h pf)", unfolded p, OF ev demo_tva,
        of recording_execute "\<lparr>re_called = False, re_last_request = None\<rparr>"] demo_confirmed
    by (simp add: recording_execute_def)
qed

section \<open>Properties\<close>

text \<open>
  C15: The v2 orchestrator refines the abstract decision and always answers: for every payload,
  policy, store and executor it returns a response, never an exception, and the changes of the
  store and the executor together with the two flags of the response are one step of
  \<open>v2_step\<close>. So without complete evidence nothing is touched, only an accepting TVA gate marks
  the nonce, only a confirmed human gate reaches the executor, and the response says allowed
  exactly when the executor returned.
\<close>

theorem v2_orchestrator_refines_decision:
  "\<exists>resp s' x'. orchestrate_execution_v2 cam execute vf payload now policy s x = (Inr resp, s', x') \<and>
     v2_step cam execute vf (map_or_empty payload) now policy (s, x)
       (response_allowed resp) (response_nonce_consumed resp) (s', x')"
  by (rule orchestrate_refines[OF refl])

text \<open>
  C17: The v2 orchestrator answers allow exactly when there are grounds: the envelope parses, the
  policy and its latches hold, Q-ID, oracle, Shield and the WSQK proof are accepted at their
  boundaries, EQC allows, the TVA gate accepts, the user's confirmation is given and bound into
  the context, and the executor returns.
\<close>

theorem v2_allows_iff_grounds:
  "(\<exists>resp s' x'. orchestrate_execution_v2 cam execute vf payload now policy s x = (Inr resp, s', x') \<and>
      response_allowed resp) \<longleftrightarrow>
   (\<exists>ev s' result x'. evidence_ok vf (map_or_empty payload) now policy ev \<and> tva_on cam now ev s = (Inr (), s') \<and>
      human_confirmed (map_or_empty payload) (fst ev) \<and> execute (exec_request (fst ev)) x = (Inr result, x'))"
proof
  assume "\<exists>resp s' x'. orchestrate_execution_v2 cam execute vf payload now policy s x = (Inr resp, s', x') \<and>
    response_allowed resp"
  then show "\<exists>ev s' result x'. evidence_ok vf (map_or_empty payload) now policy ev \<and>
      tva_on cam now ev s = (Inr (), s') \<and> human_confirmed (map_or_empty payload) (fst ev) \<and>
      execute (exec_request (fst ev)) x = (Inr result, x')"
    using allowed_grounds by (metis (no_types, lifting))
next
  assume "\<exists>ev s' result x'. evidence_ok vf (map_or_empty payload) now policy ev \<and>
    tva_on cam now ev s = (Inr (), s') \<and> human_confirmed (map_or_empty payload) (fst ev) \<and>
    execute (exec_request (fst ev)) x = (Inr result, x')"
  then show "\<exists>resp s' x'. orchestrate_execution_v2 cam execute vf payload now policy s x = (Inr resp, s', x') \<and>
      response_allowed resp"
    using orchestrate_executes by (metis sum.disc(2))
qed

text \<open>What EQC established about the evidence of an allowed request.\<close>

definition bound_evidence :: "int \<Rightarrow> v2_evidence \<Rightarrow> bool" where
  "bound_evidence now ev \<longleftrightarrow> (case ev of (r, session, ac, (shield, _), eqc, au) \<Rightarrow>
    (let h = run_hash r; cx = ev_context (vr_req r) in
     compute_context_hash (py_strip (cx_wallet_id cx)) (py_strip (cx_action cx)) (vr_fields r) = Inr h \<and>
     qs_context_hash session = Some h \<and> validate_qid_session now session = Inr () \<and>
     ao_context_hash ac = h \<and> validate_oracle now ac = Inr () \<and>
     policy_threshold (vr_pol r) \<le> rr_overall_score (ao_report ac) \<and>
     sb_context_hash shield = h \<and> sb_issued_at shield \<le> now \<and> now < sb_expires_at shield \<and>
     sb_required_layers shield = REQUIRED_SHIELD_LAYERS_V3 \<and> \<not> shield_conflict shield \<and>
     au_wallet_id (auth_base au) = cx_wallet_id cx \<and> au_action (auth_base au) = cx_action cx \<and>
     au_context_hash (auth_base au) = h \<and> au_nonce (auth_base au) = ev_nonce_value (vr_req r)))"

lemma shield_ok_context:
  assumes "shield_ok v r (shield, sev, art)"
  shows "sb_context_hash shield = run_hash r \<and> sb_required_layers shield = REQUIRED_SHIELD_LAYERS_V3"
proof (cases "rp_shield_runtime_boundary (vr_pol r) = ORCHESTRATOR_RECEIPT_V3_2")
  case True
  then obtain res where res: "verify_shield_orchestrator_receipt (PDict (ev_evidence_shield (vr_req r))) (run_hash r)
      (ev_request_id (vr_req r)) (rp_rejected_shield_receipt_hashes (vr_pol r)) = Inr res" "receipt_accepted res"
    "shield_bundle_from_verified_receipt res (ev_issued_at (vr_req r)) (ev_expires_at (vr_req r)) = Inr shield"
    using assms by (auto simp: shield_ok_def Let_def)
  have "rv_context_hash res = Some (run_hash r)"
    using verify_allow[OF res(1)] res(2) by (auto simp: receipt_accepted_def)
  then show ?thesis using res(3)
    by (auto simp: shield_bundle_from_verified_receipt_def res_simps Let_def split: option.splits)
next
  case False
  then show ?thesis using assms by (auto simp: shield_ok_def Let_def bundle_evidence_def dest!: parse_shield_bundle_ok)
qed

lemma evidence_ok_bound:
  assumes "evidence_ok vf p now policy ev"
  shows "bound_evidence now ev"
proof -
  obtain r session ac shield sev art eqc au where ev: "ev = (r, session, ac, (shield, sev, art), eqc, au)"
    by (metis prod_cases6 prod_cases3)
  let ?cx = "ev_context (vr_req r)"
  have q: "shield_ok (vf_shield vf) r (shield, sev, art)" "wsqk_ok r au" "oracle_ok (vf_oracle vf) now r ac"
    "eqc_ok now r session ac shield eqc"
    using assms by (simp_all add: ev evidence_ok_def)
  have ac: "ao_context_hash ac = run_hash r \<and> rr_context_hash (ao_report ac) = run_hash r"
    using q(3) parse_oracle_ok unfolding oracle_ok_def Let_def by blast
  have pol: "effective_policy (Some (vr_pol r)) = vr_pol r" by (simp add: effective_policy_def)
  obtain m' where "evaluate_eqc_v2 (cx_wallet_id ?cx) (cx_action ?cx) (vr_fields r) (Some session) (Some ac)
      (Some shield) (Some now) (Some (vr_pol r)) None = (Inr eqc, m')" "eq_verdict eqc = ALLOW"
    using q(4) by (metis eqc_ok_def prod.collapse)
  then have "\<exists>eqc m'. evaluate_eqc_v2 (cx_wallet_id ?cx) (cx_action ?cx) (vr_fields r) (Some session) (Some ac)
      (Some shield) (Some now) (Some (vr_pol r)) None = (Inr eqc, m') \<and> eq_verdict eqc = ALLOW" by blast
  note e = this[unfolded evaluate_eqc_v2_allow_conv pol session_bound_def]
  show ?thesis
    using e ac shield_ok_context[OF q(1)] extract_wsqk_bound[OF q(2)[unfolded wsqk_ok_def]]
    by (auto simp: bound_evidence_def ev Let_def)
qed

text \<open>
  C14: One context, one moment: an allowed request was authorised, confirmed and executed on
  evidence that agrees. Its context hash is the hash of the request's own wallet, action and
  fields, and the Q-ID session, the oracle and its report, the Shield bundle and the WSQK authority
  all carry exactly that hash; session, oracle and bundle are valid at the injected time, the score
  reaches the policy's threshold, all five Shield layers report and no signal carries a reason other
  than EVIDENCE_OK; the authority is for the request's wallet, action and nonce. The TVA gate
  accepted that authority, the user's confirmation is given in the body and bound into the
  context, the executor ran that request and returned, and the response reports that context hash.
\<close>

theorem v2_allowed_evidence_is_bound:
  assumes "orchestrate_execution_v2 cam execute vf payload now policy s x = (Inr resp, s', x')"
    and "response_allowed resp"
  shows "\<exists>ev result. evidence_ok vf (map_or_empty payload) now policy ev \<and> bound_evidence now ev \<and>
    tva_on cam now ev s = (Inr (), s') \<and> human_confirmed (map_or_empty payload) (fst ev) \<and>
    execute (exec_request (fst ev)) x = (Inr result, x') \<and>
    dget resp ''status'' = PStr ''allow'' \<and> dget resp ''reason_id'' = PStr (reason_value OK_ALLOW) \<and>
    dget resp ''context_hash'' = PStr (run_hash (fst ev))"
  using allowed_grounds[OF assms] evidence_ok_bound orchestrate_response[OF _ _ _ _ assms(1)] by metis

theorem v2_allowed_evidence_is_bound_witness:
  "\<exists>h pf ev. demo_hashes h pf \<and> bound_evidence 20 ev \<and>
     human_confirmed (demo_v2 [] (PBool True) h pf) (fst ev) \<and>
     evidence_ok demo_verifiers (demo_v2 [] (PBool True) h pf) 20 (Some (demo_runtime_policy False)) ev"
proof -
  obtain h pf where h: "demo_hashes h pf" using demo_hashes_exist by blast
  obtain resp s' x' where "orchestrate_execution_v2 im_check_and_mark recording_execute demo_verifiers
      (PDict (demo_v2 [] (PBool True) h pf)) 20 (Some (demo_runtime_policy False)) (Some empty_store)
      \<lparr>re_called = False, re_last_request = None\<rparr> = (Inr resp, s', x')" "response_allowed resp"
    using demo_executes[OF h] by blast
  from v2_allowed_evidence_is_bound[OF this, unfolded map_or_empty_def pyval.case] show ?thesis using h by blast
qed

text \<open>
  C18: Authenticity is never skipped. A Q-ID verifier that is injected accepted the Q-ID evidence
  of every allowed request, and one is injected when that evidence is a v2 login. Under a policy that
  requires authenticated external evidence an oracle verifier is injected and accepted the oracle
  for the request's context hash, and on the receipt boundary a Shield verifier is injected and
  accepted the receipt for that hash. The code consults no Shield verifier on the legacy bundle
  boundary, and neither of the two when the policy does not ask for them.
\<close>

theorem v2_allowed_is_authenticated:
  assumes "orchestrate_execution_v2 cam execute vf payload now policy s x = (Inr resp, s', x')"
    and "response_allowed resp"
  shows "\<exists>req pol. parse_envelope_v2 (PDict (map_or_empty payload)) now = Inr req \<and> pol = effective_policy policy \<and>
    (vf_qid vf = None \<or> (\<exists>f. vf_qid vf = Some f \<and> f (ev_evidence_qid req) = Inr ())) \<and>
    (is_qid_v2_login_evidence (ev_evidence_qid req) \<longrightarrow>
       (\<exists>f. vf_qid vf = Some f \<and> f (ev_evidence_qid req) = Inr ())) \<and>
    (rp_require_authenticated_external_evidence pol \<longrightarrow>
       verifier_consents (vf_oracle vf) (ev_evidence_oracle req) (cx_context_hash (ev_context req)) \<and>
       (rp_shield_runtime_boundary pol = ORCHESTRATOR_RECEIPT_V3_2 \<longrightarrow>
         verifier_consents (vf_shield vf) (ev_evidence_shield req) (cx_context_hash (ev_context req))))"
proof -
  obtain ev where ok: "evidence_ok vf (map_or_empty payload) now policy ev" using allowed_grounds[OF assms] by blast
  obtain r session ac out eqc au where ev: "ev = (r, session, ac, out, eqc, au)" by (cases ev)
  obtain sh sev art where out: "out = (sh, sev, art)" by (cases out)
  show ?thesis using ok
    by (intro exI[of _ "vr_req r"] exI[of _ "vr_pol r"])
      (auto simp: ev out evidence_ok_def run_ok_def qid_ok_def qid_authentic_def oracle_ok_def shield_ok_def
        run_hash_def Let_def split: option.splits)
qed

text \<open>
  A request allowed under a policy that requires authenticated external evidence, on the verdict
  of an oracle verifier that vouches for the hash the oracle carries.
\<close>

theorem v2_allowed_is_authenticated_witness:
  "\<exists>h pf resp s' x' req. demo_hashes h pf \<and>
     orchestrate_execution_v2 im_check_and_mark recording_execute demo_verifiers
       (PDict (demo_v2 [] (PBool True) h pf)) 20 (Some (demo_runtime_policy True)) (Some empty_store)
       \<lparr>re_called = False, re_last_request = None\<rparr> = (Inr resp, s', x') \<and> response_allowed resp \<and>
     rp_require_authenticated_external_evidence (effective_policy (Some (demo_runtime_policy True))) \<and>
     parse_envelope_v2 (PDict (demo_v2 [] (PBool True) h pf)) 20 = Inr req \<and>
     verifier_consents (vf_oracle demo_verifiers) (ev_evidence_oracle req) (cx_context_hash (ev_context req))"
proof -
  obtain h pf where h: "demo_hashes h pf" using demo_hashes_exist by blast
  obtain resp s' x' where run: "orchestrate_execution_v2 im_check_and_mark recording_execute demo_verifiers
      (PDict (demo_v2 [] (PBool True) h pf)) 20 (Some (demo_runtime_policy True)) (Some empty_store)
      \<lparr>re_called = False, re_last_request = None\<rparr> = (Inr resp, s', x')" "response_allowed resp"
    using demo_executes[OF h] by blast
  have a: "rp_require_authenticated_external_evidence (effective_policy (Some (demo_runtime_policy True)))"
    by (simp add: effective_policy_def demo_runtime_policy_def)
  from v2_allowed_is_authenticated[OF run] obtain req where
    "parse_envelope_v2 (PDict (demo_v2 [] (PBool True) h pf)) 20 = Inr req"
    "verifier_consents (vf_oracle demo_verifiers) (ev_evidence_oracle req) (cx_context_hash (ev_context req))"
    using a by (auto simp: map_or_empty_def)
  then show ?thesis using h run a by blast
qed

text \<open>
  C16: A host executes a request at most once: after a request was executed, whatever requests
  the host serves in between, a request of the same wallet and nonce is neither executed nor
  answered with allow. Stated for the in-memory store; the proof holds for every store that keeps
  the contract of the nonce interface.
\<close>

theorem v2_host_executes_once:
  assumes "host_handle im_check_and_mark execute host payload1 (PInt t1) = (Inr resp1, host1)"
    and "response_allowed resp1 \<or> rh_executor host1 \<noteq> rh_executor host"
    and "host_run im_check_and_mark execute calls host1 = (rs, host2)"
    and "host_handle im_check_and_mark execute host2 payload2 (PInt t2) = (Inr resp2, host3)"
    and "parse_envelope_v2 payload1 t1 = Inr req1" "parse_envelope_v2 payload2 t2 = Inr req2"
      "request_key req2 = request_key req1"
  shows "rh_executor host3 = rh_executor host2 \<and> \<not> response_allowed resp2"
  using assms by (rule im.host_executes_once)

definition demo_host :: "(in_memory_store, recording_executor) runtime_host_v2" where
  "demo_host = \<lparr>rh_executor = \<lparr>re_called = False, re_last_request = None\<rparr>, rh_nonce_store = Some empty_store,
     rh_policy = Some (demo_runtime_policy False), rh_verifiers = demo_verifiers\<rparr>"

lemma host_answers: "\<exists>resp host'. host_handle cam execute host payload (PInt t) = (Inr resp, host')"
  using orchestrate_refines[OF refl, of cam execute "rh_verifiers host" payload t "rh_policy host"
      "rh_nonce_store host" "rh_executor host"]
  by (auto simp: host_handle_def run_mobile_execution_call_v2_def)

theorem v2_host_executes_once_witness:
  "\<exists>h pf resp1 host1 resp2 host2. demo_hashes h pf \<and>
     host_handle im_check_and_mark recording_execute demo_host (PDict (demo_v2 [] (PBool True) h pf)) (PInt 20)
       = (Inr resp1, host1) \<and> response_allowed resp1 \<and>
     host_handle im_check_and_mark recording_execute host1 (PDict (demo_v2 [] (PBool True) h pf)) (PInt 20)
       = (Inr resp2, host2) \<and> \<not> response_allowed resp2"
proof -
  obtain h pf where h: "demo_hashes h pf" using demo_hashes_exist by blast
  let ?p = "PDict (demo_v2 [] (PBool True) h pf)"
  note e = demo_parses[OF h, of "[]" "PBool True"]
  obtain resp1 host1 where 1: "host_handle im_check_and_mark recording_execute demo_host ?p (PInt 20) = (Inr resp1, host1)"
    "response_allowed resp1"
    using demo_executes[OF h, of False] by (auto simp: host_handle_def run_mobile_execution_call_v2_def demo_host_def)
  obtain resp2 host2 where 2: "host_handle im_check_and_mark recording_execute host1 ?p (PInt 20) = (Inr resp2, host2)"
    using host_answers by blast
  have "\<not> response_allowed resp2"
    using v2_host_executes_once[OF 1(1) disjI1[OF 1(2)] _ 2 e e refl, of "[]"] by simp
  then show ?thesis using h 1 2 by blast
qed

text \<open>
  C19: The nonce flag of a response is sound for the in-memory store, with one exception: when the
  flag says consumed the store has gained exactly the request's key; when it does not, the store
  is as it was, or the gate had accepted and the executor then raised.
\<close>

theorem v2_nonce_flag:
  "case orchestrate_execution_v2 im_check_and_mark execute vf payload now policy (Some st) x of
     (Inl e, s', x') \<Rightarrow> False
   | (Inr resp, s', x') \<Rightarrow>
       if response_nonce_consumed resp
       then \<exists>st' req. s' = Some st' \<and> parse_envelope_v2 (PDict (map_or_empty payload)) now = Inr req \<and>
         request_key req \<notin> im_used_keys st \<and> im_used_keys st' = insert (request_key req) (im_used_keys st)
       else s' = Some st \<or> (\<exists>ev e. evidence_ok vf (map_or_empty payload) now policy ev \<and>
         execute (exec_request (fst ev)) x = (Inl e, x'))"
proof -
  obtain resp s' x' where o: "orchestrate_execution_v2 im_check_and_mark execute vf payload now policy (Some st) x
      = (Inr resp, s', x')"
    and step: "v2_step im_check_and_mark execute vf (map_or_empty payload) now policy (Some st, x)
      (response_allowed resp) (response_nonce_consumed resp) (s', x')"
    using orchestrate_refines[OF refl, of im_check_and_mark execute vf payload now policy "Some st" x] by blast
  have mark: "\<exists>st' req. s' = Some st' \<and> parse_envelope_v2 (PDict (map_or_empty payload)) now = Inr req \<and>
      request_key req \<notin> im_used_keys st \<and> im_used_keys st' = insert (request_key req) (im_used_keys st)"
    if ev: "evidence_ok vf (map_or_empty payload) now policy ev" "tva_on im_check_and_mark now ev (Some st) = (Inr (), s')"
    for ev
  proof -
    let ?k = "request_key (vr_req (fst ev))"
    obtain st' where t: "s' = Some st'" "im_check_and_mark (fst ?k) (snd ?k) (ev_expires_at (vr_req (fst ev))) st = (Inr True, st')"
      using tva_on_accepts[OF ev] by auto
    show ?thesis using t evidence_request[OF ev(1)] im.accept_iff_unused[OF t(2)] im.marks[OF t(2)] by simp
  qed
  have deny: "s' = Some st" if "tva_on im_check_and_mark now ev (Some st) = (Inl e, s')" for ev e
    using that by (auto simp: tva_on_def enforce_tva_def im_check_and_mark_def Let_def
        split: prod.splits sum.splits if_splits)
  from step have "if response_nonce_consumed resp
    then \<exists>st' req. s' = Some st' \<and> parse_envelope_v2 (PDict (map_or_empty payload)) now = Inr req \<and>
      request_key req \<notin> im_used_keys st \<and> im_used_keys st' = insert (request_key req) (im_used_keys st)
    else s' = Some st \<or> (\<exists>ev e. evidence_ok vf (map_or_empty payload) now policy ev \<and>
      execute (exec_request (fst ev)) x = (Inl e, x'))"
  proof (cases rule: v2_step.cases)
    case (gate_denies ev e)
    then show ?thesis using deny by simp
  next
    case (no_confirmation ev)
    then show ?thesis using mark[of ev] by simp
  next
    case (executor_raises ev e)
    then have "\<exists>ev e. evidence_ok vf (map_or_empty payload) now policy ev \<and>
      execute (exec_request (fst ev)) x = (Inl e, x')" by (intro exI[of _ ev] exI[of _ e]) simp
    then show ?thesis using executor_raises by simp
  next
    case (executed ev)
    then show ?thesis using mark[of ev] by simp
  qed simp
  then show ?thesis using o by simp
qed

text \<open>
  The exception is real: when the executor raises after the gate accepted, the response is an
  error that reports the nonce as not consumed and both gates as not allowed, while the store
  holds the nonce and a retry of the request is refused.
\<close>

theorem v2_executor_failure_hides_consumption:
  assumes "evidence_ok vf (map_or_empty payload) now policy ev"
    and "tva_on im_check_and_mark now ev (Some st) = (Inr (), Some st')"
    and "human_confirmed (map_or_empty payload) (fst ev)"
    and "execute (exec_request (fst ev)) x = (Inl e, x')"
  shows "\<exists>resp. orchestrate_execution_v2 im_check_and_mark execute vf payload now policy (Some st) x
      = (Inr resp, Some st', x') \<and> \<not> response_allowed resp \<and> \<not> response_nonce_consumed resp \<and>
    request_key (vr_req (fst ev)) \<in> im_used_keys st'"
proof -
  let ?k = "request_key (vr_req (fst ev))"
  have "im_check_and_mark (fst ?k) (snd ?k) (ev_expires_at (vr_req (fst ev))) st = (Inr True, st')"
    using tva_on_accepts[OF assms(1,2)] by auto
  then have "?k \<in> im_used_keys st'" using im.marks by simp
  then show ?thesis using orchestrate_executes[where execute = execute and x = x, OF assms] by auto
qed

theorem v2_executor_failure_hides_consumption_witness:
  "\<exists>h pf resp. demo_hashes h pf \<and> orchestrate_execution_v2 im_check_and_mark (\<lambda>req n. (Inl (OtherError ''down''), n + 1))
      demo_verifiers (PDict (demo_v2 [] (PBool True) h pf)) 20 (Some (demo_runtime_policy False)) (Some empty_store) (0 :: nat)
      = (Inr resp, Some \<lparr>im_used = [((''w'', ''n''), 60)]\<rparr>, 1) \<and> \<not> response_nonce_consumed resp"
proof -
  obtain h pf where h: "demo_hashes h pf" using demo_hashes_exist by blast
  obtain eqc where ev: "evidence_ok demo_verifiers (map_or_empty (PDict (demo_v2 [] (PBool True) h pf))) 20
    (Some (demo_runtime_policy False)) (demo_run False (PBool True) h pf, demo_session h pf, demo_ac h,
     (demo_bundle h, runtime_evidence_accepted ''shield:b'' h, []), eqc, AuthV1 (demo_authority_v1 h))"
    using demo_run_evidence_ok[OF h] by (auto simp: map_or_empty_def)
  have hc: "human_confirmed (map_or_empty (PDict (demo_v2 [] (PBool True) h pf))) (demo_run False (PBool True) h pf)"
    using demo_confirmed by (simp add: map_or_empty_def)
  show ?thesis
    using v2_executor_failure_hides_consumption[OF ev demo_tva, of "\<lambda>req n. (Inl (OtherError ''down''), n + 1)"
        "0 :: nat" "OtherError ''down''" 1] hc h by auto
qed

text \<open>
  A request whose \<open>authority.scope.wsqk_v2\<close> is malformed is denied before any evidence is
  looked at, and neither the store nor the executor is touched; but the response reports the EQC
  and WSQK gates as allowed.
\<close>

theorem v2_malformed_scope_reports_gates_allowed:
  assumes "parse_envelope_v2 (PDict p) now = Inr req"
    and "extract_wsqk_v2_runtime_requirements (ev_authority_scope req) = Inl e"
  shows "\<exists>resp d g. orchestrate_execution_v2 cam execute vf (PDict p) now policy s x = (Inr resp, s, x) \<and>
    dget resp ''status'' = PStr ''deny'' \<and> dget resp ''reason_id'' = PStr (reason_value DENY_AUTHORITY_INVALID) \<and>
    dget resp ''decision'' = PDict d \<and> dget d ''gates'' = PDict g \<and>
    dget g ''eqc'' = PDict [(''allowed'', PBool True), (''reason_id'', PStr (reason_value OK_ALLOW))] \<and>
    dget g ''wsqk'' = PDict [(''allowed'', PBool True), (''reason_id'', PStr (reason_value OK_ALLOW))]"
proof -
  let ?a = "handler_args p ''deny'' DENY_AUTHORITY_INVALID True True (reason_value DENY_AUTHORITY_INVALID)"
  have e: "e = tva_deny DENY_AUTHORITY_INVALID"
    using assms(2) by (auto simp: extract_wsqk_v2_runtime_requirements_def split: pyval.splits option.splits)
  have "reason_from_message (reason_value DENY_AUTHORITY_INVALID) = DENY_AUTHORITY_INVALID"
    by (simp add: reason_from_message_def del: reason_value.simps)
  then have h: "handle_error_v2 p e = build_execution_response_v2 ?a"
    by (simp add: e tva_deny_def handle_error_v2_def handle_tva_error_def del: reason_value.simps)
  obtain resp where resp: "build_execution_response_v2 ?a = Inr resp" using handler_args_total by blast
  have "stage_policy p now policy = Inl e" using assms by (simp add: stage_policy_def)
  then have "orchestrate_execution_v2 cam execute vf (PDict p) now policy s x = (Inr resp, s, x)"
    using h resp by (simp add: orchestrate_execution_v2_def orchestrate_body_def gather_evidence_def
        bind_stage_def map_or_empty_def)
  moreover have "dget resp ''decision'' = PDict (decision_v2 ?a)" "dget resp ''status'' = PStr ''deny''"
    "dget resp ''reason_id'' = PStr (reason_value DENY_AUTHORITY_INVALID)"
    using build_v2_fields[OF resp] by (simp_all add: handler_args_def del: reason_value.simps)
  ultimately show ?thesis
    by (simp add: decision_v2_def handler_args_def gate_reason_v2_def Let_def)
qed

theorem v2_malformed_scope_reports_gates_allowed_witness:
  "\<exists>h pf resp. demo_hashes h pf \<and> orchestrate_execution_v2 im_check_and_mark recording_execute demo_verifiers
      (PDict (demo_v2 [(''wsqk_v2'', PInt 1)] (PBool True) h pf)) 20 None (Some empty_store)
      \<lparr>re_called = False, re_last_request = None\<rparr> =
      (Inr resp, Some empty_store, \<lparr>re_called = False, re_last_request = None\<rparr>)"
proof -
  obtain h pf where h: "demo_hashes h pf" using demo_hashes_exist by blast
  have "extract_wsqk_v2_runtime_requirements (ev_authority_scope (demo_req [(''wsqk_v2'', PInt 1)] (PBool True) h pf))
      = Inl (tva_deny DENY_AUTHORITY_INVALID)"
    by (simp add: extract_wsqk_v2_runtime_requirements_def demo_req_def)
  from v2_malformed_scope_reports_gates_allowed[OF demo_parses[OF h] this, of im_check_and_mark recording_execute
      demo_verifiers None "Some empty_store" "\<lparr>re_called = False, re_last_request = None\<rparr>"]
  show ?thesis using h by (elim exE conjE, intro exI conjI)
qed

section \<open>The receipt route\<close>

text \<open>A component verdict the loop over the receipt takes.\<close>

definition unanimous_component :: "pyval \<Rightarrow> bool" where
  "unanimous_component c \<longleftrightarrow> (case c of PDict m \<Rightarrow> dget m ''decision'' = PStr ''ALLOW'' \<and>
     (case dget m ''component_id'' of PStr cid \<Rightarrow> receipt_component_source cid \<noteq> None | _ \<Rightarrow> False) | _ \<Rightarrow> False)"

definition receipt_signal :: "shield_source \<Rightarrow> shield_signal" where
  "receipt_signal src = \<lparr>ss_source = src, ss_severity = 0, ss_reason_ids = [reason_value EVIDENCE_OK]\<rparr>"

lemma receipt_signal_fold: "\<lparr>ss_source = src, ss_severity = 0, ss_reason_ids = [''EVIDENCE_OK'']\<rparr> = receipt_signal src"
  by (simp add: receipt_signal_def)

definition component_id_of :: "pyval \<Rightarrow> string" where
  "component_id_of c = (case c of PDict m \<Rightarrow> str_of (dget m ''component_id'') | _ \<Rightarrow> [])"

lemma component_PDict [simp]:
  "unanimous_component (PDict m) \<longleftrightarrow> dget m ''decision'' = PStr ''ALLOW'' \<and>
    (\<exists>cid. dget m ''component_id'' = PStr cid \<and> receipt_component_source cid \<noteq> None)"
  "component_id_of (PDict m) = str_of (dget m ''component_id'')"
  by (auto simp: unanimous_component_def component_id_of_def split: pyval.splits)

lemma receipt_signals_ok:
  assumes "receipt_signals acc cs = Inr acc'"
    and "\<forall>l. map_of acc l = None \<or> map_of acc l = map_option receipt_signal (receipt_component_source l)"
  shows "list_all unanimous_component cs \<and>
    (\<forall>l. map_of acc' l = None \<or> map_of acc' l = map_option receipt_signal (receipt_component_source l)) \<and>
    set (map fst acc') = set (map fst acc) \<union> component_id_of ` set cs"
  using assms
proof (induction acc cs rule: receipt_signals.induct)
  case (2 acc c cs)
  from 2(2) obtain m cid src where c: "c = PDict m" "dget m ''component_id'' = PStr cid"
    "receipt_component_source cid = Some src" "dget m ''decision'' = PStr ''ALLOW''"
    and rest: "receipt_signals (AList.update cid (receipt_signal src) acc) cs = Inr acc'"
    by (auto simp: receipt_signal_def res_simps split: pyval.splits option.splits if_splits)
  define acc2 where "acc2 = AList.update cid (receipt_signal src) acc"
  have inv: "\<forall>l. map_of acc2 l = None \<or> map_of acc2 l = map_option receipt_signal (receipt_component_source l)"
    using 2(3) c(3) by (simp add: acc2_def update_conv)
  have keys: "set (map fst acc2) = insert cid (set (map fst acc))"
    by (simp add: acc2_def dom_update)
  have "list_all unanimous_component cs \<and>
      (\<forall>l. map_of acc' l = None \<or> map_of acc' l = map_option receipt_signal (receipt_component_source l)) \<and>
      set (map fst acc') = set (map fst acc2) \<union> component_id_of ` set cs"
    using 2(1)[OF c(1,2,3)] c(4) rest inv by (simp add: acc2_def receipt_signal_fold)
  then show ?case
    using c keys by (auto simp: str_of_def)
qed simp

lemma demo_stripped: "py_strip ''ALLOW'' = ''ALLOW''" "py_strip ''DENY '' = ''DENY''"
  by (simp_all add: py_strip_def py_isspace_def)

lemma demo_receipt_signals:
  "\<exists>acc. receipt_signals [] (demo_verdicts h rid ''ALLOW'') = Inr acc \<and>
    set (map fst acc) = set REQUIRED_SHIELD_LAYERS_V3 \<and>
    map (\<lambda>l. the (map_of acc l)) REQUIRED_SHIELD_LAYERS_V3 = map receipt_signal [SENTINEL, ADN, DQSN, QWG, GUARDIAN]"
  by (auto simp: demo_verdicts_def demo_component_def receipt_component_source_def REQUIRED_SHIELD_LAYERS_V3_def
    receipt_signal_def)

lemma reason_blank: "\<not> list_all py_isspace (reason_value EVIDENCE_OK)"
  by (simp add: py_isspace_def)

lemma demo_receipt_bundle_valid:
  "validate_shield_bundle \<lparr>sb_bundle_id = ''shield_orchestrator_receipt:'' @ rh,
    sb_context_hash = replicate 64 CHR ''0'', sb_issued_at = 10, sb_expires_at = 60,
    sb_required_layers = REQUIRED_SHIELD_LAYERS_V3,
    sb_signals = map receipt_signal [SENTINEL, ADN, DQSN, QWG, GUARDIAN]\<rparr> = Inr ()"
  by (simp add: validate_shield_bundle_def REQUIRED_SHIELD_LAYERS_V3_def py_blank_def py_isspace_def
    validate_shield_signal_def receipt_signal_def check_reason_ids_ok reason_blank
    del: reason_value.simps)

text \<open>
  The bundle the orchestrator derives from a receipt rests on a unanimous receipt: the receipt
  was verified as ALLOW evidence and is no final approval, every component verdict reads exactly
  ALLOW, the components are exactly the five required layers, and the bundle carries one signal of
  severity 0 per layer, in their order, under the receipt's context hash. (A padded decision that
  the verifier takes for ALLOW is refused here.)
\<close>

theorem receipt_bundle_is_unanimous:
  assumes "shield_bundle_from_verified_receipt res issued_at expires_at = Inr b"
  shows "\<exists>receipt cs. rv_receipt res = Some receipt \<and> dget receipt ''component_verdicts'' = PList cs \<and>
    rv_state res = VERIFIED_ALLOW_EVIDENCE_CONTINUE_CHECKS \<and> \<not> rv_final_approval res \<and>
    list_all unanimous_component cs \<and> component_id_of ` set cs = set REQUIRED_SHIELD_LAYERS_V3 \<and>
    rv_context_hash res = Some (sb_context_hash b) \<and> sb_required_layers b = REQUIRED_SHIELD_LAYERS_V3 \<and>
    sb_signals b = map receipt_signal [SENTINEL, ADN, DQSN, QWG, GUARDIAN]"
proof -
  obtain receipt cs acc where r: "rv_receipt res = Some receipt" "dget receipt ''component_verdicts'' = PList cs"
    "rv_state res = VERIFIED_ALLOW_EVIDENCE_CONTINUE_CHECKS" "\<not> rv_final_approval res"
    "rv_context_hash res = Some (sb_context_hash b)" "sb_required_layers b = REQUIRED_SHIELD_LAYERS_V3"
    "receipt_signals [] cs = Inr acc" "set (map fst acc) = set REQUIRED_SHIELD_LAYERS_V3"
    "sb_signals b = map (\<lambda>l. the (map_of acc l)) REQUIRED_SHIELD_LAYERS_V3"
    using assms by (auto simp: shield_bundle_from_verified_receipt_def res_simps Let_def
      split: if_splits option.splits)
  have inv: "list_all unanimous_component cs" "set (map fst acc) = component_id_of ` set cs"
    "map_of acc l = None \<or> map_of acc l = map_option receipt_signal (receipt_component_source l)" for l
    using receipt_signals_ok[OF r(7)] by simp_all
  have "map_of acc l \<noteq> None" if "l \<in> set REQUIRED_SHIELD_LAYERS_V3" for l
    using that r(8) by (auto simp: map_of_eq_None_iff)
  then have "map_of acc l = map_option receipt_signal (receipt_component_source l)"
    if "l \<in> set REQUIRED_SHIELD_LAYERS_V3" for l using inv(3) that by blast
  then have "sb_signals b = map (\<lambda>l. receipt_signal (the (receipt_component_source l))) REQUIRED_SHIELD_LAYERS_V3"
    by (simp add: r(9) REQUIRED_SHIELD_LAYERS_V3_def receipt_component_source_def)
  then show ?thesis using r inv
    by (simp add: REQUIRED_SHIELD_LAYERS_V3_def receipt_component_source_def)
qed

theorem receipt_bundle_is_unanimous_witness:
  "\<exists>res b. verify_shield_orchestrator_receipt (PDict (demo_receipt (replicate 64 CHR ''0'') ''req'' ''ALLOW'' (demo_hash (replicate 64 CHR ''0'') ''req'' ''ALLOW'')))
      (replicate 64 CHR ''0'') ''req'' [] = Inr res \<and>
    shield_bundle_from_verified_receipt res 10 60 = Inr b \<and>
    sb_signals b = map receipt_signal [SENTINEL, ADN, DQSN, QWG, GUARDIAN]"
proof -
  obtain res where v: "verify_shield_orchestrator_receipt (PDict (demo_receipt (replicate 64 CHR ''0'') ''req'' ''ALLOW'' (demo_hash (replicate 64 CHR ''0'') ''req'' ''ALLOW'')))
      (replicate 64 CHR ''0'') ''req'' [] = Inr res"
    "rv_state res = VERIFIED_ALLOW_EVIDENCE_CONTINUE_CHECKS" "rv_verified res" "rv_accepted_as_evidence res"
    "\<not> rv_final_approval res" "rv_handoff_allowed res"
    "rv_receipt res = Some (demo_receipt (replicate 64 CHR ''0'') ''req'' ''ALLOW'' (demo_hash (replicate 64 CHR ''0'') ''req'' ''ALLOW''))"
    "rv_context_hash res = Some (replicate 64 CHR ''0'')" "rv_receipt_hash res = Some (demo_hash (replicate 64 CHR ''0'') ''req'' ''ALLOW'')"
    using demo_verified[OF demo_bound_zeros, of "''ALLOW''"] demo_stripped by auto
  moreover have "demo_hash (replicate 64 CHR ''0'') ''req'' ''ALLOW'' \<noteq> []" using demo_hash_ok(2)[of "replicate 64 CHR ''0''" "''req''" "''ALLOW''"] by (auto simp: is_sha256_hex_def)
  moreover have "dget (demo_receipt (replicate 64 CHR ''0'') ''req'' d rh) ''component_verdicts'' = PList (demo_verdicts (replicate 64 CHR ''0'') ''req'' d)" for d rh
    by (simp add: demo_receipt_def)
  moreover obtain acc where acc: "receipt_signals [] (demo_verdicts (replicate 64 CHR ''0'') ''req'' ''ALLOW'') = Inr acc"
    "set (map fst acc) = set REQUIRED_SHIELD_LAYERS_V3"
    "map (\<lambda>l. the (map_of acc l)) REQUIRED_SHIELD_LAYERS_V3 = map receipt_signal [SENTINEL, ADN, DQSN, QWG, GUARDIAN]"
    using demo_receipt_signals by blast
  ultimately have "\<exists>b. shield_bundle_from_verified_receipt res 10 60 = Inr b"
    using demo_receipt_bundle_valid[of "demo_hash (replicate 64 CHR ''0'') ''req'' ''ALLOW''"]
    by (simp add: shield_bundle_from_verified_receipt_def Let_def acc(1,2) acc(3)[simplified] del: append.simps set_map)
  then show ?thesis using v(1) receipt_bundle_is_unanimous by blast
qed

end
