(* ===== verification/Orchestrator_V1.thy ===== *)
theory Orchestrator_V1
  imports Runtime_Host
begin

text \<open>
  \<open>src/adamantine/v1/execution/orchestrator_v1.py\<close>: the deprecated compatibility path for v1
  requests. Evidence is optional and sits inside the payload; Shield and gateway evidence is
  synthesised. The private helpers the file repeats from \<open>orchestrator_v2.py\<close> word for word
  (\<open>_safe_str\<close>, \<open>_reason_from_message\<close>, \<open>_require_mapping\<close>, \<open>_extract_fields\<close>,
  \<open>_is_qid_v2_login_evidence\<close> and the Q-ID block) are the definitions of Orchestrator_V2.
\<close>

section \<open>Evidence of a v1 request\<close>

definition v1_runtime_evidence :: "string \<Rightarrow> string \<Rightarrow> evidence" where
  "v1_runtime_evidence source h = ObjectEvidence
    [(''source'', PStr source), (''state'', PStr ''ALLOW_EVIDENCE_CONTINUE_CHECKS''),
     (''outcome'', PStr ''ALLOW_EVIDENCE''), (''reason_id'', PStr (reason_value EVIDENCE_OK)),
     (''accepted_as_evidence'', PBool True), (''final_approval'', PBool False),
     (''handoff_allowed'', PBool True), (''context_hash'', PStr h),
     (''dominant_reason_ids'', PTuple [PStr (reason_value EVIDENCE_OK)])]"

definition opt_map :: "pyval \<Rightarrow> pydict option" where
  "opt_map v = (case v of PDict m \<Rightarrow> Some m | _ \<Rightarrow> None)"

definition extract_evidence :: "pydict \<Rightarrow> pydict option \<times> pydict option" where
  "extract_evidence req_payload = (case opt_map (dget req_payload ''evidence'') of
     None \<Rightarrow> (None, None)
   | Some ev \<Rightarrow> (opt_map (dget ev ''qid''), opt_map (dget ev ''risk'')))"

definition extract_wsqk_authority_v1 :: "string \<Rightarrow> string \<Rightarrow> string \<Rightarrow> string \<Rightarrow> int \<Rightarrow> int
    \<Rightarrow> pydict option \<Rightarrow> wsqk_authority option" where
  "extract_wsqk_authority_v1 wallet_id action context_hash nonce_value issued_at expires_at proofs =
    (case proofs of None \<Rightarrow> None | Some pr \<Rightarrow> (case dget pr ''wsqk'' of
       PDict wsqk \<Rightarrow>
        (case (nonempty_str (dget wsqk ''wallet_id''), nonempty_str (dget wsqk ''action''),
             nonempty_str (dget wsqk ''context_hash''), dget wsqk ''issued_at'', dget wsqk ''expires_at'',
             nonempty_str (dget wsqk ''nonce'')) of
          (Some w, Some a, Some ch, PInt ia, PInt ea, Some n) \<Rightarrow>
            if w \<noteq> wallet_id \<or> a \<noteq> action \<or> ch \<noteq> context_hash then None
            else if n \<noteq> nonce_value then None
            else if ia \<noteq> issued_at \<or> ea \<noteq> expires_at then None
            else Some \<lparr>au_wallet_id = w, au_action = a, au_context_hash = ch, au_issued_at = ia,
              au_expires_at = ea, au_nonce = n\<rparr>
        | _ \<Rightarrow> None)
     | _ \<Rightarrow> None))"

section \<open>Responses\<close>

record v1_flags =
  f1_tva :: bool
  f1_eqc :: bool
  f1_wsqk :: bool
  f1_nonce :: bool
  f1_timebox :: bool

definition v1_args :: "string \<Rightarrow> string \<Rightarrow> string \<Rightarrow> string \<Rightarrow> string \<Rightarrow> reason_arg \<Rightarrow> v1_flags
    \<Rightarrow> pydict option \<Rightarrow> response_v1_args" where
  "v1_args request_id intent action h status rid fl artifacts =
    \<lparr>r1_request_id = request_id, r1_intent = intent, r1_action = action, r1_context_hash = h,
     r1_status = status, r1_reason_id = rid, r1_protection_mode = ''legacy'',
     r1_tva_allowed = f1_tva fl, r1_eqc_allowed = f1_eqc fl, r1_wsqk_allowed = f1_wsqk fl,
     r1_nonce_consumed = f1_nonce fl, r1_timebox_valid = f1_timebox fl,
     r1_artifacts = artifacts, r1_metrics = None\<rparr>"

text \<open>A response of a parsed request.\<close>

definition v1_response :: "envelope_v1 \<Rightarrow> string \<Rightarrow> string \<Rightarrow> reason_arg \<Rightarrow> v1_flags
    \<Rightarrow> pydict option \<Rightarrow> pyexc + pydict" where
  "v1_response req h status rid fl artifacts = build_execution_response_v1
     (v1_args (ev_request_id req) (ev_intent req) (cx_action (ev_context req)) h status rid fl artifacts)"

definition handler_v1 :: "pydict \<Rightarrow> string \<Rightarrow> reason_id \<Rightarrow> v1_flags \<Rightarrow> string \<Rightarrow> pyexc + pydict" where
  "handler_v1 p status rid fl error = build_execution_response_v1
     (v1_args (safe_str (dget p ''request_id'') ''invalid-request'') (safe_str (dget p ''intent'') ''unknown'')
       (safe_str (dget (map_or_empty (dget p ''context'')) ''action'') ''invalid-action'')
       zero_hash status (RId rid) fl (Some [(''error'', PStr error)]))"

definition no_gate :: v1_flags where
  "no_gate = \<lparr>f1_tva = False, f1_eqc = False, f1_wsqk = False, f1_nonce = False, f1_timebox = False\<rparr>"

definition handle_error_v1 :: "pydict \<Rightarrow> pyexc \<Rightarrow> pyexc + pydict" where
  "handle_error_v1 p e = (case e of
     AdapterError rid msg \<Rightarrow> handler_v1 p ''error'' rid no_gate msg
   | TVAError msg \<Rightarrow> handler_v1 p ''deny'' (reason_from_message msg)
       \<lparr>f1_tva = False, f1_eqc = True, f1_wsqk = True, f1_nonce = False, f1_timebox = True\<rparr> msg
   | EnvelopeError rid msg \<Rightarrow> handler_v1 p ''error'' rid no_gate msg
   | _ \<Rightarrow> handler_v1 p ''error'' DENY_SCHEMA_INVALID no_gate (exc_str e))"

section \<open>The stages\<close>

text \<open>The parsed request with its policy and the evidence it carries.\<close>

record v1_run =
  wr_req :: envelope_v1
  wr_fields :: "pydict option"
  wr_pol :: risk_policy
  wr_session :: "qid_session_proof option"
  wr_risk :: "risk_report option"

definition v1_evidence :: "pydict \<Rightarrow> int \<Rightarrow> (pydict \<Rightarrow> pyexc + unit) option \<Rightarrow> risk_policy option \<Rightarrow> pyexc + v1_run" where
  "v1_evidence p now qid_verifier policy =
     bind_r (parse_envelope_v1 (PDict p) now) (\<lambda>req.
     let pol = effective_policy policy; (qid_raw, risk_raw) = extract_evidence (ev_payload req) in
     bind_r (validate_risk_policy pol) (\<lambda>_.
     bind_r (case qid_raw of None \<Rightarrow> Inr None
       | Some q \<Rightarrow> bind_r (check_qid_evidence qid_verifier q now) (\<lambda>s. Inr (Some s))) (\<lambda>session.
     bind_r (case risk_raw of None \<Rightarrow> Inr None
       | Some k \<Rightarrow> bind_r (parse_risk_report (PDict k) now (cx_context_hash (ev_context req)) None None (Some pol))
           (\<lambda>rep. Inr (Some rep))) (\<lambda>risk.
     Inr \<lparr>wr_req = req, wr_fields = extract_fields p, wr_pol = pol, wr_session = session, wr_risk = risk\<rparr>))))"

text \<open>EQC; the reason of a denial is the string EQC reports, passed on as it is.\<close>

definition v1_eqc :: "v1_run \<Rightarrow> int \<Rightarrow> pyexc + eqc_result" where
  "v1_eqc r now = fst (evaluate_eqc (cx_wallet_id (ev_context (wr_req r))) (cx_action (ev_context (wr_req r)))
     (wr_fields r) (wr_session r) (wr_risk r) (Some now) (Some (wr_pol r)) None)"

definition stage_eqc_v1 :: "v1_run \<Rightarrow> int \<Rightarrow> pyexc + (pydict, eqc_result) stage" where
  "stage_eqc_v1 r now = bind_r (v1_eqc r now) (\<lambda>eqc.
     if eq_verdict eqc = ALLOW then Inr (Continue eqc)
     else case eq_reason_ids eqc of
       [] \<Rightarrow> Inl (OtherError ''tuple index out of range'')
     | rid # _ \<Rightarrow> return_r (v1_response (wr_req r) (eq_context_hash eqc) ''deny'' (RStr rid)
         (no_gate\<lparr>f1_timebox := True\<rparr>) None))"

definition stage_wsqk_v1 :: "v1_run \<Rightarrow> pyexc + (pydict, wsqk_authority) stage" where
  "stage_wsqk_v1 r = (let req = wr_req r; cx = ev_context req in
     case extract_wsqk_authority_v1 (cx_wallet_id cx) (cx_action cx) (cx_context_hash cx) (ev_nonce_value req)
       (ev_issued_at req) (ev_expires_at req) (ev_authority_proofs req) of
       Some au \<Rightarrow> Inr (Continue au)
     | None \<Rightarrow> return_r (v1_response req (cx_context_hash cx) ''deny'' (RId DENY_AUTHORITY_INVALID)
         (no_gate\<lparr>f1_eqc := True, f1_timebox := True\<rparr>) None))"

definition gather_v1 :: "pydict \<Rightarrow> int \<Rightarrow> (pydict \<Rightarrow> pyexc + unit) option \<Rightarrow> risk_policy option
    \<Rightarrow> pyexc + (pydict, v1_run \<times> eqc_result \<times> wsqk_authority) stage" where
  "gather_v1 p now qid_verifier policy =
     bind_r (v1_evidence p now qid_verifier policy) (\<lambda>r.
     bind_stage (stage_eqc_v1 r now) (\<lambda>eqc.
     bind_stage (stage_wsqk_v1 r) (\<lambda>au. Inr (Continue (r, eqc, au)))))"

definition final_policy_v1 :: "v1_run \<Rightarrow> wsqk_authority \<Rightarrow> pyexc + fp_result" where
  "final_policy_v1 r au = (let h = cx_context_hash (ev_context (wr_req r)) in evaluate_final_policy_engine
    \<lparr>in_shield = v1_runtime_evidence ''v1:no_shield_contract'' h,
     in_wsqk_v2 = v1_runtime_evidence ''v1:wsqk_authority'' (au_context_hash au),
     in_qid = v1_runtime_evidence (if wr_session r \<noteq> None then ''v1:qid_session'' else ''v1:qid_absent_allowed'') h,
     in_adaptive_core = v1_runtime_evidence (if wr_risk r \<noteq> None then ''v1:risk_report'' else ''v1:risk_absent_allowed'') h,
     in_ai_gateway = v1_runtime_evidence ''v1:ai_gateway_not_required'' h,
     in_replay = local_ok ''replay'', in_wallet_policy = local_ok ''wallet_policy'', in_human = local_ok ''human''\<rparr>
    h False)"

definition exec_request_v1 :: "v1_run \<Rightarrow> execution_request" where
  "exec_request_v1 r = \<lparr>xr_wallet_id = cx_wallet_id (ev_context (wr_req r)),
     xr_action = cx_action (ev_context (wr_req r)), xr_payload = ''opaque''\<rparr>"

definition all_gates :: v1_flags where
  "all_gates = \<lparr>f1_tva = True, f1_eqc = True, f1_wsqk = True, f1_nonce = True, f1_timebox = True\<rparr>"

definition stage_execute_v1 :: "'s check_and_mark \<Rightarrow> 'x executor \<Rightarrow> v1_run \<Rightarrow> int \<Rightarrow> eqc_result \<Rightarrow> wsqk_authority
    \<Rightarrow> 's option \<Rightarrow> 'x \<Rightarrow> (pyexc + pydict) \<times> 's option \<times> 'x" where
  "stage_execute_v1 cam execute r now eqc au store x =
    (let req = wr_req r; h = cx_context_hash (ev_context req) in
     case enforce_tva cam (Some (ev_context req)) (Some (eq_verdict eqc)) (Some (AuthV1 au)) (Some now)
       PNone None store of
       (Inl e, store') \<Rightarrow> (Inl e, store', x)
     | (Inr _, store') \<Rightarrow> (case final_policy_v1 r au of Inl e \<Rightarrow> (Inl e, store', x) | Inr fp \<Rightarrow>
     if fp_state fp \<noteq> ALLOW_FINAL_ADAMANTINEOS_DECISION
       then (v1_response req h ''deny'' (RId (runtime_final_policy_reason fp)) all_gates
         (Some (final_policy_artifacts fp)), store', x)
     else case execute (exec_request_v1 r) x of
       (Inl e, x') \<Rightarrow> (Inl e, store', x')
     | (Inr out, x') \<Rightarrow> (v1_response req h ''allow'' (RId OK_ALLOW) all_gates
         (Some [(''executor_result'', PStr out)]), store', x')))"

definition orchestrate_execution_v1 :: "'s check_and_mark \<Rightarrow> 'x executor \<Rightarrow> (pydict \<Rightarrow> pyexc + unit) option
    \<Rightarrow> pyval \<Rightarrow> int \<Rightarrow> risk_policy option \<Rightarrow> 's option \<Rightarrow> 'x \<Rightarrow> (pyexc + pydict) \<times> 's option \<times> 'x" where
  "orchestrate_execution_v1 cam execute qid_verifier payload now policy store x =
    (let p = map_or_empty payload in
     case (case gather_v1 p now qid_verifier policy of
         Inl e \<Rightarrow> (Inl e, store, x)
       | Inr (Return resp) \<Rightarrow> (Inr resp, store, x)
       | Inr (Continue (r, eqc, au)) \<Rightarrow> stage_execute_v1 cam execute r now eqc au store x) of
       (Inr resp, store', x') \<Rightarrow> (Inr resp, store', x')
     | (Inl e, store', x') \<Rightarrow> (handle_error_v1 p e, store', x'))"

section \<open>What the stages establish\<close>

definition v1_grounds :: "pydict \<Rightarrow> int \<Rightarrow> (pydict \<Rightarrow> pyexc + unit) option \<Rightarrow> risk_policy option
    \<Rightarrow> v1_run \<times> eqc_result \<times> wsqk_authority \<Rightarrow> bool" where
  "v1_grounds p now qid_verifier policy g \<longleftrightarrow> (case g of (r, eqc, au) \<Rightarrow>
     v1_evidence p now qid_verifier policy = Inr r \<and> v1_eqc r now = Inr eqc \<and> eq_verdict eqc = ALLOW \<and>
     (let req = wr_req r; cx = ev_context req in
      extract_wsqk_authority_v1 (cx_wallet_id cx) (cx_action cx) (cx_context_hash cx) (ev_nonce_value req)
        (ev_issued_at req) (ev_expires_at req) (ev_authority_proofs req) = Some au))"

lemma gather_v1_ok:
  "gather_v1 p now qid_verifier policy = Inr (Continue g) \<longleftrightarrow> v1_grounds p now qid_verifier policy g"
proof -
  have "stage_eqc_v1 r now = Inr (Continue eqc) \<longleftrightarrow> v1_eqc r now = Inr eqc \<and> eq_verdict eqc = ALLOW" for r eqc
    by (auto simp: stage_eqc_v1_def res_simps neq_Nil_conv split: list.splits)
  moreover have "stage_wsqk_v1 r = Inr (Continue au) \<longleftrightarrow> (let req = wr_req r; cx = ev_context req in
      extract_wsqk_authority_v1 (cx_wallet_id cx) (cx_action cx) (cx_context_hash cx) (ev_nonce_value req)
        (ev_issued_at req) (ev_expires_at req) (ev_authority_proofs req) = Some au)" for r au
    by (auto simp: stage_wsqk_v1_def Let_def split: option.splits)
  ultimately show ?thesis
    by (cases g) (auto simp: gather_v1_def v1_grounds_def res_simps)
qed

lemma parse_context_v1_fields:
  "parse_context require_nonempty_str_v1 check_field_v1 v = Inr cx \<Longrightarrow>
     is_sha256_hex (cx_context_hash cx) \<and> cx_action cx \<noteq> []"
  using compute_context_hash_hex by (auto simp: parse_context_def res_simps)

lemma envelope_v1_fields:
  assumes "parse_envelope_v1 payload now = Inr req"
  shows "is_sha256_hex (cx_context_hash (ev_context req))" "ev_request_id req \<noteq> []" "ev_intent req \<noteq> []"
    "cx_action (ev_context req) \<noteq> []"
  using assms parse_context_v1_fields unfolding parse_envelope_v1_def
  by (auto simp: res_simps split: prod.splits)

lemma v1_evidence_request:
  "v1_evidence p now qid_verifier policy = Inr r \<Longrightarrow> parse_envelope_v1 (PDict p) now = Inr (wr_req r)"
  by (auto simp: v1_evidence_def res_simps Let_def split: prod.splits)

lemma v1_evidence_gate: "evidence_gate_ok g (v1_runtime_evidence src h') h False \<longleftrightarrow> h' = h"
  by (auto simp: evidence_gate_ok_def v1_runtime_evidence_def dget_default_def truthy_authority_value_def py_in_def
      indicates_human_review_def FORBIDDEN_AUTHORITY_KEYS_def ALLOWED_NORMALIZED_AUTHORITY_FIELDS_def
      num_eq_def num_ratio_def)

lemma final_policy_v1_allows:
  assumes "v1_grounds p now qid_verifier policy (r, eqc, au)"
  shows "final_policy_v1 r au = Inr fp_final_allow"
proof -
  have hex: "is_sha256_hex (cx_context_hash (ev_context (wr_req r)))"
    using assms envelope_v1_fields(1)[OF v1_evidence_request] unfolding v1_grounds_def by blast
  have au: "au_context_hash au = cx_context_hash (ev_context (wr_req r))"
    using assms by (auto simp: v1_grounds_def extract_wsqk_authority_v1_def Let_def
      split: option.splits pyval.splits if_splits)
  show ?thesis unfolding final_policy_v1_def Let_def
    by (rule final_policy_allow) (simp add: fp_all_ok_def hex au evidence_gates_def local_gates_def
      EVIDENCE_GATE_ORDER_def LOCAL_GATE_ORDER_def v1_evidence_gate)
qed

lemma evaluate_eqc_denial:
  "fst (evaluate_eqc w a f s k t pol m) = Inr r \<Longrightarrow> eq_verdict r \<noteq> ALLOW \<Longrightarrow> eq_reason_ids r \<noteq> []"
  by (auto simp: evaluate_eqc_def deny_with_def Let_def split: sum.splits option.splits if_splits)

lemma v1_response_total:
  assumes "v1_evidence p now qid_verifier policy = Inr r" "status = ''allow'' \<longrightarrow> rid = OK_ALLOW"
    "status \<in> set response_statuses"
  shows "\<exists>resp. v1_response (wr_req r) (cx_context_hash (ev_context (wr_req r))) status (RId rid) fl art = Inr resp"
  using envelope_v1_fields[OF v1_evidence_request[OF assms(1)]] assms(2,3) unfolding v1_response_def build_v1_total
  by (auto simp: v1_args_def response_args_ok_def protection_modes_def is_sha256_hex_def)

lemma handler_v1_total: "status \<in> {''deny'', ''error''} \<Longrightarrow> \<exists>resp. handler_v1 p status rid fl msg = Inr resp"
  unfolding handler_v1_def build_v1_total
  by (auto simp: v1_args_def response_args_ok_def response_statuses_def protection_modes_def zero_hash_def)

lemma handle_error_v1_total: "\<exists>resp. handle_error_v1 p e = Inr resp"
  by (cases e) (simp_all add: handle_error_v1_def handler_v1_total)

text \<open>What a built v1 response says.\<close>

lemma v1_built:
  assumes "build_execution_response_v1 (v1_args i intent act h status rid fl art) = Inr resp"
  shows "dget resp ''v'' = PStr ''execution_response_v1''" "response_allowed resp \<longleftrightarrow> status = ''allow''"
    "response_nonce_consumed resp \<longleftrightarrow> f1_nonce fl"
  using build_v1_fields[OF assms]
  by (auto simp: response_allowed_def response_nonce_consumed_def decision_v1_def v1_args_def)

lemma handle_error_v1_response:
  assumes "handle_error_v1 p e = Inr resp"
  shows "dget resp ''v'' = PStr ''execution_response_v1'' \<and> \<not> response_allowed resp"
proof -
  obtain status rid fl msg where "handler_v1 p status rid fl msg = Inr resp" "status \<in> {''deny'', ''error''}"
    using assms by (cases e) (auto simp: handle_error_v1_def simp del: reason_value.simps; blast)+
  then show ?thesis using v1_built unfolding handler_v1_def by fastforce
qed

lemma gather_v1_returns:
  assumes "gather_v1 p now qid_verifier policy = Inr (Return resp)"
  shows "dget resp ''v'' = PStr ''execution_response_v1'' \<and> \<not> response_allowed resp"
proof -
  obtain req h rid fl art where "v1_response req h ''deny'' rid fl art = Inr resp"
    using assms by (auto simp: gather_v1_def bind_stage_def stage_eqc_v1_def stage_wsqk_v1_def return_r_def Let_def
      bind_r_def split: sum.splits stage.splits if_splits list.splits option.splits; blast)
  then show ?thesis using v1_built unfolding v1_response_def by fastforce
qed

lemma v1_reason:
  "build_execution_response_v1 (v1_args i intent act h status (RId rid) fl art) = Inr resp \<Longrightarrow>
     dget resp ''reason_id'' = PStr (reason_value rid)"
  by (auto simp: build_execution_response_v1_def v1_args_def split: if_splits)

lemma v1_str_reason:
  "r1_reason_id a = RStr rid \<Longrightarrow>
     \<exists>m. build_execution_response_v1 a \<in> {Inl (ValueError m), Inl (AttributeError m)}"
  by (simp add: build_execution_response_v1_def)

section \<open>Properties\<close>

text \<open>
  C20: The v1 orchestrator always answers with an execution_response_v1, and it answers allow exactly
  when the request and its evidence are accepted, EQC allows, the WSQK proof is bound to the
  request, the TVA gate accepts and the executor returns. (The final policy engine runs on
  synthesised evidence here and cannot deny.)
\<close>

theorem v1_orchestrator_decides:
  "\<exists>resp s' x'. orchestrate_execution_v1 cam execute qid_verifier payload now policy s x = (Inr resp, s', x') \<and>
     dget resp ''v'' = PStr ''execution_response_v1'' \<and>
     (response_allowed resp \<longleftrightarrow> (\<exists>r eqc au s1 out x1.
        v1_grounds (map_or_empty payload) now qid_verifier policy (r, eqc, au) \<and>
        enforce_tva cam (Some (ev_context (wr_req r))) (Some ALLOW) (Some (AuthV1 au)) (Some now) PNone None s
          = (Inr (), s1) \<and>
        execute (exec_request_v1 r) x = (Inr out, x1)))"
proof (cases "\<exists>g. v1_grounds (map_or_empty payload) now qid_verifier policy g")
  case False
  let ?p = "map_or_empty payload"
  have nc: "gather_v1 ?p now qid_verifier policy \<noteq> Inr (Continue g)" for g
    using False gather_v1_ok by blast
  show ?thesis
  proof (cases "gather_v1 ?p now qid_verifier policy")
    case (Inl e)
    obtain resp where "handle_error_v1 ?p e = Inr resp" using handle_error_v1_total by blast
    then show ?thesis using Inl False handle_error_v1_response by (auto simp: orchestrate_execution_v1_def Let_def)
  next
    case (Inr st)
    then obtain resp where st: "st = Return resp" using nc by (cases st) auto
    then show ?thesis using Inr False gather_v1_returns by (auto simp: orchestrate_execution_v1_def Let_def)
  qed
next
  case True
  let ?p = "map_or_empty payload"
  obtain r eqc au where g: "v1_grounds ?p now qid_verifier policy (r, eqc, au)" using True by auto
  have uniq: "v1_grounds ?p now qid_verifier policy g' \<Longrightarrow> g' = (r, eqc, au)" for g'
    using g unfolding gather_v1_ok[symmetric] by simp
  have v: "eq_verdict eqc = ALLOW" "v1_evidence ?p now qid_verifier policy = Inr r"
    using g by (auto simp: v1_grounds_def)
  obtain t s1 where tva: "enforce_tva cam (Some (ev_context (wr_req r))) (Some ALLOW) (Some (AuthV1 au)) (Some now)
      PNone None s = (t, s1)" by (meson surj_pair)
  have orch: "orchestrate_execution_v1 cam execute qid_verifier payload now policy s x =
      (case stage_execute_v1 cam execute r now eqc au s x of
        (Inr resp, s', x') \<Rightarrow> (Inr resp, s', x') | (Inl e, s', x') \<Rightarrow> (handle_error_v1 ?p e, s', x'))"
    using g[folded gather_v1_ok] by (simp add: orchestrate_execution_v1_def Let_def)
  show ?thesis
  proof (cases t)
    case (Inl e)
    obtain resp where h: "handle_error_v1 ?p e = Inr resp" using handle_error_v1_total by blast
    have "orchestrate_execution_v1 cam execute qid_verifier payload now policy s x = (Inr resp, s1, x)"
      by (simp add: orch stage_execute_v1_def Let_def v tva Inl h)
    then show ?thesis using handle_error_v1_response[OF h] uniq tva Inl by fastforce
  next
    case (Inr u)
    obtain q x1 where ex: "execute (exec_request_v1 r) x = (q, x1)" by (meson surj_pair)
    have fp: "final_policy_v1 r au = Inr fp_final_allow" by (rule final_policy_v1_allows[OF g])
    show ?thesis
    proof (cases q)
      case (Inl e)
      obtain resp where h: "handle_error_v1 ?p e = Inr resp" using handle_error_v1_total by blast
      have "orchestrate_execution_v1 cam execute qid_verifier payload now policy s x = (Inr resp, s1, x1)"
        by (simp add: orch stage_execute_v1_def Let_def v tva Inr fp fp_final_allow_def ex Inl h)
      then show ?thesis using handle_error_v1_response[OF h] uniq ex Inl by fastforce
    next
      case out: (Inr out)
      obtain resp where resp: "v1_response (wr_req r) (cx_context_hash (ev_context (wr_req r))) ''allow''
          (RId OK_ALLOW) all_gates (Some [(''executor_result'', PStr out)]) = Inr resp"
        using v1_response_total[OF v(2), of "''allow''" OK_ALLOW] by (auto simp: response_statuses_def)
      have "orchestrate_execution_v1 cam execute qid_verifier payload now policy s x = (Inr resp, s1, x1)"
        by (simp add: orch stage_execute_v1_def Let_def v tva Inr fp fp_final_allow_def ex out resp)
      moreover have "\<exists>r eqc au s1 out x1. v1_grounds ?p now qid_verifier policy (r, eqc, au) \<and>
          enforce_tva cam (Some (ev_context (wr_req r))) (Some ALLOW) (Some (AuthV1 au)) (Some now) PNone None s
            = (Inr (), s1) \<and> execute (exec_request_v1 r) x = (Inr out, x1)"
        using g tva[unfolded Inr, simplified] ex[unfolded out] by blast
      ultimately show ?thesis using v1_built[OF resp[unfolded v1_response_def]] by blast
    qed
  qed
qed

text \<open>
  When EQC denies a v1 request, the response does not say so: EQC reports its reason as a plain
  string, the response builder asks it for \<open>.value\<close>, and the \<open>AttributeError\<close> ends in the last
  handler. The caller receives status error with DENY_SCHEMA_INVALID and the zero hash instead of
  the denial with its reason and context hash. Store and executor stay as they are.
\<close>

theorem v1_eqc_denial_is_reported_as_error:
  assumes "v1_evidence (map_or_empty payload) now qid_verifier policy = Inr r"
    and "v1_eqc r now = Inr eqc" and "eq_verdict eqc = DENY"
  shows "eq_reason_ids eqc \<noteq> [] \<and>
    (\<exists>resp. orchestrate_execution_v1 cam execute qid_verifier payload now policy s x = (Inr resp, s, x) \<and>
       dget resp ''status'' = PStr ''error'' \<and> dget resp ''reason_id'' = PStr ''DENY_SCHEMA_INVALID'' \<and>
       (\<exists>d. dget resp ''decision'' = PDict d \<and> dget d ''context_hash'' = PStr zero_hash \<and>
          dget d ''timebox'' = PDict [(''valid'', PBool False)]))"
proof -
  have ne: "eq_reason_ids eqc \<noteq> []"
    using assms(2,3) evaluate_eqc_denial unfolding v1_eqc_def by fastforce
  then obtain rid rids where rids: "eq_reason_ids eqc = rid # rids" by (cases "eq_reason_ids eqc") auto
  obtain e where e: "v1_response (wr_req r) (eq_context_hash eqc) ''deny'' (RStr rid)
      (no_gate\<lparr>f1_timebox := True\<rparr>) None = Inl e" "(\<exists>m. e = ValueError m) \<or> (\<exists>m. e = AttributeError m)"
    using v1_str_reason[of "v1_args (ev_request_id (wr_req r)) (ev_intent (wr_req r)) (cx_action (ev_context (wr_req r)))
      (eq_context_hash eqc) ''deny'' (RStr rid) (no_gate\<lparr>f1_timebox := True\<rparr>) None"]
    by (auto simp: v1_response_def v1_args_def)
  then have g: "gather_v1 (map_or_empty payload) now qid_verifier policy = Inl e"
    using assms rids by (simp add: gather_v1_def stage_eqc_v1_def return_r_def bind_stage_def)
  obtain resp where h: "handler_v1 (map_or_empty payload) ''error'' DENY_SCHEMA_INVALID no_gate (exc_str e) = Inr resp"
    using handler_v1_total by blast
  then have "handle_error_v1 (map_or_empty payload) e = Inr resp"
    using e(2) by (auto simp: handle_error_v1_def simp del: reason_value.simps)
  then have "orchestrate_execution_v1 cam execute qid_verifier payload now policy s x = (Inr resp, s, x)"
    using g by (simp add: orchestrate_execution_v1_def Let_def)
  moreover have "dget resp ''status'' = PStr ''error''" "dget resp ''reason_id'' = PStr ''DENY_SCHEMA_INVALID''"
    "dget resp ''decision'' = PDict (decision_v1 (v1_args (safe_str (dget (map_or_empty payload) ''request_id'') ''invalid-request'')
       (safe_str (dget (map_or_empty payload) ''intent'') ''unknown'')
       (safe_str (dget (map_or_empty (dget (map_or_empty payload) ''context'')) ''action'') ''invalid-action'')
       zero_hash ''error'' (RId DENY_SCHEMA_INVALID) no_gate (Some [(''error'', PStr (exc_str e))])))"
    using h build_v1_fields[OF h[unfolded handler_v1_def]] v1_reason[OF h[unfolded handler_v1_def]]
    by (auto simp: v1_args_def)
  moreover have "dget (decision_v1 (v1_args i j k zero_hash st rr no_gate art)) ''context_hash'' = PStr zero_hash"
    "dget (decision_v1 (v1_args i j k zero_hash st rr no_gate art)) ''timebox'' = PDict [(''valid'', PBool False)]" for i j k st rr art
    by (simp_all add: decision_v1_def v1_args_def no_gate_def)
  ultimately show ?thesis using ne by blast
qed

definition demo_v1 :: pydict where
  "demo_v1 = dset (dset demo_envelope_v2 ''v'' (PStr ''execution_request_v1'')) ''payload'' (PDict [])"

lemma demo_v1_parts:
  "parse_timebox (dget demo_v1 ''timebox'') 20 = Inr (10, 60, 0)"
  "parse_nonce require_nonempty_str_v1 (dget demo_v1 ''nonce'') = Inr (''n'', ''local'')"
  "parse_authority require_nonempty_str_v1 (dget demo_v1 ''authority'') = Inr (''wsqk'', [], None)"
  "parse_audit (dget demo_v1 ''audit'') = Inr None" "dget demo_v1 ''payload'' = PDict []"
  "env_expect_keys demo_v1 ''envelope'' envelope_keys (envelope_keys @ [''audit'']) = Inr ()"
  "dget demo_v1 ''v'' = PStr ''execution_request_v1''" "dget demo_v1 ''request_id'' = PStr ''r1''"
  "dget demo_v1 ''intent'' = PStr ''send''"
  "dget demo_v1 ''context'' = PDict [(''wallet_id'', PStr ''w''), (''device_id'', PStr ''d''), (''app_id'', PStr ''a''),
     (''session_id'', PStr ''s''), (''action'', PStr ''send''), (''fields'', PDict [(''to'', PStr ''x'')])]"
  by code_simp+

lemma demo_v1_hash: "\<exists>h. compute_context_hash ''w'' ''send'' (Some [(''to'', PStr ''x'')]) = Inr h"
proof -
  have "each_r check_field_v2 [(''to'', PStr ''x'')] = Inr ()" by code_simp
  moreover have "\<not> has_control_char ''w''" "\<not> has_control_char ''send''"
    by (simp_all add: has_control_char_def is_control_char_def)
  ultimately show ?thesis using compute_context_hash_clean by blast
qed

lemma demo_v1_parses:
  assumes "compute_context_hash ''w'' ''send'' (Some [(''to'', PStr ''x'')]) = Inr h"
  shows "\<exists>req. parse_envelope_v1 (PDict demo_v1) 20 = Inr req \<and> ev_payload req = [] \<and>
    ev_context req = \<lparr>cx_wallet_id = ''w'', cx_action = ''send'', cx_context_hash = h\<rparr>"
proof -
  have "env_expect_keys m ''context'' context_keys context_keys = Inr ()"
    if "dkeys m = [''wallet_id'', ''device_id'', ''app_id'', ''session_id'', ''action'', ''fields'']" for m
    using that by (simp add: env_expect_keys_ok context_keys_def)
  then have "parse_context require_nonempty_str_v1 check_field_v1 (dget demo_v1 ''context'')
      = Inr \<lparr>cx_wallet_id = ''w'', cx_action = ''send'', cx_context_hash = h\<rparr>"
    using assms by (simp add: demo_v1_parts parse_context_def env_require_mapping_def dkeys_def
      require_nonempty_str_v1_def check_field_v1_def)
  then show ?thesis unfolding parse_envelope_v1_def
    by (simp add: env_require_mapping_def demo_v1_parts require_nonempty_str_v1_def)
qed

lemma demo_v1_denied:
  "\<exists>r eqc. v1_evidence demo_v1 20 None None = Inr r \<and> v1_eqc r 20 = Inr eqc \<and> eq_verdict eqc = DENY \<and>
    eq_reason_ids eqc = [''EQC_MISSING_QID_SESSION'']"
proof -
  obtain h where h: "compute_context_hash ''w'' ''send'' (Some [(''to'', PStr ''x'')]) = Inr h"
    using demo_v1_hash by blast
  obtain req where req: "parse_envelope_v1 (PDict demo_v1) 20 = Inr req" "ev_payload req = []"
    "ev_context req = \<lparr>cx_wallet_id = ''w'', cx_action = ''send'', cx_context_hash = h\<rparr>"
    using demo_v1_parses[OF h] by blast
  have "extract_fields demo_v1 = Some [(''to'', PStr ''x'')]"
    by (simp add: extract_fields_def demo_v1_parts)
  moreover have "py_strip ''w'' = ''w''" "py_strip ''send'' = ''send''"
    by (simp_all add: py_strip_def py_isspace_def)
  ultimately show ?thesis using req h
    by (simp add: v1_evidence_def extract_evidence_def opt_map_def effective_policy_def v1_eqc_def
      evaluate_eqc_def Let_def presence_reasons_def deny_with_def)
qed

theorem v1_eqc_denial_is_reported_as_error_witness:
  "\<exists>(eqc :: eqc_result) resp. eq_reason_ids eqc = [''EQC_MISSING_QID_SESSION''] \<and>
     orchestrate_execution_v1 im_check_and_mark recording_execute None (PDict demo_v1) 20 None (Some empty_store)
       \<lparr>re_called = False, re_last_request = None\<rparr>
       = (Inr resp, Some empty_store, \<lparr>re_called = False, re_last_request = None\<rparr>) \<and>
     dget resp ''status'' = PStr ''error'' \<and> dget resp ''reason_id'' = PStr ''DENY_SCHEMA_INVALID''"
proof -
  obtain r eqc where d: "v1_evidence (map_or_empty (PDict demo_v1)) 20 None None = Inr r" "v1_eqc r 20 = Inr eqc"
    "eq_verdict eqc = DENY" "eq_reason_ids eqc = [''EQC_MISSING_QID_SESSION'']"
    using demo_v1_denied by (auto simp: map_or_empty_def)
  let ?x = "\<lparr>re_called = False, re_last_request = None\<rparr> :: recording_executor"
  obtain resp where "orchestrate_execution_v1 im_check_and_mark recording_execute None (PDict demo_v1) 20 None
      (Some empty_store) ?x = (Inr resp, Some empty_store, ?x)"
    "dget resp ''status'' = PStr ''error''" "dget resp ''reason_id'' = PStr ''DENY_SCHEMA_INVALID''"
    using v1_eqc_denial_is_reported_as_error[OF d(1-3), of im_check_and_mark recording_execute "Some empty_store" ?x]
    by (elim conjE exE)
  then show ?thesis using d(4) by (intro exI[of _ eqc] exI[of _ resp] conjI)
qed

end
