(* ===== verification/Shield_V4_Budget.thy ===== *)
theory Shield_V4_Budget
  imports Sha256 Py_Value
begin

text \<open>
  \<open>src/adamantine/v1/integrations/shield_v4_work_budget.py\<close>: the bounds that untrusted Shield v4
  input meets before anything is hashed or verified. The snapshot copies a JSON value while it
  counts nodes, scalar bytes and depth; an error is the message of the
  \<open>ShieldV4WorkBudgetError\<close>. A \<^typ>\<open>pyval\<close> is a finite tree, so the guard against cyclic
  containers has nothing to reject, and a dictionary does not change while it is read.
\<close>

definition MAX_CANONICAL_RECEIPT_BYTES :: nat where "MAX_CANONICAL_RECEIPT_BYTES = 131072"
definition MAX_SNAPSHOT_SCALAR_BYTES :: nat where "MAX_SNAPSHOT_SCALAR_BYTES = 131072"
definition MAX_TEXT_FIELD_BYTES :: nat where "MAX_TEXT_FIELD_BYTES = 8192"
definition MAX_SIGNATURE_BUNDLE_BYTES :: nat where "MAX_SIGNATURE_BUNDLE_BYTES = 32768"
definition MAX_CONTAINER_DEPTH :: nat where "MAX_CONTAINER_DEPTH = 16"
definition MAX_CONTAINER_NODES :: nat where "MAX_CONTAINER_NODES = 4096"
definition MAX_SIGNED_INTEGER_BITS :: nat where "MAX_SIGNED_INTEGER_BITS = 64"
definition EXPECTED_COMPONENT_BUNDLE_COUNT :: nat where "EXPECTED_COMPONENT_BUNDLE_COUNT = 5"
definition MAX_SIGNATURES_PER_BUNDLE :: nat where "MAX_SIGNATURES_PER_BUNDLE = 3"
definition MAX_SIGNATURE_BUNDLES :: nat where "MAX_SIGNATURE_BUNDLES = 6"
definition MAX_VERIFICATION_CALLS :: nat where "MAX_VERIFICATION_CALLS = 18"
definition MAX_PQC_VERIFICATION_CALLS :: nat where "MAX_PQC_VERIFICATION_CALLS = 12"
definition MAX_TRUSTED_REGISTRY_ENTRIES :: nat where "MAX_TRUSTED_REGISTRY_ENTRIES = 64"
definition MAX_REPLAY_IDENTIFIERS :: nat where "MAX_REPLAY_IDENTIFIERS = 4096"
definition MAX_DENYLIST_ENTRIES :: nat where "MAX_DENYLIST_ENTRIES = 4096"

section \<open>Scalars\<close>

definition require_bounded_text :: "pyval \<Rightarrow> string \<Rightarrow> string + string" where
  "require_bounded_text v field = (case v of
     PStr s \<Rightarrow> if s = [] then Inl (field @ '' must be exact non-empty string'')
       else if length s > MAX_TEXT_FIELD_BYTES \<or> length (utf8 s) > MAX_TEXT_FIELD_BYTES
         then Inl (field @ '' exceeds text byte budget'')
       else Inr s
   | _ \<Rightarrow> Inl (field @ '' must be exact non-empty string''))"

definition signed_integer_ok :: "int \<Rightarrow> bool" where
  "signed_integer_ok i \<longleftrightarrow> - (2 ^ (MAX_SIGNED_INTEGER_BITS - 1)) \<le> i \<and> i \<le> 2 ^ (MAX_SIGNED_INTEGER_BITS - 1) - 1"

lemma signed_integer_printable: "signed_integer_ok i \<Longrightarrow> printable_int i"
  by (rule printable_intI[of _ 20]) (auto simp: signed_integer_ok_def MAX_SIGNED_INTEGER_BITS_def)

definition require_signed_integer :: "pyval \<Rightarrow> string \<Rightarrow> string + int" where
  "require_signed_integer v field = (case v of
     PInt i \<Rightarrow> if signed_integer_ok i then Inr i else Inl (field @ '' exceeds signed integer budget'')
   | _ \<Rightarrow> Inl (field @ '' must be exact integer''))"

definition require_byte_budget :: "nat list \<Rightarrow> nat \<Rightarrow> string \<Rightarrow> string + unit" where
  "require_byte_budget payload maximum field =
     check_r (length payload \<le> maximum) (field @ '' exceeds byte budget'')"

section \<open>The snapshot\<close>

record snapshot_budget =
  sn_nodes :: nat
  sn_bytes :: nat

definition consume_node :: "snapshot_budget \<Rightarrow> string + snapshot_budget" where
  "consume_node b = (let b' = b\<lparr>sn_nodes := sn_nodes b + 1\<rparr> in
     if sn_nodes b' > MAX_CONTAINER_NODES then Inl ''JSON node budget exceeded'' else Inr b')"

definition consume_scalar_bytes :: "nat \<Rightarrow> snapshot_budget \<Rightarrow> string + snapshot_budget" where
  "consume_scalar_bytes n b = (let b' = b\<lparr>sn_bytes := sn_bytes b + n\<rparr> in
     if sn_bytes b' > MAX_SNAPSHOT_SCALAR_BYTES then Inl ''JSON scalar byte budget exceeded'' else Inr b')"

definition text_size :: "string \<Rightarrow> string + nat" where
  "text_size s = (let n = length (utf8 s) in
     if length s > MAX_TEXT_FIELD_BYTES \<or> n > MAX_TEXT_FIELD_BYTES
       then Inl ''JSON text field exceeds byte budget'' else Inr n)"

text \<open>The head of \<open>snapshot\<close>: the depth test and the node it consumes.\<close>

definition enter_node :: "nat \<Rightarrow> snapshot_budget \<Rightarrow> (snapshot_budget \<Rightarrow> string + 'a) \<Rightarrow> string + 'a" where
  "enter_node depth b f = (if depth > MAX_CONTAINER_DEPTH then Inl ''JSON depth budget exceeded''
     else bind_r (consume_node b) f)"

lemma enter_node_cong [fundef_cong]: "(\<And>b'. f b' = g b') \<Longrightarrow> enter_node d b f = enter_node d b g"
  by (auto simp: enter_node_def intro: bind_r_cong)

definition scalar :: "pyval \<Rightarrow> nat \<Rightarrow> snapshot_budget \<Rightarrow> string + pyval \<times> snapshot_budget" where
  "scalar v n b = bind_r (consume_scalar_bytes n b) (\<lambda>b'. Inr (v, b'))"

fun snapshot :: "pyval \<Rightarrow> nat \<Rightarrow> snapshot_budget \<Rightarrow> string + pyval \<times> snapshot_budget"
  and snapshot_items :: "pydict \<Rightarrow> pydict \<Rightarrow> nat \<Rightarrow> snapshot_budget \<Rightarrow> string + pydict \<times> snapshot_budget"
  and snapshot_list :: "pyval list \<Rightarrow> nat \<Rightarrow> snapshot_budget \<Rightarrow> string + pyval list \<times> snapshot_budget" where
  "snapshot (PStr s) depth b = enter_node depth b (\<lambda>b. bind_r (text_size s) (\<lambda>n. scalar (PStr s) n b))"
| "snapshot (PBool v) depth b = enter_node depth b (scalar (PBool v) (if v then 4 else 5))"
| "snapshot (PInt i) depth b = enter_node depth b (\<lambda>b.
     bind_r (require_signed_integer (PInt i) ''JSON integer'') (\<lambda>_. scalar (PInt i) (length (show_int i)) b))"
| "snapshot PNone depth b = enter_node depth b (scalar PNone 4)"
| "snapshot (PDict m) depth b = enter_node depth b (\<lambda>b.
     if length m > MAX_CONTAINER_NODES then Inl ''JSON mapping exceeds node budget''
     else bind_r (snapshot_items m [] depth b) (\<lambda>(out, b). Inr (PDict out, b)))"
| "snapshot (PList xs) depth b = enter_node depth b (\<lambda>b.
     if length xs > MAX_CONTAINER_NODES then Inl ''JSON list exceeds node budget''
     else bind_r (snapshot_list xs depth b) (\<lambda>(out, b). Inr (PList out, b)))"
| "snapshot v depth b = enter_node depth b (\<lambda>_. Inl ''JSON value uses unsupported type'')"
| "snapshot_items [] out depth b = Inr (out, b)"
| "snapshot_items ((k, v) # m) out depth b =
     bind_r (text_size k) (\<lambda>n. bind_r (consume_scalar_bytes n b) (\<lambda>b.
     if has_key out k then Inl ''JSON mapping yielded duplicate key''
     else bind_r (snapshot v (depth + 1) b) (\<lambda>(w, b). snapshot_items m (out @ [(k, w)]) depth b)))"
| "snapshot_list [] depth b = Inr ([], b)"
| "snapshot_list (x # xs) depth b = bind_r (snapshot x (depth + 1) b) (\<lambda>(y, b).
     bind_r (snapshot_list xs depth b) (\<lambda>(ys, b). Inr (y # ys, b)))"

definition bounded_json_snapshot :: "pyval \<Rightarrow> string + pyval" where
  "bounded_json_snapshot v = bind_r (snapshot v 1 \<lparr>sn_nodes = 0, sn_bytes = 0\<rparr>) (\<lambda>(w, _). Inr w)"

section \<open>Identifier sets\<close>

text \<open>
  What \<open>iter(values)\<close> gives: an iterator is its answers in order, an item or \<open>StopIteration\<close>
  (\<open>None\<close>), or the exception it raises; it may go on for ever.
\<close>

datatype py_iterable = TextOrDict | NoIterator | Iterator "nat \<Rightarrow> pyval option + unit"

function identifier_loop :: "(nat \<Rightarrow> pyval option + unit) \<Rightarrow> nat \<Rightarrow> string \<Rightarrow> nat \<Rightarrow> string set \<Rightarrow> string + string set" where
  "identifier_loop it maximum field index out =
    (case it index of
       Inr _ \<Rightarrow> Inl (field @ '' iteration failed'')
     | Inl None \<Rightarrow> Inr out
     | Inl (Some v) \<Rightarrow>
         if maximum \<le> index then Inl (field @ '' entry budget exceeded'')
         else bind_r (require_bounded_text v (field @ '' entry'')) (\<lambda>s.
           identifier_loop it maximum field (index + 1) (insert s out)))"
  by pat_completeness auto
termination by (relation "measure (\<lambda>(it, maximum, field, index, out). maximum + 1 - index)") auto

declare identifier_loop.simps [simp del]

definition bounded_identifier_set :: "py_iterable \<Rightarrow> nat \<Rightarrow> string \<Rightarrow> string + string set" where
  "bounded_identifier_set values maximum field = (case values of
     TextOrDict \<Rightarrow> Inl (field @ '' must be an identifier iterable'')
   | NoIterator \<Rightarrow> Inl (field @ '' iterable failed'')
   | Iterator it \<Rightarrow> identifier_loop it maximum field 0 {})"

section \<open>What a snapshot is\<close>

text \<open>The measures of a JSON value that the snapshot bounds.\<close>

fun json_nodes :: "pyval \<Rightarrow> nat" and json_nodes_list :: "pyval list \<Rightarrow> nat"
  and json_nodes_items :: "pydict \<Rightarrow> nat" where
  "json_nodes (PList xs) = Suc (json_nodes_list xs)"
| "json_nodes (PDict m) = Suc (json_nodes_items m)"
| "json_nodes _ = 1"
| "json_nodes_list [] = 0"
| "json_nodes_list (x # xs) = json_nodes x + json_nodes_list xs"
| "json_nodes_items [] = 0"
| "json_nodes_items ((k, v) # m) = json_nodes v + json_nodes_items m"

fun json_depth :: "pyval \<Rightarrow> nat" and json_depth_list :: "pyval list \<Rightarrow> nat"
  and json_depth_items :: "pydict \<Rightarrow> nat" where
  "json_depth (PList xs) = Suc (json_depth_list xs)"
| "json_depth (PDict m) = Suc (json_depth_items m)"
| "json_depth _ = 1"
| "json_depth_list [] = 0"
| "json_depth_list (x # xs) = max (json_depth x) (json_depth_list xs)"
| "json_depth_items [] = 0"
| "json_depth_items ((k, v) # m) = max (json_depth v) (json_depth_items m)"

fun json_bytes :: "pyval \<Rightarrow> nat" and json_bytes_list :: "pyval list \<Rightarrow> nat"
  and json_bytes_items :: "pydict \<Rightarrow> nat" where
  "json_bytes (PStr s) = length (utf8 s)"
| "json_bytes (PBool b) = (if b then 4 else 5)"
| "json_bytes (PInt i) = length (show_int i)"
| "json_bytes PNone = 4"
| "json_bytes (PList xs) = json_bytes_list xs"
| "json_bytes (PDict m) = json_bytes_items m"
| "json_bytes _ = 0"
| "json_bytes_list [] = 0"
| "json_bytes_list (x # xs) = json_bytes x + json_bytes_list xs"
| "json_bytes_items [] = 0"
| "json_bytes_items ((k, v) # m) = length (utf8 k) + json_bytes v + json_bytes_items m"

text \<open>Only exact JSON types, integers of 64 bits, short texts, no key twice.\<close>

definition short_text :: "string \<Rightarrow> bool" where
  "short_text s \<longleftrightarrow> length s \<le> MAX_TEXT_FIELD_BYTES \<and> length (utf8 s) \<le> MAX_TEXT_FIELD_BYTES"

fun json_exact :: "pyval \<Rightarrow> bool" and json_exact_list :: "pyval list \<Rightarrow> bool"
  and json_exact_items :: "pydict \<Rightarrow> bool" where
  "json_exact (PStr s) = short_text s"
| "json_exact (PBool b) = True"
| "json_exact (PInt i) = signed_integer_ok i"
| "json_exact PNone = True"
| "json_exact (PList xs) = json_exact_list xs"
| "json_exact (PDict m) = (distinct (dkeys m) \<and> json_exact_items m)"
| "json_exact _ = False"
| "json_exact_list [] = True"
| "json_exact_list (x # xs) = (json_exact x \<and> json_exact_list xs)"
| "json_exact_items [] = True"
| "json_exact_items ((k, v) # m) = (short_text k \<and> json_exact v \<and> json_exact_items m)"

lemma json_nodes_pos: "0 < json_nodes v"
  by (cases v) simp_all

lemma json_nodes_items_length: "length m \<le> json_nodes_items m"
proof (induction m)
  case (Cons kv m)
  then show ?case using json_nodes_pos[of "snd kv"] by (cases kv) simp
qed simp

lemma json_nodes_list_length: "length xs \<le> json_nodes_list xs"
proof (induction xs)
  case (Cons x xs)
  then show ?case using json_nodes_pos[of x] by simp
qed simp

text \<open>The budget after adding nodes and bytes, and whether it is still in bounds.\<close>

definition spent :: "snapshot_budget \<Rightarrow> nat \<Rightarrow> nat \<Rightarrow> snapshot_budget" where
  "spent b n k = b\<lparr>sn_nodes := sn_nodes b + n, sn_bytes := sn_bytes b + k\<rparr>"

lemma budget_steps [res_simps]:
  "consume_node b = Inr b' \<longleftrightarrow> sn_nodes b + 1 \<le> MAX_CONTAINER_NODES \<and> b' = spent b 1 0"
  "consume_scalar_bytes k b = Inr b' \<longleftrightarrow> sn_bytes b + k \<le> MAX_SNAPSHOT_SCALAR_BYTES \<and> b' = spent b 0 k"
  "text_size s = Inr n \<longleftrightarrow> short_text s \<and> n = length (utf8 s)"
  "require_signed_integer v f = Inr i \<longleftrightarrow> v = PInt i \<and> signed_integer_ok i"
  by (auto simp: consume_node_def consume_scalar_bytes_def spent_def text_size_def short_text_def Let_def
      require_signed_integer_def split: pyval.splits)

lemma spent_simps [simp]:
  "sn_nodes (spent b n k) = sn_nodes b + n" "sn_bytes (spent b n k) = sn_bytes b + k"
  "spent (spent b n k) n' k' = spent b (n + n') (k + k')" "spent b 0 0 = b"
  by (simp_all add: spent_def add.assoc)

definition within :: "nat \<Rightarrow> snapshot_budget \<Rightarrow> nat \<Rightarrow> nat \<Rightarrow> nat \<Rightarrow> bool" where
  "within d b dep n k \<longleftrightarrow> d + dep \<le> Suc MAX_CONTAINER_DEPTH \<and> sn_nodes b + n \<le> MAX_CONTAINER_NODES \<and>
     sn_bytes b + k \<le> MAX_SNAPSHOT_SCALAR_BYTES"

lemma enter_node_ok [res_simps]:
  "enter_node d b f = Inr r \<longleftrightarrow> d \<le> MAX_CONTAINER_DEPTH \<and> sn_nodes b + 1 \<le> MAX_CONTAINER_NODES \<and>
     f (spent b 1 0) = Inr r"
  by (auto simp: enter_node_def res_simps)

lemma scalar_ok [res_simps]:
  "scalar v n b = Inr r \<longleftrightarrow> sn_bytes b + n \<le> MAX_SNAPSHOT_SCALAR_BYTES \<and> r = (v, spent b 0 n)"
  by (auto simp: scalar_def res_simps)

definition in_budget :: "snapshot_budget \<Rightarrow> bool" where
  "in_budget b \<longleftrightarrow> sn_nodes b \<le> MAX_CONTAINER_NODES \<and> sn_bytes b \<le> MAX_SNAPSHOT_SCALAR_BYTES"

lemma in_budget_spent [simp]:
  "in_budget (spent b n k) \<longleftrightarrow> sn_nodes b + n \<le> MAX_CONTAINER_NODES \<and> sn_bytes b + k \<le> MAX_SNAPSHOT_SCALAR_BYTES"
  by (simp add: in_budget_def)

lemma depth_items_pos: "json_depth_items m \<le> k \<Longrightarrow> Suc d + k \<le> n \<Longrightarrow> d \<le> n"
  by simp

lemma snapshot_iff:
  "in_budget b \<Longrightarrow> snapshot v d b = Inr r \<longleftrightarrow> json_exact v \<and>
     within d b (json_depth v) (json_nodes v) (json_bytes v) \<and> r = (v, spent b (json_nodes v) (json_bytes v))"
  "in_budget b \<Longrightarrow> d \<le> MAX_CONTAINER_DEPTH \<Longrightarrow> snapshot_items m out d b = Inr ri \<longleftrightarrow>
     json_exact_items m \<and> distinct (dkeys m) \<and> set (dkeys m) \<inter> set (dkeys out) = {} \<and>
     within (Suc d) b (json_depth_items m) (json_nodes_items m) (json_bytes_items m) \<and>
     ri = (out @ m, spent b (json_nodes_items m) (json_bytes_items m))"
  "in_budget b \<Longrightarrow> d \<le> MAX_CONTAINER_DEPTH \<Longrightarrow> snapshot_list xs d b = Inr rl \<longleftrightarrow>
     json_exact_list xs \<and> within (Suc d) b (json_depth_list xs) (json_nodes_list xs) (json_bytes_list xs) \<and>
     rl = (xs, spent b (json_nodes_list xs) (json_bytes_list xs))"
proof (induction v d b and m out d b and xs d b arbitrary: r and ri and rl
    rule: snapshot_snapshot_items_snapshot_list.induct)
  case (5 m depth b)
  show ?case using 5(2) 5(1)[of "spent b 1 0"] json_nodes_items_length[of m]
    by (auto simp: res_simps within_def dkeys_def in_budget_def split: prod.splits)
next
  case (6 xs depth b)
  show ?case using 6(2) 6(1)[of "spent b 1 0"] json_nodes_list_length[of xs]
    by (auto simp: res_simps within_def in_budget_def split: prod.splits)
next
  case (9 k v m out depth b)
  let ?b1 = "spent b 0 (length (utf8 k))" and ?b2 = "spent b (json_nodes v) (length (utf8 k) + json_bytes v)"
  let ?pre = "short_text k \<and> sn_bytes b + length (utf8 k) \<le> MAX_SNAPSHOT_SCALAR_BYTES \<and> \<not> has_key out k"
  have unfold: "snapshot_items ((k, v) # m) out depth b = Inr ri \<longleftrightarrow> ?pre \<and>
      (\<exists>w b2. snapshot v (depth + 1) ?b1 = Inr (w, b2) \<and> snapshot_items m (out @ [(k, w)]) depth b2 = Inr ri)"
    by (auto simp: res_simps)
  show ?case
  proof (cases ?pre)
    case True
    have s: "snapshot v (depth + 1) ?b1 = Inr (w, b2) \<longleftrightarrow> json_exact v \<and>
        within (depth + 1) ?b1 (json_depth v) (json_nodes v) (json_bytes v) \<and> w = v \<and> b2 = ?b2" for w b2
      using 9(1)[of "length (utf8 k)" ?b1 "(w, b2)"] 9(3) True by (simp add: res_simps in_budget_def)
    show ?thesis
    proof (cases "json_exact v \<and> within (depth + 1) ?b1 (json_depth v) (json_nodes v) (json_bytes v)")
      case ok: True
      then have "snapshot_items m (out @ [(k, v)]) depth ?b2 = Inr ri \<longleftrightarrow>
          json_exact_items m \<and> distinct (dkeys m) \<and> set (dkeys m) \<inter> set (dkeys (out @ [(k, v)])) = {} \<and>
          within (Suc depth) ?b2 (json_depth_items m) (json_nodes_items m) (json_bytes_items m) \<and>
          ri = ((out @ [(k, v)]) @ m, spent ?b2 (json_nodes_items m) (json_bytes_items m))"
        using 9(2)[of "length (utf8 k)" ?b1 "(v, ?b2)" v ?b2 ri] s[of v ?b2] 9(4) True
        by (simp add: res_simps within_def)
      then show ?thesis unfolding unfold s using True ok
        by (auto simp: within_def has_key_def dkeys_def add.assoc)
    next
      case False
      then show ?thesis unfolding unfold s by (auto simp: within_def)
    qed
  next
    case False
    then show ?thesis unfolding unfold by (auto simp: within_def has_key_def dkeys_def)
  qed
next
  case (11 x xs depth b)
  let ?b2 = "spent b (json_nodes x) (json_bytes x)"
  have unfold: "snapshot_list (x # xs) depth b = Inr rl \<longleftrightarrow>
      (\<exists>y b2 ys b3. snapshot x (depth + 1) b = Inr (y, b2) \<and> snapshot_list xs depth b2 = Inr (ys, b3) \<and>
        rl = (y # ys, b3))" by (auto simp: res_simps)
  have s: "snapshot x (depth + 1) b = Inr (y, b2) \<longleftrightarrow> json_exact x \<and>
      within (depth + 1) b (json_depth x) (json_nodes x) (json_bytes x) \<and> y = x \<and> b2 = ?b2" for y b2
    using 11(1)[of "(y, b2)"] 11(3) by simp
  show ?case
  proof (cases "json_exact x \<and> within (depth + 1) b (json_depth x) (json_nodes x) (json_bytes x)")
    case ok: True
    then have "snapshot_list xs depth ?b2 = Inr (ys, b3) \<longleftrightarrow> json_exact_list xs \<and>
        within (Suc depth) ?b2 (json_depth_list xs) (json_nodes_list xs) (json_bytes_list xs) \<and>
        (ys, b3) = (xs, spent ?b2 (json_nodes_list xs) (json_bytes_list xs))" for ys b3
      using 11(2)[of "(x, ?b2)" x ?b2 "(ys, b3)"] s[of x ?b2] 11(4) by (simp add: within_def)
    then show ?thesis unfolding unfold s using ok by (auto simp: within_def)
  next
    case False
    then show ?thesis unfolding unfold s by (auto simp: within_def)
  qed
qed (auto simp: res_simps within_def in_budget_def dkeys_def)

text \<open>
  C21: The bounded snapshot accepts exactly the values within the work budget and returns them
  unchanged: exact JSON types only (no float, tuple or set), integers of 64 bits, texts of at most
  8192 bytes, no key twice, at most 4096 nodes, 16 levels and 131072 scalar bytes in all.
\<close>

theorem bounded_snapshot_iff:
  "bounded_json_snapshot v = Inr w \<longleftrightarrow> w = v \<and> json_exact v \<and> json_depth v \<le> 16 \<and> json_nodes v \<le> 4096 \<and>
     json_bytes v \<le> 131072"
  by (auto simp: bounded_json_snapshot_def res_simps snapshot_iff in_budget_def within_def
      MAX_CONTAINER_DEPTH_def MAX_CONTAINER_NODES_def MAX_SNAPSHOT_SCALAR_BYTES_def)

lemma identifier_loop_agree:
  "(\<forall>i. index \<le> i \<and> i \<le> maximum \<longrightarrow> it i = it' i) \<Longrightarrow> index \<le> maximum \<Longrightarrow>
     identifier_loop it maximum field index out = identifier_loop it' maximum field index out"
proof (induction it maximum field index out rule: identifier_loop.induct)
  case (1 it maximum field index out)
  have at: "it' index = it index" using 1(2,3) by simp
  have step: "identifier_loop it maximum field (Suc index) o2 = identifier_loop it' maximum field (Suc index) o2"
    if "it index = Inl (Some v)" "\<not> maximum \<le> index" "require_bounded_text v (field @ '' entry'') = Inr s"
      "o2 = insert s out" for v s o2
    using 1(1)[OF that(1) refl that(2,3)] 1(2) that(2,4) by simp
  show ?case
    unfolding identifier_loop.simps[of it maximum field index out] identifier_loop.simps[of it' maximum field index out] at
    by (cases "it index") (auto simp: step split: option.split intro!: bind_r_cong)
qed

lemma require_bounded_text_ok [res_simps]:
  "require_bounded_text v field = Inr s \<longleftrightarrow> v = PStr s \<and> s \<noteq> [] \<and> short_text s"
  by (auto simp: require_bounded_text_def short_text_def split: pyval.splits)

lemma identifier_loop_bounds:
  "identifier_loop it maximum field index out = Inr ids \<Longrightarrow> finite out \<Longrightarrow> index \<le> maximum \<Longrightarrow>
     finite ids \<and> card ids \<le> card out + (maximum - index) \<and> (\<forall>s \<in> ids - out. s \<noteq> [] \<and> short_text s)"
proof (induction it maximum field index out rule: identifier_loop.induct)
  case (1 it maximum field index out)
  show ?case
  proof (cases "it index")
    case (Inl a)
    show ?thesis
    proof (cases a)
      case None
      then show ?thesis using 1(2-4) Inl by (simp add: identifier_loop.simps[of it maximum field index])
    next
      case (Some v)
      obtain s where s: "require_bounded_text v (field @ '' entry'') = Inr s" "\<not> maximum \<le> index"
        "identifier_loop it maximum field (index + 1) (insert s out) = Inr ids"
        using 1(2) Inl Some by (subst (asm) identifier_loop.simps) (auto simp: bind_r_eq_Inr split: if_splits)
      have "card (insert s out) \<le> card out + 1" by (rule card_insert_le_m1) auto
      then show ?thesis using 1(1)[OF Inl Some s(2,1,3)] 1(3) s(1,2) by (force simp: require_bounded_text_ok)
    qed
  next
    case (Inr u)
    then show ?thesis using 1(2) by (simp add: identifier_loop.simps[of it maximum field index])
  qed
qed

text \<open>
  C22: Collecting identifiers ends on every iterator, an endless one included, and depends on no
  more than its first maximum + 1 answers: two iterators that agree there give the same result. A
  set that is accepted has at most maximum elements, each a non-empty text within the budget.
\<close>

theorem identifier_set_bounded:
  assumes "\<forall>i \<le> maximum. it i = it' i"
  shows "bounded_identifier_set (Iterator it) maximum field = bounded_identifier_set (Iterator it') maximum field \<and>
    (\<forall>ids. bounded_identifier_set (Iterator it) maximum field = Inr ids \<longrightarrow>
      finite ids \<and> card ids \<le> maximum \<and> (\<forall>s \<in> ids. s \<noteq> [] \<and> short_text s))"
  using identifier_loop_agree[of 0 maximum it it' field "{}"] assms identifier_loop_bounds[of it maximum field 0 "{}"]
  by (auto simp: bounded_identifier_set_def)

definition demo_identifiers :: "nat \<Rightarrow> pyval option + unit" where
  "demo_identifiers i = Inl (if i = 0 then Some (PStr ''a'') else if i = 1 then Some (PStr ''b'') else None)"

lemma demo_identifier_set: "bounded_identifier_set (Iterator demo_identifiers) 2 ''ids'' = Inr {''a'', ''b''}"
  by (simp add: bounded_identifier_set_def identifier_loop.simps[of demo_identifiers 2 "''ids''" 0]
      identifier_loop.simps[of demo_identifiers 2 "''ids''" "Suc 0"] identifier_loop.simps[of demo_identifiers 2 "''ids''" "Suc (Suc 0)"]
      demo_identifiers_def require_bounded_text_def MAX_TEXT_FIELD_BYTES_def utf8_char_def insert_commute)

theorem identifier_set_bounded_witness:
  "bounded_identifier_set (Iterator (\<lambda>i. if i \<le> 2 then demo_identifiers i else Inr ())) 2 ''ids'' = Inr {''a'', ''b''}"
proof -
  have "\<forall>i \<le> 2. demo_identifiers i = (if i \<le> 2 then demo_identifiers i else Inr ())" by simp
  from identifier_set_bounded[OF this, of "''ids''"] show ?thesis by (simp add: demo_identifier_set)
qed

end
