(* ===== verification/Shield_V4_Receipt.thy ===== *)
theory Shield_V4_Receipt
  imports Shield_V4_Budget Shield_Receipt_Verifier
begin

text \<open>
  \<open>src/adamantine/v1/contracts/shield_orchestrator_receipt_v4.py\<close>: the Shield v4 receipt. Its
  checks come in two groups: a preflight of the structure without any hash, and the canonical
  byte sizes and hashes. The errors of the contract are subclasses of \<open>ValueError\<close>; the last
  constructor is the \<open>KeyError\<close> that no handler expects. NFC normalisation is the identity on
  Latin-1.
\<close>

section \<open>Errors and constants\<close>

datatype v4_error =
    V4Contract string
  | V4Downgrade string
  | V4HashMismatch string
  | V4AuthorityBypass string
  | V4WorkBudget string
  | V4ValueError string
  | V4TypeError string
  | V4KeyError string

fun v4_message :: "v4_error \<Rightarrow> string" where
  "v4_message (V4Contract m) = m"
| "v4_message (V4Downgrade m) = m"
| "v4_message (V4HashMismatch m) = m"
| "v4_message (V4AuthorityBypass m) = m"
| "v4_message (V4WorkBudget m) = m"
| "v4_message (V4ValueError m) = m"
| "v4_message (V4TypeError m) = m"
| "v4_message (V4KeyError m) = m"

definition v4_fail :: "string \<Rightarrow> v4_error + 'a" where
  "v4_fail m = Inl (V4Contract m)"

text \<open>\<open>if not c: raise ShieldV4ReceiptContractError(msg)\<close>.\<close>

definition v4_check :: "bool \<Rightarrow> string \<Rightarrow> v4_error + unit" where
  "v4_check c m = check_r c (V4Contract m)"

text \<open>\<open>try: m except ShieldV4WorkBudgetError: raise ShieldV4ReceiptContractError(msg)\<close>.\<close>

definition within_budget :: "string + 'a \<Rightarrow> string \<Rightarrow> v4_error + 'a" where
  "within_budget m msg = catch_r m (\<lambda>_. v4_fail msg)"

definition RECEIPT_SCHEMA_VERSION :: string where "RECEIPT_SCHEMA_VERSION = ''shield.receipt.v2''"
definition VERDICT_SCHEMA_VERSION :: string where "VERDICT_SCHEMA_VERSION = ''shield.verdict.v2''"
definition SIGNATURE_BUNDLE_SCHEMA_VERSION :: string where
  "SIGNATURE_BUNDLE_SCHEMA_VERSION = ''shield.signature_bundle.v1''"
definition CONTRACT_VERSION_V4 :: int where "CONTRACT_VERSION_V4 = 4"
definition CANONICALIZATION_PROFILE :: string where "CANONICALIZATION_PROFILE = ''shield-v4-canon.v1''"
definition SIGNATURE_POLICY :: string where "SIGNATURE_POLICY = ''policy.v1''"
definition SIGNED_PAYLOAD_HASH_PREFIX :: string where "SIGNED_PAYLOAD_HASH_PREFIX = ''DGB-SHIELD-V4-SIGNED-PAYLOAD''"
definition ORCHESTRATOR_RECEIPT_DOMAIN :: string where
  "ORCHESTRATOR_RECEIPT_DOMAIN = ''DGB-SHIELD-V4-ORCH-RECEIPT:shield.receipt.v2:policy.v1''"
definition COMPONENT_VERDICT_DOMAIN :: string where
  "COMPONENT_VERDICT_DOMAIN = ''DGB-SHIELD-V4-COMPONENT-VERDICT:shield.verdict.v2:policy.v1''"

definition V4_REQUIRED_ALGORITHMS :: "string list" where
  "V4_REQUIRED_ALGORITHMS = [''classical-ed25519'', ''ml-dsa'']"
definition ALLOWED_ALGORITHMS :: "string list" where
  "ALLOWED_ALGORITHMS = V4_REQUIRED_ALGORITHMS @ [''fn-dsa'']"

definition algorithm_standard_profiles :: "string \<Rightarrow> string list" where
  "algorithm_standard_profiles a = (if a = ''classical-ed25519'' then [''rfc8032-ed25519-v1'']
     else if a = ''ml-dsa'' then [''fips204-ml-dsa-65-v1'']
     else if a = ''fn-dsa'' then [''fips206-draft-falcon1024-v1''] else [])"

definition COMPONENT_ROLES :: "(string \<times> string) list" where
  "COMPONENT_ROLES = [(''adn'', ''shield_component_adn''), (''dqsn'', ''shield_component_dqsn''),
     (''guardian_wallet'', ''shield_component_guardian_wallet''), (''qwg'', ''shield_component_qwg''),
     (''sentinel_ai'', ''shield_component_sentinel_ai'')]"

definition SUPPORTED_COMPONENTS :: "string list" where
  "SUPPORTED_COMPONENTS = [''adn'', ''dqsn'', ''guardian_wallet'', ''qwg'', ''sentinel_ai'']"

definition FINAL_OUTCOMES :: "string list" where
  "FINAL_OUTCOMES = [''ALLOW'', ''DENY'', ''HUMAN_REVIEW_REQUIRED'']"
definition COMPONENT_DECISIONS :: "string list" where
  "COMPONENT_DECISIONS = [''ALLOW'', ''ESCALATE'', ''DENY'', ''ERROR'', ''SKIPPED'']"
definition DENYING_COMPONENT_DECISIONS :: "string list" where
  "DENYING_COMPONENT_DECISIONS = [''DENY'', ''ERROR'']"
definition ESCALATING_COMPONENT_DECISIONS :: "string list" where
  "ESCALATING_COMPONENT_DECISIONS = [''ESCALATE'', ''SKIPPED'']"

definition V4_RECEIPT_FIELDS :: "string list" where
  "V4_RECEIPT_FIELDS = [''schema_version'', ''contract_version'', ''request_id'', ''context_hash'',
     ''freshness_nonce'', ''not_before'', ''not_after'', ''component_verdicts'',
     ''component_signature_results'', ''final_outcome'', ''dominant_reason_ids'',
     ''canonicalization_profile'', ''signature_policy'', ''key_registry_version'',
     ''adamantineos_handoff'', ''fail_closed'', ''receipt_hash'', ''signed_payload_hash'',
     ''signature_bundle'']"

definition UNSIGNED_RECEIPT_EXCLUDED_FIELDS :: "string list" where
  "UNSIGNED_RECEIPT_EXCLUDED_FIELDS =
     [''receipt_hash'', ''signed_payload_hash'', ''signature_bundle'', ''verification_summary'']"

definition REQUIRED_SIGNED_COMPONENT_FIELDS :: "string list" where
  "REQUIRED_SIGNED_COMPONENT_FIELDS = [''component_id'', ''contract_version'', ''schema_version'',
     ''request_id'', ''context_hash'', ''freshness_nonce'', ''not_before'', ''not_after'', ''decision'',
     ''reason_ids'', ''evidence_hash'', ''evidence_families'', ''metadata'', ''fail_closed'',
     ''canonicalization_profile'', ''signature_policy'', ''key_registry_version'',
     ''signed_payload_hash'', ''signature_bundle'']"

definition SIGNATURE_BUNDLE_FIELDS :: "string list" where
  "SIGNATURE_BUNDLE_FIELDS = [''schema_version'', ''policy_version'', ''signatures'']"

definition SIGNATURE_ENTRY_FIELDS :: "string list" where
  "SIGNATURE_ENTRY_FIELDS = [''algorithm'', ''standard_profile'', ''key_id'', ''key_version'',
     ''signed_payload_hash'', ''domain_tag'', ''signature'']"

definition COMPONENT_SIGNATURE_RESULT_FIELDS :: "string list" where
  "COMPONENT_SIGNATURE_RESULT_FIELDS = [''component_id'', ''component_role'', ''verified'',
     ''verified_algorithms'', ''verified_standard_profiles'', ''signature_policy'']"

text \<open>\<open>set(m.keys()) == fields\<close>, and with optional fields taken away first.\<close>

definition has_fields :: "pydict \<Rightarrow> string list \<Rightarrow> string list \<Rightarrow> bool" where
  "has_fields m optional required \<longleftrightarrow> set (dkeys m) - set optional = set required"

section \<open>Canonical JSON and hashes\<close>

text \<open>\<open>_normalise\<close>; the path of a value appears in the error messages.\<close>

fun normalise :: "string \<Rightarrow> pyval \<Rightarrow> v4_error + pyval"
  and normalise_list :: "string \<Rightarrow> nat \<Rightarrow> pyval list \<Rightarrow> v4_error + pyval list"
  and normalise_items :: "string \<Rightarrow> pydict \<Rightarrow> pydict \<Rightarrow> v4_error + pydict" where
  "normalise path PNone = v4_fail (path @ '' must omit absent fields instead of using null'')"
| "normalise path (PStr s) = Inr (PStr s)"
| "normalise path (PBool b) = Inr (PBool b)"
| "normalise path (PInt i) = Inr (PInt i)"
| "normalise path (PFloat f) = v4_fail (path @ '' must not contain floats'')"
| "normalise path (PList xs) = bind_r (normalise_list path 0 xs) (\<lambda>ys. Inr (PList ys))"
| "normalise path (PTuple xs) = bind_r (normalise_list path 0 xs) (\<lambda>ys. Inr (PList ys))"
| "normalise path (PSet xs) = v4_fail (path @ '' contains unsupported type set'')"
| "normalise path (PDict m) = bind_r (normalise_items path [] m) (\<lambda>n. Inr (PDict n))"
| "normalise_list path i [] = Inr []"
| "normalise_list path i (x # xs) = bind_r (normalise (path @ ''['' @ show_nat i @ '']'') x) (\<lambda>y.
     bind_r (normalise_list path (i + 1) xs) (\<lambda>ys. Inr (y # ys)))"
| "normalise_items path out [] = Inr out"
| "normalise_items path out ((k, v) # m) =
     (if has_key out k then v4_fail (path @ '' contains duplicate key after Unicode normalization'')
      else bind_r (normalise (path @ ''.'' @ k) v) (\<lambda>w. normalise_items path (out @ [(k, w)]) m))"

definition to_canonical_json :: "pydict \<Rightarrow> v4_error + string" where
  "to_canonical_json payload = bind_r (normalise ''$'' (PDict payload)) (\<lambda>v.
     case json_val False False v of
       Inl (Inl m) \<Rightarrow> Inl (V4ValueError m) | Inl (Inr m) \<Rightarrow> Inl (V4TypeError m) | Inr s \<Rightarrow> Inr s)"

definition signed_payload_hash :: "string \<Rightarrow> pydict \<Rightarrow> v4_error + string" where
  "signed_payload_hash domain_tag payload =
     bind_r (v4_check (domain_tag \<in> {ORCHESTRATOR_RECEIPT_DOMAIN, COMPONENT_VERDICT_DOMAIN})
       ''unsupported Shield v4 domain tag'') (\<lambda>_.
     bind_r (to_canonical_json payload) (\<lambda>s.
     Inr (sha256_hex (utf8 (SIGNED_PAYLOAD_HASH_PREFIX @ [CHR 0x0A] @ domain_tag @ [CHR 0x0A]) @ utf8 s))))"

definition v4_receipt_hash :: "pydict \<Rightarrow> v4_error + string" where
  "v4_receipt_hash payload = bind_r (to_canonical_json payload) (\<lambda>s. Inr (sha256_hex (utf8 s)))"

section \<open>Fields\<close>

definition v4_require_str :: "pyval \<Rightarrow> string \<Rightarrow> v4_error + string" where
  "v4_require_str v field = (case v of
     PStr s \<Rightarrow> if py_blank s then v4_fail (field @ '' must be non-empty string'') else Inr (py_strip s)
   | _ \<Rightarrow> v4_fail (field @ '' must be non-empty string''))"

definition require_supported_standard_profile :: "string \<Rightarrow> pyval \<Rightarrow> v4_error + string" where
  "require_supported_standard_profile algorithm profile =
     bind_r (v4_require_str profile ''standard_profile'') (\<lambda>clean.
     bind_r (v4_check (clean \<in> set (algorithm_standard_profiles algorithm))
       ''unsupported Shield v4 signature standard_profile'') (\<lambda>_. Inr clean))"

definition v4_require_positive_int :: "pyval \<Rightarrow> string \<Rightarrow> v4_error + int" where
  "v4_require_positive_int v field =
     bind_r (within_budget (require_signed_integer v field) (field @ '' must be positive integer'')) (\<lambda>i.
     bind_r (v4_check (0 < i) (field @ '' must be positive integer'')) (\<lambda>_. Inr i))"

definition v4_require_hash :: "pyval \<Rightarrow> string \<Rightarrow> v4_error + string" where
  "v4_require_hash v field = (case v of
     PStr s \<Rightarrow>
       bind_r (v4_check (length s = 64) (field @ '' must be 64-character sha256 hex'')) (\<lambda>_.
       bind_r (v4_require_str v field) (\<lambda>clean.
       bind_r (v4_check (int16_ok clean) (field @ '' must be sha256 hex'')) (\<lambda>_.
       bind_r (v4_check (clean = py_lower clean) (field @ '' must be lowercase sha256 hex'')) (\<lambda>_. Inr clean))))
   | _ \<Rightarrow> v4_fail (field @ '' must be 64-character sha256 hex''))"

definition REAL_SIGNATURE_ENCODING_PREFIX :: string where "REAL_SIGNATURE_ENCODING_PREFIX = ''b64u:''"

definition is_base64url :: "char \<Rightarrow> bool" where
  "is_base64url c \<longleftrightarrow> c \<in> set ''ABCDEFGHIJKLMNOPQRSTUVWXYZabcdefghijklmnopqrstuvwxyz0123456789-_''"

text \<open>
  \<open>base64.urlsafe_b64decode(body + padding)\<close> on a non-empty text of the alphabet fails exactly
  when one character is left over after the groups of four.
\<close>

definition b64u_body_ok :: "string \<Rightarrow> bool" where
  "b64u_body_ok body \<longleftrightarrow> length body mod 4 \<noteq> 1"

definition require_signature_encoding :: "pyval \<Rightarrow> string \<Rightarrow> v4_error + string" where
  "require_signature_encoding v field =
     bind_r (within_budget (require_bounded_text v field) (field @ '' exceeds encoding budget'')) (\<lambda>bounded.
     bind_r (v4_require_str (PStr bounded) field) (\<lambda>clean.
     if take 5 clean = REAL_SIGNATURE_ENCODING_PREFIX then
       (let body = drop 5 clean in
        bind_r (v4_check (body \<noteq> []) (field @ '' b64u payload must be non-empty'')) (\<lambda>_.
        bind_r (v4_check (CHR ''='' \<notin> set body) (field @ '' b64u payload must be unpadded'')) (\<lambda>_.
        bind_r (v4_check (list_all is_base64url body) (field @ '' b64u payload is invalid'')) (\<lambda>_.
        bind_r (v4_check (b64u_body_ok body) (field @ '' b64u payload is invalid'')) (\<lambda>_. Inr clean)))))
     else v4_require_hash (PStr clean) field))"

fun collect_strs :: "string \<Rightarrow> string list \<Rightarrow> pyval list \<Rightarrow> v4_error + string list" where
  "collect_strs field out [] = Inr out"
| "collect_strs field out (x # xs) = bind_r (v4_require_str x (field @ '' entry'')) (\<lambda>clean.
     if clean \<in> set out then v4_fail (field @ '' entries must be unique'')
     else collect_strs field (out @ [clean]) xs)"

definition require_str_list :: "pyval \<Rightarrow> string \<Rightarrow> v4_error + string list" where
  "require_str_list v field = (case v of
     PList (x # xs) \<Rightarrow> collect_strs field [] (x # xs)
   | _ \<Rightarrow> v4_fail (field @ '' must be non-empty list''))"

section \<open>Authority and outcome\<close>

text \<open>
  \<open>_contains_forbidden_authority\<close>; \<open>FORBIDDEN_AUTHORITY_KEYS\<close> lists the keys of
  \<open>FORBIDDEN_METADATA_AUTHORITY_KEYS\<close>, and both contracts scan dictionaries and lists alike.
\<close>

definition contains_forbidden_authority :: "pyval \<Rightarrow> bool" where
  "contains_forbidden_authority v = forbidden_metadata v"

text \<open>The elements of a list of dictionaries that has been validated as such.\<close>

definition dict_list :: "pyval \<Rightarrow> pydict list" where
  "dict_list v = (case v of PList xs \<Rightarrow> map (\<lambda>x. case x of PDict m \<Rightarrow> m | _ \<Rightarrow> []) xs | _ \<Rightarrow> [])"

definition expected_final_outcome :: "pydict list \<Rightarrow> string" where
  "expected_final_outcome component_verdicts =
    (let decisions = map (\<lambda>v. dget v ''decision'') component_verdicts in
     if list_ex (\<lambda>d. str_in d DENYING_COMPONENT_DECISIONS) decisions then ''DENY''
     else if list_ex (\<lambda>d. str_in d ESCALATING_COMPONENT_DECISIONS) decisions
       then ''HUMAN_REVIEW_REQUIRED''
     else ''ALLOW'')"

section \<open>Signature bundles\<close>

text \<open>One turn of the loop over the signatures: the algorithm of the entry.\<close>

definition check_signature_entry :: "string \<Rightarrow> string \<Rightarrow> string list \<Rightarrow> pyval \<Rightarrow> v4_error + string" where
  "check_signature_entry expected_hash domain_tag seen entry = (case entry of
     PDict e \<Rightarrow>
       bind_r (v4_check (has_fields e [] SIGNATURE_ENTRY_FIELDS)
         ''signature entry fields must match required schema'') (\<lambda>_.
       bind_r (v4_require_str (dget e ''algorithm'') ''algorithm'') (\<lambda>algorithm.
       bind_r (v4_check (algorithm \<in> set ALLOWED_ALGORITHMS)
         ''unsupported Shield v4 signature algorithm'') (\<lambda>_.
       bind_r (v4_check (algorithm \<notin> set seen) ''duplicate signature algorithm'') (\<lambda>_.
       bind_r (require_supported_standard_profile algorithm (dget e ''standard_profile'')) (\<lambda>_.
       bind_r (v4_require_str (dget e ''key_id'') ''key_id'') (\<lambda>_.
       bind_r (v4_require_positive_int (dget e ''key_version'') ''key_version'') (\<lambda>_.
       bind_r (v4_require_hash (dget e ''signed_payload_hash'') ''signed_payload_hash'') (\<lambda>h.
       bind_r (check_r (h = expected_hash) (V4HashMismatch ''signature signed_payload_hash mismatch'')) (\<lambda>_.
       bind_r (v4_require_str (dget e ''domain_tag'') ''domain_tag'') (\<lambda>d.
       bind_r (v4_check (d = domain_tag) ''signature domain tag mismatch'') (\<lambda>_.
       bind_r (require_signature_encoding (dget e ''signature'') ''signature'') (\<lambda>_. Inr algorithm))))))))))))
   | _ \<Rightarrow> v4_fail ''signature entry must be dict'')"

fun check_signature_entries :: "string \<Rightarrow> string \<Rightarrow> string list \<Rightarrow> pyval list \<Rightarrow> v4_error + string list" where
  "check_signature_entries h d seen [] = Inr seen"
| "check_signature_entries h d seen (e # es) = bind_r (check_signature_entry h d seen e) (\<lambda>a.
     check_signature_entries h d (seen @ [a]) es)"

definition canonical_sequence :: "string list \<Rightarrow> string list" where
  "canonical_sequence algorithms = filter (\<lambda>a. a \<in> set algorithms) ALLOWED_ALGORITHMS"

definition validate_signature_bundle_canonical_size :: "pyval \<Rightarrow> v4_error + unit" where
  "validate_signature_bundle_canonical_size bundle = (case bundle of
     PDict b \<Rightarrow> bind_r (to_canonical_json b) (\<lambda>s.
       within_budget (require_byte_budget (utf8 s) MAX_SIGNATURE_BUNDLE_BYTES ''signature bundle'')
         ''signature bundle exceeds canonical byte budget'')
   | _ \<Rightarrow> v4_fail ''payload must be dict'')"

definition validate_signature_bundle_shape :: "pyval \<Rightarrow> string \<Rightarrow> string \<Rightarrow> v4_error + pydict" where
  "validate_signature_bundle_shape bundle expected_signed_payload_hash expected_domain_tag = (case bundle of
     PDict b \<Rightarrow>
       bind_r (v4_check (has_fields b [] SIGNATURE_BUNDLE_FIELDS)
         ''signature bundle fields must match required schema'') (\<lambda>_.
       bind_r (v4_check (dget b ''schema_version'' = PStr SIGNATURE_BUNDLE_SCHEMA_VERSION)
         ''signature bundle schema mismatch'') (\<lambda>_.
       bind_r (v4_check (dget b ''policy_version'' = PStr SIGNATURE_POLICY)
         ''signature bundle policy mismatch'') (\<lambda>_.
       bind_r (case dget b ''signatures'' of PList (x # xs) \<Rightarrow> Inr (x # xs)
         | _ \<Rightarrow> v4_fail ''signature bundle signatures must be non-empty list'') (\<lambda>signatures.
       bind_r (v4_check (length signatures \<le> MAX_SIGNATURES_PER_BUNDLE)
         ''signature bundle signature count outside work budget'') (\<lambda>_.
       bind_r (v4_require_hash (PStr expected_signed_payload_hash) ''expected_signed_payload_hash'') (\<lambda>expected_hash.
       bind_r (check_signature_entries expected_hash expected_domain_tag [] signatures) (\<lambda>algorithms.
       bind_r (v4_check (algorithms = canonical_sequence algorithms)
         ''signature algorithms must use canonical policy order'') (\<lambda>_.
       bind_r (v4_check (set V4_REQUIRED_ALGORITHMS \<subseteq> set algorithms)
         ''signature policy requirements not satisfied'') (\<lambda>_.
       bind_r (validate_signature_bundle_canonical_size (PDict b)) (\<lambda>_. Inr b))))))))))
   | _ \<Rightarrow> v4_fail ''signature bundle must be dict'')"

section \<open>The results the orchestrator claims\<close>

definition check_signature_result :: "string set \<Rightarrow> pyval \<Rightarrow> v4_error + string" where
  "check_signature_result seen result = (case result of
     PDict r \<Rightarrow>
       bind_r (v4_check (has_fields r [] COMPONENT_SIGNATURE_RESULT_FIELDS)
         ''component signature result fields must match required schema'') (\<lambda>_.
       bind_r (v4_require_str (dget r ''component_id'') ''component_id'') (\<lambda>component_id.
       bind_r (v4_check (component_id \<in> set (map fst COMPONENT_ROLES))
         ''unknown component signature result component_id'') (\<lambda>_.
       bind_r (v4_check (component_id \<notin> seen) ''duplicate component signature result'') (\<lambda>_.
       bind_r (v4_check (dget r ''component_role'' = PStr (the (map_of COMPONENT_ROLES component_id)))
         ''component signature result role mismatch'') (\<lambda>_.
       bind_r (v4_check (dget r ''verified'' = PBool True)
         ''component signature result must be verified'') (\<lambda>_.
       bind_r (v4_check (dget r ''signature_policy'' = PStr SIGNATURE_POLICY)
         ''component signature result policy mismatch'') (\<lambda>_.
       bind_r (require_str_list (dget r ''verified_algorithms'') ''verified_algorithms'') (\<lambda>algorithms.
       bind_r (require_str_list (dget r ''verified_standard_profiles'') ''verified_standard_profiles'') (\<lambda>profiles.
       bind_r (v4_check (set algorithms \<subseteq> set ALLOWED_ALGORITHMS)
         ''component signature result contains unsupported algorithm'') (\<lambda>_.
       bind_r (v4_check (set V4_REQUIRED_ALGORITHMS \<subseteq> set algorithms)
         ''component signature result missing required algorithm'') (\<lambda>_.
       bind_r (v4_check (length profiles = length algorithms)
         ''component signature result profile/algorithm mismatch'') (\<lambda>_.
       bind_r (v4_check (list_all (\<lambda>(a, p). p \<in> set (algorithm_standard_profiles a)) (zip algorithms profiles))
         ''component signature result contains unsupported standard_profile'') (\<lambda>_.
       Inr component_id)))))))))))))
   | _ \<Rightarrow> v4_fail ''component signature result must be dict'')"

fun check_signature_results :: "string set \<Rightarrow> pyval list \<Rightarrow> v4_error + unit" where
  "check_signature_results seen [] = Inr ()"
| "check_signature_results seen (r # rs) = bind_r (check_signature_result seen r) (\<lambda>cid.
     check_signature_results (insert cid seen) rs)"

definition validate_component_signature_results :: "pyval \<Rightarrow> v4_error + pydict list" where
  "validate_component_signature_results results =
     bind_r (case results of
       PList xs \<Rightarrow> if length xs = length SUPPORTED_COMPONENTS then Inr xs
         else v4_fail ''component_signature_results must contain every required component''
     | _ \<Rightarrow> v4_fail ''component_signature_results must contain every required component'') (\<lambda>xs.
     bind_r (check_signature_results {} xs) (\<lambda>_. Inr (dict_list results)))"

section \<open>Component verdicts\<close>

definition unsigned_component_payload :: "pydict \<Rightarrow> pydict" where
  "unsigned_component_payload component =
     filter (\<lambda>(k, _). k \<notin> {''signed_payload_hash'', ''signature_bundle'', ''verification_summary''}) component"

definition preflight_component_verdict_contract :: "string \<Rightarrow> pyval \<Rightarrow> v4_error + pydict" where
  "preflight_component_verdict_contract expected_context_hash component = (case component of
     PDict c \<Rightarrow>
       bind_r (v4_check (has_fields c [''verification_summary''] REQUIRED_SIGNED_COMPONENT_FIELDS)
         ''component verdict fields must match Shield v4 schema'') (\<lambda>_.
       bind_r (v4_require_str (dget c ''component_id'') ''component_id'') (\<lambda>component_id.
       bind_r (v4_check (component_id \<in> set (map fst COMPONENT_ROLES)) ''unsupported Shield v4 component'') (\<lambda>_.
       bind_r (v4_check (py_eq (dget c ''contract_version'') (PInt CONTRACT_VERSION_V4))
         ''component contract mismatch'') (\<lambda>_.
       bind_r (v4_check (dget c ''schema_version'' = PStr VERDICT_SCHEMA_VERSION)
         ''component schema mismatch'') (\<lambda>_.
       bind_r (v4_check (dget c ''fail_closed'' = PBool True) ''component fail_closed must be true'') (\<lambda>_.
       bind_r (v4_check (dget c ''canonicalization_profile'' = PStr CANONICALIZATION_PROFILE)
         ''component canonicalization profile mismatch'') (\<lambda>_.
       bind_r (v4_check (dget c ''signature_policy'' = PStr SIGNATURE_POLICY)
         ''component signature policy mismatch'') (\<lambda>_.
       bind_r (v4_check (str_in (dget c ''decision'') COMPONENT_DECISIONS)
         ''unsupported component decision'') (\<lambda>_.
       bind_r (v4_require_hash (dget c ''context_hash'') ''context_hash'') (\<lambda>ch.
       bind_r (v4_require_hash (PStr expected_context_hash) ''expected_context_hash'') (\<lambda>ech.
       bind_r (v4_check (ch = ech) ''component context_hash mismatch'') (\<lambda>_.
       bind_r (each_r (\<lambda>f. bind_r (v4_require_str (dget c f) f) (\<lambda>_. Inr ()))
         [''request_id'', ''freshness_nonce'', ''not_before'', ''not_after'']) (\<lambda>_.
       bind_r (v4_require_hash (dget c ''evidence_hash'') ''evidence_hash'') (\<lambda>_.
       bind_r (require_str_list (dget c ''reason_ids'') ''reason_ids'') (\<lambda>_.
       bind_r (require_str_list (dget c ''evidence_families'') ''evidence_families'') (\<lambda>_.
       bind_r (v4_require_positive_int (dget c ''key_registry_version'') ''key_registry_version'') (\<lambda>_.
       bind_r (need_map (dget c ''metadata'') (V4Contract ''component metadata must be dict'')) (\<lambda>md.
       bind_r (check_r (\<not> contains_forbidden_authority (PDict md))
         (V4AuthorityBypass ''component metadata contains forbidden authority field'')) (\<lambda>_.
       bind_r (v4_require_hash (dget c ''signed_payload_hash'') ''signed_payload_hash'') (\<lambda>_.
       Inr c))))))))))))))))))))
   | _ \<Rightarrow> v4_fail ''component verdict must be dict'')"

definition validate_component_signature_bundle :: "pydict \<Rightarrow> v4_error + unit" where
  "validate_component_signature_bundle component =
     bind_r (validate_signature_bundle_shape (dget component ''signature_bundle'')
       (str_of (dget component ''signed_payload_hash'')) COMPONENT_VERDICT_DOMAIN) (\<lambda>_. Inr ())"

definition validate_component_canonical_integrity :: "pydict \<Rightarrow> v4_error + unit" where
  "validate_component_canonical_integrity component =
     bind_r (signed_payload_hash COMPONENT_VERDICT_DOMAIN (unsigned_component_payload component)) (\<lambda>h.
     check_r (dget component ''signed_payload_hash'' = PStr h)
       (V4HashMismatch ''component signed payload hash mismatch''))"

definition validate_component_verdict_contract :: "string \<Rightarrow> pyval \<Rightarrow> v4_error + pydict" where
  "validate_component_verdict_contract expected_context_hash component =
     bind_r (preflight_component_verdict_contract expected_context_hash component) (\<lambda>checked.
     bind_r (validate_component_canonical_integrity checked) (\<lambda>_.
     bind_r (validate_component_signature_bundle checked) (\<lambda>_. Inr checked)))"

text \<open>Duplicates are found by the component id as received, before it is stripped.\<close>

fun preflight_components :: "string \<Rightarrow> pyval list \<Rightarrow> pyval list \<Rightarrow> v4_error + pydict list" where
  "preflight_components ch seen [] = Inr []"
| "preflight_components ch seen (c # cs) =
     bind_r (preflight_component_verdict_contract ch c) (\<lambda>validated.
     let component_id = dget validated ''component_id'' in
     if component_id \<in> set seen then v4_fail ''duplicate component verdict''
     else bind_r (preflight_components ch (component_id # seen) cs) (\<lambda>rest. Inr (validated # rest)))"

definition preflight_component_set :: "string \<Rightarrow> pyval \<Rightarrow> v4_error + pydict list" where
  "preflight_component_set expected_context_hash component_verdicts = (case component_verdicts of
     PList xs \<Rightarrow> if length xs = length SUPPORTED_COMPONENTS
       then preflight_components expected_context_hash [] xs
       else v4_fail ''component_verdicts must contain every required Shield v4 component''
   | _ \<Rightarrow> v4_fail ''component_verdicts must contain every required Shield v4 component'')"

section \<open>The receipt\<close>

definition unsigned_receipt_payload :: "pydict \<Rightarrow> pydict" where
  "unsigned_receipt_payload receipt = filter (\<lambda>(k, _). k \<notin> set UNSIGNED_RECEIPT_EXCLUDED_FIELDS) receipt"

definition preflight_bounded_receipt :: "string \<Rightarrow> pyval \<Rightarrow> v4_error + pydict" where
  "preflight_bounded_receipt expected_context_hash receipt = (case receipt of
     PDict r \<Rightarrow>
       bind_r (check_r (\<not> (dget r ''schema_version'' = PStr ''shield.receipt.v1'' \<or>
           py_eq (dget r ''contract_version'') (PInt 3)))
         (V4Downgrade ''Shield v3 receipt submitted where Shield v4 is required'')) (\<lambda>_.
       bind_r (v4_check (has_fields r [''verification_summary''] V4_RECEIPT_FIELDS)
         ''receipt fields must match Shield v4 schema'') (\<lambda>_.
       bind_r (v4_check (dget r ''schema_version'' = PStr RECEIPT_SCHEMA_VERSION) ''receipt schema mismatch'') (\<lambda>_.
       bind_r (v4_check (py_eq (dget r ''contract_version'') (PInt CONTRACT_VERSION_V4))
         ''receipt contract mismatch'') (\<lambda>_.
       bind_r (v4_check (dget r ''fail_closed'' = PBool True) ''receipt fail_closed must be true'') (\<lambda>_.
       bind_r (v4_check (dget r ''canonicalization_profile'' = PStr CANONICALIZATION_PROFILE)
         ''receipt canonicalization profile mismatch'') (\<lambda>_.
       bind_r (v4_check (dget r ''signature_policy'' = PStr SIGNATURE_POLICY)
         ''receipt signature policy mismatch'') (\<lambda>_.
       bind_r (v4_check (str_in (dget r ''final_outcome'') FINAL_OUTCOMES) ''unsupported final outcome'') (\<lambda>_.
       bind_r (v4_require_hash (dget r ''context_hash'') ''context_hash'') (\<lambda>context_hash.
       bind_r (v4_require_hash (PStr expected_context_hash) ''expected_context_hash'') (\<lambda>ech.
       bind_r (v4_check (context_hash = ech) ''receipt context mismatch'') (\<lambda>_.
       bind_r (each_r (\<lambda>f. bind_r (v4_require_str (dget r f) f) (\<lambda>_. Inr ()))
         [''request_id'', ''freshness_nonce'', ''not_before'', ''not_after'']) (\<lambda>_.
       bind_r (v4_require_positive_int (dget r ''key_registry_version'') ''key_registry_version'') (\<lambda>_.
       bind_r (require_str_list (dget r ''dominant_reason_ids'') ''dominant_reason_ids'') (\<lambda>_.
       bind_r (need_map (dget r ''adamantineos_handoff'') (V4Contract ''adamantineos_handoff must be dict'')) (\<lambda>handoff.
       bind_r (check_r (\<not> contains_forbidden_authority (PDict handoff))
         (V4AuthorityBypass ''adamantineos_handoff contains forbidden authority field'')) (\<lambda>_.
       bind_r (validate_component_signature_results (dget r ''component_signature_results'')) (\<lambda>_.
       bind_r (preflight_component_set context_hash (dget r ''component_verdicts'')) (\<lambda>component_verdicts.
       bind_r (v4_check (dget r ''final_outcome'' = PStr (expected_final_outcome component_verdicts))
         ''receipt final outcome does not match component decisions'') (\<lambda>_.
       bind_r (check_r (\<not> (dget r ''final_outcome'' \<noteq> PStr ''ALLOW'' \<and>
           dget handoff ''handoff_allowed'' = PBool True))
         (V4AuthorityBypass ''non-ALLOW receipt cannot carry handoff_allowed true'')) (\<lambda>_.
       bind_r (v4_require_hash (dget r ''receipt_hash'') ''receipt_hash'') (\<lambda>_.
       bind_r (v4_require_hash (dget r ''signed_payload_hash'') ''signed_payload_hash'') (\<lambda>_.
       Inr r))))))))))))))))))))))
   | _ \<Rightarrow> v4_fail ''receipt must be dict'')"

definition preflight_shield_v4_receipt_contract :: "string \<Rightarrow> pyval \<Rightarrow> v4_error + pydict" where
  "preflight_shield_v4_receipt_contract expected_context_hash receipt =
     bind_r (within_budget (bounded_json_snapshot receipt) ''receipt exceeds structural work budget'') (\<lambda>snap.
     preflight_bounded_receipt expected_context_hash snap)"

definition receipt_byte_budget :: "pydict \<Rightarrow> v4_error + unit" where
  "receipt_byte_budget receipt = bind_r (to_canonical_json receipt) (\<lambda>s.
     within_budget (require_byte_budget (utf8 s) MAX_CANONICAL_RECEIPT_BYTES ''canonical receipt'')
       ''receipt exceeds canonical byte budget'')"

text \<open>The two hashes over the receipt without its hashes and signatures; the payload hash.\<close>

definition receipt_hashes :: "pydict \<Rightarrow> v4_error + string" where
  "receipt_hashes receipt = (let payload = unsigned_receipt_payload receipt in
     bind_r (v4_receipt_hash payload) (\<lambda>rh.
     bind_r (check_r (PStr rh = dget receipt ''receipt_hash'') (V4HashMismatch ''receipt hash mismatch'')) (\<lambda>_.
     bind_r (signed_payload_hash ORCHESTRATOR_RECEIPT_DOMAIN payload) (\<lambda>ph.
     bind_r (check_r (PStr ph = dget receipt ''signed_payload_hash'')
       (V4HashMismatch ''receipt signed payload hash mismatch'')) (\<lambda>_. Inr ph)))))"

definition validate_preflighted_receipt_integrity :: "pydict \<Rightarrow> v4_error + pydict" where
  "validate_preflighted_receipt_integrity receipt =
    (let components = dict_list (dget receipt ''component_verdicts'') in
     bind_r (receipt_byte_budget receipt) (\<lambda>_.
     bind_r (each_r (\<lambda>c. validate_signature_bundle_canonical_size (dget c ''signature_bundle'')) components) (\<lambda>_.
     bind_r (validate_signature_bundle_canonical_size (dget receipt ''signature_bundle'')) (\<lambda>_.
     bind_r (each_r validate_component_canonical_integrity components) (\<lambda>_.
     bind_r (receipt_hashes receipt) (\<lambda>_. Inr receipt))))))"

definition validate_shield_v4_receipt_contract :: "string \<Rightarrow> pyval \<Rightarrow> v4_error + pydict" where
  "validate_shield_v4_receipt_contract expected_context_hash receipt =
     bind_r (preflight_shield_v4_receipt_contract expected_context_hash receipt) (\<lambda>checked.
     bind_r (receipt_byte_budget checked) (\<lambda>_.
     bind_r (each_r (\<lambda>c. bind_r (validate_component_canonical_integrity c) (\<lambda>_.
         validate_component_signature_bundle c)) (dict_list (dget checked ''component_verdicts''))) (\<lambda>_.
     bind_r (receipt_hashes checked) (\<lambda>payload_hash.
     bind_r (validate_signature_bundle_shape (dget checked ''signature_bundle'') payload_hash
       ORCHESTRATOR_RECEIPT_DOMAIN) (\<lambda>_. Inr checked)))))"

section \<open>What each check accepts\<close>

lemma v4_basic_ok [res_simps]:
  "v4_fail m = Inr x \<longleftrightarrow> False"
  "v4_check c m = Inr u \<longleftrightarrow> c"
  "within_budget n m = Inr x \<longleftrightarrow> n = Inr x"
  by (simp_all add: v4_fail_def v4_check_def within_budget_def res_simps)

lemma v4_fail_ne [simp]: "v4_fail m \<noteq> Inr x"
  by (simp add: v4_fail_def)

lemma case_dict_ok [res_simps]:
  "(case v of PDict m \<Rightarrow> f m | _ \<Rightarrow> v4_fail msg) = Inr x \<longleftrightarrow> (\<exists>m. v = PDict m \<and> f m = Inr x)"
  by (cases v) (simp_all add: v4_fail_def)

lemma v4_require_str_ok [res_simps]:
  "v4_require_str v f = Inr c \<longleftrightarrow> (\<exists>s. v = PStr s \<and> \<not> py_blank s \<and> c = py_strip s)"
  by (cases v) (auto simp: v4_require_str_def v4_fail_def)

lemma v4_require_hash_ok [res_simps]:
  "v4_require_hash v f = Inr c \<longleftrightarrow> (\<exists>s. v = PStr s \<and> length s = 64 \<and> \<not> py_blank s \<and> c = py_strip s \<and>
     int16_ok c \<and> c = py_lower c)"
  by (cases v) (auto simp: v4_require_hash_def res_simps)

lemma v4_require_positive_int_ok [res_simps]:
  "v4_require_positive_int v f = Inr i \<longleftrightarrow> v = PInt i \<and> 0 < i \<and> signed_integer_ok i"
  by (auto simp: v4_require_positive_int_def res_simps)

lemma require_profile_ok [res_simps]:
  "require_supported_standard_profile a v = Inr p \<longleftrightarrow>
     v4_require_str v ''standard_profile'' = Inr p \<and> p \<in> set (algorithm_standard_profiles a)"
  by (auto simp: require_supported_standard_profile_def res_simps)

section \<open>The two phases and the whole contract\<close>

lemma bundle_shape_size:
  "validate_signature_bundle_shape bundle h d = Inr b \<Longrightarrow> validate_signature_bundle_canonical_size bundle = Inr ()"
  by (auto simp: validate_signature_bundle_shape_def res_simps)

lemma receipt_hashes_ok:
  "receipt_hashes r = Inr ph \<Longrightarrow> dget r ''signed_payload_hash'' = PStr ph"
  by (auto simp: receipt_hashes_def res_simps Let_def)

definition bundles_well_formed :: "pydict \<Rightarrow> bool" where
  "bundles_well_formed r \<longleftrightarrow>
     (\<forall>c \<in> set (dict_list (dget r ''component_verdicts'')). validate_component_signature_bundle c = Inr ()) \<and>
     (\<exists>b. validate_signature_bundle_shape (dget r ''signature_bundle'')
        (str_of (dget r ''signed_payload_hash'')) ORCHESTRATOR_RECEIPT_DOMAIN = Inr b)"

text \<open>
  The Shield v4 contract and its split form agree. The one-shot validation accepts a receipt,
  and returns its snapshot, exactly when the hash-free preflight accepts it, the deferred
  integrity phase (byte budgets, component hashes, receipt hash, payload hash) accepts it, and
  every signature bundle has the required shape; so deferring the hashing until after the trust
  checks loses no check and adds none.
\<close>

lemma split_contract_agrees:
  "validate_shield_v4_receipt_contract h receipt = Inr r \<longleftrightarrow>
     preflight_shield_v4_receipt_contract h receipt = Inr r \<and>
     validate_preflighted_receipt_integrity r = Inr r \<and> bundles_well_formed r"
proof -
  have size: "validate_component_signature_bundle c = Inr () \<Longrightarrow>
      validate_signature_bundle_canonical_size (dget c ''signature_bundle'') = Inr ()" for c
    by (auto simp: validate_component_signature_bundle_def res_simps dest: bundle_shape_size)
  show ?thesis
    unfolding validate_shield_v4_receipt_contract_def validate_preflighted_receipt_integrity_def
      bundles_well_formed_def Let_def
    by (auto simp: res_simps dest: receipt_hashes_ok size bundle_shape_size)
      (auto simp: str_of_def dest: receipt_hashes_ok)
qed

section \<open>Canonical JSON of exact values\<close>

text \<open>No \<open>null\<close> anywhere: what the snapshot accepts and the canonical form has a text for.\<close>

fun no_null :: "pyval \<Rightarrow> bool" and no_null_list :: "pyval list \<Rightarrow> bool" and no_null_items :: "pydict \<Rightarrow> bool" where
  "no_null PNone = False"
| "no_null (PList xs) = no_null_list xs"
| "no_null (PDict m) = no_null_items m"
| "no_null _ = True"
| "no_null_list [] = True"
| "no_null_list (x # xs) = (no_null x \<and> no_null_list xs)"
| "no_null_items [] = True"
| "no_null_items ((k, v) # m) = (no_null v \<and> no_null_items m)"

lemma normalise_id:
  "json_exact v \<Longrightarrow> no_null v \<Longrightarrow> normalise path v = Inr v"
  "json_exact_list xs \<Longrightarrow> no_null_list xs \<Longrightarrow> normalise_list path i xs = Inr xs"
  "json_exact_items m \<Longrightarrow> no_null_items m \<Longrightarrow> distinct (dkeys m) \<Longrightarrow> set (dkeys m) \<inter> set (dkeys out) = {} \<Longrightarrow>
     normalise_items path out m = Inr (out @ m)"
  by (induction path v and path i xs and path out m rule: normalise_normalise_list_normalise_items.induct)
    (auto simp: has_key_def dkeys_def)

lemma length_utf8_append [simp]: "length (utf8 (s @ t)) = length (utf8 s) + length (utf8 t)"
  by (simp add: utf8_def)

lemma utf8_ascii: "(of_char c :: nat) < 128 \<Longrightarrow> utf8_char c = [of_char c]"
  by (simp add: utf8_char_def Let_def)

lemma json_char_size: "length (utf8 (json_char False c)) \<le> 6 * length (utf8_char c)"
proof -
  have "length (utf8_char d) \<le> 2" "0 < length (utf8_char d)" for d by (simp_all add: utf8_char_def Let_def)
  moreover have "hex_digit n = char_of (48 + n) \<or> hex_digit n = char_of (87 + n)" for n by (simp add: hex_digit_def)
  moreover have "length (utf8_char (hex_digit (n div 16))) = 1 \<and> length (utf8_char (hex_digit (n mod 16))) = 1"
    if "n < 32" for n :: nat
  proof -
    have "n mod 16 < 41" using mod_less_divisor[of 16 n] by linarith
    then show ?thesis using that by (simp add: hex_digit_def utf8_char_def Let_def of_char_of)
  qed
  ultimately show ?thesis
    by (auto simp: json_char_def Let_def utf8_ascii utf8_char_def[of c] intro: order_trans[of _ 2])
qed

lemma json_str_size: "length (utf8 (json_str False s)) \<le> 6 * length (utf8 s) + 2"
proof -
  have "length (utf8 (concat (map (json_char False) s))) \<le> 6 * length (utf8 s)"
  proof (induction s)
    case (Cons c s)
    then show ?case using json_char_size[of c] by simp
  qed simp
  then show ?thesis by (simp add: json_str_def utf8_ascii)
qed

definition text_total :: "string list \<Rightarrow> nat" where
  "text_total ss = sum_list (map (\<lambda>s. length (utf8 s) + 1) ss)"

lemma join_size: "length (utf8 (join_str '','' ss)) \<le> text_total ss"
  by (induction "'',''" ss rule: join_str.induct) (auto simp: text_total_def utf8_ascii)

lemma text_total_sort: "text_total (map f (sort_key k xs)) = text_total (map f xs)"
proof -
  have i: "sum_list (map g (insort_key k x ys)) = g x + sum_list (map g ys)" for g :: "_ \<Rightarrow> nat" and x ys
    by (induction ys) auto
  have "sum_list (map g (sort_key k xs)) = sum_list (map g xs)" for g :: "_ \<Rightarrow> nat"
    by (induction xs) (simp_all add: i)
  then show ?thesis by (simp add: text_total_def comp_def)
qed

lemma json_object_size:
  "length (utf8 (json_object False kvs)) \<le> text_total (map (\<lambda>(k, v). json_str False k @ '':'' @ v) kvs) + 2"
  using join_size[of "map (\<lambda>(k, v). json_str False k @ '':'' @ v) (sort_key fst kvs)"]
  by (simp add: json_object_def text_total_sort utf8_ascii)

lemma json_size:
  "json_exact v \<Longrightarrow> \<exists>s. json_val False False v = Inr s \<and> length (utf8 s) + 4 \<le> 6 * json_bytes v + 6 * json_nodes v"
  "json_exact_list xs \<Longrightarrow> \<exists>ss. json_list False False xs = Inr ss \<and>
     text_total ss \<le> 6 * json_bytes_list xs + 6 * json_nodes_list xs"
  "json_exact_items m \<Longrightarrow> \<exists>kvs. json_items False False m = Inr kvs \<and>
     text_total (map (\<lambda>(k, v). json_str False k @ '':'' @ v) kvs) \<le> 6 * json_bytes_items m + 6 * json_nodes_items m"
proof (induction v and xs and m rule: json_exact_json_exact_list_json_exact_items.induct)
  case (1 s)
  then show ?case using json_str_size[of s] by simp
next
  case (3 i)
  have d: "length (utf8_char (digit_char (n mod 10))) = 1" for n
    using mod_less_divisor[of 10 n] by (simp add: digit_char_def utf8_char_def Let_def of_char_of)
  have "length (utf8 (show_nat n)) = length (show_nat n)" for n
  proof (induction n rule: show_nat.induct)
    case (1 n)
    then show ?case using d[of n] by (subst (1 2) show_nat.simps) auto
  qed
  moreover have "printable_int i" using 3 signed_integer_printable by simp
  ultimately show ?case by (simp add: show_int_def utf8_ascii)
next
  case (5 xs)
  then obtain ss where ss: "json_list False False xs = Inr ss"
    "text_total ss \<le> 6 * json_bytes_list xs + 6 * json_nodes_list xs" by auto
  then show ?case using join_size[of ss] by (simp add: utf8_ascii)
next
  case (6 m)
  then obtain kvs where "json_items False False m = Inr kvs"
    "text_total (map (\<lambda>(k, v). json_str False k @ '':'' @ v) kvs) \<le> 6 * json_bytes_items m + 6 * json_nodes_items m"
    by auto
  then show ?case using json_object_size[of kvs] by simp
next
  case (11 k v m)
  then obtain s kvs where "json_val False False v = Inr s" "length (utf8 s) + 4 \<le> 6 * json_bytes v + 6 * json_nodes v"
    "json_items False False m = Inr kvs"
    "text_total (map (\<lambda>(k, v). json_str False k @ '':'' @ v) kvs) \<le> 6 * json_bytes_items m + 6 * json_nodes_items m"
    by auto
  then show ?case using json_str_size[of k] by (simp add: text_total_def utf8_ascii)
qed (auto simp: utf8_ascii text_total_def)

lemma canonical_json_total:
  assumes "json_exact (PDict m)" "no_null (PDict m)"
  shows "\<exists>s. to_canonical_json m = Inr s \<and> length (utf8 s) \<le> 6 * json_bytes (PDict m) + 6 * json_nodes (PDict m)"
  using normalise_id(1)[OF assms] json_size(1)[OF assms(1)] by (auto simp: to_canonical_json_def)

end
