(* ===== verification/Shield_V4_Keys.thy ===== *)
theory Shield_V4_Keys
  imports Shield_V4_Receipt Iso_Time
begin

text \<open>
  \<open>src/adamantine/v1/integrations/shield_orchestrator_receipt_v4_verifier.py\<close>, first part: the
  verification states, rejections, times, the registry of trusted keys and the choice of the key
  for a signature. A rejection is the exception \<open>_VerifierRejection\<close>, which the verifier turns
  into a result; \<open>Uncaught\<close> stands for an exception that no handler of the verifier expects.

  A time without zone (\<open>2024-01-01Z\<close> becomes \<open>2024-01-01+00:00\<close>, whose plus sign
  \<open>datetime.fromisoformat\<close> takes for the separator) is local time for \<open>astimezone\<close>. The local
  zone of the host is a parameter, its offset from UTC at a Unix second. The conversion stands
  outside the \<open>try\<close> of \<open>_parse_utc\<close>, so its \<open>ValueError\<close> or \<open>OverflowError\<close> leaves it.
\<close>

section \<open>States and rejections\<close>

datatype v4_state =
    VERIFIED_ALLOW_EVIDENCE_CONTINUE_CHECKS
  | VERIFIED_DENY_DOMINATES
  | VERIFIED_HUMAN_REVIEW_REQUIRED
  | REJECTED_INVALID_RECEIPT
  | REJECTED_CONTEXT_MISMATCH
  | REJECTED_REQUEST_MISMATCH
  | REJECTED_TAMPERED_RECEIPT
  | REJECTED_DOWNGRADE
  | REJECTED_AUTHORITY_BYPASS
  | REJECTED_SIGNATURE_POLICY
  | REJECTED_SIGNATURE_INVALID
  | REJECTED_KEY_REGISTRY
  | REJECTED_REPLAY_RISK
  | REJECTED_FRESHNESS_WINDOW

primrec v4_state_value :: "v4_state \<Rightarrow> string" where
  "v4_state_value VERIFIED_ALLOW_EVIDENCE_CONTINUE_CHECKS = ''VERIFIED_ALLOW_EVIDENCE_CONTINUE_CHECKS''"
| "v4_state_value VERIFIED_DENY_DOMINATES = ''VERIFIED_DENY_DOMINATES''"
| "v4_state_value VERIFIED_HUMAN_REVIEW_REQUIRED = ''VERIFIED_HUMAN_REVIEW_REQUIRED''"
| "v4_state_value REJECTED_INVALID_RECEIPT = ''REJECTED_INVALID_RECEIPT''"
| "v4_state_value REJECTED_CONTEXT_MISMATCH = ''REJECTED_CONTEXT_MISMATCH''"
| "v4_state_value REJECTED_REQUEST_MISMATCH = ''REJECTED_REQUEST_MISMATCH''"
| "v4_state_value REJECTED_TAMPERED_RECEIPT = ''REJECTED_TAMPERED_RECEIPT''"
| "v4_state_value REJECTED_DOWNGRADE = ''REJECTED_DOWNGRADE''"
| "v4_state_value REJECTED_AUTHORITY_BYPASS = ''REJECTED_AUTHORITY_BYPASS''"
| "v4_state_value REJECTED_SIGNATURE_POLICY = ''REJECTED_SIGNATURE_POLICY''"
| "v4_state_value REJECTED_SIGNATURE_INVALID = ''REJECTED_SIGNATURE_INVALID''"
| "v4_state_value REJECTED_KEY_REGISTRY = ''REJECTED_KEY_REGISTRY''"
| "v4_state_value REJECTED_REPLAY_RISK = ''REJECTED_REPLAY_RISK''"
| "v4_state_value REJECTED_FRESHNESS_WINDOW = ''REJECTED_FRESHNESS_WINDOW''"

datatype v4_exc = Rejection v4_state reason_id string | Uncaught string

definition registry_rejection :: "string \<Rightarrow> v4_exc" where
  "registry_rejection m = Rejection REJECTED_KEY_REGISTRY EQC_INVALID_SHIELD_BUNDLE m"

definition freshness_rejection :: "string \<Rightarrow> v4_exc" where
  "freshness_rejection m = Rejection REJECTED_FRESHNESS_WINDOW EQC_SHIELD_STALE m"

definition signature_policy_rejection :: "string \<Rightarrow> v4_exc" where
  "signature_policy_rejection m = Rejection REJECTED_SIGNATURE_POLICY EQC_INVALID_SHIELD_BUNDLE m"

definition need_registry :: "bool \<Rightarrow> string \<Rightarrow> v4_exc + unit" where
  "need_registry c m = check_r c (registry_rejection m)"

definition vf_require_str :: "pyval \<Rightarrow> string \<Rightarrow> v4_exc + string" where
  "vf_require_str v field = (case v of
     PStr s \<Rightarrow> if py_blank s then Inl (registry_rejection (field @ '' must be non-empty string''))
       else Inr (py_strip s)
   | _ \<Rightarrow> Inl (registry_rejection (field @ '' must be non-empty string'')))"

definition require_profile_for_signature :: "string \<Rightarrow> pyval \<Rightarrow> v4_exc + string" where
  "require_profile_for_signature algorithm profile =
     bind_r (vf_require_str profile ''standard_profile'') (\<lambda>clean.
     bind_r (check_r (clean \<in> set (algorithm_standard_profiles algorithm))
       (signature_policy_rejection ''unsupported Shield v4 signature standard_profile'')) (\<lambda>_. Inr clean))"

definition vf_require_positive_int :: "pyval \<Rightarrow> string \<Rightarrow> v4_exc + int" where
  "vf_require_positive_int v field =
    (let e = registry_rejection (field @ '' must be positive integer'') in
     bind_r (catch_r (require_signed_integer v field) (\<lambda>_. Inl e)) (\<lambda>i.
     bind_r (check_r (0 < i) e) (\<lambda>_. Inr i)))"

section \<open>Times\<close>

definition parse_utc :: "host_zone \<Rightarrow> pyval \<Rightarrow> string \<Rightarrow> v4_exc + int" where
  "parse_utc local_zone v field =
     bind_r (vf_require_str v field) (\<lambda>clean.
     if last clean \<noteq> CHR ''Z'' then Inl (freshness_rejection (field @ '' must end in Z''))
     else case fromisoformat (butlast clean @ ''+00:00'') of
       None \<Rightarrow> Inl (freshness_rejection (field @ '' must be valid RFC3339 UTC''))
     | Some (us, zone) \<Rightarrow>
         catch_r (case zone of Some off \<Rightarrow> aware_to_utc us off | None \<Rightarrow> local_to_utc local_zone us)
           (\<lambda>e. Inl (Uncaught e)))"

section \<open>The registry of trusted keys\<close>

record trusted_key =
  tk_role :: string
  tk_key_id :: string
  tk_key_version :: int
  tk_algorithm :: string
  tk_not_before :: string
  tk_not_after :: string
  tk_status :: string
  tk_public_key :: string

record key_registry =
  kr_schema_version :: string
  kr_registry_version :: int
  kr_entries :: "trusted_key list"

definition KEY_REGISTRY_SCHEMA_VERSION :: string where
  "KEY_REGISTRY_SCHEMA_VERSION = ''shield.key_registry.v1''"
definition ACTIVE :: string where "ACTIVE = ''active''"
definition REVOKED :: string where "REVOKED = ''revoked''"
definition ORCHESTRATOR_ROLE :: string where "ORCHESTRATOR_ROLE = ''shield_orchestrator''"
definition SUPPORTED_ROLES :: "string list" where
  "SUPPORTED_ROLES = map snd COMPONENT_ROLES @ [ORCHESTRATOR_ROLE]"

definition TRUSTED_KEY_FIELDS :: "string list" where
  "TRUSTED_KEY_FIELDS = [''role'', ''key_id'', ''key_version'', ''algorithm'', ''not_before'',
     ''not_after'', ''status'', ''public_key'']"

definition key_identity :: "trusted_key \<Rightarrow> string \<times> int \<times> string \<times> string" where
  "key_identity k = (tk_role k, tk_key_version k, tk_algorithm k, tk_key_id k)"

text \<open>One turn of the loop over the entries.\<close>

definition load_key_entry :: "host_zone \<Rightarrow> pyval \<Rightarrow> v4_exc + trusted_key" where
  "load_key_entry local_zone entry =
     bind_r (need_map entry (registry_rejection ''trusted key entry must be mapping'')) (\<lambda>e.
     bind_r (need_registry (has_fields e [] TRUSTED_KEY_FIELDS) ''trusted key entry fields must match schema'') (\<lambda>_.
     bind_r (vf_require_str (dget e ''role'') ''role'') (\<lambda>role.
     bind_r (need_registry (role \<in> set SUPPORTED_ROLES) ''trusted key role unsupported'') (\<lambda>_.
     bind_r (vf_require_str (dget e ''key_id'') ''key_id'') (\<lambda>key_id.
     bind_r (vf_require_positive_int (dget e ''key_version'') ''key_version'') (\<lambda>key_version.
     bind_r (vf_require_str (dget e ''algorithm'') ''algorithm'') (\<lambda>algorithm.
     bind_r (need_registry (algorithm \<in> set ALLOWED_ALGORITHMS) ''trusted key algorithm unsupported'') (\<lambda>_.
     bind_r (vf_require_str (dget e ''not_before'') ''not_before'') (\<lambda>not_before.
     bind_r (vf_require_str (dget e ''not_after'') ''not_after'') (\<lambda>not_after.
     bind_r (parse_utc local_zone (PStr not_before) ''key.not_before'') (\<lambda>start.
     bind_r (parse_utc local_zone (PStr not_after) ''key.not_after'') (\<lambda>stop.
     bind_r (need_registry (start < stop) ''trusted key validity window invalid'') (\<lambda>_.
     bind_r (vf_require_str (dget e ''status'') ''status'') (\<lambda>status.
     bind_r (need_registry (status \<in> {ACTIVE, REVOKED}) ''trusted key status unsupported'') (\<lambda>_.
     bind_r (catch_r (require_bounded_text (dget e ''public_key'') ''public_key'')
       (\<lambda>_. Inl (registry_rejection ''trusted public key exceeds text budget''))) (\<lambda>bounded.
     bind_r (vf_require_str (PStr bounded) ''public_key'') (\<lambda>public_key.
     Inr \<lparr>tk_role = role, tk_key_id = key_id, tk_key_version = key_version, tk_algorithm = algorithm,
       tk_not_before = not_before, tk_not_after = not_after, tk_status = status,
       tk_public_key = public_key\<rparr>)))))))))))))))))"

fun load_key_entries :: "host_zone \<Rightarrow> trusted_key list \<Rightarrow> pyval list \<Rightarrow> v4_exc + trusted_key list" where
  "load_key_entries lz out [] = Inr out"
| "load_key_entries lz out (e # es) = bind_r (load_key_entry lz e) (\<lambda>k.
     if key_identity k \<in> set (map key_identity out)
       then Inl (registry_rejection ''duplicate trusted key entry'')
     else load_key_entries lz (out @ [k]) es)"

definition load_trusted_key_registry :: "host_zone \<Rightarrow> pyval \<Rightarrow> v4_exc + key_registry" where
  "load_trusted_key_registry local_zone raw =
     bind_r (catch_r (bounded_json_snapshot raw)
       (\<lambda>_. Inl (registry_rejection ''trusted key registry exceeds work budget''))) (\<lambda>snap.
     bind_r (need_map snap (registry_rejection ''trusted key registry must be mapping'')) (\<lambda>m.
     bind_r (need_registry (has_fields m [] [''schema_version'', ''registry_version'', ''entries''])
       ''trusted key registry fields must match schema'') (\<lambda>_.
     bind_r (need_registry (dget m ''schema_version'' = PStr KEY_REGISTRY_SCHEMA_VERSION)
       ''trusted key registry schema mismatch'') (\<lambda>_.
     bind_r (vf_require_positive_int (dget m ''registry_version'') ''registry_version'') (\<lambda>version.
     bind_r (need_list (dget m ''entries'')
       (registry_rejection ''trusted key registry entries must be non-empty list'')) (\<lambda>entries.
     bind_r (need_registry (entries \<noteq> [] \<and> length entries \<le> MAX_TRUSTED_REGISTRY_ENTRIES)
       ''trusted key registry entries must be non-empty list'') (\<lambda>_.
     bind_r (load_key_entries local_zone [] entries) (\<lambda>keys.
     Inr \<lparr>kr_schema_version = KEY_REGISTRY_SCHEMA_VERSION, kr_registry_version = version,
       kr_entries = keys\<rparr>))))))))"

section \<open>The key of a signature\<close>

definition find_key :: "host_zone \<Rightarrow> key_registry \<Rightarrow> string \<Rightarrow> string \<Rightarrow> int \<Rightarrow> string
    \<Rightarrow> pyval \<Rightarrow> string \<Rightarrow> string \<Rightarrow> v4_exc + trusted_key" where
  "find_key lz registry role key_id key_version algorithm verification_time artifact_not_before artifact_not_after =
     bind_r (parse_utc lz verification_time ''verification_time'') (\<lambda>now.
     bind_r (parse_utc lz (PStr artifact_not_before) ''artifact_not_before'') (\<lambda>artifact_start.
     bind_r (parse_utc lz (PStr artifact_not_after) ''artifact_not_after'') (\<lambda>artifact_end.
     bind_r (check_r (artifact_start < artifact_end)
       (freshness_rejection ''artifact validity window invalid'')) (\<lambda>_.
     case List.find (\<lambda>k. key_identity k = (role, key_version, algorithm, key_id)) (kr_entries registry) of
       None \<Rightarrow> Inl (registry_rejection ''trusted key not found'')
     | Some k \<Rightarrow>
         bind_r (need_registry (tk_status k = ACTIVE) ''trusted key revoked'') (\<lambda>_.
         bind_r (parse_utc lz (PStr (tk_not_before k)) ''key_not_before'') (\<lambda>key_start.
         bind_r (parse_utc lz (PStr (tk_not_after k)) ''key_not_after'') (\<lambda>key_end.
         bind_r (check_r (key_start \<le> now \<and> now \<le> key_end)
           (Rejection REJECTED_KEY_REGISTRY EQC_SHIELD_STALE ''trusted key not valid at verification time'')) (\<lambda>_.
         bind_r (need_registry (key_start \<le> artifact_start \<and> artifact_start \<le> key_end \<and>
             key_start \<le> artifact_end \<and> artifact_end \<le> key_end)
           ''artifact outside trusted key validity window'') (\<lambda>_. Inr k)))))))))"

section \<open>The verifier of the fixture tests\<close>

definition digest_bytes :: "nat list \<Rightarrow> nat list" where
  "digest_bytes bs = concat (map (\<lambda>w. bytes_be 4 (unat w)) (sha_digest bs))"

definition hmac_sha256_hex :: "nat list \<Rightarrow> nat list \<Rightarrow> string" where
  "hmac_sha256_hex key msg =
    (let k0 = (if 64 < length key then digest_bytes key else key);
         k = k0 @ replicate (64 - length k0) 0;
         pad = (\<lambda>c. map (\<lambda>b. Bit_Operations.xor b (c :: nat)) k)
     in sha256_hex (pad 92 @ digest_bytes (pad 54 @ msg)))"

definition COMPONENT_SIGNATURE_PREFIXES :: "(string \<times> string) list" where
  "COMPONENT_SIGNATURE_PREFIXES = [(''adn'', ''TEST-ONLY-ADN-SIGNATURE''),
     (''dqsn'', ''TEST-ONLY-DQSN-SIGNATURE''), (''guardian_wallet'', ''TEST-ONLY-GUARDIAN-WALLET-SIGNATURE''),
     (''qwg'', ''TEST-ONLY-QWG-SIGNATURE''), (''sentinel_ai'', ''TEST-ONLY-SENTINEL-AI-SIGNATURE'')]"

text \<open>
  A signature verifier is a callback over the entry and its key: it raises (\<open>Inl\<close>) or
  returns a value. The fields of a prepared entry are strings but for the key version.
\<close>

type_synonym signature_verifier = "pydict \<Rightarrow> trusted_key \<Rightarrow> string + pyval"

definition entry_str :: "pydict \<Rightarrow> string \<Rightarrow> string" where
  "entry_str entry f = (case dget entry f of PStr s \<Rightarrow> s | PInt i \<Rightarrow> show_int i | _ \<Rightarrow> [])"

text \<open>\<open>hmac.compare_digest\<close> of two texts raises \<open>TypeError\<close> unless both are ASCII.\<close>

definition compare_digest :: "string \<Rightarrow> string \<Rightarrow> string + pyval" where
  "compare_digest a b = (if list_all (\<lambda>c. (of_char c :: nat) < 128) (a @ b) then Inr (PBool (a = b))
     else Inl ''comparing strings with non-ASCII characters is not supported'')"

definition verify_test_only_signature :: signature_verifier where
  "verify_test_only_signature entry key =
    (if tk_role key = ORCHESTRATOR_ROLE then
       compare_digest (entry_str entry ''signature'') (hmac_sha256_hex (utf8 (tk_public_key key))
         (utf8 (join_str ''|'' (map (entry_str entry) [''domain_tag'', ''signed_payload_hash'', ''algorithm'',
           ''standard_profile'', ''key_id'', ''key_version'']))))
     else case List.find (\<lambda>(_, role). role = tk_role key) COMPONENT_ROLES of
       None \<Rightarrow> Inr (PBool False)
     | Some (component_id, _) \<Rightarrow> (case map_of COMPONENT_SIGNATURE_PREFIXES component_id of
         None \<Rightarrow> Inr (PBool False)
       | Some prefix \<Rightarrow> compare_digest (entry_str entry ''signature'') (sha256_hex (utf8 (join_str [CHR 0x0A]
           [prefix, tk_public_key key, entry_str entry ''algorithm'', entry_str entry ''standard_profile'',
            entry_str entry ''signed_payload_hash''])))))"

end
