(* ===== verification/Shield_V4_Crypto.thy ===== *)
theory Shield_V4_Crypto
  imports Shield_V4_Keys
begin

text \<open>
  \<open>src/adamantine/v1/integrations/shield_v4_real_crypto_backend.py\<close>: the verify-only boundary to a
  deployed signature backend, and the two backends for liboqs, \<open>shield_v4_oqs_falcon_backend.py\<close> and
  \<open>shield_v4_oqs_mldsa_backend.py\<close>. The library itself is a parameter: what it answers, or that it
  raises. Bytes are numbers below 256.
\<close>

section \<open>Exceptions and fields\<close>

datatype rc_exc = RcError string | RcUnavailable string | RcMaterial string

primrec rc_message :: "rc_exc \<Rightarrow> string" where
  "rc_message (RcError m) = m"
| "rc_message (RcUnavailable m) = m"
| "rc_message (RcMaterial m) = m"

definition cx_check :: "bool \<Rightarrow> string \<Rightarrow> rc_exc + unit" where
  "cx_check c m = check_r c (RcError m)"

lemma cx_check_ok [res_simps]: "cx_check c m = Inr x \<longleftrightarrow> c"
  by (simp add: cx_check_def check_r_def)

definition require_non_empty_str :: "pyval \<Rightarrow> string \<Rightarrow> rc_exc + string" where
  "require_non_empty_str v field = (case v of
     PStr s \<Rightarrow>
       bind_r (cx_check (s \<noteq> []) (field @ '' must be non-empty string'')) (\<lambda>_.
       bind_r (cx_check (s = py_strip s) (field @ '' must not contain surrounding whitespace'')) (\<lambda>_. Inr s))
   | _ \<Rightarrow> Inl (RcError (field @ '' must be non-empty string'')))"

definition require_positive_int :: "pyval \<Rightarrow> string \<Rightarrow> rc_exc + int" where
  "require_positive_int v field = (case v of
     PInt i \<Rightarrow> bind_r (cx_check (0 < i) (field @ '' must be positive integer'')) (\<lambda>_. Inr i)
   | _ \<Rightarrow> Inl (RcError (field @ '' must be positive integer'')))"

definition require_hash :: "pyval \<Rightarrow> string \<Rightarrow> rc_exc + string" where
  "require_hash v field = bind_r (require_non_empty_str v field) (\<lambda>clean.
     bind_r (cx_check (length clean = 64) (field @ '' must be 64-character sha256 hex'')) (\<lambda>_.
     bind_r (cx_check (int16_ok clean) (field @ '' must be sha256 hex'')) (\<lambda>_.
     bind_r (cx_check (clean = py_lower clean) (field @ '' must be lowercase sha256 hex'')) (\<lambda>_. Inr clean))))"

definition require_supported_algorithm :: "pyval \<Rightarrow> rc_exc + string" where
  "require_supported_algorithm v = bind_r (require_non_empty_str v ''algorithm'') (\<lambda>algorithm.
     bind_r (cx_check (algorithm \<in> set ALLOWED_ALGORITHMS) ''algorithm must be supported by Shield v4 policy'') (\<lambda>_.
     Inr algorithm))"

definition require_profile :: "string \<Rightarrow> pyval \<Rightarrow> rc_exc + string" where
  "require_profile algorithm v = bind_r (require_non_empty_str v ''standard_profile'') (\<lambda>clean.
     bind_r (cx_check (clean \<in> set (algorithm_standard_profiles algorithm))
       ''unsupported Shield v4 signature standard_profile'') (\<lambda>_. Inr clean))"

section \<open>Test-only material\<close>

definition reject_test_only_text :: "string \<Rightarrow> string \<Rightarrow> rc_exc + unit" where
  "reject_test_only_text value field =
     bind_r (catch_r (require_bounded_text (PStr value) field)
       (\<lambda>_. Inl (RcMaterial (field @ '' exceeds text byte budget'')))) (\<lambda>bounded.
     let clean = py_lower (py_strip bounded) in
     check_r (\<not> contains_sub ''test-only'' clean \<and> take 5 clean \<noteq> ''test-'')
       (RcMaterial (field @ '' must not contain test-only material'')))"

definition reject_test_only_key_material :: "trusted_key \<Rightarrow> rc_exc + unit" where
  "reject_test_only_key_material key = bind_r (reject_test_only_text (tk_key_id key) ''key_id'') (\<lambda>_.
     reject_test_only_text (tk_public_key key) ''public_key'')"

section \<open>Base64url\<close>

text \<open>The alphabet of \<open>base64.urlsafe_b64encode\<close>.\<close>

definition B64URL :: string where
  "B64URL = ''ABCDEFGHIJKLMNOPQRSTUVWXYZabcdefghijklmnopqrstuvwxyz0123456789-_''"

definition b64_char :: "nat \<Rightarrow> char" where
  "b64_char n = B64URL ! n"

definition b64_value :: "char \<Rightarrow> nat" where
  "b64_value c = (let n = (of_char c :: nat) in
     if 65 \<le> n \<and> n \<le> 90 then n - 65
     else if 97 \<le> n \<and> n \<le> 122 then n - 71
     else if 48 \<le> n \<and> n \<le> 57 then n + 4
     else if n = 45 then 62 else 63)"

text \<open>\<open>urlsafe_b64encode(raw).rstrip("=")\<close>.\<close>

fun b64_encode :: "nat list \<Rightarrow> string" where
  "b64_encode [] = []"
| "b64_encode [a] = [b64_char (a div 4), b64_char (a mod 4 * 16)]"
| "b64_encode [a, b] = [b64_char (a div 4), b64_char (a mod 4 * 16 + b div 16), b64_char (b mod 16 * 4)]"
| "b64_encode (a # b # c # r) = [b64_char (a div 4), b64_char (a mod 4 * 16 + b div 16),
     b64_char (b mod 16 * 4 + c div 64), b64_char (c mod 64)] @ b64_encode r"

text \<open>
  \<open>urlsafe_b64decode(body + padding)\<close> of a text over the alphabet: one character beyond a multiple
  of four is \<open>binascii.Error\<close>, and the unused low bits of the last character are ignored.
\<close>

fun b64_decode :: "nat list \<Rightarrow> nat list option" where
  "b64_decode [] = Some []"
| "b64_decode [p] = None"
| "b64_decode [p, q] = Some [p * 4 + q div 16]"
| "b64_decode [p, q, r] = Some [p * 4 + q div 16, q mod 16 * 16 + r div 4]"
| "b64_decode (p # q # r # s # t) =
     map_option ((@) [p * 4 + q div 16, q mod 16 * 16 + r div 4, r mod 4 * 64 + s]) (b64_decode t)"

definition MAX_RAW_BYTES :: nat where
  "MAX_RAW_BYTES = (MAX_TEXT_FIELD_BYTES - length REAL_SIGNATURE_ENCODING_PREFIX) * 3 div 4"

definition encode_binary_signature_material :: "nat list \<Rightarrow> string \<Rightarrow> rc_exc + string" where
  "encode_binary_signature_material raw field =
     bind_r (cx_check (raw \<noteq> []) (field @ '' bytes must be non-empty'')) (\<lambda>_.
     bind_r (cx_check (length raw \<le> MAX_RAW_BYTES) (field @ '' exceeds encoding byte budget'')) (\<lambda>_.
     catch_r (require_bounded_text (PStr (REAL_SIGNATURE_ENCODING_PREFIX @ b64_encode raw)) field)
       (\<lambda>_. Inl (RcError (field @ '' exceeds encoding byte budget'')))))"

definition decode_binary_signature_material :: "pyval \<Rightarrow> string \<Rightarrow> rc_exc + nat list" where
  "decode_binary_signature_material encoded field =
     bind_r (catch_r (require_bounded_text encoded field) (\<lambda>_. Inl (RcError (field @ '' exceeds encoding byte budget'')))) (\<lambda>bounded.
     bind_r (require_non_empty_str (PStr bounded) field) (\<lambda>clean.
     bind_r (cx_check (take 5 clean = REAL_SIGNATURE_ENCODING_PREFIX) (field @ '' must use b64u encoding'')) (\<lambda>_.
     let body = drop 5 clean in
     bind_r (cx_check (body \<noteq> []) (field @ '' b64u payload must be non-empty'')) (\<lambda>_.
     bind_r (cx_check (CHR ''='' \<notin> set body) (field @ '' b64u payload must be unpadded'')) (\<lambda>_.
     bind_r (cx_check (list_all is_base64url body) (field @ '' b64u payload is invalid'')) (\<lambda>_.
     case b64_decode (map b64_value body) of
       None \<Rightarrow> Inl (RcError (field @ '' b64u payload is invalid''))
     | Some bs \<Rightarrow> bind_r (cx_check (bs \<noteq> []) (field @ '' b64u payload must decode to non-empty bytes'')) (\<lambda>_. Inr bs)))))))"

section \<open>The signed message\<close>

definition REAL_CRYPTO_SIGNATURE_INPUT_PREFIX :: string where
  "REAL_CRYPTO_SIGNATURE_INPUT_PREFIX = ''DGB-SHIELD-V4-REAL-CRYPTO-SIGNATURE-INPUT''"

definition build_real_crypto_signature_input :: "pyval \<Rightarrow> pyval \<Rightarrow> pyval \<Rightarrow> pyval \<Rightarrow> pyval \<Rightarrow> pyval \<Rightarrow> rc_exc + nat list" where
  "build_real_crypto_signature_input algorithm standard_profile domain_tag payload_hash key_id key_version =
     bind_r (require_supported_algorithm algorithm) (\<lambda>a.
     bind_r (require_non_empty_str domain_tag ''domain_tag'') (\<lambda>d.
     bind_r (cx_check (d \<in> set [COMPONENT_VERDICT_DOMAIN, ORCHESTRATOR_RECEIPT_DOMAIN])
       ''domain_tag must be a Shield v4 signing domain'') (\<lambda>_.
     bind_r (require_profile a standard_profile) (\<lambda>p.
     bind_r (require_hash payload_hash ''signed_payload_hash'') (\<lambda>h.
     bind_r (require_non_empty_str key_id ''key_id'') (\<lambda>k.
     bind_r (require_positive_int key_version ''key_version'') (\<lambda>n.
     Inr (utf8 (join_str [CHR 0x0A] [REAL_CRYPTO_SIGNATURE_INPUT_PREFIX, d, h, a, p, k, show_int n])))))))))"

section \<open>The backend\<close>

text \<open>
  A deployed backend: the algorithms it names (\<^const>\<open>Inl\<close> when the attribute cannot be read) and its
  operation, which raises an error of the boundary, any other exception (\<^const>\<open>None\<close>), or answers.
\<close>

record rc_backend =
  bk_supported :: "unit + pyval list"
  bk_verify :: "string \<Rightarrow> string \<Rightarrow> nat list \<Rightarrow> string \<Rightarrow> rc_exc option + pyval"

definition require_backend_supports_algorithm :: "rc_backend \<Rightarrow> string \<Rightarrow> rc_exc + unit" where
  "require_backend_supports_algorithm backend algorithm = (case bk_supported backend of
     Inl _ \<Rightarrow> Inl (RcError ''real crypto backend algorithm discovery failed closed'')
   | Inr supported \<Rightarrow> check_r (PStr algorithm \<in> set supported)
       (RcUnavailable ''real crypto backend does not support required algorithm''))"

definition call_backend_operation :: "string \<Rightarrow> rc_exc option + pyval \<Rightarrow> rc_exc + pyval" where
  "call_backend_operation operation answer = (case answer of
     Inr v \<Rightarrow> Inr v
   | Inl (Some e) \<Rightarrow> Inl e
   | Inl None \<Rightarrow> Inl (RcError (''real crypto backend '' @ operation @ '' failed closed'')))"

definition verify_signature_entry_with_real_backend :: "rc_backend \<Rightarrow> pyval \<Rightarrow> trusted_key \<Rightarrow> rc_exc + bool" where
  "verify_signature_entry_with_real_backend backend entry key = (case entry of
     PDict e \<Rightarrow>
       bind_r (cx_check (set (dkeys e) = set SIGNATURE_ENTRY_FIELDS) ''signature entry fields must match required schema'') (\<lambda>_.
       bind_r (reject_test_only_key_material key) (\<lambda>_.
       bind_r (require_supported_algorithm (dget e ''algorithm'')) (\<lambda>algorithm.
       bind_r (require_profile algorithm (dget e ''standard_profile'')) (\<lambda>standard_profile.
       bind_r (require_non_empty_str (dget e ''key_id'') ''key_id'') (\<lambda>key_id.
       bind_r (require_positive_int (dget e ''key_version'') ''key_version'') (\<lambda>key_version.
       bind_r (cx_check ((tk_algorithm key, tk_key_id key, tk_key_version key) = (algorithm, key_id, key_version))
         ''signature entry does not match trusted key'') (\<lambda>_.
       bind_r (require_non_empty_str (PStr (tk_public_key key)) ''public_key'') (\<lambda>public_key.
       bind_r (decode_binary_signature_material (PStr public_key) ''public_key'') (\<lambda>_.
       bind_r (require_backend_supports_algorithm backend algorithm) (\<lambda>_.
       bind_r (require_non_empty_str (dget e ''domain_tag'') ''domain_tag'') (\<lambda>domain_tag.
       bind_r (require_hash (dget e ''signed_payload_hash'') ''signed_payload_hash'') (\<lambda>payload_hash.
       bind_r (build_real_crypto_signature_input (PStr algorithm) (PStr standard_profile) (PStr domain_tag)
         (PStr payload_hash) (PStr key_id) (PInt key_version)) (\<lambda>message.
       bind_r (require_non_empty_str (dget e ''signature'') ''signature'') (\<lambda>signature.
       bind_r (decode_binary_signature_material (PStr signature) ''signature'') (\<lambda>_.
       bind_r (call_backend_operation ''verify'' (bk_verify backend algorithm public_key message signature)) (\<lambda>verified.
       case verified of PBool b \<Rightarrow> Inr b
       | _ \<Rightarrow> Inl (RcError ''real crypto backend verify must return bool'')))))))))))))))))
   | _ \<Rightarrow> Inl (RcError ''signature entry must be mapping''))"

text \<open>The callback the Shield v4 verifier is given; to it every exception is the same.\<close>

definition make_real_crypto_signature_verifier :: "rc_backend \<Rightarrow> signature_verifier" where
  "make_real_crypto_signature_verifier backend = (\<lambda>entry key.
     case verify_signature_entry_with_real_backend backend (PDict entry) key of
       Inl e \<Rightarrow> Inl (rc_message e) | Inr b \<Rightarrow> Inr (PBool b))"

end
