(* ===== verification/Py_Convert.thy ===== *)
theory Py_Convert
  imports Errors
begin

text \<open>
  The conversions \<open>str(v)\<close>, \<open>repr(v)\<close> and \<open>int(v)\<close> of received values, as the evidence boundaries
  apply them to fields whose type nothing has checked. A set is printed in the order of its
  model. The interpreter's limit on the digits of an integer applies to \<open>int\<close> of a text; the
  same limit of \<open>str\<close> is not modelled.
\<close>

fun py_repr :: "pyval \<Rightarrow> string" and py_repr_list :: "pyval list \<Rightarrow> string list"
  and py_repr_items :: "pydict \<Rightarrow> string list" where
  "py_repr PNone = ''None''"
| "py_repr (PBool b) = (if b then ''True'' else ''False'')"
| "py_repr (PInt i) = show_int i"
| "py_repr (PFloat f) = (case f of FRat _ _ r \<Rightarrow> r | FInf p \<Rightarrow> if p then ''inf'' else ''-inf'' | FNan \<Rightarrow> ''nan'')"
| "py_repr (PStr s) = repr_str s"
| "py_repr (PList xs) = ''['' @ join_str '', '' (py_repr_list xs) @ '']''"
| "py_repr (PTuple xs) = (case py_repr_list xs of [s] \<Rightarrow> ''('' @ s @ '',)''
     | ss \<Rightarrow> ''('' @ join_str '', '' ss @ '')'')"
| "py_repr (PSet xs) = (case xs of [] \<Rightarrow> ''set()'' | _ \<Rightarrow> ''{'' @ join_str '', '' (py_repr_list xs) @ ''}'')"
| "py_repr (PDict m) = ''{'' @ join_str '', '' (py_repr_items m) @ ''}''"
| "py_repr_list [] = []"
| "py_repr_list (x # xs) = py_repr x # py_repr_list xs"
| "py_repr_items [] = []"
| "py_repr_items ((k, v) # m) = (repr_str k @ '': '' @ py_repr v) # py_repr_items m"

definition py_str :: "pyval \<Rightarrow> string" where
  "py_str v = (case v of PStr s \<Rightarrow> s | _ \<Rightarrow> py_repr v)"

lemma py_str_PStr [simp]: "py_str (PStr s) = s"
  by (simp add: py_str_def)

text \<open>\<open>str(v or "")\<close>.\<close>

definition str_or_empty :: "pyval \<Rightarrow> string" where
  "str_or_empty v = (if py_truthy v then py_str v else [])"

lemma str_or_empty_PStr [simp]: "str_or_empty (PStr s) = s"
  by (simp add: str_or_empty_def py_truthy_def)

section \<open>Integers\<close>

text \<open>A decimal literal: digits, with single underscores between digits.\<close>

fun digit_groups :: "bool \<Rightarrow> string \<Rightarrow> bool" where
  "digit_groups after_digit [] = after_digit"
| "digit_groups after_digit (c # cs) =
    (if CHR ''0'' \<le> c \<and> c \<le> CHR ''9'' then digit_groups True cs
     else c = CHR ''_'' \<and> after_digit \<and> digit_groups False cs)"

definition decimal_value :: "string \<Rightarrow> nat" where
  "decimal_value s = foldl (\<lambda>n c. 10 * n + (of_char c - 48)) 0 (filter (\<lambda>c. c \<noteq> CHR ''_'') s)"

definition int_of_text :: "string \<Rightarrow> int option" where
  "int_of_text s = (let t = py_strip s;
       negative = (case t of c # _ \<Rightarrow> c = CHR ''-'' | [] \<Rightarrow> False);
       digits = (case t of c # cs \<Rightarrow> if c = CHR ''-'' \<or> c = CHR ''+'' then cs else t | [] \<Rightarrow> []) in
     if digit_groups False digits \<and> length (filter (\<lambda>c. c \<noteq> CHR ''_'') digits) \<le> MAX_STR_DIGITS
     then Some (if negative then - int (decimal_value digits) else int (decimal_value digits)) else None)"

definition py_int :: "pyval \<Rightarrow> pyexc + int" where
  "py_int v = (case v of
     PInt i \<Rightarrow> Inr i
   | PBool b \<Rightarrow> Inr (of_bool b)
   | PFloat (FRat n d _) \<Rightarrow> Inr (if 0 \<le> n then n div d else - ((- n) div d))
   | PFloat (FInf _) \<Rightarrow> Inl (OtherError ''OverflowError: cannot convert float infinity to integer'')
   | PFloat FNan \<Rightarrow> Inl (ValueError ''cannot convert float NaN to integer'')
   | PStr s \<Rightarrow> (case int_of_text s of Some i \<Rightarrow> Inr i
       | None \<Rightarrow> Inl (ValueError (''invalid literal for int() with base 10: '' @ repr_str s)))
   | _ \<Rightarrow> Inl (TypeError ''int() argument must be a string, a bytes-like object or a real number''))"

lemma py_int_PInt [simp]: "py_int (PInt i) = Inr i"
  by (simp add: py_int_def)

lemma py_int_raises: "raises_only (\<lambda>e. is_value_error e \<or> e \<in> range TypeError \<or>
    e = OtherError ''OverflowError: cannot convert float infinity to integer'') (py_int v)"
  by (auto simp: py_int_def raises_only_def split: pyval.splits pyfloat.splits option.splits)

end
