(* ===== verification/Shield_V4_Oqs.thy ===== *)
theory Shield_V4_Oqs
  imports Shield_V4_Crypto Py_Convert
begin

text \<open>
  The two backends for liboqs, \<open>shield_v4_oqs_falcon_backend.py\<close> and
  \<open>shield_v4_oqs_mldsa_backend.py\<close>. Their classes differ in names and in that a Falcon signature may
  be shorter than the mechanism's length. The library \<open>oqs\<close> is third-party code: a record of what
  its functions answer, or that they raise.
\<close>

section \<open>The library and the classes\<close>

text \<open>
  A verifier object: its attribute \<open>details\<close> (\<open>None\<close> when absent) and \<open>verify(message, signature,
  public_key)\<close>. The module: the enabled mechanisms, and \<open>Signature(mechanism)\<close>, which raises when
  it or entering its context raises. Leaving the context raises nothing and hides nothing.
\<close>

record oqs_verifier =
  ov_details :: "unit + pyval"
  ov_verify :: "nat list \<Rightarrow> nat list \<Rightarrow> nat list \<Rightarrow> unit + pyval"

record oqs_module =
  om_version :: "unit + pyval"
  om_python_version :: "unit + pyval"
  om_enabled :: "unit + pyval list"
  om_signature :: "string \<Rightarrow> unit + oqs_verifier"

datatype oqs_import = OqsModule oqs_module | OqsMissing | OqsImportFails

record oqs_class =
  oc_algorithm :: string
  oc_mechanism :: string
  oc_name :: string
  oc_mechanism_name :: string
  oc_shorter_signature :: bool
  oc_mechanism_error :: string
  oc_missing_error :: string
  oc_algorithm_error :: string

definition oqs_falcon :: oqs_class where
  "oqs_falcon = \<lparr>oc_algorithm = ''fn-dsa'', oc_mechanism = ''Falcon-1024'', oc_name = ''OQS Falcon-1024'',
     oc_mechanism_name = ''OQS Falcon-1024'', oc_shorter_signature = True,
     oc_mechanism_error = ''Shield v4.8H requires OQS Falcon-1024 for draft FN-DSA evidence'',
     oc_missing_error = ''liboqs-python import oqs is required for Falcon-1024'',
     oc_algorithm_error = ''OQS Falcon backend only supports Shield v4 fn-dsa''\<rparr>"

definition oqs_mldsa :: oqs_class where
  "oqs_mldsa = \<lparr>oc_algorithm = ''ml-dsa'', oc_mechanism = ''ML-DSA-65'', oc_name = ''OQS ML-DSA'',
     oc_mechanism_name = ''OQS ML-DSA-65'', oc_shorter_signature = False,
     oc_mechanism_error = ''Shield v4 policy.v1 requires OQS ML-DSA-65'',
     oc_missing_error = ''liboqs-python import oqs is required for ML-DSA'',
     oc_algorithm_error = ''OQS backend only supports Shield v4 ml-dsa''\<rparr>"

section \<open>Operations\<close>

definition raise_oqs_error :: "oqs_class \<Rightarrow> string \<Rightarrow> rc_exc" where
  "raise_oqs_error c operation = RcError (oc_name c @ CHR '' '' # operation @ '' failed closed'')"

definition load_oqs :: "oqs_class \<Rightarrow> oqs_import \<Rightarrow> rc_exc + oqs_module" where
  "load_oqs c imported = (case imported of
     OqsModule m \<Rightarrow> Inr m
   | OqsMissing \<Rightarrow> Inl (RcUnavailable (oc_missing_error c))
   | OqsImportFails \<Rightarrow> Inl (raise_oqs_error c ''import''))"

text \<open>The constructor; an instance is its class, since the mechanism is fixed.\<close>

definition oqs_init :: "oqs_class \<Rightarrow> string \<Rightarrow> rc_exc + oqs_class" where
  "oqs_init c mechanism = (if mechanism \<noteq> oc_mechanism c then Inl (RcError (oc_mechanism_error c)) else Inr c)"

definition backend_version :: "oqs_class \<Rightarrow> oqs_import \<Rightarrow> rc_exc + string" where
  "backend_version c imported = bind_r (load_oqs c imported) (\<lambda>oqs.
     case (om_version oqs, om_python_version oqs) of
       (Inr v, Inr p) \<Rightarrow> Inr (''liboqs='' @ py_str v @ '';liboqs-python='' @ py_str p @ '';mechanism='' @ oc_mechanism c)
     | _ \<Rightarrow> Inl (raise_oqs_error c ''version discovery''))"

definition require_mechanism_enabled :: "oqs_class \<Rightarrow> oqs_import \<Rightarrow> rc_exc + oqs_module" where
  "require_mechanism_enabled c imported = bind_r (load_oqs c imported) (\<lambda>oqs.
     case om_enabled oqs of
       Inl _ \<Rightarrow> Inl (raise_oqs_error c ''mechanism discovery'')
     | Inr enabled \<Rightarrow> if PStr (oc_mechanism c) \<notin> set enabled
         then Inl (RcUnavailable (oc_mechanism_name c @ '' mechanism is not enabled'')) else Inr oqs)"

definition require_bytes :: "nat list \<Rightarrow> string \<Rightarrow> rc_exc + nat list" where
  "require_bytes value field = (if value = [] then Inl (RcError (field @ '' must be non-empty bytes'')) else Inr value)"

definition require_expected_binary_length :: "oqs_class \<Rightarrow> nat list \<Rightarrow> pyval \<Rightarrow> string \<Rightarrow> string \<Rightarrow> bool \<Rightarrow> rc_exc + unit" where
  "require_expected_binary_length c value details key field allow_shorter = (case details of
     PNone \<Rightarrow> Inr ()
   | PDict m \<Rightarrow> (case dget m key of
       PNone \<Rightarrow> Inr ()
     | PInt expected \<Rightarrow>
         if expected \<le> 0 then Inl (RcError (oc_name c @ CHR '' '' # key @ '' must be a positive integer''))
         else if allow_shorter then
           (if int (length value) > expected then Inl (RcError (field @ '' byte length must be <= '' @ show_int expected @
              '' for '' @ oc_mechanism_name c)) else Inr ())
         else if int (length value) \<noteq> expected then Inl (RcError (field @ '' byte length must be '' @ show_int expected @
              '' for '' @ oc_mechanism_name c)) else Inr ()
     | _ \<Rightarrow> Inl (RcError (oc_name c @ CHR '' '' # key @ '' must be a positive integer'')))
   | _ \<Rightarrow> Inl (RcError (oc_name c @ '' details must be a mapping'')))"

text \<open>The body of the \<open>with\<close> statement; \<^const>\<open>None\<close> is an exception of the library.\<close>

definition verify_in_context :: "oqs_class \<Rightarrow> oqs_verifier \<Rightarrow> nat list \<Rightarrow> nat list \<Rightarrow> nat list \<Rightarrow> rc_exc option + pyval" where
  "verify_in_context c verifier message signature public_key = (case ov_details verifier of
     Inl _ \<Rightarrow> Inl None
   | Inr details \<Rightarrow> (case bind_r (require_expected_binary_length c public_key details ''length_public_key'' ''public_key'' False) (\<lambda>_.
         require_expected_binary_length c signature details ''length_signature'' ''signature'' (oc_shorter_signature c)) of
       Inl e \<Rightarrow> Inl (Some e)
     | Inr _ \<Rightarrow> (case ov_verify verifier message signature public_key of Inl _ \<Rightarrow> Inl None | Inr v \<Rightarrow> Inr v)))"

definition oqs_verify_signature :: "oqs_class \<Rightarrow> oqs_import \<Rightarrow> string \<Rightarrow> string \<Rightarrow> nat list \<Rightarrow> string \<Rightarrow> rc_exc + bool" where
  "oqs_verify_signature c imported algorithm public_key message signature =
    (if algorithm \<noteq> oc_algorithm c then Inl (RcUnavailable (oc_algorithm_error c))
     else bind_r (require_bytes message ''message'') (\<lambda>message_bytes.
     bind_r (decode_binary_signature_material (PStr public_key) ''public_key'') (\<lambda>public_key_bytes.
     bind_r (decode_binary_signature_material (PStr signature) ''signature'') (\<lambda>signature_bytes.
     bind_r (require_mechanism_enabled c imported) (\<lambda>oqs.
     case (case om_signature oqs (oc_mechanism c) of Inl _ \<Rightarrow> Inl None
         | Inr verifier \<Rightarrow> verify_in_context c verifier message_bytes signature_bytes public_key_bytes) of
       Inl (Some e) \<Rightarrow> Inl e
     | Inl None \<Rightarrow> Inl (raise_oqs_error c ''verify'')
     | Inr (PBool b) \<Rightarrow> Inr b
     | Inr _ \<Rightarrow> Inl (RcError (oc_name c @ '' verify must return bool'')))))))"

definition falcon_verify_signature :: "oqs_import \<Rightarrow> string \<Rightarrow> string \<Rightarrow> nat list \<Rightarrow> string \<Rightarrow> rc_exc + bool" where
  "falcon_verify_signature = oqs_verify_signature oqs_falcon"

definition mldsa_verify_signature :: "oqs_import \<Rightarrow> string \<Rightarrow> string \<Rightarrow> nat list \<Rightarrow> string \<Rightarrow> rc_exc + bool" where
  "mldsa_verify_signature = oqs_verify_signature oqs_mldsa"

text \<open>An instance as a deployed backend of \<^const>\<open>verify_signature_entry_with_real_backend\<close>.\<close>

definition oqs_backend :: "oqs_class \<Rightarrow> oqs_import \<Rightarrow> rc_backend" where
  "oqs_backend c imported = \<lparr>bk_supported = Inr [PStr (oc_algorithm c)],
     bk_verify = (\<lambda>algorithm public_key message signature.
       case oqs_verify_signature c imported algorithm public_key message signature of
         Inl e \<Rightarrow> Inl (Some e) | Inr b \<Rightarrow> Inr (PBool b))\<rparr>"

end
