(* ===== verification/Shield_V4_Verifier.thy ===== *)
theory Shield_V4_Verifier
  imports Shield_V4_Keys "HOL-Library.Product_Lexorder"
begin

text \<open>
  \<open>src/adamantine/v1/integrations/shield_orchestrator_receipt_v4_verifier.py\<close>, second part: the
  preparation of the six signature bundles of a receipt, the choice of a trusted key for every
  signature, the verification in waves, one algorithm after the other, and the verifier itself.

  The transcript observer of the source is the record \<^theory_text>\<open>transcript\<close>, threaded through the
  verification: it is what \<open>_TranscriptCapture\<close> of the audit wrapper keeps, and a call without an
  observer drops it. The signature verifier is the injected callback.
\<close>

section \<open>Data\<close>

record prepared_entry =
  pe_entry :: pydict
  pe_algorithm :: string
  pe_standard_profile :: string
  pe_key_id :: string
  pe_key_version :: int

record artifact =
  ar_type :: string
  ar_schema_version :: string
  ar_id :: string
  ar_hash :: string
  ar_request_id :: string
  ar_context_hash :: string
  ar_policy_version :: string
  ar_registry_version :: int

record observation =
  ob_artifact :: artifact
  ob_key_id :: string
  ob_key_version :: int
  ob_algorithm :: string
  ob_standard_profile :: string
  ob_passed :: bool
  ob_reason_id :: string

record transcript =
  tr_validated :: "artifact option"
  tr_observations :: "observation list"
  tr_rejection :: "string option"

definition empty_transcript :: transcript where
  "empty_transcript = \<lparr>tr_validated = None, tr_observations = [], tr_rejection = None\<rparr>"

record component_bundle =
  pc_component_id :: string
  pc_role :: string
  pc_not_before :: string
  pc_not_after :: string
  pc_bundle :: "prepared_entry list"
  pc_artifact :: artifact

record receipt_bundles =
  pb_components :: "component_bundle list"
  pb_orchestrator :: "prepared_entry list"
  pb_not_before :: string
  pb_not_after :: string
  pb_artifact :: artifact

record resolved_entry =
  re_prepared :: prepared_entry
  re_key :: trusted_key

record resolved_bundle =
  rb_id :: string
  rb_role :: string
  rb_prepared :: "prepared_entry list"
  rb_entries :: "resolved_entry list"
  rb_artifact :: artifact

record call_budget =
  cb_total :: nat
  cb_pqc :: nat

definition before_callback :: "string \<Rightarrow> call_budget \<Rightarrow> v4_exc + call_budget" where
  "before_callback algorithm b =
    (let b' = \<lparr>cb_total = cb_total b + 1,
         cb_pqc = (if algorithm \<noteq> ''classical-ed25519'' then cb_pqc b + 1 else cb_pqc b)\<rparr> in
     if cb_total b' > MAX_VERIFICATION_CALLS \<or> cb_pqc b' > MAX_PQC_VERIFICATION_CALLS
       then Inl (signature_policy_rejection ''signature verification work budget exceeded'')
     else Inr b')"

definition V4_VERIFY_OK :: string where "V4_VERIFY_OK = ''V4_VERIFY_OK''"
definition V4_CONTRACT_INVALID :: string where "V4_CONTRACT_INVALID = ''V4_CONTRACT_INVALID''"
definition V4_CONTEXT_MISMATCH :: string where "V4_CONTEXT_MISMATCH = ''V4_CONTEXT_MISMATCH''"
definition V4_HASH_MISMATCH :: string where "V4_HASH_MISMATCH = ''V4_HASH_MISMATCH''"
definition V4_DOWNGRADE_REJECTED :: string where "V4_DOWNGRADE_REJECTED = ''V4_DOWNGRADE_REJECTED''"
definition V4_AUTHORITY_BYPASS :: string where "V4_AUTHORITY_BYPASS = ''V4_AUTHORITY_BYPASS''"
definition V4_POLICY_INVALID :: string where "V4_POLICY_INVALID = ''V4_POLICY_INVALID''"
definition V4_SIGNATURE_INVALID :: string where "V4_SIGNATURE_INVALID = ''V4_SIGNATURE_INVALID''"
definition V4_BACKEND_FAILURE :: string where "V4_BACKEND_FAILURE = ''V4_BACKEND_FAILURE''"

section \<open>Preparing the bundles\<close>

definition need_policy :: "bool \<Rightarrow> string \<Rightarrow> v4_exc + unit" where
  "need_policy c m = check_r c (signature_policy_rejection m)"

text \<open>\<open>except ShieldV4ReceiptContractError as exc: raise _signature_policy_rejection(str(exc))\<close>.\<close>

definition as_policy_rejection :: "v4_error + 'a \<Rightarrow> v4_exc + 'a" where
  "as_policy_rejection m = catch_r m (\<lambda>e. Inl (signature_policy_rejection (v4_message e)))"

text \<open>
  One turn of the loop of \<open>_preflight_bundle\<close>. The algorithms and keys seen before are those of the
  entries prepared before.
\<close>

definition prepare_entry :: "string \<Rightarrow> string \<Rightarrow> prepared_entry list \<Rightarrow> pyval \<Rightarrow> v4_exc + prepared_entry" where
  "prepare_entry expected_hash expected_domain before raw_entry =
     bind_r (need_map raw_entry (signature_policy_rejection ''signature entry must be mapping'')) (\<lambda>entry.
     bind_r (need_policy (has_fields entry [] SIGNATURE_ENTRY_FIELDS)
       ''signature entry fields must match required schema'') (\<lambda>_.
     bind_r (vf_require_str (dget entry ''algorithm'') ''algorithm'') (\<lambda>algorithm.
     bind_r (need_policy (algorithm \<in> set ALLOWED_ALGORITHMS) ''unsupported Shield v4 signature algorithm'') (\<lambda>_.
     bind_r (need_policy (algorithm \<notin> set (map pe_algorithm before)) ''duplicate signature algorithm'') (\<lambda>_.
     bind_r (require_profile_for_signature algorithm (dget entry ''standard_profile'')) (\<lambda>standard_profile.
     bind_r (vf_require_str (dget entry ''key_id'') ''key_id'') (\<lambda>key_id.
     bind_r (vf_require_positive_int (dget entry ''key_version'') ''key_version'') (\<lambda>key_version.
     bind_r (need_policy ((key_id, key_version) \<notin> set (map (\<lambda>p. (pe_key_id p, pe_key_version p)) before))
       ''duplicate signature key entry'') (\<lambda>_.
     bind_r (as_policy_rejection (bind_r (v4_require_hash (dget entry ''signed_payload_hash'') ''signed_payload_hash'')
       (\<lambda>h. bind_r (require_signature_encoding (dget entry ''signature'') ''signature'') (\<lambda>_. Inr h)))) (\<lambda>entry_hash.
     bind_r (check_r (entry_hash = expected_hash)
       (Rejection REJECTED_TAMPERED_RECEIPT EQC_INVALID_SHIELD_BUNDLE ''signature hash mismatch'')) (\<lambda>_.
     bind_r (vf_require_str (dget entry ''domain_tag'') ''domain_tag'') (\<lambda>domain_tag.
     bind_r (need_policy (domain_tag = expected_domain) ''signature domain mismatch'') (\<lambda>_.
     Inr \<lparr>pe_entry = entry, pe_algorithm = algorithm, pe_standard_profile = standard_profile,
       pe_key_id = key_id, pe_key_version = key_version\<rparr>)))))))))))))"

fun prepare_entries :: "string \<Rightarrow> string \<Rightarrow> prepared_entry list \<Rightarrow> pyval list \<Rightarrow> v4_exc + prepared_entry list" where
  "prepare_entries h d before [] = Inr before"
| "prepare_entries h d before (e # es) = bind_r (prepare_entry h d before e) (\<lambda>p.
     prepare_entries h d (before @ [p]) es)"

definition preflight_bundle :: "pyval \<Rightarrow> string \<Rightarrow> string \<Rightarrow> v4_exc + prepared_entry list" where
  "preflight_bundle bundle expected_signed_payload_hash expected_domain_tag =
     bind_r (need_map bundle (signature_policy_rejection ''signature bundle must be mapping'')) (\<lambda>b.
     bind_r (need_policy (has_fields b [] SIGNATURE_BUNDLE_FIELDS)
       ''signature bundle fields must match required schema'') (\<lambda>_.
     bind_r (need_policy (dget b ''schema_version'' = PStr SIGNATURE_BUNDLE_SCHEMA_VERSION)
       ''signature bundle schema mismatch'') (\<lambda>_.
     bind_r (need_policy (dget b ''policy_version'' = PStr SIGNATURE_POLICY) ''signature bundle policy mismatch'') (\<lambda>_.
     bind_r (need_list (dget b ''signatures'')
       (signature_policy_rejection ''signature bundle signatures must be non-empty list'')) (\<lambda>signatures.
     bind_r (need_policy (signatures \<noteq> []) ''signature bundle signatures must be non-empty list'') (\<lambda>_.
     bind_r (need_policy (length signatures \<le> MAX_SIGNATURES_PER_BUNDLE)
       ''signature bundle signature count outside work budget'') (\<lambda>_.
     bind_r (as_policy_rejection (v4_require_hash (PStr expected_signed_payload_hash)
       ''expected_signed_payload_hash'')) (\<lambda>expected_hash.
     bind_r (vf_require_str (PStr expected_domain_tag) ''expected_domain_tag'') (\<lambda>expected_domain.
     bind_r (prepare_entries expected_hash expected_domain [] signatures) (\<lambda>entries.
     bind_r (need_policy (map pe_algorithm entries = canonical_sequence (map pe_algorithm entries))
       ''signature algorithms must use canonical policy order'') (\<lambda>_.
     bind_r (need_policy (set V4_REQUIRED_ALGORITHMS \<subseteq> set (map pe_algorithm entries))
       ''signature policy requirements not satisfied'') (\<lambda>_.
     Inr entries))))))))))))"

text \<open>\<open>int(v)\<close> of a field the preflight has shown to be an integer.\<close>

definition int_field :: "pyval \<Rightarrow> int" where
  "int_field v = (case v of PInt i \<Rightarrow> i | _ \<Rightarrow> 0)"

definition artifact_of :: "string \<Rightarrow> string \<Rightarrow> string \<Rightarrow> pydict \<Rightarrow> artifact" where
  "artifact_of kind schema ident m = \<lparr>ar_type = kind, ar_schema_version = schema, ar_id = ident,
     ar_hash = str_of (dget m ''signed_payload_hash''), ar_request_id = str_of (dget m ''request_id''),
     ar_context_hash = str_of (dget m ''context_hash''),
     ar_policy_version = str_of (dget m ''signature_policy''),
     ar_registry_version = int_field (dget m ''key_registry_version'')\<rparr>"

text \<open>\<open>COMPONENT_ROLES[component_id]\<close>, with the id as received, raises \<open>KeyError\<close>.\<close>

definition prepare_component :: "pydict \<Rightarrow> v4_exc + component_bundle" where
  "prepare_component component =
    (let component_id = str_of (dget component ''component_id'') in
     case map_of COMPONENT_ROLES component_id of
       None \<Rightarrow> Inl (Uncaught (''KeyError: '' @ repr_str component_id))
     | Some role \<Rightarrow>
         bind_r (preflight_bundle (dget component ''signature_bundle'')
           (str_of (dget component ''signed_payload_hash'')) COMPONENT_VERDICT_DOMAIN) (\<lambda>bundle.
         Inr \<lparr>pc_component_id = component_id, pc_role = role,
           pc_not_before = str_of (dget component ''not_before''),
           pc_not_after = str_of (dget component ''not_after''), pc_bundle = bundle,
           pc_artifact = artifact_of ''component_verdict'' VERDICT_SCHEMA_VERSION component_id component\<rparr>))"

definition receipt_artifact :: "pydict \<Rightarrow> artifact" where
  "receipt_artifact receipt =
     artifact_of ''orchestrator_receipt'' RECEIPT_SCHEMA_VERSION ''shield_orchestrator'' receipt"

definition preflight_receipt_bundles :: "pydict \<Rightarrow> v4_exc + receipt_bundles" where
  "preflight_receipt_bundles receipt =
     bind_r (map_r prepare_component (dict_list (dget receipt ''component_verdicts''))) (\<lambda>components.
     bind_r (preflight_bundle (dget receipt ''signature_bundle'')
       (str_of (dget receipt ''signed_payload_hash'')) ORCHESTRATOR_RECEIPT_DOMAIN) (\<lambda>orchestrator.
     Inr \<lparr>pb_components = components, pb_orchestrator = orchestrator,
       pb_not_before = str_of (dget receipt ''not_before''), pb_not_after = str_of (dget receipt ''not_after''),
       pb_artifact = receipt_artifact receipt\<rparr>))"

section \<open>One signature\<close>

definition verification_result_entry :: "prepared_entry \<Rightarrow> pydict" where
  "verification_result_entry p = [(''algorithm'', PStr (pe_algorithm p)),
     (''standard_profile'', PStr (pe_standard_profile p)), (''key_id'', PStr (pe_key_id p)),
     (''key_version'', PInt (pe_key_version p)), (''verified'', PBool True)]"

definition summary_for_results :: "pydict list \<Rightarrow> pydict" where
  "summary_for_results results = [(''required_algorithms'', PList (map PStr V4_REQUIRED_ALGORITHMS)),
     (''verified_algorithms'', PList (map (\<lambda>r. dget r ''algorithm'') results)),
     (''verified_standard_profiles'', PList (map (\<lambda>r. dget r ''standard_profile'') results)),
     (''results'', PList (map PDict results))]"

definition observe_signature :: "artifact \<Rightarrow> prepared_entry \<Rightarrow> bool \<Rightarrow> string \<Rightarrow> transcript \<Rightarrow> transcript" where
  "observe_signature artifact p passed reason_id tr = tr\<lparr>tr_observations := tr_observations tr @
     [\<lparr>ob_artifact = artifact, ob_key_id = pe_key_id p, ob_key_version = pe_key_version p,
       ob_algorithm = pe_algorithm p, ob_standard_profile = pe_standard_profile p, ob_passed = passed,
       ob_reason_id = reason_id\<rparr>]\<rparr>"

definition signature_invalid :: "string \<Rightarrow> v4_exc" where
  "signature_invalid m = Rejection REJECTED_SIGNATURE_INVALID EQC_INVALID_SHIELD_BUNDLE m"

definition invoke_resolved_signature :: "signature_verifier \<Rightarrow> artifact \<Rightarrow> resolved_entry \<Rightarrow> transcript
    \<Rightarrow> (v4_exc + pydict) \<times> transcript" where
  "invoke_resolved_signature verifier artifact resolved tr = (let p = re_prepared resolved in
     case verifier (pe_entry p) (re_key resolved) of
       Inl _ \<Rightarrow> (Inl (signature_invalid ''signature verifier failed closed''),
         observe_signature artifact p False V4_BACKEND_FAILURE tr)
     | Inr (PBool True) \<Rightarrow> (Inr (verification_result_entry p),
         observe_signature artifact p True V4_VERIFY_OK tr)
     | Inr (PBool False) \<Rightarrow> (Inl (signature_invalid ''signature verification failed''),
         observe_signature artifact p False V4_SIGNATURE_INVALID tr)
     | Inr _ \<Rightarrow> (Inl (signature_invalid ''signature verifier must return bool''),
         observe_signature artifact p False V4_BACKEND_FAILURE tr))"

section \<open>One bundle\<close>

text \<open>The loop of \<open>_verify_prepared_bundle\<close>: key and callback, entry by entry.\<close>

fun verify_prepared_entries :: "host_zone \<Rightarrow> string \<Rightarrow> key_registry \<Rightarrow> pyval \<Rightarrow> string \<Rightarrow> string
    \<Rightarrow> signature_verifier \<Rightarrow> artifact \<Rightarrow> prepared_entry list \<Rightarrow> transcript \<Rightarrow> (v4_exc + pydict list) \<times> transcript" where
  "verify_prepared_entries lz role reg time nb na verifier artifact [] tr = (Inr [], tr)"
| "verify_prepared_entries lz role reg time nb na verifier artifact (p # ps) tr =
    (case find_key lz reg role (pe_key_id p) (pe_key_version p) (pe_algorithm p) time nb na of
       Inl e \<Rightarrow> (Inl e, tr)
     | Inr k \<Rightarrow> (case invoke_resolved_signature verifier artifact \<lparr>re_prepared = p, re_key = k\<rparr> tr of
         (Inl e, tr') \<Rightarrow> (Inl e, tr')
       | (Inr r, tr') \<Rightarrow> (case verify_prepared_entries lz role reg time nb na verifier artifact ps tr' of
           (Inl e, tr'') \<Rightarrow> (Inl e, tr'') | (Inr rs, tr'') \<Rightarrow> (Inr (r # rs), tr''))))"

definition verify_prepared_bundle :: "host_zone \<Rightarrow> prepared_entry list \<Rightarrow> string \<Rightarrow> key_registry \<Rightarrow> pyval
    \<Rightarrow> string \<Rightarrow> string \<Rightarrow> signature_verifier \<Rightarrow> artifact \<Rightarrow> transcript \<Rightarrow> (v4_exc + pydict) \<times> transcript" where
  "verify_prepared_bundle lz bundle required_role registry time nb na verifier artifact tr =
    (case verify_prepared_entries lz required_role registry time nb na verifier artifact bundle tr of
       (Inl e, tr') \<Rightarrow> (Inl e, tr') | (Inr rs, tr') \<Rightarrow> (Inr (summary_for_results rs), tr'))"

section \<open>Versions and freshness\<close>

definition enforce_registry_versions :: "pydict \<Rightarrow> key_registry \<Rightarrow> int \<Rightarrow> v4_exc + unit" where
  "enforce_registry_versions receipt registry minimum = (let v = PInt (kr_registry_version registry) in
     bind_r (need_registry (minimum \<le> kr_registry_version registry) ''trusted key registry rollback rejected'') (\<lambda>_.
     bind_r (need_registry (py_eq (dget receipt ''key_registry_version'') v)
       ''receipt key registry version mismatch'') (\<lambda>_.
     each_r (\<lambda>c. need_registry (py_eq (dget c ''key_registry_version'') v)
       ''component key registry version mismatch'') (dict_list (dget receipt ''component_verdicts'')))))"

definition enforce_freshness :: "host_zone \<Rightarrow> pydict \<Rightarrow> pyval \<Rightarrow> v4_exc + unit" where
  "enforce_freshness lz receipt verification_time =
     bind_r (parse_utc lz verification_time ''verification_time'') (\<lambda>now.
     bind_r (parse_utc lz (dget receipt ''not_before'') ''receipt.not_before'') (\<lambda>not_before.
     bind_r (parse_utc lz (dget receipt ''not_after'') ''receipt.not_after'') (\<lambda>not_after.
     bind_r (check_r (not_before < not_after) (freshness_rejection ''receipt freshness window invalid'')) (\<lambda>_.
     bind_r (check_r (not_before \<le> now \<and> now \<le> not_after)
       (freshness_rejection ''receipt outside freshness window'')) (\<lambda>_.
     each_r (\<lambda>c.
       bind_r (parse_utc lz (dget c ''not_before'') ''component.not_before'') (\<lambda>start.
       bind_r (parse_utc lz (dget c ''not_after'') ''component.not_after'') (\<lambda>stop.
       check_r (start < stop \<and> start \<le> now \<and> now \<le> stop)
         (freshness_rejection ''component outside freshness window''))))
       (dict_list (dget receipt ''component_verdicts'')))))))"

section \<open>Resolving the keys\<close>

record candidate =
  ca_id :: string
  ca_role :: string
  ca_bundle :: "prepared_entry list"
  ca_not_before :: string
  ca_not_after :: string
  ca_artifact :: artifact

text \<open>\<open>{component.component_id: component for ...}\<close>: the last one of an id stays.\<close>

definition components_by_id :: "component_bundle list \<Rightarrow> string \<rightharpoonup> component_bundle" where
  "components_by_id cs = map_of (rev (map (\<lambda>c. (pc_component_id c, c)) cs))"

definition candidates_of :: "receipt_bundles \<Rightarrow> candidate list" where
  "candidates_of pr =
     map (\<lambda>cid. let c = the (components_by_id (pb_components pr) cid) in
       \<lparr>ca_id = pc_component_id c, ca_role = pc_role c, ca_bundle = pc_bundle c,
        ca_not_before = pc_not_before c, ca_not_after = pc_not_after c, ca_artifact = pc_artifact c\<rparr>)
       SUPPORTED_COMPONENTS @
     [\<lparr>ca_id = ''shield_orchestrator'', ca_role = ORCHESTRATOR_ROLE, ca_bundle = pb_orchestrator pr,
       ca_not_before = pb_not_before pr, ca_not_after = pb_not_after pr, ca_artifact = pb_artifact pr\<rparr>]"

definition resolve_candidate :: "host_zone \<Rightarrow> key_registry \<Rightarrow> pyval \<Rightarrow> candidate \<Rightarrow> v4_exc + resolved_bundle" where
  "resolve_candidate lz registry time c =
     bind_r (map_r (\<lambda>p. bind_r (find_key lz registry (ca_role c) (pe_key_id p) (pe_key_version p) (pe_algorithm p)
         time (ca_not_before c) (ca_not_after c)) (\<lambda>k. Inr \<lparr>re_prepared = p, re_key = k\<rparr>)) (ca_bundle c)) (\<lambda>entries.
     Inr \<lparr>rb_id = ca_id c, rb_role = ca_role c, rb_prepared = ca_bundle c, rb_entries = entries,
       rb_artifact = ca_artifact c\<rparr>)"

definition resolve_verification_bundles :: "host_zone \<Rightarrow> receipt_bundles \<Rightarrow> key_registry \<Rightarrow> pyval
    \<Rightarrow> v4_exc + resolved_bundle list" where
  "resolve_verification_bundles lz pr registry time =
     bind_r (need_policy (length (pb_components pr) = EXPECTED_COMPONENT_BUNDLE_COUNT)
       ''signature bundle count outside work budget'') (\<lambda>_.
     bind_r (need_policy (set (map pc_component_id (pb_components pr)) = set SUPPORTED_COMPONENTS)
       ''component bundle set is incomplete'') (\<lambda>_.
     let candidates = candidates_of pr; entries = concat (map ca_bundle candidates) in
     bind_r (need_policy (length candidates = MAX_SIGNATURE_BUNDLES)
       ''signature bundle count outside work budget'') (\<lambda>_.
     bind_r (need_policy (length entries \<le> MAX_VERIFICATION_CALLS \<and>
         length (filter (\<lambda>p. pe_algorithm p \<noteq> ''classical-ed25519'') entries) \<le> MAX_PQC_VERIFICATION_CALLS)
       ''signature verification work budget exceeded'') (\<lambda>_.
     map_r (resolve_candidate lz registry time) candidates))))"

definition preflight_component_summaries :: "resolved_bundle list \<Rightarrow> pydict list" where
  "preflight_component_summaries bundles =
     map (\<lambda>b. [(''component_id'', PStr (rb_id b)), (''component_role'', PStr (rb_role b)),
         (''verified_algorithms'', PList (map (\<lambda>p. PStr (pe_algorithm p)) (rb_prepared b))),
         (''verified_standard_profiles'', PList (map (\<lambda>p. PStr (pe_standard_profile p)) (rb_prepared b)))])
       (filter (\<lambda>b. rb_id b \<noteq> ''shield_orchestrator'') bundles)"

section \<open>The waves\<close>

text \<open>
  The two loops of \<open>_verify_global_algorithm_waves\<close> as one over the pairs of algorithm and bundle
  in their order; the results of a bundle are kept under its id.
\<close>

definition wave_steps :: "resolved_bundle list \<Rightarrow> (string \<times> resolved_bundle) list" where
  "wave_steps bundles = concat (map (\<lambda>a. map (\<lambda>b. (a, b)) bundles) ALLOWED_ALGORITHMS)"

fun verify_waves :: "signature_verifier \<Rightarrow> (string \<times> resolved_bundle) list \<Rightarrow> (string \<Rightarrow> pydict list)
    \<Rightarrow> call_budget \<Rightarrow> transcript \<Rightarrow> (v4_exc + (string \<Rightarrow> pydict list)) \<times> transcript" where
  "verify_waves verifier [] results budget tr = (Inr results, tr)"
| "verify_waves verifier ((a, b) # steps) results budget tr =
    (case filter (\<lambda>e. pe_algorithm (re_prepared e) = a) (rb_entries b) of
       [] \<Rightarrow> verify_waves verifier steps results budget tr
     | [e] \<Rightarrow> (case before_callback a budget of
         Inl err \<Rightarrow> (Inl err, tr)
       | Inr budget' \<Rightarrow> (case invoke_resolved_signature verifier (rb_artifact b) e tr of
           (Inl err, tr') \<Rightarrow> (Inl err, tr')
         | (Inr r, tr') \<Rightarrow> verify_waves verifier steps (results(rb_id b := results (rb_id b) @ [r])) budget' tr'))
     | _ \<Rightarrow> (Inl (signature_policy_rejection ''duplicate signature algorithm''), tr))"

definition verify_global_algorithm_waves :: "resolved_bundle list \<Rightarrow> signature_verifier \<Rightarrow> transcript
    \<Rightarrow> (v4_exc + pydict list \<times> pydict) \<times> transcript" where
  "verify_global_algorithm_waves bundles verifier tr =
    (case verify_waves verifier (wave_steps bundles) (\<lambda>_. []) \<lparr>cb_total = 0, cb_pqc = 0\<rparr> tr of
       (Inl e, tr') \<Rightarrow> (Inl e, tr')
     | (Inr results, tr') \<Rightarrow> (Inr
         (map (\<lambda>b. [(''component_id'', PStr (rb_id b)), (''component_role'', PStr (rb_role b))] @
             summary_for_results (results (rb_id b))) (filter (\<lambda>b. rb_id b \<noteq> ''shield_orchestrator'') bundles),
          summary_for_results (results ''shield_orchestrator'')), tr'))"

section \<open>The claims of the orchestrator\<close>

definition result_mismatch :: v4_exc where
  "result_mismatch = signature_policy_rejection ''component signature result mismatch''"

definition need_strs :: "pyval \<Rightarrow> v4_exc + string list" where
  "need_strs v = (case v of PList xs \<Rightarrow> if list_all is_str xs then Inr (map str_of xs) else Inl result_mismatch
     | _ \<Rightarrow> Inl result_mismatch)"

definition normalise_component_signature_result :: "pydict \<Rightarrow> v4_exc + pydict" where
  "normalise_component_signature_result item =
     bind_r (need_strs (dget item ''verified_algorithms'')) (\<lambda>algorithms.
     bind_r (need_strs (dget item ''verified_standard_profiles'')) (\<lambda>profiles.
     bind_r (check_r (length profiles = length algorithms) result_mismatch) (\<lambda>_.
     let pairs = sort (zip algorithms profiles) in
     Inr [(''component_id'', PStr (str_of (dget item ''component_id''))),
       (''component_role'', PStr (str_of (dget item ''component_role''))),
       (''verified'', dget item ''verified''),
       (''verified_algorithms'', PList (map (\<lambda>(a, _). PStr a) pairs)),
       (''verified_standard_profiles'', PList (map (\<lambda>(_, p). PStr p) pairs)),
       (''signature_policy'', dget item ''signature_policy'')])))"

definition sort_by_component :: "pydict list \<Rightarrow> pydict list" where
  "sort_by_component = sort_key (\<lambda>m. str_of (dget m ''component_id''))"

definition cross_check_component_signature_results :: "pydict \<Rightarrow> pydict list \<Rightarrow> v4_exc + unit" where
  "cross_check_component_signature_results receipt summaries =
     bind_r (map_r (\<lambda>s. normalise_component_signature_result
       [(''component_id'', dget s ''component_id''), (''component_role'', dget s ''component_role''),
        (''verified'', PBool True), (''verified_algorithms'', dget s ''verified_algorithms''),
        (''verified_standard_profiles'', dget s ''verified_standard_profiles''),
        (''signature_policy'', PStr ''policy.v1'')]) summaries) (\<lambda>expected.
     bind_r (map_r normalise_component_signature_result (dict_list (dget receipt ''component_signature_results''))) (\<lambda>claimed.
     check_r (py_eq_list (map PDict (sort_by_component claimed)) (map PDict (sort_by_component expected)))
       result_mismatch))"

section \<open>Results\<close>

record v4_result =
  vr_state :: v4_state
  vr_reason_id :: reason_id
  vr_verified :: bool
  vr_accepted_as_evidence :: bool
  vr_final_approval :: bool
  vr_final_outcome :: "string option"
  vr_context_hash :: "string option"
  vr_request_id :: "string option"
  vr_receipt_hash :: "string option"
  vr_handoff_allowed :: bool
  vr_dominant_reason_ids :: "string list"
  vr_receipt :: "pydict option"
  vr_summary :: "pydict option"

definition v4_rejected :: "v4_state \<Rightarrow> reason_id \<Rightarrow> pyval \<Rightarrow> string \<Rightarrow> v4_result" where
  "v4_rejected st reason payload dominant = \<lparr>vr_state = st, vr_reason_id = reason, vr_verified = False,
     vr_accepted_as_evidence = False, vr_final_approval = False, vr_final_outcome = None,
     vr_context_hash = string_or_none payload ''context_hash'',
     vr_request_id = string_or_none payload ''request_id'',
     vr_receipt_hash = string_or_none payload ''receipt_hash'', vr_handoff_allowed = False,
     vr_dominant_reason_ids = [if dominant = [] then v4_state_value st else dominant],
     vr_receipt = None, vr_summary = None\<rparr>"

definition state_for_final_outcome :: "string \<Rightarrow> v4_state \<times> reason_id" where
  "state_for_final_outcome outcome =
    (if outcome = ''DENY'' then (VERIFIED_DENY_DOMINATES, DENY_POLICY)
     else if outcome = ''HUMAN_REVIEW_REQUIRED''
       then (VERIFIED_HUMAN_REVIEW_REQUIRED, DENY_AUTHORITY_INSUFFICIENT)
     else (VERIFIED_ALLOW_EVIDENCE_CONTINUE_CHECKS, EVIDENCE_OK))"

text \<open>\<open>"context" in str(exc).lower()\<close> is asked of the base error of the contract only.\<close>

definition classify_contract_error :: "v4_error \<Rightarrow> v4_state \<times> reason_id \<times> string" where
  "classify_contract_error e = (case e of
     V4Downgrade _ \<Rightarrow> (REJECTED_DOWNGRADE, EQC_INVALID_SHIELD_BUNDLE, ''SHIELD_V4_DOWNGRADE_REJECTED'')
   | V4HashMismatch _ \<Rightarrow> (REJECTED_TAMPERED_RECEIPT, EQC_INVALID_SHIELD_BUNDLE, ''SHIELD_V4_HASH_MISMATCH'')
   | V4AuthorityBypass _ \<Rightarrow> (REJECTED_AUTHORITY_BYPASS, EQC_INVALID_SHIELD_BUNDLE, ''SHIELD_V4_AUTHORITY_BYPASS'')
   | V4Contract m \<Rightarrow> (if contains_sub ''context'' (py_lower m)
       then (REJECTED_CONTEXT_MISMATCH, EQC_SHIELD_CONTEXT_HASH_MISMATCH, ''SHIELD_V4_CONTEXT_MISMATCH'')
       else (REJECTED_INVALID_RECEIPT, EQC_INVALID_SHIELD_BUNDLE, ''SHIELD_V4_INVALID_RECEIPT''))
   | _ \<Rightarrow> (REJECTED_INVALID_RECEIPT, EQC_INVALID_SHIELD_BUNDLE, ''SHIELD_V4_INVALID_RECEIPT''))"

definition audit_reason_for_contract_error :: "v4_error \<Rightarrow> string" where
  "audit_reason_for_contract_error e = (case e of
     V4Downgrade _ \<Rightarrow> V4_DOWNGRADE_REJECTED
   | V4HashMismatch _ \<Rightarrow> V4_HASH_MISMATCH
   | V4AuthorityBypass _ \<Rightarrow> V4_AUTHORITY_BYPASS
   | _ \<Rightarrow> (let message = py_lower (v4_message e) in
       if contains_sub ''context'' message then V4_CONTEXT_MISMATCH
       else if contains_sub ''policy'' message \<or> contains_sub ''signature bundle'' message then V4_POLICY_INVALID
       else V4_CONTRACT_INVALID))"

section \<open>The verifier\<close>

record v4_inputs =
  vi_receipt :: pyval
  vi_context_hash :: pyval
  vi_request_id :: pyval
  vi_registry :: pyval
  vi_time :: pyval
  vi_seen :: py_iterable
  vi_rejected :: py_iterable
  vi_minimum :: pyval
  vi_verifier :: "signature_verifier option"

text \<open>
  How the call can end before a signature is verified: with a rejected result and what the
  observer is told of it (\<open>contract_rejection\<close>), or with an exception no handler catches.
\<close>

datatype v4_end = Ends v4_result "string option" | Escapes string

definition invalid_input :: "string \<Rightarrow> v4_end" where
  "invalid_input dominant = Ends (v4_rejected REJECTED_INVALID_RECEIPT EQC_INVALID_SHIELD_BUNDLE (PDict []) dominant)
     (Some V4_CONTRACT_INVALID)"

text \<open>The inputs of the caller: context hash, request id, minimum registry version.\<close>

definition check_inputs :: "v4_inputs \<Rightarrow> v4_end + string \<times> string \<times> int" where
  "check_inputs inp =
     bind_r (catch_r (v4_require_hash (vi_context_hash inp) ''expected_context_hash'')
       (\<lambda>_. Inl (invalid_input ''SHIELD_V4_INVALID_VERIFIER_INPUT''))) (\<lambda>_.
     bind_r (catch_r (require_bounded_text (vi_request_id inp) ''expected_request_id'')
       (\<lambda>_. Inl (invalid_input ''EXPECTED_REQUEST_ID_INVALID''))) (\<lambda>rid.
     bind_r (check_r (\<not> py_blank rid) (invalid_input ''EXPECTED_REQUEST_ID_INVALID'')) (\<lambda>_.
     bind_r (check_r (case vi_time inp of PStr t \<Rightarrow> length t = 20 | _ \<Rightarrow> False)
       (Ends (v4_rejected REJECTED_FRESHNESS_WINDOW EQC_SHIELD_STALE (PDict [])
         ''verification_time must be exact-second RFC3339 UTC'') (Some ''V4_FRESHNESS_INVALID''))) (\<lambda>_.
     bind_r (catch_r (require_signed_integer (vi_minimum inp) ''minimum_key_registry_version'')
       (\<lambda>_. Inl (invalid_input ''SHIELD_V4_INVALID_VERIFIER_INPUT''))) (\<lambda>minimum.
     bind_r (check_r (0 < minimum) (invalid_input ''SHIELD_V4_INVALID_VERIFIER_INPUT'')) (\<lambda>_.
     Inr (str_of (vi_context_hash inp), rid, minimum)))))))"

text \<open>\<open>except ValueError as exc\<close> around the contract: a \<open>TypeError\<close> passes.\<close>

definition contract_end :: "pyval \<Rightarrow> v4_error \<Rightarrow> v4_end" where
  "contract_end payload e = (case e of V4TypeError m \<Rightarrow> Escapes m | V4KeyError m \<Rightarrow> Escapes m
     | _ \<Rightarrow> (case classify_contract_error e of (st, reason, dominant) \<Rightarrow>
         Ends (v4_rejected st reason payload dominant) (Some (audit_reason_for_contract_error e))))"

text \<open>The snapshot of the receipt, unless the caller has taken it, and the preflight.\<close>

definition preflight_stage :: "v4_inputs \<Rightarrow> bool \<Rightarrow> string \<Rightarrow> v4_end + pydict" where
  "preflight_stage inp is_bounded_snapshot h =
     bind_r (if is_bounded_snapshot then Inr (vi_receipt inp)
       else catch_r (bounded_json_snapshot (vi_receipt inp)) (\<lambda>m. Inl (contract_end (PDict []) (V4WorkBudget m)))) (\<lambda>snap.
     catch_r (preflight_bounded_receipt h snap) (\<lambda>e. Inl (contract_end snap e)))"

definition bundles_end :: "pydict \<Rightarrow> v4_exc \<Rightarrow> v4_end" where
  "bundles_end valid e = (case e of Uncaught m \<Rightarrow> Escapes m
     | Rejection st _ m \<Rightarrow>
         if st = REJECTED_TAMPERED_RECEIPT
           then Ends (v4_rejected st EQC_INVALID_SHIELD_BUNDLE (PDict valid) ''SHIELD_V4_HASH_MISMATCH'')
             (Some V4_HASH_MISMATCH)
         else if m = ''duplicate signature key entry''
           then Ends (v4_rejected st EQC_INVALID_SHIELD_BUNDLE (PDict valid) m) (Some V4_POLICY_INVALID)
         else Ends (v4_rejected REJECTED_INVALID_RECEIPT EQC_INVALID_SHIELD_BUNDLE (PDict valid)
           ''SHIELD_V4_INVALID_RECEIPT'') (Some V4_POLICY_INVALID))"

definition rejection_end :: "pydict \<Rightarrow> v4_exc \<Rightarrow> v4_end" where
  "rejection_end valid e = (case e of Uncaught m \<Rightarrow> Escapes m
     | Rejection st reason m \<Rightarrow> Ends (v4_rejected st reason (PDict valid) m) None)"

definition reject_with :: "v4_state \<Rightarrow> reason_id \<Rightarrow> pydict \<Rightarrow> string \<Rightarrow> v4_end" where
  "reject_with st reason valid dominant = Ends (v4_rejected st reason (PDict valid) dominant) None"

text \<open>Request id, callback and replay state; the callback to use.\<close>

definition replay_stage :: "v4_inputs \<Rightarrow> string \<Rightarrow> pydict \<Rightarrow> v4_end + signature_verifier" where
  "replay_stage inp rid valid =
     bind_r (check_r (dget valid ''request_id'' = PStr rid)
       (reject_with REJECTED_REQUEST_MISMATCH EQC_INVALID_SHIELD_BUNDLE valid ''SHIELD_V4_REQUEST_ID_MISMATCH'')) (\<lambda>_.
     bind_r (case vi_verifier inp of Some f \<Rightarrow> Inr f
       | None \<Rightarrow> Inl (reject_with REJECTED_SIGNATURE_INVALID EQC_INVALID_SHIELD_BUNDLE valid
           ''SIGNATURE_BACKEND_NOT_CONFIGURED'')) (\<lambda>verifier.
     bind_r (catch_r (bind_r (bounded_identifier_set (vi_seen inp) MAX_REPLAY_IDENTIFIERS ''seen_request_ids'') (\<lambda>seen.
         bind_r (bounded_identifier_set (vi_rejected inp) MAX_DENYLIST_ENTRIES ''rejected_receipt_hashes'') (\<lambda>rejected.
         Inr (seen, rejected))))
       (\<lambda>_. Inl (reject_with REJECTED_INVALID_RECEIPT EQC_INVALID_SHIELD_BUNDLE valid
         ''SHIELD_V4_INVALID_VERIFIER_INPUT''))) (\<lambda>(seen, rejected).
     bind_r (check_r (\<not> (str_of (dget valid ''request_id'') \<in> seen \<or> str_of (dget valid ''receipt_hash'') \<in> rejected))
       (reject_with REJECTED_REPLAY_RISK EQC_SHIELD_STALE valid ''SHIELD_V4_REPLAY_REJECTED'')) (\<lambda>_.
     Inr verifier))))"

text \<open>Trust: registry, versions, freshness, a key for every signature, the claimed results.\<close>

definition trust_checks :: "host_zone \<Rightarrow> v4_inputs \<Rightarrow> int \<Rightarrow> pydict \<Rightarrow> receipt_bundles
    \<Rightarrow> v4_exc + key_registry \<times> resolved_bundle list" where
  "trust_checks lz inp minimum valid prepared =
     bind_r (load_trusted_key_registry lz (vi_registry inp)) (\<lambda>registry.
     bind_r (enforce_registry_versions valid registry minimum) (\<lambda>_.
     bind_r (enforce_freshness lz valid (vi_time inp)) (\<lambda>_.
     bind_r (resolve_verification_bundles lz prepared registry (vi_time inp)) (\<lambda>resolved.
     bind_r (cross_check_component_signature_results valid (preflight_component_summaries resolved)) (\<lambda>_.
     Inr (registry, resolved))))))"

text \<open>Everything that precedes the first callback.\<close>

record v4_ready =
  rd_valid :: pydict
  rd_verifier :: signature_verifier
  rd_registry :: key_registry
  rd_resolved :: "resolved_bundle list"

definition prepare_verification :: "host_zone \<Rightarrow> v4_inputs \<Rightarrow> bool \<Rightarrow> v4_end + v4_ready" where
  "prepare_verification lz inp is_bounded_snapshot =
     bind_r (check_inputs inp) (\<lambda>(h, rid, minimum).
     bind_r (preflight_stage inp is_bounded_snapshot h) (\<lambda>valid.
     bind_r (catch_r (preflight_receipt_bundles valid) (\<lambda>e. Inl (bundles_end valid e))) (\<lambda>prepared.
     bind_r (replay_stage inp rid valid) (\<lambda>verifier.
     bind_r (catch_r (trust_checks lz inp minimum valid prepared) (\<lambda>e. Inl (rejection_end valid e))) (\<lambda>(registry, resolved).
     bind_r (catch_r (validate_preflighted_receipt_integrity valid) (\<lambda>e. Inl (contract_end (PDict valid) e))) (\<lambda>valid.
     Inr \<lparr>rd_valid = valid, rd_verifier = verifier, rd_registry = registry, rd_resolved = resolved\<rparr>))))))"

text \<open>The result of a receipt whose signatures all verify; \<open>["handoff_allowed"]\<close> raises \<open>KeyError\<close>.\<close>

definition verified_result :: "v4_ready \<Rightarrow> pydict list \<Rightarrow> pydict \<Rightarrow> string + v4_result" where
  "verified_result rd components orchestrator =
    (let valid = rd_valid rd; outcome = str_of (dget valid ''final_outcome'');
         (st, reason) = state_for_final_outcome outcome in
     case dget valid ''adamantineos_handoff'' of
       PDict handoff \<Rightarrow> (case map_of handoff ''handoff_allowed'' of
         None \<Rightarrow> Inl (''KeyError: '' @ repr_str ''handoff_allowed'')
       | Some allowed \<Rightarrow> Inr \<lparr>vr_state = st, vr_reason_id = reason, vr_verified = True,
           vr_accepted_as_evidence = True, vr_final_approval = False, vr_final_outcome = Some outcome,
           vr_context_hash = Some (str_of (dget valid ''context_hash'')),
           vr_request_id = Some (str_of (dget valid ''request_id'')),
           vr_receipt_hash = Some (str_of (dget valid ''receipt_hash'')),
           vr_handoff_allowed = py_truthy allowed,
           vr_dominant_reason_ids = strs_of (dget valid ''dominant_reason_ids''),
           vr_receipt = Some valid,
           vr_summary = Some [(''key_registry_version'', PInt (kr_registry_version (rd_registry rd))),
             (''policy_version'', PStr ''policy.v1''), (''orchestrator'', PDict orchestrator),
             (''components'', PList (map PDict components))]\<rparr>)
     | _ \<Rightarrow> Inl ''TypeError: object is not subscriptable'')"

definition verify_receipt_v4 :: "host_zone \<Rightarrow> v4_inputs \<Rightarrow> bool \<Rightarrow> (string + v4_result) \<times> transcript" where
  "verify_receipt_v4 lz inp is_bounded_snapshot =
    (case prepare_verification lz inp is_bounded_snapshot of
       Inl (Escapes m) \<Rightarrow> (Inl m, empty_transcript)
     | Inl (Ends r told) \<Rightarrow> (Inr r, empty_transcript\<lparr>tr_rejection := told\<rparr>)
     | Inr rd \<Rightarrow>
         (case verify_global_algorithm_waves (rd_resolved rd) (rd_verifier rd)
             (empty_transcript\<lparr>tr_validated := Some (receipt_artifact (rd_valid rd))\<rparr>) of
           (Inl (Rejection st reason m), tr) \<Rightarrow> (Inr (v4_rejected st reason (PDict (rd_valid rd)) m), tr)
         | (Inl (Uncaught m), tr) \<Rightarrow> (Inl m, tr)
         | (Inr (components, orchestrator), tr) \<Rightarrow> (verified_result rd components orchestrator, tr)))"

text \<open>The public function, without observer.\<close>

definition verify_shield_v4_orchestrator_receipt :: "host_zone \<Rightarrow> v4_inputs \<Rightarrow> string + v4_result" where
  "verify_shield_v4_orchestrator_receipt lz inp = fst (verify_receipt_v4 lz inp False)"

end
