(* ===== verification/Shield_V4_Trust.thy ===== *)
theory Shield_V4_Trust
  imports Shield_V4_Verifier "HOL-Library.Sublist"
begin

text \<open>
  What a verified Shield v4 receipt guarantees: the rules for each stage of Shield_V4_Verifier,
  the bounds on the work it does, and the properties of the whole verifier.
\<close>

section \<open>Checks of the verifier\<close>

lemma vf_basic_ok [res_simps]:
  "need_registry c m = Inr u \<longleftrightarrow> c"
  "need_policy c m = Inr u \<longleftrightarrow> c"
  "as_policy_rejection n = Inr x \<longleftrightarrow> n = Inr x"
  by (simp_all add: need_registry_def need_policy_def as_policy_rejection_def res_simps)

lemma vf_require_str_ok [res_simps]:
  "vf_require_str v f = Inr c \<longleftrightarrow> (\<exists>s. v = PStr s \<and> \<not> py_blank s \<and> c = py_strip s)"
  by (cases v) (auto simp: vf_require_str_def)

lemma vf_require_positive_int_ok [res_simps]:
  "vf_require_positive_int v f = Inr i \<longleftrightarrow> v = PInt i \<and> 0 < i \<and> signed_integer_ok i"
  by (auto simp: vf_require_positive_int_def res_simps Let_def)

lemma require_profile_for_signature_ok [res_simps]:
  "require_profile_for_signature a v = Inr p \<longleftrightarrow>
     v4_require_str v ''standard_profile'' = Inr p \<and> p \<in> set (algorithm_standard_profiles a)"
  by (auto simp: require_profile_for_signature_def res_simps)

section \<open>Prepared bundles have the shape of the contract\<close>

lemma prepare_entry_ok:
  assumes "prepare_entry h d before raw = Inr p"
  shows "raw = PDict (pe_entry p)"
    "check_signature_entry h d (map pe_algorithm before) raw = Inr (pe_algorithm p)"
    "pe_algorithm p = py_strip (str_of (dget (pe_entry p) ''algorithm''))"
    "pe_key_id p = py_strip (str_of (dget (pe_entry p) ''key_id''))"
    "dget (pe_entry p) ''key_version'' = PInt (pe_key_version p)"
  using assms
  by (auto simp: prepare_entry_def check_signature_entry_def res_simps str_of_def)

lemma prepare_entries_ok:
  "prepare_entries h d before es = Inr ps \<Longrightarrow>
     check_signature_entries h d (map pe_algorithm before) es = Inr (map pe_algorithm ps) \<and>
     (\<exists>new. ps = before @ new \<and> es = map (\<lambda>p. PDict (pe_entry p)) new \<and>
       (\<forall>p \<in> set new. pe_algorithm p = py_strip (str_of (dget (pe_entry p) ''algorithm'')) \<and>
         pe_key_id p = py_strip (str_of (dget (pe_entry p) ''key_id'')) \<and>
         dget (pe_entry p) ''key_version'' = PInt (pe_key_version p)))"
proof (induction es arbitrary: before)
  case (Cons e es)
  obtain p where p: "prepare_entry h d before e = Inr p" "prepare_entries h d (before @ [p]) es = Inr ps"
    using Cons.prems by (auto simp: res_simps)
  show ?case using Cons.IH[OF p(2)] prepare_entry_ok[OF p(1)] by auto
qed simp

definition bundle_signatures :: "pydict \<Rightarrow> pydict list" where
  "bundle_signatures m = (case dget m ''signature_bundle'' of
     PDict b \<Rightarrow> dict_list (dget b ''signatures'') | _ \<Rightarrow> [])"

lemma domain_tags_strip [simp]:
  "py_strip COMPONENT_VERDICT_DOMAIN = COMPONENT_VERDICT_DOMAIN"
  "py_strip ORCHESTRATOR_RECEIPT_DOMAIN = ORCHESTRATOR_RECEIPT_DOMAIN"
  by (rule py_strip_id, code_simp)+

text \<open>The fields of a prepared entry are those of the signature it was prepared from.\<close>

definition entry_fields :: "prepared_entry \<Rightarrow> bool" where
  "entry_fields p \<longleftrightarrow> pe_algorithm p = py_strip (str_of (dget (pe_entry p) ''algorithm'')) \<and>
     pe_key_id p = py_strip (str_of (dget (pe_entry p) ''key_id'')) \<and>
     dget (pe_entry p) ''key_version'' = PInt (pe_key_version p)"

lemma preflight_bundle_ok:
  assumes "preflight_bundle bundle h d = Inr ps" "py_strip d = d"
  shows "\<exists>b. bundle = PDict b \<and> dict_list (dget b ''signatures'') = map pe_entry ps"
    "\<forall>p \<in> set ps. entry_fields p"
    "validate_signature_bundle_canonical_size bundle = Inr () \<Longrightarrow>
      \<exists>x. validate_signature_bundle_shape bundle h d = Inr x"
    "length ps \<le> MAX_SIGNATURES_PER_BUNDLE"
    "set V4_REQUIRED_ALGORITHMS \<subseteq> set (map pe_algorithm ps)" "set (map pe_algorithm ps) \<subseteq> set ALLOWED_ALGORITHMS"
    "distinct (map pe_algorithm ps)"
proof -
  obtain b sigs eh where b: "bundle = PDict b" "dget b ''signatures'' = PList sigs" "sigs \<noteq> []"
      "v4_require_hash (PStr h) ''expected_signed_payload_hash'' = Inr eh"
      "prepare_entries eh d [] sigs = Inr ps"
    and head: "has_fields b [] SIGNATURE_BUNDLE_FIELDS" "dget b ''schema_version'' = PStr SIGNATURE_BUNDLE_SCHEMA_VERSION"
      "dget b ''policy_version'' = PStr SIGNATURE_POLICY" "length sigs \<le> MAX_SIGNATURES_PER_BUNDLE"
      "map pe_algorithm ps = canonical_sequence (map pe_algorithm ps)"
      "set V4_REQUIRED_ALGORITHMS \<subseteq> set (map pe_algorithm ps)"
    using assms by (auto simp: preflight_bundle_def res_simps)
  note ps = prepare_entries_ok[OF b(5), simplified]
  have sigs: "sigs = map (\<lambda>p. PDict (pe_entry p)) ps" using ps by auto
  show "\<forall>p \<in> set ps. entry_fields p" using ps by (auto simp: entry_fields_def)
  show "\<exists>b. bundle = PDict b \<and> dict_list (dget b ''signatures'') = map pe_entry ps"
    using b(1,2) sigs by (simp add: dict_list_def)
  show "length ps \<le> MAX_SIGNATURES_PER_BUNDLE" using head(4) sigs by simp
  show "set V4_REQUIRED_ALGORITHMS \<subseteq> set (map pe_algorithm ps)" by (rule head(6))
  have seq: "set (canonical_sequence xs) \<subseteq> set ALLOWED_ALGORITHMS" "distinct (canonical_sequence xs)" for xs
    by (auto simp: canonical_sequence_def ALLOWED_ALGORITHMS_def V4_REQUIRED_ALGORITHMS_def)
  show "set (map pe_algorithm ps) \<subseteq> set ALLOWED_ALGORITHMS" "distinct (map pe_algorithm ps)"
    using seq[of "map pe_algorithm ps"] head(5) by simp_all
  obtain s ss where ne: "sigs = s # ss" using b(3) by (cases sigs) auto
  show "\<exists>x. validate_signature_bundle_shape bundle h d = Inr x"
    if "validate_signature_bundle_canonical_size bundle = Inr ()"
    using that b head ps ne by (auto simp: validate_signature_bundle_shape_def res_simps)
qed

lemma prepare_component_ok:
  assumes "prepare_component c = Inr pc"
  shows "pc_component_id pc = str_of (dget c ''component_id'')"
    "map_of COMPONENT_ROLES (str_of (dget c ''component_id'')) = Some (pc_role pc)"
    "pc_not_before pc = str_of (dget c ''not_before'')" "pc_not_after pc = str_of (dget c ''not_after'')"
    "preflight_bundle (dget c ''signature_bundle'') (str_of (dget c ''signed_payload_hash''))
       COMPONENT_VERDICT_DOMAIN = Inr (pc_bundle pc)"
  using assms by (auto simp: prepare_component_def Let_def res_simps split: option.splits)

section \<open>Trusted keys\<close>

text \<open>The key is active, valid now, and covers the window of the artifact.\<close>

definition key_valid :: "host_zone \<Rightarrow> pyval \<Rightarrow> string \<Rightarrow> string \<Rightarrow> trusted_key \<Rightarrow> bool" where
  "key_valid lz time not_before not_after k \<longleftrightarrow> tk_status k = ACTIVE \<and>
     (\<exists>now start stop ks ke. parse_utc lz time ''verification_time'' = Inr now \<and>
       parse_utc lz (PStr not_before) ''artifact_not_before'' = Inr start \<and>
       parse_utc lz (PStr not_after) ''artifact_not_after'' = Inr stop \<and>
       parse_utc lz (PStr (tk_not_before k)) ''key_not_before'' = Inr ks \<and>
       parse_utc lz (PStr (tk_not_after k)) ''key_not_after'' = Inr ke \<and>
       start < stop \<and> ks \<le> now \<and> now \<le> ke \<and> ks \<le> start \<and> stop \<le> ke)"

lemma find_key_ok:
  assumes "find_key lz reg role key_id key_version algorithm time nb na = Inr k"
  shows "k \<in> set (kr_entries reg)" "tk_role k = role" "tk_key_id k = key_id" "tk_key_version k = key_version"
    "tk_algorithm k = algorithm" "key_valid lz time nb na k"
proof -
  obtain y where y: "List.find (\<lambda>k. key_identity k = (role, key_version, algorithm, key_id)) (kr_entries reg) = Some y"
    using assms by (auto simp: find_key_def res_simps split: option.splits)
  have "y = k \<and> key_valid lz time nb na k"
    using assms y by (auto simp: find_key_def res_simps key_valid_def)
  then show "k \<in> set (kr_entries reg)" "tk_role k = role" "tk_key_id k = key_id" "tk_key_version k = key_version"
    "tk_algorithm k = algorithm" "key_valid lz time nb na k"
    using find_SomeD[OF y] by (auto simp: key_identity_def)
qed

definition entry_trusted :: "host_zone \<Rightarrow> key_registry \<Rightarrow> pyval \<Rightarrow> string \<Rightarrow> string \<Rightarrow> string \<Rightarrow> resolved_entry \<Rightarrow> bool" where
  "entry_trusted lz reg time role nb na e \<longleftrightarrow> (let k = re_key e; p = re_prepared e in
     k \<in> set (kr_entries reg) \<and> tk_role k = role \<and> tk_key_id k = pe_key_id p \<and>
     tk_key_version k = pe_key_version p \<and> tk_algorithm k = pe_algorithm p \<and> key_valid lz time nb na k)"

lemma resolve_candidate_ok:
  assumes "resolve_candidate lz reg time c = Inr b"
  shows "rb_id b = ca_id c" "rb_role b = ca_role c" "map re_prepared (rb_entries b) = ca_bundle c"
    "\<forall>e \<in> set (rb_entries b). entry_trusted lz reg time (ca_role c) (ca_not_before c) (ca_not_after c) e"
proof -
  obtain es where es: "map_r (\<lambda>p. bind_r (find_key lz reg (ca_role c) (pe_key_id p) (pe_key_version p) (pe_algorithm p)
         time (ca_not_before c) (ca_not_after c)) (\<lambda>k. Inr \<lparr>re_prepared = p, re_key = k\<rparr>)) (ca_bundle c) = Inr es"
    and b: "b = \<lparr>rb_id = ca_id c, rb_role = ca_role c, rb_prepared = ca_bundle c, rb_entries = es,
       rb_artifact = ca_artifact c\<rparr>"
    using assms by (auto simp: resolve_candidate_def res_simps)
  show "rb_id b = ca_id c" "rb_role b = ca_role c" using b by simp_all
  have "list_all2 (\<lambda>p e. re_prepared e = p \<and>
      entry_trusted lz reg time (ca_role c) (ca_not_before c) (ca_not_after c) e) (ca_bundle c) es"
    using es unfolding map_r_eq_Inr
    by (rule list_all2_mono) (auto simp: res_simps entry_trusted_def Let_def dest: find_key_ok)
  then show "map re_prepared (rb_entries b) = ca_bundle c"
    "\<forall>e \<in> set (rb_entries b). entry_trusted lz reg time (ca_role c) (ca_not_before c) (ca_not_after c) e"
    by (auto simp: b list_all2_conv_all_nth in_set_conv_nth intro: nth_equalityI)
qed

section \<open>The waves\<close>

definition accepts :: "signature_verifier \<Rightarrow> resolved_entry \<Rightarrow> bool" where
  "accepts verifier e \<longleftrightarrow> verifier (pe_entry (re_prepared e)) (re_key e) = Inr (PBool True)"

lemma invoke_ok:
  "invoke_resolved_signature verifier ar e tr = (Inr r, tr') \<Longrightarrow> accepts verifier e"
  by (auto simp: invoke_resolved_signature_def accepts_def Let_def split: sum.splits pyval.splits bool.splits)

lemma invoke_observes:
  "invoke_resolved_signature verifier ar e tr = (x, tr') \<Longrightarrow>
     tr_validated tr' = tr_validated tr \<and> tr_rejection tr' = tr_rejection tr \<and>
     (\<exists>ob. tr_observations tr' = tr_observations tr @ [ob] \<and> ob_algorithm ob = pe_algorithm (re_prepared e))"
  by (auto simp: invoke_resolved_signature_def observe_signature_def Let_def
      split: sum.splits pyval.splits bool.splits)

lemma invoke_no_escape:
  "invoke_resolved_signature verifier ar e tr = (Inl err, tr') \<Longrightarrow> \<exists>st rid m. err = Rejection st rid m"
  by (auto simp: invoke_resolved_signature_def signature_invalid_def Let_def
      split: sum.splits pyval.splits bool.splits)

lemma verify_waves_accepts:
  "verify_waves verifier steps results budget tr = (Inr results', tr') \<Longrightarrow> (a, b) \<in> set steps \<Longrightarrow>
     e \<in> set (rb_entries b) \<Longrightarrow> pe_algorithm (re_prepared e) = a \<Longrightarrow> accepts verifier e"
proof (induction verifier steps results budget tr rule: verify_waves.induct)
  case (2 verifier a' b' steps results budget tr)
  show ?case
  proof (cases "filter (\<lambda>e. pe_algorithm (re_prepared e) = a') (rb_entries b')")
    case Nil
    then have no: "(a, b) = (a', b') \<Longrightarrow> False" using "2.prems"(3,4) by (auto simp: filter_empty_conv)
    show ?thesis using "2.IH"(1)[OF Nil] "2.prems" Nil no by auto
  next
    case (Cons x xs)
    show ?thesis
    proof (cases xs)
      case Nil
      obtain b1 r tr1 where st: "before_callback a' budget = Inr b1"
        "invoke_resolved_signature verifier (rb_artifact b') x tr = (Inr r, tr1)"
        "verify_waves verifier steps (results(rb_id b' := results (rb_id b') @ [r])) b1 tr1 = (Inr results', tr')"
        using "2.prems"(1) Cons Nil by (auto split: sum.splits prod.splits)
      show ?thesis
      proof (cases "(a, b) = (a', b')")
        case True
        then have "e \<in> set (filter (\<lambda>e. pe_algorithm (re_prepared e) = a') (rb_entries b'))"
          using "2.prems"(3,4) by simp
        then have "e = x" using Cons Nil by simp
        then show ?thesis using invoke_ok[OF st(2)] by simp
      next
        case False
        then show ?thesis using "2.IH"(2)[OF Cons Nil st(1) st(2)[symmetric] refl st(3)] "2.prems"(2-) by auto
      qed
    next
      case (Cons y ys)
      then show ?thesis using "2.prems"(1) \<open>filter _ _ = x # xs\<close> by simp
    qed
  qed
qed simp

text \<open>What the waves add to the transcript: at most one attempt per step, and none after a failure.\<close>

lemma before_callback_rejects:
  "before_callback a b = Inl e \<Longrightarrow> \<exists>st rid m. e = Rejection st rid m"
  by (auto simp: before_callback_def signature_policy_rejection_def Let_def split: if_splits)

lemma verify_waves_transcript:
  "verify_waves verifier steps results budget tr = (x, tr') \<Longrightarrow>
     tr_validated tr' = tr_validated tr \<and> tr_rejection tr' = tr_rejection tr \<and>
     (\<forall>e. x = Inl e \<longrightarrow> (\<exists>st rid m. e = Rejection st rid m)) \<and>
     (\<exists>new. tr_observations tr' = tr_observations tr @ new \<and> subseq (map ob_algorithm new) (map fst steps) \<and>
       list_all ob_passed (butlast new) \<and> (\<forall>r. x = Inr r \<longrightarrow> list_all ob_passed new))"
proof (induction verifier steps results budget tr rule: verify_waves.induct)
  case (2 verifier a b steps results budget tr)
  show ?case
  proof (cases "filter (\<lambda>e. pe_algorithm (re_prepared e) = a) (rb_entries b)")
    case Nil
    show ?thesis using "2.IH"(1)[OF Nil] "2.prems" Nil by auto
  next
    case f: (Cons y ys)
    show ?thesis
    proof (cases ys)
      case Nil
      have alg: "pe_algorithm (re_prepared y) = a"
        using f Nil by (metis (mono_tags, lifting) filter_eq_ConsD)
      show ?thesis
      proof (cases "before_callback a budget")
        case (Inl err)
        then show ?thesis using "2.prems" f Nil before_callback_rejects[OF Inl] by auto
      next
        case bc: (Inr b1)
        obtain z tr1 where i: "invoke_resolved_signature verifier (rb_artifact b) y tr = (z, tr1)" by fastforce
        obtain ob where ob: "tr_validated tr1 = tr_validated tr" "tr_rejection tr1 = tr_rejection tr"
          "tr_observations tr1 = tr_observations tr @ [ob]" "ob_algorithm ob = a"
          using invoke_observes[OF i] alg by auto
        show ?thesis
        proof (cases z)
          case (Inl err)
          then have "x = Inl err" "tr' = tr1" using "2.prems" f Nil bc i by auto
          then show ?thesis using ob invoke_no_escape[of verifier "rb_artifact b" y tr err tr1] i Inl by auto
        next
          case (Inr r)
          have p: "ob_passed ob" using i Inr ob(3)
            by (auto simp: invoke_resolved_signature_def observe_signature_def Let_def
                split: sum.splits pyval.splits bool.splits)
          have "verify_waves verifier steps (results(rb_id b := results (rb_id b) @ [r])) b1 tr1 = (x, tr')"
            using "2.prems" f Nil bc i Inr by simp
          note IH = "2.IH"(2)[OF f Nil bc i[symmetric] Inr this]
          then obtain new where n: "tr_observations tr' = tr_observations tr1 @ new"
            "subseq (map ob_algorithm new) (map fst steps)" "list_all ob_passed (butlast new)"
            "\<forall>r. x = Inr r \<longrightarrow> list_all ob_passed new" by auto
          show ?thesis using IH ob p n by (auto intro!: exI[of _ "ob # new"])
        qed
      qed
    next
      case (Cons w ws)
      then have "x = Inl (signature_policy_rejection ''duplicate signature algorithm'')" "tr' = tr"
        using "2.prems" f by auto
      then show ?thesis by (auto simp: signature_policy_rejection_def)
    qed
  qed
qed auto

lemma wave_steps_algorithms:
  "map fst (wave_steps bs) = replicate (length bs) ''classical-ed25519'' @ replicate (length bs) ''ml-dsa'' @
     replicate (length bs) ''fn-dsa''"
  by (simp add: wave_steps_def ALLOWED_ALGORITHMS_def V4_REQUIRED_ALGORITHMS_def comp_def map_replicate_const)

lemma wave_steps_member: "b \<in> set bs \<Longrightarrow> a \<in> set ALLOWED_ALGORITHMS \<Longrightarrow> (a, b) \<in> set (wave_steps bs)"
  by (auto simp: wave_steps_def)

section \<open>The stages before the first callback\<close>

lemma prepare_verification_ok:
  assumes "prepare_verification lz inp snap = Inr rd"
  obtains h rid minimum valid prepared where
    "check_inputs inp = Inr (h, rid, minimum)" "preflight_stage inp snap h = Inr valid"
    "preflight_receipt_bundles valid = Inr prepared" "replay_stage inp rid valid = Inr (rd_verifier rd)"
    "trust_checks lz inp minimum valid prepared = Inr (rd_registry rd, rd_resolved rd)"
    "validate_preflighted_receipt_integrity valid = Inr valid" "rd_valid rd = valid"
proof -
  have self: "validate_preflighted_receipt_integrity v = Inr w \<Longrightarrow> w = v" for v w
    by (auto simp: validate_preflighted_receipt_integrity_def res_simps Let_def)
  obtain h rid minimum valid valid' prepared where
    p: "check_inputs inp = Inr (h, rid, minimum)" "preflight_stage inp snap h = Inr valid"
    "preflight_receipt_bundles valid = Inr prepared" "replay_stage inp rid valid = Inr (rd_verifier rd)"
    "trust_checks lz inp minimum valid prepared = Inr (rd_registry rd, rd_resolved rd)"
    "validate_preflighted_receipt_integrity valid = Inr valid'" "rd_valid rd = valid'"
    using assms by (auto simp: prepare_verification_def res_simps split: prod.splits)
  show thesis using p self[OF p(6)] that by simp
qed

lemma trust_checks_ok:
  assumes "trust_checks lz inp minimum valid prepared = Inr (reg, bs)"
  shows "load_trusted_key_registry lz (vi_registry inp) = Inr reg"
    "enforce_registry_versions valid reg minimum = Inr ()" "enforce_freshness lz valid (vi_time inp) = Inr ()"
    "length (pb_components prepared) = 5"
    "set (map pc_component_id (pb_components prepared)) = set SUPPORTED_COMPONENTS"
    "map_r (resolve_candidate lz reg (vi_time inp)) (candidates_of prepared) = Inr bs"
    "cross_check_component_signature_results valid (preflight_component_summaries bs) = Inr ()"
  using assms
  by (auto simp: trust_checks_def res_simps resolve_verification_bundles_def Let_def EXPECTED_COMPONENT_BUNDLE_COUNT_def)

section \<open>Every signature of a verified receipt\<close>

text \<open>The six signed artifacts of a receipt, each with the role whose keys may sign it.\<close>

definition signed_artifacts :: "pydict \<Rightarrow> (string \<times> pydict) list" where
  "signed_artifacts r = map (\<lambda>c. (the (map_of COMPONENT_ROLES (str_of (dget c ''component_id''))), c))
     (dict_list (dget r ''component_verdicts'')) @ [(ORCHESTRATOR_ROLE, r)]"

definition signature_trusted :: "host_zone \<Rightarrow> key_registry \<Rightarrow> pyval \<Rightarrow> signature_verifier \<Rightarrow> string
    \<Rightarrow> pydict \<Rightarrow> pydict \<Rightarrow> bool" where
  "signature_trusted lz reg time sv role m e \<longleftrightarrow> (\<exists>k \<in> set (kr_entries reg).
     tk_role k = role \<and> tk_key_id k = py_strip (str_of (dget e ''key_id'')) \<and>
     dget e ''key_version'' = PInt (tk_key_version k) \<and>
     tk_algorithm k = py_strip (str_of (dget e ''algorithm'')) \<and>
     key_valid lz time (str_of (dget m ''not_before'')) (str_of (dget m ''not_after'')) k \<and>
     sv e k = Inr (PBool True))"

text \<open>All signatures of an artifact are trusted, and the required algorithms are among them.\<close>

definition artifact_signed :: "host_zone \<Rightarrow> key_registry \<Rightarrow> pyval \<Rightarrow> signature_verifier
    \<Rightarrow> string \<times> pydict \<Rightarrow> bool" where
  "artifact_signed lz reg time sv a \<longleftrightarrow> (case a of (role, m) \<Rightarrow>
     set V4_REQUIRED_ALGORITHMS \<subseteq> (\<lambda>e. py_strip (str_of (dget e ''algorithm''))) ` set (bundle_signatures m) \<and>
     (\<forall>e \<in> set (bundle_signatures m). signature_trusted lz reg time sv role m e))"

lemma resolved_artifact_signed:
  assumes pb: "preflight_bundle (dget m ''signature_bundle'') h d = Inr ps" "py_strip d = d"
    and b: "map re_prepared (rb_entries b) = ps"
      "\<forall>e \<in> set (rb_entries b). entry_trusted lz reg time role (str_of (dget m ''not_before'')) (str_of (dget m ''not_after'')) e"
    and sv: "\<forall>e \<in> set (rb_entries b). pe_algorithm (re_prepared e) \<in> set ALLOWED_ALGORITHMS \<longrightarrow> accepts sv e"
  shows "artifact_signed lz reg time sv (role, m)"
proof -
  note p = preflight_bundle_ok[OF pb]
  have sigs: "bundle_signatures m = map pe_entry ps" using p(1) by (auto simp: bundle_signatures_def)
  have "signature_trusted lz reg time sv role m (pe_entry (re_prepared e))" if e: "e \<in> set (rb_entries b)" for e
  proof -
    have "re_prepared e \<in> set ps" using e b(1) by force
    then have "entry_fields (re_prepared e)" "pe_algorithm (re_prepared e) \<in> set ALLOWED_ALGORITHMS"
      using p(2,6) by auto
    then show ?thesis using b(2) e sv
      by (auto simp: signature_trusted_def entry_fields_def entry_trusted_def accepts_def Let_def intro!: bexI[of _ "re_key e"])
  qed
  then have "signature_trusted lz reg time sv role m e" if "e \<in> set (bundle_signatures m)" for e
    using that sigs b(1) by auto
  moreover have "pe_algorithm ` set ps = (\<lambda>e. py_strip (str_of (dget e ''algorithm''))) ` pe_entry ` set ps"
    using p(2) by (force simp: entry_fields_def image_image)
  ultimately show ?thesis using p(5) sigs by (simp add: artifact_signed_def)
qed

lemma distinct_of_length_set: "length xs = card (set ys) \<Longrightarrow> set xs = set ys \<Longrightarrow> distinct xs"
  by (simp add: card_distinct)

lemma components_by_id_self:
  assumes "distinct (map pc_component_id cs)" "c \<in> set cs"
  shows "components_by_id cs (pc_component_id c) = Some c"
proof -
  have "distinct (map fst (rev (map (\<lambda>c. (pc_component_id c, c)) cs)))"
    using assms(1) by (simp add: rev_map[symmetric] comp_def)
  then show ?thesis using assms(2) by (auto simp: components_by_id_def intro: map_of_is_SomeI)
qed

lemma supported_components_card [simp]: "card (set SUPPORTED_COMPONENTS) = 5"
  by (simp add: SUPPORTED_COMPONENTS_def)

lemma candidate_of_component:
  assumes "length (pb_components pr) = 5"
    "set (map pc_component_id (pb_components pr)) = set SUPPORTED_COMPONENTS" "c \<in> set (pb_components pr)"
  shows "\<lparr>ca_id = pc_component_id c, ca_role = pc_role c, ca_bundle = pc_bundle c,
        ca_not_before = pc_not_before c, ca_not_after = pc_not_after c, ca_artifact = pc_artifact c\<rparr> \<in> set (candidates_of pr)"
proof -
  have "distinct (map pc_component_id (pb_components pr))"
    using assms(1,2) by (intro distinct_of_length_set[of _ SUPPORTED_COMPONENTS]) auto
  then have "components_by_id (pb_components pr) (pc_component_id c) = Some c"
    using assms(3) by (rule components_by_id_self)
  moreover have "pc_component_id c \<in> set SUPPORTED_COMPONENTS" using assms(2,3) by auto
  ultimately show ?thesis unfolding candidates_of_def Let_def
    by (auto intro!: image_eqI[of _ _ "pc_component_id c"])
qed

lemma preflight_receipt_bundles_ok:
  assumes "preflight_receipt_bundles valid = Inr pr"
  shows "list_all2 (\<lambda>c pc. prepare_component c = Inr pc) (dict_list (dget valid ''component_verdicts'')) (pb_components pr)"
    "preflight_bundle (dget valid ''signature_bundle'') (str_of (dget valid ''signed_payload_hash''))
       ORCHESTRATOR_RECEIPT_DOMAIN = Inr (pb_orchestrator pr)"
    "pb_not_before pr = str_of (dget valid ''not_before'')" "pb_not_after pr = str_of (dget valid ''not_after'')"
  using assms by (auto simp: preflight_receipt_bundles_def res_simps map_r_eq_Inr)

lemma waves_sign_artifacts:
  assumes pr: "preflight_receipt_bundles valid = Inr pr"
    and tc: "trust_checks lz inp minimum valid pr = Inr (reg, bs)"
    and w: "verify_waves sv (wave_steps bs) results budget tr = (Inr results', tr')"
  shows "list_all (artifact_signed lz reg (vi_time inp) sv) (signed_artifacts valid)"
proof -
  note p = preflight_receipt_bundles_ok[OF pr]
  note t = trust_checks_ok[OF tc]
  have acc: "accepts sv e" if "b \<in> set bs" "e \<in> set (rb_entries b)"
      "pe_algorithm (re_prepared e) \<in> set ALLOWED_ALGORITHMS" for b e
    using verify_waves_accepts[OF w wave_steps_member[OF that(1,3)] that(2) refl] .
  have cand: "\<exists>b \<in> set bs. resolve_candidate lz reg (vi_time inp) c = Inr b" if "c \<in> set (candidates_of pr)" for c
    using t(6) that by (auto simp: map_r_eq_Inr list_all2_conv_all_nth in_set_conv_nth)
  have "artifact_signed lz reg (vi_time inp) sv (ORCHESTRATOR_ROLE, valid)"
  proof -
    let ?c = "\<lparr>ca_id = ''shield_orchestrator'', ca_role = ORCHESTRATOR_ROLE, ca_bundle = pb_orchestrator pr,
       ca_not_before = pb_not_before pr, ca_not_after = pb_not_after pr, ca_artifact = pb_artifact pr\<rparr>"
    obtain b where b: "b \<in> set bs" "resolve_candidate lz reg (vi_time inp) ?c = Inr b"
      using cand[of ?c] by (auto simp: candidates_of_def)
    show ?thesis using resolve_candidate_ok[OF b(2)] acc[OF b(1)] p(3,4)
      by (intro resolved_artifact_signed[OF p(2)]) auto
  qed
  moreover have "artifact_signed lz reg (vi_time inp) sv
      (the (map_of COMPONENT_ROLES (str_of (dget c ''component_id''))), c)"
    if c: "c \<in> set (dict_list (dget valid ''component_verdicts''))" for c
  proof -
    obtain i where i: "i < length (dict_list (dget valid ''component_verdicts''))"
      "dict_list (dget valid ''component_verdicts'') ! i = c" using c by (auto simp: in_set_conv_nth)
    obtain pc where pc: "pc \<in> set (pb_components pr)" "prepare_component c = Inr pc"
      using list_all2_nthD[OF p(1) i(1)] i list_all2_lengthD[OF p(1)] nth_mem by fastforce
    note k = prepare_component_ok[OF pc(2)]
    obtain b where b: "b \<in> set bs" "resolve_candidate lz reg (vi_time inp)
        \<lparr>ca_id = pc_component_id pc, ca_role = pc_role pc, ca_bundle = pc_bundle pc,
         ca_not_before = pc_not_before pc, ca_not_after = pc_not_after pc, ca_artifact = pc_artifact pc\<rparr> = Inr b"
      using cand[OF candidate_of_component[OF t(4,5) pc(1)]] by auto
    show ?thesis using resolve_candidate_ok[OF b(2)] acc[OF b(1)] k
      by (intro resolved_artifact_signed[OF k(5)]) auto
  qed
  ultimately show ?thesis by (auto simp: signed_artifacts_def list_all_iff)
qed

section \<open>Verified results\<close>

definition end_rejects :: "v4_end \<Rightarrow> bool" where
  "end_rejects e \<longleftrightarrow> (case e of Ends r _ \<Rightarrow> \<not> vr_verified r | Escapes _ \<Rightarrow> True)"

lemma v4_rejected_simps [simp]:
  "\<not> vr_verified (v4_rejected st reason payload dominant)"
  "\<not> vr_final_approval (v4_rejected st reason payload dominant)"
  by (simp_all add: v4_rejected_def)

lemma raises_catch: "(\<And>e. m = Inl e \<Longrightarrow> raises_only P (h e)) \<Longrightarrow> raises_only P (catch_r m h)"
  by (cases m) (auto simp: raises_only_def)

lemma ends_reject [simp]:
  "end_rejects (invalid_input d)" "end_rejects (contract_end p e)" "end_rejects (bundles_end v x)"
  "end_rejects (rejection_end v x)" "end_rejects (reject_with st reason v d)"
  "end_rejects (Ends (v4_rejected st reason payload dominant) told)"
  by (auto simp: end_rejects_def invalid_input_def contract_end_def bundles_end_def rejection_end_def
      reject_with_def split: v4_error.splits v4_exc.splits prod.splits)

lemma prepare_verification_rejects: "raises_only end_rejects (prepare_verification lz inp snap)"
  unfolding prepare_verification_def check_inputs_def preflight_stage_def replay_stage_def
  by (auto intro!: raises_intros raises_catch raises_only_Inl split: option.splits)

lemma verified_run:
  assumes "verify_receipt_v4 lz inp snap = (Inr res, tr)" "vr_verified res"
  obtains rd results components orchestrator tr0 where
    "prepare_verification lz inp snap = Inr rd"
    "verify_waves (rd_verifier rd) (wave_steps (rd_resolved rd)) (\<lambda>_. []) \<lparr>cb_total = 0, cb_pqc = 0\<rparr> tr0 = (Inr results, tr)"
    "verified_result rd components orchestrator = Inr res"
proof -
  obtain rd where rd: "prepare_verification lz inp snap = Inr rd"
    using assms prepare_verification_rejects[of lz inp snap]
    by (cases "prepare_verification lz inp snap")
      (auto simp: verify_receipt_v4_def raises_only_def end_rejects_def split: v4_end.splits)
  show thesis
    using assms rd that[OF rd]
    by (auto simp: verify_receipt_v4_def verify_global_algorithm_waves_def
        split: sum.splits prod.splits v4_exc.splits)
qed

lemma verified_result_ok:
  assumes "verified_result rd components orchestrator = Inr res"
  shows "vr_receipt res = Some (rd_valid rd)" "\<not> vr_final_approval res"
    "(vr_state res, vr_reason_id res) = state_for_final_outcome (str_of (dget (rd_valid rd) ''final_outcome''))"
    "vr_context_hash res = Some (str_of (dget (rd_valid rd) ''context_hash''))"
  using assms by (auto simp: verified_result_def Let_def split: prod.splits pyval.splits option.splits)

section \<open>The contract, freshness and outcome of a verified receipt\<close>

lemma parse_utc_field: "parse_utc lz v f = Inr x \<longleftrightarrow> parse_utc lz v g = Inr x"
  by (auto simp: parse_utc_def res_simps split: option.splits prod.splits)

text \<open>The UTC microseconds of a time of the receipt or of the caller.\<close>

definition utc_of :: "host_zone \<Rightarrow> pyval \<Rightarrow> int option" where
  "utc_of lz v = (case parse_utc lz v [] of Inr x \<Rightarrow> Some x | Inl _ \<Rightarrow> None)"

lemma utc_of_Some: "parse_utc lz v f = Inr x \<Longrightarrow> utc_of lz v = Some x"
  using parse_utc_field[of lz v f x "[]"] by (simp add: utc_of_def)

definition fresh :: "host_zone \<Rightarrow> pyval \<Rightarrow> pydict \<Rightarrow> bool" where
  "fresh lz time m \<longleftrightarrow> (case (utc_of lz (dget m ''not_before''), utc_of lz time, utc_of lz (dget m ''not_after'')) of
     (Some start, Some now, Some stop) \<Rightarrow> start < stop \<and> start \<le> now \<and> now \<le> stop | _ \<Rightarrow> False)"

lemma enforce_freshness_ok:
  "enforce_freshness lz r time = Inr () \<Longrightarrow>
     fresh lz time r \<and> (\<forall>c \<in> set (dict_list (dget r ''component_verdicts'')). fresh lz time c)"
  by (auto simp: enforce_freshness_def res_simps fresh_def split: option.splits dest!: utc_of_Some)

lemma component_preflight_decision:
  "preflight_component_verdict_contract h c = Inr m \<Longrightarrow> str_in (dget m ''decision'') COMPONENT_DECISIONS"
  by (auto simp: preflight_component_verdict_contract_def res_simps)

lemma component_preflight_self:
  "preflight_component_verdict_contract h c = Inr m \<Longrightarrow> c = PDict m"
  by (auto simp: preflight_component_verdict_contract_def res_simps)

lemma preflight_components_ok:
  "preflight_components h seen cs = Inr ms \<Longrightarrow> cs = map PDict ms \<and>
     list_all (\<lambda>m. preflight_component_verdict_contract h (PDict m) = Inr m) ms"
proof (induction cs arbitrary: seen ms)
  case (Cons c cs)
  obtain m rest where m: "preflight_component_verdict_contract h c = Inr m"
    "preflight_components h (dget m ''component_id'' # seen) cs = Inr rest" "ms = m # rest"
    using Cons.prems by (auto simp: res_simps Let_def split: if_splits)
  show ?case using Cons.IH[OF m(2)] component_preflight_self[OF m(1)] m(1,3)
    by simp
qed simp

lemma preflight_bounded_ok:
  assumes "preflight_bounded_receipt h snap = Inr r"
  shows "snap = PDict r" "length (dict_list (dget r ''component_verdicts'')) = 5"
    "list_all (\<lambda>m. str_in (dget m ''decision'') COMPONENT_DECISIONS) (dict_list (dget r ''component_verdicts''))"
    "dget r ''final_outcome'' = PStr (expected_final_outcome (dict_list (dget r ''component_verdicts'')))"
    "\<exists>ch. list_all (\<lambda>m. preflight_component_verdict_contract ch (PDict m) = Inr m) (dict_list (dget r ''component_verdicts''))"
proof -
  obtain ch ms where r: "snap = PDict r" "preflight_component_set ch (dget r ''component_verdicts'') = Inr ms"
    "dget r ''final_outcome'' = PStr (expected_final_outcome ms)"
    using assms by (auto simp: preflight_bounded_receipt_def res_simps)
  obtain xs where xs: "dget r ''component_verdicts'' = PList xs" "length xs = length SUPPORTED_COMPONENTS"
    "preflight_components ch [] xs = Inr ms"
    using r(2) by (auto simp: preflight_component_set_def split: pyval.splits if_splits)
  have "dict_list (dget r ''component_verdicts'') = ms"
    using preflight_components_ok[OF xs(3)] xs(1) by (simp add: dict_list_def comp_def)
  then show "snap = PDict r" "length (dict_list (dget r ''component_verdicts'')) = 5"
    "list_all (\<lambda>m. str_in (dget m ''decision'') COMPONENT_DECISIONS) (dict_list (dget r ''component_verdicts''))"
    "dget r ''final_outcome'' = PStr (expected_final_outcome (dict_list (dget r ''component_verdicts'')))"
    "\<exists>ch. list_all (\<lambda>m. preflight_component_verdict_contract ch (PDict m) = Inr m) (dict_list (dget r ''component_verdicts''))"
    using r preflight_components_ok[OF xs(3)] xs
    by (auto simp: SUPPORTED_COMPONENTS_def list_all_iff dest: component_preflight_decision)
qed

lemma outcome_allow:
  assumes "list_all (\<lambda>m. str_in (dget m ''decision'') COMPONENT_DECISIONS) ms"
    "expected_final_outcome ms = ''ALLOW''" "m \<in> set ms"
  shows "dget m ''decision'' = PStr ''ALLOW''"
proof -
  have "str_in (dget m ''decision'') COMPONENT_DECISIONS" "\<not> str_in (dget m ''decision'') DENYING_COMPONENT_DECISIONS"
    "\<not> str_in (dget m ''decision'') ESCALATING_COMPONENT_DECISIONS"
    using assms by (auto simp: expected_final_outcome_def list_all_iff list_ex_iff Let_def split: if_splits)
  then show ?thesis
    by (auto simp: str_in_def COMPONENT_DECISIONS_def DENYING_COMPONENT_DECISIONS_def
        ESCALATING_COMPONENT_DECISIONS_def split: pyval.splits)
qed

lemma expected_outcome_cases:
  "expected_final_outcome ms \<in> {''ALLOW'', ''DENY'', ''HUMAN_REVIEW_REQUIRED''}"
  by (simp add: expected_final_outcome_def Let_def)

lemma bundles_well_formed_of_preflight:
  assumes "preflight_receipt_bundles r = Inr pr" "validate_preflighted_receipt_integrity r = Inr r"
  shows "bundles_well_formed r"
proof -
  note p = preflight_receipt_bundles_ok[OF assms(1)]
  have size: "validate_signature_bundle_canonical_size (dget r ''signature_bundle'') = Inr ()"
    "\<forall>c \<in> set (dict_list (dget r ''component_verdicts'')). validate_signature_bundle_canonical_size (dget c ''signature_bundle'') = Inr ()"
    using assms(2) by (auto simp: validate_preflighted_receipt_integrity_def res_simps Let_def)
  have "validate_component_signature_bundle c = Inr ()" if c: "c \<in> set (dict_list (dget r ''component_verdicts''))" for c
  proof -
    obtain i where i: "i < length (dict_list (dget r ''component_verdicts''))"
      "dict_list (dget r ''component_verdicts'') ! i = c" using c by (auto simp: in_set_conv_nth)
    obtain pc where pc: "prepare_component c = Inr pc" using list_all2_nthD[OF p(1) i(1)] i by auto
    obtain x where "validate_signature_bundle_shape (dget c ''signature_bundle'')
        (str_of (dget c ''signed_payload_hash'')) COMPONENT_VERDICT_DOMAIN = Inr x"
      using preflight_bundle_ok(3)[OF prepare_component_ok(5)[OF pc] domain_tags_strip(1)] size(2) c by blast
    then show ?thesis by (simp add: validate_component_signature_bundle_def)
  qed
  then show ?thesis
    using preflight_bundle_ok(3)[OF p(2) domain_tags_strip(2) size(1)] by (auto simp: bundles_well_formed_def)
qed

text \<open>The identifiers the caller has seen or rejected do not hit the receipt.\<close>

definition not_replayed :: "v4_inputs \<Rightarrow> pydict \<Rightarrow> bool" where
  "not_replayed inp r \<longleftrightarrow> (\<exists>seen rejected.
     bounded_identifier_set (vi_seen inp) MAX_REPLAY_IDENTIFIERS ''seen_request_ids'' = Inr seen \<and>
     bounded_identifier_set (vi_rejected inp) MAX_DENYLIST_ENTRIES ''rejected_receipt_hashes'' = Inr rejected \<and>
     str_of (dget r ''request_id'') \<notin> seen \<and> str_of (dget r ''receipt_hash'') \<notin> rejected)"

lemma check_inputs_ok:
  assumes "check_inputs inp = Inr (h, rid, minimum)"
  shows "vi_context_hash inp = PStr h" "vi_request_id inp = PStr rid" "vi_minimum inp = PInt minimum" "0 < minimum"
  using assms by (auto simp: check_inputs_def res_simps str_of_def require_bounded_text_def split: pyval.splits if_splits)

lemma replay_stage_ok:
  assumes "replay_stage inp rid r = Inr f"
  shows "dget r ''request_id'' = PStr rid" "not_replayed inp r" "vi_verifier inp = Some f"
  using assms by (auto simp: replay_stage_def res_simps not_replayed_def str_of_def split: option.splits prod.splits)

lemma preflight_stage_ok:
  assumes "preflight_stage inp False h = Inr r"
  shows "preflight_shield_v4_receipt_contract h (vi_receipt inp) = Inr r"
    "\<exists>snap. preflight_bounded_receipt h snap = Inr r"
  using assms by (auto simp: preflight_stage_def preflight_shield_v4_receipt_contract_def res_simps)

lemma versions_ok:
  "enforce_registry_versions r reg minimum = Inr () \<Longrightarrow> minimum \<le> kr_registry_version reg \<and>
     py_eq (dget r ''key_registry_version'') (PInt (kr_registry_version reg))"
  by (auto simp: enforce_registry_versions_def res_simps Let_def)

lemma prepared_component_ids:
  assumes "preflight_receipt_bundles r = Inr pr"
  shows "map (\<lambda>c. str_of (dget c ''component_id'')) (dict_list (dget r ''component_verdicts'')) =
    map pc_component_id (pb_components pr)"
  using preflight_receipt_bundles_ok(1)[OF assms]
  by (induction rule: list_all2_induct) (auto dest: prepare_component_ok(1))

section \<open>A receipt whose signatures are all accepted\<close>

lemma invoke_accepts:
  "accepts sv e \<Longrightarrow> \<exists>r tr'. invoke_resolved_signature sv ar e tr = (Inr r, tr')"
  by (simp add: invoke_resolved_signature_def accepts_def Let_def)

lemma filter_distinct_le_one: "distinct (map f xs) \<Longrightarrow> length (filter (\<lambda>x. f x = a) xs) \<le> 1"
  by (induction xs) (auto simp: filter_empty_conv image_iff)

lemma verify_waves_total:
  assumes "\<forall>(a, b) \<in> set steps. distinct (map (\<lambda>e. pe_algorithm (re_prepared e)) (rb_entries b)) \<and>
      (\<forall>e \<in> set (rb_entries b). accepts sv e)"
    "cb_total budget + length steps \<le> MAX_VERIFICATION_CALLS"
    "cb_pqc budget + length (filter (\<lambda>(a, b). a \<noteq> ''classical-ed25519'') steps) \<le> MAX_PQC_VERIFICATION_CALLS"
  shows "\<exists>results' tr'. verify_waves sv steps results budget tr = (Inr results', tr')"
  using assms
proof (induction sv steps results budget tr rule: verify_waves.induct)
  case (2 sv a b steps results budget tr)
  let ?f = "filter (\<lambda>e. pe_algorithm (re_prepared e) = a) (rb_entries b)"
  have le: "length ?f \<le> 1" using "2.prems"(1) filter_distinct_le_one by fastforce
  show ?case
  proof (cases ?f)
    case Nil
    show ?thesis using "2.IH"(1)[OF Nil] "2.prems" Nil by (auto split: if_splits)
  next
    case f: (Cons e es)
    then have es: "es = []" using le by simp
    have "e \<in> set (rb_entries b)" using f by (metis filter_is_subset list.set_intros(1) subsetD)
    then have acc: "accepts sv e" using "2.prems"(1) by auto
    obtain r tr1 where i: "invoke_resolved_signature sv (rb_artifact b) e tr = (Inr r, tr1)"
      using invoke_accepts[OF acc] by blast
    define b1 where "b1 = \<lparr>cb_total = cb_total budget + 1,
      cb_pqc = (if a \<noteq> ''classical-ed25519'' then cb_pqc budget + 1 else cb_pqc budget)\<rparr>"
    have bc: "before_callback a budget = Inr b1" "cb_total b1 = cb_total budget + 1"
      "cb_pqc b1 = (if a \<noteq> ''classical-ed25519'' then cb_pqc budget + 1 else cb_pqc budget)"
      using "2.prems"(2,3) by (auto simp: before_callback_def b1_def Let_def)
    have "\<exists>results' tr'. verify_waves sv steps (results(rb_id b := results (rb_id b) @ [r])) b1 tr1 = (Inr results', tr')"
      using "2.prems" bc(2,3) by (intro "2.IH"(2)[OF f es bc(1) i[symmetric] refl]) (auto split: if_splits)
    then show ?thesis using f es i bc(1) by simp
  qed
qed simp

lemma resolved_algorithms_distinct:
  assumes "preflight_receipt_bundles valid = Inr pr" "length (pb_components pr) = 5"
    "set (map pc_component_id (pb_components pr)) = set SUPPORTED_COMPONENTS"
    "map_r (resolve_candidate lz reg time) (candidates_of pr) = Inr bs" "b \<in> set bs"
  shows "distinct (map (\<lambda>e. pe_algorithm (re_prepared e)) (rb_entries b))"
proof -
  note p = preflight_receipt_bundles_ok[OF assms(1)]
  obtain c where c: "c \<in> set (candidates_of pr)" "resolve_candidate lz reg time c = Inr b"
    using map_r_set[OF assms(4,5)] by auto
  have dist: "distinct (map pe_algorithm (ca_bundle c))"
  proof (cases "c \<in> (\<lambda>cid. let c = the (components_by_id (pb_components pr) cid) in
       \<lparr>ca_id = pc_component_id c, ca_role = pc_role c, ca_bundle = pc_bundle c,
        ca_not_before = pc_not_before c, ca_not_after = pc_not_after c, ca_artifact = pc_artifact c\<rparr>) ` set SUPPORTED_COMPONENTS")
    case True
    then obtain cid where cid: "cid \<in> set SUPPORTED_COMPONENTS"
      "ca_bundle c = pc_bundle (the (components_by_id (pb_components pr) cid))" by (auto simp: Let_def)
    obtain pc where pc: "pc \<in> set (pb_components pr)" "pc_component_id pc = cid"
      using assms(3) cid(1) by (metis (no_types, lifting) image_iff list.set_map)
    have "distinct (map pc_component_id (pb_components pr))"
      using assms(2,3) by (intro distinct_of_length_set[of _ SUPPORTED_COMPONENTS]) auto
    then have "components_by_id (pb_components pr) cid = Some pc" using components_by_id_self pc by blast
    then have "ca_bundle c = pc_bundle pc" using cid(2) by simp
    moreover obtain i where i: "i < length (pb_components pr)" "pb_components pr ! i = pc"
      using pc(1) by (auto simp: in_set_conv_nth)
    then have "prepare_component (dict_list (dget valid ''component_verdicts'') ! i) = Inr pc"
      using list_all2_nthD2[OF p(1) i(1)] by simp
    ultimately show ?thesis using preflight_bundle_ok(7)[OF prepare_component_ok(5)] by fastforce
  next
    case False
    then have "ca_bundle c = pb_orchestrator pr" using c(1) by (auto simp: candidates_of_def)
    then show ?thesis using preflight_bundle_ok(7)[OF p(2)] by simp
  qed
  then show ?thesis using resolve_candidate_ok(3)[OF c(2)] by (metis (no_types, lifting) comp_def list.map_comp map_eq_conv)
qed

lemma all_accepted_verifies:
  assumes rd: "prepare_verification lz inp snap = Inr rd"
    and acc: "\<forall>b \<in> set (rd_resolved rd). \<forall>e \<in> set (rb_entries b). accepts (rd_verifier rd) e"
  shows "\<exists>components orchestrator tr.
    verify_receipt_v4 lz inp snap = (verified_result rd components orchestrator, tr)"
proof -
  obtain h rid minimum prepared where p: "preflight_receipt_bundles (rd_valid rd) = Inr prepared"
    "trust_checks lz inp minimum (rd_valid rd) prepared = Inr (rd_registry rd, rd_resolved rd)"
    using rd by (rule prepare_verification_ok) auto
  note t = trust_checks_ok[OF p(2)]
  have len: "length (rd_resolved rd) = 6"
    using map_r_length[OF t(6)] by (simp add: candidates_of_def SUPPORTED_COMPONENTS_def)
  let ?tr0 = "empty_transcript\<lparr>tr_validated := Some (receipt_artifact (rd_valid rd))\<rparr>"
  have "\<exists>results' tr'. verify_waves (rd_verifier rd) (wave_steps (rd_resolved rd)) (\<lambda>_. [])
      \<lparr>cb_total = 0, cb_pqc = 0\<rparr> ?tr0 = (Inr results', tr')"
  proof (rule verify_waves_total)
    show "\<forall>(a, b) \<in> set (wave_steps (rd_resolved rd)).
        distinct (map (\<lambda>e. pe_algorithm (re_prepared e)) (rb_entries b)) \<and>
        (\<forall>e \<in> set (rb_entries b). accepts (rd_verifier rd) e)"
      using resolved_algorithms_distinct[OF p(1) t(4,5,6)] acc by (auto simp: wave_steps_def)
    have "length (wave_steps (rd_resolved rd)) = 18"
      "length (filter (\<lambda>(a, b). a \<noteq> ''classical-ed25519'') (wave_steps (rd_resolved rd))) = 12"
      using len by (simp_all add: wave_steps_def ALLOWED_ALGORITHMS_def V4_REQUIRED_ALGORITHMS_def filter_map comp_def)
    then show "cb_total \<lparr>cb_total = 0, cb_pqc = 0\<rparr> + length (wave_steps (rd_resolved rd)) \<le> MAX_VERIFICATION_CALLS"
      "cb_pqc \<lparr>cb_total = 0, cb_pqc = 0\<rparr> + length (filter (\<lambda>(a, b). a \<noteq> ''classical-ed25519'')
         (wave_steps (rd_resolved rd))) \<le> MAX_PQC_VERIFICATION_CALLS"
      by (simp_all add: MAX_VERIFICATION_CALLS_def MAX_PQC_VERIFICATION_CALLS_def)
  qed
  then show ?thesis using rd by (auto simp: verify_receipt_v4_def verify_global_algorithm_waves_def) blast+
qed

section \<open>The checks before the first attempt\<close>

text \<open>
  What the stages before the first callback establish of a receipt \<open>r\<close>: it has the
  shape (bounded here, unless the caller hands over a bounded snapshot) and the context of the
  contract, its six bundles are well formed, it answers the expected request and is not in the
  replay or deny lists, the registry loads at the version the receipt names and not below the
  minimum, the receipt and its components are inside their windows, every signature of every bundle
  has found a trusted key, the component summaries agree with the bundles, and all hashes of the
  receipt have been recomputed.
\<close>

definition checked_before_signatures :: "host_zone \<Rightarrow> v4_inputs \<Rightarrow> bool \<Rightarrow> pydict \<Rightarrow> bool" where
  "checked_before_signatures lz inp snap r \<longleftrightarrow> (\<exists>h rid minimum prepared reg bs.
     check_inputs inp = Inr (h, rid, minimum) \<and> preflight_stage inp snap h = Inr r \<and>
     preflight_receipt_bundles r = Inr prepared \<and>
     dget r ''request_id'' = PStr rid \<and> not_replayed inp r \<and>
     load_trusted_key_registry lz (vi_registry inp) = Inr reg \<and> minimum \<le> kr_registry_version reg \<and>
     py_eq (dget r ''key_registry_version'') (PInt (kr_registry_version reg)) \<and>
     list_all (fresh lz (vi_time inp)) (r # dict_list (dget r ''component_verdicts'')) \<and>
     list_all2 (\<lambda>c b. map re_prepared (rb_entries b) = ca_bundle c \<and>
       list_all (entry_trusted lz reg (vi_time inp) (ca_role c) (ca_not_before c) (ca_not_after c)) (rb_entries b))
       (candidates_of prepared) bs \<and>
     cross_check_component_signature_results r (preflight_component_summaries bs) = Inr () \<and>
     validate_preflighted_receipt_integrity r = Inr r)"

lemma prepared_is_checked:
  assumes "prepare_verification lz inp snap = Inr rd"
  shows "checked_before_signatures lz inp snap (rd_valid rd)"
proof -
  obtain h rid minimum r prepared where p: "check_inputs inp = Inr (h, rid, minimum)"
    "preflight_stage inp snap h = Inr r" "preflight_receipt_bundles r = Inr prepared"
    "replay_stage inp rid r = Inr (rd_verifier rd)"
    "trust_checks lz inp minimum r prepared = Inr (rd_registry rd, rd_resolved rd)"
    "validate_preflighted_receipt_integrity r = Inr r" "rd_valid rd = r"
    using assms by (rule prepare_verification_ok)
  note t = trust_checks_ok[OF p(5)]
  have keys: "list_all2 (\<lambda>c b. map re_prepared (rb_entries b) = ca_bundle c \<and> list_all (entry_trusted lz (rd_registry rd)
      (vi_time inp) (ca_role c) (ca_not_before c) (ca_not_after c)) (rb_entries b)) (candidates_of prepared) (rd_resolved rd)"
    using t(6) unfolding map_r_eq_Inr
    by (rule list_all2_mono) (simp add: list_all_iff resolve_candidate_ok(3,4))
  show ?thesis
    unfolding checked_before_signatures_def p(7)
    using p(1,2,3,6) replay_stage_ok(1,2)[OF p(4)] t(1,7) versions_ok[OF t(2)] enforce_freshness_ok[OF t(3)] keys
    by (intro exI[of _ h] exI[of _ rid] exI[of _ minimum] exI[of _ prepared] exI[of _ "rd_registry rd"]
        exI[of _ "rd_resolved rd"]) (simp add: list_all_iff)
qed

text \<open>
  C31: The work on untrusted input is bounded and comes late. Whatever the receipt, the registry
  and the callback are: a signature is only attempted for a receipt \<open>r\<close> that has passed every other
  check (\<open>checked_before_signatures\<close>: shape, bundles, request and replay, registry version,
  freshness, a trusted key for every signature, summaries, hashes); the attempts run through the
  classical signatures of the six bundles first, then the ML-DSA and then the FN-DSA ones (so there
  are at most 18, of which at most 12 post-quantum); and no attempt follows a failed one.
\<close>

theorem v4_verification_work_bounded:
  "case verify_receipt_v4 lz inp snap of (res, tr) \<Rightarrow>
     (tr_observations tr = [] \<or>
       (\<exists>r. tr_validated tr = Some (receipt_artifact r) \<and> checked_before_signatures lz inp snap r)) \<and>
     subseq (map ob_algorithm (tr_observations tr))
       (replicate 6 ''classical-ed25519'' @ replicate 6 ''ml-dsa'' @ replicate 6 ''fn-dsa'') \<and>
     list_all ob_passed (butlast (tr_observations tr))"
proof (cases "prepare_verification lz inp snap")
  case (Inl e)
  then show ?thesis by (cases e) (simp_all add: verify_receipt_v4_def empty_transcript_def)
next
  case (Inr rd)
  let ?tr0 = "empty_transcript\<lparr>tr_validated := Some (receipt_artifact (rd_valid rd))\<rparr>"
  have "length (rd_resolved rd) = 6"
    using Inr by (rule prepare_verification_ok)
      (auto dest!: trust_checks_ok(6) map_r_length simp: candidates_of_def SUPPORTED_COMPONENTS_def)
  moreover obtain x tr where w: "verify_waves (rd_verifier rd) (wave_steps (rd_resolved rd)) (\<lambda>_. [])
      \<lparr>cb_total = 0, cb_pqc = 0\<rparr> ?tr0 = (x, tr)" by fastforce
  moreover have "snd (verify_receipt_v4 lz inp snap) = tr"
    using Inr w by (auto simp: verify_receipt_v4_def verify_global_algorithm_waves_def
        split: sum.splits prod.splits v4_exc.splits)
  moreover note prepared_is_checked[OF Inr]
  ultimately show ?thesis using verify_waves_transcript[OF w]
    by (auto simp: wave_steps_algorithms empty_transcript_def split: prod.splits)
qed

end
