(* ===== verification/Demo_Receipt_V4.thy ===== *)
theory Demo_Receipt_V4
  imports Shield_V4_Trust
begin

text \<open>
  A concrete Shield v4 receipt that passes every check: five components, two signatures in each of
  the six bundles, a registry of twelve keys. The hashes are what the code computes for it; the
  proofs only use that they are SHA-256 digests. The first component's id and decision, the
  outcome and the hand-off flag are parameters.
\<close>

section \<open>The receipt\<close>

definition demo_v4_hex :: string where "demo_v4_hex = replicate 64 (CHR ''0'')"

definition demo_v4_signature :: "string \<Rightarrow> string \<Rightarrow> string \<Rightarrow> string \<Rightarrow> pyval" where
  "demo_v4_signature d h algorithm profile = PDict [(''algorithm'', PStr algorithm),
     (''standard_profile'', PStr profile), (''key_id'', PStr algorithm), (''key_version'', PInt 1),
     (''signed_payload_hash'', PStr h), (''domain_tag'', PStr d), (''signature'', PStr ''b64u:AAAA'')]"

definition demo_v4_bundle :: "string \<Rightarrow> string \<Rightarrow> pyval" where
  "demo_v4_bundle d h = PDict [(''schema_version'', PStr SIGNATURE_BUNDLE_SCHEMA_VERSION),
     (''policy_version'', PStr SIGNATURE_POLICY),
     (''signatures'', PList [demo_v4_signature d h ''classical-ed25519'' ''rfc8032-ed25519-v1'',
        demo_v4_signature d h ''ml-dsa'' ''fips204-ml-dsa-65-v1''])]"

definition demo_v4_payload :: "string \<Rightarrow> string \<Rightarrow> pydict" where
  "demo_v4_payload cid decision = [(''component_id'', PStr cid), (''contract_version'', PInt 4),
     (''schema_version'', PStr VERDICT_SCHEMA_VERSION), (''request_id'', PStr ''req''),
     (''context_hash'', PStr demo_v4_hex), (''freshness_nonce'', PStr ''n''),
     (''not_before'', PStr ''2024-01-01T00:00:00Z''), (''not_after'', PStr ''2024-01-03T00:00:00Z''),
     (''decision'', PStr decision), (''reason_ids'', PList [PStr ''R'']),
     (''evidence_hash'', PStr demo_v4_hex), (''evidence_families'', PList [PStr ''F'']),
     (''metadata'', PDict []), (''fail_closed'', PBool True),
     (''canonicalization_profile'', PStr CANONICALIZATION_PROFILE), (''signature_policy'', PStr SIGNATURE_POLICY),
     (''key_registry_version'', PInt 1)]"

definition demo_v4_component :: "string \<Rightarrow> string \<Rightarrow> string \<Rightarrow> pydict" where
  "demo_v4_component cid decision h = demo_v4_payload cid decision @
     [(''signed_payload_hash'', PStr h), (''signature_bundle'', demo_v4_bundle COMPONENT_VERDICT_DOMAIN h)]"

definition demo_v4_results :: pyval where
  "demo_v4_results = PList (map (\<lambda>(cid, role). PDict [(''component_id'', PStr cid), (''component_role'', PStr role),
     (''verified'', PBool True), (''verified_algorithms'', PList [PStr ''classical-ed25519'', PStr ''ml-dsa'']),
     (''verified_standard_profiles'', PList [PStr ''rfc8032-ed25519-v1'', PStr ''fips204-ml-dsa-65-v1'']),
     (''signature_policy'', PStr SIGNATURE_POLICY)]) COMPONENT_ROLES)"

definition demo_v4_components :: "string \<Rightarrow> string \<Rightarrow> (string \<Rightarrow> string) \<Rightarrow> pydict list" where
  "demo_v4_components cid decision hs = demo_v4_component cid decision (hs cid) #
     map (\<lambda>c. demo_v4_component c ''ALLOW'' (hs c)) (tl SUPPORTED_COMPONENTS)"

definition demo_v4_receipt_payload :: "string \<Rightarrow> string \<Rightarrow> (string \<Rightarrow> string) \<Rightarrow> string \<Rightarrow> pydict \<Rightarrow> pydict" where
  "demo_v4_receipt_payload cid decision hs outcome handoff =
    [(''schema_version'', PStr RECEIPT_SCHEMA_VERSION), (''contract_version'', PInt 4), (''request_id'', PStr ''req''),
     (''context_hash'', PStr demo_v4_hex), (''freshness_nonce'', PStr ''n''),
     (''not_before'', PStr ''2024-01-01T00:00:00Z''), (''not_after'', PStr ''2024-01-03T00:00:00Z''),
     (''component_verdicts'', PList (map PDict (demo_v4_components cid decision hs))),
     (''component_signature_results'', demo_v4_results), (''final_outcome'', PStr outcome),
     (''dominant_reason_ids'', PList [PStr ''R'']), (''canonicalization_profile'', PStr CANONICALIZATION_PROFILE),
     (''signature_policy'', PStr SIGNATURE_POLICY), (''key_registry_version'', PInt 1),
     (''adamantineos_handoff'', PDict handoff), (''fail_closed'', PBool True)]"

definition demo_v4_receipt :: "string \<Rightarrow> string \<Rightarrow> (string \<Rightarrow> string) \<Rightarrow> string \<Rightarrow> pydict \<Rightarrow> string \<Rightarrow> string \<Rightarrow> pydict" where
  "demo_v4_receipt cid decision hs outcome handoff rh ph =
     demo_v4_receipt_payload cid decision hs outcome handoff @
     [(''receipt_hash'', PStr rh), (''signed_payload_hash'', PStr ph),
      (''signature_bundle'', demo_v4_bundle ORCHESTRATOR_RECEIPT_DOMAIN ph)]"

definition demo_v4_key :: "string \<Rightarrow> string \<Rightarrow> pyval" where
  "demo_v4_key role algorithm = PDict [(''role'', PStr role), (''key_id'', PStr algorithm), (''key_version'', PInt 1),
     (''algorithm'', PStr algorithm), (''not_before'', PStr ''2023-01-01T00:00:00Z''),
     (''not_after'', PStr ''2025-01-01T00:00:00Z''), (''status'', PStr ''active''), (''public_key'', PStr ''b64u:AAAA'')]"

definition demo_v4_registry :: pyval where
  "demo_v4_registry = PDict [(''schema_version'', PStr KEY_REGISTRY_SCHEMA_VERSION), (''registry_version'', PInt 1),
     (''entries'', PList (concat (map (\<lambda>r. [demo_v4_key r ''classical-ed25519'', demo_v4_key r ''ml-dsa'']) SUPPORTED_ROLES)))]"

definition demo_v4_inputs :: "pyval \<Rightarrow> v4_inputs" where
  "demo_v4_inputs receipt = \<lparr>vi_receipt = receipt, vi_context_hash = PStr demo_v4_hex, vi_request_id = PStr ''req'',
     vi_registry = demo_v4_registry, vi_time = PStr ''2024-01-02T00:00:00Z'',
     vi_seen = Iterator (\<lambda>_. Inl None), vi_rejected = Iterator (\<lambda>_. Inl None), vi_minimum = PInt 1,
     vi_verifier = Some (\<lambda>_ _. Inr (PBool True))\<rparr>"

section \<open>The preflight\<close>

lemma demo_v4_hex_ok: "is_sha256_hex demo_v4_hex"
  unfolding demo_v4_hex_def by (rule zeros_hex(1))

lemma hex_not_space: "is_sha256_hex h \<Longrightarrow> list_all (\<lambda>c. \<not> py_isspace c) h"
  by (rule list.pred_mono_strong[of is_hex_lower]) (auto simp: is_sha256_hex_def is_hex_lower_def py_isspace_def)

lemma hex_required_v4:
  assumes "is_sha256_hex h"
  shows "v4_require_hash (PStr h) f = Inr h" "length h = 64" "h \<noteq> []" "py_strip h = h" "\<not> py_blank h"
proof -
  have h: "length h = 64" "py_strip h = h" using assms py_strip_id[OF hex_not_space[OF assms]] by (auto simp: is_sha256_hex_def)
  then have "h \<noteq> []" "\<not> py_blank h" using py_strip_eq_Nil[of h] by auto
  then show "v4_require_hash (PStr h) f = Inr h" "length h = 64" "h \<noteq> []" "py_strip h = h" "\<not> py_blank h"
    using sha256_hex_required[OF assms, of f] h by (auto simp: rc_require_hash_ok v4_require_hash_ok)
qed

lemma demo_v4_encoding: "require_signature_encoding (PStr ''b64u:AAAA'') f = Inr ''b64u:AAAA''"
  by code_simp

lemma demo_v4_texts:
  "v4_require_str (PStr ''req'') f = Inr ''req''" "v4_require_str (PStr ''n'') f = Inr ''n''"
  "v4_require_str (PStr ''R'') f = Inr ''R''" "v4_require_str (PStr ''F'') f = Inr ''F''"
  "v4_require_str (PStr ''2024-01-01T00:00:00Z'') f = Inr ''2024-01-01T00:00:00Z''"
  "v4_require_str (PStr ''2024-01-03T00:00:00Z'') f = Inr ''2024-01-03T00:00:00Z''"
  "v4_require_str (PStr ''adn'') f = Inr ''adn''" "v4_require_str (PStr '' adn'') f = Inr ''adn''"
  "v4_require_str (PStr ''dqsn'') f = Inr ''dqsn''" "v4_require_str (PStr ''guardian_wallet'') f = Inr ''guardian_wallet''"
  "v4_require_str (PStr ''qwg'') f = Inr ''qwg''" "v4_require_str (PStr ''sentinel_ai'') f = Inr ''sentinel_ai''"
  by code_simp+

lemma v4_one: "v4_require_positive_int (PInt 1) f = Inr 1"
  by (simp add: v4_require_positive_int_ok signed_integer_ok_def MAX_SIGNED_INTEGER_BITS_def)

lemma demo_v4_component_preflight:
  assumes "is_sha256_hex h" "v4_require_str (PStr cid) ''component_id'' = Inr cid'" "cid' \<in> set SUPPORTED_COMPONENTS"
    "decision \<in> set COMPONENT_DECISIONS"
  shows "preflight_component_verdict_contract demo_v4_hex (PDict (demo_v4_component cid decision h)) =
    Inr (demo_v4_component cid decision h)"
proof -
  let ?m = "demo_v4_component cid decision h"
  have "cid' \<in> set (map fst COMPONENT_ROLES)"
    using assms(3) by (auto simp: COMPONENT_ROLES_def SUPPORTED_COMPONENTS_def)
  moreover have "has_fields ?m [''verification_summary''] REQUIRED_SIGNED_COMPONENT_FIELDS"
    by (simp add: has_fields_def REQUIRED_SIGNED_COMPONENT_FIELDS_def demo_v4_component_def demo_v4_payload_def dkeys_def)
  moreover have "dget ?m ''component_id'' = PStr cid" "dget ?m ''contract_version'' = PInt CONTRACT_VERSION_V4"
    "dget ?m ''schema_version'' = PStr VERDICT_SCHEMA_VERSION" "dget ?m ''request_id'' = PStr ''req''"
    "dget ?m ''context_hash'' = PStr demo_v4_hex" "dget ?m ''freshness_nonce'' = PStr ''n''"
    "dget ?m ''not_before'' = PStr ''2024-01-01T00:00:00Z''" "dget ?m ''not_after'' = PStr ''2024-01-03T00:00:00Z''"
    "dget ?m ''decision'' = PStr decision" "dget ?m ''reason_ids'' = PList [PStr ''R'']"
    "dget ?m ''evidence_hash'' = PStr demo_v4_hex" "dget ?m ''evidence_families'' = PList [PStr ''F'']"
    "dget ?m ''metadata'' = PDict []" "dget ?m ''fail_closed'' = PBool True"
    "dget ?m ''canonicalization_profile'' = PStr CANONICALIZATION_PROFILE"
    "dget ?m ''signature_policy'' = PStr SIGNATURE_POLICY" "dget ?m ''key_registry_version'' = PInt 1"
    "dget ?m ''signed_payload_hash'' = PStr h"
    by (simp_all add: demo_v4_component_def demo_v4_payload_def CONTRACT_VERSION_V4_def)
  ultimately show ?thesis
    using assms hex_required_v4(1)[OF assms(1)] hex_required_v4(1)[OF demo_v4_hex_ok]
    by (simp add: preflight_component_verdict_contract_def v4_check_def demo_v4_texts v4_one require_str_list_def
        contains_forbidden_authority_def num_eq_def num_ratio_def)
qed


lemma demo_v4_results_ok: "validate_component_signature_results demo_v4_results = Inr (dict_list demo_v4_results)"
  by code_simp

definition demo_v4_variant :: "string \<Rightarrow> string \<Rightarrow> bool" where
  "demo_v4_variant cid decision \<longleftrightarrow> cid \<in> {''adn'', '' adn''} \<and> decision \<in> {''ALLOW'', ''DENY''}"

lemma demo_v4_components_ok:
  assumes "demo_v4_variant cid decision" "\<forall>c. is_sha256_hex (hs c)"
  shows "preflight_component_set demo_v4_hex (PList (map PDict (demo_v4_components cid decision hs))) =
      Inr (demo_v4_components cid decision hs)"
    "expected_final_outcome (demo_v4_components cid decision hs) = decision"
proof -
  have first: "preflight_component_verdict_contract demo_v4_hex (PDict (demo_v4_component cid decision (hs cid))) =
      Inr (demo_v4_component cid decision (hs cid))"
    using assms by (intro demo_v4_component_preflight[of _ _ "''adn''"])
      (auto simp: demo_v4_variant_def demo_v4_texts SUPPORTED_COMPONENTS_def COMPONENT_DECISIONS_def)
  have rest: "preflight_component_verdict_contract demo_v4_hex (PDict (demo_v4_component c ''ALLOW'' (hs c))) =
      Inr (demo_v4_component c ''ALLOW'' (hs c))" if "c \<in> set (tl SUPPORTED_COMPONENTS)" for c
    using assms(2) that by (intro demo_v4_component_preflight[of _ _ c])
      (auto simp: demo_v4_texts SUPPORTED_COMPONENTS_def COMPONENT_DECISIONS_def)
  have cid: "dget (demo_v4_component c d h) ''component_id'' = PStr c"
      "dget (demo_v4_component c d h) ''decision'' = PStr d" for c d h
    by (simp_all add: demo_v4_component_def demo_v4_payload_def)
  show "preflight_component_set demo_v4_hex (PList (map PDict (demo_v4_components cid decision hs))) =
      Inr (demo_v4_components cid decision hs)"
    using assms(1) first rest
    by (auto simp: preflight_component_set_def demo_v4_components_def SUPPORTED_COMPONENTS_def cid demo_v4_variant_def)
  show "expected_final_outcome (demo_v4_components cid decision hs) = decision"
    using assms(1) by (auto simp: expected_final_outcome_def demo_v4_components_def SUPPORTED_COMPONENTS_def cid
        demo_v4_variant_def DENYING_COMPONENT_DECISIONS_def ESCALATING_COMPONENT_DECISIONS_def)
qed

definition demo_v4_handoff :: "string \<Rightarrow> pydict \<Rightarrow> bool" where
  "demo_v4_handoff outcome m \<longleftrightarrow> m \<in> {[], [(''handoff_allowed'', PInt 1)], [(''handoff_allowed'', PBool (outcome = ''ALLOW''))]}"

lemma demo_v4_preflight:
  assumes "demo_v4_variant cid decision" "\<forall>c. is_sha256_hex (hs c)" "is_sha256_hex rh" "is_sha256_hex ph"
    "demo_v4_handoff decision m"
  shows "preflight_bounded_receipt demo_v4_hex (PDict (demo_v4_receipt cid decision hs decision m rh ph)) =
    Inr (demo_v4_receipt cid decision hs decision m rh ph)"
proof -
  let ?r = "demo_v4_receipt cid decision hs decision m rh ph"
  have "has_fields ?r [''verification_summary''] V4_RECEIPT_FIELDS"
    by (simp add: has_fields_def V4_RECEIPT_FIELDS_def demo_v4_receipt_def demo_v4_receipt_payload_def dkeys_def)
  moreover have "dget ?r ''schema_version'' = PStr RECEIPT_SCHEMA_VERSION" "dget ?r ''contract_version'' = PInt 4"
    "dget ?r ''request_id'' = PStr ''req''" "dget ?r ''context_hash'' = PStr demo_v4_hex"
    "dget ?r ''freshness_nonce'' = PStr ''n''" "dget ?r ''not_before'' = PStr ''2024-01-01T00:00:00Z''"
    "dget ?r ''not_after'' = PStr ''2024-01-03T00:00:00Z''" "dget ?r ''component_signature_results'' = demo_v4_results"
    "dget ?r ''component_verdicts'' = PList (map PDict (demo_v4_components cid decision hs))"
    "dget ?r ''final_outcome'' = PStr decision" "dget ?r ''dominant_reason_ids'' = PList [PStr ''R'']"
    "dget ?r ''canonicalization_profile'' = PStr CANONICALIZATION_PROFILE"
    "dget ?r ''signature_policy'' = PStr SIGNATURE_POLICY" "dget ?r ''key_registry_version'' = PInt 1"
    "dget ?r ''adamantineos_handoff'' = PDict m" "dget ?r ''fail_closed'' = PBool True"
    "dget ?r ''receipt_hash'' = PStr rh" "dget ?r ''signed_payload_hash'' = PStr ph"
    by (simp_all add: demo_v4_receipt_def demo_v4_receipt_payload_def)
  moreover have "decision \<in> set FINAL_OUTCOMES"
    using assms(1) by (auto simp: demo_v4_variant_def FINAL_OUTCOMES_def)
  moreover have "\<not> contains_forbidden_authority (PDict m)" "decision = ''ALLOW'' \<or> dget m ''handoff_allowed'' \<noteq> PBool True"
    using assms(5) by (auto simp: demo_v4_handoff_def contains_forbidden_authority_def FORBIDDEN_METADATA_AUTHORITY_KEYS_def)
  ultimately show ?thesis
    using demo_v4_components_ok[OF assms(1,2)] demo_v4_results_ok hex_required_v4(1)[OF assms(3)]
      hex_required_v4(1)[OF assms(4)] hex_required_v4(1)[OF demo_v4_hex_ok]
    by (simp add: preflight_bounded_receipt_def v4_check_def demo_v4_texts v4_one require_str_list_def
        num_eq_def num_ratio_def CONTRACT_VERSION_V4_def RECEIPT_SCHEMA_VERSION_def)
qed

section \<open>Its size\<close>

lemma length_utf8: "length (utf8 s) \<le> 2 * length s"
proof (induction s)
  case (Cons c s)
  have "length (utf8_char c) \<le> 2" by (simp add: utf8_char_def Let_def)
  then show ?case using Cons by simp
qed simp

lemma short_textI: "length s \<le> 4096 \<Longrightarrow> short_text s"
  using length_utf8[of s] by (simp add: short_text_def MAX_TEXT_FIELD_BYTES_def)

text \<open>An upper bound of the scalar bytes that needs no encoding of text.\<close>

fun json_chars :: "pyval \<Rightarrow> nat" and json_chars_list :: "pyval list \<Rightarrow> nat" and json_chars_items :: "pydict \<Rightarrow> nat" where
  "json_chars (PStr s) = 2 * length s"
| "json_chars (PList xs) = json_chars_list xs"
| "json_chars (PDict m) = json_chars_items m"
| "json_chars v = json_bytes v"
| "json_chars_list [] = 0"
| "json_chars_list (x # xs) = json_chars x + json_chars_list xs"
| "json_chars_items [] = 0"
| "json_chars_items ((k, v) # m) = 2 * length k + json_chars v + json_chars_items m"

lemma json_bytes_le:
  "json_bytes v \<le> json_chars v" "json_bytes_list xs \<le> json_chars_list xs" "json_bytes_items m \<le> json_chars_items m"
  by (induction v and xs and m rule: json_chars_json_chars_list_json_chars_items.induct)
    (auto intro: length_utf8 add_mono)

lemma demo_v4_component_size:
  assumes "is_sha256_hex h" "length cid \<le> 20" "decision \<in> {''ALLOW'', ''DENY''}"
  shows "json_chars_items (demo_v4_component cid decision h) \<le> 2600"
    "json_nodes_items (demo_v4_component cid decision h) = 40"
    "json_depth_items (demo_v4_component cid decision h) = 4"
    "json_exact_items (demo_v4_component cid decision h)"
    "no_null_items (demo_v4_component cid decision h)"
    "distinct (dkeys (demo_v4_component cid decision h))"
proof -
  have "length h = 64" "length demo_v4_hex = 64" "show_int 1 = ''1''" "show_int 4 = ''4''"
    using hex_required_v4(2)[OF assms(1)] by (auto simp: demo_v4_hex_def) code_simp+
  moreover have "length decision \<le> 10" using assms(3) by auto
  note len = this assms(2)
  note d = calculation demo_v4_component_def demo_v4_payload_def demo_v4_bundle_def demo_v4_signature_def
    VERDICT_SCHEMA_VERSION_def CANONICALIZATION_PROFILE_def SIGNATURE_POLICY_def SIGNATURE_BUNDLE_SCHEMA_VERSION_def
    COMPONENT_VERDICT_DOMAIN_def dkeys_def
  show "json_chars_items (demo_v4_component cid decision h) \<le> 2600"
    "json_nodes_items (demo_v4_component cid decision h) = 40"
    "json_depth_items (demo_v4_component cid decision h) = 4"
    "no_null_items (demo_v4_component cid decision h)"
    "distinct (dkeys (demo_v4_component cid decision h))"
    using len by (simp_all add: d)
  show "json_exact_items (demo_v4_component cid decision h)"
    using len by (simp add: d short_textI signed_integer_ok_def MAX_SIGNED_INTEGER_BITS_def)
qed

lemma demo_v4_results_size:
  "json_chars demo_v4_results \<le> 2000" "json_nodes demo_v4_results = 56" "json_depth demo_v4_results = 4"
  "json_exact demo_v4_results" "no_null demo_v4_results"
  by (simp_all add: demo_v4_results_def COMPONENT_ROLES_def SIGNATURE_POLICY_def short_textI dkeys_def)

lemma demo_v4_receipt_size:
  assumes "demo_v4_variant cid decision" "\<forall>c. is_sha256_hex (hs c)" "is_sha256_hex rh" "is_sha256_hex ph"
    "demo_v4_handoff decision m"
  defines "r \<equiv> PDict (demo_v4_receipt cid decision hs decision m rh ph)"
  shows "json_chars r \<le> 18000" "json_nodes r \<le> 400" "json_depth r \<le> 8" "json_exact r" "no_null r"
proof -
  have c0: "length cid \<le> 20" "decision \<in> {''ALLOW'', ''DENY''}" "length decision \<le> 10"
    using assms(1) by (auto simp: demo_v4_variant_def)
  note c = demo_v4_component_size[OF spec[OF assms(2)] c0(1,2)]
  note c1 = demo_v4_component_size[OF spec[OF assms(2)], of "''dqsn''" "''ALLOW''", simplified]
    demo_v4_component_size[OF spec[OF assms(2)], of "''guardian_wallet''" "''ALLOW''", simplified]
    demo_v4_component_size[OF spec[OF assms(2)], of "''qwg''" "''ALLOW''", simplified]
    demo_v4_component_size[OF spec[OF assms(2)], of "''sentinel_ai''" "''ALLOW''", simplified]
  let ?cs = "map PDict (demo_v4_components cid decision hs)"
  have l: "json_chars_list ?cs \<le> 13000" "json_nodes_list ?cs = 205" "json_depth_list ?cs = 5" "json_exact_list ?cs"
    "no_null_list ?cs"
    using c(1)[of cid] c1(1,7,13,19)[of "''dqsn''"] c1(1,7,13,19)[of "''guardian_wallet''"]
      c1(1,7,13,19)[of "''qwg''"] c1(1,7,13,19)[of "''sentinel_ai''"]
    by (simp_all add: demo_v4_components_def SUPPORTED_COMPONENTS_def c(2-6) c1(2-6,8-12,14-18,20-24))
  have m: "json_chars_items m \<le> 50" "json_nodes_items m \<le> 1" "json_depth_items m \<le> 1" "json_exact_items m"
    "no_null_items m" "distinct (dkeys m)"
    using assms(5) by (auto simp: demo_v4_handoff_def show_int_def show_nat.simps short_textI signed_integer_ok_def
        MAX_SIGNED_INTEGER_BITS_def dkeys_def)
  have n: "length demo_v4_hex = 64" "length rh = 64" "length ph = 64" "show_int 1 = ''1''" "show_int 4 = ''4''"
    using hex_required_v4(2)[OF assms(3)] hex_required_v4(2)[OF assms(4)] by (auto simp: demo_v4_hex_def) code_simp+
  note d = n r_def demo_v4_receipt_def demo_v4_receipt_payload_def demo_v4_bundle_def demo_v4_signature_def
    RECEIPT_SCHEMA_VERSION_def CANONICALIZATION_PROFILE_def SIGNATURE_POLICY_def SIGNATURE_BUNDLE_SCHEMA_VERSION_def
    ORCHESTRATOR_RECEIPT_DOMAIN_def dkeys_def
  show "json_chars r \<le> 18000" using l(1) m(1) c0(3) demo_v4_results_size(1) by (simp add: d)
  show "json_nodes r \<le> 400" using l(2) m(2) demo_v4_results_size(2) by (simp add: d)
  show "json_depth r \<le> 8" using l(3) m(3) demo_v4_results_size(3) by (simp add: d)
  show "json_exact r" using l(4) m(4,6) c0(3) demo_v4_results_size(4)
    by (simp add: d short_textI signed_integer_ok_def MAX_SIGNED_INTEGER_BITS_def)
  show "no_null r" using l(5) m(5) demo_v4_results_size(5) by (simp add: d)
qed

section \<open>Snapshot and bundles\<close>

lemma small_snapshot:
  assumes "json_chars v \<le> 131072" "json_nodes v \<le> 4096" "json_depth v \<le> 16" "json_exact v"
  shows "bounded_json_snapshot v = Inr v"
proof -
  have "snapshot v 1 \<lparr>sn_nodes = 0, sn_bytes = 0\<rparr> = Inr (v, spent \<lparr>sn_nodes = 0, sn_bytes = 0\<rparr> (json_nodes v) (json_bytes v))"
    using assms json_bytes_le(1)[of v]
    by (subst snapshot_iff(1)) (simp_all add: in_budget_def within_def MAX_CONTAINER_DEPTH_def MAX_CONTAINER_NODES_def
        MAX_SNAPSHOT_SCALAR_BYTES_def)
  then show ?thesis by (simp add: bounded_json_snapshot_def)
qed

lemma demo_v4_algorithm_texts:
  "vf_require_str (PStr ''classical-ed25519'') f = Inr ''classical-ed25519''" "vf_require_str (PStr ''ml-dsa'') f = Inr ''ml-dsa''"
  "vf_require_str (PStr ''rfc8032-ed25519-v1'') f = Inr ''rfc8032-ed25519-v1''"
  "vf_require_str (PStr ''fips204-ml-dsa-65-v1'') f = Inr ''fips204-ml-dsa-65-v1''"
  "vf_require_str (PStr COMPONENT_VERDICT_DOMAIN) f = Inr COMPONENT_VERDICT_DOMAIN"
  "vf_require_str (PStr ORCHESTRATOR_RECEIPT_DOMAIN) f = Inr ORCHESTRATOR_RECEIPT_DOMAIN"
  "vf_require_positive_int (PInt 1) f = Inr 1"
  by code_simp+

definition demo_v4_entry :: "string \<Rightarrow> string \<Rightarrow> string \<Rightarrow> string \<Rightarrow> prepared_entry" where
  "demo_v4_entry d h algorithm profile = \<lparr>pe_entry = (case demo_v4_signature d h algorithm profile of PDict e \<Rightarrow> e),
     pe_algorithm = algorithm, pe_standard_profile = profile, pe_key_id = algorithm, pe_key_version = 1\<rparr>"

definition demo_v4_entries :: "string \<Rightarrow> string \<Rightarrow> prepared_entry list" where
  "demo_v4_entries d h = [demo_v4_entry d h ''classical-ed25519'' ''rfc8032-ed25519-v1'',
     demo_v4_entry d h ''ml-dsa'' ''fips204-ml-dsa-65-v1'']"

lemma demo_v4_bundle_ok:
  assumes "is_sha256_hex h" "d \<in> {COMPONENT_VERDICT_DOMAIN, ORCHESTRATOR_RECEIPT_DOMAIN}"
  shows "preflight_bundle (demo_v4_bundle d h) h d = Inr (demo_v4_entries d h)"
proof -
  have dom: "vf_require_str (PStr d) f = Inr d" for f using assms(2) by (auto simp: demo_v4_algorithm_texts)
  have e: "prepare_entry h d before (demo_v4_signature d h a p) = Inr (demo_v4_entry d h a p)"
    if "(a, p) \<in> {(''classical-ed25519'', ''rfc8032-ed25519-v1''), (''ml-dsa'', ''fips204-ml-dsa-65-v1'')}"
      "a \<notin> set (map pe_algorithm before)" "a \<notin> set (map pe_key_id before)" for a p before
  proof -
    have f: "has_fields [(''algorithm'', v1), (''standard_profile'', v2), (''key_id'', v3), (''key_version'', v4),
        (''signed_payload_hash'', v5), (''domain_tag'', v6), (''signature'', v7)] [] SIGNATURE_ENTRY_FIELDS"
      for v1 v2 v3 v4 v5 v6 v7 by (simp add: has_fields_def SIGNATURE_ENTRY_FIELDS_def dkeys_def)
    have k: "(a, 1) \<notin> set (map (\<lambda>p. (pe_key_id p, pe_key_version p)) before)" using that(3) by auto
    show ?thesis
      using that(1,2) k hex_required_v4(1)[OF assms(1)] demo_v4_encoding
      by (auto simp: prepare_entry_def demo_v4_signature_def demo_v4_entry_def f need_policy_def demo_v4_algorithm_texts dom
          require_profile_for_signature_def algorithm_standard_profiles_def as_policy_rejection_def
          ALLOWED_ALGORITHMS_def V4_REQUIRED_ALGORITHMS_def)
  qed
  have f: "has_fields [(''schema_version'', v1), (''policy_version'', v2), (''signatures'', v3)] [] SIGNATURE_BUNDLE_FIELDS"
    for v1 v2 v3 by (simp add: has_fields_def SIGNATURE_BUNDLE_FIELDS_def dkeys_def)
  have "prepare_entries h d [] [demo_v4_signature d h ''classical-ed25519'' ''rfc8032-ed25519-v1'',
      demo_v4_signature d h ''ml-dsa'' ''fips204-ml-dsa-65-v1''] = Inr (demo_v4_entries d h)"
    by (simp add: e demo_v4_entries_def demo_v4_entry_def[of _ _ "''classical-ed25519''"])
  moreover have "map pe_algorithm (demo_v4_entries d h) = V4_REQUIRED_ALGORITHMS"
    by (simp add: demo_v4_entries_def demo_v4_entry_def V4_REQUIRED_ALGORITHMS_def)
  moreover have "pe_algorithm ` set (demo_v4_entries d h) = set V4_REQUIRED_ALGORITHMS"
    by (simp add: demo_v4_entries_def demo_v4_entry_def V4_REQUIRED_ALGORITHMS_def)
  moreover have "canonical_sequence V4_REQUIRED_ALGORITHMS = V4_REQUIRED_ALGORITHMS" by code_simp
  ultimately show ?thesis using hex_required_v4(1)[OF assms(1)]
    by (simp add: preflight_bundle_def demo_v4_bundle_def f need_policy_def MAX_SIGNATURES_PER_BUNDLE_def
        as_policy_rejection_def dom)
qed

section \<open>The registry\<close>

lemma demo_v4_times:
  "parse_utc lz (PStr ''2023-01-01T00:00:00Z'') f = Inr 63808214400000000"
  "parse_utc lz (PStr ''2025-01-01T00:00:00Z'') f = Inr 63871372800000000"
  "parse_utc lz (PStr ''2024-01-01T00:00:00Z'') f = Inr 63839750400000000"
  "parse_utc lz (PStr ''2024-01-03T00:00:00Z'') f = Inr 63839923200000000"
  "parse_utc lz (PStr ''2024-01-02T00:00:00Z'') f = Inr 63839836800000000"
  by code_simp+

definition demo_v4_trusted :: "string \<Rightarrow> string \<Rightarrow> trusted_key" where
  "demo_v4_trusted role algorithm = \<lparr>tk_role = role, tk_key_id = algorithm, tk_key_version = 1,
     tk_algorithm = algorithm, tk_not_before = ''2023-01-01T00:00:00Z'', tk_not_after = ''2025-01-01T00:00:00Z'',
     tk_status = ''active'', tk_public_key = ''b64u:AAAA''\<rparr>"

definition demo_v4_keys :: "trusted_key list" where
  "demo_v4_keys = concat (map (\<lambda>r. [demo_v4_trusted r ''classical-ed25519'', demo_v4_trusted r ''ml-dsa'']) SUPPORTED_ROLES)"

lemma demo_v4_key_loads:
  assumes "role \<in> set SUPPORTED_ROLES" "algorithm \<in> set V4_REQUIRED_ALGORITHMS"
  shows "load_key_entry lz (demo_v4_key role algorithm) = Inr (demo_v4_trusted role algorithm)"
proof -
  have r: "vf_require_str (PStr role) f = Inr role" for f
  proof -
    have "list_all (\<lambda>r. \<not> py_blank r \<and> py_strip r = r) SUPPORTED_ROLES" by code_simp
    then show ?thesis using assms(1) by (simp add: list_all_iff vf_require_str_def)
  qed
  have a: "vf_require_str (PStr algorithm) f = Inr algorithm" for f
    using assms(2) by (auto simp: V4_REQUIRED_ALGORITHMS_def demo_v4_algorithm_texts)
  have t: "vf_require_str (PStr ''2023-01-01T00:00:00Z'') f = Inr ''2023-01-01T00:00:00Z''"
    "vf_require_str (PStr ''2025-01-01T00:00:00Z'') f = Inr ''2025-01-01T00:00:00Z''"
    "vf_require_str (PStr ''active'') f = Inr ''active''" "vf_require_str (PStr ''b64u:AAAA'') f = Inr ''b64u:AAAA''"
    "require_bounded_text (PStr ''b64u:AAAA'') f = Inr ''b64u:AAAA''" for f
    by code_simp+
  have f: "has_fields [(''role'', v1), (''key_id'', v2), (''key_version'', v3), (''algorithm'', v4), (''not_before'', v5),
      (''not_after'', v6), (''status'', v7), (''public_key'', v8)] [] TRUSTED_KEY_FIELDS" for v1 v2 v3 v4 v5 v6 v7 v8
    by (simp add: has_fields_def TRUSTED_KEY_FIELDS_def dkeys_def)
  have al: "algorithm \<in> set ALLOWED_ALGORITHMS" using assms(2) by (simp add: ALLOWED_ALGORITHMS_def)
  show ?thesis
    using assms(1) al
    by (simp add: load_key_entry_def demo_v4_key_def demo_v4_trusted_def f r a t demo_v4_times need_registry_def
        demo_v4_algorithm_texts ACTIVE_def)
qed

lemma demo_v4_entries_load:
  "load_key_entries lz [] (concat (map (\<lambda>r. [demo_v4_key r ''classical-ed25519'', demo_v4_key r ''ml-dsa'']) SUPPORTED_ROLES)) =
     Inr demo_v4_keys"
proof -
  have "load_key_entries lz out (concat (map (\<lambda>r. [demo_v4_key r ''classical-ed25519'', demo_v4_key r ''ml-dsa'']) rs)) =
      Inr (out @ concat (map (\<lambda>r. [demo_v4_trusted r ''classical-ed25519'', demo_v4_trusted r ''ml-dsa'']) rs))"
    if "set rs \<subseteq> set SUPPORTED_ROLES" "distinct rs" "set rs \<inter> tk_role ` set out = {}" for rs out
    using that
  proof (induction rs arbitrary: out)
    case (Cons r rs)
    have "load_key_entry lz (demo_v4_key r a) = Inr (demo_v4_trusted r a)" if "a \<in> set V4_REQUIRED_ALGORITHMS" for a
      using demo_v4_key_loads that Cons.prems(1) by simp
    moreover have "(r, v, a, k) \<notin> key_identity ` set out" for v a k
      using Cons.prems(3) by (auto simp: key_identity_def)
    ultimately show ?case
      using Cons.IH[of "out @ [demo_v4_trusted r ''classical-ed25519'', demo_v4_trusted r ''ml-dsa'']"] Cons.prems
      by (auto simp: V4_REQUIRED_ALGORITHMS_def demo_v4_trusted_def key_identity_def[of "\<lparr>tk_role = _, tk_key_id = _,
          tk_key_version = _, tk_algorithm = _, tk_not_before = _, tk_not_after = _, tk_status = _, tk_public_key = _\<rparr>"])
  qed simp
  from this[of SUPPORTED_ROLES "[]"] show ?thesis
    by (simp add: demo_v4_keys_def SUPPORTED_ROLES_def COMPONENT_ROLES_def ORCHESTRATOR_ROLE_def)
qed

lemma demo_v4_registry_loads:
  "load_trusted_key_registry lz demo_v4_registry =
     Inr \<lparr>kr_schema_version = KEY_REGISTRY_SCHEMA_VERSION, kr_registry_version = 1, kr_entries = demo_v4_keys\<rparr>"
proof -
  let ?r = demo_v4_registry
  let ?es = "concat (map (\<lambda>r. [demo_v4_key r ''classical-ed25519'', demo_v4_key r ''ml-dsa'']) SUPPORTED_ROLES)"
  have "json_chars ?r \<le> 10000" "json_nodes ?r \<le> 200" "json_depth ?r \<le> 8" "json_exact ?r"
    by (simp_all add: demo_v4_registry_def demo_v4_key_def SUPPORTED_ROLES_def COMPONENT_ROLES_def ORCHESTRATOR_ROLE_def
      KEY_REGISTRY_SCHEMA_VERSION_def show_int_def show_nat.simps short_textI signed_integer_ok_def MAX_SIGNED_INTEGER_BITS_def dkeys_def)
  then have s: "bounded_json_snapshot ?r = Inr ?r" by (intro small_snapshot) simp_all
  obtain m where r: "demo_v4_registry = PDict m" "has_fields m [] [''schema_version'', ''registry_version'', ''entries'']"
      "dget m ''schema_version'' = PStr KEY_REGISTRY_SCHEMA_VERSION" "dget m ''registry_version'' = PInt 1"
      "dget m ''entries'' = PList ?es"
    by (simp add: demo_v4_registry_def has_fields_def dkeys_def)
  have "?es \<noteq> []" "length ?es \<le> MAX_TRUSTED_REGISTRY_ENTRIES"
    by (simp_all add: SUPPORTED_ROLES_def COMPONENT_ROLES_def MAX_TRUSTED_REGISTRY_ENTRIES_def)
  then show ?thesis
    using r(2-5) s[unfolded r(1)] by (simp add: load_trusted_key_registry_def r(1) demo_v4_entries_load need_registry_def demo_v4_algorithm_texts
      del: concat_eq_Nil_conv)
qed

section \<open>Keys for every signature\<close>

definition demo_v4_loaded :: key_registry where
  "demo_v4_loaded = \<lparr>kr_schema_version = KEY_REGISTRY_SCHEMA_VERSION, kr_registry_version = 1, kr_entries = demo_v4_keys\<rparr>"

definition demo_v4_prepared :: "string \<Rightarrow> string \<Rightarrow> string \<Rightarrow> component_bundle" where
  "demo_v4_prepared cid decision h = \<lparr>pc_component_id = cid, pc_role = the (map_of COMPONENT_ROLES cid),
     pc_not_before = ''2024-01-01T00:00:00Z'', pc_not_after = ''2024-01-03T00:00:00Z'',
     pc_bundle = demo_v4_entries COMPONENT_VERDICT_DOMAIN h,
     pc_artifact = artifact_of ''component_verdict'' VERDICT_SCHEMA_VERSION cid (demo_v4_component cid decision h)\<rparr>"

lemma demo_v4_component_prepares:
  assumes "cid \<in> set SUPPORTED_COMPONENTS" "is_sha256_hex h"
  shows "prepare_component (demo_v4_component cid decision h) = Inr (demo_v4_prepared cid decision h)"
proof -
  have "dget (demo_v4_component cid decision h) ''component_id'' = PStr cid"
    "dget (demo_v4_component cid decision h) ''signature_bundle'' = demo_v4_bundle COMPONENT_VERDICT_DOMAIN h"
    "dget (demo_v4_component cid decision h) ''signed_payload_hash'' = PStr h"
    "dget (demo_v4_component cid decision h) ''not_before'' = PStr ''2024-01-01T00:00:00Z''"
    "dget (demo_v4_component cid decision h) ''not_after'' = PStr ''2024-01-03T00:00:00Z''"
    by (simp_all add: demo_v4_component_def demo_v4_payload_def)
  moreover have "\<exists>role. map_of COMPONENT_ROLES cid = Some role"
    using assms(1) by (auto simp: SUPPORTED_COMPONENTS_def COMPONENT_ROLES_def)
  ultimately show ?thesis
    using demo_v4_bundle_ok[OF assms(2)]
    by (auto simp: prepare_component_def demo_v4_prepared_def str_of_def)
qed

lemma demo_v4_find_key:
  assumes "role \<in> set SUPPORTED_ROLES" "a \<in> set V4_REQUIRED_ALGORITHMS"
  shows "find_key lz demo_v4_loaded role a 1 a (PStr ''2024-01-02T00:00:00Z'') ''2024-01-01T00:00:00Z'' ''2024-01-03T00:00:00Z''
    = Inr (demo_v4_trusted role a)"
proof -
  have "list_all (\<lambda>r. list_all (\<lambda>a. List.find (\<lambda>k. key_identity k = (r, 1, a, a)) demo_v4_keys =
      Some (demo_v4_trusted r a)) V4_REQUIRED_ALGORITHMS) SUPPORTED_ROLES"
    by code_simp
  then have "List.find (\<lambda>k. key_identity k = (role, 1, a, a)) demo_v4_keys = Some (demo_v4_trusted role a)"
    using assms by (simp add: list_all_iff)
  then show ?thesis
    by (simp add: find_key_def demo_v4_times demo_v4_loaded_def demo_v4_trusted_def need_registry_def ACTIVE_def)
qed

definition demo_v4_resolved :: "string \<Rightarrow> string \<Rightarrow> string \<Rightarrow> artifact \<Rightarrow> string \<Rightarrow> resolved_bundle" where
  "demo_v4_resolved ident role d art h = \<lparr>rb_id = ident, rb_role = role, rb_prepared = demo_v4_entries d h,
     rb_entries = map (\<lambda>p. \<lparr>re_prepared = p, re_key = demo_v4_trusted role (pe_algorithm p)\<rparr>) (demo_v4_entries d h),
     rb_artifact = art\<rparr>"

lemma demo_v4_resolves:
  assumes "role \<in> set SUPPORTED_ROLES"
  shows "resolve_candidate lz demo_v4_loaded (PStr ''2024-01-02T00:00:00Z'')
    \<lparr>ca_id = ident, ca_role = role, ca_bundle = demo_v4_entries d h, ca_not_before = ''2024-01-01T00:00:00Z'',
      ca_not_after = ''2024-01-03T00:00:00Z'', ca_artifact = art\<rparr> = Inr (demo_v4_resolved ident role d art h)"
  using demo_v4_find_key[OF assms, unfolded V4_REQUIRED_ALGORITHMS_def]
  by (simp add: resolve_candidate_def demo_v4_entries_def demo_v4_entry_def demo_v4_resolved_def)

definition demo_v4_bundles :: "string \<Rightarrow> (string \<Rightarrow> string) \<Rightarrow> pydict \<Rightarrow> string \<Rightarrow> resolved_bundle list" where
  "demo_v4_bundles decision hs r ph = map (\<lambda>cid. demo_v4_resolved cid (the (map_of COMPONENT_ROLES cid))
       COMPONENT_VERDICT_DOMAIN (pc_artifact (demo_v4_prepared cid (if cid = ''adn'' then decision else ''ALLOW'') (hs cid))) (hs cid))
       SUPPORTED_COMPONENTS @
     [demo_v4_resolved ''shield_orchestrator'' ORCHESTRATOR_ROLE ORCHESTRATOR_RECEIPT_DOMAIN (receipt_artifact r) ph]"

definition demo_v4_prepared_receipt :: "string \<Rightarrow> (string \<Rightarrow> string) \<Rightarrow> pydict \<Rightarrow> string \<Rightarrow> receipt_bundles" where
  "demo_v4_prepared_receipt decision hs r ph = \<lparr>pb_components = map (\<lambda>cid. demo_v4_prepared cid
       (if cid = ''adn'' then decision else ''ALLOW'') (hs cid)) SUPPORTED_COMPONENTS,
     pb_orchestrator = demo_v4_entries ORCHESTRATOR_RECEIPT_DOMAIN ph,
     pb_not_before = ''2024-01-01T00:00:00Z'', pb_not_after = ''2024-01-03T00:00:00Z'', pb_artifact = receipt_artifact r\<rparr>"

lemma demo_v4_bundles_resolve:
  "resolve_verification_bundles lz (demo_v4_prepared_receipt decision hs r ph) demo_v4_loaded (PStr ''2024-01-02T00:00:00Z'') =
     Inr (demo_v4_bundles decision hs r ph)"
proof -
  have roles: "the (map_of COMPONENT_ROLES c) \<in> set SUPPORTED_ROLES" if "c \<in> set SUPPORTED_COMPONENTS" for c
    using that by (auto simp: SUPPORTED_COMPONENTS_def SUPPORTED_ROLES_def COMPONENT_ROLES_def)
  have orch: "ORCHESTRATOR_ROLE \<in> set SUPPORTED_ROLES" by (simp add: SUPPORTED_ROLES_def)
  let ?pc = "\<lambda>cid. demo_v4_prepared cid (if cid = ''adn'' then decision else ''ALLOW'') (hs cid)"
  have by_id: "components_by_id (map ?pc SUPPORTED_COMPONENTS) cid = Some (?pc cid)" if "cid \<in> set SUPPORTED_COMPONENTS" for cid
    using that by (auto simp: SUPPORTED_COMPONENTS_def components_by_id_def demo_v4_prepared_def)
  have cand: "candidates_of (demo_v4_prepared_receipt decision hs r ph) =
      map (\<lambda>cid. \<lparr>ca_id = cid, ca_role = the (map_of COMPONENT_ROLES cid), ca_bundle = demo_v4_entries COMPONENT_VERDICT_DOMAIN (hs cid),
        ca_not_before = ''2024-01-01T00:00:00Z'', ca_not_after = ''2024-01-03T00:00:00Z'', ca_artifact = pc_artifact (?pc cid)\<rparr>)
        SUPPORTED_COMPONENTS @ [\<lparr>ca_id = ''shield_orchestrator'', ca_role = ORCHESTRATOR_ROLE,
          ca_bundle = demo_v4_entries ORCHESTRATOR_RECEIPT_DOMAIN ph, ca_not_before = ''2024-01-01T00:00:00Z'',
          ca_not_after = ''2024-01-03T00:00:00Z'', ca_artifact = receipt_artifact r\<rparr>]"
    by (auto simp: candidates_of_def demo_v4_prepared_receipt_def by_id) (simp_all add: demo_v4_prepared_def)
  have n: "length (demo_v4_entries d h) = 2"
    "filter (\<lambda>p. pe_algorithm p \<noteq> ''classical-ed25519'') (demo_v4_entries d h) = [demo_v4_entry d h ''ml-dsa'' ''fips204-ml-dsa-65-v1'']" for d h
    by (simp_all add: demo_v4_entries_def demo_v4_entry_def)
  have "map_r (resolve_candidate lz demo_v4_loaded (PStr ''2024-01-02T00:00:00Z'')) (candidates_of (demo_v4_prepared_receipt decision hs r ph)) =
      Inr (demo_v4_bundles decision hs r ph)"
    unfolding cand demo_v4_bundles_def
    using roles by (simp add: SUPPORTED_COMPONENTS_def demo_v4_resolves orch)
  moreover have "length (concat (map ca_bundle (candidates_of (demo_v4_prepared_receipt decision hs r ph)))) = 12"
    "length (filter (\<lambda>p. pe_algorithm p \<noteq> ''classical-ed25519'') (concat (map ca_bundle (candidates_of (demo_v4_prepared_receipt decision hs r ph))))) = 6"
    "length (candidates_of (demo_v4_prepared_receipt decision hs r ph)) = 6"
    unfolding cand by (simp_all add: SUPPORTED_COMPONENTS_def n)
  moreover have "length (pb_components (demo_v4_prepared_receipt decision hs r ph)) = 5"
    "map pc_component_id (pb_components (demo_v4_prepared_receipt decision hs r ph)) = SUPPORTED_COMPONENTS"
    by (simp_all add: demo_v4_prepared_receipt_def SUPPORTED_COMPONENTS_def demo_v4_prepared_def)
  ultimately show ?thesis
    by (simp add: resolve_verification_bundles_def need_policy_def EXPECTED_COMPONENT_BUNDLE_COUNT_def Let_def
      MAX_SIGNATURE_BUNDLES_def MAX_VERIFICATION_CALLS_def MAX_PQC_VERIFICATION_CALLS_def flip: set_map)
qed

section \<open>Trust\<close>

lemma demo_v4_cross_check:
  "cross_check_component_signature_results [(''component_signature_results'', demo_v4_results)]
     (preflight_component_summaries (demo_v4_bundles decision hs r ph)) = Inr ()"
proof -
  have e: "map (\<lambda>p. PStr (pe_algorithm p)) (demo_v4_entries d h) = [PStr ''classical-ed25519'', PStr ''ml-dsa'']"
    "map (\<lambda>p. PStr (pe_standard_profile p)) (demo_v4_entries d h) = [PStr ''rfc8032-ed25519-v1'', PStr ''fips204-ml-dsa-65-v1'']" for d h
    by (simp_all add: demo_v4_entries_def demo_v4_entry_def)
  have "preflight_component_summaries (demo_v4_bundles decision hs r ph) = map (\<lambda>(cid, role).
      [(''component_id'', PStr cid), (''component_role'', PStr role),
       (''verified_algorithms'', PList [PStr ''classical-ed25519'', PStr ''ml-dsa'']),
       (''verified_standard_profiles'', PList [PStr ''rfc8032-ed25519-v1'', PStr ''fips204-ml-dsa-65-v1''])]) COMPONENT_ROLES"
    by (simp add: preflight_component_summaries_def demo_v4_bundles_def SUPPORTED_COMPONENTS_def COMPONENT_ROLES_def
      demo_v4_resolved_def e)
  moreover have "cross_check_component_signature_results [(''component_signature_results'', demo_v4_results)] (map (\<lambda>(cid, role).
      [(''component_id'', PStr cid), (''component_role'', PStr role),
       (''verified_algorithms'', PList [PStr ''classical-ed25519'', PStr ''ml-dsa'']),
       (''verified_standard_profiles'', PList [PStr ''rfc8032-ed25519-v1'', PStr ''fips204-ml-dsa-65-v1''])]) COMPONENT_ROLES) = Inr ()"
    by code_simp
  ultimately show ?thesis by simp
qed

lemma demo_v4_cross_check_field:
  "dget r ''component_signature_results'' = demo_v4_results \<Longrightarrow>
     cross_check_component_signature_results r ss =
     cross_check_component_signature_results [(''component_signature_results'', demo_v4_results)] ss"
  by (simp add: cross_check_component_signature_results_def)

lemma demo_v4_component_lookups:
  assumes "c \<in> set (demo_v4_components cid decision hs)"
  shows "dget c ''key_registry_version'' = PInt 1" "dget c ''not_before'' = PStr ''2024-01-01T00:00:00Z''"
    "dget c ''not_after'' = PStr ''2024-01-03T00:00:00Z''"
proof -
  obtain i d h where "c = demo_v4_component i d h"
    using assms by (auto simp: demo_v4_components_def)
  then show "dget c ''key_registry_version'' = PInt 1" "dget c ''not_before'' = PStr ''2024-01-01T00:00:00Z''"
    "dget c ''not_after'' = PStr ''2024-01-03T00:00:00Z''"
    by (simp_all add: demo_v4_component_def demo_v4_payload_def)
qed

lemma dict_list_map: "dict_list (PList (map PDict ms)) = ms"
  by (simp add: dict_list_def comp_def)

lemma demo_v4_trust:
  fixes decision rh ph :: string and m :: pydict and hs :: "string \<Rightarrow> string"
  assumes "demo_v4_handoff decision m"
  defines "r \<equiv> demo_v4_receipt ''adn'' decision hs decision m rh ph"
  shows "trust_checks lz (demo_v4_inputs (PDict r)) 1 r (demo_v4_prepared_receipt decision hs r ph) =
    Inr (demo_v4_loaded, demo_v4_bundles decision hs r ph)"
proof -
  have f: "dget r ''component_verdicts'' = PList (map PDict (demo_v4_components ''adn'' decision hs))"
    "dget r ''key_registry_version'' = PInt 1" "dget r ''not_before'' = PStr ''2024-01-01T00:00:00Z''"
    "dget r ''not_after'' = PStr ''2024-01-03T00:00:00Z''" "dget r ''component_signature_results'' = demo_v4_results"
    by (simp_all add: r_def demo_v4_receipt_def demo_v4_receipt_payload_def)
  have v: "enforce_registry_versions r demo_v4_loaded 1 = Inr ()"
    by (auto simp: enforce_registry_versions_def res_simps Let_def need_registry_def demo_v4_loaded_def f dict_list_map
        demo_v4_component_lookups num_eq_def num_ratio_def)
  have fr: "enforce_freshness lz r (PStr ''2024-01-02T00:00:00Z'') = Inr ()"
    by (auto simp: enforce_freshness_def res_simps f dict_list_map demo_v4_component_lookups demo_v4_times)
  show ?thesis
    using v fr demo_v4_registry_loads[of lz, folded demo_v4_loaded_def] demo_v4_bundles_resolve[of lz decision hs r ph]
      demo_v4_cross_check[of decision hs r ph] demo_v4_cross_check_field[OF f(5)]
    by (simp add: trust_checks_def demo_v4_inputs_def)
qed

lemma demo_v4_prepares:
  fixes decision rh ph :: string and m :: pydict and hs :: "string \<Rightarrow> string"
  assumes "\<forall>c. is_sha256_hex (hs c)" "is_sha256_hex ph"
  defines "r \<equiv> demo_v4_receipt ''adn'' decision hs decision m rh ph"
  shows "preflight_receipt_bundles r = Inr (demo_v4_prepared_receipt decision hs r ph)"
proof -
  have f: "dget r ''component_verdicts'' = PList (map PDict (demo_v4_components ''adn'' decision hs))"
    "dget r ''not_before'' = PStr ''2024-01-01T00:00:00Z''" "dget r ''not_after'' = PStr ''2024-01-03T00:00:00Z''"
    "dget r ''signed_payload_hash'' = PStr ph" "dget r ''signature_bundle'' = demo_v4_bundle ORCHESTRATOR_RECEIPT_DOMAIN ph"
    by (simp_all add: r_def demo_v4_receipt_def demo_v4_receipt_payload_def)
  have "map_r prepare_component (demo_v4_components ''adn'' decision hs) =
      Inr (pb_components (demo_v4_prepared_receipt decision hs r ph))"
    using assms(1) demo_v4_component_prepares
    by (simp add: demo_v4_components_def demo_v4_prepared_receipt_def SUPPORTED_COMPONENTS_def)
  then show ?thesis
    using demo_v4_bundle_ok[OF assms(2), of ORCHESTRATOR_RECEIPT_DOMAIN]
    by (simp add: preflight_receipt_bundles_def f dict_list_map str_of_def demo_v4_prepared_receipt_def)
qed

lemma demo_v4_padded:
  assumes "dget r ''component_verdicts'' = PList (map PDict (demo_v4_components '' adn'' decision hs))"
  shows "preflight_receipt_bundles r = Inl (Uncaught (''KeyError: '' @ repr_str '' adn''))"
proof -
  have "map_of COMPONENT_ROLES '' adn'' = None" by code_simp
  then have "prepare_component (demo_v4_component '' adn'' decision h) = Inl (Uncaught (''KeyError: '' @ repr_str '' adn''))" for h
    by (simp add: prepare_component_def demo_v4_component_def demo_v4_payload_def str_of_def Let_def)
  moreover have "dict_list (dget r ''component_verdicts'') = demo_v4_components '' adn'' decision hs"
    by (simp add: assms dict_list_map)
  ultimately show ?thesis
    by (simp add: preflight_receipt_bundles_def demo_v4_components_def)
qed

section \<open>Hashes\<close>

definition demo_v4_hash :: "string \<Rightarrow> string \<Rightarrow> string" where
  "demo_v4_hash decision cid = (case signed_payload_hash COMPONENT_VERDICT_DOMAIN
     (demo_v4_payload cid (if cid \<in> {''adn'', '' adn''} then decision else ''ALLOW'')) of Inr h \<Rightarrow> h | Inl _ \<Rightarrow> demo_v4_hex)"

lemma signed_payload_hash_hex: "signed_payload_hash d m = Inr h \<Longrightarrow> is_sha256_hex h"
  by (auto simp: signed_payload_hash_def res_simps)

lemma demo_v4_hash_hex: "is_sha256_hex (demo_v4_hash decision cid)"
  using demo_v4_hex_ok by (auto simp: demo_v4_hash_def signed_payload_hash_hex split: sum.splits)

lemma signed_payload_hash_total:
  assumes "json_exact (PDict m)" "no_null (PDict m)" "d \<in> {ORCHESTRATOR_RECEIPT_DOMAIN, COMPONENT_VERDICT_DOMAIN}"
  shows "\<exists>h. signed_payload_hash d m = Inr h"
  using canonical_json_total[OF assms(1,2)] assms(3) by (auto simp: signed_payload_hash_def v4_check_def)

lemma canonical_json_bounded:
  assumes "json_exact (PDict m)" "no_null (PDict m)" "json_chars (PDict m) \<le> c" "json_nodes (PDict m) \<le> n"
    "6 * c + 6 * n \<le> k"
  shows "\<exists>s. to_canonical_json m = Inr s \<and> length (utf8 s) \<le> k"
proof -
  obtain s where s: "to_canonical_json m = Inr s" "length (utf8 s) \<le> 6 * json_bytes (PDict m) + 6 * json_nodes (PDict m)"
    using canonical_json_total[OF assms(1,2)] by blast
  then have "length (utf8 s) \<le> k" using assms(3-5) json_bytes_le(1)[of "PDict m"] by linarith
  then show ?thesis using s(1) by blast
qed

text \<open>The exact values keep their form when fields are taken away.\<close>

lemma exact_filter:
  "json_exact (PDict m) \<Longrightarrow> json_exact (PDict (filter (\<lambda>(k, _). P k) m))"
  "no_null (PDict m) \<Longrightarrow> no_null (PDict (filter (\<lambda>(k, _). P k) m))"
proof -
  have "dkeys (filter (\<lambda>(k, _). P k) m) = filter P (dkeys m)" by (induction m) (auto simp: dkeys_def)
  moreover have "json_exact_items m \<Longrightarrow> json_exact_items (filter (\<lambda>(k, _). P k) m)" by (induction m) auto
  ultimately show "json_exact (PDict m) \<Longrightarrow> json_exact (PDict (filter (\<lambda>(k, _). P k) m))" by simp
  show "no_null (PDict m) \<Longrightarrow> no_null (PDict (filter (\<lambda>(k, _). P k) m))" by (induction m) auto
qed

lemma demo_v4_component_integrity:
  assumes "length cid \<le> 20" "decision \<in> {''ALLOW'', ''DENY''}"
  defines "d \<equiv> if cid \<in> {''adn'', '' adn''} then decision else ''ALLOW''"
  shows "validate_component_canonical_integrity (demo_v4_component cid d (demo_v4_hash decision cid)) = Inr ()"
proof -
  have p: "unsigned_component_payload (demo_v4_component cid d h) = demo_v4_payload cid d" for h
    by (simp add: unsigned_component_payload_def demo_v4_component_def demo_v4_payload_def)
  have "d \<in> {''ALLOW'', ''DENY''}" using assms(2) by (simp add: d_def)
  note s = demo_v4_component_size[OF demo_v4_hex_ok assms(1) this]
  have "json_exact (PDict (demo_v4_component cid d demo_v4_hex))" "no_null (PDict (demo_v4_component cid d demo_v4_hex))"
    using s by simp_all
  note e = exact_filter(1)[OF this(1)] exact_filter(2)[OF this(2)]
  have "json_exact (PDict (demo_v4_payload cid d))" "no_null (PDict (demo_v4_payload cid d))"
    unfolding p[of demo_v4_hex, symmetric] unsigned_component_payload_def by (rule e)+
  then obtain h where h: "signed_payload_hash COMPONENT_VERDICT_DOMAIN (demo_v4_payload cid d) = Inr h"
    using signed_payload_hash_total by blast
  moreover have "demo_v4_hash decision cid = h" using h by (simp add: demo_v4_hash_def d_def)
  moreover have "dget (demo_v4_component cid d h) ''signed_payload_hash'' = PStr h"
    by (simp add: demo_v4_component_def demo_v4_payload_def)
  ultimately show ?thesis by (simp add: validate_component_canonical_integrity_def p)
qed

definition demo_v4_body :: "string \<Rightarrow> string \<Rightarrow> pydict \<Rightarrow> pydict" where
  "demo_v4_body cid decision m = demo_v4_receipt_payload cid decision (demo_v4_hash decision) decision m"

definition demo_v4_rh :: "string \<Rightarrow> string \<Rightarrow> pydict \<Rightarrow> string" where
  "demo_v4_rh cid decision m = (case v4_receipt_hash (demo_v4_body cid decision m) of Inr h \<Rightarrow> h | Inl _ \<Rightarrow> demo_v4_hex)"

definition demo_v4_ph :: "string \<Rightarrow> string \<Rightarrow> pydict \<Rightarrow> string" where
  "demo_v4_ph cid decision m = (case signed_payload_hash ORCHESTRATOR_RECEIPT_DOMAIN (demo_v4_body cid decision m) of
     Inr h \<Rightarrow> h | Inl _ \<Rightarrow> demo_v4_hex)"

definition demo_v4_case :: "string \<Rightarrow> string \<Rightarrow> pydict \<Rightarrow> pydict" where
  "demo_v4_case cid decision m = demo_v4_receipt cid decision (demo_v4_hash decision) decision m
     (demo_v4_rh cid decision m) (demo_v4_ph cid decision m)"

lemma demo_v4_case_hex: "is_sha256_hex (demo_v4_rh cid decision m)" "is_sha256_hex (demo_v4_ph cid decision m)"
  using demo_v4_hex_ok
  by (auto simp: demo_v4_rh_def demo_v4_ph_def v4_receipt_hash_def res_simps signed_payload_hash_hex split: sum.splits)

lemma demo_v4_case_fields:
  "dget (demo_v4_case cid decision m) ''component_verdicts'' =
     PList (map PDict (demo_v4_components cid decision (demo_v4_hash decision)))"
  "dget (demo_v4_case cid decision m) ''signature_bundle'' = demo_v4_bundle ORCHESTRATOR_RECEIPT_DOMAIN (demo_v4_ph cid decision m)"
  "dget (demo_v4_case cid decision m) ''receipt_hash'' = PStr (demo_v4_rh cid decision m)"
  "dget (demo_v4_case cid decision m) ''signed_payload_hash'' = PStr (demo_v4_ph cid decision m)"
  "dget (demo_v4_case cid decision m) ''final_outcome'' = PStr decision"
  "dget (demo_v4_case cid decision m) ''adamantineos_handoff'' = PDict m"
  "dget (demo_v4_case cid decision m) ''request_id'' = PStr ''req''"
  by (simp_all add: demo_v4_case_def demo_v4_receipt_def demo_v4_receipt_payload_def)

lemma demo_v4_bundle_size:
  assumes "is_sha256_hex h" "d \<in> {COMPONENT_VERDICT_DOMAIN, ORCHESTRATOR_RECEIPT_DOMAIN}"
  shows "validate_signature_bundle_canonical_size (demo_v4_bundle d h) = Inr ()"
proof -
  obtain b where b: "demo_v4_bundle d h = PDict b" by (simp add: demo_v4_bundle_def)
  have n: "length demo_v4_hex = 64" "length h = 64" "length d \<le> 100" "length (show_int 1) = 1"
    using hex_required_v4(2)[OF assms(1)] assms(2)
    by (auto simp: demo_v4_hex_def COMPONENT_VERDICT_DOMAIN_def ORCHESTRATOR_RECEIPT_DOMAIN_def show_int_def show_nat.simps)
  note d = demo_v4_bundle_def demo_v4_signature_def SIGNATURE_POLICY_def SIGNATURE_BUNDLE_SCHEMA_VERSION_def dkeys_def n(1,2,4)
  have "json_chars (demo_v4_bundle d h) \<le> 2000" "json_nodes (demo_v4_bundle d h) \<le> 50" using n(3) by (simp_all add: d)
  moreover have "json_exact (demo_v4_bundle d h)" "no_null (demo_v4_bundle d h)"
    using n(3) by (simp_all add: d short_textI signed_integer_ok_def MAX_SIGNED_INTEGER_BITS_def)
  ultimately obtain s where "to_canonical_json b = Inr s" "length (utf8 s) \<le> 20000"
    using canonical_json_bounded[of b 2000 50 20000] unfolding b by auto
  then show ?thesis
    by (simp add: b validate_signature_bundle_canonical_size_def within_budget_def require_byte_budget_def
      MAX_SIGNATURE_BUNDLE_BYTES_def)
qed

lemma demo_v4_integrity:
  assumes "demo_v4_variant cid decision" "demo_v4_handoff decision m"
  shows "validate_preflighted_receipt_integrity (demo_v4_case cid decision m) = Inr (demo_v4_case cid decision m)"
proof -
  let ?r = "demo_v4_case cid decision m"
  have hs: "\<forall>c. is_sha256_hex (demo_v4_hash decision c)" by (simp add: demo_v4_hash_hex)
  note s = demo_v4_receipt_size[OF assms(1) hs demo_v4_case_hex[of cid decision m] assms(2), folded demo_v4_case_def]
  obtain t where t: "to_canonical_json ?r = Inr t" "length (utf8 t) \<le> 131072"
    using canonical_json_bounded[OF s(4,5,1,2), of 131072] by auto
  have b: "receipt_byte_budget ?r = Inr ()"
    using t by (simp add: receipt_byte_budget_def within_budget_def require_byte_budget_def MAX_CANONICAL_RECEIPT_BYTES_def)
  have u: "unsigned_receipt_payload ?r = demo_v4_body cid decision m"
    by (simp add: unsigned_receipt_payload_def demo_v4_case_def demo_v4_body_def demo_v4_receipt_def demo_v4_receipt_payload_def
      UNSIGNED_RECEIPT_EXCLUDED_FIELDS_def)
  have e: "json_exact (PDict (demo_v4_body cid decision m))" "no_null (PDict (demo_v4_body cid decision m))"
    unfolding u[symmetric] unsigned_receipt_payload_def by (rule exact_filter(1)[OF s(4)], rule exact_filter(2)[OF s(5)])
  obtain rh ph where "v4_receipt_hash (demo_v4_body cid decision m) = Inr rh"
    "signed_payload_hash ORCHESTRATOR_RECEIPT_DOMAIN (demo_v4_body cid decision m) = Inr ph"
    using canonical_json_total[OF e] signed_payload_hash_total[OF e, of ORCHESTRATOR_RECEIPT_DOMAIN]
    by (auto simp: v4_receipt_hash_def)
  then have h: "\<exists>ph. receipt_hashes ?r = Inr ph"
    by (simp add: receipt_hashes_def u Let_def demo_v4_case_fields demo_v4_rh_def demo_v4_ph_def)
  have c: "validate_component_canonical_integrity c = Inr () \<and>
      validate_signature_bundle_canonical_size (dget c ''signature_bundle'') = Inr ()"
    if "c \<in> set (demo_v4_components cid decision (demo_v4_hash decision))" for c
  proof -
    let ?d = "\<lambda>i. if i \<in> {''adn'', '' adn''} then decision else ''ALLOW''"
    have "demo_v4_components cid decision hs = map (\<lambda>i. demo_v4_component i (?d i) (hs i)) (cid # tl SUPPORTED_COMPONENTS)" for hs
      using assms(1) by (auto simp: demo_v4_components_def demo_v4_variant_def SUPPORTED_COMPONENTS_def)
    then have "c \<in> (\<lambda>i. demo_v4_component i (?d i) (demo_v4_hash decision i)) ` set (cid # tl SUPPORTED_COMPONENTS)"
      using that by (simp only: set_map)
    then obtain i where i: "c = demo_v4_component i (?d i) (demo_v4_hash decision i)" "i \<in> set (cid # tl SUPPORTED_COMPONENTS)"
      by (rule imageE)
    have "list_all (\<lambda>i. length i \<le> 20) (cid # tl SUPPORTED_COMPONENTS)"
      using assms(1) by (auto simp: demo_v4_variant_def SUPPORTED_COMPONENTS_def)
    then have l: "length i \<le> 20" using i(2) by (simp only: list_all_iff)
    have "dget c ''signature_bundle'' = demo_v4_bundle COMPONENT_VERDICT_DOMAIN (demo_v4_hash decision i)"
      by (simp add: i(1) demo_v4_component_def demo_v4_payload_def)
    then show ?thesis
      using demo_v4_component_integrity[OF l, of decision] assms(1) demo_v4_bundle_size[OF demo_v4_hash_hex]
      by (simp add: i(1) demo_v4_variant_def)
  qed
  show ?thesis
    using b c h demo_v4_bundle_size[OF demo_v4_case_hex(2)]
    by (auto simp: validate_preflighted_receipt_integrity_def res_simps Let_def demo_v4_case_fields dict_list_map)
qed

section \<open>The runs\<close>

lemma demo_v4_reaches:
  assumes "demo_v4_variant cid decision" "demo_v4_handoff decision m"
  defines "inp \<equiv> demo_v4_inputs (PDict (demo_v4_case cid decision m))"
  shows "check_inputs inp = Inr (demo_v4_hex, ''req'', 1)"
    "preflight_stage inp False demo_v4_hex = Inr (demo_v4_case cid decision m)"
proof -
  have "require_bounded_text (PStr ''req'') f = Inr ''req''" "\<not> py_blank ''req''" for f by code_simp+
  then show "check_inputs inp = Inr (demo_v4_hex, ''req'', 1)"
    using hex_required_v4(1)[OF demo_v4_hex_ok]
    by (simp add: check_inputs_def inp_def demo_v4_inputs_def str_of_def require_signed_integer_def signed_integer_ok_def
        MAX_SIGNED_INTEGER_BITS_def)
  have hs: "\<forall>c. is_sha256_hex (demo_v4_hash decision c)" by (simp add: demo_v4_hash_hex)
  note s = demo_v4_receipt_size[OF assms(1) hs demo_v4_case_hex[of cid decision m] assms(2), folded demo_v4_case_def]
  have "bounded_json_snapshot (PDict (demo_v4_case cid decision m)) = Inr (PDict (demo_v4_case cid decision m))"
    using order_trans[OF s(1), of 131072] order_trans[OF s(2), of 4096] order_trans[OF s(3), of 16] s(4)
    by (intro small_snapshot) simp_all
  then show "preflight_stage inp False demo_v4_hex = Inr (demo_v4_case cid decision m)"
    using demo_v4_preflight[OF assms(1) hs demo_v4_case_hex[of cid decision m] assms(2), folded demo_v4_case_def]
    by (simp add: preflight_stage_def inp_def demo_v4_inputs_def)
qed

definition demo_v4_ready :: "string \<Rightarrow> pydict \<Rightarrow> v4_ready" where
  "demo_v4_ready decision m = (let r = demo_v4_case ''adn'' decision m in
     \<lparr>rd_valid = r, rd_verifier = (\<lambda>_ _. Inr (PBool True)), rd_registry = demo_v4_loaded,
      rd_resolved = demo_v4_bundles decision (demo_v4_hash decision) r (demo_v4_ph ''adn'' decision m)\<rparr>)"

lemma demo_v4_prepare_verification:
  assumes "demo_v4_variant ''adn'' decision" "demo_v4_handoff decision m"
  shows "prepare_verification lz (demo_v4_inputs (PDict (demo_v4_case ''adn'' decision m))) False = Inr (demo_v4_ready decision m)"
proof -
  let ?r = "demo_v4_case ''adn'' decision m"
  let ?inp = "demo_v4_inputs (PDict ?r)"
  have hs: "\<forall>c. is_sha256_hex (demo_v4_hash decision c)" by (simp add: demo_v4_hash_hex)
  have p: "preflight_receipt_bundles ?r = Inr (demo_v4_prepared_receipt decision (demo_v4_hash decision) ?r (demo_v4_ph ''adn'' decision m))"
    using demo_v4_prepares[OF hs demo_v4_case_hex(2)[of "''adn''" decision m], of decision m] by (simp add: demo_v4_case_def)
  have t: "trust_checks lz ?inp 1 ?r (demo_v4_prepared_receipt decision (demo_v4_hash decision) ?r (demo_v4_ph ''adn'' decision m)) =
      Inr (demo_v4_loaded, demo_v4_bundles decision (demo_v4_hash decision) ?r (demo_v4_ph ''adn'' decision m))"
    using demo_v4_trust[OF assms(2)] by (simp add: demo_v4_case_def)
  have "bounded_identifier_set (Iterator (\<lambda>_. Inl None)) n f = Inr {}" for n f
    by (simp add: bounded_identifier_set_def identifier_loop.simps)
  then have "replay_stage ?inp ''req'' ?r = Inr (\<lambda>_ _. Inr (PBool True))"
    by (simp add: replay_stage_def demo_v4_inputs_def demo_v4_case_fields)
  then show ?thesis
    using demo_v4_reaches[OF assms] p t demo_v4_integrity[OF assms]
    by (simp add: prepare_verification_def demo_v4_ready_def Let_def)
qed

lemma demo_v4_verifies:
  assumes "demo_v4_variant ''adn'' decision" "demo_v4_handoff decision m"
  shows "\<exists>components orchestrator. verify_shield_v4_orchestrator_receipt lz (demo_v4_inputs (PDict (demo_v4_case ''adn'' decision m))) =
    verified_result (demo_v4_ready decision m) components orchestrator"
proof -
  have "\<forall>b \<in> set (rd_resolved (demo_v4_ready decision m)). \<forall>e \<in> set (rb_entries b). accepts (rd_verifier (demo_v4_ready decision m)) e"
    by (simp add: demo_v4_ready_def accepts_def Let_def)
  then show ?thesis
    using all_accepted_verifies[OF demo_v4_prepare_verification[OF assms, of lz]]
    by (metis verify_shield_v4_orchestrator_receipt_def fst_conv)
qed

lemma demo_v4_result:
  assumes "demo_v4_variant ''adn'' decision" "demo_v4_handoff decision [(''handoff_allowed'', v)]"
  shows "\<exists>res. verify_shield_v4_orchestrator_receipt lz (demo_v4_inputs (PDict (demo_v4_case ''adn'' decision [(''handoff_allowed'', v)]))) =
    Inr res \<and> vr_verified res \<and> vr_state res = fst (state_for_final_outcome decision) \<and> vr_final_outcome res = Some decision \<and> vr_handoff_allowed res = py_truthy v"
  using demo_v4_verifies[OF assms, of lz]
  by (cases "state_for_final_outcome decision")
    (auto simp: verified_result_def demo_v4_ready_def Let_def demo_v4_case_fields str_of_def)


lemma demo_v4_no_flag:
  assumes "demo_v4_variant ''adn'' decision"
  shows "verify_shield_v4_orchestrator_receipt lz (demo_v4_inputs (PDict (demo_v4_case ''adn'' decision []))) =
    Inl (''KeyError: '' @ repr_str ''handoff_allowed'')"
proof -
  have "demo_v4_handoff decision []" by (simp add: demo_v4_handoff_def)
  from demo_v4_verifies[OF assms this, of lz] show ?thesis
    by (cases "state_for_final_outcome decision")
      (auto simp: verified_result_def demo_v4_ready_def Let_def demo_v4_case_fields str_of_def)
qed

lemma demo_v4_padded_escapes:
  assumes "demo_v4_variant '' adn'' decision" "demo_v4_handoff decision m"
  shows "verify_receipt_v4 lz (demo_v4_inputs (PDict (demo_v4_case '' adn'' decision m))) False =
    (Inl (''KeyError: '' @ repr_str '' adn''), empty_transcript)"
  using demo_v4_reaches[OF assms] demo_v4_padded[OF demo_v4_case_fields(1)]
  by (simp add: verify_receipt_v4_def prepare_verification_def bundles_end_def)

end
