(* ===== verification/Shield_V4_Verified.thy ===== *)
theory Shield_V4_Verified
  imports Demo_Receipt_V4
begin

text \<open>
  What the verdict of the Shield v4 verifier
  \<open>src/adamantine/v1/integrations/shield_orchestrator_receipt_v4_verifier.py\<close> is worth: a verified
  result means signatures of trusted keys over the whole contract. Then the exceptions the
  fail-closed verifier lets escape, and the hand-off flag it reports.
\<close>

section \<open>Verified results\<close>

lemma verified_result_signed:
  assumes "verify_shield_v4_orchestrator_receipt lz inp = Inr res" "vr_verified res"
  obtains rd :: v4_ready where "vr_receipt res = Some (rd_valid rd)" "load_trusted_key_registry lz (vi_registry inp) = Inr (rd_registry rd)"
    "vi_verifier inp = Some (rd_verifier rd)"
    "list_all (artifact_signed lz (rd_registry rd) (vi_time inp) (rd_verifier rd)) (signed_artifacts (rd_valid rd))"
proof -
  obtain tr where run: "verify_receipt_v4 lz inp False = (Inr res, tr)"
    using assms(1) by (cases "verify_receipt_v4 lz inp False") (auto simp: verify_shield_v4_orchestrator_receipt_def)
  then obtain rd results components orchestrator tr0 where rd: "prepare_verification lz inp False = Inr rd"
    "verify_waves (rd_verifier rd) (wave_steps (rd_resolved rd)) (\<lambda>_. []) \<lparr>cb_total = 0, cb_pqc = 0\<rparr> tr0 = (Inr results, tr)"
    "verified_result rd components orchestrator = Inr res"
    using assms(2) by (rule verified_run)
  obtain h rid minimum prepared where p: "preflight_receipt_bundles (rd_valid rd) = Inr prepared"
    "replay_stage inp rid (rd_valid rd) = Inr (rd_verifier rd)"
    "trust_checks lz inp minimum (rd_valid rd) prepared = Inr (rd_registry rd, rd_resolved rd)"
    using rd(1) by (rule prepare_verification_ok) auto
  have "vi_verifier inp = Some (rd_verifier rd)"
    using p(2) by (auto simp: replay_stage_def res_simps split: option.splits prod.splits)
  then show thesis
    using that[OF verified_result_ok(1)[OF rd(3)] trust_checks_ok(1)[OF p(3)]] waves_sign_artifacts[OF p(1,3) rd(2)] by simp
qed

text \<open>
  C23: A verified receipt is signed by trusted keys throughout. When the verifier reports a receipt
  as verified, the registry of the caller loads, and for each of the six artifacts (the five
  component verdicts and the receipt) the Ed25519 and ML-DSA signatures are present and every
  signature of its bundle names an active key of the registry with the role of that artifact, its
  id, version and algorithm, valid now and over the whole window of the artifact, under which the
  injected callback returned \<open>True\<close>.
\<close>

theorem v4_verified_signatures:
  assumes "verify_shield_v4_orchestrator_receipt lz inp = Inr res" "vr_verified res"
  shows "\<exists>r reg sv. vr_receipt res = Some r \<and> load_trusted_key_registry lz (vi_registry inp) = Inr reg \<and>
    vi_verifier inp = Some sv \<and> list_all (artifact_signed lz reg (vi_time inp) sv) (signed_artifacts r)"
  using verified_result_signed[OF assms] by metis

theorem v4_verified_signatures_witness:
  "\<exists>res r reg sv. verify_shield_v4_orchestrator_receipt utc_host
       (demo_v4_inputs (PDict (demo_v4_case ''adn'' ''ALLOW'' [(''handoff_allowed'', PBool True)]))) = Inr res \<and>
     vr_receipt res = Some r \<and> load_trusted_key_registry utc_host demo_v4_registry = Inr reg \<and>
     list_all (artifact_signed utc_host reg (PStr ''2024-01-02T00:00:00Z'') sv) (signed_artifacts r)"
proof -
  obtain res where res: "verify_shield_v4_orchestrator_receipt utc_host
      (demo_v4_inputs (PDict (demo_v4_case ''adn'' ''ALLOW'' [(''handoff_allowed'', PBool True)]))) = Inr res" "vr_verified res"
    using demo_v4_result[of "''ALLOW''" "PBool True" utc_host] by (auto simp: demo_v4_variant_def demo_v4_handoff_def)
  from v4_verified_signatures[OF this] show ?thesis
    unfolding res(1) by (auto simp: demo_v4_inputs_def)
qed

text \<open>
  C24: The staged verifier enforces the whole contract, and its answer is never more than evidence.
  A verified receipt is one the one-shot validation of \<open>shield_orchestrator_receipt_v4.py\<close> accepts
  for the expected context hash (so all its hashes are recomputed and match), it answers the
  expected request, is not in the replay or deny lists, names the registry version of the
  caller, which is not rolled back, and lies with each of its five components inside its
  validity window. The five are the supported components, each once. The reported state is that of the dominating component decision, ALLOW only
  when all five decisions read \<open>ALLOW\<close>, and it is never a final approval.
\<close>

theorem v4_verified_meets_contract:
  assumes "verify_shield_v4_orchestrator_receipt lz inp = Inr res" "vr_verified res"
  shows "\<exists>h rid minimum r reg. vi_context_hash inp = PStr h \<and> vi_request_id inp = PStr rid \<and>
    vi_minimum inp = PInt minimum \<and> vr_receipt res = Some r \<and>
    validate_shield_v4_receipt_contract h (vi_receipt inp) = Inr r \<and>
    dget r ''request_id'' = PStr rid \<and> not_replayed inp r \<and>
    load_trusted_key_registry lz (vi_registry inp) = Inr reg \<and> minimum \<le> kr_registry_version reg \<and>
    py_eq (dget r ''key_registry_version'') (PInt (kr_registry_version reg)) \<and>
    length (dict_list (dget r ''component_verdicts'')) = 5 \<and>
    set (map (\<lambda>c. str_of (dget c ''component_id'')) (dict_list (dget r ''component_verdicts''))) = set SUPPORTED_COMPONENTS \<and>
    list_all (fresh lz (vi_time inp)) (r # dict_list (dget r ''component_verdicts'')) \<and>
    (vr_state res, vr_reason_id res) =
      state_for_final_outcome (expected_final_outcome (dict_list (dget r ''component_verdicts''))) \<and>
    (vr_state res \<noteq> VERIFIED_ALLOW_EVIDENCE_CONTINUE_CHECKS \<or>
      list_all (\<lambda>c. dget c ''decision'' = PStr ''ALLOW'') (dict_list (dget r ''component_verdicts''))) \<and>
    \<not> vr_final_approval res"
proof -
  obtain tr where "verify_receipt_v4 lz inp False = (Inr res, tr)"
    using assms(1) by (cases "verify_receipt_v4 lz inp False") (auto simp: verify_shield_v4_orchestrator_receipt_def)
  then obtain rd components orchestrator where rd: "prepare_verification lz inp False = Inr rd"
    "verified_result rd components orchestrator = Inr res"
    using assms(2) by (rule verified_run)
  obtain h rid minimum r prepared where p: "check_inputs inp = Inr (h, rid, minimum)"
    "preflight_stage inp False h = Inr r" "preflight_receipt_bundles r = Inr prepared"
    "replay_stage inp rid r = Inr (rd_verifier rd)"
    "trust_checks lz inp minimum r prepared = Inr (rd_registry rd, rd_resolved rd)"
    "validate_preflighted_receipt_integrity r = Inr r" "rd_valid rd = r"
    using rd(1) by (rule prepare_verification_ok)
  let ?cs = "dict_list (dget r ''component_verdicts'')"
  obtain snap where snap: "preflight_bounded_receipt h snap = Inr r" using preflight_stage_ok(2)[OF p(2)] by auto
  note b = preflight_bounded_ok[OF snap]
  note t = trust_checks_ok[OF p(5)]
  have full: "validate_shield_v4_receipt_contract h (vi_receipt inp) = Inr r"
    unfolding split_contract_agrees
    using preflight_stage_ok(1)[OF p(2)] p(6) bundles_well_formed_of_preflight[OF p(3,6)] by simp
  have st: "(vr_state res, vr_reason_id res) = state_for_final_outcome (expected_final_outcome ?cs)"
    using verified_result_ok(3)[OF rd(2)] b(4) p(7) by (simp add: str_of_def)
  have allow: "vr_state res \<noteq> VERIFIED_ALLOW_EVIDENCE_CONTINUE_CHECKS \<or>
      list_all (\<lambda>c. dget c ''decision'' = PStr ''ALLOW'') ?cs"
    using st expected_outcome_cases[of ?cs] outcome_allow[OF b(3)]
    by (auto simp: state_for_final_outcome_def list_all_iff split: if_splits)
  show ?thesis
    using check_inputs_ok[OF p(1)] full verified_result_ok(1,2)[OF rd(2)] p(7) replay_stage_ok[OF p(4)] t(1) t(5)[folded prepared_component_ids[OF p(3)]]
      versions_ok[OF t(2)] b(2) enforce_freshness_ok[OF t(3)] st allow
    by (intro exI[of _ h] exI[of _ rid] exI[of _ minimum] exI[of _ r] exI[of _ "rd_registry rd"])
      (simp add: list_all_iff)
qed

theorem v4_verified_meets_contract_witness:
  "\<exists>res r. verify_shield_v4_orchestrator_receipt utc_host
       (demo_v4_inputs (PDict (demo_v4_case ''adn'' ''DENY'' [(''handoff_allowed'', PBool False)]))) = Inr res \<and>
     vr_receipt res = Some r \<and> vr_state res = VERIFIED_DENY_DOMINATES \<and>
     validate_shield_v4_receipt_contract demo_v4_hex
       (PDict (demo_v4_case ''adn'' ''DENY'' [(''handoff_allowed'', PBool False)])) = Inr r"
proof -
  obtain res where res: "verify_shield_v4_orchestrator_receipt utc_host
      (demo_v4_inputs (PDict (demo_v4_case ''adn'' ''DENY'' [(''handoff_allowed'', PBool False)]))) = Inr res" "vr_verified res"
    "vr_state res = VERIFIED_DENY_DOMINATES"
    using demo_v4_result[of "''DENY''" "PBool False" utc_host]
    by (auto simp: demo_v4_variant_def demo_v4_handoff_def state_for_final_outcome_def)
  from v4_verified_meets_contract[OF res(1,2)] show ?thesis
    using res(3) unfolding res(1) by (auto simp: demo_v4_inputs_def)
qed

section \<open>The exceptions that escape\<close>

text \<open>The errors of the contract: never a \<open>TypeError\<close> or a \<open>KeyError\<close>.\<close>

definition contract_error :: "v4_error \<Rightarrow> bool" where
  "contract_error e \<longleftrightarrow> (case e of V4TypeError _ \<Rightarrow> False | V4KeyError _ \<Rightarrow> False | _ \<Rightarrow> True)"

lemma contract_error_simps [simp]:
  "contract_error (V4Contract m)" "contract_error (V4Downgrade m)" "contract_error (V4HashMismatch m)"
  "contract_error (V4AuthorityBypass m)" "contract_error (V4WorkBudget m)" "contract_error (V4ValueError m)"
  by (simp_all add: contract_error_def)

lemma contract_basic [raises_intros]:
  "raises_only contract_error (v4_fail m)" "raises_only contract_error (v4_check c m)"
  "raises_only contract_error (within_budget n m)" "raises_only contract_error (v4_require_str v f)"
  "raises_only contract_error (v4_require_hash v f)" "raises_only contract_error (v4_require_positive_int v f)"
proof -
  show f: "raises_only contract_error (v4_fail m)" for m :: string and m' :: 'a
    by (simp add: v4_fail_def raises_only_Inl)
  show c: "raises_only contract_error (v4_check c m)" for c m by (simp add: v4_check_def raises_only_check)
  show w: "raises_only contract_error (within_budget n m)" for n :: "string + 'b" and m
    by (simp add: within_budget_def v4_fail_def raises_catch raises_only_Inl)
  show s: "raises_only contract_error (v4_require_str v f)" for v f
    by (auto simp: v4_require_str_def v4_fail_def intro!: raises_intros raises_only_Inl split: pyval.splits)
  show "raises_only contract_error (v4_require_hash v f)"
    by (auto simp: v4_require_hash_def v4_fail_def v4_check_def intro!: raises_intros raises_only_Inl s split: pyval.splits)
  show "raises_only contract_error (v4_require_positive_int v f)"
    by (auto simp: v4_require_positive_int_def v4_check_def within_budget_def v4_fail_def
        intro!: raises_intros raises_catch raises_only_Inl)
qed

lemma contract_need [raises_intros]: "contract_error e \<Longrightarrow> raises_only contract_error (need_map v e)"
  by (cases v) (auto simp: need_map_def intro: raises_intros raises_only_Inl)

lemma normalise_raises:
  "raises_only contract_error (normalise path v)" "raises_only contract_error (normalise_list path i xs)"
  "raises_only contract_error (normalise_items path out m)"
  by (induction path v and path i xs and path out m rule: normalise_normalise_list_normalise_items.induct)
    (auto intro!: raises_intros)

text \<open>A normalised value never makes \<open>json.dumps\<close> raise \<open>TypeError\<close>.\<close>

lemma json_items_append:
  "json_items a n (m @ k) = bind_r (json_items a n m) (\<lambda>xs. bind_r (json_items a n k) (\<lambda>ys. Inr (xs @ ys)))"
proof (induction m)
  case Nil
  then show ?case by (cases "json_items a n k") simp_all
next
  case (Cons e m)
  then show ?case by (cases e) (simp add: bind_r_assoc)
qed

lemma normalise_renders:
  "normalise path v = Inr w \<Longrightarrow> raises_only isl (json_val False False w)"
  "normalise_list path i xs = Inr ws \<Longrightarrow> raises_only isl (json_list False False ws)"
  "normalise_items path out m = Inr o' \<Longrightarrow> raises_only isl (json_items False False out) \<Longrightarrow>
     raises_only isl (json_items False False o')"
proof (induction path v and path i xs and path out m arbitrary: w and ws and o'
    rule: normalise_normalise_list_normalise_items.induct)
  case (13 path out k v m)
  then obtain w where w: "\<not> has_key out k" "normalise (path @ ''.'' @ k) v = Inr w"
    "normalise_items path (out @ [(k, w)]) m = Inr o'" by (auto simp: res_simps split: if_splits)
  have "raises_only isl (json_items False False (out @ [(k, w)]))"
    using 13(4) 13(1)[OF w(1,2)] unfolding json_items_append by (intro raises_intros) (simp_all add: raises_intros)
  then show ?case using 13(2)[OF w(1,2,3)] by blast
next
  case (6 path xs)
  then show ?case by (auto simp: bind_r_eq_Inr intro!: raises_intros)
next
  case (7 path xs)
  then show ?case by (auto simp: bind_r_eq_Inr intro!: raises_intros)
next
  case (9 path m)
  then show ?case by (auto simp: bind_r_eq_Inr raises_only_Inr intro!: raises_intros)
next
  case (11 path i x xs)
  then show ?case by (auto simp: bind_r_eq_Inr intro!: raises_intros)
qed (auto simp: v4_fail_def json_int_def raises_only_Inr raises_only_Inl)

lemma to_canonical_json_raises [raises_intros]: "raises_only contract_error (to_canonical_json m)"
proof -
  have "raises_only contract_error (case json_val False False v of Inl (Inl m) \<Rightarrow> Inl (V4ValueError m)
      | Inl (Inr m) \<Rightarrow> Inl (V4TypeError m) | Inr s \<Rightarrow> Inr s)" if "normalise ''$'' (PDict m) = Inr v" for v
    using normalise_renders(1)[OF that] by (auto simp: raises_only_def split: sum.splits)
  then show ?thesis unfolding to_canonical_json_def by (intro raises_intros normalise_raises)
qed

lemma contract_lists [raises_intros]:
  "raises_only contract_error (require_str_list v f)"
  "raises_only contract_error (require_supported_standard_profile a v)"
proof -
  have "raises_only contract_error (collect_strs f out xs)" for f out xs
    by (induction f out xs rule: collect_strs.induct) (auto intro!: raises_intros)
  then show "raises_only contract_error (require_str_list v f)"
    by (auto simp: require_str_list_def intro!: raises_intros split: pyval.splits list.splits)
  show "raises_only contract_error (require_supported_standard_profile a v)"
    unfolding require_supported_standard_profile_def by (intro raises_intros)
qed

lemma contract_components [raises_intros]:
  "raises_only contract_error (validate_component_signature_results v)"
  "raises_only contract_error (preflight_component_set h v)"
proof -
  have "raises_only contract_error (check_signature_result seen r)" for seen r
    by (auto simp: check_signature_result_def intro!: raises_intros split: pyval.splits)
  then have "raises_only contract_error (check_signature_results seen rs)" for seen rs
    by (induction seen rs rule: check_signature_results.induct) (auto intro!: raises_intros)
  then show "raises_only contract_error (validate_component_signature_results v)"
    by (auto simp: validate_component_signature_results_def intro!: raises_intros split: pyval.splits)
  have "raises_only contract_error (preflight_component_verdict_contract h c)" for c
    by (auto simp: preflight_component_verdict_contract_def intro!: raises_intros split: pyval.splits)
  then have "raises_only contract_error (preflight_components h seen cs)" for seen cs
    by (induction h seen cs rule: preflight_components.induct) (auto simp: Let_def intro!: raises_intros)
  then show "raises_only contract_error (preflight_component_set h v)"
    by (auto simp: preflight_component_set_def intro!: raises_intros split: pyval.splits)
qed

lemma preflight_bounded_raises: "raises_only contract_error (preflight_bounded_receipt h v)"
  by (auto simp: preflight_bounded_receipt_def intro!: raises_intros split: pyval.splits)

lemma integrity_raises: "raises_only contract_error (validate_preflighted_receipt_integrity r)"
  unfolding validate_preflighted_receipt_integrity_def receipt_byte_budget_def receipt_hashes_def
    validate_component_canonical_integrity_def signed_payload_hash_def v4_receipt_hash_def Let_def
    validate_signature_bundle_canonical_size_def
  by (auto intro!: raises_intros split: pyval.splits)

text \<open>The rejections of the verifier, and what may pass them by.\<close>

definition calendar_error :: "string \<Rightarrow> bool" where
  "calendar_error m \<longleftrightarrow> m = date_range_error \<or> (\<exists>y. (y < 1 \<or> 9999 < y) \<and> m = year_range_error y) \<or>
     (\<exists>off. 86400 \<le> \<bar>off\<bar> \<and> m = offset_range_error off)"

definition calendar_only :: "v4_exc \<Rightarrow> bool" where
  "calendar_only e \<longleftrightarrow> (case e of Rejection _ _ _ \<Rightarrow> True | Uncaught m \<Rightarrow> calendar_error m)"

definition padded_id_error :: "string \<Rightarrow> bool" where
  "padded_id_error m \<longleftrightarrow> (\<exists>cid. cid \<notin> set SUPPORTED_COMPONENTS \<and> py_strip cid \<in> set SUPPORTED_COMPONENTS \<and>
     m = ''KeyError: '' @ repr_str cid)"

definition padded_only :: "v4_exc \<Rightarrow> bool" where
  "padded_only e \<longleftrightarrow> (case e of Rejection _ _ _ \<Rightarrow> True | Uncaught m \<Rightarrow> padded_id_error m)"

lemma rejections_expected [simp]:
  "calendar_only (Rejection st reason m)" "padded_only (Rejection st reason m)"
  "calendar_only (Uncaught ''OverflowError: date value out of range'')"
  "calendar_only (registry_rejection m)" "padded_only (registry_rejection m)"
  "calendar_only (signature_policy_rejection m)" "padded_only (signature_policy_rejection m)"
  "calendar_only (freshness_rejection m)" "calendar_only result_mismatch"
  by (simp_all add: calendar_only_def calendar_error_def date_range_error_def padded_only_def registry_rejection_def signature_policy_rejection_def
      freshness_rejection_def result_mismatch_def)

lemma padded_basic [raises_intros]:
  "raises_only padded_only (vf_require_str v f)" "raises_only padded_only (need_policy c m)"
  "raises_only padded_only (as_policy_rejection n)" "raises_only padded_only (vf_require_positive_int v f)"
  "raises_only padded_only (require_profile_for_signature a v)"
proof -
  show s: "raises_only padded_only (vf_require_str v f)" for v f
    by (auto simp: vf_require_str_def intro!: raises_intros raises_only_Inl split: pyval.splits)
  show "raises_only padded_only (require_profile_for_signature a v)"
    by (auto simp: require_profile_for_signature_def intro!: raises_intros s)
qed (auto simp: need_policy_def as_policy_rejection_def vf_require_positive_int_def Let_def
    intro!: raises_intros raises_catch raises_only_Inl)

lemma calendar:
  "aware_to_utc us off = Inl m \<Longrightarrow> calendar_error m" "local_to_utc lz us = Inl m \<Longrightarrow> calendar_error m"
  using local_to_utc_errors[of lz us m] by (auto simp: aware_to_utc_def calendar_error_def split: if_splits)

lemma calendar_basic [raises_intros]:
  "raises_only calendar_only (vf_require_str v f)" "raises_only calendar_only (need_policy c m)"
  "raises_only calendar_only (need_registry c m)" "raises_only calendar_only (vf_require_positive_int v f)"
  "raises_only calendar_only (parse_utc lz v f)" "raises_only calendar_only (need_strs v)"
proof -
  show s: "raises_only calendar_only (vf_require_str v f)" for v f
    by (auto simp: vf_require_str_def intro!: raises_intros raises_only_Inl split: pyval.splits)
  show "raises_only calendar_only (parse_utc lz v f)"
    by (auto simp: parse_utc_def freshness_rejection_def calendar_only_def calendar
        intro!: raises_intros raises_catch raises_only_Inl s split: option.splits prod.splits)
qed (auto simp: need_policy_def need_registry_def need_strs_def vf_require_positive_int_def Let_def
    intro!: raises_intros raises_catch raises_only_Inl split: pyval.splits)

lemma raises_need [raises_intros]:
  "P e \<Longrightarrow> raises_only P (need_map v e)" "P e \<Longrightarrow> raises_only P (need_list v e)"
  by (cases v; auto simp: need_map_def need_list_def intro: raises_intros raises_only_Inl)+

lemma raises_map: "(\<And>x. x \<in> set xs \<Longrightarrow> raises_only P (f x)) \<Longrightarrow> raises_only P (map_r f xs)"
  by (induction xs) (auto intro!: raises_intros)

lemma bundle_raises: "raises_only padded_only (preflight_bundle b h d)"
proof -
  have "raises_only padded_only (prepare_entry h d before e)" for h d before e
    unfolding prepare_entry_def by (intro raises_intros) simp_all
  then have "raises_only padded_only (prepare_entries h d before es)" for h d before es
    by (induction h d before es rule: prepare_entries.induct) (auto intro!: raises_intros)
  then show ?thesis unfolding preflight_bundle_def by (intro raises_intros) simp_all
qed

lemma bundles_raise:
  assumes "preflight_bounded_receipt h snap = Inr r"
  shows "raises_only padded_only (preflight_receipt_bundles r)"
proof -
  obtain ch where ch: "list_all (\<lambda>m. preflight_component_verdict_contract ch (PDict m) = Inr m) (dict_list (dget r ''component_verdicts''))"
    using preflight_bounded_ok(5)[OF assms] by blast
  have roles: "set (map fst COMPONENT_ROLES) = set SUPPORTED_COMPONENTS"
    by (simp add: COMPONENT_ROLES_def SUPPORTED_COMPONENTS_def)
  have "raises_only padded_only (prepare_component c)" if "c \<in> set (dict_list (dget r ''component_verdicts''))" for c
  proof -
    have "preflight_component_verdict_contract ch (PDict c) = Inr c" using ch that by (simp add: list_all_iff)
    then have "py_strip (str_of (dget c ''component_id'')) \<in> set SUPPORTED_COMPONENTS"
      unfolding roles[symmetric] by (auto simp: preflight_component_verdict_contract_def res_simps str_of_def intro: rev_image_eqI)
    moreover have "map_of COMPONENT_ROLES cid = None \<longleftrightarrow> cid \<notin> set SUPPORTED_COMPONENTS" for cid
      using map_of_eq_None_iff[of COMPONENT_ROLES cid] roles by simp
    ultimately show ?thesis
      by (auto simp: prepare_component_def Let_def padded_only_def padded_id_error_def
          intro!: raises_intros raises_only_Inl bundle_raises split: option.splits)
  qed
  then show ?thesis
    unfolding preflight_receipt_bundles_def by (intro raises_intros raises_map bundle_raises)
qed

lemma trust_raises: "raises_only calendar_only (trust_checks lz inp minimum r pr)"
proof -
  have "raises_only calendar_only (load_key_entry lz e)" for e
    by (auto simp: load_key_entry_def intro!: raises_intros raises_catch raises_only_Inl)
  then have "raises_only calendar_only (load_key_entries lz out es)" for out es
    by (induction lz out es rule: load_key_entries.induct) (auto intro!: raises_intros raises_only_Inl)
  then have reg: "raises_only calendar_only (load_trusted_key_registry lz v)" for v
    by (auto simp: load_trusted_key_registry_def intro!: raises_intros raises_catch raises_only_Inl)
  have ver: "raises_only calendar_only (enforce_registry_versions r reg minimum)" for reg
    by (auto simp: enforce_registry_versions_def Let_def intro!: raises_intros)
  have fresh: "raises_only calendar_only (enforce_freshness lz r t)" for t
    by (auto simp: enforce_freshness_def intro!: raises_intros)
  have "raises_only calendar_only (find_key lz reg role k v a t nb na)" for reg role k v a t nb na
    by (auto simp: find_key_def intro!: raises_intros raises_only_Inl split: option.splits)
  then have res: "raises_only calendar_only (resolve_verification_bundles lz pr reg t)" for reg t
    by (auto simp: resolve_verification_bundles_def resolve_candidate_def Let_def intro!: raises_intros raises_map)
  have cross: "raises_only calendar_only (cross_check_component_signature_results r ss)" for ss
    by (auto simp: cross_check_component_signature_results_def normalise_component_signature_result_def Let_def
        intro!: raises_intros raises_map)
  show ?thesis unfolding trust_checks_def by (intro raises_intros reg ver fresh res cross)
qed

definition end_escapes :: "v4_end \<Rightarrow> bool" where
  "end_escapes e \<longleftrightarrow> (case e of Ends _ _ \<Rightarrow> True
     | Escapes m \<Rightarrow> calendar_error m \<or> padded_id_error m)"

lemma ends_expected:
  "contract_error e \<Longrightarrow> end_escapes (contract_end p e)" "padded_only x \<Longrightarrow> end_escapes (bundles_end r x)"
  "calendar_only x \<Longrightarrow> end_escapes (rejection_end r x)"
  by (auto simp: end_escapes_def contract_end_def bundles_end_def rejection_end_def contract_error_def calendar_only_def
      padded_only_def split: v4_error.splits v4_exc.splits prod.splits)

lemma end_escapes_simps [simp]:
  "end_escapes (invalid_input d)" "end_escapes (Ends r told)" "end_escapes (reject_with st reason v d)"
  by (simp_all add: end_escapes_def invalid_input_def reject_with_def)

lemma prepare_verification_escapes: "raises_only end_escapes (prepare_verification lz inp snap)"
proof -
  have inputs: "raises_only end_escapes (check_inputs inp)"
    by (auto simp: check_inputs_def intro!: raises_intros raises_catch raises_only_Inl)
  have pre: "raises_only end_escapes (preflight_stage inp snap h)" for h
    unfolding preflight_stage_def
    by (auto intro!: raises_intros raises_catch raises_only_Inl ends_expected(1)
        intro: preflight_bounded_raises[unfolded raises_only_def, rule_format])
  have replay: "raises_only end_escapes (replay_stage inp rid r)" for rid r
    by (auto simp: replay_stage_def intro!: raises_intros raises_catch raises_only_Inl split: option.splits)
  have bundles: "padded_only e" if "preflight_stage inp snap h = Inr r" "preflight_receipt_bundles r = Inl e" for h r e
  proof -
    have "\<exists>s. preflight_bounded_receipt h s = Inr r" using that(1) by (auto simp: preflight_stage_def res_simps)
    then obtain s where "preflight_bounded_receipt h s = Inr r" by blast
    from bundles_raise[OF this] show ?thesis using that(2) by (simp add: raises_only_def)
  qed
  show ?thesis
    unfolding prepare_verification_def
    using trust_raises[of lz inp] integrity_raises
    by (auto intro!: raises_intros inputs pre replay raises_catch raises_only_Inl ends_expected
        intro: bundles simp: raises_only_def[of calendar_only] raises_only_def[of contract_error])
qed

lemma waves_no_escape:
  "verify_waves sv steps results budget tr = (Inl e, tr') \<Longrightarrow> \<exists>st reason m. e = Rejection st reason m"
  by (induction sv steps results budget tr rule: verify_waves.induct)
    (auto simp: signature_policy_rejection_def before_callback_def Let_def dest: invoke_no_escape
      split: list.splits sum.splits prod.splits if_splits)

text \<open>
  C25: The exceptions that leave the Shield v4 verifier. Whatever the inputs and however the
  injected callback behaves, the verifier answers with a result, except in three cases: a
  component id that only equals a supported one after stripping (\<open>KeyError\<close> of
  \<open>COMPONENT_ROLES[component_id]\<close>), a verified receipt whose hand-off lacks \<open>handoff_allowed\<close>
  (\<open>KeyError\<close>), and a time \<open>astimezone\<close> cannot move to UTC: an \<open>OverflowError\<close> when the UTC time
  leaves the calendar, a \<open>ValueError\<close> when a local time the conversion asks for does (every time
  without zone on 0001-01-01), or when the zone of the host is a day or more away from UTC.
\<close>

theorem v4_verifier_escapes:
  assumes "verify_shield_v4_orchestrator_receipt lz inp = Inl m"
  shows "m = ''OverflowError: date value out of range'' \<or>
    (\<exists>y. (y < 1 \<or> 9999 < y) \<and> m = ''ValueError: year '' @ show_int y @ '' is out of range'') \<or>
    (\<exists>off. 86400 \<le> \<bar>off\<bar> \<and> m = offset_range_error off) \<or>
    m = ''KeyError: '' @ repr_str ''handoff_allowed'' \<or>
    (\<exists>cid. cid \<notin> set SUPPORTED_COMPONENTS \<and> py_strip cid \<in> set SUPPORTED_COMPONENTS \<and> m = ''KeyError: '' @ repr_str cid)"
proof -
  obtain tr where run: "verify_receipt_v4 lz inp False = (Inl m, tr)"
    using assms by (cases "verify_receipt_v4 lz inp False") (auto simp: verify_shield_v4_orchestrator_receipt_def)
  show ?thesis
  proof (cases "prepare_verification lz inp False")
    case (Inl e)
    then have "end_escapes e" using prepare_verification_escapes[of lz inp False] by (simp add: raises_only_def)
    then show ?thesis
      using run Inl by (auto simp: verify_receipt_v4_def end_escapes_def padded_id_error_def calendar_error_def
          date_range_error_def year_range_error_def split: v4_end.splits)
  next
    case (Inr rd)
    obtain h rid minimum where "preflight_stage inp False h = Inr (rd_valid rd)"
      using Inr by (rule prepare_verification_ok) auto
    then obtain s where "preflight_bounded_receipt h s = Inr (rd_valid rd)" using preflight_stage_ok(2) by blast
    then obtain m where "dget (rd_valid rd) ''adamantineos_handoff'' = PDict m"
      by (auto simp: preflight_bounded_receipt_def res_simps)
    then show ?thesis
      using run Inr waves_no_escape
      by (auto simp: verify_receipt_v4_def verify_global_algorithm_waves_def verified_result_def Let_def
          split: sum.splits prod.splits v4_exc.splits option.splits) blast+
  qed
qed

theorem v4_verifier_escapes_witness:
  "\<exists>m. verify_shield_v4_orchestrator_receipt utc_host (demo_v4_inputs (PDict (demo_v4_case '' adn'' ''ALLOW'' []))) = Inl m \<and>
     (m = ''OverflowError: date value out of range'' \<or>
      (\<exists>y. (y < 1 \<or> 9999 < y) \<and> m = ''ValueError: year '' @ show_int y @ '' is out of range'') \<or>
      (\<exists>off. 86400 \<le> \<bar>off\<bar> \<and> m = offset_range_error off) \<or> m = ''KeyError: '' @ repr_str ''handoff_allowed'' \<or>
      (\<exists>cid. cid \<notin> set SUPPORTED_COMPONENTS \<and> py_strip cid \<in> set SUPPORTED_COMPONENTS \<and> m = ''KeyError: '' @ repr_str cid))"
proof -
  have "verify_shield_v4_orchestrator_receipt utc_host (demo_v4_inputs (PDict (demo_v4_case '' adn'' ''ALLOW'' []))) =
      Inl (''KeyError: '' @ repr_str '' adn'')"
    using demo_v4_padded_escapes[of "''ALLOW''" "[]" utc_host]
    by (simp add: verify_shield_v4_orchestrator_receipt_def demo_v4_variant_def demo_v4_handoff_def)
  from this v4_verifier_escapes[OF this] show ?thesis by blast
qed

text \<open>
  Both kinds of calendar error are reached: on every host near UTC by the first day of the calendar
  without a zone, and by an offset before it (the text ends in a zone of its own, closed by a
  NUL character that hides the appended \<open>+00:00\<close> from the parser).
\<close>

lemma v4_times_outside_the_calendar:
  "parse_utc utc_host (PStr ''0001-01-01Z'') ''not_before'' = Inl (Uncaught ''ValueError: year 0 is out of range'')"
  "parse_utc utc_host (PStr (''0001-01-01T00:00:00+05:00:00.123456'' @ [CHR 0x00] @ ''Z'')) ''not_before'' =
     Inl (Uncaught ''OverflowError: date value out of range'')"
  by code_simp+

text \<open>
  The padded id in full: a complete, correctly hashed and signed receipt whose first component id is
  \<open>" adn"\<close> passes the preflight, which strips the id, and then raises \<open>KeyError\<close> out of the
  fail-closed verifier, whatever its decision; nothing is told to the observer.
\<close>

lemma v4_padded_component_escapes:
  "list_all (\<lambda>decision. preflight_shield_v4_receipt_contract demo_v4_hex (PDict (demo_v4_case '' adn'' decision [])) =
       Inr (demo_v4_case '' adn'' decision []) \<and>
     verify_receipt_v4 lz (demo_v4_inputs (PDict (demo_v4_case '' adn'' decision []))) False =
       (Inl (''KeyError: '' @ repr_str '' adn''), empty_transcript)) [''ALLOW'', ''DENY'']"
  using demo_v4_padded_escapes demo_v4_reaches(2)[THEN preflight_stage_ok(1)]
  by (simp add: demo_v4_variant_def demo_v4_handoff_def demo_v4_inputs_def)

text \<open>
  The hand-off flag is checked by identity but reported by truth value. A receipt with the
  outcome \<open>DENY\<close> must not carry \<open>handoff_allowed\<close> true, and the contract tests \<open>is True\<close>; the
  verifier reports \<open>bool(...)\<close>. A \<open>DENY\<close> receipt with the flag 1 is verified and reported with
  the hand-off allowed.
\<close>

theorem v4_deny_receipt_reports_handoff:
  "\<exists>res. verify_shield_v4_orchestrator_receipt lz
      (demo_v4_inputs (PDict (demo_v4_case ''adn'' ''DENY'' [(''handoff_allowed'', PInt 1)]))) = Inr res \<and>
    vr_verified res \<and> vr_state res = VERIFIED_DENY_DOMINATES \<and> vr_handoff_allowed res"
proof -
  have "py_truthy (PInt 1)" by code_simp
  then show ?thesis using demo_v4_result[of "''DENY''" "PInt 1" lz]
    by (auto simp: demo_v4_variant_def demo_v4_handoff_def state_for_final_outcome_def)
qed

end
