(* ===== verification/Py_Json.thy ===== *)
theory Py_Json
  imports Errors
begin

text \<open>
  \<open>json.loads(text, object_pairs_hook=.., parse_float=.., parse_int=.., parse_constant=..)\<close> as
  CPython's scanner does it, on Latin-1 text. The scanner works on the rest of the text; the
  interpreter's recursion limit is a parameter, which also bounds the recursion, and the members
  of an object or an array are counted down from the length of the text, which
  \<open>scan_once_consumes\<close> shows to be enough. An escape that denotes a character outside Latin-1
  cannot be represented and is an outcome of its own. The messages of \<open>JSONDecodeError\<close> are not
  modelled.
\<close>

section \<open>Outcomes and hooks\<close>

datatype 'e json_error = JsonMalformed | JsonTooDeep | JsonWideChar | JsonNoFuel | HookRaised 'e

record 'e json_hooks =
  jh_object :: "pydict \<Rightarrow> 'e + pyval"
  jh_float :: "string \<Rightarrow> 'e + pyval"
  jh_int :: "string \<Rightarrow> 'e + pyval"
  jh_constant :: "string \<Rightarrow> 'e + pyval"

definition run_hook :: "'e + pyval \<Rightarrow> 'e json_error + pyval" where
  "run_hook m = (case m of Inl e \<Rightarrow> Inl (HookRaised e) | Inr v \<Rightarrow> Inr v)"

lemma run_hook_simps [simp]:
  "run_hook (Inr v) = Inr v" "run_hook m \<noteq> Inl JsonNoFuel" "run_hook m = Inr v \<longleftrightarrow> m = Inr v"
  by (auto simp: run_hook_def split: sum.split)

section \<open>Tokens\<close>

definition json_ws :: "char \<Rightarrow> bool" where
  "json_ws c \<longleftrightarrow> c = CHR 0x20 \<or> c = CHR 0x09 \<or> c = CHR 0x0A \<or> c = CHR 0x0D"

definition skip_ws :: "string \<Rightarrow> string" where
  "skip_ws s = dropWhile json_ws s"

definition json_digit :: "char \<Rightarrow> bool" where
  "json_digit c \<longleftrightarrow> (let n = (of_char c :: nat) in 48 \<le> n \<and> n \<le> 57)"

definition hex_value :: "char \<Rightarrow> nat option" where
  "hex_value c = (let n = (of_char c :: nat) in
     if 48 \<le> n \<and> n \<le> 57 then Some (n - 48)
     else if 97 \<le> n \<and> n \<le> 102 then Some (n - 87)
     else if 65 \<le> n \<and> n \<le> 70 then Some (n - 55) else None)"

definition hex4 :: "char \<Rightarrow> char \<Rightarrow> char \<Rightarrow> char \<Rightarrow> nat option" where
  "hex4 a b c d = (case (hex_value a, hex_value b, hex_value c, hex_value d) of
     (Some p, Some q, Some r, Some s) \<Rightarrow> Some (p * 4096 + q * 256 + r * 16 + s) | _ \<Rightarrow> None)"

definition json_escape :: "char \<Rightarrow> char option" where
  "json_escape c = (if c = CHR 0x22 \<or> c = CHR 0x5C \<or> c = CHR ''/'' then Some c
     else if c = CHR ''b'' then Some (CHR 0x08) else if c = CHR ''f'' then Some (CHR 0x0C)
     else if c = CHR ''n'' then Some (CHR 0x0A) else if c = CHR ''r'' then Some (CHR 0x0D)
     else if c = CHR ''t'' then Some (CHR 0x09) else None)"

text \<open>\<open>scanstring\<close>, strict: from behind the opening quote to behind the closing one.\<close>

fun scan_string :: "string \<Rightarrow> 'e json_error + string \<times> string" where
  "scan_string [] = Inl JsonMalformed"
| "scan_string (c # cs) =
    (if c = CHR 0x22 then Inr ([], cs)
     else if c = CHR 0x5C then (case cs of
         [] \<Rightarrow> Inl JsonMalformed
       | e # r \<Rightarrow>
         if e = CHR ''u'' then (case r of
             h1 # h2 # h3 # h4 # q \<Rightarrow> (case hex4 h1 h2 h3 h4 of
               None \<Rightarrow> Inl JsonMalformed
             | Some n \<Rightarrow> bind_r (scan_string q) (\<lambda>(t, z). if n < 256 then Inr (char_of n # t, z) else Inl JsonWideChar))
           | _ \<Rightarrow> Inl JsonMalformed)
         else (case json_escape e of
             None \<Rightarrow> Inl JsonMalformed
           | Some x \<Rightarrow> bind_r (scan_string r) (\<lambda>(t, z). Inr (x # t, z))))
     else if (of_char c :: nat) < 32 then Inl JsonMalformed
     else bind_r (scan_string cs) (\<lambda>(t, z). Inr (c # t, z)))"

text \<open>\<open>-?(0|[1-9]\d*)(\.\d+)?([eE][+-]?\d+)?\<close>, the longest match, and whether it is a float.\<close>

definition scan_fraction :: "string \<Rightarrow> string \<times> string" where
  "scan_fraction s = (case s of
     c # d # r \<Rightarrow> if c = CHR ''.'' \<and> json_digit d then (c # takeWhile json_digit (d # r), dropWhile json_digit (d # r))
       else ([], s)
   | _ \<Rightarrow> ([], s))"

definition scan_exponent :: "string \<Rightarrow> string \<times> string" where
  "scan_exponent s = (case s of
     c # r \<Rightarrow> if c = CHR ''e'' \<or> c = CHR ''E'' then
         (let (sign, ds) = (case r of x # r' \<Rightarrow> if x = CHR ''+'' \<or> x = CHR ''-'' then ([x], r') else ([], r) | [] \<Rightarrow> ([], r)) in
          if takeWhile json_digit ds = [] then ([], s)
          else (c # sign @ takeWhile json_digit ds, dropWhile json_digit ds))
       else ([], s)
   | [] \<Rightarrow> ([], s))"

definition scan_number :: "string \<Rightarrow> (string \<times> bool \<times> string) option" where
  "scan_number s =
    (let (sign, s1) = (case s of c # r \<Rightarrow> if c = CHR ''-'' then ([c], r) else ([], s) | [] \<Rightarrow> ([], s)) in
     case s1 of
       [] \<Rightarrow> None
     | c # r \<Rightarrow>
       if \<not> json_digit c then None
       else let (digits, s2) = (if c = CHR ''0'' then ([c], r) else (c # takeWhile json_digit r, dropWhile json_digit r));
                (frac, s3) = scan_fraction s2; (expo, s4) = scan_exponent s3 in
         Some (sign @ digits @ frac @ expo, frac \<noteq> [] \<or> expo \<noteq> [], s4))"

text \<open>The literals and the three constants that only \<open>parse_constant\<close> knows.\<close>

definition strip_prefix :: "string \<Rightarrow> string \<Rightarrow> string option" where
  "strip_prefix p s = (if take (length p) s = p then Some (drop (length p) s) else None)"

definition scan_atom :: "'e json_hooks \<Rightarrow> string \<Rightarrow> 'e json_error + pyval \<times> string" where
  "scan_atom h s = (case strip_prefix ''null'' s of Some r \<Rightarrow> Inr (PNone, r) | None \<Rightarrow>
     (case strip_prefix ''true'' s of Some r \<Rightarrow> Inr (PBool True, r) | None \<Rightarrow>
     (case strip_prefix ''false'' s of Some r \<Rightarrow> Inr (PBool False, r) | None \<Rightarrow>
     (case strip_prefix ''NaN'' s of Some r \<Rightarrow> bind_r (run_hook (jh_constant h ''NaN'')) (\<lambda>v. Inr (v, r)) | None \<Rightarrow>
     (case strip_prefix ''Infinity'' s of Some r \<Rightarrow> bind_r (run_hook (jh_constant h ''Infinity'')) (\<lambda>v. Inr (v, r)) | None \<Rightarrow>
     (case strip_prefix ''-Infinity'' s of Some r \<Rightarrow> bind_r (run_hook (jh_constant h ''-Infinity'')) (\<lambda>v. Inr (v, r)) | None \<Rightarrow>
     (case scan_number s of None \<Rightarrow> Inl JsonMalformed
      | Some (token, is_float, r) \<Rightarrow>
          bind_r (run_hook (if is_float then jh_float h token else jh_int h token)) (\<lambda>v. Inr (v, r)))))))))"

section \<open>Values\<close>

function (sequential) scan_once :: "'e json_hooks \<Rightarrow> nat \<Rightarrow> string \<Rightarrow> 'e json_error + pyval \<times> string"
  and scan_members :: "'e json_hooks \<Rightarrow> nat \<Rightarrow> nat \<Rightarrow> string \<Rightarrow> 'e json_error + pydict \<times> string"
  and scan_items :: "'e json_hooks \<Rightarrow> nat \<Rightarrow> nat \<Rightarrow> string \<Rightarrow> 'e json_error + pyval list \<times> string" where
  "scan_once h l s = (case s of
     [] \<Rightarrow> Inl JsonMalformed
   | c # cs \<Rightarrow>
     if c = CHR 0x22 then bind_r (scan_string cs) (\<lambda>(t, r). Inr (PStr t, r))
     else if c = CHR ''{'' then (case l of
         0 \<Rightarrow> Inl JsonTooDeep
       | Suc l' \<Rightarrow> bind_r (case skip_ws cs of
             [] \<Rightarrow> Inl JsonMalformed
           | d # r \<Rightarrow> if d = CHR ''}'' then Inr ([], r) else scan_members h l' (length (d # r)) (d # r))
           (\<lambda>(ps, q). bind_r (run_hook (jh_object h ps)) (\<lambda>v. Inr (v, q))))
     else if c = CHR ''['' then (case l of
         0 \<Rightarrow> Inl JsonTooDeep
       | Suc l' \<Rightarrow> bind_r (case skip_ws cs of
             [] \<Rightarrow> Inl JsonMalformed
           | d # r \<Rightarrow> if d = CHR '']'' then Inr ([], r) else scan_items h l' (length (d # r)) (d # r))
           (\<lambda>(vs, q). Inr (PList vs, q)))
     else scan_atom h s)"
| "scan_members h l 0 s = Inl JsonNoFuel"
| "scan_members h l (Suc n) s = (case s of
     [] \<Rightarrow> Inl JsonMalformed
   | c # cs \<Rightarrow>
     if c \<noteq> CHR 0x22 then Inl JsonMalformed
     else bind_r (scan_string cs) (\<lambda>(k, r).
       case skip_ws r of
         [] \<Rightarrow> Inl JsonMalformed
       | d # r1 \<Rightarrow>
         if d \<noteq> CHR '':'' then Inl JsonMalformed
         else bind_r (scan_once h l (skip_ws r1)) (\<lambda>(v, r2).
           case skip_ws r2 of
             [] \<Rightarrow> Inl JsonMalformed
           | e # r3 \<Rightarrow>
             if e = CHR ''}'' then Inr ([(k, v)], r3)
             else if e = CHR '','' then bind_r (scan_members h l n (skip_ws r3)) (\<lambda>(ps, q). Inr ((k, v) # ps, q))
             else Inl JsonMalformed)))"
| "scan_items h l 0 s = Inl JsonNoFuel"
| "scan_items h l (Suc n) s = bind_r (scan_once h l s) (\<lambda>(v, r).
     case skip_ws r of
       [] \<Rightarrow> Inl JsonMalformed
     | e # r1 \<Rightarrow>
       if e = CHR '']'' then Inr ([v], r1)
       else if e = CHR '','' then bind_r (scan_items h l n (skip_ws r1)) (\<lambda>(vs, q). Inr (v # vs, q))
       else Inl JsonMalformed)"
  by pat_completeness auto

termination
  by (relation "measures [\<lambda>x. case x of Inl (_, l, _) \<Rightarrow> l | Inr (Inl (_, l, _, _)) \<Rightarrow> l | Inr (Inr (_, l, _, _)) \<Rightarrow> l,
      \<lambda>x. case x of Inl _ \<Rightarrow> 0 | Inr (Inl (_, _, n, _)) \<Rightarrow> Suc n | Inr (Inr (_, _, n, _)) \<Rightarrow> Suc n]") auto

declare scan_once.simps [simp del] scan_members.simps [simp del] scan_items.simps [simp del]

definition json_loads :: "'e json_hooks \<Rightarrow> nat \<Rightarrow> string \<Rightarrow> 'e json_error + pyval" where
  "json_loads h limit text = bind_r (scan_once h limit (skip_ws text)) (\<lambda>(v, r).
     if skip_ws r = [] then Inr v else Inl JsonMalformed)"

text \<open>Strict UTF-8: the code points, or \<^const>\<open>None\<close> for an invalid sequence.\<close>

definition cont_byte :: "nat \<Rightarrow> bool" where
  "cont_byte b \<longleftrightarrow> 128 \<le> b \<and> b < 192"

fun utf8_decode :: "nat list \<Rightarrow> nat list option" where
  "utf8_decode [] = Some []"
| "utf8_decode (b # bs) =
    (if b < 128 then map_option ((#) b) (utf8_decode bs)
     else if 194 \<le> b \<and> b < 224 then (case bs of
         c # r \<Rightarrow> if cont_byte c then map_option ((#) ((b - 192) * 64 + (c - 128))) (utf8_decode r) else None
       | _ \<Rightarrow> None)
     else if 224 \<le> b \<and> b < 240 then (case bs of
         c # d # r \<Rightarrow> if cont_byte c \<and> cont_byte d \<and> (b = 224 \<longrightarrow> 160 \<le> c) \<and> (b = 237 \<longrightarrow> c < 160)
           then map_option ((#) ((b - 224) * 4096 + (c - 128) * 64 + (d - 128))) (utf8_decode r) else None
       | _ \<Rightarrow> None)
     else if 240 \<le> b \<and> b < 245 then (case bs of
         c # d # e # r \<Rightarrow> if cont_byte c \<and> cont_byte d \<and> cont_byte e \<and> (b = 240 \<longrightarrow> 144 \<le> c) \<and> (b = 244 \<longrightarrow> c < 144)
           then map_option ((#) ((b - 240) * 262144 + (c - 128) * 4096 + (d - 128) * 64 + (e - 128))) (utf8_decode r) else None
       | _ \<Rightarrow> None)
     else None)"

section \<open>The scanner consumes its text\<close>

lemma skip_ws_length: "length (skip_ws s) \<le> length s"
  by (simp add: skip_ws_def length_dropWhile_le)

lemma scan_string_consumes:
  "scan_string s = Inr (t, r) \<Longrightarrow> length r < length s"
proof (induction s arbitrary: t rule: scan_string.induct)
  case (2 c cs)
  then show ?case
    by (auto simp: res_simps split: if_splits list.splits option.splits) fastforce+
qed simp

lemma strip_prefix_consumes: "strip_prefix p s = Some r \<Longrightarrow> p \<noteq> [] \<Longrightarrow> length r < length s"
  by (cases s) (auto simp: strip_prefix_def split: if_splits)

lemma scan_fraction_length: "length (snd (scan_fraction s)) \<le> length s"
  by (auto simp: scan_fraction_def length_dropWhile_le le_SucI split: list.split)

lemma scan_exponent_length: "length (snd (scan_exponent s)) \<le> length s"
proof -
  have "length (dropWhile json_digit r) \<le> Suc (length r)" "length (dropWhile json_digit r) \<le> Suc (Suc (length r))" for r
    using length_dropWhile_le[of json_digit r] by simp_all
  then show ?thesis by (auto simp: scan_exponent_def Let_def split: list.split)
qed

lemma scan_number_consumes: "scan_number s = Some (t, f, r) \<Longrightarrow> length r < length s"
proof -
  have "length (snd (scan_exponent (snd (scan_fraction q)))) \<le> length q" for q
    using scan_exponent_length[of "snd (scan_fraction q)"] scan_fraction_length[of q] by simp
  then have *: "scan_fraction q = (a, b) \<Longrightarrow> scan_exponent b = (c, d) \<Longrightarrow> length d \<le> length q" for q a b c d
    by (metis snd_conv)
  have d: "length (dropWhile json_digit q) \<le> length q" for q by (rule length_dropWhile_le)
  show "scan_number s = Some (t, f, r) \<Longrightarrow> length r < length s"
    by (auto simp: scan_number_def Let_def split: list.splits if_splits prod.splits dest!: *)
      (use d le_trans in fastforce)+
qed

lemma scan_atom_consumes: "scan_atom h s = Inr (v, r) \<Longrightarrow> length r < length s"
  by (auto simp: scan_atom_def res_simps dest!: strip_prefix_consumes scan_number_consumes split: option.splits prod.splits)

lemma scan_atom_fuel [simp]: "scan_atom h s \<noteq> Inl JsonNoFuel"
  by (auto simp: scan_atom_def bind_r_eq_Inl split: option.splits prod.splits)

lemma scan_string_fuel [simp]: "scan_string s \<noteq> Inl JsonNoFuel"
proof (induction s rule: scan_string.induct)
  case (2 c cs)
  show ?case unfolding scan_string.simps(2)[of c cs] using 2
    by (auto simp: bind_r_eq_Inl simp del: scan_string.simps split: if_splits list.splits option.splits)
qed simp

lemma skip_ws_Cons: "skip_ws s = c # r \<Longrightarrow> length r < length s"
  using skip_ws_length[of s] by simp

text \<open>Every value, member or item read is a piece of the text, and the counters never run out.\<close>

definition consumes :: "string \<Rightarrow> 'e json_error + 'a \<times> string \<Rightarrow> bool" where
  "consumes s res \<longleftrightarrow> (\<forall>v r. res = Inr (v, r) \<longrightarrow> length r < length s)"

lemma consumes_bind:
  "(\<And>x r. m = Inr (x, r) \<Longrightarrow> consumes s (f (x, r))) \<Longrightarrow> consumes s (bind_r m f)"
  by (auto simp: consumes_def bind_r_eq_Inr)

lemma consumes_hook: "(\<And>v. consumes s (f v)) \<Longrightarrow> consumes s (bind_r (run_hook m) f)"
  by (auto simp: consumes_def bind_r_eq_Inr)

lemma list_case_eq_Inr: "(case xs of [] \<Rightarrow> Inl e | c # t \<Rightarrow> f c t) = Inr x \<longleftrightarrow> (\<exists>c t. xs = c # t \<and> f c t = Inr x)"
  by (cases xs) auto

lemma list_case_eq_Inl: "(case xs of [] \<Rightarrow> Inl JsonMalformed | c # t \<Rightarrow> f c t) = Inl JsonNoFuel \<longleftrightarrow>
    (\<exists>c t. xs = c # t \<and> f c t = Inl JsonNoFuel)"
  by (cases xs) auto

lemma scan_members_ok:
  fixes h :: "'e json_hooks"
  shows "scan_members h l (Suc n) s = Inr (ps, q) \<longleftrightarrow> (\<exists>cs k r r1 v r2. s = CHR 0x22 # cs \<and>
     (scan_string cs :: 'e json_error + string \<times> string) = Inr (k, r) \<and>
     skip_ws r = CHR '':'' # r1 \<and> scan_once h l (skip_ws r1) = Inr (v, r2) \<and>
     (skip_ws r2 = CHR ''}'' # q \<and> ps = [(k, v)] \<or>
      (\<exists>r3 ps'. skip_ws r2 = CHR '','' # r3 \<and> scan_members h l n (skip_ws r3) = Inr (ps', q) \<and> ps = (k, v) # ps')))"
  by (auto simp: scan_members.simps(2) res_simps list_case_eq_Inr split: if_splits) (rule exI[of _ "CHR '',''"], simp)

lemma scan_items_ok:
  "scan_items h l (Suc n) s = Inr (vs, q) \<longleftrightarrow> (\<exists>v r. scan_once h l s = Inr (v, r) \<and>
     (skip_ws r = CHR '']'' # q \<and> vs = [v] \<or>
      (\<exists>r1 vs'. skip_ws r = CHR '','' # r1 \<and> scan_items h l n (skip_ws r1) = Inr (vs', q) \<and> vs = v # vs')))"
  by (auto simp: scan_items.simps(2) res_simps list_case_eq_Inr split: if_splits) (rule exI[of _ "CHR '',''"], simp)

lemma skip_ws_step: "skip_ws s = c # r \<Longrightarrow> length r < length s \<and> length (skip_ws r) < length s"
  using skip_ws_length[of s] skip_ws_length[of r] by simp

lemma scan_consumes:
  fixes h :: "'e json_hooks"
  shows "consumes s (scan_once h l s)" "consumes t (scan_members h l n t)" "consumes u (scan_items h l n u)"
proof (induction h l s and h l n t and h l n u rule: scan_once_scan_members_scan_items.induct)
  case (1 h l s)
  show ?case
  proof (cases s)
    case (Cons c cs)
    have str: "consumes s (bind_r (scan_string cs) (\<lambda>(t, r). Inr (PStr t, r)))"
      using Cons by (auto simp: consumes_def res_simps intro: less_SucI dest!: scan_string_consumes)
    have obj: "consumes s (bind_r (case skip_ws cs of [] \<Rightarrow> Inl JsonMalformed
        | d # r \<Rightarrow> if d = CHR ''}'' then Inr ([], r) else scan_members h l' (length (d # r)) (d # r))
        (\<lambda>(ps, q). bind_r (run_hook (jh_object h ps)) (\<lambda>v. Inr (v, q))))"
      if "l = Suc l'" "c = CHR ''{''" for l'
      using 1(1)[OF Cons _ that(2,1)] that Cons skip_ws_Cons[of cs]
      by (auto simp: consumes_def res_simps less_SucI split: list.splits if_splits)
    have arr: "consumes s (bind_r (case skip_ws cs of [] \<Rightarrow> Inl JsonMalformed
        | d # r \<Rightarrow> if d = CHR '']'' then Inr ([], r) else scan_items h l' (length (d # r)) (d # r))
        (\<lambda>(vs, q). Inr (PList vs, q)))"
      if "l = Suc l'" "c = CHR ''[''" for l'
      using 1(2)[OF Cons _ _ that(2,1)] that Cons skip_ws_Cons[of cs]
      by (auto simp: consumes_def res_simps less_SucI split: list.splits if_splits)
    have atom: "consumes s (scan_atom h s)" by (auto simp: consumes_def dest: scan_atom_consumes)
    have fail: "consumes s (Inl e)" for e :: "'e json_error" by (simp add: consumes_def)
    show ?thesis unfolding scan_once.simps[of h l s]
      using str obj arr atom fail[of JsonTooDeep] by (auto simp: Cons split: nat.split)
  qed (simp add: scan_once.simps consumes_def)
next
  case (2 h l s)
  then show ?case by (simp add: scan_members.simps consumes_def)
next
  case (3 h l n s)
  show ?case unfolding consumes_def
  proof (intro allI impI)
    fix ps q assume "scan_members h l (Suc n) s = Inr (ps, q)"
    then obtain cs k r r1 v r2 where s: "s = CHR 0x22 # cs" "(scan_string cs :: 'e json_error + string \<times> string) = Inr (k, r)" "skip_ws r = CHR '':'' # r1"
      "scan_once h l (skip_ws r1) = Inr (v, r2)" and
      q: "skip_ws r2 = CHR ''}'' # q \<or>
        (\<exists>r3 ps'. skip_ws r2 = CHR '','' # r3 \<and> scan_members h l n (skip_ws r3) = Inr (ps', q))"
      unfolding scan_members_ok by blast
    have "length r2 < length (skip_ws r1)"
      using 3(1)[OF s(1) _ s(2) refl s(3)] s(4) by (auto simp: consumes_def)
    then have r2: "length r2 < length s" using s(1) scan_string_consumes[OF s(2)] skip_ws_step[OF s(3)] by simp
    from q show "length q < length s"
    proof
      assume "skip_ws r2 = CHR ''}'' # q"
      then show ?thesis using skip_ws_step[of r2] r2 by fastforce
    next
      assume "\<exists>r3 ps'. skip_ws r2 = CHR '','' # r3 \<and> scan_members h l n (skip_ws r3) = Inr (ps', q)"
      then obtain r3 ps' where t: "skip_ws r2 = CHR '','' # r3" "scan_members h l n (skip_ws r3) = Inr (ps', q)" by blast
      have "length q < length (skip_ws r3)"
        using 3(2)[OF s(1) _ s(2) refl s(3) _ s(4) refl t(1)] t(2) by (auto simp: consumes_def)
      then show ?thesis using skip_ws_step[OF t(1)] r2 by simp
    qed
  qed
next
  case (4 h l s)
  then show ?case by (simp add: scan_items.simps consumes_def)
next
  case (5 h l n s)
  show ?case unfolding consumes_def
  proof (intro allI impI)
    fix vs q assume "scan_items h l (Suc n) s = Inr (vs, q)"
    then obtain v r where s: "scan_once h l s = Inr (v, r)" and
      q: "skip_ws r = CHR '']'' # q \<or> (\<exists>r1 vs'. skip_ws r = CHR '','' # r1 \<and> scan_items h l n (skip_ws r1) = Inr (vs', q))"
      unfolding scan_items_ok by blast
    have r: "length r < length s" using 5(1) s by (auto simp: consumes_def)
    from q show "length q < length s"
    proof
      assume "skip_ws r = CHR '']'' # q"
      then show ?thesis using skip_ws_step[of r] r by fastforce
    next
      assume "\<exists>r1 vs'. skip_ws r = CHR '','' # r1 \<and> scan_items h l n (skip_ws r1) = Inr (vs', q)"
      then obtain r1 vs' where t: "skip_ws r = CHR '','' # r1" "scan_items h l n (skip_ws r1) = Inr (vs', q)" by blast
      have "length q < length (skip_ws r1)" using 5(2)[OF s refl t(1)] t(2) by (auto simp: consumes_def)
      then show ?thesis using skip_ws_step[OF t(1)] r by simp
    qed
  qed
qed

lemma scan_once_consumes: "scan_once h l s = Inr (v, r) \<Longrightarrow> length r < length s"
  using scan_consumes(1)[of s h l] by (simp add: consumes_def)

text \<open>The counters never run out.\<close>

lemma scan_enough:
  fixes h :: "'e json_hooks"
  shows "scan_once h l s \<noteq> Inl JsonNoFuel"
  "length t \<le> n \<Longrightarrow> 0 < n \<Longrightarrow> scan_members h l n t \<noteq> Inl JsonNoFuel"
  "length u \<le> n \<Longrightarrow> 0 < n \<Longrightarrow> scan_items h l n u \<noteq> Inl JsonNoFuel"
proof (induction h l s and h l n t and h l n u rule: scan_once_scan_members_scan_items.induct)
  case (1 h l s)
  then show ?case
    by (auto simp: scan_once.simps[of h l s] bind_r_eq_Inl split: list.split nat.split)
next
  case (3 h l n s)
  have step: "0 < n \<and> length (skip_ws r3) \<le> n"
    if "s = CHR 0x22 # cs" "(scan_string cs :: 'e json_error + string \<times> string) = Inr (k, r)" "skip_ws r = CHR '':'' # r1" "scan_once h l (skip_ws r1) = Inr (v, r2)"
      "skip_ws r2 = c # r3" for cs k r r1 v r2 c r3
    using scan_string_consumes[OF that(2)] skip_ws_step[OF that(3)] scan_once_consumes[OF that(4)] skip_ws_step[OF that(5)]
      3(3) that(1) by auto
  show ?case
    using step 3(1,2) by (auto simp: scan_members.simps(2)[of h l n s] bind_r_eq_Inl list_case_eq_Inl split: if_splits)
next
  case (5 h l n s)
  have step: "0 < n \<and> length (skip_ws r1) \<le> n" if "scan_once h l s = Inr (v, r)" "skip_ws r = c # r1" for v r c r1
    using scan_once_consumes[OF that(1)] skip_ws_step[OF that(2)] 5(3) by auto
  show ?case
    using step 5(1,2) by (auto simp: scan_items.simps(2)[of h l n s] bind_r_eq_Inl list_case_eq_Inl split: if_splits)
qed simp_all

end
