(* ===== verification/Json_Roundtrip.thy ===== *)
theory Json_Roundtrip
  imports Py_Json Sha256
begin

text \<open>
  Parsing what \<open>json.dumps\<close> prints: the scanner reads the text of a value back as the value with
  its dictionaries in key order. Values are those both sides agree on: no floats, tuples or sets,
  distinct keys, integers the hook accepts, and nesting within the limit.
\<close>

section \<open>Strings\<close>

lemma hex_value_digit: "d < 16 \<Longrightarrow> hex_value (hex_digit d) = Some d"
  by (auto simp: hex_value_def hex_digit_def Let_def of_char_of)

lemma hex4_latin1: "n < 256 \<Longrightarrow> hex4 (CHR ''0'') (CHR ''0'') (hex_digit (n div 16)) (hex_digit (n mod 16)) = Some n"
proof -
  assume n: "n < 256"
  have z: "hex_value (CHR ''0'') = Some 0" by code_simp
  have "n div 16 < 16" "n mod 16 < 16" using n by simp_all
  then show ?thesis by (simp add: hex4_def z hex_value_digit)
qed

lemma bind_r_Inr_id [simp]: "bind_r m Inr = m"
  by (cases m) simp_all

lemma scan_json_char:
  "scan_string (json_char a c @ r) = bind_r (scan_string r) (\<lambda>(t, z). Inr (c # t, z))"
proof -
  have n: "(of_char c :: nat) < 256" by simp
  have c: "(of_char c :: nat) = k \<Longrightarrow> c = char_of k" for k by (metis char_of_char)
  have k: "char_of (8 :: nat) = CHR 0x08" "char_of (9 :: nat) = CHR 0x09" "char_of (10 :: nat) = CHR 0x0A"
    "char_of (12 :: nat) = CHR 0x0C" "char_of (13 :: nat) = CHR 0x0D" by code_simp+
  show ?thesis
    using n hex4_latin1[OF n] c[of 8] c[of 9] c[of 10] c[of 12] c[of 13] unfolding k
    by (auto simp: json_char_def Let_def json_escape_def)
qed

lemma scan_json_chars:
  "scan_string (concat (map (json_char a) s) @ r) = bind_r (scan_string r) (\<lambda>(t, z). Inr (s @ t, z))"
proof (induction s)
  case Nil
  have "(\<lambda>(t :: string, z :: string). Inr (t, z)) = Inr" by auto
  then show ?case by simp
next
  case (Cons c s)
  then show ?case by (simp add: scan_json_char bind_r_assoc case_prod_unfold del: scan_string.simps)
qed

lemma scan_json_str: "scan_string (concat (map (json_char a) s) @ CHR 0x22 # r) = Inr (s, r)"
  by (simp add: scan_json_chars)

section \<open>Numbers\<close>

definition number_end :: "string \<Rightarrow> bool" where
  "number_end r \<longleftrightarrow> (case r of [] \<Rightarrow> True | c # _ \<Rightarrow> \<not> json_digit c \<and> c \<noteq> CHR ''.'' \<and> c \<noteq> CHR ''e'' \<and> c \<noteq> CHR ''E'')"

lemma number_end_tail: "number_end r \<Longrightarrow> scan_fraction r = ([], r) \<and> scan_exponent r = ([], r)"
  by (auto simp: number_end_def scan_fraction_def scan_exponent_def split: list.splits)

lemma json_digit_char: "d < 10 \<Longrightarrow> json_digit (digit_char d)"
  by (simp add: json_digit_def digit_char_def Let_def of_char_of)

lemma show_nat_digits: "list_all json_digit (show_nat n) \<and> show_nat n \<noteq> []"
proof (induction n rule: show_nat.induct)
  case (1 n)
  then show ?case by (subst (1 2) show_nat.simps) (simp add: json_digit_char)
qed

lemma show_nat_head: "hd (show_nat n) = CHR ''0'' \<longleftrightarrow> n = 0"
proof (induction n rule: show_nat.induct)
  case (1 n)
  have d: "digit_char k = CHR ''0'' \<longleftrightarrow> k = 0" if "k < 10" for k
  proof -
    have "digit_char k = CHR ''0'' \<longleftrightarrow> (of_char (digit_char k) :: nat) = of_char (CHR ''0'')" by (metis char_of_char)
    then show ?thesis using that by (simp add: digit_char_def of_char_of)
  qed
  show ?case
  proof (cases "n < 10")
    case False
    then have "hd (show_nat n) = hd (show_nat (n div 10))"
      using show_nat_digits[of "n div 10"] by (simp add: show_nat.simps[of n])
    then show ?thesis using 1[OF False] False by simp
  qed (simp add: show_nat.simps[of n] d)
qed

lemma takeWhile_digits:
  assumes "list_all json_digit ds" "number_end r"
  shows "takeWhile json_digit (ds @ r) = ds" "dropWhile json_digit (ds @ r) = r"
  using assms by (induction ds) (auto simp: number_end_def split: list.splits)

lemma show_nat_cases: "\<exists>c ds. show_nat n = c # ds \<and> json_digit c \<and> list_all json_digit ds \<and> (c = CHR ''0'' \<longrightarrow> ds = [])"
proof (cases "n = 0")
  case True
  then show ?thesis by (simp add: show_nat.simps[of 0] digit_char_def json_digit_def)
next
  case False
  then show ?thesis using show_nat_digits[of n] show_nat_head[of n] by (cases "show_nat n") auto
qed

lemma digit_sum_show: "foldl (\<lambda>n c. 10 * n + (of_char c - 48)) 0 (show_nat n) = (n :: nat)"
proof (induction n rule: show_nat.induct)
  case (1 n)
  show ?case
  proof (cases "n < 10")
    case True
    then show ?thesis by (simp add: show_nat.simps[of n] digit_char_def of_char_of)
  next
    case False
    then show ?thesis using 1[OF False] by (simp add: show_nat.simps[of n] digit_char_def of_char_of)
  qed
qed

lemma scan_number_nat:
  assumes "number_end r"
  shows "scan_number (show_nat n @ r) = Some (show_nat n, False, r)"
    "scan_number (CHR ''-'' # show_nat n @ r) = Some (CHR ''-'' # show_nat n, False, r)"
proof -
  obtain c ds where n: "show_nat n = c # ds" "json_digit c" "list_all json_digit ds" "c = CHR ''0'' \<longrightarrow> ds = []"
    using show_nat_cases by blast
  have "c \<noteq> CHR ''-''" using n(2) by (auto simp: json_digit_def)
  then show "scan_number (show_nat n @ r) = Some (show_nat n, False, r)"
    "scan_number (CHR ''-'' # show_nat n @ r) = Some (CHR ''-'' # show_nat n, False, r)"
    using n takeWhile_digits[OF n(3) assms] number_end_tail[OF assms] by (auto simp: scan_number_def Let_def)
qed

lemma strip_prefix_other: "p \<noteq> c \<Longrightarrow> strip_prefix (p # ps) (c # cs) = None"
  by (simp add: strip_prefix_def)

lemma scan_atom_int:
  assumes "number_end r"
  shows "scan_atom h (show_int i @ r) = bind_r (run_hook (jh_int h (show_int i))) (\<lambda>v. Inr (v, r))"
proof -
  obtain c ds where n: "show_nat (nat (abs i)) = c # ds" "json_digit c" using show_nat_cases by blast
  have c: "c \<noteq> CHR ''n''" "c \<noteq> CHR ''t''" "c \<noteq> CHR ''f''" "c \<noteq> CHR ''N''" "c \<noteq> CHR ''I''" "c \<noteq> CHR ''-''"
    using n(2) by (auto simp: json_digit_def)
  have num: "scan_number (show_int i @ r) = Some (show_int i, False, r)"
    using scan_number_nat[OF assms, of "nat (abs i)"] by (auto simp: show_int_def)
  show ?thesis
    using num n(1) c by (auto simp: scan_atom_def show_int_def strip_prefix_other strip_prefix_def[of "''-Infinity''"])
qed

section \<open>Values\<close>

text \<open>
  The values of the round trip, nested at most \<open>l\<close> deep and with integers that satisfy \<open>P\<close> and are
  short enough to be printed, and what is read back.
\<close>

fun exact_json :: "(int \<Rightarrow> bool) \<Rightarrow> nat \<Rightarrow> pyval \<Rightarrow> bool" where
  "exact_json P l PNone = True"
| "exact_json P l (PBool b) = True"
| "exact_json P l (PInt i) = (P i \<and> printable_int i)"
| "exact_json P l (PStr s) = True"
| "exact_json P (Suc l) (PList xs) = list_all (exact_json P l) xs"
| "exact_json P (Suc l) (PDict m) = (distinct (dkeys m) \<and> list_all (exact_json P l) (map snd m))"
| "exact_json P l v = False"

fun sorted_json :: "pyval \<Rightarrow> pyval" and sorted_list :: "pyval list \<Rightarrow> pyval list"
  and sorted_items :: "pydict \<Rightarrow> pydict" where
  "sorted_json (PList xs) = PList (sorted_list xs)"
| "sorted_json (PDict m) = PDict (sort_key fst (sorted_items m))"
| "sorted_json v = v"
| "sorted_list [] = []"
| "sorted_list (x # xs) = sorted_json x # sorted_list xs"
| "sorted_items [] = []"
| "sorted_items ((k, v) # m) = (k, sorted_json v) # sorted_items m"

lemma sorted_list_map: "sorted_list xs = map sorted_json xs"
  by (induction xs) simp_all

lemma sorted_items_map: "sorted_items m = map (\<lambda>(k, v). (k, sorted_json v)) m"
  by (induction m) auto

lemma sort_key_map_fst: "sort_key fst (map (\<lambda>(k, v). (k, f v)) m) = map (\<lambda>(k, v). (k, f v)) (sort_key fst m)"
proof -
  have ins: "insort_key fst (k, f v) (map (\<lambda>(k, v). (k, f v)) n) = map (\<lambda>(k, v). (k, f v)) (insort_key fst (k, v) n)" for k v n
    by (induction n) auto
  show ?thesis by (induction m) (auto simp: sort_key_def ins)
qed

text \<open>The text of a value, and of the members of an object.\<close>

definition json_text :: "bool \<Rightarrow> pyval \<Rightarrow> string" where
  "json_text a v = projr (json_val a False v)"

lemma json_list_text: "json_list a False xs = Inr ss \<Longrightarrow> ss = map (json_text a) xs"
  by (induction xs arbitrary: ss) (auto simp: res_simps json_text_def)

lemma json_items_text: "json_items a False m = Inr kvs \<Longrightarrow> kvs = map (\<lambda>(k, v). (k, json_text a v)) m"
proof (induction m arbitrary: kvs)
  case (Cons e m)
  then show ?case by (cases e) (auto simp: res_simps json_text_def)
qed simp

lemma json_text_eqs:
  "json_text a PNone = ''null''" "json_text a (PBool b) = (if b then ''true'' else ''false'')"
  "printable_int i \<Longrightarrow> json_text a (PInt i) = show_int i" "json_text a (PStr s) = json_str a s"
  by (simp_all add: json_text_def)

lemma exact_json_total:
  "exact_json P l v \<Longrightarrow> \<exists>s. json_val a False v = Inr s"
proof (induction P l v rule: exact_json.induct)
  case (5 P l xs)
  have x: "\<forall>x \<in> set xs. \<exists>s. json_val a False x = Inr s" using 5 by (auto simp: list_all_iff)
  have "\<exists>ss. json_list a False ys = Inr ss" if "set ys \<subseteq> set xs" for ys
    using that x by (induction ys) (fastforce simp: bind_r_eq_Inr)+
  from this[of xs] show ?case by auto
next
  case (6 P l m)
  have x: "\<exists>s. json_val a False (snd e) = Inr s" if "e \<in> set m" for e using 6 that by (auto simp: list_all_iff)
  have "\<exists>ss. json_items a False n = Inr ss" if "set n \<subseteq> set m" for n
    using that
  proof (induction n)
    case (Cons e n)
    obtain k v where e: "e = (k, v)" by (cases e)
    then obtain s ss where "json_val a False v = Inr s" "json_items a False n = Inr ss"
      using Cons x[of e] by auto
    then show ?case by (simp add: e)
  qed simp
  from this[of m] show ?case by auto
qed simp_all

lemma exact_json_val: "exact_json P l v \<Longrightarrow> json_val a False v = Inr (json_text a v)"
  using exact_json_total[of P l v a] by (auto simp: json_text_def)

lemma json_text_list:
  "exact_json P (Suc l) (PList xs) \<Longrightarrow> json_text a (PList xs) = ''['' @ join_str '','' (map (json_text a) xs) @ '']''"
  using exact_json_total[of P "Suc l" "PList xs" a] json_list_text[of a xs] by (auto simp: json_text_def res_simps)

definition member_text :: "bool \<Rightarrow> string \<times> pyval \<Rightarrow> string" where
  "member_text a = (\<lambda>(k, v). json_str a k @ '':'' @ json_text a v)"

lemma json_text_dict:
  assumes "exact_json P (Suc l) (PDict m)"
  shows "json_text a (PDict m) = ''{'' @ join_str '','' (map (member_text a) (sort_key fst m)) @ ''}''"
proof -
  obtain kvs where kvs: "json_items a False m = Inr kvs"
    using exact_json_total[OF assms, of a] by (auto simp: res_simps)
  have "json_object a kvs = ''{'' @ join_str '','' (map (member_text a) (sort_key fst m)) @ ''}''"
    unfolding json_object_def json_items_text[OF kvs] sort_key_map_fst by (simp add: member_text_def comp_def case_prod_unfold)
  then show ?thesis using kvs by (simp add: json_text_def)
qed

section \<open>Reading a text back\<close>

definition reads :: "'e json_hooks \<Rightarrow> nat \<Rightarrow> bool \<Rightarrow> pyval \<Rightarrow> bool" where
  "reads h l a v \<longleftrightarrow> skip_ws (json_text a v) = json_text a v \<and> json_text a v \<noteq> [] \<and>
     (\<forall>r. number_end r \<longrightarrow> scan_once h l (json_text a v @ r) = Inr (sorted_json v, r))"

lemma skip_ws_text: "skip_ws t = t \<Longrightarrow> t \<noteq> [] \<Longrightarrow> skip_ws (t @ r) = t @ r"
  by (cases t) (auto simp: skip_ws_def split: if_splits, metis Suc_n_not_le_n length_Cons length_dropWhile_le)

lemma skip_ws_punct [simp]:
  "skip_ws (CHR '','' # r) = CHR '','' # r" "skip_ws (CHR '']'' # r) = CHR '']'' # r" "skip_ws (CHR ''}'' # r) = CHR ''}'' # r"
  "skip_ws (CHR '':'' # r) = CHR '':'' # r" "skip_ws (CHR 0x22 # r) = CHR 0x22 # r"
  by (simp_all add: skip_ws_def json_ws_def)

lemma number_end_punct [simp]:
  "number_end []" "number_end (CHR '','' # r)" "number_end (CHR '']'' # r)" "number_end (CHR ''}'' # r)"
  by (simp_all add: number_end_def json_digit_def)

lemma scan_items_text:
  assumes "xs \<noteq> []" "\<forall>x \<in> set xs. reads h l a x" "length xs \<le> n"
  shows "scan_items h l n (join_str '','' (map (json_text a) xs) @ CHR '']'' # r) = Inr (map sorted_json xs, r)"
  using assms
proof (induction xs arbitrary: n)
  case (Cons x xs)
  obtain n' where n: "n = Suc n'" using Cons.prems(3) by (cases n) auto
  have x: "scan_once h l (json_text a x @ q) = Inr (sorted_json x, q)" if "number_end q" for q
    using Cons.prems(2) that by (simp add: reads_def)
  show ?case
  proof (cases xs)
    case Nil
    then show ?thesis by (simp add: n scan_items.simps(2) x)
  next
    case (Cons y ys)
    have sk: "skip_ws (join_str '','' (map (json_text a) xs) @ CHR '']'' # r) = join_str '','' (map (json_text a) xs) @ CHR '']'' # r"
      using Cons.prems(2) skip_ws_text[of "json_text a y"] Cons by (cases ys) (auto simp: reads_def)
    have "scan_items h l n' (join_str '','' (map (json_text a) xs) @ CHR '']'' # r) = Inr (map sorted_json xs, r)"
      using Cons.prems Cons by (intro Cons.IH) (auto simp: n)
    then show ?thesis using sk by (simp add: n scan_items.simps(2) x Cons join_str_Cons)
  qed
qed simp

lemma scan_members_text:
  fixes h :: "'e json_hooks"
  assumes "m \<noteq> []" "\<forall>e \<in> set m. reads h l a (snd e)" "length m \<le> n"
  shows "scan_members h l n (join_str '','' (map (member_text a) m) @ CHR ''}'' # r) =
    Inr (map (\<lambda>(k, v). (k, sorted_json v)) m, r)"
  using assms
proof (induction m arbitrary: n)
  case (Cons e m)
  obtain k v where e: "e = (k, v)" by (cases e)
  obtain n' where n: "n = Suc n'" using Cons.prems(3) by (cases n) auto
  have str: "(scan_string (concat (map (json_char a) k) @ CHR 0x22 # q) :: 'e json_error + string \<times> string) = Inr (k, q)" for q
    by (rule scan_json_str)
  have v: "scan_once h l (json_text a v @ q) = Inr (sorted_json v, q)" if "number_end q" for q
    using Cons.prems(2) that by (simp add: reads_def e)
  have sv: "skip_ws (json_text a v @ q) = json_text a v @ q" for q
    using Cons.prems(2) skip_ws_text[of "json_text a v"] by (simp add: reads_def e)
  show ?case
  proof (cases m)
    case Nil
    then show ?thesis by (simp add: n e member_text_def json_str_def scan_members.simps(2) str sv v del: scan_string.simps)
  next
    case c: (Cons e' m')
    have "\<exists>q. join_str '','' (map (member_text a) m) = CHR 0x22 # q"
      unfolding c by (cases m') (auto simp: member_text_def json_str_def split_beta)
    then obtain q where q: "join_str '','' (map (member_text a) m) = CHR 0x22 # q" by blast
    have ih: "scan_members h l n' (join_str '','' (map (member_text a) m) @ CHR ''}'' # r) =
        Inr (map (\<lambda>(k, v). (k, sorted_json v)) m, r)"
      using Cons.prems c by (intro Cons.IH) (auto simp: n)
    have "map (member_text a) m \<noteq> []" by (simp add: c)
    then have j: "join_str '','' (map (member_text a) (e # m)) =
        CHR 0x22 # concat (map (json_char a) k) @ CHR 0x22 # CHR '':'' # json_text a v @ CHR '','' # CHR 0x22 # q"
      using q by (simp add: join_str_Cons e member_text_def json_str_def)
    show ?thesis unfolding j using ih unfolding q
      by (simp add: n e scan_members.simps(2) str sv v del: scan_string.simps)
  qed
qed simp

lemma join_str_length: "\<forall>t \<in> set ts. t \<noteq> [] \<Longrightarrow> length ts \<le> length (join_str sep ts)"
proof (induction sep ts rule: join_str.induct)
  case (3 sep x y zs)
  then have "Suc (length zs) \<le> length (join_str sep (y # zs))" "1 \<le> length x" by (auto simp: Suc_le_eq)
  then show ?case by simp
qed (auto simp: Suc_le_eq)

definition faithful_hooks :: "(int \<Rightarrow> bool) \<Rightarrow> 'e json_hooks \<Rightarrow> bool" where
  "faithful_hooks P h \<longleftrightarrow> (\<forall>i. P i \<longrightarrow> jh_int h (show_int i) = Inr (PInt i)) \<and>
     (\<forall>ps. distinct (dkeys ps) \<longrightarrow> jh_object h ps = Inr (PDict ps))"

lemma json_text_first:
  "exact_json P l v \<Longrightarrow> \<exists>c s. json_text a v = c # s \<and> \<not> json_ws c \<and> c \<noteq> CHR '']''"
proof (induction P l v rule: exact_json.induct)
  case (3 P l i)
  obtain c ds where "show_nat (nat (abs i)) = c # ds" "json_digit c" using show_nat_cases by blast
  then show ?case using 3 by (auto simp: json_text_eqs show_int_def json_ws_def json_digit_def)
next
  case (5 P l xs)
  show ?case unfolding json_text_list[OF 5(2)] by (simp add: json_ws_def)
next
  case (6 P l m)
  show ?case unfolding json_text_dict[OF 6(2)] by (simp add: json_ws_def)
qed (auto simp: json_text_eqs json_str_def json_ws_def)

lemma reads_exact:
  fixes h :: "'e json_hooks"
  assumes "faithful_hooks P h" "exact_json P l v"
  shows "reads h l a v"
  using assms
proof (induction P l v rule: exact_json.induct)
  case (1 P l)
  then show ?case by (auto simp: reads_def json_text_eqs skip_ws_def json_ws_def scan_once.simps scan_atom_def strip_prefix_def)
next
  case (2 P l b)
  then show ?case by (auto simp: reads_def json_text_eqs skip_ws_def json_ws_def scan_once.simps scan_atom_def strip_prefix_def)
next
  case (3 P l i)
  obtain c s where cs: "show_int i = c # s" "\<not> json_ws c" using json_text_first[OF 3(2), of False] 3(2) by (auto simp: json_text_eqs)
  obtain d ds where d: "show_nat (nat (abs i)) = d # ds" "json_digit d" using show_nat_cases by blast
  have "c = CHR ''-'' \<or> json_digit c" using d cs(1) by (auto simp: show_int_def split: if_splits)
  then have c: "c \<noteq> CHR 0x22" "c \<noteq> CHR ''{''" "c \<noteq> CHR ''[''" by (auto simp: json_digit_def)
  have i: "jh_int h (c # s) = Inr (PInt i)" using 3 cs(1) by (metis exact_json.simps(3) faithful_hooks_def)
  have "scan_once h l (show_int i @ r) = Inr (PInt i, r)" if "number_end r" for r
    using scan_atom_int[OF that, of h i] i c cs(1) by (simp add: scan_once.simps)
  then show ?case using cs 3(2) by (simp add: reads_def json_text_eqs skip_ws_def)
next
  case (4 P l s)
  have str: "(scan_string (concat (map (json_char a) s) @ CHR 0x22 # q) :: 'e json_error + string \<times> string) = Inr (s, q)" for q
    by (rule scan_json_str)
  show ?case by (simp add: reads_def json_text_eqs json_str_def scan_once.simps str del: scan_string.simps)
next
  case (5 P l xs)
  have xs: "\<forall>x \<in> set xs. reads h l a x" using 5 by (auto simp: list_all_iff)
  have first: "skip_ws (join_str '','' (map (json_text a) xs) @ CHR '']'' # r) =
      join_str '','' (map (json_text a) xs) @ CHR '']'' # r" for r
  proof (cases xs)
    case (Cons y ys)
    then show ?thesis using xs skip_ws_text[of "json_text a y"] by (cases ys) (auto simp: reads_def)
  qed simp
  have len: "length xs \<le> length (join_str '','' (map (json_text a) xs))"
    using join_str_length[of "map (json_text a) xs" "'',''"] xs by (auto simp: reads_def)
  have "scan_once h (Suc l) (json_text a (PList xs) @ r) = Inr (PList (map sorted_json xs), r)" for r
  proof (cases xs)
    case Nil
    then show ?thesis unfolding json_text_list[OF 5(3)] by (simp add: scan_once.simps)
  next
    case (Cons y ys)
    have "exact_json P l y" using 5(3) Cons by simp
    then obtain c t where c: "join_str '','' (map (json_text a) xs) @ CHR '']'' # r = c # t" "c \<noteq> CHR '']''"
      using json_text_first[of P l y a] unfolding Cons by (cases ys) auto
    have "length xs \<le> length (c # t)" using len arg_cong[OF c(1), of length] by simp
    then have "scan_items h l (length (c # t)) (c # t) = Inr (map sorted_json xs, r)"
      using scan_items_text[OF _ xs, of "length (c # t)" r] Cons unfolding c(1) by simp
    then show ?thesis using first[of r] c unfolding json_text_list[OF 5(3)] by (simp add: scan_once.simps)
  qed
  then show ?case unfolding reads_def sorted_json.simps sorted_list_map json_text_list[OF 5(3)] by (simp add: skip_ws_def json_ws_def)
next
  case (6 P l m)
  let ?m = "sort_key fst m"
  have m: "\<forall>e \<in> set ?m. reads h l a (snd e)" using 6 by (auto simp: list_all_iff)
  have keys: "distinct (dkeys (map (\<lambda>(k, v). (k, sorted_json v)) ?m))"
    using 6(3) by (auto simp: dkeys_def comp_def case_prod_unfold distinct_map inj_on_def)
  have obj: "jh_object h (map (\<lambda>(k, v). (k, sorted_json v)) ?m) = Inr (PDict (map (\<lambda>(k, v). (k, sorted_json v)) ?m))"
    using 6(2) keys by (simp add: faithful_hooks_def)
  have len: "length ?m \<le> length (join_str '','' (map (member_text a) ?m))"
    using join_str_length[of "map (member_text a) ?m" "'',''"] by (fastforce simp: member_text_def json_str_def)
  have "scan_once h (Suc l) (json_text a (PDict m) @ r) = Inr (PDict (map (\<lambda>(k, v). (k, sorted_json v)) ?m), r)" for r
  proof (cases ?m)
    case Nil
    then show ?thesis using obj unfolding json_text_dict[OF 6(3)] by (simp add: scan_once.simps)
  next
    case (Cons e m')
    obtain t where t: "join_str '','' (map (member_text a) ?m) @ CHR ''}'' # r = CHR 0x22 # t"
      unfolding Cons by (cases m') (auto simp: member_text_def json_str_def split_beta)
    have "length ?m \<le> length (CHR 0x22 # t)" using len arg_cong[OF t, of length] by simp
    then have "scan_members h l (length (CHR 0x22 # t)) (CHR 0x22 # t) = Inr (map (\<lambda>(k, v). (k, sorted_json v)) ?m, r)"
      using scan_members_text[OF _ m, of "length (CHR 0x22 # t)" r] Cons unfolding t by simp
    then show ?thesis using obj t unfolding json_text_dict[OF 6(3)] by (simp add: scan_once.simps)
  qed
  then show ?case unfolding reads_def sorted_json.simps sorted_items_map sort_key_map_fst json_text_dict[OF 6(3)]
    by (simp add: skip_ws_def json_ws_def)
qed simp_all

text \<open>Reading back the whole text.\<close>

lemma json_loads_text:
  fixes h :: "'e json_hooks"
  assumes "faithful_hooks P h" "exact_json P l v"
  shows "json_loads h l (json_text a v) = Inr (sorted_json v)"
proof -
  have r: "reads h l a v" by (rule reads_exact[OF assms])
  then have "scan_once h l (json_text a v @ []) = Inr (sorted_json v, [])" unfolding reads_def using number_end_punct(1) by blast
  then show ?thesis using r by (simp add: reads_def json_loads_def) (simp add: skip_ws_def)
qed

section \<open>Key order and bytes\<close>

lemma sorted_json_text:
  "exact_json P l v \<Longrightarrow> exact_json P l (sorted_json v) \<and> json_text a (sorted_json v) = json_text a v"
proof (induction P l v rule: exact_json.induct)
  case (5 P l xs)
  then have e: "exact_json P (Suc l) (PList (map sorted_json xs))" and
    t: "map (json_text a) (map sorted_json xs) = map (json_text a) xs" by (auto simp: list_all_iff)
  show ?case unfolding sorted_json.simps sorted_list_map json_text_list[OF e] json_text_list[OF 5(2)] t using e by simp
next
  case (6 P l m)
  let ?s = "map (\<lambda>(k, v). (k, sorted_json v)) (sort_key fst m)"
  have s: "sorted_json (PDict m) = PDict ?s" by (simp add: sorted_items_map sort_key_map_fst)
  have f: "map fst ?s = map fst (sort_key fst m)" by (simp add: comp_def case_prod_unfold)
  have o: "sort_key fst ?s = ?s" by (rule sort_key_id_if_sorted) (simp only: f sorted_sort_key)
  have d: "distinct (map fst (sort_key fst m))" using 6(2) by (auto simp: dkeys_def distinct_map inj_on_def)
  have ih: "exact_json P l (sorted_json v) \<and> json_text a (sorted_json v) = json_text a v" if "(k, v) \<in> set m" for k v
    using 6 that by (force simp: list_all_iff)
  have "list_all (exact_json P l) (map snd ?s)" by (auto simp: list_all_iff ih)
  then have e: "exact_json P (Suc l) (PDict ?s)" using d by (simp only: dkeys_def f exact_json.simps)
  have t: "map (member_text a) ?s = map (member_text a) (sort_key fst m)" by (auto simp: member_text_def ih)
  show ?case unfolding s json_text_dict[OF e] json_text_dict[OF 6(2)] o t using e by simp
qed simp_all

lemma utf8_char_shape:
  "(of_char c :: nat) < 128 \<and> utf8_char c = [of_char c] \<or>
   128 \<le> (of_char c :: nat) \<and> (\<exists>a b. utf8_char c = [192 + a, 128 + b] \<and> 2 \<le> a \<and> a < 4 \<and> b < 64 \<and> of_char c = a * 64 + b)"
proof -
  have "(of_char c :: nat) < 256" by simp
  then have "(of_char c :: nat) div 64 < 4" by (simp add: div_less_iff_less_mult)
  then show ?thesis by (auto simp: utf8_char_def Let_def not_less)
qed

lemma utf8_decode_char: "utf8_decode (utf8_char c @ bs) = map_option ((#) (of_char c)) (utf8_decode bs)"
  using utf8_char_shape[of c] by (auto simp: cont_byte_def)

lemma utf8_decode_utf8: "utf8_decode (utf8 s) = Some (map of_char s)"
  by (induction s) (simp_all add: utf8_decode_char utf8_def)

lemma map_char_of_char [simp]: "map (char_of \<circ> (of_char :: char \<Rightarrow> nat)) s = s"
  by (induction s) simp_all

end
