(* ===== verification/Shield_V4_Crypto_Facts.thy ===== *)
theory Shield_V4_Crypto_Facts
  imports Shield_V4_Oqs Shield_V4_Verified Json_Roundtrip
begin

text \<open>
  What the signature boundary guarantees: encoded material is read back, the signed message
  determines every field it binds, the library's answer is the only way to a true verdict, and
  what a receipt verified with such a callback rests on.
\<close>

section \<open>Encoded material\<close>

lemma b64_alphabet:
  "length B64URL = 64" "map b64_value B64URL = [0..<64]" "set B64URL = Collect is_base64url"
  "list_all (\<lambda>c. c \<noteq> CHR ''='' \<and> \<not> py_isspace c \<and> (of_char c :: nat) < 128) B64URL"
proof -
  show "length B64URL = 64" by code_simp
  have "map b64_value B64URL = [0, 1, 2, 3, 4, 5, 6, 7, 8, 9, 10, 11, 12, 13, 14, 15, 16, 17, 18, 19, 20, 21, 22, 23, 24, 25,
    26, 27, 28, 29, 30, 31, 32, 33, 34, 35, 36, 37, 38, 39, 40, 41, 42, 43, 44, 45, 46, 47, 48, 49, 50, 51, 52, 53, 54, 55,
    56, 57, 58, 59, 60, 61, 62, 63]" by (simp add: B64URL_def b64_value_def)
  then show "map b64_value B64URL = [0..<64]" by (simp add: upt_rec)
  show "set B64URL = Collect is_base64url" by (auto simp: B64URL_def is_base64url_def)
  show "list_all (\<lambda>c. c \<noteq> CHR ''='' \<and> \<not> py_isspace c \<and> (of_char c :: nat) < 128) B64URL"
    by (simp add: B64URL_def py_isspace_def)
qed

lemma b64_table:
  assumes "n < 64"
  shows "b64_value (b64_char n) = n" "is_base64url (b64_char n)" "b64_char n \<noteq> CHR ''=''"
    "\<not> py_isspace (b64_char n)" "(of_char (b64_char n) :: nat) < 128"
proof -
  have m: "b64_char n \<in> set B64URL" using assms b64_alphabet(1) by (simp add: b64_char_def)
  show "b64_value (b64_char n) = n"
    using assms b64_alphabet(1) nth_map[of n B64URL b64_value] unfolding b64_alphabet(2) by (simp add: b64_char_def)
  show "is_base64url (b64_char n)" "b64_char n \<noteq> CHR ''=''" "\<not> py_isspace (b64_char n)" "(of_char (b64_char n) :: nat) < 128"
    using m b64_alphabet(3,4) by (auto simp: list_all_iff)
qed

lemma sextets:
  fixes a b :: nat
  shows "a < 256 \<Longrightarrow> a div 4 < 64" "a mod 4 * 16 < 64" "b < 256 \<Longrightarrow> a mod 4 * 16 + b div 16 < 64"
    "a mod 16 * 4 < 64" "b < 256 \<Longrightarrow> a mod 16 * 4 + b div 64 < 64" "a mod 64 < 64"
    "b < 256 \<Longrightarrow> (a mod 4 * 16 + b div 16) div 16 = a mod 4" "b < 256 \<Longrightarrow> (a mod 4 * 16 + b div 16) mod 16 = b div 16"
    "b < 256 \<Longrightarrow> (a mod 16 * 4 + b div 64) div 4 = a mod 16" "b < 256 \<Longrightarrow> (a mod 16 * 4 + b div 64) mod 4 = b div 64"
proof -
  have d: "b < 256 \<Longrightarrow> b div 16 < 16" "b < 256 \<Longrightarrow> b div 64 < 4" by (simp_all add: div_less_iff_less_mult)
  have m: "a mod 4 < 4" "a mod 16 < 16" by simp_all
  show "a < 256 \<Longrightarrow> a div 4 < 64" "a mod 64 < 64" by (simp_all add: div_less_iff_less_mult)
  show "a mod 4 * 16 < 64" "a mod 16 * 4 < 64" "b < 256 \<Longrightarrow> a mod 4 * 16 + b div 16 < 64"
    "b < 256 \<Longrightarrow> a mod 16 * 4 + b div 64 < 64" using d m by linarith+
  show "b < 256 \<Longrightarrow> (a mod 4 * 16 + b div 16) div 16 = a mod 4" "b < 256 \<Longrightarrow> (a mod 4 * 16 + b div 16) mod 16 = b div 16"
    "b < 256 \<Longrightarrow> (a mod 16 * 4 + b div 64) div 4 = a mod 16" "b < 256 \<Longrightarrow> (a mod 16 * 4 + b div 64) mod 4 = b div 64"
    using d by simp_all
qed

lemma b64_roundtrip: "list_all (\<lambda>b. b < 256) raw \<Longrightarrow> b64_decode (map b64_value (b64_encode raw)) = Some raw"
  by (induction raw rule: b64_encode.induct) (auto simp: b64_table sextets)

lemma b64_encode_chars:
  "list_all (\<lambda>b. b < 256) raw \<Longrightarrow>
     list_all (\<lambda>c. is_base64url c \<and> c \<noteq> CHR ''='' \<and> \<not> py_isspace c \<and> (of_char c :: nat) < 128) (b64_encode raw)"
  by (induction raw rule: b64_encode.induct) (auto simp: b64_table sextets)

lemma b64_encode_length: "length (b64_encode raw) = (4 * length raw + 2) div 3"
proof (induction raw rule: b64_encode.induct)
  case (4 a b c r)
  have "(4 * (length r + 3) + 2) div 3 = (4 * length r + 2) div 3 + (4 :: nat)" by presburger
  then show ?case using 4 by (simp add: algebra_simps)
qed simp_all

lemma utf8_ascii_length: "list_all (\<lambda>c. (of_char c :: nat) < 128) s \<Longrightarrow> length (utf8 s) = length s"
  by (induction s) (simp_all add: utf8_def utf8_char_def)

lemma bounded_text_ok:
  "require_bounded_text (PStr s) field = Inr t \<longleftrightarrow>
     t = s \<and> s \<noteq> [] \<and> length s \<le> MAX_TEXT_FIELD_BYTES \<and> length (utf8 s) \<le> MAX_TEXT_FIELD_BYTES"
  by (auto simp: require_bounded_text_def not_less)

definition encoded :: "nat list \<Rightarrow> string" where
  "encoded raw = REAL_SIGNATURE_ENCODING_PREFIX @ b64_encode raw"

lemma encoded_facts:
  assumes "list_all (\<lambda>b. b < 256) raw" "raw \<noteq> []"
  shows "length (utf8 (encoded raw)) = length (encoded raw)" "length (encoded raw) = 5 + (4 * length raw + 2) div 3"
    "py_strip (encoded raw) = encoded raw" "take 5 (encoded raw) = REAL_SIGNATURE_ENCODING_PREFIX"
    "drop 5 (encoded raw) = b64_encode raw" "b64_encode raw \<noteq> []"
proof -
  have c: "list_all (\<lambda>c. \<not> py_isspace c \<and> (of_char c :: nat) < 128) (encoded raw)"
    using b64_encode_chars[OF assms(1)] by (auto simp: encoded_def REAL_SIGNATURE_ENCODING_PREFIX_def py_isspace_def list_all_iff)
  then show "length (utf8 (encoded raw)) = length (encoded raw)" by (auto intro!: utf8_ascii_length simp: list_all_iff)
  show "py_strip (encoded raw) = encoded raw" using c by (auto intro!: py_strip_id simp: list_all_iff)
  show "length (encoded raw) = 5 + (4 * length raw + 2) div 3" "take 5 (encoded raw) = REAL_SIGNATURE_ENCODING_PREFIX"
    "drop 5 (encoded raw) = b64_encode raw" by (simp_all add: encoded_def REAL_SIGNATURE_ENCODING_PREFIX_def b64_encode_length)
  show "b64_encode raw \<noteq> []" using assms(2) by (cases raw rule: b64_encode.cases) auto
qed

lemma MAX_RAW_BYTES_eq: "MAX_RAW_BYTES = 6140"
  by (simp add: MAX_RAW_BYTES_def MAX_TEXT_FIELD_BYTES_def REAL_SIGNATURE_ENCODING_PREFIX_def)

lemma encode_material_ok:
  assumes "list_all (\<lambda>b. b < 256) raw"
  shows "encode_binary_signature_material raw field = Inr s \<longleftrightarrow> raw \<noteq> [] \<and> length raw \<le> 6140 \<and> s = encoded raw"
proof (cases "raw \<noteq> [] \<and> length raw \<le> 6140")
  case True
  have "(4 * length raw + 2) div 3 \<le> 8187" using True by linarith
  then have "require_bounded_text (PStr (encoded raw)) field = Inr (encoded raw)"
    using encoded_facts(1,2,6)[OF assms] True by (auto simp: bounded_text_ok MAX_TEXT_FIELD_BYTES_def encoded_def)
  then show ?thesis using True by (auto simp: encode_binary_signature_material_def res_simps MAX_RAW_BYTES_eq encoded_def)
qed (auto simp: encode_binary_signature_material_def res_simps MAX_RAW_BYTES_eq)

lemma require_non_empty_str_ok [res_simps]:
  "require_non_empty_str v field = Inr s \<longleftrightarrow> v = PStr s \<and> s \<noteq> [] \<and> py_strip s = s"
  by (cases v) (auto simp: require_non_empty_str_def res_simps)

text \<open>
  Key and signature material survives its encoding: any 1 to 6140 bytes are encoded, and the
  decoder returns exactly these bytes; no other input is encoded.
\<close>

theorem signature_material_roundtrip:
  assumes "list_all (\<lambda>b. b < 256) raw"
  shows "if raw \<noteq> [] \<and> length raw \<le> 6140
    then \<exists>s. encode_binary_signature_material raw f = Inr s \<and> decode_binary_signature_material (PStr s) g = Inr raw
    else \<exists>m. encode_binary_signature_material raw f = Inl (RcError m)"
proof (cases "raw \<noteq> [] \<and> length raw \<le> 6140")
  case True
  then have n: "raw \<noteq> []" "(4 * length raw + 2) div 3 \<le> 8187" by linarith+
  note e = encoded_facts[OF assms n(1)]
  have b: "require_bounded_text (PStr (encoded raw)) g = Inr (encoded raw)"
    using e(1,2,6) n(2) by (auto simp: bounded_text_ok MAX_TEXT_FIELD_BYTES_def encoded_def)
  have "list_all is_base64url (b64_encode raw)" "CHR ''='' \<notin> set (b64_encode raw)"
    using b64_encode_chars[OF assms] by (auto simp: list_all_iff)
  then have "decode_binary_signature_material (PStr (encoded raw)) g = Inr raw"
    using b e(3-6) n(1) b64_roundtrip[OF assms] by (auto simp: decode_binary_signature_material_def res_simps Let_def encoded_def)
  then show ?thesis using True encode_material_ok[OF assms, of f] by auto
next
  case False
  then show ?thesis by (cases "raw = []") (auto simp: encode_binary_signature_material_def cx_check_def MAX_RAW_BYTES_eq)
qed

lemma signature_material_roundtrip_witness:
  "\<exists>s. encode_binary_signature_material [0, 255, 16] ''signature'' = Inr s \<and>
     decode_binary_signature_material (PStr s) ''signature'' = Inr [0, 255, 16]"
  using signature_material_roundtrip[of "[0, 255, 16]" "''signature''" "''signature''"] by simp

text \<open>The low bits of the last character are not checked: two texts, one signature.\<close>

lemma signature_text_is_malleable:
  "decode_binary_signature_material (PStr ''b64u:AA'') f = Inr [0]" "decode_binary_signature_material (PStr ''b64u:AB'') f = Inr [0]"
  by (simp_all add: decode_binary_signature_material_def require_bounded_text_def MAX_TEXT_FIELD_BYTES_def utf8_def utf8_char_def
      require_non_empty_str_def cx_check_def py_strip_def py_isspace_def REAL_SIGNATURE_ENCODING_PREFIX_def is_base64url_def b64_value_def)

section \<open>The signed message\<close>

lemma hex_digits_no_newline: "hex_digits_ok s \<Longrightarrow> CHR 0x0A \<notin> set s"
proof (induction s rule: hex_digits_ok.induct)
  case (2 c)
  then show ?case by (auto simp: is_hex_digit_def)
next
  case (3 c d s)
  then show ?case by (auto simp: is_hex_digit_def split: if_splits)
qed simp

lemma dropWhile_length: "length (dropWhile P s) = length s \<Longrightarrow> dropWhile P s = s"
  by (cases s) (auto split: if_splits, metis Suc_n_not_le_n length_dropWhile_le)

lemma strip_self:
  assumes "py_strip s = s"
  shows "dropWhile py_isspace s = s" "dropWhile py_isspace (rev s) = rev s"
proof -
  have "length s \<le> length (dropWhile py_isspace s)"
    using arg_cong[OF assms, of length] length_dropWhile_le[of py_isspace "rev (dropWhile py_isspace s)"] by (simp add: py_strip_def)
  then show d: "dropWhile py_isspace s = s" using length_dropWhile_le[of py_isspace s] by (intro dropWhile_length) simp
  show "dropWhile py_isspace (rev s) = rev s" using assms unfolding py_strip_def d by (metis rev_swap)
qed

lemma int_space_isspace: "int_space s c \<Longrightarrow> py_isspace c"
  by (auto simp: int_space_def py_isspace_def Let_def split: if_splits)

lemma no_int_space: "dropWhile py_isspace t = t \<Longrightarrow> dropWhile (int_space s) t = t"
  by (cases t) (auto dest: int_space_isspace split: if_splits, metis Suc_n_not_le_n length_Cons length_dropWhile_le)

lemma int16_no_newline:
  assumes "int16_ok s" "py_strip s = s"
  shows "CHR 0x0A \<notin> set s"
proof -
  have t: "rev (dropWhile (int_space s) (rev (dropWhile (int_space s) s))) = s"
    using strip_self[OF assms(2)] by (simp add: no_int_space)
  have p: "CHR 0x0A \<notin> set u" if "take 2 u = ''0x'' \<or> take 2 u = ''0X''" "CHR 0x0A \<notin> set (drop 2 u)" for u
    using that by (cases u; cases "tl u") auto
  have h: "CHR 0x0A \<notin> set u" if "u \<noteq> []" "hd u \<in> {CHR ''+'', CHR ''-'', CHR ''_''}" "CHR 0x0A \<notin> set (tl u)" for u
    using that by (cases u) auto
  show ?thesis using assms(1) p h unfolding int16_ok_def t Let_def
    by (auto dest!: hex_digits_no_newline split: if_splits)
qed

lemma line_split: "x @ CHR 0x0A # r = y @ CHR 0x0A # q \<Longrightarrow> CHR 0x0A \<notin> set x \<Longrightarrow> CHR 0x0A \<notin> set y \<Longrightarrow> x = y \<and> r = q"
  by (induction x arbitrary: y) (case_tac y; auto)+

lemma last_line_split:
  assumes "x @ CHR 0x0A # r = y @ CHR 0x0A # q" "CHR 0x0A \<notin> set r" "CHR 0x0A \<notin> set q"
  shows "x = y \<and> r = q"
proof -
  have "rev r @ CHR 0x0A # rev x = rev q @ CHR 0x0A # rev y" using arg_cong[OF assms(1), of rev] by simp
  then show ?thesis using line_split[of "rev r" "rev x" "rev q" "rev y"] assms(2,3) by simp
qed

lemma require_hash_ok [res_simps]:
  "require_hash v field = Inr s \<longleftrightarrow> v = PStr s \<and> py_strip s = s \<and> length s = 64 \<and> int16_ok s \<and> py_lower s = s"
  by (auto simp: require_hash_def res_simps)

lemma require_positive_int_ok [res_simps]: "require_positive_int v field = Inr i \<longleftrightarrow> v = PInt i \<and> 0 < i"
  by (cases v) (auto simp: require_positive_int_def res_simps)

lemma require_supported_algorithm_ok [res_simps]:
  "require_supported_algorithm v = Inr a \<longleftrightarrow> v = PStr a \<and> a \<in> set ALLOWED_ALGORITHMS"
proof -
  have "a \<noteq> [] \<and> py_strip a = a" if "a \<in> set ALLOWED_ALGORITHMS" for a
    using that by (auto simp: ALLOWED_ALGORITHMS_def V4_REQUIRED_ALGORITHMS_def py_strip_def py_isspace_def)
  then show ?thesis by (auto simp: require_supported_algorithm_def res_simps)
qed

lemma profile_clean: "p \<in> set (algorithm_standard_profiles a) \<Longrightarrow> p \<noteq> [] \<and> py_strip p = p \<and> CHR 0x0A \<notin> set p"
  by (auto simp: algorithm_standard_profiles_def py_strip_def py_isspace_def split: if_splits)

lemma rc_profile_ok [res_simps]:
  "require_profile a v = Inr p \<longleftrightarrow> v = PStr p \<and> p \<in> set (algorithm_standard_profiles a)"
  using profile_clean by (auto simp: require_profile_def res_simps)

lemma signing_domain_clean:
  "d \<in> {COMPONENT_VERDICT_DOMAIN, ORCHESTRATOR_RECEIPT_DOMAIN} \<Longrightarrow> d \<noteq> [] \<and> py_strip d = d \<and> CHR 0x0A \<notin> set d"
  by (auto simp: COMPONENT_VERDICT_DOMAIN_def ORCHESTRATOR_RECEIPT_DOMAIN_def py_strip_def py_isspace_def)

definition signature_message :: "string \<Rightarrow> string \<Rightarrow> string \<Rightarrow> string \<Rightarrow> string \<Rightarrow> int \<Rightarrow> string" where
  "signature_message a p d h k n = join_str [CHR 0x0A] [REAL_CRYPTO_SIGNATURE_INPUT_PREFIX, d, h, a, p, k, show_int n]"

lemma build_input_ok [res_simps]:
  "build_real_crypto_signature_input va vp vd vh vk vn = Inr m \<longleftrightarrow> (\<exists>a p d h k n.
     va = PStr a \<and> vp = PStr p \<and> vd = PStr d \<and> vh = PStr h \<and> vk = PStr k \<and> vn = PInt n \<and>
     a \<in> set ALLOWED_ALGORITHMS \<and> p \<in> set (algorithm_standard_profiles a) \<and>
     d \<in> {COMPONENT_VERDICT_DOMAIN, ORCHESTRATOR_RECEIPT_DOMAIN} \<and>
     py_strip h = h \<and> length h = 64 \<and> int16_ok h \<and> py_lower h = h \<and> k \<noteq> [] \<and> py_strip k = k \<and> 0 < n \<and>
     m = utf8 (signature_message a p d h k n))"
  using signing_domain_clean
  by (auto simp: build_real_crypto_signature_input_def res_simps signature_message_def)

lemma show_positive_inject: "show_int i = show_int j \<Longrightarrow> 0 < i \<Longrightarrow> 0 < j \<Longrightarrow> i = j"
proof -
  assume "show_int i = show_int j" "0 < i" "0 < j"
  then have "show_nat (nat i) = show_nat (nat j)" by (simp add: show_int_def)
  from arg_cong[OF this, of "foldl (\<lambda>n c. 10 * n + (of_char c - 48)) (0 :: nat)"] have "nat i = nat j"
    unfolding digit_sum_show .
  then show "i = j" using \<open>0 < i\<close> \<open>0 < j\<close> by simp
qed

lemma of_char_newline: "(of_char (CHR 0x0A) :: nat) = 10"
  by simp

lemma show_positive_no_newline: "0 < n \<Longrightarrow> CHR 0x0A \<notin> set (show_int n)"
proof -
  have "CHR 0x0A \<notin> set (show_nat k)" for k
  proof (induction k rule: show_nat.induct)
    case (1 k)
    have "CHR 0x0A \<noteq> digit_char d" if "d < 10" for d
    proof
      assume "CHR 0x0A = digit_char d"
      then have "(of_char (digit_char d) :: nat) = 10" by (metis of_char_newline)
      then show False using that by (simp add: digit_char_def of_char_of)
    qed
    then show ?case using 1 by (auto simp: show_nat.simps[of k])
  qed
  then show "0 < n \<Longrightarrow> ?thesis" by (simp add: show_int_def)
qed

lemma signature_message_inject:
  assumes "signature_message a p d h k n = signature_message a' p' d' h' k' n'"
    and "CHR 0x0A \<notin> set a \<union> set p \<union> set d \<union> set h" "CHR 0x0A \<notin> set a' \<union> set p' \<union> set d' \<union> set h'" "0 < n" "0 < n'"
  shows "a = a' \<and> p = p' \<and> d = d' \<and> h = h' \<and> k = k' \<and> n = n'"
proof -
  let ?t = "\<lambda>k n. k @ CHR 0x0A # show_int n"
  have e: "d @ CHR 0x0A # h @ CHR 0x0A # a @ CHR 0x0A # p @ CHR 0x0A # ?t k n =
      d' @ CHR 0x0A # h' @ CHR 0x0A # a' @ CHR 0x0A # p' @ CHR 0x0A # ?t k' n'"
    using assms(1) by (simp add: signature_message_def)
  from line_split[OF this] have "d = d'" "h @ CHR 0x0A # a @ CHR 0x0A # p @ CHR 0x0A # ?t k n =
      h' @ CHR 0x0A # a' @ CHR 0x0A # p' @ CHR 0x0A # ?t k' n'" using assms(2,3) by auto
  moreover from line_split[OF this(2)] have "h = h'" "a @ CHR 0x0A # p @ CHR 0x0A # ?t k n =
      a' @ CHR 0x0A # p' @ CHR 0x0A # ?t k' n'" using assms(2,3) by auto
  moreover from line_split[OF this(2)] have "a = a'" "p @ CHR 0x0A # ?t k n = p' @ CHR 0x0A # ?t k' n'"
    using assms(2,3) by auto
  moreover from line_split[OF this(2)] have "p = p'" "?t k n = ?t k' n'" using assms(2,3) by auto
  moreover from last_line_split[OF this(2)] have "k = k'" "show_int n = show_int n'"
    using show_positive_no_newline assms(4,5) by auto
  ultimately show ?thesis using show_positive_inject assms(4,5) by blast
qed

lemma build_input_lines:
  assumes "build_real_crypto_signature_input va vp vd vh vk vn = Inr m"
  obtains a p d h k n where "va = PStr a" "vp = PStr p" "vd = PStr d" "vh = PStr h" "vk = PStr k" "vn = PInt n"
    "CHR 0x0A \<notin> set a \<union> set p \<union> set d \<union> set h" "0 < n" "m = utf8 (signature_message a p d h k n)"
proof -
  have a: "CHR 0x0A \<notin> set a" if "a \<in> set ALLOWED_ALGORITHMS" for a
    using that by (auto simp: ALLOWED_ALGORITHMS_def V4_REQUIRED_ALGORITHMS_def)
  obtain a p d h k n where b: "va = PStr a" "vp = PStr p" "vd = PStr d" "vh = PStr h" "vk = PStr k" "vn = PInt n"
    "a \<in> set ALLOWED_ALGORITHMS" "p \<in> set (algorithm_standard_profiles a)"
    "d \<in> {COMPONENT_VERDICT_DOMAIN, ORCHESTRATOR_RECEIPT_DOMAIN}" "py_strip h = h" "int16_ok h" "0 < n"
    "m = utf8 (signature_message a p d h k n)"
    using assms unfolding build_input_ok by (elim exE conjE)
  then show thesis using that[of a p d h k n] a[of a] profile_clean[of p a] signing_domain_clean[of d] int16_no_newline[of h]
    by simp
qed

text \<open>
  C34: The signed message is unambiguous: two messages with the same bytes bind the same algorithm,
  profile, domain, payload hash, key id and key version, although a key id may itself contain
  line breaks.
\<close>

theorem signature_input_unambiguous:
  assumes "build_real_crypto_signature_input va vp vd vh vk vn = Inr m"
    and "build_real_crypto_signature_input va' vp' vd' vh' vk' vn' = Inr m"
  shows "(va, vp, vd, vh, vk, vn) = (va', vp', vd', vh', vk', vn')"
proof -
  obtain a p d h k n where l: "va = PStr a" "vp = PStr p" "vd = PStr d" "vh = PStr h" "vk = PStr k" "vn = PInt n"
    "CHR 0x0A \<notin> set a \<union> set p \<union> set d \<union> set h" "0 < n" "m = utf8 (signature_message a p d h k n)"
    using assms(1) by (rule build_input_lines)
  obtain a' p' d' h' k' n' where r: "va' = PStr a'" "vp' = PStr p'" "vd' = PStr d'" "vh' = PStr h'" "vk' = PStr k'" "vn' = PInt n'"
    "CHR 0x0A \<notin> set a' \<union> set p' \<union> set d' \<union> set h'" "0 < n'" "m = utf8 (signature_message a' p' d' h' k' n')"
    using assms(2) by (rule build_input_lines)
  have "signature_message a p d h k n = signature_message a' p' d' h' k' n'" using l(9) r(9) by simp
  then show ?thesis using signature_message_inject[OF _ l(7) r(7) l(8) r(8)] l r by simp
qed

lemma signature_input_unambiguous_witness:
  "\<exists>m. build_real_crypto_signature_input (PStr ''ml-dsa'') (PStr ''fips204-ml-dsa-65-v1'') (PStr ORCHESTRATOR_RECEIPT_DOMAIN)
      (PStr (replicate 64 CHR ''a'')) (PStr ''key'') (PInt 1) = Inr m \<and>
    build_real_crypto_signature_input (PStr ''ml-dsa'') (PStr ''fips204-ml-dsa-65-v1'') (PStr COMPONENT_VERDICT_DOMAIN)
      (PStr (replicate 64 CHR ''a'')) (PStr ''key'') (PInt 1) \<noteq> Inr m"
proof -
  let ?b = "\<lambda>d. build_real_crypto_signature_input (PStr ''ml-dsa'') (PStr ''fips204-ml-dsa-65-v1'') (PStr d)
      (PStr (replicate 64 CHR ''a'')) (PStr ''key'') (PInt 1)"
  let ?h = "replicate 64 CHR ''a''"
  have h: "py_strip ?h = ?h" "int16_ok ?h" "py_lower ?h = ?h" by code_simp+
  have k: "py_strip ''key'' = ''key''" "''ml-dsa'' \<in> set ALLOWED_ALGORITHMS"
    "''fips204-ml-dsa-65-v1'' \<in> set (algorithm_standard_profiles ''ml-dsa'')" by code_simp+
  have "\<exists>m. ?b ORCHESTRATOR_RECEIPT_DOMAIN = Inr m" using h k unfolding build_input_ok by (intro exI) auto
  then obtain m where m: "?b ORCHESTRATOR_RECEIPT_DOMAIN = Inr m" ..
  have "?b COMPONENT_VERDICT_DOMAIN \<noteq> Inr m"
    using signature_input_unambiguous[OF m, of "PStr ''ml-dsa''" "PStr ''fips204-ml-dsa-65-v1''" "PStr COMPONENT_VERDICT_DOMAIN"
        "PStr ?h" "PStr ''key''" "PInt 1"] by (auto simp: ORCHESTRATOR_RECEIPT_DOMAIN_def COMPONENT_VERDICT_DOMAIN_def)
  then show ?thesis using m by blast
qed

section \<open>Verdicts\<close>

lemma call_backend_ok [res_simps]: "call_backend_operation f x = Inr v \<longleftrightarrow> x = Inr v"
  by (auto simp: call_backend_operation_def split: sum.splits option.splits)

lemma require_backend_ok [res_simps]:
  "require_backend_supports_algorithm b a = Inr u \<longleftrightarrow> (\<exists>xs. bk_supported b = Inr xs \<and> PStr a \<in> set xs)"
  by (auto simp: require_backend_supports_algorithm_def res_simps split: sum.splits)

text \<open>The fields of an entry, the key they name and the question put to the backend.\<close>

definition entry_asks :: "pydict \<Rightarrow> trusted_key \<Rightarrow> string \<Rightarrow> nat list \<Rightarrow> string \<Rightarrow> bool" where
  "entry_asks e key algorithm message signature \<longleftrightarrow> set (dkeys e) = set SIGNATURE_ENTRY_FIELDS \<and>
     dget e ''algorithm'' = PStr algorithm \<and> dget e ''key_id'' = PStr (tk_key_id key) \<and>
     dget e ''key_version'' = PInt (tk_key_version key) \<and> tk_algorithm key = algorithm \<and>
     dget e ''signature'' = PStr signature \<and>
     build_real_crypto_signature_input (PStr algorithm) (dget e ''standard_profile'') (dget e ''domain_tag'')
       (dget e ''signed_payload_hash'') (dget e ''key_id'') (dget e ''key_version'') = Inr message"

lemma bool_case_ok: "(case v of PBool b \<Rightarrow> Inr b | _ \<Rightarrow> Inl x) = Inr b \<longleftrightarrow> v = PBool b"
  by (cases v) auto

lemma verify_entry_ok:
  assumes "verify_signature_entry_with_real_backend backend entry key = Inr b"
  shows "\<exists>e algorithm message signature. entry = PDict e \<and> entry_asks e key algorithm message signature \<and>
    reject_test_only_key_material key = Inr () \<and>
    (\<exists>xs. bk_supported backend = Inr xs \<and> PStr algorithm \<in> set xs) \<and>
    bk_verify backend algorithm (tk_public_key key) message signature = Inr (PBool b)"
proof (cases entry)
  case (PDict e)
  show ?thesis using assms unfolding PDict verify_signature_entry_with_real_backend_def
    by (clarsimp simp: res_simps bool_case_ok entry_asks_def)
qed (use assms in \<open>auto simp: verify_signature_entry_with_real_backend_def\<close>)

text \<open>What a length in the library's details demands.\<close>

definition length_meets :: "pyval \<Rightarrow> string \<Rightarrow> bool \<Rightarrow> nat list \<Rightarrow> bool" where
  "length_meets details key shorter value \<longleftrightarrow> details = PNone \<or> (\<exists>m. details = PDict m \<and>
     (dget m key = PNone \<or> (\<exists>n > 0. dget m key = PInt n \<and>
        (if shorter then int (length value) \<le> n else int (length value) = n))))"

lemma require_expected_binary_length_ok [res_simps]:
  "require_expected_binary_length c value details key field shorter = Inr u \<longleftrightarrow> length_meets details key shorter value"
  by (auto simp: require_expected_binary_length_def length_meets_def split: pyval.splits)

lemma require_mechanism_enabled_ok [res_simps]:
  "require_mechanism_enabled c imported = Inr oqs \<longleftrightarrow> imported = OqsModule oqs \<and>
     (\<exists>xs. om_enabled oqs = Inr xs \<and> PStr (oc_mechanism c) \<in> set xs)"
  by (auto simp: require_mechanism_enabled_def res_simps load_oqs_def split: oqs_import.splits sum.splits)

lemma require_bytes_ok [res_simps]: "require_bytes v f = Inr b \<longleftrightarrow> b = v \<and> v \<noteq> []"
  by (auto simp: require_bytes_def)

lemma verify_in_context_ok:
  "verify_in_context c ver message signature public_key = Inr v \<longleftrightarrow> (\<exists>details. ov_details ver = Inr details \<and>
     length_meets details ''length_public_key'' False public_key \<and>
     length_meets details ''length_signature'' (oc_shorter_signature c) signature \<and> ov_verify ver message signature public_key = Inr v)"
proof (cases "ov_details ver")
  case (Inr details)
  let ?n = "bind_r (require_expected_binary_length c public_key details ''length_public_key'' ''public_key'' False) (\<lambda>_.
      require_expected_binary_length c signature details ''length_signature'' ''signature'' (oc_shorter_signature c))"
  have "?n = Inr () \<longleftrightarrow> length_meets details ''length_public_key'' False public_key \<and>
      length_meets details ''length_signature'' (oc_shorter_signature c) signature"
    by (simp add: bind_r_eq_Inr require_expected_binary_length_ok)
  then show ?thesis using Inr by (cases ?n) (auto simp: verify_in_context_def split: sum.splits)
qed (simp add: verify_in_context_def)

lemma oqs_answer_ok:
  "(case x of Inl (Some e) \<Rightarrow> Inl e | Inl None \<Rightarrow> Inl f | Inr (PBool b) \<Rightarrow> Inr b | Inr _ \<Rightarrow> Inl g) = Inr b \<longleftrightarrow> x = Inr (PBool b)"
  by (auto split: sum.splits option.splits pyval.splits)

text \<open>
  C33: A backend for liboqs gives a verdict only for its own algorithm, on decoded key and signature
  of the lengths the library demands, under the enabled mechanism, and the verdict is the one
  the library's own \<open>verify\<close> returned for exactly these bytes; everything else is an error.
\<close>

theorem oqs_verdict_iff:
  "oqs_verify_signature c imported algorithm public_key message signature = Inr b \<longleftrightarrow>
     algorithm = oc_algorithm c \<and> message \<noteq> [] \<and> (\<exists>pk sg oqs mechanisms ver details.
       decode_binary_signature_material (PStr public_key) ''public_key'' = Inr pk \<and>
       decode_binary_signature_material (PStr signature) ''signature'' = Inr sg \<and>
       imported = OqsModule oqs \<and> om_enabled oqs = Inr mechanisms \<and> PStr (oc_mechanism c) \<in> set mechanisms \<and>
       om_signature oqs (oc_mechanism c) = Inr ver \<and> ov_details ver = Inr details \<and>
       length_meets details ''length_public_key'' False pk \<and>
       length_meets details ''length_signature'' (oc_shorter_signature c) sg \<and>
       ov_verify ver message sg pk = Inr (PBool b))"
proof -
  have s: "(case om_signature oqs m of Inl _ \<Rightarrow> Inl None | Inr ver \<Rightarrow> verify_in_context c ver message sg pk) = Inr v \<longleftrightarrow>
      (\<exists>ver. om_signature oqs m = Inr ver \<and> verify_in_context c ver message sg pk = Inr v)" for oqs m sg pk v
    by (auto split: sum.splits)
  show ?thesis
    by (auto simp: oqs_verify_signature_def bind_r_eq_Inr require_bytes_ok require_mechanism_enabled_ok oqs_answer_ok s
        verify_in_context_ok)
qed

section \<open>Receipts verified with a deployed backend\<close>

lemma stage_verifier [simp]:
  "check_inputs (inp\<lparr>vi_verifier := sv\<rparr>) = check_inputs inp"
  "preflight_stage (inp\<lparr>vi_verifier := sv\<rparr>) snap h = preflight_stage inp snap h"
  "trust_checks lz (inp\<lparr>vi_verifier := sv\<rparr>) minimum valid prepared = trust_checks lz inp minimum valid prepared"
  by (simp_all add: check_inputs_def preflight_stage_def trust_checks_def)

lemma replay_stage_verifier:
  "replay_stage inp rid valid = Inr f \<Longrightarrow> replay_stage (inp\<lparr>vi_verifier := Some g\<rparr>) rid valid = Inr g"
  by (auto simp: replay_stage_def res_simps split: option.splits)

lemma other_verifier:
  assumes "prepare_verification lz inp snap = Inr rd"
  shows "prepare_verification lz (inp\<lparr>vi_verifier := Some g\<rparr>) snap = Inr (rd\<lparr>rd_verifier := g\<rparr>)"
proof -
  obtain h rid minimum valid prepared where p: "check_inputs inp = Inr (h, rid, minimum)"
    "preflight_stage inp snap h = Inr valid" "preflight_receipt_bundles valid = Inr prepared"
    "replay_stage inp rid valid = Inr (rd_verifier rd)"
    "trust_checks lz inp minimum valid prepared = Inr (rd_registry rd, rd_resolved rd)"
    "validate_preflighted_receipt_integrity valid = Inr valid" "rd_valid rd = valid"
    using assms by (rule prepare_verification_ok)
  show ?thesis
    by (simp add: prepare_verification_def stage_verifier p(1-3,5-7) replay_stage_verifier[OF p(4)])
qed

text \<open>A receipt of the demonstration under a backend that answers \<open>True\<close>.\<close>

definition demo_backend :: rc_backend where
  "demo_backend = \<lparr>bk_supported = Inr (map PStr ALLOWED_ALGORITHMS), bk_verify = (\<lambda>_ _ _ _. Inr (PBool True))\<rparr>"

lemma demo_material:
  "decode_binary_signature_material (PStr ''b64u:AAAA'') f = Inr [0, 0, 0]"
  "require_non_empty_str (PStr ''b64u:AAAA'') f = Inr ''b64u:AAAA''"
  "require_positive_int (PInt 1) f = Inr 1"
  by code_simp+

lemma demo_algorithm_material:
  "list_all (\<lambda>(a, p, r). require_supported_algorithm (PStr a) = Inr a \<and> require_profile a (PStr p) = Inr p \<and>
     require_non_empty_str (PStr a) f = Inr a \<and> reject_test_only_key_material (demo_v4_trusted r a) = Inr ())
     [(a, p, r). (a, p) \<leftarrow> [(''classical-ed25519'', ''rfc8032-ed25519-v1''), (''ml-dsa'', ''fips204-ml-dsa-65-v1'')], r \<leftarrow> [role]]"
  by code_simp

lemma demo_hash_material: "is_sha256_hex h \<Longrightarrow> require_hash (PStr h) f = Inr h"
  using hex_required_v4(1)[of h f] hex_required_v4(2-5)[of h]
  by (auto simp: v4_require_hash_ok require_hash_def require_non_empty_str_def cx_check_def check_r_def)

lemma demo_backend_accepts:
  assumes "is_sha256_hex h" "d \<in> {COMPONENT_VERDICT_DOMAIN, ORCHESTRATOR_RECEIPT_DOMAIN}"
    "(a, p) \<in> {(''classical-ed25519'', ''rfc8032-ed25519-v1''), (''ml-dsa'', ''fips204-ml-dsa-65-v1'')}"
  shows "make_real_crypto_signature_verifier demo_backend (pe_entry (demo_v4_entry d h a p)) (demo_v4_trusted role a) = Inr (PBool True)"
proof -
  have m: "require_supported_algorithm (PStr a) = Inr a" "require_profile a (PStr p) = Inr p"
    "require_non_empty_str (PStr a) f = Inr a" "reject_test_only_key_material (demo_v4_trusted role a) = Inr ()" for f
    using assms(3) demo_algorithm_material[of f role] by auto
  have "require_non_empty_str (PStr d) f = Inr d" for f using assms(2) by (auto intro: HOL.refl) code_simp+
  moreover have "a \<in> set ALLOWED_ALGORITHMS" using assms(3) by (auto simp: ALLOWED_ALGORITHMS_def V4_REQUIRED_ALGORITHMS_def)
  moreover have entry_fields: "set SIGNATURE_ENTRY_FIELDS =
      {''algorithm'', ''standard_profile'', ''key_id'', ''key_version'', ''signed_payload_hash'', ''domain_tag'', ''signature''}"
    by (auto simp: SIGNATURE_ENTRY_FIELDS_def)
  ultimately show ?thesis
    using m demo_hash_material[OF assms(1)] assms(2)
    by (simp add: make_real_crypto_signature_verifier_def verify_signature_entry_with_real_backend_def demo_backend_def
        demo_v4_entry_def demo_v4_signature_def demo_v4_trusted_def demo_material build_real_crypto_signature_input_def
        cx_check_def check_r_def require_backend_supports_algorithm_def call_backend_operation_def dkeys_def)
qed

text \<open>
  An artifact whose signatures the backend accepted under keys of the artifact's role that are
  active, valid now and over the window of the artifact.
\<close>

definition backend_signed :: "host_zone \<Rightarrow> key_registry \<Rightarrow> pyval \<Rightarrow> rc_backend \<Rightarrow> string \<times> pydict \<Rightarrow> bool" where
  "backend_signed lz reg time backend a \<longleftrightarrow> (case a of (role, m) \<Rightarrow>
     set V4_REQUIRED_ALGORITHMS \<subseteq> (\<lambda>e. py_strip (str_of (dget e ''algorithm''))) ` set (bundle_signatures m) \<and>
     (\<forall>e \<in> set (bundle_signatures m). \<exists>key \<in> set (kr_entries reg). \<exists>algorithm message signature.
        tk_role key = role \<and> tk_key_id key = py_strip (str_of (dget e ''key_id'')) \<and>
        dget e ''key_version'' = PInt (tk_key_version key) \<and>
        tk_algorithm key = py_strip (str_of (dget e ''algorithm'')) \<and>
        key_valid lz time (str_of (dget m ''not_before'')) (str_of (dget m ''not_after'')) key \<and>
        entry_asks e key algorithm message signature \<and> reject_test_only_key_material key = Inr () \<and>
        bk_verify backend algorithm (tk_public_key key) message signature = Inr (PBool True)))"

lemma real_verifier_asked:
  "make_real_crypto_signature_verifier backend e key = Inr (PBool True) \<Longrightarrow> \<exists>algorithm message signature.
     entry_asks e key algorithm message signature \<and> reject_test_only_key_material key = Inr () \<and>
     bk_verify backend algorithm (tk_public_key key) message signature = Inr (PBool True)"
  by (auto simp: make_real_crypto_signature_verifier_def split: sum.splits dest!: verify_entry_ok)

lemma artifact_signed_backend:
  assumes "artifact_signed lz reg time (make_real_crypto_signature_verifier backend) a"
  shows "backend_signed lz reg time backend a"
proof (cases a)
  case (Pair role m)
  show ?thesis using assms unfolding Pair artifact_signed_def backend_signed_def signature_trusted_def
    by (auto dest!: real_verifier_asked bspec)
qed

text \<open>
  C32: What a verified receipt means with a deployed backend. When the verifier is given the callback
  built from a backend and reports a receipt as verified, then for each of the six artifacts, for
  every signature of its bundle (and Ed25519 and ML-DSA are among them), the backend itself answered
  \<open>True\<close> when asked about the public key of a key of the registry with the artifact's role and the
  entry's id, version and algorithm, that is active, valid now and over the whole window of the
  artifact, and not test-only material; and about the signature text of the entry and the message that binds exactly that entry's
  algorithm, profile, domain, payload hash, key id and key version.
\<close>

theorem deployed_backend_signed_everything:
  assumes "verify_shield_v4_orchestrator_receipt lz inp = Inr res" "vr_verified res"
    and "vi_verifier inp = Some (make_real_crypto_signature_verifier backend)"
  shows "\<exists>r reg. vr_receipt res = Some r \<and> load_trusted_key_registry lz (vi_registry inp) = Inr reg \<and>
    list_all (backend_signed lz reg (vi_time inp) backend) (signed_artifacts r)"
proof -
  obtain rd :: v4_ready where rd: "vr_receipt res = Some (rd_valid rd)" "load_trusted_key_registry lz (vi_registry inp) = Inr (rd_registry rd)"
    "vi_verifier inp = Some (rd_verifier rd)"
    "list_all (artifact_signed lz (rd_registry rd) (vi_time inp) (rd_verifier rd)) (signed_artifacts (rd_valid rd))"
    using assms(1,2) by (rule verified_result_signed)
  have "list_all (backend_signed lz (rd_registry rd) (vi_time inp) backend) (signed_artifacts (rd_valid rd))"
    using rd(3,4) assms(3) artifact_signed_backend by (auto simp: list_all_iff)
  then show ?thesis using rd(1,2) by blast
qed

lemma deployed_backend_signed_everything_witness:
  "\<exists>res r reg. verify_shield_v4_orchestrator_receipt utc_host
       ((demo_v4_inputs (PDict (demo_v4_case ''adn'' ''ALLOW'' [(''handoff_allowed'', PBool True)])))
         \<lparr>vi_verifier := Some (make_real_crypto_signature_verifier demo_backend)\<rparr>) = Inr res \<and>
     vr_receipt res = Some r \<and> list_all (backend_signed utc_host reg (PStr ''2024-01-02T00:00:00Z'') demo_backend) (signed_artifacts r)"
proof -
  let ?m = "[(''handoff_allowed'', PBool True)]"
  let ?inp = "(demo_v4_inputs (PDict (demo_v4_case ''adn'' ''ALLOW'' ?m)))
    \<lparr>vi_verifier := Some (make_real_crypto_signature_verifier demo_backend)\<rparr>"
  let ?rd = "(demo_v4_ready ''ALLOW'' ?m)\<lparr>rd_verifier := make_real_crypto_signature_verifier demo_backend\<rparr>"
  have v: "demo_v4_variant ''adn'' ''ALLOW''" "demo_v4_handoff ''ALLOW'' ?m"
    by (simp_all add: demo_v4_variant_def demo_v4_handoff_def)
  note ready = other_verifier[OF demo_v4_prepare_verification[OF v, of utc_host], of "make_real_crypto_signature_verifier demo_backend"]
  have al: "pe_algorithm (demo_v4_entry d h a p) = a" for d h a p by (simp add: demo_v4_entry_def)
  have "\<forall>b \<in> set (rd_resolved ?rd). \<forall>e \<in> set (rb_entries b). accepts (rd_verifier ?rd) e"
    by (auto simp: demo_v4_ready_def demo_v4_bundles_def demo_v4_resolved_def demo_v4_entries_def accepts_def Let_def
        demo_backend_accepts demo_v4_hash_hex demo_v4_case_hex al)
  then obtain components orchestrator tr where "verify_receipt_v4 utc_host ?inp False = (verified_result ?rd components orchestrator, tr)"
    using all_accepted_verifies[OF ready] by blast
  then obtain res where res: "verify_shield_v4_orchestrator_receipt utc_host ?inp = Inr res" "vr_verified res"
    by (cases "state_for_final_outcome ''ALLOW''")
      (auto simp: verify_shield_v4_orchestrator_receipt_def verified_result_def demo_v4_ready_def Let_def demo_v4_case_fields str_of_def)
  from deployed_backend_signed_everything[OF this, of demo_backend] show ?thesis
    unfolding res(1) by (auto simp: demo_v4_inputs_def)
qed

end
