(* ===== verification/Policy_Evidence.thy ===== *)
theory Policy_Evidence
  imports Py_Convert Final_Policy
begin

text \<open>
  What the policy evidence boundaries of \<open>src/adamantine/v1/integrations/\<close> share: the scan for
  authority fields that each of them repeats, the results of earlier gates, the core of a
  normalised result, and the interface \<open>evidence_boundary\<close> through which the final policy engine
  sees such a result: an object, that is the dictionary of its attributes. An attribute that
  holds another object is a text, since the engine only tests its truth.
\<close>

section \<open>Authority fields\<close>

definition FORBIDDEN_EVIDENCE_FIELDS :: "string list" where
  "FORBIDDEN_EVIDENCE_FIELDS = [''allow'', ''approve'', ''approved'', ''authority'', ''authorization'', ''bypass'',
     ''final_approval'', ''grant_execution'', ''handoff_allowed'', ''override'']"

text \<open>Only mappings and lists are entered; a tuple or a set hides what it holds.\<close>

fun contains_authority_field :: "pyval \<Rightarrow> bool" and contains_authority_list :: "pyval list \<Rightarrow> bool"
  and contains_authority_items :: "pydict \<Rightarrow> bool" where
  "contains_authority_field (PDict m) = contains_authority_items m"
| "contains_authority_field (PList xs) = contains_authority_list xs"
| "contains_authority_field _ = False"
| "contains_authority_list [] = False"
| "contains_authority_list (x # xs) = (contains_authority_field x \<or> contains_authority_list xs)"
| "contains_authority_items [] = False"
| "contains_authority_items ((k, v) # m) =
    (if k \<in> set FORBIDDEN_EVIDENCE_FIELDS then True
     else if contains_authority_field v then True else contains_authority_items m)"

section \<open>Earlier gates\<close>

text \<open>
  The result of an earlier gate: a dictionary, another mapping, or an object with the values of
  its attributes \<open>outcome\<close> and \<open>reason_id\<close>, \<^const>\<open>None\<close> where it has none.
\<close>

datatype prior_result = PriorDict pydict | PriorMapping pydict | PriorObject "pyval option" "pyval option"

definition prior_outcome :: "prior_result \<Rightarrow> pyval" where
  "prior_outcome r = (case r of PriorDict m \<Rightarrow> dget m ''outcome'' | PriorMapping m \<Rightarrow> dget m ''outcome''
     | PriorObject outcome _ \<Rightarrow> (case outcome of Some v \<Rightarrow> v | None \<Rightarrow> PNone))"

definition prior_reason :: "prior_result \<Rightarrow> pyval" where
  "prior_reason r = (case r of PriorDict m \<Rightarrow> dget m ''reason_id'' | PriorMapping m \<Rightarrow> dget m ''reason_id''
     | PriorObject _ reason \<Rightarrow> (case reason of Some v \<Rightarrow> v | None \<Rightarrow> PNone))"

text \<open>\<open>_reason_text(reason_id or ReasonId.DENY_POLICY)\<close>.\<close>

definition reason_or_policy :: "pyval \<Rightarrow> string" where
  "reason_or_policy v = (if py_truthy v then py_str v else reason_value DENY_POLICY)"

definition extract_earlier_denies :: "prior_result list option \<Rightarrow> string list" where
  "extract_earlier_denies prior = (case prior of None \<Rightarrow> []
     | Some rs \<Rightarrow> map (\<lambda>r. reason_or_policy (prior_reason r)) (filter (\<lambda>r. prior_outcome r = PStr ''DENY'') rs))"

section \<open>Normalised results\<close>

record 'st policy_result =
  pr_source :: string
  pr_state :: 'st
  pr_outcome :: string
  pr_reason_id :: string
  pr_accepted_as_evidence :: bool
  pr_final_approval :: bool
  pr_dominant_reason_ids :: "string list"

definition opt_text :: "string option \<Rightarrow> pyval" where
  "opt_text v = (case v of Some s \<Rightarrow> PStr s | None \<Rightarrow> PNone)"

definition opt_int :: "int option \<Rightarrow> pyval" where
  "opt_int v = (case v of Some i \<Rightarrow> PInt i | None \<Rightarrow> PNone)"

text \<open>An attribute that is an object of the named class, or \<open>None\<close>.\<close>

definition opt_object :: "string \<Rightarrow> 'a option \<Rightarrow> pyval" where
  "opt_object class v = (case v of Some _ \<Rightarrow> PStr class | None \<Rightarrow> PNone)"

definition result_attrs :: "('st \<Rightarrow> string) \<Rightarrow> ('st, 'm) policy_result_scheme \<Rightarrow> pydict" where
  "result_attrs st_value r = [(''source'', PStr (pr_source r)), (''state'', PStr (st_value (pr_state r))),
     (''outcome'', PStr (pr_outcome r)), (''reason_id'', PStr (pr_reason_id r)),
     (''accepted_as_evidence'', PBool (pr_accepted_as_evidence r)), (''final_approval'', PBool (pr_final_approval r)),
     (''dominant_reason_ids'', PTuple (map PStr (pr_dominant_reason_ids r)))]"

text \<open>A denied result and an accepted one, as every boundary builds them.\<close>

definition denies_with :: "('st, 'm) policy_result_scheme \<Rightarrow> bool" where
  "denies_with r \<longleftrightarrow> pr_outcome r = ''DENY'' \<and> \<not> pr_accepted_as_evidence r \<and> \<not> pr_final_approval r \<and>
     pr_dominant_reason_ids r \<noteq> []"

definition accepts_with :: "('st, 'm) policy_result_scheme \<Rightarrow> bool" where
  "accepts_with r \<longleftrightarrow> pr_outcome r = ''ALLOW_EVIDENCE'' \<and> pr_accepted_as_evidence r \<and> \<not> pr_final_approval r \<and>
     pr_dominant_reason_ids r = [reason_value EVIDENCE_OK]"

text \<open>
  The interface: a boundary turns an input into a result or raises. A result is one of the two
  kinds, and the attributes the engine reads say which.
\<close>

locale evidence_boundary =
  fixes normalize :: "'i \<Rightarrow> 'e + ('st, 'm) policy_result_scheme"
    and attrs :: "('st, 'm) policy_result_scheme \<Rightarrow> pydict"
  assumes kinds: "normalize i = Inr r \<Longrightarrow> denies_with r \<or> accepts_with r"
    and seen: "dget_default (attrs r) ''accepted_as_evidence'' d = PBool (pr_accepted_as_evidence r)"
      "dget_default (attrs r) ''final_approval'' d = PBool (pr_final_approval r)"
begin

lemma accepted_iff: "normalize i = Inr r \<Longrightarrow> pr_accepted_as_evidence r \<longleftrightarrow> pr_outcome r = ''ALLOW_EVIDENCE''"
  using kinds[of i r] by (auto simp: denies_with_def accepts_with_def)

lemma never_final: "normalize i = Inr r \<Longrightarrow> \<not> pr_final_approval r"
  using kinds[of i r] by (auto simp: denies_with_def accepts_with_def)

text \<open>The engine's gate never lets a denied result pass.\<close>

lemma denied_is_stopped:
  assumes "normalize i = Inr r" "\<not> pr_accepted_as_evidence r"
  shows "\<exists>f. evaluate_evidence_gate gate (ObjectEvidence (attrs r)) order expected v4 = Inr (Some f) \<and>
    fp_outcome f = ''DENY'' \<and> \<not> fp_final_approval f \<and>
    fp_state f \<in> {DENY_EVIDENCE_REJECTED, DENY_AUTHORITY_BYPASS}"
  using assms never_final[OF assms(1)] seen[of r]
  by (auto simp: evaluate_evidence_gate_def fp_deny_def)

end

end
