(* ===== verification/Wsqk_Policy.thy ===== *)
theory Wsqk_Policy
  imports Policy_Evidence Wsqk
begin

text \<open>
  \<open>src/adamantine/v1/integrations/wsqk_v2_policy_evidence.py\<close>: an authority, a request to issue
  one, or a mapping of either shape becomes evidence for the policy engine. The fields of a
  mapping have not been checked; the issuer converts them itself.
\<close>

section \<open>States and results\<close>

datatype wsqk_state =
    Wsqk_ALLOW_EVIDENCE_CONTINUE_CHECKS
  | Wsqk_DENY_WSQK_REJECTED
  | Wsqk_DENY_UNSUPPORTED_INPUT
  | Wsqk_DENY_WALLET_MISMATCH
  | Wsqk_DENY_ACTION_MISMATCH
  | Wsqk_DENY_CONTEXT_HASH_MISMATCH
  | Wsqk_DENY_CONTRACT_VERSION_MISMATCH
  | Wsqk_DENY_PROOF_BINDINGS_HASH_MISMATCH

primrec wsqk_state_value :: "wsqk_state \<Rightarrow> string" where
  "wsqk_state_value Wsqk_ALLOW_EVIDENCE_CONTINUE_CHECKS = ''ALLOW_EVIDENCE_CONTINUE_CHECKS''"
| "wsqk_state_value Wsqk_DENY_WSQK_REJECTED = ''DENY_WSQK_REJECTED''"
| "wsqk_state_value Wsqk_DENY_UNSUPPORTED_INPUT = ''DENY_UNSUPPORTED_INPUT''"
| "wsqk_state_value Wsqk_DENY_WALLET_MISMATCH = ''DENY_WALLET_MISMATCH''"
| "wsqk_state_value Wsqk_DENY_ACTION_MISMATCH = ''DENY_ACTION_MISMATCH''"
| "wsqk_state_value Wsqk_DENY_CONTEXT_HASH_MISMATCH = ''DENY_CONTEXT_HASH_MISMATCH''"
| "wsqk_state_value Wsqk_DENY_CONTRACT_VERSION_MISMATCH = ''DENY_CONTRACT_VERSION_MISMATCH''"
| "wsqk_state_value Wsqk_DENY_PROOF_BINDINGS_HASH_MISMATCH = ''DENY_PROOF_BINDINGS_HASH_MISMATCH''"

text \<open>
  The fields that repeat those of the authority (wallet, action, context hash, nonce, posture,
  families, hash) are read from it: the source copies them one by one, and leaves them empty
  where there is no authority.
\<close>

record wsqk_policy_result = "wsqk_state policy_result" +
  wr_handoff_allowed :: bool
  wr_authority :: "wsqk_authority_v2 option"

definition wsqk_deny :: "wsqk_state \<Rightarrow> string \<Rightarrow> wsqk_authority_v2 option \<Rightarrow> wsqk_policy_result" where
  "wsqk_deny st reason au = \<lparr>pr_source = ''wsqk_v2'', pr_state = st, pr_outcome = ''DENY'', pr_reason_id = reason,
     pr_accepted_as_evidence = False, pr_final_approval = False, pr_dominant_reason_ids = [reason],
     wr_handoff_allowed = False, wr_authority = au\<rparr>"

definition wsqk_result_attrs :: "wsqk_policy_result \<Rightarrow> pydict" where
  "wsqk_result_attrs r = result_attrs wsqk_state_value r @
     [(''handoff_allowed'', PBool (wr_handoff_allowed r)),
      (''wallet_id'', opt_text (map_option au_wallet_id (wr_authority r))),
      (''action'', opt_text (map_option au_action (wr_authority r))),
      (''context_hash'', opt_text (map_option au_context_hash (wr_authority r))),
      (''nonce'', opt_text (map_option au_nonce (wr_authority r))),
      (''quantum_posture'', opt_text (map_option au_quantum_posture (wr_authority r))),
      (''required_evidence_families'', PTuple (case wr_authority r of None \<Rightarrow> []
         | Some au \<Rightarrow> map PStr (au_required_evidence_families au))),
      (''proof_bindings_hash'', opt_text (map_option au_proof_bindings_hash (wr_authority r))),
      (''authority'', opt_object ''WSQKAuthorityV2'' (wr_authority r))]"

section \<open>The issuer on unchecked fields\<close>

definition AUTHORITY_MAPPING_FIELDS :: "string list" where
  "AUTHORITY_MAPPING_FIELDS = [''contract_version'', ''wallet_id'', ''action'', ''context_hash'', ''issued_at'',
     ''expires_at'', ''nonce'', ''required_evidence_families'', ''quantum_posture'', ''proof_bindings_hash'']"

definition AUTHORITY_MAPPING_SHAPE_FIELDS :: "string list" where
  "AUTHORITY_MAPPING_SHAPE_FIELDS = [''contract_version'', ''issued_at'', ''expires_at'', ''proof_bindings_hash'']"

definition REQUEST_FIELDS :: "string list" where
  "REQUEST_FIELDS = [''wallet_id'', ''action'', ''context_hash'', ''now'', ''ttl_seconds'', ''nonce'',
     ''required_evidence_families'', ''quantum_posture'']"

text \<open>
  \<open>issue_wsqk_authority_v2\<close> applied to the request of a mapping: the conversions \<open>str(x or "")\<close>
  and \<open>int(x)\<close> do their work here, and any exception of \<open>int\<close> becomes a \<open>TVAError\<close>.
\<close>

definition issue_from_mapping :: "pydict \<Rightarrow> pyexc + wsqk_authority_v2" where
  "issue_from_mapping m =
     bind_r (need_nonblank (str_or_empty (dget m ''wallet_id'')) WSQK_MISSING_WALLET_ID) (\<lambda>wallet_id.
     bind_r (need_nonblank (str_or_empty (dget m ''action'')) WSQK_MISSING_ACTION) (\<lambda>action.
     bind_r (need_nonblank (str_or_empty (dget m ''context_hash'')) WSQK_MISSING_CONTEXT_HASH) (\<lambda>context_hash.
     bind_r (catch_r (py_int (dget m ''now'')) (\<lambda>_. Inl (TVAError (reason_value WSQK_MISSING_NOW)))) (\<lambda>now.
     bind_r (catch_r (py_int (dget m ''ttl_seconds'')) (\<lambda>_. Inl (TVAError (reason_value WSQK_INVALID_TTL)))) (\<lambda>ttl.
     issue_wsqk_authority_v2 \<lparr>iq_wallet_id = wallet_id, iq_action = action, iq_context_hash = context_hash,
       iq_now = now, iq_ttl_seconds = ttl, iq_nonce = str_or_empty (dget m ''nonce''),
       iq_required_evidence_families = dget m ''required_evidence_families'',
       iq_quantum_posture = str_or_empty (dget m ''quantum_posture'')\<rparr>)))))"

text \<open>\<open>tuple(str(item) for item in families)\<close>, or the one text.\<close>

definition families_of :: "pyval \<Rightarrow> string list" where
  "families_of v = (case v of PStr s \<Rightarrow> [s]
     | _ \<Rightarrow> (case py_iter v of Inr xs \<Rightarrow> map py_str xs | Inl _ \<Rightarrow> []))"

datatype authority_reading = NoAuthority | BadAuthority reason_id | AuthorityRead wsqk_authority_v2

text \<open>The conversions of the fields; \<open>except (TypeError, ValueError)\<close>, so an \<open>OverflowError\<close> passes.\<close>

definition authority_from_mapping :: "pydict \<Rightarrow> pyexc + authority_reading" where
  "authority_from_mapping m =
    (if \<not> set AUTHORITY_MAPPING_FIELDS \<subseteq> set (dkeys m) then
       Inr (if list_ex (has_key m) AUTHORITY_MAPPING_SHAPE_FIELDS
         then BadAuthority WSQK_V2_AUTHORITY_MAPPING_MISSING_FIELD else NoAuthority)
     else catch_r
       (bind_r (py_int (dget m ''issued_at'')) (\<lambda>issued_at.
        bind_r (py_int (dget m ''expires_at'')) (\<lambda>expires_at.
        Inr (AuthorityRead \<lparr>au_wallet_id = py_str (dget m ''wallet_id''), au_action = py_str (dget m ''action''),
          au_context_hash = py_str (dget m ''context_hash''), au_issued_at = issued_at, au_expires_at = expires_at,
          au_nonce = py_str (dget m ''nonce''), au_contract_version = py_str (dget m ''contract_version''),
          au_required_evidence_families = families_of (dget m ''required_evidence_families''),
          au_quantum_posture = py_str (dget m ''quantum_posture''),
          au_proof_bindings_hash = py_str (dget m ''proof_bindings_hash'')\<rparr>))))
       (\<lambda>e. if is_value_error e \<or> e \<in> range TypeError then Inr (BadAuthority WSQK_V2_AUTHORITY_MAPPING_INVALID_FIELD)
          else Inl e))"

section \<open>The boundary\<close>

datatype wsqk_input = GivenAuthority wsqk_authority_v2 | GivenRequest wsqk_issue_request_v2 | GivenValue pyval

text \<open>\<open>except TVAError as exc\<close>: the reason is its text.\<close>

definition issued_or_denied :: "pyexc + wsqk_authority_v2 \<Rightarrow> pyexc + wsqk_policy_result + wsqk_authority_v2" where
  "issued_or_denied m = (case m of Inr au \<Rightarrow> Inr (Inr au)
     | Inl (TVAError reason) \<Rightarrow> Inr (Inl (wsqk_deny Wsqk_DENY_WSQK_REJECTED reason None))
     | Inl e \<Rightarrow> Inl e)"

definition normalize_authority :: "wsqk_input \<Rightarrow> pyexc + wsqk_policy_result + wsqk_authority_v2" where
  "normalize_authority v =
    (let unsupported = Inr (Inl (wsqk_deny Wsqk_DENY_UNSUPPORTED_INPUT (reason_value DENY_WSQK) None)) in
     case v of
       GivenAuthority au \<Rightarrow> Inr (Inr au)
     | GivenRequest req \<Rightarrow> issued_or_denied (issue_wsqk_authority_v2 req)
     | GivenValue (PDict m) \<Rightarrow>
         if set REQUEST_FIELDS \<subseteq> set (dkeys m) then issued_or_denied (issue_from_mapping m)
         else bind_r (authority_from_mapping m) (\<lambda>reading. case reading of
           AuthorityRead au \<Rightarrow> Inr (Inr au)
         | BadAuthority reason \<Rightarrow> Inr (Inl (wsqk_deny Wsqk_DENY_UNSUPPORTED_INPUT (reason_value reason) None))
         | NoAuthority \<Rightarrow> unsupported)
     | GivenValue _ \<Rightarrow> unsupported)"

definition check_authority :: "string \<Rightarrow> string \<Rightarrow> string \<Rightarrow> wsqk_authority_v2 \<Rightarrow> pyexc + wsqk_policy_result" where
  "check_authority wallet_id action context_hash au =
    (let deny = (\<lambda>st reason. Inr (wsqk_deny st reason (Some au))) in
     if au_contract_version au \<noteq> WSQK_AUTHORITY_V2
       then deny Wsqk_DENY_CONTRACT_VERSION_MISMATCH (reason_value DENY_WSQK)
     else if au_wallet_id au \<noteq> wallet_id
       then deny Wsqk_DENY_WALLET_MISMATCH (reason_value TVA_AUTHORITY_WALLET_MISMATCH)
     else if au_action au \<noteq> action
       then deny Wsqk_DENY_ACTION_MISMATCH (reason_value TVA_AUTHORITY_ACTION_MISMATCH)
     else if au_context_hash au \<noteq> context_hash
       then deny Wsqk_DENY_CONTEXT_HASH_MISMATCH (reason_value TVA_AUTHORITY_CONTEXT_HASH_MISMATCH)
     else case compute_wsqk_v2_proof_bindings_hash (au_contract_version au) (au_wallet_id au) (au_action au)
         (au_context_hash au) (au_issued_at au) (au_expires_at au) (au_nonce au)
         (families_val (au_required_evidence_families au)) (au_quantum_posture au) of
       Inl (TVAError reason) \<Rightarrow> deny Wsqk_DENY_WSQK_REJECTED reason
     | Inl e \<Rightarrow> Inl e
     | Inr h \<Rightarrow>
         if au_proof_bindings_hash au \<noteq> h
           then deny Wsqk_DENY_PROOF_BINDINGS_HASH_MISMATCH (reason_value TVA_WSQK_V2_PROOF_BINDINGS_HASH_MISMATCH)
         else Inr \<lparr>pr_source = ''wsqk_v2'', pr_state = Wsqk_ALLOW_EVIDENCE_CONTINUE_CHECKS,
           pr_outcome = ''ALLOW_EVIDENCE'', pr_reason_id = reason_value EVIDENCE_OK, pr_accepted_as_evidence = True,
           pr_final_approval = False, pr_dominant_reason_ids = [reason_value EVIDENCE_OK],
           wr_handoff_allowed = True, wr_authority = Some au\<rparr>)"

definition normalize_wsqk_v2_policy_evidence :: "wsqk_input \<Rightarrow> string \<Rightarrow> string \<Rightarrow> string \<Rightarrow> pyexc + wsqk_policy_result" where
  "normalize_wsqk_v2_policy_evidence v expected_wallet_id expected_action expected_context_hash =
     bind_r (normalize_authority v) (\<lambda>normalized. case normalized of
       Inl result \<Rightarrow> Inr result
     | Inr au \<Rightarrow> check_authority expected_wallet_id expected_action expected_context_hash au)"

section \<open>What the boundary accepts\<close>

lemma issue_from_mapping_typed:
  "issue_from_mapping [(''wallet_id'', PStr w), (''action'', PStr a), (''context_hash'', PStr h), (''now'', PInt n),
     (''ttl_seconds'', PInt t), (''nonce'', PStr nc), (''required_evidence_families'', fs), (''quantum_posture'', PStr q)] =
   issue_wsqk_authority_v2 \<lparr>iq_wallet_id = w, iq_action = a, iq_context_hash = h, iq_now = n, iq_ttl_seconds = t,
     iq_nonce = nc, iq_required_evidence_families = fs, iq_quantum_posture = q\<rparr>"
  by (auto simp: issue_from_mapping_def issue_wsqk_authority_v2_def need_nonblank_def Let_def bind_r_def split: sum.splits)

lemma check_authority_kinds:
  "check_authority w a h au = Inr r \<Longrightarrow> denies_with r \<or> accepts_with r"
  by (auto simp: check_authority_def Let_def wsqk_deny_def denies_with_def accepts_with_def
      split: if_splits sum.splits pyexc.splits)

lemma wsqk_deny_denies: "denies_with (wsqk_deny st reason au)"
  by (simp add: wsqk_deny_def denies_with_def)

lemma issued_or_denied_kinds: "issued_or_denied m = Inr (Inl r) \<Longrightarrow> denies_with r"
  by (auto simp: issued_or_denied_def wsqk_deny_denies split: sum.splits pyexc.splits)

lemma normalize_authority_kinds: "normalize_authority v = Inr (Inl r) \<Longrightarrow> denies_with r"
  by (auto simp: normalize_authority_def Let_def wsqk_deny_denies bind_r_def dest: issued_or_denied_kinds
      split: wsqk_input.split_asm pyval.split_asm if_split_asm sum.split_asm authority_reading.split_asm)

lemma normalize_wsqk_kinds:
  "normalize_wsqk_v2_policy_evidence v w a h = Inr r \<Longrightarrow> denies_with r \<or> accepts_with r"
  using check_authority_kinds[of w a h _ r] normalize_authority_kinds[of v r]
  by (auto simp: normalize_wsqk_v2_policy_evidence_def bind_r_def split: sum.split_asm)

interpretation wsqk_evidence: evidence_boundary
  "\<lambda>(v, w, a, h). normalize_wsqk_v2_policy_evidence v w a h" wsqk_result_attrs
proof
  fix i r assume "(case i of (v, w, a, h) \<Rightarrow> normalize_wsqk_v2_policy_evidence v w a h) = Inr r"
  then show "denies_with r \<or> accepts_with r"
    using normalize_wsqk_kinds by (cases i) auto
qed (simp_all add: wsqk_result_attrs_def result_attrs_def dget_default_def)

lemma check_authority_accepts:
  "check_authority w a h au = Inr r \<and> pr_accepted_as_evidence r \<longleftrightarrow>
     au_contract_version au = WSQK_AUTHORITY_V2 \<and> au_wallet_id au = w \<and> au_action au = a \<and> au_context_hash au = h \<and>
     compute_wsqk_v2_proof_bindings_hash (au_contract_version au) w a h (au_issued_at au) (au_expires_at au) (au_nonce au)
       (families_val (au_required_evidence_families au)) (au_quantum_posture au) = Inr (au_proof_bindings_hash au) \<and>
     r = \<lparr>pr_source = ''wsqk_v2'', pr_state = Wsqk_ALLOW_EVIDENCE_CONTINUE_CHECKS, pr_outcome = ''ALLOW_EVIDENCE'',
       pr_reason_id = reason_value EVIDENCE_OK, pr_accepted_as_evidence = True, pr_final_approval = False,
       pr_dominant_reason_ids = [reason_value EVIDENCE_OK], wr_handoff_allowed = True, wr_authority = Some au\<rparr>"
  by (auto simp: check_authority_def Let_def wsqk_deny_def split: if_splits sum.splits pyexc.splits)

lemma accepted_wsqk_authority:
  assumes "normalize_wsqk_v2_policy_evidence v w a h = Inr r" "pr_accepted_as_evidence r"
  shows "\<exists>au. normalize_authority v = Inr (Inr au) \<and> check_authority w a h au = Inr r \<and> wr_authority r = Some au"
proof -
  have d: "denies_with r \<Longrightarrow> False" using assms(2) by (simp add: denies_with_def)
  show ?thesis using assms check_authority_accepts[of w a h _ r] d normalize_authority_kinds[of v r]
    by (auto simp: normalize_wsqk_v2_policy_evidence_def bind_r_def split: sum.split_asm)
qed

end
