(* ===== verification/Qid_Policy.thy ===== *)
theory Qid_Policy
  imports Policy_Evidence Qid_Adapter Wsqk
begin

text \<open>
  \<open>src/adamantine/v1/integrations/qid_policy_binding.py\<close>: a Q-ID session proof, its replay proof
  and the posture of its keys become evidence for the policy engine, bound to the wallet, the
  subject, the session nonce and the context hash the caller expects.
\<close>

section \<open>States and results\<close>

datatype qid_state =
    Qid_ALLOW_EVIDENCE_CONTINUE_CHECKS
  | Qid_DENY_QID_REJECTED
  | Qid_DENY_UNSUPPORTED_INPUT
  | Qid_DENY_SUBJECT_MISMATCH
  | Qid_DENY_POSTURE_MISSING
  | Qid_DENY_POSTURE_INVALID
  | Qid_DENY_POSTURE_MISMATCH
  | Qid_DENY_CONTEXT_HASH_MISMATCH
  | Qid_DENY_HIDDEN_AUTHORITY_FIELD

primrec qid_state_value :: "qid_state \<Rightarrow> string" where
  "qid_state_value Qid_ALLOW_EVIDENCE_CONTINUE_CHECKS = ''ALLOW_EVIDENCE_CONTINUE_CHECKS''"
| "qid_state_value Qid_DENY_QID_REJECTED = ''DENY_QID_REJECTED''"
| "qid_state_value Qid_DENY_UNSUPPORTED_INPUT = ''DENY_UNSUPPORTED_INPUT''"
| "qid_state_value Qid_DENY_SUBJECT_MISMATCH = ''DENY_SUBJECT_MISMATCH''"
| "qid_state_value Qid_DENY_POSTURE_MISSING = ''DENY_POSTURE_MISSING''"
| "qid_state_value Qid_DENY_POSTURE_INVALID = ''DENY_POSTURE_INVALID''"
| "qid_state_value Qid_DENY_POSTURE_MISMATCH = ''DENY_POSTURE_MISMATCH''"
| "qid_state_value Qid_DENY_CONTEXT_HASH_MISMATCH = ''DENY_CONTEXT_HASH_MISMATCH''"
| "qid_state_value Qid_DENY_HIDDEN_AUTHORITY_FIELD = ''DENY_HIDDEN_AUTHORITY_FIELD''"

text \<open>The two posture flags are one optional \<open>qid_posture\<close>: they are always set together.\<close>

record qid_policy_result = "qid_state policy_result" +
  qb_handoff_allowed :: bool
  qb_wallet_id :: "string option"
  qb_subject :: "string option"
  qb_proof_hash :: "string option"
  qb_device_binding :: "string option"
  qb_session_nonce :: "string option"
  qb_quantum_posture :: "string option"
  qb_posture :: "qid_posture option"
  qb_session_proof :: "qid_session_proof option"
  qb_replay_proof :: "qid_replay_proof option"

definition qid_deny :: "qid_state \<Rightarrow> string \<Rightarrow> string \<Rightarrow> qid_posture option \<Rightarrow> qid_policy_result" where
  "qid_deny st reason quantum_posture posture = \<lparr>pr_source = ''qid'', pr_state = st, pr_outcome = ''DENY'',
     pr_reason_id = reason, pr_accepted_as_evidence = False, pr_final_approval = False,
     pr_dominant_reason_ids = [reason], qb_handoff_allowed = False, qb_wallet_id = None, qb_subject = None,
     qb_proof_hash = None, qb_device_binding = None, qb_session_nonce = None,
     qb_quantum_posture = Some quantum_posture, qb_posture = posture, qb_session_proof = None,
     qb_replay_proof = None\<rparr>"

text \<open>The denials after the session proof has been parsed carry it and what it says.\<close>

definition with_session :: "qid_session_proof \<Rightarrow> qid_policy_result \<Rightarrow> qid_policy_result" where
  "with_session s r = r\<lparr>qb_subject := Some (qs_subject s), qb_proof_hash := Some (qs_proof_hash s),
     qb_device_binding := qs_device_binding s, qb_session_proof := Some s\<rparr>"

definition opt_bool :: "bool option \<Rightarrow> pyval" where
  "opt_bool v = (case v of Some b \<Rightarrow> PBool b | None \<Rightarrow> PNone)"

definition qid_result_attrs :: "qid_policy_result \<Rightarrow> pydict" where
  "qid_result_attrs r = result_attrs qid_state_value r @
     [(''handoff_allowed'', PBool (qb_handoff_allowed r)), (''wallet_id'', opt_text (qb_wallet_id r)),
      (''subject'', opt_text (qb_subject r)), (''proof_hash'', opt_text (qb_proof_hash r)),
      (''device_binding'', opt_text (qb_device_binding r)), (''session_nonce'', opt_text (qb_session_nonce r)),
      (''quantum_posture'', opt_text (qb_quantum_posture r)),
      (''qid_posture_classical'', opt_bool (map_option qp_classical (qb_posture r))),
      (''qid_posture_pqc'', opt_bool (map_option qp_pqc (qb_posture r))),
      (''session_proof'', opt_object ''QIDSessionProof'' (qb_session_proof r)),
      (''replay_proof'', opt_object ''QIDReplayProof'' (qb_replay_proof r))]"

section \<open>The boundary\<close>

definition session_payload_from_input :: "pydict \<Rightarrow> pydict option" where
  "session_payload_from_input m = (case dget m ''session'' of PDict s \<Rightarrow> Some s
     | _ \<Rightarrow> if has_key m ''qid_iface_version'' then Some m
         else if dget m ''v'' = PStr ''2'' \<and> dget m ''kind'' = PStr ''qid_login_v2'' then Some m
         else None)"

definition posture_from_input :: "pydict \<Rightarrow> qid_state + qid_posture" where
  "posture_from_input m = (case dget m ''qid_posture'' of
     PDict p \<Rightarrow> (case (dget p ''classical'', dget p ''pqc'') of
         (PBool c, PBool q) \<Rightarrow> Inr \<lparr>qp_classical = c, qp_pqc = q\<rparr>
       | _ \<Rightarrow> Inl Qid_DENY_POSTURE_INVALID)
   | _ \<Rightarrow> Inl Qid_DENY_POSTURE_MISSING)"

text \<open>From the parsed session proof on.\<close>

definition check_session :: "pyval \<Rightarrow> string \<Rightarrow> string \<Rightarrow> string \<Rightarrow> string \<Rightarrow> string option \<Rightarrow> string option
    \<Rightarrow> bool \<Rightarrow> qid_posture \<Rightarrow> qid_session_proof \<Rightarrow> pyexc + qid_policy_result" where
  "check_session qid_input expected_wallet_id expected_subject expected_session_nonce quantum_posture
     expected_context_hash expected_device_binding require_fresh posture s =
    (let deny = (\<lambda>st reason. with_session s (qid_deny st reason quantum_posture (Some posture))) in
     if qs_subject s \<noteq> expected_subject
       then Inr (deny Qid_DENY_SUBJECT_MISMATCH (reason_value QID_REPLAY_SUBJECT_MISMATCH))
     else if expected_context_hash = None \<or> qs_context_hash s \<noteq> expected_context_hash
       then Inr (deny Qid_DENY_CONTEXT_HASH_MISMATCH (reason_value EQC_QID_CONTEXT_HASH_MISMATCH))
     else case parse_qid_replay_proof qid_input expected_wallet_id (qs_subject s) (qs_proof_hash s)
         expected_device_binding expected_session_nonce require_fresh of
       Inl (AdapterError rid msg) \<Rightarrow> Inr ((deny Qid_DENY_QID_REJECTED (reason_value rid))
         \<lparr>qb_wallet_id := Some expected_wallet_id, qb_session_nonce := Some expected_session_nonce\<rparr>)
     | Inl e \<Rightarrow> Inl e
     | Inr q \<Rightarrow> Inr \<lparr>pr_source = ''qid'', pr_state = Qid_ALLOW_EVIDENCE_CONTINUE_CHECKS,
         pr_outcome = ''ALLOW_EVIDENCE'', pr_reason_id = reason_value EVIDENCE_OK, pr_accepted_as_evidence = True,
         pr_final_approval = False, pr_dominant_reason_ids = [reason_value EVIDENCE_OK], qb_handoff_allowed = True,
         qb_wallet_id = Some (qr_wallet_id q), qb_subject = Some (qs_subject s),
         qb_proof_hash = Some (qs_proof_hash s), qb_device_binding = qs_device_binding s,
         qb_session_nonce = Some (qr_session_nonce q), qb_quantum_posture = Some quantum_posture,
         qb_posture = Some posture, qb_session_proof = Some s, qb_replay_proof = Some q\<rparr>)"

definition normalize_qid_policy_binding :: "pyval \<Rightarrow> int \<Rightarrow> string \<Rightarrow> string \<Rightarrow> string \<Rightarrow> string
    \<Rightarrow> string option \<Rightarrow> string option \<Rightarrow> bool \<Rightarrow> pyexc + qid_policy_result" where
  "normalize_qid_policy_binding qid_input now expected_wallet_id expected_subject expected_session_nonce
     expected_quantum_posture expected_context_hash expected_device_binding require_fresh =
    (let deny = (\<lambda>st reason. Inr (qid_deny st reason expected_quantum_posture None)) in
     case qid_input of
       PDict m \<Rightarrow>
         if contains_authority_field qid_input
           then deny Qid_DENY_HIDDEN_AUTHORITY_FIELD (reason_value DENY_ADAPTER_INVALID)
         else (case session_payload_from_input m of
           None \<Rightarrow> deny Qid_DENY_UNSUPPORTED_INPUT (reason_value EQC_MISSING_QID_SESSION)
         | Some session_payload \<Rightarrow>
         (case posture_from_input m of
           Inl st \<Rightarrow> deny st (reason_value WSQK_QID_BINDING_INVALID)
         | Inr posture \<Rightarrow>
         (case validate_qid_binding expected_quantum_posture posture of
           Inl (TVAError reason) \<Rightarrow> Inr (qid_deny Qid_DENY_POSTURE_MISMATCH reason expected_quantum_posture (Some posture))
         | Inl e \<Rightarrow> Inl e
         | Inr _ \<Rightarrow>
         (case parse_qid_session (PDict session_payload) now of
           Inl (AdapterError rid msg) \<Rightarrow>
             Inr (qid_deny Qid_DENY_QID_REJECTED (reason_value rid) expected_quantum_posture (Some posture))
         | Inl e \<Rightarrow> Inl e
         | Inr s \<Rightarrow> check_session qid_input expected_wallet_id expected_subject expected_session_nonce
             expected_quantum_posture expected_context_hash expected_device_binding require_fresh posture s))))
     | _ \<Rightarrow> deny Qid_DENY_UNSUPPORTED_INPUT (reason_value EQC_INVALID_QID_PROOF))"

section \<open>What the boundary accepts\<close>

lemma replay_raises: "raises_only is_adapter_error (parse_qid_replay_proof e w s h d n f)"
proof -
  have c: "raises_only is_adapter_error (catch_r m (\<lambda>x. Inl (replay_err (g x))))" for m and g :: "pyexc \<Rightarrow> string"
    by (cases m) (auto simp: raises_only_def replay_err_def)
  show ?thesis unfolding parse_qid_replay_proof_def Let_def
    by (intro raises_intros raises_only_Inl c) (simp_all add: replay_err_def)
qed

lemma qid_deny_denies: "denies_with (qid_deny st reason qp posture)" "denies_with (with_session s r) = denies_with r"
  by (simp_all add: qid_deny_def with_session_def denies_with_def)

lemma check_session_cases:
  "\<exists>r. check_session v w sub n qp ctx dev fresh posture s = Inr r \<and>
     (denies_with r \<or> accepts_with r \<and> qs_subject s = sub \<and> ctx \<noteq> None \<and> qs_context_hash s = ctx \<and>
       qb_session_proof r = Some s \<and> qb_posture r = Some posture \<and> qb_handoff_allowed r \<and>
       (\<exists>q. parse_qid_replay_proof v w (qs_subject s) (qs_proof_hash s) dev n fresh = Inr q \<and> qb_replay_proof r = Some q))"
  using replay_raises[of v w "qs_subject s" "qs_proof_hash s" dev n fresh]
  by (auto simp: check_session_def Let_def qid_deny_denies accepts_with_def raises_only_def is_adapter_error_def
      split: sum.split) (auto simp: denies_with_def with_session_def qid_deny_def)

definition qid_accepts :: "pyval \<Rightarrow> int \<Rightarrow> string \<Rightarrow> string \<Rightarrow> string \<Rightarrow> string \<Rightarrow> string option \<Rightarrow> string option \<Rightarrow> bool
    \<Rightarrow> qid_policy_result \<Rightarrow> bool" where
  "qid_accepts v now w sub n qp ctx dev fresh r \<longleftrightarrow> (\<exists>m payload posture s q. v = PDict m \<and>
     \<not> contains_authority_field v \<and> session_payload_from_input m = Some payload \<and>
     posture_from_input m = Inr posture \<and> validate_qid_binding qp posture = Inr () \<and>
     parse_qid_session (PDict payload) now = Inr s \<and> qs_subject s = sub \<and> ctx \<noteq> None \<and> qs_context_hash s = ctx \<and>
     parse_qid_replay_proof v w sub (qs_proof_hash s) dev n fresh = Inr q \<and>
     qb_session_proof r = Some s \<and> qb_replay_proof r = Some q \<and> qb_posture r = Some posture \<and> qb_handoff_allowed r)"

lemma validate_qid_binding_raises: "validate_qid_binding qp posture = Inl e \<Longrightarrow> \<exists>r. e = TVAError r"
  by (auto simp: validate_qid_binding_def split: if_splits)

lemma normalize_qid_cases:
  "normalize_qid_policy_binding v now w sub n qp ctx dev fresh = Inl (ValueError int_too_long) \<or>
   (\<exists>r. normalize_qid_policy_binding v now w sub n qp ctx dev fresh = Inr r \<and>
     (denies_with r \<or> accepts_with r \<and> qid_accepts v now w sub n qp ctx dev fresh r))"
proof (cases v)
  case (PDict m)
  note [simp] = normalize_qid_policy_binding_def Let_def PDict qid_deny_denies
  show ?thesis
  proof (cases "contains_authority_field v")
    case False
    show ?thesis
    proof (cases "session_payload_from_input m")
      case (Some payload)
      show ?thesis
      proof (cases "posture_from_input m")
        case (Inr posture)
        show ?thesis
        proof (cases "validate_qid_binding qp posture")
          case (Inl e)
          then show ?thesis using False Some Inr validate_qid_binding_raises[OF Inl] by auto
        next
          case v: (Inr u)
          show ?thesis
          proof (cases "parse_qid_session (PDict payload) now")
            case (Inl e)
            then show ?thesis using False Some Inr v parse_qid_session_raises[of "PDict payload" now]
              by (auto simp: raises_only_def qid_escape_def is_adapter_error_def)
          next
            case (Inr s)
            then show ?thesis
              using False Some \<open>posture_from_input m = Inr posture\<close> v
                check_session_cases[of "PDict m" w sub n qp ctx dev fresh posture s]
              by (auto simp: qid_accepts_def)
          qed
        qed
      qed (use False Some in auto)
    qed (use False in auto)
  qed auto
qed (auto simp: normalize_qid_policy_binding_def Let_def qid_deny_denies)

interpretation qid_evidence: evidence_boundary
  "\<lambda>(v, now, w, sub, n, qp, ctx, dev, fresh). normalize_qid_policy_binding v now w sub n qp ctx dev fresh"
  qid_result_attrs
proof
  fix i r
  assume "(case i of (v, now, w, sub, n, qp, ctx, dev, fresh) \<Rightarrow>
    normalize_qid_policy_binding v now w sub n qp ctx dev fresh) = Inr r"
  then obtain v now w sub n qp ctx dev fresh where
    "normalize_qid_policy_binding v now w sub n qp ctx dev fresh = Inr r" by (auto split: prod.splits)
  then show "denies_with r \<or> accepts_with r"
    using normalize_qid_cases[of v now w sub n qp ctx dev fresh] by auto
qed (simp_all add: qid_result_attrs_def result_attrs_def dget_default_def)

end
