(* ===== verification/Adaptive_Policy.thy ===== *)
theory Adaptive_Policy
  imports Policy_Evidence Adaptive_Core_Adapter
begin

text \<open>
  \<open>src/adamantine/v1/integrations/adaptive_core_policy_evidence.py\<close>: an oracle, a risk report, or
  the mapping of either becomes evidence for the policy engine, if no earlier gate has denied, the
  policy is valid, the context hash is the expected one, the evidence is in its window and the
  score reaches the threshold.
\<close>

section \<open>States and results\<close>

datatype ac_state =
    Ac_ALLOW_EVIDENCE_CONTINUE_CHECKS
  | Ac_DENY_ADAPTIVE_CORE_REJECTED
  | Ac_DENY_UNSUPPORTED_INPUT
  | Ac_DENY_SCORE_BELOW_THRESHOLD
  | Ac_DENY_CONTEXT_HASH_MISMATCH
  | Ac_DENY_EARLIER_GATE_DENIED
  | Ac_DENY_HIDDEN_AUTHORITY_FIELD
  | Ac_DENY_POLICY_INVALID
  | Ac_DENY_EVIDENCE_NOT_YET_VALID
  | Ac_DENY_EVIDENCE_EXPIRED

primrec ac_state_value :: "ac_state \<Rightarrow> string" where
  "ac_state_value Ac_ALLOW_EVIDENCE_CONTINUE_CHECKS = ''ALLOW_EVIDENCE_CONTINUE_CHECKS''"
| "ac_state_value Ac_DENY_ADAPTIVE_CORE_REJECTED = ''DENY_ADAPTIVE_CORE_REJECTED''"
| "ac_state_value Ac_DENY_UNSUPPORTED_INPUT = ''DENY_UNSUPPORTED_INPUT''"
| "ac_state_value Ac_DENY_SCORE_BELOW_THRESHOLD = ''DENY_SCORE_BELOW_THRESHOLD''"
| "ac_state_value Ac_DENY_CONTEXT_HASH_MISMATCH = ''DENY_CONTEXT_HASH_MISMATCH''"
| "ac_state_value Ac_DENY_EARLIER_GATE_DENIED = ''DENY_EARLIER_GATE_DENIED''"
| "ac_state_value Ac_DENY_HIDDEN_AUTHORITY_FIELD = ''DENY_HIDDEN_AUTHORITY_FIELD''"
| "ac_state_value Ac_DENY_POLICY_INVALID = ''DENY_POLICY_INVALID''"
| "ac_state_value Ac_DENY_EVIDENCE_NOT_YET_VALID = ''DENY_EVIDENCE_NOT_YET_VALID''"
| "ac_state_value Ac_DENY_EVIDENCE_EXPIRED = ''DENY_EVIDENCE_EXPIRED''"

record ac_policy_result = "ac_state policy_result" +
  ar_handoff_allowed :: bool
  ar_context_hash :: "string option"
  ar_overall_score :: "int option"
  ar_min_overall_score :: "int option"
  ar_generated_at :: "int option"
  ar_issued_at :: "int option"
  ar_expires_at :: "int option"
  ar_oracle_version :: "string option"
  ar_external_source_id :: "string option"
  ar_report :: "risk_report option"
  ar_oracle :: "adaptive_core_oracle_v3 option"

definition ac_deny :: "ac_state \<Rightarrow> string \<Rightarrow> ac_policy_result" where
  "ac_deny st reason = \<lparr>pr_source = ''adaptive_core'', pr_state = st, pr_outcome = ''DENY'', pr_reason_id = reason,
     pr_accepted_as_evidence = False, pr_final_approval = False, pr_dominant_reason_ids = [reason],
     ar_handoff_allowed = False, ar_context_hash = None, ar_overall_score = None, ar_min_overall_score = None,
     ar_generated_at = None, ar_issued_at = None, ar_expires_at = None, ar_oracle_version = None,
     ar_external_source_id = None, ar_report = None, ar_oracle = None\<rparr>"

text \<open>What a result repeats of the report, the oracle and the threshold.\<close>

definition with_report :: "risk_report \<Rightarrow> adaptive_core_oracle_v3 option \<Rightarrow> int \<Rightarrow> ac_policy_result \<Rightarrow> ac_policy_result" where
  "with_report report oracle min_score r = r\<lparr>ar_context_hash := Some (rr_context_hash report),
     ar_overall_score := Some (rr_overall_score report), ar_min_overall_score := Some min_score,
     ar_generated_at := Some (rr_generated_at report), ar_issued_at := map_option ao_issued_at oracle,
     ar_expires_at := map_option ao_expires_at oracle, ar_oracle_version := rr_oracle_version report,
     ar_external_source_id := rr_external_source_id report, ar_report := Some report, ar_oracle := oracle\<rparr>"

definition ac_result_attrs :: "ac_policy_result \<Rightarrow> pydict" where
  "ac_result_attrs r = result_attrs ac_state_value r @
     [(''handoff_allowed'', PBool (ar_handoff_allowed r)), (''context_hash'', opt_text (ar_context_hash r)),
      (''overall_score'', opt_int (ar_overall_score r)), (''min_overall_score'', opt_int (ar_min_overall_score r)),
      (''generated_at'', opt_int (ar_generated_at r)), (''issued_at'', opt_int (ar_issued_at r)),
      (''expires_at'', opt_int (ar_expires_at r)), (''oracle_version'', opt_text (ar_oracle_version r)),
      (''external_source_id'', opt_text (ar_external_source_id r)),
      (''report'', opt_object ''RiskReport'' (ar_report r)),
      (''oracle'', opt_object ''AdaptiveCoreOracleV3'' (ar_oracle r))]"

section \<open>The input and the policy\<close>

datatype ac_input = GivenOracle adaptive_core_oracle_v3 | GivenReport risk_report | GivenAcValue pyval

text \<open>The policy argument: a policy, \<open>None\<close>, or a value of another type.\<close>

datatype policy_arg = GivenPolicy risk_policy | GivenPolicyValue pyval

definition normalize_policy :: "policy_arg \<Rightarrow> ac_policy_result + risk_policy" where
  "normalize_policy arg =
    (let invalid = Inl (ac_deny Ac_DENY_POLICY_INVALID (reason_value DENY_POLICY));
         checked = (\<lambda>p. if validate_risk_policy p = Inr () then Inr p else invalid) in
     case arg of GivenPolicy p \<Rightarrow> checked p
     | GivenPolicyValue v \<Rightarrow> if py_truthy v then invalid else checked default_risk_policy)"

definition extract_context_hash_candidate :: "ac_input \<Rightarrow> pyval" where
  "extract_context_hash_candidate v = (case v of GivenOracle ac \<Rightarrow> PStr (ao_context_hash ac)
     | GivenReport r \<Rightarrow> PStr (rr_context_hash r)
     | GivenAcValue (PDict m) \<Rightarrow> dget m ''context_hash''
     | GivenAcValue _ \<Rightarrow> PNone)"

definition has_context_hash_candidate :: "ac_input \<Rightarrow> bool" where
  "has_context_hash_candidate v = (case v of GivenOracle _ \<Rightarrow> True | GivenReport _ \<Rightarrow> True
     | GivenAcValue (PDict m) \<Rightarrow> has_key m ''context_hash'' | GivenAcValue _ \<Rightarrow> False)"

text \<open>\<open>except AdapterError as exc\<close>.\<close>

definition rejected_or :: "(pyexc + 'a) \<Rightarrow> pyexc + ac_policy_result + 'a" where
  "rejected_or m = (case m of Inr x \<Rightarrow> Inr (Inr x)
     | Inl (AdapterError rid msg) \<Rightarrow> Inr (Inl (ac_deny Ac_DENY_ADAPTIVE_CORE_REJECTED (reason_value rid)))
     | Inl e \<Rightarrow> Inl e)"

definition report_from_input :: "ac_input \<Rightarrow> int \<Rightarrow> string \<Rightarrow> external_reason_map option
    \<Rightarrow> external_reason_registry option \<Rightarrow> risk_policy
    \<Rightarrow> pyexc + ac_policy_result + risk_report \<times> adaptive_core_oracle_v3 option" where
  "report_from_input v now expected reason_map registry policy =
    (let rejected = Inr (Inl (ac_deny Ac_DENY_ADAPTIVE_CORE_REJECTED (reason_value EQC_INVALID_RISK_REPORT))) in
     case v of
       GivenOracle ac \<Rightarrow> if validate_oracle now ac = Inr () then Inr (Inr (ao_report ac, Some ac)) else rejected
     | GivenReport r \<Rightarrow> if validate_risk_report now r = Inr () then Inr (Inr (r, None)) else rejected
     | GivenAcValue (PDict m) \<Rightarrow>
         if dget m ''ac_iface_version'' = PStr ''adaptive_core_oracle_v3''
         then rejected_or (bind_r (parse_adaptive_core_oracle_v3 (PDict m) now expected reason_map registry (Some policy))
           (\<lambda>ac. Inr (ao_report ac, Some ac)))
         else rejected_or (bind_r (parse_risk_report (PDict m) now expected reason_map registry (Some policy))
           (\<lambda>r. Inr (r, None)))
     | GivenAcValue _ \<Rightarrow> Inr (Inl (ac_deny Ac_DENY_UNSUPPORTED_INPUT (reason_value EQC_INVALID_RISK_REPORT))))"

section \<open>The boundary\<close>

definition check_report :: "int \<Rightarrow> string \<Rightarrow> int \<Rightarrow> risk_report \<Rightarrow> adaptive_core_oracle_v3 option \<Rightarrow> ac_policy_result" where
  "check_report now expected min_score report oracle =
    (let deny = (\<lambda>st reason. with_report report oracle min_score (ac_deny st (reason_value reason))) in
     if rr_context_hash report \<noteq> expected
       then deny Ac_DENY_CONTEXT_HASH_MISMATCH EQC_RISK_CONTEXT_HASH_MISMATCH
     else if (case oracle of Some ac \<Rightarrow> now < ao_issued_at ac | None \<Rightarrow> False)
       then deny Ac_DENY_EVIDENCE_NOT_YET_VALID EQC_INVALID_RISK_REPORT
     else if (case oracle of Some ac \<Rightarrow> ao_expires_at ac < now | None \<Rightarrow> False)
       then deny Ac_DENY_EVIDENCE_EXPIRED EQC_INVALID_RISK_REPORT
     else if rr_overall_score report < min_score
       then deny Ac_DENY_SCORE_BELOW_THRESHOLD EQC_RISK_SCORE_BELOW_THRESHOLD
     else with_report report oracle min_score
       ((ac_deny Ac_ALLOW_EVIDENCE_CONTINUE_CHECKS (reason_value EVIDENCE_OK))
         \<lparr>pr_outcome := ''ALLOW_EVIDENCE'', pr_accepted_as_evidence := True, ar_handoff_allowed := True\<rparr>))"

definition normalize_adaptive_core_policy_evidence :: "ac_input \<Rightarrow> int \<Rightarrow> string \<Rightarrow> external_reason_map option
    \<Rightarrow> external_reason_registry option \<Rightarrow> policy_arg \<Rightarrow> prior_result list option
    \<Rightarrow> pyexc + ac_policy_result" where
  "normalize_adaptive_core_policy_evidence v now expected reason_map registry policy prior =
    (case extract_earlier_denies prior of
       d # ds \<Rightarrow> Inr ((ac_deny Ac_DENY_EARLIER_GATE_DENIED d)\<lparr>pr_dominant_reason_ids := d # ds\<rparr>)
     | [] \<Rightarrow>
     (case normalize_policy policy of
       Inl result \<Rightarrow> Inr result
     | Inr p \<Rightarrow>
       let threshold = Some (rp_min_overall_score p);
           deny_hash = (ac_deny Ac_DENY_CONTEXT_HASH_MISMATCH (reason_value EQC_RISK_CONTEXT_HASH_MISMATCH))
             \<lparr>ar_min_overall_score := threshold\<rparr>;
           candidate = extract_context_hash_candidate v in
       if (case v of GivenAcValue x \<Rightarrow> contains_authority_field x | _ \<Rightarrow> False)
         then Inr ((ac_deny Ac_DENY_HIDDEN_AUTHORITY_FIELD (reason_value DENY_ADAPTER_INVALID))
           \<lparr>ar_min_overall_score := threshold\<rparr>)
       else if \<not> is_sha256_hex expected then Inr deny_hash
       else if has_context_hash_candidate v \<and> \<not> is_sha256_hex_val candidate
         then Inr (deny_hash\<lparr>ar_context_hash := (case candidate of PStr s \<Rightarrow> Some s | _ \<Rightarrow> None)\<rparr>)
       else bind_r (report_from_input v now expected reason_map registry p) (\<lambda>normalized. case normalized of
           Inl result \<Rightarrow> Inr result
         | Inr (report, oracle) \<Rightarrow> Inr (check_report now expected (rp_min_overall_score p) report oracle))))"

section \<open>What the boundary accepts\<close>

lemma ac_deny_denies:
  "denies_with (ac_deny st reason)" "denies_with (r\<lparr>ar_min_overall_score := x\<rparr>) = denies_with r"
  "denies_with (r\<lparr>ar_context_hash := y\<rparr>) = denies_with r"
  "denies_with ((ac_deny st reason)\<lparr>pr_dominant_reason_ids := d # ds\<rparr>)"
  "denies_with (with_report report oracle m r) = denies_with r"
  by (simp_all add: ac_deny_def denies_with_def with_report_def)

definition ac_accepts :: "int \<Rightarrow> string \<Rightarrow> int \<Rightarrow> risk_report \<Rightarrow> adaptive_core_oracle_v3 option \<Rightarrow> ac_policy_result \<Rightarrow> bool" where
  "ac_accepts now expected min_score report oracle r \<longleftrightarrow> rr_context_hash report = expected \<and>
     (case oracle of Some ac \<Rightarrow> ao_issued_at ac \<le> now \<and> now \<le> ao_expires_at ac | None \<Rightarrow> True) \<and>
     min_score \<le> rr_overall_score report \<and> ar_report r = Some report \<and> ar_oracle r = oracle \<and>
     ar_context_hash r = Some expected \<and> ar_handoff_allowed r"

lemma check_report_cases:
  "denies_with (check_report now expected m report oracle) \<and> \<not> ac_accepts now expected m report oracle (check_report now expected m report oracle) \<or>
   accepts_with (check_report now expected m report oracle) \<and> ac_accepts now expected m report oracle (check_report now expected m report oracle)"
  by (cases "oracle") (auto simp: check_report_def Let_def ac_deny_denies ac_accepts_def accepts_with_def with_report_def ac_deny_def denies_with_def)

lemma normalize_policy_cases:
  "case normalize_policy arg of Inl r \<Rightarrow> denies_with r
   | Inr p \<Rightarrow> validate_risk_policy p = Inr () \<and> (arg = GivenPolicy p \<or> p = default_risk_policy)"
  by (auto simp: normalize_policy_def Let_def ac_deny_denies split: policy_arg.split)

lemma report_from_input_cases:
  assumes "report_from_input v now expected reason_map registry p = Inr x"
  shows "case x of Inl r \<Rightarrow> denies_with r
    | Inr (report, oracle) \<Rightarrow> validate_risk_report now report = Inr () \<and>
        (case oracle of Some ac \<Rightarrow> validate_oracle now ac = Inr () \<and> ao_report ac = report | None \<Rightarrow> True) \<and>
        (case v of GivenOracle ac \<Rightarrow> oracle = Some ac | GivenReport r \<Rightarrow> report = r \<and> oracle = None
         | GivenAcValue _ \<Rightarrow> internal_reasons_only (rr_signals report))"
proof -
  have o: "validate_oracle now ac = Inr () \<Longrightarrow> validate_risk_report now (ao_report ac) = Inr ()" for ac
    by (auto simp: validate_oracle_def split: if_splits)
  have rej: "rejected_or m = Inr (Inl r) \<Longrightarrow> denies_with r" for m :: "pyexc + risk_report \<times> adaptive_core_oracle_v3 option" and r
    by (auto simp: rejected_or_def ac_deny_denies split: sum.splits pyexc.splits)
  have acc: "rejected_or m = Inr (Inr y) \<Longrightarrow> m = Inr y" for m :: "pyexc + risk_report \<times> adaptive_core_oracle_v3 option" and y
    by (auto simp: rejected_or_def split: sum.splits pyexc.splits)
  show ?thesis
  proof (cases x)
    case (Inl r)
    then show ?thesis using assms rej
      by (auto simp: report_from_input_def Let_def ac_deny_denies split: ac_input.splits pyval.splits if_splits)
  next
    case (Inr y)
    then show ?thesis using assms o acc parse_oracle_ok[of _ now expected reason_map registry "Some p"]
        parse_risk_report_ok[of _ now expected reason_map registry "Some p"]
      by (auto simp: report_from_input_def Let_def res_simps dest!: acc split: ac_input.split_asm pyval.split_asm if_split_asm)
  qed
qed

lemma normalize_adaptive_core_cases:
  assumes "normalize_adaptive_core_policy_evidence v now expected reason_map registry policy prior = Inr r"
  shows "denies_with r \<or> accepts_with r \<and> extract_earlier_denies prior = [] \<and> is_sha256_hex expected \<and>
    (\<exists>p report oracle. normalize_policy policy = Inr p \<and>
      report_from_input v now expected reason_map registry p = Inr (Inr (report, oracle)) \<and>
      ac_accepts now expected (rp_min_overall_score p) report oracle r)"
proof (cases "extract_earlier_denies prior")
  case (Cons d ds)
  then show ?thesis using assms by (auto simp: normalize_adaptive_core_policy_evidence_def ac_deny_denies)
next
  case Nil
  show ?thesis
  proof (cases "normalize_policy policy")
    case (Inl r')
    then show ?thesis using assms Nil normalize_policy_cases[of policy]
      by (simp add: normalize_adaptive_core_policy_evidence_def)
  next
    case (Inr p)
    show ?thesis
    proof (cases "report_from_input v now expected reason_map registry p")
      case (Inl e)
      then show ?thesis using assms Nil Inr
        by (auto simp: normalize_adaptive_core_policy_evidence_def Let_def ac_deny_denies split: if_splits)
    next
      case x: (Inr x)
      show ?thesis
      proof (cases x)
        case (Inl r')
        then show ?thesis using assms Nil Inr x report_from_input_cases[OF x]
          by (auto simp: normalize_adaptive_core_policy_evidence_def Let_def ac_deny_denies split: if_splits)
      next
        case y: (Inr y)
        obtain report orc where ro: "y = (report, orc)" by (cases y)
        then show ?thesis using assms Nil Inr x y check_report_cases[of now expected "rp_min_overall_score p" report orc]
          by (auto simp: normalize_adaptive_core_policy_evidence_def Let_def ac_deny_denies split: if_splits)
      qed
    qed
  qed
qed

interpretation ac_evidence: evidence_boundary
  "\<lambda>(v, now, expected, rm, rg, policy, prior). normalize_adaptive_core_policy_evidence v now expected rm rg policy prior"
  ac_result_attrs
proof
  fix i r
  assume "(case i of (v, now, expected, rm, rg, policy, prior) \<Rightarrow>
    normalize_adaptive_core_policy_evidence v now expected rm rg policy prior) = Inr r"
  then show "denies_with r \<or> accepts_with r"
    by (cases i) (auto dest: normalize_adaptive_core_cases)
qed (simp_all add: ac_result_attrs_def result_attrs_def dget_default_def)

end
