(* ===== verification/Ai_Gateway_Policy.thy ===== *)
theory Ai_Gateway_Policy
  imports Policy_Evidence Shield_Receipt
begin

text \<open>
  \<open>src/adamantine/v1/integrations/ai_gateway_policy_evidence.py\<close>: the handoff and the receipt of
  the AI gateway become evidence for the policy engine, if both have exactly their fields, the
  handoff is bound to the expected context hash and the receipt matches the handoff.
\<close>

section \<open>States and results\<close>

datatype ag_state =
    Ag_ALLOW_EVIDENCE_CONTINUE_CHECKS
  | Ag_DENY_AI_GATEWAY_REJECTED
  | Ag_DENY_MISSING_HANDOFF
  | Ag_DENY_MISSING_RECEIPT
  | Ag_DENY_UNSUPPORTED_INPUT
  | Ag_DENY_SCHEMA_INVALID
  | Ag_DENY_UNKNOWN_FIELD
  | Ag_DENY_INVALID_HASH
  | Ag_DENY_CONTEXT_HASH_MISMATCH
  | Ag_DENY_RECEIPT_MISMATCH
  | Ag_DENY_RAW_AI_OUTPUT
  | Ag_DENY_EARLIER_GATE_DENIED
  | Ag_DENY_HIDDEN_AUTHORITY_FIELD

primrec ag_state_value :: "ag_state \<Rightarrow> string" where
  "ag_state_value Ag_ALLOW_EVIDENCE_CONTINUE_CHECKS = ''ALLOW_EVIDENCE_CONTINUE_CHECKS''"
| "ag_state_value Ag_DENY_AI_GATEWAY_REJECTED = ''DENY_AI_GATEWAY_REJECTED''"
| "ag_state_value Ag_DENY_MISSING_HANDOFF = ''DENY_MISSING_HANDOFF''"
| "ag_state_value Ag_DENY_MISSING_RECEIPT = ''DENY_MISSING_RECEIPT''"
| "ag_state_value Ag_DENY_UNSUPPORTED_INPUT = ''DENY_UNSUPPORTED_INPUT''"
| "ag_state_value Ag_DENY_SCHEMA_INVALID = ''DENY_SCHEMA_INVALID''"
| "ag_state_value Ag_DENY_UNKNOWN_FIELD = ''DENY_UNKNOWN_FIELD''"
| "ag_state_value Ag_DENY_INVALID_HASH = ''DENY_INVALID_HASH''"
| "ag_state_value Ag_DENY_CONTEXT_HASH_MISMATCH = ''DENY_CONTEXT_HASH_MISMATCH''"
| "ag_state_value Ag_DENY_RECEIPT_MISMATCH = ''DENY_RECEIPT_MISMATCH''"
| "ag_state_value Ag_DENY_RAW_AI_OUTPUT = ''DENY_RAW_AI_OUTPUT''"
| "ag_state_value Ag_DENY_EARLIER_GATE_DENIED = ''DENY_EARLIER_GATE_DENIED''"
| "ag_state_value Ag_DENY_HIDDEN_AUTHORITY_FIELD = ''DENY_HIDDEN_AUTHORITY_FIELD''"

record ag_policy_result = "ag_state policy_result" +
  gr_handoff_allowed :: bool
  gr_adapter :: "string option"
  gr_task_type :: "string option"
  gr_policy_decision :: "string option"
  gr_context_hash :: "string option"
  gr_envelope_hash :: "string option"
  gr_output_hash :: "string option"
  gr_gateway_version :: "string option"
  gr_adapter_version :: "string option"
  gr_handoff :: "pydict option"
  gr_receipt :: "pydict option"

definition ag_deny :: "ag_state \<Rightarrow> string \<Rightarrow> pydict option \<Rightarrow> pydict option \<Rightarrow> ag_policy_result" where
  "ag_deny st reason handoff receipt = \<lparr>pr_source = ''ai_gateway'', pr_state = st, pr_outcome = ''DENY'',
     pr_reason_id = reason, pr_accepted_as_evidence = False, pr_final_approval = False,
     pr_dominant_reason_ids = [reason], gr_handoff_allowed = False, gr_adapter = None, gr_task_type = None,
     gr_policy_decision = None, gr_context_hash = None, gr_envelope_hash = None, gr_output_hash = None,
     gr_gateway_version = None, gr_adapter_version = None, gr_handoff = handoff, gr_receipt = receipt\<rparr>"

text \<open>\<open>str(handoff.get(k))\<close> of the fields a result repeats.\<close>

definition with_handoff :: "pydict \<Rightarrow> ag_policy_result \<Rightarrow> ag_policy_result" where
  "with_handoff h r = r\<lparr>gr_adapter := Some (py_str (dget h ''adapter'')),
     gr_task_type := Some (py_str (dget h ''task_type'')),
     gr_policy_decision := Some (py_str (dget h ''policy_decision'')),
     gr_context_hash := Some (py_str (dget h ''context_hash'')),
     gr_envelope_hash := Some (py_str (dget h ''envelope_hash'')),
     gr_output_hash := Some (py_str (dget h ''output_hash''))\<rparr>"

definition with_receipt :: "pydict \<Rightarrow> ag_policy_result \<Rightarrow> ag_policy_result" where
  "with_receipt c r = r\<lparr>gr_gateway_version := Some (py_str (dget c ''gateway_version'')),
     gr_adapter_version := Some (py_str (dget c ''adapter_version''))\<rparr>"

definition opt_map :: "pydict option \<Rightarrow> pyval" where
  "opt_map m = (case m of Some d \<Rightarrow> PDict d | None \<Rightarrow> PNone)"

definition ag_result_attrs :: "ag_policy_result \<Rightarrow> pydict" where
  "ag_result_attrs r = result_attrs ag_state_value r @
     [(''handoff_allowed'', PBool (gr_handoff_allowed r)), (''adapter'', opt_text (gr_adapter r)),
      (''task_type'', opt_text (gr_task_type r)), (''policy_decision'', opt_text (gr_policy_decision r)),
      (''context_hash'', opt_text (gr_context_hash r)), (''envelope_hash'', opt_text (gr_envelope_hash r)),
      (''output_hash'', opt_text (gr_output_hash r)), (''gateway_version'', opt_text (gr_gateway_version r)),
      (''adapter_version'', opt_text (gr_adapter_version r)), (''handoff'', opt_map (gr_handoff r)),
      (''receipt'', opt_map (gr_receipt r))]"

section \<open>The shapes\<close>

definition HANDOFF_FIELDS :: "string list" where
  "HANDOFF_FIELDS = [''handoff_version'', ''adapter'', ''task_type'', ''policy_decision'', ''reason_id'',
     ''envelope_hash'', ''output_hash'', ''context_hash'']"

definition RECEIPT_FIELDS :: "string list" where
  "RECEIPT_FIELDS = [''receipt_version'', ''gateway_version'', ''adapter_id'', ''adapter_version'',
     ''envelope_hash'', ''output_hash'', ''policy_decision'', ''reason_id'', ''created_from_contract'',
     ''determinism_profile'']"

definition ALLOWED_POLICY_DECISIONS :: "string list" where
  "ALLOWED_POLICY_DECISIONS = [''accepted'', ''rejected'']"

text \<open>
  \<open>v in frozenset(ss)\<close>: a value that cannot be hashed raises, except a set, which the lookup
  converts.
\<close>

definition in_frozenset :: "pyval \<Rightarrow> string list \<Rightarrow> pyexc + bool" where
  "in_frozenset v ss = (if hashable v \<or> (case v of PSet _ \<Rightarrow> True | _ \<Rightarrow> False) then Inr (str_in v ss)
     else Inl (TypeError ''unhashable type''))"

lemma in_frozenset_PStr [simp]: "in_frozenset (PStr s) ss = Inr (s \<in> set ss)"
  by (simp add: in_frozenset_def)

lemma in_frozenset_True [simp]: "in_frozenset v ss = Inr True \<longleftrightarrow> (\<exists>s \<in> set ss. v = PStr s)"
  by (auto simp: in_frozenset_def str_in_def split: pyval.splits)

definition is_non_empty_string :: "pyval \<Rightarrow> bool" where
  "is_non_empty_string v = (case v of PStr s \<Rightarrow> \<not> py_blank s | _ \<Rightarrow> False)"

definition has_unknown_fields :: "pydict \<Rightarrow> string list \<Rightarrow> bool" where
  "has_unknown_fields m allowed \<longleftrightarrow> \<not> list_all (\<lambda>k. k \<in> set allowed) (dkeys m)"

definition has_missing_fields :: "pydict \<Rightarrow> string list \<Rightarrow> bool" where
  "has_missing_fields m required \<longleftrightarrow> list_ex (\<lambda>k. dget m k = PNone) required"

definition looks_like_raw_ai_output :: "pyval \<Rightarrow> bool" where
  "looks_like_raw_ai_output v = (case v of
     PDict m \<Rightarrow> dget m ''contract_version'' = PStr ''ai_gateway_output_v1'' \<or> has_key m ''output_payload'' \<or>
       has_key m ''model_output'' \<or> has_key m ''raw_model_output''
   | _ \<Rightarrow> False)"

definition validate_handoff_shape :: "pyval \<Rightarrow> string \<Rightarrow> pyexc + ag_policy_result option" where
  "validate_handoff_shape v expected_context_hash =
    (if v = PNone then Inr (Some (ag_deny Ag_DENY_MISSING_HANDOFF (reason_value DENY_ADAPTER_INVALID) None None))
     else if looks_like_raw_ai_output v
       then Inr (Some (ag_deny Ag_DENY_RAW_AI_OUTPUT (reason_value DENY_ADAPTER_INVALID) None None))
     else case v of PDict h \<Rightarrow>
      (let deny = (\<lambda>st rid. ag_deny st (reason_value rid) (Some h) None) in
       if contains_authority_field v then Inr (Some (deny Ag_DENY_HIDDEN_AUTHORITY_FIELD DENY_ADAPTER_INVALID))
       else if has_unknown_fields h HANDOFF_FIELDS then Inr (Some (deny Ag_DENY_UNKNOWN_FIELD DENY_UNKNOWN_FIELD))
       else if has_missing_fields h HANDOFF_FIELDS then Inr (Some (deny Ag_DENY_SCHEMA_INVALID DENY_SCHEMA_INVALID))
       else if dget h ''handoff_version'' \<noteq> PStr ''ai_gateway_handoff_v1''
         then Inr (Some (deny Ag_DENY_SCHEMA_INVALID DENY_VERSION_MISMATCH))
       else bind_r (in_frozenset (dget h ''policy_decision'') ALLOWED_POLICY_DECISIONS) (\<lambda>known.
       if \<not> known then Inr (Some (deny Ag_DENY_SCHEMA_INVALID DENY_POLICY))
       else if \<not> list_all (\<lambda>f. is_non_empty_string (dget h f)) [''adapter'', ''task_type'', ''reason_id'']
         then Inr (Some (deny Ag_DENY_SCHEMA_INVALID DENY_SCHEMA_INVALID))
       else if \<not> is_sha256_hex_val (dget h ''envelope_hash'')
         then Inr (Some (deny Ag_DENY_INVALID_HASH DENY_ADAPTER_INVALID))
       else if \<not> is_sha256_hex_val (dget h ''output_hash'')
         then Inr (Some (deny Ag_DENY_INVALID_HASH DENY_ADAPTER_INVALID))
       else if \<not> is_sha256_hex_val (dget h ''context_hash'')
         then Inr (Some ((deny Ag_DENY_INVALID_HASH DENY_ADAPTER_INVALID)
           \<lparr>gr_context_hash := (case dget h ''context_hash'' of PStr s \<Rightarrow> Some s | _ \<Rightarrow> None)\<rparr>))
       else if dget h ''context_hash'' \<noteq> PStr expected_context_hash
         then Inr (Some (with_handoff h (deny Ag_DENY_CONTEXT_HASH_MISMATCH DENY_POLICY)))
       else Inr None))
     | _ \<Rightarrow> Inr (Some (ag_deny Ag_DENY_UNSUPPORTED_INPUT (reason_value DENY_ADAPTER_INVALID) None None)))"

definition validate_receipt_shape :: "pyval \<Rightarrow> pyexc + ag_policy_result option" where
  "validate_receipt_shape v =
    (if v = PNone then Inr (Some (ag_deny Ag_DENY_MISSING_RECEIPT (reason_value DENY_ADAPTER_INVALID) None None))
     else case v of PDict c \<Rightarrow>
      (let deny = (\<lambda>st rid. ag_deny st (reason_value rid) None (Some c)) in
       if contains_authority_field v then Inr (Some (deny Ag_DENY_HIDDEN_AUTHORITY_FIELD DENY_ADAPTER_INVALID))
       else if has_unknown_fields c RECEIPT_FIELDS then Inr (Some (deny Ag_DENY_UNKNOWN_FIELD DENY_UNKNOWN_FIELD))
       else if has_missing_fields c RECEIPT_FIELDS then Inr (Some (deny Ag_DENY_SCHEMA_INVALID DENY_SCHEMA_INVALID))
       else if dget c ''receipt_version'' \<noteq> PStr ''ai_gateway_receipt_v1''
         then Inr (Some (deny Ag_DENY_SCHEMA_INVALID DENY_VERSION_MISMATCH))
       else if dget c ''created_from_contract'' \<noteq> PStr ''ai_gateway_output_v1''
         then Inr (Some (deny Ag_DENY_SCHEMA_INVALID DENY_VERSION_MISMATCH))
       else if dget c ''determinism_profile'' \<noteq> PStr ''canonical_sha256_no_time_v1''
         then Inr (Some (deny Ag_DENY_SCHEMA_INVALID DENY_ADAPTER_INVALID))
       else bind_r (in_frozenset (dget c ''policy_decision'') ALLOWED_POLICY_DECISIONS) (\<lambda>known.
       if \<not> known then Inr (Some (deny Ag_DENY_SCHEMA_INVALID DENY_POLICY))
       else if \<not> list_all (\<lambda>f. is_non_empty_string (dget c f))
           [''gateway_version'', ''adapter_id'', ''adapter_version'', ''reason_id'']
         then Inr (Some (deny Ag_DENY_SCHEMA_INVALID DENY_SCHEMA_INVALID))
       else if \<not> is_sha256_hex_val (dget c ''envelope_hash'')
         then Inr (Some (deny Ag_DENY_INVALID_HASH DENY_ADAPTER_INVALID))
       else if \<not> is_sha256_hex_val (dget c ''output_hash'')
         then Inr (Some (deny Ag_DENY_INVALID_HASH DENY_ADAPTER_INVALID))
       else Inr None))
     | _ \<Rightarrow> Inr (Some (ag_deny Ag_DENY_UNSUPPORTED_INPUT (reason_value DENY_ADAPTER_INVALID) None None)))"

definition receipt_matches_handoff :: "pydict \<Rightarrow> pydict \<Rightarrow> bool" where
  "receipt_matches_handoff h c \<longleftrightarrow> py_eq (dget c ''adapter_id'') (dget h ''adapter'') \<and>
     py_eq (dget c ''envelope_hash'') (dget h ''envelope_hash'') \<and>
     py_eq (dget c ''output_hash'') (dget h ''output_hash'') \<and>
     py_eq (dget c ''policy_decision'') (dget h ''policy_decision'') \<and>
     py_eq (dget c ''reason_id'') (dget h ''reason_id'')"

section \<open>The boundary\<close>

definition check_artifacts :: "pydict \<Rightarrow> pydict \<Rightarrow> ag_policy_result" where
  "check_artifacts h c =
    (let shown = (\<lambda>r. with_receipt c (with_handoff h r)) in
     if \<not> receipt_matches_handoff h c
       then shown (ag_deny Ag_DENY_RECEIPT_MISMATCH (reason_value DENY_ADAPTER_INVALID) (Some h) (Some c))
     else if dget h ''policy_decision'' = PStr ''rejected''
       then shown (ag_deny Ag_DENY_AI_GATEWAY_REJECTED (py_str (dget h ''reason_id'')) (Some h) (Some c))
         \<lparr>gr_policy_decision := Some ''rejected''\<rparr>
     else shown (ag_deny Ag_ALLOW_EVIDENCE_CONTINUE_CHECKS (reason_value EVIDENCE_OK) (Some h) (Some c))
         \<lparr>pr_outcome := ''ALLOW_EVIDENCE'', pr_accepted_as_evidence := True, gr_handoff_allowed := True,
          gr_policy_decision := Some ''accepted''\<rparr>)"

definition normalize_ai_gateway_policy_evidence :: "pyval \<Rightarrow> pyval \<Rightarrow> string \<Rightarrow> prior_result list option
    \<Rightarrow> pyexc + ag_policy_result" where
  "normalize_ai_gateway_policy_evidence handoff receipt expected_context_hash prior =
    (case extract_earlier_denies prior of
       d # ds \<Rightarrow> Inr ((ag_deny Ag_DENY_EARLIER_GATE_DENIED d None None)\<lparr>pr_dominant_reason_ids := d # ds\<rparr>)
     | [] \<Rightarrow>
       if \<not> is_sha256_hex expected_context_hash
         then Inr (ag_deny Ag_DENY_INVALID_HASH (reason_value DENY_POLICY) None None)
       else bind_r (validate_handoff_shape handoff expected_context_hash) (\<lambda>handoff_error.
         case handoff_error of Some r \<Rightarrow> Inr r
         | None \<Rightarrow> bind_r (validate_receipt_shape receipt) (\<lambda>receipt_error.
         case receipt_error of Some r \<Rightarrow> Inr r
         | None \<Rightarrow> (case (handoff, receipt) of
             (PDict h, PDict c) \<Rightarrow> Inr (check_artifacts h c)
           | _ \<Rightarrow> Inr (ag_deny Ag_DENY_UNSUPPORTED_INPUT (reason_value DENY_ADAPTER_INVALID) None None)))))"

section \<open>What the boundary accepts\<close>

lemma ag_deny_denies:
  "denies_with (ag_deny st reason h c)" "denies_with (with_handoff hm r) = denies_with r"
  "denies_with (with_receipt rc r) = denies_with r" "denies_with (r\<lparr>gr_context_hash := x\<rparr>) = denies_with r"
  "denies_with (r\<lparr>gr_policy_decision := x\<rparr>) = denies_with r"
  "denies_with ((ag_deny st reason h c)\<lparr>pr_dominant_reason_ids := d # ds\<rparr>)"
  by (simp_all add: ag_deny_def denies_with_def with_handoff_def with_receipt_def)

definition handoff_ok :: "string \<Rightarrow> pydict \<Rightarrow> bool" where
  "handoff_ok expected h \<longleftrightarrow> \<not> contains_authority_field (PDict h) \<and> set (dkeys h) \<subseteq> set HANDOFF_FIELDS \<and>
     dget h ''handoff_version'' = PStr ''ai_gateway_handoff_v1'' \<and>
     (dget h ''policy_decision'' = PStr ''accepted'' \<or> dget h ''policy_decision'' = PStr ''rejected'') \<and>
     is_non_empty_string (dget h ''adapter'') \<and> is_non_empty_string (dget h ''task_type'') \<and>
     is_non_empty_string (dget h ''reason_id'') \<and> is_sha256_hex_val (dget h ''envelope_hash'') \<and>
     is_sha256_hex_val (dget h ''output_hash'') \<and> dget h ''context_hash'' = PStr expected"

definition receipt_ok :: "pydict \<Rightarrow> bool" where
  "receipt_ok c \<longleftrightarrow> \<not> contains_authority_field (PDict c) \<and> set (dkeys c) \<subseteq> set RECEIPT_FIELDS \<and>
     dget c ''receipt_version'' = PStr ''ai_gateway_receipt_v1'' \<and>
     dget c ''created_from_contract'' = PStr ''ai_gateway_output_v1'' \<and>
     dget c ''determinism_profile'' = PStr ''canonical_sha256_no_time_v1'' \<and>
     (dget c ''policy_decision'' = PStr ''accepted'' \<or> dget c ''policy_decision'' = PStr ''rejected'') \<and>
     is_non_empty_string (dget c ''gateway_version'') \<and> is_non_empty_string (dget c ''adapter_id'') \<and>
     is_non_empty_string (dget c ''adapter_version'') \<and> is_non_empty_string (dget c ''reason_id'') \<and>
     is_sha256_hex_val (dget c ''envelope_hash'') \<and> is_sha256_hex_val (dget c ''output_hash'')"

lemma is_non_empty_string_ok: "is_non_empty_string v \<longleftrightarrow> (\<exists>s. v = PStr s \<and> \<not> py_blank s)"
  by (cases v) (auto simp: is_non_empty_string_def)

lemma is_sha256_hex_val_ok: "is_sha256_hex_val v \<longleftrightarrow> (\<exists>s. v = PStr s \<and> is_sha256_hex s)"
  by (cases v) (auto simp: is_sha256_hex_val_def)

lemma has_unknown_iff: "has_unknown_fields m allowed \<longleftrightarrow> \<not> set (dkeys m) \<subseteq> set allowed"
  by (auto simp: has_unknown_fields_def list_all_iff)

lemma validate_handoff_shape_kinds: "validate_handoff_shape v expected = Inr (Some r) \<Longrightarrow> denies_with r"
  by (auto simp: validate_handoff_shape_def Let_def ag_deny_denies res_simps split: pyval.split_asm if_split_asm)

lemma validate_receipt_shape_kinds: "validate_receipt_shape v = Inr (Some r) \<Longrightarrow> denies_with r"
  by (auto simp: validate_receipt_shape_def Let_def ag_deny_denies res_simps split: pyval.split_asm if_split_asm)

lemma stop_if_eq_None:
  "(if c then Inr (Some r) else x) = Inr None \<longleftrightarrow> \<not> c \<and> x = Inr None"
  "bind_r (in_frozenset v ss) (\<lambda>known. if \<not> known then Inr (Some r) else y) = Inr None \<longleftrightarrow>
     (\<exists>s \<in> set ss. v = PStr s) \<and> y = Inr None"
  by (auto simp: bind_r_eq_Inr)

lemma dget_known_key: "set (dkeys m) \<subseteq> ks \<Longrightarrow> k \<notin> ks \<Longrightarrow> dget m k = PNone \<and> \<not> has_key m k"
  by (auto simp: has_key_def dkeys_def dget_def split: option.split dest!: map_of_SomeD)

lemma not_raw_if_fields: "set (dkeys h) \<subseteq> set HANDOFF_FIELDS \<Longrightarrow> \<not> looks_like_raw_ai_output (PDict h)"
  using dget_known_key[of h "set HANDOFF_FIELDS"] by (simp add: looks_like_raw_ai_output_def HANDOFF_FIELDS_def)

lemma handoff_not_missing: "handoff_ok expected h \<Longrightarrow> \<not> has_missing_fields h HANDOFF_FIELDS"
  by (auto simp: handoff_ok_def has_missing_fields_def HANDOFF_FIELDS_def is_non_empty_string_ok is_sha256_hex_val_ok)

lemma receipt_not_missing: "receipt_ok c \<Longrightarrow> \<not> has_missing_fields c RECEIPT_FIELDS"
  by (auto simp: receipt_ok_def has_missing_fields_def RECEIPT_FIELDS_def is_non_empty_string_ok is_sha256_hex_val_ok)

lemma validate_handoff_shape_ok:
  assumes "is_sha256_hex expected"
  shows "validate_handoff_shape v expected = Inr None \<longleftrightarrow> (\<exists>h. v = PDict h \<and> handoff_ok expected h)"
proof (cases v)
  case (PDict h)
  have "validate_handoff_shape v expected = Inr None \<longleftrightarrow> \<not> looks_like_raw_ai_output v \<and>
      \<not> has_missing_fields h HANDOFF_FIELDS \<and> handoff_ok expected h"
    unfolding PDict validate_handoff_shape_def Let_def pyval.simps stop_if_eq_None has_unknown_iff handoff_ok_def
    using assms by (auto simp: ALLOWED_POLICY_DECISIONS_def)
  then show ?thesis using not_raw_if_fields[of h] handoff_not_missing[of expected h]
    by (auto simp: PDict handoff_ok_def)
qed (auto simp: validate_handoff_shape_def looks_like_raw_ai_output_def)

lemma validate_receipt_shape_ok: "validate_receipt_shape v = Inr None \<longleftrightarrow> (\<exists>c. v = PDict c \<and> receipt_ok c)"
proof (cases v)
  case (PDict c)
  have "validate_receipt_shape v = Inr None \<longleftrightarrow> \<not> has_missing_fields c RECEIPT_FIELDS \<and> receipt_ok c"
    unfolding PDict validate_receipt_shape_def Let_def pyval.simps stop_if_eq_None has_unknown_iff receipt_ok_def
    by (auto simp: ALLOWED_POLICY_DECISIONS_def)
  then show ?thesis using receipt_not_missing[of c] by (auto simp: PDict)
qed (auto simp: validate_receipt_shape_def)

lemma check_artifacts_cases:
  "denies_with (check_artifacts h c) \<or> accepts_with (check_artifacts h c) \<and> receipt_matches_handoff h c \<and>
     dget h ''policy_decision'' \<noteq> PStr ''rejected'' \<and> gr_handoff (check_artifacts h c) = Some h \<and>
     gr_receipt (check_artifacts h c) = Some c \<and> gr_handoff_allowed (check_artifacts h c) \<and>
     gr_context_hash (check_artifacts h c) = Some (py_str (dget h ''context_hash''))"
  by (auto simp: check_artifacts_def Let_def ag_deny_denies)
    (auto simp: with_handoff_def with_receipt_def ag_deny_def accepts_with_def)

lemma normalize_ai_gateway_cases:
  assumes "normalize_ai_gateway_policy_evidence handoff receipt expected prior = Inr r"
  shows "denies_with r \<or> accepts_with r \<and> extract_earlier_denies prior = [] \<and> is_sha256_hex expected \<and>
    (\<exists>h c. handoff = PDict h \<and> receipt = PDict c \<and> handoff_ok expected h \<and> receipt_ok c \<and>
      receipt_matches_handoff h c \<and> dget h ''policy_decision'' = PStr ''accepted'' \<and> r = check_artifacts h c)"
proof (cases "extract_earlier_denies prior = [] \<and> is_sha256_hex expected")
  case False
  then show ?thesis using assms
    by (auto simp: normalize_ai_gateway_policy_evidence_def ag_deny_denies split: list.splits)
next
  case ok: True
  show ?thesis
  proof (cases "validate_handoff_shape handoff expected = Inr None \<and> validate_receipt_shape receipt = Inr None")
    case True
    obtain h c where hc: "handoff = PDict h" "receipt = PDict c" "handoff_ok expected h" "receipt_ok c"
      using True ok validate_handoff_shape_ok[of expected handoff] validate_receipt_shape_ok[of receipt] by blast
    have r: "r = check_artifacts h c" using assms ok True hc(1,2)
      by (simp add: normalize_ai_gateway_policy_evidence_def)
    show ?thesis using check_artifacts_cases[of h c] hc ok by (auto simp: r handoff_ok_def)
  next
    case False
    have "denies_with r"
    proof (cases "validate_handoff_shape handoff expected")
      case h: (Inr x)
      show ?thesis
      proof (cases x)
        case (Some d)
        then show ?thesis using assms ok h validate_handoff_shape_kinds[of handoff expected d]
          by (simp add: normalize_ai_gateway_policy_evidence_def)
      next
        case None
        then obtain y where y: "validate_receipt_shape receipt = Inr y"
          using assms ok h by (auto simp: normalize_ai_gateway_policy_evidence_def bind_r_eq_Inr)
        then obtain d where "y = Some d" using False None h by (cases y) auto
        then show ?thesis using assms ok h None y validate_receipt_shape_kinds[of receipt d]
          by (simp add: normalize_ai_gateway_policy_evidence_def)
      qed
    qed (use assms ok in \<open>simp add: normalize_ai_gateway_policy_evidence_def\<close>)
    then show ?thesis ..
  qed
qed

interpretation ag_evidence: evidence_boundary
  "\<lambda>(handoff, receipt, expected, prior). normalize_ai_gateway_policy_evidence handoff receipt expected prior"
  ag_result_attrs
proof
  fix i r
  assume "(case i of (handoff, receipt, expected, prior) \<Rightarrow>
    normalize_ai_gateway_policy_evidence handoff receipt expected prior) = Inr r"
  then show "denies_with r \<or> accepts_with r" by (cases i) (auto dest: normalize_ai_gateway_cases)
qed (simp_all add: ag_result_attrs_def result_attrs_def dget_default_def)

end
