(* ===== verification/Ai_Gateway_Json.thy ===== *)
theory Ai_Gateway_Json
  imports Json_Roundtrip Sha256
begin

text \<open>
  \<open>src/adamantine/v1/integrations/ai_gateway_canonical_json_v1.py\<close>: the governed JSON profile of
  the AI gateway, its resource limits, its own encoder and the strict parser. Values are trees,
  so the test for container cycles has nothing to find, and keys are texts.
\<close>

section \<open>Limits, exceptions and the budget\<close>

definition AG_MAX_DEPTH :: nat where "AG_MAX_DEPTH = 10"
definition MAX_KEYS_PER_OBJECT :: nat where "MAX_KEYS_PER_OBJECT = 1000"
definition MAX_ITEMS_PER_ARRAY :: nat where "MAX_ITEMS_PER_ARRAY = 1000"
definition MAX_STRING_SCALARS :: nat where "MAX_STRING_SCALARS = 10000"
definition MAX_INTEGER_BITS :: nat where "MAX_INTEGER_BITS = 4096"
definition MAX_INTEGER_DECIMAL_DIGITS :: nat where "MAX_INTEGER_DECIMAL_DIGITS = 1234"
definition MAX_SNAPSHOT_NODES :: nat where "MAX_SNAPSHOT_NODES = 20000"
definition MAX_CANONICAL_BYTES :: nat where "MAX_CANONICAL_BYTES = 1048576"
definition MAX_RAW_JSON_BYTES :: nat where "MAX_RAW_JSON_BYTES = 1048576"

text \<open>
  The three exception classes; \<open>AgUnmodelled\<close> is the outcome of the model on texts with characters
  outside Latin-1.
\<close>

datatype ag_exc = AgCanonical string | AgDuplicateKey string | AgResource string | AgUnmodelled

record ag_budget =
  ab_nodes :: nat
  ab_text_bytes :: nat

definition add_text :: "nat \<Rightarrow> ag_budget \<Rightarrow> ag_exc + ag_budget" where
  "add_text n b = (let t = ab_text_bytes b + n in
     if MAX_CANONICAL_BYTES < t then Inl (AgResource ''text preflight byte limit exceeded'')
     else Inr (b\<lparr>ab_text_bytes := t\<rparr>))"

definition count_text :: "string \<Rightarrow> ag_budget \<Rightarrow> ag_exc + ag_budget" where
  "count_text s b = (if MAX_STRING_SCALARS < length s then Inl (AgResource ''string scalar limit exceeded'')
     else add_text (length (utf8 s)) b)"

text \<open>\<open>int.bit_length\<close>, and the digits of an integer from the last to the first.\<close>

fun bit_length :: "nat \<Rightarrow> nat" where
  "bit_length n = (if n = 0 then 0 else Suc (bit_length (n div 2)))"

declare bit_length.simps [simp del]

fun reversed_digits :: "nat \<Rightarrow> nat list" where
  "reversed_digits n = (if n = 0 then [] else (48 + n mod 10) # reversed_digits (n div 10))"

declare reversed_digits.simps [simp del]

definition encode_integer :: "int \<Rightarrow> nat list" where
  "encode_integer v = (if v = 0 then [48] else let ds = rev (reversed_digits (nat \<bar>v\<bar>)) in
     if v < 0 then 45 # ds else ds)"

definition count_integer :: "int \<Rightarrow> ag_budget \<Rightarrow> ag_exc + ag_budget" where
  "count_integer v b = (if MAX_INTEGER_BITS < bit_length (nat \<bar>v\<bar>) then Inl (AgResource ''integer bit limit exceeded'')
     else add_text (length (encode_integer v)) b)"

section \<open>Preflight\<close>

definition enter_node :: "nat \<Rightarrow> ag_budget \<Rightarrow> ag_exc + ag_budget" where
  "enter_node depth b =
    (if AG_MAX_DEPTH < depth then Inl (AgResource ''depth limit exceeded'')
     else if MAX_SNAPSHOT_NODES < ab_nodes b + 1 then Inl (AgResource ''node limit exceeded'')
     else Inr (b\<lparr>ab_nodes := ab_nodes b + 1\<rparr>))"

fun preflight_value :: "pyval \<Rightarrow> nat \<Rightarrow> ag_budget \<Rightarrow> ag_exc + ag_budget"
  and preflight_list :: "pyval list \<Rightarrow> nat \<Rightarrow> ag_budget \<Rightarrow> ag_exc + ag_budget"
  and preflight_items :: "pydict \<Rightarrow> nat \<Rightarrow> ag_budget \<Rightarrow> ag_exc + ag_budget" where
  "preflight_value (PStr s) depth b = count_text s b"
| "preflight_value PNone depth b = Inr b"
| "preflight_value (PBool _) depth b = Inr b"
| "preflight_value (PInt i) depth b = count_integer i b"
| "preflight_value (PList xs) depth b =
    (if MAX_ITEMS_PER_ARRAY < length xs then Inl (AgResource ''array item limit exceeded'')
     else preflight_list xs (Suc depth) b)"
| "preflight_value (PDict m) depth b =
    (if MAX_KEYS_PER_OBJECT < length m then Inl (AgResource ''object key limit exceeded'')
     else preflight_items m (Suc depth) b)"
| "preflight_value _ depth b = Inl (AgCanonical ''unsupported JSON value type'')"
| "preflight_list [] depth b = Inr b"
| "preflight_list (x # xs) depth b =
     bind_r (enter_node depth b) (\<lambda>b1. bind_r (preflight_value x depth b1) (\<lambda>b2. preflight_list xs depth b2))"
| "preflight_items [] depth b = Inr b"
| "preflight_items ((k, v) # m) depth b =
     bind_r (count_text k b) (\<lambda>b1. bind_r (enter_node depth b1) (\<lambda>b2.
     bind_r (preflight_value v depth b2) (\<lambda>b3. preflight_items m depth b3)))"

definition ag_preflight :: "pyval \<Rightarrow> nat \<Rightarrow> ag_budget \<Rightarrow> ag_exc + ag_budget" where
  "ag_preflight v depth b = bind_r (enter_node depth b) (\<lambda>b1. preflight_value v depth b1)"

section \<open>The encoder\<close>

definition encode_char :: "char \<Rightarrow> nat list" where
  "encode_char c = (let n = (of_char c :: nat) in
     if n = 0x22 then [0x5C, 0x22]
     else if n = 0x5C then [0x5C, 0x5C]
     else if n = 0x08 then [0x5C, of_char (CHR ''b'')]
     else if n = 0x09 then [0x5C, of_char (CHR ''t'')]
     else if n = 0x0A then [0x5C, of_char (CHR ''n'')]
     else if n = 0x0C then [0x5C, of_char (CHR ''f'')]
     else if n = 0x0D then [0x5C, of_char (CHR ''r'')]
     else if n \<le> 0x1F then [0x5C, of_char (CHR ''u''), 48, 48, of_char (hex_digit (n div 16)), of_char (hex_digit (n mod 16))]
     else utf8_char c)"

definition encode_string :: "string \<Rightarrow> nat list" where
  "encode_string s = [0x22] @ concat (map encode_char s) @ [0x22]"

fun join_bytes :: "nat list \<Rightarrow> nat list list \<Rightarrow> nat list" where
  "join_bytes sep [] = []"
| "join_bytes sep [x] = x"
| "join_bytes sep (x # y # zs) = x @ sep @ join_bytes sep (y # zs)"

fun encode_value :: "pyval \<Rightarrow> ag_exc + nat list"
  and encode_list :: "pyval list \<Rightarrow> ag_exc + nat list list"
  and encode_items :: "pydict \<Rightarrow> ag_exc + (string \<times> nat list) list" where
  "encode_value PNone = Inr (utf8 ''null'')"
| "encode_value (PBool b) = Inr (if b then utf8 ''true'' else utf8 ''false'')"
| "encode_value (PInt i) = Inr (encode_integer i)"
| "encode_value (PStr s) = Inr (encode_string s)"
| "encode_value (PList xs) = bind_r (encode_list xs) (\<lambda>bs. Inr (utf8 ''['' @ join_bytes (utf8 '','') bs @ utf8 '']''))"
| "encode_value (PDict m) = bind_r (encode_items m) (\<lambda>kvs. Inr (utf8 ''{'' @
     join_bytes (utf8 '','') (map (\<lambda>(k, v). encode_string k @ utf8 '':'' @ v) (sort_key fst kvs)) @ utf8 ''}''))"
| "encode_value _ = Inl (AgCanonical ''unsupported JSON value type'')"
| "encode_list [] = Inr []"
| "encode_list (x # xs) = bind_r (encode_value x) (\<lambda>b. bind_r (encode_list xs) (\<lambda>bs. Inr (b # bs)))"
| "encode_items [] = Inr []"
| "encode_items ((k, v) # m) = bind_r (encode_value v) (\<lambda>b. bind_r (encode_items m) (\<lambda>bs. Inr ((k, b) # bs)))"

definition canonical_ai_gateway_json_v1_bytes :: "pyval \<Rightarrow> ag_exc + nat list" where
  "canonical_ai_gateway_json_v1_bytes v =
     bind_r (ag_preflight v 0 \<lparr>ab_nodes = 0, ab_text_bytes = 0\<rparr>) (\<lambda>_.
     bind_r (encode_value v) (\<lambda>encoded.
     if MAX_CANONICAL_BYTES < length encoded then Inl (AgResource ''canonical byte limit exceeded'')
     else Inr encoded))"

section \<open>The parser\<close>

fun parse_magnitude :: "nat \<Rightarrow> string \<Rightarrow> ag_exc + nat" where
  "parse_magnitude magnitude [] = Inr magnitude"
| "parse_magnitude magnitude (digit # ds) = (let m = magnitude * 10 + (of_char digit - 48) in
     if MAX_INTEGER_BITS < bit_length m then Inl (AgResource ''integer bit limit exceeded'')
     else parse_magnitude m ds)"

definition parse_integer :: "string \<Rightarrow> ag_exc + int" where
  "parse_integer token =
    (let negative = (case token of c # _ \<Rightarrow> c = CHR ''-'' | [] \<Rightarrow> False);
         digits = (if negative then tl token else token) in
     if MAX_INTEGER_DECIMAL_DIGITS < length digits then Inl (AgResource ''integer bit limit exceeded'')
     else bind_r (parse_magnitude 0 digits) (\<lambda>m. Inr (if negative then - int m else int m)))"

fun object_from_pairs :: "pydict \<Rightarrow> pydict \<Rightarrow> ag_exc + pyval" where
  "object_from_pairs value [] = Inr (PDict value)"
| "object_from_pairs value ((k, child) # pairs) =
    (if has_key value k then Inl (AgDuplicateKey ''duplicate decoded object key'')
     else object_from_pairs (value @ [(k, child)]) pairs)"

definition gateway_hooks :: "ag_exc json_hooks" where
  "gateway_hooks = \<lparr>jh_object = object_from_pairs [], jh_float = (\<lambda>_. Inl (AgCanonical ''float grammar rejected'')),
     jh_int = (\<lambda>t. bind_r (parse_integer t) (\<lambda>i. Inr (PInt i))),
     jh_constant = (\<lambda>_. Inl (AgCanonical ''non-finite number rejected''))\<rparr>"

definition gateway_error :: "ag_exc json_error \<Rightarrow> ag_exc" where
  "gateway_error e = (case e of HookRaised x \<Rightarrow> x | JsonMalformed \<Rightarrow> AgCanonical ''malformed JSON''
     | JsonTooDeep \<Rightarrow> AgCanonical ''malformed JSON'' | JsonWideChar \<Rightarrow> AgUnmodelled | JsonNoFuel \<Rightarrow> AgUnmodelled)"

text \<open>The first argument is the recursion limit of the interpreter.\<close>

definition parse_ai_gateway_json_v1 :: "nat \<Rightarrow> nat list \<Rightarrow> ag_exc + pyval" where
  "parse_ai_gateway_json_v1 limit raw =
    (if MAX_RAW_JSON_BYTES < length raw then Inl (AgResource ''raw JSON byte limit exceeded'')
     else if take 3 raw = [0xEF, 0xBB, 0xBF] then Inl (AgCanonical ''UTF-8 BOM rejected'')
     else case utf8_decode raw of
       None \<Rightarrow> Inl (AgCanonical ''invalid UTF-8'')
     | Some points \<Rightarrow>
         if list_ex (\<lambda>p. 256 \<le> p) points then Inl AgUnmodelled
         else (case json_loads gateway_hooks limit (map char_of points) of
           Inl e \<Rightarrow> Inl (gateway_error e)
         | Inr v \<Rightarrow> bind_r (canonical_ai_gateway_json_v1_bytes v) (\<lambda>_. Inr v)))"

end
