(* ===== verification/Ai_Gateway_Json_Facts.thy ===== *)
theory Ai_Gateway_Json_Facts
  imports Ai_Gateway_Json "HOL-Library.Multiset"
begin

text \<open>
  What the governed JSON profile guarantees: its encoder agrees with \<open>json.dumps\<close>, the preflight is
  a bound on the size of the value, the parser reads every canonical text back, and the canonical
  bytes determine the value up to the order of keys.
\<close>

section \<open>The encoder is json.dumps\<close>

lemma utf8_char_ascii: "(of_char c :: nat) < 128 \<Longrightarrow> utf8_char c = [of_char c]"
  by (simp add: utf8_char_def Let_def)

lemma hex_digit_ascii: "d < 16 \<Longrightarrow> (of_char (hex_digit d) :: nat) < 128"
  by (auto simp: hex_digit_def of_char_of)

lemma encode_char_utf8: "encode_char c = utf8 (json_char False c)"
proof -
  have k: "char_of (34 :: nat) = CHR 0x22" "char_of (92 :: nat) = CHR 0x5C" by code_simp+
  have c: "(of_char c :: nat) = 34 \<longleftrightarrow> c = CHR 0x22" "(of_char c :: nat) = 92 \<longleftrightarrow> c = CHR 0x5C"
    using k by (auto simp flip: k) (metis char_of_char)+
  have h: "(of_char c :: nat) < 32 \<Longrightarrow> (of_char (hex_digit (of_char c div 16)) :: nat) < 128"
    "(of_char (hex_digit (of_char c mod 16)) :: nat) < 128" by (auto intro!: hex_digit_ascii)
  show ?thesis using h by (auto simp: encode_char_def json_char_def Let_def c utf8_char_ascii)
qed

declare utf8_append [simp]

lemma utf8_concat: "utf8 (concat (map f s)) = concat (map (\<lambda>c. utf8 (f c)) s)"
  by (induction s) auto

lemma encode_string_utf8: "encode_string s = utf8 (json_str False s)"
proof -
  have q: "utf8_char (CHR 0x22) = [34]" by code_simp
  have "encode_char = (\<lambda>c. utf8 (json_char False c))" by (rule ext) (rule encode_char_utf8)
  then show ?thesis by (simp add: encode_string_def json_str_def utf8_concat q)
qed

lemma reversed_digits_show: "0 < n \<Longrightarrow> rev (reversed_digits n) = utf8 (show_nat n)"
proof (induction n rule: reversed_digits.induct)
  case (1 n)
  have d: "utf8_char (digit_char k) = [48 + k]" if "k < 10" for k using that by (simp add: utf8_char_def digit_char_def Let_def of_char_of)
  show ?case
  proof (cases "n < 10")
    case True
    then show ?thesis using 1(2) by (simp add: reversed_digits.simps[of n] reversed_digits.simps[of 0] show_nat.simps[of n] d)
  next
    case False
    then show ?thesis using 1 by (simp add: reversed_digits.simps[of n] show_nat.simps[of n] d)
  qed
qed

lemma encode_integer_utf8: "encode_integer i = utf8 (show_int i)"
proof -
  have c: "utf8_char (CHR ''-'') = [45]" "utf8 (show_nat 0) = [48]" by code_simp+
  show ?thesis using reversed_digits_show[of "nat \<bar>i\<bar>"] by (auto simp: encode_integer_def show_int_def Let_def c)
qed

fun plain_json :: "pyval \<Rightarrow> bool" and plain_list :: "pyval list \<Rightarrow> bool" and plain_items :: "pydict \<Rightarrow> bool" where
  "plain_json (PList xs) = plain_list xs"
| "plain_json (PDict m) = plain_items m"
| "plain_json (PFloat _) = False"
| "plain_json (PTuple _) = False"
| "plain_json (PSet _) = False"
| "plain_json _ = True"
| "plain_list [] = True"
| "plain_list (x # xs) = (plain_json x \<and> plain_list xs)"
| "plain_items [] = True"
| "plain_items ((k, v) # m) = (plain_json v \<and> plain_items m)"

lemma utf8_join: "utf8 (join_str sep ss) = join_bytes (utf8 sep) (map utf8 ss)"
  by (induction sep ss rule: join_str.induct) auto

definition unsupported :: ag_exc where
  "unsupported = AgCanonical ''unsupported JSON value type''"

definition agrees :: "bool \<Rightarrow> ag_exc + 'a \<Rightarrow> (string + string) + 'b \<Rightarrow> ('b \<Rightarrow> 'a) \<Rightarrow> bool" where
  "agrees plain m n f \<longleftrightarrow> (if plain then (\<exists>y. m = Inr y) \<and> (\<forall>x. n = Inr x \<longrightarrow> m = Inr (f x)) else m = Inl unsupported)"

lemma encode_value_agrees:
  "agrees (plain_json v) (encode_value v) (json_val False False v) utf8"
  "agrees (plain_list xs) (encode_list xs) (json_list False False xs) (map utf8)"
  "agrees (plain_items m) (encode_items m) (json_items False False m) (map (\<lambda>(k, s). (k, utf8 s)))"
proof (induction v and xs and m rule: encode_value_encode_list_encode_items.induct)
  case (6 m)
  have "map (\<lambda>(k, v). encode_string k @ utf8 '':'' @ v) (sort_key fst (map (\<lambda>(k, s). (k, utf8 s)) kvs)) =
      map utf8 (map (\<lambda>(k, v). json_str False k @ '':'' @ v) (sort_key fst kvs))" for kvs
    unfolding sort_key_map_fst by (simp add: encode_string_utf8 comp_def case_prod_unfold)
  then show ?case using 6 by (auto simp: agrees_def unsupported_def json_object_def utf8_join bind_r_eq_Inr split: if_splits)
qed (auto simp: agrees_def unsupported_def encode_integer_utf8 encode_string_utf8 utf8_join bind_r_eq_Inr json_int_ok
    split: if_splits)

text \<open>
  The independent encoder of the gateway profile writes exactly the UTF-8 bytes of
  \<open>json.dumps\<close> with sorted keys, compact separators and no ASCII escapes, for every value of
  dictionaries, lists, texts, integers, truth values and null that \<open>json.dumps\<close> prints (it refuses
  integers of more than 4300 digits, the encoder does not), and refuses every other value.
\<close>

theorem gateway_encoder_is_json_dumps:
  "if plain_json v then (\<exists>bs. encode_value v = Inr bs) \<and>
     (\<forall>s. json_dumps False False v = Inr s \<longrightarrow> encode_value v = Inr (utf8 s))
   else encode_value v = Inl (AgCanonical ''unsupported JSON value type'')"
  using encode_value_agrees(1)[of v] by (auto simp: agrees_def unsupported_def json_dumps_ok)

section \<open>What the preflight bounds\<close>

text \<open>The local limits at a depth, the nodes below a value and the bytes of its texts.\<close>

fun fits :: "nat \<Rightarrow> pyval \<Rightarrow> bool" and fits_list :: "nat \<Rightarrow> pyval list \<Rightarrow> bool" and fits_items :: "nat \<Rightarrow> pydict \<Rightarrow> bool" where
  "fits d (PStr s) = (length s \<le> MAX_STRING_SCALARS)"
| "fits d PNone = True"
| "fits d (PBool _) = True"
| "fits d (PInt i) = (bit_length (nat \<bar>i\<bar>) \<le> MAX_INTEGER_BITS)"
| "fits d (PList xs) = (length xs \<le> MAX_ITEMS_PER_ARRAY \<and> fits_list (Suc d) xs)"
| "fits d (PDict m) = (length m \<le> MAX_KEYS_PER_OBJECT \<and> fits_items (Suc d) m)"
| "fits d _ = False"
| "fits_list d [] = True"
| "fits_list d (x # xs) = (d \<le> AG_MAX_DEPTH \<and> fits d x \<and> fits_list d xs)"
| "fits_items d [] = True"
| "fits_items d ((k, v) # m) = (length k \<le> MAX_STRING_SCALARS \<and> d \<le> AG_MAX_DEPTH \<and> fits d v \<and> fits_items d m)"

fun below :: "pyval \<Rightarrow> nat" and below_list :: "pyval list \<Rightarrow> nat" and below_items :: "pydict \<Rightarrow> nat" where
  "below (PList xs) = below_list xs"
| "below (PDict m) = below_items m"
| "below _ = 0"
| "below_list [] = 0"
| "below_list (x # xs) = Suc (below x) + below_list xs"
| "below_items [] = 0"
| "below_items ((k, v) # m) = Suc (below v) + below_items m"

fun text_size :: "pyval \<Rightarrow> nat" and text_size_list :: "pyval list \<Rightarrow> nat" and text_size_items :: "pydict \<Rightarrow> nat" where
  "text_size (PStr s) = length (utf8 s)"
| "text_size (PInt i) = length (encode_integer i)"
| "text_size (PList xs) = text_size_list xs"
| "text_size (PDict m) = text_size_items m"
| "text_size _ = 0"
| "text_size_list [] = 0"
| "text_size_list (x # xs) = text_size x + text_size_list xs"
| "text_size_items [] = 0"
| "text_size_items ((k, v) # m) = length (utf8 k) + text_size v + text_size_items m"

definition in_budget :: "ag_budget \<Rightarrow> nat \<Rightarrow> nat \<Rightarrow> bool" where
  "in_budget b n t \<longleftrightarrow> ab_nodes b + n \<le> MAX_SNAPSHOT_NODES \<and> ab_text_bytes b + t \<le> MAX_CANONICAL_BYTES"

definition spend :: "ag_budget \<Rightarrow> nat \<Rightarrow> nat \<Rightarrow> ag_budget" where
  "spend b n t = \<lparr>ab_nodes = ab_nodes b + n, ab_text_bytes = ab_text_bytes b + t\<rparr>"

lemma spend_simps [simp]:
  "spend b 0 0 = b" "spend (spend b n t) n' t' = spend b (n + n') (t + t')"
  "in_budget (spend b n t) n' t' = in_budget b (n + n') (t + t')"
  by (simp_all add: spend_def in_budget_def add.assoc)

lemma count_ok:
  "in_budget b 0 0 \<Longrightarrow> count_text s b = Inr b' \<longleftrightarrow>
     length s \<le> MAX_STRING_SCALARS \<and> in_budget b 0 (length (utf8 s)) \<and> b' = spend b 0 (length (utf8 s))"
  "in_budget b 0 0 \<Longrightarrow> count_integer i b = Inr b' \<longleftrightarrow>
     bit_length (nat \<bar>i\<bar>) \<le> MAX_INTEGER_BITS \<and> in_budget b 0 (length (encode_integer i)) \<and>
     b' = spend b 0 (length (encode_integer i))"
  "in_budget b 0 0 \<Longrightarrow> enter_node d b = Inr b' \<longleftrightarrow> d \<le> AG_MAX_DEPTH \<and> in_budget b 1 0 \<and> b' = spend b 1 0"
  by (auto simp: count_text_def count_integer_def add_text_def enter_node_def in_budget_def spend_def Let_def)

lemma in_budget_mono: "in_budget b n t \<Longrightarrow> n' \<le> n \<Longrightarrow> t' \<le> t \<Longrightarrow> in_budget b n' t'"
  by (auto simp: in_budget_def)

lemma bind_spend:
  assumes "\<And>y. m = Inr y \<longleftrightarrow> P \<and> y = s" "P \<Longrightarrow> m = Inr s \<Longrightarrow> f s = Inr z \<longleftrightarrow> Q"
  shows "bind_r m f = Inr z \<longleftrightarrow> P \<and> Q"
proof -
  have "bind_r m f = Inr z \<longleftrightarrow> (\<exists>y. m = Inr y \<and> f y = Inr z)" by (rule bind_r_eq_Inr)
  then show ?thesis unfolding assms(1) using assms(2)[unfolded assms(1)] by blast
qed

lemma preflight_iff:
  "in_budget b 0 0 \<Longrightarrow> preflight_value v d b = Inr b' \<longleftrightarrow>
     fits d v \<and> in_budget b (below v) (text_size v) \<and> b' = spend b (below v) (text_size v)"
  "in_budget b 0 0 \<Longrightarrow> preflight_list xs d b = Inr b' \<longleftrightarrow>
     fits_list d xs \<and> in_budget b (below_list xs) (text_size_list xs) \<and> b' = spend b (below_list xs) (text_size_list xs)"
  "in_budget b 0 0 \<Longrightarrow> preflight_items m d b = Inr b' \<longleftrightarrow>
     fits_items d m \<and> in_budget b (below_items m) (text_size_items m) \<and> b' = spend b (below_items m) (text_size_items m)"
proof (induction v d b and xs d b and m d b arbitrary: b' and b' and b'
    rule: preflight_value_preflight_list_preflight_items.induct)
  case (9 x xs d b)
  let ?b1 = "spend b 1 0"
  let ?b2 = "spend ?b1 (below x) (text_size x)"
  have e: "enter_node d b = Inr y \<longleftrightarrow> (d \<le> AG_MAX_DEPTH \<and> in_budget b 1 0) \<and> y = ?b1" for y
    using count_ok(3)[OF 9(3)] by auto
  have x: "preflight_value x d ?b1 = Inr y \<longleftrightarrow> (fits d x \<and> in_budget ?b1 (below x) (text_size x)) \<and> y = ?b2"
    if "d \<le> AG_MAX_DEPTH \<and> in_budget b 1 0" for y
    using 9(1)[of ?b1 y] e[of ?b1] that by auto
  have h: "preflight_list (x # xs) d b = Inr b' \<longleftrightarrow> (d \<le> AG_MAX_DEPTH \<and> in_budget b 1 0) \<and>
      (fits d x \<and> in_budget ?b1 (below x) (text_size x)) \<and>
      fits_list d xs \<and> in_budget ?b2 (below_list xs) (text_size_list xs) \<and>
      b' = spend ?b2 (below_list xs) (text_size_list xs)"
    unfolding preflight_list.simps 
    by (rule bind_spend[OF e], rule bind_spend[OF x], assumption, rule 9(2)) (auto simp: in_budget_mono)
  show ?case unfolding h by (auto simp: add.assoc elim: in_budget_mono)
next
  case (11 k v m d b)
  let ?k = "length (utf8 k)"
  let ?b0 = "spend b 0 ?k"
  let ?b1 = "spend ?b0 1 0"
  let ?b2 = "spend ?b1 (below v) (text_size v)"
  have k: "count_text k b = Inr y \<longleftrightarrow> (length k \<le> MAX_STRING_SCALARS \<and> in_budget b 0 ?k) \<and> y = ?b0" for y
    using count_ok(1)[OF 11(3)] by auto
  have e: "enter_node d ?b0 = Inr y \<longleftrightarrow> (d \<le> AG_MAX_DEPTH \<and> in_budget ?b0 1 0) \<and> y = ?b1"
    if "length k \<le> MAX_STRING_SCALARS \<and> in_budget b 0 ?k" for y
    using count_ok(3)[of ?b0] that by auto
  have x: "preflight_value v d ?b1 = Inr y \<longleftrightarrow> (fits d v \<and> in_budget ?b1 (below v) (text_size v)) \<and> y = ?b2"
    if "count_text k b = Inr ?b0" "enter_node d ?b0 = Inr ?b1" "d \<le> AG_MAX_DEPTH \<and> in_budget ?b0 1 0" for y
    using 11(1)[of ?b0 ?b1 y] that by auto
  have h: "preflight_items ((k, v) # m) d b = Inr b' \<longleftrightarrow> (length k \<le> MAX_STRING_SCALARS \<and> in_budget b 0 ?k) \<and>
      (d \<le> AG_MAX_DEPTH \<and> in_budget ?b0 1 0) \<and> (fits d v \<and> in_budget ?b1 (below v) (text_size v)) \<and>
      fits_items d m \<and> in_budget ?b2 (below_items m) (text_size_items m) \<and>
      b' = spend ?b2 (below_items m) (text_size_items m)"
    unfolding preflight_items.simps 
    by (rule bind_spend[OF k], rule bind_spend[OF e], assumption, rule bind_spend[OF x], assumption, assumption,
        assumption, rule 11(2)) (auto simp: in_budget_mono)
  show ?case unfolding h by (auto simp: add.assoc elim: in_budget_mono)
qed (auto simp: count_ok)

definition short_int :: "int \<Rightarrow> bool" where
  "short_int i \<longleftrightarrow> bit_length (nat \<bar>i\<bar>) \<le> MAX_INTEGER_BITS"

lemma fits_listD: "fits_list d xs \<Longrightarrow> x \<in> set xs \<Longrightarrow> d \<le> AG_MAX_DEPTH \<and> fits d x"
  by (induction xs) auto

lemma fits_itemsD: "fits_items d m \<Longrightarrow> (k, v) \<in> set m \<Longrightarrow> d \<le> AG_MAX_DEPTH \<and> fits d v"
  by (induction m) auto

lemma bit_length_le: "bit_length n \<le> k \<longleftrightarrow> n < 2 ^ k"
proof (induction n arbitrary: k rule: bit_length.induct)
  case (1 n)
  show ?case
  proof (cases "n = 0")
    case False
    then have b: "bit_length n = Suc (bit_length (n div 2))" by (simp add: bit_length.simps[of n])
    show ?thesis
    proof (cases k)
      case (Suc j)
      show ?thesis unfolding b Suc using 1[OF False, of j] by (auto simp: div_less_iff_less_mult mult.commute)
    qed (use False b in simp)
  qed (simp add: bit_length.simps[of 0])
qed

lemma two_power_4096: "(2 :: nat) ^ 4096 \<le> 10 ^ 1234"
proof -
  have e: "(4096 :: nat) = 93 * 44 + 4" "(1234 :: nat) = 28 * 44 + 2" by simp_all
  have k: "(2 :: nat) ^ 93 \<le> 10 ^ 28" "(2 :: nat) ^ 4 \<le> 10 ^ 2" by simp_all
  have "((2 :: nat) ^ 93) ^ 44 * 2 ^ 4 \<le> (10 ^ 28) ^ 44 * 10 ^ 2"
    by (intro mult_le_mono power_mono k zero_le)
  then show ?thesis unfolding e power_add power_mult .
qed

lemma short_int_printable: "short_int i \<Longrightarrow> printable_int i"
proof (rule printable_intI[of i 1234])
  assume "short_int i"
  then have "nat \<bar>i\<bar> < 2 ^ MAX_INTEGER_BITS" by (simp add: short_int_def bit_length_le)
  then show "nat \<bar>i\<bar> < 10 ^ 1234" using two_power_4096 unfolding MAX_INTEGER_BITS_def by (rule less_le_trans)
qed simp_all

lemma fits_exact:
  "fits d v \<Longrightarrow> dict_ok v \<Longrightarrow> d + l = Suc AG_MAX_DEPTH \<Longrightarrow> d \<le> AG_MAX_DEPTH \<Longrightarrow> exact_json short_int l v"
  "fits_list d xs \<Longrightarrow> dict_ok_list xs \<Longrightarrow> d + l = Suc AG_MAX_DEPTH \<Longrightarrow> list_all (exact_json short_int l) xs"
  "fits_items d m \<Longrightarrow> dict_ok_items m \<Longrightarrow> d + l = Suc AG_MAX_DEPTH \<Longrightarrow> list_all (exact_json short_int l) (map snd m)"
proof (induction d v and d xs and d m arbitrary: l and l and l rule: fits_fits_list_fits_items.induct)
  case (5 d xs)
  then obtain k where "l = Suc k" by (cases l) auto
  then show ?case using 5 by simp
next
  case (6 d m)
  then obtain k where "l = Suc k" by (cases l) auto
  then show ?case using 6 by (simp add: dkeys_def)
qed (auto simp: short_int_def intro: short_int_printable[unfolded short_int_def])

section \<open>Reading the key order back\<close>

lemma sum_list_sort_key: "sum_list (map f (sort_key g m)) = (sum_list (map f m) :: nat)"
  by (metis mset_map mset_sort sum_mset_sum_list)

lemma below_sums:
  "below_list xs = (\<Sum>x\<leftarrow>xs. Suc (below x))" "below_items m = (\<Sum>(k, v)\<leftarrow>m. Suc (below v))"
  "text_size_list xs = (\<Sum>x\<leftarrow>xs. text_size x)" "text_size_items m = (\<Sum>(k, v)\<leftarrow>m. length (utf8 k) + text_size v)"
proof -
  show "below_list xs = (\<Sum>x\<leftarrow>xs. Suc (below x))" "text_size_list xs = (\<Sum>x\<leftarrow>xs. text_size x)"
    by (induction xs) auto
  show "below_items m = (\<Sum>(k, v)\<leftarrow>m. Suc (below v))" "text_size_items m = (\<Sum>(k, v)\<leftarrow>m. length (utf8 k) + text_size v)"
    by (induction m) auto
qed

lemma fits_all:
  "fits_list d xs = list_all (\<lambda>x. d \<le> AG_MAX_DEPTH \<and> fits d x) xs"
  "fits_items d m = list_all (\<lambda>(k, v). length k \<le> MAX_STRING_SCALARS \<and> d \<le> AG_MAX_DEPTH \<and> fits d v) m"
proof -
  show "fits_list d xs = list_all (\<lambda>x. d \<le> AG_MAX_DEPTH \<and> fits d x) xs" by (induction xs) auto
  show "fits_items d m = list_all (\<lambda>(k, v). length k \<le> MAX_STRING_SCALARS \<and> d \<le> AG_MAX_DEPTH \<and> fits d v) m"
    by (induction m) auto
qed

lemma sorted_json_sizes:
  "(fits d (sorted_json v) \<longleftrightarrow> fits d v) \<and> below (sorted_json v) = below v \<and> text_size (sorted_json v) = text_size v"
  "(fits_list d (sorted_list xs) \<longleftrightarrow> fits_list d xs) \<and> below_list (sorted_list xs) = below_list xs \<and>
     text_size_list (sorted_list xs) = text_size_list xs \<and> length (sorted_list xs) = length xs"
  "(fits_items d (sorted_items m) \<longleftrightarrow> fits_items d m) \<and> below_items (sorted_items m) = below_items m \<and>
     text_size_items (sorted_items m) = text_size_items m \<and> length (sorted_items m) = length m"
proof (induction v and xs and m arbitrary: d and d and d rule: sorted_json_sorted_list_sorted_items.induct)
  case (2 m)
  then show ?case by (simp add: below_sums fits_all sum_list_sort_key list_all_iff)
qed auto

lemma fits_plain:
  "fits d v \<Longrightarrow> plain_json v" "fits_list d xs \<Longrightarrow> plain_list xs" "fits_items d m \<Longrightarrow> plain_items m"
  by (induction d v and d xs and d m rule: fits_fits_list_fits_items.induct) auto

lemma encode_exact:
  assumes "fits d v" "exact_json P l v"
  shows "encode_value v = Inr (utf8 (json_text False v))"
  using encode_value_agrees(1)[of v] fits_plain(1)[OF assms(1)] exact_json_val[OF assms(2), of False]
  by (simp add: agrees_def)

lemma start_budget [simp]: "in_budget \<lparr>ab_nodes = 0, ab_text_bytes = 0\<rparr> 0 0"
  by (simp add: in_budget_def)

lemma ag_preflight_ok:
  "ag_preflight v 0 \<lparr>ab_nodes = 0, ab_text_bytes = 0\<rparr> = Inr b \<longleftrightarrow>
     fits 0 v \<and> below v < MAX_SNAPSHOT_NODES \<and> text_size v \<le> MAX_CANONICAL_BYTES \<and>
     b = \<lparr>ab_nodes = Suc (below v), ab_text_bytes = text_size v\<rparr>"
proof -
  have e: "enter_node 0 \<lparr>ab_nodes = 0, ab_text_bytes = 0\<rparr> = Inr \<lparr>ab_nodes = 1, ab_text_bytes = 0\<rparr>"
    by (simp add: enter_node_def MAX_SNAPSHOT_NODES_def)
  have "in_budget \<lparr>ab_nodes = 1, ab_text_bytes = 0\<rparr> 0 0" by (simp add: in_budget_def MAX_SNAPSHOT_NODES_def)
  from preflight_iff(1)[OF this] show ?thesis
    by (auto simp: ag_preflight_def e in_budget_def spend_def Suc_le_eq)
qed

text \<open>The canonical bytes of a value without repeated keys.\<close>

lemma canonical_bytes_ok:
  assumes "dict_ok v"
  shows "canonical_ai_gateway_json_v1_bytes v = Inr bs \<longleftrightarrow>
    fits 0 v \<and> below v < MAX_SNAPSHOT_NODES \<and> text_size v \<le> MAX_CANONICAL_BYTES \<and>
    bs = utf8 (json_text False v) \<and> length bs \<le> MAX_CANONICAL_BYTES"
proof -
  have "fits 0 v \<Longrightarrow> encode_value v = Inr (utf8 (json_text False v))"
    using encode_exact[of 0 v] fits_exact(1)[of 0 v 11] assms by (auto simp: AG_MAX_DEPTH_def)
  then show ?thesis
    by (auto simp: canonical_ai_gateway_json_v1_bytes_def bind_r_eq_Inr ag_preflight_ok not_less)
qed

lemma canonical_bytes_sorted:
  assumes "dict_ok v" "canonical_ai_gateway_json_v1_bytes v = Inr bs"
  shows "canonical_ai_gateway_json_v1_bytes (sorted_json v) = Inr bs"
proof -
  have v: "fits 0 v" "below v < MAX_SNAPSHOT_NODES" "text_size v \<le> MAX_CANONICAL_BYTES"
    "bs = utf8 (json_text False v)" "length bs \<le> MAX_CANONICAL_BYTES"
    using assms canonical_bytes_ok by auto
  have x: "exact_json short_int 11 v" using fits_exact(1)[OF v(1) assms(1)] by (simp add: AG_MAX_DEPTH_def)
  have s: "fits 0 (sorted_json v)" "below (sorted_json v) = below v" "text_size (sorted_json v) = text_size v"
    using sorted_json_sizes(1)[of 0 v] v(1) by auto
  have "encode_value (sorted_json v) = Inr bs"
    using encode_exact[OF s(1)] sorted_json_text[OF x, of False] v(4) by auto
  then show ?thesis using v s
    by (auto simp: canonical_ai_gateway_json_v1_bytes_def bind_r_eq_Inr ag_preflight_ok not_less)
qed

section \<open>Integers and bytes\<close>

lemma parse_magnitude_append:
  "parse_magnitude m (s @ t) = bind_r (parse_magnitude m s) (\<lambda>k. parse_magnitude k t)"
  by (induction m s rule: parse_magnitude.induct) (auto simp: Let_def)

lemma digit_value: "d < 10 \<Longrightarrow> (of_char (digit_char d) :: nat) - 48 = d"
  by (simp add: digit_char_def of_char_of)

lemma parse_magnitude_show: "n < 2 ^ MAX_INTEGER_BITS \<Longrightarrow> parse_magnitude 0 (show_nat n) = Inr n"
proof (induction n rule: show_nat.induct)
  case (1 n)
  have b: "\<not> MAX_INTEGER_BITS < bit_length n" using 1(2) bit_length_le[of n] by (simp add: not_less)
  show ?case
  proof (cases "n < 10")
    case True
    then show ?thesis using b by (simp add: show_nat.simps[of n] digit_value Let_def)
  next
    case False
    have "n div 10 < 2 ^ MAX_INTEGER_BITS" using 1(2) by (meson div_le_dividend le_less_trans)
    then show ?thesis using 1(1)[OF False] False b
      by (simp add: show_nat.simps[of n] parse_magnitude_append digit_value Let_def)
  qed
qed

lemma parse_integer_show: "short_int i \<Longrightarrow> parse_integer (show_int i) = Inr i"
proof -
  assume "short_int i"
  then have n: "nat \<bar>i\<bar> < 2 ^ MAX_INTEGER_BITS" by (simp add: short_int_def bit_length_le)
  have "nat \<bar>i\<bar> < 10 ^ 1234" using n two_power_4096 unfolding MAX_INTEGER_BITS_def by (rule less_le_trans)
  then have l: "\<not> MAX_INTEGER_DECIMAL_DIGITS < length (show_nat (nat \<bar>i\<bar>))"
    unfolding MAX_INTEGER_DECIMAL_DIGITS_def not_less by (rule show_nat_length) simp
  obtain c ds where s: "show_nat (nat \<bar>i\<bar>) = c # ds" "json_digit c" using show_nat_cases by blast
  have c: "c \<noteq> CHR ''-''" using s(2) by (auto simp: json_digit_def)
  show ?thesis using parse_magnitude_show[OF n] l s(1) c
    by (auto simp: parse_integer_def show_int_def Let_def)
qed

lemma object_from_pairs_distinct:
  "distinct (dkeys (acc @ ps)) \<Longrightarrow> object_from_pairs acc ps = Inr (PDict (acc @ ps))"
proof (induction acc ps rule: object_from_pairs.induct)
  case (2 acc k c ps)
  have "\<not> has_key acc k" using 2(2) by (auto simp: has_key_def dkeys_def)
  then show ?case using 2 by simp
qed simp

lemma gateway_hooks_faithful: "faithful_hooks short_int gateway_hooks"
  by (simp add: faithful_hooks_def gateway_hooks_def parse_integer_show object_from_pairs_distinct)

lemma utf8_no_bom: "take 3 (utf8 s) \<noteq> [0xEF, 0xBB, 0xBF]"
proof (cases s)
  case (Cons c cs)
  then show ?thesis using utf8_char_shape[of c] by (auto simp: utf8_def)
qed (simp add: utf8_def)

section \<open>The round trip\<close>

text \<open>The interpreter's recursion limit is at least 11 in every practical configuration.\<close>

lemma exact_json_deeper: "exact_json P l v \<Longrightarrow> l \<le> n \<Longrightarrow> exact_json P n v"
proof (induction P l v arbitrary: n rule: exact_json.induct)
  case (5 P l xs)
  then obtain k where k: "n = Suc k" "l \<le> k" by (cases n) auto
  show ?case using 5(2) 5(1)[OF _ _ k(2)] by (simp add: k(1) list_all_iff)
next
  case (6 P l m)
  then obtain k where k: "n = Suc k" "l \<le> k" by (cases n) auto
  show ?case using 6(2) 6(1)[OF _ _ k(2)] by (simp add: k(1) list_all_iff)
qed simp_all

lemma canonical_text_read:
  assumes "dict_ok v" "fits 0 v" "11 \<le> limit"
  shows "json_loads gateway_hooks limit (json_text False v) = Inr (sorted_json v)"
proof -
  have "exact_json short_int limit v"
    using fits_exact(1)[OF assms(2,1), of 11] exact_json_deeper assms(3) by (simp add: AG_MAX_DEPTH_def)
  then show ?thesis by (rule json_loads_text[OF gateway_hooks_faithful])
qed



text \<open>
  C30: Every canonical text is read back by the strict parser as the value it was printed from,
  with the keys of its objects in order.
\<close>

theorem gateway_json_roundtrip:
  assumes "dict_ok v" "canonical_ai_gateway_json_v1_bytes v = Inr bs" "11 \<le> limit"
  shows "parse_ai_gateway_json_v1 limit bs = Inr (sorted_json v)"
proof -
  have v: "fits 0 v" "bs = utf8 (json_text False v)" "length bs \<le> MAX_CANONICAL_BYTES"
    using assms(1,2) canonical_bytes_ok by auto
  have "json_loads gateway_hooks limit (json_text False v) = Inr (sorted_json v)"
    by (rule canonical_text_read[OF assms(1) v(1) assms(3)])
  then show ?thesis using v(3) canonical_bytes_sorted[OF assms(1,2)] utf8_no_bom[of "json_text False v"]
    unfolding v(2) by (simp add: parse_ai_gateway_json_v1_def utf8_decode_utf8 list_ex_iff not_le
        MAX_RAW_JSON_BYTES_def MAX_CANONICAL_BYTES_def del: utf8_decode.simps take_Cons_numeral)
qed

lemmas canonical_eval = canonical_ai_gateway_json_v1_bytes_def ag_preflight_def enter_node_def count_text_def
  count_integer_def add_text_def AG_MAX_DEPTH_def MAX_KEYS_PER_OBJECT_def MAX_ITEMS_PER_ARRAY_def
  MAX_STRING_SCALARS_def MAX_INTEGER_BITS_def MAX_SNAPSHOT_NODES_def MAX_CANONICAL_BYTES_def utf8_def utf8_char_def
  encode_string_def encode_char_def encode_integer_def bit_length.simps reversed_digits.simps Let_def

lemma gateway_json_roundtrip_witness:
  "\<exists>bs. canonical_ai_gateway_json_v1_bytes (PDict [(''b'', PInt (-7)), (''a'', PList [PNone])]) = Inr bs \<and>
     parse_ai_gateway_json_v1 11 bs = Inr (PDict [(''a'', PList [PNone]), (''b'', PInt (-7))])"
proof -
  let ?v = "PDict [(''b'', PInt (-7)), (''a'', PList [PNone])]"
  have d: "dict_ok ?v" by code_simp
  have s: "sorted_json ?v = PDict [(''a'', PList [PNone]), (''b'', PInt (-7))]" by code_simp
  have "\<exists>bs. canonical_ai_gateway_json_v1_bytes ?v = Inr bs" by (simp add: canonical_eval)
  then obtain bs where "canonical_ai_gateway_json_v1_bytes ?v = Inr bs" ..
  then show ?thesis using gateway_json_roundtrip[OF d, of bs 11] unfolding s by simp
qed

text \<open>
  Two values without repeated keys have the same canonical bytes exactly when they differ at
  most in the order of their keys, so a hash of the bytes commits to the value.
\<close>

theorem canonical_bytes_determine_value:
  assumes "dict_ok v" "dict_ok w" "canonical_ai_gateway_json_v1_bytes v = Inr bs"
    "canonical_ai_gateway_json_v1_bytes w = Inr cs"
  shows "bs = cs \<longleftrightarrow> sorted_json v = sorted_json w"
proof
  have v: "json_loads gateway_hooks 11 (json_text False v) = Inr (sorted_json v)" "bs = utf8 (json_text False v)"
    using assms(1,3) by (auto simp: canonical_bytes_ok canonical_text_read)
  have w: "json_loads gateway_hooks 11 (json_text False w) = Inr (sorted_json w)" "cs = utf8 (json_text False w)"
    using assms(2,4) by (auto simp: canonical_bytes_ok canonical_text_read)
  assume "bs = cs"
  then have "json_text False v = json_text False w" using v(2) w(2) by simp
  then show "sorted_json v = sorted_json w" using v(1) w(1) by simp
next
  assume "sorted_json v = sorted_json w"
  then show "bs = cs" using canonical_bytes_sorted[OF assms(1,3)] canonical_bytes_sorted[OF assms(2,4)] by simp
qed

lemma canonical_bytes_determine_value_witness:
  "\<exists>bs cs. canonical_ai_gateway_json_v1_bytes (PList [PInt 1]) = Inr bs \<and>
     canonical_ai_gateway_json_v1_bytes (PList [PBool True]) = Inr cs \<and> bs \<noteq> cs"
proof -
  have d: "dict_ok (PList [PInt 1])" "dict_ok (PList [PBool True])" by code_simp+
  have "\<exists>bs. canonical_ai_gateway_json_v1_bytes (PList [PInt 1]) = Inr bs"
    "\<exists>cs. canonical_ai_gateway_json_v1_bytes (PList [PBool True]) = Inr cs" by (simp_all add: canonical_eval)
  then obtain bs cs where c: "canonical_ai_gateway_json_v1_bytes (PList [PInt 1]) = Inr bs"
    "canonical_ai_gateway_json_v1_bytes (PList [PBool True]) = Inr cs" by blast
  then show ?thesis using canonical_bytes_determine_value[OF d c] by auto
qed

end
