(* ===== verification/Ai_Gateway_V2.thy ===== *)
theory Ai_Gateway_V2
  imports Ai_Gateway_Json_Facts Ai_Gateway_Policy
begin

text \<open>
  \<open>src/adamantine/v1/integrations/ai_gateway_policy_bound_evidence_v2.py\<close>: the bytes of the
  policy-bound AI gateway evidence, parsed under the governed profile, checked field by field
  and bound by hashes to the policy pack the verifier expects. Texts of local callers are exact
  strings.
\<close>

section \<open>States, failures and results\<close>

datatype pb_state =
    Pb_ALLOW_EVIDENCE_CONTINUE_CHECKS
  | Pb_DENY_EARLIER_GATE_DENIED
  | Pb_DENY_EXPECTED_POLICY_INVALID
  | Pb_DENY_UNSUPPORTED_INPUT
  | Pb_DENY_INVALID_WIRE
  | Pb_DENY_DUPLICATE_KEY
  | Pb_DENY_RESOURCE_LIMIT
  | Pb_DENY_SCHEMA_INVALID
  | Pb_DENY_UNKNOWN_FIELD
  | Pb_DENY_VERSION_MISMATCH
  | Pb_DENY_MISSING_POLICY_BINDING
  | Pb_DENY_HIDDEN_AUTHORITY_FIELD
  | Pb_DENY_CONTEXT_HASH_MISMATCH
  | Pb_DENY_RECEIPT_MISMATCH
  | Pb_DENY_BINDING_HASH_MISMATCH
  | Pb_DENY_POLICY_ID_MISMATCH
  | Pb_DENY_POLICY_VERSION_MISMATCH
  | Pb_DENY_POLICY_HASH_MISMATCH
  | Pb_DENY_AI_GATEWAY_REJECTED
  | Pb_DENY_INTERNAL_ERROR

primrec pb_state_value :: "pb_state \<Rightarrow> string" where
  "pb_state_value Pb_ALLOW_EVIDENCE_CONTINUE_CHECKS = ''ALLOW_EVIDENCE_CONTINUE_CHECKS''"
| "pb_state_value Pb_DENY_EARLIER_GATE_DENIED = ''DENY_EARLIER_GATE_DENIED''"
| "pb_state_value Pb_DENY_EXPECTED_POLICY_INVALID = ''DENY_EXPECTED_POLICY_INVALID''"
| "pb_state_value Pb_DENY_UNSUPPORTED_INPUT = ''DENY_UNSUPPORTED_INPUT''"
| "pb_state_value Pb_DENY_INVALID_WIRE = ''DENY_INVALID_WIRE''"
| "pb_state_value Pb_DENY_DUPLICATE_KEY = ''DENY_DUPLICATE_KEY''"
| "pb_state_value Pb_DENY_RESOURCE_LIMIT = ''DENY_RESOURCE_LIMIT''"
| "pb_state_value Pb_DENY_SCHEMA_INVALID = ''DENY_SCHEMA_INVALID''"
| "pb_state_value Pb_DENY_UNKNOWN_FIELD = ''DENY_UNKNOWN_FIELD''"
| "pb_state_value Pb_DENY_VERSION_MISMATCH = ''DENY_VERSION_MISMATCH''"
| "pb_state_value Pb_DENY_MISSING_POLICY_BINDING = ''DENY_MISSING_POLICY_BINDING''"
| "pb_state_value Pb_DENY_HIDDEN_AUTHORITY_FIELD = ''DENY_HIDDEN_AUTHORITY_FIELD''"
| "pb_state_value Pb_DENY_CONTEXT_HASH_MISMATCH = ''DENY_CONTEXT_HASH_MISMATCH''"
| "pb_state_value Pb_DENY_RECEIPT_MISMATCH = ''DENY_RECEIPT_MISMATCH''"
| "pb_state_value Pb_DENY_BINDING_HASH_MISMATCH = ''DENY_BINDING_HASH_MISMATCH''"
| "pb_state_value Pb_DENY_POLICY_ID_MISMATCH = ''DENY_POLICY_ID_MISMATCH''"
| "pb_state_value Pb_DENY_POLICY_VERSION_MISMATCH = ''DENY_POLICY_VERSION_MISMATCH''"
| "pb_state_value Pb_DENY_POLICY_HASH_MISMATCH = ''DENY_POLICY_HASH_MISMATCH''"
| "pb_state_value Pb_DENY_AI_GATEWAY_REJECTED = ''DENY_AI_GATEWAY_REJECTED''"
| "pb_state_value Pb_DENY_INTERNAL_ERROR = ''DENY_INTERNAL_ERROR''"

text \<open>The expected policy is an object of the caller; \<^const>\<open>None\<close> is an object of another class.\<close>

record expected_policy =
  ep_policy_pack_id :: pyval
  ep_policy_pack_version_id :: pyval
  ep_policy_pack_hash :: pyval

record pb_result = "pb_state policy_result" +
  pb_policy_binding_verified :: bool
  pb_context_hash :: "string option"
  pb_policy_pack_id :: "string option"
  pb_policy_pack_version_id :: "string option"
  pb_policy_pack_hash :: "string option"
  pb_receipt_hash :: "string option"
  pb_handoff_hash :: "string option"

text \<open>\<open>_EvidenceFailure\<close>, the exceptions of the profile, and any other exception.\<close>

datatype pb_exc = EvidenceFailure pb_state string | GatewayExc ag_exc | OtherExc pyexc

definition pb_fail :: "pb_state \<Rightarrow> reason_id \<Rightarrow> pb_exc" where
  "pb_fail st rid = EvidenceFailure st (reason_value rid)"

definition pb_deny :: "pb_state \<Rightarrow> string \<Rightarrow> string list \<Rightarrow> pb_result" where
  "pb_deny st reason dominant = \<lparr>pr_source = ''ai_gateway'', pr_state = st, pr_outcome = ''DENY'',
     pr_reason_id = reason, pr_accepted_as_evidence = False, pr_final_approval = False,
     pr_dominant_reason_ids = (if dominant = [] then [reason] else dominant),
     pb_policy_binding_verified = False, pb_context_hash = None, pb_policy_pack_id = None,
     pb_policy_pack_version_id = None, pb_policy_pack_hash = None, pb_receipt_hash = None, pb_handoff_hash = None\<rparr>"

definition pb_result_attrs :: "pb_result \<Rightarrow> pydict" where
  "pb_result_attrs r = result_attrs pb_state_value r @
     [(''policy_binding_verified'', PBool (pb_policy_binding_verified r)), (''context_hash'', opt_text (pb_context_hash r)),
      (''policy_pack_id'', opt_text (pb_policy_pack_id r)), (''policy_pack_version_id'', opt_text (pb_policy_pack_version_id r)),
      (''policy_pack_hash'', opt_text (pb_policy_pack_hash r)), (''receipt_hash'', opt_text (pb_receipt_hash r)),
      (''handoff_hash'', opt_text (pb_handoff_hash r))]"

section \<open>Local inputs\<close>

definition MAX_POLICY_ID_SCALARS :: nat where "MAX_POLICY_ID_SCALARS = 256"
definition MAX_POLICY_BINDING_BYTES :: nat where "MAX_POLICY_BINDING_BYTES = 4096"

text \<open>Every text of the model can be encoded in UTF-8.\<close>

definition is_non_empty_exact_string :: "pyval \<Rightarrow> nat option \<Rightarrow> bool" where
  "is_non_empty_exact_string v maximum = (case v of
     PStr s \<Rightarrow> \<not> py_blank s \<and> (case maximum of None \<Rightarrow> True | Some n \<Rightarrow> length s \<le> n)
   | _ \<Rightarrow> False)"

definition expected_policy_is_valid :: "expected_policy option \<Rightarrow> bool" where
  "expected_policy_is_valid v = (case v of None \<Rightarrow> False
     | Some p \<Rightarrow> is_non_empty_exact_string (ep_policy_pack_id p) (Some MAX_POLICY_ID_SCALARS) \<and>
         is_non_empty_exact_string (ep_policy_pack_version_id p) (Some MAX_POLICY_ID_SCALARS) \<and>
         is_sha256_hex_val (ep_policy_pack_hash p))"

text \<open>The earlier results: absent, an exact list or tuple, or an object of another type.\<close>

datatype prior_argument = NoPrior | ExactSequence "prior_result list" | OtherSequence

definition prior_lookup :: "prior_result \<Rightarrow> pyexc + pyval option \<times> pyval option" where
  "prior_lookup r = (case r of
     PriorDict m \<Rightarrow> Inr (map_of m ''outcome'', map_of m ''reason_id'')
   | PriorMapping m \<Rightarrow> Inl (TypeError ''prior gate mapping must be an exact dictionary'')
   | PriorObject outcome reason \<Rightarrow> Inr (outcome, reason))"

definition prior_deny :: "prior_result \<Rightarrow> pyexc + string option" where
  "prior_deny r = bind_r (prior_lookup r) (\<lambda>(outcome, reason).
     case outcome of None \<Rightarrow> Inl (TypeError ''prior gate result has no outcome'')
     | Some v \<Rightarrow>
       if v = PStr ''DENY'' then Inr (Some (reason_or_policy (case reason of None \<Rightarrow> PNone | Some w \<Rightarrow> w)))
       else if v = PStr ''ALLOW_EVIDENCE'' then Inr None
       else Inl (TypeError ''prior gate result has an unsupported outcome''))"

fun prior_denies :: "prior_result list \<Rightarrow> pyexc + string list" where
  "prior_denies [] = Inr []"
| "prior_denies (r # rs) = bind_r (prior_deny r) (\<lambda>d. bind_r (prior_denies rs) (\<lambda>ds.
     Inr (case d of None \<Rightarrow> ds | Some x \<Rightarrow> x # ds)))"

definition extract_earlier_denies_v2 :: "prior_argument \<Rightarrow> pyexc + string list" where
  "extract_earlier_denies_v2 prior = (case prior of
     NoPrior \<Rightarrow> Inr []
   | ExactSequence rs \<Rightarrow> prior_denies rs
   | OtherSequence \<Rightarrow> Inl (TypeError ''prior gate results must be an exact list or tuple''))"

section \<open>The artifacts\<close>

definition EVIDENCE_FIELDS :: "string list" where
  "EVIDENCE_FIELDS = [''evidence_version'', ''source'', ''evidence_role'', ''expected_context_hash'', ''handoff'',
     ''receipt'', ''policy_binding'']"

definition POLICY_BINDING_FIELDS :: "string list" where
  "POLICY_BINDING_FIELDS = [''policy_binding_version'', ''policy_pack_contract_version'', ''policy_pack_id'',
     ''policy_pack_version_id'', ''policy_pack_hash'', ''receipt_hash'', ''handoff_hash'']"

definition GATEWAY_REJECTED_REASON_IDS :: "string list" where
  "GATEWAY_REJECTED_REASON_IDS = [''ADAPTER_NOT_REGISTERED'', ''ADAPTER_VALIDATION_FAILED'', ''CANONICALIZATION_FAILED'',
     ''HASHING_FAILED'', ''INTERNAL_ERROR'', ''INVALID_ENVELOPE'', ''INVALID_OUTPUT'', ''MISSING_REQUIRED_FIELD'',
     ''NON_DETERMINISTIC_OUTPUT'', ''POLICY_DENIED'', ''SCHEMA_VIOLATION'', ''UNSUPPORTED_MODEL'', ''UNSUPPORTED_TASK'']"

definition require_exact_object :: "pyval \<Rightarrow> string list \<Rightarrow> pb_exc + pydict" where
  "require_exact_object v names = (case v of
     PDict m \<Rightarrow>
       if \<not> list_all (\<lambda>k. k \<in> set names) (dkeys m) then Inl (pb_fail Pb_DENY_UNKNOWN_FIELD DENY_UNKNOWN_FIELD)
       else if \<not> list_all (has_key m) names then Inl (pb_fail Pb_DENY_SCHEMA_INVALID DENY_SCHEMA_INVALID)
       else Inr m
   | _ \<Rightarrow> Inl (pb_fail Pb_DENY_SCHEMA_INVALID DENY_SCHEMA_INVALID))"

definition require_hashes :: "pydict \<Rightarrow> string list \<Rightarrow> pb_exc + unit" where
  "require_hashes m names = (if list_ex (\<lambda>f. \<not> is_sha256_hex_val (dget m f)) names
     then Inl (pb_fail Pb_DENY_SCHEMA_INVALID DENY_ADAPTER_INVALID) else Inr ())"

text \<open>The membership tests hash their operand first.\<close>

definition validate_reason_semantics :: "pyval \<Rightarrow> pyval \<Rightarrow> pb_exc + unit" where
  "validate_reason_semantics decision reason =
    (case in_frozenset decision [''accepted'', ''rejected''] of
       Inl e \<Rightarrow> Inl (OtherExc e)
     | Inr known \<Rightarrow>
       if \<not> known \<or> \<not> is_non_empty_exact_string reason None then Inl (pb_fail Pb_DENY_SCHEMA_INVALID DENY_POLICY)
       else if decision = PStr ''accepted'' \<and> reason \<noteq> PStr ''ACCEPTED'' then Inl (pb_fail Pb_DENY_SCHEMA_INVALID DENY_POLICY)
       else if decision = PStr ''rejected'' \<and> \<not> str_in reason GATEWAY_REJECTED_REASON_IDS
         then Inl (pb_fail Pb_DENY_SCHEMA_INVALID DENY_POLICY)
       else Inr ())"

definition require_texts :: "pydict \<Rightarrow> string list \<Rightarrow> nat option \<Rightarrow> pb_exc + unit" where
  "require_texts m names maximum = (if list_all (\<lambda>f. is_non_empty_exact_string (dget m f) maximum) names then Inr ()
     else Inl (pb_fail Pb_DENY_SCHEMA_INVALID DENY_SCHEMA_INVALID))"

definition validate_handoff :: "pyval \<Rightarrow> pb_exc + pydict" where
  "validate_handoff v = bind_r (require_exact_object v HANDOFF_FIELDS) (\<lambda>h.
     if dget h ''handoff_version'' \<noteq> PStr ''ai_gateway_handoff_v1''
       then Inl (pb_fail Pb_DENY_VERSION_MISMATCH DENY_VERSION_MISMATCH)
     else bind_r (require_texts h [''adapter'', ''task_type''] None) (\<lambda>_.
     bind_r (validate_reason_semantics (dget h ''policy_decision'') (dget h ''reason_id'')) (\<lambda>_.
     bind_r (require_hashes h [''envelope_hash'', ''output_hash'', ''context_hash'']) (\<lambda>_. Inr h))))"

definition validate_receipt :: "pyval \<Rightarrow> pb_exc + pydict" where
  "validate_receipt v = bind_r (require_exact_object v RECEIPT_FIELDS) (\<lambda>c.
     if dget c ''receipt_version'' \<noteq> PStr ''ai_gateway_receipt_v1'' \<or>
        dget c ''created_from_contract'' \<noteq> PStr ''ai_gateway_output_v1'' \<or>
        dget c ''determinism_profile'' \<noteq> PStr ''canonical_sha256_no_time_v1''
       then Inl (pb_fail Pb_DENY_VERSION_MISMATCH DENY_VERSION_MISMATCH)
     else bind_r (require_texts c [''gateway_version'', ''adapter_id'', ''adapter_version''] None) (\<lambda>_.
     bind_r (validate_reason_semantics (dget c ''policy_decision'') (dget c ''reason_id'')) (\<lambda>_.
     bind_r (require_hashes c [''envelope_hash'', ''output_hash'']) (\<lambda>_. Inr c))))"

text \<open>An exception of the profile inside the consumer.\<close>

definition canonical_of :: "pyval \<Rightarrow> pb_exc + nat list" where
  "canonical_of v = (case canonical_ai_gateway_json_v1_bytes v of Inl e \<Rightarrow> Inl (GatewayExc e) | Inr bs \<Rightarrow> Inr bs)"

definition validate_policy_binding :: "pyval \<Rightarrow> pb_exc + pydict" where
  "validate_policy_binding v = bind_r (require_exact_object v POLICY_BINDING_FIELDS) (\<lambda>b.
     if dget b ''policy_binding_version'' \<noteq> PStr ''ai_gateway_policy_binding_v1'' \<or>
        dget b ''policy_pack_contract_version'' \<noteq> PStr ''policy_pack_v1''
       then Inl (pb_fail Pb_DENY_VERSION_MISMATCH DENY_VERSION_MISMATCH)
     else bind_r (require_texts b [''policy_pack_id'', ''policy_pack_version_id''] (Some MAX_POLICY_ID_SCALARS)) (\<lambda>_.
     bind_r (require_hashes b [''policy_pack_hash'', ''receipt_hash'', ''handoff_hash'']) (\<lambda>_.
     bind_r (canonical_of (PDict b)) (\<lambda>bs.
     if MAX_POLICY_BINDING_BYTES < length bs then Inl (pb_fail Pb_DENY_RESOURCE_LIMIT DENY_ADAPTER_INVALID)
     else Inr b))))"

definition sha256_of :: "pyval \<Rightarrow> pb_exc + string" where
  "sha256_of v = bind_r (canonical_of v) (\<lambda>bs. Inr (sha256_hex bs))"

definition validate_artifact_chain :: "pydict \<Rightarrow> pydict \<Rightarrow> pydict \<Rightarrow> pyval \<Rightarrow> pb_exc + string \<times> string" where
  "validate_artifact_chain h c b expected_context_hash =
    (if \<not> py_eq (dget h ''context_hash'') expected_context_hash \<or>
        \<not> py_eq (dget h ''context_hash'') (dget h ''envelope_hash'')
       then Inl (pb_fail Pb_DENY_CONTEXT_HASH_MISMATCH DENY_POLICY)
     else if \<not> receipt_matches_handoff h c then Inl (pb_fail Pb_DENY_RECEIPT_MISMATCH DENY_ADAPTER_INVALID)
     else bind_r (sha256_of (PDict c)) (\<lambda>receipt_hash.
     bind_r (sha256_of (PDict h)) (\<lambda>handoff_hash.
     if dget b ''receipt_hash'' \<noteq> PStr receipt_hash \<or> dget b ''handoff_hash'' \<noteq> PStr handoff_hash
       then Inl (pb_fail Pb_DENY_BINDING_HASH_MISMATCH DENY_POLICY)
     else Inr (receipt_hash, handoff_hash))))"

section \<open>The consumer\<close>

definition bound_result :: "pydict \<Rightarrow> pydict \<Rightarrow> string \<Rightarrow> string \<Rightarrow> pb_result" where
  "bound_result h b receipt_hash handoff_hash =
    (let bound = (\<lambda>r. r\<lparr>pb_policy_binding_verified := True, pb_context_hash := Some (py_str (dget h ''context_hash'')),
         pb_policy_pack_id := Some (py_str (dget b ''policy_pack_id'')),
         pb_policy_pack_version_id := Some (py_str (dget b ''policy_pack_version_id'')),
         pb_policy_pack_hash := Some (py_str (dget b ''policy_pack_hash'')),
         pb_receipt_hash := Some receipt_hash, pb_handoff_hash := Some handoff_hash\<rparr>) in
     if dget h ''policy_decision'' = PStr ''rejected''
       then bound (pb_deny Pb_DENY_AI_GATEWAY_REJECTED (py_str (dget h ''reason_id'')) [])
     else (bound (pb_deny Pb_ALLOW_EVIDENCE_CONTINUE_CHECKS (reason_value EVIDENCE_OK) [reason_value EVIDENCE_OK]))
       \<lparr>pr_outcome := ''ALLOW_EVIDENCE'', pr_accepted_as_evidence := True\<rparr>)"

definition check_expected_policy :: "pydict \<Rightarrow> expected_policy \<Rightarrow> pb_exc + unit" where
  "check_expected_policy b p =
    (if \<not> py_eq (dget b ''policy_pack_id'') (ep_policy_pack_id p) then Inl (pb_fail Pb_DENY_POLICY_ID_MISMATCH DENY_POLICY)
     else if \<not> py_eq (dget b ''policy_pack_version_id'') (ep_policy_pack_version_id p)
       then Inl (pb_fail Pb_DENY_POLICY_VERSION_MISMATCH DENY_POLICY)
     else if \<not> py_eq (dget b ''policy_pack_hash'') (ep_policy_pack_hash p)
       then Inl (pb_fail Pb_DENY_POLICY_HASH_MISMATCH DENY_POLICY)
     else Inr ())"

definition check_evidence_object :: "pyval \<Rightarrow> pyval \<Rightarrow> pb_exc + pydict" where
  "check_evidence_object v expected_context_hash = (case v of
     PDict e \<Rightarrow>
       if contains_authority_field v then Inl (pb_fail Pb_DENY_HIDDEN_AUTHORITY_FIELD DENY_ADAPTER_INVALID)
       else if dget e ''evidence_version'' \<noteq> PStr ''adamantine_ai_gateway_evidence_v2''
         then Inl (pb_fail Pb_DENY_VERSION_MISMATCH DENY_VERSION_MISMATCH)
       else if dget e ''policy_binding'' = PNone then Inl (pb_fail Pb_DENY_MISSING_POLICY_BINDING DENY_POLICY)
       else bind_r (require_exact_object v EVIDENCE_FIELDS) (\<lambda>e.
       if dget e ''source'' \<noteq> PStr ''adamantine-ai-gateway''
         then Inl (pb_fail Pb_DENY_VERSION_MISMATCH DENY_VERSION_MISMATCH)
       else if dget e ''evidence_role'' \<noteq> PStr ''evidence_only''
         then Inl (pb_fail Pb_DENY_HIDDEN_AUTHORITY_FIELD DENY_ADAPTER_INVALID)
       else if \<not> py_eq (dget e ''expected_context_hash'') expected_context_hash
         then Inl (pb_fail Pb_DENY_CONTEXT_HASH_MISMATCH DENY_POLICY)
       else Inr e)
   | _ \<Rightarrow> Inl (pb_fail Pb_DENY_SCHEMA_INVALID DENY_SCHEMA_INVALID))"

definition check_evidence :: "pyval \<Rightarrow> pyval \<Rightarrow> expected_policy \<Rightarrow> pb_exc + pb_result" where
  "check_evidence v expected_context_hash p = bind_r (check_evidence_object v expected_context_hash) (\<lambda>e.
     bind_r (validate_handoff (dget e ''handoff'')) (\<lambda>h.
     bind_r (validate_receipt (dget e ''receipt'')) (\<lambda>c.
     bind_r (validate_policy_binding (dget e ''policy_binding'')) (\<lambda>b.
     bind_r (validate_artifact_chain h c b expected_context_hash) (\<lambda>(receipt_hash, handoff_hash).
     bind_r (check_expected_policy b p) (\<lambda>_. Inr (bound_result h b receipt_hash handoff_hash)))))))"

text \<open>The handlers; \<^const>\<open>None\<close> for a text the model cannot represent.\<close>

definition handle_evidence_error :: "pb_exc \<Rightarrow> pb_result option" where
  "handle_evidence_error x = (case x of
     GatewayExc e \<Rightarrow> (case e of
         AgDuplicateKey _ \<Rightarrow> Some (pb_deny Pb_DENY_DUPLICATE_KEY (reason_value DENY_SCHEMA_INVALID) [])
       | AgResource _ \<Rightarrow> Some (pb_deny Pb_DENY_RESOURCE_LIMIT (reason_value DENY_ADAPTER_INVALID) [])
       | AgCanonical _ \<Rightarrow> Some (pb_deny Pb_DENY_INVALID_WIRE (reason_value DENY_SCHEMA_INVALID) [])
       | AgUnmodelled \<Rightarrow> None)
   | EvidenceFailure st reason \<Rightarrow> Some (pb_deny st reason [])
   | OtherExc _ \<Rightarrow> Some (pb_deny Pb_DENY_INTERNAL_ERROR (reason_value ERR_INTERNAL) []))"

text \<open>
  \<open>raw_evidence\<close> is \<^const>\<open>None\<close> when it is not of the type \<open>bytes\<close>; the first argument is the
  interpreter's recursion limit.
\<close>

definition consume_ai_gateway_policy_bound_evidence_v2 :: "nat \<Rightarrow> nat list option \<Rightarrow> pyval \<Rightarrow> expected_policy option
    \<Rightarrow> prior_argument \<Rightarrow> pb_result option" where
  "consume_ai_gateway_policy_bound_evidence_v2 limit raw_evidence expected_context_hash expected_policy prior =
    (case extract_earlier_denies_v2 prior of
       Inl _ \<Rightarrow> Some (pb_deny Pb_DENY_INTERNAL_ERROR (reason_value ERR_INTERNAL) [])
     | Inr (d # ds) \<Rightarrow> Some (pb_deny Pb_DENY_EARLIER_GATE_DENIED d (d # ds))
     | Inr [] \<Rightarrow>
       if \<not> is_sha256_hex_val expected_context_hash \<or> \<not> expected_policy_is_valid expected_policy
         then Some (pb_deny Pb_DENY_EXPECTED_POLICY_INVALID (reason_value DENY_POLICY) [])
       else (case raw_evidence of
         None \<Rightarrow> Some (pb_deny Pb_DENY_UNSUPPORTED_INPUT (reason_value DENY_ADAPTER_INVALID) [])
       | Some raw \<Rightarrow> (case bind_r (case parse_ai_gateway_json_v1 limit raw of Inl e \<Rightarrow> Inl (GatewayExc e) | Inr v \<Rightarrow> Inr v)
             (\<lambda>v. check_evidence v expected_context_hash (the expected_policy)) of
           Inl x \<Rightarrow> handle_evidence_error x
         | Inr r \<Rightarrow> Some r)))"

section \<open>What is accepted\<close>

lemma require_exact_object_ok [res_simps]:
  "require_exact_object v names = Inr m \<longleftrightarrow> v = PDict m \<and> set (dkeys m) = set names"
  by (auto simp: require_exact_object_def list_all_iff has_key_def split: pyval.splits)

lemma require_hashes_ok [res_simps]:
  "require_hashes m names = Inr x \<longleftrightarrow> list_all (\<lambda>f. is_sha256_hex_val (dget m f)) names"
  by (auto simp: require_hashes_def list_all_iff list_ex_iff)

lemma require_texts_ok [res_simps]:
  "require_texts m names n = Inr x \<longleftrightarrow> list_all (\<lambda>f. is_non_empty_exact_string (dget m f) n) names"
  by (simp add: require_texts_def)

lemma exact_string_ok [simp]:
  "is_non_empty_exact_string v None \<longleftrightarrow> is_non_empty_string v"
  "is_non_empty_exact_string (PStr s) (Some n) \<longleftrightarrow> \<not> py_blank s \<and> length s \<le> n"
  by (auto simp: is_non_empty_exact_string_def is_non_empty_string_def split: pyval.splits)

definition decision_ok :: "pyval \<Rightarrow> pyval \<Rightarrow> bool" where
  "decision_ok decision reason \<longleftrightarrow> decision = PStr ''accepted'' \<and> reason = PStr ''ACCEPTED'' \<or>
     decision = PStr ''rejected'' \<and> str_in reason GATEWAY_REJECTED_REASON_IDS"

lemma rejected_not_blank: "s \<in> set GATEWAY_REJECTED_REASON_IDS \<Longrightarrow> \<not> py_blank s"
proof -
  have "list_all (\<lambda>s. \<not> py_blank s) GATEWAY_REJECTED_REASON_IDS" by code_simp
  then show "s \<in> set GATEWAY_REJECTED_REASON_IDS \<Longrightarrow> \<not> py_blank s" by (simp add: list_all_iff)
qed

lemma validate_reason_semantics_ok [res_simps]:
  "validate_reason_semantics decision reason = Inr x \<longleftrightarrow> decision_ok decision reason"
proof -
  have b: "\<not> py_blank ''ACCEPTED''" by code_simp
  show ?thesis using b rejected_not_blank
    by (auto simp: validate_reason_semantics_def decision_ok_def is_non_empty_string_ok in_frozenset_def str_in_def
        split: sum.splits pyval.splits if_splits)
qed

definition bound_handoff :: "pydict \<Rightarrow> bool" where
  "bound_handoff h \<longleftrightarrow> set (dkeys h) = set HANDOFF_FIELDS \<and> dget h ''handoff_version'' = PStr ''ai_gateway_handoff_v1'' \<and>
     is_non_empty_string (dget h ''adapter'') \<and> is_non_empty_string (dget h ''task_type'') \<and>
     decision_ok (dget h ''policy_decision'') (dget h ''reason_id'') \<and> is_sha256_hex_val (dget h ''envelope_hash'') \<and>
     is_sha256_hex_val (dget h ''output_hash'') \<and> is_sha256_hex_val (dget h ''context_hash'')"

definition bound_receipt :: "pydict \<Rightarrow> bool" where
  "bound_receipt c \<longleftrightarrow> set (dkeys c) = set RECEIPT_FIELDS \<and> dget c ''receipt_version'' = PStr ''ai_gateway_receipt_v1'' \<and>
     dget c ''created_from_contract'' = PStr ''ai_gateway_output_v1'' \<and>
     dget c ''determinism_profile'' = PStr ''canonical_sha256_no_time_v1'' \<and>
     is_non_empty_string (dget c ''gateway_version'') \<and> is_non_empty_string (dget c ''adapter_id'') \<and>
     is_non_empty_string (dget c ''adapter_version'') \<and> decision_ok (dget c ''policy_decision'') (dget c ''reason_id'') \<and>
     is_sha256_hex_val (dget c ''envelope_hash'') \<and> is_sha256_hex_val (dget c ''output_hash'')"

definition bound_policy :: "pydict \<Rightarrow> bool" where
  "bound_policy b \<longleftrightarrow> set (dkeys b) = set POLICY_BINDING_FIELDS \<and>
     dget b ''policy_binding_version'' = PStr ''ai_gateway_policy_binding_v1'' \<and>
     dget b ''policy_pack_contract_version'' = PStr ''policy_pack_v1'' \<and>
     is_non_empty_exact_string (dget b ''policy_pack_id'') (Some MAX_POLICY_ID_SCALARS) \<and>
     is_non_empty_exact_string (dget b ''policy_pack_version_id'') (Some MAX_POLICY_ID_SCALARS) \<and>
     is_sha256_hex_val (dget b ''policy_pack_hash'') \<and> is_sha256_hex_val (dget b ''receipt_hash'') \<and>
     is_sha256_hex_val (dget b ''handoff_hash'') \<and>
     (\<exists>bs. canonical_ai_gateway_json_v1_bytes (PDict b) = Inr bs \<and> length bs \<le> MAX_POLICY_BINDING_BYTES)"

lemma validate_handoff_ok [res_simps]: "validate_handoff v = Inr h \<longleftrightarrow> v = PDict h \<and> bound_handoff h"
  by (auto simp: validate_handoff_def res_simps bound_handoff_def)

lemma validate_gateway_receipt_ok [res_simps]: "validate_receipt v = Inr c \<longleftrightarrow> v = PDict c \<and> bound_receipt c"
  by (auto simp: validate_receipt_def res_simps bound_receipt_def)

lemma canonical_of_ok [res_simps]: "canonical_of v = Inr bs \<longleftrightarrow> canonical_ai_gateway_json_v1_bytes v = Inr bs"
  by (auto simp: canonical_of_def split: sum.splits)

lemma validate_policy_binding_ok [res_simps]: "validate_policy_binding v = Inr b \<longleftrightarrow> v = PDict b \<and> bound_policy b"
  by (auto simp: validate_policy_binding_def res_simps bound_policy_def not_less)

definition hashes_to :: "pyval \<Rightarrow> string \<Rightarrow> bool" where
  "hashes_to v s \<longleftrightarrow> (\<exists>bs. canonical_ai_gateway_json_v1_bytes v = Inr bs \<and> s = sha256_hex bs)"

lemma sha256_of_ok [res_simps]: "sha256_of v = Inr s \<longleftrightarrow> hashes_to v s"
  by (auto simp: sha256_of_def res_simps hashes_to_def)

definition evidence_object :: "pydict \<Rightarrow> string \<Rightarrow> bool" where
  "evidence_object e ctx \<longleftrightarrow> \<not> contains_authority_field (PDict e) \<and> set (dkeys e) = set EVIDENCE_FIELDS \<and>
     dget e ''evidence_version'' = PStr ''adamantine_ai_gateway_evidence_v2'' \<and>
     dget e ''source'' = PStr ''adamantine-ai-gateway'' \<and> dget e ''evidence_role'' = PStr ''evidence_only'' \<and>
     dget e ''expected_context_hash'' = PStr ctx \<and> dget e ''policy_binding'' \<noteq> PNone"

lemma check_evidence_object_ok [res_simps]:
  "check_evidence_object v (PStr ctx) = Inr e \<longleftrightarrow> v = PDict e \<and> evidence_object e ctx"
proof (cases v)
  case (PDict m)
  then show ?thesis by (auto simp: check_evidence_object_def res_simps evidence_object_def)
qed (simp_all add: check_evidence_object_def)

lemma check_expected_policy_ok [res_simps]:
  "check_expected_policy b p = Inr x \<longleftrightarrow> py_eq (dget b ''policy_pack_id'') (ep_policy_pack_id p) \<and>
     py_eq (dget b ''policy_pack_version_id'') (ep_policy_pack_version_id p) \<and>
     py_eq (dget b ''policy_pack_hash'') (ep_policy_pack_hash p)"
  by (auto simp: check_expected_policy_def)

definition artifact_chain :: "pydict \<Rightarrow> pydict \<Rightarrow> pydict \<Rightarrow> string \<Rightarrow> string \<Rightarrow> string \<Rightarrow> bool" where
  "artifact_chain h c b ctx rh hh \<longleftrightarrow> dget h ''context_hash'' = PStr ctx \<and> dget h ''envelope_hash'' = PStr ctx \<and>
     receipt_matches_handoff h c \<and> hashes_to (PDict c) rh \<and> hashes_to (PDict h) hh \<and>
     dget b ''receipt_hash'' = PStr rh \<and> dget b ''handoff_hash'' = PStr hh"

lemma validate_artifact_chain_ok [res_simps]:
  "validate_artifact_chain h c b (PStr ctx) = Inr x \<longleftrightarrow> (\<exists>rh hh. x = (rh, hh) \<and> artifact_chain h c b ctx rh hh)"
proof -
  have "py_eq (PStr ctx) w \<longleftrightarrow> w = PStr ctx" for w by auto
  then show ?thesis by (auto simp: validate_artifact_chain_def res_simps artifact_chain_def)
qed

text \<open>
  What policy-bound evidence is: an object of exactly the declared fields without an authority
  field, whose handoff and receipt agree, are bound to the context and hash to the values in the
  binding, and whose binding names the expected policy pack.
\<close>

definition policy_bound :: "pyval \<Rightarrow> string \<Rightarrow> expected_policy \<Rightarrow> pydict \<Rightarrow> pydict \<Rightarrow> string \<Rightarrow> string \<Rightarrow> bool" where
  "policy_bound v ctx p h b rh hh \<longleftrightarrow> (\<exists>e c. v = PDict e \<and> evidence_object e ctx \<and>
     dget e ''handoff'' = PDict h \<and> bound_handoff h \<and> dget e ''receipt'' = PDict c \<and> bound_receipt c \<and>
     dget e ''policy_binding'' = PDict b \<and> bound_policy b \<and> artifact_chain h c b ctx rh hh \<and>
     dget b ''policy_pack_id'' = ep_policy_pack_id p \<and> dget b ''policy_pack_version_id'' = ep_policy_pack_version_id p \<and>
     dget b ''policy_pack_hash'' = ep_policy_pack_hash p)"

lemma expected_policy_texts:
  assumes "expected_policy_is_valid (Some p)"
  obtains i v h where "ep_policy_pack_id p = PStr i" "ep_policy_pack_version_id p = PStr v" "ep_policy_pack_hash p = PStr h"
  using assms by (auto simp: expected_policy_is_valid_def is_non_empty_exact_string_def is_sha256_hex_val_ok split: pyval.splits)

lemma check_evidence_ok:
  assumes "expected_policy_is_valid (Some p)"
  shows "check_evidence v (PStr ctx) p = Inr r \<longleftrightarrow> (\<exists>h b rh hh. policy_bound v ctx p h b rh hh \<and> r = bound_result h b rh hh)"
proof -
  obtain i w k where "ep_policy_pack_id p = PStr i" "ep_policy_pack_version_id p = PStr w" "ep_policy_pack_hash p = PStr k"
    using expected_policy_texts[OF assms] .
  then show ?thesis unfolding check_evidence_def policy_bound_def by (auto simp: res_simps; blast)
qed

lemma bound_result_kind:
  "if dget h ''policy_decision'' = PStr ''rejected'' then denies_with (bound_result h b rh hh)
   else accepts_with (bound_result h b rh hh)"
  by (simp add: bound_result_def denies_with_def accepts_with_def pb_deny_def Let_def)

lemma pb_deny_denies: "denies_with (pb_deny st reason ds)"
  by (simp add: pb_deny_def denies_with_def)

lemma handle_evidence_error_denies: "handle_evidence_error x = Some r \<Longrightarrow> denies_with r"
  by (auto simp: handle_evidence_error_def pb_deny_denies split: pb_exc.splits ag_exc.splits)

text \<open>The inputs under which the evidence is read at all.\<close>

definition admissible :: "pyval \<Rightarrow> expected_policy option \<Rightarrow> prior_argument \<Rightarrow> bool" where
  "admissible expected_context_hash policy prior \<longleftrightarrow> extract_earlier_denies_v2 prior = Inr [] \<and>
     is_sha256_hex_val expected_context_hash \<and> expected_policy_is_valid policy"

lemma consume_admissible:
  assumes "admissible ctx policy prior"
  shows "consume_ai_gateway_policy_bound_evidence_v2 limit (Some raw) ctx policy prior =
    (case bind_r (case parse_ai_gateway_json_v1 limit raw of Inl e \<Rightarrow> Inl (GatewayExc e) | Inr v \<Rightarrow> Inr v)
       (\<lambda>v. check_evidence v ctx (the policy)) of Inl x \<Rightarrow> handle_evidence_error x | Inr r \<Rightarrow> Some r)"
  using assms by (simp add: consume_ai_gateway_policy_bound_evidence_v2_def admissible_def)

lemma consume_inadmissible:
  "\<not> admissible ctx policy prior \<or> raw = None \<Longrightarrow>
    consume_ai_gateway_policy_bound_evidence_v2 limit raw ctx policy prior = Some r \<Longrightarrow> denies_with r"
  by (auto simp: consume_ai_gateway_policy_bound_evidence_v2_def admissible_def pb_deny_denies
      split: sum.splits list.splits option.splits if_splits)

lemma consume_cases:
  assumes "consume_ai_gateway_policy_bound_evidence_v2 limit raw ctx policy prior = Some r"
  obtains (deny) "denies_with r"
    | (bound) bs v c p h b rh hh where "admissible ctx policy prior" "raw = Some bs" "parse_ai_gateway_json_v1 limit bs = Inr v"
        "ctx = PStr c" "policy = Some p" "policy_bound v c p h b rh hh" "r = bound_result h b rh hh"
proof (cases "\<not> admissible ctx policy prior \<or> raw = None")
  case True
  then show ?thesis using consume_inadmissible[OF _ assms] deny by blast
next
  case False
  then obtain bs c p where i: "raw = Some bs" "admissible ctx policy prior" "ctx = PStr c" "policy = Some p"
    "expected_policy_is_valid (Some p)"
    by (auto simp: admissible_def is_sha256_hex_val_ok expected_policy_is_valid_def split: option.splits)
  show ?thesis
  proof (cases "parse_ai_gateway_json_v1 limit bs")
    case (Inl e)
    then show ?thesis using assms consume_admissible[OF i(2), of limit bs] handle_evidence_error_denies deny by (simp add: i(1))
  next
    case (Inr v)
    show ?thesis
    proof (cases "check_evidence v ctx p")
      case (Inl e)
      then show ?thesis using assms consume_admissible[OF i(2), of limit bs] handle_evidence_error_denies deny Inr
        by (simp add: i(1,4))
    next
      case r: (Inr r')
      then have "r' = r" using assms consume_admissible[OF i(2), of limit bs] Inr by (simp add: i(1,4))
      then show ?thesis using r Inr i check_evidence_ok[OF i(5), of v c r] bound by auto
    qed
  qed
qed

lemma accepted_kind:
  "accepts_with r \<Longrightarrow> pr_accepted_as_evidence r" "denies_with r \<Longrightarrow> \<not> pr_accepted_as_evidence r"
  by (simp_all add: accepts_with_def denies_with_def)

interpretation pb_evidence: evidence_boundary
  "\<lambda>(limit, raw, ctx, policy, prior). case consume_ai_gateway_policy_bound_evidence_v2 limit raw ctx policy prior of
     None \<Rightarrow> Inl () | Some r \<Rightarrow> Inr r"
  pb_result_attrs
proof
  fix i and r :: pb_result
  assume "(case i of (limit, raw, ctx, policy, prior) \<Rightarrow>
    case consume_ai_gateway_policy_bound_evidence_v2 limit raw ctx policy prior of None \<Rightarrow> Inl () | Some r \<Rightarrow> Inr r) = Inr r"
  then obtain limit raw ctx policy prior where "consume_ai_gateway_policy_bound_evidence_v2 limit raw ctx policy prior = Some r"
    by (cases i) (auto split: option.splits)
  then show "denies_with r \<or> accepts_with r"
    by (rule consume_cases) (simp_all, metis bound_result_kind)
qed (simp_all add: pb_result_attrs_def result_attrs_def dget_default_def)

text \<open>
  C29: The consumer accepts exactly the bytes that parse, under admissible local inputs, to
  policy-bound evidence for the expected context and policy pack whose decision is \<open>accepted\<close>.
\<close>

theorem policy_bound_accepted_iff:
  "(case consume_ai_gateway_policy_bound_evidence_v2 limit raw ctx policy prior of
      None \<Rightarrow> False | Some r \<Rightarrow> pr_accepted_as_evidence r) \<longleftrightarrow>
   (\<exists>bs v c p h b rh hh. admissible ctx policy prior \<and> raw = Some bs \<and> parse_ai_gateway_json_v1 limit bs = Inr v \<and>
      ctx = PStr c \<and> policy = Some p \<and> policy_bound v c p h b rh hh \<and> dget h ''policy_decision'' = PStr ''accepted'')"
  (is "?accepted \<longleftrightarrow> ?bound")
proof
  assume ?accepted
  then obtain r where r: "consume_ai_gateway_policy_bound_evidence_v2 limit raw ctx policy prior = Some r"
    "pr_accepted_as_evidence r" by (auto split: option.splits)
  from r(1) show ?bound
  proof (cases rule: consume_cases)
    case (bound bs v c p h b rh hh)
    then have "dget h ''policy_decision'' \<noteq> PStr ''rejected''"
      using r(2) bound_result_kind[of h b rh hh] accepted_kind(2)[of r] by auto
    then have "dget h ''policy_decision'' = PStr ''accepted''"
      using bound by (auto simp: policy_bound_def bound_handoff_def decision_ok_def)
    then show ?thesis using bound by blast
  qed (use r(2) accepted_kind in blast)
next
  assume ?bound
  then obtain bs v c p h b rh hh where i: "admissible (PStr c) (Some p) prior" "raw = Some bs" "parse_ai_gateway_json_v1 limit bs = Inr v"
    "ctx = PStr c" "policy = Some p" and b: "policy_bound v c p h b rh hh" "dget h ''policy_decision'' = PStr ''accepted''" by blast
  have "check_evidence v (PStr c) p = Inr (bound_result h b rh hh)"
    using check_evidence_ok[of p v c] i(1) b(1) by (auto simp: admissible_def)
  then show ?accepted using consume_admissible[OF i(1), of limit bs] i bound_result_kind[of h b rh hh] b(2) accepted_kind(1) by simp
qed

text \<open>A decision that cannot be hashed is reported as an internal error, not as a schema error.\<close>

lemma unhashable_decision_is_internal:
  "validate_reason_semantics (PList xs) reason = Inl (OtherExc (TypeError ''unhashable type''))"
  by (simp add: validate_reason_semantics_def in_frozenset_def)

end
