(* ===== verification/Policy_Composition.thy ===== *)
theory Policy_Composition
  imports Wsqk_Policy Qid_Policy Adaptive_Policy Ai_Gateway_Policy Ai_Gateway_V2
begin

text \<open>
  The evidence boundaries in front of the final policy engine: what the engine's gate makes of
  each normalised result, handed over as the object it is. Adaptive Core and AI gateway results
  pass their gate exactly when they are accepted; WSQK, Q-ID and policy-bound AI gateway
  results never do, because the first carry their authority in an attribute the engine takes for
  hidden authority, the second have no context hash and the third no handoff flag.
\<close>

section \<open>Attributes\<close>

lemma forbidden_text_list [simp]: "\<not> contains_forbidden_list (map PStr ss)"
  by (induction ss) auto

lemma truthy_text: "truthy_authority_value (PStr s) \<longleftrightarrow> s \<noteq> []"
  by (auto simp: truthy_authority_value_def py_in_def num_eq_def num_ratio_def)

lemma opt_vals_plain [simp]:
  "\<not> contains_forbidden (opt_text x)" "\<not> contains_forbidden (opt_int i)" "\<not> contains_forbidden (opt_object c y)"
  "\<not> contains_forbidden (opt_bool b)"
  by (auto simp: opt_text_def opt_int_def opt_object_def opt_bool_def split: option.split)

lemma result_attrs_plain:
  "forbidden_attrs (result_attrs st r @ m) = forbidden_attrs m"
  by (simp add: result_attrs_def FORBIDDEN_AUTHORITY_KEYS_def ALLOWED_NORMALIZED_AUTHORITY_FIELDS_def)

lemmas attr_defs = wsqk_result_attrs_def qid_result_attrs_def ac_result_attrs_def ag_result_attrs_def

lemma dget_result_attrs [simp]:
  "dget_default (result_attrs st r @ m) ''final_approval'' d = PBool (pr_final_approval r)"
  "dget_default (result_attrs st r @ m) ''accepted_as_evidence'' d = PBool (pr_accepted_as_evidence r)"
  "dget_default (result_attrs st r @ m) ''state'' d = PStr (st (pr_state r))"
  "dget_default (result_attrs st r @ m) ''outcome'' d = PStr (pr_outcome r)"
  "dget_default (result_attrs st r @ m) ''handoff_allowed'' d = dget_default m ''handoff_allowed'' d"
  "dget_default (result_attrs st r @ m) ''context_hash'' d = dget_default m ''context_hash'' d"
  "dget_default (result_attrs st r @ m) ''final_outcome'' d = dget_default m ''final_outcome'' d"
  by (simp_all add: result_attrs_def dget_default_def)

lemma not_truthy_False [simp]: "\<not> truthy_authority_value (PBool False)"
  by code_simp

text \<open>A result with no final approval goes through the gate's remaining checks in order.\<close>

lemma gate_of_result:
  assumes "\<not> pr_final_approval r" "gate \<noteq> ''shield''" "attrs = result_attrs st r @ m"
  shows "evaluate_evidence_gate gate (ObjectEvidence attrs) order expected v4 =
    Inr (if forbidden_attrs m then Some (fp_deny DENY_AUTHORITY_BYPASS (reason_value DENY_AUTHORITY_INVALID) gate order
         [''HIDDEN_AUTHORITY_BYPASS:'' @ gate])
     else if \<not> pr_accepted_as_evidence r then Some (fp_deny DENY_EVIDENCE_REJECTED
         (reason_value (first_reason (ObjectEvidence attrs) DENY_POLICY)) gate order
         (dominant_reasons (ObjectEvidence attrs) DENY_POLICY))
     else if dget_default m ''handoff_allowed'' (PBool False) \<noteq> PBool True then Some (fp_deny DENY_HANDOFF_BLOCKED
         (reason_value (first_reason (ObjectEvidence attrs) DENY_POLICY)) gate order
         (dominant_reasons (ObjectEvidence attrs) DENY_POLICY))
     else if dget_default m ''context_hash'' PNone \<noteq> PStr expected then Some (fp_deny DENY_CONTEXT_MISMATCH
         (reason_value EQC_CONFLICTING_EVIDENCE) gate order [''CONTEXT_MISMATCH:'' @ gate])
     else if indicates_human_review (ObjectEvidence attrs) then Some (fp_human_review
         (reason_value (first_reason (ObjectEvidence attrs) DENY_AUTHORITY_INSUFFICIENT)) gate order
         (dominant_reasons (ObjectEvidence attrs) DENY_AUTHORITY_INSUFFICIENT))
     else None)"
  using assms by (simp add: evaluate_evidence_gate_def result_attrs_plain)

lemma no_human_review:
  assumes "st (pr_state r) \<noteq> ''HUMAN_REVIEW_REQUIRED''" "pr_outcome r \<noteq> ''HUMAN_REVIEW_REQUIRED''"
    and "dget_default m ''final_outcome'' PNone = PNone" "attrs = result_attrs st r @ m"
  shows "\<not> indicates_human_review (ObjectEvidence attrs)"
  using assms by (simp add: indicates_human_review_def)

section \<open>WSQK and Q-ID results\<close>

text \<open>
  A normalised WSQK result never passes the final engine, not even an accepted one: its
  attribute \<open>authority\<close> holds the authority, and \<open>authority\<close> is one of the keys the engine takes
  for a hidden authority signal.
\<close>

theorem wsqk_evidence_is_always_stopped:
  "case normalize_wsqk_v2_policy_evidence v wallet_id action context_hash of
     Inl _ \<Rightarrow> True
   | Inr r \<Rightarrow> \<exists>f. evaluate_evidence_gate ''wsqk_v2'' (ObjectEvidence (wsqk_result_attrs r)) order context_hash v4
         = Inr (Some f) \<and> fp_outcome f = ''DENY'' \<and>
       fp_state f = (if wr_authority r = None then DENY_EVIDENCE_REJECTED else DENY_AUTHORITY_BYPASS) \<and>
       (wr_authority r = None \<and> pr_accepted_as_evidence r) = False"
proof (cases "normalize_wsqk_v2_policy_evidence v wallet_id action context_hash")
  case (Inr r)
  have fin: "\<not> pr_final_approval r" using wsqk_evidence.never_final[of "(v, wallet_id, action, context_hash)" r] Inr by simp
  have acc: "pr_accepted_as_evidence r \<Longrightarrow> wr_authority r \<noteq> None"
    using accepted_wsqk_authority[OF Inr] by auto
  obtain m where m: "wsqk_result_attrs r = result_attrs wsqk_state_value r @ m"
    "forbidden_attrs m = (wr_authority r \<noteq> None)"
  proof
    show "wsqk_result_attrs r = result_attrs wsqk_state_value r @ drop 7 (wsqk_result_attrs r)"
      by (simp add: wsqk_result_attrs_def result_attrs_def)
    show "forbidden_attrs (drop 7 (wsqk_result_attrs r)) = (wr_authority r \<noteq> None)"
      by (auto simp: wsqk_result_attrs_def result_attrs_def FORBIDDEN_AUTHORITY_KEYS_def truthy_text opt_object_def
          ALLOWED_NORMALIZED_AUTHORITY_FIELDS_def truthy_authority_value_def py_in_def num_eq_def num_ratio_def
          split: option.splits)
  qed
  show ?thesis using Inr acc m(2) gate_of_result[OF fin _ m(1), of "''wsqk_v2''" order context_hash v4]
    by (auto simp: fp_deny_def)
qed simp

text \<open>
  The Q-ID boundary answers (unless a time has too many digits to print), and the final engine stops
  every answer: an accepted one has the handoff flag but no attribute \<open>context_hash\<close>, so the engine
  sees a context mismatch.
\<close>

theorem qid_evidence_is_always_stopped:
  "normalize_qid_policy_binding v now w sub n qp ctx dev fresh = Inl (ValueError int_too_long) \<or>
   (\<exists>r f. normalize_qid_policy_binding v now w sub n qp ctx dev fresh = Inr r \<and>
     evaluate_evidence_gate ''qid'' (ObjectEvidence (qid_result_attrs r)) order expected v4 = Inr (Some f) \<and>
     fp_outcome f = ''DENY'' \<and>
     fp_state f = (if pr_accepted_as_evidence r then DENY_CONTEXT_MISMATCH else DENY_EVIDENCE_REJECTED))"
proof (cases "normalize_qid_policy_binding v now w sub n qp ctx dev fresh")
  case (Inl e)
  then show ?thesis using normalize_qid_cases[of v now w sub n qp ctx dev fresh] by auto
next
  case (Inr r)
  then have r: "normalize_qid_policy_binding v now w sub n qp ctx dev fresh = Inr r"
    "denies_with r \<or> accepts_with r \<and> qid_accepts v now w sub n qp ctx dev fresh r"
    using normalize_qid_cases[of v now w sub n qp ctx dev fresh] by auto
  have fin: "\<not> pr_final_approval r" using r(2) by (auto simp: denies_with_def accepts_with_def)
  have acc: "pr_accepted_as_evidence r \<Longrightarrow> qb_handoff_allowed r" using r(2) by (auto simp: denies_with_def qid_accepts_def)
  let ?m = "drop 7 (qid_result_attrs r)"
  have m: "qid_result_attrs r = result_attrs qid_state_value r @ ?m" by (simp add: qid_result_attrs_def result_attrs_def)
  have plain: "\<not> forbidden_attrs ?m"
    by (simp add: qid_result_attrs_def result_attrs_def FORBIDDEN_AUTHORITY_KEYS_def ALLOWED_NORMALIZED_AUTHORITY_FIELDS_def)
  have h: "dget_default ?m ''handoff_allowed'' (PBool False) = PBool (qb_handoff_allowed r)"
    "dget_default ?m ''context_hash'' PNone = PNone"
    by (simp_all add: qid_result_attrs_def result_attrs_def dget_default_def)
  show ?thesis using r(1) gate_of_result[OF fin _ m, of "''qid''" order expected v4] plain h acc
    by (auto simp: fp_deny_def)
qed

section \<open>Adaptive Core and AI gateway results\<close>

text \<open>
  Whatever Adaptive Core sends, its normalised result passes the gate of the final engine
  exactly when the boundary accepted it: the result carries the handoff flag and the expected
  context hash, and nothing in it looks like authority.
\<close>

theorem adaptive_core_gate_iff_accepted:
  "case normalize_adaptive_core_policy_evidence v now expected reason_map registry policy prior of
     Inl _ \<Rightarrow> True
   | Inr r \<Rightarrow> (evaluate_evidence_gate ''adaptive_core'' (ObjectEvidence (ac_result_attrs r)) order expected v4 = Inr None)
       = pr_accepted_as_evidence r"
proof (cases "normalize_adaptive_core_policy_evidence v now expected reason_map registry policy prior")
  case (Inr r)
  note c = normalize_adaptive_core_cases[OF Inr]
  have fin: "\<not> pr_final_approval r" using c by (auto simp: denies_with_def accepts_with_def)
  let ?m = "drop 7 (ac_result_attrs r)"
  have m: "ac_result_attrs r = result_attrs ac_state_value r @ ?m" by (simp add: ac_result_attrs_def result_attrs_def)
  have plain: "\<not> forbidden_attrs ?m"
    by (simp add: ac_result_attrs_def result_attrs_def FORBIDDEN_AUTHORITY_KEYS_def ALLOWED_NORMALIZED_AUTHORITY_FIELDS_def)
  have h: "dget_default ?m ''handoff_allowed'' (PBool False) = PBool (ar_handoff_allowed r)"
    "dget_default ?m ''context_hash'' PNone = opt_text (ar_context_hash r)" "dget_default ?m ''final_outcome'' PNone = PNone"
    by (simp_all add: ac_result_attrs_def result_attrs_def dget_default_def)
  have acc: "pr_accepted_as_evidence r \<Longrightarrow> ar_handoff_allowed r \<and> ar_context_hash r = Some expected \<and>
      pr_outcome r = ''ALLOW_EVIDENCE''"
    using c by (auto simp: denies_with_def accepts_with_def ac_accepts_def)
  have st: "ac_state_value s \<noteq> ''HUMAN_REVIEW_REQUIRED''" for s by (cases s) simp_all
  have "pr_accepted_as_evidence r \<Longrightarrow> \<not> indicates_human_review (ObjectEvidence (ac_result_attrs r))"
    using acc st by (intro no_human_review[OF _ _ h(3) m]) auto
  then have g: "pr_accepted_as_evidence r \<Longrightarrow>
      evaluate_evidence_gate ''adaptive_core'' (ObjectEvidence (ac_result_attrs r)) order expected v4 = Inr None"
    using acc plain h(1,2) gate_of_result[OF fin _ m, of "''adaptive_core''" order expected v4] by (simp add: opt_text_def)
  have "\<not> pr_accepted_as_evidence r \<Longrightarrow>
      \<exists>f. evaluate_evidence_gate ''adaptive_core'' (ObjectEvidence (ac_result_attrs r)) order expected v4 = Inr (Some f)"
    using ac_evidence.denied_is_stopped[of "(v, now, expected, reason_map, registry, policy, prior)" r "''adaptive_core''"
      order expected v4, unfolded prod.case, OF Inr] by blast
  then show ?thesis unfolding Inr sum.case using g by fastforce
qed simp

lemma str_values_plain: "list_all (\<lambda>(k, v). k \<notin> set FORBIDDEN_AUTHORITY_KEYS \<and> is_str v) m \<Longrightarrow> \<not> contains_forbidden_items m"
proof (induction m)
  case (Cons e m)
  obtain k v where e: "e = (k, v)" by (cases e)
  then show ?case using Cons by (cases v) (auto simp: is_str_def)
qed simp

lemma strs_by_key:
  assumes "distinct (dkeys m)" "list_all (\<lambda>k. k \<notin> set FORBIDDEN_AUTHORITY_KEYS \<and> is_str (dget m k)) ks" "set (dkeys m) \<subseteq> set ks"
  shows "\<not> contains_forbidden (PDict m)"
proof -
  have "k \<notin> set FORBIDDEN_AUTHORITY_KEYS \<and> is_str v" if "(k, v) \<in> set m" for k v
  proof -
    have "k \<in> set ks" using that assms(3) by (force simp: dkeys_def)
    moreover have "dget m k = v" using that assms(1) by (simp add: dget_def dkeys_def)
    ultimately show ?thesis using assms(2) by (auto simp: list_all_iff)
  qed
  then have "list_all (\<lambda>(k, v). k \<notin> set FORBIDDEN_AUTHORITY_KEYS \<and> is_str v) m" by (auto simp: list_all_iff)
  then show ?thesis using str_values_plain by simp
qed

lemma handoff_plain:
  assumes "handoff_ok expected h" "distinct (dkeys h)"
  shows "\<not> contains_forbidden (PDict h)"
  using assms(1) by (intro strs_by_key[OF assms(2), of HANDOFF_FIELDS])
    (auto simp: handoff_ok_def HANDOFF_FIELDS_def FORBIDDEN_AUTHORITY_KEYS_def is_str_def is_non_empty_string_ok
      is_sha256_hex_val_ok)

lemma receipt_plain:
  assumes "receipt_ok c" "distinct (dkeys c)"
  shows "\<not> contains_forbidden (PDict c)"
  using assms(1) by (intro strs_by_key[OF assms(2), of RECEIPT_FIELDS])
    (auto simp: receipt_ok_def RECEIPT_FIELDS_def FORBIDDEN_AUTHORITY_KEYS_def is_str_def is_non_empty_string_ok
      is_sha256_hex_val_ok)

lemma ai_gateway_gate_accepted:
  assumes "normalize_ai_gateway_policy_evidence handoff receipt expected prior = Inr r" "pr_accepted_as_evidence r"
    and "dict_ok handoff" "dict_ok receipt"
  shows "evaluate_evidence_gate ''ai_gateway'' (ObjectEvidence (ag_result_attrs r)) order expected v4 = Inr None"
proof -
  obtain h c where hc: "handoff = PDict h" "receipt = PDict c" "handoff_ok expected h" "receipt_ok c"
    "r = check_artifacts h c" and a: "accepts_with r"
    using normalize_ai_gateway_cases[OF assms(1)] assms(2) by (auto simp: denies_with_def)
  have f: "gr_handoff r = Some h" "gr_receipt r = Some c" "gr_handoff_allowed r" "gr_context_hash r = Some expected"
    using check_artifacts_cases[of h c] a hc by (auto simp: denies_with_def accepts_with_def handoff_ok_def)
  have fin: "\<not> pr_final_approval r" using a by (simp add: accepts_with_def)
  let ?m = "drop 7 (ag_result_attrs r)"
  have m: "ag_result_attrs r = result_attrs ag_state_value r @ ?m" by (simp add: ag_result_attrs_def result_attrs_def)
  have "\<not> contains_forbidden (PDict h)" "\<not> contains_forbidden (PDict c)"
    using handoff_plain[OF hc(3)] receipt_plain[OF hc(4)] assms(3,4) hc(1,2) by (auto simp: dkeys_def)
  then have plain: "\<not> forbidden_attrs ?m"
    by (simp add: ag_result_attrs_def result_attrs_def FORBIDDEN_AUTHORITY_KEYS_def opt_map_def f
        ALLOWED_NORMALIZED_AUTHORITY_FIELDS_def)
  have h: "dget_default ?m ''handoff_allowed'' (PBool False) = PBool True"
    "dget_default ?m ''context_hash'' PNone = PStr expected" "dget_default ?m ''final_outcome'' PNone = PNone"
    by (simp_all add: ag_result_attrs_def result_attrs_def dget_default_def f opt_text_def)
  have st: "ag_state_value s \<noteq> ''HUMAN_REVIEW_REQUIRED''" for s by (cases s) simp_all
  have "\<not> indicates_human_review (ObjectEvidence (ag_result_attrs r))"
    using a st by (intro no_human_review[OF _ _ h(3) m]) (auto simp: accepts_with_def)
  then show ?thesis using plain h assms(2) gate_of_result[OF fin _ m, of "''ai_gateway''" order expected v4] by simp
qed

text \<open>
  C26: An AI gateway handoff and receipt, as the dictionaries they are, pass the gate of the final
  engine exactly when the boundary accepted them.
\<close>

theorem ai_gateway_gate_iff_accepted:
  assumes "normalize_ai_gateway_policy_evidence handoff receipt expected prior = Inr r"
    and "dict_ok handoff" "dict_ok receipt"
  shows "(evaluate_evidence_gate ''ai_gateway'' (ObjectEvidence (ag_result_attrs r)) order expected v4 = Inr None)
    = pr_accepted_as_evidence r"
  using ai_gateway_gate_accepted[OF assms(1) _ assms(2,3)] assms(1)
    ag_evidence.denied_is_stopped[of "(handoff, receipt, expected, prior)" r "''ai_gateway''" order expected v4,
      unfolded prod.case, OF assms(1)]
  by (metis option.distinct(1) sum.inject(2))

definition demo_handoff :: pydict where
  "demo_handoff = (let h = replicate 64 CHR ''a'' in
     [(''handoff_version'', PStr ''ai_gateway_handoff_v1''), (''adapter'', PStr ''a''), (''task_type'', PStr ''t''),
      (''policy_decision'', PStr ''accepted''), (''reason_id'', PStr ''ACCEPTED''), (''envelope_hash'', PStr h),
      (''output_hash'', PStr h), (''context_hash'', PStr h)])"

definition demo_gateway_receipt :: pydict where
  "demo_gateway_receipt = (let h = replicate 64 CHR ''a'' in
     [(''receipt_version'', PStr ''ai_gateway_receipt_v1''), (''gateway_version'', PStr ''1''), (''adapter_id'', PStr ''a''),
      (''adapter_version'', PStr ''1''), (''envelope_hash'', PStr h), (''output_hash'', PStr h),
      (''policy_decision'', PStr ''accepted''), (''reason_id'', PStr ''ACCEPTED''),
      (''created_from_contract'', PStr ''ai_gateway_output_v1''), (''determinism_profile'', PStr ''canonical_sha256_no_time_v1'')])"

theorem ai_gateway_gate_iff_accepted_witness:
  "\<exists>r. normalize_ai_gateway_policy_evidence (PDict demo_handoff) (PDict demo_gateway_receipt) (replicate 64 CHR ''a'') None
       = Inr r \<and> pr_accepted_as_evidence r \<and>
     evaluate_evidence_gate ''ai_gateway'' (ObjectEvidence (ag_result_attrs r)) [] (replicate 64 CHR ''a'') False = Inr None"
proof -
  let ?n = "normalize_ai_gateway_policy_evidence (PDict demo_handoff) (PDict demo_gateway_receipt) (replicate 64 CHR ''a'') None"
  have "case ?n of Inl _ \<Rightarrow> False | Inr r \<Rightarrow> pr_accepted_as_evidence r" by code_simp
  then obtain r where r: "?n = Inr r" "pr_accepted_as_evidence r" by (auto split: sum.splits)
  have d: "dict_ok (PDict demo_handoff)" "dict_ok (PDict demo_gateway_receipt)" by code_simp+
  show ?thesis using ai_gateway_gate_iff_accepted[OF r(1) d, of "[]" False] r by blast
qed

section \<open>Policy-bound AI gateway results\<close>

text \<open>
  The final engine stops every result of the policy-bound consumer, also an accepted one: the
  result class has no attribute \<open>handoff_allowed\<close>, so an accepted result is answered with a
  blocked handoff.
\<close>

theorem policy_bound_evidence_is_always_stopped:
  "case consume_ai_gateway_policy_bound_evidence_v2 limit raw ctx policy prior of
     None \<Rightarrow> True
   | Some r \<Rightarrow> \<exists>f. evaluate_evidence_gate ''ai_gateway'' (ObjectEvidence (pb_result_attrs r)) order expected v4
         = Inr (Some f) \<and> fp_outcome f = ''DENY'' \<and>
       fp_state f = (if pr_accepted_as_evidence r then DENY_HANDOFF_BLOCKED else DENY_EVIDENCE_REJECTED)"
proof (cases "consume_ai_gateway_policy_bound_evidence_v2 limit raw ctx policy prior")
  case (Some r)
  have fin: "\<not> pr_final_approval r"
    using pb_evidence.never_final[of "(limit, raw, ctx, policy, prior)" r] Some by simp
  let ?m = "drop 7 (pb_result_attrs r)"
  have m: "pb_result_attrs r = result_attrs pb_state_value r @ ?m" by (simp add: pb_result_attrs_def result_attrs_def)
  have plain: "\<not> forbidden_attrs ?m"
    by (simp add: pb_result_attrs_def result_attrs_def FORBIDDEN_AUTHORITY_KEYS_def ALLOWED_NORMALIZED_AUTHORITY_FIELDS_def)
  have h: "dget_default ?m ''handoff_allowed'' (PBool False) = PBool False"
    by (simp add: pb_result_attrs_def result_attrs_def dget_default_def)
  show ?thesis using Some gate_of_result[OF fin _ m, of "''ai_gateway''" order expected v4] plain h by (auto simp: fp_deny_def)
qed simp

end
