(* ===== verification/Upgrade_Gateway.thy ===== *)
theory Upgrade_Gateway
  imports Py_Convert Iso_Time
begin

text \<open>
  \<open>src/adamantine/v1/integrations/adaptive_core_upgrade_gateway_v1.py\<close>: an upgrade proposal and the
  receipt of its review are each validated and brought to a canonical form, whose hash they must
  carry; the gateway lets an upgrade through only with a receipt that approves exactly this
  proposal. \<open>load_json_file\<close> reads a file and is left out.
\<close>

section \<open>Constants and helpers\<close>

definition ALLOWED_ROOT_KEYS :: "string list" where
  "ALLOWED_ROOT_KEYS = [''v'', ''proposal_id'', ''target'', ''created_utc'', ''summary'', ''domain'', ''action'',
     ''changes'', ''evidence'', ''guardrails'', ''guardrails_ref'', ''proposal_hash'']"

definition ALLOWED_TARGET_KEYS :: "string list" where
  "ALLOWED_TARGET_KEYS = [''component'', ''version'']"

definition ALLOWED_CHANGE_KEYS :: "string list" where
  "ALLOWED_CHANGE_KEYS = [''change_id'', ''type'', ''detail'']"

definition ALLOWED_CHANGE_TYPES :: "string list" where
  "ALLOWED_CHANGE_TYPES = [''add'', ''modify'', ''deprecate'', ''remove'']"

definition ALLOWED_DOMAINS :: "string list" where
  "ALLOWED_DOMAINS = [''SECURITY_THRESHOLDS'', ''BEHAVIOR_FLAGS'', ''POLICY_LIMITS'', ''RISK_RULES'']"

definition ALLOWED_ACTIONS :: "string list" where
  "ALLOWED_ACTIONS = [''INCREASE_THRESHOLD'', ''DECREASE_THRESHOLD'', ''ADD_RULE'', ''REMOVE_RULE'', ''MODIFY_RULE'']"

datatype receipt_decision = RD_APPROVE | RD_DENY

primrec decision_value :: "receipt_decision \<Rightarrow> string" where
  "decision_value RD_APPROVE = ''APPROVE''"
| "decision_value RD_DENY = ''DENY''"

text \<open>\<open>ReceiptDecision(s)\<close>.\<close>

definition receipt_decision_of :: "string \<Rightarrow> pyexc + receipt_decision" where
  "receipt_decision_of s = (if s = ''APPROVE'' then Inr RD_APPROVE else if s = ''DENY'' then Inr RD_DENY
     else Inl (ValueError (repr_str s @ '' is not a valid ReceiptDecision'')))"

definition upgrade_canonical_bytes :: "pydict \<Rightarrow> pyexc + nat list" where
  "upgrade_canonical_bytes m = bind_r (json_dumps False True (PDict m)) (\<lambda>s. Inr (utf8 s))"

definition compute_upgrade_proposal_hash :: "pydict \<Rightarrow> pyexc + string" where
  "compute_upgrade_proposal_hash m = bind_r (upgrade_canonical_bytes m) (\<lambda>b. Inr (sha256_hex b))"

definition compute_review_receipt_hash :: "pydict \<Rightarrow> pyexc + string" where
  "compute_review_receipt_hash m = bind_r (upgrade_canonical_bytes m) (\<lambda>b. Inr (sha256_hex b))"

definition require_str :: "pydict \<Rightarrow> string \<Rightarrow> pyexc + string" where
  "require_str m k = (case map_of m k of
     None \<Rightarrow> Inl (ValueError (''missing '' @ repr_str k))
   | Some (PStr s) \<Rightarrow> if py_blank s then Inl (ValueError (repr_str k @ '' must be non-empty str'')) else Inr (py_strip s)
   | Some _ \<Rightarrow> Inl (ValueError (repr_str k @ '' must be non-empty str'')))"

definition require_exact_keys :: "pydict \<Rightarrow> string list \<Rightarrow> string \<Rightarrow> pyexc + unit" where
  "require_exact_keys m allowed ctx = check_r (unknown_keys m allowed = [])
     (ValueError (''unknown keys in '' @ ctx @ '': '' @ repr_str_list (unknown_keys m allowed)))"

definition require_timestamp_z :: "string \<Rightarrow> string \<Rightarrow> pyexc + string" where
  "require_timestamp_z s k =
    (if s = [] \<or> last s \<noteq> CHR ''Z'' then Inl (ValueError (k @ '' must end with '' @ repr_str ''Z''))
     else if fromisoformat (butlast s) = None then Inl (ValueError (k @ '' invalid ISO8601 timestamp''))
     else Inr s)"

definition guardrail_id :: "pyval \<Rightarrow> pyexc + string" where
  "guardrail_id g = (case g of
     PStr s \<Rightarrow> if py_blank s then Inl (ValueError ''guardrail ids must be non-empty str'') else Inr (py_strip s)
   | _ \<Rightarrow> Inl (ValueError ''guardrail ids must be non-empty str''))"

definition canon_guardrails :: "pyval \<Rightarrow> pyval \<Rightarrow> pyexc + string list \<times> string" where
  "canon_guardrails guardrails guardrails_ref =
     bind_r (case guardrails of PNone \<Rightarrow> Inr [] | PList gs \<Rightarrow> map_r guardrail_id gs
       | _ \<Rightarrow> Inl (ValueError (repr_str ''guardrails'' @ '' must be list[str]''))) (\<lambda>gids.
     bind_r (case guardrails_ref of PNone \<Rightarrow> Inr [] | PStr s \<Rightarrow> Inr (py_strip s)
       | _ \<Rightarrow> Inl (ValueError (repr_str ''guardrails_ref'' @ '' must be str if present''))) (\<lambda>ref.
     Inr (sorted_strs gids, ref)))"

text \<open>A canonical form and the hash computed of it without its own hash field.\<close>

record upgrade_validation =
  uv_canonical :: pydict
  uv_computed_hash :: string

definition without_key :: "pydict \<Rightarrow> string \<Rightarrow> pydict" where
  "without_key m k = filter (\<lambda>(k', _). k' \<noteq> k) m"

section \<open>The proposal\<close>

record upgrade_change =
  uc_change_id :: string
  uc_type :: string
  uc_detail :: string

definition change_val :: "upgrade_change \<Rightarrow> pyval" where
  "change_val c = PDict [(''change_id'', PStr (uc_change_id c)), (''type'', PStr (uc_type c)),
     (''detail'', PStr (uc_detail c))]"

fun canon_changes :: "string set \<Rightarrow> pyval list \<Rightarrow> pyexc + upgrade_change list" where
  "canon_changes seen [] = Inr []"
| "canon_changes seen (item # items) =
     bind_r (need_map item (ValueError ''change entry must be object'')) (\<lambda>m.
     bind_r (require_exact_keys m ALLOWED_CHANGE_KEYS ''change'') (\<lambda>_.
     bind_r (require_str m ''change_id'') (\<lambda>cid.
     bind_r (require_str m ''type'') (\<lambda>ctype.
     bind_r (require_str m ''detail'') (\<lambda>detail.
     if ctype \<notin> set ALLOWED_CHANGE_TYPES then Inl (ValueError (''bad change.type '' @ repr_str ctype))
     else if cid \<in> seen then Inl (ValueError (''duplicate change_id '' @ repr_str cid))
     else bind_r (canon_changes (insert cid seen) items) (\<lambda>cs.
       Inr (\<lparr>uc_change_id = cid, uc_type = ctype, uc_detail = detail\<rparr> # cs)))))))"

definition proposal_canonical :: "string \<Rightarrow> string \<Rightarrow> string \<Rightarrow> string \<Rightarrow> string \<Rightarrow> string \<Rightarrow> string \<Rightarrow> string
    \<Rightarrow> upgrade_change list \<Rightarrow> pydict \<Rightarrow> string list \<Rightarrow> string \<Rightarrow> string \<Rightarrow> pydict" where
  "proposal_canonical v proposal_id component version created_utc summary domain action changes evidence gids gref
     proposal_hash =
     [(''v'', PStr v), (''proposal_id'', PStr proposal_id),
      (''target'', PDict [(''component'', PStr component), (''version'', PStr version)]),
      (''created_utc'', PStr created_utc), (''summary'', PStr summary), (''domain'', PStr domain),
      (''action'', PStr action), (''changes'', PList (map change_val (sort_key uc_change_id changes))),
      (''evidence'', PDict evidence), (''guardrails'', PList (map PStr gids)), (''guardrails_ref'', PStr gref),
      (''proposal_hash'', PStr proposal_hash)]"

definition validate_upgrade_proposal :: "pyval \<Rightarrow> pyexc + upgrade_validation" where
  "validate_upgrade_proposal raw =
     bind_r (need_map raw (ValueError ''proposal must be an object'')) (\<lambda>m.
     bind_r (require_exact_keys m ALLOWED_ROOT_KEYS ''proposal'') (\<lambda>_.
     bind_r (require_str m ''v'') (\<lambda>v.
     if v \<noteq> ''upgrade_proposal_v3'' then Inl (ValueError (''bad '' @ repr_str ''v'')) else
     bind_r (require_str m ''proposal_id'') (\<lambda>proposal_id.
     if CHR '' '' \<in> set proposal_id then Inl (ValueError ''proposal_id must not contain spaces'') else
     bind_r (bind_r (require_str m ''created_utc'') (\<lambda>s. require_timestamp_z s ''created_utc'')) (\<lambda>created_utc.
     bind_r (require_str m ''summary'') (\<lambda>summary.
     bind_r (require_str m ''domain'') (\<lambda>domain.
     if domain \<notin> set ALLOWED_DOMAINS then Inl (ValueError (''bad domain '' @ repr_str domain)) else
     bind_r (require_str m ''action'') (\<lambda>action.
     if action \<notin> set ALLOWED_ACTIONS then Inl (ValueError (''bad action '' @ repr_str action)) else
     bind_r (need_map (dget m ''target'') (ValueError (repr_str ''target'' @ '' must be object''))) (\<lambda>target.
     bind_r (require_exact_keys target ALLOWED_TARGET_KEYS ''target'') (\<lambda>_.
     bind_r (require_str target ''component'') (\<lambda>component.
     bind_r (require_str target ''version'') (\<lambda>version.
     bind_r (need_list (dget m ''changes'') (ValueError (repr_str ''changes'' @ '' must be non-empty list''))) (\<lambda>items.
     if items = [] then Inl (ValueError (repr_str ''changes'' @ '' must be non-empty list'')) else
     bind_r (canon_changes {} items) (\<lambda>changes.
     bind_r (case dget m ''evidence'' of PNone \<Rightarrow> Inr [] | PDict e \<Rightarrow> Inr e
       | _ \<Rightarrow> Inl (ValueError (repr_str ''evidence'' @ '' must be object''))) (\<lambda>evidence.
     bind_r (canon_guardrails (dget m ''guardrails'') (dget m ''guardrails_ref'')) (\<lambda>(gids, gref).
     bind_r (require_str m ''proposal_hash'') (\<lambda>proposal_hash.
     if \<not> is_sha256_hex proposal_hash then Inl (ValueError ''proposal_hash must be 64 lowercase hex chars'') else
     let canonical = proposal_canonical v proposal_id component version created_utc summary domain action changes
       evidence gids gref proposal_hash in
     bind_r (compute_upgrade_proposal_hash (without_key canonical ''proposal_hash'')) (\<lambda>computed.
     if proposal_hash \<noteq> computed
       then Inl (ValueError (''proposal_hash mismatch: expected '' @ computed @ '' got '' @ proposal_hash))
     else Inr \<lparr>uv_canonical = canonical, uv_computed_hash = computed\<rparr>))))))))))))))))))"

section \<open>The review receipt\<close>

definition REVIEW_RECEIPT_KEYS :: "string list" where
  "REVIEW_RECEIPT_KEYS = [''v'', ''proposal_id'', ''proposal_hash'', ''decision'', ''reviewer_id'', ''reviewed_utc'',
     ''notes'', ''consequence_simulation'', ''receipt_hash'']"

definition receipt_fields :: "string \<Rightarrow> string \<Rightarrow> receipt_decision \<Rightarrow> string \<Rightarrow> string \<Rightarrow> string \<Rightarrow> pydict \<Rightarrow> string
    \<Rightarrow> pydict" where
  "receipt_fields proposal_id proposal_hash decision reviewer_id reviewed_utc notes simulation receipt_hash =
     [(''v'', PStr ''ac_review_receipt_v1''), (''proposal_id'', PStr proposal_id),
      (''proposal_hash'', PStr proposal_hash), (''decision'', PStr (decision_value decision)),
      (''reviewer_id'', PStr reviewer_id), (''reviewed_utc'', PStr reviewed_utc), (''notes'', PStr notes),
      (''consequence_simulation'', PDict simulation), (''receipt_hash'', PStr receipt_hash)]"

definition build_review_receipt_v1 :: "string \<Rightarrow> string \<Rightarrow> receipt_decision \<Rightarrow> string \<Rightarrow> string \<Rightarrow> string
    \<Rightarrow> pydict option \<Rightarrow> pyexc + pydict" where
  "build_review_receipt_v1 proposal_id proposal_hash decision reviewer_id reviewed_utc notes simulation =
    (let base = receipt_fields proposal_id proposal_hash decision reviewer_id reviewed_utc notes
       (case simulation of Some s \<Rightarrow> s | None \<Rightarrow> []) [] in
     bind_r (compute_review_receipt_hash (without_key base ''receipt_hash'')) (\<lambda>h.
     Inr (dset base ''receipt_hash'' (PStr h))))"

definition validate_review_receipt :: "pyval \<Rightarrow> pyexc + upgrade_validation" where
  "validate_review_receipt raw =
     bind_r (need_map raw (ValueError ''receipt must be object'')) (\<lambda>m.
     bind_r (require_exact_keys m REVIEW_RECEIPT_KEYS ''receipt'') (\<lambda>_.
     bind_r (require_str m ''v'') (\<lambda>v.
     if v \<noteq> ''ac_review_receipt_v1'' then Inl (ValueError ''bad receipt v'') else
     bind_r (require_str m ''proposal_id'') (\<lambda>proposal_id.
     bind_r (require_str m ''proposal_hash'') (\<lambda>proposal_hash.
     if \<not> is_sha256_hex proposal_hash then Inl (ValueError ''bad proposal_hash'') else
     bind_r (require_str m ''decision'') (\<lambda>decision_s.
     bind_r (catch_r (receipt_decision_of decision_s) (\<lambda>_. Inl (ValueError ''bad decision''))) (\<lambda>decision.
     bind_r (require_str m ''reviewer_id'') (\<lambda>reviewer_id.
     bind_r (bind_r (require_str m ''reviewed_utc'') (\<lambda>s. require_timestamp_z s ''reviewed_utc'')) (\<lambda>reviewed_utc.
     bind_r (require_str m ''notes'') (\<lambda>notes.
     bind_r (case dget m ''consequence_simulation'' of PNone \<Rightarrow> Inr [] | PDict s \<Rightarrow> Inr s
       | _ \<Rightarrow> Inl (ValueError ''consequence_simulation must be object'')) (\<lambda>simulation.
     bind_r (require_str m ''receipt_hash'') (\<lambda>receipt_hash.
     if \<not> is_sha256_hex receipt_hash then Inl (ValueError ''bad receipt_hash format'') else
     let canonical = receipt_fields proposal_id proposal_hash decision reviewer_id reviewed_utc notes simulation
       receipt_hash in
     bind_r (compute_review_receipt_hash (without_key canonical ''receipt_hash'')) (\<lambda>computed.
     if receipt_hash \<noteq> computed
       then Inl (ValueError (''receipt_hash mismatch: expected '' @ computed @ '' got '' @ receipt_hash))
     else Inr \<lparr>uv_canonical = canonical, uv_computed_hash = computed\<rparr>)))))))))))))"

definition build_review_receipt :: "pyval \<Rightarrow> string \<Rightarrow> string \<Rightarrow> string \<Rightarrow> pydict option \<Rightarrow> pyexc + pydict" where
  "build_review_receipt proposal decision reviewer_id notes simulation =
     bind_r (validate_upgrade_proposal proposal) (\<lambda>pv.
     bind_r (receipt_decision_of decision) (\<lambda>dec.
     build_review_receipt_v1 (py_str (dget (uv_canonical pv) ''proposal_id'')) (uv_computed_hash pv) dec reviewer_id
       (py_str (dget (uv_canonical pv) ''created_utc'')) notes simulation))"

section \<open>The gateway\<close>

record upgrade_decision =
  ud_allow :: bool
  ud_reason_id :: string
  ud_proposal_hash :: string
  ud_receipt_hash :: string

definition evaluate_upgrade_request_v1 :: "pyval \<Rightarrow> pyval \<Rightarrow> bool \<Rightarrow> pyexc + upgrade_decision" where
  "evaluate_upgrade_request_v1 proposal review_receipt require_receipt =
    (let decided = (\<lambda>allow reason ph rh.
       Inr \<lparr>ud_allow = allow, ud_reason_id = reason, ud_proposal_hash = ph, ud_receipt_hash = rh\<rparr>) in
     case validate_upgrade_proposal proposal of
       Inl e \<Rightarrow> if is_value_error e then decided False ''UPGRADE_PROPOSAL_INVALID'' [] [] else Inl e
     | Inr pv \<Rightarrow>
       let proposal_id = py_str (dget (uv_canonical pv) ''proposal_id''); ph = uv_computed_hash pv in
       if require_receipt \<and> review_receipt = PNone then decided False ''REVIEW_RECEIPT_MISSING'' ph []
       else if review_receipt = PNone then decided True ''UPGRADE_APPROVED_NO_RECEIPT'' ph []
       else (case validate_review_receipt review_receipt of
           Inl e \<Rightarrow> if is_value_error e then decided False ''REVIEW_RECEIPT_INVALID'' ph [] else Inl e
         | Inr rv \<Rightarrow>
           let receipt = uv_canonical rv; rh = uv_computed_hash rv;
               decision = py_str (dget receipt ''decision'') in
           if py_str (dget receipt ''proposal_id'') \<noteq> proposal_id then decided False ''REVIEW_RECEIPT_MISMATCH'' ph rh
           else if py_str (dget receipt ''proposal_hash'') \<noteq> ph then decided False ''REVIEW_RECEIPT_MISMATCH'' ph rh
           else if decision = ''DENY'' then decided False ''REVIEW_RECEIPT_DENY'' ph rh
           else if decision = ''APPROVE'' then decided True ''REVIEW_RECEIPT_APPROVE'' ph rh
           else decided False ''REVIEW_DECISION_INVALID'' ph rh))"

section \<open>Canonical forms\<close>

definition stripped :: "string \<Rightarrow> bool" where
  "stripped s \<longleftrightarrow> \<not> py_blank s \<and> py_strip s = s"

lemma require_str_ok: "require_str m k = Inr s \<Longrightarrow> stripped s"
  by (auto simp: require_str_def stripped_def split: option.splits pyval.splits if_splits)

lemma require_str_stripped: "map_of m k = Some (PStr s) \<Longrightarrow> stripped s \<Longrightarrow> require_str m k = Inr s"
  by (simp add: require_str_def stripped_def)

lemma require_exact_keys_ok: "require_exact_keys m allowed ctx = Inr () \<longleftrightarrow> set (dkeys m) \<subseteq> set allowed"
  by (auto simp: require_exact_keys_def check_r_def unknown_keys_Nil split: if_splits)

definition timestamp_z :: "string \<Rightarrow> bool" where
  "timestamp_z s \<longleftrightarrow> s \<noteq> [] \<and> last s = CHR ''Z'' \<and> fromisoformat (butlast s) \<noteq> None"

lemma require_timestamp_z_ok: "require_timestamp_z s k = Inr t \<longleftrightarrow> t = s \<and> timestamp_z s"
  by (auto simp: require_timestamp_z_def timestamp_z_def)

text \<open>A dictionary argument that may be \<open>None\<close>.\<close>

lemma opt_dict_ok: "(case v of PNone \<Rightarrow> Inr [] | PDict e \<Rightarrow> Inr e | _ \<Rightarrow> Inl x) = Inr m \<longleftrightarrow>
    v = PNone \<and> m = [] \<or> v = PDict m"
  by (cases v) auto

subsection \<open>The receipt\<close>

definition receipt_wf :: "string \<Rightarrow> string \<Rightarrow> string \<Rightarrow> string \<Rightarrow> string \<Rightarrow> bool" where
  "receipt_wf proposal_id proposal_hash reviewer_id reviewed_utc notes \<longleftrightarrow> stripped proposal_id \<and>
     is_sha256_hex proposal_hash \<and> stripped reviewer_id \<and> stripped reviewed_utc \<and> timestamp_z reviewed_utc \<and>
     stripped notes"

lemma stripped_hex: "is_sha256_hex h \<Longrightarrow> stripped h"
proof -
  assume h: "is_sha256_hex h"
  have "\<not> py_isspace c" if "is_hex_lower c" for c
    using that by (auto simp: is_hex_lower_def py_isspace_def Let_def)
  then have "list_all (\<lambda>c. \<not> py_isspace c) h" "h \<noteq> []" using h by (auto simp: is_sha256_hex_def list_all_iff)
  then show "stripped h" using py_strip_id[of h] by (auto simp: stripped_def py_blank_def list_all_iff neq_Nil_conv)
qed

lemma validate_review_receipt_ok:
  assumes "validate_review_receipt raw = Inr rv"
  shows "\<exists>pid ph dec rid utc nts sim. receipt_wf pid ph rid utc nts \<and>
    rv = \<lparr>uv_canonical = receipt_fields pid ph dec rid utc nts sim (uv_computed_hash rv),
      uv_computed_hash = uv_computed_hash rv\<rparr> \<and>
    compute_review_receipt_hash (without_key (receipt_fields pid ph dec rid utc nts sim []) ''receipt_hash'')
      = Inr (uv_computed_hash rv)"
proof -
  have w: "without_key (receipt_fields pid ph dec rid utc nts sim h) ''receipt_hash'' =
      without_key (receipt_fields pid ph dec rid utc nts sim []) ''receipt_hash''" for pid ph dec rid utc nts sim h
    by (simp add: without_key_def receipt_fields_def)
  obtain pid ph dec rid utc nts sim h where
    f: "receipt_wf pid ph rid utc nts" "uv_computed_hash rv = h"
      "uv_canonical rv = receipt_fields pid ph dec rid utc nts sim h"
      "compute_review_receipt_hash (without_key (receipt_fields pid ph dec rid utc nts sim h) ''receipt_hash'') = Inr h"
    using assms unfolding validate_review_receipt_def receipt_wf_def
    by (auto simp: res_simps Let_def opt_dict_ok require_timestamp_z_ok) (blast dest: require_str_ok)+
  then show ?thesis using w[of pid ph dec rid utc nts sim h]
    by (intro exI[of _ pid] exI[of _ ph] exI[of _ dec] exI[of _ rid] exI[of _ utc] exI[of _ nts] exI[of _ sim]) simp
qed

lemma validate_receipt_fields:
  assumes "receipt_wf pid ph rid utc notes"
    and "compute_review_receipt_hash (without_key (receipt_fields pid ph dec rid utc notes sim []) ''receipt_hash'') = Inr h"
  shows "validate_review_receipt (PDict (receipt_fields pid ph dec rid utc notes sim h)) =
    Inr \<lparr>uv_canonical = receipt_fields pid ph dec rid utc notes sim h, uv_computed_hash = h\<rparr>"
proof -
  let ?m = "receipt_fields pid ph dec rid utc notes sim h"
  have w: "without_key ?m ''receipt_hash'' = without_key (receipt_fields pid ph dec rid utc notes sim []) ''receipt_hash''"
    by (simp add: without_key_def receipt_fields_def)
  have hex: "is_sha256_hex h" using assms(2) by (auto simp: compute_review_receipt_hash_def res_simps)
  have keys: "require_exact_keys ?m REVIEW_RECEIPT_KEYS ''receipt'' = Inr ()"
    by (simp add: require_exact_keys_ok REVIEW_RECEIPT_KEYS_def receipt_fields_def dkeys_def)
  have "stripped ''ac_review_receipt_v1''" "stripped ''APPROVE''" "stripped ''DENY''" by code_simp+
  then have lit: "stripped ''ac_review_receipt_v1''" "stripped (decision_value dec)" by (cases dec; simp)+
  have strs: "require_str ?m ''v'' = Inr ''ac_review_receipt_v1''" "require_str ?m ''proposal_id'' = Inr pid"
    "require_str ?m ''proposal_hash'' = Inr ph" "require_str ?m ''decision'' = Inr (decision_value dec)"
    "require_str ?m ''reviewer_id'' = Inr rid" "require_str ?m ''reviewed_utc'' = Inr utc"
    "require_str ?m ''notes'' = Inr notes" "require_str ?m ''receipt_hash'' = Inr h"
    using assms(1) lit stripped_hex[of ph] stripped_hex[OF hex]
    by (simp_all add: require_str_stripped receipt_wf_def receipt_fields_def)
  have dec: "receipt_decision_of (decision_value dec) = Inr dec"
    by (cases dec) (simp_all add: receipt_decision_of_def)
  have sim: "dget ?m ''consequence_simulation'' = PDict sim" by (simp add: receipt_fields_def)
  show ?thesis using assms hex
    by (simp add: validate_review_receipt_def keys strs dec sim w require_timestamp_z_def timestamp_z_def receipt_wf_def)
qed

subsection \<open>The proposal\<close>

definition change_wf :: "upgrade_change \<Rightarrow> bool" where
  "change_wf c \<longleftrightarrow> stripped (uc_change_id c) \<and> stripped (uc_detail c) \<and> uc_type c \<in> set ALLOWED_CHANGE_TYPES"

definition changes_wf :: "string set \<Rightarrow> upgrade_change list \<Rightarrow> bool" where
  "changes_wf seen cs \<longleftrightarrow> list_all change_wf cs \<and> distinct (map uc_change_id cs) \<and> uc_change_id ` set cs \<inter> seen = {}"

lemma canon_changes_ok: "canon_changes seen items = Inr cs \<Longrightarrow> changes_wf seen cs \<and> length cs = length items"
proof (induction items arbitrary: seen cs)
  case (Cons item items)
  then obtain cid ctype detail cs' where
    c: "cs = \<lparr>uc_change_id = cid, uc_type = ctype, uc_detail = detail\<rparr> # cs'" "stripped cid" "stripped detail"
      "ctype \<in> set ALLOWED_CHANGE_TYPES" "cid \<notin> seen" and
    t: "canon_changes (insert cid seen) items = Inr cs'"
    by (auto simp: res_simps) (blast dest: require_str_ok)
  show ?case using c Cons.IH[OF t] by (auto simp: changes_wf_def change_wf_def)
qed (simp add: changes_wf_def)

lemma stripped_change_type: "t \<in> set ALLOWED_CHANGE_TYPES \<Longrightarrow> stripped t"
  by (auto simp: ALLOWED_CHANGE_TYPES_def) (code_simp)+

lemma canon_changes_vals: "changes_wf seen cs \<Longrightarrow> canon_changes seen (map change_val cs) = Inr cs"
proof (induction cs arbitrary: seen)
  case (Cons c cs)
  have wf: "change_wf c" "uc_change_id c \<notin> seen" "changes_wf (insert (uc_change_id c) seen) cs"
    using Cons.prems by (auto simp: changes_wf_def)
  let ?m = "[(''change_id'', PStr (uc_change_id c)), (''type'', PStr (uc_type c)), (''detail'', PStr (uc_detail c))]"
  have keys: "require_exact_keys ?m ALLOWED_CHANGE_KEYS ''change'' = Inr ()"
    by (simp add: require_exact_keys_ok ALLOWED_CHANGE_KEYS_def dkeys_def)
  have strs: "require_str ?m ''change_id'' = Inr (uc_change_id c)" "require_str ?m ''type'' = Inr (uc_type c)"
    "require_str ?m ''detail'' = Inr (uc_detail c)"
    using wf(1) stripped_change_type by (simp_all add: require_str_stripped change_wf_def)
  show ?case using wf Cons.IH[OF wf(3)]
    by (simp add: change_val_def need_map_def keys strs change_wf_def)
qed simp

lemma changes_wf_sort: "changes_wf seen cs \<Longrightarrow> changes_wf seen (sort_key uc_change_id cs)"
  by (auto simp: changes_wf_def list_all_iff distinct_map)

lemma guardrail_id_ok: "guardrail_id g = Inr s \<Longrightarrow> stripped s"
  by (auto simp: guardrail_id_def stripped_def split: pyval.splits if_splits)

lemma map_r_guardrail: "list_all stripped ss \<Longrightarrow> map_r guardrail_id (map PStr ss) = Inr ss"
  by (induction ss) (auto simp: guardrail_id_def stripped_def)

lemma canon_guardrails_ok:
  "canon_guardrails gs gr = Inr (gids, ref) \<Longrightarrow>
     list_all stripped gids \<and> sorted_strs gids = gids \<and> py_strip ref = ref"
proof -
  assume a: "canon_guardrails gs gr = Inr (gids, ref)"
  obtain raw where raw: "gids = sorted_strs raw" "py_strip ref = ref" "list_all stripped raw"
  proof -
    obtain raw where r: "(case gs of PNone \<Rightarrow> Inr [] | PList xs \<Rightarrow> map_r guardrail_id xs
        | _ \<Rightarrow> Inl (ValueError (repr_str ''guardrails'' @ '' must be list[str]''))) = Inr raw"
      and s: "gids = sorted_strs raw" "py_strip ref = ref"
      using a by (auto simp: canon_guardrails_def res_simps split: pyval.splits)
    have "list_all stripped raw" using r
      by (auto simp: list_all_iff split: pyval.splits dest!: map_r_set dest: guardrail_id_ok)
    then show ?thesis using that s by blast
  qed
  then show ?thesis by (auto simp: list_all_iff sorted_strs_def sorted_sort_id distinct_remdups_id)
qed

text \<open>The fields of a canonical proposal.\<close>

definition proposal_wf :: "string \<Rightarrow> string \<Rightarrow> string \<Rightarrow> string \<Rightarrow> string \<Rightarrow> string \<Rightarrow> string \<Rightarrow> upgrade_change list
    \<Rightarrow> string list \<Rightarrow> string \<Rightarrow> bool" where
  "proposal_wf pid cmp ver utc summary dmn act cs gids gref \<longleftrightarrow> stripped pid \<and> CHR '' '' \<notin> set pid \<and>
     stripped cmp \<and> stripped ver \<and> stripped utc \<and> timestamp_z utc \<and> stripped summary \<and>
     dmn \<in> set ALLOWED_DOMAINS \<and> act \<in> set ALLOWED_ACTIONS \<and> cs \<noteq> [] \<and> changes_wf {} cs \<and>
     list_all stripped gids \<and> sorted_strs gids = gids \<and> py_strip gref = gref"

lemma stripped_names: "dmn \<in> set ALLOWED_DOMAINS \<Longrightarrow> stripped dmn" "act \<in> set ALLOWED_ACTIONS \<Longrightarrow> stripped act"
  by (auto simp: ALLOWED_DOMAINS_def ALLOWED_ACTIONS_def) (code_simp)+

lemma sort_key_idem: "sort_key f (sort_key f xs) = sort_key f xs"
  by (rule sort_key_id_if_sorted) simp

definition canonical_proposal :: "upgrade_validation \<Rightarrow> bool" where
  "canonical_proposal pv \<longleftrightarrow> (\<exists>pid cmp ver utc summary dmn act cs ev gids gref.
     proposal_wf pid cmp ver utc summary dmn act cs gids gref \<and>
     uv_canonical pv = proposal_canonical ''upgrade_proposal_v3'' pid cmp ver utc summary dmn act cs ev gids gref
       (uv_computed_hash pv) \<and>
     compute_upgrade_proposal_hash (without_key (uv_canonical pv) ''proposal_hash'') = Inr (uv_computed_hash pv))"

lemma validate_upgrade_proposal_ok:
  assumes "validate_upgrade_proposal raw = Inr pv"
  shows "canonical_proposal pv"
proof -
  obtain m tg items gs gr pid cmp ver utc summary dmn act cs ev gids gref h where
    strs: "require_str m ''proposal_id'' = Inr pid" "require_str tg ''component'' = Inr cmp"
      "require_str tg ''version'' = Inr ver" "require_str m ''created_utc'' = Inr utc"
      "require_str m ''summary'' = Inr summary" and
    f: "CHR '' '' \<notin> set pid" "timestamp_z utc" "dmn \<in> set ALLOWED_DOMAINS" "act \<in> set ALLOWED_ACTIONS" and
    cs: "items \<noteq> []" "canon_changes {} items = Inr cs" and g: "canon_guardrails gs gr = Inr (gids, gref)" and
    pv: "pv = \<lparr>uv_canonical = proposal_canonical ''upgrade_proposal_v3'' pid cmp ver utc summary dmn act cs ev gids gref h,
      uv_computed_hash = h\<rparr>" and
    h: "compute_upgrade_proposal_hash (without_key (proposal_canonical ''upgrade_proposal_v3'' pid cmp ver utc summary
      dmn act cs ev gids gref h) ''proposal_hash'') = Inr h"
    using assms unfolding validate_upgrade_proposal_def
    by (clarsimp simp: res_simps Let_def require_timestamp_z_ok)
  have "proposal_wf pid cmp ver utc summary dmn act cs gids gref"
    using strs[THEN require_str_ok] f canon_changes_ok[OF cs(2)] cs(1) canon_guardrails_ok[OF g]
    by (auto simp: proposal_wf_def)
  then show ?thesis unfolding canonical_proposal_def pv upgrade_validation.simps using h by blast
qed

lemma validate_proposal_canonical:
  assumes "canonical_proposal pv"
  shows "validate_upgrade_proposal (PDict (uv_canonical pv)) = Inr pv"
proof -
  obtain pid cmp ver utc summary dmn act cs ev gids gref h where
    wf: "proposal_wf pid cmp ver utc summary dmn act cs gids gref" and h: "uv_computed_hash pv = h" and
    m: "uv_canonical pv = proposal_canonical ''upgrade_proposal_v3'' pid cmp ver utc summary dmn act cs ev gids gref h" and
    c: "compute_upgrade_proposal_hash (without_key (uv_canonical pv) ''proposal_hash'') = Inr h"
    using assms unfolding canonical_proposal_def by blast
  let ?m = "proposal_canonical ''upgrade_proposal_v3'' pid cmp ver utc summary dmn act cs ev gids gref h"
  let ?t = "[(''component'', PStr cmp), (''version'', PStr ver)]"
  have hex: "is_sha256_hex h" using c by (auto simp: compute_upgrade_proposal_hash_def res_simps)
  have keys: "require_exact_keys ?m ALLOWED_ROOT_KEYS ''proposal'' = Inr ()"
    "require_exact_keys ?t ALLOWED_TARGET_KEYS ''target'' = Inr ()"
    by (simp_all add: require_exact_keys_ok ALLOWED_ROOT_KEYS_def ALLOWED_TARGET_KEYS_def proposal_canonical_def dkeys_def)
  have "stripped ''upgrade_proposal_v3''" by code_simp
  then have strs: "require_str ?m ''v'' = Inr ''upgrade_proposal_v3''" "require_str ?m ''proposal_id'' = Inr pid"
    "require_str ?m ''created_utc'' = Inr utc" "require_str ?m ''summary'' = Inr summary"
    "require_str ?m ''domain'' = Inr dmn" "require_str ?m ''action'' = Inr act"
    "require_str ?m ''proposal_hash'' = Inr h" "require_str ?t ''component'' = Inr cmp"
    "require_str ?t ''version'' = Inr ver"
    using wf stripped_names(1)[of dmn] stripped_names(2)[of act] stripped_hex[OF hex]
    by (simp_all add: require_str_stripped proposal_wf_def proposal_canonical_def)
  have vals: "dget ?m ''target'' = PDict ?t" "dget ?m ''evidence'' = PDict ev"
    "dget ?m ''changes'' = PList (map change_val (sort_key uc_change_id cs))"
    "dget ?m ''guardrails'' = PList (map PStr gids)" "dget ?m ''guardrails_ref'' = PStr gref"
    by (simp_all add: proposal_canonical_def)
  have g: "canon_guardrails (PList (map PStr gids)) (PStr gref) = Inr (gids, gref)"
    using wf by (simp add: canon_guardrails_def map_r_guardrail proposal_wf_def)
  have cc: "canon_changes {} (map change_val (sort_key uc_change_id cs)) = Inr (sort_key uc_change_id cs)"
    using wf by (intro canon_changes_vals changes_wf_sort) (simp add: proposal_wf_def)
  have ne: "sort_key uc_change_id cs \<noteq> []"
    using wf by (metis proposal_wf_def length_0_conv length_sort)
  have same: "proposal_canonical ''upgrade_proposal_v3'' pid cmp ver utc summary dmn act (sort_key uc_change_id cs) ev
      gids gref h = ?m"
    by (simp add: proposal_canonical_def sort_key_idem)
  have ts: "require_timestamp_z utc ''created_utc'' = Inr utc" using wf by (simp add: require_timestamp_z_ok proposal_wf_def)
  have pv: "pv = \<lparr>uv_canonical = ?m, uv_computed_hash = h\<rparr>" using m h by (cases pv) simp
  show ?thesis using wf c hex unfolding pv
    by (simp add: validate_upgrade_proposal_def need_map_def need_list_def keys strs vals g cc ne same ts
        proposal_wf_def)
qed

section \<open>Properties\<close>

lemma upgrade_hash_hex: "compute_upgrade_proposal_hash m = Inr h \<Longrightarrow> is_sha256_hex h"
  by (auto simp: compute_upgrade_proposal_hash_def res_simps)

lemma upgrade_raises [raises_intros]:
  "raises_only is_value_error (require_str m k)" "raises_only is_value_error (require_exact_keys m ks ctx)"
  "raises_only is_value_error (require_timestamp_z s k)"
  "raises_only is_value_error (catch_r (receipt_decision_of s) (\<lambda>_. Inl (ValueError msg)))"
  "raises_only is_value_error (case v of PNone \<Rightarrow> Inr [] | PDict e \<Rightarrow> Inr e | _ \<Rightarrow> Inl (ValueError msg))"
  by (auto simp: require_str_def require_exact_keys_def require_timestamp_z_def receipt_decision_of_def raises_only_def
      check_r_def split: option.splits pyval.splits if_splits)

text \<open>A receipt without notes is built, but never accepted.\<close>

lemma blank_notes_rejected:
  assumes "require_str m ''notes'' = Inl e"
  shows "\<exists>x. validate_review_receipt (PDict m) = Inl x \<and> is_value_error x"
proof -
  have "raises_only is_value_error (validate_review_receipt (PDict m))"
    unfolding validate_review_receipt_def need_map_def pyval.simps bind_r_simps using assms
    by (intro raises_intros raises_only_Inl) simp_all
  moreover have "validate_review_receipt (PDict m) \<noteq> Inr rv" for rv
    using assms by (auto simp: validate_review_receipt_def need_map_def res_simps)
  ultimately show ?thesis by (cases "validate_review_receipt (PDict m)") (auto simp: raises_only_def)
qed

lemma receipt_without_notes_is_invalid:
  assumes "build_review_receipt p decision reviewer [] sim = Inr receipt"
  shows "\<exists>d. evaluate_upgrade_request_v1 p (PDict receipt) True = Inr d \<and> \<not> ud_allow d \<and>
    ud_reason_id d = ''REVIEW_RECEIPT_INVALID''"
proof -
  obtain pv dec pid utc where v: "validate_upgrade_proposal p = Inr pv" and
    b: "build_review_receipt_v1 pid (uv_computed_hash pv) dec reviewer utc [] sim = Inr receipt"
    using assms by (auto simp: build_review_receipt_def res_simps)
  have "require_str receipt ''notes'' = Inl (ValueError (repr_str ''notes'' @ '' must be non-empty str''))"
    using b by (auto simp: build_review_receipt_v1_def Let_def res_simps receipt_fields_def require_str_def)
  from blank_notes_rejected[OF this] obtain x where
    "validate_review_receipt (PDict receipt) = Inl x" "is_value_error x" by blast
  then show ?thesis using v by (simp add: evaluate_upgrade_request_v1_def Let_def)
qed

text \<open>
  The canonical form of an upgrade proposal is a fixed point: validating what the validator
  returns, key order, stripped strings, sorted changes and guardrails included, gives the same
  form and the same hash.
\<close>

theorem upgrade_canonical_fixed_point:
  "case validate_upgrade_proposal raw of Inl _ \<Rightarrow> True
   | Inr pv \<Rightarrow> validate_upgrade_proposal (PDict (uv_canonical pv)) = Inr pv"
  by (auto split: sum.split intro: validate_proposal_canonical validate_upgrade_proposal_ok)

lemma evaluate_upgrade_allow:
  "evaluate_upgrade_request_v1 p r True = Inr d \<and> ud_allow d \<longleftrightarrow>
     (\<exists>pv rv. validate_upgrade_proposal p = Inr pv \<and> r \<noteq> PNone \<and> validate_review_receipt r = Inr rv \<and>
       py_str (dget (uv_canonical rv) ''proposal_id'') = py_str (dget (uv_canonical pv) ''proposal_id'') \<and>
       py_str (dget (uv_canonical rv) ''proposal_hash'') = uv_computed_hash pv \<and>
       py_str (dget (uv_canonical rv) ''decision'') = ''APPROVE'' \<and>
       d = \<lparr>ud_allow = True, ud_reason_id = ''REVIEW_RECEIPT_APPROVE'', ud_proposal_hash = uv_computed_hash pv,
         ud_receipt_hash = uv_computed_hash rv\<rparr>)"
  by (auto simp: evaluate_upgrade_request_v1_def Let_def split: sum.splits if_splits)

text \<open>
  C27: With a receipt required, the gateway allows an upgrade exactly when proposal and receipt are
  valid and the receipt approves this proposal: it names the proposal's id and carries the hash
  computed of the proposal's canonical form, and each hash is that of the form without it.
\<close>

theorem upgrade_allowed_iff_approved:
  "(\<exists>d. evaluate_upgrade_request_v1 p r True = Inr d \<and> ud_allow d) \<longleftrightarrow>
     (\<exists>pid cmp ver utc summary dmn act cs ev gids gref ph rid wh nts sim rh.
       validate_upgrade_proposal p = Inr \<lparr>uv_canonical = proposal_canonical ''upgrade_proposal_v3'' pid cmp ver utc
         summary dmn act cs ev gids gref ph, uv_computed_hash = ph\<rparr> \<and>
       validate_review_receipt r = Inr \<lparr>uv_canonical = receipt_fields pid ph RD_APPROVE rid wh nts sim rh,
         uv_computed_hash = rh\<rparr>)"
    (is "?l \<longleftrightarrow> ?r")
proof
  assume ?l
  then obtain pv rv where v: "validate_upgrade_proposal p = Inr pv" "validate_review_receipt r = Inr rv" and
    e: "py_str (dget (uv_canonical rv) ''proposal_id'') = py_str (dget (uv_canonical pv) ''proposal_id'')"
      "py_str (dget (uv_canonical rv) ''proposal_hash'') = uv_computed_hash pv"
      "py_str (dget (uv_canonical rv) ''decision'') = ''APPROVE''"
    using evaluate_upgrade_allow by blast
  obtain pid cmp ver utc summary dmn act cs ev gids gref where
    p: "uv_canonical pv = proposal_canonical ''upgrade_proposal_v3'' pid cmp ver utc summary dmn act cs ev gids gref
      (uv_computed_hash pv)"
    using validate_upgrade_proposal_ok[OF v(1)] unfolding canonical_proposal_def by blast
  obtain rid wh nts sim pid' ph' dec where
    r: "uv_canonical rv = receipt_fields pid' ph' dec rid wh nts sim (uv_computed_hash rv)"
    using validate_review_receipt_ok[OF v(2)] by (metis upgrade_validation.select_convs(1))
  have same: "pid' = pid" "ph' = uv_computed_hash pv" "dec = RD_APPROVE"
    using e unfolding p r by (cases dec; simp add: proposal_canonical_def receipt_fields_def)+
  have "pv = \<lparr>uv_canonical = uv_canonical pv, uv_computed_hash = uv_computed_hash pv\<rparr>"
    "rv = \<lparr>uv_canonical = uv_canonical rv, uv_computed_hash = uv_computed_hash rv\<rparr>" by simp_all
  then show ?r using v p r unfolding same by metis
next
  assume ?r
  then show ?l unfolding evaluate_upgrade_allow[unfolded ex_simps]
    by (auto simp: evaluate_upgrade_request_v1_def proposal_canonical_def receipt_fields_def validate_review_receipt_def
        need_map_def)
qed

text \<open>
  C28: A receipt the gateway builds for a proposal is one it accepts for that proposal, with the
  reviewer's decision as the answer, provided that the reviewer and the notes are non-empty texts
  without surrounding white space. The builder itself demands neither: with empty notes, say, it
  builds a receipt that the gateway always refuses (receipt_without_notes_is_invalid).
\<close>

theorem built_receipt_decides:
  assumes "build_review_receipt p decision reviewer nts sim = Inr receipt"
    and "stripped reviewer" "stripped nts"
  shows "\<exists>d. evaluate_upgrade_request_v1 p (PDict receipt) True = Inr d \<and>
    ud_allow d = (decision = ''APPROVE'') \<and>
    ud_reason_id d = (if decision = ''APPROVE'' then ''REVIEW_RECEIPT_APPROVE'' else ''REVIEW_RECEIPT_DENY'')"
proof -
  obtain pv dec where v: "validate_upgrade_proposal p = Inr pv" "receipt_decision_of decision = Inr dec" and
    b: "build_review_receipt_v1 (py_str (dget (uv_canonical pv) ''proposal_id'')) (uv_computed_hash pv) dec reviewer
      (py_str (dget (uv_canonical pv) ''created_utc'')) nts sim = Inr receipt"
    using assms(1) by (auto simp: build_review_receipt_def res_simps)
  obtain pid cmp ver utc summary dmn act cs ev gids gref where
    wf: "proposal_wf pid cmp ver utc summary dmn act cs gids gref" and
    p: "uv_canonical pv = proposal_canonical ''upgrade_proposal_v3'' pid cmp ver utc summary dmn act cs ev gids gref
      (uv_computed_hash pv)" and
    h: "compute_upgrade_proposal_hash (without_key (uv_canonical pv) ''proposal_hash'') = Inr (uv_computed_hash pv)"
    using validate_upgrade_proposal_ok[OF v(1)] unfolding canonical_proposal_def by blast
  let ?s = "case sim of Some s \<Rightarrow> s | None \<Rightarrow> []"
  have ids: "py_str (dget (uv_canonical pv) ''proposal_id'') = pid" "py_str (dget (uv_canonical pv) ''created_utc'') = utc"
    unfolding p by (simp_all add: proposal_canonical_def)
  obtain rh where rh: "compute_review_receipt_hash (without_key (receipt_fields pid (uv_computed_hash pv) dec reviewer utc
      nts ?s []) ''receipt_hash'') = Inr rh"
    and rec: "receipt = receipt_fields pid (uv_computed_hash pv) dec reviewer utc nts ?s rh"
    using b unfolding ids by (auto simp: build_review_receipt_v1_def Let_def res_simps receipt_fields_def)
  have hex: "is_sha256_hex (uv_computed_hash pv)" by (rule upgrade_hash_hex[OF h])
  have ok: "validate_review_receipt (PDict receipt) = Inr \<lparr>uv_canonical = receipt, uv_computed_hash = rh\<rparr>"
    unfolding rec using wf hex assms(2,3) by (intro validate_receipt_fields rh) (simp add: receipt_wf_def proposal_wf_def)
  have dec: "decision = decision_value dec"
    using v(2) by (auto simp: receipt_decision_of_def split: if_splits)
  show ?thesis using v(1) ok ids
    by (cases dec) (simp_all add: evaluate_upgrade_request_v1_def Let_def dec rec receipt_fields_def)
qed

definition demo_proposal :: "string \<Rightarrow> pydict" where
  "demo_proposal h = proposal_canonical ''upgrade_proposal_v3'' ''p1'' ''c'' ''1'' ''2025-01-01T00:00:00Z'' ''s''
     ''RISK_RULES'' ''ADD_RULE'' [\<lparr>uc_change_id = ''a'', uc_type = ''add'', uc_detail = ''d''\<rparr>] [] [] [] h"

lemma demo_proposal_valid:
  "\<exists>h. validate_upgrade_proposal (PDict (demo_proposal h)) = Inr \<lparr>uv_canonical = demo_proposal h, uv_computed_hash = h\<rparr>"
proof -
  have "\<exists>h. compute_upgrade_proposal_hash (without_key (demo_proposal []) ''proposal_hash'') = Inr h"
    by (simp add: compute_upgrade_proposal_hash_def upgrade_canonical_bytes_def json_dumps_def demo_proposal_def
        proposal_canonical_def without_key_def change_val_def)
  moreover have "without_key (demo_proposal []) ''proposal_hash'' = without_key (demo_proposal h) ''proposal_hash''" for h
    by (simp add: demo_proposal_def proposal_canonical_def without_key_def)
  ultimately obtain h where h: "compute_upgrade_proposal_hash (without_key (demo_proposal h) ''proposal_hash'') = Inr h"
    by metis
  have "proposal_wf ''p1'' ''c'' ''1'' ''2025-01-01T00:00:00Z'' ''s'' ''RISK_RULES'' ''ADD_RULE''
      [\<lparr>uc_change_id = ''a'', uc_type = ''add'', uc_detail = ''d''\<rparr>] [] []" by code_simp
  then have "canonical_proposal \<lparr>uv_canonical = demo_proposal h, uv_computed_hash = h\<rparr>"
    unfolding canonical_proposal_def upgrade_validation.simps using h unfolding demo_proposal_def by blast
  from validate_proposal_canonical[OF this] show ?thesis by auto
qed

theorem built_receipt_decides_witness:
  "\<exists>p receipt d. build_review_receipt p ''APPROVE'' ''r'' ''n'' None = Inr receipt \<and>
     evaluate_upgrade_request_v1 p (PDict receipt) True = Inr d \<and> ud_allow d"
proof -
  obtain h where v: "validate_upgrade_proposal (PDict (demo_proposal h)) =
      Inr \<lparr>uv_canonical = demo_proposal h, uv_computed_hash = h\<rparr>"
    using demo_proposal_valid by blast
  have "\<exists>c. build_review_receipt (PDict (demo_proposal h)) ''APPROVE'' ''r'' ''n'' None = Inr c"
    by (simp add: build_review_receipt_def v receipt_decision_of_def build_review_receipt_v1_def Let_def
        compute_review_receipt_hash_def upgrade_canonical_bytes_def json_dumps_def receipt_fields_def without_key_def)
  then obtain c where b: "build_review_receipt (PDict (demo_proposal h)) ''APPROVE'' ''r'' ''n'' None = Inr c" by blast
  have s: "stripped ''r''" "stripped ''n''" by code_simp+
  show ?thesis using built_receipt_decides[OF b s] b by blast
qed

end
