(* ===== verification/Json_Default.thy ===== *)
theory Json_Default
  imports Json_Roundtrip Py_Convert "HOL-Library.Multiset"
begin

text \<open>
  The hooks of \<open>json.loads\<close> when the caller passes none: \<open>dict\<close>, \<open>int\<close> and \<open>float\<close>. The rounding of
  \<open>float(text)\<close> is a parameter, since no caller looks at a finite float; \<open>NaN\<close> and the infinities
  are the floats of these names.
\<close>

section \<open>Hooks\<close>

text \<open>\<open>dict(pairs)\<close>: the last value of a key, at the place of the first.\<close>

definition dict_of_pairs :: "pydict \<Rightarrow> pydict" where
  "dict_of_pairs ps = foldl (\<lambda>m (k, v). dset m k v) [] ps"

text \<open>\<open>int(token)\<close> raises \<open>ValueError\<close> beyond 4300 digits; the argument makes the exception of it.\<close>

definition default_int :: "(string \<Rightarrow> 'e) \<Rightarrow> string \<Rightarrow> 'e + pyval" where
  "default_int raise token = (case int_of_text token of Some i \<Rightarrow> Inr (PInt i)
     | None \<Rightarrow> Inl (raise ''Exceeds the limit (4300 digits) for integer string conversion''))"

definition default_constant :: "string \<Rightarrow> pyval" where
  "default_constant token = PFloat (if token = ''NaN'' then FNan else FInf (token = ''Infinity''))"

definition default_hooks :: "(string \<Rightarrow> 'e) \<Rightarrow> (string \<Rightarrow> pyfloat) \<Rightarrow> 'e json_hooks" where
  "default_hooks raise float_of = \<lparr>jh_object = (\<lambda>ps. Inr (PDict (dict_of_pairs ps))),
     jh_float = (\<lambda>token. Inr (PFloat (float_of token))), jh_int = default_int raise,
     jh_constant = (\<lambda>token. Inr (default_constant token))\<rparr>"

section \<open>They read back what was printed\<close>

lemma dset_new: "k \<notin> set (dkeys m) \<Longrightarrow> dset m k v = m @ [(k, v)]"
  by (induction m k v rule: dset.induct) (auto simp: dkeys_def)

lemma dict_of_pairs_distinct: "distinct (dkeys ps) \<Longrightarrow> dict_of_pairs ps = ps"
proof -
  have "distinct (dkeys (m @ ps)) \<Longrightarrow> foldl (\<lambda>m (k, v). dset m k v) m ps = m @ ps" for m
  proof (induction ps arbitrary: m)
    case (Cons e ps)
    then show ?case using dset_new[of "fst e" m "snd e"] Cons.IH[of "m @ [e]"]
      by (auto simp: dkeys_def case_prod_unfold)
  qed simp
  from this[of "[]"] show "distinct (dkeys ps) \<Longrightarrow> ?thesis" by (simp add: dict_of_pairs_def)
qed

lemma json_digit_range: "json_digit c \<Longrightarrow> CHR ''0'' \<le> c \<and> c \<le> CHR ''9'' \<and> c \<noteq> CHR ''_'' \<and> \<not> py_isspace c"
  by (auto simp: json_digit_def less_eq_char_def py_isspace_def Let_def)

lemma digit_groups_digits: "list_all json_digit ds \<Longrightarrow> digit_groups b ds \<longleftrightarrow> b \<or> ds \<noteq> []"
  by (induction ds arbitrary: b) (auto dest: json_digit_range)

lemma int_of_show:
  assumes "printable_int i"
  shows "int_of_text (show_int i) = Some i"
proof -
  let ?n = "nat (abs i)"
  have d: "list_all json_digit (show_nat ?n)" "show_nat ?n \<noteq> []" using show_nat_digits by auto
  obtain c ds where s: "show_nat ?n = c # ds" "json_digit c" using show_nat_cases by blast
  have f: "filter (\<lambda>c. c \<noteq> CHR ''_'') (show_nat ?n) = show_nat ?n"
    using d(1) by (auto simp: filter_id_conv list_all_iff dest: json_digit_range)
  have v: "decimal_value (show_nat ?n) = ?n" by (simp add: decimal_value_def f digit_sum_show)
  have l: "length (show_nat ?n) \<le> MAX_STR_DIGITS"
    using assms by (simp add: printable_int_def)
  have g: "digit_groups False (show_nat ?n)" using digit_groups_digits[OF d(1)] d(2) by simp
  have i: "show_int i = (if i < 0 then CHR ''-'' # show_nat ?n else show_nat ?n)" by (simp add: show_int_def)
  have m: "\<not> py_isspace (CHR ''-'')" by code_simp
  have w: "list_all (\<lambda>c. \<not> py_isspace c) (show_nat ?n)"
    by (rule list.pred_mono_strong[OF d(1)]) (simp add: json_digit_range)
  have t: "py_strip (show_nat ?n) = show_nat ?n" "py_strip (CHR ''-'' # show_nat ?n) = CHR ''-'' # show_nat ?n"
    by (rule py_strip_id, simp only: w m list.pred_inject(2) HOL.simp_thms)+
  have h: "c \<noteq> CHR ''-''" "c \<noteq> CHR ''+''" using s(2) by (auto simp: json_digit_def)
  have r: "int_of_text (CHR ''-'' # show_nat ?n) = Some (- int ?n)"
    by (simp only: int_of_text_def t Let_def list.case if_True HOL.simp_thms g f v l)
  have q: "int_of_text (show_nat ?n) = Some (int ?n)"
    using h g f v l t(1) unfolding s(1) by (simp only: int_of_text_def Let_def list.case if_False if_True HOL.simp_thms)
  show ?thesis
  proof (cases "i < 0")
    case True
    then show ?thesis using r by (simp only: i if_True HOL.simp_thms) simp
  next
    case False
    then show ?thesis using q by (simp only: i if_False HOL.simp_thms) simp
  qed
qed

lemma default_hooks_faithful: "faithful_hooks printable_int (default_hooks raise float_of)"
  by (simp add: faithful_hooks_def default_hooks_def default_int_def int_of_show dict_of_pairs_distinct)

text \<open>A dictionary in key order is the same dictionary, and determined by it.\<close>

lemma sort_key_dict:
  assumes "distinct (dkeys m)"
  shows "map_of (sort_key fst m) = map_of m"
    "distinct (dkeys q) \<Longrightarrow> map_of q = map_of m \<Longrightarrow> sort_key fst q = sort_key fst m"
proof -
  have d: "distinct (map fst (sort_key fst m))" "distinct m"
    using assms by (auto simp: dkeys_def distinct_map inj_on_def)
  show "map_of (sort_key fst m) = map_of m"
    using d(1) assms by (subst map_of_inject_set) (simp_all add: dkeys_def)
  assume q: "distinct (dkeys q)" "map_of q = map_of m"
  then have "set q = set m" "distinct q" using assms by (auto simp: dkeys_def map_of_inject_set distinct_map)
  then have "mset q = mset (sort_key fst m)" using d(2) by (simp add: set_eq_iff_mset_eq_distinct)
  then show "sort_key fst q = sort_key fst m"
    using q(1) by (intro sort_key_inj_key_eq) (simp_all add: dkeys_def distinct_map)
qed

end
