(* ===== verification/Combined_Context.thy ===== *)
theory Combined_Context
  imports Json_Default Qid_Adapter
begin

text \<open>
  \<open>src/adamantine/v1/contracts/combined_context_hash.py\<close>: the hash that binds the context hashes of
  all parts of a request. Loading rejects duplicate keys, the payload is a closed schema, and the
  hash is that of its canonical JSON. The limit is the recursion limit of the interpreter.
\<close>

section \<open>Constants\<close>

definition CC_CONTRACT :: string where "CC_CONTRACT = ''adamantineos.combined_context_hash''"
definition CC_DOMAIN :: string where "CC_DOMAIN = ''ADAMANTINEOS_COMBINED_CONTEXT_HASH_V1''"
definition CC_VERSION :: int where "CC_VERSION = 1"

definition HASH_FIELDS :: "string list" where
  "HASH_FIELDS = [''policy_context_hash'', ''qid_auth_context_hash'', ''shield_receipt_context_hash'',
     ''transaction_context_hash'', ''wallet_context_hash'', ''wsqk_posture_context_hash'']"

definition CC_REQUIRED_FIELDS :: "string list" where
  "CC_REQUIRED_FIELDS = [''contract'', ''version'', ''domain'', ''request_id'', ''wallet_context_hash'',
     ''transaction_context_hash'', ''qid_auth_context_hash'', ''wsqk_posture_context_hash'',
     ''policy_context_hash'', ''replay_context_ref'', ''shield_receipt_context_hash'']"

definition CC_FORBIDDEN_AUTHORITY_FIELDS :: "string list" where
  "CC_FORBIDDEN_AUTHORITY_FIELDS = [''allow'', ''approved'', ''authority'', ''auto_approve'', ''bypass'',
     ''broadcast'', ''can_sign'', ''decision'', ''execute'', ''final_approval'', ''force_allow'',
     ''human_approved'', ''override'', ''sign'', ''trusted'']"

definition CC_FORBIDDEN_NONDETERMINISTIC_FIELDS :: "string list" where
  "CC_FORBIDDEN_NONDETERMINISTIC_FIELDS = [''created_at'', ''generated_at'', ''timestamp'', ''time'',
     ''random'', ''randomness'', ''nonce_random'']"

text \<open>
  The exceptions: the error of the contract, another \<open>ValueError\<close>, \<open>RecursionError\<close>, or (no
  exception of the program) a character outside Latin-1.
\<close>

datatype cc_exc = CombinedContextHashError string | CcValueError string | CcRecursionError | CcUnmodelled

section \<open>Loading\<close>

text \<open>The hook \<open>reject_duplicate_keys\<close>.\<close>

fun reject_duplicate_keys :: "pydict \<Rightarrow> pydict \<Rightarrow> cc_exc + pyval" where
  "reject_duplicate_keys output [] = Inr (PDict output)"
| "reject_duplicate_keys output ((k, v) # pairs) =
    (if has_key output k then Inl (CombinedContextHashError ''duplicate key'')
     else reject_duplicate_keys (dset output k v) pairs)"

definition combined_hooks :: "(string \<Rightarrow> pyfloat) \<Rightarrow> cc_exc json_hooks" where
  "combined_hooks float_of = (default_hooks CcValueError float_of)\<lparr>jh_object := reject_duplicate_keys []\<rparr>"

definition load_combined_context_hash_json :: "nat \<Rightarrow> (string \<Rightarrow> pyfloat) \<Rightarrow> string \<Rightarrow> cc_exc + pydict" where
  "load_combined_context_hash_json limit float_of raw = (case json_loads (combined_hooks float_of) limit raw of
     Inl (HookRaised e) \<Rightarrow> Inl e
   | Inl JsonMalformed \<Rightarrow> Inl (CombinedContextHashError ''invalid json'')
   | Inl JsonTooDeep \<Rightarrow> Inl CcRecursionError
   | Inl _ \<Rightarrow> Inl CcUnmodelled
   | Inr (PDict m) \<Rightarrow> Inr m
   | Inr _ \<Rightarrow> Inl (CombinedContextHashError ''payload must be a JSON object''))"

section \<open>Validation and hash\<close>

definition cc_check :: "bool \<Rightarrow> string \<Rightarrow> cc_exc + unit" where
  "cc_check c m = check_r c (CombinedContextHashError m)"

lemma cc_check_ok [res_simps]: "cc_check c m = Inr u \<longleftrightarrow> c"
  by (simp add: cc_check_def check_r_def)

text \<open>\<open>[A-Za-z0-9._:-]{1,n}\<close>.\<close>

definition ascii_ref_char :: "char \<Rightarrow> bool" where
  "ascii_ref_char c \<longleftrightarrow> c \<in> set ''ABCDEFGHIJKLMNOPQRSTUVWXYZabcdefghijklmnopqrstuvwxyz0123456789._:-''"

definition ascii_ref :: "nat \<Rightarrow> string \<Rightarrow> bool" where
  "ascii_ref n s \<longleftrightarrow> 1 \<le> length s \<and> length s \<le> n \<and> list_all ascii_ref_char s"

definition validate_ascii_string :: "pyval \<Rightarrow> nat \<Rightarrow> string \<Rightarrow> cc_exc + unit" where
  "validate_ascii_string v n field = (case v of
     PStr s \<Rightarrow>
       bind_r (cc_check (py_strip s = s) (''invalid '' @ field)) (\<lambda>_.
       bind_r (cc_check (list_all (\<lambda>c. 0x20 \<le> (of_char c :: nat) \<and> (of_char c :: nat) \<le> 0x7E) s) (''invalid '' @ field)) (\<lambda>_.
       cc_check (ascii_ref n s) (''invalid '' @ field)))
   | _ \<Rightarrow> Inl (CombinedContextHashError (''invalid '' @ field)))"

fun validate_hash_fields :: "pydict \<Rightarrow> string list \<Rightarrow> cc_exc + unit" where
  "validate_hash_fields m [] = Inr ()"
| "validate_hash_fields m (f # fs) =
     bind_r (cc_check (is_sha256_hex_val (dget m f)) (''invalid hash field: '' @ f)) (\<lambda>_. validate_hash_fields m fs)"

definition validate_combined_context_hash_payload :: "pyval \<Rightarrow> cc_exc + unit" where
  "validate_combined_context_hash_payload payload = (case payload of
     PDict m \<Rightarrow>
       let field_set = set (dkeys m); unknown = field_set - set CC_REQUIRED_FIELDS;
           missing = set CC_REQUIRED_FIELDS - field_set in
       bind_r (cc_check (unknown \<inter> (set CC_FORBIDDEN_AUTHORITY_FIELDS \<union> set CC_FORBIDDEN_NONDETERMINISTIC_FIELDS) = {})
         ''forbidden field present'') (\<lambda>_.
       bind_r (cc_check (unknown = {}) ''unknown field present'') (\<lambda>_.
       bind_r (cc_check (missing = {}) ''required field missing'') (\<lambda>_.
       bind_r (cc_check (dget m ''contract'' = PStr CC_CONTRACT) ''invalid contract'') (\<lambda>_.
       bind_r (cc_check (dget m ''version'' = PInt CC_VERSION) ''invalid version'') (\<lambda>_.
       bind_r (cc_check (dget m ''domain'' = PStr CC_DOMAIN) ''invalid domain'') (\<lambda>_.
       bind_r (validate_ascii_string (dget m ''request_id'') 128 ''request_id'') (\<lambda>_.
       bind_r (validate_ascii_string (dget m ''replay_context_ref'') 160 ''replay_context_ref'') (\<lambda>_.
       validate_hash_fields m HASH_FIELDS))))))))
   | _ \<Rightarrow> Inl (CombinedContextHashError ''payload must be a JSON object''))"

text \<open>\<open>json.dumps\<close> fails on no validated payload; its exceptions would be those of the value.\<close>

definition canonical_combined_context_json_bytes :: "pyval \<Rightarrow> cc_exc + nat list" where
  "canonical_combined_context_json_bytes payload =
     bind_r (validate_combined_context_hash_payload payload) (\<lambda>_.
     case json_val False True payload of Inl _ \<Rightarrow> Inl CcUnmodelled | Inr s \<Rightarrow> Inr (utf8 s))"

definition compute_combined_context_hash :: "pyval \<Rightarrow> cc_exc + string" where
  "compute_combined_context_hash payload =
     bind_r (canonical_combined_context_json_bytes payload) (\<lambda>bs. Inr (sha256_hex bs))"

section \<open>What is accepted\<close>

definition combined_payload :: "pydict \<Rightarrow> bool" where
  "combined_payload m \<longleftrightarrow> set (dkeys m) = set CC_REQUIRED_FIELDS \<and> dget m ''contract'' = PStr CC_CONTRACT \<and>
     dget m ''version'' = PInt CC_VERSION \<and> dget m ''domain'' = PStr CC_DOMAIN \<and>
     (\<exists>r. dget m ''request_id'' = PStr r \<and> ascii_ref 128 r) \<and>
     (\<exists>r. dget m ''replay_context_ref'' = PStr r \<and> ascii_ref 160 r) \<and>
     list_all (\<lambda>f. is_sha256_hex_val (dget m f)) HASH_FIELDS"

lemma ascii_ref_chars:
  assumes "ascii_ref_char c"
  shows "0x20 \<le> (of_char c :: nat)" "(of_char c :: nat) \<le> 0x7E" "\<not> py_isspace c"
proof -
  have "list_all (\<lambda>c. 0x20 \<le> (of_char c :: nat) \<and> (of_char c :: nat) \<le> 0x7E \<and> \<not> py_isspace c)
      ''ABCDEFGHIJKLMNOPQRSTUVWXYZabcdefghijklmnopqrstuvwxyz0123456789._:-''" by code_simp
  then show "0x20 \<le> (of_char c :: nat)" "(of_char c :: nat) \<le> 0x7E" "\<not> py_isspace c"
    using assms unfolding ascii_ref_char_def list_all_iff by blast+
qed

lemma validate_ascii_string_ok:
  "validate_ascii_string v n f = Inr u \<longleftrightarrow> (\<exists>s. v = PStr s \<and> ascii_ref n s)"
proof (cases v)
  case (PStr s)
  have "ascii_ref n s \<Longrightarrow> py_strip s = s"
    by (rule py_strip_id) (auto simp: ascii_ref_def list_all_iff ascii_ref_chars)
  moreover have "ascii_ref n s \<Longrightarrow> list_all (\<lambda>c. 0x20 \<le> (of_char c :: nat) \<and> (of_char c :: nat) \<le> 0x7E) s"
    using ascii_ref_chars(1,2) by (auto simp: ascii_ref_def list_all_iff)
  ultimately show ?thesis by (auto simp: PStr validate_ascii_string_def bind_r_eq_Inr cc_check_ok)
qed (auto simp: validate_ascii_string_def)

lemma validate_hash_fields_ok: "validate_hash_fields m fs = Inr u \<longleftrightarrow> list_all (\<lambda>f. is_sha256_hex_val (dget m f)) fs"
  by (induction fs) (auto simp: bind_r_eq_Inr cc_check_ok)

lemma validate_combined_ok:
  "validate_combined_context_hash_payload v = Inr u \<longleftrightarrow> (\<exists>m. v = PDict m \<and> combined_payload m)"
proof (cases v)
  case (PDict m)
  show ?thesis
    by (auto simp: PDict validate_combined_context_hash_payload_def bind_r_eq_Inr cc_check_ok combined_payload_def
        Let_def validate_ascii_string_ok validate_hash_fields_ok)
qed (simp_all add: validate_combined_context_hash_payload_def)

text \<open>An accepted payload is flat: texts and one small integer.\<close>

lemma combined_values:
  assumes "combined_payload m" "distinct (dkeys m)" "(k, v) \<in> set m"
  shows "(\<exists>s. v = PStr s) \<or> v = PInt CC_VERSION"
proof -
  have g: "dget m k = v" using assms(2,3) by (simp add: dget_def dkeys_def)
  have "k \<in> set (dkeys m)" using assms(3) by (force simp: dkeys_def)
  then have "k \<in> set CC_REQUIRED_FIELDS" using assms(1) by (simp add: combined_payload_def)
  then have "k \<in> set HASH_FIELDS \<union> {''contract'', ''version'', ''domain'', ''request_id'', ''replay_context_ref''}"
    by (auto simp: CC_REQUIRED_FIELDS_def HASH_FIELDS_def)
  then show ?thesis
    using assms(1) g unfolding combined_payload_def list_all_iff is_sha256_hex_val_def
    by (elim UnE) (fastforce split: pyval.splits, auto)
qed

lemma combined_exact:
  assumes "combined_payload m" "distinct (dkeys m)"
  shows "exact_json printable_int (Suc l) (PDict m)"
proof -
  have "printable_int CC_VERSION" by (simp add: CC_VERSION_def)
  then have "exact_json printable_int l v" if "v \<in> set (map snd m)" for v
    using that combined_values[OF assms] by fastforce
  then show ?thesis using assms(2) by (simp add: list_all_iff)
qed

lemma flat_json:
  "\<forall>(k, v) \<in> set m. (\<exists>s. v = PStr s) \<or> (\<exists>i. v = PInt i) \<Longrightarrow> json_items False True m = json_items False False m"
  by (induction m) auto

lemma combined_bytes_ok:
  assumes "distinct (dkeys m)"
  shows "canonical_combined_context_json_bytes (PDict m) = Inr bs \<longleftrightarrow>
    combined_payload m \<and> bs = utf8 (json_text False (PDict m))"
proof -
  have "json_val False True (PDict m) = Inr (json_text False (PDict m))" if "combined_payload m"
    using flat_json[of m] combined_values[OF that assms] exact_json_val[OF combined_exact[OF that assms, of 0], of False]
    by fastforce
  then show ?thesis
    by (auto simp: canonical_combined_context_json_bytes_def bind_r_eq_Inr validate_combined_ok split: sum.splits)
qed

section \<open>Properties\<close>

lemma reject_duplicate_keys_distinct:
  "distinct (dkeys (out @ ps)) \<Longrightarrow> reject_duplicate_keys out ps = Inr (PDict (out @ ps))"
proof (induction out ps rule: reject_duplicate_keys.induct)
  case (2 out k v ps)
  then have n: "k \<notin> set (dkeys out)" by (auto simp: dkeys_def)
  then show ?case using 2 dset_new[OF n] by (simp add: has_key_def)
qed simp

lemma combined_hooks_faithful: "faithful_hooks printable_int (combined_hooks float_of)"
  using default_hooks_faithful[of CcValueError float_of] reject_duplicate_keys_distinct[of "[]"]
  by (simp add: faithful_hooks_def combined_hooks_def default_hooks_def)

lemma combined_sorted: "combined_payload (sort_key fst m) \<longleftrightarrow> combined_payload m" if "distinct (dkeys m)"
  using sort_key_dict(1)[OF that] by (simp add: combined_payload_def dget_def dkeys_def)

text \<open>
  C35: The combined context hash is the hash of a closed record and can be recomputed from its text. A
  payload has a hash exactly when it has the eleven fields and no other, each of its form; the
  canonical bytes are then loaded back as the same fields in key order, whose hash is again the
  same, and a payload with other fields or values has other canonical bytes.
\<close>

theorem combined_context_hash_sound:
  assumes "distinct (dkeys m)" "distinct (dkeys n)"
  shows "compute_combined_context_hash (PDict m) = Inr h \<longleftrightarrow> combined_payload m \<and> (\<exists>t.
      canonical_combined_context_json_bytes (PDict m) = Inr (utf8 t) \<and> h = sha256_hex (utf8 t) \<and>
      load_combined_context_hash_json (Suc limit) float_of t = Inr (sort_key fst m) \<and>
      compute_combined_context_hash (PDict (sort_key fst m)) = Inr h \<and>
      (canonical_combined_context_json_bytes (PDict n) = Inr (utf8 t) \<longleftrightarrow> map_of n = map_of m))"
proof -
  have sorted: "sorted_json (PDict q) = PDict (sort_key fst q)" if "combined_payload q" "distinct (dkeys q)" for q
  proof -
    have "sorted_items q = q" unfolding sorted_items_map by (rule map_idI) (use combined_values[OF that] in force)
    then show ?thesis by simp
  qed
  have load: "load_combined_context_hash_json (Suc limit) float_of (json_text False (PDict q)) = Inr (sort_key fst q)"
    if "combined_payload q" "distinct (dkeys q)" for q
    using json_loads_text[OF combined_hooks_faithful[of float_of] combined_exact[OF that, of limit], of False]
    by (simp add: load_combined_context_hash_json_def sorted[OF that] del: sorted_json.simps)
  let ?t = "json_text False (PDict m)"
  have bytes: "canonical_combined_context_json_bytes (PDict q) = Inr (utf8 ?t) \<longleftrightarrow> map_of q = map_of m"
    if m: "combined_payload m" and q: "distinct (dkeys q)" for q
  proof
    assume "canonical_combined_context_json_bytes (PDict q) = Inr (utf8 ?t)"
    then have "combined_payload q" "json_text False (PDict q) = ?t" using combined_bytes_ok[OF q] by auto
    then have "sort_key fst q = sort_key fst m" using load[OF _ q] load[OF m assms(1)] by simp
    then show "map_of q = map_of m" using sort_key_dict(1)[OF q] sort_key_dict(1)[OF assms(1)] by simp
  next
    assume e: "map_of q = map_of m"
    have s: "sort_key fst q = sort_key fst m" using sort_key_dict(2)[OF assms(1) q e] .
    have p: "combined_payload q" using m combined_sorted[OF q] combined_sorted[OF assms(1)] s by simp
    have "json_text False (PDict q) = ?t"
      using sorted_json_text[OF combined_exact[OF p q, of 0]] sorted_json_text[OF combined_exact[OF m assms(1), of 0]]
      unfolding sorted[OF p q] sorted[OF m assms(1)] s by metis
    then show "canonical_combined_context_json_bytes (PDict q) = Inr (utf8 ?t)" using p combined_bytes_ok[OF q] by simp
  qed
  have d: "distinct (dkeys (sort_key fst m))" using assms(1) by (auto simp: dkeys_def distinct_map inj_on_def)
  have "canonical_combined_context_json_bytes (PDict (sort_key fst m)) = Inr (utf8 ?t)" if "combined_payload m"
    using bytes[OF that d] sort_key_dict(1)[OF assms(1)] by simp
  then show ?thesis
    using combined_bytes_ok[OF assms(1)] load[OF _ assms(1)] bytes[OF _ assms(2)]
    by (auto simp: compute_combined_context_hash_def bind_r_eq_Inr)
qed

definition demo_combined :: pydict where
  "demo_combined = [(''contract'', PStr CC_CONTRACT), (''version'', PInt 1), (''domain'', PStr CC_DOMAIN),
     (''request_id'', PStr ''req:1''), (''replay_context_ref'', PStr ''replay-1'')] @
     map (\<lambda>f. (f, PStr (replicate 64 CHR ''a''))) HASH_FIELDS"

lemma demo_combined_ok: "combined_payload demo_combined" "distinct (dkeys demo_combined)"
proof -
  have p: "set (dkeys demo_combined) = set CC_REQUIRED_FIELDS"
    by (auto simp: demo_combined_def dkeys_def CC_REQUIRED_FIELDS_def HASH_FIELDS_def)
  have h: "is_sha256_hex (replicate 64 CHR ''a'')" "ascii_ref 128 ''req:1''" "ascii_ref 160 ''replay-1''" by code_simp+
  show "combined_payload demo_combined"
    unfolding combined_payload_def p using h by (simp add: demo_combined_def HASH_FIELDS_def CC_VERSION_def)
  show "distinct (dkeys demo_combined)" by code_simp
qed

lemma demo_combined_hash: "\<exists>h. compute_combined_context_hash (PDict demo_combined) = Inr h \<and> is_sha256_hex h"
  using combined_bytes_ok[OF demo_combined_ok(2), of "utf8 (json_text False (PDict demo_combined))"] demo_combined_ok(1)
  by (simp add: compute_combined_context_hash_def)

lemma combined_context_hash_sound_witness:
  "\<exists>h t. compute_combined_context_hash (PDict demo_combined) = Inr h \<and> h = sha256_hex (utf8 t) \<and>
     load_combined_context_hash_json 1 (\<lambda>_. FNan) t = Inr (sort_key fst demo_combined) \<and>
     canonical_combined_context_json_bytes (PDict (dset demo_combined ''request_id'' (PStr ''req:2''))) \<noteq> Inr (utf8 t)"
proof -
  let ?n = "dset demo_combined ''request_id'' (PStr ''req:2'')"
  have d: "distinct (dkeys ?n)" by code_simp
  obtain h where "compute_combined_context_hash (PDict demo_combined) = Inr h" using demo_combined_hash by blast
  moreover have "map_of ?n \<noteq> map_of demo_combined" by (simp add: fun_eq_iff demo_combined_def exI[of _ "''request_id''"])
  ultimately show ?thesis using combined_context_hash_sound[OF demo_combined_ok(2) d, of h 0 "\<lambda>_. FNan"] by auto
qed

text \<open>Text nested beyond the recursion limit is no error of the contract.\<close>

lemma deep_arrays: "scan_once h l (replicate (Suc l) CHR ''['') = Inl JsonTooDeep"
proof (induction l)
  case (Suc l)
  have "skip_ws (replicate (Suc l) CHR ''['') = CHR ''['' # replicate l CHR ''[''" by (simp add: skip_ws_def json_ws_def)
  then show ?case using Suc by (subst scan_once.simps) (simp add: scan_items.simps)
qed (simp add: scan_once.simps)

lemma deep_json_escapes:
  "load_combined_context_hash_json limit float_of (replicate (Suc limit) CHR ''['') = Inl CcRecursionError"
proof -
  have "skip_ws (replicate (Suc limit) CHR ''['') = replicate (Suc limit) CHR ''[''" by (simp add: skip_ws_def json_ws_def)
  then have "json_loads (combined_hooks float_of) limit (replicate (Suc limit) CHR ''['') = Inl JsonTooDeep"
    using deep_arrays[of "combined_hooks float_of" limit] by (simp add: json_loads_def del: replicate_Suc)
  then show ?thesis by (simp add: load_combined_context_hash_json_def del: replicate_Suc)
qed

end
