(* ===== verification/Shield_V4_Audit.thy ===== *)
theory Shield_V4_Audit
  imports Json_Default Shield_V4_Verifier
begin

text \<open>
  \<open>src/adamantine/v1/integrations/shield_v4_verification_audit.py\<close>: Shield v4 verification whose
  result is only returned once an injected sink has acknowledged the records of the run. The sink
  is a function on a state of its own. The environment carries what the standard library fixes:
  the recursion limit, the rounding of \<open>float(text)\<close> and the local time zone of the host.
\<close>

section \<open>Constants and exceptions\<close>

definition AUDIT_SCHEMA_VERSION :: string where "AUDIT_SCHEMA_VERSION = ''shield.verification_audit.v1''"
definition AUDIT_ACK_SCHEMA_VERSION :: string where
  "AUDIT_ACK_SCHEMA_VERSION = ''shield.verification_audit.append_ack.v1''"
definition AUDIT_VERIFIER_ID :: string where "AUDIT_VERIFIER_ID = ''adamantineos.v1''"
definition AUDIT_REQUEST_ID_HASH_DOMAIN :: string where
  "AUDIT_REQUEST_ID_HASH_DOMAIN = ''DGB-SHIELD-V4-AUDIT-REQUEST-ID'' @ [CHR 0x0A]"
definition AUDIT_KEY_ID_HASH_DOMAIN :: string where
  "AUDIT_KEY_ID_HASH_DOMAIN = ''DGB-SHIELD-V4-AUDIT-KEY-ID'' @ [CHR 0x0A]"
definition AUDIT_BATCH_HASH_DOMAIN :: string where
  "AUDIT_BATCH_HASH_DOMAIN = ''DGB-SHIELD-V4-VERIFICATION-AUDIT-BATCH:shield.verification_audit.v1'' @ [CHR 0x0A]"

definition V4_REQUEST_MISMATCH :: string where "V4_REQUEST_MISMATCH = ''V4_REQUEST_MISMATCH''"
definition V4_REGISTRY_INVALID :: string where "V4_REGISTRY_INVALID = ''V4_REGISTRY_INVALID''"
definition V4_FRESHNESS_INVALID :: string where "V4_FRESHNESS_INVALID = ''V4_FRESHNESS_INVALID''"
definition V4_REPLAY_REJECTED :: string where "V4_REPLAY_REJECTED = ''V4_REPLAY_REJECTED''"
definition V4_BACKEND_UNAVAILABLE :: string where "V4_BACKEND_UNAVAILABLE = ''V4_BACKEND_UNAVAILABLE''"

definition AUDIT_REASON_IDS :: "string list" where
  "AUDIT_REASON_IDS = [V4_VERIFY_OK, V4_CONTRACT_INVALID, V4_CONTEXT_MISMATCH, V4_REQUEST_MISMATCH,
     V4_HASH_MISMATCH, V4_DOWNGRADE_REJECTED, V4_AUTHORITY_BYPASS, V4_POLICY_INVALID, V4_REGISTRY_INVALID,
     V4_FRESHNESS_INVALID, V4_REPLAY_REJECTED, V4_SIGNATURE_INVALID, V4_BACKEND_UNAVAILABLE, V4_BACKEND_FAILURE]"

definition MAX_AUDIT_RECORDS :: nat where "MAX_AUDIT_RECORDS = 24"
definition MAX_AUDIT_RECORD_BYTES :: nat where "MAX_AUDIT_RECORD_BYTES = 2048"
definition MAX_AUDIT_BATCH_BYTES :: nat where "MAX_AUDIT_BATCH_BYTES = 49152"

definition COMMON_FIELDS :: "string list" where
  "COMMON_FIELDS = [''schema_version'', ''event_type'', ''verifier_id'', ''verification_timestamp'',
     ''verification_passed'', ''reason_id'']"

definition PREFLIGHT_FIELDS :: "string list" where
  "PREFLIGHT_FIELDS = COMMON_FIELDS @ [''artifact_type'', ''expected_artifact_schema_version'',
     ''artifact_transport_hash'', ''expected_request_id_hash'', ''expected_context_hash'',
     ''required_policy_version'', ''minimum_registry_version'']"

definition ARTIFACT_FIELDS :: "string list" where
  "ARTIFACT_FIELDS = COMMON_FIELDS @ [''artifact_type'', ''artifact_schema_version'', ''artifact_id'',
     ''artifact_hash'', ''request_id_hash'', ''context_hash'', ''policy_version'', ''registry_version'']"

definition SIGNATURE_FIELDS :: "string list" where
  "SIGNATURE_FIELDS = COMMON_FIELDS @ [''artifact_type'', ''artifact_schema_version'', ''artifact_id'',
     ''artifact_hash'', ''request_id_hash'', ''context_hash'', ''policy_version'', ''registry_version'',
     ''key_id_hash'', ''key_version'', ''algorithm'', ''standard_profile'']"

definition AUDIT_ACK_FIELDS :: "string list" where
  "AUDIT_ACK_FIELDS = [''schema_version'', ''batch_sha256'', ''record_count'', ''durably_committed'']"

text \<open>
  A \<open>ValueError\<close> with its message, the two errors of the boundary, any other exception, or (no
  exception of the program) a character outside Latin-1 in the text of a record.
\<close>

datatype audit_exc = AuditValueError string | ShieldV4AuditSinkError | ShieldV4AuditedVerificationError string
  | AuditOther string | AuditUnmodelled

definition au_check :: "bool \<Rightarrow> string \<Rightarrow> audit_exc + unit" where
  "au_check c m = check_r c (AuditValueError m)"

lemma au_check_ok [res_simps]: "au_check c m = Inr u \<longleftrightarrow> c"
  by (simp add: au_check_def check_r_def)

section \<open>Records\<close>

record preflight_record =
  pf_schema_version :: string
  pf_event_type :: string
  pf_verifier_id :: string
  pf_timestamp :: string
  pf_passed :: bool
  pf_reason_id :: string
  pf_artifact_type :: string
  pf_expected_artifact_schema_version :: string
  pf_artifact_transport_hash :: string
  pf_expected_request_id_hash :: string
  pf_expected_context_hash :: string
  pf_required_policy_version :: string
  pf_minimum_registry_version :: int

record artifact_record =
  av_schema_version :: string
  av_event_type :: string
  av_verifier_id :: string
  av_timestamp :: string
  av_passed :: bool
  av_reason_id :: string
  av_artifact_type :: string
  av_artifact_schema_version :: string
  av_artifact_id :: string
  av_artifact_hash :: string
  av_request_id_hash :: string
  av_context_hash :: string
  av_policy_version :: string
  av_registry_version :: int

text \<open>The fields of a signature record extend those of an artifact record.\<close>

record signature_record = artifact_record +
  sr_key_id_hash :: string
  sr_key_version :: int
  sr_algorithm :: string
  sr_standard_profile :: string

datatype audit_record = PreflightRecord preflight_record | SignatureRecord signature_record | ArtifactRecord artifact_record

text \<open>\<open>asdict\<close>.\<close>

definition artifact_items :: "'a artifact_record_scheme \<Rightarrow> pydict" where
  "artifact_items r = [(''schema_version'', PStr (av_schema_version r)), (''event_type'', PStr (av_event_type r)),
     (''verifier_id'', PStr (av_verifier_id r)), (''verification_timestamp'', PStr (av_timestamp r)),
     (''verification_passed'', PBool (av_passed r)), (''reason_id'', PStr (av_reason_id r)),
     (''artifact_type'', PStr (av_artifact_type r)), (''artifact_schema_version'', PStr (av_artifact_schema_version r)),
     (''artifact_id'', PStr (av_artifact_id r)), (''artifact_hash'', PStr (av_artifact_hash r)),
     (''request_id_hash'', PStr (av_request_id_hash r)), (''context_hash'', PStr (av_context_hash r)),
     (''policy_version'', PStr (av_policy_version r)), (''registry_version'', PInt (av_registry_version r))]"

fun record_dict :: "audit_record \<Rightarrow> pydict" where
  "record_dict (PreflightRecord r) = [(''schema_version'', PStr (pf_schema_version r)), (''event_type'', PStr (pf_event_type r)),
     (''verifier_id'', PStr (pf_verifier_id r)), (''verification_timestamp'', PStr (pf_timestamp r)),
     (''verification_passed'', PBool (pf_passed r)), (''reason_id'', PStr (pf_reason_id r)),
     (''artifact_type'', PStr (pf_artifact_type r)),
     (''expected_artifact_schema_version'', PStr (pf_expected_artifact_schema_version r)),
     (''artifact_transport_hash'', PStr (pf_artifact_transport_hash r)),
     (''expected_request_id_hash'', PStr (pf_expected_request_id_hash r)),
     (''expected_context_hash'', PStr (pf_expected_context_hash r)),
     (''required_policy_version'', PStr (pf_required_policy_version r)),
     (''minimum_registry_version'', PInt (pf_minimum_registry_version r))]"
| "record_dict (ArtifactRecord r) = artifact_items r"
| "record_dict (SignatureRecord r) = artifact_items r @ [(''key_id_hash'', PStr (sr_key_id_hash r)),
     (''key_version'', PInt (sr_key_version r)), (''algorithm'', PStr (sr_algorithm r)),
     (''standard_profile'', PStr (sr_standard_profile r))]"

section \<open>Validation\<close>

definition validate_positive_int :: "pyval \<Rightarrow> string \<Rightarrow> audit_exc + unit" where
  "validate_positive_int v field =
     au_check (case v of PInt i \<Rightarrow> 0 < i | _ \<Rightarrow> False) (field @ '' must be positive integer'')"

definition validate_sha256 :: "pyval \<Rightarrow> string \<Rightarrow> audit_exc + unit" where
  "validate_sha256 v field = au_check (is_sha256_hex_val v) (field @ '' must be lowercase sha256 hex'')"

text \<open>
  \<open>\d{4}-\d{2}-\d{2}T\d{2}:\d{2}:\d{2}Z\<close>, then \<open>datetime.strptime\<close>, which demands a date of the
  calendar and a time of the day; its second 60 or 61 is no value of \<open>datetime\<close>.
\<close>

definition number_at :: "string \<Rightarrow> nat \<Rightarrow> nat \<Rightarrow> int" where
  "number_at s i n = int (foldl (\<lambda>a c. 10 * a + (of_char c - 48)) 0 (take n (drop i s)))"

definition audit_timestamp :: "string \<Rightarrow> bool" where
  "audit_timestamp s \<longleftrightarrow> list_all2 (\<lambda>p c. if p = CHR ''d'' then json_digit c else c = p) ''dddd-dd-ddTdd:dd:ddZ'' s \<and>
     valid_date (number_at s 0 4) (number_at s 5 2) (number_at s 8 2) \<and>
     number_at s 11 2 < 24 \<and> number_at s 14 2 < 60 \<and> number_at s 17 2 < 60"

definition validate_timestamp :: "pyval \<Rightarrow> audit_exc + string" where
  "validate_timestamp v = (case v of
     PStr s \<Rightarrow> if audit_timestamp s then Inr s else Inl (AuditValueError ''verification_time must be exact-second RFC3339 UTC'')
   | _ \<Rightarrow> Inl (AuditValueError ''verification_time must be exact-second RFC3339 UTC''))"

text \<open>\<open>v in s\<close> and \<open>v in d\<close> on a frozen set or a dictionary of strings.\<close>

definition au_member :: "pyval \<Rightarrow> string list \<Rightarrow> audit_exc + bool" where
  "au_member v ss = (if hashable v then Inr (str_in v ss) else Inl (AuditOther ''TypeError: unhashable type''))"

definition validate_common :: "pydict \<Rightarrow> audit_exc + unit" where
  "validate_common event =
     bind_r (au_check (dget event ''schema_version'' = PStr AUDIT_SCHEMA_VERSION) ''audit event schema mismatch'') (\<lambda>_.
     bind_r (au_check (dget event ''verifier_id'' = PStr AUDIT_VERIFIER_ID) ''audit verifier mismatch'') (\<lambda>_.
     bind_r (validate_timestamp (dget event ''verification_timestamp'')) (\<lambda>_.
     case dget event ''verification_passed'' of
       PBool passed \<Rightarrow>
         bind_r (au_member (dget event ''reason_id'') AUDIT_REASON_IDS) (\<lambda>known.
         bind_r (au_check known ''audit record reason_id outside allowlist'') (\<lambda>_.
         au_check ((dget event ''reason_id'' = PStr V4_VERIFY_OK) = passed) ''audit pass and reason semantics mismatch''))
     | _ \<Rightarrow> Inl (AuditValueError ''verification_passed must be exact bool''))))"

definition validate_artifact :: "pydict \<Rightarrow> bool \<Rightarrow> audit_exc + unit" where
  "validate_artifact event signature =
     bind_r (au_member (dget event ''artifact_type'') [''component_verdict'', ''orchestrator_receipt'']) (\<lambda>known.
     bind_r (au_check known ''unsupported audit artifact_type'') (\<lambda>_.
     let component = (dget event ''artifact_type'' = PStr ''component_verdict'') in
     bind_r (au_check (dget event ''artifact_schema_version'' =
         PStr (if component then VERDICT_SCHEMA_VERSION else RECEIPT_SCHEMA_VERSION)) ''audit artifact schema mismatch'') (\<lambda>_.
     bind_r (if component then bind_r (au_member (dget event ''artifact_id'') (map fst COMPONENT_ROLES))
           (\<lambda>role. au_check role ''component audit artifact_id mismatch'')
         else au_check (dget event ''artifact_id'' = PStr ''shield_orchestrator'') ''receipt audit artifact_id mismatch'') (\<lambda>_.
     bind_r (validate_sha256 (dget event ''artifact_hash'') ''artifact_hash'') (\<lambda>_.
     bind_r (validate_sha256 (dget event ''request_id_hash'') ''request_id_hash'') (\<lambda>_.
     bind_r (validate_sha256 (dget event ''context_hash'') ''context_hash'') (\<lambda>_.
     bind_r (au_check (dget event ''policy_version'' = PStr SIGNATURE_POLICY) ''audit policy mismatch'') (\<lambda>_.
     bind_r (validate_positive_int (dget event ''registry_version'') ''registry_version'') (\<lambda>_.
     if \<not> signature then Inr ()
     else bind_r (validate_sha256 (dget event ''key_id_hash'') ''key_id_hash'') (\<lambda>_.
       bind_r (validate_positive_int (dget event ''key_version'') ''key_version'') (\<lambda>_.
       bind_r (au_member (dget event ''algorithm'') ALLOWED_ALGORITHMS) (\<lambda>known.
       bind_r (au_check known ''unsupported audit algorithm'') (\<lambda>_.
       au_check (str_in (dget event ''standard_profile'') (algorithm_standard_profiles (str_of (dget event ''algorithm''))))
         ''unsupported audit standard_profile'')))))))))))))"

definition validate_event :: "pyval \<Rightarrow> audit_exc + pydict" where
  "validate_event v = (case v of
     PDict event \<Rightarrow>
       if dget event ''event_type'' = PStr ''verification_preflight'' then
         bind_r (au_check (set (dkeys event) = set PREFLIGHT_FIELDS) ''preflight event fields must match exact schema'') (\<lambda>_.
         bind_r (validate_common event) (\<lambda>_.
         bind_r (au_check (dget event ''artifact_type'' = PStr ''orchestrator_receipt'') ''preflight artifact_type mismatch'') (\<lambda>_.
         bind_r (au_check (dget event ''expected_artifact_schema_version'' = PStr RECEIPT_SCHEMA_VERSION)
           ''preflight expected schema mismatch'') (\<lambda>_.
         bind_r (validate_sha256 (dget event ''artifact_transport_hash'') ''artifact_transport_hash'') (\<lambda>_.
         bind_r (validate_sha256 (dget event ''expected_request_id_hash'') ''expected_request_id_hash'') (\<lambda>_.
         bind_r (validate_sha256 (dget event ''expected_context_hash'') ''expected_context_hash'') (\<lambda>_.
         bind_r (au_check (dget event ''required_policy_version'' = PStr SIGNATURE_POLICY) ''preflight policy mismatch'') (\<lambda>_.
         bind_r (validate_positive_int (dget event ''minimum_registry_version'') ''minimum_registry_version'') (\<lambda>_.
         Inr event)))))))))
       else if dget event ''event_type'' = PStr ''signature_verification'' then
         bind_r (au_check (set (dkeys event) = set SIGNATURE_FIELDS) ''signature event fields must match exact schema'') (\<lambda>_.
         bind_r (validate_common event) (\<lambda>_. bind_r (validate_artifact event True) (\<lambda>_. Inr event)))
       else if dget event ''event_type'' = PStr ''artifact_verification'' then
         bind_r (au_check (set (dkeys event) = set ARTIFACT_FIELDS) ''artifact event fields must match exact schema'') (\<lambda>_.
         bind_r (validate_common event) (\<lambda>_. bind_r (validate_artifact event False) (\<lambda>_. Inr event)))
       else Inl (AuditValueError ''unsupported audit event_type'')
   | _ \<Rightarrow> Inl (AuditValueError ''audit event must be object''))"

section \<open>Bytes\<close>

text \<open>The errors of the receipt contract are \<open>ValueError\<close>s, but for its two programming errors.\<close>

definition from_contract :: "v4_error + 'a \<Rightarrow> audit_exc + 'a" where
  "from_contract m = catch_r m (\<lambda>e. Inl (case e of V4TypeError t \<Rightarrow> AuditOther t | V4KeyError t \<Rightarrow> AuditOther t
     | _ \<Rightarrow> AuditValueError (v4_message e)))"

lemma from_contract_ok [res_simps]: "from_contract m = Inr x \<longleftrightarrow> m = Inr x"
  by (cases m) (simp_all add: from_contract_def)

definition serialize_audit_record :: "audit_record \<Rightarrow> audit_exc + nat list" where
  "serialize_audit_record rec =
     bind_r (validate_event (PDict (record_dict rec))) (\<lambda>_.
     bind_r (from_contract (to_canonical_json (record_dict rec))) (\<lambda>s.
     bind_r (au_check (length (utf8 s) \<le> MAX_AUDIT_RECORD_BYTES) ''audit record exceeds byte limit'') (\<lambda>_.
     Inr (utf8 s))))"

record audit_env =
  ae_limit :: nat
  ae_float :: "string \<Rightarrow> pyfloat"
  ae_zone :: host_zone

definition audit_json_error :: "string json_error \<Rightarrow> audit_exc" where
  "audit_json_error e = (case e of JsonMalformed \<Rightarrow> AuditValueError ''audit record must be canonical UTF-8 JSON''
     | JsonTooDeep \<Rightarrow> AuditOther ''RecursionError'' | HookRaised m \<Rightarrow> AuditValueError m | _ \<Rightarrow> AuditUnmodelled)"

definition parse_audit_record :: "audit_env \<Rightarrow> nat list \<Rightarrow> audit_exc + pydict" where
  "parse_audit_record env rec =
     bind_r (au_check (rec \<noteq> [] \<and> length rec \<le> MAX_AUDIT_RECORD_BYTES) ''audit record byte length is invalid'') (\<lambda>_.
     case utf8_decode rec of
       None \<Rightarrow> Inl (AuditValueError ''audit record must be canonical UTF-8 JSON'')
     | Some points \<Rightarrow>
         if list_ex (\<lambda>p. 256 \<le> p) points then Inl AuditUnmodelled
         else (case json_loads (default_hooks id (ae_float env)) (ae_limit env) (map char_of points) of
           Inl e \<Rightarrow> Inl (audit_json_error e)
         | Inr v \<Rightarrow> bind_r (validate_event v) (\<lambda>event.
             bind_r (from_contract (to_canonical_json event)) (\<lambda>s.
             bind_r (au_check (utf8 s = rec) ''audit record must use exact canonical bytes'') (\<lambda>_. Inr event)))))"

definition canonical_batch_bytes :: "audit_env \<Rightarrow> nat list list \<Rightarrow> audit_exc + nat list" where
  "canonical_batch_bytes env records =
     bind_r (au_check (records \<noteq> [] \<and> length records \<le> MAX_AUDIT_RECORDS) ''audit batch record count outside contract'') (\<lambda>_.
     bind_r (map_r (parse_audit_record env) records) (\<lambda>events.
     bind_r (from_contract (to_canonical_json [(''records'', PList (map PDict events))])) (\<lambda>s.
     bind_r (au_check (length (utf8 s) \<le> MAX_AUDIT_BATCH_BYTES) ''audit batch exceeds byte limit'') (\<lambda>_.
     Inr (utf8 s)))))"

definition audit_batch_sha256 :: "audit_env \<Rightarrow> nat list list \<Rightarrow> audit_exc + string" where
  "audit_batch_sha256 env records =
     bind_r (canonical_batch_bytes env records) (\<lambda>bs. Inr (sha256_hex (utf8 AUDIT_BATCH_HASH_DOMAIN @ bs)))"

section \<open>The records of a run\<close>

definition identifier_hash :: "string \<Rightarrow> pyval \<Rightarrow> string \<Rightarrow> audit_exc + string" where
  "identifier_hash tag v field =
     bind_r (catch_r (require_bounded_text v field) (\<lambda>_. Inl (AuditValueError (field @ '' must be non-empty string'')))) (\<lambda>s.
     Inr (sha256_hex (utf8 tag @ utf8 s)))"

definition audit_request_id_hash :: "pyval \<Rightarrow> audit_exc + string" where
  "audit_request_id_hash v = identifier_hash AUDIT_REQUEST_ID_HASH_DOMAIN v ''request_id''"

definition audit_key_id_hash :: "pyval \<Rightarrow> audit_exc + string" where
  "audit_key_id_hash v = identifier_hash AUDIT_KEY_ID_HASH_DOMAIN v ''key_id''"

definition reason_for_result :: "v4_result \<Rightarrow> string" where
  "reason_for_result r =
    (if vr_verified r then V4_VERIFY_OK
     else let dominant = (case vr_dominant_reason_ids r of [] \<Rightarrow> [] | d # _ \<Rightarrow> d) in
     if dominant = ''SIGNATURE_BACKEND_NOT_CONFIGURED'' then V4_BACKEND_UNAVAILABLE
     else if dominant \<in> {''signature verifier failed closed'', ''signature verifier must return bool''} then V4_BACKEND_FAILURE
     else (case vr_state r of
         REJECTED_INVALID_RECEIPT \<Rightarrow> V4_CONTRACT_INVALID
       | REJECTED_CONTEXT_MISMATCH \<Rightarrow> V4_CONTEXT_MISMATCH
       | REJECTED_REQUEST_MISMATCH \<Rightarrow> V4_REQUEST_MISMATCH
       | REJECTED_TAMPERED_RECEIPT \<Rightarrow> V4_HASH_MISMATCH
       | REJECTED_DOWNGRADE \<Rightarrow> V4_DOWNGRADE_REJECTED
       | REJECTED_AUTHORITY_BYPASS \<Rightarrow> V4_AUTHORITY_BYPASS
       | REJECTED_SIGNATURE_POLICY \<Rightarrow> V4_POLICY_INVALID
       | REJECTED_KEY_REGISTRY \<Rightarrow> V4_REGISTRY_INVALID
       | REJECTED_FRESHNESS_WINDOW \<Rightarrow> V4_FRESHNESS_INVALID
       | REJECTED_REPLAY_RISK \<Rightarrow> V4_REPLAY_REJECTED
       | REJECTED_SIGNATURE_INVALID \<Rightarrow> V4_SIGNATURE_INVALID
       | _ \<Rightarrow> V4_CONTRACT_INVALID))"

text \<open>The inputs of the caller once checked.\<close>

record audit_inputs =
  ai_request_id :: string
  ai_context_hash :: string
  ai_transport_hash :: string
  ai_minimum :: int
  ai_time :: string

definition make_preflight_record :: "audit_inputs \<Rightarrow> bool \<Rightarrow> string \<Rightarrow> audit_exc + audit_record" where
  "make_preflight_record ai passed reason = bind_r (audit_request_id_hash (PStr (ai_request_id ai))) (\<lambda>h.
     Inr (PreflightRecord \<lparr>pf_schema_version = AUDIT_SCHEMA_VERSION, pf_event_type = ''verification_preflight'',
       pf_verifier_id = AUDIT_VERIFIER_ID, pf_timestamp = ai_time ai, pf_passed = passed, pf_reason_id = reason,
       pf_artifact_type = ''orchestrator_receipt'', pf_expected_artifact_schema_version = ''shield.receipt.v2'',
       pf_artifact_transport_hash = ai_transport_hash ai, pf_expected_request_id_hash = h,
       pf_expected_context_hash = ai_context_hash ai, pf_required_policy_version = ''policy.v1'',
       pf_minimum_registry_version = ai_minimum ai\<rparr>))"

definition make_signature_record :: "string \<Rightarrow> observation \<Rightarrow> audit_exc + audit_record" where
  "make_signature_record time ob = (let a = ob_artifact ob in
     bind_r (audit_request_id_hash (PStr (ar_request_id a))) (\<lambda>rh.
     bind_r (audit_key_id_hash (PStr (ob_key_id ob))) (\<lambda>kh.
     Inr (SignatureRecord \<lparr>av_schema_version = AUDIT_SCHEMA_VERSION, av_event_type = ''signature_verification'',
       av_verifier_id = AUDIT_VERIFIER_ID, av_timestamp = time, av_passed = ob_passed ob, av_reason_id = ob_reason_id ob,
       av_artifact_type = ar_type a, av_artifact_schema_version = ar_schema_version a, av_artifact_id = ar_id a,
       av_artifact_hash = ar_hash a, av_request_id_hash = rh, av_context_hash = ar_context_hash a,
       av_policy_version = ar_policy_version a, av_registry_version = ar_registry_version a,
       sr_key_id_hash = kh, sr_key_version = ob_key_version ob, sr_algorithm = ob_algorithm ob,
       sr_standard_profile = ob_standard_profile ob\<rparr>))))"

definition make_terminal_record :: "string \<Rightarrow> artifact \<Rightarrow> bool \<Rightarrow> string \<Rightarrow> audit_exc + audit_record" where
  "make_terminal_record time a passed reason = bind_r (audit_request_id_hash (PStr (ar_request_id a))) (\<lambda>rh.
     Inr (ArtifactRecord \<lparr>av_schema_version = AUDIT_SCHEMA_VERSION, av_event_type = ''artifact_verification'',
       av_verifier_id = AUDIT_VERIFIER_ID, av_timestamp = time, av_passed = passed, av_reason_id = reason,
       av_artifact_type = ar_type a, av_artifact_schema_version = ar_schema_version a, av_artifact_id = ar_id a,
       av_artifact_hash = ar_hash a, av_request_id_hash = rh, av_context_hash = ar_context_hash a,
       av_policy_version = ar_policy_version a, av_registry_version = ar_registry_version a\<rparr>))"

section \<open>The sink\<close>

text \<open>\<open>append_batch(records)\<close>: it raises (\<^const>\<open>Inl\<close>) or answers, and goes to its next state.\<close>

type_synonym 's audit_sink = "'s \<Rightarrow> nat list list \<Rightarrow> (unit + pyval) \<times> 's"

definition acknowledges :: "pyval \<Rightarrow> string \<Rightarrow> nat \<Rightarrow> bool" where
  "acknowledges answer batch_hash n = (case answer of
     PDict m \<Rightarrow> set (dkeys m) = set AUDIT_ACK_FIELDS \<and> dget m ''schema_version'' = PStr AUDIT_ACK_SCHEMA_VERSION \<and>
       dget m ''batch_sha256'' = PStr batch_hash \<and> dget m ''record_count'' = PInt (int n) \<and>
       dget m ''durably_committed'' = PBool True
   | _ \<Rightarrow> False)"

definition append_required_audit :: "audit_env \<Rightarrow> 's audit_sink \<Rightarrow> audit_record list \<Rightarrow> 's \<Rightarrow> (audit_exc + unit) \<times> 's" where
  "append_required_audit env sink records s =
    (case bind_r (map_r serialize_audit_record records) (\<lambda>bs. bind_r (audit_batch_sha256 env bs) (\<lambda>h. Inr (bs, h))) of
       Inl e \<Rightarrow> (Inl ShieldV4AuditSinkError, s)
     | Inr (bs, h) \<Rightarrow> (case sink s bs of
         (Inl _, s') \<Rightarrow> (Inl ShieldV4AuditSinkError, s')
       | (Inr answer, s') \<Rightarrow> (if acknowledges answer h (length bs) then Inr () else Inl ShieldV4AuditSinkError, s')))"

section \<open>The audited verification\<close>

definition check_audit_inputs :: "v4_inputs \<Rightarrow> pyval \<Rightarrow> audit_exc + audit_inputs" where
  "check_audit_inputs inp transport =
     bind_r (validate_timestamp (vi_time inp)) (\<lambda>time.
     bind_r (validate_sha256 (vi_context_hash inp) ''expected_context_hash'') (\<lambda>_.
     bind_r (validate_sha256 transport ''artifact_transport_hash'') (\<lambda>_.
     bind_r (catch_r (require_bounded_text (vi_request_id inp) ''expected_request_id'')
       (\<lambda>_. Inl (AuditValueError ''expected_request_id must be non-empty string''))) (\<lambda>rid.
     bind_r (catch_r (require_signed_integer (vi_minimum inp) ''minimum_key_registry_version'')
       (\<lambda>_. Inl (AuditValueError ''minimum_key_registry_version must be positive integer''))) (\<lambda>minimum.
     bind_r (au_check (0 < minimum) ''minimum_key_registry_version must be positive integer'') (\<lambda>_.
     bind_r (audit_request_id_hash (vi_request_id inp)) (\<lambda>_.
     Inr \<lparr>ai_request_id = rid, ai_context_hash = str_of (vi_context_hash inp), ai_transport_hash = str_of transport,
       ai_minimum = minimum, ai_time = time\<rparr>)))))))"

definition audit_records :: "audit_inputs \<Rightarrow> v4_result \<Rightarrow> transcript \<Rightarrow> audit_exc + audit_record list" where
  "audit_records ai result tr =
    (let terminal_reason = (case tr_rejection tr of None \<Rightarrow> reason_for_result result
           | Some r \<Rightarrow> if r = [] then reason_for_result result else r);
         validated = (tr_validated tr \<noteq> None) in
     bind_r (make_preflight_record ai validated (if validated then V4_VERIFY_OK else terminal_reason)) (\<lambda>preflight.
     bind_r (map_r (make_signature_record (ai_time ai)) (tr_observations tr)) (\<lambda>signatures.
     bind_r (case tr_validated tr of None \<Rightarrow> Inr []
       | Some a \<Rightarrow> bind_r (make_terminal_record (ai_time ai) a (vr_verified result) terminal_reason) (\<lambda>t. Inr [t])) (\<lambda>terminal.
     Inr (preflight # signatures @ terminal)))))"

text \<open>A failure before the sink is called leaves the state as it is.\<close>

definition append_then :: "audit_env \<Rightarrow> 's audit_sink \<Rightarrow> audit_exc + audit_record list \<Rightarrow> audit_exc + 'a \<Rightarrow> 's
    \<Rightarrow> (audit_exc + 'a) \<times> 's" where
  "append_then env sink records ending s = (case records of
     Inl e \<Rightarrow> (Inl e, s)
   | Inr rs \<Rightarrow> (case append_required_audit env sink rs s of (Inl e, s') \<Rightarrow> (Inl e, s') | (Inr _, s') \<Rightarrow> (ending, s')))"

definition verify_with_audit :: "audit_env \<Rightarrow> 's audit_sink \<Rightarrow> v4_inputs \<Rightarrow> pyval \<Rightarrow> 's \<Rightarrow> (audit_exc + v4_result) \<times> 's" where
  "verify_with_audit env sink inp transport s = (case check_audit_inputs inp transport of
     Inl e \<Rightarrow> (Inl e, s)
   | Inr ai \<Rightarrow>
       (case (case bounded_json_snapshot (vi_receipt inp) of
           Inl m \<Rightarrow> (Inl m, empty_transcript)
         | Inr snap \<Rightarrow> verify_receipt_v4 (ae_zone env) (inp\<lparr>vi_receipt := snap\<rparr>) True) of
         (Inl _, tr) \<Rightarrow> append_then env sink (bind_r (make_preflight_record ai False V4_CONTRACT_INVALID) (\<lambda>p. Inr [p]))
           (Inl (ShieldV4AuditedVerificationError V4_CONTRACT_INVALID)) s
       | (Inr result, tr) \<Rightarrow> append_then env sink (audit_records ai result tr) (Inr result) s))"

end
