(* ===== verification/Shield_V4_Audit_Transcript.thy ===== *)
theory Shield_V4_Audit_Transcript
  imports Shield_V4_Audit Shield_V4_Crypto_Facts
begin

text \<open>
  What the verifier reports to its observer is material for valid audit records: every artifact
  and every signature attempt has the fields the audit schema allows, and every rejection has an
  allowlisted reason.
\<close>

section \<open>Parts of a bounded value\<close>

lemma exact_items_member: "json_exact_items m \<Longrightarrow> (k, v) \<in> set m \<Longrightarrow> json_exact v"
  by (induction m) auto

lemma exact_list_member: "json_exact_list xs \<Longrightarrow> x \<in> set xs \<Longrightarrow> json_exact x"
  by (induction xs) auto

lemma exact_dget: "json_exact (PDict m) \<Longrightarrow> json_exact (dget m k)"
  using exact_items_member map_of_SomeD by (fastforce simp: dget_def split: option.split)

lemma exact_dict_list:
  assumes "json_exact v" "m \<in> set (dict_list v)"
  shows "json_exact (PDict m)"
proof -
  obtain xs x where x: "v = PList xs" "x \<in> set xs" "m = (case x of PDict d \<Rightarrow> d | _ \<Rightarrow> [])"
    using assms by (cases v) (auto simp: dict_list_def)
  then have "json_exact x" using assms(1) exact_list_member by simp
  then show ?thesis using x(3) by (cases x) (simp_all add: dkeys_def)
qed

text \<open>A text the audit hashes as an identifier.\<close>

definition identifier_ok :: "string \<Rightarrow> bool" where
  "identifier_ok s \<longleftrightarrow> s \<noteq> [] \<and> short_text s"

lemma identifier_bounded: "identifier_ok s \<Longrightarrow> require_bounded_text (PStr s) f = Inr s"
  by (auto simp: identifier_ok_def require_bounded_text_def short_text_def)

lemma utf8_drop: "length (utf8 (dropWhile p s)) \<le> length (utf8 s)"
  by (induction s) (auto simp: utf8_def)

lemma utf8_rev: "length (utf8 (rev s)) = length (utf8 s)"
  by (induction s) (simp_all add: utf8_def)

lemma short_strip: "short_text s \<Longrightarrow> short_text (py_strip s)"
proof -
  have "length (utf8 (py_strip s)) \<le> length (utf8 s)"
    using utf8_drop[of py_isspace "rev (dropWhile py_isspace s)"] utf8_drop[of py_isspace s]
    by (simp add: py_strip_def utf8_rev)
  moreover have "length (py_strip s) \<le> length s"
    using length_dropWhile_le[of py_isspace "rev (dropWhile py_isspace s)"] length_dropWhile_le[of py_isspace s]
    by (simp add: py_strip_def)
  ultimately show "short_text s \<Longrightarrow> ?thesis" by (simp add: short_text_def)
qed

section \<open>Artifacts and attempts\<close>

definition artifact_ok :: "artifact \<Rightarrow> bool" where
  "artifact_ok a \<longleftrightarrow>
     (ar_type a = ''component_verdict'' \<and> ar_schema_version a = VERDICT_SCHEMA_VERSION \<and> ar_id a \<in> set (map fst COMPONENT_ROLES) \<or>
      ar_type a = ''orchestrator_receipt'' \<and> ar_schema_version a = RECEIPT_SCHEMA_VERSION \<and> ar_id a = ''shield_orchestrator'') \<and>
     is_sha256_hex (ar_hash a) \<and> identifier_ok (ar_request_id a) \<and> is_sha256_hex (ar_context_hash a) \<and>
     ar_policy_version a = SIGNATURE_POLICY \<and> 0 < ar_registry_version a \<and> signed_integer_ok (ar_registry_version a)"

definition entry_ok :: "prepared_entry \<Rightarrow> bool" where
  "entry_ok p \<longleftrightarrow> identifier_ok (pe_key_id p) \<and> 0 < pe_key_version p \<and> signed_integer_ok (pe_key_version p) \<and>
     pe_algorithm p \<in> set ALLOWED_ALGORITHMS \<and> pe_standard_profile p \<in> set (algorithm_standard_profiles (pe_algorithm p))"

definition observation_ok :: "observation \<Rightarrow> bool" where
  "observation_ok ob \<longleftrightarrow> artifact_ok (ob_artifact ob) \<and> identifier_ok (ob_key_id ob) \<and> 0 < ob_key_version ob \<and>
     signed_integer_ok (ob_key_version ob) \<and> ob_algorithm ob \<in> set ALLOWED_ALGORITHMS \<and>
     ob_standard_profile ob \<in> set (algorithm_standard_profiles (ob_algorithm ob)) \<and>
     ob_reason_id ob \<in> {V4_VERIFY_OK, V4_SIGNATURE_INVALID, V4_BACKEND_FAILURE} \<and> (ob_reason_id ob = V4_VERIFY_OK \<longleftrightarrow> ob_passed ob)"

lemma reason_ids_differ [simp]:
  "V4_SIGNATURE_INVALID \<noteq> V4_VERIFY_OK" "V4_BACKEND_FAILURE \<noteq> V4_VERIFY_OK"
  by (simp_all add: V4_SIGNATURE_INVALID_def V4_VERIFY_OK_def V4_BACKEND_FAILURE_def)

lemma invoke_observation:
  assumes "invoke_resolved_signature verifier a e tr = (x, tr')" "artifact_ok a" "entry_ok (re_prepared e)"
    "list_all observation_ok (tr_observations tr)"
  shows "list_all observation_ok (tr_observations tr')"
  using assms by (auto simp: invoke_resolved_signature_def observe_signature_def observation_ok_def entry_ok_def Let_def
      split: sum.splits pyval.splits bool.splits)

lemma waves_observations:
  "verify_waves verifier steps results budget tr = (x, tr') \<Longrightarrow>
     \<forall>(a, b) \<in> set steps. artifact_ok (rb_artifact b) \<and> (\<forall>e \<in> set (rb_entries b). entry_ok (re_prepared e)) \<Longrightarrow>
     list_all observation_ok (tr_observations tr) \<Longrightarrow> list_all observation_ok (tr_observations tr')"
proof (induction verifier steps results budget tr rule: verify_waves.induct)
  case (2 verifier a b steps results budget tr)
  show ?case
  proof (cases "filter (\<lambda>e. pe_algorithm (re_prepared e) = a) (rb_entries b)")
    case Nil
    then show ?thesis using "2.IH"(1)[OF Nil] "2.prems" by auto
  next
    case f: (Cons y ys)
    then have y: "y \<in> set (rb_entries b)" by (metis filter_is_subset list.set_intros(1) subsetD)
    show ?thesis
    proof (cases ys)
      case Nil
      show ?thesis
      proof (cases "before_callback a budget")
        case (Inl err)
        then show ?thesis using "2.prems" f Nil by auto
      next
        case bc: (Inr b1)
        obtain z tr1 where i: "invoke_resolved_signature verifier (rb_artifact b) y tr = (z, tr1)" by fastforce
        have o1: "list_all observation_ok (tr_observations tr1)" using invoke_observation[OF i] "2.prems"(2,3) y by auto
        show ?thesis
        proof (cases z)
          case (Inl err)
          then show ?thesis using "2.prems"(1) f Nil bc i o1 by auto
        next
          case (Inr r)
          then have w: "verify_waves verifier steps (results(rb_id b := results (rb_id b) @ [r])) b1 tr1 = (x, tr')"
            using "2.prems"(1) f Nil bc i by simp
          then show ?thesis using "2.IH"(2)[OF f Nil bc i[symmetric] Inr w] "2.prems"(2) o1 by auto
        qed
      qed
    next
      case (Cons w ws)
      then show ?thesis using "2.prems" f by auto
    qed
  qed
qed simp

section \<open>The artifacts of a receipt\<close>

lemma prepared_entry_ok:
  assumes "prepare_entry h d before raw = Inr p" "json_exact raw"
  shows "entry_ok p"
proof -
  obtain s where "raw = PDict (pe_entry p)" "dget (pe_entry p) ''key_id'' = PStr s" "\<not> py_blank s" "pe_key_id p = py_strip s"
    "0 < pe_key_version p" "signed_integer_ok (pe_key_version p)" "pe_algorithm p \<in> set ALLOWED_ALGORITHMS"
    "pe_standard_profile p \<in> set (algorithm_standard_profiles (pe_algorithm p))"
    using assms(1) by (auto simp: prepare_entry_def res_simps)
  then show ?thesis
    using exact_dget[of "pe_entry p" "''key_id''"] assms(2) by (simp add: entry_ok_def identifier_ok_def short_strip py_blank_def py_strip_eq_Nil)
qed

lemma prepared_entries_ok:
  "prepare_entries h d before es = Inr ps \<Longrightarrow> json_exact_list es \<Longrightarrow> list_all entry_ok before \<Longrightarrow> list_all entry_ok ps"
proof (induction es arbitrary: before)
  case (Cons e es)
  obtain p where p: "prepare_entry h d before e = Inr p" "prepare_entries h d (before @ [p]) es = Inr ps"
    using Cons.prems(1) by (auto simp: res_simps)
  show ?case using Cons.IH[OF p(2)] prepared_entry_ok[OF p(1)] Cons.prems(2,3) by simp
qed simp

lemma prepared_bundle_ok:
  assumes "preflight_bundle bundle h d = Inr ps" "json_exact bundle"
  shows "list_all entry_ok ps"
proof -
  obtain b sigs eh ed where b: "bundle = PDict b" "dget b ''signatures'' = PList sigs" "prepare_entries eh ed [] sigs = Inr ps"
    using assms(1) by (auto simp: preflight_bundle_def res_simps)
  have "json_exact_list sigs" using exact_dget[of b "''signatures''"] assms(2) b(1,2) by simp
  then show ?thesis using prepared_entries_ok[OF b(3)] by simp
qed

text \<open>A required hash equal to one of 64 hexadecimal digits is that text.\<close>

lemma strip_full: "length (py_strip s) = length s \<Longrightarrow> py_strip s = s"
proof -
  let ?a = "dropWhile py_isspace s"
  assume l: "length (py_strip s) = length s"
  then have "length (dropWhile py_isspace (rev ?a)) = length (rev ?a)" "length ?a = length s"
    using length_dropWhile_le[of py_isspace "rev ?a"] length_dropWhile_le[of py_isspace s] by (simp_all add: py_strip_def)
  then show "py_strip s = s" by (simp add: py_strip_def dropWhile_length)
qed

lemma required_context:
  assumes "v4_require_hash v f = Inr c" "v4_require_hash (PStr h) g = Inr c" "is_sha256_hex h"
  shows "v = PStr h"
proof -
  note h = hex_required_v4[OF assms(3)]
  have c: "c = h" using assms(2) h(1)[of g] by simp
  obtain s where "v = PStr s" "length s = 64" "c = py_strip s" using assms(1) by (auto simp: v4_require_hash_ok)
  then show ?thesis using strip_full[of s] h(2) c by simp
qed

lemma positive_field:
  assumes "v4_require_positive_int v f = Inr i"
  shows "0 < int_field v" "signed_integer_ok (int_field v)"
  using assms by (auto simp: v4_require_positive_int_ok int_field_def)

lemma identifier_of_exact:
  assumes "json_exact v" "v4_require_str v f = Inr c"
  shows "identifier_ok (str_of v)"
  using assms by (auto simp: v4_require_str_def identifier_ok_def str_of_def split: pyval.splits if_splits)

lemma receipt_artifact_ok:
  assumes "preflight_bounded_receipt h snap = Inr r" "json_exact snap" "is_sha256_hex h"
    "validate_preflighted_receipt_integrity r = Inr r"
  shows "artifact_ok (receipt_artifact r)"
proof -
  obtain ch c i where c: "snap = PDict r" "dget r ''signature_policy'' = PStr SIGNATURE_POLICY"
    "v4_require_hash (dget r ''context_hash'') ''context_hash'' = Inr ch"
    "v4_require_hash (PStr h) ''expected_context_hash'' = Inr ch" "v4_require_str (dget r ''request_id'') ''request_id'' = Inr c"
    "v4_require_positive_int (dget r ''key_registry_version'') ''key_registry_version'' = Inr i"
    using assms(1) by (auto simp: preflight_bounded_receipt_def bind_r_eq_Inr v4_check_def check_r_def split: pyval.splits if_splits)
  have e: "json_exact (dget r ''request_id'')" using exact_dget assms(2) c(1) by blast
  obtain ph where "signed_payload_hash ORCHESTRATOR_RECEIPT_DOMAIN (unsigned_receipt_payload r) = Inr ph"
    "PStr ph = dget r ''signed_payload_hash''"
    using assms(4) by (auto simp: validate_preflighted_receipt_integrity_def receipt_hashes_def res_simps Let_def)
  then have "dget r ''signed_payload_hash'' = PStr ph" "is_sha256_hex ph" by (simp_all add: signed_payload_hash_hex)
  then show ?thesis
    using required_context[OF c(3,4) assms(3)] c(2) identifier_of_exact[OF e c(5)] positive_field[OF c(6)] assms(3)
    by (simp add: artifact_ok_def receipt_artifact_def artifact_of_def str_of_def)
qed

lemma component_artifact_ok:
  assumes "preflight_component_verdict_contract h (PDict m) = Inr m" "json_exact (PDict m)" "is_sha256_hex h"
    "validate_component_canonical_integrity m = Inr ()" "prepare_component m = Inr pc"
  shows "artifact_ok (pc_artifact pc)" "list_all entry_ok (pc_bundle pc)"
proof -
  obtain ch c i where c: "dget m ''signature_policy'' = PStr SIGNATURE_POLICY"
    "v4_require_hash (dget m ''context_hash'') ''context_hash'' = Inr ch"
    "v4_require_hash (PStr h) ''expected_context_hash'' = Inr ch" "v4_require_str (dget m ''request_id'') ''request_id'' = Inr c"
    "v4_require_positive_int (dget m ''key_registry_version'') ''key_registry_version'' = Inr i"
    using assms(1) by (auto simp: preflight_component_verdict_contract_def bind_r_eq_Inr v4_check_def check_r_def split: if_splits)
  obtain ph where ph: "dget m ''signed_payload_hash'' = PStr ph" "is_sha256_hex ph"
    using assms(4) by (auto simp: validate_component_canonical_integrity_def res_simps signed_payload_hash_hex)
  have "pc_artifact pc = artifact_of ''component_verdict'' VERDICT_SCHEMA_VERSION (str_of (dget m ''component_id'')) m"
    using assms(5) by (auto simp: prepare_component_def Let_def res_simps split: option.splits)
  moreover have "str_of (dget m ''component_id'') \<in> set (map fst COMPONENT_ROLES)"
    using prepare_component_ok(2)[OF assms(5)] by (metis domI dom_map_of_conv_image_fst list.set_map)
  ultimately show "artifact_ok (pc_artifact pc)"
    using required_context[OF c(2,3) assms(3)] c(1) identifier_of_exact[OF exact_dget[OF assms(2)] c(4)] positive_field[OF c(5)] assms(3) ph
    by (simp add: artifact_ok_def artifact_of_def str_of_def)
  show "list_all entry_ok (pc_bundle pc)"
    using prepared_bundle_ok[OF prepare_component_ok(5)[OF assms(5)] exact_dget[OF assms(2)]] .
qed

section \<open>The resolved bundles\<close>

lemma list_all2_source: "list_all2 P xs ys \<Longrightarrow> \<forall>y \<in> set ys. \<exists>x \<in> set xs. P x y"
  by (induction rule: list_all2_induct) auto

lemma candidate_cases:
  assumes "length (pb_components pr) = 5" "set (map pc_component_id (pb_components pr)) = set SUPPORTED_COMPONENTS"
    "c \<in> set (candidates_of pr)"
  shows "(\<exists>pc \<in> set (pb_components pr). ca_bundle c = pc_bundle pc \<and> ca_artifact c = pc_artifact pc) \<or>
    ca_bundle c = pb_orchestrator pr \<and> ca_artifact c = pb_artifact pr"
proof -
  have d: "distinct (map pc_component_id (pb_components pr))"
    using assms(1,2) by (intro distinct_of_length_set[of _ SUPPORTED_COMPONENTS]) auto
  have "\<exists>pc \<in> set (pb_components pr). components_by_id (pb_components pr) cid = Some pc" if cid: "cid \<in> set SUPPORTED_COMPONENTS" for cid
  proof -
    obtain pc where "pc \<in> set (pb_components pr)" "pc_component_id pc = cid"
      using assms(2) cid by (metis (no_types, lifting) image_iff list.set_map)
    then show ?thesis using components_by_id_self[OF d] by blast
  qed
  then show ?thesis using assms(3) unfolding candidates_of_def by (fastforce simp: Let_def)
qed

lemma bounded_components:
  assumes "preflight_bounded_receipt h snap = Inr r" "is_sha256_hex h" "c \<in> set (dict_list (dget r ''component_verdicts''))"
  shows "preflight_component_verdict_contract h (PDict c) = Inr c"
proof -
  obtain ch ms where r: "v4_require_hash (PStr h) ''expected_context_hash'' = Inr ch"
    "preflight_component_set ch (dget r ''component_verdicts'') = Inr ms"
    using assms(1) by (auto simp: preflight_bounded_receipt_def bind_r_eq_Inr v4_check_def check_r_def split: pyval.splits if_splits)
  then have ch: "ch = h" using hex_required_v4(1)[OF assms(2), of "''expected_context_hash''"] by simp
  obtain xs where xs: "dget r ''component_verdicts'' = PList xs" "preflight_components h [] xs = Inr ms"
    using r(2) by (auto simp: preflight_component_set_def ch split: pyval.splits if_splits)
  note p = preflight_components_ok[OF xs(2)]
  have "dict_list (dget r ''component_verdicts'') = ms" using p xs(1) by (simp add: dict_list_def comp_def)
  then show ?thesis using p assms(3) by (auto simp: list_all_iff)
qed

lemma ready_ok:
  assumes "prepare_verification lz inp False = Inr rd" "vi_context_hash inp = PStr h" "is_sha256_hex h"
    "bounded_json_snapshot (vi_receipt inp) = Inr (vi_receipt inp)"
  shows "artifact_ok (receipt_artifact (rd_valid rd))"
    "\<forall>(a, b) \<in> set (wave_steps (rd_resolved rd)). artifact_ok (rb_artifact b) \<and> (\<forall>e \<in> set (rb_entries b). entry_ok (re_prepared e))"
proof -
  obtain h' rid minimum valid prepared where p: "check_inputs inp = Inr (h', rid, minimum)"
    "preflight_stage inp False h' = Inr valid" "preflight_receipt_bundles valid = Inr prepared"
    "trust_checks lz inp minimum valid prepared = Inr (rd_registry rd, rd_resolved rd)"
    "validate_preflighted_receipt_integrity valid = Inr valid" "rd_valid rd = valid"
    using assms(1) by (rule prepare_verification_ok)
  have b: "preflight_bounded_receipt h (vi_receipt inp) = Inr valid"
    using p(2) check_inputs_ok(1)[OF p(1)] assms(2,4) by (simp add: preflight_stage_def bind_r_eq_Inr catch_r_eq_Inr)
  have x: "json_exact (vi_receipt inp)" using assms(4) by (simp add: bounded_snapshot_iff)
  have v: "json_exact (PDict valid)" using x preflight_bounded_ok(1)[OF b] by simp
  note t = trust_checks_ok[OF p(4)]
  note k = preflight_receipt_bundles_ok[OF p(3)]
  show r: "artifact_ok (receipt_artifact (rd_valid rd))" using receipt_artifact_ok[OF b x assms(3) p(5)] p(6) by simp
  have o: "list_all entry_ok (pb_orchestrator prepared)" using prepared_bundle_ok[OF k(2) exact_dget[OF v]] .
  have pb: "pb_artifact prepared = receipt_artifact valid" using p(3) by (auto simp: preflight_receipt_bundles_def res_simps)
  have c: "artifact_ok (pc_artifact pc) \<and> list_all entry_ok (pc_bundle pc)" if pc: "pc \<in> set (pb_components prepared)" for pc
  proof -
    obtain m where m: "m \<in> set (dict_list (dget valid ''component_verdicts''))" "prepare_component m = Inr pc"
      using list_all2_source[OF k(1)] pc by blast
    have "validate_component_canonical_integrity m = Inr ()"
      using p(5) m(1) by (auto simp: validate_preflighted_receipt_integrity_def res_simps Let_def)
    then show ?thesis
      using component_artifact_ok[OF bounded_components[OF b assms(3) m(1)] exact_dict_list[OF exact_dget[OF v] m(1)] assms(3)] m(2)
      by blast
  qed
  have "artifact_ok (rb_artifact b) \<and> (\<forall>e \<in> set (rb_entries b). entry_ok (re_prepared e))" if b: "b \<in> set (rd_resolved rd)" for b
  proof -
    obtain q where q: "q \<in> set (candidates_of prepared)" "resolve_candidate lz (rd_registry rd) (vi_time inp) q = Inr b"
      using map_r_set[OF t(6) b] by auto
    have a: "rb_artifact b = ca_artifact q" using q(2) by (auto simp: resolve_candidate_def res_simps)
    have "list_all entry_ok (ca_bundle q) \<and> artifact_ok (ca_artifact q)"
      using candidate_cases[OF t(4,5) q(1)] c o pb r p(6) by auto
    then show ?thesis using a resolve_candidate_ok(3)[OF q(2)] by (metis (no_types, lifting) image_eqI list.set_map list_all_iff)
  qed
  then show "\<forall>(a, b) \<in> set (wave_steps (rd_resolved rd)). artifact_ok (rb_artifact b) \<and> (\<forall>e \<in> set (rb_entries b). entry_ok (re_prepared e))"
    by (auto simp: wave_steps_def)
qed

section \<open>Reasons\<close>

text \<open>What a run that ends before the callbacks reports.\<close>

definition told_ok :: "string option \<Rightarrow> bool" where
  "told_ok t \<longleftrightarrow> (case t of None \<Rightarrow> True | Some r \<Rightarrow> r \<noteq> [] \<and> r \<noteq> V4_VERIFY_OK \<and> r \<in> set AUDIT_REASON_IDS)"

definition end_ok :: "v4_end \<Rightarrow> bool" where
  "end_ok e \<longleftrightarrow> (case e of Ends r told \<Rightarrow> \<not> vr_verified r \<and> told_ok told | Escapes _ \<Rightarrow> True)"

lemmas reason_texts = AUDIT_REASON_IDS_def V4_VERIFY_OK_def V4_CONTRACT_INVALID_def V4_CONTEXT_MISMATCH_def
  V4_REQUEST_MISMATCH_def V4_HASH_MISMATCH_def V4_DOWNGRADE_REJECTED_def V4_AUTHORITY_BYPASS_def V4_POLICY_INVALID_def
  V4_REGISTRY_INVALID_def V4_FRESHNESS_INVALID_def V4_REPLAY_REJECTED_def V4_SIGNATURE_INVALID_def
  V4_BACKEND_UNAVAILABLE_def V4_BACKEND_FAILURE_def

lemma contract_reason_ok: "told_ok (Some (audit_reason_for_contract_error e))"
  by (auto simp: told_ok_def audit_reason_for_contract_error_def Let_def reason_texts split: v4_error.split)

lemma ends_ok [simp]:
  "end_ok (invalid_input d)" "end_ok (contract_end p e)" "end_ok (bundles_end v x)" "end_ok (rejection_end v x)"
  "end_ok (reject_with st reason v d)"
  "end_ok (Ends (v4_rejected st reason payload d) (Some ''V4_FRESHNESS_INVALID''))"
  using contract_reason_ok[of e]
  by (auto simp: end_ok_def invalid_input_def contract_end_def bundles_end_def rejection_end_def reject_with_def told_ok_def
      reason_texts split: v4_error.splits v4_exc.splits prod.splits)

lemma prepare_verification_ends_ok: "raises_only end_ok (prepare_verification lz inp snap)"
  unfolding prepare_verification_def check_inputs_def preflight_stage_def replay_stage_def
  by (auto intro!: raises_intros raises_catch raises_only_Inl split: option.splits)

lemma reason_for_result_ok:
  "reason_for_result r \<in> set AUDIT_REASON_IDS" "reason_for_result r = V4_VERIFY_OK \<longleftrightarrow> vr_verified r" "reason_for_result r \<noteq> []"
proof -
  show "reason_for_result r \<in> set AUDIT_REASON_IDS"
    by (simp add: reason_for_result_def AUDIT_REASON_IDS_def Let_def split: v4_state.split)
  have "reason_for_result r \<noteq> V4_VERIFY_OK \<and> reason_for_result r \<noteq> []" if "\<not> vr_verified r"
    using that by (simp add: reason_for_result_def Let_def reason_texts split: v4_state.split)
  then show "reason_for_result r = V4_VERIFY_OK \<longleftrightarrow> vr_verified r" "reason_for_result r \<noteq> []"
    by (auto simp: reason_for_result_def V4_VERIFY_OK_def)
qed

text \<open>
  The transcript of a run that returns a result: nothing was validated and the result is a
  rejection, or the receipt was validated and everything observed is auditable.
\<close>

lemma transcript_ok:
  assumes "verify_receipt_v4 lz inp False = (Inr result, tr)" "vi_context_hash inp = PStr h" "is_sha256_hex h"
    "bounded_json_snapshot (vi_receipt inp) = Inr (vi_receipt inp)"
  shows "told_ok (tr_rejection tr)" "list_all observation_ok (tr_observations tr)" "length (tr_observations tr) \<le> 18"
    "case tr_validated tr of None \<Rightarrow> \<not> vr_verified result \<and> tr_observations tr = []
     | Some a \<Rightarrow> artifact_ok a \<and> tr_rejection tr = None"
proof -
  have "told_ok (tr_rejection tr) \<and> list_all observation_ok (tr_observations tr) \<and> length (tr_observations tr) \<le> 18 \<and>
    (case tr_validated tr of None \<Rightarrow> \<not> vr_verified result \<and> tr_observations tr = [] | Some a \<Rightarrow> artifact_ok a \<and> tr_rejection tr = None)"
  proof (cases "prepare_verification lz inp False")
    case (Inl e)
    then have "end_ok e" using prepare_verification_ends_ok[of lz inp False] by (simp add: raises_only_def)
    then show ?thesis using Inl assms(1)
      by (cases e) (auto simp: verify_receipt_v4_def end_ok_def empty_transcript_def)
  next
    case (Inr rd)
    note r = ready_ok[OF Inr assms(2-4)]
    let ?tr0 = "empty_transcript\<lparr>tr_validated := Some (receipt_artifact (rd_valid rd))\<rparr>"
    obtain x tr' where w: "verify_waves (rd_verifier rd) (wave_steps (rd_resolved rd)) (\<lambda>_. [])
        \<lparr>cb_total = 0, cb_pqc = 0\<rparr> ?tr0 = (x, tr')" by fastforce
    have "tr' = tr" using Inr w assms(1)
      by (auto simp: verify_receipt_v4_def verify_global_algorithm_waves_def split: sum.splits prod.splits v4_exc.splits)
    have "length (rd_resolved rd) = 6"
      using Inr by (rule prepare_verification_ok)
        (auto dest!: trust_checks_ok(6) map_r_length simp: candidates_of_def SUPPORTED_COMPONENTS_def)
    then have "length (wave_steps (rd_resolved rd)) = 18"
      by (simp add: wave_steps_def ALLOWED_ALGORITHMS_def V4_REQUIRED_ALGORITHMS_def)
    then have "length (tr_observations tr') \<le> 18"
      using verify_waves_transcript[OF w] list_emb_length by (fastforce simp: empty_transcript_def)
    with \<open>tr' = tr\<close> show ?thesis using waves_observations[OF w r(2)] verify_waves_transcript[OF w] r(1)
      by (auto simp: empty_transcript_def told_ok_def)
  qed
  then show "told_ok (tr_rejection tr)" "list_all observation_ok (tr_observations tr)" "length (tr_observations tr) \<le> 18"
    "case tr_validated tr of None \<Rightarrow> \<not> vr_verified result \<and> tr_observations tr = []
     | Some a \<Rightarrow> artifact_ok a \<and> tr_rejection tr = None" by auto
qed

end
