(* ===== verification/Shield_V4_Canonical.thy ===== *)
theory Shield_V4_Canonical
  imports Json_Default Shield_V4_Receipt
begin

text \<open>
  The canonical JSON of the Shield v4 contract determines what was signed: \<open>_normalise\<close> leaves a
  value the JSON scanner reads back, so two payloads with the same signed bytes have the same
  domain and the same content, up to the order of keys and tuples written as lists.
\<close>

section \<open>What normalisation leaves\<close>

lemma exact_json_mono: "exact_json P l v \<Longrightarrow> l \<le> k \<Longrightarrow> exact_json P k v"
proof (induction P l v arbitrary: k rule: exact_json.induct)
  case (5 P l xs)
  then show ?case by (cases k) (auto simp: list_all_iff)
next
  case (6 P l m)
  then show ?case by (cases k) (auto simp: list_all_iff)
qed simp_all

lemma exact_json_all_mono: "list_all (exact_json P l) xs \<Longrightarrow> l \<le> k \<Longrightarrow> list_all (exact_json P k) xs"
  by (auto simp: list_all_iff intro: exact_json_mono)

text \<open>The shape of a normalised value, nested at most \<open>l\<close> deep; its integers may be too long to print.\<close>

fun json_shape :: "nat \<Rightarrow> pyval \<Rightarrow> bool" where
  "json_shape (Suc l) (PList xs) = list_all (json_shape l) xs"
| "json_shape (Suc l) (PDict m) = (distinct (dkeys m) \<and> list_all (json_shape l) (map snd m))"
| "json_shape l (PStr s) = True"
| "json_shape l (PBool b) = True"
| "json_shape l (PInt i) = True"
| "json_shape l v = False"

lemma json_shape_mono: "json_shape l v \<Longrightarrow> l \<le> k \<Longrightarrow> json_shape k v"
proof (induction l v arbitrary: k rule: json_shape.induct)
  case (1 l xs)
  then show ?case by (cases k) (auto simp: list_all_iff)
next
  case (2 l m)
  then show ?case by (cases k) (auto simp: list_all_iff)
qed simp_all

lemma json_shapes_mono: "list_all (json_shape l) xs \<Longrightarrow> l \<le> k \<Longrightarrow> list_all (json_shape k) xs"
  by (auto simp: list_all_iff intro: json_shape_mono)

lemma normalise_shape:
  "normalise path v = Inr w \<Longrightarrow> \<exists>l. json_shape l w"
  "normalise_list path i xs = Inr ys \<Longrightarrow> \<exists>l. list_all (json_shape l) ys"
  "normalise_items path out m = Inr n \<Longrightarrow> distinct (dkeys out) \<Longrightarrow> \<exists>l. list_all (json_shape l) (map snd out) \<Longrightarrow>
     distinct (dkeys n) \<and> (\<exists>l. list_all (json_shape l) (map snd n))"
proof (induction path v and path i xs and path out m arbitrary: w and ys and n rule: normalise_normalise_list_normalise_items.induct)
  case (6 path xs)
  then show ?case by (auto simp: res_simps) (metis json_shape.simps(1))
next
  case (7 path xs)
  then show ?case by (auto simp: res_simps) (metis json_shape.simps(1))
next
  case (9 path m)
  then obtain n where "w = PDict n" "distinct (dkeys n)" "\<exists>l. list_all (json_shape l) (map snd n)"
    by (auto simp: res_simps dkeys_def)
  then show ?case by (metis json_shape.simps(2))
next
  case (11 path i x xs)
  then obtain y zs where y: "normalise (path @ ''['' @ show_nat i @ '']'') x = Inr y" "normalise_list path (i + 1) xs = Inr zs"
    "ys = y # zs" by (auto simp: res_simps)
  obtain k l where "json_shape k y" "list_all (json_shape l) zs" using 11(1)[OF y(1)] 11(2)[OF y(1,2)] by blast
  then show ?case
    using json_shape_mono[of k y "max k l"] json_shapes_mono[of l zs "max k l"]
    by (intro exI[of _ "max k l"]) (simp add: y(3))
next
  case (13 path out k v m)
  then obtain w a b where w: "normalise (path @ ''.'' @ k) v = Inr w" "\<not> has_key out k" "json_shape a w"
    "list_all (json_shape b) (map snd out)" "normalise_items path (out @ [(k, w)]) m = Inr n"
    by (auto simp: res_simps split: if_splits)
  have "\<exists>l. list_all (json_shape l) (map snd (out @ [(k, w)]))"
    using json_shape_mono[OF w(3), of "max a b"] json_shapes_mono[OF w(4), of "max a b"] by (intro exI[of _ "max a b"]) simp
  moreover have "distinct (dkeys (out @ [(k, w)]))" using w(2) 13(4) by (auto simp: has_key_def dkeys_def)
  ultimately show ?case using 13(2)[OF w(2,1,5)] by blast
qed (auto simp: v4_fail_def)

text \<open>Printed, such a value has integers short enough for the round trip.\<close>

lemma json_list_member: "json_list a n xs = Inr ss \<Longrightarrow> x \<in> set xs \<Longrightarrow> \<exists>s. json_val a n x = Inr s"
  by (induction xs arbitrary: ss) (auto simp: bind_r_eq_Inr)

lemma json_items_member: "json_items a n m = Inr kvs \<Longrightarrow> v \<in> snd ` set m \<Longrightarrow> \<exists>s. json_val a n v = Inr s"
  by (induction m arbitrary: kvs) (force simp: bind_r_eq_Inr)+

lemma printed_exact: "json_shape l v \<Longrightarrow> json_val a n v = Inr s \<Longrightarrow> exact_json (\<lambda>_. True) l v"
proof (induction l v arbitrary: s rule: json_shape.induct)
  case (1 l xs)
  then obtain ss where "json_list a n xs = Inr ss" by (auto simp: bind_r_eq_Inr)
  then show ?case using 1(1,2) json_list_member by (fastforce simp: list_all_iff)
next
  case (2 l m)
  then obtain kvs where "json_items a n m = Inr kvs" by (auto simp: bind_r_eq_Inr)
  then show ?case using 2(1,2) json_items_member by (fastforce simp: list_all_iff)
qed (auto simp: json_int_ok)

lemma exact_sorted: "exact_json P l (sorted_json v) \<longleftrightarrow> exact_json P l v"
proof (induction P l v rule: exact_json.induct)
  case (5 P l xs)
  then show ?case by (simp add: sorted_list_map list_all_iff)
next
  case (6 P l m)
  have "mset (dkeys (sort_key fst (sorted_items m))) = mset (dkeys m)"
    by (simp add: dkeys_def sorted_items_map case_prod_unfold image_mset.compositionality comp_def)
  then have "distinct (dkeys (sort_key fst (sorted_items m))) \<longleftrightarrow> distinct (dkeys m)"
    by (rule mset_eq_imp_distinct_iff)
  moreover have "snd ` set (sort_key fst (sorted_items m)) = sorted_json ` snd ` set m"
    by (force simp: sorted_items_map)
  ultimately show ?case using 6 by (simp add: list_all_iff)
qed simp_all

lemma normalise_printed:
  assumes "normalise ''$'' (PDict m) = Inr v" "json_val False False v = Inr s"
  shows "\<exists>l. exact_json (\<lambda>_. True) l v"
  using normalise_shape(1)[OF assms(1)] printed_exact[OF _ assms(2)] by blast

section \<open>The bytes determine the value\<close>

text \<open>Hooks that accept every integer; only the proof uses them.\<close>

definition exact_hooks :: "unit json_hooks" where
  "exact_hooks = \<lparr>jh_object = (\<lambda>ps. Inr (PDict ps)), jh_float = (\<lambda>_. Inl ()),
     jh_int = (\<lambda>t. Inr (PInt (case t of c # ds \<Rightarrow> if c = CHR ''-'' then - int (decimal_value ds) else int (decimal_value t)
       | [] \<Rightarrow> 0))), jh_constant = (\<lambda>_. Inl ())\<rparr>"

lemma decimal_value_show: "decimal_value (show_nat n) = n"
proof -
  have "filter (\<lambda>c. c \<noteq> CHR ''_'') (show_nat n) = show_nat n"
    using show_nat_digits[of n] by (auto simp: filter_id_conv list_all_iff dest: json_digit_range)
  then show ?thesis by (simp add: decimal_value_def digit_sum_show)
qed

lemma exact_hooks_faithful: "faithful_hooks (\<lambda>_. True) exact_hooks"
proof -
  have "jh_int exact_hooks (show_int i) = Inr (PInt i)" for i
  proof (cases "i < 0")
    case False
    obtain c ds where s: "show_nat (nat i) = c # ds" "json_digit c" using show_nat_cases by blast
    then have "c \<noteq> CHR ''-''" by (auto simp: json_digit_def)
    then show ?thesis using False s(1) decimal_value_show[of "nat i"] by (simp add: exact_hooks_def show_int_def)
  qed (simp add: exact_hooks_def show_int_def decimal_value_show)
  then show ?thesis by (simp add: faithful_hooks_def) (simp add: exact_hooks_def)
qed

lemma json_text_inject:
  assumes "exact_json (\<lambda>_. True) k v" "exact_json (\<lambda>_. True) l w"
  shows "json_text a v = json_text a w \<longleftrightarrow> sorted_json v = sorted_json w"
proof
  have e: "exact_json (\<lambda>_. True) (max k l) v" "exact_json (\<lambda>_. True) (max k l) w"
    using assms by (auto intro: exact_json_mono)
  note r = json_loads_text[OF exact_hooks_faithful e(1), of a] json_loads_text[OF exact_hooks_faithful e(2), of a]
  assume "json_text a v = json_text a w"
  then show "sorted_json v = sorted_json w" using r by simp
next
  assume "sorted_json v = sorted_json w"
  then show "json_text a v = json_text a w" using sorted_json_text[OF assms(1), of a] sorted_json_text[OF assms(2), of a] by metis
qed

lemma canonical_json_text:
  "to_canonical_json m = Inr s \<longleftrightarrow>
     (\<exists>v l. normalise ''$'' (PDict m) = Inr v \<and> exact_json (\<lambda>_. True) l v \<and> s = json_text False v)"
proof
  assume "to_canonical_json m = Inr s"
  then obtain v where n: "normalise ''$'' (PDict m) = Inr v" and j: "(case json_val False False v of
      Inl (Inl m) \<Rightarrow> Inl (V4ValueError m) | Inl (Inr m) \<Rightarrow> Inl (V4TypeError m) | Inr s \<Rightarrow> Inr s) = Inr s"
    unfolding to_canonical_json_def bind_r_eq_Inr by blast
  have "json_val False False v = Inr s" using j by (simp split: sum.splits)
  note v = n this
  then show "\<exists>v l. normalise ''$'' (PDict m) = Inr v \<and> exact_json (\<lambda>_. True) l v \<and> s = json_text False v"
    using normalise_printed[OF v] by (auto simp: json_text_def simp del: normalise.simps)
next
  assume "\<exists>v l. normalise ''$'' (PDict m) = Inr v \<and> exact_json (\<lambda>_. True) l v \<and> s = json_text False v"
  then show "to_canonical_json m = Inr s"
    using exact_json_val[where a = False] by (force simp: to_canonical_json_def simp del: normalise.simps)
qed

text \<open>The bytes whose SHA-256 is the signed payload hash.\<close>

definition signed_payload_bytes :: "string \<Rightarrow> pydict \<Rightarrow> v4_error + nat list" where
  "signed_payload_bytes domain_tag payload =
     bind_r (v4_check (domain_tag \<in> {ORCHESTRATOR_RECEIPT_DOMAIN, COMPONENT_VERDICT_DOMAIN})
       ''unsupported Shield v4 domain tag'') (\<lambda>_.
     bind_r (to_canonical_json payload) (\<lambda>s.
     Inr (utf8 (SIGNED_PAYLOAD_HASH_PREFIX @ [CHR 0x0A] @ domain_tag @ [CHR 0x0A]) @ utf8 s)))"

lemma signed_payload_hash_bytes:
  "signed_payload_hash d p = bind_r (signed_payload_bytes d p) (\<lambda>bs. Inr (sha256_hex bs))"
  by (simp add: signed_payload_hash_def signed_payload_bytes_def bind_r_assoc)

lemma domains_differ:
  assumes "d \<in> {ORCHESTRATOR_RECEIPT_DOMAIN, COMPONENT_VERDICT_DOMAIN}" "e \<in> {ORCHESTRATOR_RECEIPT_DOMAIN, COMPONENT_VERDICT_DOMAIN}"
    "d @ s = e @ t"
  shows "d = e \<and> s = t"
proof -
  have "take 20 ORCHESTRATOR_RECEIPT_DOMAIN = ''DGB-SHIELD-V4-ORCH-R''" "take 20 COMPONENT_VERDICT_DOMAIN = ''DGB-SHIELD-V4-COMPON''"
    "20 \<le> length ORCHESTRATOR_RECEIPT_DOMAIN" "20 \<le> length COMPONENT_VERDICT_DOMAIN"
    by (simp_all add: ORCHESTRATOR_RECEIPT_DOMAIN_def COMPONENT_VERDICT_DOMAIN_def)
  moreover have "take 20 (d @ s) = take 20 (e @ t)" using assms(3) by simp
  ultimately have "d = e" using assms(1,2) by (auto simp: take_append)
  then show ?thesis using assms(3) by simp
qed

text \<open>
  C39: A signed payload hash commits to its domain and its whole payload. The hash is that of the bytes
  of prefix, domain tag and canonical JSON, and two payloads with the same bytes have the same
  domain and normalise to the same value up to the order of keys: nothing of a verdict or a
  receipt can be changed, moved between fields or between the two domains without other bytes.
\<close>

theorem signed_payload_unambiguous:
  assumes "signed_payload_bytes d p = Inr bs"
  shows "signed_payload_hash d p = Inr (sha256_hex bs) \<and>
    (signed_payload_bytes e q = Inr bs \<longleftrightarrow> e = d \<and> (\<exists>v w. normalise ''$'' (PDict p) = Inr v \<and>
       normalise ''$'' (PDict q) = Inr w \<and> sorted_json v = sorted_json w))"
proof -
  let ?u = "\<lambda>d s. utf8 (SIGNED_PAYLOAD_HASH_PREFIX @ [CHR 0x0A] @ d @ [CHR 0x0A]) @ utf8 s"
  let ?D = "{ORCHESTRATOR_RECEIPT_DOMAIN, COMPONENT_VERDICT_DOMAIN}"
  have b: "signed_payload_bytes d p = Inr x \<longleftrightarrow> d \<in> ?D \<and>
      (\<exists>v l. normalise ''$'' (PDict p) = Inr v \<and> exact_json (\<lambda>_. True) l v \<and> x = ?u d (json_text False v))" for d p x
    unfolding signed_payload_bytes_def bind_r_eq_Inr v4_check_def check_r_def canonical_json_text by auto
  have i: "?u d s = ?u e t \<longleftrightarrow> d = e \<and> s = t" if "d \<in> ?D" "e \<in> ?D" for d e s t
  proof
    assume "?u d s = ?u e t"
    then have "d @ (CHR 0x0A # s) = e @ (CHR 0x0A # t)" by (simp add: utf8_append[symmetric])
    then show "d = e \<and> s = t" using domains_differ[OF that] by blast
  qed simp
  obtain v l where v: "d \<in> ?D" "normalise ''$'' (PDict p) = Inr v" "exact_json (\<lambda>_. True) l v"
    "bs = ?u d (json_text False v)" using assms b by blast
  have "(\<exists>k. exact_json (\<lambda>_. True) k w) \<and> json_text False w = json_text False v \<longleftrightarrow> sorted_json v = sorted_json w" for w
    using exact_sorted[of "\<lambda>_. True" l v] exact_sorted[of "\<lambda>_. True" l w] json_text_inject[OF _ v(3)] v(3) by metis
  moreover have "signed_payload_bytes e q = Inr bs \<longleftrightarrow> e = d \<and>
      (\<exists>w. normalise ''$'' (PDict q) = Inr w \<and> (\<exists>k. exact_json (\<lambda>_. True) k w) \<and> json_text False w = json_text False v)"
    unfolding b v(4) using i[of e d] v(1) by metis
  ultimately show ?thesis
    using v(2) assms unfolding signed_payload_hash_bytes by (auto simp del: normalise.simps)
qed

lemma signed_payload_unambiguous_witness:
  "\<exists>bs. signed_payload_bytes ORCHESTRATOR_RECEIPT_DOMAIN [(''a'', PInt 1), (''b'', PTuple [])] = Inr bs \<and>
     signed_payload_bytes ORCHESTRATOR_RECEIPT_DOMAIN [(''b'', PList []), (''a'', PInt 1)] = Inr bs \<and>
     signed_payload_bytes COMPONENT_VERDICT_DOMAIN [(''a'', PInt 1), (''b'', PTuple [])] \<noteq> Inr bs \<and>
     signed_payload_bytes ORCHESTRATOR_RECEIPT_DOMAIN [(''a'', PInt 2), (''b'', PTuple [])] \<noteq> Inr bs"
proof -
  let ?p = "[(''a'', PInt 1), (''b'', PTuple [])]"
  have n: "normalise ''$'' (PDict ?p) = Inr (PDict [(''a'', PInt 1), (''b'', PList [])])"
    "normalise ''$'' (PDict [(''b'', PList []), (''a'', PInt 1)]) = Inr (PDict [(''b'', PList []), (''a'', PInt 1)])"
    "normalise ''$'' (PDict [(''a'', PInt 2), (''b'', PTuple [])]) = Inr (PDict [(''a'', PInt 2), (''b'', PList [])])"
    by code_simp+
  have s: "sorted_json (PDict [(''a'', PInt i), (''b'', PList [])]) = PDict [(''a'', PInt i), (''b'', PList [])]"
    "sorted_json (PDict [(''b'', PList []), (''a'', PInt i)]) = PDict [(''a'', PInt i), (''b'', PList [])]" for i
    by (simp_all add: sort_key_def)
  have x: "exact_json (\<lambda>_. True) (Suc (Suc 0)) (PDict [(''a'', PInt 1), (''b'', PList [])])" by (simp add: dkeys_def)
  have "to_canonical_json ?p = Inr (json_text False (PDict [(''a'', PInt 1), (''b'', PList [])]))"
    using x unfolding canonical_json_text n(1) by blast
  then obtain bs where bs: "signed_payload_bytes ORCHESTRATOR_RECEIPT_DOMAIN ?p = Inr bs"
    by (simp add: signed_payload_bytes_def v4_check_def check_r_def)
  have d: "COMPONENT_VERDICT_DOMAIN \<noteq> ORCHESTRATOR_RECEIPT_DOMAIN"
    by (simp add: ORCHESTRATOR_RECEIPT_DOMAIN_def COMPONENT_VERDICT_DOMAIN_def)
  show ?thesis
    using bs signed_payload_unambiguous[OF bs, of ORCHESTRATOR_RECEIPT_DOMAIN "[(''b'', PList []), (''a'', PInt 1)]"]
      signed_payload_unambiguous[OF bs, of COMPONENT_VERDICT_DOMAIN ?p]
      signed_payload_unambiguous[OF bs, of ORCHESTRATOR_RECEIPT_DOMAIN "[(''a'', PInt 2), (''b'', PTuple [])]"]
    unfolding n s by (simp add: d s del: sorted_json.simps)
qed

end
