(* ===== verification/Shield_V4_Audit_Facts.thy ===== *)
theory Shield_V4_Audit_Facts
  imports Shield_V4_Audit_Transcript Shield_V4_Canonical
begin

text \<open>
  What the audited verification guarantees: every run of the verifier fits the audit schema and
  its limits, the batch hash commits to the records, and a result is returned exactly when the
  sink has acknowledged the records of that run.
\<close>

section \<open>Texts, values and records of an audit event\<close>

definition plain_char :: "char \<Rightarrow> bool" where
  "plain_char c \<longleftrightarrow> 32 \<le> (of_char c :: nat) \<and> (of_char c :: nat) < 127 \<and> c \<noteq> CHR 0x22 \<and> c \<noteq> CHR 0x5C"

definition audit_text :: "string \<Rightarrow> bool" where
  "audit_text s \<longleftrightarrow> length s \<le> 80 \<and> list_all plain_char s"

definition audit_value :: "pyval \<Rightarrow> bool" where
  "audit_value v \<longleftrightarrow> (case v of PStr s \<Rightarrow> audit_text s | PBool _ \<Rightarrow> True | PInt i \<Rightarrow> 0 < i \<and> signed_integer_ok i | _ \<Rightarrow> False)"

definition audit_dict :: "pydict \<Rightarrow> bool" where
  "audit_dict d \<longleftrightarrow> distinct (dkeys d) \<and> list_all (\<lambda>(k, v). audit_text k \<and> audit_value v) d"

lemma plain_json_str:
  assumes "list_all plain_char s"
  shows "json_str False s = [CHR 0x22] @ s @ [CHR 0x22]" "length (utf8 s) = length s"
proof -
  have "concat (map (json_char False) s) = s" using assms
    by (induction s) (auto simp: plain_char_def json_char_def Let_def)
  then show "json_str False s = [CHR 0x22] @ s @ [CHR 0x22]" by (simp add: json_str_def)
  show "length (utf8 s) = length s" using assms
    by (induction s) (auto simp: plain_char_def utf8_ascii utf8_def)
qed

lemma plain_str_size: "list_all plain_char s \<Longrightarrow> length (utf8 (json_str False s)) = length s + 2"
  by (simp add: plain_json_str utf8_ascii)

lemma plain_digits: "list_all json_digit s \<Longrightarrow> list_all plain_char s"
  by (erule list.pred_mono_strong) (auto simp: plain_char_def json_digit_def Let_def)

lemma signed_digits:
  assumes "0 < i" "signed_integer_ok i"
  shows "printable_int i" "length (utf8 (show_int i)) \<le> 19"
proof -
  have n: "nat i < 10 ^ 19" using assms by (simp add: signed_integer_ok_def MAX_SIGNED_INTEGER_BITS_def)
  show "printable_int i" using assms(2) by (rule signed_integer_printable)
  have "length (show_nat (nat i)) \<le> 19" using n by (rule show_nat_length) simp
  moreover have "length (utf8 (show_nat (nat i))) = length (show_nat (nat i))"
    using plain_json_str(2)[OF plain_digits] show_nat_digits[of "nat i"] by blast
  ultimately show "length (utf8 (show_int i)) \<le> 19" using assms(1) by (simp add: show_int_def)
qed

lemma audit_value_exact:
  assumes "audit_value v"
  shows "exact_json printable_int l v" "json_exact v" "no_null v" "sorted_json v = v"
    "length (utf8 (json_text False v)) \<le> 82"
proof -
  show "exact_json printable_int l v" "sorted_json v = v" "no_null v" using assms
    by (auto simp: audit_value_def signed_digits split: pyval.splits)
  show "json_exact v" using assms
    by (auto simp: audit_value_def audit_text_def short_text_def plain_json_str MAX_TEXT_FIELD_BYTES_def split: pyval.splits)
  show "length (utf8 (json_text False v)) \<le> 82" using assms
    by (auto simp: audit_value_def audit_text_def json_text_eqs plain_str_size utf8_ascii signed_integer_printable
        split: pyval.splits dest: signed_digits(2))
qed

text \<open>The size of a dictionary by its keys.\<close>

definition key_room :: "pydict \<Rightarrow> nat" where
  "key_room d = 2 + sum_list (map (\<lambda>(k, v). length k + 86) d)"

lemma audit_dict_exact:
  assumes "audit_dict d"
  shows "exact_json printable_int (Suc l) (PDict d)" "json_exact (PDict d)" "no_null (PDict d)"
    "sorted_json (PDict d) = PDict (sort_key fst d)" "to_canonical_json d = Inr (json_text False (PDict d))"
    "length (utf8 (json_text False (PDict d))) \<le> key_room d"
proof -
  have d: "distinct (dkeys d)" "\<And>k v. (k, v) \<in> set d \<Longrightarrow> audit_text k \<and> audit_value v"
    using assms by (auto simp: audit_dict_def list_all_iff)
  show e: "exact_json printable_int (Suc l) (PDict d)" for l
    using d(1) by (auto simp: list_all_iff dest!: d(2) intro: audit_value_exact(1))
  have "json_exact_items m \<and> no_null_items m" if "set m \<subseteq> set d" for m
    using that
  proof (induction m)
    case (Cons e m)
    obtain k v where e: "e = (k, v)" by (cases e)
    have k: "audit_text k" "audit_value v" using d(2)[of k v] Cons.prems e by auto
    then have "short_text k" by (auto simp: audit_text_def short_text_def plain_json_str MAX_TEXT_FIELD_BYTES_def)
    then show ?case using Cons k audit_value_exact(2,3)[OF k(2)] by (simp add: e)
  qed simp
  then show x: "json_exact (PDict d)" "no_null (PDict d)" using d(1) by simp_all
  have "sorted_items d = d" unfolding sorted_items_map by (rule map_idI) (auto dest!: d(2) audit_value_exact(4))
  then show "sorted_json (PDict d) = PDict (sort_key fst d)" by simp
  have v: "json_val False False (PDict d) = Inr (json_text False (PDict d))" by (rule exact_json_val[OF e])
  then show "to_canonical_json d = Inr (json_text False (PDict d))"
    using normalise_id(1)[OF x, of "''$''"] by (simp add: to_canonical_json_def)
  have m: "length (utf8 (member_text False (k, v))) + 1 \<le> length k + 86" if "(k, v) \<in> set d" for k v
    using d(2)[OF that] audit_value_exact(5)[of v] by (auto simp: member_text_def audit_text_def plain_str_size utf8_ascii)
  have "text_total (map (member_text False) q) \<le> sum_list (map (\<lambda>(k, v). length k + 86) q)" if "set q \<subseteq> set d" for q
    using that by (induction q) (auto simp: text_total_def dest!: m intro: add_mono)
  then have "text_total (map (member_text False) d) \<le> sum_list (map (\<lambda>(k, v). length k + 86) d)" by blast
  then show "length (utf8 (json_text False (PDict d))) \<le> key_room d"
    using join_size[of "map (member_text False) (sort_key fst d)"]
    unfolding json_text_dict[OF e] by (simp add: key_room_def text_total_sort utf8_ascii)
qed

section \<open>Writing and reading a record\<close>

lemma validate_event_cong:
  assumes "map_of m = map_of n" "validate_event (PDict m) = Inr m"
  shows "validate_event (PDict n) = Inr n"
proof -
  have g: "dget m k = dget n k" for k using assms(1) by (simp add: dget_def)
  have k: "set (dkeys m) = set (dkeys n)" using arg_cong[OF assms(1), of dom] by (simp add: dom_map_of_conv_image_fst dkeys_def)
  have c: "validate_common m = validate_common n" "validate_artifact m = validate_artifact n"
    unfolding fun_eq_iff validate_common_def validate_artifact_def g by simp_all
  show ?thesis using assms(2) unfolding validate_event_def pyval.case g k c
    by (auto simp: bind_r_eq_Inr split: if_splits)
qed

text \<open>A valid record whose dictionary is small enough is serialised, and read back in key order.\<close>

definition record_ok :: "audit_record \<Rightarrow> bool" where
  "record_ok rec \<longleftrightarrow> validate_event (PDict (record_dict rec)) = Inr (record_dict rec) \<and> audit_dict (record_dict rec) \<and>
     key_room (record_dict rec) \<le> MAX_AUDIT_RECORD_BYTES"

abbreviation record_text :: "audit_record \<Rightarrow> string" where
  "record_text rec \<equiv> json_text False (PDict (record_dict rec))"

lemma serialize_record:
  assumes "record_ok rec"
  shows "serialize_audit_record rec = Inr (utf8 (record_text rec))"
    "length (utf8 (record_text rec)) \<le> MAX_AUDIT_RECORD_BYTES"
proof -
  show l: "length (utf8 (record_text rec)) \<le> MAX_AUDIT_RECORD_BYTES"
    using assms audit_dict_exact(6)[of "record_dict rec"] by (auto simp: record_ok_def)
  show "serialize_audit_record rec = Inr (utf8 (record_text rec))"
    using assms l audit_dict_exact(5)[of "record_dict rec"]
    by (simp add: serialize_audit_record_def record_ok_def from_contract_def au_check_def check_r_def)
qed

lemma audit_dict_sorted: "audit_dict d \<Longrightarrow> audit_dict (sort_key fst d)"
  by (auto simp: audit_dict_def list_all_iff dkeys_def distinct_map inj_on_def)

lemma parse_record:
  assumes "record_ok rec" "0 < ae_limit env"
  shows "parse_audit_record env (utf8 (record_text rec)) = Inr (sort_key fst (record_dict rec))"
proof -
  let ?d = "record_dict rec"
  have d: "audit_dict ?d" "validate_event (PDict ?d) = Inr ?d" using assms(1) by (simp_all add: record_ok_def)
  note e = audit_dict_exact[OF d(1)]
  obtain l where l: "ae_limit env = Suc l" using assms(2) by (cases "ae_limit env") auto
  have "json_loads (default_hooks id (ae_float env)) (ae_limit env) (record_text rec) = Inr (PDict (sort_key fst ?d))"
    using json_loads_text[OF default_hooks_faithful[of id "ae_float env"] e(1)[of l], of False] by (simp only: l e(4))
  moreover have "map_of (sort_key fst ?d) = map_of ?d" using d(1) sort_key_dict(1) by (simp add: audit_dict_def)
  then have "validate_event (PDict (sort_key fst ?d)) = Inr (sort_key fst ?d)" using validate_event_cong[OF _ d(2)] by metis
  moreover have "to_canonical_json (sort_key fst ?d) = Inr (record_text rec)"
    using audit_dict_exact(5)[OF audit_dict_sorted[OF d(1)]] sorted_json_text[OF e(1)[of 0], of False] by (simp only: e(4))
  moreover have "utf8 (record_text rec) \<noteq> []"
    using json_text_first[OF e(1)[of 0], of False] by (cases "record_text rec") (auto simp: utf8_def utf8_char_def Let_def)
  ultimately show ?thesis
    using serialize_record(2)[OF assms(1)]
    by (simp add: parse_audit_record_def utf8_decode_utf8 list_ex_iff not_le au_check_def check_r_def from_contract_def
        del: utf8_decode.simps)
qed

section \<open>The batch\<close>

lemma parse_records:
  "list_all record_ok recs \<Longrightarrow> 0 < ae_limit env \<Longrightarrow>
     map_r (parse_audit_record env) (map (\<lambda>r. utf8 (record_text r)) recs) = Inr (map (\<lambda>r. sort_key fst (record_dict r)) recs)"
  by (induction recs) (simp_all add: parse_record)

lemma batch_bytes:
  assumes "list_all record_ok recs" "recs \<noteq> []" "length recs \<le> 20" "0 < ae_limit env"
  shows "\<exists>bs. canonical_batch_bytes env (map (\<lambda>r. utf8 (record_text r)) recs) = Inr bs"
proof -
  let ?events = "map (\<lambda>r. sort_key fst (record_dict r)) recs"
  let ?batch = "[(''records'', PList (map PDict ?events))]"
  have d: "audit_dict (sort_key fst (record_dict r))" "length (utf8 (json_text False (PDict (sort_key fst (record_dict r))))) \<le> 2048"
    if "r \<in> set recs" for r
  proof -
    have r: "record_ok r" using assms(1) that by (auto simp: list_all_iff)
    then have a: "audit_dict (record_dict r)" by (simp add: record_ok_def)
    then show "audit_dict (sort_key fst (record_dict r))" by (rule audit_dict_sorted)
    show "length (utf8 (json_text False (PDict (sort_key fst (record_dict r))))) \<le> 2048"
      using serialize_record(2)[OF r] sorted_json_text[OF audit_dict_exact(1)[OF a, of 0], of False]
      unfolding audit_dict_exact(4)[OF a] by (simp add: MAX_AUDIT_RECORD_BYTES_def)
  qed
  have "json_exact_list (map PDict q) \<and> no_null_list (map PDict q)" if "list_all audit_dict q" for q
    using that
  proof (induction q)
    case (Cons a q)
    then show ?case using audit_dict_exact(2,3)[of a] by simp
  qed simp
  then have x: "json_exact (PDict ?batch)" "no_null (PDict ?batch)"
    using d(1) by (simp_all add: dkeys_def short_text_def utf8_def utf8_char_def MAX_TEXT_FIELD_BYTES_def Let_def list_all_iff del: map_map)
  have "exact_json printable_int 2 (PList (map PDict ?events))"
    unfolding numeral_2_eq_2 exact_json.simps(5)[of _ "Suc 0"] list_all_iff using d(1) audit_dict_exact(1) by auto
  then have e: "exact_json printable_int 3 (PDict ?batch)" by (simp add: eval_nat_numeral dkeys_def)
  have t: "to_canonical_json ?batch = Inr (json_text False (PDict ?batch))"
    using normalise_id(1)[OF x, of "''$''"] exact_json_val[OF e, of False] by (simp add: to_canonical_json_def)
  have "text_total (map (json_text False) (map PDict (map (\<lambda>r. sort_key fst (record_dict r)) q))) \<le> length q * 2049"
    if "set q \<subseteq> set recs" for q
    using that by (induction q) (auto simp: text_total_def dest!: d(2))
  then have "text_total (map (json_text False) (map PDict ?events)) \<le> 20 * 2049"
    using assms(3) order_trans by fastforce
  then have "length (utf8 (json_text False (PList (map PDict ?events)))) \<le> 20 * 2049 + 2"
    using join_size[of "map (json_text False) (map PDict ?events)"]
    unfolding json_text_list[OF \<open>exact_json printable_int 2 (PList _)\<close>[unfolded numeral_2_eq_2]] by (simp add: utf8_ascii)
  then have "length (utf8 (json_text False (PDict ?batch))) \<le> MAX_AUDIT_BATCH_BYTES"
    unfolding json_text_dict[OF e[unfolded eval_nat_numeral]]
    by (simp add: member_text_def json_str_def json_char_def Let_def utf8_ascii MAX_AUDIT_BATCH_BYTES_def)
  then show ?thesis
    using assms t parse_records[OF assms(1,4)]
    by (simp add: canonical_batch_bytes_def au_check_def check_r_def MAX_AUDIT_RECORDS_def from_contract_def)
qed

section \<open>The records of a run are valid\<close>

lemma const_texts:
  "list_all audit_text ([''verification_preflight'', ''signature_verification'', ''artifact_verification'', ''component_verdict'',
     ''orchestrator_receipt'', ''shield_orchestrator'', AUDIT_SCHEMA_VERSION, AUDIT_VERIFIER_ID, RECEIPT_SCHEMA_VERSION,
     VERDICT_SCHEMA_VERSION, SIGNATURE_POLICY] @ AUDIT_REASON_IDS @ map fst COMPONENT_ROLES @ ALLOWED_ALGORITHMS @
     concat (map algorithm_standard_profiles ALLOWED_ALGORITHMS) @ SIGNATURE_FIELDS @ PREFLIGHT_FIELDS)"
  by code_simp

lemma hex_plain: "is_hex_lower c \<Longrightarrow> plain_char c"
proof -
  have "list_all plain_char ''0123456789abcdef''" by (simp add: plain_char_def)
  then show "is_hex_lower c \<Longrightarrow> plain_char c" unfolding list_all_iff is_hex_lower_def by blast
qed

lemma hex_text: "is_sha256_hex h \<Longrightarrow> audit_text h"
  unfolding is_sha256_hex_def audit_text_def by (auto elim!: list.pred_mono_strong intro: hex_plain)

lemma digit_plain: "json_digit c \<Longrightarrow> plain_char c"
  using plain_digits[of "[c]"] by simp

lemma timestamp_text: "audit_timestamp s \<Longrightarrow> audit_text s"
proof -
  assume "audit_timestamp s"
  then have t: "list_all2 (\<lambda>p c. if p = CHR ''d'' then json_digit c else c = p) ''dddd-dd-ddTdd:dd:ddZ'' s"
    by (simp add: audit_timestamp_def)
  have "list_all plain_char ''-T:Z''" by (simp add: plain_char_def)
  then have "list_all plain_char s" using t
    by (auto simp: list_all2_Cons1 digit_plain)
  then show "audit_text s" using list_all2_lengthD[OF t] by (simp add: audit_text_def)
qed

lemma identifier_hash_hex: "identifier_hash tag v f = Inr h \<Longrightarrow> is_sha256_hex h"
  by (auto simp: identifier_hash_def res_simps)

lemma identifier_hash_total: "identifier_ok s \<Longrightarrow> \<exists>h. identifier_hash tag (PStr s) f = Inr h"
  by (simp add: identifier_hash_def identifier_bounded)

definition inputs_ok :: "audit_inputs \<Rightarrow> bool" where
  "inputs_ok ai \<longleftrightarrow> identifier_ok (ai_request_id ai) \<and> is_sha256_hex (ai_context_hash ai) \<and> is_sha256_hex (ai_transport_hash ai) \<and>
     0 < ai_minimum ai \<and> signed_integer_ok (ai_minimum ai) \<and> audit_timestamp (ai_time ai)"

lemma au_member_PStr [simp]: "au_member (PStr s) ss = Inr (s \<in> set ss)"
  by (simp add: au_member_def)

lemma known_text:
  "s \<in> set AUDIT_REASON_IDS \<Longrightarrow> audit_text s" "s \<in> set (map fst COMPONENT_ROLES) \<Longrightarrow> audit_text s"
  "s \<in> set ALLOWED_ALGORITHMS \<Longrightarrow> audit_text s"
  "s \<in> set (algorithm_standard_profiles a) \<Longrightarrow> a \<in> set ALLOWED_ALGORITHMS \<Longrightarrow> audit_text s"
  using const_texts by (auto simp: list_all_iff)

lemma preflight_record_ok:
  assumes "inputs_ok ai" "reason \<in> set AUDIT_REASON_IDS" "reason = V4_VERIFY_OK \<longleftrightarrow> passed"
  shows "\<exists>rec. make_preflight_record ai passed reason = Inr rec \<and> record_ok rec"
proof -
  obtain h where h: "identifier_hash AUDIT_REQUEST_ID_HASH_DOMAIN (PStr (ai_request_id ai)) ''request_id'' = Inr h"
    using assms(1) identifier_hash_total[of "ai_request_id ai"] unfolding inputs_ok_def by blast
  note k = identifier_hash_hex[OF h] const_texts[unfolded SIGNATURE_FIELDS_def PREFLIGHT_FIELDS_def COMMON_FIELDS_def]
  show ?thesis using assms k known_text(1)[OF assms(2)] hex_text timestamp_text
    by (auto simp: make_preflight_record_def audit_request_id_hash_def h record_ok_def validate_event_def validate_common_def
        au_check_def check_r_def inputs_ok_def validate_sha256_def validate_positive_int_def validate_timestamp_def
        PREFLIGHT_FIELDS_def COMMON_FIELDS_def dkeys_def audit_dict_def audit_value_def key_room_def MAX_AUDIT_RECORD_BYTES_def
        RECEIPT_SCHEMA_VERSION_def SIGNATURE_POLICY_def)
qed

lemma artifact_ids: "''shield_orchestrator'' \<notin> set (map fst COMPONENT_ROLES)" "audit_text ''shield_orchestrator''"
  by code_simp+

lemma artifact_texts:
  assumes "artifact_ok a"
  shows "audit_text (ar_type a)" "audit_text (ar_schema_version a)" "audit_text (ar_id a)" "audit_text (ar_hash a)"
    "audit_text (ar_context_hash a)" "audit_text (ar_policy_version a)"
  using assms known_text(2)[of "ar_id a"] hex_text const_texts by (auto simp: artifact_ok_def)

text \<open>The check of the artifact fields of a record, given those of the artifact.\<close>

lemma validate_artifact_ok:
  assumes "artifact_ok a" "is_sha256_hex rh" "dget d ''artifact_type'' = PStr (ar_type a)"
    "dget d ''artifact_schema_version'' = PStr (ar_schema_version a)" "dget d ''artifact_id'' = PStr (ar_id a)"
    "dget d ''artifact_hash'' = PStr (ar_hash a)" "dget d ''request_id_hash'' = PStr rh"
    "dget d ''context_hash'' = PStr (ar_context_hash a)" "dget d ''policy_version'' = PStr (ar_policy_version a)"
    "dget d ''registry_version'' = PInt (ar_registry_version a)"
  shows "validate_artifact d False = Inr ()"
proof -
  have a: "is_sha256_hex (ar_hash a)" "is_sha256_hex (ar_context_hash a)" "ar_policy_version a = SIGNATURE_POLICY"
    "0 < ar_registry_version a" using assms(1) by (simp_all add: artifact_ok_def)
  consider (verdict) "ar_type a = ''component_verdict''" "ar_schema_version a = VERDICT_SCHEMA_VERSION"
      "ar_id a \<in> set (map fst COMPONENT_ROLES)"
    | (receipt) "ar_type a = ''orchestrator_receipt''" "ar_schema_version a = RECEIPT_SCHEMA_VERSION" "ar_id a = ''shield_orchestrator''"
    using assms(1) unfolding artifact_ok_def by blast
  then show ?thesis
    by cases (simp_all add: validate_artifact_def assms(2-10) a au_check_def check_r_def validate_sha256_def validate_positive_int_def
        del: set_map)
qed

lemma validate_artifact_signature:
  assumes "validate_artifact d False = Inr ()" "dget d ''key_id_hash'' = PStr kh" "is_sha256_hex kh"
    "dget d ''key_version'' = PInt n" "0 < n" "dget d ''algorithm'' = PStr alg" "alg \<in> set ALLOWED_ALGORITHMS"
    "dget d ''standard_profile'' = PStr p" "p \<in> set (algorithm_standard_profiles alg)"
  shows "validate_artifact d True = Inr ()"
proof -
  have "validate_artifact d True = bind_r (validate_artifact d False) (\<lambda>_.
      bind_r (validate_sha256 (dget d ''key_id_hash'') ''key_id_hash'') (\<lambda>_.
      bind_r (validate_positive_int (dget d ''key_version'') ''key_version'') (\<lambda>_.
      bind_r (au_member (dget d ''algorithm'') ALLOWED_ALGORITHMS) (\<lambda>known.
      bind_r (au_check known ''unsupported audit algorithm'') (\<lambda>_.
      au_check (str_in (dget d ''standard_profile'') (algorithm_standard_profiles (str_of (dget d ''algorithm''))))
        ''unsupported audit standard_profile'')))))"
    unfolding validate_artifact_def Let_def by (simp add: bind_r_assoc)
  then show ?thesis
    by (simp add: assms au_check_def check_r_def validate_sha256_def validate_positive_int_def str_of_def)
qed

lemma terminal_record_ok:
  assumes "artifact_ok a" "audit_timestamp time" "reason \<in> set AUDIT_REASON_IDS" "reason = V4_VERIFY_OK \<longleftrightarrow> passed"
  shows "\<exists>rec. make_terminal_record time a passed reason = Inr rec \<and> record_ok rec"
proof -
  obtain h where h: "identifier_hash AUDIT_REQUEST_ID_HASH_DOMAIN (PStr (ar_request_id a)) ''request_id'' = Inr h"
    using assms(1) identifier_hash_total[of "ar_request_id a"] unfolding artifact_ok_def by blast
  let ?r = "\<lparr>av_schema_version = AUDIT_SCHEMA_VERSION, av_event_type = ''artifact_verification'',
       av_verifier_id = AUDIT_VERIFIER_ID, av_timestamp = time, av_passed = passed, av_reason_id = reason,
       av_artifact_type = ar_type a, av_artifact_schema_version = ar_schema_version a, av_artifact_id = ar_id a,
       av_artifact_hash = ar_hash a, av_request_id_hash = h, av_context_hash = ar_context_hash a,
       av_policy_version = ar_policy_version a, av_registry_version = ar_registry_version a\<rparr>"
  have m: "make_terminal_record time a passed reason = Inr (ArtifactRecord ?r)"
    by (simp add: make_terminal_record_def audit_request_id_hash_def h)
  have v: "validate_artifact (record_dict (ArtifactRecord ?r)) False = Inr ()"
    by (rule validate_artifact_ok[OF assms(1) identifier_hash_hex[OF h]]) (simp_all add: artifact_items_def)
  have "validate_event (PDict (record_dict (ArtifactRecord ?r))) = Inr (record_dict (ArtifactRecord ?r))"
    using v assms(2-4) unfolding validate_event_def pyval.case
    by (auto simp: artifact_items_def validate_common_def au_check_def check_r_def validate_timestamp_def ARTIFACT_FIELDS_def
        COMMON_FIELDS_def dkeys_def)
  moreover note k = artifact_texts[OF assms(1)] hex_text[OF identifier_hash_hex[OF h]] timestamp_text[OF assms(2)]
    known_text(1)[OF assms(3)] const_texts[unfolded SIGNATURE_FIELDS_def PREFLIGHT_FIELDS_def COMMON_FIELDS_def]
  have "audit_dict (record_dict (ArtifactRecord ?r))"
    using k assms(1) by (auto simp: artifact_items_def audit_dict_def audit_value_def dkeys_def artifact_ok_def)
  moreover have "key_room (record_dict (ArtifactRecord ?r)) \<le> MAX_AUDIT_RECORD_BYTES"
    by (simp add: artifact_items_def key_room_def MAX_AUDIT_RECORD_BYTES_def)
  ultimately show ?thesis unfolding m record_ok_def by blast
qed

lemma signature_record_ok:
  assumes "observation_ok ob" "audit_timestamp time"
  shows "\<exists>rec. make_signature_record time ob = Inr rec \<and> record_ok rec"
proof -
  have o: "artifact_ok (ob_artifact ob)" "identifier_ok (ob_key_id ob)" "0 < ob_key_version ob" "signed_integer_ok (ob_key_version ob)"
    "ob_algorithm ob \<in> set ALLOWED_ALGORITHMS" "ob_standard_profile ob \<in> set (algorithm_standard_profiles (ob_algorithm ob))"
    "ob_reason_id ob \<in> set AUDIT_REASON_IDS" "ob_reason_id ob = V4_VERIFY_OK \<longleftrightarrow> ob_passed ob"
    using assms(1) by (auto simp: observation_ok_def AUDIT_REASON_IDS_def)
  let ?a = "ob_artifact ob"
  obtain h where h: "identifier_hash AUDIT_REQUEST_ID_HASH_DOMAIN (PStr (ar_request_id ?a)) ''request_id'' = Inr h"
    using o(1) identifier_hash_total[of "ar_request_id ?a"] unfolding artifact_ok_def by blast
  obtain kh where kh: "identifier_hash AUDIT_KEY_ID_HASH_DOMAIN (PStr (ob_key_id ob)) ''key_id'' = Inr kh"
    using o(2) identifier_hash_total[of "ob_key_id ob"] by blast
  let ?r = "\<lparr>av_schema_version = AUDIT_SCHEMA_VERSION, av_event_type = ''signature_verification'',
       av_verifier_id = AUDIT_VERIFIER_ID, av_timestamp = time, av_passed = ob_passed ob, av_reason_id = ob_reason_id ob,
       av_artifact_type = ar_type ?a, av_artifact_schema_version = ar_schema_version ?a, av_artifact_id = ar_id ?a,
       av_artifact_hash = ar_hash ?a, av_request_id_hash = h, av_context_hash = ar_context_hash ?a,
       av_policy_version = ar_policy_version ?a, av_registry_version = ar_registry_version ?a,
       sr_key_id_hash = kh, sr_key_version = ob_key_version ob, sr_algorithm = ob_algorithm ob,
       sr_standard_profile = ob_standard_profile ob\<rparr>"
  have m: "make_signature_record time ob = Inr (SignatureRecord ?r)"
    by (simp add: make_signature_record_def audit_request_id_hash_def audit_key_id_hash_def h kh Let_def)
  have "validate_artifact (record_dict (SignatureRecord ?r)) False = Inr ()"
    by (rule validate_artifact_ok[OF o(1) identifier_hash_hex[OF h]]) (simp_all add: artifact_items_def)
  then have v: "validate_artifact (record_dict (SignatureRecord ?r)) True = Inr ()"
    by (rule validate_artifact_signature[OF _ _ identifier_hash_hex[OF kh] _ o(3) _ o(5) _ o(6)]) (simp_all add: artifact_items_def)
  have "validate_event (PDict (record_dict (SignatureRecord ?r))) = Inr (record_dict (SignatureRecord ?r))"
    using v assms(2) o(7,8) unfolding validate_event_def pyval.case
    by (auto simp: artifact_items_def validate_common_def au_check_def check_r_def validate_timestamp_def SIGNATURE_FIELDS_def
        COMMON_FIELDS_def dkeys_def)
  moreover note k = artifact_texts[OF o(1)] hex_text[OF identifier_hash_hex[OF h]] hex_text[OF identifier_hash_hex[OF kh]]
    timestamp_text[OF assms(2)] known_text(1)[OF o(7)] known_text(3)[OF o(5)] known_text(4)[OF o(6,5)]
    const_texts[unfolded SIGNATURE_FIELDS_def PREFLIGHT_FIELDS_def COMMON_FIELDS_def]
  have "audit_dict (record_dict (SignatureRecord ?r))"
    using k o by (auto simp: artifact_items_def audit_dict_def audit_value_def dkeys_def artifact_ok_def)
  moreover have "key_room (record_dict (SignatureRecord ?r)) \<le> MAX_AUDIT_RECORD_BYTES"
    by (simp add: artifact_items_def key_room_def MAX_AUDIT_RECORD_BYTES_def)
  ultimately show ?thesis unfolding m record_ok_def by blast
qed

lemma map_r_total: "list_all (\<lambda>x. \<exists>y. f x = Inr y \<and> P y) xs \<Longrightarrow> \<exists>ys. map_r f xs = Inr ys \<and> list_all P ys \<and> length ys = length xs"
  by (induction xs) auto

text \<open>Every run that returns a result has at most twenty records, all of them valid.\<close>

lemma audit_records_ok:
  assumes "verify_receipt_v4 lz inp False = (Inr result, tr)" "vi_context_hash inp = PStr h" "is_sha256_hex h"
    "bounded_json_snapshot (vi_receipt inp) = Inr (vi_receipt inp)" "inputs_ok ai"
  shows "\<exists>recs. audit_records ai result tr = Inr recs \<and> list_all record_ok recs \<and> recs \<noteq> [] \<and> length recs \<le> 20"
proof -
  note t = transcript_ok[OF assms(1-4)]
  have time: "audit_timestamp (ai_time ai)" using assms(5) by (simp add: inputs_ok_def)
  define terminal where "terminal = (case tr_rejection tr of None \<Rightarrow> reason_for_result result
      | Some r \<Rightarrow> if r = [] then reason_for_result result else r)"
  have terminal: "terminal \<in> set AUDIT_REASON_IDS"
    "tr_rejection tr = None \<Longrightarrow> terminal = V4_VERIFY_OK \<longleftrightarrow> vr_verified result"
    "\<not> vr_verified result \<Longrightarrow> terminal \<noteq> V4_VERIFY_OK"
    using t(1) reason_for_result_ok[of result] by (auto simp: terminal_def told_ok_def split: option.splits)
  have ok: "V4_VERIFY_OK \<in> set AUDIT_REASON_IDS" by (simp add: AUDIT_REASON_IDS_def)
  have "list_all (\<lambda>ob. \<exists>rec. make_signature_record (ai_time ai) ob = Inr rec \<and> record_ok rec) (tr_observations tr)"
    using t(2) by (rule list.pred_mono_strong) (rule signature_record_ok[OF _ time])
  from map_r_total[OF this] obtain ss where ss: "map_r (make_signature_record (ai_time ai)) (tr_observations tr) = Inr ss"
    "list_all record_ok ss" "length ss \<le> 18" using t(3) by auto
  show ?thesis
  proof (cases "tr_validated tr")
    case None
    then have "terminal \<noteq> V4_VERIFY_OK" using t(4) terminal(3) by simp
    then obtain p where p: "make_preflight_record ai False terminal = Inr p" "record_ok p"
      using preflight_record_ok[OF assms(5) terminal(1), of False] by auto
    show ?thesis using None p ss unfolding audit_records_def terminal_def[symmetric] by (simp add: Let_def)
  next
    case (Some a)
    then have a: "artifact_ok a" "terminal = V4_VERIFY_OK \<longleftrightarrow> vr_verified result" using t(4) terminal(2) by auto
    obtain p where p: "make_preflight_record ai True V4_VERIFY_OK = Inr p" "record_ok p"
      using preflight_record_ok[OF assms(5) ok, of True] by auto
    obtain q where q: "make_terminal_record (ai_time ai) a (vr_verified result) terminal = Inr q" "record_ok q"
      using terminal_record_ok[OF a(1) time terminal(1) a(2)] by auto
    show ?thesis using Some p q ss unfolding audit_records_def terminal_def[symmetric] by (simp add: Let_def)
  qed
qed

end
