(* ===== verification/Shield_V4_Audited.thy ===== *)
theory Shield_V4_Audited
  imports Shield_V4_Audit_Facts Demo_Receipt_V4
begin

text \<open>
  What can come out of the audited Shield v4 verification, compared with the plain one: a result
  only leaves it with an acknowledged batch of the records of that run, and every error is one of
  the audited boundary.
\<close>

section \<open>The audited run and the plain one\<close>

lemma snapshot_same: "bounded_json_snapshot v = Inr w \<Longrightarrow> w = v"
  by (auto simp: bounded_json_snapshot_def res_simps snapshot_iff in_budget_def)

lemma verify_on_snapshot:
  assumes "bounded_json_snapshot (vi_receipt inp) = Inr snap"
  shows "snap = vi_receipt inp" "verify_receipt_v4 lz (inp\<lparr>vi_receipt := snap\<rparr>) True = verify_receipt_v4 lz inp False"
proof -
  show s: "snap = vi_receipt inp" using snapshot_same[OF assms] .
  have "preflight_stage inp True h = preflight_stage inp False h" for h
    using assms s by (simp add: preflight_stage_def)
  then show "verify_receipt_v4 lz (inp\<lparr>vi_receipt := snap\<rparr>) True = verify_receipt_v4 lz inp False"
    using s by (simp add: verify_receipt_v4_def prepare_verification_def)
qed

text \<open>One call of the sink, on the serialised records, and its acknowledgement.\<close>

definition committed :: "audit_env \<Rightarrow> 's audit_sink \<Rightarrow> audit_record list \<Rightarrow> 's \<Rightarrow> 's \<Rightarrow> bool" where
  "committed env sink records s s' \<longleftrightarrow> (\<exists>bs h answer. map_r serialize_audit_record records = Inr bs \<and> length bs = length records \<and>
     audit_batch_sha256 env bs = Inr h \<and> sink s bs = (Inr answer, s') \<and> acknowledges answer h (length records))"

lemma append_required_audit_ok:
  "append_required_audit env sink records s = (Inr u, s') \<longleftrightarrow> committed env sink records s s'"
  by (auto simp: append_required_audit_def committed_def res_simps map_r_length split: sum.splits prod.splits if_splits)

text \<open>The sink raised, or did not acknowledge the batch.\<close>

definition refused :: "audit_env \<Rightarrow> 's audit_sink \<Rightarrow> audit_record list \<Rightarrow> 's \<Rightarrow> 's \<Rightarrow> bool" where
  "refused env sink records s s' \<longleftrightarrow> (\<exists>bs h. map_r serialize_audit_record records = Inr bs \<and> length bs = length records \<and>
     audit_batch_sha256 env bs = Inr h \<and> s' = snd (sink s bs) \<and>
     (case fst (sink s bs) of Inl _ \<Rightarrow> True | Inr answer \<Rightarrow> \<not> acknowledges answer h (length records)))"

lemma serialize_records: "list_all record_ok rs \<Longrightarrow> map_r serialize_audit_record rs = Inr (map (\<lambda>r. utf8 (record_text r)) rs)"
  by (induction rs) (simp_all add: serialize_record)

lemma valid_batch:
  assumes "list_all record_ok rs" "rs \<noteq> []" "length rs \<le> 20" "0 < ae_limit env"
  shows "\<exists>bs h. map_r serialize_audit_record rs = Inr bs \<and> length bs = length rs \<and> audit_batch_sha256 env bs = Inr h"
  using batch_bytes[OF assms] serialize_records[OF assms(1)] by (auto simp: audit_batch_sha256_def)

lemma append_error: "append_required_audit env sink rs s = (Inl e, s') \<Longrightarrow> e = ShieldV4AuditSinkError"
  by (auto simp: append_required_audit_def split: sum.splits prod.splits if_splits)

lemma append_outcome:
  assumes "list_all record_ok rs" "rs \<noteq> []" "length rs \<le> 20" "append_required_audit env sink rs s = (x, s')" "x = Inl e"
  shows "e = ShieldV4AuditSinkError \<and> (ae_limit env = 0 \<or> refused env sink rs s s')"
proof (cases "ae_limit env")
  case (Suc n)
  then obtain bs h where "map_r serialize_audit_record rs = Inr bs" "length bs = length rs" "audit_batch_sha256 env bs = Inr h"
    using valid_batch[OF assms(1-3), of env] by auto
  then show ?thesis using assms(4,5) by (auto simp: append_required_audit_def refused_def split: sum.splits prod.splits if_splits)
qed (use append_error[of env sink rs s e s'] assms(4,5) in auto)

section \<open>The inputs\<close>

lemma check_audit_inputs_ok:
  assumes "check_audit_inputs inp transport = Inr ai"
  shows "inputs_ok ai" "\<exists>h. vi_context_hash inp = PStr h \<and> is_sha256_hex h"
  using assms
  by (auto simp: check_audit_inputs_def res_simps inputs_ok_def identifier_ok_def validate_timestamp_def validate_sha256_def
      is_sha256_hex_val_def str_of_def require_signed_integer_def catch_r_def split: pyval.splits if_splits sum.splits)

lemma check_audit_inputs_raises:
  "raises_only (\<lambda>e. \<exists>m. e = AuditValueError m) (check_audit_inputs inp transport)"
  unfolding check_audit_inputs_def validate_timestamp_def validate_sha256_def audit_request_id_hash_def identifier_hash_def au_check_def
  by (auto simp: raises_only_Inl catch_r_def intro!: raises_intros split: pyval.split sum.split)

section \<open>Every outcome\<close>

lemma audited_run:
  assumes "check_audit_inputs inp transport = Inr ai"
  shows "verify_with_audit env sink inp transport s =
    (case (bounded_json_snapshot (vi_receipt inp), verify_receipt_v4 (ae_zone env) inp False) of
       (Inr _, (Inr result, tr)) \<Rightarrow> append_then env sink (audit_records ai result tr) (Inr result) s
     | _ \<Rightarrow> append_then env sink (bind_r (make_preflight_record ai False V4_CONTRACT_INVALID) (\<lambda>p. Inr [p]))
         (Inl (ShieldV4AuditedVerificationError V4_CONTRACT_INVALID)) s)"
proof (cases "bounded_json_snapshot (vi_receipt inp)")
  case (Inr snap)
  then show ?thesis using verify_on_snapshot(2)[OF Inr, of "ae_zone env"] assms
    by (simp add: verify_with_audit_def split: prod.split sum.split)
qed (simp add: verify_with_audit_def assms split: prod.split)

lemma failed_preflight:
  assumes "inputs_ok ai"
  shows "\<exists>p. make_preflight_record ai False V4_CONTRACT_INVALID = Inr p \<and> record_ok p"
  by (rule preflight_record_ok[OF assms]) (simp_all add: AUDIT_REASON_IDS_def V4_CONTRACT_INVALID_def V4_VERIFY_OK_def)

lemma audit_records_number:
  "audit_records ai result tr = Inr recs \<Longrightarrow>
     length recs = 1 + length (tr_observations tr) + (case tr_validated tr of None \<Rightarrow> 0 | Some _ \<Rightarrow> 1)"
  by (auto simp: audit_records_def Let_def res_simps map_r_length split: option.splits)

text \<open>
  C36: What an audited verification can do, on every input and for every sink. A result is that of the
  plain verifier on the same inputs, and comes with one call of the sink on the records of that
  very run (one preflight, one per attempted signature, one for a validated receipt), answered by
  an acknowledgement of that batch. The exception of a failed verification comes with an
  acknowledged failed preflight. A \<open>ValueError\<close> is one of the caller's inputs, and the sink was
  not called. A sink error means that the sink raised or did not acknowledge what it was given (or
  that the interpreter's recursion limit is 0). There is no other outcome.
\<close>

theorem audited_outcomes:
  "case verify_with_audit env sink inp transport s of
     (Inr result, s') \<Rightarrow> verify_shield_v4_orchestrator_receipt (ae_zone env) inp = Inr result \<and>
       (\<exists>ai tr records. check_audit_inputs inp transport = Inr ai \<and>
         verify_receipt_v4 (ae_zone env) inp False = (Inr result, tr) \<and> audit_records ai result tr = Inr records \<and>
         length records = 1 + length (tr_observations tr) + (case tr_validated tr of None \<Rightarrow> 0 | Some _ \<Rightarrow> 1) \<and>
         committed env sink records s s')
   | (Inl (ShieldV4AuditedVerificationError reason), s') \<Rightarrow> reason = V4_CONTRACT_INVALID \<and>
       ((\<exists>m. bounded_json_snapshot (vi_receipt inp) = Inl m) \<or>
        (\<exists>m. verify_shield_v4_orchestrator_receipt (ae_zone env) inp = Inl m)) \<and>
       (\<exists>ai preflight. check_audit_inputs inp transport = Inr ai \<and>
         make_preflight_record ai False V4_CONTRACT_INVALID = Inr preflight \<and> committed env sink [preflight] s s')
   | (Inl (AuditValueError m), s') \<Rightarrow> s' = s \<and> check_audit_inputs inp transport = Inl (AuditValueError m)
   | (Inl ShieldV4AuditSinkError, s') \<Rightarrow> ae_limit env = 0 \<or> (\<exists>records. refused env sink records s s')
   | (Inl _, s') \<Rightarrow> False"
proof (cases "check_audit_inputs inp transport")
  case (Inl e)
  then obtain m where "e = AuditValueError m" using check_audit_inputs_raises[of inp transport] by (auto simp: raises_only_def)
  then show ?thesis using Inl by (simp add: verify_with_audit_def)
next
  case (Inr ai)
  note ok = check_audit_inputs_ok[OF Inr]
  obtain p where p: "make_preflight_record ai False V4_CONTRACT_INVALID = Inr p" "record_ok p" using failed_preflight[OF ok(1)] by blast
  have failed: ?thesis
    if "verify_with_audit env sink inp transport s =
        append_then env sink (Inr [p]) (Inl (ShieldV4AuditedVerificationError V4_CONTRACT_INVALID)) s"
      "(\<exists>m. bounded_json_snapshot (vi_receipt inp) = Inl m) \<or>
        (\<exists>m. verify_shield_v4_orchestrator_receipt (ae_zone env) inp = Inl m)"
  proof -
    obtain x s' where a: "append_required_audit env sink [p] s = (x, s')" by fastforce
    show ?thesis
    proof (cases x)
      case (Inl e)
      then show ?thesis using append_outcome[OF _ _ _ a Inl] p(2) that(1) Inl by (simp add: append_then_def a) blast
    next
      case ack: (Inr u)
      then have "committed env sink [p] s s'" using append_required_audit_ok a by metis
      then show ?thesis using that Inr p(1) ack by (simp add: append_then_def a)
    qed
  qed
  show ?thesis
  proof (cases "bounded_json_snapshot (vi_receipt inp)")
    case (Inl m)
    then show ?thesis using failed audited_run[OF Inr, of env sink s] p(1) by simp
  next
    case snap: (Inr v)
    obtain x tr where v: "verify_receipt_v4 (ae_zone env) inp False = (x, tr)" by fastforce
    then have plain: "verify_shield_v4_orchestrator_receipt (ae_zone env) inp = x"
      by (simp add: verify_shield_v4_orchestrator_receipt_def)
    show ?thesis
    proof (cases x)
      case (Inl m)
      then show ?thesis using failed audited_run[OF Inr, of env sink s] p(1) snap v plain by simp
    next
      case result: (Inr result)
      obtain recs where r: "audit_records ai result tr = Inr recs" "list_all record_ok recs" "recs \<noteq> []" "length recs \<le> 20"
        using audit_records_ok[of "ae_zone env" inp result tr _ ai] v result ok snap snapshot_same[OF snap] by blast
      have run: "verify_with_audit env sink inp transport s = append_then env sink (Inr recs) (Inr result) s"
        using audited_run[OF Inr, of env sink s] snap v result r(1) by simp
      obtain y s' where a: "append_required_audit env sink recs s = (y, s')" by fastforce
      show ?thesis
      proof (cases y)
        case (Inl e)
        then show ?thesis using append_outcome[OF r(2-4) a Inl] Inl unfolding run by (simp add: append_then_def a) blast
      next
        case ack: (Inr u)
        then have "committed env sink recs s s'" using append_required_audit_ok a by metis
        then show ?thesis
          using Inr plain result v r(1) audit_records_number[OF r(1)] ack unfolding run by (simp add: append_then_def a)
      qed
    qed
  qed
qed

end
