(* ===== verification/Shield_V4_Audit_Batch.thy ===== *)
theory Shield_V4_Audit_Batch
  imports Shield_V4_Audited
begin

text \<open>
  What a sink that keeps its contract gives the caller, and what the acknowledged batch hash commits
  to. The runs of the witnesses use the receipts of Demo_Receipt_V4 and a sink that keeps a log.
\<close>

section \<open>A sink that keeps its contract\<close>

definition honest_sink :: "audit_env \<Rightarrow> 's audit_sink \<Rightarrow> bool" where
  "honest_sink env sink \<longleftrightarrow> (\<forall>s bs h. audit_batch_sha256 env bs = Inr h \<longrightarrow>
     (\<exists>answer s'. sink s bs = (Inr answer, s') \<and> acknowledges answer h (length bs)))"

lemma append_honest:
  assumes "honest_sink env sink" "0 < ae_limit env" "list_all record_ok rs" "rs \<noteq> []" "length rs \<le> 20"
  shows "\<exists>s'. append_then env sink (Inr rs) ending s = (ending, s')"
proof -
  obtain bs h where b: "map_r serialize_audit_record rs = Inr bs" "length bs = length rs" "audit_batch_sha256 env bs = Inr h"
    using valid_batch[OF assms(3-5,2)] by blast
  obtain answer s' where "sink s bs = (Inr answer, s')" "acknowledges answer h (length bs)"
    using assms(1) b(3) unfolding honest_sink_def by blast
  then have "append_required_audit env sink rs s = (Inr (), s')" using b by (simp add: append_required_audit_def)
  then show ?thesis by (simp add: append_then_def)
qed

text \<open>A receipt without a bounded snapshot, at the plain verifier.\<close>

lemma unbounded_rejected:
  assumes "check_audit_inputs inp transport = Inr ai" "bounded_json_snapshot (vi_receipt inp) = Inl m"
  shows "\<exists>r. verify_shield_v4_orchestrator_receipt lz inp = Inr r \<and> vr_state r = REJECTED_INVALID_RECEIPT \<and> \<not> vr_verified r"
proof -
  obtain h rid minimum time where i: "vi_context_hash inp = PStr h" "is_sha256_hex h"
    "require_bounded_text (vi_request_id inp) ''expected_request_id'' = Inr rid" "vi_time inp = PStr time" "audit_timestamp time"
    "require_signed_integer (vi_minimum inp) ''minimum_key_registry_version'' = Inr minimum" "0 < minimum"
    using assms(1) by (auto simp: check_audit_inputs_def res_simps validate_timestamp_def validate_sha256_def
        is_sha256_hex_val_def split: pyval.splits if_splits)
  have "length time = 20" using i(5) by (auto simp: audit_timestamp_def dest!: list_all2_lengthD)
  then have "check_inputs inp =
      (if py_blank rid then Inl (invalid_input ''EXPECTED_REQUEST_ID_INVALID'') else Inr (h, rid, minimum))"
    using i by (simp add: check_inputs_def hex_required_v4(1)[OF i(2)] check_r_def str_of_def)
  then have "\<exists>r told. prepare_verification lz inp False = Inl (Ends r told) \<and> vr_state r = REJECTED_INVALID_RECEIPT \<and>
      \<not> vr_verified r"
    using assms(2) by (simp add: prepare_verification_def preflight_stage_def contract_end_def classify_contract_error_def
        invalid_input_def v4_rejected_def)
  then show ?thesis by (auto simp: verify_shield_v4_orchestrator_receipt_def verify_receipt_v4_def)
qed

text \<open>
  C37: With a sink that acknowledges every batch it is given, the audit loses no result of a receipt
  that has a bounded snapshot: for inputs that pass the caller's checks, the audited verification
  then returns the result of the plain verifier, whatever it is, and raises the error of the
  audited boundary when the plain verifier raises. A receipt without a bounded snapshot is the
  exception: the plain verifier answers \<open>REJECTED_INVALID_RECEIPT\<close>, the audited one raises. The
  audit records of a run are always within the audit schema and its byte and record limits, so
  building the batch never fails.
\<close>

theorem audit_keeps_every_result:
  assumes "honest_sink env sink" "0 < ae_limit env" "check_audit_inputs inp transport = Inr ai"
  shows "\<exists>s'. verify_with_audit env sink inp transport s =
    (case (bounded_json_snapshot (vi_receipt inp), verify_shield_v4_orchestrator_receipt (ae_zone env) inp) of
       (Inr _, Inr result) \<Rightarrow> Inr result
     | _ \<Rightarrow> Inl (ShieldV4AuditedVerificationError V4_CONTRACT_INVALID), s') \<and>
    (isl (bounded_json_snapshot (vi_receipt inp)) \<longrightarrow>
       (\<exists>r. verify_shield_v4_orchestrator_receipt (ae_zone env) inp = Inr r \<and>
          vr_state r = REJECTED_INVALID_RECEIPT \<and> \<not> vr_verified r))"
proof -
  note ok = check_audit_inputs_ok[OF assms(3)] and run = audited_run[OF assms(3), of env sink s]
  obtain p where p: "make_preflight_record ai False V4_CONTRACT_INVALID = Inr p" "record_ok p" using failed_preflight[OF ok(1)] by blast
  have failed: "\<exists>s'. append_then env sink (Inr [p]) ending s = (ending, s')" for ending :: "audit_exc + v4_result"
    using append_honest[OF assms(1,2), of "[p]" ending s] p(2) by simp
  obtain x tr where v: "verify_receipt_v4 (ae_zone env) inp False = (x, tr)" by fastforce
  then have plain: "verify_shield_v4_orchestrator_receipt (ae_zone env) inp = x"
    by (simp add: verify_shield_v4_orchestrator_receipt_def)
  show ?thesis
  proof (cases "bounded_json_snapshot (vi_receipt inp)")
    case (Inl m)
    then show ?thesis using run p(1) failed unbounded_rejected[OF assms(3) Inl, of "ae_zone env"] by simp
  next
    case snap: (Inr w)
    show ?thesis
    proof (cases x)
      case (Inl m)
      then show ?thesis using run p(1) failed snap v plain by simp
    next
      case (Inr result)
      then obtain recs where r: "audit_records ai result tr = Inr recs" "list_all record_ok recs" "recs \<noteq> []" "length recs \<le> 20"
        using audit_records_ok[of "ae_zone env" inp result tr _ ai] v ok snap snapshot_same[OF snap] by blast
      show ?thesis using run snap v plain Inr r(1) append_honest[OF assms(1,2) r(2-4), of "Inr result" s] by simp
    qed
  qed
qed

definition demo_audit_env :: audit_env where
  "demo_audit_env = \<lparr>ae_limit = 1000, ae_float = (\<lambda>_. FInf False), ae_zone = utc_host\<rparr>"

definition recording_sink :: "nat list list list audit_sink" where
  "recording_sink log bs = (case audit_batch_sha256 demo_audit_env bs of
     Inl _ \<Rightarrow> (Inl (), log)
   | Inr h \<Rightarrow> (Inr (PDict [(''schema_version'', PStr AUDIT_ACK_SCHEMA_VERSION), (''batch_sha256'', PStr h),
       (''record_count'', PInt (int (length bs))), (''durably_committed'', PBool True)]), log @ [bs]))"

lemma audit_keeps_every_result_witness:
  "\<exists>result log. verify_with_audit demo_audit_env recording_sink
      (demo_v4_inputs (PDict (demo_v4_case ''adn'' ''DENY'' [(''handoff_allowed'', PBool False)]))) (PStr demo_v4_hex) [] = (Inr result, log) \<and>
     vr_verified result \<and> vr_final_outcome result = Some ''DENY''"
proof -
  let ?m = "[(''handoff_allowed'', PBool False)]"
  let ?inp = "demo_v4_inputs (PDict (demo_v4_case ''adn'' ''DENY'' ?m))"
  have v: "demo_v4_variant ''adn'' ''DENY''" "demo_v4_handoff ''DENY'' ?m"
    by (simp_all add: demo_v4_variant_def demo_v4_handoff_def)
  have honest: "honest_sink demo_audit_env recording_sink"
    by (auto simp: honest_sink_def recording_sink_def acknowledges_def AUDIT_ACK_FIELDS_def dkeys_def)
  have time: "audit_timestamp ''2024-01-02T00:00:00Z''" by code_simp
  have ok: "identifier_ok ''req''" by code_simp
  obtain h where h: "identifier_hash AUDIT_REQUEST_ID_HASH_DOMAIN (PStr ''req'') ''request_id'' = Inr h"
    using identifier_hash_total[OF ok] by blast
  obtain ai where ai: "check_audit_inputs ?inp (PStr demo_v4_hex) = Inr ai"
    using demo_v4_hex_ok time identifier_bounded[OF ok] h
    by (auto simp: check_audit_inputs_def demo_v4_inputs_def validate_timestamp_def validate_sha256_def au_check_def check_r_def
        audit_request_id_hash_def require_signed_integer_def signed_integer_ok_def MAX_SIGNED_INTEGER_BITS_def)
  have "preflight_stage ?inp False demo_v4_hex = Inr (demo_v4_case ''adn'' ''DENY'' ?m)" by (rule demo_v4_reaches(2)[OF v])
  then obtain w where snap: "bounded_json_snapshot (vi_receipt ?inp) = Inr w"
    by (cases "bounded_json_snapshot (vi_receipt ?inp)") (auto simp: preflight_stage_def)
  obtain res where "verify_shield_v4_orchestrator_receipt utc_host ?inp = Inr res" "vr_verified res" "vr_final_outcome res = Some ''DENY''"
    using demo_v4_result[OF v, of utc_host] by auto
  then show ?thesis
    using audit_keeps_every_result[OF honest _ ai, of "[]"] snap by (auto simp: demo_audit_env_def)
qed

section \<open>The acknowledged hash commits to the records\<close>

lemma normalise_path:
  "normalise path v = Inr w \<Longrightarrow> normalise q v = Inr w"
  "normalise_list path i xs = Inr ys \<Longrightarrow> normalise_list q j xs = Inr ys"
  "normalise_items path out m = Inr n \<Longrightarrow> normalise_items q out m = Inr n"
proof (induction path v and path i xs and path out m arbitrary: w q and ys q j and n q
    rule: normalise_normalise_list_normalise_items.induct)
  case (6 path xs)
  from 6(2) obtain ys where y: "normalise_list path 0 xs = Inr ys" "w = PList ys" by (auto simp: bind_r_eq_Inr)
  then show ?case using 6(1)[OF y(1)] y(2) by simp
next
  case (7 path xs)
  from 7(2) obtain ys where y: "normalise_list path 0 xs = Inr ys" "w = PList ys" by (auto simp: bind_r_eq_Inr)
  then show ?case using 7(1)[OF y(1)] y(2) by simp
next
  case (9 path m)
  from 9(2) obtain n where y: "normalise_items path [] m = Inr n" "w = PDict n" by (auto simp: bind_r_eq_Inr)
  then show ?case using 9(1)[OF y(1)] y(2) by simp
next
  case (11 path i x xs)
  from 11(3) obtain y zs where y: "normalise (path @ ''['' @ show_nat i @ '']'') x = Inr y" "normalise_list path (i + 1) xs = Inr zs"
    "ys = y # zs" by (auto simp: bind_r_eq_Inr)
  show ?case using 11(1)[OF y(1)] 11(2)[OF y(1,2)] y(3) by simp
next
  case (13 path out k v m)
  from 13(3) obtain w where w: "\<not> has_key out k" "normalise (path @ ''.'' @ k) v = Inr w"
    "normalise_items path (out @ [(k, w)]) m = Inr n" by (auto simp: bind_r_eq_Inr v4_fail_def split: if_splits)
  show ?case using 13(1)[OF w(1,2)] 13(2)[OF w] w(1) by simp
qed (auto simp: v4_fail_def)

lemma normalise_list_items:
  "normalise_list path i xs = Inr vs \<Longrightarrow> list_all2 (\<lambda>x v. normalise ''$'' x = Inr v) xs vs"
  by (induction xs arbitrary: i vs) (auto simp: res_simps dest: normalise_path(1)[of _ _ _ "''$''"])

text \<open>The value a record stands for.\<close>

definition record_value :: "nat list \<Rightarrow> pyval \<Rightarrow> bool" where
  "record_value r v \<longleftrightarrow> (\<exists>l. exact_json (\<lambda>_. True) l v) \<and> r = utf8 (json_text False v)"

lemma parsed_records:
  "map_r (parse_audit_record env) rs = Inr es \<Longrightarrow>
     list_all2 (\<lambda>r e. \<forall>v. normalise ''$'' (PDict e) = Inr v \<longrightarrow> record_value r v) rs es"
proof (induction rs arbitrary: es)
  case (Cons r rs)
  then obtain e es' where e: "parse_audit_record env r = Inr e" "map_r (parse_audit_record env) rs = Inr es'" "es = e # es'"
    by (auto simp: res_simps)
  obtain s where s: "to_canonical_json e = Inr s" "r = utf8 s"
    using e(1) by (auto simp: parse_audit_record_def bind_r_eq_Inr from_contract_ok au_check_ok
        split: option.splits sum.splits if_splits)
  have "record_value r v" if "normalise ''$'' (PDict e) = Inr v" for v
    using s that unfolding record_value_def canonical_json_text by auto
  then show ?case using Cons.IH[OF e(2)] e(3) by simp
qed simp

lemma batch_values:
  assumes "canonical_batch_bytes env rs = Inr bs"
  obtains vs l where "list_all2 record_value rs vs" "exact_json (\<lambda>_. True) l (PDict [(''records'', PList vs)])"
    "bs = utf8 (json_text False (PDict [(''records'', PList vs)]))"
proof -
  obtain es s where e: "map_r (parse_audit_record env) rs = Inr es" "to_canonical_json [(''records'', PList (map PDict es))] = Inr s"
    "bs = utf8 s"
    using assms unfolding canonical_batch_bytes_def bind_r_eq_Inr from_contract_ok by blast
  obtain v l where v: "normalise ''$'' (PDict [(''records'', PList (map PDict es))]) = Inr v" "s = json_text False v"
    "exact_json (\<lambda>_. True) l v"
    using e(2) unfolding canonical_json_text by blast
  obtain vs p where vs: "v = PDict [(''records'', PList vs)]" "normalise_list p 0 (map PDict es) = Inr vs"
    using v(1) by (simp add: bind_r_eq_Inr has_key_def dkeys_def) blast
  have n: "list_all2 (\<lambda>e v. normalise ''$'' (PDict e) = Inr v) es vs"
    using normalise_list_items[OF vs(2)] by (simp add: list_all2_map1)
  have "list_all2 record_value rs vs"
    by (rule list_all2_trans[rotated, OF parsed_records[OF e(1)] n]) blast
  then show thesis using that v(2,3) e(3) vs(1) by blast
qed

lemma record_values_inject:
  "list_all2 record_value rs vs \<Longrightarrow> list_all2 record_value qs ws \<Longrightarrow> map sorted_json vs = map sorted_json ws \<Longrightarrow> rs = qs"
proof (induction rs vs arbitrary: qs ws rule: list_all2_induct)
  case (Cons r rs v vs)
  then obtain q qs' w ws' where q: "qs = q # qs'" "ws = w # ws'" "record_value q w" "list_all2 record_value qs' ws'"
    by (cases ws) (auto simp: list_all2_Cons2)
  obtain k l where e: "exact_json (\<lambda>_. True) k v" "exact_json (\<lambda>_. True) l w" "r = utf8 (json_text False v)" "q = utf8 (json_text False w)"
    using Cons.hyps(1) q(3) by (auto simp: record_value_def)
  have "sorted_json v = sorted_json w" using Cons.prems(2) q(2) by simp
  then have "r = q" using json_text_inject[OF e(1,2), of False] e(3,4) by simp
  then show ?case using Cons.IH[OF q(4)] Cons.prems(2) q(1,2) by simp
qed simp

text \<open>
  C38: The hash a sink acknowledges commits to every byte of every record, their number and their order:
  it is the SHA-256 of the domain and the canonical batch, and no other list of records has the
  same canonical batch.
\<close>

theorem audit_batch_commits:
  assumes "canonical_batch_bytes env records = Inr bs"
  shows "audit_batch_sha256 env records = Inr (sha256_hex (utf8 AUDIT_BATCH_HASH_DOMAIN @ bs)) \<and>
    (canonical_batch_bytes env others = Inr bs \<longleftrightarrow> others = records)"
proof -
  obtain vs l where v: "list_all2 record_value records vs" "exact_json (\<lambda>_. True) l (PDict [(''records'', PList vs)])"
    "bs = utf8 (json_text False (PDict [(''records'', PList vs)]))" by (rule batch_values[OF assms])
  have "others = records" if o: "canonical_batch_bytes env others = Inr bs"
  proof -
    obtain ws k where w: "list_all2 record_value others ws" "exact_json (\<lambda>_. True) k (PDict [(''records'', PList ws)])"
      "bs = utf8 (json_text False (PDict [(''records'', PList ws)]))" by (rule batch_values[OF o])
    have "sorted_json (PDict [(''records'', PList vs)]) = sorted_json (PDict [(''records'', PList ws)])"
      using json_text_inject[OF v(2) w(2), of False] v(3) w(3) by simp
    then have "map sorted_json vs = map sorted_json ws" by (simp add: sorted_list_map)
    then show ?thesis using record_values_inject[OF v(1) w(1)] by simp
  qed
  then show ?thesis using assms by (auto simp: audit_batch_sha256_def)
qed

lemma audit_batch_commits_witness:
  "\<exists>r bs. canonical_batch_bytes demo_audit_env [r] = Inr bs \<and> canonical_batch_bytes demo_audit_env [r, r] \<noteq> Inr bs"
proof -
  let ?ai = "\<lparr>ai_request_id = ''req'', ai_context_hash = demo_v4_hex, ai_transport_hash = demo_v4_hex, ai_minimum = 1,
    ai_time = ''2024-01-02T00:00:00Z''\<rparr>"
  have "identifier_ok ''req''" "audit_timestamp ''2024-01-02T00:00:00Z''" by code_simp+
  then have "inputs_ok ?ai" using demo_v4_hex_ok by (simp add: inputs_ok_def signed_integer_ok_def MAX_SIGNED_INTEGER_BITS_def)
  from failed_preflight[OF this] obtain p where "record_ok p" by blast
  then obtain r bs where bs: "canonical_batch_bytes demo_audit_env [r] = Inr bs"
    using batch_bytes[of "[p]" demo_audit_env] by (auto simp: demo_audit_env_def)
  then show ?thesis using audit_batch_commits[OF bs, of "[r, r]"] by auto
qed

end
