(* ===== verification/Shield_V3_Harness.thy ===== *)
theory Shield_V3_Harness
  imports Combined_Context Shield_Receipt_Verifier
begin

text \<open>
  \<open>src/adamantine/v1/integrations/shield_v3_adapter_harness.py\<close>: the combined context hash, the
  receipt verifier and the receipt adapter in sequence. A result carries the results of both
  boundaries; no result is a final approval.
\<close>

section \<open>States and results\<close>

datatype harness_state =
    HN_ALLOW_EVIDENCE_CONTINUE_CHECKS
  | HN_DENY_DOMINATES_BLOCK
  | HN_HUMAN_REVIEW_REQUIRED
  | HN_REJECTED_CONTEXT_CONTRACT
  | HN_REJECTED_RECEIPT_VERIFICATION
  | HN_REJECTED_ADAPTER_MAPPING
  | HN_REJECTED_BOUNDARY_INCONSISTENCY

primrec harness_state_value :: "harness_state \<Rightarrow> string" where
  "harness_state_value HN_ALLOW_EVIDENCE_CONTINUE_CHECKS = ''ALLOW_EVIDENCE_CONTINUE_CHECKS''"
| "harness_state_value HN_DENY_DOMINATES_BLOCK = ''DENY_DOMINATES_BLOCK''"
| "harness_state_value HN_HUMAN_REVIEW_REQUIRED = ''HUMAN_REVIEW_REQUIRED''"
| "harness_state_value HN_REJECTED_CONTEXT_CONTRACT = ''REJECTED_CONTEXT_CONTRACT''"
| "harness_state_value HN_REJECTED_RECEIPT_VERIFICATION = ''REJECTED_RECEIPT_VERIFICATION''"
| "harness_state_value HN_REJECTED_ADAPTER_MAPPING = ''REJECTED_ADAPTER_MAPPING''"
| "harness_state_value HN_REJECTED_BOUNDARY_INCONSISTENCY = ''REJECTED_BOUNDARY_INCONSISTENCY''"

record harness_result =
  hn_state :: harness_state
  hn_reason_id :: reason_id
  hn_context_hash :: "string option"
  hn_request_id :: "string option"
  hn_accepted_as_evidence :: bool
  hn_final_approval :: bool
  hn_final_outcome :: "string option"
  hn_handoff_allowed :: bool
  hn_dominant_reason_ids :: "string list"
  hn_verification :: "receipt_result option"
  hn_adapter :: "adapter_result option"

text \<open>What leaves the harness: an exception of the context hash that is not its error, or of the verifier.\<close>

datatype harness_exc = HarnessContext cc_exc | HarnessRaised pyexc

definition request_id_from_context :: "pyval \<Rightarrow> string option" where
  "request_id_from_context payload = string_or_none payload ''request_id''"

text \<open>\<open>str(combined_context_payload["request_id"])\<close> of a validated payload.\<close>

definition context_request_id :: "pyval \<Rightarrow> string" where
  "context_request_id payload = (case payload of PDict m \<Rightarrow> str_of (dget m ''request_id'') | _ \<Rightarrow> [])"

definition hn_rejected :: "harness_state \<Rightarrow> reason_id \<Rightarrow> string option \<Rightarrow> string option \<Rightarrow> string
    \<Rightarrow> receipt_result option \<Rightarrow> adapter_result option \<Rightarrow> harness_result" where
  "hn_rejected st reason ch rid dominant verification adapter = \<lparr>hn_state = st, hn_reason_id = reason,
     hn_context_hash = ch, hn_request_id = rid, hn_accepted_as_evidence = False, hn_final_approval = False,
     hn_final_outcome = None, hn_handoff_allowed = False, hn_dominant_reason_ids = [dominant],
     hn_verification = verification, hn_adapter = adapter\<rparr>"

definition adapter_state_matches_verifier :: "receipt_result \<Rightarrow> adapter_result \<Rightarrow> bool" where
  "adapter_state_matches_verifier v a = (case rv_state v of
     VERIFIED_ALLOW_EVIDENCE_CONTINUE_CHECKS \<Rightarrow> ar_state a = SHIELD_EVIDENCE_ACCEPTED_CONTINUE_CHECKS
   | VERIFIED_DENY_DOMINATES \<Rightarrow> ar_state a = SHIELD_BLOCK_DENY_DOMINATES
   | VERIFIED_HUMAN_REVIEW_REQUIRED \<Rightarrow> ar_state a = SHIELD_REVIEW_REQUIRED
   | _ \<Rightarrow> False)"

section \<open>The harness\<close>

text \<open>The end of the harness, once both boundaries have answered.\<close>

definition combine_boundaries :: "string \<Rightarrow> string option \<Rightarrow> receipt_result \<Rightarrow> adapter_result \<Rightarrow> harness_result" where
  "combine_boundaries h rid v a =
    (if \<not> ar_accepted_as_evidence a
       then hn_rejected HN_REJECTED_ADAPTER_MAPPING (ar_reason_id a) (Some h) rid (adapter_state_value (ar_state a)) (Some v) (Some a)
     else if \<not> adapter_state_matches_verifier v a
       then hn_rejected HN_REJECTED_BOUNDARY_INCONSISTENCY EQC_CONFLICTING_EVIDENCE (Some h) rid
         ''VERIFIER_ADAPTER_STATE_MISMATCH'' (Some v) (Some a)
     else if ar_final_approval a \<or> rv_final_approval v
       then hn_rejected HN_REJECTED_BOUNDARY_INCONSISTENCY EQC_CONFLICTING_EVIDENCE (Some h) rid
         ''SHIELD_EVIDENCE_CANNOT_GRANT_FINAL_APPROVAL'' (Some v) (Some a)
     else (let (st, reason) = (if rv_final_outcome v = Some ''DENY'' then (HN_DENY_DOMINATES_BLOCK, DENY_POLICY)
           else if rv_final_outcome v = Some ''HUMAN_REVIEW_REQUIRED'' then (HN_HUMAN_REVIEW_REQUIRED, DENY_AUTHORITY_INSUFFICIENT)
           else (HN_ALLOW_EVIDENCE_CONTINUE_CHECKS, EVIDENCE_OK))
       in \<lparr>hn_state = st, hn_reason_id = reason, hn_context_hash = Some h, hn_request_id = rid,
         hn_accepted_as_evidence = True, hn_final_approval = False, hn_final_outcome = rv_final_outcome v,
         hn_handoff_allowed = (rv_handoff_allowed v \<and> ar_handoff_allowed a),
         hn_dominant_reason_ids = rv_dominant_reason_ids v, hn_verification = Some v, hn_adapter = Some a\<rparr>))"

definition run_shield_v3_adapter_harness :: "pyval \<Rightarrow> pyval \<Rightarrow> string list \<Rightarrow> harness_exc + harness_result" where
  "run_shield_v3_adapter_harness payload receipt rejected =
    (let rid = request_id_from_context payload in
     case compute_combined_context_hash payload of
       Inl (CombinedContextHashError m) \<Rightarrow> Inr (hn_rejected HN_REJECTED_CONTEXT_CONTRACT EQC_INVALID_SHIELD_BUNDLE None rid
         (''COMBINED_CONTEXT_HASH_CONTRACT_REJECTED:'' @ m) None None)
     | Inl e \<Rightarrow> Inl (HarnessContext e)
     | Inr h \<Rightarrow> (case verify_shield_orchestrator_receipt receipt h (context_request_id payload) rejected of
         Inl e \<Rightarrow> Inl (HarnessRaised e)
       | Inr v \<Rightarrow>
           if \<not> rv_verified v
             then Inr (hn_rejected HN_REJECTED_RECEIPT_VERIFICATION (rv_reason_id v) (Some h) rid
               (receipt_state_value (rv_state v)) (Some v) None)
           else (case adapt_shield_orchestrator_receipt receipt h of
               Inl e \<Rightarrow> Inl (HarnessRaised e)
             | Inr a \<Rightarrow> Inr (combine_boundaries h rid v a))))"

section \<open>The adapter agrees with the verifier\<close>

lemma validate_receipt_not_direct:
  "validate_shield_orchestrator_receipt v h = Inr r \<Longrightarrow> reject_direct_component_verdict v = Inr r"
  using validate_receipt_ok[of v h r]
  by (auto simp: validate_shield_orchestrator_receipt_def bind_r_eq_Inr reject_direct_component_verdict_def need_map_def
      split: if_splits)

text \<open>What a verified receipt gives on both sides.\<close>

lemma boundaries_agree:
  assumes "verify_shield_orchestrator_receipt receipt h rid rejected = Inr v" "rv_verified v"
  shows "\<exists>a. adapt_shield_orchestrator_receipt receipt h = Inr a \<and> ar_accepted_as_evidence a \<and> \<not> ar_final_approval a \<and>
    adapter_state_matches_verifier v a \<and> ar_handoff_allowed a = rv_handoff_allowed v"
    "rv_state v \<in> {VERIFIED_ALLOW_EVIDENCE_CONTINUE_CHECKS, VERIFIED_DENY_DOMINATES, VERIFIED_HUMAN_REVIEW_REQUIRED}"
    "rv_final_outcome v = Some ''DENY'' \<longleftrightarrow> rv_state v = VERIFIED_DENY_DOMINATES"
    "rv_final_outcome v = Some ''HUMAN_REVIEW_REQUIRED'' \<longleftrightarrow> rv_state v = VERIFIED_HUMAN_REVIEW_REQUIRED"
    "rv_handoff_allowed v \<longleftrightarrow> rv_state v = VERIFIED_ALLOW_EVIDENCE_CONTINUE_CHECKS"
proof -
  obtain r where r: "validate_shield_orchestrator_receipt receipt h = Inr r"
    using assms by (auto simp: verify_shield_orchestrator_receipt_def split: sum.splits receipt_error.splits prod.splits)
  note d = validate_receipt_not_direct[OF r] and valid = validate_receipt_ok[OF r]
  obtain vs outcome reason allowed where c: "classify_component_verdicts vs = (outcome, reason, allowed)"
    "dget r ''final_outcome'' = PStr outcome" "handoff_allowed_of r = allowed" using valid by (auto simp: receipt_valid_def)
  have o: "outcome \<in> {''ALLOW'', ''DENY'', ''HUMAN_REVIEW_REQUIRED''}" "allowed \<longleftrightarrow> outcome = ''ALLOW''"
    using classify_outcomes(1,2)[OF c(1)] by (auto simp: ALLOWED_FINAL_OUTCOMES_def)
  have v: "rv_final_outcome v = Some outcome" "rv_handoff_allowed v = allowed"
    "rv_state v = (if outcome = ''DENY'' then VERIFIED_DENY_DOMINATES
       else if outcome = ''HUMAN_REVIEW_REQUIRED'' then VERIFIED_HUMAN_REVIEW_REQUIRED else VERIFIED_ALLOW_EVIDENCE_CONTINUE_CHECKS)"
    using assms r c(2,3) by (auto simp: verify_shield_orchestrator_receipt_def str_of_def Let_def split: if_splits)
  show "rv_state v \<in> {VERIFIED_ALLOW_EVIDENCE_CONTINUE_CHECKS, VERIFIED_DENY_DOMINATES, VERIFIED_HUMAN_REVIEW_REQUIRED}"
    "rv_final_outcome v = Some ''DENY'' \<longleftrightarrow> rv_state v = VERIFIED_DENY_DOMINATES"
    "rv_final_outcome v = Some ''HUMAN_REVIEW_REQUIRED'' \<longleftrightarrow> rv_state v = VERIFIED_HUMAN_REVIEW_REQUIRED"
    "rv_handoff_allowed v \<longleftrightarrow> rv_state v = VERIFIED_ALLOW_EVIDENCE_CONTINUE_CHECKS"
    using v o by auto
  show "\<exists>a. adapt_shield_orchestrator_receipt receipt h = Inr a \<and> ar_accepted_as_evidence a \<and> \<not> ar_final_approval a \<and>
    adapter_state_matches_verifier v a \<and> ar_handoff_allowed a = rv_handoff_allowed v"
    using r d c(2,3) v by (simp add: adapt_shield_orchestrator_receipt_def str_of_def adapter_state_matches_verifier_def Let_def)
qed

definition state_of_verified :: "receipt_state \<Rightarrow> harness_state" where
  "state_of_verified st = (case st of VERIFIED_ALLOW_EVIDENCE_CONTINUE_CHECKS \<Rightarrow> HN_ALLOW_EVIDENCE_CONTINUE_CHECKS
     | VERIFIED_DENY_DOMINATES \<Rightarrow> HN_DENY_DOMINATES_BLOCK | VERIFIED_HUMAN_REVIEW_REQUIRED \<Rightarrow> HN_HUMAN_REVIEW_REQUIRED
     | _ \<Rightarrow> HN_REJECTED_RECEIPT_VERIFICATION)"

lemma combine_verified:
  assumes "verify_shield_orchestrator_receipt receipt h rid' rejected = Inr v" "rv_verified v"
    "adapt_shield_orchestrator_receipt receipt h = Inr a"
  shows "hn_state (combine_boundaries h rid v a) = state_of_verified (rv_state v)"
    "hn_accepted_as_evidence (combine_boundaries h rid v a)" "\<not> hn_final_approval (combine_boundaries h rid v a)"
    "hn_final_outcome (combine_boundaries h rid v a) = rv_final_outcome v"
    "hn_verification (combine_boundaries h rid v a) = Some v"
    "hn_handoff_allowed (combine_boundaries h rid v a) = rv_handoff_allowed v"
  using boundaries_agree[OF assms(1,2)] assms(3) verify_never_final[OF assms(1)]
  by (auto simp: combine_boundaries_def state_of_verified_def Let_def)

lemma unverified_state:
  assumes "verify_shield_orchestrator_receipt receipt h rid rejected = Inr v" "\<not> rv_verified v"
  shows "state_of_verified (rv_state v) = HN_REJECTED_RECEIPT_VERIFICATION"
proof -
  have "rv_state v \<notin> {VERIFIED_ALLOW_EVIDENCE_CONTINUE_CHECKS, VERIFIED_DENY_DOMINATES, VERIFIED_HUMAN_REVIEW_REQUIRED}"
    using assms by (auto simp: verify_shield_orchestrator_receipt_def Let_def classify_base_error_def
        split: sum.splits receipt_error.splits prod.splits if_splits)
  then show ?thesis by (simp add: state_of_verified_def split: receipt_state.split)
qed

lemma verified_allow_iff:
  assumes "verify_shield_orchestrator_receipt receipt h rid rejected = Inr v" "rv_verified v"
  shows "state_of_verified (rv_state v) = HN_ALLOW_EVIDENCE_CONTINUE_CHECKS \<longleftrightarrow>
    (\<exists>m. receipt = PDict m \<and> allow_evidence m h rid rejected)"
proof -
  have "rv_state v = VERIFIED_ALLOW_EVIDENCE_CONTINUE_CHECKS" if "receipt = PDict m" "allow_evidence m h rid rejected" for m
  proof -
    have "rv_final_outcome v = Some ''ALLOW''"
      using assms that by (auto simp: verify_shield_orchestrator_receipt_def allow_evidence_def str_of_def Let_def
          dest!: validate_receipt_ok split: sum.splits receipt_error.splits prod.splits if_splits)
    then show ?thesis using boundaries_agree(2-4)[OF assms] by auto
  qed
  moreover have "state_of_verified (rv_state v) = HN_ALLOW_EVIDENCE_CONTINUE_CHECKS \<longleftrightarrow>
      rv_state v = VERIFIED_ALLOW_EVIDENCE_CONTINUE_CHECKS" by (simp add: state_of_verified_def split: receipt_state.split)
  ultimately show ?thesis using verify_allow[OF assms(1)] by blast
qed

text \<open>
  The second boundary never decides: for every input the state is the one the verifier gives, the
  two states for a rejecting adapter and for a disagreement are unreachable, and the hand-off flag
  is up exactly with ALLOW evidence, which then meets the whole contract of \<^const>\<open>allow_evidence\<close>. No
  result is a final approval.
\<close>

theorem harness_follows_verifier:
  "case run_shield_v3_adapter_harness payload receipt rejected of
     Inl (HarnessContext _) \<Rightarrow> True
   | Inl (HarnessRaised e) \<Rightarrow> (\<exists>m. e = TypeError m)
   | Inr r \<Rightarrow> \<not> hn_final_approval r \<and> (hn_handoff_allowed r \<longleftrightarrow> hn_state r = HN_ALLOW_EVIDENCE_CONTINUE_CHECKS) \<and>
       (case compute_combined_context_hash payload of
          Inl _ \<Rightarrow> hn_state r = HN_REJECTED_CONTEXT_CONTRACT \<and> \<not> hn_accepted_as_evidence r
        | Inr h \<Rightarrow> (\<exists>v. verify_shield_orchestrator_receipt receipt h (context_request_id payload) rejected = Inr v \<and>
            hn_verification r = Some v \<and> hn_state r = state_of_verified (rv_state v) \<and>
            hn_accepted_as_evidence r = rv_verified v \<and> hn_context_hash r = Some h \<and>
            (hn_state r = HN_ALLOW_EVIDENCE_CONTINUE_CHECKS \<longleftrightarrow>
              (\<exists>m. receipt = PDict m \<and> allow_evidence m h (context_request_id payload) rejected \<and> rv_verified v))))"
proof (cases "compute_combined_context_hash payload")
  case (Inl e)
  then show ?thesis by (cases e) (simp_all add: run_shield_v3_adapter_harness_def hn_rejected_def Let_def)
next
  case h: (Inr h)
  let ?verify = "verify_shield_orchestrator_receipt receipt h (context_request_id payload) rejected"
  show ?thesis
  proof (cases ?verify)
    case (Inl e)
    then have "\<exists>m. e = TypeError m"
      by (auto simp: verify_shield_orchestrator_receipt_def Let_def split: sum.splits receipt_error.splits prod.splits if_splits)
    then show ?thesis using Inl h by (simp add: run_shield_v3_adapter_harness_def Let_def)
  next
    case v: (Inr v)
    show ?thesis
    proof (cases "rv_verified v")
      case False
      then show ?thesis using v h unverified_state[OF v False] by (simp add: run_shield_v3_adapter_harness_def hn_rejected_def Let_def)
    next
      case True
      note b = boundaries_agree[OF v True]
      obtain a where a: "adapt_shield_orchestrator_receipt receipt h = Inr a" using b(1) by blast
      have "rv_state v = VERIFIED_ALLOW_EVIDENCE_CONTINUE_CHECKS \<longleftrightarrow> state_of_verified (rv_state v) = HN_ALLOW_EVIDENCE_CONTINUE_CHECKS"
        by (simp add: state_of_verified_def split: receipt_state.split)
      then show ?thesis using True v h a combine_verified[OF v True a, of "request_id_from_context payload"] verified_allow_iff[OF v True] b(5)
        by (simp add: run_shield_v3_adapter_harness_def Let_def combine_boundaries_def hn_rejected_def)
    qed
  qed
qed

end
