(* ===== verification/Shield_V3_Live.thy ===== *)
theory Shield_V3_Live
  imports Shield_V3_Harness Py_Convert
begin

text \<open>
  \<open>src/adamantine/v1/integrations/shield_v3_live_orchestrator_harness.py\<close>: a receipt built by an
  injected Shield Orchestrator is normalised and handed to the adapter harness. The builder is a
  parameter: it raises (the name of the exception class) or answers; \<^const>\<open>None\<close> is a missing or
  uncallable builder.
\<close>

section \<open>States and results\<close>

datatype live_state =
    LIVE_ALLOW_EVIDENCE_CONTINUE_CHECKS
  | LIVE_DENY_DOMINATES_BLOCK
  | LIVE_HUMAN_REVIEW_REQUIRED
  | LV_REJECTED_CONTEXT_CONTRACT
  | LV_REJECTED_ORCHESTRATOR_UNAVAILABLE
  | LV_REJECTED_ORCHESTRATOR_EXCEPTION
  | LV_REJECTED_LIVE_RECEIPT_SHAPE
  | LV_REJECTED_LIVE_RECEIPT_TAMPERED
  | LV_REJECTED_AUTHORITY_BYPASS
  | LV_REJECTED_ADAPTER_HARNESS

record live_result =
  lv_state :: live_state
  lv_reason_id :: reason_id
  lv_context_hash :: "string option"
  lv_request_id :: "string option"
  lv_accepted_as_evidence :: bool
  lv_final_approval :: bool
  lv_final_outcome :: "string option"
  lv_handoff_allowed :: bool
  lv_dominant_reason_ids :: "string list"
  lv_source_receipt_hash :: "string option"
  lv_normalized_receipt_hash :: "string option"
  lv_adapter_harness :: "harness_result option"

definition LIVE_RECEIPT_FIELDS :: "string list" where
  "LIVE_RECEIPT_FIELDS = [''schema_version'', ''contract_version'', ''request_id'', ''context_hash'', ''component_verdicts'',
     ''final_outcome'', ''dominant_reason_ids'', ''receipt_hash'', ''adamantineos_handoff'', ''fail_closed'']"

definition LIVE_COMPONENT_FIELDS :: "string list" where
  "LIVE_COMPONENT_FIELDS = [''component_id'', ''contract_version'', ''schema_version'', ''request_id'', ''context_hash'',
     ''decision'', ''reason_ids'', ''evidence_hash'', ''evidence_families'', ''metadata'', ''fail_closed'']"

definition SUPPORTED_LIVE_DECISIONS :: "string list" where
  "SUPPORTED_LIVE_DECISIONS = [''ALLOW'', ''ESCALATE'', ''DENY'', ''ERROR'', ''SKIPPED'']"

definition LIVE_FORBIDDEN_AUTHORITY_KEYS :: "string list" where
  "LIVE_FORBIDDEN_AUTHORITY_KEYS = [''allow'', ''approved'', ''authority'', ''auto_approve'', ''broadcast'', ''bypass'',
     ''can_sign'', ''decision_override'', ''execute'', ''final_approval'', ''force_allow'', ''human_approved'', ''override'',
     ''sign'', ''trusted'']"

definition lv_rejected :: "live_state \<Rightarrow> reason_id \<Rightarrow> string option \<Rightarrow> string option \<Rightarrow> string
    \<Rightarrow> string option \<Rightarrow> string option \<Rightarrow> harness_result option \<Rightarrow> live_result" where
  "lv_rejected st reason ch rid dominant source normalized harness = \<lparr>lv_state = st, lv_reason_id = reason,
     lv_context_hash = ch, lv_request_id = rid, lv_accepted_as_evidence = False, lv_final_approval = False,
     lv_final_outcome = None, lv_handoff_allowed = False, lv_dominant_reason_ids = [dominant],
     lv_source_receipt_hash = source, lv_normalized_receipt_hash = normalized, lv_adapter_harness = harness\<rparr>"

section \<open>Normalising a receipt\<close>

text \<open>A \<open>ValueError\<close>, which the harness turns into a rejection, or a \<open>TypeError\<close>.\<close>

datatype live_exc = LiveValueError string | LiveTypeError string

definition live_check :: "bool \<Rightarrow> string \<Rightarrow> live_exc + unit" where
  "live_check c m = check_r c (LiveValueError m)"

lemma live_check_ok [res_simps]: "live_check c m = Inr u \<longleftrightarrow> c"
  by (simp add: live_check_def check_r_def)

definition live_require_hash :: "pyval \<Rightarrow> string \<Rightarrow> live_exc + string" where
  "live_require_hash v field = (case v of
     PStr s \<Rightarrow>
       bind_r (live_check (length s = 64) (field @ '' must be 64-character sha256 hex'')) (\<lambda>_.
       bind_r (live_check (int16_ok s) (field @ '' must be sha256 hex'')) (\<lambda>_. Inr (py_lower s)))
   | _ \<Rightarrow> Inl (LiveValueError (field @ '' must be 64-character sha256 hex'')))"

lemma live_require_hash_ok [res_simps]:
  "live_require_hash v field = Inr h \<longleftrightarrow> (\<exists>s. v = PStr s \<and> length s = 64 \<and> int16_ok s \<and> h = py_lower s)"
  by (auto simp: live_require_hash_def res_simps split: pyval.splits)

fun contains_authority_bypass :: "pyval \<Rightarrow> bool" and authority_bypass_list :: "pyval list \<Rightarrow> bool"
  and authority_bypass_items :: "pydict \<Rightarrow> bool" where
  "contains_authority_bypass (PDict m) \<longleftrightarrow>
     set (dkeys m) \<inter> set LIVE_FORBIDDEN_AUTHORITY_KEYS \<noteq> {} \<or> authority_bypass_items m"
| "contains_authority_bypass (PList xs) \<longleftrightarrow> authority_bypass_list xs"
| "contains_authority_bypass _ \<longleftrightarrow> False"
| "authority_bypass_list [] \<longleftrightarrow> False"
| "authority_bypass_list (x # xs) \<longleftrightarrow> contains_authority_bypass x \<or> authority_bypass_list xs"
| "authority_bypass_items [] \<longleftrightarrow> False"
| "authority_bypass_items ((k, v) # m) \<longleftrightarrow> contains_authority_bypass v \<or> authority_bypass_items m"

text \<open>\<open>v in s\<close> on a set of strings; a set is looked up as a frozen set.\<close>

definition live_member :: "pyval \<Rightarrow> string list \<Rightarrow> live_exc + bool" where
  "live_member v ss = (case v of PSet _ \<Rightarrow> Inr False
     | _ \<Rightarrow> if hashable v then Inr (str_in v ss) else Inl (LiveTypeError ''unhashable type''))"

lemma live_member_ok [res_simps]: "live_member v ss = Inr True \<longleftrightarrow> (\<exists>s. v = PStr s \<and> s \<in> set ss)"
  by (cases v) (auto simp: live_member_def str_in_def)

text \<open>\<open>canonical_sha256\<close> of the receipt contract raises a \<open>ValueError\<close> or a \<open>TypeError\<close>.\<close>

definition live_sha256 :: "pydict \<Rightarrow> live_exc + string" where
  "live_sha256 m = catch_r (canonical_sha256 m)
     (\<lambda>e. Inl (case e of RcTypeError t \<Rightarrow> LiveTypeError t | _ \<Rightarrow> LiveValueError (rc_message e)))"

lemma live_sha256_ok [res_simps]: "live_sha256 m = Inr h \<longleftrightarrow> canonical_sha256 m = Inr h"
  by (cases "canonical_sha256 m") (simp_all add: live_sha256_def)

definition verify_source_receipt_hash :: "pydict \<Rightarrow> live_exc + string" where
  "verify_source_receipt_hash receipt =
     bind_r (live_require_hash (dget receipt ''receipt_hash'') ''receipt_hash'') (\<lambda>source_hash.
     bind_r (live_sha256 (dset receipt ''receipt_hash'' (PStr []))) (\<lambda>computed.
     bind_r (live_check (computed = source_hash) ''live receipt hash mismatch'') (\<lambda>_. Inr source_hash)))"

definition nonempty_list :: "pyval \<Rightarrow> bool" where
  "nonempty_list v = (case v of PList xs \<Rightarrow> xs \<noteq> [] | _ \<Rightarrow> False)"

definition text_val :: "pyval \<Rightarrow> bool" where
  "text_val v = (case v of PStr s \<Rightarrow> \<not> py_blank s | _ \<Rightarrow> False)"

definition list_of :: "pyval \<Rightarrow> pyval list" where
  "list_of v = (case v of PList xs \<Rightarrow> xs | _ \<Rightarrow> [])"

definition normalize_live_component :: "string \<Rightarrow> string \<Rightarrow> pyval \<Rightarrow> live_exc + pyval" where
  "normalize_live_component h rid component = (case component of
     PDict c \<Rightarrow>
       bind_r (live_check (set (dkeys c) = set LIVE_COMPONENT_FIELDS)
         ''live component verdict fields must match Shield v3.2.0 schema'') (\<lambda>_.
       bind_r (live_check (dget c ''schema_version'' = PStr ''shield.verdict.v1'') ''live component schema mismatch'') (\<lambda>_.
       bind_r (live_check (py_eq (dget c ''contract_version'') (PInt 3)) ''live component contract mismatch'') (\<lambda>_.
       bind_r (live_check (dget c ''fail_closed'' = PBool True) ''live component must be fail_closed'') (\<lambda>_.
       bind_r (live_check (dget c ''request_id'' = PStr rid) ''live component request mismatch'') (\<lambda>_.
       bind_r (live_require_hash (dget c ''context_hash'') ''component.context_hash'') (\<lambda>ch.
       bind_r (live_check (ch = h) ''live component context mismatch'') (\<lambda>_.
       bind_r (live_check (text_val (dget c ''component_id'')) ''live component_id invalid'') (\<lambda>_.
       bind_r (live_member (dget c ''decision'') SUPPORTED_LIVE_DECISIONS) (\<lambda>known.
       bind_r (live_check known ''live component decision unsupported'') (\<lambda>_.
       bind_r (live_check (dget c ''decision'' \<noteq> PStr ''SKIPPED'')
         ''unsupported live component decision for AdamantineOS handoff'') (\<lambda>_.
       bind_r (live_check (nonempty_list (dget c ''reason_ids'')) ''live component reason_ids invalid'') (\<lambda>_.
       bind_r (live_check (list_all text_val (list_of (dget c ''reason_ids''))) ''live component reason_id invalid'') (\<lambda>_.
       bind_r (live_require_hash (dget c ''evidence_hash'') ''component.evidence_hash'') (\<lambda>_.
       bind_r (live_check (nonempty_list (dget c ''evidence_families'')) ''live component evidence_families invalid'') (\<lambda>_.
       case dget c ''metadata'' of
         PDict metadata \<Rightarrow> Inr (PDict [(''component_id'', PStr (str_of (dget c ''component_id''))), (''contract_version'', PInt 3),
           (''schema_version'', PStr ''shield.verdict.v1''), (''request_id'', PStr (str_of (dget c ''request_id''))),
           (''context_hash'', PStr (str_of (dget c ''context_hash''))), (''decision'', PStr (str_of (dget c ''decision''))),
           (''reason_ids'', PList (map (PStr \<circ> py_str) (list_of (dget c ''reason_ids'')))),
           (''evidence_hash'', PStr (str_of (dget c ''evidence_hash''))),
           (''evidence_families'', PList (map (PStr \<circ> py_str) (list_of (dget c ''evidence_families'')))),
           (''metadata'', PDict metadata), (''fail_closed'', PBool True)])
       | _ \<Rightarrow> Inl (LiveValueError ''live component metadata invalid''))))))))))))))))
   | _ \<Rightarrow> Inl (LiveValueError ''live component verdict must be object''))"

text \<open>The checks before the hash; the handoff is returned.\<close>

definition check_live_handoff :: "pyval \<Rightarrow> live_exc + pydict" where
  "check_live_handoff v = (case v of
     PDict m \<Rightarrow>
       bind_r (live_check (set (dkeys m) = {''handoff_allowed'', ''handoff_reason''}) ''live Shield receipt handoff invalid'') (\<lambda>_.
       bind_r (live_check (is_bool (dget m ''handoff_allowed'') \<and> text_val (dget m ''handoff_reason''))
         ''live Shield receipt handoff values invalid'') (\<lambda>_. Inr m))
   | _ \<Rightarrow> Inl (LiveValueError ''live Shield receipt handoff invalid''))"

definition check_live_receipt :: "pydict \<Rightarrow> string \<Rightarrow> string \<Rightarrow> live_exc + pydict" where
  "check_live_receipt r h rid =
     bind_r (live_check (set (dkeys r) = set LIVE_RECEIPT_FIELDS) ''live Shield receipt fields must match required schema'') (\<lambda>_.
     bind_r (live_check (\<not> contains_authority_bypass (PDict r)) ''live Shield receipt contains authority bypass material'') (\<lambda>_.
     bind_r (live_check (dget r ''schema_version'' = PStr ''shield.receipt.v1'') ''live Shield receipt schema mismatch'') (\<lambda>_.
     bind_r (live_check (py_eq (dget r ''contract_version'') (PInt 3)) ''live Shield receipt contract mismatch'') (\<lambda>_.
     bind_r (live_check (dget r ''fail_closed'' = PBool True) ''live Shield receipt must be fail_closed'') (\<lambda>_.
     bind_r (live_check (dget r ''request_id'' = PStr rid) ''live Shield receipt request mismatch'') (\<lambda>_.
     bind_r (live_require_hash (dget r ''context_hash'') ''context_hash'') (\<lambda>ch.
     bind_r (live_require_hash (PStr h) ''expected_context_hash'') (\<lambda>ech.
     bind_r (live_check (ch = ech) ''live Shield receipt context mismatch'') (\<lambda>_.
     bind_r (live_member (dget r ''final_outcome'') ALLOWED_FINAL_OUTCOMES) (\<lambda>known.
     bind_r (live_check known ''live Shield receipt final outcome unsupported'') (\<lambda>_.
     bind_r (live_check (nonempty_list (dget r ''component_verdicts'')) ''live Shield receipt component verdicts invalid'') (\<lambda>_.
     bind_r (live_check (nonempty_list (dget r ''dominant_reason_ids'')) ''live Shield receipt dominant reason ids invalid'') (\<lambda>_.
     check_live_handoff (dget r ''adamantineos_handoff''))))))))))))))"

definition normalized_live_receipt :: "pydict \<Rightarrow> pydict \<Rightarrow> pyval list \<Rightarrow> string \<Rightarrow> string \<Rightarrow> pydict" where
  "normalized_live_receipt r handoff components h rid =
    [(''schema_version'', PStr ''shield.receipt.v1''), (''contract_version'', PInt 3), (''request_id'', PStr rid),
     (''context_hash'', PStr h), (''component_verdicts'', PList components),
     (''final_outcome'', PStr (str_of (dget r ''final_outcome''))),
     (''dominant_reason_ids'', PList (map (PStr \<circ> py_str) (list_of (dget r ''dominant_reason_ids'')))),
     (''receipt_hash'', PStr []),
     (''adamantineos_handoff'', PDict [(''handoff_allowed'', dget handoff ''handoff_allowed''),
       (''handoff_reason'', dget handoff ''handoff_reason'')]), (''fail_closed'', PBool True)]"

definition normalize_live_orchestrator_receipt :: "pyval \<Rightarrow> string \<Rightarrow> string \<Rightarrow> live_exc + pydict \<times> string" where
  "normalize_live_orchestrator_receipt receipt h rid = (case receipt of
     PDict r \<Rightarrow>
       bind_r (check_live_receipt r h rid) (\<lambda>handoff.
       bind_r (verify_source_receipt_hash r) (\<lambda>source_hash.
       bind_r (map_r (normalize_live_component h rid) (list_of (dget r ''component_verdicts''))) (\<lambda>components.
       let normalized = normalized_live_receipt r handoff components h rid in
       bind_r (live_sha256 normalized) (\<lambda>hash.
       Inr (dset normalized ''receipt_hash'' (PStr hash), source_hash)))))
   | _ \<Rightarrow> Inl (LiveValueError ''live Shield receipt must be object''))"

section \<open>The harness\<close>

definition live_state_from_adapter :: "harness_state \<Rightarrow> live_state" where
  "live_state_from_adapter st = (case st of
     HN_ALLOW_EVIDENCE_CONTINUE_CHECKS \<Rightarrow> LIVE_ALLOW_EVIDENCE_CONTINUE_CHECKS
   | HN_DENY_DOMINATES_BLOCK \<Rightarrow> LIVE_DENY_DOMINATES_BLOCK
   | HN_HUMAN_REVIEW_REQUIRED \<Rightarrow> LIVE_HUMAN_REVIEW_REQUIRED
   | _ \<Rightarrow> LV_REJECTED_ADAPTER_HARNESS)"

definition live_state_of_error :: "string \<Rightarrow> live_state" where
  "live_state_of_error m =
    (if contains_sub ''authority bypass'' (py_lower m) then LV_REJECTED_AUTHORITY_BYPASS
     else if contains_sub ''hash mismatch'' (py_lower m) then LV_REJECTED_LIVE_RECEIPT_TAMPERED
     else LV_REJECTED_LIVE_RECEIPT_SHAPE)"

type_synonym live_builder = "string \<Rightarrow> string \<Rightarrow> pyval list \<Rightarrow> string + pyval"

text \<open>From the result of the adapter harness on the normalised receipt.\<close>

definition live_finish :: "string \<Rightarrow> string option \<Rightarrow> pydict \<Rightarrow> string \<Rightarrow> harness_result \<Rightarrow> live_result" where
  "live_finish h rid normalized source_hash r =
    (let st = live_state_from_adapter (hn_state r); nh = Some (str_of (dget normalized ''receipt_hash'')) in
     if st = LV_REJECTED_ADAPTER_HARNESS
       then lv_rejected st (hn_reason_id r) (Some h) rid (harness_state_value (hn_state r)) (Some source_hash) nh (Some r)
     else \<lparr>lv_state = st, lv_reason_id = hn_reason_id r, lv_context_hash = Some h, lv_request_id = rid,
       lv_accepted_as_evidence = hn_accepted_as_evidence r, lv_final_approval = False, lv_final_outcome = hn_final_outcome r,
       lv_handoff_allowed = hn_handoff_allowed r, lv_dominant_reason_ids = hn_dominant_reason_ids r,
       lv_source_receipt_hash = Some source_hash, lv_normalized_receipt_hash = nh, lv_adapter_harness = Some r\<rparr>)"

definition run_shield_v3_live_orchestrator_harness ::
    "pyval \<Rightarrow> live_builder option \<Rightarrow> pyval list \<Rightarrow> string list \<Rightarrow> harness_exc + live_result" where
  "run_shield_v3_live_orchestrator_harness payload builder verdicts rejected =
    (let rid = request_id_from_context payload in
     case compute_combined_context_hash payload of
       Inl (CombinedContextHashError m) \<Rightarrow> Inr (lv_rejected LV_REJECTED_CONTEXT_CONTRACT EQC_INVALID_SHIELD_BUNDLE None rid
         (''COMBINED_CONTEXT_HASH_CONTRACT_REJECTED:'' @ m) None None None)
     | Inl e \<Rightarrow> Inl (HarnessContext e)
     | Inr h \<Rightarrow> (case builder of
         None \<Rightarrow> Inr (lv_rejected LV_REJECTED_ORCHESTRATOR_UNAVAILABLE DENY_ADAPTER_UNAVAILABLE (Some h) rid
           ''LIVE_ORCHESTRATOR_BUILDER_REQUIRED'' None None None)
       | Some build \<Rightarrow> (case build (context_request_id payload) h verdicts of
           Inl name \<Rightarrow> Inr (lv_rejected LV_REJECTED_ORCHESTRATOR_EXCEPTION DENY_ADAPTER_UNAVAILABLE (Some h) rid
             (''LIVE_ORCHESTRATOR_EXCEPTION:'' @ name) None None None)
         | Inr receipt \<Rightarrow> (case normalize_live_orchestrator_receipt receipt h (context_request_id payload) of
             Inl (LiveTypeError m) \<Rightarrow> Inl (HarnessRaised (TypeError m))
           | Inl (LiveValueError m) \<Rightarrow> Inr (lv_rejected (live_state_of_error m) EQC_INVALID_SHIELD_BUNDLE (Some h) rid
               (''LIVE_RECEIPT_REJECTED:'' @ m) None None None)
           | Inr (normalized, source_hash) \<Rightarrow>
               (case run_shield_v3_adapter_harness payload (PDict normalized) rejected of
                  Inl e \<Rightarrow> Inl e
                | Inr r \<Rightarrow> Inr (live_finish h rid normalized source_hash r))))))"

section \<open>What normalisation accepts\<close>

text \<open>A component of a live receipt, and what is left of it.\<close>

definition live_component :: "string \<Rightarrow> string \<Rightarrow> pyval \<Rightarrow> pyval \<Rightarrow> bool" where
  "live_component h rid component normalized \<longleftrightarrow> (\<exists>c d n. component = PDict c \<and> normalized = PDict n \<and>
     dget c ''decision'' = PStr d \<and> d \<in> {''ALLOW'', ''ESCALATE'', ''DENY'', ''ERROR''} \<and> dget n ''decision'' = PStr d \<and>
     dget c ''component_id'' = dget n ''component_id'' \<and> dget c ''request_id'' = PStr rid \<and>
     (\<exists>s. dget c ''context_hash'' = PStr s \<and> py_lower s = h) \<and> dget c ''fail_closed'' = PBool True)"

lemma normalize_live_component_ok:
  assumes "normalize_live_component h rid component = Inr n"
  shows "live_component h rid component n"
  using assms
  by (cases component) (auto simp: normalize_live_component_def live_component_def res_simps text_val_def str_of_def
      SUPPORTED_LIVE_DECISIONS_def split: pyval.splits)

definition live_receipt :: "pydict \<Rightarrow> string \<Rightarrow> string \<Rightarrow> pydict \<Rightarrow> string \<Rightarrow> bool" where
  "live_receipt r h rid n source_hash \<longleftrightarrow> set (dkeys r) = set LIVE_RECEIPT_FIELDS \<and> \<not> contains_authority_bypass (PDict r) \<and>
     dget r ''request_id'' = PStr rid \<and> dget r ''fail_closed'' = PBool True \<and>
     (\<exists>s. dget r ''receipt_hash'' = PStr s \<and> py_lower s = source_hash) \<and>
     canonical_sha256 (dset r ''receipt_hash'' (PStr [])) = Inr source_hash \<and>
     (\<exists>s. dget r ''context_hash'' = PStr s \<and> py_lower s = py_lower h) \<and>
     dget n ''final_outcome'' = dget r ''final_outcome'' \<and> dget n ''context_hash'' = PStr h \<and>
     (\<exists>vs ws. dget r ''component_verdicts'' = PList vs \<and> dget n ''component_verdicts'' = PList ws \<and>
       list_all2 (live_component h rid) vs ws)"

lemma nonempty_list_iff [simp]: "nonempty_list v \<longleftrightarrow> (\<exists>xs. v = PList xs \<and> xs \<noteq> [])"
  by (cases v) (simp_all add: nonempty_list_def)

lemma check_live_receipt_ok:
  assumes "check_live_receipt r h rid = Inr handoff"
  shows "set (dkeys r) = set LIVE_RECEIPT_FIELDS" "\<not> contains_authority_bypass (PDict r)" "dget r ''request_id'' = PStr rid"
    "dget r ''fail_closed'' = PBool True" "\<exists>s. dget r ''context_hash'' = PStr s \<and> py_lower s = py_lower h"
    "\<exists>t. dget r ''final_outcome'' = PStr t" "\<exists>vs. dget r ''component_verdicts'' = PList vs"
  using assms unfolding check_live_receipt_def bind_r_eq_Inr live_check_ok live_require_hash_ok nonempty_list_iff
  by (blast | auto simp: live_member_ok)+

lemma normalize_live_receipt_ok:
  assumes "normalize_live_orchestrator_receipt receipt h rid = Inr (n, source_hash)"
  shows "\<exists>r. receipt = PDict r \<and> live_receipt r h rid n source_hash"
proof -
  obtain r where r: "receipt = PDict r" using assms by (cases receipt) (auto simp: normalize_live_orchestrator_receipt_def)
  obtain handoff ws hash where f: "check_live_receipt r h rid = Inr handoff" "verify_source_receipt_hash r = Inr source_hash"
    "map_r (normalize_live_component h rid) (list_of (dget r ''component_verdicts'')) = Inr ws"
    "n = dset (normalized_live_receipt r handoff ws h rid) ''receipt_hash'' (PStr hash)"
    using assms unfolding r normalize_live_orchestrator_receipt_def pyval.case Let_def bind_r_eq_Inr by blast
  note c = check_live_receipt_ok[OF f(1)]
  obtain t vs where t: "dget r ''final_outcome'' = PStr t" "dget r ''component_verdicts'' = PList vs" using c(6,7) by blast
  have "list_all2 (live_component h rid) vs ws"
    using f(3) t(2) by (auto simp: map_r_eq_Inr list_of_def elim!: list_all2_mono dest: normalize_live_component_ok)
  moreover have "canonical_sha256 (dset r ''receipt_hash'' (PStr [])) = Inr source_hash"
    "\<exists>s. dget r ''receipt_hash'' = PStr s \<and> py_lower s = source_hash"
    using f(2) by (auto simp: verify_source_receipt_hash_def res_simps)
  moreover have "dget n ''final_outcome'' = PStr t" "dget n ''context_hash'' = PStr h" "dget n ''component_verdicts'' = PList ws"
    unfolding f(4) by (simp_all add: normalized_live_receipt_def t(1) str_of_def)
  ultimately show ?thesis using c(1-5) t r unfolding live_receipt_def by (simp del: contains_authority_bypass.simps)
qed

section \<open>What a live result means\<close>

lemma component_verdict_same: "validate_component_verdict v ch rid = Inr m \<Longrightarrow> v = PDict m"
  by (auto simp: validate_component_verdict_def bind_r_eq_Inr need_map_def split: pyval.splits if_splits)

lemma check_components_same: "check_components ch rid seen vs = Inr ms \<Longrightarrow> vs = map PDict ms"
proof (induction ch rid seen vs arbitrary: ms rule: check_components.induct)
  case (2 ch rid seen v vs)
  obtain valid where v: "validate_component_verdict v ch rid = Inr valid"
    using 2(2) by (cases "validate_component_verdict v ch rid") auto
  then show ?case using 2 component_verdict_same[OF v]
    by (cases "dget valid ''component_id''") (auto simp: bind_r_eq_Inr split: if_splits)
qed (simp split: if_splits)

lemma accepted_by_harness:
  assumes "run_shield_v3_adapter_harness payload receipt rejected = Inr q" "compute_combined_context_hash payload = Inr h"
  shows "\<not> hn_final_approval q" "hn_handoff_allowed q \<longleftrightarrow> hn_state q = HN_ALLOW_EVIDENCE_CONTINUE_CHECKS"
    "hn_accepted_as_evidence q \<longleftrightarrow> live_state_from_adapter (hn_state q) \<noteq> LV_REJECTED_ADAPTER_HARNESS"
    "hn_state q = HN_ALLOW_EVIDENCE_CONTINUE_CHECKS \<longleftrightarrow>
      hn_accepted_as_evidence q \<and> (\<exists>m. receipt = PDict m \<and> allow_evidence m h (context_request_id payload) rejected)"
proof -
  note t = harness_follows_verifier[where payload = payload and receipt = receipt and rejected = rejected, unfolded assms sum.case]
  show "\<not> hn_final_approval q" "hn_handoff_allowed q \<longleftrightarrow> hn_state q = HN_ALLOW_EVIDENCE_CONTINUE_CHECKS" using t by simp_all
  obtain v where v: "verify_shield_orchestrator_receipt receipt h (context_request_id payload) rejected = Inr v"
    "hn_state q = state_of_verified (rv_state v)" "hn_accepted_as_evidence q = rv_verified v"
    "hn_state q = HN_ALLOW_EVIDENCE_CONTINUE_CHECKS \<longleftrightarrow>
      (\<exists>m. receipt = PDict m \<and> allow_evidence m h (context_request_id payload) rejected \<and> rv_verified v)" using t by blast
  show "hn_state q = HN_ALLOW_EVIDENCE_CONTINUE_CHECKS \<longleftrightarrow>
      hn_accepted_as_evidence q \<and> (\<exists>m. receipt = PDict m \<and> allow_evidence m h (context_request_id payload) rejected)"
    using v(3,4) by blast
  show "hn_accepted_as_evidence q \<longleftrightarrow> live_state_from_adapter (hn_state q) \<noteq> LV_REJECTED_ADAPTER_HARNESS"
    using v(2,3) boundaries_agree(2)[OF v(1)] unverified_state[OF v(1)]
    by (cases "rv_verified v") (auto simp: live_state_from_adapter_def state_of_verified_def)
qed

lemma live_run_cases:
  assumes "run_shield_v3_live_orchestrator_harness payload builder verdicts rejected = Inr r"
  obtains (rejected) "\<not> lv_accepted_as_evidence r" "\<not> lv_handoff_allowed r" "\<not> lv_final_approval r"
      "lv_state r \<notin> {LIVE_ALLOW_EVIDENCE_CONTINUE_CHECKS, LIVE_DENY_DOMINATES_BLOCK, LIVE_HUMAN_REVIEW_REQUIRED}"
  | (finished) h build m n source_hash q where "compute_combined_context_hash payload = Inr h" "builder = Some build"
      "build (context_request_id payload) h verdicts = Inr (PDict m)"
      "live_receipt m h (context_request_id payload) n source_hash"
      "run_shield_v3_adapter_harness payload (PDict n) rejected = Inr q"
      "r = live_finish h (request_id_from_context payload) n source_hash q"
proof -
  let ?LIVE = "{LIVE_ALLOW_EVIDENCE_CONTINUE_CHECKS, LIVE_DENY_DOMINATES_BLOCK, LIVE_HUMAN_REVIEW_REQUIRED}"
  let ?rid = "context_request_id payload"
  note run = assms[unfolded run_shield_v3_live_orchestrator_harness_def Let_def]
  have stop: thesis if "\<not> lv_accepted_as_evidence r \<and> \<not> lv_handoff_allowed r \<and> \<not> lv_final_approval r \<and> lv_state r \<notin> ?LIVE"
    using rejected that by auto
  have e: "live_state_of_error m \<notin> ?LIVE" for m by (simp add: live_state_of_error_def)
  show thesis
  proof (cases "compute_combined_context_hash payload")
    case (Inl c)
    show thesis by (rule stop) (use run Inl in \<open>cases c; auto simp: lv_rejected_def\<close>)
  next
    case h: (Inr h)
    show thesis
    proof (cases builder)
      case None
      show thesis by (rule stop) (use run h None in \<open>auto simp: lv_rejected_def\<close>)
    next
      case b: (Some build)
      show thesis
      proof (cases "build ?rid h verdicts")
        case (Inl name)
        show thesis by (rule stop) (use run h b Inl in \<open>auto simp: lv_rejected_def\<close>)
      next
        case receipt: (Inr receipt)
        show thesis
        proof (cases "normalize_live_orchestrator_receipt receipt h ?rid")
          case (Inl x)
          show thesis by (rule stop) (use run h b receipt Inl e in \<open>cases x; auto simp: lv_rejected_def\<close>)
        next
          case n: (Inr p)
          obtain n source_hash where p: "p = (n, source_hash)" by fastforce
          obtain m where m: "receipt = PDict m" "live_receipt m h ?rid n source_hash"
            using normalize_live_receipt_ok[OF n[unfolded p]] by blast
          show thesis
            using run h b receipt n p finished[OF h b _ m(2)] m(1)
            by (cases "run_shield_v3_adapter_harness payload (PDict n) rejected") simp_all
        qed
      qed
    qed
  qed
qed

text \<open>The components of a live receipt whose normalised form is ALLOW evidence.\<close>

lemma unanimous_components:
  assumes "live_receipt m h rid n source_hash" "allow_evidence n h rid rejected"
  shows "dget m ''final_outcome'' = PStr ''ALLOW'' \<and> (\<exists>cs. dget m ''component_verdicts'' = PList (map PDict cs) \<and>
    map (\<lambda>c. dget c ''component_id'') cs = map PStr SUPPORTED_COMPONENT_IDS \<and>
    list_all (\<lambda>c. dget c ''decision'' = PStr ''ALLOW'' \<and> dget c ''request_id'' = PStr rid) cs)"
proof -
  obtain vs ws where w: "dget m ''component_verdicts'' = PList vs" "dget n ''component_verdicts'' = PList ws"
    "list_all2 (live_component h rid) vs ws" "dget n ''final_outcome'' = dget m ''final_outcome''"
    using assms(1) by (auto simp: live_receipt_def)
  obtain checked outcome reason allowed where c: "validate_component_verdicts n ws = Inr checked"
    "classify_component_verdicts checked = (outcome, reason, allowed)" "dget n ''final_outcome'' = PStr outcome"
    "dget n ''final_outcome'' = PStr ''ALLOW''"
    using assms(2) w(2) by (auto simp: allow_evidence_def receipt_valid_def)
  have ids: "map (\<lambda>c. dget c ''component_id'') checked = map PStr SUPPORTED_COMPONENT_IDS"
    and same: "ws = map PDict checked"
    using c(1) check_components_same by (auto simp: validate_component_verdicts_def bind_r_eq_Inr check_r_def split: if_splits)
  have one: "dget d ''decision'' \<notin> {PStr ''DENY'', PStr ''ERROR'', PStr ''ESCALATE'', PStr ''SKIPPED''}" if "d \<in> set checked" for d
    using classify_outcomes(3)[OF c(2) _ that] c(3,4) by simp
  have "\<exists>cs. vs = map PDict cs \<and> map (\<lambda>c. dget c ''component_id'') cs = map (\<lambda>c. dget c ''component_id'') ds \<and>
      list_all (\<lambda>c. dget c ''decision'' = PStr ''ALLOW'' \<and> dget c ''request_id'' = PStr rid) cs"
    if "list_all2 (live_component h rid) vs (map PDict ds)" "set ds \<subseteq> set checked" for vs ds
    using that
  proof (induction ds arbitrary: vs)
    case (Cons d ds)
    then obtain v vs' where v: "vs = v # vs'" "live_component h rid v (PDict d)" "list_all2 (live_component h rid) vs' (map PDict ds)"
      by (auto simp: list_all2_Cons2)
    obtain c where x: "v = PDict c" "dget c ''decision'' = PStr ''ALLOW''" "dget c ''request_id'' = PStr rid"
      "dget c ''component_id'' = dget d ''component_id''"
      using v(2) one[of d] Cons.prems(2) by (auto simp: live_component_def)
    from Cons.IH[OF v(3)] Cons.prems(2) obtain cs where "vs' = map PDict cs"
      "map (\<lambda>c. dget c ''component_id'') cs = map (\<lambda>c. dget c ''component_id'') ds"
      "list_all (\<lambda>c. dget c ''decision'' = PStr ''ALLOW'' \<and> dget c ''request_id'' = PStr rid) cs" by auto
    then show ?case using x v(1) by (intro exI[of _ "c # cs"]) simp
  qed simp
  from this[OF w(3)[unfolded same]] obtain cs where "vs = map PDict cs"
    "map (\<lambda>c. dget c ''component_id'') cs = map (\<lambda>c. dget c ''component_id'') checked"
    "list_all (\<lambda>c. dget c ''decision'' = PStr ''ALLOW'' \<and> dget c ''request_id'' = PStr rid) cs" by blast
  then show ?thesis using w(1,4) c(4) ids by (intro conjI exI[of _ cs]) simp_all
qed

text \<open>
  C40: A live result is never a final approval, its hand-off flag is up exactly in the ALLOW state, and
  that state rests on a receipt the injected builder made for this request id and the computed
  combined hash: its own hash is right, no authority key stands anywhere in it, its outcome is
  ALLOW, and it holds the five canonical components, each bound to the request and with the
  decision exactly ALLOW. The normalised receipt is full ALLOW evidence.
\<close>

theorem live_allow_is_unanimous:
  "case run_shield_v3_live_orchestrator_harness payload builder verdicts rejected of
     Inl _ \<Rightarrow> True
   | Inr r \<Rightarrow> \<not> lv_final_approval r \<and> (lv_handoff_allowed r \<longleftrightarrow> lv_state r = LIVE_ALLOW_EVIDENCE_CONTINUE_CHECKS) \<and>
       (lv_accepted_as_evidence r \<longleftrightarrow>
         lv_state r \<in> {LIVE_ALLOW_EVIDENCE_CONTINUE_CHECKS, LIVE_DENY_DOMINATES_BLOCK, LIVE_HUMAN_REVIEW_REQUIRED}) \<and>
       (case lv_state r of
          LIVE_ALLOW_EVIDENCE_CONTINUE_CHECKS \<Rightarrow> (\<exists>h build m n source_hash cs.
            compute_combined_context_hash payload = Inr h \<and> builder = Some build \<and>
            build (context_request_id payload) h verdicts = Inr (PDict m) \<and>
            live_receipt m h (context_request_id payload) n source_hash \<and> lv_source_receipt_hash r = Some source_hash \<and>
            allow_evidence n h (context_request_id payload) rejected \<and> dget m ''final_outcome'' = PStr ''ALLOW'' \<and>
            dget m ''component_verdicts'' = PList (map PDict cs) \<and>
            map (\<lambda>c. dget c ''component_id'') cs = map PStr SUPPORTED_COMPONENT_IDS \<and>
            list_all (\<lambda>c. dget c ''decision'' = PStr ''ALLOW'' \<and> dget c ''request_id'' = PStr (context_request_id payload)) cs)
        | _ \<Rightarrow> True)"
proof (cases "run_shield_v3_live_orchestrator_harness payload builder verdicts rejected")
  case (Inr r)
  then show ?thesis
  proof (cases rule: live_run_cases)
    case rejected
    then show ?thesis using Inr by (auto split: live_state.split)
  next
    case (finished h build m n source_hash q)
    note a = accepted_by_harness[OF finished(5,1)]
    have st: "lv_state r = live_state_from_adapter (hn_state q)" "lv_accepted_as_evidence r \<longleftrightarrow> hn_accepted_as_evidence q"
      "lv_handoff_allowed r \<longleftrightarrow> hn_handoff_allowed q" "\<not> lv_final_approval r" "lv_source_receipt_hash r = Some source_hash"
      using a(2,3) unfolding finished(6) by (auto simp: live_finish_def lv_rejected_def Let_def live_state_from_adapter_def split: harness_state.splits)
    have states: "lv_state r = LIVE_ALLOW_EVIDENCE_CONTINUE_CHECKS \<longleftrightarrow> hn_state q = HN_ALLOW_EVIDENCE_CONTINUE_CHECKS"
      "lv_state r \<in> {LIVE_ALLOW_EVIDENCE_CONTINUE_CHECKS, LIVE_DENY_DOMINATES_BLOCK, LIVE_HUMAN_REVIEW_REQUIRED} \<longleftrightarrow>
        lv_state r \<noteq> LV_REJECTED_ADAPTER_HARNESS"
      using st(1) by (simp_all add: live_state_from_adapter_def split: harness_state.split)
    show ?thesis
    proof (cases "hn_state q = HN_ALLOW_EVIDENCE_CONTINUE_CHECKS")
      case False
      then show ?thesis using Inr st states a(2,3) by (auto split: live_state.split)
    next
      case True
      then have "allow_evidence n h (context_request_id payload) rejected" using a(4) by auto
      moreover from unanimous_components[OF finished(4) this]
      obtain cs where "dget m ''final_outcome'' = PStr ''ALLOW''" "dget m ''component_verdicts'' = PList (map PDict cs)"
        "map (\<lambda>c. dget c ''component_id'') cs = map PStr SUPPORTED_COMPONENT_IDS"
        "list_all (\<lambda>c. dget c ''decision'' = PStr ''ALLOW'' \<and> dget c ''request_id'' = PStr (context_request_id payload)) cs" by blast
      moreover have "lv_state r = LIVE_ALLOW_EVIDENCE_CONTINUE_CHECKS" using states(1) True by simp
      ultimately show ?thesis using Inr st a(2,3) True finished(1-4) by simp blast
    qed
  qed
qed simp

section \<open>A live run\<close>

lemma sha256_hex_live:
  assumes "is_sha256_hex s"
  shows "live_require_hash (PStr s) f = Inr s"
  using sha256_hex_required[OF assms, of f] by (auto simp: live_require_hash_ok rc_require_hash_ok)

lemma demo_component_live:
  assumes "demo_bound h rid" "\<not> py_blank cid" "\<not> py_blank reason"
  shows "normalize_live_component h rid (demo_component h rid cid reason family ''ALLOW'') =
    Inr (demo_component h rid cid reason family ''ALLOW'')"
proof -
  have "is_sha256_hex h" using assms(1) by (simp add: demo_bound_def)
  note x = sha256_hex_live[OF this] sha256_hex_live[OF zeros_hex(2)]
  have k: "set (dkeys c) = set LIVE_COMPONENT_FIELDS" if "demo_component h rid cid reason family ''ALLOW'' = PDict c" for c
    using that by (auto simp: demo_component_def dkeys_def LIVE_COMPONENT_FIELDS_def)
  show ?thesis
    using x assms(2,3) k[unfolded demo_component_def, OF refl]
    by (simp add: normalize_live_component_def demo_component_def live_check_def check_r_def num_eq_def num_ratio_def text_val_def
        live_member_def SUPPORTED_LIVE_DECISIONS_def str_in_def list_of_def str_of_def)
qed

lemma demo_receipt_live:
  assumes "demo_bound h rid"
  shows "normalize_live_orchestrator_receipt (PDict (demo_receipt h rid ''ALLOW'' (demo_hash h rid ''ALLOW''))) h rid =
    Inr (demo_receipt h rid ''ALLOW'' (demo_hash h rid ''ALLOW''), demo_hash h rid ''ALLOW'')"
proof -
  let ?r = "demo_receipt h rid ''ALLOW'' (demo_hash h rid ''ALLOW'')"
  let ?handoff = "[(''handoff_allowed'', PBool True), (''handoff_reason'', PStr ''ORCH_OK_ALL_COMPONENTS_ALLOW'')]"
  have hex: "is_sha256_hex h" using assms by (simp add: demo_bound_def)
  have b: "\<not> py_blank ''ORCH_OK_ALL_COMPONENTS_ALLOW''" by (simp add: py_blank_def py_isspace_def)
  have keys: "set (dkeys ?r) = set LIVE_RECEIPT_FIELDS" by (auto simp: demo_receipt_def dkeys_def LIVE_RECEIPT_FIELDS_def)
  have "\<not> contains_authority_bypass (PDict ?r)"
    by (simp add: demo_receipt_def demo_verdicts_def demo_component_def handoff_val_def dkeys_def LIVE_FORBIDDEN_AUTHORITY_KEYS_def)
  then have "check_live_receipt ?r h rid = Inr ?handoff"
    unfolding check_live_receipt_def keys using sha256_hex_live[OF hex] b
    by (simp add: demo_receipt_def live_check_def check_r_def num_eq_def num_ratio_def live_member_def str_in_def ALLOWED_FINAL_OUTCOMES_def
        demo_verdicts_def handoff_val_def check_live_handoff_def dkeys_def text_val_def del: contains_authority_bypass.simps)
  moreover have "verify_source_receipt_hash ?r = Inr (demo_hash h rid ''ALLOW'')"
    using demo_hash_ok(1)[of h rid "''ALLOW''" "demo_hash h rid ''ALLOW''"]
      sha256_hex_live[OF demo_hash_ok(2)[of h rid "''ALLOW''"], of "''receipt_hash''"]
    by (simp add: verify_source_receipt_hash_def live_sha256_def live_check_def check_r_def demo_receipt_def)
  moreover have "map_r (normalize_live_component h rid) (demo_verdicts h rid ''ALLOW'') = Inr (demo_verdicts h rid ''ALLOW'')"
    using demo_component_live[OF assms] by (simp add: demo_verdicts_def py_blank_def py_isspace_def)
  moreover have "normalized_live_receipt ?r ?handoff (demo_verdicts h rid ''ALLOW'') h rid = demo_receipt h rid ''ALLOW'' []"
    by (simp add: normalized_live_receipt_def demo_receipt_def str_of_def list_of_def handoff_val_def)
  moreover have "live_sha256 (demo_receipt h rid ''ALLOW'' []) = Inr (demo_hash h rid ''ALLOW'')"
    using demo_hash_ok(1)[of h rid "''ALLOW''" "[]"] by (simp add: live_sha256_def demo_receipt_def)
  moreover have "dset (demo_receipt h rid ''ALLOW'' []) ''receipt_hash'' (PStr (demo_hash h rid ''ALLOW'')) = ?r"
    "dget ?r ''component_verdicts'' = PList (demo_verdicts h rid ''ALLOW'')" by (simp_all add: demo_receipt_def)
  ultimately show ?thesis by (simp add: normalize_live_orchestrator_receipt_def list_of_def)
qed

text \<open>The ALLOW state is reached: a builder whose five components allow.\<close>

lemma live_allow_reached:
  "\<exists>r. run_shield_v3_live_orchestrator_harness (PDict demo_combined)
      (Some (\<lambda>rid h vs. Inr (PDict (demo_receipt h rid ''ALLOW'' (demo_hash h rid ''ALLOW''))))) [] [] = Inr r \<and>
     lv_state r = LIVE_ALLOW_EVIDENCE_CONTINUE_CHECKS \<and> lv_handoff_allowed r"
proof -
  obtain h where h: "compute_combined_context_hash (PDict demo_combined) = Inr h" "is_sha256_hex h"
    using demo_combined_hash by blast
  have rid: "context_request_id (PDict demo_combined) = ''req:1''"
    by (simp add: context_request_id_def demo_combined_def str_of_def)
  have b: "demo_bound h ''req:1''" using h(2) by (simp add: demo_bound_def plain_str_def py_isspace_def)
  have d: "py_strip ''ALLOW'' \<in> {''ALLOW'', ''DENY''}" using plain_str_strip[of "''ALLOW''"] by (simp add: plain_str_def py_isspace_def)
  let ?n = "demo_receipt h ''req:1'' ''ALLOW'' (demo_hash h ''req:1'' ''ALLOW'')"
  obtain v where v: "verify_shield_orchestrator_receipt (PDict ?n) h ''req:1'' [] = Inr v" "rv_verified v"
    "rv_state v = VERIFIED_ALLOW_EVIDENCE_CONTINUE_CHECKS" using demo_verified[OF b d] by auto
  obtain a where a: "adapt_shield_orchestrator_receipt (PDict ?n) h = Inr a" using boundaries_agree(1)[OF v(1,2)] by blast
  note c = combine_verified[OF v(1,2) a, of "request_id_from_context (PDict demo_combined)"]
  show ?thesis
    using h(1) rid demo_receipt_live[OF b] v a c(1,6) boundaries_agree(5)[OF v(1,2)]
    by (simp add: run_shield_v3_live_orchestrator_harness_def run_shield_v3_adapter_harness_def Let_def live_finish_def
        live_state_from_adapter_def state_of_verified_def)
qed

text \<open>
  The fail-closed harness lets a \<open>TypeError\<close> out: a final outcome that cannot be hashed is looked up in
  a set before anything else looks at it.
\<close>

definition unhashable_receipt :: "string \<Rightarrow> string \<Rightarrow> pydict" where
  "unhashable_receipt h rid = dset (demo_receipt h rid ''ALLOW'' []) ''final_outcome'' (PList [PStr ''ALLOW''])"

lemma live_unhashable_outcome_escapes:
  assumes "compute_combined_context_hash payload = Inr h"
  shows "run_shield_v3_live_orchestrator_harness payload (Some (\<lambda>rid h vs. Inr (PDict (unhashable_receipt h rid)))) verdicts rejected =
    Inl (HarnessRaised (TypeError ''unhashable type''))"
proof -
  let ?rid = "context_request_id payload"
  have hex: "is_sha256_hex h" using assms by (auto simp: compute_combined_context_hash_def bind_r_eq_Inr)
  have keys: "set (dkeys (unhashable_receipt h ?rid)) = set LIVE_RECEIPT_FIELDS"
    by (auto simp: unhashable_receipt_def demo_receipt_def dkeys_def LIVE_RECEIPT_FIELDS_def)
  have "\<not> contains_authority_bypass (PDict (unhashable_receipt h ?rid))"
    by (simp add: unhashable_receipt_def demo_receipt_def demo_verdicts_def demo_component_def handoff_val_def dkeys_def
        LIVE_FORBIDDEN_AUTHORITY_KEYS_def)
  then have "check_live_receipt (unhashable_receipt h ?rid) h ?rid = Inl (LiveTypeError ''unhashable type'')"
    unfolding check_live_receipt_def keys using sha256_hex_live[OF hex]
    by (simp add: unhashable_receipt_def demo_receipt_def live_check_def check_r_def num_eq_def num_ratio_def live_member_def
        del: contains_authority_bypass.simps)
  then show ?thesis
    by (simp add: run_shield_v3_live_orchestrator_harness_def assms Let_def normalize_live_orchestrator_receipt_def)
qed

end
