(* ===== verification/Spec2Isabelle.thy ===== *)
theory Spec2Isabelle
  imports Mobile Boundary Final_Policy Eqc Qid_Adapter Adaptive_Core_Adapter Shield_Receipt_Verifier
    Runtime_Host Orchestrator_V1 Shield_V4_Crypto_Facts Policy_Composition Upgrade_Gateway
    Combined_Context Shield_V4_Audit_Batch Shield_V3_Live
begin

text \<open>
  DigiByte AdamantineOS, \<open>src/src/adamantine/\<close>: a fail-closed execution gate for wallets. A
  mobile client sends an execution request envelope with evidence from outside systems (Q-ID
  identity, the Adaptive Core oracle, the Shield); the system decides, deterministically and
  with injected time, nonce store and executor, whether the wallet action may run.

  Parts and theories, in the order of the imports:

  Prelude, Py_Value, Errors: results of code that may raise (\<open>Inl\<close> the exception, \<open>Inr\<close>
  the value) with the rewrite collection \<open>res_simps\<close>; Python values as received from JSON,
  their equality, truth and serialisation; the exception classes. A dictionary is an
  association list in insertion order; the lookups are by \<open>map_of\<close>. Strings are Latin-1 code
  points. Reason_Ids: the vocabulary \<open>v1/contracts/reason_ids.py\<close>.

  Contracts: the dataclasses of \<open>v1/contracts/\<close> as records and their \<open>validate\<close> methods.
  Typed fields make the \<open>isinstance\<close> tests of those methods true by typing. Risk_Policy:
  \<open>v1/policy/risk_policy.py\<close>. Obs_Metrics: \<open>v1/obs/metrics.py\<close>, the sink threaded as state.

  Sha256, Context_Hash: SHA-256 on 32-bit words and \<open>v1/eqc/context_hash.py\<close>, the digest every
  piece of evidence is bound to. Iso_Time, Envelope: \<open>datetime.fromisoformat\<close> and \<open>astimezone\<close>
  of CPython 3.11, with the exceptions at the edges of the calendar, and the strict parsers \<open>v1/execution/envelope_v1.py\<close> and \<open>envelope_v2.py\<close>.

  Nonce_Store, Wsqk, Tva_Gate: replay protection, the issuers of wallet-scoped authority and the
  last gate before execution. The store's operation is a parameter of the gate, with the
  locale \<open>nonce_contract\<close> as its contract, interpreted by the in-memory store; a durable
  store lives in the platform layers. Boundary: \<open>v1/execution/boundary.py\<close>, the gate followed
  by an injected executor, and the parse-only v1 handler.

  Qid_Adapter, Adaptive_Core_Adapter, Shield_Receipt, Shield_Receipt_Verifier: the boundaries
  that turn untrusted payloads into typed evidence. Eqc: the evaluators \<open>v1/eqc/evaluator.py\<close>.
  Final_Policy: \<open>v1/policy/final_policy_engine.py\<close>, the locked order of evidence and local
  gates. Responses, Mobile: the response builders, the consumer's validator and the mobile
  decision.

  Shield_V3_Adapter: \<open>v1/integrations/shield_v3_adapter.py\<close>, the legacy Shield bundle. Orchestrator_V2:
  \<open>v1/execution/orchestrator_v2.py\<close>, the composition of all parts: one definition per stage
  (policy latches, Q-ID, its replay proof, oracle, Shield receipt or bundle, EQC, WSQK, execution),
  each ending in a return, a result or an exception, the four handlers, and the declarative
  counterpart \<open>evidence_ok\<close> with the step relation \<open>v2_step\<close> the orchestrator refines. Store and
  executor are states threaded through; the verifiers are parameters. Demo_Request runs one
  request through the whole pipeline; Runtime_Host: \<open>v2/runtime_host/host.py\<close>, sequences of calls
  on one host, and what an allowed request guarantees.

  Orchestrator_V1: \<open>v1/execution/orchestrator_v1.py\<close>, the earlier pipeline and the agreement of
  its gates with those of the second version.

  Shield_V4_Budget, Shield_V4_Receipt, Shield_V4_Keys, Shield_V4_Verifier: the signed Shield
  receipts. The budget is \<open>v1/integrations/shield_v4_work_budget.py\<close> (bounded
  snapshots of untrusted data); the contract is
  \<open>v1/contracts/shield_orchestrator_receipt_v4.py\<close> (closed schemas, canonical JSON, hash
  bindings); keys and registry, then the verifier itself, are
  \<open>v1/integrations/shield_orchestrator_receipt_v4_verifier.py\<close>: preflight, wave-ordered signature
  verification and freshness. The signature backend is a parameter called through one injected
  function, and every call is logged in a transcript; the time zone of the host, which decides
  about times without zone, is a parameter too. Shield_V4_Trust follows the transcript: the
  number of backend calls is bounded, none is made before every other check has passed
  (\<open>checked_before_signatures\<close>), and every accepted bundle is signed. Demo_Receipt_V4 runs
  concrete receipts through the verifier; Shield_V4_Verified states what a verified result means
  (signatures of active trusted keys over the whole contract) and which exceptions escape.

  Shield_V4_Crypto, Shield_V4_Oqs: the deployed signature callback
  \<open>shield_v4_real_crypto_backend.py\<close> (checks of entry and key, base64url material, the signed
  message, the backend as a parameter) and the liboqs backends \<open>shield_v4_oqs_falcon_backend.py\<close>
  and \<open>shield_v4_oqs_mldsa_backend.py\<close>, one model over the class's constants with the library \<open>oqs\<close>
  as a parameter. Shield_V4_Crypto_Facts: the material round trip, the unambiguous message, when a
  backend gives a verdict, and what a verified receipt means with a deployed backend.

  Py_Convert, Policy_Evidence, Wsqk_Policy, Qid_Policy, Adaptive_Policy, Ai_Gateway_Policy: the
  evidence boundaries \<open>wsqk_v2_policy_evidence.py\<close>, \<open>qid_policy_binding.py\<close>,
  \<open>adaptive_core_policy_evidence.py\<close> and \<open>ai_gateway_policy_evidence.py\<close> of \<open>v1/integrations/\<close>,
  which turn an input of each source into a result for the policy engine. What they share is the
  locale \<open>evidence_boundary\<close>, interpreted by each of them; Policy_Composition hands their results
  to the engine's gate. Upgrade_Gateway: \<open>adaptive_core_upgrade_gateway_v1.py\<close>, proposals, review
  receipts and the decision about an upgrade.

  Py_Json, Json_Roundtrip: the scanner of \<open>json.loads\<close> with its hooks, and the proof that it reads
  back what \<open>json.dumps\<close> prints. Ai_Gateway_Json, Ai_Gateway_Json_Facts: the governed JSON profile
  \<open>ai_gateway_canonical_json_v1.py\<close> (limits, encoder, strict parser), its agreement with
  \<open>json.dumps\<close>, what its preflight bounds, and its round trip. Ai_Gateway_V2:
  \<open>ai_gateway_policy_bound_evidence_v2.py\<close>, the consumer of policy-bound evidence, a fifth
  \<open>evidence_boundary\<close>, and the declarative counterpart \<open>policy_bound\<close> of what it accepts.
  Json_Default: the hooks of \<open>json.loads\<close> without arguments. Combined_Context:
  \<open>v1/contracts/combined_context_hash.py\<close>, the closed record of all context hashes with its loader,
  canonical bytes and hash.

  Shield_V4_Canonical: the canonical JSON of the v4 contract determines the signed payload.
  Shield_V4_Audit: \<open>shield_v4_verification_audit.py\<close>, the audit records with their schema and bytes,
  the batch hash, and the verification that returns only after an injected sink has acknowledged
  the records of the run. Shield_V4_Audit_Transcript and Shield_V4_Audit_Facts show that what the
  verifier reports always makes valid records within the limits; Shield_V4_Audited states every
  outcome, Shield_V4_Audit_Batch that an honest sink loses no result of a receipt with a bounded
  snapshot (without one the plain verifier answers a rejection and the audited one raises) and what
  the hash of a batch commits to.

  Shield_V3_Harness, Shield_V3_Live: \<open>shield_v3_adapter_harness.py\<close>, the combined hash, the receipt
  verifier and the adapter in sequence, where the adapter is shown never to decide, and
  \<open>shield_v3_live_orchestrator_harness.py\<close>, which normalises the receipt of an injected builder first.

  The lemmas of each theory give, in this order: what each helper accepts (an equation for
  \<open>f x = Inr y\<close>, collected in \<open>res_simps\<close>), which exceptions come out (\<open>raises_only\<close>), and
  what the whole operation guarantees. The properties stand at the end of each theory with
  concrete witnesses.

  All loops recurse on their lists, the time parser by its own measure. The member and item loops
  of the JSON scanner count down from the length of their text; \<open>scan_enough\<close> shows that this
  never runs out. The scanner's nesting limit is the recursion limit of the interpreter, a
  parameter.

  \<open>json.dumps\<close> and the scanner refuse an integer of more than 4300 decimal digits, as the
  interpreter does; only \<open>str\<close> and \<open>repr\<close> of such an integer are printed in full.

  Not modelled: the fixture harnesses and file input, which are not part of the decision, the
  durable nonce stores of the platform layers and the cryptographic libraries.
\<close>

end
